(* ===== verification/Prelude.thy ===== *)
theory Prelude
  imports Main "HOL-Library.Sublist" "HOL-Library.Char_ord" "HOL-Library.List_Lexorder"
    "HOL-Library.Multiset"
begin

text \<open>
  Shared vocabulary of the development: the error values of the Go sources, Go strings as byte
  lists with the standard-library operations the sources call on them, the regular expressions of
  \<open>src/internal/domain\<close> as executable predicates, database tables as lists of rows with a key, and
  transition systems with their reachable states. Nothing here is specific to one component.
\<close>

named_theorems go_simps \<open>rewrite rules that evaluate the Go string helpers\<close>
named_theorems guard_defs \<open>definitions of the guards and error branches of the operations\<close>

section \<open>Errors\<close>

text \<open>
  The sentinel errors of \<open>src/internal/domain\<close>, \<open>src/internal/service\<close> and \<open>src/internal/identity\<close>.
  \<open>ErrNoRows\<close> is the driver's empty answer, \<open>ErrDatabase\<close> a violated table constraint, and
  \<open>ErrMessage\<close> an unnamed \<open>errors.New\<close> value with its text.
\<close>

datatype go_error =
    ErrForbidden | ErrExecutionBlocked | ErrLeaseLost | ErrBudgetExhausted | ErrResourceBusy
  | ErrVersionConflict | ErrValidationRequired | ErrQualityBlocked | ErrEvidenceUnavailable
  | ErrInvalidInput | ErrUnauthenticated | ErrAuthorizationUnavailable | ErrNoRows | ErrDatabase
  | ErrMessage string

type_synonym 'a result = "go_error + 'a"

abbreviation Err :: "go_error \<Rightarrow> 'a result" where "Err \<equiv> Inl"
abbreviation Ok :: "'a \<Rightarrow> 'a result" where "Ok \<equiv> Inr"

definition is_ok :: "'a result \<Rightarrow> bool" where
  "is_ok r = (case r of Inl _ \<Rightarrow> False | Inr _ \<Rightarrow> True)"

lemma is_ok_simps [simp]: "is_ok (Inr x)" "\<not> is_ok (Inl e)"
  by (simp_all add: is_ok_def)

lemma is_ok_iff: "is_ok r \<longleftrightarrow> (\<exists>x. r = Inr x)"
  by (cases r) (simp_all add: is_ok_def)

section \<open>Go strings\<close>

text \<open>
  A Go string is a sequence of bytes and a HOL \<^typ>\<open>string\<close> a list of 8-bit characters, so \<^const>\<open>length\<close>
  is \<open>len\<close>. \<open>strings.TrimSpace\<close> removes leading and trailing white-space runes: the runes of
  \<open>unicode.IsSpace\<close> are listed by their UTF-8 encodings.
\<close>

definition space_encodings :: "string list" where
  "space_encodings =
     [[CHR 0x09], [CHR 0x0A], [CHR 0x0B], [CHR 0x0C], [CHR 0x0D], [CHR 0x20],
      [CHR 0xC2, CHR 0x85], [CHR 0xC2, CHR 0xA0], [CHR 0xE1, CHR 0x9A, CHR 0x80],
      [CHR 0xE2, CHR 0x80, CHR 0x80], [CHR 0xE2, CHR 0x80, CHR 0x81],
      [CHR 0xE2, CHR 0x80, CHR 0x82], [CHR 0xE2, CHR 0x80, CHR 0x83],
      [CHR 0xE2, CHR 0x80, CHR 0x84], [CHR 0xE2, CHR 0x80, CHR 0x85],
      [CHR 0xE2, CHR 0x80, CHR 0x86], [CHR 0xE2, CHR 0x80, CHR 0x87],
      [CHR 0xE2, CHR 0x80, CHR 0x88], [CHR 0xE2, CHR 0x80, CHR 0x89],
      [CHR 0xE2, CHR 0x80, CHR 0x8A], [CHR 0xE2, CHR 0x80, CHR 0xA8],
      [CHR 0xE2, CHR 0x80, CHR 0xA9], [CHR 0xE2, CHR 0x80, CHR 0xAF],
      [CHR 0xE2, CHR 0x81, CHR 0x9F], [CHR 0xE3, CHR 0x80, CHR 0x80]]"

lemma space_encodings_nonempty: "e \<in> set space_encodings \<Longrightarrow> e \<noteq> []"
  by (auto simp: space_encodings_def)

lemma find_SomeD_mem: "find P xs = Some x \<Longrightarrow> P x \<and> x \<in> set xs"
  by (auto simp: find_Some_iff)

function trim_left :: "string \<Rightarrow> string" where
  "trim_left s = (case find (\<lambda>e. prefix e s) space_encodings of
     None \<Rightarrow> s
   | Some e \<Rightarrow> trim_left (drop (length e) s))"
  by pat_completeness auto
termination
proof (relation "measure length")
  fix s e assume "find (\<lambda>e. prefix e s) space_encodings = Some e"
  then have "e \<noteq> []" and "prefix e s"
    by (auto dest!: find_SomeD_mem space_encodings_nonempty)
  then show "(drop (length e) s, s) \<in> measure length"
    by (auto simp: prefix_def)
qed simp

function trim_right :: "string \<Rightarrow> string" where
  "trim_right s = (case find (\<lambda>e. suffix e s) space_encodings of
     None \<Rightarrow> s
   | Some e \<Rightarrow> trim_right (take (length s - length e) s))"
  by pat_completeness auto
termination
proof (relation "measure length")
  fix s e assume "find (\<lambda>e. suffix e s) space_encodings = Some e"
  then have "e \<noteq> []" and "suffix e s"
    by (auto dest!: find_SomeD_mem space_encodings_nonempty)
  then show "(take (length s - length e) s, s) \<in> measure length"
    by (auto simp: suffix_def)
qed simp

declare trim_left.simps [simp del] trim_right.simps [simp del]

definition trim_space :: "string \<Rightarrow> string" where
  "trim_space s = trim_right (trim_left s)"

lemmas trim_simps = trim_space_def trim_left.simps trim_right.simps space_encodings_def

lemma trim_space_Nil [simp]: "trim_space [] = []"
  by (simp add: trim_simps)

lemma trim_left_suffix: "suffix (trim_left s) s"
proof (induction s rule: trim_left.induct)
  case (1 s)
  show ?case
    by (cases "find (\<lambda>e. prefix e s) space_encodings")
      (use 1 in \<open>auto simp: trim_left.simps [of s] intro: suffix_order.trans [OF _ suffix_drop]\<close>)
qed

lemma trim_right_prefix: "prefix (trim_right s) s"
proof (induction s rule: trim_right.induct)
  case (1 s)
  show ?case
    by (cases "find (\<lambda>e. suffix e s) space_encodings")
      (use 1 in \<open>auto simp: trim_right.simps [of s] intro: prefix_order.trans [OF _ take_is_prefix]\<close>)
qed

lemma set_trim_space: "set (trim_space s) \<subseteq> set s"
  using trim_left_suffix [of s] trim_right_prefix [of "trim_left s"]
  by (auto simp: trim_space_def dest: set_mono_prefix set_mono_suffix)

text \<open>A text is blank when nothing remains after trimming; bounded texts are non-blank and short.\<close>

lemma trim_space_nonempty: "trim_space s \<noteq> [] \<Longrightarrow> s \<noteq> []"
  by auto

text \<open>
  \<open>strings.ToLower\<close> and \<open>strings.ToUpper\<close>: the sources only compare the result with ASCII words. A
  non-ASCII rune stays non-ASCII under the Unicode tables but for the Kelvin sign and the dotted
  capital I (lower case \<open>k\<close> and \<open>i\<close>) and for the dotless i and the long s (upper case \<open>I\<close> and
  \<open>S\<close>); those four are translated and the other non-ASCII runes are left as they are.
\<close>

definition lower_byte :: "char \<Rightarrow> char" where
  "lower_byte c = (if CHR ''A'' \<le> c \<and> c \<le> CHR ''Z'' then char_of (of_char c + 32 :: nat) else c)"

definition upper_byte :: "char \<Rightarrow> char" where
  "upper_byte c = (if CHR ''a'' \<le> c \<and> c \<le> CHR ''z'' then char_of (of_char c - 32 :: nat) else c)"

fun to_lower :: "string \<Rightarrow> string" where
  "to_lower [] = []"
| "to_lower (a # s) =
     (if prefix [CHR 0xE2, CHR 0x84, CHR 0xAA] (a # s) then CHR ''k'' # to_lower (drop 2 s)
      else if prefix [CHR 0xC4, CHR 0xB0] (a # s) then CHR ''i'' # to_lower (drop 1 s)
      else lower_byte a # to_lower s)"

fun to_upper :: "string \<Rightarrow> string" where
  "to_upper [] = []"
| "to_upper (a # s) =
     (if prefix [CHR 0xC4, CHR 0xB1] (a # s) then CHR ''I'' # to_upper (drop 1 s)
      else if prefix [CHR 0xC5, CHR 0xBF] (a # s) then CHR ''S'' # to_upper (drop 1 s)
      else upper_byte a # to_upper s)"

lemmas case_simps [go_simps] = lower_byte_def upper_byte_def

text \<open>\<open>strings.Split\<close> at a one-byte separator, \<open>strings.Join\<close>, \<open>TrimPrefix\<close> and \<open>TrimSuffix\<close>.\<close>

fun split_on :: "char \<Rightarrow> string \<Rightarrow> string list" where
  "split_on c [] = [[]]"
| "split_on c (x # s) =
     (if x = c then [] # split_on c s
      else case split_on c s of [] \<Rightarrow> [[x]] | w # ws \<Rightarrow> (x # w) # ws)"

fun join_with :: "string \<Rightarrow> string list \<Rightarrow> string" where
  "join_with sep [] = []"
| "join_with sep [w] = w"
| "join_with sep (w # v # ws) = w @ sep @ join_with sep (v # ws)"

definition trim_prefix :: "string \<Rightarrow> string \<Rightarrow> string" where
  "trim_prefix p s = (if prefix p s then drop (length p) s else s)"

definition trim_suffix :: "string \<Rightarrow> string \<Rightarrow> string" where
  "trim_suffix p s = (if suffix p s then take (length s - length p) s else s)"

lemma split_on_nonempty [simp]: "split_on c s \<noteq> []"
  by (cases s) (auto split: list.splits)

lemma split_on_no_sep: "w \<in> set (split_on c s) \<Longrightarrow> c \<notin> set w"
  by (induction s arbitrary: w) (auto split: if_splits list.splits)

lemma split_on_append: "c \<notin> set l \<Longrightarrow> split_on c (l @ c # s) = l # split_on c s"
  by (induction l) auto

lemma split_on_single: "c \<notin> set l \<Longrightarrow> split_on c l = [l]"
  by (induction l) auto

lemma join_split_on: "join_with [c] (split_on c s) = s"
proof (induction s)
  case (Cons x s)
  obtain w ws where "split_on c s = w # ws"
    by (cases "split_on c s") auto
  with Cons show ?case
    by (cases ws) auto
qed simp

text \<open>
  \<open>slices.Sort\<close> on strings orders bytes lexicographically, the order of the list and character
  instances imported above. Two lists sort to the same list exactly when they hold the same
  elements with the same multiplicity.
\<close>

lemma sort_eq_iff_mset: "sort (xs :: 'a :: linorder list) = sort ys \<longleftrightarrow> mset xs = mset ys"
  by (metis mset_sort properties_for_sort sorted_sort)

text \<open>\<open>%d\<close> of \<open>fmt\<close>.\<close>

fun show_nat :: "nat \<Rightarrow> string" where
  "show_nat n = (if n < 10 then [char_of (48 + n)] else show_nat (n div 10) @ [char_of (48 + n mod 10)])"

declare show_nat.simps [simp del]

definition show_int :: "int \<Rightarrow> string" where
  "show_int i = (if i < 0 then ''-'' @ show_nat (nat (- i)) else show_nat (nat i))"

section \<open>Regular expressions of the domain\<close>

text \<open>
  \<open>^[a-f0-9]{64}$\<close>, \<open>^[A-Za-z0-9][A-Za-z0-9_.:/-]{0,127}$\<close> and the evaluator image pattern: anchored
  patterns over byte classes, written as the predicates they denote.
\<close>

definition lower_hex :: "char \<Rightarrow> bool" where
  "lower_hex c \<longleftrightarrow> CHR ''a'' \<le> c \<and> c \<le> CHR ''f'' \<or> CHR ''0'' \<le> c \<and> c \<le> CHR ''9''"

definition alnum :: "char \<Rightarrow> bool" where
  "alnum c \<longleftrightarrow> CHR ''A'' \<le> c \<and> c \<le> CHR ''Z'' \<or> CHR ''a'' \<le> c \<and> c \<le> CHR ''z''
     \<or> CHR ''0'' \<le> c \<and> c \<le> CHR ''9''"

definition digestPattern :: "string \<Rightarrow> bool" where
  "digestPattern s \<longleftrightarrow> length s = 64 \<and> list_all lower_hex s"

definition ValidProductKey :: "string \<Rightarrow> bool" where
  "ValidProductKey s \<longleftrightarrow> (case s of [] \<Rightarrow> False
     | c # cs \<Rightarrow> alnum c \<and> length cs \<le> 127
         \<and> list_all (\<lambda>x. alnum x \<or> x \<in> set ''_.:/-'') cs)"

definition evaluatorImagePattern :: "string \<Rightarrow> bool" where
  "evaluatorImagePattern s \<longleftrightarrow>
     (let front = take (length s - 64) s; hex = drop (length s - 64) s;
          name = take (length front - 8) front
      in digestPattern hex \<and>
         (front = ''sha256:''
          \<or> suffix ''@sha256:'' front \<and> name \<noteq> [] \<and> list_all (\<lambda>x. alnum x \<or> x \<in> set ''./:_-'') name))"

definition boundedText :: "string \<Rightarrow> nat \<Rightarrow> bool" where
  "boundedText v n \<longleftrightarrow> trim_space v \<noteq> [] \<and> length v \<le> n"

lemma ValidProductKey_nonempty: "ValidProductKey s \<Longrightarrow> s \<noteq> []"
  by (auto simp: ValidProductKey_def)

lemma ValidProductKey_length: "ValidProductKey s \<Longrightarrow> length s \<le> 128"
  by (auto simp: ValidProductKey_def split: list.splits)

lemma boundedText_nonempty: "boundedText v n \<Longrightarrow> v \<noteq> []"
  by (auto simp: boundedText_def)

lemmas pattern_simps [go_simps] = lower_hex_def alnum_def digestPattern_def ValidProductKey_def

text \<open>A text of visible ASCII characters has nothing to trim.\<close>

definition plain_char :: "char \<Rightarrow> bool" where
  "plain_char c \<longleftrightarrow> CHR ''!'' \<le> c \<and> c \<le> CHR ''~''"

lemma space_encodings_not_plain: "e \<in> set space_encodings \<Longrightarrow> c \<in> set e \<Longrightarrow> \<not> plain_char c"
  by (auto simp: space_encodings_def plain_char_def)

lemma trim_space_plain [simp]:
  assumes "\<forall>c \<in> set s. plain_char c"
  shows "trim_space s = s"
proof -
  have none: "find (\<lambda>e. prefix e s) space_encodings = None" "find (\<lambda>e. suffix e s) space_encodings = None"
    using assms space_encodings_not_plain space_encodings_nonempty
    by (fastforce simp: find_None_iff dest: set_mono_prefix set_mono_suffix simp: neq_Nil_conv)+
  then show ?thesis by (simp add: trim_space_def trim_left.simps [of s] trim_right.simps [of s])
qed

section \<open>Go integers\<close>

text \<open>The value a 64-bit \<open>int\<close> holds after an addition whose exact result is the argument.\<close>

definition wrap64 :: "int \<Rightarrow> int" where
  "wrap64 i = (i + 2 ^ 63) mod 2 ^ 64 - 2 ^ 63"

lemma wrap64_exact: "- (2 ^ 63) \<le> i \<Longrightarrow> i < 2 ^ 63 \<Longrightarrow> wrap64 i = i"
  by (simp add: wrap64_def)

lemma wrap64_range: "- (2 ^ 63) \<le> wrap64 i \<and> wrap64 i < 2 ^ 63"
  using pos_mod_bound [of "2 ^ 64" "i + 2 ^ 63"] pos_mod_sign [of "2 ^ 64" "i + 2 ^ 63"] by (simp add: wrap64_def)

lemma wrap64_add: "wrap64 (wrap64 i + j) = wrap64 (i + j)"
proof -
  have "wrap64 i + j + 2 ^ 63 = (i + 2 ^ 63) mod 2 ^ 64 + j" by (simp add: wrap64_def)
  then have "wrap64 (wrap64 i + j) = ((i + 2 ^ 63) mod 2 ^ 64 + j) mod 2 ^ 64 - 2 ^ 63" by (simp only: wrap64_def)
  also have "\<dots> = (i + 2 ^ 63 + j) mod 2 ^ 64 - 2 ^ 63" by (simp only: mod_add_left_eq)
  also have "\<dots> = wrap64 (i + j)" by (simp add: wrap64_def algebra_simps)
  finally show ?thesis .
qed

lemma wrap64_negative: "2 ^ 63 \<le> i \<Longrightarrow> i < 2 ^ 64 \<Longrightarrow> wrap64 i = i - 2 ^ 64"
proof -
  assume i: "2 ^ 63 \<le> i" "i < 2 ^ 64"
  have "(i + 2 ^ 63) mod 2 ^ 64 = (i + 2 ^ 63 - 2 ^ 64) mod 2 ^ 64" by (simp only: minus_mod_self2)
  also have "\<dots> = i + 2 ^ 63 - 2 ^ 64" using i by (intro mod_pos_pos_trivial) simp_all
  finally show ?thesis by (simp add: wrap64_def)
qed

section \<open>What a call observes of its surroundings\<close>

text \<open>
  Times are counted in nanoseconds. One call may read the wall clock and draw a random identifier
  several times: \<open>env_clock i\<close> and \<open>env_id i\<close> are its readings in order. \<open>env_db_now\<close> is the database's
  \<open>now()\<close>, the same throughout a transaction. \<open>env_ctx\<close> is the principal carried by the request
  context.
\<close>

definition seconds :: "int \<Rightarrow> int" where
  "seconds n = n * 1000000000"

definition zero_time :: int where
  "zero_time = 0"

text \<open>\<open>defaultString\<close> of the service.\<close>

definition defaultString :: "string \<Rightarrow> string \<Rightarrow> string" where
  "defaultString v fallback = (if v = [] then fallback else v)"

section \<open>Go maps with string keys\<close>

text \<open>
  A Go map that the code ranges over is an association list; reading a missing key gives the
  zero value of the element type.
\<close>

definition map_get :: "'v \<Rightarrow> ('k \<times> 'v) list \<Rightarrow> 'k \<Rightarrow> 'v" where
  "map_get zero m k = (case map_of m k of None \<Rightarrow> zero | Some v \<Rightarrow> v)"

lemma map_get_Nil [simp]: "map_get z [] k = z"
  by (simp add: map_get_def)

lemma map_get_Cons [simp]: "map_get z ((a, v) # m) k = (if k = a then v else map_get z m k)"
  by (simp add: map_get_def)

lemma map_get_cases: "map_get z m k = z \<or> (k, map_get z m k) \<in> set m"
  by (auto simp: map_get_def split: option.splits dest: map_of_SomeD)

text \<open>
  The \<open>seen\<close> loop several functions share: a value already seen is skipped, so the first
  occurrences remain in order.
\<close>

fun dedup :: "'a list \<Rightarrow> 'a list \<Rightarrow> 'a list" where
  "dedup seen [] = []"
| "dedup seen (x # xs) = (if x \<in> set seen then dedup seen xs else x # dedup (x # seen) xs)"

lemma set_dedup: "set (dedup seen xs) = set xs - set seen"
  by (induction xs arbitrary: seen) auto

lemma distinct_dedup: "distinct (dedup seen xs)"
  by (induction xs arbitrary: seen) (auto simp: set_dedup)

lemma dedup_prefix_kept: "distinct xs \<Longrightarrow> set xs \<inter> set seen = {} \<Longrightarrow> prefix xs (dedup seen (xs @ ys))"
  by (induction xs arbitrary: seen) auto

section \<open>Tables\<close>

text \<open>
  A database table is a list of rows. \<open>find_row\<close> is a query on the primary key, \<open>put_row\<close> an
  \<open>UPDATE\<close> of the row with the same key and \<open>rows @ [r]\<close> an \<open>INSERT\<close>, which the callers guard by
  the primary-key constraint.
\<close>

definition find_row :: "('r \<Rightarrow> 'k) \<Rightarrow> 'k \<Rightarrow> 'r list \<Rightarrow> 'r option" where
  "find_row key k rows = find (\<lambda>r. key r = k) rows"

definition put_row :: "('r \<Rightarrow> 'k) \<Rightarrow> 'r \<Rightarrow> 'r list \<Rightarrow> 'r list" where
  "put_row key r rows = map (\<lambda>x. if key x = key r then r else x) rows"

locale keyed_table =
  fixes get :: "'t \<Rightarrow> 'k \<Rightarrow> 'r option"
    and upd :: "'r \<Rightarrow> 't \<Rightarrow> 't"
    and ins :: "'r \<Rightarrow> 't \<Rightarrow> 't"
    and key :: "'r \<Rightarrow> 'k"
    and ok :: "'t \<Rightarrow> bool"
  assumes get_key: "get t k = Some r \<Longrightarrow> key r = k"
    and get_upd: "get (upd r t) k = (if k = key r \<and> get t k \<noteq> None then Some r else get t k)"
    and get_ins: "get t (key r) = None \<Longrightarrow> get (ins r t) k = (if k = key r then Some r else get t k)"
    and ok_upd: "ok t \<Longrightarrow> ok (upd r t)"
    and ok_ins: "ok t \<Longrightarrow> get t (key r) = None \<Longrightarrow> ok (ins r t)"
begin

definition all_rows :: "('r \<Rightarrow> bool) \<Rightarrow> 't \<Rightarrow> bool" where
  "all_rows P t \<longleftrightarrow> (\<forall>k r. get t k = Some r \<longrightarrow> P r)"

lemma get_upd_same: "get t (key r) = Some r' \<Longrightarrow> get (upd r t) (key r) = Some r"
  by (simp add: get_upd)

lemma get_upd_other: "k \<noteq> key r \<Longrightarrow> get (upd r t) k = get t k"
  by (simp add: get_upd)

lemma dom_upd: "dom (get (upd r t)) = dom (get t)"
  by (auto simp: get_upd split: if_splits)

lemma all_rows_upd: "all_rows P t \<Longrightarrow> P r \<Longrightarrow> all_rows P (upd r t)"
  by (auto simp: all_rows_def get_upd split: if_splits)

lemma all_rows_ins: "all_rows P t \<Longrightarrow> get t (key r) = None \<Longrightarrow> P r \<Longrightarrow> all_rows P (ins r t)"
  by (auto simp: all_rows_def get_ins split: if_splits)

lemma all_rowsD: "all_rows P t \<Longrightarrow> get t k = Some r \<Longrightarrow> P r"
  by (simp add: all_rows_def)

end

lemma find_row_None: "find_row key k rows = None \<longleftrightarrow> k \<notin> key ` set rows"
  by (auto simp: find_row_def find_None_iff)

lemma find_row_SomeD: "find_row key k rows = Some r \<Longrightarrow> r \<in> set rows \<and> key r = k"
  by (auto simp: find_row_def dest!: find_SomeD_mem)

lemma find_row_distinct:
  "distinct (map key rows) \<Longrightarrow> r \<in> set rows \<Longrightarrow> find_row key (key r) rows = Some r"
  by (induction rows) (auto simp: find_row_def)

lemma find_row_put:
  "find_row key k (put_row key r rows)
     = (if k = key r \<and> find_row key k rows \<noteq> None then Some r else find_row key k rows)"
  by (induction rows) (auto simp: find_row_def put_row_def)

lemma find_row_append:
  "find_row key k (rows @ [r]) = (case find_row key k rows of Some x \<Rightarrow> Some x
     | None \<Rightarrow> if key r = k then Some r else None)"
  by (induction rows) (auto simp: find_row_def)

lemma map_key_put_row [simp]: "map key (put_row key r rows) = map key rows"
  by (auto simp: put_row_def)

lemma keys_put_row [simp]: "key ` set (put_row key r rows) = key ` set rows"
  by (metis list.set_map map_key_put_row)

lemma keyed_table_rows:
  "keyed_table (\<lambda>t k. find_row key k t) (put_row key) (\<lambda>r t. t @ [r]) key (\<lambda>t. distinct (map key t))"
proof
  fix t k r assume "find_row key k t = Some r"
  then show "key r = k" by (auto dest: find_row_SomeD)
next
  fix t r assume "distinct (map key t)" and "find_row key (key r) t = None"
  then show "distinct (map key (t @ [r]))" by (simp add: find_row_None)
qed (auto simp: find_row_put find_row_append split: option.splits)

section \<open>Transition systems\<close>

inductive reach :: "('s \<Rightarrow> bool) \<Rightarrow> ('s \<Rightarrow> 's \<Rightarrow> bool) \<Rightarrow> 's \<Rightarrow> bool"
  for start :: "'s \<Rightarrow> bool" and step :: "'s \<Rightarrow> 's \<Rightarrow> bool" where
  reach_start: "start s \<Longrightarrow> reach start step s"
| reach_step: "reach start step s \<Longrightarrow> step s t \<Longrightarrow> reach start step t"

text \<open>
  The two contracts the state machines of the development promise: an invariant of every reachable
  state, and a relation between any earlier and any later state of a run.
\<close>

locale invariant_system =
  fixes start :: "'s \<Rightarrow> bool" and step :: "'s \<Rightarrow> 's \<Rightarrow> bool" and inv :: "'s \<Rightarrow> bool"
  assumes inv_start: "start s \<Longrightarrow> inv s"
    and inv_step: "inv s \<Longrightarrow> step s t \<Longrightarrow> inv t"
begin

lemma reach_inv: "reach start step s \<Longrightarrow> inv s"
  by (induction rule: reach.induct) (auto intro: inv_start inv_step)

lemma steps_inv: "step\<^sup>*\<^sup>* s t \<Longrightarrow> inv s \<Longrightarrow> inv t"
  by (induction rule: rtranclp_induct) (auto intro: inv_step)

end

locale history_system = invariant_system start step inv
  for start :: "'s \<Rightarrow> bool" and step :: "'s \<Rightarrow> 's \<Rightarrow> bool" and inv :: "'s \<Rightarrow> bool" +
  fixes later :: "'s \<Rightarrow> 's \<Rightarrow> bool"
  assumes later_refl: "later s s"
    and later_trans: "later s t \<Longrightarrow> later t u \<Longrightarrow> later s u"
    and later_step: "inv s \<Longrightarrow> step s t \<Longrightarrow> later s t"
begin

lemma steps_later: "step\<^sup>*\<^sup>* s t \<Longrightarrow> inv s \<Longrightarrow> later s t"
proof (induction rule: rtranclp_induct)
  case base
  show ?case by (rule later_refl)
next
  case (step t u)
  from step.hyps(1) step.prems have "inv t" by (rule steps_inv)
  with step show ?case by (blast intro: later_trans later_step)
qed

lemma reach_later: "reach start step s \<Longrightarrow> step\<^sup>*\<^sup>* s t \<Longrightarrow> later s t"
  using reach_inv steps_later by blast

end

lemma reach_steps: "step\<^sup>*\<^sup>* s t \<Longrightarrow> reach start step s \<Longrightarrow> reach start step t"
  by (induction rule: rtranclp_induct) (auto intro: reach_step)

text \<open>
  A machine that refines another: a function maps its states to those of the other so that each of its steps is a sequence of the
  other's steps.
\<close>

locale refinement =
  fixes cstart :: "'c \<Rightarrow> bool" and cstep :: "'c \<Rightarrow> 'c \<Rightarrow> bool"
    and astart :: "'a \<Rightarrow> bool" and astep :: "'a \<Rightarrow> 'a \<Rightarrow> bool" and abstr :: "'c \<Rightarrow> 'a"
  assumes abs_start: "cstart s \<Longrightarrow> astart (abstr s)"
    and abs_step: "cstep s t \<Longrightarrow> astep\<^sup>*\<^sup>* (abstr s) (abstr t)"
begin

lemma abs_steps: "cstep\<^sup>*\<^sup>* s t \<Longrightarrow> astep\<^sup>*\<^sup>* (abstr s) (abstr t)"
  by (induction rule: rtranclp_induct) (auto intro: rtranclp_trans abs_step)

lemma reach_abs: "reach cstart cstep s \<Longrightarrow> reach astart astep (abstr s)"
  by (induction rule: reach.induct) (auto intro: reach_start abs_start reach_steps abs_step)

end

end
