(* ===== verification/Authority.thy ===== *)
theory Authority
  imports Prelude
begin

text \<open>
  Principals, their project-scoped roles and the governance policy of a project
  (\<open>src/internal/domain/workflow.go\<close>, \<open>src/internal/identity/context.go\<close>), and the fail-closed
  authorization seam of the service (\<open>src/internal/service/access.go\<close>, \<open>src/internal/service/workflow.go\<close>).
  The policy decision point (Cerbos) is a parameter: a function from requests to decisions.
\<close>

section \<open>Principals\<close>

record task_delegation =
  del_ID :: string
  del_PrincipalID :: string
  del_DelegatedBy :: string
  del_ParentCredentialID :: string
  del_ProjectID :: string
  del_WorkflowID :: string
  del_TaskID :: string
  del_CreatedAt :: int
  del_ExpiresAt :: int
  del_RevokedAt :: "int option"

record principal =
  p_ID :: string
  p_DisplayName :: string
  p_Human :: bool
  p_RoleBindings :: "(string \<times> string list) list"
  p_CredentialID :: string
  p_Delegation :: "task_delegation option"

record principal_bootstrap =
  pb_ID :: string
  pb_DisplayName :: string
  pb_Token :: string
  pb_Human :: bool
  pb_Roles :: "string list"
  pb_ProjectIDs :: "string list"

text \<open>\<open>PrincipalBootstrap.Principal\<close>: every listed project gets its own copy of the roles.\<close>

definition bootstrap_Principal :: "principal_bootstrap \<Rightarrow> principal" where
  "bootstrap_Principal p =
     \<lparr>p_ID = pb_ID p, p_DisplayName = pb_DisplayName p, p_Human = pb_Human p,
      p_RoleBindings = map (\<lambda>pid. (pid, pb_Roles p)) (dedup [] (pb_ProjectIDs p)),
      p_CredentialID = [], p_Delegation = None\<rparr>"

definition ProjectIDs :: "principal \<Rightarrow> string list" where
  "ProjectIDs p = sort (map fst (p_RoleBindings p))"

definition RolesFor :: "principal \<Rightarrow> string \<Rightarrow> string list" where
  "RolesFor p projectID =
     dedup [] (concat (map (map_get [] (p_RoleBindings p)) [''*'', projectID]))"

definition HasRole :: "principal \<Rightarrow> string \<Rightarrow> string \<Rightarrow> bool" where
  "HasRole p projectID role \<longleftrightarrow> role \<in> set (RolesFor p projectID)"

lemma set_RolesFor:
  "set (RolesFor p pid) = set (map_get [] (p_RoleBindings p) ''*'') \<union> set (map_get [] (p_RoleBindings p) pid)"
  by (simp add: RolesFor_def set_dedup)

lemma distinct_RolesFor: "distinct (RolesFor p pid)"
  by (simp add: RolesFor_def distinct_dedup)

lemma HasRole_wildcard: "HasRole p ''*'' role \<Longrightarrow> HasRole p pid role"
  by (auto simp: HasRole_def set_RolesFor)

lemma HasRole_iff:
  "HasRole p pid role \<longleftrightarrow>
     role \<in> set (map_get [] (p_RoleBindings p) ''*'') \<or> role \<in> set (map_get [] (p_RoleBindings p) pid)"
  by (simp add: HasRole_def set_RolesFor)

text \<open>\<open>selectRole\<close>: the first allowed role the principal holds in the project.\<close>

fun selectRole :: "principal \<Rightarrow> string \<Rightarrow> string list \<Rightarrow> string option" where
  "selectRole p pid [] = None"
| "selectRole p pid (role # allowed) = (if HasRole p pid role then Some role else selectRole p pid allowed)"

lemma selectRole_Some: "selectRole p pid allowed = Some r \<Longrightarrow> r \<in> set allowed \<and> HasRole p pid r"
  by (induction allowed) (auto split: if_splits)

lemma selectRole_None: "selectRole p pid allowed = None \<longleftrightarrow> (\<forall>r \<in> set allowed. \<not> HasRole p pid r)"
  by (induction allowed) auto

record call_env =
  env_ctx :: "principal option"
  env_clock :: "nat \<Rightarrow> int"
  env_db_now :: int
  env_id :: "nat \<Rightarrow> string"

text \<open>
  A transaction inside a service call has readings of its own: the \<open>k\<close>-th takes clock and identifiers from place
  \<open>16 * k\<close> on, and the database's clock from the last of these places. No transaction takes as many readings.
\<close>

definition sub_env :: "nat \<Rightarrow> call_env \<Rightarrow> call_env" where
  "sub_env k env = env\<lparr>env_clock := \<lambda>n. env_clock env (16 * k + n), env_db_now := env_clock env (16 * k + 15),
     env_id := \<lambda>n. env_id env (16 * k + n)\<rparr>"

lemma env_ctx_sub_env [simp]: "env_ctx (sub_env k env) = env_ctx env"
  by (simp add: sub_env_def)

section \<open>Governance\<close>

record governance_policy =
  gov_ProjectID :: string
  gov_Profile :: string
  gov_AllowRoleOverlap :: bool
  gov_DistinctPrincipalGates :: "string list"
  gov_TwoPersonGates :: "string list"
  gov_AlwaysHumanGates :: "string list"
  gov_Version :: int

definition RequiresDistinctPrincipal :: "governance_policy \<Rightarrow> string \<Rightarrow> bool" where
  "RequiresDistinctPrincipal g gate \<longleftrightarrow>
     gov_Profile g = ''regulated'' \<and>
       gate \<in> {''plan_approval'', ''qa'', ''product_approval'', ''confidential_disclosure'', ''maintenance_action''}
     \<or> gate \<in> set (gov_DistinctPrincipalGates g)"

definition RequiresHuman :: "governance_policy \<Rightarrow> string \<Rightarrow> bool" where
  "RequiresHuman g gate \<longleftrightarrow> gate \<in> set (gov_AlwaysHumanGates g)"

section \<open>Authorization\<close>

datatype attribute = AttrText string | AttrBool bool | AttrTexts "string list"

record authorization_request =
  auth_Principal :: principal
  auth_ResourceKind :: string
  auth_ResourceID :: string
  auth_Action :: string
  auth_Attributes :: "(string \<times> attribute) list"

record authorization_decision =
  dec_Allowed :: bool
  dec_CallID :: string
  dec_PolicyVersion :: string

text \<open>The authorizer is absent when it is not configured; a call can fail.\<close>

type_synonym authorizer = "(authorization_request \<Rightarrow> authorization_decision result) option"

definition authorizeUntraced :: "authorizer \<Rightarrow> authorization_request \<Rightarrow> authorization_decision result" where
  "authorizeUntraced az request = (case az of
     None \<Rightarrow> Err ErrAuthorizationUnavailable
   | Some f \<Rightarrow> (case f request of
       Inl _ \<Rightarrow> Err ErrAuthorizationUnavailable
     | Inr decision \<Rightarrow> if dec_Allowed decision then Ok decision else Err ErrForbidden))"

text \<open>The principal a request context carries; an empty identifier counts as unauthenticated.\<close>

definition PrincipalFromContext :: "principal option \<Rightarrow> principal option" where
  "PrincipalFromContext ctx = (case ctx of None \<Rightarrow> None
     | Some p \<Rightarrow> if p_ID p \<noteq> [] then Some p else None)"

definition RequirePrincipal :: "principal option \<Rightarrow> principal result" where
  "RequirePrincipal ctx = (case PrincipalFromContext ctx of None \<Rightarrow> Err ErrUnauthenticated | Some p \<Rightarrow> Ok p)"

definition projectRequest ::
  "principal \<Rightarrow> string \<Rightarrow> string \<Rightarrow> string \<Rightarrow> string \<Rightarrow> (string \<times> attribute) list \<Rightarrow> authorization_request" where
  "projectRequest p projectID resourceKind resourceID action attributes =
     \<lparr>auth_Principal = p, auth_ResourceKind = resourceKind, auth_ResourceID = resourceID,
      auth_Action = action, auth_Attributes = (''project_id'', AttrText projectID) # attributes\<rparr>"

definition AuthorizeProjectAction ::
  "authorizer \<Rightarrow> principal option \<Rightarrow> string \<Rightarrow> string \<Rightarrow> string \<Rightarrow> string \<Rightarrow> (string \<times> attribute) list
     \<Rightarrow> principal result" where
  "AuthorizeProjectAction az ctx projectID resourceKind resourceID action attributes =
     (case RequirePrincipal ctx of
        Inl e \<Rightarrow> Err e
      | Inr p \<Rightarrow>
          (let projectID = trim_space projectID; resourceKind = trim_space resourceKind;
               resourceID = trim_space resourceID; action = trim_space action
           in if projectID = [] \<or> resourceKind = [] \<or> resourceID = [] \<or> action = [] then Err ErrInvalidInput
              else case authorizeUntraced az
                     (projectRequest p projectID resourceKind resourceID action attributes) of
                     Inl e \<Rightarrow> Err e
                   | Inr _ \<Rightarrow> Ok p))"

lemma authorizeUntraced_Ok:
  "authorizeUntraced az r = Inr d \<longleftrightarrow> (\<exists>f. az = Some f \<and> f r = Inr d \<and> dec_Allowed d)"
  by (auto simp: authorizeUntraced_def split: option.splits sum.splits)

lemma RequirePrincipal_Ok: "RequirePrincipal ctx = Inr p \<longleftrightarrow> ctx = Some p \<and> p_ID p \<noteq> []"
  by (auto simp: RequirePrincipal_def PrincipalFromContext_def split: option.splits)

text \<open>
  The seam fails closed: it answers with the authenticated principal of the context, and only
  after the policy decision point allowed exactly this principal, resource and action.
\<close>

lemma AuthorizeProjectAction_Ok:
  assumes "AuthorizeProjectAction az ctx pid kind rid action attrs = Inr p"
  shows "ctx = Some p" "p_ID p \<noteq> []"
    and "\<exists>f d. az = Some f \<and> dec_Allowed d \<and>
           f (projectRequest p (trim_space pid) (trim_space kind) (trim_space rid) (trim_space action) attrs)
             = Inr d"
  using assms
  by (auto simp: AuthorizeProjectAction_def Let_def RequirePrincipal_Ok authorizeUntraced_Ok
      split: sum.splits if_splits)

end
