(* ===== verification/Sha256.thy ===== *)
theory Sha256
  imports Prelude "HOL-Library.Word"
begin

text \<open>
  \<open>Digest\<close> of \<open>src/internal/domain/validation.go\<close>: the lower-case hexadecimal SHA-256 digest of a byte
  string. The hash is the standard library's \<open>crypto/sha256\<close>, written out after FIPS 180-4, so that the
  digests of the model are the digests of the program; what the development uses of it is the shape
  of its result, 64 lower-case hexadecimal digits.
\<close>

unbundle bit_operations_syntax

type_synonym w32 = "32 word"

definition sha_k :: "w32 list" where
  "sha_k = [
     1116352408, 1899447441, 3049323471, 3921009573, 961987163, 1508970993, 2453635748,
     2870763221, 3624381080, 310598401, 607225278, 1426881987, 1925078388, 2162078206,
     2614888103, 3248222580, 3835390401, 4022224774, 264347078, 604807628, 770255983,
     1249150122, 1555081692, 1996064986, 2554220882, 2821834349, 2952996808, 3210313671,
     3336571891, 3584528711, 113926993, 338241895, 666307205, 773529912, 1294757372,
     1396182291, 1695183700, 1986661051, 2177026350, 2456956037, 2730485921, 2820302411,
     3259730800, 3345764771, 3516065817, 3600352804, 4094571909, 275423344, 430227734,
     506948616, 659060556, 883997877, 958139571, 1322822218, 1537002063, 1747873779,
     1955562222, 2024104815, 2227730452, 2361852424, 2428436474, 2756734187, 3204031479,
     3329325298]"

definition sha_init :: "w32 list" where
  "sha_init = [
     1779033703, 3144134277, 1013904242, 2773480762, 1359893119, 2600822924, 528734635,
     1541459225]"

definition big_sigma0 :: "w32 \<Rightarrow> w32" where
  "big_sigma0 x = word_rotr 2 x XOR word_rotr 13 x XOR word_rotr 22 x"

definition big_sigma1 :: "w32 \<Rightarrow> w32" where
  "big_sigma1 x = word_rotr 6 x XOR word_rotr 11 x XOR word_rotr 25 x"

definition small_sigma0 :: "w32 \<Rightarrow> w32" where
  "small_sigma0 x = word_rotr 7 x XOR word_rotr 18 x XOR drop_bit 3 x"

definition small_sigma1 :: "w32 \<Rightarrow> w32" where
  "small_sigma1 x = word_rotr 17 x XOR word_rotr 19 x XOR drop_bit 10 x"

text \<open>The message schedule: each new word from the words 16, 15, 7 and 2 places before it.\<close>

fun sha_extend :: "nat \<Rightarrow> w32 list \<Rightarrow> w32 list" where
  "sha_extend 0 ws = ws"
| "sha_extend (Suc n) ws =
     (let t = length ws
      in sha_extend n (ws @ [small_sigma1 (ws ! (t - 2)) + ws ! (t - 7)
                             + small_sigma0 (ws ! (t - 15)) + ws ! (t - 16)]))"

type_synonym sha_state = "w32 \<times> w32 \<times> w32 \<times> w32 \<times> w32 \<times> w32 \<times> w32 \<times> w32"

fun sha_round :: "w32 \<times> w32 \<Rightarrow> sha_state \<Rightarrow> sha_state" where
  "sha_round (k, w) (a, b, c, d, e, f, g, h) =
     (let t1 = h + big_sigma1 e + ((e AND f) XOR (NOT e AND g)) + k + w;
          t2 = big_sigma0 a + ((a AND b) XOR (a AND c) XOR (b AND c))
      in (t1 + t2, a, b, c, d + t1, e, f, g))"

definition sha_compress :: "sha_state \<Rightarrow> w32 list \<Rightarrow> sha_state" where
  "sha_compress st block =
     (case st of (a, b, c, d, e, f, g, h) \<Rightarrow>
      case fold sha_round (zip sha_k (sha_extend 48 block)) st of (a', b', c', d', e', f', g', h') \<Rightarrow>
        (a + a', b + b', c + c', d + d', e + e', f + f', g + g', h + h'))"

fun be_words :: "string \<Rightarrow> w32 list" where
  "be_words (a # b # c # d # s) =
     word_of_nat (((of_char a * 256 + of_char b) * 256 + of_char c) * 256 + of_char d) # be_words s"
| "be_words _ = []"

fun be_bytes :: "nat \<Rightarrow> nat \<Rightarrow> string" where
  "be_bytes 0 n = []"
| "be_bytes (Suc w) n = be_bytes w (n div 256) @ [char_of n]"

definition sha_pad :: "string \<Rightarrow> string" where
  "sha_pad s = s @ [char_of (128 :: nat)]
     @ replicate ((119 - length s mod 64) mod 64) (char_of (0 :: nat))
     @ be_bytes 8 (8 * length s)"

fun sha_blocks :: "nat \<Rightarrow> w32 list \<Rightarrow> sha_state \<Rightarrow> sha_state" where
  "sha_blocks 0 ws st = st"
| "sha_blocks (Suc n) ws st = sha_blocks n (drop 16 ws) (sha_compress st (take 16 ws))"

definition sha256 :: "string \<Rightarrow> w32 list" where
  "sha256 s =
     (let ws = be_words (sha_pad s)
      in case sha_blocks (length ws div 16) ws
              (sha_init ! 0, sha_init ! 1, sha_init ! 2, sha_init ! 3,
               sha_init ! 4, sha_init ! 5, sha_init ! 6, sha_init ! 7) of
           (a, b, c, d, e, f, g, h) \<Rightarrow> [a, b, c, d, e, f, g, h])"

definition hex_digit :: "nat \<Rightarrow> char" where
  "hex_digit n = ''0123456789abcdef'' ! (n mod 16)"

fun hex_of :: "nat \<Rightarrow> nat \<Rightarrow> string" where
  "hex_of 0 n = []"
| "hex_of (Suc w) n = hex_of w (n div 16) @ [hex_digit n]"

definition Digest :: "string \<Rightarrow> string" where
  "Digest s = concat (map (\<lambda>w. hex_of 8 (unat w)) (sha256 s))"

section \<open>The shape of a digest\<close>

lemma hex_digit_lower: "lower_hex (hex_digit n)"
proof -
  have "n mod 16 < 16" by simp
  then have "n mod 16 \<in> set (upt 0 16)" by simp
  moreover have "\<forall>k \<in> set (upt 0 16). lower_hex (''0123456789abcdef'' ! k)"
    by (simp add: upt_rec lower_hex_def)
  ultimately show ?thesis unfolding hex_digit_def by blast
qed

lemma hex_of_props: "length (hex_of w n) = w \<and> list_all lower_hex (hex_of w n)"
  by (induction w arbitrary: n) (auto simp: hex_digit_lower)

lemma hex_of_length [simp]: "length (hex_of w n) = w"
  by (simp add: hex_of_props)

lemma length_sha256: "length (sha256 s) = 8"
  by (simp add: sha256_def Let_def split: prod.split)

lemma length_Digest [simp]: "length (Digest s) = 64"
  by (simp add: Digest_def length_concat comp_def sum_list_triv length_sha256)

lemma digestPattern_Digest: "digestPattern (Digest s)"
proof -
  have "lower_hex c" if "c \<in> set (hex_of 8 n)" for c n
    using hex_of_props [of 8 n] that by (auto simp: list_all_iff)
  then show ?thesis
    by (auto simp: digestPattern_def list_all_iff Digest_def [of s] simp flip: length_Digest [of s])
qed

lemma Digest_nonempty [simp]: "Digest s \<noteq> []"
  using length_Digest [of s] by (metis list.size(3) zero_neq_numeral)

end
