(* ===== verification/Artifacts.thy ===== *)
theory Artifacts
  imports Sha256
begin

text \<open>
  The content-addressed artifact store (\<open>src/internal/artifacts/local.go\<close>) and the artifact reference
  of \<open>src/internal/domain/models.go\<close>. The files under the store's root are a map from paths to bytes;
  system calls that fail for reasons outside the program are not modelled.
\<close>

record artifact =
  art_SHA256 :: string
  art_URI :: string
  art_MediaType :: string
  art_SizeBytes :: int

definition zero_artifact :: artifact where
  "zero_artifact = \<lparr>art_SHA256 = [], art_URI = [], art_MediaType = [], art_SizeBytes = 0\<rparr>"

record local_store =
  store_root :: string
  store_files :: "string \<rightharpoonup> string"

definition artifact_path :: "string \<Rightarrow> string \<Rightarrow> string" where
  "artifact_path root d = root @ ''/'' @ take 2 d @ ''/'' @ take 2 (drop 2 d) @ ''/'' @ d"

definition max_artifact_bytes :: nat where
  "max_artifact_bytes = 8388608"

definition Read :: "local_store \<Rightarrow> string \<Rightarrow> string result" where
  "Read st d =
     (if \<not> digestPattern d then Err ErrEvidenceUnavailable
      else case store_files st (artifact_path (store_root st) d) of
        None \<Rightarrow> Err ErrEvidenceUnavailable
      | Some data \<Rightarrow> if length data > max_artifact_bytes \<or> Digest data \<noteq> d then Err ErrEvidenceUnavailable
                     else Ok data)"

definition artifact_ref :: "string \<Rightarrow> string \<Rightarrow> string \<Rightarrow> nat \<Rightarrow> artifact" where
  "artifact_ref d path mediaType n =
     \<lparr>art_SHA256 = d, art_URI = ''file://'' @ path, art_MediaType = mediaType, art_SizeBytes = int n\<rparr>"

definition Put :: "local_store \<Rightarrow> string \<Rightarrow> string \<Rightarrow> artifact result \<times> local_store" where
  "Put st data mediaType =
     (let d = Digest data; path = artifact_path (store_root st) d in
      case store_files st path of
        Some _ \<Rightarrow> (case Read st d of
            Inl e \<Rightarrow> (Err e, st)
          | Inr _ \<Rightarrow> (Ok (artifact_ref d path mediaType (length data)), st))
      | None \<Rightarrow> (Ok (artifact_ref d path mediaType (length data)),
                 st\<lparr>store_files := (store_files st)(path \<mapsto> data)\<rparr>))"

section \<open>The contract of the store\<close>

text \<open>
  What the services rely on: reading returns bytes with the requested digest, a stored artifact of
  admissible size can be read back, and no later write changes what a digest reads as.
\<close>

locale evidence_store =
  fixes sha :: "string \<Rightarrow> string"
    and rd :: "'s \<Rightarrow> string \<Rightarrow> string result"
    and put :: "'s \<Rightarrow> string \<Rightarrow> string \<Rightarrow> artifact result \<times> 's"
    and fits :: "string \<Rightarrow> bool"
  assumes read_digest: "rd st d = Inr data \<Longrightarrow> sha data = d"
    and put_ref: "put st data m = (Inr a, st') \<Longrightarrow> art_SHA256 a = sha data \<and> art_SizeBytes a = int (length data)"
    and put_readable: "put st data m = (Inr a, st') \<Longrightarrow> fits data \<Longrightarrow> \<exists>y. rd st' (art_SHA256 a) = Inr y"
    and put_stable: "rd st d = Inr y \<Longrightarrow> rd (snd (put st data m)) d = Inr y"
begin

fun puts :: "'s \<Rightarrow> (string \<times> string) list \<Rightarrow> 's" where
  "puts st [] = st"
| "puts st ((data, m) # ws) = puts (snd (put st data m)) ws"

lemma puts_stable: "rd st d = Inr y \<Longrightarrow> rd (puts st ws) d = Inr y"
  by (induction st ws rule: puts.induct) (auto intro: put_stable)

text \<open>Bytes stored once are read back after any further writes, up to a collision of the hash.\<close>

lemma put_read_later:
  assumes "put st data m = (Inr a, st')" and "fits data"
  shows "\<exists>y. rd (puts st' ws) (sha data) = Inr y \<and> sha y = sha data"
proof -
  obtain y where y: "rd st' (art_SHA256 a) = Inr y"
    using put_readable [OF assms] by blast
  moreover have "art_SHA256 a = sha data" using put_ref [OF assms(1)] by simp
  ultimately show ?thesis using puts_stable read_digest by metis
qed

end

lemma artifact_path_inj [dest]:
  "artifact_path root d = artifact_path root d' \<Longrightarrow> digestPattern d \<Longrightarrow> digestPattern d' \<Longrightarrow> d = d'"
  by (auto simp: artifact_path_def digestPattern_def)

lemma Read_Ok:
  "Read st d = Inr data \<longleftrightarrow>
     digestPattern d \<and> store_files st (artifact_path (store_root st) d) = Some data
     \<and> length data \<le> max_artifact_bytes \<and> Digest data = d"
  by (auto simp: Read_def split: option.splits if_splits)

lemma Put_cases:
  assumes "Put st data m = (r, st')"
  obtains (existing) old where "st' = st"
      "store_files st (artifact_path (store_root st) (Digest data)) = Some old"
      "is_ok r \<longleftrightarrow> is_ok (Read st (Digest data))"
  | (fresh) "store_files st (artifact_path (store_root st) (Digest data)) = None" "is_ok r"
      "st' = st\<lparr>store_files := (store_files st)(artifact_path (store_root st) (Digest data) \<mapsto> data)\<rparr>"
  using assms by (auto simp: Put_def Let_def split: option.splits sum.splits)

lemma Put_ref:
  "Put st data m = (Inr a, st') \<Longrightarrow> a = artifact_ref (Digest data) (artifact_path (store_root st) (Digest data)) m (length data)"
  by (auto simp: Put_def Let_def split: option.splits sum.splits)

lemma Put_stable:
  assumes "Read st d = Inr y"
  shows "Read (snd (Put st data m)) d = Inr y"
proof -
  obtain r st' where put: "Put st data m = (r, st')" by (cases "Put st data m")
  from put show ?thesis
    by (cases rule: Put_cases) (use assms put digestPattern_Digest in \<open>auto simp: Read_Ok\<close>)
qed

interpretation store: evidence_store Digest Read Put "\<lambda>data. length data \<le> max_artifact_bytes"
proof
  fix st d data assume "Read st d = Inr data"
  then show "Digest data = d" by (simp add: Read_Ok)
next
  fix st data m a st' assume "Put st data m = (Inr a, st')"
  then show "art_SHA256 a = Digest data \<and> art_SizeBytes a = int (length data)"
    by (auto dest!: Put_ref simp: artifact_ref_def)
next
  fix st data m a st'
  assume put: "Put st data m = (Inr a, st')" and small: "length data \<le> max_artifact_bytes"
  then show "\<exists>y. Read st' (art_SHA256 a) = Inr y"
    using Put_ref [OF put]
    by (cases rule: Put_cases [OF put]) (auto simp: is_ok_iff artifact_ref_def Read_Ok digestPattern_Digest)
next
  fix st d y data m assume "Read st d = Inr y"
  then show "Read (snd (Put st data m)) d = Inr y" by (rule Put_stable)
qed

text \<open>
  Evidence once written stays readable: after a successful write of at most 8 MiB and any number
  of further writes, reading the digest of the data succeeds and returns bytes with that digest.
\<close>

theorem put_then_read:
  assumes "Put st data m = (Inr a, st')" and "length data \<le> max_artifact_bytes"
  shows "\<exists>y. Read (store.puts st' ws) (art_SHA256 a) = Inr y \<and> Digest y = Digest data"
  using store.put_read_later [OF assms] store.put_ref [OF assms(1)] by simp

theorem put_then_read_witness:
  "\<exists>a st'. Put \<lparr>store_root = ''/a'', store_files = Map.empty\<rparr> ''x'' ''text/plain'' = (Inr a, st')
     \<and> (\<exists>y. Read (store.puts st' [(''y'', ''text/plain'')]) (art_SHA256 a) = Inr y \<and> Digest y = Digest ''x'')"
proof -
  obtain a st' where put: "Put \<lparr>store_root = ''/a'', store_files = Map.empty\<rparr> ''x'' ''text/plain'' = (Inr a, st')"
    by (simp add: Put_def Let_def)
  have "length ''x'' \<le> max_artifact_bytes" by (simp add: max_artifact_bytes_def)
  from put_then_read [OF put this] put show ?thesis by blast
qed

end
