(* ===== verification/Workflow.thy ===== *)
theory Workflow
  imports Authority Artifacts
begin

text \<open>
  The versioned workflow state machine: the transition table and the service operations
  (\<open>src/internal/service/workflow.go\<close>), and the optimistic, logged updates of the repository
  (\<open>src/internal/postgres/workflows.go\<close>). A service call reads the run in one database snapshot and commits
  in a later one, so the two databases are separate arguments and the theorems hold for every
  interleaving of calls.
\<close>

section \<open>The transition table\<close>

record transition_spec =
  spec_to :: string
  spec_roles :: "string list"
  spec_gate :: string
  spec_action :: string
  spec_human :: bool
  spec_evidenceRequired :: bool
  spec_setImplementedBy :: bool
  spec_setQAValidatedBy :: bool
  spec_terminal :: bool

text \<open>Go's composite literals name only the fields that differ from the zero value.\<close>

definition spec :: "string \<Rightarrow> string list \<Rightarrow> transition_spec" where
  "spec to_state roles =
     \<lparr>spec_to = to_state, spec_roles = roles, spec_gate = [], spec_action = [], spec_human = False,
      spec_evidenceRequired = False, spec_setImplementedBy = False, spec_setQAValidatedBy = False,
      spec_terminal = False\<rparr>"

definition human_gate :: "string \<Rightarrow> string \<Rightarrow> string \<Rightarrow> string \<Rightarrow> transition_spec" where
  "human_gate to_state role gate action =
     (spec to_state [role])\<lparr>spec_gate := gate, spec_action := action, spec_human := True,
        spec_evidenceRequired := True\<rparr>"

definition workflowTransitions :: "(string \<times> (string \<times> transition_spec) list) list" where
  "workflowTransitions =
   [(''intake'',
      [(''CLASSIFIED'', spec ''classified'' [''controller'', ''development''])]),
    (''classified'',
      [(''READY'', spec ''ready'' [''controller'', ''development'']),
       (''PLAN_APPROVAL_REQUESTED'', spec ''awaiting_plan_approval'' [''controller'', ''development'']),
       (''POLICY_REJECTED'', (spec ''policy_rejected'' [''controller'', ''product_owner''])\<lparr>spec_terminal := True\<rparr>)]),
    (''awaiting_plan_approval'',
      [(''PLAN_APPROVED'', human_gate ''ready'' ''product_owner'' ''plan_approval'' ''plan_decide''),
       (''PLAN_REJECTED'', (human_gate ''policy_rejected'' ''product_owner'' ''plan_approval'' ''plan_decide'')
          \<lparr>spec_terminal := True\<rparr>)]),
    (''ready'',
      [(''IMPLEMENTATION_STARTED'', spec ''implementing'' [''controller'', ''development''])]),
    (''revision_required'',
      [(''IMPLEMENTATION_STARTED'', spec ''implementing'' [''controller'', ''development''])]),
    (''implementing'',
      [(''IMPLEMENTATION_COMPLETED'', (spec ''verifying'' [''development''])
          \<lparr>spec_evidenceRequired := True, spec_setImplementedBy := True\<rparr>),
       (''IMPLEMENTATION_FAILED'', (spec ''implementation_failed'' [''development''])\<lparr>spec_evidenceRequired := True\<rparr>)]),
    (''implementation_failed'',
      [(''REVISION_REQUESTED'', spec ''revision_required'' [''controller'', ''development''])]),
    (''verifying'',
      [(''VERIFICATION_PASSED'', (spec ''qa_validating'' [''controller'', ''development''])\<lparr>spec_evidenceRequired := True\<rparr>),
       (''VERIFICATION_FAILED'', (spec ''revision_required'' [''controller'', ''development''])\<lparr>spec_evidenceRequired := True\<rparr>)]),
    (''qa_validating'',
      [(''HUMAN_QA_REQUESTED'', spec ''awaiting_human_qa'' [''controller'', ''qa''])]),
    (''awaiting_human_qa'',
      [(''QA_VALIDATED'', (human_gate ''qa_validated'' ''qa'' ''qa'' ''qa_decide'')\<lparr>spec_setQAValidatedBy := True\<rparr>),
       (''QA_FAILED'', human_gate ''qa_failed'' ''qa'' ''qa'' ''qa_decide'')]),
    (''qa_failed'',
      [(''REVISION_REQUESTED'', spec ''revision_required'' [''controller'', ''qa'', ''development''])]),
    (''qa_validated'',
      [(''PRODUCT_APPROVAL_REQUESTED'', spec ''awaiting_product_approval'' [''controller'', ''product_owner''])]),
    (''awaiting_product_approval'',
      [(''PRODUCT_APPROVED'', human_gate ''promotion_pending'' ''product_owner'' ''product_approval'' ''product_decide''),
       (''PRODUCT_REJECTED'', (human_gate ''product_rejected'' ''product_owner'' ''product_approval'' ''product_decide'')
          \<lparr>spec_terminal := True\<rparr>)]),
    (''promotion_pending'',
      [(''PROMOTION_COMPLETED'', (spec ''completed'' [''controller'', ''product_owner''])
          \<lparr>spec_evidenceRequired := True, spec_terminal := True\<rparr>)])]"

definition terminalState :: "string \<Rightarrow> bool" where
  "terminalState s \<longleftrightarrow> s \<in> {''policy_rejected'', ''product_rejected'', ''completed'', ''cancelled'', ''failed''}"

text \<open>Events outside the table: cancellation, blocking and failure from any state that is not terminal.\<close>

definition commonTransition :: "string \<Rightarrow> string \<Rightarrow> transition_spec option" where
  "commonTransition state event =
     (if event = ''CANCEL_REQUESTED'' \<and> \<not> terminalState state
        then Some (spec ''cancel_requested'' [''controller'', ''operations''])
      else if event = ''CANCELLED'' \<and> state = ''cancel_requested''
        then Some ((spec ''cancelled'' [''controller'', ''operations''])\<lparr>spec_terminal := True\<rparr>)
      else if event = ''BLOCKED'' \<and> \<not> terminalState state
        then Some ((spec ''blocked'' [''controller'', ''operations''])\<lparr>spec_evidenceRequired := True\<rparr>)
      else if event = ''FAILED'' \<and> \<not> terminalState state
        then Some ((spec ''failed'' [''controller'', ''operations''])
               \<lparr>spec_evidenceRequired := True, spec_terminal := True\<rparr>)
      else None)"

definition transitionFor :: "string \<Rightarrow> string \<Rightarrow> transition_spec option" where
  "transitionFor state event =
     (case map_of workflowTransitions state of
        Some byEvent \<Rightarrow> (case map_of byEvent event of
            Some sp \<Rightarrow> Some sp
          | None \<Rightarrow> commonTransition state event)
      | None \<Rightarrow> commonTransition state event)"

lemmas spec_defs = spec_def human_gate_def

subsection \<open>Facts about the table\<close>

text \<open>Every row of the table, as a finite list that \<open>simp\<close> can run through.\<close>

definition table_rows :: "(string \<times> string \<times> transition_spec) list" where
  "table_rows = concat (map (\<lambda>(s, rows). map (\<lambda>(e, sp). (s, e, sp)) rows) workflowTransitions)"

lemma transitionFor_cases:
  assumes "transitionFor s e = Some sp"
  shows "(s, e, sp) \<in> set table_rows \<or> commonTransition s e = Some sp"
  using assms
  by (auto simp: transitionFor_def table_rows_def split: option.splits dest!: map_of_SomeD)

lemma table_rowsI:
  assumes "\<forall>(s, e, sp) \<in> set table_rows. P s e sp"
    and "\<And>s e sp. commonTransition s e = Some sp \<Longrightarrow> P s e sp"
    and "transitionFor s e = Some sp"
  shows "P s e sp"
  using transitionFor_cases [OF assms(3)] assms(1,2) by blast

lemmas table_simps = table_rows_def workflowTransitions_def spec_defs terminalState_def

lemma spec_terminal_iff: "transitionFor s e = Some sp \<Longrightarrow> spec_terminal sp \<longleftrightarrow> terminalState (spec_to sp)"
  by (erule table_rowsI [rotated 2])
    (auto simp: table_simps commonTransition_def split: if_splits)

lemma table_no_terminal: "terminalState s \<Longrightarrow> map_of workflowTransitions s = None"
  unfolding map_of_eq_None_iff terminalState_def
  by (elim insertE emptyE) (simp_all add: workflowTransitions_def)

lemma no_transition_from_terminal: "terminalState s \<Longrightarrow> transitionFor s e = None"
  using table_no_terminal [of s]
  by (auto simp: transitionFor_def commonTransition_def) (simp add: terminalState_def)

lemma gate_spec:
  assumes "transitionFor s e = Some sp" and "spec_gate sp \<noteq> []"
  shows "spec_human sp \<and> spec_evidenceRequired sp \<and>
    (s, spec_gate sp) \<in> {(''awaiting_plan_approval'', ''plan_approval''), (''awaiting_human_qa'', ''qa''),
                         (''awaiting_product_approval'', ''product_approval'')}"
  using assms(2)
  by (rule_tac impE [OF table_rowsI [OF _ _ assms(1), where P = "\<lambda>s e sp. spec_gate sp \<noteq> [] \<longrightarrow>
      spec_human sp \<and> spec_evidenceRequired sp \<and>
      (s, spec_gate sp) \<in> {(''awaiting_plan_approval'', ''plan_approval''), (''awaiting_human_qa'', ''qa''),
                         (''awaiting_product_approval'', ''product_approval'')}"]])
    (auto simp: table_simps commonTransition_def split: if_splits)

section \<open>Runs, events and tables\<close>

record workflow_run =
  wf_ID :: string
  wf_ProjectID :: string
  wf_Kind :: string
  wf_State :: string
  wf_Version :: int
  wf_Risk :: string
  wf_DataClassification :: string
  wf_RequestArtifact :: artifact
  wf_WorkPacketArtifact :: "artifact option"
  wf_OpenClawFlowID :: string
  wf_IdempotencyKey :: string
  wf_CreatedBy :: string
  wf_ImplementedBy :: string
  wf_QAValidatedBy :: string
  wf_Metadata :: string
  wf_Governance :: governance_policy
  wf_CreatedAt :: int
  wf_UpdatedAt :: int
  wf_TerminalAt :: "int option"

record workflow_event =
  we_ID :: string
  we_WorkflowID :: string
  we_Sequence :: int
  we_EventType :: string
  we_FromState :: string
  we_ToState :: string
  we_ActorPrincipalID :: string
  we_ActorRole :: string
  we_IdempotencyKey :: string
  we_Payload :: string
  we_EvidenceArtifact :: "artifact option"
  we_AuthorizationDecision :: string
  we_CerbosCallID :: string
  we_PolicyVersion :: string
  we_CreatedAt :: int

record workflow_transition =
  wt_WorkflowID :: string
  wt_ExpectedVersion :: int
  wt_Event :: workflow_event
  wt_ExpectedState :: string
  wt_ResultingState :: string
  wt_SetImplementedBy :: bool
  wt_SetQAValidatedBy :: bool
  wt_Terminal :: bool

text \<open>
  The tables the workflow repository reads and writes. The governance policy of a run is joined
  from the policy of its project whenever the run is read. Metadata and payloads are their JSON text.
\<close>

record wf_db =
  wf_runs :: "workflow_run list"
  wf_events :: "workflow_event list"
  wf_policies :: "(string \<times> governance_policy) list"
  wf_artifacts :: "artifact list"

definition default_policy :: "string \<Rightarrow> governance_policy" where
  "default_policy projectID =
     \<lparr>gov_ProjectID = projectID, gov_Profile = ''solo'', gov_AllowRoleOverlap = True,
      gov_DistinctPrincipalGates = [], gov_TwoPersonGates = [],
      gov_AlwaysHumanGates = [''plan_approval'', ''qa'', ''product_approval'', ''confidential_disclosure'', ''maintenance_action''],
      gov_Version = 1\<rparr>"

definition insert_artifact :: "artifact \<Rightarrow> artifact list \<Rightarrow> artifact list" where
  "insert_artifact a rows = (if find_row art_SHA256 (art_SHA256 a) rows = None then rows @ [a] else rows)"

definition scanWorkflow :: "wf_db \<Rightarrow> workflow_run option \<Rightarrow> workflow_run result" where
  "scanWorkflow db row = (case row of
     None \<Rightarrow> Err ErrNoRows
   | Some r \<Rightarrow> (case map_of (wf_policies db) (wf_ProjectID r) of
       None \<Rightarrow> Err ErrNoRows
     | Some g \<Rightarrow> Ok (r\<lparr>wf_Governance := g\<rparr>)))"

definition getWorkflowByID :: "wf_db \<Rightarrow> string \<Rightarrow> workflow_run result" where
  "getWorkflowByID db wid = (case scanWorkflow db (find_row wf_ID wid (wf_runs db)) of
     Inl _ \<Rightarrow> Err (ErrMessage ''workflow not found'') | Inr r \<Rightarrow> Ok r)"

section \<open>Repository\<close>

text \<open>The row and the event a creation inserts.\<close>

definition inserted_run :: "call_env \<Rightarrow> workflow_run \<Rightarrow> workflow_run" where
  "inserted_run env run =
     run\<lparr>wf_Version := 1, wf_WorkPacketArtifact := None, wf_ImplementedBy := [], wf_QAValidatedBy := [],
         wf_CreatedAt := env_db_now env, wf_UpdatedAt := env_db_now env, wf_TerminalAt := None\<rparr>"

definition inserted_event :: "call_env \<Rightarrow> workflow_run \<Rightarrow> workflow_event \<Rightarrow> workflow_event" where
  "inserted_event env run event =
     event\<lparr>we_WorkflowID := wf_ID run, we_Sequence := 1, we_EvidenceArtifact := None, we_CreatedAt := env_db_now env\<rparr>"

text \<open>The inserts before the run itself: the project's default policy and the request artifact.\<close>

definition ensure_project :: "wf_db \<Rightarrow> workflow_run \<Rightarrow> wf_db" where
  "ensure_project db run =
     db\<lparr>wf_policies := (if map_of (wf_policies db) (wf_ProjectID run) = None
                        then (wf_ProjectID run, default_policy (wf_ProjectID run)) # wf_policies db
                        else wf_policies db),
        wf_artifacts := insert_artifact (wf_RequestArtifact run) (wf_artifacts db)\<rparr>"

definition run_by_key :: "wf_db \<Rightarrow> workflow_run \<Rightarrow> workflow_run option" where
  "run_by_key db run =
     find (\<lambda>r. wf_ProjectID r = wf_ProjectID run \<and> wf_IdempotencyKey r = wf_IdempotencyKey run) (wf_runs db)"

definition repo_CreateWorkflow ::
  "call_env \<Rightarrow> wf_db \<Rightarrow> workflow_run \<Rightarrow> workflow_event \<Rightarrow> workflow_run result \<times> wf_db" where
  "repo_CreateWorkflow env db run event =
     (case run_by_key db run of
        Some old \<Rightarrow> (case scanWorkflow (ensure_project db run) (Some old) of
            Inl e \<Rightarrow> (Err e, db)
          | Inr old' \<Rightarrow>
              if art_SHA256 (wf_RequestArtifact old') \<noteq> art_SHA256 (wf_RequestArtifact run)
                 \<or> wf_CreatedBy old' \<noteq> wf_CreatedBy run
              then (Err (ErrMessage ''workflow idempotency key was reused with a different payload''), db)
              else (Ok old', ensure_project db run))
      | None \<Rightarrow>
          if find_row wf_ID (wf_ID run) (wf_runs db) \<noteq> None
             \<or> find_row we_ID (we_ID event) (wf_events db) \<noteq> None
          then (Err ErrDatabase, db)
          else
            let db' = (ensure_project db run)\<lparr>wf_runs := wf_runs db @ [inserted_run env run],
                        wf_events := wf_events db @ [inserted_event env run event]\<rparr>
            in case getWorkflowByID db' (wf_ID run) of
                 Inl e \<Rightarrow> (Err e, db)
               | Inr created \<Rightarrow> (Ok created, db'))"

text \<open>The row and the event a transition writes.\<close>

definition moved_run :: "call_env \<Rightarrow> workflow_transition \<Rightarrow> workflow_run \<Rightarrow> workflow_run" where
  "moved_run env t run =
     run\<lparr>wf_State := wt_ResultingState t, wf_Version := wf_Version run + 1, wf_UpdatedAt := env_db_now env,
         wf_ImplementedBy := (if wt_SetImplementedBy t then we_ActorPrincipalID (wt_Event t) else wf_ImplementedBy run),
         wf_QAValidatedBy := (if wt_SetQAValidatedBy t then we_ActorPrincipalID (wt_Event t) else wf_QAValidatedBy run),
         wf_TerminalAt := (if wt_Terminal t then Some (env_clock env 0) else wf_TerminalAt run)\<rparr>"

definition logged_event :: "call_env \<Rightarrow> workflow_transition \<Rightarrow> workflow_run \<Rightarrow> workflow_event" where
  "logged_event env t run =
     (wt_Event t)\<lparr>we_WorkflowID := wt_WorkflowID t, we_Sequence := wf_Version run + 1,
       we_FromState := wt_ExpectedState t, we_ToState := wt_ResultingState t, we_CreatedAt := env_db_now env\<rparr>"

definition repo_TransitionWorkflow ::
  "call_env \<Rightarrow> wf_db \<Rightarrow> workflow_transition \<Rightarrow> (workflow_run \<times> workflow_event) result \<times> wf_db" where
  "repo_TransitionWorkflow env db t =
     (case find (\<lambda>e. we_WorkflowID e = wt_WorkflowID t \<and> we_IdempotencyKey e = we_IdempotencyKey (wt_Event t))
             (wf_events db) of
        Some old \<Rightarrow>
          if we_EventType old \<noteq> we_EventType (wt_Event t) \<or> we_ToState old \<noteq> wt_ResultingState t
          then (Err (ErrMessage ''workflow idempotency key was reused with a different transition''), db)
          else (case getWorkflowByID db (wt_WorkflowID t) of
                  Inl e \<Rightarrow> (Err e, db) | Inr run \<Rightarrow> (Ok (run, old), db))
      | None \<Rightarrow> (case getWorkflowByID db (wt_WorkflowID t) of
          Inl e \<Rightarrow> (Err e, db)
        | Inr run \<Rightarrow>
            if wf_Version run \<noteq> wt_ExpectedVersion t \<or> wf_State run \<noteq> wt_ExpectedState t
            then (Err (ErrMessage ''workflow conflict''), db)
            else if find_row we_ID (we_ID (wt_Event t)) (wf_events db) \<noteq> None
                 \<or> (\<exists>e \<in> set (wf_events db). we_WorkflowID e = wt_WorkflowID t \<and> we_Sequence e = wf_Version run + 1)
            then (Err ErrDatabase, db)
            else
              let ev = logged_event env t run;
                  arts = (case we_EvidenceArtifact (wt_Event t) of None \<Rightarrow> wf_artifacts db
                          | Some a \<Rightarrow> insert_artifact a (wf_artifacts db));
                  db' = db\<lparr>wf_runs := put_row wf_ID (moved_run env t run) (wf_runs db),
                           wf_events := wf_events db @ [ev], wf_artifacts := arts\<rparr>
              in case getWorkflowByID db' (wt_WorkflowID t) of
                   Inl e \<Rightarrow> (Err e, db)
                 | Inr updated \<Rightarrow> (Ok (updated, ev), db')))"

section \<open>Service\<close>

record create_workflow_input =
  cw_ProjectID :: string
  cw_Kind :: string
  cw_Risk :: string
  cw_DataClassification :: string
  cw_Request :: string
  cw_OpenClawFlowID :: string
  cw_IdempotencyKey :: string
  cw_Metadata :: string

record transition_input =
  ti_WorkflowID :: string
  ti_ExpectedVersion :: int
  ti_EventType :: string
  ti_IdempotencyKey :: string
  ti_Evidence :: string
  ti_Payload :: string

definition workflowAttributes :: "workflow_run \<Rightarrow> string \<Rightarrow> (string \<times> attribute) list" where
  "workflowAttributes run event =
     [(''project_id'', AttrText (wf_ProjectID run)), (''current_state'', AttrText (wf_State run)),
      (''event'', AttrText event), (''risk'', AttrText (wf_Risk run)),
      (''data_classification'', AttrText (wf_DataClassification run))]"

definition priorActors :: "workflow_run \<Rightarrow> string \<Rightarrow> string list" where
  "priorActors run gate =
     (let result = (if (gate = ''qa'' \<or> gate = ''product_approval'') \<and> wf_ImplementedBy run \<noteq> []
                    then [wf_ImplementedBy run] else [])
      in if gate = ''product_approval'' \<and> wf_QAValidatedBy run \<noteq> [] \<and> wf_QAValidatedBy run \<notin> set result
         then result @ [wf_QAValidatedBy run] else result)"

text \<open>\<open>CreateWorkflow\<close>: the normalized input, the new run and its first event.\<close>

definition normalized_create :: "create_workflow_input \<Rightarrow> create_workflow_input" where
  "normalized_create inp =
     inp\<lparr>cw_ProjectID := trim_space (cw_ProjectID inp),
         cw_Kind := defaultString (trim_space (cw_Kind inp)) ''software-development'',
         cw_Risk := defaultString (to_lower (trim_space (cw_Risk inp))) ''low'',
         cw_DataClassification := defaultString (to_lower (trim_space (cw_DataClassification inp))) ''internal'',
         cw_Request := trim_space (cw_Request inp), cw_IdempotencyKey := trim_space (cw_IdempotencyKey inp)\<rparr>"

definition new_run :: "call_env \<Rightarrow> principal \<Rightarrow> create_workflow_input \<Rightarrow> artifact \<Rightarrow> workflow_run" where
  "new_run env p inp a =
     \<lparr>wf_ID = env_id env 0, wf_ProjectID = cw_ProjectID inp, wf_Kind = cw_Kind inp, wf_State = ''intake'',
      wf_Version = 1, wf_Risk = cw_Risk inp, wf_DataClassification = cw_DataClassification inp,
      wf_RequestArtifact = a, wf_WorkPacketArtifact = None,
      wf_OpenClawFlowID = trim_space (cw_OpenClawFlowID inp), wf_IdempotencyKey = cw_IdempotencyKey inp,
      wf_CreatedBy = p_ID p, wf_ImplementedBy = [], wf_QAValidatedBy = [], wf_Metadata = cw_Metadata inp,
      wf_Governance = default_policy (cw_ProjectID inp), wf_CreatedAt = 0, wf_UpdatedAt = 0, wf_TerminalAt = None\<rparr>"

definition created_event ::
  "call_env \<Rightarrow> principal \<Rightarrow> create_workflow_input \<Rightarrow> string \<Rightarrow> authorization_decision \<Rightarrow> workflow_event" where
  "created_event env p inp actorRole decision =
     \<lparr>we_ID = env_id env 1, we_WorkflowID = env_id env 0, we_Sequence = 1, we_EventType = ''WORKFLOW_CREATED'',
      we_FromState = [], we_ToState = ''intake'', we_ActorPrincipalID = p_ID p, we_ActorRole = actorRole,
      we_IdempotencyKey = cw_IdempotencyKey inp @ '':created'', we_Payload = ''{}'',
      we_EvidenceArtifact = None, we_AuthorizationDecision = ''allow'', we_CerbosCallID = dec_CallID decision,
      we_PolicyVersion = dec_PolicyVersion decision, we_CreatedAt = 0\<rparr>"

definition create_request :: "call_env \<Rightarrow> principal \<Rightarrow> create_workflow_input \<Rightarrow> authorization_request" where
  "create_request env p inp =
     \<lparr>auth_Principal = p, auth_ResourceKind = ''workflow_run'', auth_ResourceID = env_id env 0, auth_Action = ''create'',
      auth_Attributes =
        [(''project_id'', AttrText (cw_ProjectID inp)), (''current_state'', AttrText ''intake''),
         (''event'', AttrText ''WORKFLOW_CREATED''), (''risk'', AttrText (cw_Risk inp)),
         (''data_classification'', AttrText (cw_DataClassification inp))]\<rparr>"

definition CreateWorkflow ::
  "authorizer \<Rightarrow> call_env \<Rightarrow> local_store \<Rightarrow> wf_db \<Rightarrow> create_workflow_input
     \<Rightarrow> workflow_run result \<times> local_store \<times> wf_db" where
  "CreateWorkflow az env st db inp0 =
     (case RequirePrincipal (env_ctx env) of
        Inl e \<Rightarrow> (Err e, st, db)
      | Inr p \<Rightarrow>
          let inp = normalized_create inp0
          in if cw_ProjectID inp = [] \<or> cw_Request inp = [] \<or> cw_IdempotencyKey inp = []
               then (Err ErrInvalidInput, st, db)
             else if cw_Risk inp \<notin> set [''low'', ''medium'', ''high'', ''critical''] then (Err ErrInvalidInput, st, db)
             else if cw_DataClassification inp \<notin> set [''public'', ''internal'', ''confidential'', ''restricted'']
               then (Err ErrInvalidInput, st, db)
             else (case selectRole p (cw_ProjectID inp) [''controller'', ''development'', ''product_owner'', ''operations''] of
                 None \<Rightarrow> (Err ErrForbidden, st, db)
               | Some actorRole \<Rightarrow> (case authorizeUntraced az (create_request env p inp) of
                   Inl e \<Rightarrow> (Err e, st, db)
                 | Inr decision \<Rightarrow> (case Put st (cw_Request inp) ''text/markdown; charset=utf-8'' of
                     (Inl e, st') \<Rightarrow> (Err e, st', db)
                   | (Inr a, st') \<Rightarrow>
                       (case repo_CreateWorkflow env db (new_run env p inp a)
                               (created_event env p inp actorRole decision) of
                          (r, db') \<Rightarrow> (r, st', db'))))))"

definition GetWorkflow :: "authorizer \<Rightarrow> call_env \<Rightarrow> wf_db \<Rightarrow> string \<Rightarrow> workflow_run result" where
  "GetWorkflow az env db wid =
     (case RequirePrincipal (env_ctx env) of
        Inl e \<Rightarrow> Err e
      | Inr p \<Rightarrow> (case getWorkflowByID db (trim_space wid) of
          Inl e \<Rightarrow> Err e
        | Inr run \<Rightarrow> (case authorizeUntraced az
              \<lparr>auth_Principal = p, auth_ResourceKind = ''workflow_run'', auth_ResourceID = wf_ID run,
               auth_Action = ''read'', auth_Attributes = workflowAttributes run ''READ''\<rparr> of
              Inl e \<Rightarrow> Err e
            | Inr _ \<Rightarrow> Ok run)))"

text \<open>
  The checks of \<open>TransitionWorkflow\<close> up to the authorization request, in their order: the transition
  the table allows from the state read, the acting role, and the governance rules.
\<close>

definition check_transition ::
  "principal \<Rightarrow> workflow_run \<Rightarrow> string \<Rightarrow> string \<Rightarrow> (transition_spec \<times> string) result" where
  "check_transition p run event evidence =
     (case transitionFor (wf_State run) event of
        None \<Rightarrow> Err ErrInvalidInput
      | Some sp \<Rightarrow> (case selectRole p (wf_ProjectID run) (spec_roles sp) of
          None \<Rightarrow> Err ErrForbidden
        | Some actorRole \<Rightarrow>
            if spec_human sp \<and> \<not> p_Human p then Err ErrForbidden
            else if spec_evidenceRequired sp \<and> evidence = [] then Err ErrInvalidInput
            else if RequiresDistinctPrincipal (wf_Governance run) (spec_gate sp)
                    \<and> p_ID p \<in> set (priorActors run (spec_gate sp)) then Err ErrForbidden
            else Ok (sp, actorRole)))"

definition transition_request ::
  "principal \<Rightarrow> workflow_run \<Rightarrow> string \<Rightarrow> string \<Rightarrow> transition_spec \<Rightarrow> authorization_request" where
  "transition_request p run event evidence sp =
     (if spec_gate sp \<noteq> []
      then \<lparr>auth_Principal = p, auth_ResourceKind = ''workflow_gate'',
            auth_ResourceID = wf_ID run @ '':'' @ spec_gate sp @ '':'' @ show_int (wf_Version run),
            auth_Action = spec_action sp,
            auth_Attributes =
              [(''project_id'', AttrText (wf_ProjectID run)), (''gate'', AttrText (spec_gate sp)),
               (''workflow_state'', AttrText (wf_State run)), (''evidence_present'', AttrBool (evidence \<noteq> [])),
               (''distinct_principal_required'',
                  AttrBool (RequiresDistinctPrincipal (wf_Governance run) (spec_gate sp))),
               (''prior_actor_ids'', AttrTexts (priorActors run (spec_gate sp)))]\<rparr>
      else \<lparr>auth_Principal = p, auth_ResourceKind = ''workflow_run'', auth_ResourceID = wf_ID run,
            auth_Action = ''transition'', auth_Attributes = workflowAttributes run event\<rparr>)"

definition put_evidence :: "local_store \<Rightarrow> string \<Rightarrow> artifact option result \<times> local_store" where
  "put_evidence st evidence =
     (if evidence = [] then (Ok None, st)
      else case Put st evidence ''application/json'' of
        (Inl e, st') \<Rightarrow> (Err e, st') | (Inr a, st') \<Rightarrow> (Ok (Some a), st'))"

text \<open>The transition the service asks the repository to commit.\<close>

definition proposedTransition ::
  "call_env \<Rightarrow> principal \<Rightarrow> workflow_run \<Rightarrow> transition_input \<Rightarrow> transition_spec \<Rightarrow> string
     \<Rightarrow> artifact option \<Rightarrow> authorization_decision \<Rightarrow> workflow_transition" where
  "proposedTransition env p run inp sp actorRole art decision =
     \<lparr>wt_WorkflowID = wf_ID run, wt_ExpectedVersion = ti_ExpectedVersion inp,
      wt_Event =
        \<lparr>we_ID = env_id env 0, we_WorkflowID = wf_ID run, we_Sequence = 0,
         we_EventType = to_upper (trim_space (ti_EventType inp)), we_FromState = wf_State run,
         we_ToState = spec_to sp, we_ActorPrincipalID = p_ID p, we_ActorRole = actorRole,
         we_IdempotencyKey = trim_space (ti_IdempotencyKey inp), we_Payload = ti_Payload inp,
         we_EvidenceArtifact = art, we_AuthorizationDecision = ''allow'',
         we_CerbosCallID = dec_CallID decision, we_PolicyVersion = dec_PolicyVersion decision,
         we_CreatedAt = 0\<rparr>,
      wt_ExpectedState = wf_State run, wt_ResultingState = spec_to sp,
      wt_SetImplementedBy = spec_setImplementedBy sp, wt_SetQAValidatedBy = spec_setQAValidatedBy sp,
      wt_Terminal = spec_terminal sp\<rparr>"

text \<open>\<open>TransitionWorkflow\<close>: \<open>seen\<close> is the database the run is read from, \<open>db\<close> the one the update commits in.\<close>

definition TransitionWorkflow ::
  "authorizer \<Rightarrow> call_env \<Rightarrow> local_store \<Rightarrow> wf_db \<Rightarrow> wf_db \<Rightarrow> transition_input
     \<Rightarrow> (workflow_run \<times> workflow_event) result \<times> local_store \<times> wf_db" where
  "TransitionWorkflow az env st seen db inp =
     (case RequirePrincipal (env_ctx env) of
        Inl e \<Rightarrow> (Err e, st, db)
      | Inr p \<Rightarrow>
          let wid = trim_space (ti_WorkflowID inp); event = to_upper (trim_space (ti_EventType inp));
              evidence = trim_space (ti_Evidence inp)
          in if wid = [] \<or> ti_ExpectedVersion inp < 1 \<or> event = [] \<or> trim_space (ti_IdempotencyKey inp) = []
             then (Err ErrInvalidInput, st, db)
             else (case getWorkflowByID seen wid of
                 Inl e \<Rightarrow> (Err e, st, db)
               | Inr run \<Rightarrow> (case check_transition p run event evidence of
                   Inl e \<Rightarrow> (Err e, st, db)
                 | Inr (sp, actorRole) \<Rightarrow>
                     (case authorizeUntraced az (transition_request p run event evidence sp) of
                        Inl e \<Rightarrow> (Err e, st, db)
                      | Inr decision \<Rightarrow> (case put_evidence st evidence of
                          (Inl e, st') \<Rightarrow> (Err e, st', db)
                        | (Inr art, st') \<Rightarrow>
                            (case repo_TransitionWorkflow env db
                                    (proposedTransition env p run inp sp actorRole art decision) of
                               (r, db') \<Rightarrow> (r, st', db')))))))"

end
