(* ===== verification/WorkflowProps.thy ===== *)
theory WorkflowProps
  imports Workflow
begin

text \<open>
  Correctness of the workflow state machine. The specification is the event log: a run is what
  replaying its log through the transition table gives. The repository's rows refine it in every
  state reachable by any interleaving of service calls, and the rules of the table (terminal states,
  human gates, separation of duties) follow.
\<close>

section \<open>Inversion of the operations\<close>

lemma check_transition_Ok:
  "check_transition p run event evidence = Inr (sp, role) \<longleftrightarrow>
     transitionFor (wf_State run) event = Some sp \<and> selectRole p (wf_ProjectID run) (spec_roles sp) = Some role
     \<and> (spec_human sp \<longrightarrow> p_Human p) \<and> (spec_evidenceRequired sp \<longrightarrow> evidence \<noteq> [])
     \<and> (RequiresDistinctPrincipal (wf_Governance run) (spec_gate sp)
          \<longrightarrow> p_ID p \<notin> set (priorActors run (spec_gate sp)))"
  by (auto simp: check_transition_def split: option.splits)

lemma getWorkflowByID_Ok:
  "getWorkflowByID db wid = Inr run \<longleftrightarrow>
     (\<exists>raw g. find_row wf_ID wid (wf_runs db) = Some raw \<and> map_of (wf_policies db) (wf_ProjectID raw) = Some g
        \<and> run = raw\<lparr>wf_Governance := g\<rparr>)"
  by (auto simp: getWorkflowByID_def scanWorkflow_def split: option.splits sum.splits)

lemma moved_run_simps [simp]:
  "wf_ID (moved_run env t run) = wf_ID run" "wf_Version (moved_run env t run) = wf_Version run + 1"
  "wf_State (moved_run env t run) = wt_ResultingState t" "wf_ProjectID (moved_run env t run) = wf_ProjectID run"
  by (simp_all add: moved_run_def)

lemma repo_TransitionWorkflow_cases:
  assumes "repo_TransitionWorkflow env db t = (r, db')"
  obtains (replayed) "db' = db" "\<And>u e. r = Inr (u, e) \<Longrightarrow> e \<in> set (wf_events db) \<and> we_WorkflowID e = wt_WorkflowID t
      \<and> we_IdempotencyKey e = we_IdempotencyKey (wt_Event t) \<and> we_EventType e = we_EventType (wt_Event t)"
  | (committed) run arts u where "getWorkflowByID db (wt_WorkflowID t) = Inr run"
      "wf_Version run = wt_ExpectedVersion t" "wf_State run = wt_ExpectedState t"
      "r = Inr (u, logged_event env t run)"
      "db' = db\<lparr>wf_runs := put_row wf_ID (moved_run env t run) (wf_runs db),
                wf_events := wf_events db @ [logged_event env t run], wf_artifacts := arts\<rparr>"
      "find (\<lambda>e. we_WorkflowID e = wt_WorkflowID t \<and> we_IdempotencyKey e = we_IdempotencyKey (wt_Event t))
         (wf_events db) = None"
proof -
  note eq = assms [unfolded repo_TransitionWorkflow_def Let_def]
  show ?thesis
  proof (cases "find (\<lambda>e. we_WorkflowID e = wt_WorkflowID t \<and>
      we_IdempotencyKey e = we_IdempotencyKey (wt_Event t)) (wf_events db)")
    case (Some old)
    with eq show ?thesis
      by (intro that(1)) (auto dest!: find_SomeD_mem split: sum.splits if_splits)
  next
    case None
    show ?thesis
    proof (cases "db' = db \<and> (\<exists>e. r = Inl e)")
      case True
      then show ?thesis by (intro that(1)) auto
    next
      case False
      with eq None show ?thesis
        by (auto split: sum.splits if_splits intro: that(2))
    qed
  qed
qed

lemma proposedTransition_simps [simp]:
  "wt_WorkflowID (proposedTransition env p run inp sp role art d) = wf_ID run"
  "wt_ExpectedVersion (proposedTransition env p run inp sp role art d) = ti_ExpectedVersion inp"
  "wt_ExpectedState (proposedTransition env p run inp sp role art d) = wf_State run"
  "wt_ResultingState (proposedTransition env p run inp sp role art d) = spec_to sp"
  "wt_SetImplementedBy (proposedTransition env p run inp sp role art d) = spec_setImplementedBy sp"
  "wt_SetQAValidatedBy (proposedTransition env p run inp sp role art d) = spec_setQAValidatedBy sp"
  "we_EventType (wt_Event (proposedTransition env p run inp sp role art d)) = to_upper (trim_space (ti_EventType inp))"
  "we_ActorPrincipalID (wt_Event (proposedTransition env p run inp sp role art d)) = p_ID p"
  "we_ActorRole (wt_Event (proposedTransition env p run inp sp role art d)) = role"
  "we_IdempotencyKey (wt_Event (proposedTransition env p run inp sp role art d)) = trim_space (ti_IdempotencyKey inp)"
  "we_EvidenceArtifact (wt_Event (proposedTransition env p run inp sp role art d)) = art"
  by (simp_all add: proposedTransition_def)

lemma logged_event_simps [simp]:
  "we_WorkflowID (logged_event env t run) = wt_WorkflowID t" "we_Sequence (logged_event env t run) = wf_Version run + 1"
  "we_FromState (logged_event env t run) = wt_ExpectedState t" "we_ToState (logged_event env t run) = wt_ResultingState t"
  "we_EventType (logged_event env t run) = we_EventType (wt_Event t)"
  "we_ActorPrincipalID (logged_event env t run) = we_ActorPrincipalID (wt_Event t)"
  "we_ActorRole (logged_event env t run) = we_ActorRole (wt_Event t)"
  "we_EvidenceArtifact (logged_event env t run) = we_EvidenceArtifact (wt_Event t)"
  "we_IdempotencyKey (logged_event env t run) = we_IdempotencyKey (wt_Event t)"
  by (simp_all add: logged_event_def)

text \<open>A transition of the service, with the decisions it rests on.\<close>

lemma TransitionWorkflow_cases:
  assumes "TransitionWorkflow az env st seen db inp = (r, st', db')"
  obtains (rejected) e where "r = Inl e" "db' = db"
  | (repository) p run sp role art decision where
      "env_ctx env = Some p" "getWorkflowByID seen (trim_space (ti_WorkflowID inp)) = Inr run"
      "check_transition p run (to_upper (trim_space (ti_EventType inp))) (trim_space (ti_Evidence inp)) = Inr (sp, role)"
      "authorizeUntraced az (transition_request p run (to_upper (trim_space (ti_EventType inp)))
         (trim_space (ti_Evidence inp)) sp) = Inr decision"
      "trim_space (ti_Evidence inp) \<noteq> [] \<longrightarrow> art \<noteq> None"
      "repo_TransitionWorkflow env db (proposedTransition env p run inp sp role art decision) = (r, db')"
proof -
  have "art \<noteq> None" if "put_evidence st ev = (Inr art, st')" "ev \<noteq> []" for st ev art st'
    using that by (auto simp: put_evidence_def split: prod.splits sum.splits)
  note evidence = this
  show ?thesis
  proof (cases "db' = db \<and> (\<exists>e. r = Inl e)")
    case True
    then show ?thesis using that(1) by blast
  next
    case False
    note eq = assms [unfolded TransitionWorkflow_def Let_def]
    obtain p where p: "RequirePrincipal (env_ctx env) = Inr p"
      using eq False by (cases "RequirePrincipal (env_ctx env)") auto
    obtain run where run: "getWorkflowByID seen (trim_space (ti_WorkflowID inp)) = Inr run"
      using eq False p by (cases "getWorkflowByID seen (trim_space (ti_WorkflowID inp))") (auto split: if_split_asm)
    obtain sp role where chk: "check_transition p run (to_upper (trim_space (ti_EventType inp)))
        (trim_space (ti_Evidence inp)) = Inr (sp, role)"
      using eq False p run by (cases "check_transition p run (to_upper (trim_space (ti_EventType inp)))
        (trim_space (ti_Evidence inp))") (auto split: if_split_asm)
    obtain decision where dec: "authorizeUntraced az (transition_request p run
        (to_upper (trim_space (ti_EventType inp))) (trim_space (ti_Evidence inp)) sp) = Inr decision"
      using eq False p run chk by (cases "authorizeUntraced az (transition_request p run
        (to_upper (trim_space (ti_EventType inp))) (trim_space (ti_Evidence inp)) sp)") (auto split: if_split_asm)
    obtain art st1 where art: "put_evidence st (trim_space (ti_Evidence inp)) = (Inr art, st1)"
      using eq False p run chk dec by (auto split: if_split_asm prod.split_asm sum.split_asm)
    have repo: "repo_TransitionWorkflow env db (proposedTransition env p run inp sp role art decision) = (r, db')"
      using eq False p run chk dec art by (auto split: if_split_asm prod.split_asm)
    have "env_ctx env = Some p" using p by (simp add: RequirePrincipal_Ok)
    then show ?thesis using run chk dec evidence [OF art] repo by (intro that(2)) auto
  qed
qed

section \<open>The event log as the specification\<close>

text \<open>
  What a log says of its run: the state, the implementer and the QA validator after replaying the
  events through the table, each by an actor in one of the roles its transition names and with the
  evidence it requires. \<open>None\<close> is a log that no run of the machine can have.
\<close>

type_synonym log_state = "string \<times> string \<times> string"

definition apply_event :: "log_state option \<Rightarrow> workflow_event \<Rightarrow> log_state option" where
  "apply_event st e = (case st of None \<Rightarrow> None
     | Some (s, impl, qa) \<Rightarrow> (case transitionFor s (we_EventType e) of
         None \<Rightarrow> None
       | Some sp \<Rightarrow>
           if we_FromState e = s \<and> we_ToState e = spec_to sp \<and> we_ActorRole e \<in> set (spec_roles sp)
              \<and> (spec_evidenceRequired sp \<longrightarrow> we_EvidenceArtifact e \<noteq> None)
           then Some (spec_to sp,
                  if spec_setImplementedBy sp then we_ActorPrincipalID e else impl,
                  if spec_setQAValidatedBy sp then we_ActorPrincipalID e else qa)
           else None))"

definition replay :: "workflow_event list \<Rightarrow> log_state option" where
  "replay es = (case es of [] \<Rightarrow> None
     | e # rest \<Rightarrow> foldl apply_event
         (if we_EventType e = ''WORKFLOW_CREATED'' \<and> we_ToState e = ''intake'' then Some (''intake'', [], []) else None) rest)"

lemma replay_snoc: "es \<noteq> [] \<Longrightarrow> replay (es @ [e]) = apply_event (replay es) e"
  by (cases es) (auto simp: replay_def)

definition run_log :: "wf_db \<Rightarrow> string \<Rightarrow> workflow_event list" where
  "run_log db wid = filter (\<lambda>e. we_WorkflowID e = wid) (wf_events db)"

definition run_ok :: "wf_db \<Rightarrow> workflow_run \<Rightarrow> bool" where
  "run_ok db r \<longleftrightarrow>
     replay (run_log db (wf_ID r)) = Some (wf_State r, wf_ImplementedBy r, wf_QAValidatedBy r)
     \<and> wf_Version r = int (length (run_log db (wf_ID r)))
     \<and> map we_Sequence (run_log db (wf_ID r)) = map int [1 ..< Suc (length (run_log db (wf_ID r)))]"

definition tables_ok :: "wf_db \<Rightarrow> bool" where
  "tables_ok db \<longleftrightarrow> distinct (map wf_ID (wf_runs db)) \<and> (\<forall>r \<in> set (wf_runs db). run_ok db r)
     \<and> (\<forall>e \<in> set (wf_events db). we_WorkflowID e \<in> wf_ID ` set (wf_runs db))"

text \<open>
  What a later database keeps of an earlier one: no run disappears, versions only grow, a run at
  the same version is the same run, a run in a terminal state stays as it is, and logs are extended.
\<close>

definition same_run :: "workflow_run \<Rightarrow> workflow_run \<Rightarrow> bool" where
  "same_run r r' \<longleftrightarrow> wf_State r' = wf_State r \<and> wf_ImplementedBy r' = wf_ImplementedBy r
     \<and> wf_QAValidatedBy r' = wf_QAValidatedBy r \<and> wf_Version r' = wf_Version r"

definition run_later :: "workflow_run \<Rightarrow> workflow_run \<Rightarrow> bool" where
  "run_later r r' \<longleftrightarrow> wf_ID r' = wf_ID r \<and> wf_ProjectID r' = wf_ProjectID r \<and> wf_Version r \<le> wf_Version r'
     \<and> (wf_Version r' = wf_Version r \<or> terminalState (wf_State r) \<longrightarrow> same_run r r')"

definition wf_later :: "wf_db \<Rightarrow> wf_db \<Rightarrow> bool" where
  "wf_later d d' \<longleftrightarrow>
     (\<forall>wid r. find_row wf_ID wid (wf_runs d) = Some r
        \<longrightarrow> (\<exists>r'. find_row wf_ID wid (wf_runs d') = Some r' \<and> run_later r r'))
     \<and> prefix (wf_events d) (wf_events d')"

lemma run_later_refl: "run_later r r"
  by (simp add: run_later_def same_run_def)

lemma run_later_trans: "run_later a b \<Longrightarrow> run_later b c \<Longrightarrow> run_later a c"
  by (auto simp: run_later_def same_run_def)

lemma wf_later_refl: "wf_later d d"
  by (auto simp: wf_later_def run_later_refl)

lemma wf_later_trans: "wf_later a b \<Longrightarrow> wf_later b c \<Longrightarrow> wf_later a c"
  unfolding wf_later_def by (meson prefix_order.trans run_later_trans)

lemma run_log_append:
  "run_log (db\<lparr>wf_runs := rs, wf_events := wf_events db @ [e], wf_artifacts := arts\<rparr>) wid
     = run_log db wid @ (if we_WorkflowID e = wid then [e] else [])"
  by (simp add: run_log_def)

lemma run_ok_log_nonempty: "run_ok db r \<Longrightarrow> run_log db (wf_ID r) \<noteq> []"
  by (auto simp: run_ok_def replay_def)

section \<open>One transition keeps the tables consistent\<close>

lemma repo_transition_row:
  fixes env :: call_env and arts :: "artifact list"
  assumes ok: "tables_ok db"
    and read: "getWorkflowByID db (wt_WorkflowID t) = Inr run"
    and sp: "transitionFor (wf_State run) (we_EventType (wt_Event t)) = Some sp"
    and t: "wt_ExpectedState t = wf_State run" "wt_ResultingState t = spec_to sp"
      "wt_SetImplementedBy t = spec_setImplementedBy sp" "wt_SetQAValidatedBy t = spec_setQAValidatedBy sp"
      "we_ActorRole (wt_Event t) \<in> set (spec_roles sp)"
      "spec_evidenceRequired sp \<longrightarrow> we_EvidenceArtifact (wt_Event t) \<noteq> None"
  defines "db' \<equiv> db\<lparr>wf_runs := put_row wf_ID (moved_run env t run) (wf_runs db),
                     wf_events := wf_events db @ [logged_event env t run], wf_artifacts := arts\<rparr>"
  shows "tables_ok db'" and "wf_later db db'"
proof -
  obtain raw g where raw: "find_row wf_ID (wt_WorkflowID t) (wf_runs db) = Some raw"
    and run: "run = raw\<lparr>wf_Governance := g\<rparr>"
    using read by (auto simp: getWorkflowByID_Ok)
  then have mem: "raw \<in> set (wf_runs db)" and wid: "wf_ID raw = wt_WorkflowID t"
    by (auto dest: find_row_SomeD)
  have rawok: "run_ok db raw" using ok mem by (auto simp: tables_ok_def)
  have logs: "run_log db' wid' = run_log db wid' @ (if wt_WorkflowID t = wid' then [logged_event env t run] else [])" for wid'
    by (simp add: db'_def run_log_append)
  have moved: "run_ok db' (moved_run env t run)"
    using rawok sp t wid run run_ok_log_nonempty [OF rawok]
    by (simp add: run_ok_def logs replay_snoc apply_event_def moved_run_def)
  have other: "run_ok db' r" if "r \<in> set (wf_runs db)" "wf_ID r \<noteq> wt_WorkflowID t" for r
    using ok that by (auto simp: tables_ok_def run_ok_def logs)
  have rows: "set (wf_runs db') \<subseteq> insert (moved_run env t run) {r \<in> set (wf_runs db). wf_ID r \<noteq> wt_WorkflowID t}"
    using wid run by (auto simp: db'_def put_row_def)
  show "tables_ok db'"
    unfolding tables_ok_def
  proof (intro conjI)
    show "distinct (map wf_ID (wf_runs db'))" using ok by (simp add: db'_def tables_ok_def)
    show "\<forall>r \<in> set (wf_runs db'). run_ok db' r" using rows moved other by blast
    show "\<forall>e \<in> set (wf_events db'). we_WorkflowID e \<in> wf_ID ` set (wf_runs db')"
      using ok wid imageI [OF mem, of wf_ID] by (auto simp: db'_def tables_ok_def)
  qed
  have "\<not> terminalState (wf_State run)" using sp no_transition_from_terminal by fastforce
  then have "run_later raw (moved_run env t run)"
    using run by (simp add: run_later_def)
  then show "wf_later db db'"
    using raw wid run
    by (auto simp: wf_later_def db'_def find_row_put run_later_refl)
qed

text \<open>Creating a run appends a fresh row and its first event, or changes no run.\<close>

lemma repo_CreateWorkflow_cases:
  assumes "repo_CreateWorkflow env db run event = (r, db')"
  obtains (unchanged) "wf_runs db' = wf_runs db" "wf_events db' = wf_events db"
  | (created) "find_row wf_ID (wf_ID run) (wf_runs db) = None"
      "wf_runs db' = wf_runs db @ [inserted_run env run]"
      "wf_events db' = wf_events db @ [inserted_event env run event]"
proof -
  have runs: "wf_runs (ensure_project db run) = wf_runs db" "wf_events (ensure_project db run) = wf_events db"
    by (simp_all add: ensure_project_def)
  show ?thesis
  proof (cases "wf_runs db' = wf_runs db \<and> wf_events db' = wf_events db")
    case False
    with assms [unfolded repo_CreateWorkflow_def Let_def] runs show ?thesis
      by (intro that(2)) (auto split: option.split_asm sum.split_asm if_split_asm)
  qed (auto intro: that(1))
qed

lemma inserted_simps [simp]:
  "wf_ID (inserted_run env run) = wf_ID run" "wf_Version (inserted_run env run) = 1"
  "wf_State (inserted_run env run) = wf_State run" "wf_ImplementedBy (inserted_run env run) = []"
  "wf_QAValidatedBy (inserted_run env run) = []"
  "we_WorkflowID (inserted_event env run event) = wf_ID run" "we_Sequence (inserted_event env run event) = 1"
  "we_EventType (inserted_event env run event) = we_EventType event"
  "we_ToState (inserted_event env run event) = we_ToState event"
  by (simp_all add: inserted_run_def inserted_event_def)

lemma tables_ok_cong:
  "wf_runs db' = wf_runs db \<Longrightarrow> wf_events db' = wf_events db \<Longrightarrow> tables_ok db \<Longrightarrow> tables_ok db' \<and> wf_later db db'"
  by (simp add: tables_ok_def run_ok_def run_log_def wf_later_def run_later_refl)

lemma repo_create_row:
  assumes ok: "tables_ok db" and step: "repo_CreateWorkflow env db run event = (r, db')"
    and init: "wf_State run = ''intake''" "we_EventType event = ''WORKFLOW_CREATED''" "we_ToState event = ''intake''"
  shows "tables_ok db' \<and> wf_later db db'"
  using step
proof (cases rule: repo_CreateWorkflow_cases)
  case unchanged
  then show ?thesis using tables_ok_cong ok by blast
next
  case created
  have fresh: "wf_ID run \<notin> wf_ID ` set (wf_runs db)"
    using created(1) by (simp add: find_row_None)
  have "we_WorkflowID e \<noteq> wf_ID run" if "e \<in> set (wf_events db)" for e
    using ok fresh that by (metis tables_ok_def)
  then have empty: "run_log db (wf_ID run) = []"
    by (simp add: run_log_def filter_empty_conv)
  have logs: "run_log db' wid = run_log db wid @ (if wf_ID run = wid then [inserted_event env run event] else [])" for wid
    using created by (simp add: run_log_def)
  have "run_ok db' (inserted_run env run)"
    using init by (simp add: run_ok_def logs empty replay_def)
  moreover have "run_ok db' x" if "x \<in> set (wf_runs db)" for x
    using ok that fresh by (auto simp: tables_ok_def run_ok_def logs)
  ultimately show ?thesis
    using ok created fresh
    by (auto simp: tables_ok_def wf_later_def find_row_append run_later_refl)
qed

section \<open>Interleaved service calls\<close>

text \<open>
  A history is the sequence of database states, newest first. A call to create or move a run commits
  in the newest state; the transition reads its run in any state of the history. Administrators
  change governance policies.
\<close>

inductive wf_step :: "wf_db list \<Rightarrow> wf_db list \<Rightarrow> bool" where
  create: "CreateWorkflow az env st db inp = (r, st', db') \<Longrightarrow> wf_step (db # hist) (db' # db # hist)"
| transition: "seen \<in> set (db # hist) \<Longrightarrow> TransitionWorkflow az env st seen db inp = (r, st', db')
     \<Longrightarrow> wf_step (db # hist) (db' # db # hist)"
| govern: "wf_step (db # hist) (db\<lparr>wf_policies := ps\<rparr> # db # hist)"

inductive_cases wf_stepE: "wf_step h h'"

definition wf_start :: "wf_db list \<Rightarrow> bool" where
  "wf_start h \<longleftrightarrow> (\<exists>db. h = [db] \<and> wf_runs db = [] \<and> wf_events db = [])"

definition wf_inv :: "wf_db list \<Rightarrow> bool" where
  "wf_inv h \<longleftrightarrow> h \<noteq> [] \<and> tables_ok (hd h) \<and> (\<forall>d \<in> set h. wf_later d (hd h))"

definition hist_later :: "wf_db list \<Rightarrow> wf_db list \<Rightarrow> bool" where
  "hist_later h h' \<longleftrightarrow> (h \<noteq> [] \<longrightarrow> h' \<noteq> [] \<and> wf_later (hd h) (hd h'))"

lemma CreateWorkflow_tables:
  assumes step: "CreateWorkflow az env st db inp = (r, st', db')" and ok: "tables_ok db"
  shows "tables_ok db' \<and> wf_later db db'"
proof -
  have "db' = db \<or> (\<exists>p inp a role d. repo_CreateWorkflow env db (new_run env p inp a) (created_event env p inp role d) = (r, db'))"
    using step [unfolded CreateWorkflow_def Let_def]
    by (auto split: sum.splits if_splits option.splits prod.splits)
  then show ?thesis
    using repo_create_row [OF ok] ok wf_later_refl by (auto simp: new_run_def created_event_def)
qed

lemma TransitionWorkflow_tables:
  assumes step: "TransitionWorkflow az env st seen db inp = (r, st', db')" and ok: "tables_ok db"
  shows "tables_ok db' \<and> wf_later db db'"
  using step
proof (cases rule: TransitionWorkflow_cases)
  case rejected
  then show ?thesis using ok by (simp add: wf_later_refl)
next
  case (repository p run sp role art decision)
  from repository(6) show ?thesis
  proof (cases rule: repo_TransitionWorkflow_cases)
    case replayed
    then show ?thesis using ok by (simp add: wf_later_refl)
  next
    case (committed cur arts)
    have "role \<in> set (spec_roles sp)"
      using repository(3) by (auto simp: check_transition_Ok dest: selectRole_Some)
    then show ?thesis
      using committed repository(3,5) repo_transition_row [OF ok committed(1), where sp = sp and env = env and arts = arts]
      by (simp add: check_transition_Ok)
  qed
qed

lemma wf_step_tables:
  assumes "wf_step h h'" and "tables_ok (hd h)"
  shows "\<exists>db'. h' = db' # h \<and> tables_ok db' \<and> wf_later (hd h) db'"
  using assms
  by (cases rule: wf_step.cases)
    (auto dest: CreateWorkflow_tables TransitionWorkflow_tables simp: tables_ok_cong)

interpretation wf: history_system wf_start wf_step wf_inv hist_later
proof
  fix h assume "wf_start h"
  then show "wf_inv h" by (auto simp: wf_start_def wf_inv_def tables_ok_def wf_later_refl)
next
  fix h h' assume "wf_inv h" "wf_step h h'"
  then show "wf_inv h'"
    using wf_step_tables [of h h'] by (auto simp: wf_inv_def wf_later_refl) (blast intro: wf_later_trans)
next
  fix h show "hist_later h h" by (simp add: hist_later_def wf_later_refl)
next
  fix h t u assume "hist_later h t" "hist_later t u"
  then show "hist_later h u" by (auto simp: hist_later_def intro: wf_later_trans)
next
  fix h h' assume "wf_inv h" "wf_step h h'"
  then show "hist_later h h'"
    using wf_step_tables [of h h'] by (auto simp: wf_inv_def hist_later_def)
qed

section \<open>Which transitions lead to completion\<close>

lemma into_completed:
  assumes "transitionFor s e = Some sp"
  shows "(spec_to sp = ''qa_validated'' \<longrightarrow> s = ''awaiting_human_qa'' \<and> e = ''QA_VALIDATED'' \<and> spec_roles sp = [''qa'']
            \<and> spec_evidenceRequired sp \<and> spec_setQAValidatedBy sp)
       \<and> (spec_to sp = ''awaiting_product_approval'' \<longrightarrow> s = ''qa_validated'' \<and> \<not> spec_setQAValidatedBy sp)
       \<and> (spec_to sp = ''promotion_pending'' \<longrightarrow> s = ''awaiting_product_approval'' \<and> e = ''PRODUCT_APPROVED''
            \<and> spec_roles sp = [''product_owner''] \<and> spec_evidenceRequired sp \<and> \<not> spec_setQAValidatedBy sp)
       \<and> (spec_to sp = ''completed'' \<longrightarrow> s = ''promotion_pending'' \<and> \<not> spec_setQAValidatedBy sp)
       \<and> (e = ''IMPLEMENTATION_COMPLETED'' \<longrightarrow> spec_to sp = ''verifying'')"
  by (rule table_rowsI [OF _ _ assms]) (auto simp: table_simps commonTransition_def split: if_splits)

text \<open>
  The gates a log has passed: the QA validation by \<open>q\<close> with no later implementation, and after it the
  product approval.
\<close>

definition qa_event :: "workflow_event \<Rightarrow> string \<Rightarrow> bool" where
  "qa_event e actor \<longleftrightarrow> we_EventType e = ''QA_VALIDATED'' \<and> we_ActorRole e = ''qa''
     \<and> we_EvidenceArtifact e \<noteq> None \<and> we_ActorPrincipalID e = actor"

definition approval_event :: "workflow_event \<Rightarrow> bool" where
  "approval_event e \<longleftrightarrow> we_EventType e = ''PRODUCT_APPROVED'' \<and> we_ActorRole e = ''product_owner''
     \<and> we_EvidenceArtifact e \<noteq> None"

definition reworked :: "workflow_event list \<Rightarrow> bool" where
  "reworked es \<longleftrightarrow> (\<exists>e \<in> set es. we_EventType e = ''IMPLEMENTATION_COMPLETED'')"

definition qa_passed :: "workflow_event list \<Rightarrow> string \<Rightarrow> bool" where
  "qa_passed es actor \<longleftrightarrow> (\<exists>before q after. es = before @ q # after \<and> qa_event q actor \<and> \<not> reworked after)"

definition approved :: "workflow_event list \<Rightarrow> string \<Rightarrow> bool" where
  "approved es actor \<longleftrightarrow>
     (\<exists>before a after. es = before @ a # after \<and> qa_passed before actor \<and> approval_event a \<and> \<not> reworked after)"

lemma reworked_snoc: "reworked (es @ [e]) \<longleftrightarrow> reworked es \<or> we_EventType e = ''IMPLEMENTATION_COMPLETED''"
  by (auto simp: reworked_def)

lemma qa_passed_snoc: "qa_passed es q \<Longrightarrow> we_EventType e \<noteq> ''IMPLEMENTATION_COMPLETED'' \<Longrightarrow> qa_passed (es @ [e]) q"
  unfolding qa_passed_def by (metis append.assoc append_Cons reworked_snoc)

lemma approved_snoc: "approved es q \<Longrightarrow> we_EventType e \<noteq> ''IMPLEMENTATION_COMPLETED'' \<Longrightarrow> approved (es @ [e]) q"
  unfolding approved_def by (metis append.assoc append_Cons reworked_snoc)

lemma qa_passed_now: "qa_event e q \<Longrightarrow> qa_passed (es @ [e]) q"
  unfolding qa_passed_def by (rule exI [of _ es]) (auto simp: reworked_def)

lemma approved_now: "qa_passed es q \<Longrightarrow> approval_event e \<Longrightarrow> approved (es @ [e]) q"
  unfolding approved_def by (rule exI [of _ es]) (auto simp: reworked_def)

lemma replay_gates:
  assumes "replay es = Some (s, impl, qa)"
  shows "(s \<in> {''qa_validated'', ''awaiting_product_approval''} \<longrightarrow> qa_passed es qa)
       \<and> (s \<in> {''promotion_pending'', ''completed''} \<longrightarrow> approved es qa)"
  using assms
proof (induction es arbitrary: s impl qa rule: rev_induct)
  case (snoc e es)
  show ?case
  proof (cases "es = []")
    case True
    with snoc.prems show ?thesis by (auto simp: replay_def split: if_splits)
  next
    case False
    with snoc.prems obtain s0 impl0 qa0 sp where st: "replay es = Some (s0, impl0, qa0)"
      and sp: "transitionFor s0 (we_EventType e) = Some sp" "spec_to sp = s"
        "qa = (if spec_setQAValidatedBy sp then we_ActorPrincipalID e else qa0)"
        "we_ActorRole e \<in> set (spec_roles sp)" "spec_evidenceRequired sp \<longrightarrow> we_EvidenceArtifact e \<noteq> None"
      by (auto simp: replay_snoc apply_event_def split: option.splits if_split_asm)
    note t = into_completed [OF sp(1)] and ih = snoc.IH [OF st]
    have noimp: "we_EventType e \<noteq> ''IMPLEMENTATION_COMPLETED''" if "s \<noteq> ''verifying''"
      using t that sp(2) by blast
    consider (val) "s = ''qa_validated''" | (wait) "s = ''awaiting_product_approval''"
      | (pend) "s = ''promotion_pending''" | (fin) "s = ''completed''"
      | (other) "s \<notin> {''qa_validated'', ''awaiting_product_approval'', ''promotion_pending'', ''completed''}"
      by blast
    then show ?thesis
    proof cases
      case val
      then have "qa_event e qa" using t sp by (simp add: qa_event_def)
      then show ?thesis using val qa_passed_now by simp
    next
      case wait
      then have "qa_passed es qa" using t sp ih by simp
      then have "qa_passed (es @ [e]) qa" using noimp wait by (simp add: qa_passed_snoc)
      then show ?thesis using wait by simp
    next
      case pend
      then have "approval_event e" "qa_passed es qa" using t sp ih by (simp_all add: approval_event_def)
      then show ?thesis using pend approved_now by simp
    next
      case fin
      then have "approved es qa" using t sp ih by simp
      then have "approved (es @ [e]) qa" using noimp fin by (simp add: approved_snoc)
      then show ?thesis using fin by simp
    qed simp
  qed
qed (simp add: replay_def)

section \<open>A fresh, permitted call commits\<close>

lemma fresh_transition_commits:
  assumes ok: "tables_ok db" and p: "env_ctx env = Some p" "p_ID p \<noteq> []"
    and read: "getWorkflowByID db (trim_space (ti_WorkflowID inp)) = Inr run"
    and inp: "trim_space (ti_WorkflowID inp) \<noteq> []" "ti_ExpectedVersion inp = wf_Version run"
      "to_upper (trim_space (ti_EventType inp)) = ev" "ev \<noteq> []" "trim_space (ti_IdempotencyKey inp) \<noteq> []"
    and chk: "check_transition p run ev (trim_space (ti_Evidence inp)) = Inr (sp, role)"
    and az: "authorizeUntraced az (transition_request p run ev (trim_space (ti_Evidence inp)) sp) = Inr d"
    and put: "put_evidence st (trim_space (ti_Evidence inp)) = (Inr art, st')"
    and fresh: "\<forall>e \<in> set (wf_events db). we_ID e \<noteq> env_id env 0
      \<and> (we_WorkflowID e = wf_ID run \<longrightarrow> we_IdempotencyKey e \<noteq> trim_space (ti_IdempotencyKey inp))"
  defines "t \<equiv> proposedTransition env p run inp sp role art d"
  shows "\<exists>arts. TransitionWorkflow az env st db db inp = (Inr (moved_run env t run, logged_event env t run), st',
      db\<lparr>wf_runs := put_row wf_ID (moved_run env t run) (wf_runs db),
         wf_events := wf_events db @ [logged_event env t run], wf_artifacts := arts\<rparr>)"
proof -
  obtain raw g where raw: "find_row wf_ID (trim_space (ti_WorkflowID inp)) (wf_runs db) = Some raw"
    "map_of (wf_policies db) (wf_ProjectID raw) = Some g" "run = raw\<lparr>wf_Governance := g\<rparr>"
    using read by (auto simp: getWorkflowByID_Ok)
  have wid: "trim_space (ti_WorkflowID inp) = wf_ID run" and mem: "raw \<in> set (wf_runs db)"
    using raw by (auto dest: find_row_SomeD)
  have rok: "run_ok db raw" using ok mem by (simp add: tables_ok_def)
  have seq: "we_Sequence e \<noteq> wf_Version run + 1" if "e \<in> set (wf_events db)" "we_WorkflowID e = wf_ID run" for e
  proof -
    have "we_Sequence e \<in> set (map we_Sequence (run_log db (wf_ID raw)))"
      using that raw(3) by (simp add: run_log_def)
    also have "map we_Sequence (run_log db (wf_ID raw)) = map int [1 ..< Suc (length (run_log db (wf_ID raw)))]"
      using rok by (simp only: run_ok_def)
    finally show ?thesis using rok raw(3) by (auto simp: run_ok_def)
  qed
  have v: "wf_Version run \<ge> 1" using rok raw(3) run_ok_log_nonempty [OF rok]
    by (simp add: run_ok_def Suc_le_eq)
  have nokey: "find (\<lambda>e. we_WorkflowID e = wf_ID run \<and> we_IdempotencyKey e = trim_space (ti_IdempotencyKey inp)) (wf_events db) = None"
    using fresh by (auto simp: find_None_iff)
  have noid: "find_row we_ID (env_id env 0) (wf_events db) = None"
    using fresh by (auto simp: find_row_None)
  have again: "getWorkflowByID (db\<lparr>wf_runs := put_row wf_ID (moved_run env t run) (wf_runs db),
         wf_events := es, wf_artifacts := arts\<rparr>) (wf_ID run) = Inr (moved_run env t run)" for es arts
    using raw wid by (auto simp: getWorkflowByID_Ok find_row_put moved_run_def)
  have ids: "wt_WorkflowID t = wf_ID run" "we_ID (wt_Event t) = env_id env 0" "wt_ExpectedVersion t = wf_Version run"
    "wt_ExpectedState t = wf_State run" "we_IdempotencyKey (wt_Event t) = trim_space (ti_IdempotencyKey inp)"
    using inp(2) by (simp_all add: t_def) (simp add: proposedTransition_def)
  have "\<exists>arts. repo_TransitionWorkflow env db t = (Inr (moved_run env t run, logged_event env t run),
      db\<lparr>wf_runs := put_row wf_ID (moved_run env t run) (wf_runs db),
         wf_events := wf_events db @ [logged_event env t run], wf_artifacts := arts\<rparr>)"
    using read seq again by (auto simp: repo_TransitionWorkflow_def Let_def ids nokey noid wid)
  then show ?thesis
    using p read inp v chk az put
    by (auto simp: TransitionWorkflow_def Let_def RequirePrincipal_def PrincipalFromContext_def t_def)
qed

section \<open>Properties\<close>

text \<open>
  C21: The stored workflow run refines its event log. In every state that any interleaving of service
  calls reaches, replaying the log of a run through the transition table (each step by an actor in a
  permitted role and with the evidence required) gives the run's state, implementer and QA validator,
  the version counts the events, and the sequence numbers are 1, 2, ... without a gap.
\<close>

theorem workflow_refines_log:
  assumes "reach wf_start wf_step h" and "r \<in> set (wf_runs (hd h))"
  shows "replay (run_log (hd h) (wf_ID r)) = Some (wf_State r, wf_ImplementedBy r, wf_QAValidatedBy r)
    \<and> wf_Version r = int (length (run_log (hd h) (wf_ID r)))
    \<and> map we_Sequence (run_log (hd h) (wf_ID r)) = map int [1 ..< Suc (length (run_log (hd h) (wf_ID r)))]"
  using wf.reach_inv [OF assms(1)] assms(2) by (auto simp: wf_inv_def tables_ok_def run_ok_def)

text \<open>
  A run in a terminal state never changes again, and no event is ever removed or rewritten: along
  any continuation of a reachable history the run keeps its state, version, implementer and QA
  validator, and the event table is only appended to.
\<close>

theorem terminal_runs_are_final:
  assumes "reach wf_start wf_step h" and "wf_step\<^sup>*\<^sup>* h h'"
    and "find_row wf_ID wid (wf_runs (hd h)) = Some r" and "terminalState (wf_State r)"
  shows "(\<exists>r'. find_row wf_ID wid (wf_runs (hd h')) = Some r' \<and> same_run r r')
    \<and> prefix (wf_events (hd h)) (wf_events (hd h'))"
proof -
  have "h \<noteq> []" using wf.reach_inv [OF assms(1)] by (simp add: wf_inv_def)
  then have "wf_later (hd h) (hd h')"
    using wf.reach_later [OF assms(1,2)] by (simp add: hist_later_def)
  with assms(3,4) show ?thesis
    by (auto simp: wf_later_def run_later_def)
qed

text \<open>
  C23: Completion needs both human gates, in order. The log of every completed run (and of one pending
  promotion) has a QA validation in the role qa with evidence by the recorded validator and, after it,
  a product approval in the role product_owner with evidence, and no implementation was completed
  after that validation.
\<close>

theorem completed_needs_gates:
  assumes "reach wf_start wf_step h" and "r \<in> set (wf_runs (hd h))"
    and "wf_State r \<in> {''promotion_pending'', ''completed''}"
  shows "approved (run_log (hd h) (wf_ID r)) (wf_QAValidatedBy r)"
proof -
  have "replay (run_log (hd h) (wf_ID r)) = Some (wf_State r, wf_ImplementedBy r, wf_QAValidatedBy r)"
    using wf.reach_inv [OF assms(1)] assms(2) by (auto simp: wf_inv_def tables_ok_def run_ok_def)
  from replay_gates [OF this] assms(3) show ?thesis by blast
qed

text \<open>A committed transition of the service, the check it passed and the rows it wrote.\<close>

lemma TransitionWorkflow_committed:
  assumes "TransitionWorkflow az env st seen db inp = (Inr (u, e), st', db')" and "e \<notin> set (wf_events db)"
  obtains p run sp role art d cur where
    "env_ctx env = Some p" "getWorkflowByID seen (trim_space (ti_WorkflowID inp)) = Inr run"
    "check_transition p run (to_upper (trim_space (ti_EventType inp))) (trim_space (ti_Evidence inp)) = Inr (sp, role)"
    "authorizeUntraced az (transition_request p run (to_upper (trim_space (ti_EventType inp)))
       (trim_space (ti_Evidence inp)) sp) = Inr d"
    "trim_space (ti_Evidence inp) \<noteq> [] \<longrightarrow> art \<noteq> None"
    "getWorkflowByID db (wf_ID run) = Inr cur" "wf_Version cur = ti_ExpectedVersion inp" "wf_State cur = wf_State run"
    "e = logged_event env (proposedTransition env p run inp sp role art d) cur"
  using assms(1)
proof (cases rule: TransitionWorkflow_cases)
  case (repository p run sp role art d)
  from repository(6) show ?thesis
  proof (cases rule: repo_TransitionWorkflow_cases)
    case replayed
    then show ?thesis using assms(2) by blast
  next
    case (committed cur arts u')
    with repository that show ?thesis by simp
  qed
qed simp

lemma TransitionWorkflow_row:
  assumes "TransitionWorkflow az env st seen db inp = (Inr (u, e), st', db')" and "e \<notin> set (wf_events db)"
  shows "\<exists>cur. find_row wf_ID (we_WorkflowID e) (wf_runs db') = Some cur \<and> wf_Version cur = ti_ExpectedVersion inp + 1"
  using assms(1)
proof (cases rule: TransitionWorkflow_cases)
  case (repository p run sp role art d)
  from repository(6) show ?thesis
  proof (cases rule: repo_TransitionWorkflow_cases)
    case replayed
    then show ?thesis using assms(2) by blast
  next
    case (committed cur arts u')
    then have "find_row wf_ID (wf_ID run) (wf_runs db) \<noteq> None" "wf_ID cur = wf_ID run"
      by (auto simp: getWorkflowByID_Ok dest: find_row_SomeD)
    with committed show ?thesis by (simp add: find_row_put)
  qed
qed simp

lemma TransitionWorkflow_read_back:
  assumes "TransitionWorkflow az env st seen db inp = (Inr (u, e), st', db')" and "e \<notin> set (wf_events db)"
  shows "\<exists>run. getWorkflowByID db' (trim_space (ti_WorkflowID inp)) = Inr run \<and> wf_State run = we_ToState e"
  using assms(1)
proof (cases rule: TransitionWorkflow_cases)
  case (repository p run sp role art d)
  have wid: "wf_ID run = trim_space (ti_WorkflowID inp)"
    using repository(2) by (auto simp: getWorkflowByID_Ok dest: find_row_SomeD)
  from repository(6) show ?thesis
  proof (cases rule: repo_TransitionWorkflow_cases)
    case replayed
    then show ?thesis using assms(2) by blast
  next
    case (committed cur arts u')
    then obtain raw g where "find_row wf_ID (wf_ID run) (wf_runs db) = Some raw" "cur = raw\<lparr>wf_Governance := g\<rparr>"
      "map_of (wf_policies db) (wf_ProjectID raw) = Some g" "wf_ID raw = wf_ID run"
      by (auto simp: getWorkflowByID_Ok dest: find_row_SomeD)
    with committed wid show ?thesis by (auto simp: getWorkflowByID_Ok find_row_put)
  qed
qed simp

lemma table_event_not_repeatable:
  assumes "transitionFor s e = Some sp" and "e \<notin> {''CANCEL_REQUESTED'', ''CANCELLED'', ''BLOCKED'', ''FAILED''}"
  shows "transitionFor (spec_to sp) e = None"
proof -
  have "(s, e, sp) \<in> set table_rows"
    using transitionFor_cases [OF assms(1)] assms(2) by (auto simp: commonTransition_def split: if_splits)
  moreover have "\<forall>(s, e, sp) \<in> set table_rows.
      case map_of workflowTransitions (spec_to sp) of None \<Rightarrow> True | Some byEvent \<Rightarrow> map_of byEvent e = None"
    by (simp add: table_simps)
  ultimately have "case map_of workflowTransitions (spec_to sp) of None \<Rightarrow> True | Some byEvent \<Rightarrow> map_of byEvent e = None"
    by blast
  then show ?thesis using assms(2) by (auto simp: transitionFor_def commonTransition_def split: option.splits)
qed

text \<open>
  Human gates. A new event logged by a gate transition (plan approval, QA, product approval) was made by the
  authenticated human of the call in a role the table permits and that the principal holds in the run's
  project, carries evidence, and the policy decision point allowed the gate's action on the gate resource
  to that principal.
\<close>

theorem gate_decision:
  assumes "TransitionWorkflow az env st seen db inp = (Inr (u, e), st', db')" and "e \<notin> set (wf_events db)"
    and "transitionFor (we_FromState e) (we_EventType e) = Some sp" and "spec_gate sp \<noteq> []"
  shows "\<exists>p f req d run. env_ctx env = Some p \<and> we_ActorPrincipalID e = p_ID p \<and> p_Human p
           \<and> getWorkflowByID seen (we_WorkflowID e) = Inr run
           \<and> we_ActorRole e \<in> set (spec_roles sp) \<and> HasRole p (wf_ProjectID run) (we_ActorRole e)
           \<and> we_EvidenceArtifact e \<noteq> None
           \<and> az = Some f \<and> f req = Inr d \<and> dec_Allowed d \<and> auth_Principal req = p
           \<and> auth_ResourceKind req = ''workflow_gate'' \<and> auth_Action req = spec_action sp"
  using assms(1,2)
proof (cases rule: TransitionWorkflow_committed)
  case (1 p run sp' role art d cur)
  have "sp' = sp" using 1(3,8,9) assms(3) by (simp add: check_transition_Ok)
  moreover have "wf_ID run = trim_space (ti_WorkflowID inp)"
    using 1(2) by (auto simp: getWorkflowByID_Ok dest: find_row_SomeD)
  moreover have "spec_human sp" "spec_evidenceRequired sp" using gate_spec [OF assms(3,4)] by simp_all
  moreover have "role \<in> set (spec_roles sp')" "HasRole p (wf_ProjectID run) role"
    using 1(3) by (auto simp: check_transition_Ok dest: selectRole_Some)
  moreover have "\<exists>f. az = Some f \<and> f (transition_request p run (to_upper (trim_space (ti_EventType inp)))
       (trim_space (ti_Evidence inp)) sp') = Inr d \<and> dec_Allowed d"
    using 1(4) by (simp add: authorizeUntraced_Ok)
  ultimately show ?thesis
    using 1(1,2,3,5,9) assms(4)
    by (auto simp: check_transition_Ok transition_request_def
        intro!: exI [of _ "transition_request p run (to_upper (trim_space (ti_EventType inp)))
       (trim_space (ti_Evidence inp)) sp"])
qed

text \<open>
  C22: Separation of duties. In any reachable history, when the governance policy read with the run
  requires a distinct principal for the QA or the product-approval gate, a committed decision of that gate is by
  neither the implementer nor, for the product approval, the QA validator of the run as it was read. When the
  call was made for the version that was read, which the code does not check, the same holds of the
  implementer and QA validator that the database records at the time of the commit.
\<close>

theorem separation_of_duties:
  assumes "reach wf_start wf_step (db # hist)" and "seen \<in> set (db # hist)"
    and "TransitionWorkflow az env st seen db inp = (Inr (u, e), st', db')" and "e \<notin> set (wf_events db)"
    and "getWorkflowByID seen (we_WorkflowID e) = Inr run"
    and "transitionFor (we_FromState e) (we_EventType e) = Some sp"
    and "spec_gate sp \<in> {''qa'', ''product_approval''}"
    and "RequiresDistinctPrincipal (wf_Governance run) (spec_gate sp)"
    and "find_row wf_ID (we_WorkflowID e) (wf_runs db) = Some cur"
  shows "we_ActorPrincipalID e \<noteq> wf_ImplementedBy run
    \<and> (spec_gate sp = ''product_approval'' \<longrightarrow> we_ActorPrincipalID e \<noteq> wf_QAValidatedBy run)
    \<and> (wf_Version run = ti_ExpectedVersion inp \<longrightarrow> we_ActorPrincipalID e \<noteq> wf_ImplementedBy cur
         \<and> (spec_gate sp = ''product_approval'' \<longrightarrow> we_ActorPrincipalID e \<noteq> wf_QAValidatedBy cur))"
  using assms(3,4)
proof (cases rule: TransitionWorkflow_committed)
  case (1 p run' sp' role art d cur')
  have wid: "wf_ID run' = trim_space (ti_WorkflowID inp)"
    using 1(2) by (auto simp: getWorkflowByID_Ok dest: find_row_SomeD)
  then have eqs: "run' = run" "sp' = sp" using 1 assms(5,6) by (simp_all add: check_transition_Ok)
  then have own: "p_ID p \<notin> set (priorActors run (spec_gate sp))" "p_ID p \<noteq> []"
    using 1(3) assms(3,8) 1(1) by (auto simp: check_transition_Ok TransitionWorkflow_def RequirePrincipal_def
        PrincipalFromContext_def split: if_splits)
  obtain raw g where raw: "find_row wf_ID (we_WorkflowID e) (wf_runs seen) = Some raw" "run = raw\<lparr>wf_Governance := g\<rparr>"
    using assms(5) by (auto simp: getWorkflowByID_Ok)
  have "wf_later seen db" using wf.reach_inv [OF assms(1)] assms(2) by (auto simp: wf_inv_def)
  then have "run_later raw cur" using raw(1) assms(9) by (fastforce simp: wf_later_def)
  then have "same_run raw cur" if "wf_Version run = ti_ExpectedVersion inp"
    using that 1 raw assms(9) wid eqs by (auto simp: getWorkflowByID_Ok run_later_def)
  then show ?thesis
    using own assms(7) 1(9) raw(2) by (auto simp: same_run_def priorActors_def Let_def split: if_splits)
qed

text \<open>
  No lost update. Two transitions of the same run that both commit a new event, at any two moments
  of a reachable history, were made for different versions, the later one for the higher: each version
  of a run is left by at most one transition.
\<close>

theorem no_lost_update:
  assumes "reach wf_start wf_step (db # hist)" and "seen \<in> set (db # hist)"
    and "TransitionWorkflow az env st seen db inp = (Inr (u, e), st', db')" and "e \<notin> set (wf_events db)"
    and "wf_step\<^sup>*\<^sup>* (db' # db # hist) (db2 # hist2)"
    and "TransitionWorkflow az2 env2 st2 seen2 db2 inp2 = (Inr (u2, e2), st2', db2')" and "e2 \<notin> set (wf_events db2)"
    and "we_WorkflowID e2 = we_WorkflowID e"
  shows "ti_ExpectedVersion inp < ti_ExpectedVersion inp2"
proof -
  have step: "wf_step (db # hist) (db' # db # hist)" by (rule wf_step.transition [OF assms(2,3)])
  with assms(1) have reach': "reach wf_start wf_step (db' # db # hist)" by (rule reach_step)
  obtain cur where cur: "find_row wf_ID (we_WorkflowID e) (wf_runs db') = Some cur"
    "wf_Version cur = ti_ExpectedVersion inp + 1"
    using TransitionWorkflow_row [OF assms(3,4)] by blast
  obtain raw where raw: "find_row wf_ID (we_WorkflowID e) (wf_runs db2) = Some raw"
    "wf_Version raw = ti_ExpectedVersion inp2"
    using assms(6,7) by (rule TransitionWorkflow_committed) (use assms(8) in \<open>auto simp: getWorkflowByID_Ok\<close>)
  have "wf_later db' db2" using wf.reach_later [OF reach' assms(5)] by (simp add: hist_later_def)
  then have "wf_Version cur \<le> wf_Version raw" using cur raw by (fastforce simp: wf_later_def run_later_def)
  then show ?thesis using cur raw by simp
qed

text \<open>
  A permitted call makes progress. On a run read in the current database, for its current version,
  with an unused idempotency key and event identifier, a transition that passes the checks, is allowed by
  the policy decision point and whose evidence can be stored, is committed: the run moves to the state of
  the table, its version grows by one and exactly one event is appended to the log.
\<close>

theorem permitted_transition_commits:
  assumes "reach wf_start wf_step (db # hist)" and "env_ctx env = Some p" and "p_ID p \<noteq> []"
    and "getWorkflowByID db (trim_space (ti_WorkflowID inp)) = Inr run"
    and "trim_space (ti_WorkflowID inp) \<noteq> []" and "ti_ExpectedVersion inp = wf_Version run"
    and "to_upper (trim_space (ti_EventType inp)) = ev" and "ev \<noteq> []" and "trim_space (ti_IdempotencyKey inp) \<noteq> []"
    and "check_transition p run ev (trim_space (ti_Evidence inp)) = Inr (sp, role)"
    and "authorizeUntraced az (transition_request p run ev (trim_space (ti_Evidence inp)) sp) = Inr d"
    and "put_evidence st (trim_space (ti_Evidence inp)) = (Inr art, st')"
    and "\<forall>e \<in> set (wf_events db). we_ID e \<noteq> env_id env 0
      \<and> (we_WorkflowID e = wf_ID run \<longrightarrow> we_IdempotencyKey e \<noteq> trim_space (ti_IdempotencyKey inp))"
  shows "\<exists>u e db'. TransitionWorkflow az env st db db inp = (Inr (u, e), st', db')
    \<and> wf_State u = spec_to sp \<and> wf_Version u = wf_Version run + 1
    \<and> run_log db' (wf_ID run) = run_log db (wf_ID run) @ [e] \<and> we_EventType e = ev"
proof -
  have "tables_ok db" using wf.reach_inv [OF assms(1)] by (simp add: wf_inv_def)
  from fresh_transition_commits [OF this assms(2-13)] show ?thesis
    using assms(7) by (auto simp: run_log_append)
qed

text \<open>
  C38: A retry is not answered with the committed event. After a transition of the table has been committed,
  repeating the same request in the resulting state is refused as invalid input, because the event is no
  longer permitted from the new state and that check precedes the lookup of the idempotency key.
\<close>

theorem table_retry_rejected:
  assumes "TransitionWorkflow az env st seen db inp = (Inr (u, e), st', db')" and "e \<notin> set (wf_events db)"
    and "we_EventType e \<notin> {''CANCEL_REQUESTED'', ''CANCELLED'', ''BLOCKED'', ''FAILED''}"
    and "env_ctx env2 = Some p2" and "p_ID p2 \<noteq> []"
  shows "TransitionWorkflow az env2 st2 db' db' inp = (Err ErrInvalidInput, st2, db')"
proof -
  obtain run where run: "getWorkflowByID db' (trim_space (ti_WorkflowID inp)) = Inr run" "wf_State run = we_ToState e"
    using TransitionWorkflow_read_back [OF assms(1,2)] by blast
  have "transitionFor (we_ToState e) (we_EventType e) = None" "we_EventType e = to_upper (trim_space (ti_EventType inp))"
    using assms(1,2)
    by (rule TransitionWorkflow_committed; use assms(3) table_event_not_repeatable in \<open>simp add: check_transition_Ok\<close>)+
  then have "check_transition p2 run (to_upper (trim_space (ti_EventType inp))) ev = Err ErrInvalidInput" for ev
    by (simp add: check_transition_def run)
  then show ?thesis
    using assms(4,5) run by (simp add: TransitionWorkflow_def Let_def RequirePrincipal_def PrincipalFromContext_def)
qed

end
