(* ===== verification/WorkflowExamples.thy ===== *)
theory WorkflowExamples
  imports WorkflowProps
begin

text \<open>
  Concrete workflows: a project in which one person holds every role drives a run from its creation to
  any state of the table. The histories built here are the instances at which the properties of
  \<open>WorkflowProps\<close> are applied.
\<close>

definition demo_person :: "string \<Rightarrow> principal" where
  "demo_person name =
     \<lparr>p_ID = name, p_DisplayName = name, p_Human = True,
      p_RoleBindings = [(''p'', [''controller'', ''development'', ''qa'', ''product_owner'', ''operations''])],
      p_CredentialID = [], p_Delegation = None\<rparr>"

definition demo_allow :: authorizer where
  "demo_allow = Some (\<lambda>_. Inr \<lparr>dec_Allowed = True, dec_CallID = ''c'', dec_PolicyVersion = ''1''\<rparr>)"

definition demo_env :: "string \<Rightarrow> nat \<Rightarrow> call_env" where
  "demo_env name k =
     \<lparr>env_ctx = Some (demo_person name), env_clock = (\<lambda>_. 7), env_db_now = 7,
      env_id = (\<lambda>n. replicate (k + n) (CHR ''i'') @ ''r'')\<rparr>"

definition demo_store :: local_store where
  "demo_store = \<lparr>store_root = ''/a'', store_files = Map.empty\<rparr>"

definition demo_start :: "governance_policy \<Rightarrow> wf_db" where
  "demo_start g = \<lparr>wf_runs = [], wf_events = [], wf_policies = [(''p'', g)], wf_artifacts = []\<rparr>"

definition demo_create :: create_workflow_input where
  "demo_create =
     \<lparr>cw_ProjectID = ''p'', cw_Kind = [], cw_Risk = ''low'', cw_DataClassification = ''internal'', cw_Request = ''do'',
      cw_OpenClawFlowID = [], cw_IdempotencyKey = ''k'', cw_Metadata = ''{}''\<rparr>"

definition demo_move :: "nat \<Rightarrow> string \<Rightarrow> transition_input" where
  "demo_move v ev =
     \<lparr>ti_WorkflowID = ''r'', ti_ExpectedVersion = int v, ti_EventType = ev,
      ti_IdempotencyKey = replicate (10 + v) (CHR ''k''), ti_Evidence = ''x'', ti_Payload = ''{}''\<rparr>"

definition demo_policy :: governance_policy where
  "demo_policy = (default_policy ''p'')\<lparr>gov_Profile := ''regulated''\<rparr>"

lemmas demo_defs = demo_person_def demo_allow_def demo_env_def demo_store_def demo_start_def demo_create_def
  demo_move_def

text \<open>A reachable history whose newest database has the run at a state and version, by given actors.\<close>

definition demo_at :: "governance_policy \<Rightarrow> string \<Rightarrow> nat \<Rightarrow> string \<Rightarrow> string \<Rightarrow> wf_db \<Rightarrow> wf_db list \<Rightarrow> bool" where
  "demo_at g s v impl qa db hist \<longleftrightarrow> reach wf_start wf_step (db # hist) \<and>
     (\<exists>run. getWorkflowByID db ''r'' = Inr run \<and> wf_State run = s \<and> wf_Version run = int v \<and> wf_ProjectID run = ''p''
        \<and> wf_ImplementedBy run = impl \<and> wf_QAValidatedBy run = qa \<and> wf_Governance run = g)
     \<and> map_of (wf_policies db) ''p'' = Some g
     \<and> (\<forall>e \<in> set (wf_events db). length (we_ID e) \<le> v + 1 \<and> length (we_IdempotencyKey e) < 10 + v)"

lemma demo_create_normal:
  "normalized_create demo_create = demo_create\<lparr>cw_Kind := ''software-development''\<rparr>"
  by (simp add: normalized_create_def demo_create_def plain_char_def lower_byte_def defaultString_def)

lemma demo_created: "\<exists>db hist. demo_at g ''intake'' 1 [] [] db hist"
proof -
  obtain r st' db' where eq: "CreateWorkflow demo_allow (demo_env ''a'' 0) demo_store (demo_start g) demo_create = (r, st', db')"
    by (metis prod_cases3)
  have "reach wf_start wf_step [demo_start g]" by (rule reach_start) (simp add: wf_start_def demo_start_def)
  then have "reach wf_start wf_step [db', demo_start g]" by (rule reach_step) (rule wf_step.create [OF eq])
  moreover have "demo_at g ''intake'' 1 [] [] db' [demo_start g] \<longleftrightarrow> reach wf_start wf_step [db', demo_start g]"
    using eq
    by (auto simp: demo_at_def CreateWorkflow_def demo_create_normal [unfolded demo_create_def] demo_defs RequirePrincipal_def Let_def
        PrincipalFromContext_def HasRole_iff authorizeUntraced_def Put_def
        repo_CreateWorkflow_def run_by_key_def new_run_def created_event_def ensure_project_def
        inserted_run_def inserted_event_def getWorkflowByID_def scanWorkflow_def find_row_def)
  ultimately show ?thesis by blast
qed

lemma demo_moves:
  assumes at: "demo_at g s v impl qa db hist"
    and sp: "transitionFor s ev = Some sp" and ev: "to_upper (trim_space ev) = ev" "ev \<noteq> []"
    and role: "selectRole (demo_person a) ''p'' (spec_roles sp) = Some role" and a: "a \<noteq> []"
    and distinct: "RequiresDistinctPrincipal g (spec_gate sp) \<longrightarrow> a \<noteq> impl \<and> a \<noteq> qa"
  shows "\<exists>u e st' db'.
    TransitionWorkflow demo_allow (demo_env a (v + 1)) demo_store db db (demo_move v ev) = (Inr (u, e), st', db')
    \<and> e \<notin> set (wf_events db) \<and> we_WorkflowID e = ''r'' \<and> we_FromState e = s \<and> we_EventType e = ev
    \<and> we_ActorPrincipalID e = a
    \<and> demo_at g (spec_to sp) (v + 1) (if spec_setImplementedBy sp then a else impl)
        (if spec_setQAValidatedBy sp then a else qa) db' (db # hist)"
proof -
  obtain run where run: "getWorkflowByID db ''r'' = Inr run" "wf_State run = s" "wf_Version run = int v"
    "wf_ProjectID run = ''p''" "wf_ImplementedBy run = impl" "wf_QAValidatedBy run = qa" "wf_Governance run = g"
    and reach: "reach wf_start wf_step (db # hist)" and pol: "map_of (wf_policies db) ''p'' = Some g"
    and evs: "\<forall>e \<in> set (wf_events db). length (we_ID e) \<le> v + 1 \<and> length (we_IdempotencyKey e) < 10 + v"
    using at by (auto simp: demo_at_def)
  have ok: "tables_ok db" using wf.reach_inv [OF reach] by (simp add: wf_inv_def)
  have wid: "wf_ID run = ''r''" using run(1) by (auto simp: getWorkflowByID_Ok dest: find_row_SomeD)
  have key: "trim_space (replicate (10 + v) (CHR ''k'')) = replicate (10 + v) (CHR ''k'')" "trim_space ''x'' = ''x''"
    "trim_space ''r'' = ''r''"
    by (simp_all add: plain_char_def)
  have chk: "check_transition (demo_person a) run ev ''x'' = Inr (sp, role)"
    using run sp role distinct
    by (auto simp: check_transition_Ok demo_person_def priorActors_def Let_def split: if_splits)
  obtain d where d: "authorizeUntraced demo_allow (transition_request (demo_person a) run ev ''x'' sp) = Inr d"
    by (simp add: demo_allow_def authorizeUntraced_def)
  obtain art st' where put: "put_evidence demo_store ''x'' = (Inr art, st')"
    by (simp add: put_evidence_def demo_store_def Put_def Let_def)
  define t where "t = proposedTransition (demo_env a (v + 1)) (demo_person a) run (demo_move v ev) sp role art d"
  define db' where "db' arts = db\<lparr>wf_runs := put_row wf_ID (moved_run (demo_env a (v + 1)) t run) (wf_runs db),
         wf_events := wf_events db @ [logged_event (demo_env a (v + 1)) t run], wf_artifacts := arts\<rparr>" for arts
  have fresh: "we_ID e \<noteq> env_id (demo_env a (v + 1)) 0 \<and> we_IdempotencyKey e \<noteq> replicate (10 + v) (CHR ''k'')"
    if "e \<in> set (wf_events db)" for e
    using evs that by (fastforce simp: demo_env_def)
  obtain arts where step: "TransitionWorkflow demo_allow (demo_env a (v + 1)) demo_store db db (demo_move v ev)
    = (Inr (moved_run (demo_env a (v + 1)) t run, logged_event (demo_env a (v + 1)) t run), st', db' arts)"
    using fresh_transition_commits [OF ok, of "demo_env a (v + 1)" "demo_person a" "demo_move v ev" run ev sp role demo_allow d
        demo_store art st'] run ev a chk d put fresh key wid
    unfolding t_def db'_def by (auto simp: demo_move_def demo_env_def demo_person_def)
  have ids: "we_ID (logged_event (demo_env a (v + 1)) t run) = env_id (demo_env a (v + 1)) 0"
    "we_IdempotencyKey (logged_event (demo_env a (v + 1)) t run) = replicate (10 + v) (CHR ''k'')"
    "we_WorkflowID (logged_event (demo_env a (v + 1)) t run) = ''r''"
    "we_FromState (logged_event (demo_env a (v + 1)) t run) = s" "we_EventType (logged_event (demo_env a (v + 1)) t run) = ev"
    "we_ActorPrincipalID (logged_event (demo_env a (v + 1)) t run) = a"
    using run ev wid key by (simp_all add: t_def logged_event_def proposedTransition_def demo_move_def demo_person_def)
  have new: "logged_event (demo_env a (v + 1)) t run \<notin> set (wf_events db)"
    using fresh ids by metis
  have reach': "reach wf_start wf_step (db' arts # db # hist)"
    by (rule reach_step [OF reach wf_step.transition [OF _ step]]) simp
  have row: "getWorkflowByID (db' arts) ''r'' = Inr (moved_run (demo_env a (v + 1)) t run)"
    using run(1,4,7) wid by (auto simp: getWorkflowByID_Ok db'_def find_row_put moved_run_def)
  have "demo_at g (spec_to sp) (v + 1) (if spec_setImplementedBy sp then a else impl)
        (if spec_setQAValidatedBy sp then a else qa) (db' arts) (db # hist)"
    unfolding demo_at_def using reach' row run evs ids pol
    by (auto simp: db'_def moved_run_def t_def demo_env_def demo_person_def)
  with step new ids show ?thesis by blast
qed

text \<open>A step of the demonstration as a computable condition, and the path through the table.\<close>

definition demo_step_ok :: "governance_policy \<Rightarrow> string \<Rightarrow> string \<Rightarrow> string \<Rightarrow> string \<Rightarrow> string \<Rightarrow> transition_spec \<Rightarrow> bool" where
  "demo_step_ok g s impl qa a ev sp \<longleftrightarrow>
     transitionFor s ev = Some sp \<and> selectRole (demo_person a) ''p'' (spec_roles sp) \<noteq> None
     \<and> (RequiresDistinctPrincipal g (spec_gate sp) \<longrightarrow> a \<noteq> impl \<and> a \<noteq> qa)
     \<and> to_upper (trim_space ev) = ev \<and> ev \<noteq> [] \<and> a \<noteq> []"

definition demo_reaches :: "string \<Rightarrow> nat \<Rightarrow> string \<Rightarrow> string \<Rightarrow> bool" where
  "demo_reaches s v impl qa \<longleftrightarrow> (\<exists>db hist. demo_at demo_policy s v impl qa db hist)"

lemma demo_next:
  assumes "demo_reaches s v impl qa" and "demo_step_ok demo_policy s impl qa a ev sp"
    and "s' = spec_to sp" "v' = Suc v" "impl' = (if spec_setImplementedBy sp then a else impl)"
      "qa' = (if spec_setQAValidatedBy sp then a else qa)"
  shows "demo_reaches s' v' impl' qa'"
  using assms demo_moves unfolding demo_step_ok_def demo_reaches_def by fastforce

lemmas demo_eval = demo_step_ok_def transitionFor_def workflowTransitions_def spec_defs demo_person_def HasRole_iff
  demo_policy_def default_policy_def RequiresDistinctPrincipal_def plain_char_def upper_byte_def

lemma demo_intake: "demo_reaches ''intake'' 1 [] []"
  using demo_created by (simp add: demo_reaches_def)

lemma demo_classified: "demo_reaches ''classified'' 2 [] []"
  by (rule demo_next [OF demo_intake, of "''a''" "''CLASSIFIED''" "spec ''classified'' [''controller'', ''development'']"])
    (simp_all add: demo_eval)

lemma demo_ready: "demo_reaches ''ready'' 3 [] []"
  by (rule demo_next [OF demo_classified, of "''a''" "''READY''" "spec ''ready'' [''controller'', ''development'']"])
    (simp_all add: demo_eval)

lemma demo_implementing: "demo_reaches ''implementing'' 4 [] []"
  by (rule demo_next [OF demo_ready, of "''a''" "''IMPLEMENTATION_STARTED''" "spec ''implementing'' [''controller'', ''development'']"])
    (simp_all add: demo_eval)

lemma demo_verifying: "demo_reaches ''verifying'' 5 ''dev'' []"
  by (rule demo_next [OF demo_implementing, of "''dev''" "''IMPLEMENTATION_COMPLETED''" "(spec ''verifying'' [''development''])\<lparr>spec_evidenceRequired := True, spec_setImplementedBy := True\<rparr>"])
    (simp_all add: demo_eval)

lemma demo_qa_validating: "demo_reaches ''qa_validating'' 6 ''dev'' []"
  by (rule demo_next [OF demo_verifying, of "''a''" "''VERIFICATION_PASSED''" "(spec ''qa_validating'' [''controller'', ''development''])\<lparr>spec_evidenceRequired := True\<rparr>"])
    (simp_all add: demo_eval)

lemma demo_awaiting_human_qa: "demo_reaches ''awaiting_human_qa'' 7 ''dev'' []"
  by (rule demo_next [OF demo_qa_validating, of "''a''" "''HUMAN_QA_REQUESTED''" "spec ''awaiting_human_qa'' [''controller'', ''qa'']"])
    (simp_all add: demo_eval)

lemma demo_qa_validated: "demo_reaches ''qa_validated'' 8 ''dev'' ''tester''"
  by (rule demo_next [OF demo_awaiting_human_qa, of "''tester''" "''QA_VALIDATED''" "(human_gate ''qa_validated'' ''qa'' ''qa'' ''qa_decide'')\<lparr>spec_setQAValidatedBy := True\<rparr>"])
    (simp_all add: demo_eval)

lemma demo_awaiting_product_approval: "demo_reaches ''awaiting_product_approval'' 9 ''dev'' ''tester''"
  by (rule demo_next [OF demo_qa_validated, of "''a''" "''PRODUCT_APPROVAL_REQUESTED''" "spec ''awaiting_product_approval'' [''controller'', ''product_owner'']"])
    (simp_all add: demo_eval)

lemma demo_promotion_pending: "demo_reaches ''promotion_pending'' 10 ''dev'' ''tester''"
  by (rule demo_next [OF demo_awaiting_product_approval, of "''owner''" "''PRODUCT_APPROVED''" "human_gate ''promotion_pending'' ''product_owner'' ''product_approval'' ''product_decide''"])
    (simp_all add: demo_eval)

lemma demo_completed: "demo_reaches ''completed'' 11 ''dev'' ''tester''"
  by (rule demo_next [OF demo_promotion_pending, of "''a''" "''PROMOTION_COMPLETED''" "(spec ''completed'' [''controller'', ''product_owner''])\<lparr>spec_evidenceRequired := True, spec_terminal := True\<rparr>"])
    (simp_all add: demo_eval)

lemma demo_row:
  assumes "demo_at g s v impl qa db hist"
  obtains r where "find_row wf_ID ''r'' (wf_runs db) = Some r" "r \<in> set (wf_runs db)" "wf_ID r = ''r''"
    "wf_State r = s" "wf_ImplementedBy r = impl" "wf_QAValidatedBy r = qa" "reach wf_start wf_step (db # hist)"
proof -
  obtain r g where "find_row wf_ID ''r'' (wf_runs db) = Some r" "wf_State r = s" "wf_ImplementedBy r = impl"
    "wf_QAValidatedBy r = qa" "reach wf_start wf_step (db # hist)"
    using assms by (auto simp: demo_at_def getWorkflowByID_Ok)
  then show ?thesis using that find_row_SomeD [of wf_ID "''r''" "wf_runs db" r] by blast
qed

lemma demo_completed_row:
  obtains db hist r where "reach wf_start wf_step (db # hist)" "find_row wf_ID ''r'' (wf_runs db) = Some r"
    "r \<in> set (wf_runs db)" "wf_ID r = ''r''" "wf_State r = ''completed''" "wf_ImplementedBy r = ''dev''"
    "wf_QAValidatedBy r = ''tester''"
  using demo_completed demo_row unfolding demo_reaches_def by metis

text \<open>The QA decision of the demonstration and the transition after it.\<close>

definition qa_sp :: transition_spec where
  "qa_sp = (human_gate ''qa_validated'' ''qa'' ''qa'' ''qa_decide'')\<lparr>spec_setQAValidatedBy := True\<rparr>"

lemma demo_qa_move:
  obtains db hist u e st' db' where "demo_at demo_policy ''awaiting_human_qa'' 7 ''dev'' [] db hist"
    "TransitionWorkflow demo_allow (demo_env ''tester'' 8) demo_store db db (demo_move 7 ''QA_VALIDATED'') = (Inr (u, e), st', db')"
    "e \<notin> set (wf_events db)" "we_WorkflowID e = ''r''" "we_FromState e = ''awaiting_human_qa''"
    "we_EventType e = ''QA_VALIDATED''" "we_ActorPrincipalID e = ''tester''"
    "transitionFor ''awaiting_human_qa'' ''QA_VALIDATED'' = Some qa_sp"
    "demo_at demo_policy ''qa_validated'' 8 ''dev'' ''tester'' db' (db # hist)"
proof -
  obtain db hist where at: "demo_at demo_policy ''awaiting_human_qa'' 7 ''dev'' [] db hist"
    using demo_awaiting_human_qa by (auto simp: demo_reaches_def)
  have sp: "transitionFor ''awaiting_human_qa'' ''QA_VALIDATED'' = Some qa_sp" "spec_to qa_sp = ''qa_validated''"
    "\<not> spec_setImplementedBy qa_sp" "spec_setQAValidatedBy qa_sp"
    by (simp_all add: demo_eval qa_sp_def)
  have ok: "demo_step_ok demo_policy ''awaiting_human_qa'' ''dev'' [] ''tester'' ''QA_VALIDATED'' qa_sp"
    by (simp add: demo_eval qa_sp_def)
  then obtain role where "selectRole (demo_person ''tester'') ''p'' (spec_roles qa_sp) = Some role"
    by (auto simp: demo_step_ok_def)
  with demo_moves [OF at sp(1), of "''tester''" role] ok sp at show ?thesis
    by (auto simp: demo_step_ok_def intro: that)
qed

section \<open>Instances of the properties\<close>

theorem workflow_refines_log_witness:
  "\<exists>h r. reach wf_start wf_step h \<and> r \<in> set (wf_runs (hd h))
     \<and> replay (run_log (hd h) (wf_ID r)) = Some (''completed'', ''dev'', ''tester'')"
proof -
  obtain db hist r where d: "reach wf_start wf_step (db # hist)" "r \<in> set (wf_runs db)" "wf_State r = ''completed''"
    "wf_ImplementedBy r = ''dev''" "wf_QAValidatedBy r = ''tester''"
    by (rule demo_completed_row)
  then show ?thesis
    using workflow_refines_log [of "db # hist" r] by (intro exI [of _ "db # hist"] exI [of _ r]) simp
qed

theorem terminal_runs_are_final_witness:
  "\<exists>h h' r. reach wf_start wf_step h \<and> wf_step\<^sup>*\<^sup>* h h' \<and> h' \<noteq> h
     \<and> find_row wf_ID ''r'' (wf_runs (hd h)) = Some r \<and> wf_State r = ''completed''
     \<and> (\<exists>r'. find_row wf_ID ''r'' (wf_runs (hd h')) = Some r' \<and> same_run r r')"
proof -
  obtain db hist r where d: "reach wf_start wf_step (db # hist)" "find_row wf_ID ''r'' (wf_runs db) = Some r"
    "wf_State r = ''completed''"
    by (rule demo_completed_row)
  have "wf_step\<^sup>*\<^sup>* (db # hist) (db\<lparr>wf_policies := []\<rparr> # db # hist)"
    by (intro r_into_rtranclp wf_step.govern)
  with d show ?thesis
    using terminal_runs_are_final [of "db # hist" "db\<lparr>wf_policies := []\<rparr> # db # hist" "''r''" r]
    by (intro exI [of _ "db # hist"] exI [of _ "db\<lparr>wf_policies := []\<rparr> # db # hist"] exI [of _ r])
      (simp add: terminalState_def)
qed

theorem completed_needs_gates_witness:
  "\<exists>h r. reach wf_start wf_step h \<and> r \<in> set (wf_runs (hd h)) \<and> wf_State r = ''completed''
     \<and> approved (run_log (hd h) (wf_ID r)) ''tester''"
proof -
  obtain db hist r where d: "reach wf_start wf_step (db # hist)" "r \<in> set (wf_runs db)" "wf_State r = ''completed''"
    "wf_QAValidatedBy r = ''tester''"
    by (rule demo_completed_row)
  then show ?thesis
    using completed_needs_gates [of "db # hist" r] by (intro exI [of _ "db # hist"] exI [of _ r]) simp
qed

theorem gate_decision_witness:
  "\<exists>db u e st' db'. TransitionWorkflow demo_allow (demo_env ''tester'' 8) demo_store db db (demo_move 7 ''QA_VALIDATED'')
       = (Inr (u, e), st', db') \<and> we_ActorRole e \<in> set (spec_roles qa_sp) \<and> we_EvidenceArtifact e \<noteq> None"
proof -
  obtain db hist u e st' db' where m:
    "TransitionWorkflow demo_allow (demo_env ''tester'' 8) demo_store db db (demo_move 7 ''QA_VALIDATED'') = (Inr (u, e), st', db')"
    "e \<notin> set (wf_events db)" "we_FromState e = ''awaiting_human_qa''" "we_EventType e = ''QA_VALIDATED''"
    "transitionFor ''awaiting_human_qa'' ''QA_VALIDATED'' = Some qa_sp"
    by (rule demo_qa_move)
  have "spec_gate qa_sp \<noteq> []" by (simp add: qa_sp_def spec_defs)
  then have "we_ActorRole e \<in> set (spec_roles qa_sp)" "we_EvidenceArtifact e \<noteq> None"
    using gate_decision [OF m(1,2), of qa_sp] m(3-5) by auto
  with m(1) show ?thesis by blast
qed

theorem separation_of_duties_witness:
  "\<exists>db u e st' db' cur. TransitionWorkflow demo_allow (demo_env ''tester'' 8) demo_store db db (demo_move 7 ''QA_VALIDATED'')
       = (Inr (u, e), st', db') \<and> find_row wf_ID ''r'' (wf_runs db) = Some cur \<and> wf_ImplementedBy cur = ''dev''
       \<and> we_ActorPrincipalID e \<noteq> wf_ImplementedBy cur"
proof -
  obtain db hist u e st' db' where at: "demo_at demo_policy ''awaiting_human_qa'' 7 ''dev'' [] db hist"
    and m: "TransitionWorkflow demo_allow (demo_env ''tester'' 8) demo_store db db (demo_move 7 ''QA_VALIDATED'') = (Inr (u, e), st', db')"
    "e \<notin> set (wf_events db)" "we_WorkflowID e = ''r''" "we_FromState e = ''awaiting_human_qa''" "we_EventType e = ''QA_VALIDATED''"
    "transitionFor ''awaiting_human_qa'' ''QA_VALIDATED'' = Some qa_sp"
    by (rule demo_qa_move)
  obtain run where run: "getWorkflowByID db ''r'' = Inr run" "wf_Version run = 7" "wf_Governance run = demo_policy"
    and reach: "reach wf_start wf_step (db # hist)"
    using at by (auto simp: demo_at_def)
  obtain cur where cur: "find_row wf_ID ''r'' (wf_runs db) = Some cur" "wf_ImplementedBy cur = ''dev''"
    using at by (rule demo_row)
  have "RequiresDistinctPrincipal (wf_Governance run) (spec_gate qa_sp)" "spec_gate qa_sp = ''qa''"
    by (simp_all add: run(3) qa_sp_def demo_eval)
  then have own: "we_ActorPrincipalID e \<noteq> wf_ImplementedBy cur"
    using separation_of_duties [OF reach _ m(1,2), of run qa_sp cur] m(3-6) run cur(1) by (simp add: demo_move_def)
  show ?thesis by (intro exI conjI) (fact m(1), fact cur(1), fact cur(2), fact own)
qed

theorem no_lost_update_witness:
  "\<exists>db u e st' db' u2 e2 st2 db2.
     TransitionWorkflow demo_allow (demo_env ''tester'' 8) demo_store db db (demo_move 7 ''QA_VALIDATED'') = (Inr (u, e), st', db')
     \<and> TransitionWorkflow demo_allow (demo_env ''a'' 9) demo_store db' db' (demo_move 8 ''PRODUCT_APPROVAL_REQUESTED'')
         = (Inr (u2, e2), st2, db2)
     \<and> ti_ExpectedVersion (demo_move 7 ''QA_VALIDATED'') < ti_ExpectedVersion (demo_move 8 ''PRODUCT_APPROVAL_REQUESTED'')"
proof -
  obtain db hist u e st' db' where at: "demo_at demo_policy ''awaiting_human_qa'' 7 ''dev'' [] db hist"
    and m: "TransitionWorkflow demo_allow (demo_env ''tester'' 8) demo_store db db (demo_move 7 ''QA_VALIDATED'') = (Inr (u, e), st', db')"
    "e \<notin> set (wf_events db)" "we_WorkflowID e = ''r''"
    and at': "demo_at demo_policy ''qa_validated'' 8 ''dev'' ''tester'' db' (db # hist)"
    by (rule demo_qa_move)
  have sp: "demo_step_ok demo_policy ''qa_validated'' ''dev'' ''tester'' ''a'' ''PRODUCT_APPROVAL_REQUESTED''
      (spec ''awaiting_product_approval'' [''controller'', ''product_owner''])"
    by (simp add: demo_eval)
  then obtain u2 e2 st2 db2 where m2:
    "TransitionWorkflow demo_allow (demo_env ''a'' 9) demo_store db' db' (demo_move 8 ''PRODUCT_APPROVAL_REQUESTED'')
       = (Inr (u2, e2), st2, db2)" "e2 \<notin> set (wf_events db')" "we_WorkflowID e2 = ''r''"
    using demo_moves [OF at', of "''PRODUCT_APPROVAL_REQUESTED''"
      "spec ''awaiting_product_approval'' [''controller'', ''product_owner'']" "''a''"]
    by (auto simp: demo_step_ok_def)
  have reach: "reach wf_start wf_step (db # hist)" using at by (simp add: demo_at_def)
  have lt: "ti_ExpectedVersion (demo_move 7 ''QA_VALIDATED'')
      < ti_ExpectedVersion (demo_move 8 ''PRODUCT_APPROVAL_REQUESTED'')"
    using no_lost_update [OF reach _ m(1,2) rtranclp.rtrancl_refl m2(1,2)] m(3) m2(3) by simp
  show ?thesis by (intro exI conjI) (fact m(1), fact m2(1), fact lt)
qed

theorem permitted_transition_commits_witness:
  "\<exists>db u e st' db'. TransitionWorkflow demo_allow (demo_env ''tester'' 8) demo_store db db (demo_move 7 ''QA_VALIDATED'')
      = (Inr (u, e), st', db') \<and> wf_State u = ''qa_validated'' \<and> wf_Version u = 8"
proof -
  obtain db hist run where reach: "reach wf_start wf_step (db # hist)"
    and run: "getWorkflowByID db ''r'' = Inr run" "wf_State run = ''awaiting_human_qa''" "wf_Version run = 7"
      "wf_ProjectID run = ''p''" "wf_ImplementedBy run = ''dev''" "wf_QAValidatedBy run = []"
    and evs: "\<forall>e \<in> set (wf_events db). length (we_ID e) \<le> 8 \<and> length (we_IdempotencyKey e) < 17"
    using demo_awaiting_human_qa by (auto simp: demo_reaches_def demo_at_def)
  have key: "trim_space (replicate 17 (CHR ''k'')) = replicate 17 (CHR ''k'')" "trim_space ''x'' = ''x''"
    "trim_space ''r'' = ''r''" "to_upper (trim_space ''QA_VALIDATED'') = ''QA_VALIDATED''"
    by (simp_all add: plain_char_def upper_byte_def)
  have chk: "check_transition (demo_person ''tester'') run ''QA_VALIDATED'' ''x'' = Inr (qa_sp, ''qa'')"
    by (auto simp: check_transition_Ok run qa_sp_def demo_eval priorActors_def)
  obtain d where d: "authorizeUntraced demo_allow (transition_request (demo_person ''tester'') run ''QA_VALIDATED'' ''x'' qa_sp) = Inr d"
    by (simp add: demo_allow_def authorizeUntraced_def)
  obtain art st' where put: "put_evidence demo_store ''x'' = (Inr art, st')"
    by (simp add: put_evidence_def demo_store_def Put_def Let_def)
  have fresh: "we_ID e \<noteq> env_id (demo_env ''tester'' 8) 0 \<and> we_IdempotencyKey e \<noteq> replicate 17 (CHR ''k'')"
    if "e \<in> set (wf_events db)" for e
    using evs that by (fastforce simp: demo_env_def)
  have "spec_to qa_sp = ''qa_validated''" by (simp add: qa_sp_def spec_defs)
  moreover have "env_ctx (demo_env ''tester'' 8) = Some (demo_person ''tester'')" "p_ID (demo_person ''tester'') \<noteq> []"
    by (simp_all add: demo_env_def demo_person_def)
  ultimately show ?thesis
    using permitted_transition_commits [OF reach, of "demo_env ''tester'' 8" "demo_person ''tester''"
        "demo_move 7 ''QA_VALIDATED''" run "''QA_VALIDATED''" qa_sp "''qa''" demo_allow d demo_store art st']
      run key chk d put fresh
    by (simp add: demo_move_def) blast
qed

theorem table_retry_rejected_witness:
  "\<exists>db u e st' db'. TransitionWorkflow demo_allow (demo_env ''tester'' 8) demo_store db db (demo_move 7 ''QA_VALIDATED'')
      = (Inr (u, e), st', db')
     \<and> TransitionWorkflow demo_allow (demo_env ''tester'' 20) demo_store db' db' (demo_move 7 ''QA_VALIDATED'')
      = (Err ErrInvalidInput, demo_store, db')"
proof -
  obtain db hist u e st' db' where m:
    "TransitionWorkflow demo_allow (demo_env ''tester'' 8) demo_store db db (demo_move 7 ''QA_VALIDATED'') = (Inr (u, e), st', db')"
    "e \<notin> set (wf_events db)" "we_EventType e = ''QA_VALIDATED''"
    by (rule demo_qa_move)
  then have "TransitionWorkflow demo_allow (demo_env ''tester'' 20) demo_store db' db' (demo_move 7 ''QA_VALIDATED'')
      = (Err ErrInvalidInput, demo_store, db')"
    using table_retry_rejected [OF m(1,2), of "demo_env ''tester'' 20" "demo_person ''tester''" demo_store]
    by (simp add: demo_env_def demo_person_def)
  with m(1) show ?thesis by blast
qed

end
