(* ===== verification/Runes.thy ===== *)
theory Runes
  imports Prelude
begin

text \<open>
  UTF-8 as the Go runtime decodes it: the runes the regular-expression engine and the JSON encoder see in a
  string. Both read a string rune by rune and treat a byte that starts no valid sequence as one rune.
\<close>

section \<open>Runes\<close>

abbreviation cont_byte :: "nat \<Rightarrow> bool" where
  "cont_byte b \<equiv> 128 \<le> b \<and> b < 192"

definition rune_error :: nat where
  "rune_error = 65533"

text \<open>Length of the UTF-8 sequence at the head of a byte list (1 for an invalid one), and its rune.\<close>

definition rune_at :: "nat list \<Rightarrow> nat \<times> nat" where
  "rune_at bs = (case bs of
     [] \<Rightarrow> (rune_error, 1)
   | a # rest \<Rightarrow>
       if a < 128 then (a, 1)
       else (case rest of
         [] \<Rightarrow> (rune_error, 1)
       | b # rest2 \<Rightarrow>
           if 194 \<le> a \<and> a < 224 \<and> cont_byte b then ((a - 192) * 64 + (b - 128), 2)
           else (case rest2 of
             [] \<Rightarrow> (rune_error, 1)
           | c # rest3 \<Rightarrow>
               if 224 \<le> a \<and> a < 240 \<and> cont_byte b \<and> cont_byte c \<and> (a = 224 \<longrightarrow> 160 \<le> b) \<and> (a = 237 \<longrightarrow> b < 160)
               then ((a - 224) * 4096 + (b - 128) * 64 + (c - 128), 3)
               else (case rest3 of
                 [] \<Rightarrow> (rune_error, 1)
               | d # _ \<Rightarrow>
                   if 240 \<le> a \<and> a < 245 \<and> cont_byte b \<and> cont_byte c \<and> cont_byte d \<and> (a = 240 \<longrightarrow> 144 \<le> b) \<and> (a = 244 \<longrightarrow> b < 144)
                   then ((a - 240) * 262144 + (b - 128) * 4096 + (c - 128) * 64 + (d - 128), 4)
                   else (rune_error, 1)))))"

lemma rune_at_pos: "snd (rune_at bs) \<ge> 1"
  by (auto simp: rune_at_def split: list.splits)

function runes_of :: "nat list \<Rightarrow> nat list" where
  "runes_of [] = []"
| "runes_of (b # bs) = fst (rune_at (b # bs)) # runes_of (drop (snd (rune_at (b # bs))) (b # bs))"
  by pat_completeness auto
termination
proof (relation "measure length")
  fix b bs
  show "(drop (snd (rune_at (b # bs))) (b # bs), b # bs) \<in> measure length"
    using rune_at_pos [of "b # bs"] by simp
qed simp

declare runes_of.simps(2) [simp del]

definition decode_runes :: "string \<Rightarrow> nat list" where
  "decode_runes s = runes_of (map of_char s)"

lemma runes_of_ascii: "b < 128 \<Longrightarrow> runes_of (b # bs) = b # runes_of bs"
  by (simp add: runes_of.simps(2) rune_at_def)

lemma decode_ascii_Cons: "of_char c < (128 :: nat) \<Longrightarrow> decode_runes (c # s) = of_char c # decode_runes s"
  by (simp add: decode_runes_def runes_of_ascii)

lemma decode_Nil [simp]: "decode_runes [] = []"
  by (simp add: decode_runes_def)

text \<open>An ASCII byte is never inside a longer sequence, so decoding splits there.\<close>

lemma rune_at_append_ascii:
  assumes "c < 128" and "bs \<noteq> []"
  shows "rune_at (bs @ c # cs) = rune_at bs" and "snd (rune_at bs) \<le> length bs"
proof -
  obtain b1 r1 where 1: "bs = b1 # r1" using assms(2) by (cases bs) auto
  show "rune_at (bs @ c # cs) = rune_at bs"
  proof (cases r1)
    case Nil
    then show ?thesis using assms(1) 1 by (auto simp: rune_at_def split: list.splits)
  next
    case 2: (Cons b2 r2)
    show ?thesis
    proof (cases r2)
      case Nil
      then show ?thesis using assms(1) 1 2 by (auto simp: rune_at_def split: list.splits)
    next
      case 3: (Cons b3 r3)
      then show ?thesis using assms(1) 1 2
        by (cases r3) (auto simp: rune_at_def)
    qed
  qed
  show "snd (rune_at bs) \<le> length bs"
    using 1 by (auto simp: rune_at_def split: list.splits)
qed

lemma runes_of_append_ascii:
  assumes "c < 128"
  shows "runes_of (bs @ c # cs) = runes_of bs @ c # runes_of cs"
proof (induction bs rule: runes_of.induct)
  case 1
  then show ?case using assms by (simp add: runes_of_ascii)
next
  case (2 b bs)
  have "drop (snd (rune_at (b # bs))) (b # bs @ c # cs) = drop (snd (rune_at (b # bs))) (b # bs) @ c # cs"
    using rune_at_append_ascii(2) [OF assms, of "b # bs"] by (metis append_Cons drop_append diff_is_0_eq drop0 list.distinct(1))
  then show ?case
    using 2 rune_at_append_ascii(1) [OF assms, of "b # bs" cs] by (simp add: runes_of.simps(2))
qed

lemma decode_append_ascii:
  "of_char c < (128 :: nat) \<Longrightarrow> decode_runes (s @ c # t) = decode_runes s @ of_char c # decode_runes t"
  by (simp add: decode_runes_def runes_of_append_ascii)

end
