(* ===== verification/WorkPacket.thy ===== *)
theory WorkPacket
  imports Runes
begin

text \<open>
  The bounded execution contract (\<open>src/components/workpacket/packet.go\<close>) and its policy
  (\<open>src/components/workpacket/policy.go\<close>): file patterns, the forbidden-file rules and the evaluation of a
  packet. Patterns are matched the way the Go code does it, through a regular expression over the runes
  of the path.
\<close>

section \<open>Patterns\<close>

text \<open>\<open>path.Clean\<close>: the lexical normal form of a slash-separated path.\<close>

fun clean_elements :: "bool \<Rightarrow> string list \<Rightarrow> string list \<Rightarrow> string list" where
  "clean_elements rooted out [] = rev out"
| "clean_elements rooted out (e # es) =
     (if e = [] \<or> e = ''.'' then clean_elements rooted out es
      else if e = ''..'' then
        (case out of
           [] \<Rightarrow> if rooted then clean_elements rooted [] es else clean_elements rooted [''..''] es
         | d # ds \<Rightarrow> if d = ''..'' then clean_elements rooted (''..'' # out) es else clean_elements rooted ds es)
      else clean_elements rooted (e # out) es)"

definition path_Clean :: "string \<Rightarrow> string" where
  "path_Clean p =
     (let rooted = prefix ''/'' p; body = join_with ''/'' (clean_elements rooted [] (split_on (CHR ''/'') p))
      in if rooted then ''/'' @ body else if body = [] then ''.'' else body)"

definition replace_backslash :: "string \<Rightarrow> string" where
  "replace_backslash s = map (\<lambda>c. if c = CHR 0x5C then CHR ''/'' else c) s"

text \<open>The regular expression built for a pattern, as the sequence of its parts.\<close>

datatype glob_token = Lit nat | Segment | One | AnyText | AnyDirs | Dirs

fun glob_tokens :: "string \<Rightarrow> glob_token list" where
  "glob_tokens [] = []"
| "glob_tokens (c # s) =
     (if c = CHR ''*'' then
        (case s of
           d # r \<Rightarrow>
             if d = CHR ''*'' then
               (case r of
                  e # r' \<Rightarrow> if e = CHR ''/'' then AnyDirs # glob_tokens r' else AnyText # glob_tokens r
                | [] \<Rightarrow> [AnyText])
             else Segment # glob_tokens s
         | [] \<Rightarrow> [Segment])
      else if c = CHR ''?'' then One # glob_tokens s
      else Lit (of_char c) # glob_tokens s)"

text \<open>
  Matching the whole of a rune sequence: \<open>[^/]*\<close>, \<open>[^/]\<close>, \<open>.*\<close> and \<open>(?:.*/)?\<close>, where a dot does not match a
  line feed. \<open>Dirs\<close> is the body \<open>.*/\<close> of the optional group.
\<close>

function gmatch :: "glob_token list \<Rightarrow> nat list \<Rightarrow> bool" where
  "gmatch [] rs = (rs = [])"
| "gmatch (Lit c # ts) rs = (case rs of [] \<Rightarrow> False | r # rs' \<Rightarrow> r = c \<and> gmatch ts rs')"
| "gmatch (One # ts) rs = (case rs of [] \<Rightarrow> False | r # rs' \<Rightarrow> r \<noteq> 47 \<and> gmatch ts rs')"
| "gmatch (Segment # ts) rs =
     (gmatch ts rs \<or> (case rs of [] \<Rightarrow> False | r # rs' \<Rightarrow> r \<noteq> 47 \<and> gmatch (Segment # ts) rs'))"
| "gmatch (AnyText # ts) rs =
     (gmatch ts rs \<or> (case rs of [] \<Rightarrow> False | r # rs' \<Rightarrow> r \<noteq> 10 \<and> gmatch (AnyText # ts) rs'))"
| "gmatch (AnyDirs # ts) rs = (gmatch ts rs \<or> gmatch (Dirs # ts) rs)"
| "gmatch (Dirs # ts) rs =
     (case rs of [] \<Rightarrow> False
      | r # rs' \<Rightarrow> r = 47 \<and> gmatch ts rs' \<or> r \<noteq> 10 \<and> gmatch (Dirs # ts) rs')"
  by pat_completeness auto
termination
  by (relation "measures [\<lambda>(ts, rs). sum_list (map (\<lambda>t. if t = AnyDirs then 2 else 1) ts), \<lambda>(ts, rs). length rs]")
    auto

definition globMatch :: "string \<Rightarrow> string \<Rightarrow> bool" where
  "globMatch pattern name =
     gmatch (glob_tokens (trim_prefix ''./'' (replace_backslash (path_Clean pattern)))) (decode_runes name)"

definition allowedPath :: "string \<Rightarrow> string list \<Rightarrow> string list \<Rightarrow> bool" where
  "allowedPath name allowed forbidden =
     (let name = trim_prefix ''./'' (replace_backslash (path_Clean name))
      in if list_ex (\<lambda>pattern. globMatch pattern name) forbidden then False
         else list_ex (\<lambda>pattern. globMatch pattern name) allowed)"

text \<open>The reasons a packet or a patch is refused, with the values their messages show.\<close>

datatype message =
    Text string
  | Quoted string string string
  | CheckField nat string
  | OverLimit string int string int
  | Cause string string

definition validatePattern :: "string \<Rightarrow> message option" where
  "validatePattern pattern0 =
     (let pattern = trim_space (replace_backslash pattern0)
      in if pattern = [] then Some (Text ''file pattern cannot be empty'')
         else if prefix ''/'' pattern then Some (Quoted ''file pattern '' pattern '' must be repository-relative'')
         else if ''..'' \<in> set (split_on (CHR ''/'') pattern)
           then Some (Quoted ''file pattern '' pattern '' cannot traverse outside the repository'')
         else None)"

definition cleanStrings :: "string list \<Rightarrow> string list" where
  "cleanStrings values = filter (\<lambda>v. v \<noteq> []) (map trim_space values)"

definition defaultForbiddenFiles :: "string list" where
  "defaultForbiddenFiles = [''.env'', ''.env.*'', ''**/.env'', ''**/.env.*'', ''.git/**'', ''**/.git/**'']"

definition mergeForbidden :: "string list \<Rightarrow> string list" where
  "mergeForbidden values =
     dedup [] (filter (\<lambda>v. v \<noteq> []) (map (\<lambda>v. trim_space (replace_backslash v)) (defaultForbiddenFiles @ values)))"

section \<open>Packets\<close>

record check =
  check_Name :: string
  check_Argv :: "string list"
  check_TimeoutSeconds :: int

record limits =
  lim_MaxChangedFiles :: int
  lim_MaxDiffLines :: int
  lim_MaxPatchBytes :: int

record packet =
  pkt_SchemaVersion :: string
  pkt_ID :: string
  pkt_Goal :: string
  pkt_Workspace :: string
  pkt_BaseRevision :: string
  pkt_Mode :: string
  pkt_TaskClass :: string
  pkt_DataClassification :: string
  pkt_Categories :: "string list"
  pkt_LocalOnly :: bool
  pkt_CloudReview :: bool
  pkt_CloudProvider :: string
  pkt_CloudApprovedBy :: string
  pkt_Destructive :: bool
  pkt_ApprovedBy :: string
  pkt_AllowedFiles :: "string list"
  pkt_ForbiddenFiles :: "string list"
  pkt_Rollback :: "string list"
  pkt_Checks :: "check list"
  pkt_Limits :: limits

record evaluation =
  ev_Allowed :: bool
  ev_Risk :: string
  ev_Route :: string
  ev_RequiresApproval :: bool
  ev_EffectiveForbiddenFiles :: "string list"
  ev_Errors :: "message list"
  ev_Warnings :: "string list"

definition SchemaVersion :: string where
  "SchemaVersion = ''hybrid-ai/work-packet/v1''"

definition highRiskCategories :: "string list" where
  "highRiskCategories =
     [''authentication'', ''authorization'', ''cryptography'', ''database'', ''deployment'', ''payment'',
      ''permissions'', ''production'', ''secrets'']"

definition complain :: "bool \<Rightarrow> string \<Rightarrow> message list" where
  "complain bad t = (if bad then [Text t] else [])"

definition normalized_packet :: "packet \<Rightarrow> packet" where
  "normalized_packet p =
     p\<lparr>pkt_SchemaVersion := trim_space (pkt_SchemaVersion p), pkt_ID := trim_space (pkt_ID p),
       pkt_Goal := trim_space (pkt_Goal p), pkt_Workspace := trim_space (pkt_Workspace p),
       pkt_BaseRevision := trim_space (pkt_BaseRevision p), pkt_Mode := to_lower (trim_space (pkt_Mode p)),
       pkt_TaskClass := to_lower (trim_space (pkt_TaskClass p)),
       pkt_DataClassification := to_lower (trim_space (pkt_DataClassification p)),
       pkt_CloudProvider := to_lower (trim_space (pkt_CloudProvider p)),
       pkt_ApprovedBy := trim_space (pkt_ApprovedBy p), pkt_CloudApprovedBy := trim_space (pkt_CloudApprovedBy p)\<rparr>"

text \<open>The groups of checks of \<open>Evaluate\<close> on the normalized packet, in the order their errors are appended.\<close>

definition identity_errors :: "packet \<Rightarrow> message list" where
  "identity_errors p =
     (if pkt_SchemaVersion p \<noteq> SchemaVersion then [Quoted ''schema_version must be '' SchemaVersion []] else [])
     @ complain (pkt_ID p = []) ''id is required''
     @ complain (pkt_Goal p = []) ''goal is required''
     @ complain (pkt_Workspace p = []) ''workspace is required''
     @ complain (pkt_Mode p \<noteq> ''readonly'' \<and> pkt_Mode p \<noteq> ''patch'') ''mode must be readonly or patch''
     @ complain (pkt_TaskClass p \<noteq> ''development'' \<and> pkt_TaskClass p \<noteq> ''maintenance'')
         ''task_class must be development or maintenance''
     @ complain (pkt_DataClassification p \<notin> set [''public'', ''internal'', ''confidential'', ''restricted''])
         ''data_classification must be public, internal, confidential, or restricted''"

definition patch_errors :: "packet \<Rightarrow> message list" where
  "patch_errors p =
     (if pkt_Mode p = ''patch'' then
        complain (pkt_BaseRevision p = []) ''base_revision is required for patch mode''
        @ complain (pkt_AllowedFiles p = []) ''allowed_files is required for patch mode''
        @ complain (pkt_Checks p = []) ''at least one deterministic check is required for patch mode''
        @ complain (cleanStrings (pkt_Rollback p) = []) ''rollback steps are required for patch mode''
        @ complain (lim_MaxChangedFiles (pkt_Limits p) < 1 \<or> lim_MaxDiffLines (pkt_Limits p) < 1)
            ''positive max_changed_files and max_diff_lines are required for patch mode''
        @ complain (lim_MaxPatchBytes (pkt_Limits p) < 0) ''max_patch_bytes cannot be negative''
      else [])"

definition pattern_errors :: "packet \<Rightarrow> message list" where
  "pattern_errors p =
     concat (map (\<lambda>pattern. case validatePattern pattern of None \<Rightarrow> [] | Some m \<Rightarrow> [m])
       (pkt_AllowedFiles p @ mergeForbidden (pkt_ForbiddenFiles p)))"

definition check_errors :: "packet \<Rightarrow> message list" where
  "check_errors p =
     concat (map (\<lambda>(i, c).
         (if trim_space (check_Name c) = [] then [CheckField i ''name is required''] else [])
         @ (if check_Argv c = [] \<or> trim_space (hd (check_Argv c)) = []
            then [CheckField i ''argv must name an executable''] else [])
         @ (if check_TimeoutSeconds c < 0 \<or> check_TimeoutSeconds c > 1800
            then [CheckField i ''timeout_seconds must be between 0 and 1800''] else []))
       (enumerate 0 (pkt_Checks p)))"

definition high_risk :: "packet \<Rightarrow> bool" where
  "high_risk p = list_ex (\<lambda>c. to_lower c \<in> set highRiskCategories) (cleanStrings (pkt_Categories p))"

definition packet_risk :: "packet \<Rightarrow> string" where
  "packet_risk p =
     (if high_risk p \<or> pkt_DataClassification p = ''confidential'' \<or> pkt_Destructive p then ''high''
      else if pkt_Mode p = ''patch'' then ''medium'' else ''low'')"

definition requires_approval :: "packet \<Rightarrow> bool" where
  "requires_approval p = (if pkt_Destructive p then True else high_risk p \<and> pkt_Mode p = ''patch'')"

definition packet_route :: "packet \<Rightarrow> string" where
  "packet_route p =
     (if pkt_CloudReview p then ''cloud_review_advisory''
      else if pkt_TaskClass p = ''maintenance'' then ''local_maintenance''
      else if pkt_Mode p = ''patch'' then ''local_bounded_patch'' else ''local_readonly'')"

definition disclosure_errors :: "packet \<Rightarrow> message list" where
  "disclosure_errors p =
     (if pkt_TaskClass p = ''maintenance'' then
        complain (\<not> pkt_LocalOnly p) ''maintenance packets must set local_only=true''
        @ complain (pkt_CloudReview p) ''maintenance packets cannot request cloud review''
      else [])
     @ complain (pkt_LocalOnly p \<and> pkt_CloudReview p) ''local_only and cloud_review cannot both be true''
     @ (if pkt_CloudReview p then
          complain (pkt_CloudProvider p \<noteq> ''codex'' \<and> pkt_CloudProvider p \<noteq> ''kimi'') ''cloud_provider must be codex or kimi''
          @ complain (pkt_DataClassification p = ''restricted'') ''restricted data can never be sent to a cloud reviewer''
          @ complain (pkt_DataClassification p = ''confidential'' \<and> pkt_CloudApprovedBy p = [])
              ''confidential cloud review requires cloud_approved_by''
        else [])
     @ complain (pkt_DataClassification p = ''restricted'' \<and> \<not> pkt_LocalOnly p) ''restricted packets must set local_only=true''"

definition Evaluate :: "packet \<Rightarrow> evaluation" where
  "Evaluate packet =
     (let p = normalized_packet packet;
          errors = identity_errors p @ patch_errors p @ pattern_errors p @ check_errors p
            @ complain (requires_approval p \<and> pkt_ApprovedBy p = [])
                ''approved_by is required for high-risk or destructive patch execution''
            @ disclosure_errors p
      in \<lparr>ev_Allowed = (errors = []), ev_Risk = packet_risk p, ev_Route = packet_route p,
          ev_RequiresApproval = requires_approval p,
          ev_EffectiveForbiddenFiles = mergeForbidden (pkt_ForbiddenFiles packet),
          ev_Errors = errors,
          ev_Warnings = (if pkt_LocalOnly p then
            [''local_only controls model routing; use an egress-denied process or container when hard offline enforcement is required'']
            else [])\<rparr>)"

section \<open>What a pattern matches\<close>

text \<open>The language of a pattern, part by part.\<close>

fun token_lang :: "glob_token \<Rightarrow> nat list set" where
  "token_lang (Lit c) = {[c]}"
| "token_lang One = {[r] | r. r \<noteq> 47}"
| "token_lang Segment = {xs. 47 \<notin> set xs}"
| "token_lang AnyText = {xs. 10 \<notin> set xs}"
| "token_lang Dirs = {xs @ [47] | xs. 10 \<notin> set xs}"
| "token_lang AnyDirs = insert [] {xs @ [47] | xs. 10 \<notin> set xs}"

fun glob_lang :: "glob_token list \<Rightarrow> nat list set" where
  "glob_lang [] = {[]}"
| "glob_lang (t # ts) = {xs @ ys | xs ys. xs \<in> token_lang t \<and> ys \<in> glob_lang ts}"

end
