(* ===== verification/WorkPacketProps.thy ===== *)
theory WorkPacketProps
  imports WorkPacket
begin

text \<open>
  Correctness of the work-packet policy: the matcher decides the language of a pattern, forbidden files
  stay forbidden whatever a packet allows, and an admitted packet meets the disclosure and approval rules.
\<close>

section \<open>The matcher decides the language of the pattern\<close>

lemma ex_list_split: "(\<exists>xs. Q xs) \<longleftrightarrow> Q [] \<or> (\<exists>x xs. Q (x # xs))"
  by (metis neq_Nil_conv)

lemma star_lang:
  assumes "\<And>rs. M rs \<longleftrightarrow> P rs \<or> (case rs of [] \<Rightarrow> False | r # rs' \<Rightarrow> r \<noteq> c \<and> M rs')"
  shows "M rs \<longleftrightarrow> (\<exists>xs ys. rs = xs @ ys \<and> c \<notin> set xs \<and> P ys)"
proof (induction rs)
  case Nil
  show ?case using assms [of "[]"] by simp
next
  case (Cons r rs)
  have "(\<exists>xs ys. r # rs = xs @ ys \<and> c \<notin> set xs \<and> P ys)
      \<longleftrightarrow> P (r # rs) \<or> r \<noteq> c \<and> (\<exists>xs ys. rs = xs @ ys \<and> c \<notin> set xs \<and> P ys)"
    by (subst ex_list_split) auto
  then show ?case using assms [of "r # rs"] Cons by simp
qed

lemma dirs_lang:
  assumes "\<And>rs. M rs \<longleftrightarrow> (case rs of [] \<Rightarrow> False | r # rs' \<Rightarrow> r = 47 \<and> P rs' \<or> r \<noteq> (10 :: nat) \<and> M rs')"
  shows "M rs \<longleftrightarrow> (\<exists>xs ys. rs = xs @ 47 # ys \<and> 10 \<notin> set xs \<and> P ys)"
proof (induction rs)
  case Nil
  show ?case using assms [of "[]"] by simp
next
  case (Cons r rs)
  have "(\<exists>xs ys. r # rs = xs @ 47 # ys \<and> 10 \<notin> set xs \<and> P ys)
      \<longleftrightarrow> r = 47 \<and> P rs \<or> r \<noteq> 10 \<and> (\<exists>xs ys. rs = xs @ 47 # ys \<and> 10 \<notin> set xs \<and> P ys)"
    by (subst ex_list_split) auto
  then show ?case using assms [of "r # rs"] Cons by simp
qed

lemma glob_lang_AnyDirs: "glob_lang (AnyDirs # ts) = glob_lang ts \<union> glob_lang (Dirs # ts)"
proof -
  have "token_lang AnyDirs = insert [] (token_lang Dirs)" by simp
  then show ?thesis unfolding glob_lang.simps by (simp only:) (auto simp del: token_lang.simps)
qed

lemma gmatch_iff_lang: "gmatch ts rs \<longleftrightarrow> rs \<in> glob_lang ts"
proof (induction ts arbitrary: rs)
  case (Cons t ts)
  have seg: "gmatch (Segment # ts) rs \<longleftrightarrow> (\<exists>xs ys. rs = xs @ ys \<and> 47 \<notin> set xs \<and> gmatch ts ys)"
    by (rule star_lang) simp
  have any: "gmatch (AnyText # ts) rs \<longleftrightarrow> (\<exists>xs ys. rs = xs @ ys \<and> 10 \<notin> set xs \<and> gmatch ts ys)"
    by (rule star_lang) simp
  have dirs: "gmatch (Dirs # ts) rs \<longleftrightarrow> (\<exists>xs ys. rs = (xs @ [47]) @ ys \<and> 10 \<notin> set xs \<and> gmatch ts ys)"
    using dirs_lang [of "gmatch (Dirs # ts)" "gmatch ts" rs] by simp
  show ?case
  proof (cases t)
    case (Lit c)
    then show ?thesis using Cons by (cases rs) auto
  next
    case One
    have "rs \<in> glob_lang (One # ts) \<longleftrightarrow> (\<exists>r ys. rs = [r] @ ys \<and> r \<noteq> 47 \<and> ys \<in> glob_lang ts)"
      unfolding glob_lang.simps token_lang.simps by blast
    then show ?thesis using One Cons by (cases rs) auto
  next
    case Segment
    then show ?thesis using Cons seg by (simp del: gmatch.simps)
  next
    case AnyText
    then show ?thesis using Cons any by (simp del: gmatch.simps)
  next
    case Dirs
    have "rs \<in> glob_lang (Dirs # ts) \<longleftrightarrow> (\<exists>xs ys. rs = (xs @ [47]) @ ys \<and> 10 \<notin> set xs \<and> ys \<in> glob_lang ts)"
      unfolding glob_lang.simps token_lang.simps by blast
    then show ?thesis using Dirs Cons dirs by (simp only:)
  next
    case AnyDirs
    have "gmatch (AnyDirs # ts) rs \<longleftrightarrow> gmatch ts rs \<or> gmatch (Dirs # ts) rs" by simp
    moreover have "rs \<in> glob_lang (AnyDirs # ts) \<longleftrightarrow> rs \<in> glob_lang ts \<or> rs \<in> glob_lang (Dirs # ts)"
      by (simp only: glob_lang_AnyDirs Un_iff)
    moreover have "rs \<in> glob_lang (Dirs # ts) \<longleftrightarrow> (\<exists>xs ys. rs = (xs @ [47]) @ ys \<and> 10 \<notin> set xs \<and> ys \<in> glob_lang ts)"
      unfolding glob_lang.simps token_lang.simps by blast
    ultimately show ?thesis using AnyDirs Cons dirs by (simp only:)
  qed
qed simp

text \<open>Runes below 128 are bytes of the text.\<close>

lemma rune_at_large: "128 \<le> b \<Longrightarrow> 128 \<le> fst (rune_at (b # bs))"
  unfolding rune_at_def rune_error_def
  by (simp split: list.split) (intro allI impI conjI; simp; arith)

lemma rune_at_small:
  assumes "fst (rune_at (b # bs)) < 128"
  shows "fst (rune_at (b # bs)) = b"
proof (cases "b < 128")
  case True
  then show ?thesis by (simp add: rune_at_def)
next
  case False
  then show ?thesis using assms rune_at_large [of b bs] by simp
qed

lemma runes_of_small: "r \<in> set (runes_of bs) \<Longrightarrow> r < 128 \<Longrightarrow> r \<in> set bs"
proof (induction bs rule: runes_of.induct)
  case (2 b bs)
  have "r = fst (rune_at (b # bs)) \<or> r \<in> set (runes_of (drop (snd (rune_at (b # bs))) (b # bs)))"
    using 2(2) by (simp add: runes_of.simps(2))
  then show ?case
  proof
    assume "r \<in> set (runes_of (drop (snd (rune_at (b # bs))) (b # bs)))"
    then have "r \<in> set (drop (snd (rune_at (b # bs))) (b # bs))" using 2(3) by (rule 2(1))
    then show ?thesis by (rule in_set_dropD)
  qed (use rune_at_small [of b bs] 2(3) in simp)
qed simp

lemma no_byte_runes: "of_char c < (128 :: nat) \<Longrightarrow> c \<notin> set s \<Longrightarrow> of_char c \<notin> set (decode_runes s)"
  unfolding decode_runes_def by (auto dest!: runes_of_small [rotated])

lemma no_newline_runes: "CHR 0x0A \<notin> set s \<Longrightarrow> 10 \<notin> set (decode_runes s)"
  using no_byte_runes [of "CHR 0x0A" s] by simp

lemma no_slash_runes: "CHR ''/'' \<notin> set s \<Longrightarrow> 47 \<notin> set (decode_runes s)"
  using no_byte_runes [of "CHR ''/''" s] by simp

section \<open>What a pattern says\<close>

text \<open>The reading of a pattern, independent of the expression built for it.\<close>

inductive glob_matches :: "string \<Rightarrow> nat list \<Rightarrow> bool" where
  finished: "glob_matches [] []"
| literal: "c \<notin> {CHR ''*'', CHR ''?''} \<Longrightarrow> glob_matches p rs \<Longrightarrow> glob_matches (c # p) (of_char c # rs)"
| any_rune: "r \<noteq> 47 \<Longrightarrow> glob_matches p rs \<Longrightarrow> glob_matches (''?'' @ p) (r # rs)"
| segment: "\<not> prefix ''*'' p \<Longrightarrow> 47 \<notin> set xs \<Longrightarrow> glob_matches p rs \<Longrightarrow> glob_matches (''*'' @ p) (xs @ rs)"
| any_text: "\<not> prefix ''/'' p \<Longrightarrow> 10 \<notin> set xs \<Longrightarrow> glob_matches p rs \<Longrightarrow> glob_matches (''**'' @ p) (xs @ rs)"
| no_dirs: "glob_matches p rs \<Longrightarrow> glob_matches (''**/'' @ p) rs"
| dirs: "10 \<notin> set xs \<Longrightarrow> glob_matches p rs \<Longrightarrow> glob_matches (''**/'' @ p) (xs @ 47 # rs)"

lemma lang_Segment: "rs \<in> glob_lang (Segment # ts) \<longleftrightarrow> (\<exists>xs ys. rs = xs @ ys \<and> 47 \<notin> set xs \<and> ys \<in> glob_lang ts)"
  and lang_AnyText: "rs \<in> glob_lang (AnyText # ts) \<longleftrightarrow> (\<exists>xs ys. rs = xs @ ys \<and> 10 \<notin> set xs \<and> ys \<in> glob_lang ts)"
  and lang_One: "rs \<in> glob_lang (One # ts) \<longleftrightarrow> (\<exists>r ys. rs = r # ys \<and> r \<noteq> 47 \<and> ys \<in> glob_lang ts)"
  and lang_Lit: "rs \<in> glob_lang (Lit c # ts) \<longleftrightarrow> (\<exists>ys. rs = c # ys \<and> ys \<in> glob_lang ts)"
  and lang_AnyDirs: "rs \<in> glob_lang (AnyDirs # ts) \<longleftrightarrow> rs \<in> glob_lang ts \<or> (\<exists>xs ys. rs = xs @ 47 # ys \<and> 10 \<notin> set xs \<and> ys \<in> glob_lang ts)"
  by (auto 0 3 simp: glob_lang_AnyDirs) (metis append.assoc append_Cons append_Nil)+

lemmas token_langs = lang_Segment lang_AnyText lang_One lang_Lit lang_AnyDirs

lemma glob_matches_tokens: "glob_matches p rs \<Longrightarrow> rs \<in> glob_lang (glob_tokens p)"
proof (induction rule: glob_matches.induct)
  case (literal c p rs)
  then show ?case by (simp add: token_langs del: glob_lang.simps)
next
  case (any_rune r p rs)
  then show ?case by (simp add: token_langs del: glob_lang.simps)
next
  case (segment p xs rs)
  then have "glob_tokens (''*'' @ p) = Segment # glob_tokens p" by (cases p) auto
  then show ?case using segment by (auto simp: token_langs simp del: glob_lang.simps)
next
  case (any_text p xs rs)
  then have "glob_tokens (''**'' @ p) = AnyText # glob_tokens p" by (cases p) auto
  then show ?case using any_text by (auto simp: token_langs simp del: glob_lang.simps)
next
  case (no_dirs p rs)
  then show ?case by (simp add: token_langs del: glob_lang.simps)
next
  case (dirs xs p rs)
  then show ?case by (auto simp: token_langs simp del: glob_lang.simps)
qed simp

lemma tokens_glob_matches: "rs \<in> glob_lang (glob_tokens p) \<Longrightarrow> glob_matches p rs"
proof (induction "length p" arbitrary: p rs rule: less_induct)
  case less
  show ?case
  proof (cases p)
    case Nil
    then show ?thesis using less.prems glob_matches.finished by simp
  next
    case (Cons c s)
    have smaller: "glob_matches q xs" if "length q < length p" "xs \<in> glob_lang (glob_tokens q)" for q xs using less.hyps that by blast
    consider (dirs) r where "p = ''**/'' @ r" | (anything) r where "p = ''**'' @ r" "\<not> prefix ''/'' r"
      | (star) "c = CHR ''*''" "\<not> prefix ''*'' s" | (one) "c = CHR ''?''" | (lit) "c \<notin> {CHR ''*'', CHR ''?''}"
      using Cons by (cases s; cases "tl s") (auto simp: prefix_Cons)
    then show ?thesis
    proof cases
      case dirs
      then have "rs \<in> glob_lang (AnyDirs # glob_tokens r)" using less.prems by simp
      then show ?thesis unfolding lang_AnyDirs dirs
        using smaller [of r] dirs glob_matches.no_dirs [of r] glob_matches.dirs [of _ r] by auto
    next
      case anything
      then have "glob_tokens p = AnyText # glob_tokens r" by (cases r) auto
      then have "rs \<in> glob_lang (AnyText # glob_tokens r)" using less.prems by simp
      then show ?thesis unfolding lang_AnyText anything(1)
        using smaller [of r] anything glob_matches.any_text [of r] by auto
    next
      case star
      then have "glob_tokens p = Segment # glob_tokens s" using Cons by (cases s) auto
      then have "rs \<in> glob_lang (Segment # glob_tokens s)" using less.prems by simp
      then show ?thesis unfolding lang_Segment Cons
        using smaller [of s] Cons star glob_matches.segment [of s] by auto
    next
      case one
      then have "rs \<in> glob_lang (One # glob_tokens s)" using less.prems Cons by simp
      then show ?thesis unfolding lang_One Cons
        using smaller [of s] Cons one glob_matches.any_rune [of _ s] by auto
    next
      case lit
      then have "rs \<in> glob_lang (Lit (of_char c) # glob_tokens s)" using less.prems Cons by simp
      then show ?thesis unfolding lang_Lit Cons
        using smaller [of s] Cons lit glob_matches.literal [of c s] by auto
    qed
  qed
qed

lemma glob_matches_iff: "glob_matches p rs \<longleftrightarrow> rs \<in> glob_lang (glob_tokens p)"
  using glob_matches_tokens tokens_glob_matches by blast

text \<open>A relative path without parent directories and backslashes is cleaned by dropping its empty and \<open>.\<close> elements.\<close>

definition plain_pattern :: "string \<Rightarrow> string" where
  "plain_pattern p =
     (let es = filter (\<lambda>e. e \<noteq> [] \<and> e \<noteq> ''.'') (split_on (CHR ''/'') p) in if es = [] then ''.'' else join_with ''/'' es)"

lemma clean_elements_plain:
  "''..'' \<notin> set es \<Longrightarrow> clean_elements rooted out es = rev out @ filter (\<lambda>e. e \<noteq> [] \<and> e \<noteq> ''.'') es"
  by (induction es arbitrary: out) auto

lemma join_with_Cons: "join_with sep (e # es) = e @ (if es = [] then [] else sep @ join_with sep es)"
  by (cases es) auto

lemma set_join_with: "set (join_with sep es) \<subseteq> set sep \<union> (\<Union>e \<in> set es. set e)"
  by (induction sep es rule: join_with.induct) auto

lemma set_split_on: "w \<in> set (split_on c s) \<Longrightarrow> set w \<subseteq> set s"
proof (induction s arbitrary: w)
  case (Cons x s)
  obtain v ws where "split_on c s = v # ws" by (cases "split_on c s") auto
  then show ?case using Cons.IH [of v] Cons.IH [of w] Cons.prems by (auto split: if_split_asm)
qed simp

lemma replace_no_backslash: "CHR 0x5C \<notin> set s \<Longrightarrow> replace_backslash s = s"
  by (auto simp: replace_backslash_def intro!: map_idI)

lemma plain_pattern_clean:
  assumes "CHR 0x5C \<notin> set p" and "\<not> prefix ''/'' p" and "''..'' \<notin> set (split_on (CHR ''/'') p)"
  shows "trim_prefix ''./'' (replace_backslash (path_Clean p)) = plain_pattern p"
proof -
  define es where "es = filter (\<lambda>e. e \<noteq> [] \<and> e \<noteq> ''.'') (split_on (CHR ''/'') p)"
  have elem: "e \<noteq> [] \<and> e \<noteq> ''.'' \<and> CHR ''/'' \<notin> set e \<and> CHR 0x5C \<notin> set e" if "e \<in> set es" for e
    using that assms(1) split_on_no_sep [of e "CHR ''/''" p] set_split_on [of e "CHR ''/''" p] by (auto simp: es_def)
  have clean: "path_Clean p = plain_pattern p"
  proof (cases es)
    case (Cons e ws)
    then have "join_with ''/'' es \<noteq> []" using elem [of e] by (simp add: join_with_Cons)
    then show ?thesis using assms(2,3) Cons by (simp add: path_Clean_def plain_pattern_def clean_elements_plain Let_def flip: es_def)
  qed (use assms(2,3) in \<open>simp add: path_Clean_def plain_pattern_def clean_elements_plain Let_def flip: es_def\<close>)
  have slash: "CHR 0x5C \<notin> set (plain_pattern p)"
    using elem set_join_with [of "''/''" es] by (auto simp: plain_pattern_def Let_def simp flip: es_def)
  have "\<not> prefix ''./'' (plain_pattern p)"
  proof (cases es)
    case (Cons e ws)
    obtain x xs where e: "e = x # xs" using elem [of e] Cons by (cases e) auto
    show ?thesis
    proof (cases xs)
      case Nil
      then show ?thesis using elem [of e] Cons e by (auto simp: plain_pattern_def Let_def join_with_Cons simp flip: es_def)
    next
      case (Cons y ys)
      then show ?thesis using elem [of e] \<open>es = e # ws\<close> e by (simp add: plain_pattern_def Let_def join_with_Cons flip: es_def)
    qed
  qed (simp add: plain_pattern_def flip: es_def)
  then show ?thesis using clean replace_no_backslash [OF slash] by (simp add: trim_prefix_def)
qed

section \<open>Forbidden files\<close>

lemma set_mergeForbidden: "set defaultForbiddenFiles \<subseteq> set (mergeForbidden vs)"
  by (simp add: mergeForbidden_def set_dedup defaultForbiddenFiles_def replace_backslash_def plain_char_def)

lemma mergeForbidden_distinct: "distinct (mergeForbidden vs)"
  by (simp add: mergeForbidden_def distinct_dedup)

lemmas glob_eval = path_Clean_def replace_backslash_def trim_prefix_def

lemma glob_in_any_dir:
  assumes "glob_tokens (trim_prefix ''./'' (replace_backslash (path_Clean pattern))) = AnyDirs # ts"
    and "d = [] \<or> last d = CHR ''/''" and "CHR 0x0A \<notin> set d" and "gmatch ts (decode_runes f)"
  shows "globMatch pattern (d @ f)"
proof (cases "d = []")
  case True
  then show ?thesis using assms by (simp add: globMatch_def)
next
  case False
  with assms(2) obtain d' where d: "d = d' @ ''/''" by (metis append_butlast_last_id)
  have "decode_runes (d @ f) = (decode_runes d' @ [47]) @ decode_runes f"
    using d by (simp add: decode_append_ascii)
  moreover have "10 \<notin> set (decode_runes d')" using assms(3) d by (simp add: no_newline_runes)
  moreover have "decode_runes f \<in> glob_lang ts" using assms(4) by (simp add: gmatch_iff_lang)
  ultimately have "decode_runes (d @ f) \<in> glob_lang (AnyDirs # ts)"
    unfolding glob_lang.simps token_lang.simps by blast
  then show ?thesis using assms(1) by (simp add: globMatch_def gmatch_iff_lang)
qed

lemma gmatch_lits: "gmatch (map Lit xs @ ts) (xs @ rs) = gmatch ts rs"
  by (induction xs) auto

text \<open>The pattern tails of the default rules.\<close>

lemma default_tokens:
  "glob_tokens (trim_prefix ''./'' (replace_backslash (path_Clean ''**/.env''))) = AnyDirs # map Lit [46, 101, 110, 118]"
  "glob_tokens (trim_prefix ''./'' (replace_backslash (path_Clean ''**/.env.*''))) = AnyDirs # map Lit [46, 101, 110, 118, 46] @ [Segment]"
  "glob_tokens (trim_prefix ''./'' (replace_backslash (path_Clean ''**/.git/**''))) = AnyDirs # map Lit [46, 103, 105, 116, 47] @ [AnyText]"
  by (simp_all add: glob_eval)

definition secret_file :: "string \<Rightarrow> bool" where
  "secret_file f \<longleftrightarrow> f = ''.env'' \<or> prefix ''.env.'' f \<and> CHR ''/'' \<notin> set f
     \<or> prefix ''.git/'' f \<and> CHR 0x0A \<notin> set f"

lemma secret_globbed:
  assumes "secret_file f" and "d = [] \<or> last d = CHR ''/''" and "CHR 0x0A \<notin> set d"
  shows "\<exists>pattern \<in> set defaultForbiddenFiles. globMatch pattern (d @ f)"
proof -
  consider (env) "f = ''.env''" | (env_suffix) x where "f = ''.env.'' @ x" "CHR ''/'' \<notin> set x"
    | (git) x where "f = ''.git/'' @ x" "CHR 0x0A \<notin> set x"
    using assms(1) by (auto simp: secret_file_def prefix_def)
  then show ?thesis
  proof cases
    case env
    have "gmatch (map Lit [46, 101, 110, 118]) (decode_runes f)"
      using env by (simp add: decode_ascii_Cons)
    then have "globMatch ''**/.env'' (d @ f)" using assms(2,3) default_tokens(1) by (intro glob_in_any_dir) auto
    then show ?thesis by (simp add: defaultForbiddenFiles_def)
  next
    case env_suffix
    have "decode_runes f = [46, 101, 110, 118, 46] @ decode_runes x"
      using env_suffix by (simp add: decode_ascii_Cons)
    moreover have "gmatch [Segment] (decode_runes x)"
      using no_slash_runes [OF env_suffix(2)] by (simp only: gmatch_iff_lang glob_lang.simps token_lang.simps) simp
    ultimately have "gmatch (map Lit [46, 101, 110, 118, 46] @ [Segment]) (decode_runes f)"
      by (simp only: gmatch_lits)
    then have "globMatch ''**/.env.*'' (d @ f)" using assms(2,3) default_tokens(2) by (intro glob_in_any_dir) auto
    then show ?thesis by (simp add: defaultForbiddenFiles_def)
  next
    case git
    have "decode_runes f = [46, 103, 105, 116, 47] @ decode_runes x"
      using git by (simp add: decode_ascii_Cons)
    moreover have "gmatch [AnyText] (decode_runes x)"
      using no_newline_runes [OF git(2)] by (simp only: gmatch_iff_lang glob_lang.simps token_lang.simps) simp
    ultimately have "gmatch (map Lit [46, 103, 105, 116, 47] @ [AnyText]) (decode_runes f)"
      by (simp only: gmatch_lits)
    then have "globMatch ''**/.git/**'' (d @ f)" using assms(2,3) default_tokens(3) by (intro glob_in_any_dir) auto
    then show ?thesis by (simp add: defaultForbiddenFiles_def)
  qed
qed

definition secret_path :: "string \<Rightarrow> bool" where
  "secret_path n \<longleftrightarrow> (\<exists>d f. n = d @ f \<and> (d = [] \<or> last d = CHR ''/'') \<and> CHR 0x0A \<notin> set d \<and> secret_file f)"

lemma secret_path_forbidden:
  assumes "secret_path (trim_prefix ''./'' (replace_backslash (path_Clean name)))"
  shows "\<not> allowedPath name allowed (mergeForbidden vs)"
proof -
  obtain d f where n: "trim_prefix ''./'' (replace_backslash (path_Clean name)) = d @ f"
    and df: "secret_file f" "d = [] \<or> last d = CHR ''/''" "CHR 0x0A \<notin> set d"
    using assms by (auto simp: secret_path_def)
  obtain pattern where "pattern \<in> set defaultForbiddenFiles"
    "globMatch pattern (trim_prefix ''./'' (replace_backslash (path_Clean name)))"
    using secret_globbed [OF df] n by auto
  then show ?thesis
    using set_mergeForbidden [of vs] by (auto simp: allowedPath_def Let_def list_ex_iff)
qed

text \<open>A directory whose name contains a line feed, and the file \<open>.env\<close> below it.\<close>

lemma plain_file:
  assumes "CHR 0x0A \<in> set d" and "CHR ''/'' \<notin> set d" and "CHR 0x5C \<notin> set d"
  shows "CHR 0x5C \<notin> set (d @ ''/.env'')" "\<not> prefix ''/'' (d @ ''/.env'')" "''..'' \<notin> set (split_on (CHR ''/'') (d @ ''/.env''))"
    "plain_pattern (d @ ''/.env'') = d @ ''/.env''"
proof -
  have split: "split_on (CHR ''/'') (d @ ''/.env'') = [d, ''.env'']"
    using assms(2) by (simp add: split_on_append split_on_single)
  have d: "d \<noteq> []" "d \<noteq> ''.''" "d \<noteq> ''..''" using assms(1) by auto
  show "CHR 0x5C \<notin> set (d @ ''/.env'')" using assms(3) by simp
  show "\<not> prefix ''/'' (d @ ''/.env'')" using assms(2) d(1) by (cases d) auto
  show "''..'' \<notin> set (split_on (CHR ''/'') (d @ ''/.env''))" using d(3) by (simp add: split)
  show "plain_pattern (d @ ''/.env'') = d @ ''/.env''" using d by (simp add: plain_pattern_def split)
qed

lemma env_runes: "decode_runes (d @ ''/.env'') = decode_runes d @ 47 # [46, 101, 110, 118]"
  by (simp add: decode_append_ascii decode_ascii_Cons)

lemma newline_rune: "CHR 0x0A \<in> set d \<Longrightarrow> 10 \<in> set (decode_runes d)"
  by (auto dest!: split_list simp: decode_append_ascii)

lemma star_slash_star:
  assumes "CHR ''/'' \<notin> set d"
  shows "globMatch ''*/*'' (d @ ''/.env'')"
proof -
  have "glob_tokens (trim_prefix ''./'' (replace_backslash (path_Clean ''*/*''))) = [Segment, Lit 47, Segment]"
    by (simp add: glob_eval)
  moreover have "decode_runes (d @ ''/.env'') \<in> glob_lang [Segment, Lit 47, Segment]"
    unfolding env_runes lang_Segment lang_Lit using no_slash_runes [OF assms]
    by (intro exI [of _ "decode_runes d"] exI [of _ "47 # [46, 101, 110, 118]"] conjI exI [of _ "[46, 101, 110, 118]"] exI [of _ "[]"]) simp_all
  ultimately show ?thesis by (simp only: globMatch_def gmatch_iff_lang)
qed

lemma mergeForbidden_default: "set (mergeForbidden []) = {''**/.env'', ''**/.env.*'', ''**/.git/**'', ''.env'', ''.env.*'', ''.git/**''}"
  by (auto simp: mergeForbidden_def set_dedup defaultForbiddenFiles_def replace_backslash_def plain_char_def)

lemma lang_lits: "rs \<in> glob_lang (map Lit cs @ ts) \<longleftrightarrow> (\<exists>ys. rs = cs @ ys \<and> ys \<in> glob_lang ts)"
  by (induction cs arbitrary: rs) (auto simp: lang_Lit simp del: glob_lang.simps(2))

lemma one_slash:
  assumes "47 \<notin> set (D :: nat list)" and "47 \<notin> set E"
  shows "D @ 47 # E = xs @ 47 # ys \<longleftrightarrow> D = xs \<and> E = ys"
  using append_Cons_eq_iff [OF assms] .

lemma default_rules_miss:
  assumes "CHR 0x0A \<in> set d" and "CHR ''/'' \<notin> set d"
    and "pattern \<in> {''**/.env'', ''**/.env.*'', ''**/.git/**'', ''.env'', ''.env.*'', ''.git/**''}"
  shows "\<not> globMatch pattern (d @ ''/.env'')"
proof -
  let ?rs = "decode_runes d @ 47 # [46, 101, 110, 118]"
  let ?t = "\<lambda>pattern. glob_tokens (trim_prefix ''./'' (replace_backslash (path_Clean pattern)))"
  have lf: "10 \<in> set ?rs" using newline_rune [OF assms(1)] by simp
  have slash: "47 \<notin> set (decode_runes d)" using no_slash_runes [OF assms(2)] .
  have any_dirs: "\<not> (\<exists>xs ys. ?rs = xs @ 47 # ys \<and> 10 \<notin> set xs \<and> ys \<in> L)" for L
    using newline_rune [OF assms(1)] one_slash [OF slash, of "[46, 101, 110, 118]"] by auto
  have env: "?rs \<notin> glob_lang (map Lit [46, 101, 110, 118])"
    using lf lang_lits [of ?rs "[46, 101, 110, 118]" "[]"] by auto
  have suffix: "?rs \<notin> glob_lang (map Lit [46, 101, 110, 118, 46] @ [Segment])"
  proof
    assume "?rs \<in> glob_lang (map Lit [46, 101, 110, 118, 46] @ [Segment])"
    then obtain ys where ys: "?rs = [46, 101, 110, 118, 46] @ ys" "47 \<notin> set ys"
      unfolding lang_lits lang_Segment by auto
    have "47 \<in> set ?rs" by simp
    then have "47 \<in> set ([46, 101, 110, 118, 46] @ ys)" unfolding ys(1) .
    then show False using ys(2) by simp
  qed
  have git: "?rs \<notin> glob_lang (map Lit [46, 103, 105, 116, 47] @ [AnyText])"
  proof
    assume "?rs \<in> glob_lang (map Lit [46, 103, 105, 116, 47] @ [AnyText])"
    then obtain ys where ys: "?rs = [46, 103, 105, 116, 47] @ ys" "10 \<notin> set ys"
      unfolding lang_lits lang_AnyText by auto
    have "10 \<in> set ([46, 103, 105, 116, 47] @ ys)" using lf unfolding ys(1) .
    then show False using ys(2) by simp
  qed
  have tokens: "?t ''.env'' = map Lit [46, 101, 110, 118]" "?t ''.env.*'' = map Lit [46, 101, 110, 118, 46] @ [Segment]"
    "?t ''.git/**'' = map Lit [46, 103, 105, 116, 47] @ [AnyText]"
    by (simp_all add: glob_eval)
  have "?rs \<notin> glob_lang (?t pattern)"
    using assms(3) any_dirs env suffix git unfolding insert_iff
    by (elim disjE) (simp_all only: tokens default_tokens lang_AnyDirs, auto)
  then show ?thesis by (simp only: globMatch_def gmatch_iff_lang env_runes not_False_eq_True)
qed

section \<open>Admitted packets\<close>

lemma complain_Nil [simp]: "complain b t = [] \<longleftrightarrow> \<not> b"
  by (simp add: complain_def)

lemma Evaluate_allowed:
  "ev_Allowed (Evaluate p) \<longleftrightarrow>
     (let n = normalized_packet p in
      identity_errors n = [] \<and> patch_errors n = [] \<and> pattern_errors n = [] \<and> check_errors n = []
      \<and> (requires_approval n \<longrightarrow> pkt_ApprovedBy n \<noteq> []) \<and> disclosure_errors n = [])"
  by (auto simp: Evaluate_def Let_def)

lemma Evaluate_forbidden: "ev_EffectiveForbiddenFiles (Evaluate p) = mergeForbidden (pkt_ForbiddenFiles p)"
  by (simp add: Evaluate_def Let_def)

lemma pattern_errors_Nil:
  "pattern_errors n = [] \<longleftrightarrow>
     (\<forall>pattern \<in> set (pkt_AllowedFiles n) \<union> set (mergeForbidden (pkt_ForbiddenFiles n)). validatePattern pattern = None)"
  by (auto simp: pattern_errors_def split: option.splits)

lemma check_errors_Nil:
  assumes "check_errors n = []" and "c \<in> set (pkt_Checks n)"
  shows "check_Argv c \<noteq> [] \<and> trim_space (hd (check_Argv c)) \<noteq> [] \<and> 0 \<le> check_TimeoutSeconds c \<and> check_TimeoutSeconds c \<le> 1800"
proof -
  obtain i where "i < length (pkt_Checks n)" "pkt_Checks n ! i = c"
    using assms(2) by (auto simp: in_set_conv_nth)
  then have "(i, c) \<in> set (enumerate 0 (pkt_Checks n))" by (simp add: in_set_enumerate_eq)
  then show ?thesis using assms(1) by (fastforce simp: check_errors_def split: if_splits)
qed

lemma validatePattern_None:
  "validatePattern pattern = None \<longleftrightarrow>
     (let q = trim_space (replace_backslash pattern) in
      q \<noteq> [] \<and> \<not> prefix ''/'' q \<and> ''..'' \<notin> set (split_on (CHR ''/'') q))"
  by (simp add: validatePattern_def Let_def)

section \<open>Properties\<close>


text \<open>
  C36: Secrets and git metadata are out of scope for every packet: whatever files a packet allows and
  whatever it forbids in addition, a changed path in any directory whose name is \<open>.env\<close> or starts with \<open>.env.\<close>, or
  that lies below a \<open>.git\<close> directory, is not allowed (the directory, and the rest of a path below \<open>.git\<close>, without a line feed).
\<close>

theorem secrets_never_allowed:
  assumes "secret_path (trim_prefix ''./'' (replace_backslash (path_Clean name)))"
  shows "\<not> allowedPath name allowed (ev_EffectiveForbiddenFiles (Evaluate packet))"
  using secret_path_forbidden [OF assms] by (simp add: Evaluate_forbidden)

text \<open>
  C37: The default rules stop at a line feed. The dot of the expression built for \<open>**/\<close> matches no line feed, so
  below any directory whose name contains one the file \<open>.env\<close> is matched by no default rule, and every packet
  that allows \<open>*/*\<close> and forbids nothing more may change it.
\<close>

theorem newline_escapes_default_rules:
  assumes "CHR 0x0A \<in> set d" and "CHR ''/'' \<notin> set d" and "CHR 0x5C \<notin> set d" and "''*/*'' \<in> set allowed"
  shows "allowedPath (d @ ''/.env'') allowed (mergeForbidden [])"
proof -
  have name: "trim_prefix ''./'' (replace_backslash (path_Clean (d @ ''/.env''))) = d @ ''/.env''"
    using plain_pattern_clean [of "d @ ''/.env''"] plain_file [OF assms(1-3)] by simp
  have "globMatch ''*/*'' (d @ ''/.env'')" by (rule star_slash_star [OF assms(2)])
  moreover have "\<not> globMatch pattern (d @ ''/.env'')" if "pattern \<in> set (mergeForbidden [])" for pattern
    by (rule default_rules_miss [OF assms(1,2) that [unfolded mergeForbidden_default]])
  ultimately show ?thesis using assms(4) name by (auto simp: allowedPath_def Let_def list_ex_iff)
qed

text \<open>
  Disclosure. An admitted packet that asks for cloud review is not local-only, is no maintenance packet,
  names one of the two known providers, carries no restricted data, and confidential data only with a named
  approver; an admitted packet with restricted data is local-only.
\<close>

theorem admitted_disclosure:
  assumes "ev_Allowed (Evaluate p)"
  shows "(pkt_CloudReview p \<longrightarrow> \<not> pkt_LocalOnly p \<and> to_lower (trim_space (pkt_TaskClass p)) = ''development''
       \<and> to_lower (trim_space (pkt_CloudProvider p)) \<in> {''codex'', ''kimi''}
       \<and> to_lower (trim_space (pkt_DataClassification p)) \<in> {''public'', ''internal'', ''confidential''}
       \<and> (to_lower (trim_space (pkt_DataClassification p)) = ''confidential'' \<longrightarrow> trim_space (pkt_CloudApprovedBy p) \<noteq> [])
       \<and> ev_Route (Evaluate p) = ''cloud_review_advisory'')
     \<and> (to_lower (trim_space (pkt_DataClassification p)) = ''restricted'' \<longrightarrow> pkt_LocalOnly p)"
proof -
  have "identity_errors (normalized_packet p) = []" "disclosure_errors (normalized_packet p) = []"
    using assms by (simp_all add: Evaluate_allowed Let_def)
  then show ?thesis
    by (auto simp: identity_errors_def disclosure_errors_def normalized_packet_def Evaluate_def packet_route_def Let_def split: if_splits)
qed

text \<open>
  Bounded patches. An admitted patch packet names a base revision, at least one allowed file, a rollback
  step and positive limits; all its file patterns are relative and never traverse upwards; it has a check, every check names an
  executable and a timeout of at most 1800 seconds; and a destructive packet or one in a high-risk category
  has a named approver.
\<close>

theorem admitted_patch_bounded:
  assumes "ev_Allowed (Evaluate p)" and "to_lower (trim_space (pkt_Mode p)) = ''patch''"
  shows "trim_space (pkt_BaseRevision p) \<noteq> [] \<and> pkt_AllowedFiles p \<noteq> [] \<and> cleanStrings (pkt_Rollback p) \<noteq> []
    \<and> 1 \<le> lim_MaxChangedFiles (pkt_Limits p) \<and> 1 \<le> lim_MaxDiffLines (pkt_Limits p) \<and> 0 \<le> lim_MaxPatchBytes (pkt_Limits p)
    \<and> (\<forall>pattern \<in> set (pkt_AllowedFiles p) \<union> set (ev_EffectiveForbiddenFiles (Evaluate p)).
         \<not> prefix ''/'' (trim_space (replace_backslash pattern))
         \<and> ''..'' \<notin> set (split_on (CHR ''/'') (trim_space (replace_backslash pattern))))
    \<and> pkt_Checks p \<noteq> []
    \<and> (\<forall>c \<in> set (pkt_Checks p). check_Argv c \<noteq> [] \<and> trim_space (hd (check_Argv c)) \<noteq> []
         \<and> 0 \<le> check_TimeoutSeconds c \<and> check_TimeoutSeconds c \<le> 1800)
    \<and> (pkt_Destructive p \<or> high_risk p \<longrightarrow> trim_space (pkt_ApprovedBy p) \<noteq> [] \<and> ev_Risk (Evaluate p) = ''high'')"
proof -
  note ok = assms(1) [unfolded Evaluate_allowed Let_def]
  have fields: "pkt_AllowedFiles (normalized_packet p) = pkt_AllowedFiles p" "pkt_Checks (normalized_packet p) = pkt_Checks p"
    "pkt_ForbiddenFiles (normalized_packet p) = pkt_ForbiddenFiles p" "pkt_Mode (normalized_packet p) = ''patch''"
    "high_risk (normalized_packet p) = high_risk p" "pkt_Destructive (normalized_packet p) = pkt_Destructive p"
    "pkt_ApprovedBy (normalized_packet p) = trim_space (pkt_ApprovedBy p)"
    using assms(2) by (simp_all add: normalized_packet_def high_risk_def)
  have "patch_errors (normalized_packet p) = []" using ok by blast
  then have a: "trim_space (pkt_BaseRevision p) \<noteq> []" "pkt_AllowedFiles p \<noteq> []" "cleanStrings (pkt_Rollback p) \<noteq> []"
    "1 \<le> lim_MaxChangedFiles (pkt_Limits p)" "1 \<le> lim_MaxDiffLines (pkt_Limits p)" "0 \<le> lim_MaxPatchBytes (pkt_Limits p)"
    "pkt_Checks p \<noteq> []"
    unfolding patch_errors_def using assms(2) by (auto simp: normalized_packet_def)
  have b: "\<forall>pattern \<in> set (pkt_AllowedFiles p) \<union> set (ev_EffectiveForbiddenFiles (Evaluate p)). validatePattern pattern = None"
    using ok [unfolded pattern_errors_Nil fields] unfolding Evaluate_forbidden by blast
  have c: "pkt_Destructive p \<or> high_risk p \<longrightarrow> trim_space (pkt_ApprovedBy p) \<noteq> [] \<and> ev_Risk (Evaluate p) = ''high''"
    using ok by (auto simp: requires_approval_def fields Evaluate_def packet_risk_def Let_def)
  have d: "\<forall>c \<in> set (pkt_Checks p). check_Argv c \<noteq> [] \<and> trim_space (hd (check_Argv c)) \<noteq> []
         \<and> 0 \<le> check_TimeoutSeconds c \<and> check_TimeoutSeconds c \<le> 1800"
    using ok check_errors_Nil [of "normalized_packet p"] by (simp add: fields)
  from a b c d show ?thesis by (simp add: validatePattern_None Let_def)
qed

section \<open>Instances\<close>

definition demo_packet :: packet where
  "demo_packet =
     \<lparr>pkt_SchemaVersion = ''hybrid-ai/work-packet/v1'', pkt_ID = ''w'', pkt_Goal = ''g'', pkt_Workspace = ''/repo'',
      pkt_BaseRevision = ''HEAD'', pkt_Mode = ''patch'', pkt_TaskClass = ''development'',
      pkt_DataClassification = ''confidential'', pkt_Categories = [''database''], pkt_LocalOnly = False,
      pkt_CloudReview = True, pkt_CloudProvider = ''kimi'', pkt_CloudApprovedBy = ''lead'', pkt_Destructive = False,
      pkt_ApprovedBy = ''owner'', pkt_AllowedFiles = [''src/**''], pkt_ForbiddenFiles = [], pkt_Rollback = [''revert''],
      pkt_Checks = [\<lparr>check_Name = ''test'', check_Argv = [''go'', ''test''], check_TimeoutSeconds = 0\<rparr>],
      pkt_Limits = \<lparr>lim_MaxChangedFiles = 3, lim_MaxDiffLines = 100, lim_MaxPatchBytes = 0\<rparr>\<rparr>"

lemmas packet_eval = normalized_packet_def identity_errors_def patch_errors_def pattern_errors_def check_errors_def
  disclosure_errors_def requires_approval_def high_risk_def cleanStrings_def highRiskCategories_def SchemaVersion_def
  mergeForbidden_def defaultForbiddenFiles_def replace_backslash_def validatePattern_def complain_def plain_char_def
  lower_byte_def

lemma demo_packet_allowed: "ev_Allowed (Evaluate demo_packet)"
  unfolding Evaluate_allowed Let_def demo_packet_def by (simp add: packet_eval)


theorem newline_escapes_default_rules_witness:
  "allowedPath ((''x'' @ [CHR 0x0A] @ ''y'') @ ''/.env'') [''*/*''] (mergeForbidden [])"
  by (rule newline_escapes_default_rules) simp_all

theorem secrets_never_allowed_witness:
  "secret_path (trim_prefix ''./'' (replace_backslash (path_Clean ''a/./.env'')))
   \<and> \<not> allowedPath ''a/./.env'' [''**''] (ev_EffectiveForbiddenFiles (Evaluate demo_packet))"
proof -
  have "trim_prefix ''./'' (replace_backslash (path_Clean ''a/./.env'')) = ''a/'' @ ''.env''"
    by (simp add: glob_eval)
  then have "secret_path (trim_prefix ''./'' (replace_backslash (path_Clean ''a/./.env'')))"
    unfolding secret_path_def by (intro exI [of _ "''a/''"] exI [of _ "''.env''"]) (simp add: secret_file_def)
  then show ?thesis using secrets_never_allowed by blast
qed

theorem admitted_disclosure_witness:
  "ev_Allowed (Evaluate demo_packet) \<and> pkt_CloudReview demo_packet \<and> ev_Route (Evaluate demo_packet) = ''cloud_review_advisory''"
  using admitted_disclosure [OF demo_packet_allowed] demo_packet_allowed by (simp add: demo_packet_def)

theorem admitted_patch_bounded_witness:
  "ev_Allowed (Evaluate demo_packet) \<and> high_risk demo_packet \<and> ev_Risk (Evaluate demo_packet) = ''high''"
proof -
  have "to_lower (trim_space (pkt_Mode demo_packet)) = ''patch''" "high_risk demo_packet"
    by (simp_all add: demo_packet_def packet_eval)
  then show ?thesis using admitted_patch_bounded [OF demo_packet_allowed] demo_packet_allowed by simp
qed

end
