(* ===== verification/PatchVerifier.thy ===== *)
theory PatchVerifier
  imports WorkPacketProps Sha256
begin

text \<open>
  \<open>VerifyPatch\<close> of \<open>src/components/workpacket/verify.go\<close>: a candidate patch is applied to a disposable clone,
  its extent is checked against the packet and the packet's commands are run. Processes and files are those
  of the host: a record of functions on the state of the host, an argument of the definitions. Nothing is
  assumed of it, so what is proved of an accepted patch holds whatever git and the checks do.
\<close>

section \<open>The host\<close>

record process =
  proc_writes :: "string list"
  proc_stdout :: string
  proc_error :: "(string \<times> int option) option"
  proc_deadline :: bool

text \<open>
  \<open>host_run\<close> starts a command in a directory with an environment and an optional timeout in seconds. A process
  that fails has an error text and, when it exited, an exit code; \<open>proc_deadline\<close> tells that the timeout passed.
\<close>

record 'w host =
  host_abs :: "string \<Rightarrow> string result"
  host_symlinks :: "'w \<Rightarrow> string \<Rightarrow> string result"
  host_isdir :: "'w \<Rightarrow> string \<Rightarrow> bool"
  host_lookup_env :: "string \<Rightarrow> string option"
  host_mkdir_temp :: "'w \<Rightarrow> (string + string) \<times> 'w"
  host_write_file :: "'w \<Rightarrow> string \<Rightarrow> string \<Rightarrow> string option \<times> 'w"
  host_run :: "'w \<Rightarrow> string \<Rightarrow> string list \<Rightarrow> string list \<Rightarrow> int option \<Rightarrow> process \<times> 'w"

definition safeEnvironment :: "'w host \<Rightarrow> string list" where
  "safeEnvironment h =
     concat (map (\<lambda>key. case host_lookup_env h key of None \<Rightarrow> [] | Some value \<Rightarrow> [key @ ''='' @ value])
       [''PATH'', ''HOME'', ''TMPDIR'', ''LANG'', ''LC_ALL'', ''GOCACHE'', ''GOMODCACHE'', ''GOPATH''])
     @ [''CI=1'', ''GIT_TERMINAL_PROMPT=0'', ''GIT_CONFIG_NOSYSTEM=1'', ''PYTHONDONTWRITEBYTECODE=1'']"

text \<open>\<open>limitedBuffer\<close> keeps at most its limit of what is written to it.\<close>

definition maxCheckOutputBytes :: nat where
  "maxCheckOutputBytes = 32768"

definition limitedBuffer_Write :: "nat \<Rightarrow> string \<Rightarrow> string \<Rightarrow> string" where
  "limitedBuffer_Write limit buf value =
     (if length buf < limit then buf @ take (limit - length buf) value else buf)"

definition limitedBuffer_String :: "nat \<Rightarrow> string \<Rightarrow> string" where
  "limitedBuffer_String limit buf = (if length buf = limit then buf @ [CHR 0x0A] @ ''[output truncated]'' else buf)"

type_synonym command_error = "string \<times> int option"

definition commandOutput ::
  "'w host \<Rightarrow> 'w \<Rightarrow> string \<Rightarrow> string list \<Rightarrow> int option \<Rightarrow> (string \<times> process) \<times> 'w" where
  "commandOutput h w dir argv timeout =
     (case host_run h w dir (safeEnvironment h) argv timeout of
        (p, w') \<Rightarrow> ((trim_space (limitedBuffer_String maxCheckOutputBytes
             (foldl (limitedBuffer_Write maxCheckOutputBytes) [] (proc_writes p))), p), w'))"

definition commandBytes :: "'w host \<Rightarrow> 'w \<Rightarrow> string \<Rightarrow> string list \<Rightarrow> (string + string) \<times> 'w" where
  "commandBytes h w dir argv =
     (case host_run h w dir (safeEnvironment h) argv None of
        (p, w') \<Rightarrow> (case proc_error p of None \<Rightarrow> (Inr (proc_stdout p), w') | Some (e, _) \<Rightarrow> (Inl e, w')))"

definition commandError :: "string \<Rightarrow> string \<Rightarrow> string" where
  "commandError e out = (if trim_space out = [] then e else e @ '': '' @ trim_space out)"

text \<open>The computations of the verifier: a message stops the verification.\<close>

type_synonym ('w, 'a) verifying = "(message + 'a) \<times> 'w"

definition and_then :: "('w, 'a) verifying \<Rightarrow> ('a \<Rightarrow> 'w \<Rightarrow> ('w, 'b) verifying) \<Rightarrow> ('w, 'b) verifying" where
  "and_then r k = (case r of (Inl m, w) \<Rightarrow> (Inl m, w) | (Inr a, w) \<Rightarrow> k a w)"

text \<open>A git command whose failure is reported with a prefix, and \<open>gitOutput\<close>.\<close>

definition git_step :: "'w host \<Rightarrow> string \<Rightarrow> string \<Rightarrow> string list \<Rightarrow> 'w \<Rightarrow> ('w, string) verifying" where
  "git_step h label dir args w =
     (case commandOutput h w dir (''git'' # args) None of
        ((out, p), w') \<Rightarrow> (case proc_error p of
            None \<Rightarrow> (Inr out, w') | Some (e, _) \<Rightarrow> (Inl (Cause label (commandError e out)), w')))"

definition gitOutput :: "'w host \<Rightarrow> 'w \<Rightarrow> string \<Rightarrow> string list \<Rightarrow> (string + string) \<times> 'w" where
  "gitOutput h w dir args =
     (case commandOutput h w dir (''git'' # args) None of
        ((out, p), w') \<Rightarrow> (case proc_error p of
            None \<Rightarrow> (Inr out, w')
          | Some (e, _) \<Rightarrow>
              if trim_space out \<noteq> [] then (Inl (''git '' @ join_with '' '' args @ '': '' @ e @ '': '' @ trim_space out), w')
              else (Inl (''git '' @ join_with '' '' args @ '': '' @ e), w')))"

definition resolveWorkspace :: "'w host \<Rightarrow> string \<Rightarrow> 'w \<Rightarrow> ('w, string) verifying" where
  "resolveWorkspace h value w =
     (case host_abs h (trim_space value) of
        Inl _ \<Rightarrow> (Inl (Text ''resolve workspace''), w)
      | Inr absolute \<Rightarrow> (case host_symlinks h w absolute of
          Inl _ \<Rightarrow> (Inl (Text ''resolve workspace symlinks''), w)
        | Inr resolved \<Rightarrow>
            if \<not> host_isdir h w resolved then (Inl (Text ''workspace is not a directory''), w)
            else (case gitOutput h w resolved [''rev-parse'', ''--show-toplevel''] of
                (Inl e, w') \<Rightarrow> (Inl (Cause ''workspace is not a Git repository: '' e), w')
              | (Inr _, w') \<Rightarrow> (Inr resolved, w'))))"

section \<open>The extent of a patch\<close>

record file_change =
  fc_Path :: string
  fc_Additions :: int
  fc_Deletions :: int

fun split_once :: "char \<Rightarrow> string \<Rightarrow> (string \<times> string) option" where
  "split_once c [] = None"
| "split_once c (x # s) =
     (if x = c then Some ([], s) else case split_once c s of None \<Rightarrow> None | Some (a, b) \<Rightarrow> Some (x # a, b))"

text \<open>\<open>strconv.Atoi\<close>: an optional sign and decimal digits, within 64 bits.\<close>

definition digits_value :: "string \<Rightarrow> int option" where
  "digits_value s =
     (if s \<noteq> [] \<and> list_all (\<lambda>c. CHR ''0'' \<le> c \<and> c \<le> CHR ''9'') s
      then Some (foldl (\<lambda>n c. n * 10 + (of_char c - 48)) 0 s) else None)"

definition Atoi :: "string \<Rightarrow> int option" where
  "Atoi s =
     (let signed = (case s of c # r \<Rightarrow> if c = CHR ''-'' then map_option uminus (digits_value r)
                                else if c = CHR ''+'' then digits_value r else digits_value s
                    | [] \<Rightarrow> None)
      in case signed of None \<Rightarrow> None | Some n \<Rightarrow> if - (2 ^ 63) \<le> n \<and> n < 2 ^ 63 then Some n else None)"

definition parse_record :: "string \<Rightarrow> message + file_change" where
  "parse_record record =
     (case split_once (CHR 0x09) record of
        None \<Rightarrow> Inl (Text ''unexpected git numstat record'')
      | Some (a, rest) \<Rightarrow> (case split_once (CHR 0x09) rest of
          None \<Rightarrow> Inl (Text ''unexpected git numstat record'')
        | Some (d, name) \<Rightarrow>
            if a = ''-'' \<or> d = ''-'' then Inl (Text ''binary patches are not permitted'')
            else (case (Atoi a, Atoi d) of
                (Some additions, Some deletions) \<Rightarrow>
                  Inr \<lparr>fc_Path = name, fc_Additions = additions, fc_Deletions = deletions\<rparr>
              | _ \<Rightarrow> Inl (Text ''invalid git numstat counts''))))"

fun parse_numstat :: "file_change list \<Rightarrow> int \<Rightarrow> string list \<Rightarrow> message + (file_change list \<times> int)" where
  "parse_numstat changes lines_so_far [] = Inr (changes, lines_so_far)"
| "parse_numstat changes lines_so_far (record # records) =
     (if record = [] then parse_numstat changes lines_so_far records
      else case parse_record record of
        Inl m \<Rightarrow> Inl m
      | Inr c \<Rightarrow> parse_numstat (changes @ [c]) (wrap64 (lines_so_far + wrap64 (fc_Additions c + fc_Deletions c))) records)"

definition stagedChanges :: "'w host \<Rightarrow> string \<Rightarrow> 'w \<Rightarrow> ('w, file_change list \<times> int) verifying" where
  "stagedChanges h repository w =
     (case commandBytes h w repository [''git'', ''diff'', ''--cached'', ''--numstat'', ''--no-renames'', ''-z''] of
        (Inl e, w') \<Rightarrow> (Inl (Cause ''inspect staged patch: '' e), w')
      | (Inr output, w') \<Rightarrow> (parse_numstat [] 0 (split_on (CHR 0x00) output), w'))"

definition stagedPatchHash :: "'w host \<Rightarrow> string \<Rightarrow> 'w \<Rightarrow> ('w, string) verifying" where
  "stagedPatchHash h repository w =
     (case commandBytes h w repository [''git'', ''diff'', ''--cached'', ''--binary'', ''--no-ext-diff''] of
        (Inl e, w') \<Rightarrow> (Inl (Cause ''hash staged patch: '' e), w')
      | (Inr patch, w') \<Rightarrow> (Inr (Digest patch), w'))"

section \<open>Checks\<close>

record check_result =
  cr_Name :: string
  cr_Argv :: "string list"
  cr_ExitCode :: int
  cr_Passed :: bool
  cr_Output :: string

definition runCheck :: "'w host \<Rightarrow> string \<Rightarrow> check \<Rightarrow> 'w \<Rightarrow> check_result \<times> 'w" where
  "runCheck h repository check w =
     (let timeout = (if check_TimeoutSeconds check = 0 then 300 else check_TimeoutSeconds check)
      in case commandOutput h w repository (check_Argv check) (Some timeout) of
        ((output, p), w') \<Rightarrow>
          (\<lparr>cr_Name = check_Name check, cr_Argv = check_Argv check,
            cr_ExitCode = (case proc_error p of None \<Rightarrow> 0 | Some (_, None) \<Rightarrow> -1 | Some (_, Some code) \<Rightarrow> code),
            cr_Passed = (proc_error p = None),
            cr_Output = (if proc_error p \<noteq> None \<and> proc_deadline p
                         then trim_space (output @ [CHR 0x0A] @ ''check timed out'') else output)\<rparr>, w'))"

fun run_checks :: "'w host \<Rightarrow> string \<Rightarrow> check_result list \<Rightarrow> check list \<Rightarrow> 'w \<Rightarrow> message option \<times> check_result list \<times> 'w" where
  "run_checks h repository acc [] w = (None, acc, w)"
| "run_checks h repository acc (c # cs) w =
     (case runCheck h repository c w of
        (r, w') \<Rightarrow> if cr_Passed r then run_checks h repository (acc @ [r]) cs w'
                   else (Some (Quoted ''check '' (check_Name c) '' failed''), acc @ [r], w'))"

section \<open>The verification\<close>

record verification_result =
  vr_Accepted :: bool
  vr_Evaluation :: evaluation
  vr_BaseRevision :: string
  vr_ChangedFiles :: "file_change list"
  vr_TotalDiffLines :: int
  vr_Checks :: "check_result list"
  vr_Errors :: "message list"

definition fresh_result :: "evaluation \<Rightarrow> verification_result" where
  "fresh_result e =
     \<lparr>vr_Accepted = False, vr_Evaluation = e, vr_BaseRevision = [], vr_ChangedFiles = [], vr_TotalDiffLines = 0,
      vr_Checks = [], vr_Errors = []\<rparr>"

definition defaultMaxPatchBytes :: int where
  "defaultMaxPatchBytes = 2097152"

text \<open>The refusals before the host is touched.\<close>

definition admission_error :: "packet \<Rightarrow> string \<Rightarrow> message option" where
  "admission_error packet patch =
     (let limit = (if lim_MaxPatchBytes (pkt_Limits packet) = 0 then defaultMaxPatchBytes
                   else lim_MaxPatchBytes (pkt_Limits packet))
      in if \<not> ev_Allowed (Evaluate packet) then Some (Text ''work packet policy rejected execution'')
         else if to_lower (trim_space (pkt_Mode packet)) \<noteq> ''patch'' then Some (Text ''verify requires mode=patch'')
         else if patch = [] then Some (Text ''patch is empty'')
         else if int (length patch) > limit
           then Some (OverLimit ''patch has '' (int (length patch)) '' bytes; limit is '' limit)
         else None)"

text \<open>The clone at the base revision with the patch in its index.\<close>

definition resolve_base :: "'w host \<Rightarrow> packet \<Rightarrow> 'w \<Rightarrow> ('w, string \<times> string) verifying" where
  "resolve_base h packet w =
     and_then (resolveWorkspace h (pkt_Workspace packet) w) (\<lambda>workspace w.
       case gitOutput h w workspace [''rev-parse'', ''--verify'', trim_space (pkt_BaseRevision packet) @ ''^{commit}''] of
         (Inl e, w) \<Rightarrow> (Inl (Cause ''resolve base revision: '' e), w)
       | (Inr revision, w) \<Rightarrow> (Inr (workspace, trim_space revision), w))"

definition stage_patch :: "'w host \<Rightarrow> string \<Rightarrow> string \<Rightarrow> string \<Rightarrow> 'w \<Rightarrow> ('w, string) verifying" where
  "stage_patch h workspace base patch w =
     (case host_mkdir_temp h w of
        (Inl e, w) \<Rightarrow> (Inl (Cause ''create verification directory: '' e), w)
      | (Inr root, w) \<Rightarrow>
          let clone = root @ ''/repository''; patchPath = root @ ''/candidate.patch''
          in and_then (git_step h ''clone repository: '' []
                 [''clone'', ''--quiet'', ''--no-local'', ''--no-checkout'', ''--'', workspace, clone] w) (\<lambda>_ w.
             and_then (git_step h ''checkout base revision: '' clone [''checkout'', ''--quiet'', ''--detach'', base] w) (\<lambda>_ w.
             case host_write_file h w patchPath patch of
               (Some e, w) \<Rightarrow> (Inl (Cause ''write temporary patch: '' e), w)
             | (None, w) \<Rightarrow>
                 and_then (git_step h ''patch does not apply cleanly: '' clone
                     [''apply'', ''--check'', ''--whitespace=error-all'', ''--'', patchPath] w) (\<lambda>_ w.
                 and_then (git_step h ''apply patch: '' clone
                     [''apply'', ''--index'', ''--whitespace=error-all'', ''--'', patchPath] w) (\<lambda>_ w. (Inr clone, w))))))"

text \<open>The limits of the packet on the staged changes; all of them are reported.\<close>

definition extent_errors :: "packet \<Rightarrow> string list \<Rightarrow> file_change list \<Rightarrow> int \<Rightarrow> message list" where
  "extent_errors packet forbidden changes n =
     complain (changes = []) ''patch produces no tracked changes''
     @ (if int (length changes) > lim_MaxChangedFiles (pkt_Limits packet)
        then [OverLimit ''patch changes '' (int (length changes)) '' files; limit is '' (lim_MaxChangedFiles (pkt_Limits packet))]
        else [])
     @ (if n > lim_MaxDiffLines (pkt_Limits packet)
        then [OverLimit ''patch changes '' n '' lines; limit is '' (lim_MaxDiffLines (pkt_Limits packet))] else [])
     @ map (\<lambda>c. Quoted ''changed file '' (fc_Path c) '' is outside the work-packet scope'')
         (filter (\<lambda>c. \<not> allowedPath (fc_Path c) (pkt_AllowedFiles packet) forbidden) changes)"

fun fields_from :: "string \<Rightarrow> nat \<Rightarrow> string \<Rightarrow> string list" where
  "fields_from cur skip [] = (if cur = [] then [] else [rev cur])"
| "fields_from cur (Suc n) (c # s) = fields_from cur n s"
| "fields_from cur 0 (c # s) = (case find (\<lambda>e. prefix e (c # s)) space_encodings of
     None \<Rightarrow> fields_from (c # cur) 0 s
   | Some e \<Rightarrow> (if cur = [] then [] else [rev cur]) @ fields_from [] (length e - 1) s)"

text \<open>The comparison after the checks: nothing but the staged patch may differ.\<close>

definition unchanged_after_checks :: "'w host \<Rightarrow> string \<Rightarrow> string \<Rightarrow> 'w \<Rightarrow> ('w, unit) verifying" where
  "unchanged_after_checks h clone before w =
     and_then (git_step h ''a verification command modified a tracked file outside the staged patch: '' clone
         [''diff'', ''--quiet''] w) (\<lambda>_ w.
       case gitOutput h w clone [''ls-files'', ''--others'', ''--exclude-standard''] of
         (Inl e, w) \<Rightarrow> (Inl (Cause ''inspect untracked files: '' e), w)
       | (Inr untracked, w) \<Rightarrow>
           if trim_space untracked \<noteq> []
           then (Inl (Cause ''a verification command created untracked files: '' (join_with '', '' (fields_from [] 0 untracked))), w)
           else and_then (stagedPatchHash h clone w) (\<lambda>after w.
             if before \<noteq> after then (Inl (Text ''a verification command changed the staged patch''), w)
             else (Inr (), w)))"

definition checked_result ::
  "'w host \<Rightarrow> packet \<Rightarrow> string \<Rightarrow> verification_result \<Rightarrow> 'w \<Rightarrow> verification_result \<times> 'w" where
  "checked_result h packet clone r w =
     (case stagedPatchHash h clone w of
        (Inl m, w) \<Rightarrow> (r\<lparr>vr_Errors := vr_Errors r @ [m]\<rparr>, w)
      | (Inr before, w) \<Rightarrow>
          (case run_checks h clone [] (pkt_Checks packet) w of
             (Some m, results, w) \<Rightarrow> (r\<lparr>vr_Checks := results, vr_Errors := vr_Errors r @ [m]\<rparr>, w)
           | (None, results, w) \<Rightarrow>
               (case unchanged_after_checks h clone before w of
                  (Inl m, w) \<Rightarrow> (r\<lparr>vr_Checks := results, vr_Errors := vr_Errors r @ [m]\<rparr>, w)
                | (Inr _, w) \<Rightarrow> (r\<lparr>vr_Checks := results, vr_Accepted := True\<rparr>, w))))"

definition diff_check_errors :: "'w host \<Rightarrow> string \<Rightarrow> 'w \<Rightarrow> message list \<times> 'w" where
  "diff_check_errors h clone w =
     (case git_step h ''git diff --check failed: '' clone [''diff'', ''--cached'', ''--check''] w of
        (Inl m, w) \<Rightarrow> ([m], w) | (Inr _, w) \<Rightarrow> ([], w))"

definition VerifyPatch :: "'w host \<Rightarrow> packet \<Rightarrow> string \<Rightarrow> 'w \<Rightarrow> verification_result \<times> 'w" where
  "VerifyPatch h packet patch w =
     (let r = fresh_result (Evaluate packet); forbidden = ev_EffectiveForbiddenFiles (Evaluate packet)
      in case admission_error packet patch of
           Some m \<Rightarrow> (r\<lparr>vr_Errors := [m]\<rparr>, w)
         | None \<Rightarrow> (case resolve_base h packet w of
             (Inl m, w) \<Rightarrow> (r\<lparr>vr_Errors := [m]\<rparr>, w)
           | (Inr (workspace, base), w) \<Rightarrow>
               let r = r\<lparr>vr_BaseRevision := base\<rparr>
               in case and_then (stage_patch h workspace base patch w)
                         (\<lambda>clone w. and_then (stagedChanges h clone w) (\<lambda>c w. (Inr (clone, c), w))) of
                    (Inl m, w) \<Rightarrow> (r\<lparr>vr_Errors := [m]\<rparr>, w)
                  | (Inr (clone, changes, n), w) \<Rightarrow>
                      (case diff_check_errors h clone w of
                         (es, w) \<Rightarrow>
                           let r = r\<lparr>vr_ChangedFiles := changes, vr_TotalDiffLines := n,
                                     vr_Errors := extent_errors packet forbidden changes n @ es\<rparr>
                           in if vr_Errors r \<noteq> [] then (r, w) else checked_result h packet clone r w)))"

section \<open>What an accepted patch has passed\<close>

lemma run_checks_passed:
  assumes "run_checks h repo acc cs w = (None, results, w')"
  shows "\<exists>rs. results = acc @ rs \<and> map cr_Argv rs = map check_Argv cs
    \<and> (\<forall>r \<in> set rs. cr_Passed r \<and> cr_ExitCode r = 0)"
  using assms
proof (induction cs arbitrary: acc w)
  case (Cons c cs)
  obtain r w1 where r: "runCheck h repo c w = (r, w1)" by (cases "runCheck h repo c w")
  then have argv: "cr_Argv r = check_Argv c" "cr_Passed r \<Longrightarrow> cr_ExitCode r = 0"
    by (auto simp: runCheck_def Let_def split: prod.splits)
  from Cons.prems r have "cr_Passed r" and "run_checks h repo (acc @ [r]) cs w1 = (None, results, w')"
    by (auto split: if_splits)
  then show ?case using Cons.IH [of "acc @ [r]" w1] argv by fastforce
qed simp

lemma checked_result_accepted:
  assumes "checked_result h packet clone r w = (r', w')" and "vr_Accepted r'" and "\<not> vr_Accepted r"
  shows "vr_Errors r' = vr_Errors r \<and> vr_ChangedFiles r' = vr_ChangedFiles r \<and> vr_TotalDiffLines r' = vr_TotalDiffLines r
    \<and> map cr_Argv (vr_Checks r') = map check_Argv (pkt_Checks packet) \<and> (\<forall>c \<in> set (vr_Checks r'). cr_Passed c \<and> cr_ExitCode c = 0)
    \<and> (\<exists>before w1 w2 after w3 w4. stagedPatchHash h clone w1 = (Inr before, w2) \<and> stagedPatchHash h clone w3 = (Inr after, w4)
         \<and> before = after)"
proof -
  obtain before w2 where b: "stagedPatchHash h clone w = (Inr before, w2)"
    using assms by (auto simp: checked_result_def split: prod.splits sum.splits)
  obtain results w3 where c: "run_checks h clone [] (pkt_Checks packet) w2 = (None, results, w3)"
    using assms b by (auto simp: checked_result_def split: prod.splits sum.splits option.splits)
  obtain w4 where u: "unchanged_after_checks h clone before w3 = (Inr (), w4)" and r': "r' = r\<lparr>vr_Checks := results, vr_Accepted := True\<rparr>"
    using assms b c by (auto simp: checked_result_def split: prod.splits sum.splits)
  have "\<exists>w5 after w6. stagedPatchHash h clone w5 = (Inr after, w6) \<and> before = after"
    using u by (fastforce simp: unchanged_after_checks_def and_then_def split: prod.splits sum.splits if_splits)
  then show ?thesis using run_checks_passed [OF c] b r' by fastforce
qed

lemma extent_errors_Nil:
  "extent_errors packet forbidden changes n = [] \<longleftrightarrow>
     changes \<noteq> [] \<and> int (length changes) \<le> lim_MaxChangedFiles (pkt_Limits packet)
     \<and> n \<le> lim_MaxDiffLines (pkt_Limits packet)
     \<and> (\<forall>c \<in> set changes. allowedPath (fc_Path c) (pkt_AllowedFiles packet) forbidden)"
  by (auto simp: extent_errors_def filter_empty_conv)

lemma VerifyPatch_accepted:
  assumes "VerifyPatch h packet patch w = (r, w')" and "vr_Accepted r"
  obtains base clone changes n w1 where "admission_error packet patch = None"
    "extent_errors packet (mergeForbidden (pkt_ForbiddenFiles packet)) changes n = []"
    "checked_result h packet clone ((fresh_result (Evaluate packet))\<lparr>vr_BaseRevision := base, vr_ChangedFiles := changes,
        vr_TotalDiffLines := n, vr_Errors := []\<rparr>) w1 = (r, w')"
proof -
  note eq = assms(1) [unfolded VerifyPatch_def Let_def] and acc = assms(2)
  have adm: "admission_error packet patch = None"
    using eq acc by (cases "admission_error packet patch") (auto simp: fresh_result_def)
  obtain workspace base w0 where base: "resolve_base h packet w = (Inr (workspace, base), w0)"
    using eq acc adm by (auto simp: fresh_result_def split: prod.splits sum.splits)
  obtain clone changes n w1 where st: "and_then (stage_patch h workspace base patch w0)
      (\<lambda>clone w. and_then (stagedChanges h clone w) (\<lambda>c w. (Inr (clone, c), w))) = (Inr (clone, changes, n), w1)"
    using eq acc adm base by (auto simp: fresh_result_def split: prod.splits sum.splits)
  obtain es w2 where es: "diff_check_errors h clone w1 = (es, w2)" by (cases "diff_check_errors h clone w1")
  have "extent_errors packet (mergeForbidden (pkt_ForbiddenFiles packet)) changes n = [] \<and> es = []"
    using eq acc adm base st es by (auto simp: fresh_result_def Evaluate_forbidden split: if_splits)
  moreover from this have "checked_result h packet clone ((fresh_result (Evaluate packet))\<lparr>vr_BaseRevision := base,
        vr_ChangedFiles := changes, vr_TotalDiffLines := n, vr_Errors := []\<rparr>) w2 = (r, w')"
    using eq acc adm base st es by (simp add: Evaluate_forbidden fresh_result_def)
  ultimately show ?thesis using that adm by blast
qed

text \<open>
  C34: An accepted patch respects its packet, whatever git and the checks do on the host: the packet is admitted
  for patching, the patch is not empty and within the byte limit, at least one and at most the permitted
  number of files and lines change, every changed path is allowed and none is a secret file, exactly the checks of the
  packet were run and each of them passed, and no error is reported.
\<close>

theorem accepted_patch_respects_packet:
  assumes "VerifyPatch h packet patch w = (r, w')" and "vr_Accepted r"
  shows "ev_Allowed (Evaluate packet) \<and> to_lower (trim_space (pkt_Mode packet)) = ''patch'' \<and> patch \<noteq> []
    \<and> int (length patch) \<le> (if lim_MaxPatchBytes (pkt_Limits packet) = 0 then 2097152 else lim_MaxPatchBytes (pkt_Limits packet))
    \<and> vr_ChangedFiles r \<noteq> [] \<and> int (length (vr_ChangedFiles r)) \<le> lim_MaxChangedFiles (pkt_Limits packet)
    \<and> vr_TotalDiffLines r \<le> lim_MaxDiffLines (pkt_Limits packet)
    \<and> (\<forall>c \<in> set (vr_ChangedFiles r).
         allowedPath (fc_Path c) (pkt_AllowedFiles packet) (mergeForbidden (pkt_ForbiddenFiles packet))
         \<and> \<not> secret_path (trim_prefix ''./'' (replace_backslash (path_Clean (fc_Path c)))))
    \<and> map cr_Argv (vr_Checks r) = map check_Argv (pkt_Checks packet) \<and> (\<forall>c \<in> set (vr_Checks r). cr_Passed c \<and> cr_ExitCode c = 0)
    \<and> vr_Errors r = []"
proof -
  obtain base clone changes n w1 where adm: "admission_error packet patch = None"
    and ext: "extent_errors packet (mergeForbidden (pkt_ForbiddenFiles packet)) changes n = []"
    and chk: "checked_result h packet clone ((fresh_result (Evaluate packet))\<lparr>vr_BaseRevision := base, vr_ChangedFiles := changes,
        vr_TotalDiffLines := n, vr_Errors := []\<rparr>) w1 = (r, w')"
    using assms by (rule VerifyPatch_accepted)
  have r: "vr_Errors r = []" "vr_ChangedFiles r = changes" "vr_TotalDiffLines r = n"
    "map cr_Argv (vr_Checks r) = map check_Argv (pkt_Checks packet)" "\<forall>c \<in> set (vr_Checks r). cr_Passed c \<and> cr_ExitCode c = 0"
    using checked_result_accepted [OF chk assms(2)] by (auto simp: fresh_result_def)
  have "\<not> secret_path (trim_prefix ''./'' (replace_backslash (path_Clean (fc_Path c))))" if "c \<in> set changes" for c
    using ext that secret_path_forbidden [of "fc_Path c"] by (auto simp: extent_errors_Nil)
  moreover have "ev_Allowed (Evaluate packet)" "to_lower (trim_space (pkt_Mode packet)) = ''patch''" "patch \<noteq> []"
    "int (length patch) \<le> (if lim_MaxPatchBytes (pkt_Limits packet) = 0 then 2097152 else lim_MaxPatchBytes (pkt_Limits packet))"
    using adm by (simp_all add: admission_error_def Let_def defaultMaxPatchBytes_def split: if_split_asm)
  ultimately show ?thesis using r ext by (simp add: extent_errors_Nil)
qed

definition demo_process :: process where
  "demo_process = \<lparr>proc_writes = [], proc_stdout = ''1'' @ [CHR 0x09] @ ''0'' @ [CHR 0x09] @ ''src/a.go'' @ [CHR 0x00],
     proc_error = None, proc_deadline = False\<rparr>"

definition demo_host :: "unit host" where
  "demo_host = \<lparr>host_abs = Inr, host_symlinks = (\<lambda>_. Inr), host_isdir = (\<lambda>_ _. True), host_lookup_env = (\<lambda>_. None),
     host_mkdir_temp = (\<lambda>w. (Inr ''/tmp/x'', w)), host_write_file = (\<lambda>w _ _. (None, w)),
     host_run = (\<lambda>w _ _ _ _. (demo_process, w))\<rparr>"

lemma demo_fields:
  "host_abs demo_host = Inr" "host_symlinks demo_host w = Inr" "host_isdir demo_host w d"
  "host_mkdir_temp demo_host w = (Inr ''/tmp/x'', w)" "host_write_file demo_host w path text = (None, w)"
  by (simp_all add: demo_host_def)

lemma demo_commands:
  "commandOutput demo_host w dir argv t = (([], demo_process), w)" "git_step demo_host label dir args w = (Inr [], w)"
  "gitOutput demo_host w dir args = (Inr [], w)" "commandBytes demo_host w dir argv = (Inr (proc_stdout demo_process), w)"
  by (simp_all add: commandOutput_def git_step_def gitOutput_def commandBytes_def demo_host_def demo_process_def
      limitedBuffer_String_def maxCheckOutputBytes_def)

lemma demo_staged:
  "stagedChanges demo_host clone w = (Inr ([\<lparr>fc_Path = ''src/a.go'', fc_Additions = 1, fc_Deletions = 0\<rparr>], 1), w)"
  by (simp add: stagedChanges_def demo_commands demo_process_def parse_record_def Atoi_def digits_value_def wrap64_def)

lemma demo_extent:
  "extent_errors demo_packet (mergeForbidden []) [\<lparr>fc_Path = ''src/a.go'', fc_Additions = 1, fc_Deletions = 0\<rparr>] 1 = []"
  unfolding extent_errors_Nil
  by (simp add: demo_packet_def allowedPath_def glob_eval mergeForbidden_def defaultForbiddenFiles_def plain_char_def globMatch_def
      decode_ascii_Cons)

lemma demo_checked:
  "\<exists>r'. checked_result demo_host demo_packet clone r w = (r', w) \<and> vr_Accepted r' \<and> vr_ChangedFiles r' = vr_ChangedFiles r"
  by (simp add: checked_result_def stagedPatchHash_def demo_commands demo_packet_def runCheck_def demo_process_def
      unchanged_after_checks_def and_then_def)

lemma demo_accepted:
  "\<exists>r. VerifyPatch demo_host demo_packet ''x'' () = (r, ()) \<and> vr_Accepted r \<and> length (vr_ChangedFiles r) = 1"
proof -
  have adm: "admission_error demo_packet ''x'' = None"
    using demo_packet_allowed by (simp add: admission_error_def Let_def) (simp add: demo_packet_def packet_eval defaultMaxPatchBytes_def)
  have base: "resolve_base demo_host demo_packet () = (Inr (trim_space ''/repo'', []), ())"
    by (simp add: resolve_base_def resolveWorkspace_def and_then_def demo_commands demo_fields)
      (simp add: demo_packet_def)
  have stage: "stage_patch demo_host ws [] ''x'' () = (Inr ''/tmp/x/repository'', ())" for ws
    by (simp add: stage_patch_def and_then_def demo_commands Let_def demo_fields)
  have forb: "ev_EffectiveForbiddenFiles (Evaluate demo_packet) = mergeForbidden []"
    by (simp add: Evaluate_forbidden demo_packet_def)
  show ?thesis
    using demo_checked [of "''/tmp/x/repository''"] demo_extent
    by (simp add: VerifyPatch_def Let_def adm base stage and_then_def demo_staged forb diff_check_errors_def demo_commands)
      fastforce
qed

theorem accepted_patch_respects_packet_witness:
  "\<exists>r. VerifyPatch demo_host demo_packet ''x'' () = (r, ()) \<and> vr_Accepted r \<and> length (vr_ChangedFiles r) = 1
     \<and> int (length (vr_ChangedFiles r)) \<le> lim_MaxChangedFiles (pkt_Limits demo_packet) \<and> vr_Errors r = []"
proof -
  obtain r where "VerifyPatch demo_host demo_packet ''x'' () = (r, ())" "vr_Accepted r" "length (vr_ChangedFiles r) = 1"
    using demo_accepted by blast
  then show ?thesis using accepted_patch_respects_packet [of demo_host demo_packet "''x''" "()" r "()"] by simp
qed

end
