(* ===== verification/Json.thy ===== *)
theory Json
  imports Runes
begin

text \<open>
  The JSON texts the digests of the program are taken of: \<open>json.Marshal\<close> on the struct types of
  \<open>src/internal/domain\<close>. Strings are escaped the way \<open>encoding/json\<close> does it, including the HTML characters, the two
  Unicode line separators and invalid UTF-8. A floating-point number is the decimal text it is written as. A nil slice is not distinguished from an empty one.
\<close>

datatype json = JNull | JString string | JInt int | JNumber string | JBool bool | JArray "json list" | JObject "(string \<times> json) list"

definition hex_digit :: "nat \<Rightarrow> char" where
  "hex_digit n = ''0123456789abcdef'' ! n"

definition json_ascii :: "char \<Rightarrow> string" where
  "json_ascii c =
     (if c = CHR 0x22 \<or> c = CHR 0x5C then [CHR 0x5C, c]
      else if c = CHR 0x08 then [CHR 0x5C, CHR ''b'']
      else if c = CHR 0x0C then [CHR 0x5C, CHR ''f'']
      else if c = CHR 0x0A then [CHR 0x5C, CHR ''n'']
      else if c = CHR 0x0D then [CHR 0x5C, CHR ''r'']
      else if c = CHR 0x09 then [CHR 0x5C, CHR ''t'']
      else if c < CHR 0x20 \<or> c = CHR ''<'' \<or> c = CHR ''>'' \<or> c = CHR ''&''
        then CHR 0x5C # ''u00'' @ [hex_digit (of_char c div 16), hex_digit (of_char c mod 16)]
      else [c])"

function json_escape :: "string \<Rightarrow> string" where
  "json_escape [] = []"
| "json_escape (c # s) =
     (if c < CHR 0x80 then json_ascii c @ json_escape s
      else let (r, n) = rune_at (map of_char (c # s)) in
        if n = 1 then CHR 0x5C # ''ufffd'' @ json_escape s
        else if r = 8232 \<or> r = 8233 then CHR 0x5C # ''u202'' @ [hex_digit (r mod 16)] @ json_escape (drop n (c # s))
        else take n (c # s) @ json_escape (drop n (c # s)))"
  by pat_completeness auto
termination
proof (relation "measure length")
  fix c :: char and s x r n
  assume "x = rune_at (map of_char (c # s))" "(r, n) = x"
  then have "1 \<le> n" using rune_at_pos [of "map of_char (c # s)"] by (metis snd_conv)
  then show "(drop n (c # s), c # s) \<in> measure length" "(drop n (c # s), c # s) \<in> measure length"
    by simp_all
qed simp_all

definition json_string :: "string \<Rightarrow> string" where
  "json_string s = CHR 0x22 # json_escape s @ [CHR 0x22]"

fun print_json :: "json \<Rightarrow> string" where
  "print_json JNull = ''null''"
| "print_json (JString s) = json_string s"
| "print_json (JInt i) = show_int i"
| "print_json (JNumber t) = t"
| "print_json (JBool b) = (if b then ''true'' else ''false'')"
| "print_json (JArray xs) = ''['' @ join_with '','' (map print_json xs) @ '']''"
| "print_json (JObject fs) = ''{'' @ join_with '','' (map (\<lambda>(k, v). json_string k @ '':'' @ print_json v) fs) @ ''}''"

definition json_strings :: "string list \<Rightarrow> json" where
  "json_strings xs = JArray (map JString xs)"

text \<open>A Go map with string keys is written with its keys in order; \<open>omitempty\<close> leaves out an empty string.\<close>

definition json_map :: "(string \<times> json) list \<Rightarrow> json" where
  "json_map m = JObject (sort_key fst m)"

definition omit_empty :: "string \<Rightarrow> string \<Rightarrow> (string \<times> json) list" where
  "omit_empty k v = (if v = [] then [] else [(k, JString v)])"

end
