(* ===== verification/Times.thy ===== *)
theory Times
  imports Json
begin

text \<open>
  Go's \<open>time.Time\<close> where its location matters: an instant, in nanoseconds since the zero time (the first of January of
  year 1 in UTC), and the offset of its location from UTC in seconds. Comparisons look at the instant alone; the JSON
  encoding shows the local calendar time with the offset.
\<close>

record go_time =
  gt_Nanos :: int
  gt_Offset :: int

definition IsZero :: "go_time \<Rightarrow> bool" where
  "IsZero t \<longleftrightarrow> gt_Nanos t = zero_time"

definition utc :: "int \<Rightarrow> go_time" where
  "utc n = \<lparr>gt_Nanos = n, gt_Offset = 0\<rparr>"

text \<open>The Gregorian date of a day number, counted from the first of January of year 1.\<close>

definition civil_date :: "int \<Rightarrow> int \<times> int \<times> int" where
  "civil_date days =
     (let z = days + 306; era = z div 146097; doe = z mod 146097;
          yoe = (doe - doe div 1460 + doe div 36524 - doe div 146096) div 365;
          doy = doe - (365 * yoe + yoe div 4 - yoe div 100);
          mp = (5 * doy + 2) div 153;
          d = doy - (153 * mp + 2) div 5 + 1;
          m = (if mp < 10 then mp + 3 else mp - 9);
          y = yoe + era * 400 + (if m \<le> 2 then 1 else 0)
      in (y, m, d))"

definition zero_padded :: "nat \<Rightarrow> int \<Rightarrow> string" where
  "zero_padded n i = (let s = show_nat (nat i) in replicate (n - length s) (CHR ''0'') @ s)"

definition drop_zeros :: "string \<Rightarrow> string" where
  "drop_zeros s = rev (dropWhile (\<lambda>c. c = CHR ''0'') (rev s))"

definition local_seconds :: "go_time \<Rightarrow> int" where
  "local_seconds t = (gt_Nanos t + seconds (gt_Offset t)) div 1000000000"

definition RFC3339Nano :: "go_time \<Rightarrow> string" where
  "RFC3339Nano t =
     (let secs = local_seconds t; nano = gt_Nanos t mod 1000000000;
          (y, m, d) = civil_date (secs div 86400); sod = secs mod 86400;
          zone = \<bar>gt_Offset t\<bar> div 60
      in zero_padded 4 y @ ''-'' @ zero_padded 2 m @ ''-'' @ zero_padded 2 d @ ''T''
         @ zero_padded 2 (sod div 3600) @ '':'' @ zero_padded 2 (sod div 60 mod 60) @ '':'' @ zero_padded 2 (sod mod 60)
         @ (if nano = 0 then [] else ''.'' @ drop_zeros (zero_padded 9 nano))
         @ (if gt_Offset t = 0 then ''Z''
            else (if gt_Offset t < 0 then ''-'' else ''+'') @ zero_padded 2 (zone div 60) @ '':'' @ zero_padded 2 (zone mod 60)))"

text \<open>\<open>MarshalJSON\<close> refuses a year outside four digits and a zone of a day or more.\<close>

definition time_marshals :: "go_time \<Rightarrow> bool" where
  "time_marshals t \<longleftrightarrow>
     (let (y, m, d) = civil_date (local_seconds t div 86400) in 0 \<le> y \<and> y \<le> 9999) \<and> \<bar>gt_Offset t\<bar> < 86400"

definition json_time :: "go_time \<Rightarrow> json" where
  "json_time t = JString (RFC3339Nano t)"

lemma RFC3339Nano_example:
  "RFC3339Nano \<lparr>gt_Nanos = seconds 63844768800, gt_Offset = - 3600\<rparr> = ''2024-02-29T01:00:00-01:00''"
  by code_simp

lemma zero_time_example: "RFC3339Nano (utc zero_time) = ''0001-01-01T00:00:00Z''"
  by code_simp

end
