(* ===== verification/Sources.thy ===== *)
theory Sources
  imports Times Authority Artifacts
begin

text \<open>
  Operator-configured data sources (\<open>src/internal/domain/source.go\<close>, \<open>src/internal/sources/registry.go\<close>): the registry of
  contracts, the validation of a query against its contract, the bounded request, and the validation of what comes
  back. URL parsing, the files of the host, the HTTP exchange and the decoding of JSON documents are parameters.
\<close>

section \<open>Contracts, queries and envelopes\<close>

record source_descriptor =
  sd_ID :: string
  sd_ProjectID :: string
  sd_ProductID :: string
  sd_Kind :: string
  sd_Endpoint :: string
  sd_TokenFile :: string
  sd_SchemaVersion :: string
  sd_AdapterSHA256 :: string
  sd_Classification :: string
  sd_Owner :: string
  sd_Roles :: "string list"
  sd_Purposes :: "string list"
  sd_Fields :: "(string \<times> string) list"
  sd_FieldsByRole :: "(string \<times> string list) list"
  sd_Filters :: "string list"
  sd_MaxRows :: int
  sd_MaxBytes :: int
  sd_TimeoutSeconds :: int
  sd_MaxWindowSeconds :: int
  sd_RetentionSeconds :: int
  sd_AllowLoopbackHTTP :: bool

record source_query =
  sq_ProjectID :: string
  sq_ProductID :: string
  sq_SourceID :: string
  sq_Purpose :: string
  sq_Start :: go_time
  sq_End :: go_time
  sq_Fields :: "string list"
  sq_Filters :: "(string \<times> string) list"
  sq_Limit :: int
  sq_IdempotencyKey :: string

definition json_query :: "source_query \<Rightarrow> json" where
  "json_query q = JObject (
     [(''project_id'', JString (sq_ProjectID q)), (''product_id'', JString (sq_ProductID q)), (''source_id'', JString (sq_SourceID q)),
      (''purpose'', JString (sq_Purpose q)), (''start'', json_time (sq_Start q)), (''end'', json_time (sq_End q)),
      (''fields'', json_strings (sq_Fields q))]
     @ (if sq_Filters q = [] then [] else [(''filters'', json_map (map (\<lambda>(k, v). (k, JString v)) (sq_Filters q)))])
     @ [(''limit'', JInt (sq_Limit q)), (''idempotency_key'', JString (sq_IdempotencyKey q))])"

text \<open>The callers ignore the error of \<open>json.Marshal\<close>; it leaves no bytes.\<close>

definition query_bytes :: "source_query \<Rightarrow> string" where
  "query_bytes q = (if time_marshals (sq_Start q) \<and> time_marshals (sq_End q) then print_json (json_query q) else [])"

definition query_Digest :: "source_query \<Rightarrow> string" where
  "query_Digest q = Digest (query_bytes q)"

text \<open>
  A \<open>json.RawMessage\<close> of a decoded row is the literal of one JSON value. A number literal is its decimal mantissa and
  exponent.
\<close>

datatype raw_value = RawNull | RawString string | RawNumber int int | RawBool bool | RawOther

type_synonym source_row = "(string \<times> raw_value) list"

record source_envelope =
  se_SchemaVersion :: string
  se_AdapterSHA256 :: string
  se_Revision :: string
  se_Start :: go_time
  se_End :: go_time
  se_Watermark :: go_time
  se_Snapshot :: string
  se_Offsets :: "(string \<times> int) list"
  se_Complete :: bool
  se_Rows :: "source_row list"

text \<open>
  \<open>json.Unmarshal\<close> of such a literal into a string, a boolean, a \<open>float64\<close> and a time. A null leaves the zero value.
  A number is out of range when it rounds beyond the largest \<open>float64\<close>, so no decoded number is infinite or NaN. The
  parser of time texts is a parameter.
\<close>

fun unmarshal_string :: "raw_value \<Rightarrow> string option" where
  "unmarshal_string RawNull = Some []"
| "unmarshal_string (RawString s) = Some s"
| "unmarshal_string _ = None"

fun unmarshal_bool :: "raw_value \<Rightarrow> bool option" where
  "unmarshal_bool RawNull = Some False"
| "unmarshal_bool (RawBool b) = Some b"
| "unmarshal_bool _ = None"

definition float64_range :: "int \<Rightarrow> int \<Rightarrow> bool" where
  "float64_range m e =
     (if e \<ge> 0 then \<bar>m\<bar> * 10 ^ nat e < 2 ^ 1024 - 2 ^ 970 else \<bar>m\<bar> < (2 ^ 1024 - 2 ^ 970) * 10 ^ nat (- e))"

fun unmarshals_float64 :: "raw_value \<Rightarrow> bool" where
  "unmarshals_float64 RawNull = True"
| "unmarshals_float64 (RawNumber m e) = float64_range m e"
| "unmarshals_float64 _ = False"

fun unmarshal_time :: "(string \<Rightarrow> go_time option) \<Rightarrow> raw_value \<Rightarrow> go_time option" where
  "unmarshal_time parse RawNull = Some (utc zero_time)"
| "unmarshal_time parse (RawString s) = parse s"
| "unmarshal_time parse _ = None"

section \<open>The registry\<close>

record parsed_url =
  url_Scheme :: string
  url_Host :: string
  url_Hostname :: string
  url_User :: bool
  url_Fragment :: string
  url_RawQuery :: string

type_synonym source_registry = "(string \<times> source_descriptor) list"

definition contract_bounds :: "source_descriptor \<Rightarrow> bool" where
  "contract_bounds d \<longleftrightarrow>
     \<not> (\<not> ValidProductKey (sd_ID d) \<or> \<not> ValidProductKey (sd_ProjectID d) \<or> \<not> ValidProductKey (sd_ProductID d)
        \<or> sd_Owner d = [] \<or> sd_Roles d = [] \<or> sd_Purposes d = [] \<or> length (sd_Fields d) < 2 \<or> length (sd_Fields d) > 32
        \<or> map_get [] (sd_Fields d) ''event_id'' \<noteq> ''string'' \<or> map_get [] (sd_Fields d) ''event_time'' \<noteq> ''timestamp''
        \<or> sd_MaxRows d < 1 \<or> sd_MaxRows d > 1000 \<or> sd_MaxBytes d < 256 \<or> sd_MaxBytes d > 2 * 1024 * 1024
        \<or> sd_TimeoutSeconds d < 1 \<or> sd_TimeoutSeconds d > 30 \<or> sd_MaxWindowSeconds d < 1 \<or> sd_MaxWindowSeconds d > 31 * 86400
        \<or> sd_RetentionSeconds d < 60 \<or> sd_RetentionSeconds d > 365 * 86400 \<or> sd_SchemaVersion d = [])"

fun check_role_fields :: "source_descriptor \<Rightarrow> (string \<times> string list) list \<Rightarrow> go_error option" where
  "check_role_fields d [] = None"
| "check_role_fields d ((role, names) # rest) =
     (if role \<notin> set (sd_Roles d) \<or> ''event_id'' \<notin> set names \<or> ''event_time'' \<notin> set names
        then Some (ErrMessage ''invalid role field scope'')
      else if \<not> list_all (\<lambda>field. map_of (sd_Fields d) field \<noteq> None) names then Some (ErrMessage ''unknown role field'')
      else check_role_fields d rest)"

definition endpoint_allowed :: "(string \<Rightarrow> bool) \<Rightarrow> source_descriptor \<Rightarrow> parsed_url \<Rightarrow> bool" where
  "endpoint_allowed loopback d u \<longleftrightarrow>
     url_Scheme u = ''https'' \<or> url_Scheme u = ''http'' \<and> sd_AllowLoopbackHTTP d \<and> loopback (url_Hostname u)"

definition check_contract ::
  "(string \<Rightarrow> parsed_url option) \<Rightarrow> (string \<Rightarrow> bool) \<Rightarrow> source_descriptor \<Rightarrow> go_error option" where
  "check_contract parse_url loopback d =
     (if \<not> contract_bounds d then Some (ErrMessage ''invalid source contract'')
      else if sd_Kind d \<notin> set [''brs'', ''code'', ''log'', ''metric'', ''event'', ''lake'', ''audit'', ''incident'']
        then Some (ErrMessage ''invalid source kind'')
      else if sd_Classification d \<notin> set [''public'', ''internal'', ''confidential'', ''restricted'']
        then Some (ErrMessage ''invalid source classification'')
      else if \<not> list_all (\<lambda>(field, kind). ValidProductKey field \<and> kind \<in> set [''string'', ''number'', ''boolean'', ''timestamp'']) (sd_Fields d)
        then Some (ErrMessage ''invalid source field'')
      else if \<not> list_all (\<lambda>field. map_get [] (sd_Fields d) field = ''string'') (sd_Filters d)
        then Some (ErrMessage ''unknown source filter'')
      else case check_role_fields d (sd_FieldsByRole d) of
        Some e \<Rightarrow> Some e
      | None \<Rightarrow>
          (case parse_url (sd_Endpoint d) of
             None \<Rightarrow> Some (ErrMessage ''invalid fixed source endpoint'')
           | Some u \<Rightarrow>
               if url_Host u = [] \<or> url_User u \<or> url_Fragment u \<noteq> [] \<or> url_RawQuery u \<noteq> []
                 then Some (ErrMessage ''invalid fixed source endpoint'')
               else if \<not> endpoint_allowed loopback d u
                 then Some (ErrMessage ''source requires HTTPS or explicit loopback HTTP'')
               else None))"

fun New ::
  "(string \<Rightarrow> parsed_url option) \<Rightarrow> (string \<Rightarrow> bool) \<Rightarrow> source_registry \<Rightarrow> source_descriptor list \<Rightarrow> source_registry result" where
  "New parse_url loopback entries [] = Ok entries"
| "New parse_url loopback entries (d # ds) =
     (case check_contract parse_url loopback d of
        Some e \<Rightarrow> Err e
      | None \<Rightarrow>
          (let key = sd_ProjectID d @ '':'' @ sd_ID d
           in if map_of entries key \<noteq> None then Err (ErrMessage ''duplicate source'')
              else New parse_url loopback (entries @ [(key, d)]) ds))"

text \<open>Reading the file and decoding exactly one document of it answer with their own errors.\<close>

definition Load ::
  "(string \<Rightarrow> parsed_url option) \<Rightarrow> (string \<Rightarrow> bool) \<Rightarrow> (string \<Rightarrow> string result) \<Rightarrow> (string \<Rightarrow> source_descriptor list result)
     \<Rightarrow> string \<Rightarrow> source_registry result" where
  "Load parse_url loopback read_file decode path =
     (if path = [] then New parse_url loopback [] []
      else case read_file path of
        Inl e \<Rightarrow> Err e
      | Inr data \<Rightarrow>
          if length data > 256 * 1024 then Err (ErrMessage ''source registry too large'')
          else (case decode data of Inl e \<Rightarrow> Err e | Inr entries \<Rightarrow> New parse_url loopback [] entries))"

definition Get :: "source_registry \<Rightarrow> string \<Rightarrow> string \<Rightarrow> source_descriptor option" where
  "Get r project sid = map_of r (project @ '':'' @ sid)"

definition List :: "source_registry \<Rightarrow> string \<Rightarrow> source_descriptor list" where
  "List r project =
     sort_key sd_ID (map (\<lambda>(k, d). d\<lparr>sd_Endpoint := [], sd_TokenFile := []\<rparr>) (filter (\<lambda>(k, d). sd_ProjectID d = project) r))"

section \<open>Queries\<close>

definition ValidateQuery :: "int \<Rightarrow> source_descriptor \<Rightarrow> source_query \<Rightarrow> go_error option" where
  "ValidateQuery now d q =
     (if sq_ProjectID q \<noteq> sd_ProjectID d \<or> sq_ProductID q \<noteq> sd_ProductID d \<or> sq_SourceID q \<noteq> sd_ID d
         \<or> sq_Purpose q \<notin> set (sd_Purposes d) \<or> \<not> ValidProductKey (sq_IdempotencyKey q) \<or> IsZero (sq_Start q)
         \<or> \<not> gt_Nanos (sq_Start q) < gt_Nanos (sq_End q)
         \<or> gt_Nanos (sq_End q) - gt_Nanos (sq_Start q) > seconds (sd_MaxWindowSeconds d)
         \<or> gt_Nanos (sq_End q) > now + seconds 60 \<or> sq_Limit q < 1 \<or> sq_Limit q > sd_MaxRows d
         \<or> length (sq_Fields q) < 2 \<or> length (sq_Fields q) > length (sd_Fields d)
         \<or> ''event_id'' \<notin> set (sq_Fields q) \<or> ''event_time'' \<notin> set (sq_Fields q)
      then Some ErrForbidden
      else if \<not> list_all (\<lambda>field. map_of (sd_Fields d) field \<noteq> None) (sq_Fields q) \<or> \<not> distinct (sq_Fields q)
        then Some ErrForbidden
      else if \<not> list_all (\<lambda>(field, value). field \<in> set (sd_Filters d) \<and> length value \<le> 256) (sq_Filters q)
        then Some ErrForbidden
      else None)"

section \<open>Envelopes\<close>

definition check_value :: "(string \<Rightarrow> go_time option) \<Rightarrow> string \<Rightarrow> raw_value \<Rightarrow> go_error option" where
  "check_value parse kind value =
     (if kind = ''string'' then
        (case unmarshal_string value of None \<Rightarrow> Some (ErrMessage ''invalid string field'')
         | Some v \<Rightarrow> if length v > 4096 then Some (ErrMessage ''invalid string field'') else None)
      else if kind = ''timestamp'' then
        (case unmarshal_time parse value of None \<Rightarrow> Some (ErrMessage ''invalid timestamp'')
         | Some v \<Rightarrow> if IsZero v then Some (ErrMessage ''invalid timestamp'') else None)
      else if kind = ''number'' then
        (if unmarshals_float64 value then None else Some (ErrMessage ''invalid number''))
      else if kind = ''boolean'' then
        (if unmarshal_bool value = None then Some (ErrMessage ''invalid boolean'') else None)
      else None)"

fun check_fields ::
  "(string \<Rightarrow> go_time option) \<Rightarrow> source_descriptor \<Rightarrow> source_row \<Rightarrow> string list \<Rightarrow> go_error option" where
  "check_fields parse d row [] = None"
| "check_fields parse d row (field # names) =
     (case map_of row field of
        None \<Rightarrow> Some (ErrMessage ''source field missing'')
      | Some value \<Rightarrow>
          if value = RawNull then Some (ErrMessage ''source field null; missing data must remain explicit'')
          else (case check_value parse (map_get [] (sd_Fields d) field) value of
              Some e \<Rightarrow> Some e
            | None \<Rightarrow> check_fields parse d row names))"

text \<open>The identifier and time of a row, with their zero values where they do not decode.\<close>

definition row_id :: "source_row \<Rightarrow> string" where
  "row_id row = (case map_of row ''event_id'' of None \<Rightarrow> [] | Some v \<Rightarrow> (case unmarshal_string v of None \<Rightarrow> [] | Some s \<Rightarrow> s))"

definition row_time :: "(string \<Rightarrow> go_time option) \<Rightarrow> source_row \<Rightarrow> go_time" where
  "row_time parse row = (case map_of row ''event_time'' of None \<Rightarrow> utc zero_time
     | Some v \<Rightarrow> (case unmarshal_time parse v of None \<Rightarrow> utc zero_time | Some t \<Rightarrow> t))"

definition filter_matches :: "source_row \<Rightarrow> string \<times> string \<Rightarrow> bool" where
  "filter_matches row f = (case map_of row (fst f) of None \<Rightarrow> False | Some v \<Rightarrow> unmarshal_string v = Some (snd f))"

fun check_rows ::
  "(string \<Rightarrow> go_time option) \<Rightarrow> source_descriptor \<Rightarrow> source_query \<Rightarrow> string list \<Rightarrow> source_row list \<Rightarrow> go_error option" where
  "check_rows parse d q seen [] = None"
| "check_rows parse d q seen (row # rows) =
     (if length row \<noteq> length (sq_Fields q) then Some (ErrMessage ''source returned unexpected fields'')
      else case check_fields parse d row (sq_Fields q) of
        Some e \<Rightarrow> Some e
      | None \<Rightarrow>
          if row_id row = [] \<or> row_id row \<in> set seen \<or> gt_Nanos (row_time parse row) < gt_Nanos (sq_Start q)
             \<or> \<not> gt_Nanos (row_time parse row) < gt_Nanos (sq_End q)
            then Some (ErrMessage ''duplicate or out-of-window source event'')
          else if \<not> list_all (filter_matches row) (sq_Filters q)
            then Some (ErrMessage ''source filter did not reconcile'')
          else check_rows parse d q (row_id row # seen) rows)"

definition ValidateEnvelope ::
  "(string \<Rightarrow> go_time option) \<Rightarrow> int \<Rightarrow> source_descriptor \<Rightarrow> source_query \<Rightarrow> source_envelope \<Rightarrow> source_envelope result" where
  "ValidateEnvelope parse now d q out =
     (if sd_AdapterSHA256 d \<noteq> [] \<and> se_AdapterSHA256 out \<noteq> sd_AdapterSHA256 d
        then Err (ErrMessage ''native adapter contract changed'')
      else if se_SchemaVersion out \<noteq> sd_SchemaVersion d \<or> se_Revision out = [] \<or> length (se_Revision out) > 256
          \<or> gt_Nanos (se_Start out) \<noteq> gt_Nanos (sq_Start q) \<or> gt_Nanos (se_End out) \<noteq> gt_Nanos (sq_End q)
          \<or> IsZero (se_Watermark out) \<or> gt_Nanos (se_Watermark out) > now + seconds 60 \<or> int (length (se_Rows out)) > sq_Limit q
        then Err (ErrMessage ''source coverage contract invalid'')
      else if sd_Kind d = ''event'' \<and> se_Offsets out = [] then Err (ErrMessage ''event offsets missing'')
      else if sd_Kind d = ''lake'' \<and> se_Snapshot out = [] then Err (ErrMessage ''lake snapshot missing'')
      else if length (se_Offsets out) > 32 \<or> length (se_Snapshot out) > 256
        then Err (ErrMessage ''source lineage exceeds bounds'')
      else if \<not> list_all (\<lambda>(partition, offset). ValidProductKey partition \<and> offset \<ge> 0) (se_Offsets out)
        then Err (ErrMessage ''invalid event offset'')
      else case check_rows parse d q [] (se_Rows out) of
        Some e \<Rightarrow> Err e
      | None \<Rightarrow>
          Ok (if gt_Nanos (se_Watermark out) < gt_Nanos (sq_End q) then out\<lparr>se_Complete := False\<rparr> else out))"

section \<open>The request\<close>

record file_info =
  fi_Regular :: bool
  fi_GroupOther :: bool
  fi_Size :: int

record source_host =
  host_Stat :: "string \<Rightarrow> file_info option"
  host_ReadFile :: "string \<Rightarrow> string option"
  host_Do :: "string \<Rightarrow> string option \<Rightarrow> string \<Rightarrow> (int \<times> string option) option"
  host_ParseTime :: "string \<Rightarrow> go_time option"
  host_Decode :: "string \<Rightarrow> source_envelope option"

text \<open>
  \<open>host_Do\<close> takes the endpoint, the bearer token and the body, and answers with a status and what can be read of
  the response body. The first clock reading is that of the query, the second that of the envelope.
\<close>

definition source_token :: "source_host \<Rightarrow> source_descriptor \<Rightarrow> string option result" where
  "source_token h d =
     (if sd_TokenFile d = [] then Ok None
      else case host_Stat h (sd_TokenFile d) of
        None \<Rightarrow> Err (ErrMessage ''source credential requires a private regular file'')
      | Some info \<Rightarrow>
          if \<not> fi_Regular info \<or> fi_GroupOther info \<or> fi_Size info > 8192
            then Err (ErrMessage ''source credential requires a private regular file'')
          else (case host_ReadFile h (sd_TokenFile d) of
              None \<Rightarrow> Err (ErrMessage ''source credential unavailable'')
            | Some token \<Rightarrow> if length token > 8192 \<or> trim_space token = [] then Err (ErrMessage ''source credential unavailable'')
                            else Ok (Some (trim_space token))))"

definition Query :: "source_host \<Rightarrow> call_env \<Rightarrow> source_descriptor \<Rightarrow> source_query \<Rightarrow> source_envelope result" where
  "Query h env d q =
     (case ValidateQuery (env_clock env 0) d q of
        Some e \<Rightarrow> Err e
      | None \<Rightarrow>
          (case source_token h d of
             Inl e \<Rightarrow> Err e
           | Inr token \<Rightarrow>
               (case host_Do h (sd_Endpoint d) token (query_bytes q) of
                  None \<Rightarrow> Err (ErrMessage ''source request failed'')
                | Some (status, body) \<Rightarrow>
                    if status \<noteq> 200 then Err (ErrMessage ''source returned unsuccessful status'')
                    else (case body of
                        None \<Rightarrow> Err (ErrMessage ''source body unavailable'')
                      | Some payload \<Rightarrow>
                          if int (length payload) > sd_MaxBytes d then Err (ErrMessage ''source byte limit exceeded'')
                          else (case host_Decode h payload of
                              None \<Rightarrow> Err (ErrMessage ''source schema invalid'')
                            | Some out \<Rightarrow> ValidateEnvelope (host_ParseTime h) (env_clock env 1) d q out)))))"

section \<open>What a registered source answers\<close>

lemma check_fields_None:
  "check_fields parse d row names = None \<Longrightarrow> field \<in> set names \<Longrightarrow>
     \<exists>v. map_of row field = Some v \<and> v \<noteq> RawNull \<and> check_value parse (map_get [] (sd_Fields d) field) v = None"
  by (induction names) (auto split: option.splits if_splits)

text \<open>A row the query allows: its fields are exactly the requested ones, each with a value of its declared type.\<close>

definition row_fits :: "(string \<Rightarrow> go_time option) \<Rightarrow> source_descriptor \<Rightarrow> source_query \<Rightarrow> source_row \<Rightarrow> bool" where
  "row_fits parse d q row \<longleftrightarrow>
     length row = length (sq_Fields q)
     \<and> (\<forall>field \<in> set (sq_Fields q). \<exists>v. map_of row field = Some v \<and> v \<noteq> RawNull
          \<and> check_value parse (map_get [] (sd_Fields d) field) v = None)
     \<and> row_id row \<noteq> []
     \<and> gt_Nanos (sq_Start q) \<le> gt_Nanos (row_time parse row) \<and> gt_Nanos (row_time parse row) < gt_Nanos (sq_End q)
     \<and> list_all (filter_matches row) (sq_Filters q)"

lemma check_rows_None:
  "check_rows parse d q seen rows = None \<Longrightarrow>
     list_all (row_fits parse d q) rows \<and> distinct (map row_id rows) \<and> set (map row_id rows) \<inter> set seen = {}"
proof (induction rows arbitrary: seen)
  case (Cons row rows)
  from Cons.prems have names: "check_fields parse d row (sq_Fields q) = None"
    and rest: "check_rows parse d q (row_id row # seen) rows = None"
    and row: "length row = length (sq_Fields q)" "row_id row \<noteq> []" "row_id row \<notin> set seen"
      "\<not> gt_Nanos (row_time parse row) < gt_Nanos (sq_Start q)" "gt_Nanos (row_time parse row) < gt_Nanos (sq_End q)"
      "list_all (filter_matches row) (sq_Filters q)"
    by (auto split: option.splits if_splits)
  have "row_fits parse d q row"
    using row check_fields_None [OF names] by (simp add: row_fits_def)
  with Cons.IH [OF rest] row show ?case by auto
qed simp

lemma ValidateEnvelope_Ok:
  assumes "ValidateEnvelope parse now d q out = Inr out'"
  shows "int (length (se_Rows out)) \<le> sq_Limit q" "se_Rows out' = se_Rows out" "se_Watermark out' = se_Watermark out"
    "se_SchemaVersion out' = sd_SchemaVersion d" "gt_Nanos (se_Start out') = gt_Nanos (sq_Start q)"
    "gt_Nanos (se_End out') = gt_Nanos (sq_End q)"
    "list_all (row_fits parse d q) (se_Rows out)" "distinct (map row_id (se_Rows out))"
    "se_Complete out' \<longleftrightarrow> se_Complete out \<and> gt_Nanos (sq_End q) \<le> gt_Nanos (se_Watermark out)"
  using assms
  by (auto simp: ValidateEnvelope_def split: if_splits option.splits dest: check_rows_None)

definition registered :: "string \<times> source_descriptor \<Rightarrow> bool" where
  "registered e \<longleftrightarrow> contract_bounds (snd e) \<and> fst e = sd_ProjectID (snd e) @ '':'' @ sd_ID (snd e)"

lemma check_contract_bounds: "check_contract parse_url loopback d = None \<Longrightarrow> contract_bounds d"
  by (auto simp: check_contract_def split: if_splits)

lemma New_registered:
  "New parse_url loopback entries ds = Inr r \<Longrightarrow> list_all registered entries \<Longrightarrow> list_all registered r"
proof (induction ds arbitrary: entries)
  case (Cons d ds)
  let ?e = "(sd_ProjectID d @ '':'' @ sd_ID d, d)"
  from Cons.prems(1) have "check_contract parse_url loopback d = None" "New parse_url loopback (entries @ [?e]) ds = Inr r"
    by (auto simp: Let_def split: option.splits if_splits)
  moreover from this(1) have "registered ?e" by (simp add: registered_def check_contract_bounds)
  ultimately show ?case using Cons by simp
qed simp

lemma Get_registered:
  "list_all registered r \<Longrightarrow> Get r project sid = Some d \<Longrightarrow> contract_bounds d"
  by (fastforce simp: Get_def list_all_iff registered_def dest!: map_of_SomeD)

lemma row_keys_exact:
  assumes "distinct (map fst row)" and "distinct names" and "length row = length names"
    and "\<forall>f \<in> set names. map_of row f \<noteq> None"
  shows "fst ` set row = set names"
proof -
  have sub: "set names \<subseteq> fst ` set row"
  proof
    fix f assume "f \<in> set names"
    with assms(4) have "map_of row f \<noteq> None" by blast
    then show "f \<in> fst ` set row" by (simp add: map_of_eq_None_iff)
  qed
  have "card (fst ` set row) = length row" using distinct_card [OF assms(1)] by simp
  moreover have "card (set names) = length names" using assms(2) by (rule distinct_card)
  ultimately show ?thesis
    using card_subset_eq [OF _ sub] assms(3) by simp
qed

lemma ValidateQuery_None:
  assumes "ValidateQuery now d q = None"
  shows "distinct (sq_Fields q)" "\<forall>f \<in> set (sq_Fields q). map_of (sd_Fields d) f \<noteq> None"
    "sq_Limit q \<le> sd_MaxRows d" "gt_Nanos (sq_End q) - gt_Nanos (sq_Start q) \<le> seconds (sd_MaxWindowSeconds d)"
    "sq_Purpose q \<in> set (sd_Purposes d)" "sq_ProjectID q = sd_ProjectID d" "sq_ProductID q = sd_ProductID d"
    "sq_SourceID q = sd_ID d" "ValidProductKey (sq_IdempotencyKey q)" "gt_Nanos (sq_Start q) < gt_Nanos (sq_End q)"
  using assms by (auto simp: ValidateQuery_def list_all_iff split: if_splits)

lemma Query_Ok:
  assumes "Query h env d q = Inr out"
  shows "ValidateQuery (env_clock env 0) d q = None"
    and "\<exists>raw. ValidateEnvelope (host_ParseTime h) (env_clock env 1) d q raw = Inr out"
  using assms by (auto simp: Query_def split: option.splits sum.splits if_splits prod.splits)

text \<open>
  C40: What a source of a valid registry answers stays within its contract, whatever the host returns: at most 1000 rows of
  a window of at most 31 days, every row has exactly the requested fields, all of them fields of the contract, with an
  event time inside the window, no event identifier occurs twice, and an answer counts as complete only if
  its watermark covers the window.
\<close>

theorem source_answer_bounded:
  assumes "New parse_url loopback [] ds = Inr r" and "Get r project sid = Some d"
    and "Query h env d q = Inr out" and "\<forall>row \<in> set (se_Rows out). distinct (map fst row)"
  shows "length (se_Rows out) \<le> 1000 \<and> gt_Nanos (se_End out) - gt_Nanos (se_Start out) \<le> seconds (31 * 86400)
     \<and> distinct (map row_id (se_Rows out)) \<and> (se_Complete out \<longrightarrow> gt_Nanos (se_End out) \<le> gt_Nanos (se_Watermark out))
     \<and> (\<forall>row \<in> set (se_Rows out). fst ` set row = set (sq_Fields q) \<and> fst ` set row \<subseteq> fst ` set (sd_Fields d)
          \<and> gt_Nanos (se_Start out) \<le> gt_Nanos (row_time (host_ParseTime h) row)
          \<and> gt_Nanos (row_time (host_ParseTime h) row) < gt_Nanos (se_End out))"
proof -
  have bounds: "contract_bounds d"
    using Get_registered [OF New_registered [OF assms(1)] assms(2)] by simp
  then have limits: "sd_MaxRows d \<le> 1000" "sd_MaxWindowSeconds d \<le> 31 * 86400"
    by (simp_all add: contract_bounds_def)
  note q = ValidateQuery_None [OF Query_Ok(1) [OF assms(3)]]
  from Query_Ok(2) [OF assms(3)] obtain raw
    where raw: "ValidateEnvelope (host_ParseTime h) (env_clock env 1) d q raw = Inr out" by blast
  note e = ValidateEnvelope_Ok [OF raw]
  have rows: "fst ` set row = set (sq_Fields q) \<and> fst ` set row \<subseteq> fst ` set (sd_Fields d)
      \<and> gt_Nanos (se_Start out) \<le> gt_Nanos (row_time (host_ParseTime h) row)
      \<and> gt_Nanos (row_time (host_ParseTime h) row) < gt_Nanos (se_End out)" if "row \<in> set (se_Rows out)" for row
  proof -
    have fits: "row_fits (host_ParseTime h) d q row" using e(2,7) that by (simp add: list_all_iff)
    then have "length row = length (sq_Fields q)" "\<forall>f \<in> set (sq_Fields q). map_of row f \<noteq> None"
      unfolding row_fits_def by (blast, fastforce)
    then have "fst ` set row = set (sq_Fields q)"
      using row_keys_exact assms(4) that q(1) by blast
    moreover have "set (sq_Fields q) \<subseteq> fst ` set (sd_Fields d)"
      using q(2) by (metis map_of_eq_None_iff subsetI)
    ultimately show ?thesis using fits e(5,6) by (auto simp: row_fits_def)
  qed
  have "gt_Nanos (se_End out) - gt_Nanos (se_Start out) \<le> seconds (31 * 86400)"
    using q(4) limits(2) e(5,6) by (simp add: seconds_def)
  moreover have "length (se_Rows out) \<le> 1000" using e(1,2) q(3) limits(1) by simp
  moreover have "distinct (map row_id (se_Rows out))" "se_Complete out \<Longrightarrow> gt_Nanos (se_End out) \<le> gt_Nanos (se_Watermark out)"
    using e by simp_all
  ultimately show ?thesis using rows by blast
qed

text \<open>One source of a project, its query and a host that answers with one row.\<close>

definition demo_source :: source_descriptor where
  "demo_source = \<lparr>sd_ID = ''s'', sd_ProjectID = ''p'', sd_ProductID = ''q'', sd_Kind = ''log'', sd_Endpoint = ''https://h'',
     sd_TokenFile = [], sd_SchemaVersion = ''v1'', sd_AdapterSHA256 = [], sd_Classification = ''internal'', sd_Owner = ''o'',
     sd_Roles = [''operations''], sd_Purposes = [''u''], sd_Fields = [(''event_id'', ''string''), (''event_time'', ''timestamp'')],
     sd_FieldsByRole = [], sd_Filters = [], sd_MaxRows = 10, sd_MaxBytes = 256, sd_TimeoutSeconds = 1, sd_MaxWindowSeconds = 60,
     sd_RetentionSeconds = 60, sd_AllowLoopbackHTTP = False\<rparr>"

definition demo_url :: "string \<Rightarrow> parsed_url option" where
  "demo_url s = Some \<lparr>url_Scheme = ''https'', url_Host = s, url_Hostname = s, url_User = False, url_Fragment = [], url_RawQuery = []\<rparr>"

definition demo_query :: source_query where
  "demo_query = \<lparr>sq_ProjectID = ''p'', sq_ProductID = ''q'', sq_SourceID = ''s'', sq_Purpose = ''u'', sq_Start = utc (seconds 10),
     sq_End = utc (seconds 20), sq_Fields = [''event_id'', ''event_time''], sq_Filters = [], sq_Limit = 5, sq_IdempotencyKey = ''k''\<rparr>"

definition demo_answer :: source_envelope where
  "demo_answer = \<lparr>se_SchemaVersion = ''v1'', se_AdapterSHA256 = [], se_Revision = ''r'', se_Start = utc (seconds 10), se_End = utc (seconds 20),
     se_Watermark = utc (seconds 20), se_Snapshot = [], se_Offsets = [], se_Complete = True,
     se_Rows = [[(''event_id'', RawString ''e''), (''event_time'', RawString ''t'')]]\<rparr>"

definition demo_source_host :: source_host where
  "demo_source_host = \<lparr>host_Stat = \<lambda>_. None, host_ReadFile = \<lambda>_. None, host_Do = \<lambda>_ _ _. Some (200, Some ''{}''),
     host_ParseTime = \<lambda>_. Some (utc (seconds 15)), host_Decode = \<lambda>_. Some demo_answer\<rparr>"

definition demo_source_env :: call_env where
  "demo_source_env = \<lparr>env_ctx = None, env_clock = \<lambda>_. seconds 20, env_db_now = 0, env_id = \<lambda>_. []\<rparr>"

lemmas demo_source_defs = demo_source_def demo_url_def demo_query_def demo_answer_def demo_source_host_def demo_source_env_def

theorem source_answer_bounded_witness:
  "\<exists>r. New demo_url (\<lambda>_. False) [] [demo_source] = Inr r \<and> Get r ''p'' ''s'' = Some demo_source
     \<and> Query demo_source_host demo_source_env demo_source demo_query = Inr demo_answer
     \<and> length (se_Rows demo_answer) \<le> 1000 \<and> distinct (map row_id (se_Rows demo_answer))"
proof -
  have new: "New demo_url (\<lambda>_. False) [] [demo_source] = Inr [(''p:s'', demo_source)]"
    by (simp add: demo_source_defs check_contract_def contract_bounds_def endpoint_allowed_def pattern_simps Let_def)
  have get: "Get [(''p:s'', demo_source)] ''p'' ''s'' = Some demo_source" by (simp add: Get_def)
  have query: "Query demo_source_host demo_source_env demo_source demo_query = Inr demo_answer"
    by (simp add: demo_source_defs Query_def ValidateQuery_def source_token_def ValidateEnvelope_def pattern_simps
        IsZero_def utc_def zero_time_def seconds_def check_value_def row_id_def row_time_def)
  have "\<forall>row \<in> set (se_Rows demo_answer). distinct (map fst row)" by (simp add: demo_answer_def)
  from source_answer_bounded [OF new get query this] new get query show ?thesis by blast
qed

end
