(* ===== verification/Observations.thy ===== *)
theory Observations
  imports Sources
begin

text \<open>
  Reconciliation of two observed windows against an accepted criterion: \<open>CompareObservations\<close> of
  \<open>src/internal/domain/product_evaluation.go\<close> with the oracle of \<open>src/internal/domain/intent.go\<close>. The map the code ranges over to
  count is represented by the list of its keys.
\<close>

section \<open>Bindings, oracles and evaluations\<close>

record product_binding =
  bind_RecordID :: string
  bind_SHA256 :: string
  bind_Kind :: string

definition json_binding :: "product_binding \<Rightarrow> json" where
  "json_binding b = JObject [(''record_id'', JString (bind_RecordID b)), (''sha256'', JString (bind_SHA256 b)), (''kind'', JString (bind_Kind b))]"

definition zero_binding :: product_binding where
  "zero_binding = \<lparr>bind_RecordID = [], bind_SHA256 = [], bind_Kind = []\<rparr>"

record reconciliation_oracle =
  ro_LeftSourceID :: string
  ro_RightSourceID :: string
  ro_LeftSchemaVersion :: string
  ro_RightSchemaVersion :: string
  ro_JoinField :: string
  ro_ValueField :: string
  ro_ExpectedRightValue :: string
  ro_MaxWindowSeconds :: int

record observation_comparison =
  oc_Method :: string
  oc_Outcome :: string
  oc_Matched :: int
  oc_Missing :: int
  oc_Mismatched :: int
  oc_Reasons :: "string list"

text \<open>A stored evaluation: the comparison together with what was compared, by whom and for which criterion.\<close>

record observation_evaluation = observation_comparison +
  oe_ID :: string
  oe_ProjectID :: string
  oe_ProductID :: string
  oe_Actor :: string
  oe_Owner :: string
  oe_Intent :: product_binding
  oe_CriterionID :: string
  oe_Left :: product_binding
  oe_Right :: product_binding
  oe_RequestSHA256 :: string
  oe_CreatedAt :: int
  oe_Evidence :: artifact

section \<open>Comparison\<close>

definition stringField :: "source_row \<Rightarrow> string \<Rightarrow> string option" where
  "stringField row field =
     (case map_of row field of
        None \<Rightarrow> None
      | Some raw \<Rightarrow> (case unmarshal_string raw of None \<Rightarrow> None | Some v \<Rightarrow> if v = [] then None else Some v))"

fun left_keys :: "string \<Rightarrow> string list \<Rightarrow> source_row list \<Rightarrow> string list option" where
  "left_keys join keys [] = Some keys"
| "left_keys join keys (row # rows) =
     (case stringField row join of
        None \<Rightarrow> None
      | Some key \<Rightarrow> if key \<in> set keys then None else left_keys join (keys @ [key]) rows)"

fun right_values :: "string \<Rightarrow> string \<Rightarrow> (string \<times> string) list \<Rightarrow> source_row list \<Rightarrow> (string \<times> string) list option" where
  "right_values join value acc [] = Some acc"
| "right_values join value acc (row # rows) =
     (case (stringField row join, stringField row value) of
        (Some key, Some v) \<Rightarrow> if map_of acc key \<noteq> None then None else right_values join value (acc @ [(key, v)]) rows
      | _ \<Rightarrow> None)"

definition windows_match :: "reconciliation_oracle \<Rightarrow> source_envelope \<Rightarrow> source_envelope \<Rightarrow> bool" where
  "windows_match rule left right \<longleftrightarrow>
     \<not> (se_SchemaVersion left \<noteq> ro_LeftSchemaVersion rule \<or> se_SchemaVersion right \<noteq> ro_RightSchemaVersion rule
        \<or> IsZero (se_Start left) \<or> \<not> gt_Nanos (se_Start left) < gt_Nanos (se_End left)
        \<or> gt_Nanos (se_Start left) \<noteq> gt_Nanos (se_Start right) \<or> gt_Nanos (se_End left) \<noteq> gt_Nanos (se_End right)
        \<or> gt_Nanos (se_End left) - gt_Nanos (se_Start left) > seconds (ro_MaxWindowSeconds rule))"

definition covers :: "source_envelope \<Rightarrow> bool" where
  "covers e \<longleftrightarrow> se_Complete e \<and> \<not> gt_Nanos (se_Watermark e) < gt_Nanos (se_End e)"

definition inconclusive :: "string \<Rightarrow> observation_comparison" where
  "inconclusive reason = \<lparr>oc_Method = ''hybrid-ai/observation-reconciliation/v1'', oc_Outcome = ''inconclusive'',
     oc_Matched = 0, oc_Missing = 0, oc_Mismatched = 0, oc_Reasons = [reason]\<rparr>"

definition compared :: "reconciliation_oracle \<Rightarrow> source_envelope \<Rightarrow> source_envelope \<Rightarrow> string list \<Rightarrow> (string \<times> string) list \<Rightarrow> observation_comparison" where
  "compared rule left right keys vals =
     (let missing = length (filter (\<lambda>k. map_of vals k = None) keys);
          mismatched = length (filter (\<lambda>k. map_of vals k \<noteq> None \<and> map_of vals k \<noteq> Some (ro_ExpectedRightValue rule)) keys);
          matched = length (filter (\<lambda>k. map_of vals k = Some (ro_ExpectedRightValue rule)) keys);
          (outcome, reason) =
            (if mismatched > 0 \<or> missing > 0 \<and> covers right
               then (''violated'', ''Observed records violate the accepted requirement; this does not identify a root cause.'')
             else if keys = []
               then (''inconclusive'', ''No eligible input events were observed; an empty sample cannot prove recovery.'')
             else if \<not> covers left \<or> \<not> covers right
               then (''inconclusive'', ''Coverage is incomplete; delayed or missing evidence prevents satisfaction.'')
             else (''satisfied'', ''All observed input records meet the accepted criterion in this complete window.''))
      in \<lparr>oc_Method = ''hybrid-ai/observation-reconciliation/v1'', oc_Outcome = outcome, oc_Matched = int matched,
          oc_Missing = int missing, oc_Mismatched = int mismatched, oc_Reasons = [reason]\<rparr>)"

definition CompareObservations :: "reconciliation_oracle \<Rightarrow> source_envelope \<Rightarrow> source_envelope \<Rightarrow> observation_comparison" where
  "CompareObservations rule left right =
     (if \<not> windows_match rule left right
        then inconclusive ''Source schema or time windows do not match the accepted criterion.''
      else case left_keys (ro_JoinField rule) [] (se_Rows left) of
        None \<Rightarrow> inconclusive ''Left join keys are missing, duplicated or not strings.''
      | Some keys \<Rightarrow>
          (case right_values (ro_JoinField rule) (ro_ValueField rule) [] (se_Rows right) of
             None \<Rightarrow> inconclusive ''Right join keys or values are missing, duplicated or not strings.''
           | Some vals \<Rightarrow> compared rule left right keys vals))"

section \<open>What an outcome means\<close>

abbreviation row_key :: "string \<Rightarrow> source_row \<Rightarrow> string" where
  "row_key field row \<equiv> the (stringField row field)"

text \<open>Rows that can be joined: every key is a non-empty string and no key occurs twice.\<close>

definition joinable :: "string \<Rightarrow> source_row list \<Rightarrow> bool" where
  "joinable join rows \<longleftrightarrow> (\<forall>row \<in> set rows. stringField row join \<noteq> None) \<and> distinct (map (row_key join) rows)"

lemma left_keys_from:
  "left_keys join keys rows =
     (if (\<forall>row \<in> set rows. stringField row join \<noteq> None \<and> row_key join row \<notin> set keys) \<and> distinct (map (row_key join) rows)
      then Some (keys @ map (row_key join) rows) else None)"
  by (induction rows arbitrary: keys) (auto split: option.splits)

lemma left_keys_all: "left_keys join [] rows = (if joinable join rows then Some (map (row_key join) rows) else None)"
  by (simp add: left_keys_from joinable_def)

lemma right_values_from:
  "right_values join value acc rows =
     (if (\<forall>row \<in> set rows. stringField row join \<noteq> None \<and> stringField row value \<noteq> None \<and> map_of acc (row_key join row) = None)
         \<and> distinct (map (row_key join) rows)
      then Some (acc @ map (\<lambda>row. (row_key join row, row_key value row)) rows) else None)"
proof (induction rows arbitrary: acc)
  case (Cons row rows)
  show ?case
    by (auto simp: Cons.IH map_of_append map_add_def split: option.splits if_splits)
qed simp

lemma right_values_all:
  "right_values join value [] rows =
     (if joinable join rows \<and> (\<forall>row \<in> set rows. stringField row value \<noteq> None)
      then Some (map (\<lambda>row. (row_key join row, row_key value row)) rows) else None)"
  by (auto simp: right_values_from joinable_def)

lemma joined_value:
  assumes "joinable join rows"
  shows "map_of (map (\<lambda>row. (row_key join row, row_key value row)) rows) k = Some v
     \<longleftrightarrow> (\<exists>row \<in> set rows. row_key join row = k \<and> row_key value row = v)"
proof -
  have "distinct (map fst (map (\<lambda>row. (row_key join row, row_key value row)) rows))"
    using assms by (simp add: joinable_def comp_def)
  then show ?thesis by (auto simp: map_of_eq_Some_iff)
qed

definition rows_reconcile :: "reconciliation_oracle \<Rightarrow> source_envelope \<Rightarrow> source_envelope \<Rightarrow> bool" where
  "rows_reconcile rule left right \<longleftrightarrow>
     windows_match rule left right \<and> joinable (ro_JoinField rule) (se_Rows left) \<and> joinable (ro_JoinField rule) (se_Rows right)
     \<and> (\<forall>row \<in> set (se_Rows right). stringField row (ro_ValueField rule) \<noteq> None)"

lemma CompareObservations_rows:
  "rows_reconcile rule left right \<Longrightarrow> CompareObservations rule left right =
     compared rule left right (map (row_key (ro_JoinField rule)) (se_Rows left))
       (map (\<lambda>row. (row_key (ro_JoinField rule) row, row_key (ro_ValueField rule) row)) (se_Rows right))"
  by (simp add: CompareObservations_def rows_reconcile_def left_keys_all right_values_all)

lemma CompareObservations_inconclusive:
  "\<not> rows_reconcile rule left right \<Longrightarrow> oc_Outcome (CompareObservations rule left right) = ''inconclusive''"
  by (auto simp: CompareObservations_def rows_reconcile_def left_keys_all right_values_all inconclusive_def)

lemma length_filter_pos: "0 < length (filter P xs) \<longleftrightarrow> (\<exists>x \<in> set xs. P x)"
  by (auto simp: filter_empty_conv)

lemma compared_outcome:
  "oc_Outcome (compared rule left right keys vals) =
     (if (\<exists>k \<in> set keys. map_of vals k \<noteq> None \<and> map_of vals k \<noteq> Some (ro_ExpectedRightValue rule))
         \<or> (\<exists>k \<in> set keys. map_of vals k = None) \<and> covers right then ''violated''
      else if keys = [] \<or> \<not> covers left \<or> \<not> covers right then ''inconclusive'' else ''satisfied'')"
  by (simp only: compared_def Let_def length_filter_pos split: if_split) (simp, fastforce)

lemma compared_satisfied:
  "oc_Outcome (compared rule left right keys vals) = ''satisfied'' \<longleftrightarrow>
     covers left \<and> covers right \<and> keys \<noteq> [] \<and> (\<forall>k \<in> set keys. map_of vals k = Some (ro_ExpectedRightValue rule))"
proof -
  have "(\<forall>k \<in> set keys. map_of vals k = Some (ro_ExpectedRightValue rule)) \<longleftrightarrow>
      \<not> (\<exists>k \<in> set keys. map_of vals k \<noteq> None \<and> map_of vals k \<noteq> Some (ro_ExpectedRightValue rule))
      \<and> \<not> (\<exists>k \<in> set keys. map_of vals k = None)"
    by fastforce
  then show ?thesis unfolding compared_outcome by auto
qed

text \<open>
  A criterion is judged satisfied exactly when both windows are the accepted ones and covered completely, at least one
  input was observed, and every observed input has its one counterpart with the expected value.
\<close>

theorem observations_satisfied_iff:
  "oc_Outcome (CompareObservations rule left right) = ''satisfied'' \<longleftrightarrow>
     rows_reconcile rule left right \<and> covers left \<and> covers right \<and> se_Rows left \<noteq> []
     \<and> (\<forall>l \<in> set (se_Rows left). \<exists>r \<in> set (se_Rows right).
          row_key (ro_JoinField rule) r = row_key (ro_JoinField rule) l
          \<and> row_key (ro_ValueField rule) r = ro_ExpectedRightValue rule)"
proof (cases "rows_reconcile rule left right")
  case True
  then have join: "joinable (ro_JoinField rule) (se_Rows right)" by (simp add: rows_reconcile_def)
  note joined = joined_value [OF join, of "ro_ValueField rule"]
  let ?vals = "map (\<lambda>row. (row_key (ro_JoinField rule) row, row_key (ro_ValueField rule) row)) (se_Rows right)"
  let ?keys = "map (row_key (ro_JoinField rule)) (se_Rows left)"
  have "oc_Outcome (CompareObservations rule left right) = ''satisfied'' \<longleftrightarrow>
      covers left \<and> covers right \<and> ?keys \<noteq> [] \<and> (\<forall>k \<in> set ?keys. map_of ?vals k = Some (ro_ExpectedRightValue rule))"
    unfolding CompareObservations_rows [OF True] by (rule compared_satisfied)
  then show ?thesis using True by (simp add: joined)
qed (simp add: CompareObservations_inconclusive)

text \<open>
  A violation is always observed: some input has a counterpart with another value, or the counterpart window is
  covered completely and some input has none.
\<close>

theorem violation_is_observed:
  assumes "oc_Outcome (CompareObservations rule left right) = ''violated''"
  shows "\<exists>l \<in> set (se_Rows left).
     (\<exists>r \<in> set (se_Rows right). row_key (ro_JoinField rule) r = row_key (ro_JoinField rule) l
        \<and> row_key (ro_ValueField rule) r \<noteq> ro_ExpectedRightValue rule)
     \<or> covers right \<and> (\<forall>r \<in> set (se_Rows right). row_key (ro_JoinField rule) r \<noteq> row_key (ro_JoinField rule) l)"
proof -
  have rec: "rows_reconcile rule left right"
    using assms CompareObservations_inconclusive by (cases "rows_reconcile rule left right") auto
  then have join: "joinable (ro_JoinField rule) (se_Rows right)" by (simp add: rows_reconcile_def)
  let ?vals = "map (\<lambda>row. (row_key (ro_JoinField rule) row, row_key (ro_ValueField rule) row)) (se_Rows right)"
  from assms obtain l where l: "l \<in> set (se_Rows left)"
    and bad: "(\<exists>v. map_of ?vals (row_key (ro_JoinField rule) l) = Some v \<and> v \<noteq> ro_ExpectedRightValue rule)
      \<or> map_of ?vals (row_key (ro_JoinField rule) l) = None \<and> covers right"
    unfolding CompareObservations_rows [OF rec] compared_outcome by (auto split: if_splits)
  from bad show ?thesis
  proof
    assume "\<exists>v. map_of ?vals (row_key (ro_JoinField rule) l) = Some v \<and> v \<noteq> ro_ExpectedRightValue rule"
    then obtain v where "map_of ?vals (row_key (ro_JoinField rule) l) = Some v" "v \<noteq> ro_ExpectedRightValue rule" by blast
    then show ?thesis using l unfolding joined_value [OF join] by blast
  next
    assume none: "map_of ?vals (row_key (ro_JoinField rule) l) = None \<and> covers right"
    then have "\<forall>r \<in> set (se_Rows right). row_key (ro_JoinField rule) r \<noteq> row_key (ro_JoinField rule) l"
      by (auto simp: map_of_eq_None_iff image_iff)
    with none l show ?thesis by blast
  qed
qed

definition demo_rule :: reconciliation_oracle where
  "demo_rule = \<lparr>ro_LeftSourceID = ''s'', ro_RightSourceID = ''t'', ro_LeftSchemaVersion = ''v1'', ro_RightSchemaVersion = ''v1'',
     ro_JoinField = ''event_id'', ro_ValueField = ''event_time'', ro_ExpectedRightValue = ''u'', ro_MaxWindowSeconds = 60\<rparr>"

theorem violation_is_observed_witness:
  "oc_Outcome (CompareObservations demo_rule demo_answer demo_answer) = ''violated''
   \<and> (\<exists>l \<in> set (se_Rows demo_answer).
       (\<exists>r \<in> set (se_Rows demo_answer). row_key ''event_id'' r = row_key ''event_id'' l \<and> row_key ''event_time'' r \<noteq> ''u'')
       \<or> covers demo_answer \<and> list_all (\<lambda>r. row_key ''event_id'' r \<noteq> row_key ''event_id'' l) (se_Rows demo_answer))"
proof -
  have out: "oc_Outcome (CompareObservations demo_rule demo_answer demo_answer) = ''violated''"
    by (simp add: CompareObservations_def windows_match_def demo_rule_def demo_answer_def IsZero_def utc_def zero_time_def
        seconds_def stringField_def compared_def)
  have "ro_JoinField demo_rule = ''event_id''" "ro_ValueField demo_rule = ''event_time''" "ro_ExpectedRightValue demo_rule = ''u''"
    by (simp_all add: demo_rule_def)
  with violation_is_observed [OF out] out show ?thesis by (simp add: list_all_iff)
qed

definition demo_agreed :: reconciliation_oracle where
  "demo_agreed = demo_rule\<lparr>ro_ExpectedRightValue := row_key ''event_time'' (hd (se_Rows demo_answer))\<rparr>"

theorem observations_satisfied_iff_witness:
  "oc_Outcome (CompareObservations demo_agreed demo_answer demo_answer) = ''satisfied''
   \<and> (\<exists>r \<in> set (se_Rows demo_answer). row_key ''event_id'' r = row_key ''event_id'' (hd (se_Rows demo_answer))
        \<and> row_key ''event_time'' r = row_key ''event_time'' (hd (se_Rows demo_answer)))"
proof -
  have out: "oc_Outcome (CompareObservations demo_agreed demo_answer demo_answer) = ''satisfied''"
    by (simp add: CompareObservations_def windows_match_def demo_agreed_def demo_rule_def demo_answer_def IsZero_def utc_def
        zero_time_def seconds_def stringField_def compared_def covers_def)
  have "ro_JoinField demo_agreed = ''event_id''" "ro_ValueField demo_agreed = ''event_time''"
      "ro_ExpectedRightValue demo_agreed = row_key ''event_time'' (hd (se_Rows demo_answer))"
    by (simp_all add: demo_agreed_def demo_rule_def)
  moreover have "hd (se_Rows demo_answer) \<in> set (se_Rows demo_answer)" by (simp add: demo_answer_def)
  ultimately show ?thesis using observations_satisfied_iff [THEN iffD1, OF out] out by auto
qed

end
