(* ===== verification/ExecDomain.thy ===== *)
theory ExecDomain
  imports Observations WorkPacket
begin

text \<open>
  The data of bounded autonomous execution (\<open>src/internal/domain/execution.go\<close>) and the operator-owned
  registry of agent packages and execution targets (\<open>src/internal/execution/registry.go\<close>). Go maps with string
  keys are association lists.
\<close>

section \<open>Roles and budgets\<close>

definition ExecutionRole :: "string \<Rightarrow> string" where
  "ExecutionRole stage =
     (if stage = ''build'' then ''sdlc_builder''
      else if stage = ''evaluate'' \<or> stage = ''verify_delivery'' \<or> stage = ''verify_recovery'' then ''sdlc_evaluator''
      else if stage = ''deliver'' then ''sdlc_delivery''
      else if stage = ''diagnose'' then ''sdlc_diagnosis''
      else if stage = ''remediate'' then ''sdlc_remediation''
      else [])"

definition sdlc_roles :: "string list" where
  "sdlc_roles = [''sdlc_builder'', ''sdlc_evaluator'', ''sdlc_delivery'', ''sdlc_diagnosis'', ''sdlc_remediation'']"

record execution_budget =
  eb_MaxAttempts :: int
  eb_MaxModelCalls :: int
  eb_MaxTokens :: int
  eb_MaxSourceQueries :: int
  eb_MaxSourceRows :: int
  eb_MaxSeconds :: int
  eb_MaxConcurrentRuns :: int

definition budget_Validate :: "execution_budget \<Rightarrow> bool" where
  "budget_Validate b \<longleftrightarrow> \<not> (eb_MaxAttempts b < 1 \<or> eb_MaxAttempts b > 10 \<or> eb_MaxModelCalls b < 1 \<or> eb_MaxModelCalls b > 30
     \<or> eb_MaxTokens b < 128 \<or> eb_MaxTokens b > 1000000 \<or> eb_MaxSourceQueries b < 0 \<or> eb_MaxSourceQueries b > 100
     \<or> eb_MaxSourceRows b < 0 \<or> eb_MaxSourceRows b > 100000 \<or> eb_MaxSeconds b < 30 \<or> eb_MaxSeconds b > 86400
     \<or> eb_MaxConcurrentRuns b < 1 \<or> eb_MaxConcurrentRuns b > 16)"

section \<open>Agent packages\<close>

record agent_package =
  ap_Schema :: string
  ap_ID :: string
  ap_Version :: int
  ap_Role :: string
  ap_Model :: string
  ap_ModelSHA256 :: string
  ap_Instructions :: string
  ap_Tools :: "string list"
  ap_MaxInputBytes :: int
  ap_MaxOutputTokens :: int
  ap_TimeoutSeconds :: int
  ap_Concurrency :: int
  ap_EvaluatorImage :: string
  ap_RegressionID :: string

definition zero_package :: agent_package where
  "zero_package = \<lparr>ap_Schema = [], ap_ID = [], ap_Version = 0, ap_Role = [], ap_Model = [], ap_ModelSHA256 = [],
     ap_Instructions = [], ap_Tools = [], ap_MaxInputBytes = 0, ap_MaxOutputTokens = 0, ap_TimeoutSeconds = 0,
     ap_Concurrency = 0, ap_EvaluatorImage = [], ap_RegressionID = []\<rparr>"

definition json_package :: "agent_package \<Rightarrow> json" where
  "json_package p = JObject (
     [(''schema'', JString (ap_Schema p)), (''id'', JString (ap_ID p)), (''version'', JInt (ap_Version p)),
      (''role'', JString (ap_Role p))]
     @ omit_empty ''model'' (ap_Model p) @ omit_empty ''model_sha256'' (ap_ModelSHA256 p)
     @ [(''instructions'', JString (ap_Instructions p)), (''tools'', json_strings (ap_Tools p)),
        (''max_input_bytes'', JInt (ap_MaxInputBytes p)), (''max_output_tokens'', JInt (ap_MaxOutputTokens p)),
        (''timeout_seconds'', JInt (ap_TimeoutSeconds p)), (''concurrency'', JInt (ap_Concurrency p))]
     @ omit_empty ''evaluator_image'' (ap_EvaluatorImage p) @ [(''regression_id'', JString (ap_RegressionID p))])"

definition package_Digest :: "agent_package \<Rightarrow> string" where
  "package_Digest p = Digest (print_json (json_package p))"

definition MaxTokenCharge :: "agent_package \<Rightarrow> int" where
  "MaxTokenCharge p = ap_MaxInputBytes p + int (length (ap_Instructions p)) + 1024 + ap_MaxOutputTokens p"

definition role_tools :: "(string \<times> string list) list" where
  "role_tools =
     [(''sdlc_builder'', [''context'', ''propose_patch'']),
      (''sdlc_evaluator'', [''context'', ''verify_patch'', ''verify_delivery'', ''verify_recovery'', ''source_query'', ''compare_observations'']),
      (''sdlc_delivery'', [''context'', ''deliver'', ''reconcile'']),
      (''sdlc_diagnosis'', [''context'', ''source_query'', ''compare_observations'', ''propose_diagnosis'']),
      (''sdlc_remediation'', [''context'', ''remediate'', ''reconcile''])]"

definition package_Validate :: "agent_package \<Rightarrow> go_error option" where
  "package_Validate p =
     (if ap_Schema p \<noteq> ''hybrid-ai/agent-package/v1'' \<or> \<not> ValidProductKey (ap_ID p) \<or> ap_Version p < 1
         \<or> \<not> boundedText (ap_Instructions p) 16384 \<or> \<not> ValidProductKey (ap_RegressionID p)
         \<or> ap_MaxInputBytes p < 1024 \<or> ap_MaxInputBytes p > 256 * 1024 \<or> ap_TimeoutSeconds p < 1 \<or> ap_TimeoutSeconds p > 600
         \<or> ap_Concurrency p < 1 \<or> ap_Concurrency p > 16 \<or> length (ap_Tools p) > 10
      then Some (ErrMessage ''invalid agent package identity, instructions or limits'')
      else case map_of role_tools (ap_Role p) of
        None \<Rightarrow> Some (ErrMessage ''unknown package role'')
      | Some tools \<Rightarrow>
          if \<not> list_all (\<lambda>tool. tool \<in> set tools) (ap_Tools p) then Some (ErrMessage ''tool is outside package role'')
          else if (ap_Role p = ''sdlc_builder'' \<or> ap_Role p = ''sdlc_diagnosis'')
             \<and> (\<not> boundedText (ap_Model p) 128 \<or> \<not> digestPattern (ap_ModelSHA256 p)
                 \<or> ap_MaxOutputTokens p < 128 \<or> ap_MaxOutputTokens p > 32768)
            then Some (ErrMessage ''model packages require a pinned local model and output budget'')
          else if \<not> (ap_Role p = ''sdlc_builder'' \<or> ap_Role p = ''sdlc_diagnosis'') \<and> (ap_Model p \<noteq> [] \<or> ap_ModelSHA256 p \<noteq> [])
            then Some (ErrMessage ''deterministic executor packages do not use a model'')
          else if ap_Role p = ''sdlc_evaluator'' \<and> \<not> evaluatorImagePattern (ap_EvaluatorImage p)
            then Some (ErrMessage ''evaluator image must be pinned by digest'')
          else None)"

section \<open>Targets\<close>

record execution_target =
  et_ID :: string
  et_ProjectID :: string
  et_ProductID :: string
  et_Environment :: string
  et_RepositoryID :: string
  et_Participants :: "(string \<times> string) list"
  et_Packages :: "(string \<times> string) list"
  et_Sources :: "string list"
  et_Purposes :: "string list"
  et_Classifications :: "string list"
  et_Budget :: execution_budget
  et_ProtectedPaths :: "string list"
  et_AllowedRemedies :: "string list"
  et_DeliverySHA256 :: string
  et_RemediationSHA256 :: string
  et_ObservationSeconds :: int
  et_Qualification :: bool

definition json_budget :: "execution_budget \<Rightarrow> json" where
  "json_budget b = JObject
     [(''max_attempts'', JInt (eb_MaxAttempts b)), (''max_model_calls'', JInt (eb_MaxModelCalls b)),
      (''max_tokens'', JInt (eb_MaxTokens b)), (''max_source_queries'', JInt (eb_MaxSourceQueries b)),
      (''max_source_rows'', JInt (eb_MaxSourceRows b)), (''max_seconds'', JInt (eb_MaxSeconds b)),
      (''max_concurrent_runs'', JInt (eb_MaxConcurrentRuns b))]"

definition json_target :: "execution_target \<Rightarrow> json" where
  "json_target t = JObject (
     [(''id'', JString (et_ID t)), (''project_id'', JString (et_ProjectID t)), (''product_id'', JString (et_ProductID t)),
      (''environment'', JString (et_Environment t)), (''repository_id'', JString (et_RepositoryID t)),
      (''participants'', json_map (map (\<lambda>(k, v). (k, JString v)) (et_Participants t))),
      (''packages'', json_map (map (\<lambda>(k, v). (k, JString v)) (et_Packages t))),
      (''sources'', json_strings (et_Sources t)), (''purposes'', json_strings (et_Purposes t)),
      (''classifications'', json_strings (et_Classifications t)), (''budget'', json_budget (et_Budget t)),
      (''protected_paths'', json_strings (et_ProtectedPaths t)), (''allowed_remedies'', json_strings (et_AllowedRemedies t))]
     @ omit_empty ''delivery_sha256'' (et_DeliverySHA256 t) @ omit_empty ''remediation_sha256'' (et_RemediationSHA256 t)
     @ (if et_ObservationSeconds t = 0 then [] else [(''observation_seconds'', JInt (et_ObservationSeconds t))])
     @ [(''qualification'', JBool (et_Qualification t))])"

definition target_Digest :: "execution_target \<Rightarrow> string" where
  "target_Digest t = Digest (print_json (json_target t))"

section \<open>Runs, steps and results\<close>

record execution_usage =
  eu_Attempts :: int
  eu_ModelCalls :: int
  eu_TokensCharged :: int
  eu_TokensActual :: int
  eu_SourceQueries :: int
  eu_SourceRows :: int

definition zero_usage :: execution_usage where
  "zero_usage = \<lparr>eu_Attempts = 0, eu_ModelCalls = 0, eu_TokensCharged = 0, eu_TokensActual = 0, eu_SourceQueries = 0, eu_SourceRows = 0\<rparr>"

record execution_run =
  er_Schema :: string
  er_ID :: string
  er_ProjectID :: string
  er_ProductID :: string
  er_Kind :: string
  er_RepositoryRevision :: string
  er_Intent :: product_binding
  er_Bindings :: "product_binding list"
  er_Owner :: string
  er_OwnerCredential :: string
  er_Target :: execution_target
  er_Packages :: "(string \<times> agent_package) list"
  er_Status :: string
  er_Stage :: string
  er_Version :: int
  er_StepNumber :: int
  er_Usage :: execution_usage
  er_Blockers :: "string list"
  er_CreatedAt :: int
  er_Deadline :: int
  er_UpdatedAt :: int
  er_IdempotencyKey :: string
  er_RequestSHA256 :: string

definition run_Package :: "execution_run \<Rightarrow> agent_package" where
  "run_Package r = map_get zero_package (er_Packages r) (ExecutionRole (er_Stage r))"

definition run_Actor :: "execution_run \<Rightarrow> string" where
  "run_Actor r = map_get [] (et_Participants (er_Target r)) (ExecutionRole (er_Stage r))"

record execution_plan_step =
  plan_Description :: string
  plan_Criteria :: "string list"

record model_evidence =
  me_Provider :: string
  me_Model :: string
  me_ModelSHA256 :: string
  me_Prompt :: artifact
  me_Response :: artifact
  me_Manifest :: artifact
  me_InputTokens :: int
  me_OutputTokens :: int
  me_DurationMillis :: int
  me_TrialKind :: string

record execution_check =
  xc_Name :: string
  xc_ArgvSHA256 :: string
  xc_ExitCode :: int
  xc_TimedOut :: bool
  xc_Output :: artifact

record execution_effect =
  ef_Kind :: string
  ef_Key :: string
  ef_ExternalID :: string
  ef_URL :: string
  ef_BeforeSHA256 :: string
  ef_AfterSHA256 :: string
  ef_ObservedSHA256 :: string
  ef_Status :: string
  ef_Evidence :: artifact

record execution_hypothesis =
  hy_ID :: string
  hy_Explanation :: string
  hy_Supports :: "string list"
  hy_Contradicts :: "string list"
  hy_Status :: string
  hy_ProposedRemedy :: string

record execution_result =
  rs_Stage :: string
  rs_Outcome :: string
  rs_Summary :: string
  rs_Criteria :: "string list"
  rs_Plan :: "execution_plan_step list"
  rs_Patch :: artifact
  rs_BaseRevision :: string
  rs_PacketSHA256 :: string
  rs_CandidateSHA :: string
  rs_SandboxImage :: string
  rs_Checks :: "execution_check list"
  rs_Effects :: "execution_effect list"
  rs_Hypotheses :: "execution_hypothesis list"
  rs_ObservationIDs :: "string list"
  rs_EvaluationIDs :: "string list"
  rs_Model :: "model_evidence option"
  rs_Artifacts :: "artifact list"

record execution_step =
  es_ID :: string
  es_RunID :: string
  es_Number :: int
  es_Stage :: string
  es_Actor :: string
  es_Role :: string
  es_PackageSHA :: string
  es_Fence :: int
  es_LeaseSHA :: string
  es_LeaseUntil :: int
  es_StartedAt :: int
  es_CompletedAt :: "int option"
  es_ContextSHA :: string
  es_Result :: "execution_result option"
  es_Evidence :: artifact

record execution_claim =
  cl_Run :: execution_run
  cl_Step :: execution_step
  cl_Token :: string

record execution_lease =
  el_ProjectID :: string
  el_RunID :: string
  el_StepID :: string
  el_Fence :: int
  el_Token :: string

record execution_event =
  ee_ID :: string
  ee_RunID :: string
  ee_StepID :: string
  ee_Kind :: string
  ee_Actor :: string
  ee_Version :: int
  ee_Reason :: string
  ee_Evidence :: artifact
  ee_CreatedAt :: int

record execution_view =
  view_Run :: execution_run
  view_Steps :: "execution_step list"
  view_Events :: "execution_event list"

section \<open>The registry\<close>

record registry =
  reg_Schema :: string
  reg_Packages :: "agent_package list"
  reg_Targets :: "execution_target list"

definition registry_Package :: "registry \<Rightarrow> string \<Rightarrow> agent_package option" where
  "registry_Package r pid = find (\<lambda>p. ap_ID p = pid) (reg_Packages r)"

fun validate_packages :: "string list \<Rightarrow> agent_package list \<Rightarrow> go_error option" where
  "validate_packages seen [] = None"
| "validate_packages seen (p # ps) =
     (if ap_ID p \<in> set seen then Some (ErrMessage ''duplicate package ID; register versions with distinct IDs'')
      else case package_Validate p of Some e \<Rightarrow> Some e | None \<Rightarrow> validate_packages (ap_ID p # seen) ps)"

definition protected_path_ok :: "string \<Rightarrow> bool" where
  "protected_path_ok p \<longleftrightarrow> \<not> (p = ''.'' \<or> prefix ''/'' p \<or> path_Clean p \<noteq> p \<or> p = ''..'' \<or> prefix ''../'' p
     \<or> list_ex (\<lambda>c. c = CHR 0x5C \<or> c = CHR 0x00 \<or> c = CHR 0x0A) p)"

fun validate_roles :: "registry \<Rightarrow> execution_target \<Rightarrow> string list \<Rightarrow> string list \<Rightarrow> go_error option" where
  "validate_roles r t actors [] = None"
| "validate_roles r t actors (role # roles) =
     (let actor = map_get [] (et_Participants t) role; pid = map_get [] (et_Packages t) role
      in case registry_Package r pid of
           None \<Rightarrow> Some (ErrMessage ''each role requires a distinct assigned workload and matching package'')
         | Some p \<Rightarrow>
             if \<not> ValidProductKey actor \<or> actor \<in> set actors \<or> ap_Role p \<noteq> role
               then Some (ErrMessage ''each role requires a distinct assigned workload and matching package'')
             else if ap_Model p \<noteq> [] \<and> MaxTokenCharge p > eb_MaxTokens (et_Budget t)
               then Some (ErrMessage ''target token budget cannot accommodate its model package'')
             else validate_roles r t (actor # actors) roles)"

definition validate_target :: "registry \<Rightarrow> string list \<Rightarrow> execution_target \<Rightarrow> go_error option" where
  "validate_target r seen t =
     (if \<not> ValidProductKey (et_ID t) \<or> \<not> ValidProductKey (et_ProjectID t) \<or> \<not> ValidProductKey (et_ProductID t)
         \<or> \<not> ValidProductKey (et_RepositoryID t) \<or> et_ProjectID t @ '':'' @ et_ID t \<in> set seen
         \<or> (et_Environment t \<noteq> ''disposable'' \<and> et_Environment t \<noteq> ''staging'') \<or> et_Classifications t = []
         \<or> length (et_Sources t) > 20 \<or> length (et_Purposes t) > 10 \<or> et_ProtectedPaths t = [] \<or> length (et_AllowedRemedies t) > 10
      then Some (ErrMessage ''invalid scoped execution target'')
      else if \<not> budget_Validate (et_Budget t)
        then Some (ErrMessage ''execution requires bounded attempts, tokens, queries, duration and concurrency'')
      else if et_Qualification t \<and> et_Environment t \<noteq> ''disposable'' \<or> et_ObservationSeconds t < 0 \<or> et_ObservationSeconds t > 60
        then Some (ErrMessage ''qualification requires disposable targets and observation windows are bounded'')
      else if list_ex (\<lambda>d. d \<noteq> [] \<and> \<not> digestPattern d) [et_DeliverySHA256 t, et_RemediationSHA256 t]
        then Some (ErrMessage ''effect configuration requires an exact SHA256'')
      else if \<not> list_all (\<lambda>c. c = ''public'' \<or> c = ''internal'') (et_Classifications t)
        then Some (ErrMessage ''local execution target supports public and internal classified context'')
      else if \<not> list_all protected_path_ok (et_ProtectedPaths t)
        then Some (ErrMessage ''protected paths must be clean repository-relative paths'')
      else case validate_roles r t [] sdlc_roles of
        Some e \<Rightarrow> Some e
      | None \<Rightarrow>
          if length (et_Participants t) \<noteq> 5 \<or> length (et_Packages t) \<noteq> 5 then Some (ErrMessage ''unknown target participant role'')
          else if \<not> list_all ValidProductKey (et_Sources t @ et_Purposes t) then Some (ErrMessage ''invalid source or purpose'')
          else None)"

fun validate_targets :: "registry \<Rightarrow> string list \<Rightarrow> execution_target list \<Rightarrow> go_error option" where
  "validate_targets r seen [] = None"
| "validate_targets r seen (t # ts) =
     (case validate_target r seen t of
        Some e \<Rightarrow> Some e | None \<Rightarrow> validate_targets r ((et_ProjectID t @ '':'' @ et_ID t) # seen) ts)"

definition registry_Validate :: "registry \<Rightarrow> go_error option" where
  "registry_Validate r =
     (if reg_Schema r \<noteq> ''hybrid-ai/sdlc-registry/v1'' \<or> length (reg_Packages r) > 100 \<or> length (reg_Targets r) > 100
      then Some (ErrMessage ''invalid execution registry schema or size'')
      else case validate_packages [] (reg_Packages r) of
        Some e \<Rightarrow> Some e | None \<Rightarrow> validate_targets r [] (reg_Targets r))"

definition registry_Target ::
  "registry \<Rightarrow> string \<Rightarrow> string \<Rightarrow> (execution_target \<times> (string \<times> agent_package) list) result" where
  "registry_Target r project tid =
     (case find (\<lambda>t. et_ID t = tid \<and> et_ProjectID t = project) (reg_Targets r) of
        None \<Rightarrow> Err ErrForbidden
      | Some t \<Rightarrow>
          if list_all (\<lambda>(role, pid). registry_Package r pid \<noteq> None) (et_Packages t)
          then Ok (t, map (\<lambda>(role, pid). (role, the (registry_Package r pid))) (et_Packages t))
          else Err ErrQualityBlocked)"

text \<open>\<open>Current\<close>: the operator's configuration is still the one the run was created with.\<close>

definition registry_Current :: "registry \<Rightarrow> execution_run \<Rightarrow> go_error option" where
  "registry_Current r run =
     (case registry_Target r (er_ProjectID run) (et_ID (er_Target run)) of
        Inl e \<Rightarrow> Some e
      | Inr (t, packages) \<Rightarrow>
          if target_Digest t \<noteq> target_Digest (er_Target run) then Some ErrVersionConflict
          else if \<not> list_all (\<lambda>(role, p). package_Digest p = package_Digest (map_get zero_package (er_Packages run) role)) packages
            then Some ErrVersionConflict
          else None)"

definition HasTool :: "execution_run \<Rightarrow> string \<Rightarrow> bool" where
  "HasTool run tool \<longleftrightarrow> tool \<in> set (ap_Tools (run_Package run))"

end
