(* ===== verification/ProductStore.thy ===== *)
theory ProductStore
  imports Observations
begin

text \<open>
  Versioned product knowledge: the records of \<open>src/internal/domain/product.go\<close> and their transactional store
  (\<open>src/internal/postgres/product.go\<close>, the observation half of \<open>src/internal/postgres/source.go\<close> and the tables of
  \<open>src/migrations/000019_product_knowledge.sql\<close>). A record is an immutable version; accepting one takes a live human
  validation of its exact digest and a human decision, and only then does the head of its key move to it. The tables
  are the part of the database the execution store shares, so the operations are stated for every extension of it.
\<close>

section \<open>Records\<close>

record product_source_ref =
  src_SourceID :: string
  src_Revision :: string
  src_SchemaVersion :: string
  src_ReceiptID :: string
  src_Start :: "go_time option"
  src_End :: "go_time option"
  src_Watermark :: "go_time option"
  src_CollectedAt :: "go_time option"
  src_Snapshot :: string
  src_Offsets :: "(string \<times> int) list"
  src_Complete :: bool
  src_Purpose :: string
  src_Fields :: "string list"
  src_Filters :: "(string \<times> string) list"
  src_RowLimit :: int

record product_record =
  prod_ID :: string
  prod_Project :: string
  prod_Product :: string
  prod_Key :: string
  prod_Kind :: string
  prod_Version :: int
  prod_Title :: string
  prod_Content :: string
  prod_Classification :: string
  prod_Origin :: string
  prod_Status :: string
  prod_Owner :: string
  prod_Actor :: string
  prod_Source :: product_source_ref
  prod_SHA256 :: string
  prod_Evidence :: artifact
  prod_CreatedAt :: go_time
  prod_ExpiresAt :: "go_time option"

definition omit_time :: "string \<Rightarrow> go_time option \<Rightarrow> (string \<times> json) list" where
  "omit_time k t = (case t of None \<Rightarrow> [] | Some v \<Rightarrow> [(k, json_time v)])"

definition json_source_ref :: "product_source_ref \<Rightarrow> json" where
  "json_source_ref s = JObject (
     [(''source_id'', JString (src_SourceID s)), (''revision'', JString (src_Revision s)),
      (''schema_version'', JString (src_SchemaVersion s))]
     @ omit_empty ''receipt_id'' (src_ReceiptID s) @ omit_time ''start'' (src_Start s) @ omit_time ''end'' (src_End s)
     @ omit_time ''watermark'' (src_Watermark s) @ omit_time ''collected_at'' (src_CollectedAt s)
     @ omit_empty ''snapshot'' (src_Snapshot s)
     @ (if src_Offsets s = [] then [] else [(''offsets'', json_map (map (\<lambda>(k, v). (k, JInt v)) (src_Offsets s)))])
     @ [(''complete'', JBool (src_Complete s))] @ omit_empty ''purpose'' (src_Purpose s)
     @ (if src_Fields s = [] then [] else [(''fields'', json_strings (src_Fields s))])
     @ (if src_Filters s = [] then [] else [(''filters'', json_map (map (\<lambda>(k, v). (k, JString v)) (src_Filters s)))])
     @ (if src_RowLimit s = 0 then [] else [(''row_limit'', JInt (src_RowLimit s))]))"

definition json_artifact :: "artifact \<Rightarrow> json" where
  "json_artifact a = JObject [(''sha256'', JString (art_SHA256 a)), (''uri'', JString (art_URI a)),
     (''media_type'', JString (art_MediaType a)), (''size_bytes'', JInt (art_SizeBytes a))]"

definition json_product :: "product_record \<Rightarrow> json" where
  "json_product r = JObject (
     [(''id'', JString (prod_ID r)), (''project_id'', JString (prod_Project r)), (''product_id'', JString (prod_Product r)),
      (''key'', JString (prod_Key r)), (''kind'', JString (prod_Kind r)), (''version'', JInt (prod_Version r)),
      (''title'', JString (prod_Title r)), (''content'', JString (prod_Content r)),
      (''classification'', JString (prod_Classification r)), (''origin'', JString (prod_Origin r)),
      (''status'', JString (prod_Status r)), (''owner'', JString (prod_Owner r)), (''actor'', JString (prod_Actor r)),
      (''source'', json_source_ref (prod_Source r)), (''sha256'', JString (prod_SHA256 r)),
      (''evidence'', json_artifact (prod_Evidence r)), (''created_at'', json_time (prod_CreatedAt r))]
     @ omit_time ''expires_at'' (prod_ExpiresAt r))"

text \<open>
  The digest covers what a version says and not its status or evidence. A time that does not marshal makes the whole
  encoding fail, and the ignored error leaves no bytes.
\<close>

definition opt_marshals :: "go_time option \<Rightarrow> bool" where
  "opt_marshals t = (case t of None \<Rightarrow> True | Some v \<Rightarrow> time_marshals v)"

definition product_marshals :: "('a product_record_scheme) \<Rightarrow> bool" where
  "product_marshals r \<longleftrightarrow> opt_marshals (prod_ExpiresAt r) \<and> opt_marshals (src_Start (prod_Source r))
     \<and> opt_marshals (src_End (prod_Source r)) \<and> opt_marshals (src_Watermark (prod_Source r))
     \<and> opt_marshals (src_CollectedAt (prod_Source r))"

definition product_Digest :: "('a product_record_scheme) \<Rightarrow> string" where
  "product_Digest r = Digest (if product_marshals r then print_json (JArray
     [JString (prod_Project r), JString (prod_Product r), JString (prod_Key r), JString (prod_Kind r), JInt (prod_Version r),
      JString (prod_Title r), JString (prod_Content r), JString (prod_Classification r), JString (prod_Origin r),
      JString (prod_Owner r), JString (prod_Actor r), json_source_ref (prod_Source r),
      (case prod_ExpiresAt r of None \<Rightarrow> JNull | Some t \<Rightarrow> json_time t)]) else [])"

definition Eligible :: "int \<Rightarrow> product_record \<Rightarrow> bool" where
  "Eligible now r \<longleftrightarrow> (prod_Status r = ''accepted'' \<or> prod_Status r = ''observed'')
     \<and> (case prod_ExpiresAt r of None \<Rightarrow> True | Some t \<Rightarrow> now < gt_Nanos t)"

definition ValidProductRelation :: "string \<Rightarrow> bool" where
  "ValidProductRelation kind \<longleftrightarrow> kind \<in> set [''contains'', ''specifies'', ''implements'', ''tests'', ''deployed_as'', ''observed_in'',
     ''affects'', ''supports'', ''contradicts'', ''supersedes'']"

record product_decision =
  pd_ProjectID :: string
  pd_RecordID :: string
  pd_ExpectedSHA256 :: string
  pd_Decision :: string
  pd_Reason :: string
  pd_ValidationID :: string
  pd_IdempotencyKey :: string
  pd_Actor :: string

record product_validation =
  pv_ID :: string
  pv_ProjectID :: string
  pv_RecordID :: string
  pv_SHA256 :: string
  pv_Actor :: string
  pv_Method :: string
  pv_Evidence :: artifact
  pv_ValidUntil :: int

record product_relation =
  rel_ID :: string
  rel_ProjectID :: string
  rel_ProductID :: string
  rel_FromID :: string
  rel_ToID :: string
  rel_Kind :: string
  rel_Evidence :: string
  rel_Actor :: string

text \<open>The receipt of a source query.\<close>

record source_receipt =
  rc_ID :: string
  rc_ProjectID :: string
  rc_ProductID :: string
  rc_SourceID :: string
  rc_Actor :: string
  rc_Role :: string
  rc_Owner :: string
  rc_Purpose :: string
  rc_QuerySHA256 :: string
  rc_DescriptorSHA256 :: string
  rc_IdempotencyKey :: string
  rc_Status :: string
  rc_Reason :: string
  rc_CollectedAt :: int
  rc_Source :: product_source_ref
  rc_Evidence :: artifact
  rc_RecordID :: string

section \<open>Tables\<close>

record principal_row =
  pr_ID :: string
  pr_Active :: bool
  pr_Kind :: string

record credential_row =
  cred_ID :: string
  cred_Principal :: string
  cred_RevokedAt :: "int option"
  cred_ExpiresAt :: "int option"

record role_row =
  rb_Principal :: string
  rb_Project :: string
  rb_Role :: string
  rb_ValidFrom :: int
  rb_ValidUntil :: "int option"

record product_code =
  code_Schema :: string
  code_RepositoryID :: string
  code_Revision :: string
  code_File :: string
  code_Symbols :: "string list"

text \<open>A stored record, with its content decoded as a code binding when it is one.\<close>

record product_row = product_record +
  prod_Code :: "product_code option"

record head_row =
  head_Project :: string
  head_Product :: string
  head_Key :: string
  head_Record :: string

record decision_row =
  dcs_Record :: string
  dcs_Decision :: string
  dcs_Actor :: string
  dcs_Validation :: "string option"
  dcs_Reason :: string
  dcs_Key :: string
  dcs_SHA256 :: string
  dcs_DecidedAt :: int

record validation_row =
  val_ID :: string
  val_Project :: string
  val_Record :: string
  val_SHA256 :: string
  val_Actor :: string
  val_Method :: string
  val_Evidence :: string
  val_ValidUntil :: int

record product_db =
  x_principals :: "principal_row list"
  x_credentials :: "credential_row list"
  x_roles :: "role_row list"
  x_products :: "product_row list"
  x_heads :: "head_row list"
  x_decisions :: "decision_row list"
  x_validations :: "validation_row list"
  x_relations :: "product_relation list"
  x_blobs :: "artifact list"
  x_receipts :: "source_receipt list"
  x_evaluations :: "observation_evaluation list"

text \<open>The database keeps microseconds; the value sent to it is truncated.\<close>

definition micros :: "int \<Rightarrow> int" where
  "micros t = t div 1000 * 1000"

definition role_live :: "int \<Rightarrow> role_row \<Rightarrow> bool" where
  "role_live now b \<longleftrightarrow> rb_ValidFrom b \<le> now \<and> (case rb_ValidUntil b of None \<Rightarrow> True | Some u \<Rightarrow> now < u)"

definition credential_live :: "int \<Rightarrow> credential_row \<Rightarrow> bool" where
  "credential_live now c \<longleftrightarrow> cred_RevokedAt c = None \<and> (case cred_ExpiresAt c of None \<Rightarrow> True | Some u \<Rightarrow> now < u)"

definition saveProductArtifact :: "artifact \<Rightarrow> artifact list \<Rightarrow> artifact list" where
  "saveProductArtifact a rows = (if find_row art_SHA256 (art_SHA256 a) rows = None then rows @ [a] else rows)"

text \<open>\<open>product_record_eligible\<close> of the migration, and the columns a record is read with.\<close>

definition decision_counts :: "('a product_db_scheme) \<Rightarrow> product_row \<Rightarrow> decision_row \<Rightarrow> bool" where
  "decision_counts db r d \<longleftrightarrow> dcs_Record d = prod_ID r \<and> dcs_Decision d = ''accept''
     \<and> list_ex (\<lambda>v. dcs_Validation d = Some (val_ID v) \<and> val_Record v = prod_ID r \<and> val_SHA256 v = prod_SHA256 r
          \<and> dcs_DecidedAt d < val_ValidUntil v) (x_validations db)"

definition product_record_eligible :: "int \<Rightarrow> ('a product_db_scheme) \<Rightarrow> product_row \<Rightarrow> bool" where
  "product_record_eligible now db r \<longleftrightarrow>
     list_ex (\<lambda>h. head_Record h = prod_ID r \<and> head_Project h = prod_Project r \<and> head_Product h = prod_Product r
        \<and> head_Key h = prod_Key r) (x_heads db)
     \<and> (case prod_ExpiresAt r of None \<Rightarrow> True | Some u \<Rightarrow> now < micros (gt_Nanos u))
     \<and> (prod_Origin r = ''source_adapter'' \<and> prod_Kind r = ''observation'' \<or> list_ex (decision_counts db r) (x_decisions db))"

definition product_status :: "('a product_db_scheme) \<Rightarrow> product_row \<Rightarrow> string" where
  "product_status db r =
     (if prod_Origin r = ''source_adapter'' then ''observed''
      else case find (\<lambda>d. dcs_Record d = prod_ID r) (x_decisions db) of
        None \<Rightarrow> ''pending''
      | Some d \<Rightarrow> if dcs_Decision d = ''accept'' then ''accepted'' else ''rejected'')"

definition scanProduct :: "('a product_db_scheme) \<Rightarrow> product_row \<Rightarrow> product_record" where
  "scanProduct db r = (product_record.truncate r)\<lparr>prod_Status := product_status db r\<rparr>"

section \<open>Reading and proposing\<close>

definition record_row :: "('a product_db_scheme) \<Rightarrow> string \<Rightarrow> string \<Rightarrow> product_row option" where
  "record_row db project rid = find (\<lambda>r. prod_Project r = project \<and> prod_ID r = rid) (x_products db)"

definition repo_GetProductRecord :: "call_env \<Rightarrow> ('a product_db_scheme) \<Rightarrow> string \<Rightarrow> string \<Rightarrow> bool \<Rightarrow> product_record result" where
  "repo_GetProductRecord env db project rid current =
     (case record_row db project rid of
        None \<Rightarrow> Err ErrQualityBlocked
      | Some r \<Rightarrow> if current \<and> \<not> product_record_eligible (env_db_now env) db r then Err ErrQualityBlocked else Ok (scanProduct db r))"

definition requireProductActor :: "call_env \<Rightarrow> ('a product_db_scheme) \<Rightarrow> string \<Rightarrow> string \<Rightarrow> string list \<Rightarrow> bool" where
  "requireProductActor env db actor project roles =
     (case PrincipalFromContext (env_ctx env) of
        None \<Rightarrow> False
      | Some p \<Rightarrow> p_ID p = actor
          \<and> list_ex (\<lambda>q. pr_ID q = actor \<and> pr_Active q
               \<and> list_ex (\<lambda>b. rb_Principal b = pr_ID q \<and> rb_Project b \<in> {''*'', project} \<and> rb_Role b \<in> set roles
                    \<and> role_live (env_db_now env) b) (x_roles db)) (x_principals db))"

definition requireDatabaseHumanRole :: "call_env \<Rightarrow> ('a product_db_scheme) \<Rightarrow> string \<Rightarrow> string \<Rightarrow> string \<Rightarrow> bool" where
  "requireDatabaseHumanRole env db actor project role =
     list_ex (\<lambda>q. pr_ID q = actor \<and> pr_Active q \<and> pr_Kind q = ''human''
        \<and> list_ex (\<lambda>b. rb_Principal b = pr_ID q \<and> rb_Project b \<in> {''*'', project} \<and> rb_Role b = role
             \<and> role_live (env_db_now env) b) (x_roles db)) (x_principals db)"

definition product_kinds :: "string list" where
  "product_kinds = [''product'', ''brs'', ''feature'', ''code'', ''test'', ''release'', ''incident'', ''hypothesis'', ''procedure'',
     ''observation'', ''intent'']"

definition proposer_roles :: "string list" where
  "proposer_roles = [''development'', ''qa'', ''product_owner'', ''operations'', ''incident_diagnosis'']"

definition same_key :: "('a product_record_scheme) \<Rightarrow> ('b product_record_scheme) \<Rightarrow> bool" where
  "same_key a b \<longleftrightarrow> prod_Project a = prod_Project b \<and> prod_Product a = prod_Product b \<and> prod_Key a = prod_Key b"

definition max_version :: "product_row list \<Rightarrow> int" where
  "max_version rows = foldr max (map prod_Version rows) 0"

definition latest_version :: "('a product_db_scheme) \<Rightarrow> ('b product_record_scheme) \<Rightarrow> int" where
  "latest_version db r = max_version (filter (same_key r) (x_products db))"

text \<open>The row inserted for a record; a key or check constraint of the table refuses it.\<close>

definition product_insert ::
  "(string \<Rightarrow> product_code option) \<Rightarrow> ('a product_db_scheme) \<Rightarrow> product_record \<Rightarrow> 'a product_db_scheme result" where
  "product_insert decode_code db r =
     (if \<not> product_marshals r \<or> \<not> time_marshals (prod_CreatedAt r)
        then Err (ErrMessage ''json: error calling MarshalJSON for type time.Time'')
      else if list_ex (\<lambda>x. prod_ID x = prod_ID r \<or> same_key x r \<and> prod_Version x = prod_Version r) (x_products db)
         \<or> prod_Version r \<le> 0 \<or> prod_Kind r \<notin> set product_kinds \<or> prod_Origin r \<notin> set [''proposal'', ''source_adapter'']
         \<or> \<not> digestPattern (prod_SHA256 r)
      then Err ErrDatabase
      else Ok (db\<lparr>x_blobs := saveProductArtifact (prod_Evidence r) (x_blobs db),
                  x_products := x_products db @ [product_record.extend r \<lparr>prod_Code = decode_code (prod_Content r)\<rparr>]\<rparr>))"

definition repo_PutProductRecord ::
  "(string \<Rightarrow> product_code option) \<Rightarrow> call_env \<Rightarrow> ('a product_db_scheme) \<Rightarrow> product_record \<Rightarrow> int
     \<Rightarrow> product_record result \<times> 'a product_db_scheme" where
  "repo_PutProductRecord decode_code env db r expected =
     (if \<not> requireProductActor env db (prod_Actor r) (prod_Project r) proposer_roles then (Err ErrForbidden, db)
      else if prod_SHA256 r \<noteq> product_Digest r \<or> prod_Version r \<noteq> expected + 1 \<or> art_SHA256 (prod_Evidence r) = []
        then (Err ErrValidationRequired, db)
      else if prod_Origin r \<noteq> ''proposal'' \<or> prod_Status r \<noteq> ''pending'' then (Err ErrValidationRequired, db)
      else if latest_version db r \<noteq> expected then (Err ErrVersionConflict, db)
      else case product_insert decode_code db r of
        Inl e \<Rightarrow> (Err e, db) | Inr db' \<Rightarrow> (Ok r, db'))"

section \<open>Validation, decision and heads\<close>

definition head_key :: "head_row \<Rightarrow> string \<times> string \<times> string" where
  "head_key h = (head_Project h, head_Product h, head_Key h)"

definition advanceProductHead :: "('a product_db_scheme) \<Rightarrow> ('b product_record_scheme) \<Rightarrow> 'a product_db_scheme" where
  "advanceProductHead db r =
     (let h = \<lparr>head_Project = prod_Project r, head_Product = prod_Product r, head_Key = prod_Key r, head_Record = prod_ID r\<rparr>
      in db\<lparr>x_heads := (if find_row head_key (head_key h) (x_heads db) = None then x_heads db @ [h]
                        else put_row head_key h (x_heads db))\<rparr>)"

definition repo_ValidateProductRecord ::
  "call_env \<Rightarrow> ('a product_db_scheme) \<Rightarrow> product_validation \<Rightarrow> unit result \<times> 'a product_db_scheme" where
  "repo_ValidateProductRecord env db v =
     (if \<not> requireDatabaseHumanRole env db (pv_Actor v) (pv_ProjectID v) ''qa''
        then (Err (ErrMessage ''forbidden: active human role required''), db)
      else case PrincipalFromContext (env_ctx env) of
        None \<Rightarrow> (Err ErrForbidden, db)
      | Some p \<Rightarrow>
          if p_ID p \<noteq> pv_Actor v then (Err ErrForbidden, db)
          else (case record_row db (pv_ProjectID v) (pv_RecordID v) of
              None \<Rightarrow> (Err ErrNoRows, db)
            | Some r \<Rightarrow>
                if product_status db r \<noteq> ''pending'' \<or> prod_SHA256 r \<noteq> pv_SHA256 v \<or> pv_Method v \<noteq> ''human_attestation''
                   \<or> \<not> env_clock env 0 < pv_ValidUntil v \<or> pv_ValidUntil v > env_clock env 1 + seconds (30 * 24 * 3600)
                then (Err ErrValidationRequired, db)
                else if find_row val_ID (pv_ID v) (x_validations db) \<noteq> None \<or> pv_ID v = [] then (Err ErrDatabase, db)
                else (Ok (), db\<lparr>x_blobs := saveProductArtifact (pv_Evidence v) (x_blobs db),
                       x_validations := x_validations db @ [\<lparr>val_ID = pv_ID v, val_Project = pv_ProjectID v, val_Record = pv_RecordID v,
                         val_SHA256 = pv_SHA256 v, val_Actor = pv_Actor v, val_Method = pv_Method v,
                         val_Evidence = art_SHA256 (pv_Evidence v), val_ValidUntil = micros (pv_ValidUntil v)\<rparr>]\<rparr>)))"

definition decision_bytes :: "product_decision \<Rightarrow> string" where
  "decision_bytes d = print_json (JArray (map JString
     [pd_ProjectID d, pd_RecordID d, pd_ExpectedSHA256 d, pd_Decision d, pd_Reason d, pd_ValidationID d, pd_IdempotencyKey d, pd_Actor d]))"

definition validated_for :: "call_env \<Rightarrow> ('a product_db_scheme) \<Rightarrow> product_decision \<Rightarrow> product_row \<Rightarrow> bool" where
  "validated_for env db d r =
     list_ex (\<lambda>v. val_ID v = pd_ValidationID d \<and> val_Project v = pd_ProjectID d \<and> val_Record v = prod_ID r
        \<and> val_SHA256 v = prod_SHA256 r \<and> env_db_now env < val_ValidUntil v) (x_validations db)"

text \<open>The version the head of a record's key points to, 0 when it has none.\<close>

definition head_version :: "('a product_db_scheme) \<Rightarrow> ('b product_record_scheme) \<Rightarrow> int" where
  "head_version db r =
     max_version (filter (\<lambda>x. list_ex (\<lambda>h. head_Record h = prod_ID x
        \<and> head_key h = (prod_Project r, prod_Product r, prod_Key r)) (x_heads db)) (x_products db))"

definition decided_row :: "call_env \<Rightarrow> product_decision \<Rightarrow> product_row \<Rightarrow> decision_row" where
  "decided_row env d r =
     \<lparr>dcs_Record = prod_ID r, dcs_Decision = pd_Decision d, dcs_Actor = pd_Actor d,
      dcs_Validation = (if pd_ValidationID d = [] then None else Some (pd_ValidationID d)), dcs_Reason = pd_Reason d,
      dcs_Key = pd_IdempotencyKey d, dcs_SHA256 = Digest (decision_bytes d), dcs_DecidedAt = env_db_now env\<rparr>"

definition repo_DecideProductRecord ::
  "call_env \<Rightarrow> ('a product_db_scheme) \<Rightarrow> product_decision \<Rightarrow> product_record result \<times> 'a product_db_scheme" where
  "repo_DecideProductRecord env db d =
     (if \<not> requireDatabaseHumanRole env db (pd_Actor d) (pd_ProjectID d) ''product_owner''
        then (Err (ErrMessage ''forbidden: active human role required''), db)
      else case PrincipalFromContext (env_ctx env) of
        None \<Rightarrow> (Err ErrForbidden, db)
      | Some p \<Rightarrow>
          if p_ID p \<noteq> pd_Actor d then (Err ErrForbidden, db)
          else (case record_row db (pd_ProjectID d) (pd_RecordID d) of
              None \<Rightarrow> (Err ErrNoRows, db)
            | Some r \<Rightarrow>
                (case find_row dcs_Record (prod_ID r) (x_decisions db) of
                   Some old \<Rightarrow> if dcs_SHA256 old \<noteq> Digest (decision_bytes d) then (Err ErrVersionConflict, db)
                                else (Ok (scanProduct db r), db)
                 | None \<Rightarrow>
                     if product_status db r \<noteq> ''pending'' \<or> prod_SHA256 r \<noteq> pd_ExpectedSHA256 d \<or> pd_IdempotencyKey d = []
                        \<or> pd_Reason d = [] \<or> (pd_Decision d \<noteq> ''accept'' \<and> pd_Decision d \<noteq> ''reject'')
                       then (Err ErrValidationRequired, db)
                     else if pd_Decision d = ''accept'' \<and> \<not> validated_for env db d r then (Err ErrValidationRequired, db)
                     else if pd_Decision d = ''accept'' \<and> head_version db r \<ge> prod_Version r then (Err ErrVersionConflict, db)
                     else if pd_ValidationID d \<noteq> [] \<and> find_row val_ID (pd_ValidationID d) (x_validations db) = None
                       then (Err ErrDatabase, db)
                     else
                       let db1 = db\<lparr>x_decisions := x_decisions db @ [decided_row env d r]\<rparr>
                       in if pd_Decision d = ''accept'' then (Ok (scanProduct db1 r), advanceProductHead db1 r)
                          else (Ok (scanProduct db1 r), db1))))"

text \<open>The part of \<open>RecordSourceObservation\<close> that stores an observation: its record becomes the head of a key of its own.\<close>

definition insert_observation ::
  "('a product_db_scheme) \<Rightarrow> product_record \<Rightarrow> 'a product_db_scheme result" where
  "insert_observation db r =
     (if prod_Origin r \<noteq> ''source_adapter'' \<or> prod_Kind r \<noteq> ''observation'' \<or> prod_Status r \<noteq> ''observed''
         \<or> prod_SHA256 r \<noteq> product_Digest r \<or> prod_Version r \<noteq> 1 then Err ErrValidationRequired
      else case product_insert (\<lambda>_. None) db r of
        Inl e \<Rightarrow> Err e | Inr db' \<Rightarrow> Ok (advanceProductHead db' r))"

definition relation_ok :: "call_env \<Rightarrow> ('a product_db_scheme) \<Rightarrow> product_relation \<Rightarrow> bool" where
  "relation_ok env db rel =
     (length (filter (\<lambda>r. prod_Project r = rel_ProjectID rel \<and> prod_Product r = rel_ProductID rel
        \<and> prod_ID r \<in> {rel_FromID rel, rel_ToID rel} \<and> product_record_eligible (env_db_now env) db r) (x_products db)) = 2)"

definition repo_PutProductRelation ::
  "call_env \<Rightarrow> ('a product_db_scheme) \<Rightarrow> product_relation \<Rightarrow> product_relation result \<times> 'a product_db_scheme" where
  "repo_PutProductRelation env db rel =
     (if \<not> requireProductActor env db (rel_Actor rel) (rel_ProjectID rel) proposer_roles then (Err ErrForbidden, db)
      else if \<not> ValidProductRelation (rel_Kind rel) \<or> rel_FromID rel = rel_ToID rel \<or> rel_Evidence rel = []
        then (Err ErrValidationRequired, db)
      else if \<not> relation_ok env db rel then (Err ErrQualityBlocked, db)
      else if list_ex (\<lambda>x. rel_ID x = rel_ID rel
               \<or> (rel_ProjectID x = rel_ProjectID rel \<and> rel_FromID x = rel_FromID rel \<and> rel_ToID x = rel_ToID rel \<and> rel_Kind x = rel_Kind rel))
             (x_relations db)
        then (Err ErrVersionConflict, db)
      else (Ok rel, db\<lparr>x_relations := x_relations db @ [rel]\<rparr>))"

definition repo_ProductRelations ::
  "call_env \<Rightarrow> ('a product_db_scheme) \<Rightarrow> string \<Rightarrow> string \<Rightarrow> string list \<Rightarrow> int \<Rightarrow> product_relation list result" where
  "repo_ProductRelations env db project product roots limit =
     (if length roots > 100 \<or> limit < 1 \<or> limit > 200 then Err ErrValidationRequired
      else let live = (\<lambda>rid. list_ex (\<lambda>r. prod_ID r = rid \<and> product_record_eligible (env_db_now env) db r) (x_products db))
           in Ok (take (nat limit) (sort_key rel_ID (filter (\<lambda>x. rel_ProjectID x = project \<and> rel_ProductID x = product
                \<and> (rel_FromID x \<in> set roots \<or> rel_ToID x \<in> set roots) \<and> live (rel_FromID x) \<and> live (rel_ToID x)) (x_relations db)))))"

end
