(* ===== verification/ExecStore.thy ===== *)
theory ExecStore
  imports ExecDomain ProductStore
begin

text \<open>
  The transactional store of executions (\<open>src/internal/postgres/execution.go\<close> and \<open>lockActivePackages\<close> of
  \<open>src/internal/postgres/execution_package.go\<close>). One call is one transaction: an operation takes the committed database
  and returns its answer with the next one. The row lock on the run and the advisory locks serialize the calls, so
  interleavings are sequences of operations. Rows hold the decoded \<open>record\<close> columns; the audit trail that
  every mutation appends to is not part of the state.
\<close>

section \<open>Tables\<close>

record code_head_row =
  ch_Project :: string
  ch_RepositoryID :: string
  ch_Name :: string
  ch_URL :: string
  ch_Revision :: string

record activation_row =
  act_Project :: string
  act_Target :: string
  act_Role :: string
  act_PackageSHA256 :: string

record step_row =
  row_Step :: execution_step
  row_Resource :: string
  row_Concurrency :: int
  row_LeaseUntil :: int

record result_row =
  res_StepID :: string
  res_Actor :: string
  res_SHA256 :: string
  res_Result :: execution_result

record artifact_row =
  xa_RunID :: string
  xa_StepID :: string
  xa_SHA256 :: string
  xa_Actor :: string

record reservation_row =
  rv_StepID :: string
  rv_Key :: string
  rv_SHA256 :: string

text \<open>The database: the tables shared with the product records and those of the executions.\<close>

record exec_db = product_db +
  x_runs :: "execution_run list"
  x_steps :: "step_row list"
  x_events :: "execution_event list"
  x_results :: "result_row list"
  x_artifacts :: "artifact_row list"
  x_reservations :: "reservation_row list"
  x_code_heads :: "code_head_row list"
  x_activations :: "activation_row list"

definition step_id :: "step_row \<Rightarrow> string" where
  "step_id r = es_ID (row_Step r)"

section \<open>Live identities\<close>

definition liveExecutionCredential ::
  "call_env \<Rightarrow> exec_db \<Rightarrow> string \<Rightarrow> string \<Rightarrow> string \<Rightarrow> string \<Rightarrow> bool \<Rightarrow> bool" where
  "liveExecutionCredential env db actor credential project role human =
     list_ex (\<lambda>p. pr_ID p = actor \<and> pr_Active p \<and> (pr_Kind p = ''human'') = human
        \<and> list_ex (\<lambda>c. cred_Principal c = pr_ID p \<and> cred_ID c = credential \<and> credential_live (env_db_now env) c) (x_credentials db)
        \<and> list_ex (\<lambda>b. rb_Principal b = pr_ID p \<and> rb_Project b \<in> {''*'', project} \<and> rb_Role b = role
             \<and> role_live (env_db_now env) b) (x_roles db))
       (x_principals db)"

definition executionActor :: "call_env \<Rightarrow> exec_db \<Rightarrow> string \<Rightarrow> string \<Rightarrow> string \<Rightarrow> bool \<Rightarrow> bool" where
  "executionActor env db actor project role human =
     (case PrincipalFromContext (env_ctx env) of
        None \<Rightarrow> False
      | Some p \<Rightarrow>
          if p_ID p \<noteq> actor \<or> p_CredentialID p = [] \<or> p_Human p \<noteq> human \<or> p_Delegation p \<noteq> None then False
          else liveExecutionCredential env db actor (p_CredentialID p) project role human)"

definition executionOwner :: "call_env \<Rightarrow> exec_db \<Rightarrow> execution_run \<Rightarrow> bool" where
  "executionOwner env db run =
     liveExecutionCredential env db (er_Owner run) (er_OwnerCredential run) (er_ProjectID run) ''operations'' True"

text \<open>The credential of the calling principal, which \<open>CreateExecution\<close> and a reconciliation bind to the run.\<close>

definition caller_credential :: "call_env \<Rightarrow> string" where
  "caller_credential env = (case PrincipalFromContext (env_ctx env) of None \<Rightarrow> [] | Some p \<Rightarrow> p_CredentialID p)"

section \<open>Requirements of a run\<close>

definition run_roles :: "execution_run \<Rightarrow> string list" where
  "run_roles run = (if er_Kind run = ''incident'' then [''sdlc_diagnosis'', ''sdlc_evaluator'', ''sdlc_remediation'']
                    else [''sdlc_builder'', ''sdlc_evaluator'', ''sdlc_delivery''])"

fun check_activations :: "exec_db \<Rightarrow> execution_run \<Rightarrow> string list \<Rightarrow> go_error option" where
  "check_activations db run [] = None"
| "check_activations db run (role # roles) =
     (case find (\<lambda>a. act_Project a = er_ProjectID run \<and> act_Target a = et_ID (er_Target run) \<and> act_Role a = role) (x_activations db) of
        None \<Rightarrow> Some ErrValidationRequired
      | Some a \<Rightarrow> if act_PackageSHA256 a \<noteq> package_Digest (map_get zero_package (er_Packages run) role) then Some ErrVersionConflict
                  else check_activations db run roles)"

definition lockActivePackages :: "exec_db \<Rightarrow> execution_run \<Rightarrow> go_error option" where
  "lockActivePackages db run =
     (if et_Qualification (er_Target run)
      then if et_Environment (er_Target run) \<noteq> ''disposable'' then Some ErrForbidden else None
      else check_activations db run (run_roles run))"

definition bound_record :: "call_env \<Rightarrow> exec_db \<Rightarrow> execution_run \<Rightarrow> product_binding \<Rightarrow> product_row option" where
  "bound_record env db run b =
     find (\<lambda>r. prod_Project r = er_ProjectID run \<and> prod_Product r = er_ProductID run \<and> prod_ID r = bind_RecordID b
         \<and> prod_SHA256 r = bind_SHA256 b \<and> prod_Kind r = bind_Kind b
         \<and> list_ex (\<lambda>h. head_Record h = prod_ID r) (x_heads db)
         \<and> product_record_eligible (env_db_now env) db r) (x_products db)"

definition check_code_binding :: "exec_db \<Rightarrow> execution_run \<Rightarrow> product_row \<Rightarrow> go_error option" where
  "check_code_binding db run r =
     (case prod_Code r of
        None \<Rightarrow> Some ErrValidationRequired
      | Some code \<Rightarrow>
          if code_Schema code \<noteq> ''hybrid-ai/product-code/v1'' \<or> code_RepositoryID code \<noteq> et_RepositoryID (er_Target run)
             \<or> er_Kind run = ''feature'' \<and> code_Revision code \<noteq> er_RepositoryRevision run
          then Some ErrValidationRequired
          else (case find (\<lambda>h. ch_Project h = er_ProjectID run \<and> code_RepositoryID code \<in> {ch_RepositoryID h, ch_Name h, ch_URL h})
                  (x_code_heads db) of
              None \<Rightarrow> Some ErrVersionConflict
            | Some h \<Rightarrow> if ch_Revision h \<noteq> code_Revision code then Some ErrVersionConflict else None))"

fun check_bindings :: "call_env \<Rightarrow> exec_db \<Rightarrow> execution_run \<Rightarrow> product_binding list \<Rightarrow> go_error option" where
  "check_bindings env db run [] = None"
| "check_bindings env db run (b # bs) =
     (case bound_record env db run b of
        None \<Rightarrow> Some ErrVersionConflict
      | Some r \<Rightarrow>
          (case (if bind_Kind b = ''code'' then check_code_binding db run r else None) of
             Some e \<Rightarrow> Some e
           | None \<Rightarrow> check_bindings env db run bs))"

definition lockExecutionRequirements :: "call_env \<Rightarrow> exec_db \<Rightarrow> execution_run \<Rightarrow> go_error option" where
  "lockExecutionRequirements env db run =
     (case lockActivePackages db run of
        Some e \<Rightarrow> Some e
      | None \<Rightarrow> check_bindings env db run (sort_key bind_RecordID (er_Intent run # er_Bindings run)))"

section \<open>Reading and writing runs and steps\<close>

definition lockExecution :: "exec_db \<Rightarrow> string \<Rightarrow> string \<Rightarrow> execution_run result" where
  "lockExecution db project rid =
     (case find (\<lambda>r. er_ProjectID r = project \<and> er_ID r = rid) (x_runs db) of None \<Rightarrow> Err ErrForbidden | Some r \<Rightarrow> Ok r)"

text \<open>
  \<open>saveExecution\<close>: the run with the next version and the event that records it. \<open>clock\<close> and \<open>idx\<close> are the
  positions of its clock reading and of its fresh identifier in the call.
\<close>

definition saved_run :: "call_env \<Rightarrow> nat \<Rightarrow> execution_run \<Rightarrow> execution_run" where
  "saved_run env clock run = run\<lparr>er_Version := er_Version run + 1, er_UpdatedAt := env_clock env clock\<rparr>"

definition saved_event ::
  "call_env \<Rightarrow> nat \<Rightarrow> nat \<Rightarrow> execution_run \<Rightarrow> string \<Rightarrow> string \<Rightarrow> string \<Rightarrow> string \<Rightarrow> artifact \<Rightarrow> execution_event" where
  "saved_event env clock idx run kind actor step reason evidence =
     \<lparr>ee_ID = env_id env idx, ee_RunID = er_ID run, ee_StepID = step, ee_Kind = kind, ee_Actor = actor,
      ee_Version = er_Version run + 1, ee_Reason = reason, ee_Evidence = evidence, ee_CreatedAt = env_clock env clock\<rparr>"

definition saveExecution ::
  "call_env \<Rightarrow> nat \<Rightarrow> nat \<Rightarrow> exec_db \<Rightarrow> execution_run \<Rightarrow> string \<Rightarrow> string \<Rightarrow> string \<Rightarrow> string \<Rightarrow> artifact \<Rightarrow> exec_db result" where
  "saveExecution env clock idx db run kind actor step reason evidence =
     (if find_row ee_ID (env_id env idx) (x_events db) \<noteq> None then Err ErrDatabase
      else Ok (db\<lparr>x_runs := put_row er_ID (saved_run env clock run) (x_runs db),
                  x_events := x_events db @ [saved_event env clock idx run kind actor step reason evidence]\<rparr>))"

definition loadExecutionStep :: "exec_db \<Rightarrow> string \<Rightarrow> int \<Rightarrow> step_row option" where
  "loadExecutionStep db rid number =
     find (\<lambda>r. es_RunID (row_Step r) = rid \<and> es_Number (row_Step r) = number) (x_steps db)"

definition saved_step :: "step_row \<Rightarrow> execution_step \<Rightarrow> step_row" where
  "saved_step r step = r\<lparr>row_Step := step, row_LeaseUntil := micros (es_LeaseUntil step)\<rparr>"

definition saveExecutionStep :: "exec_db \<Rightarrow> step_row \<Rightarrow> execution_step \<Rightarrow> exec_db" where
  "saveExecutionStep db r step = db\<lparr>x_steps := put_row step_id (saved_step r step) (x_steps db)\<rparr>"

section \<open>Creation and reading\<close>

definition participant_allowed :: "call_env \<Rightarrow> exec_db \<Rightarrow> string \<Rightarrow> string \<Rightarrow> string \<Rightarrow> bool" where
  "participant_allowed env db project role actor =
     list_ex (\<lambda>p. pr_ID p = actor \<and> pr_Active p \<and> pr_Kind p = ''workload''
        \<and> list_ex (\<lambda>c. cred_Principal c = pr_ID p \<and> credential_live (env_db_now env) c) (x_credentials db)
        \<and> list_ex (\<lambda>b. rb_Principal b = pr_ID p \<and> rb_Project b \<in> {''*'', project} \<and> rb_Role b = role
             \<and> role_live (env_db_now env) b) (x_roles db)
        \<and> \<not> list_ex (\<lambda>b. rb_Principal b = pr_ID p \<and> rb_Role b \<noteq> role \<and> role_live (env_db_now env) b) (x_roles db))
       (x_principals db)"

definition active_runs :: "exec_db \<Rightarrow> string \<Rightarrow> string \<Rightarrow> nat" where
  "active_runs db project tid =
     length (filter (\<lambda>r. er_ProjectID r = project \<and> et_ID (er_Target r) = tid
        \<and> er_Status r \<in> set [''ready'', ''running'', ''reconciling'']) (x_runs db))"

definition CreateExecution :: "call_env \<Rightarrow> exec_db \<Rightarrow> execution_run \<Rightarrow> execution_run result \<times> exec_db" where
  "CreateExecution env db inp =
     (if \<not> executionActor env db (er_Owner inp) (er_ProjectID inp) ''operations'' True then (Err ErrForbidden, db)
      else if er_OwnerCredential inp \<noteq> caller_credential env \<or> er_Schema inp \<noteq> ''hybrid-ai/sdlc-execution/v1''
          \<or> er_Status inp \<noteq> ''ready'' \<or> er_Version inp \<noteq> 0 \<or> er_StepNumber inp \<noteq> 0 \<or> er_Usage inp \<noteq> zero_usage
          \<or> (er_Kind inp \<noteq> ''feature'' \<and> er_Kind inp \<noteq> ''incident'')
        then (Err ErrValidationRequired, db)
      else case lockExecutionRequirements env db inp of
        Some e \<Rightarrow> (Err e, db)
      | None \<Rightarrow>
          (case find (\<lambda>r. er_ProjectID r = er_ProjectID inp \<and> er_Owner r = er_Owner inp
                  \<and> er_IdempotencyKey r = er_IdempotencyKey inp) (x_runs db) of
             Some existing \<Rightarrow>
               if er_RequestSHA256 existing \<noteq> er_RequestSHA256 inp then (Err ErrVersionConflict, db) else (Ok existing, db)
           | None \<Rightarrow>
               if \<not> list_all (\<lambda>(role, actor). participant_allowed env db (er_ProjectID inp) role actor) (et_Participants (er_Target inp))
                 then (Err ErrForbidden, db)
               else if int (active_runs db (er_ProjectID inp) (et_ID (er_Target inp))) \<ge> eb_MaxConcurrentRuns (et_Budget (er_Target inp))
                 then (Err ErrResourceBusy, db)
               else if find_row er_ID (er_ID inp) (x_runs db) \<noteq> None then (Err ErrDatabase, db)
               else (case saveExecution env 0 0 (db\<lparr>x_runs := x_runs db @ [inp]\<rparr>) inp ''created'' (er_Owner inp) []
                            ''accepted_intent_and_distinct_scoped_workers'' zero_artifact of
                   Inl e \<Rightarrow> (Err e, db)
                 | Inr db' \<Rightarrow> (Ok (saved_run env 0 inp), db'))))"

definition GetExecution :: "exec_db \<Rightarrow> string \<Rightarrow> string \<Rightarrow> execution_view result" where
  "GetExecution db project rid =
     (case lockExecution db project rid of
        Inl e \<Rightarrow> Err e
      | Inr run \<Rightarrow> Ok \<lparr>view_Run = run,
          view_Steps = sort_key es_Number (map row_Step (filter (\<lambda>r. es_RunID (row_Step r) = er_ID run) (x_steps db))),
          view_Events = sort_key ee_Version (filter (\<lambda>e. ee_RunID e = er_ID run) (x_events db))\<rparr>)"

definition repo_ListExecutions :: "exec_db \<Rightarrow> string \<Rightarrow> string \<Rightarrow> int \<Rightarrow> execution_run list" where
  "repo_ListExecutions db project actor limit =
     take (nat (if limit < 1 \<or> limit > 100 then 25 else limit))
       (sort_key (\<lambda>r. - er_CreatedAt r)
          (filter (\<lambda>r. er_ProjectID r = project \<and> (er_Owner r = actor \<or> actor \<in> snd ` set (et_Participants (er_Target r)))) (x_runs db)))"

section \<open>Leases\<close>

text \<open>A run that may not go on is saved as blocked, and that is committed although the call fails.\<close>

definition blocked_run :: "execution_run \<Rightarrow> string \<Rightarrow> execution_run" where
  "blocked_run run reason = run\<lparr>er_Status := ''blocked'', er_Blockers := [reason]\<rparr>"

definition block_run ::
  "call_env \<Rightarrow> nat \<Rightarrow> exec_db \<Rightarrow> execution_run \<Rightarrow> string \<Rightarrow> string \<Rightarrow> go_error \<Rightarrow> 'a result \<times> exec_db" where
  "block_run env clock db run actor reason e =
     (case saveExecution env clock 0 db (blocked_run run reason) ''blocked'' actor [] reason zero_artifact of
        Inl e' \<Rightarrow> (Err e', db) | Inr db' \<Rightarrow> (Err e, db'))"

definition resource_key :: "agent_package \<Rightarrow> string" where
  "resource_key pkg =
     (if ap_EvaluatorImage pkg \<noteq> [] then ''sandbox:'' @ ap_EvaluatorImage pkg
      else if ap_Model pkg \<noteq> [] then ''ollama:'' @ ap_ModelSHA256 pkg
      else ''executor:'' @ ap_Role pkg)"

definition live_leases :: "call_env \<Rightarrow> exec_db \<Rightarrow> string \<Rightarrow> step_row list" where
  "live_leases env db resource =
     filter (\<lambda>r. row_Resource r = resource \<and> es_CompletedAt (row_Step r) = None \<and> env_db_now env < row_LeaseUntil r) (x_steps db)"

definition resource_busy :: "call_env \<Rightarrow> exec_db \<Rightarrow> agent_package \<Rightarrow> bool" where
  "resource_busy env db pkg =
     (let rows = live_leases env db (resource_key pkg)
      in int (length rows) \<ge> foldr min (map row_Concurrency rows) (ap_Concurrency pkg))"

definition model_budget_exhausted :: "execution_run \<Rightarrow> agent_package \<Rightarrow> bool" where
  "model_budget_exhausted run pkg \<longleftrightarrow> ap_Model pkg \<noteq> [] \<and>
     (eu_ModelCalls (er_Usage run) \<ge> eb_MaxModelCalls (et_Budget (er_Target run))
      \<or> eu_TokensCharged (er_Usage run) + MaxTokenCharge pkg > eb_MaxTokens (et_Budget (er_Target run))
      \<or> eu_Attempts (er_Usage run) \<ge> eb_MaxAttempts (et_Budget (er_Target run)))"

definition charged_usage :: "execution_usage \<Rightarrow> agent_package \<Rightarrow> execution_usage" where
  "charged_usage u pkg =
     (if ap_Model pkg \<noteq> [] then
        u\<lparr>eu_ModelCalls := eu_ModelCalls u + 1, eu_TokensCharged := eu_TokensCharged u + MaxTokenCharge pkg,
          eu_Attempts := eu_Attempts u + 1\<rparr>
      else u)"

definition minTime :: "int \<Rightarrow> int \<Rightarrow> int" where
  "minTime a b = (if a < b then a else b)"

definition leased_step :: "execution_step \<Rightarrow> int \<Rightarrow> string \<Rightarrow> agent_package \<Rightarrow> execution_run \<Rightarrow> execution_step" where
  "leased_step step now token pkg run =
     step\<lparr>es_Fence := es_Fence step + 1, es_LeaseSHA := Digest token,
          es_LeaseUntil := minTime (now + seconds (ap_TimeoutSeconds pkg + 30)) (er_Deadline run)\<rparr>"

definition fresh_step :: "string \<Rightarrow> execution_run \<Rightarrow> string \<Rightarrow> agent_package \<Rightarrow> int \<Rightarrow> execution_step" where
  "fresh_step sid run actor pkg now =
     \<lparr>es_ID = sid, es_RunID = er_ID run, es_Number = er_StepNumber run + 1, es_Stage = er_Stage run, es_Actor = actor,
      es_Role = ap_Role pkg, es_PackageSHA = package_Digest pkg, es_Fence = 0, es_LeaseSHA = [], es_LeaseUntil = zero_time,
      es_StartedAt = now, es_CompletedAt = None, es_ContextSHA = [], es_Result = None, es_Evidence = zero_artifact\<rparr>"

definition claimed_run :: "execution_run \<Rightarrow> agent_package \<Rightarrow> execution_run" where
  "claimed_run run pkg =
     run\<lparr>er_Usage := charged_usage (er_Usage run) pkg, er_Blockers := [],
         er_Status := (if er_Status run \<noteq> ''reconciling'' then ''running'' else er_Status run)\<rparr>"

text \<open>The two ways a claim goes through: a lapsed lease is taken over, or the next step is begun.\<close>

definition reclaim_step ::
  "call_env \<Rightarrow> exec_db \<Rightarrow> execution_run \<Rightarrow> agent_package \<Rightarrow> string \<Rightarrow> string \<Rightarrow> step_row \<Rightarrow> execution_claim result \<times> exec_db" where
  "reclaim_step env db run pkg actor token row =
     (let step = leased_step (row_Step row) (env_clock env 0) token pkg run; run' = claimed_run run pkg
      in case saveExecution env 1 0 (saveExecutionStep db row step) run' ''reclaimed'' actor (es_ID step)
                ''lease_and_conservative_budget_reserved'' zero_artifact of
           Inl e \<Rightarrow> (Err e, db)
         | Inr db' \<Rightarrow> (Ok \<lparr>cl_Run = saved_run env 1 run', cl_Step = step, cl_Token = token\<rparr>, db'))"

definition begin_step ::
  "call_env \<Rightarrow> exec_db \<Rightarrow> execution_run \<Rightarrow> agent_package \<Rightarrow> string \<Rightarrow> string \<Rightarrow> execution_claim result \<times> exec_db" where
  "begin_step env db run pkg actor token =
     (let step = leased_step (fresh_step (env_id env 0) run actor pkg (env_clock env 0)) (env_clock env 0) token pkg run;
          run' = (claimed_run run pkg)\<lparr>er_StepNumber := er_StepNumber run + 1\<rparr>;
          row = \<lparr>row_Step = step, row_Resource = resource_key pkg, row_Concurrency = ap_Concurrency pkg,
                 row_LeaseUntil = micros (es_LeaseUntil step)\<rparr>
      in if find_row step_id (es_ID step) (x_steps db) \<noteq> None \<or> loadExecutionStep db (er_ID run) (es_Number step) \<noteq> None
            \<or> es_Number step < 1 \<or> ap_Concurrency pkg < 1
         then (Err ErrDatabase, db)
         else case saveExecution env 1 1 (db\<lparr>x_steps := x_steps db @ [row]\<rparr>) run' ''claimed'' actor (es_ID step)
                     ''lease_and_conservative_budget_reserved'' zero_artifact of
                Inl e \<Rightarrow> (Err e, db)
              | Inr db' \<Rightarrow> (Ok \<lparr>cl_Run = saved_run env 1 run', cl_Step = step, cl_Token = token\<rparr>, db'))"

definition open_step :: "exec_db \<Rightarrow> execution_run \<Rightarrow> step_row option" where
  "open_step db run =
     (case loadExecutionStep db (er_ID run) (er_StepNumber run) of
        None \<Rightarrow> None | Some row \<Rightarrow> if es_CompletedAt (row_Step row) = None then Some row else None)"

definition ClaimExecution ::
  "call_env \<Rightarrow> exec_db \<Rightarrow> string \<Rightarrow> string \<Rightarrow> string \<Rightarrow> string \<Rightarrow> execution_claim result \<times> exec_db" where
  "ClaimExecution env db project rid actor token =
     (case lockExecution db project rid of
        Inl e \<Rightarrow> (Err e, db)
      | Inr run \<Rightarrow>
          if actor \<noteq> run_Actor run then (Err ErrForbidden, db)
          else if \<not> executionActor env db actor project (ExecutionRole (er_Stage run)) False then (Err ErrForbidden, db)
          else if \<not> executionOwner env db run then (Err ErrForbidden, db)
          else if er_Status run \<notin> {''ready'', ''running'', ''reconciling''} then (Err ErrExecutionBlocked, db)
          else case lockExecutionRequirements env db run of
            Some e \<Rightarrow> block_run env 0 db run actor ''accepted_context_changed'' e
          | None \<Rightarrow>
              if er_Deadline run \<le> env_clock env 0 then block_run env 1 db run actor ''deadline_exhausted'' ErrBudgetExhausted
              else (case open_step db run of
                  Some row \<Rightarrow>
                    if env_clock env 0 < es_LeaseUntil (row_Step row) then (Err ErrResourceBusy, db)
                    else if resource_busy env db (run_Package run) then (Err ErrResourceBusy, db)
                    else if model_budget_exhausted run (run_Package run)
                      then block_run env 1 db run actor ''model_budget_exhausted'' ErrBudgetExhausted
                    else reclaim_step env db run (run_Package run) actor token row
                | None \<Rightarrow>
                    if resource_busy env db (run_Package run) then (Err ErrResourceBusy, db)
                    else if model_budget_exhausted run (run_Package run)
                      then block_run env 1 db run actor ''model_budget_exhausted'' ErrBudgetExhausted
                    else begin_step env db run (run_Package run) actor token))"

definition lease_valid :: "call_env \<Rightarrow> execution_run \<Rightarrow> execution_step \<Rightarrow> execution_lease \<Rightarrow> string \<Rightarrow> bool" where
  "lease_valid env run step l actor \<longleftrightarrow>
     \<not> (es_ID step \<noteq> el_StepID l \<or> es_Actor step \<noteq> actor \<or> es_CompletedAt step \<noteq> None \<or> es_Fence step \<noteq> el_Fence l
        \<or> es_LeaseSHA step \<noteq> Digest (el_Token l) \<or> \<not> env_clock env 0 < es_LeaseUntil step
        \<or> (er_Status run \<noteq> ''running'' \<and> er_Status run \<noteq> ''reconciling''))"

definition checkExecutionLease ::
  "call_env \<Rightarrow> exec_db \<Rightarrow> execution_lease \<Rightarrow> string \<Rightarrow> (execution_run \<times> step_row) result" where
  "checkExecutionLease env db l actor =
     (case lockExecution db (el_ProjectID l) (el_RunID l) of
        Inl e \<Rightarrow> Err e
      | Inr run \<Rightarrow>
          if actor \<noteq> run_Actor run then Err ErrForbidden
          else if \<not> executionActor env db actor (er_ProjectID run) (ExecutionRole (er_Stage run)) False then Err ErrForbidden
          else if \<not> executionOwner env db run then Err ErrForbidden
          else case loadExecutionStep db (er_ID run) (er_StepNumber run) of
            None \<Rightarrow> Err ErrNoRows
          | Some row \<Rightarrow>
              if \<not> lease_valid env run (row_Step row) l actor then Err ErrLeaseLost
              else if er_Deadline run \<le> env_clock env 1 then Err ErrBudgetExhausted
              else case lockExecutionRequirements env db run of
                Some e \<Rightarrow> Err e | None \<Rightarrow> Ok (run, row))"

definition CheckExecutionLease :: "call_env \<Rightarrow> exec_db \<Rightarrow> execution_lease \<Rightarrow> string \<Rightarrow> execution_view result" where
  "CheckExecutionLease env db l actor =
     (case checkExecutionLease env db l actor of
        Inl e \<Rightarrow> Err e | Inr _ \<Rightarrow> GetExecution db (el_ProjectID l) (el_RunID l))"

section \<open>Results\<close>

definition next_stage :: "string \<Rightarrow> string" where
  "next_stage from =
     map_get [] [(''build'', ''evaluate''), (''evaluate'', ''deliver''), (''deliver'', ''verify_delivery''),
                 (''diagnose'', ''remediate''), (''remediate'', ''verify_recovery'')] from"

definition validExecutionTransition :: "string \<Rightarrow> string \<Rightarrow> string \<Rightarrow> string \<Rightarrow> bool" where
  "validExecutionTransition from outcome status to_stage =
     (if outcome = ''blocked'' \<or> outcome = ''unavailable'' \<or> outcome = ''inconclusive'' then status = ''blocked'' \<and> from = to_stage
      else if outcome = ''failed'' then
        from = ''evaluate'' \<and> status = ''ready'' \<and> to_stage = ''build'' \<or> status = ''blocked'' \<and> from = to_stage
      else if outcome \<noteq> ''succeeded'' then False
      else if from = ''verify_delivery'' \<or> from = ''verify_recovery'' then status = ''completed'' \<and> to_stage = from
      else status = ''ready'' \<and> next_stage from = to_stage)"

definition insert_artifact_row :: "artifact_row \<Rightarrow> artifact_row list \<Rightarrow> artifact_row list" where
  "insert_artifact_row a rows =
     (if list_ex (\<lambda>x. xa_RunID x = xa_RunID a \<and> xa_StepID x = xa_StepID a \<and> xa_SHA256 x = xa_SHA256 a) rows then rows else rows @ [a])"

definition completed_step :: "call_env \<Rightarrow> execution_step \<Rightarrow> execution_result \<Rightarrow> artifact \<Rightarrow> execution_step" where
  "completed_step env step result evidence =
     step\<lparr>es_CompletedAt := Some (env_clock env 2), es_Result := Some result, es_Evidence := evidence\<rparr>"

text \<open>A run that is being reconciled only records what its executor read back.\<close>

definition concluded_run :: "execution_run \<Rightarrow> execution_result \<Rightarrow> string \<Rightarrow> string \<Rightarrow> execution_run" where
  "concluded_run run result status0 stage0 =
     (let status = (if er_Status run = ''reconciling''
                    then if rs_Outcome result = ''succeeded'' then ''cancelled'' else ''blocked'' else status0);
          stage = (if er_Status run = ''reconciling'' then er_Stage run else stage0);
          usage = (case rs_Model result of None \<Rightarrow> er_Usage run
                   | Some m \<Rightarrow> (er_Usage run)\<lparr>eu_TokensActual := eu_TokensActual (er_Usage run) + (me_InputTokens m + me_OutputTokens m)\<rparr>)
      in run\<lparr>er_Usage := usage, er_Status := status, er_Stage := stage,
             er_Blockers := (if status = ''blocked'' then [rs_Outcome result @ '': '' @ rs_Summary result] else [])\<rparr>)"

definition prior_result :: "exec_db \<Rightarrow> execution_run \<Rightarrow> string \<Rightarrow> result_row option" where
  "prior_result db run sid =
     find (\<lambda>x. res_StepID x = sid \<and> list_ex (\<lambda>r. step_id r = res_StepID x \<and> es_RunID (row_Step r) = er_ID run) (x_steps db))
       (x_results db)"

definition commit_result ::
  "call_env \<Rightarrow> exec_db \<Rightarrow> execution_run \<Rightarrow> step_row \<Rightarrow> string \<Rightarrow> execution_result \<Rightarrow> artifact \<Rightarrow> string \<Rightarrow> string
     \<Rightarrow> execution_run result \<times> exec_db" where
  "commit_result env db run row actor result evidence status stage =
     (let step = completed_step env (row_Step row) result evidence;
          run' = concluded_run run result status stage;
          db1 = (saveExecutionStep db row step)\<lparr>
             x_blobs := saveProductArtifact evidence (x_blobs db),
             x_results := x_results db @ [\<lparr>res_StepID = es_ID step, res_Actor = actor, res_SHA256 = art_SHA256 evidence, res_Result = result\<rparr>],
             x_artifacts := insert_artifact_row \<lparr>xa_RunID = er_ID run, xa_StepID = es_ID step,
                xa_SHA256 = art_SHA256 evidence, xa_Actor = actor\<rparr> (x_artifacts db)\<rparr>
      in if find_row res_StepID (es_ID step) (x_results db) \<noteq> None then (Err ErrDatabase, db)
         else case saveExecution env 3 0 db1 run' ''result'' actor (es_ID step) (rs_Outcome result) evidence of
           Inl e \<Rightarrow> (Err e, db) | Inr db' \<Rightarrow> (Ok (saved_run env 3 run'), db'))"

definition CompleteExecution ::
  "call_env \<Rightarrow> exec_db \<Rightarrow> execution_lease \<Rightarrow> string \<Rightarrow> execution_result \<Rightarrow> artifact \<Rightarrow> string \<Rightarrow> string
     \<Rightarrow> execution_run result \<times> exec_db" where
  "CompleteExecution env db l actor result evidence status stage =
     (case lockExecution db (el_ProjectID l) (el_RunID l) of
        Inl e \<Rightarrow> (Err e, db)
      | Inr run0 \<Rightarrow> (case prior_result db run0 (el_StepID l) of
          Some prior \<Rightarrow>
            if res_Actor prior \<noteq> actor \<or> res_SHA256 prior \<noteq> art_SHA256 evidence then (Err ErrVersionConflict, db)
            else if \<not> executionActor env db actor (er_ProjectID run0) (ExecutionRole (rs_Stage result)) False then (Err ErrForbidden, db)
            else (Ok run0, db)
        | None \<Rightarrow> (case checkExecutionLease env db l actor of
            Inl e \<Rightarrow> (Err e, db)
          | Inr (run, row) \<Rightarrow>
              if es_ContextSHA (row_Step row) = [] \<or> rs_Stage result \<noteq> es_Stage (row_Step row)
                 \<or> \<not> validExecutionTransition (es_Stage (row_Step row)) (rs_Outcome result) status stage
              then (Err ErrValidationRequired, db)
              else commit_result env db run row actor result evidence status stage)))"

section \<open>Operator control\<close>

definition fenced_step :: "execution_step \<Rightarrow> int \<Rightarrow> execution_step" where
  "fenced_step step now = step\<lparr>es_LeaseUntil := now, es_Fence := es_Fence step + 1\<rparr>"

text \<open>The run and the tables an action leads to, before the run is saved with its event.\<close>

definition control_effect ::
  "call_env \<Rightarrow> exec_db \<Rightarrow> execution_run \<Rightarrow> string \<Rightarrow> string \<Rightarrow> (execution_run \<times> exec_db) result" where
  "control_effect env db run action reason =
     (if action = ''reconcile'' then
        (case open_step db run of
           None \<Rightarrow> Err ErrExecutionBlocked
         | Some row \<Rightarrow>
             if (er_Stage run \<noteq> ''deliver'' \<and> er_Stage run \<noteq> ''remediate'') \<or> es_ContextSHA (row_Step row) = [] then Err ErrExecutionBlocked
             else Ok (run\<lparr>er_OwnerCredential := caller_credential env, er_Deadline := env_clock env 0 + seconds 300,
                          er_Status := ''reconciling'', er_Blockers := [''operator_authorized_effect_read_back_only'']\<rparr>,
                      saveExecutionStep db row (fenced_step (row_Step row) (env_clock env 1))))
      else if action = ''pause'' \<or> action = ''cancel'' then
        (case open_step db run of
           Some row \<Rightarrow>
             if er_Stage run = ''deliver'' \<or> er_Stage run = ''remediate''
             then Ok (run\<lparr>er_Status := ''reconciling'', er_Blockers := [''cancellation_requires_effect_read_back'']\<rparr>, db)
             else Ok (run\<lparr>er_Status := (if action = ''cancel'' then ''cancelled'' else ''paused''), er_Blockers := [reason]\<rparr>,
                      saveExecutionStep db row (fenced_step (row_Step row) (env_clock env 1)))
         | None \<Rightarrow>
             Ok (run\<lparr>er_Status := (if action = ''cancel'' then ''cancelled'' else ''paused''), er_Blockers := [reason]\<rparr>, db))
      else if action = ''resume'' then
        (if er_Status run \<noteq> ''paused'' \<and> er_Status run \<noteq> ''blocked'' then Err ErrExecutionBlocked
         else if \<not> executionOwner env db run then Err ErrForbidden
         else case lockExecutionRequirements env db run of
           Some e \<Rightarrow> Err e
         | None \<Rightarrow> if er_Deadline run \<le> env_clock env 0 then Err ErrBudgetExhausted
                   else Ok (run\<lparr>er_Status := ''ready'', er_Blockers := []\<rparr>, db))
      else Err ErrValidationRequired)"

definition ControlExecution ::
  "call_env \<Rightarrow> exec_db \<Rightarrow> string \<Rightarrow> string \<Rightarrow> string \<Rightarrow> int \<Rightarrow> string \<Rightarrow> string \<Rightarrow> execution_run result \<times> exec_db" where
  "ControlExecution env db project rid actor version action reason =
     (case lockExecution db project rid of
        Inl e \<Rightarrow> (Err e, db)
      | Inr run \<Rightarrow>
          if actor \<noteq> er_Owner run then (Err ErrForbidden, db)
          else if \<not> executionActor env db actor project ''operations'' True then (Err ErrForbidden, db)
          else if er_Version run \<noteq> version then (Err ErrVersionConflict, db)
          else if er_Status run = ''completed'' \<or> er_Status run = ''cancelled'' then (Err ErrExecutionBlocked, db)
          else case control_effect env db run action reason of
            Inl e \<Rightarrow> (Err e, db)
          | Inr (run', db1) \<Rightarrow>
              (case saveExecution env 2 0 db1 run' action actor [] reason zero_artifact of
                 Inl e \<Rightarrow> (Err e, db) | Inr db' \<Rightarrow> (Ok (saved_run env 2 run'), db')))"

section \<open>Source reservations and artifacts\<close>

text \<open>
  The row limit of a query is only known to be positive here, so its addition to the rows already charged is
  taken at its 64 bits, both in the check and in the charge.
\<close>

definition reserved_run :: "execution_run \<Rightarrow> source_query \<Rightarrow> execution_run" where
  "reserved_run run q =
     run\<lparr>er_Usage := (er_Usage run)\<lparr>eu_SourceQueries := eu_SourceQueries (er_Usage run) + 1,
                                     eu_SourceRows := wrap64 (eu_SourceRows (er_Usage run) + sq_Limit q)\<rparr>\<rparr>"

definition ReserveExecutionSource ::
  "call_env \<Rightarrow> exec_db \<Rightarrow> execution_lease \<Rightarrow> string \<Rightarrow> source_query \<Rightarrow> unit result \<times> exec_db" where
  "ReserveExecutionSource env db l actor q =
     (case checkExecutionLease env db l actor of
        Inl e \<Rightarrow> (Err e, db)
      | Inr (run, row) \<Rightarrow>
          if er_Stage run \<notin> set [''diagnose'', ''verify_recovery''] \<or> sq_ProjectID q \<noteq> er_ProjectID run
             \<or> sq_ProductID q \<noteq> er_ProductID run \<or> sq_SourceID q \<notin> set (et_Sources (er_Target run))
             \<or> sq_Purpose q \<notin> set (et_Purposes (er_Target run)) \<or> sq_Limit q < 1
          then (Err ErrForbidden, db)
          else (case find (\<lambda>v. rv_StepID v = step_id row \<and> rv_Key v = sq_IdempotencyKey q) (x_reservations db) of
              Some prior \<Rightarrow> if rv_SHA256 prior \<noteq> query_Digest q then (Err ErrVersionConflict, db) else (Ok (), db)
            | None \<Rightarrow>
                if eu_SourceQueries (er_Usage run) \<ge> eb_MaxSourceQueries (et_Budget (er_Target run))
                   \<or> wrap64 (eu_SourceRows (er_Usage run) + sq_Limit q) > eb_MaxSourceRows (et_Budget (er_Target run))
                then (Err ErrBudgetExhausted, db)
                else (case saveExecution env 2 0
                       (db\<lparr>x_reservations := x_reservations db @ [\<lparr>rv_StepID = step_id row, rv_Key = sq_IdempotencyKey q, rv_SHA256 = query_Digest q\<rparr>]\<rparr>)
                       (reserved_run run q) ''source_reserved'' actor (step_id row) ''bounded_query_reserved_before_dispatch'' zero_artifact of
                    Inl e \<Rightarrow> (Err e, db) | Inr db' \<Rightarrow> (Ok (), db'))))"

definition run_blobs :: "exec_db \<Rightarrow> string \<Rightarrow> artifact list" where
  "run_blobs db rid =
     concat (map (\<lambda>x. case find_row art_SHA256 (xa_SHA256 x) (x_blobs db) of None \<Rightarrow> [] | Some a \<Rightarrow> [a])
       (filter (\<lambda>x. xa_RunID x = rid) (x_artifacts db)))"

definition RecordExecutionArtifact ::
  "call_env \<Rightarrow> exec_db \<Rightarrow> execution_lease \<Rightarrow> string \<Rightarrow> artifact \<Rightarrow> bool \<Rightarrow> unit result \<times> exec_db" where
  "RecordExecutionArtifact env db l actor a bindContext =
     (case checkExecutionLease env db l actor of
        Inl e \<Rightarrow> (Err e, db)
      | Inr (run, row) \<Rightarrow>
          if bindContext \<and> es_ContextSHA (row_Step row) \<noteq> [] \<and> es_ContextSHA (row_Step row) \<noteq> art_SHA256 a
            then (Err ErrVersionConflict, db)
          else if length (run_blobs db (er_ID run)) \<ge> 256
              \<or> sum_list (map art_SizeBytes (run_blobs db (er_ID run))) + art_SizeBytes a > 64 * 1024 * 1024
            then (Err ErrBudgetExhausted, db)
          else
            let db1 = db\<lparr>x_blobs := saveProductArtifact a (x_blobs db),
                   x_artifacts := insert_artifact_row \<lparr>xa_RunID = er_ID run, xa_StepID = step_id row,
                     xa_SHA256 = art_SHA256 a, xa_Actor = actor\<rparr> (x_artifacts db)\<rparr>
            in (Ok (), if bindContext then saveExecutionStep db1 row ((row_Step row)\<lparr>es_ContextSHA := art_SHA256 a\<rparr>) else db1))"

definition repo_ExecutionArtifact :: "exec_db \<Rightarrow> string \<Rightarrow> string \<Rightarrow> string \<Rightarrow> artifact result" where
  "repo_ExecutionArtifact db project rid sha =
     (case find_row art_SHA256 sha (x_blobs db) of
        None \<Rightarrow> Err ErrForbidden
      | Some a \<Rightarrow>
          if list_ex (\<lambda>x. xa_SHA256 x = art_SHA256 a \<and> list_ex (\<lambda>r. er_ID r = xa_RunID x \<and> er_ProjectID r = project \<and> er_ID r = rid) (x_runs db))
               (x_artifacts db)
          then Ok a else Err ErrForbidden)"

definition CheckExecutionReader :: "call_env \<Rightarrow> exec_db \<Rightarrow> execution_run \<Rightarrow> string \<Rightarrow> bool" where
  "CheckExecutionReader env db run actor =
     (if er_Deadline run \<le> env_clock env 0 then False
      else if \<not> executionOwner env db run then False
      else case find (\<lambda>(role, who). who = actor) (et_Participants (er_Target run)) of
        None \<Rightarrow> False
      | Some (role, _) \<Rightarrow> executionActor env db actor (er_ProjectID run) role False)"

end
