(* ===== verification/ExecChange.thy ===== *)
theory ExecChange
  imports ExecStore
begin

text \<open>
  The changes one transaction of the execution store can make, as a relation with the guards under which the code makes
  them, and the proof that every operation makes one of these changes or none. The invariants are proved over
  the relation.
\<close>

section \<open>The tables of runs and steps\<close>

interpretation runs: keyed_table "\<lambda>t k. find_row er_ID k t" "put_row er_ID" "\<lambda>r t. t @ [r]" er_ID "\<lambda>t. distinct (map er_ID t)"
  by (rule keyed_table_rows)

interpretation steps: keyed_table "\<lambda>t k. find_row step_id k t" "put_row step_id" "\<lambda>r t. t @ [r]" step_id "\<lambda>t. distinct (map step_id t)"
  by (rule keyed_table_rows)

lemma lockExecution_Ok:
  assumes "lockExecution db project rid = Inr run"
  shows "run \<in> set (x_runs db)" "er_ProjectID run = project" "er_ID run = rid"
  using assms by (auto simp: lockExecution_def split: option.splits dest!: find_SomeD_mem)

lemma loadExecutionStep_Some:
  assumes "loadExecutionStep db rid n = Some row"
  shows "row \<in> set (x_steps db)" "es_RunID (row_Step row) = rid" "es_Number (row_Step row) = n"
  using assms by (auto simp: loadExecutionStep_def dest!: find_SomeD_mem)

lemma open_step_Some:
  "open_step db run = Some row \<longleftrightarrow>
     loadExecutionStep db (er_ID run) (er_StepNumber run) = Some row \<and> es_CompletedAt (row_Step row) = None"
  by (auto simp: open_step_def split: option.splits if_splits)

lemma saved_run_simps [simp]:
  "er_ID (saved_run env c run) = er_ID run" "er_Version (saved_run env c run) = er_Version run + 1"
  "er_Status (saved_run env c run) = er_Status run" "er_Stage (saved_run env c run) = er_Stage run"
  "er_Usage (saved_run env c run) = er_Usage run" "er_Target (saved_run env c run) = er_Target run"
  "er_Packages (saved_run env c run) = er_Packages run" "er_StepNumber (saved_run env c run) = er_StepNumber run"
  "er_Owner (saved_run env c run) = er_Owner run" "er_Kind (saved_run env c run) = er_Kind run"
  "er_ProjectID (saved_run env c run) = er_ProjectID run" "er_ProductID (saved_run env c run) = er_ProductID run"
  "er_Intent (saved_run env c run) = er_Intent run" "er_Bindings (saved_run env c run) = er_Bindings run"
  "er_IdempotencyKey (saved_run env c run) = er_IdempotencyKey run" "er_RequestSHA256 (saved_run env c run) = er_RequestSHA256 run"
  "er_CreatedAt (saved_run env c run) = er_CreatedAt run" "er_RepositoryRevision (saved_run env c run) = er_RepositoryRevision run"
  "er_Schema (saved_run env c run) = er_Schema run"
  by (simp_all add: saved_run_def)

lemma saved_event_simps [simp]:
  "ee_RunID (saved_event env c i run kind actor step reason ev) = er_ID run"
  "ee_Version (saved_event env c i run kind actor step reason ev) = er_Version run + 1"
  "ee_ID (saved_event env c i run kind actor step reason ev) = env_id env i"
  "ee_Kind (saved_event env c i run kind actor step reason ev) = kind"
  by (simp_all add: saved_event_def)

section \<open>The change relation\<close>

text \<open>What the service guarantees of a run it asks the store to create.\<close>

definition fresh_request :: "execution_run \<Rightarrow> bool" where
  "fresh_request inp \<longleftrightarrow>
     budget_Validate (et_Budget (er_Target inp))
     \<and> er_Stage inp = (if er_Kind inp = ''incident'' then ''diagnose'' else ''build'')
     \<and> (\<forall>a \<in> set sdlc_roles. \<forall>b \<in> set sdlc_roles. a \<noteq> b \<longrightarrow>
          map_get [] (et_Participants (er_Target inp)) a \<noteq> map_get [] (et_Participants (er_Target inp)) b)"

text \<open>Saving a run writes its next version and appends one event for it.\<close>

definition save_into :: "exec_db \<Rightarrow> execution_run \<Rightarrow> execution_event \<Rightarrow> exec_db" where
  "save_into db run ev = db\<lparr>x_runs := put_row er_ID run (x_runs db), x_events := x_events db @ [ev]\<rparr>"

definition event_for :: "execution_event \<Rightarrow> execution_run \<Rightarrow> bool" where
  "event_for ev run \<longleftrightarrow> ee_RunID ev = er_ID run \<and> ee_Version ev = er_Version run"

inductive exec_change :: "exec_db \<Rightarrow> exec_db \<Rightarrow> bool" for db where
  create: "fresh_request inp \<Longrightarrow> find_row er_ID (er_ID inp) (x_runs db) = None
     \<Longrightarrow> er_Status inp = ''ready'' \<Longrightarrow> er_Version inp = 0 \<Longrightarrow> er_StepNumber inp = 0 \<Longrightarrow> er_Usage inp = zero_usage
     \<Longrightarrow> er_Kind inp \<in> {''feature'', ''incident''}
     \<Longrightarrow> int (active_runs db (er_ProjectID inp) (et_ID (er_Target inp))) < eb_MaxConcurrentRuns (et_Budget (er_Target inp))
     \<Longrightarrow> event_for ev (saved_run env 0 inp)
     \<Longrightarrow> exec_change db (db\<lparr>x_runs := x_runs db @ [saved_run env 0 inp], x_events := x_events db @ [ev]\<rparr>)"
| block: "run \<in> set (x_runs db) \<Longrightarrow> er_Status run \<in> {''ready'', ''running'', ''reconciling''}
     \<Longrightarrow> event_for ev (saved_run env c (blocked_run run reason))
     \<Longrightarrow> exec_change db (save_into db (saved_run env c (blocked_run run reason)) ev)"
| start: "run \<in> set (x_runs db) \<Longrightarrow> er_Status run \<in> {''ready'', ''running'', ''reconciling''} \<Longrightarrow> open_step db run = None
     \<Longrightarrow> \<not> model_budget_exhausted run (run_Package run) \<Longrightarrow> \<not> resource_busy env db (run_Package run)
     \<Longrightarrow> step = leased_step (fresh_step sid run (run_Actor run) (run_Package run) now) now token (run_Package run) run
     \<Longrightarrow> find_row step_id sid (x_steps db) = None \<Longrightarrow> loadExecutionStep db (er_ID run) (er_StepNumber run + 1) = None
     \<Longrightarrow> run' = (claimed_run run (run_Package run))\<lparr>er_StepNumber := er_StepNumber run + 1\<rparr>
     \<Longrightarrow> event_for ev (saved_run env 1 run')
     \<Longrightarrow> exec_change db (save_into (db\<lparr>x_steps := x_steps db @ [\<lparr>row_Step = step, row_Resource = resource_key (run_Package run),
           row_Concurrency = ap_Concurrency (run_Package run), row_LeaseUntil = micros (es_LeaseUntil step)\<rparr>]\<rparr>) (saved_run env 1 run') ev)"
| reclaim: "run \<in> set (x_runs db) \<Longrightarrow> er_Status run \<in> {''ready'', ''running'', ''reconciling''} \<Longrightarrow> open_step db run = Some row
     \<Longrightarrow> es_LeaseUntil (row_Step row) \<le> now \<Longrightarrow> \<not> model_budget_exhausted run (run_Package run)
     \<Longrightarrow> \<not> resource_busy env db (run_Package run) \<Longrightarrow> event_for ev (saved_run env 1 (claimed_run run (run_Package run)))
     \<Longrightarrow> exec_change db (save_into (saveExecutionStep db row (leased_step (row_Step row) now token (run_Package run) run))
           (saved_run env 1 (claimed_run run (run_Package run))) ev)"
| result: "run \<in> set (x_runs db) \<Longrightarrow> er_Status run \<in> {''running'', ''reconciling''} \<Longrightarrow> open_step db run = Some row
     \<Longrightarrow> es_Actor (row_Step row) = run_Actor run \<Longrightarrow> es_ContextSHA (row_Step row) \<noteq> [] \<Longrightarrow> rs_Stage res = es_Stage (row_Step row)
     \<Longrightarrow> validExecutionTransition (es_Stage (row_Step row)) (rs_Outcome res) status stage
     \<Longrightarrow> find_row res_StepID (step_id row) (x_results db) = None
     \<Longrightarrow> event_for ev (saved_run env 3 (concluded_run run res status stage))
     \<Longrightarrow> db1 = (saveExecutionStep db row (completed_step env (row_Step row) res evidence))
           \<lparr>x_blobs := blobs,
            x_results := x_results db @ [\<lparr>res_StepID = step_id row, res_Actor = run_Actor run, res_SHA256 = art_SHA256 evidence, res_Result = res\<rparr>],
            x_artifacts := arts\<rparr>
     \<Longrightarrow> exec_change db (save_into db1 (saved_run env 3 (concluded_run run res status stage)) ev)"
| control: "run \<in> set (x_runs db) \<Longrightarrow> er_Status run \<notin> {''completed'', ''cancelled''}
     \<Longrightarrow> control_effect env db run action reason = Inr (run', db1) \<Longrightarrow> event_for ev (saved_run env 2 run')
     \<Longrightarrow> exec_change db (save_into db1 (saved_run env 2 run') ev)"
| reserve: "run \<in> set (x_runs db) \<Longrightarrow> er_Status run \<in> {''running'', ''reconciling''} \<Longrightarrow> open_step db run = Some row
     \<Longrightarrow> eu_SourceQueries (er_Usage run) < eb_MaxSourceQueries (et_Budget (er_Target run))
     \<Longrightarrow> wrap64 (eu_SourceRows (er_Usage run) + sq_Limit q) \<le> eb_MaxSourceRows (et_Budget (er_Target run)) \<Longrightarrow> 1 \<le> sq_Limit q
     \<Longrightarrow> event_for ev (saved_run env 2 (reserved_run run q))
     \<Longrightarrow> exec_change db (save_into (db\<lparr>x_reservations := rs\<rparr>) (saved_run env 2 (reserved_run run q)) ev)"
| record_artifact: "run \<in> set (x_runs db) \<Longrightarrow> er_Status run \<in> {''running'', ''reconciling''} \<Longrightarrow> open_step db run = Some row
     \<Longrightarrow> exec_change db (db\<lparr>x_blobs := blobs, x_artifacts := arts\<rparr>)"
| bind_context: "run \<in> set (x_runs db) \<Longrightarrow> er_Status run \<in> {''running'', ''reconciling''} \<Longrightarrow> open_step db run = Some row
     \<Longrightarrow> es_ContextSHA (row_Step row) = [] \<or> es_ContextSHA (row_Step row) = sha
     \<Longrightarrow> exec_change db (saveExecutionStep (db\<lparr>x_blobs := blobs, x_artifacts := arts\<rparr>) row ((row_Step row)\<lparr>es_ContextSHA := sha\<rparr>))"

section \<open>Every operation makes a permitted change\<close>

lemma saveExecution_Ok:
  "saveExecution env c i db run kind actor step reason ev = Inr db' \<longleftrightarrow>
     find_row ee_ID (env_id env i) (x_events db) = None
     \<and> db' = save_into db (saved_run env c run) (saved_event env c i run kind actor step reason ev)"
  by (auto simp: saveExecution_def save_into_def)

lemma event_for_saved [simp]: "event_for (saved_event env c i run kind actor step reason ev) (saved_run env c run)"
  by (simp add: event_for_def)

lemma put_row_append_fresh:
  "find_row key (key r) rows = None \<Longrightarrow> key r' = key r \<Longrightarrow> put_row key r' (rows @ [r]) = rows @ [r']"
  by (auto simp: put_row_def find_row_None intro!: map_idI) (metis imageI)

lemma CreateExecution_change:
  assumes "CreateExecution env db inp = (r, db')" and "fresh_request inp"
  shows "db' = db \<or> exec_change db db'"
proof (cases "db' = db")
  case False
  note eq = assms(1) [unfolded CreateExecution_def]
  have fresh: "find_row er_ID (er_ID inp) (x_runs db) = None" and guards: "er_Status inp = ''ready''" "er_Version inp = 0"
    "er_StepNumber inp = 0" "er_Usage inp = zero_usage" "er_Kind inp \<in> {''feature'', ''incident''}"
    "int (active_runs db (er_ProjectID inp) (et_ID (er_Target inp))) < eb_MaxConcurrentRuns (et_Budget (er_Target inp))"
    using eq False by (auto split: if_split_asm option.split_asm)
  define ev where "ev = saved_event env 0 0 inp ''created'' (er_Owner inp) []
      ''accepted_intent_and_distinct_scoped_workers'' zero_artifact"
  have ev: "event_for ev (saved_run env 0 inp)" by (simp add: ev_def)
  have db': "db' = save_into (db\<lparr>x_runs := x_runs db @ [inp]\<rparr>) (saved_run env 0 inp) ev"
    using eq False by (auto simp: saveExecution_Ok ev_def split: if_split_asm option.split_asm sum.split_asm)
  have "db' = db\<lparr>x_runs := x_runs db @ [saved_run env 0 inp], x_events := x_events db @ [ev]\<rparr>"
    using db' put_row_append_fresh [OF fresh, of "saved_run env 0 inp"] by (simp add: save_into_def)
  then show ?thesis using exec_change.create [OF assms(2) fresh guards ev] by simp
qed simp

lemma block_run_change:
  assumes "block_run env c db run actor reason e = (r, db')" and "run \<in> set (x_runs db)"
    and "er_Status run \<in> {''ready'', ''running'', ''reconciling''}"
  shows "db' = db \<or> exec_change db db'"
  using assms exec_change.block [OF assms(2,3), of _ env c reason]
  by (auto simp: block_run_def saveExecution_Ok split: sum.split_asm)

lemma ClaimExecution_change:
  assumes "ClaimExecution env db project rid actor token = (r, db')"
  shows "db' = db \<or> exec_change db db'"
proof (cases "db' = db")
  case False
  note eq = assms [unfolded ClaimExecution_def]
  obtain run where run: "lockExecution db project rid = Inr run"
    using eq False by (cases "lockExecution db project rid") auto
  have mem: "run \<in> set (x_runs db)" using lockExecution_Ok [OF run] by simp
  have st: "er_Status run \<in> {''ready'', ''running'', ''reconciling''}" and actor: "actor = run_Actor run"
    using eq run False by (auto split: if_split_asm)
  have blocked: "block_run env c db run actor reason e = (r, db') \<Longrightarrow> exec_change db db'" for c reason e
    using block_run_change [OF _ mem st] False by blast
  consider c reason e where "block_run env c db run actor reason e = (r, db')"
    | row where "open_step db run = Some row" "es_LeaseUntil (row_Step row) \<le> env_clock env 0"
        "\<not> resource_busy env db (run_Package run)" "\<not> model_budget_exhausted run (run_Package run)"
        "reclaim_step env db run (run_Package run) actor token row = (r, db')"
    | "open_step db run = None" "\<not> resource_busy env db (run_Package run)" "\<not> model_budget_exhausted run (run_Package run)"
        "begin_step env db run (run_Package run) actor token = (r, db')"
    using eq run False by (auto split: if_split_asm option.split_asm)
  then show ?thesis
  proof cases
    case 1
    then show ?thesis using blocked by blast
  next
    case 2
    then show ?thesis
      using False exec_change.reclaim [OF mem st 2(1,2,4,3)]
      by (auto simp: reclaim_step_def Let_def saveExecution_Ok split: sum.split_asm)
  next
    case 3
    then show ?thesis
      using False exec_change.start [OF mem st 3(1,3,2) refl _ _ refl] actor
      by (auto simp: begin_step_def Let_def saveExecution_Ok leased_step_def fresh_step_def split: sum.split_asm if_split_asm)
  qed
qed simp

lemma checkExecutionLease_Ok:
  assumes "checkExecutionLease env db l actor = Inr (run, row)"
  shows "run \<in> set (x_runs db)" "er_ID run = el_RunID l" "er_ProjectID run = el_ProjectID l" "actor = run_Actor run"
    "open_step db run = Some row" "er_Status run \<in> {''running'', ''reconciling''}"
    "step_id row = el_StepID l" "es_Actor (row_Step row) = actor" "es_Fence (row_Step row) = el_Fence l"
    "es_LeaseSHA (row_Step row) = Digest (el_Token l)" "env_clock env 0 < es_LeaseUntil (row_Step row)"
    "executionActor env db actor (er_ProjectID run) (ExecutionRole (er_Stage run)) False" "executionOwner env db run"
    "lockExecutionRequirements env db run = None" "env_clock env 1 < er_Deadline run"
proof -
  obtain run0 where run0: "lockExecution db (el_ProjectID l) (el_RunID l) = Inr run0"
    using assms by (cases "lockExecution db (el_ProjectID l) (el_RunID l)") (auto simp: checkExecutionLease_def)
  note eq = assms [unfolded checkExecutionLease_def, unfolded run0, simplified]
  have eqs: "run = run0" "actor = run_Actor run" "loadExecutionStep db (er_ID run) (er_StepNumber run) = Some row"
    "lease_valid env run (row_Step row) l actor"
    "executionActor env db actor (er_ProjectID run) (ExecutionRole (er_Stage run)) False" "executionOwner env db run"
    "lockExecutionRequirements env db run = None" "env_clock env 1 < er_Deadline run"
    using eq by (auto split: if_split_asm option.split_asm)
  show "run \<in> set (x_runs db)" "er_ID run = el_RunID l" "er_ProjectID run = el_ProjectID l"
    using lockExecution_Ok [OF run0] eqs(1) by simp_all
  show "open_step db run = Some row" "er_Status run \<in> {''running'', ''reconciling''}" "step_id row = el_StepID l"
    "es_Actor (row_Step row) = actor" "es_Fence (row_Step row) = el_Fence l" "es_LeaseSHA (row_Step row) = Digest (el_Token l)"
    "env_clock env 0 < es_LeaseUntil (row_Step row)"
    using eqs(3,4) by (auto simp: lease_valid_def open_step_Some step_id_def)
  show "actor = run_Actor run" by (fact eqs)
  show "executionActor env db actor (er_ProjectID run) (ExecutionRole (er_Stage run)) False" "executionOwner env db run"
    "lockExecutionRequirements env db run = None" "env_clock env 1 < er_Deadline run"
    by (fact eqs)+
qed

lemma CompleteExecution_cases:
  assumes "CompleteExecution env db l actor res evidence status stage = (r, db')" and "db' \<noteq> db"
  obtains run row where "checkExecutionLease env db l actor = Inr (run, row)" "es_ContextSHA (row_Step row) \<noteq> []"
    "rs_Stage res = es_Stage (row_Step row)" "validExecutionTransition (es_Stage (row_Step row)) (rs_Outcome res) status stage"
    "find_row res_StepID (step_id row) (x_results db) = None"
    "commit_result env db run row actor res evidence status stage = (r, db')"
proof -
  note eq = assms(1) [unfolded CompleteExecution_def]
  obtain run row where chk: "checkExecutionLease env db l actor = Inr (run, row)"
    using eq assms(2) by (auto split: if_split_asm option.split_asm sum.split_asm)
  show ?thesis
  proof (rule that [OF chk])
    show "es_ContextSHA (row_Step row) \<noteq> []" "rs_Stage res = es_Stage (row_Step row)"
      "validExecutionTransition (es_Stage (row_Step row)) (rs_Outcome res) status stage"
      "commit_result env db run row actor res evidence status stage = (r, db')"
      using eq assms(2) chk by (auto split: if_split_asm option.split_asm sum.split_asm)
    then show "find_row res_StepID (step_id row) (x_results db) = None"
      using assms(2) by (auto simp: commit_result_def Let_def completed_step_def step_id_def split: if_split_asm)
  qed
qed

lemma CompleteExecution_change:
  assumes "CompleteExecution env db l actor res evidence status stage = (r, db')"
  shows "db' = db \<or> exec_change db db'"
proof (cases "db' = db")
  case False
  obtain run row where chk: "checkExecutionLease env db l actor = Inr (run, row)" and g: "es_ContextSHA (row_Step row) \<noteq> []"
    "rs_Stage res = es_Stage (row_Step row)" "validExecutionTransition (es_Stage (row_Step row)) (rs_Outcome res) status stage"
    "find_row res_StepID (step_id row) (x_results db) = None"
    and com: "commit_result env db run row actor res evidence status stage = (r, db')"
    using CompleteExecution_cases [OF assms False] by blast
  note c = checkExecutionLease_Ok [OF chk]
  have same: "es_ID (completed_step env (row_Step row) res evidence) = step_id row"
    by (simp add: completed_step_def step_id_def)
  have "es_Actor (row_Step row) = run_Actor run" using c by simp
  from exec_change.result [OF c(1,6,5) this g _ refl] com False c(4) same
  show ?thesis
    by (auto simp: commit_result_def Let_def saveExecution_Ok saveExecutionStep_def split: sum.split_asm if_split_asm)
qed simp

lemma ControlExecution_change:
  assumes "ControlExecution env db project rid actor version action reason = (r, db')"
  shows "db' = db \<or> exec_change db db'"
proof (cases "db' = db")
  case False
  note eq = assms [unfolded ControlExecution_def]
  obtain run where run: "lockExecution db project rid = Inr run"
    using eq False by (cases "lockExecution db project rid") auto
  obtain run' db1 where eff: "control_effect env db run action reason = Inr (run', db1)"
    and st: "er_Status run \<notin> {''completed'', ''cancelled''}"
    using eq run False by (auto split: if_split_asm sum.split_asm)
  from exec_change.control [OF lockExecution_Ok(1) [OF run] st eff] show ?thesis
    using eq run eff False by (auto simp: saveExecution_Ok split: if_split_asm sum.split_asm)
qed simp

lemma ReserveExecutionSource_change:
  assumes "ReserveExecutionSource env db l actor q = (r, db')"
  shows "db' = db \<or> exec_change db db'"
proof (cases "db' = db")
  case False
  note eq = assms [unfolded ReserveExecutionSource_def]
  obtain run row where chk: "checkExecutionLease env db l actor = Inr (run, row)"
    using eq False by (auto split: sum.split_asm)
  note c = checkExecutionLease_Ok [OF chk]
  have "eu_SourceQueries (er_Usage run) < eb_MaxSourceQueries (et_Budget (er_Target run))"
    "wrap64 (eu_SourceRows (er_Usage run) + sq_Limit q) \<le> eb_MaxSourceRows (et_Budget (er_Target run))" "1 \<le> sq_Limit q"
    using eq chk False by (auto split: if_split_asm option.split_asm sum.split_asm)
  from exec_change.reserve [OF c(1,6,5) this] show ?thesis
    using eq chk False by (auto simp: saveExecution_Ok split: if_split_asm option.split_asm sum.split_asm)
qed simp

lemma RecordExecutionArtifact_change:
  assumes "RecordExecutionArtifact env db l actor a bindContext = (r, db')"
  shows "db' = db \<or> exec_change db db'"
proof (cases "db' = db")
  case False
  note eq = assms [unfolded RecordExecutionArtifact_def]
  obtain run row where chk: "checkExecutionLease env db l actor = Inr (run, row)"
    using eq False by (auto split: sum.split_asm)
  note c = checkExecutionLease_Ok [OF chk]
  show ?thesis
  proof (cases bindContext)
    case True
    then have "es_ContextSHA (row_Step row) = [] \<or> es_ContextSHA (row_Step row) = art_SHA256 a"
      using eq chk False by (auto split: if_split_asm)
    from exec_change.bind_context [OF c(1,6,5) this] show ?thesis
      using eq chk False True by (auto simp: Let_def split: if_split_asm)
  next
    case no: False
    from exec_change.record_artifact [OF c(1,6,5)] show ?thesis
      using eq chk False no by (auto simp: Let_def split: if_split_asm)
  qed
qed simp

end
