(* ===== verification/ExecInv.thy ===== *)
theory ExecInv
  imports ExecChange
begin

text \<open>
  The invariant of the execution store. What is promised of a run is a property of three things: its row, the list
  of its steps in order and its event log. A change touches one run, so each case is an argument about
  those three.
\<close>

section \<open>The promise about one run\<close>

definition run_steps :: "exec_db \<Rightarrow> string \<Rightarrow> execution_step list" where
  "run_steps db rid = map row_Step (filter (\<lambda>r. es_RunID (row_Step r) = rid) (x_steps db))"

definition run_events :: "exec_db \<Rightarrow> string \<Rightarrow> execution_event list" where
  "run_events db rid = filter (\<lambda>e. ee_RunID e = rid) (x_events db)"

definition succeeded :: "execution_step \<Rightarrow> bool" where
  "succeeded s \<longleftrightarrow> es_CompletedAt s \<noteq> None \<and> (\<exists>r. es_Result s = Some r \<and> rs_Outcome r = ''succeeded'')"

definition passed :: "execution_step list \<Rightarrow> string \<Rightarrow> bool" where
  "passed ss stage \<longleftrightarrow> (\<exists>s \<in> set ss. es_Stage s = stage \<and> succeeded s)"

text \<open>The work is evaluated: an evaluation succeeded and nothing was built after it.\<close>

definition evaluated :: "execution_step list \<Rightarrow> bool" where
  "evaluated ss \<longleftrightarrow> (\<exists>before e after. ss = before @ e # after \<and> es_Stage e = ''evaluate'' \<and> succeeded e
     \<and> (\<forall>s \<in> set after. es_Stage s \<noteq> ''build''))"

definition required_stage :: "string \<Rightarrow> string option" where
  "required_stage stage = map_of [(''evaluate'', ''build''), (''deliver'', ''evaluate''), (''verify_delivery'', ''deliver''),
     (''remediate'', ''diagnose''), (''verify_recovery'', ''remediate'')] stage"

definition budget_ok :: "execution_run \<Rightarrow> bool" where
  "budget_ok r \<longleftrightarrow> (let u = er_Usage r; b = et_Budget (er_Target r) in
     eu_Attempts u \<le> eb_MaxAttempts b \<and> eu_ModelCalls u \<le> eb_MaxModelCalls b \<and> eu_TokensCharged u \<le> eb_MaxTokens b
     \<and> eu_SourceQueries u \<le> eb_MaxSourceQueries b \<and> eu_SourceRows u \<le> eb_MaxSourceRows b)"

definition log_ok :: "execution_run \<Rightarrow> execution_event list \<Rightarrow> bool" where
  "log_ok r es \<longleftrightarrow> map ee_Version es = map int [1 ..< Suc (length es)] \<and> er_Version r = int (length es)"

definition steps_ok :: "execution_run \<Rightarrow> execution_step list \<Rightarrow> bool" where
  "steps_ok r ss \<longleftrightarrow> map es_Number ss = map int [1 ..< Suc (length ss)] \<and> er_StepNumber r = int (length ss)
     \<and> (\<forall>s \<in> set ss. es_Actor s = map_get [] (et_Participants (er_Target r)) (ExecutionRole (es_Stage s)) \<and> 1 \<le> es_Fence s)
     \<and> (\<forall>s \<in> set (butlast ss). es_CompletedAt s \<noteq> None)
     \<and> (ss \<noteq> [] \<and> es_CompletedAt (last ss) = None \<longrightarrow> es_Stage (last ss) = er_Stage r)"

definition actors_ok :: "execution_run \<Rightarrow> bool" where
  "actors_ok r \<longleftrightarrow> (\<forall>a \<in> set sdlc_roles. \<forall>b \<in> set sdlc_roles. a \<noteq> b \<longrightarrow>
     map_get [] (et_Participants (er_Target r)) a \<noteq> map_get [] (et_Participants (er_Target r)) b)"

definition unfinished :: "string set" where
  "unfinished = {''ready'', ''running'', ''reconciling'', ''paused'', ''blocked'', ''cancelled''}"

lemma unfinished_not_completed: "st \<in> unfinished \<Longrightarrow> st \<noteq> ''completed''"
  by (auto simp: unfinished_def)

definition kind_stages :: "string \<Rightarrow> string set" where
  "kind_stages kind = (if kind = ''incident'' then {''diagnose'', ''remediate'', ''verify_recovery''}
                       else {''build'', ''evaluate'', ''deliver'', ''verify_delivery''})"

definition pipeline_ok :: "execution_run \<Rightarrow> execution_step list \<Rightarrow> bool" where
  "pipeline_ok r ss \<longleftrightarrow>
     er_Stage r \<in> kind_stages (er_Kind r)
     \<and> er_Status r \<in> insert ''completed'' unfinished
     \<and> (\<forall>p. required_stage (er_Stage r) = Some p \<longrightarrow> passed ss p)
     \<and> (er_Stage r \<in> {''deliver'', ''verify_delivery''} \<longrightarrow> evaluated ss)
     \<and> (er_Status r = ''completed'' \<longrightarrow> ss \<noteq> [] \<and> es_Stage (last ss) \<in> {''verify_delivery'', ''verify_recovery''}
          \<and> es_Stage (last ss) = er_Stage r \<and> succeeded (last ss))"

definition exec_ok :: "execution_run \<Rightarrow> execution_step list \<Rightarrow> execution_event list \<Rightarrow> bool" where
  "exec_ok r ss es \<longleftrightarrow> budget_ok r \<and> log_ok r es \<and> steps_ok r ss \<and> actors_ok r \<and> pipeline_ok r ss"

section \<open>The promise about the tables\<close>

definition results_ok :: "exec_db \<Rightarrow> bool" where
  "results_ok db \<longleftrightarrow> distinct (map res_StepID (x_results db))
     \<and> (\<forall>x \<in> set (x_results db). \<exists>row \<in> set (x_steps db). step_id row = res_StepID x
          \<and> es_CompletedAt (row_Step row) \<noteq> None \<and> es_Result (row_Step row) = Some (res_Result x) \<and> es_Actor (row_Step row) = res_Actor x)
     \<and> (\<forall>row \<in> set (x_steps db). es_CompletedAt (row_Step row) \<noteq> None \<longrightarrow> (\<exists>x \<in> set (x_results db). res_StepID x = step_id row))"

definition keys_ok :: "exec_db \<Rightarrow> bool" where
  "keys_ok db \<longleftrightarrow> distinct (map er_ID (x_runs db)) \<and> distinct (map step_id (x_steps db))
     \<and> (\<forall>row \<in> set (x_steps db). es_RunID (row_Step row) \<in> er_ID ` set (x_runs db))
     \<and> (\<forall>e \<in> set (x_events db). ee_RunID e \<in> er_ID ` set (x_runs db))"

definition exec_inv :: "exec_db \<Rightarrow> bool" where
  "exec_inv db \<longleftrightarrow> keys_ok db \<and> results_ok db
     \<and> (\<forall>r \<in> set (x_runs db). exec_ok r (run_steps db (er_ID r)) (run_events db (er_ID r)))"

lemma results_okD:
  assumes "results_ok db" and "x \<in> set (x_results db)"
  shows "\<exists>row \<in> set (x_steps db). step_id row = res_StepID x \<and> es_CompletedAt (row_Step row) \<noteq> None
     \<and> es_Result (row_Step row) = Some (res_Result x) \<and> es_Actor (row_Step row) = res_Actor x"
  using assms unfolding results_ok_def by (elim conjE) (drule (1) bspec, assumption)

section \<open>Steps of a run\<close>

lemma distinct_run_steps: "keys_ok db \<Longrightarrow> distinct (map es_ID (run_steps db rid))"
  unfolding keys_ok_def run_steps_def
  by (simp add: comp_def step_id_def [abs_def] distinct_map_filter)

lemma step_unique:
  "keys_ok db \<Longrightarrow> x \<in> set (x_steps db) \<Longrightarrow> row \<in> set (x_steps db) \<Longrightarrow> step_id x = step_id row \<Longrightarrow> x = row"
  by (auto simp: keys_ok_def distinct_map dest: inj_onD)

lemma run_steps_save:
  assumes "keys_ok db" and "row \<in> set (x_steps db)" and "es_ID step = step_id row" and "es_RunID step = es_RunID (row_Step row)"
  shows "run_steps (saveExecutionStep db row step) rid = map (\<lambda>s. if es_ID s = step_id row then step else s) (run_steps db rid)"
proof -
  note uniq = step_unique [OF assms(1) _ assms(2)]
  have "map row_Step (filter (\<lambda>r. es_RunID (row_Step r) = rid) (map (\<lambda>x. if step_id x = step_id row then saved_step row step else x) rows))
      = map (\<lambda>s. if es_ID s = step_id row then step else s) (map row_Step (filter (\<lambda>r. es_RunID (row_Step r) = rid) rows))"
    if "set rows \<subseteq> set (x_steps db)" for rows
    using that
  proof (induction rows)
    case (Cons x rows)
    then show ?case using uniq [of x] assms(4) by (auto simp: saved_step_def step_id_def)
  qed simp
  moreover have "step_id (saved_step row step) = step_id row" using assms(3) by (simp add: step_id_def saved_step_def)
  ultimately show ?thesis
    by (simp add: run_steps_def saveExecutionStep_def put_row_def del: map_map)
qed

lemma run_steps_save_last:
  assumes "keys_ok db" and "row \<in> set (x_steps db)" and "es_ID step = step_id row" and "es_RunID step = es_RunID (row_Step row)"
    and "run_steps db rid = before @ [row_Step row]"
  shows "run_steps (saveExecutionStep db row step) rid = before @ [step]"
proof -
  have "distinct (map es_ID (before @ [row_Step row]))" using distinct_run_steps [OF assms(1), of rid] assms(5) by simp
  then have "es_ID s \<noteq> step_id row" if "s \<in> set before" for s
    using that by (auto simp: step_id_def) (metis imageI)
  then have "map (\<lambda>s. if es_ID s = step_id row then step else s) before = before" by (auto intro: map_idI)
  then show ?thesis
    using run_steps_save [OF assms(1-4)] assms(5) by (simp add: step_id_def)
qed

lemma run_steps_save_other:
  assumes "keys_ok db" and "row \<in> set (x_steps db)" and "es_ID step = step_id row" and "es_RunID step = es_RunID (row_Step row)"
    and "rid \<noteq> es_RunID (row_Step row)"
  shows "run_steps (saveExecutionStep db row step) rid = run_steps db rid"
proof -
  have "es_ID s \<noteq> step_id row" if s: "s \<in> set (run_steps db rid)" for s
  proof
    assume eq: "es_ID s = step_id row"
    obtain x where x: "x \<in> set (x_steps db)" "s = row_Step x" "es_RunID s = rid" using s by (auto simp: run_steps_def)
    then have "x = row" using step_unique [OF assms(1) x(1) assms(2)] eq by (simp add: step_id_def)
    then show False using x assms(5) by simp
  qed
  then show ?thesis unfolding run_steps_save [OF assms(1-4)] by (auto intro: map_idI)
qed

lemma nth_number:
  assumes "steps_ok r ss" and "s \<in> set ss" and "es_Number s = er_StepNumber r"
  shows "ss \<noteq> [] \<and> s = last ss"
proof -
  obtain i where i: "i < length ss" "ss ! i = s" using assms(2) by (auto simp: in_set_conv_nth)
  have "map es_Number ss ! i = map int [1 ..< Suc (length ss)] ! i" using assms(1) by (simp only: steps_ok_def)
  then have "es_Number s = int (Suc i)" using i by (simp del: upt_Suc)
  then have "Suc i = length ss" using assms(1,3) by (auto simp: steps_ok_def)
  then show ?thesis using i by (metis diff_Suc_1 last_conv_nth length_greater_0_conv zero_less_Suc)
qed

lemma open_step_last:
  assumes "exec_inv db" and "run \<in> set (x_runs db)" and "open_step db run = Some row"
  shows "row \<in> set (x_steps db)" "es_RunID (row_Step row) = er_ID run" "es_CompletedAt (row_Step row) = None"
    "run_steps db (er_ID run) = butlast (run_steps db (er_ID run)) @ [row_Step row]"
proof -
  have row: "row \<in> set (x_steps db)" "es_RunID (row_Step row) = er_ID run" "es_Number (row_Step row) = er_StepNumber run"
    and c: "es_CompletedAt (row_Step row) = None"
    using assms(3) loadExecutionStep_Some by (auto simp: open_step_Some)
  have "steps_ok run (run_steps db (er_ID run))" using assms(1,2) by (auto simp: exec_inv_def exec_ok_def)
  moreover have "row_Step row \<in> set (run_steps db (er_ID run))" using row by (auto simp: run_steps_def)
  ultimately have "run_steps db (er_ID run) \<noteq> [] \<and> row_Step row = last (run_steps db (er_ID run))"
    using row(3) by (rule nth_number)
  then show "run_steps db (er_ID run) = butlast (run_steps db (er_ID run)) @ [row_Step row]"
    by (simp add: append_butlast_last_id)
  show "row \<in> set (x_steps db)" "es_RunID (row_Step row) = er_ID run" "es_CompletedAt (row_Step row) = None"
    by (fact row(1), fact row(2), fact c)
qed

lemma open_step_none:
  assumes "exec_inv db" and "run \<in> set (x_runs db)" and "open_step db run = None"
  shows "\<forall>s \<in> set (run_steps db (er_ID run)). es_CompletedAt s \<noteq> None"
proof (cases "run_steps db (er_ID run) = []")
  case False
  define ss where "ss = run_steps db (er_ID run)"
  have ok: "steps_ok run ss" using assms(1,2) by (auto simp: exec_inv_def exec_ok_def ss_def)
  have ne: "ss \<noteq> []" using False by (simp add: ss_def)
  then have "last ss \<in> set ss" by simp
  then obtain x where x: "x \<in> set (x_steps db)" "row_Step x = last ss" "es_RunID (last ss) = er_ID run"
    by (auto simp: ss_def run_steps_def)
  have "map es_Number ss ! (length ss - 1) = map int [1 ..< Suc (length ss)] ! (length ss - 1)" using ok by (simp only: steps_ok_def)
  then have num: "es_Number (last ss) = er_StepNumber run"
    using ne ok by (simp add: last_conv_nth steps_ok_def del: upt_Suc)
  have "loadExecutionStep db (er_ID run) (er_StepNumber run) \<noteq> None"
    unfolding loadExecutionStep_def find_None_iff using x num by metis
  then obtain row where row: "loadExecutionStep db (er_ID run) (er_StepNumber run) = Some row" by blast
  then have "row_Step row \<in> set ss" "es_Number (row_Step row) = er_StepNumber run"
    using loadExecutionStep_Some [OF row] by (auto simp: ss_def run_steps_def)
  then have "row_Step row = last ss" using nth_number [OF ok] by blast
  then have "es_CompletedAt (last ss) \<noteq> None"
    using assms(3) row by (auto simp: open_step_def split: if_split_asm)
  moreover have "set ss \<subseteq> insert (last ss) (set (butlast ss))" using ne by (metis append_butlast_last_id set_append list.set Un_insert_right sup_bot_right subset_refl)
  ultimately show ?thesis using ok unfolding steps_ok_def ss_def [symmetric] by blast
qed simp

section \<open>A change of one run keeps the promise about the others\<close>

lemma exec_inv_touch:
  assumes inv: "exec_inv db" and run: "run \<in> set (x_runs db)" "er_ID run' = er_ID run"
    and runs: "x_runs db' = put_row er_ID run' (x_runs db)"
    and events: "x_events db' = x_events db @ evs" "\<forall>e \<in> set evs. ee_RunID e = er_ID run"
    and steps: "distinct (map step_id (x_steps db'))" "\<forall>row \<in> set (x_steps db'). es_RunID (row_Step row) \<in> er_ID ` set (x_runs db)"
    and others: "\<And>rid. rid \<noteq> er_ID run \<Longrightarrow> run_steps db' rid = run_steps db rid"
    and results: "results_ok db'"
    and ok: "exec_ok run' (run_steps db' (er_ID run)) (run_events db (er_ID run) @ evs)"
  shows "exec_inv db'"
proof -
  have keys: "keys_ok db'"
    using inv run runs events steps by (auto simp: exec_inv_def keys_ok_def)
  have ev: "run_events db' rid = run_events db rid @ (if rid = er_ID run then evs else [])" for rid
    using events by (auto simp: run_events_def filter_empty_conv filter_id_conv)
  have "exec_ok r (run_steps db' (er_ID r)) (run_events db' (er_ID r))" if r: "r \<in> set (x_runs db')" for r
  proof (cases "er_ID r = er_ID run")
    case True
    then have "r = run'" using r runs run by (auto simp: put_row_def split: if_split_asm)
    then show ?thesis using ok ev run(2) by simp
  next
    case False
    then have "r \<in> set (x_runs db)" using r runs run(2) by (auto simp: put_row_def split: if_split_asm)
    then show ?thesis using inv others [OF False] ev False by (simp add: exec_inv_def)
  qed
  with keys results show ?thesis by (simp add: exec_inv_def)
qed

text \<open>A step is saved without touching the results: it stays open.\<close>

lemma save_open_step:
  assumes "exec_inv db" and "row \<in> set (x_steps db)" and "es_CompletedAt (row_Step row) = None"
    and "es_ID step = step_id row" and "es_RunID step = es_RunID (row_Step row)" and "es_CompletedAt step = None"
  shows "results_ok (saveExecutionStep db row step)" "distinct (map step_id (x_steps (saveExecutionStep db row step)))"
    "\<forall>r \<in> set (x_steps (saveExecutionStep db row step)). es_RunID (row_Step r) \<in> er_ID ` set (x_runs db)"
proof -
  have keys: "keys_ok db" and res: "results_ok db" using assms(1) by (simp_all add: exec_inv_def)
  have sid: "step_id (saved_step row step) = step_id row" using assms(4) by (simp add: step_id_def saved_step_def)
  have rows: "x_steps (saveExecutionStep db row step) = map (\<lambda>x. if step_id x = step_id row then saved_step row step else x) (x_steps db)"
    by (simp add: saveExecutionStep_def put_row_def sid)
  have other: "step_id x \<noteq> step_id row" if "x \<in> set (x_steps db)" "es_CompletedAt (row_Step x) \<noteq> None" for x
    using step_unique [OF keys that(1) assms(2)] that assms(3) by auto
  show "distinct (map step_id (x_steps (saveExecutionStep db row step)))"
    using keys by (simp add: saveExecutionStep_def keys_ok_def)
  show "\<forall>r \<in> set (x_steps (saveExecutionStep db row step)). es_RunID (row_Step r) \<in> er_ID ` set (x_runs db)"
    using keys assms(2,5) by (auto simp: rows keys_ok_def saved_step_def)
  have "\<exists>r \<in> set (x_steps (saveExecutionStep db row step)). step_id r = res_StepID x \<and> es_CompletedAt (row_Step r) \<noteq> None
      \<and> es_Result (row_Step r) = Some (res_Result x) \<and> es_Actor (row_Step r) = res_Actor x" if xin: "x \<in> set (x_results db)" for x
  proof -
    obtain r where r: "r \<in> set (x_steps db)" "step_id r = res_StepID x" "es_CompletedAt (row_Step r) \<noteq> None"
      "es_Result (row_Step r) = Some (res_Result x)" "es_Actor (row_Step r) = res_Actor x"
      using results_okD [OF res xin] by blast
    have "r \<in> set (x_steps (saveExecutionStep db row step))" using r(1) other [OF r(1,3)] unfolding rows by (auto simp: image_iff)
    then show ?thesis using r by blast
  qed
  moreover have "\<exists>x \<in> set (x_results db). res_StepID x = step_id r"
    if "r \<in> set (x_steps (saveExecutionStep db row step))" "es_CompletedAt (row_Step r) \<noteq> None" for r
    using that res assms(6) unfolding rows results_ok_def by (auto simp: saved_step_def split: if_split_asm)
  ultimately show "results_ok (saveExecutionStep db row step)"
    using res by (simp add: results_ok_def saveExecutionStep_def)
qed

lemma results_ok_cong:
  "x_results db' = x_results db \<Longrightarrow> x_steps db' = x_steps db \<Longrightarrow> results_ok db' \<longleftrightarrow> results_ok db"
  by (simp add: results_ok_def)

lemma run_steps_cong: "x_steps db' = x_steps db \<Longrightarrow> run_steps db' rid = run_steps db rid"
  by (simp add: run_steps_def)

lemma save_into_simps [simp]:
  "x_runs (save_into db r ev) = put_row er_ID r (x_runs db)" "x_events (save_into db r ev) = x_events db @ [ev]"
  "x_steps (save_into db r ev) = x_steps db" "x_results (save_into db r ev) = x_results db"
  "x_reservations (save_into db r ev) = x_reservations db"
  by (simp_all add: save_into_def)

lemma saveExecutionStep_simps [simp]:
  "x_runs (saveExecutionStep db row s) = x_runs db" "x_events (saveExecutionStep db row s) = x_events db"
  "x_results (saveExecutionStep db row s) = x_results db" "x_reservations (saveExecutionStep db row s) = x_reservations db"
  "x_steps (saveExecutionStep db row s) = put_row step_id (saved_step row s) (x_steps db)"
  by (simp_all add: saveExecutionStep_def)

text \<open>The two shapes of a change: the steps stay, or the open step is rewritten and stays open.\<close>

lemma exec_inv_run_only:
  assumes inv: "exec_inv db" and run: "run \<in> set (x_runs db)" "er_ID run' = er_ID run"
    and db1: "x_runs db1 = x_runs db" "x_events db1 = x_events db" "x_steps db1 = x_steps db" "x_results db1 = x_results db"
    and ev: "ee_RunID ev = er_ID run"
    and ok: "exec_ok run' (run_steps db (er_ID run)) (run_events db (er_ID run) @ [ev])"
  shows "exec_inv (save_into db1 run' ev)"
proof (rule exec_inv_touch [OF inv run, where evs = "[ev]"])
  show "results_ok (save_into db1 run' ev)"
    using results_ok_cong [of "save_into db1 run' ev" db] inv db1 by (simp add: exec_inv_def)
  show "exec_ok run' (run_steps (save_into db1 run' ev) (er_ID run)) (run_events db (er_ID run) @ [ev])"
    using ok db1 by (simp add: run_steps_def)
qed (use inv db1 ev in \<open>auto simp: exec_inv_def keys_ok_def run_steps_def\<close>)

lemma exec_inv_open_step:
  assumes inv: "exec_inv db" and run: "run \<in> set (x_runs db)" "er_ID run' = er_ID run"
    and row: "open_step db run = Some row" and step: "es_ID step = step_id row" "es_RunID step = es_RunID (row_Step row)" "es_CompletedAt step = None"
    and ev: "ee_RunID ev = er_ID run"
    and ok: "exec_ok run' (butlast (run_steps db (er_ID run)) @ [step]) (run_events db (er_ID run) @ [ev])"
  shows "exec_inv (save_into (saveExecutionStep db row step) run' ev)"
proof -
  note o = open_step_last [OF inv run(1) row]
  have keys: "keys_ok db" using inv by (simp add: exec_inv_def)
  note sv = save_open_step [OF inv o(1,3) step]
  have rs: "run_steps (save_into (saveExecutionStep db row step) run' ev) rid = run_steps (saveExecutionStep db row step) rid" for rid
    by (rule run_steps_cong) (simp add: save_into_def)
  show ?thesis
  proof (rule exec_inv_touch [OF inv run, where evs = "[ev]"])
    show "results_ok (save_into (saveExecutionStep db row step) run' ev)"
      using sv(1) results_ok_cong [of "save_into (saveExecutionStep db row step) run' ev" "saveExecutionStep db row step"] by simp
    show "distinct (map step_id (x_steps (save_into (saveExecutionStep db row step) run' ev)))" using sv(2) by simp
    show "\<forall>r \<in> set (x_steps (save_into (saveExecutionStep db row step) run' ev)). es_RunID (row_Step r) \<in> er_ID ` set (x_runs db)"
      using sv(3) by simp
    show "run_steps (save_into (saveExecutionStep db row step) run' ev) rid = run_steps db rid" if "rid \<noteq> er_ID run" for rid
      using rs run_steps_save_other [OF keys o(1) step(1,2)] that o(2) by simp
    show "exec_ok run' (run_steps (save_into (saveExecutionStep db row step) run' ev) (er_ID run)) (run_events db (er_ID run) @ [ev])"
      using rs run_steps_save_last [OF keys o(1) step(1,2) o(4)] ok by simp
  qed (use ev in simp_all)
qed

lemma put_row_id: "distinct (map key rows) \<Longrightarrow> r \<in> set rows \<Longrightarrow> put_row key r rows = rows"
  unfolding put_row_def by (rule map_idI) (auto simp: distinct_map dest: inj_onD)

lemma exec_inv_step_only:
  assumes inv: "exec_inv db" and run: "run \<in> set (x_runs db)" and row: "open_step db run = Some row"
    and step: "es_ID step = step_id row" "es_RunID step = es_RunID (row_Step row)" "es_CompletedAt step = None"
    and db': "x_runs db' = x_runs db" "x_events db' = x_events db" "x_results db' = x_results db"
      "x_steps db' = put_row step_id (saved_step row step) (x_steps db)"
    and ok: "exec_ok run (butlast (run_steps db (er_ID run)) @ [step]) (run_events db (er_ID run))"
  shows "exec_inv db'"
proof -
  note o = open_step_last [OF inv run row]
  have keys: "keys_ok db" using inv by (simp add: exec_inv_def)
  note sv = save_open_step [OF inv o(1,3) step]
  have rs: "run_steps db' rid = run_steps (saveExecutionStep db row step) rid" for rid
    by (rule run_steps_cong) (simp add: db')
  show ?thesis
  proof (rule exec_inv_touch [OF inv run refl, where evs = "[]"])
    show "x_runs db' = put_row er_ID run (x_runs db)" using keys run db' by (simp add: put_row_id keys_ok_def)
    show "results_ok db'" using sv(1) results_ok_cong [of db' "saveExecutionStep db row step"] db' by simp
    show "distinct (map step_id (x_steps db'))" using sv(2) db' by simp
    show "\<forall>r \<in> set (x_steps db'). es_RunID (row_Step r) \<in> er_ID ` set (x_runs db)" using sv(3) db' by simp
    show "run_steps db' rid = run_steps db rid" if "rid \<noteq> er_ID run" for rid
      using rs run_steps_save_other [OF keys o(1) step(1,2)] that o(2) by simp
    show "exec_ok run (run_steps db' (er_ID run)) (run_events db (er_ID run) @ [])"
      using rs run_steps_save_last [OF keys o(1) step(1,2) o(4)] ok by simp
  qed (use db' in simp_all)
qed

section \<open>What each change does to the promise about its run\<close>

lemma log_ok_snoc:
  assumes "log_ok r es" and "er_Version r' = er_Version r + 1" and "event_for ev r'"
  shows "log_ok r' (es @ [ev])"
  using assms by (simp add: log_ok_def event_for_def)

lemma exec_ok_same_steps:
  assumes "exec_ok r ss es" and "er_Version r' = er_Version r + 1" and "event_for ev r'"
    and "er_Target r' = er_Target r" and "er_Kind r' = er_Kind r" and "er_Stage r' = er_Stage r" and "er_StepNumber r' = er_StepNumber r"
    and "budget_ok r'"
    and "er_Status r' \<in> unfinished"
  shows "exec_ok r' ss (es @ [ev])"
proof -
  have "log_ok r' (es @ [ev])" using assms(1-3) log_ok_snoc by (auto simp: exec_ok_def)
  moreover have "steps_ok r' ss" "actors_ok r'" using assms(1,4,6,7) by (simp_all add: exec_ok_def steps_ok_def actors_ok_def)
  moreover have "pipeline_ok r' ss"
    using assms(1,5,6,9) unfinished_not_completed [OF assms(9)] unfolding exec_ok_def pipeline_ok_def by simp
  ultimately show ?thesis using assms(8) by (simp add: exec_ok_def)
qed

text \<open>Steps agree in all that the pipeline reads of them.\<close>

definition same_progress :: "execution_step \<Rightarrow> execution_step \<Rightarrow> bool" where
  "same_progress s t \<longleftrightarrow> es_Number t = es_Number s \<and> es_Stage t = es_Stage s \<and> es_Actor t = es_Actor s
     \<and> es_CompletedAt t = es_CompletedAt s \<and> es_Result t = es_Result s \<and> es_Fence s \<le> es_Fence t"

lemma succeeded_same: "same_progress s t \<Longrightarrow> succeeded t \<longleftrightarrow> succeeded s"
  by (simp add: same_progress_def succeeded_def)

lemma evaluated_replace:
  assumes "evaluated (before @ [s])" and "es_Stage t = es_Stage s" and "succeeded s \<Longrightarrow> succeeded t"
  shows "evaluated (before @ [t])"
proof -
  obtain bs e as where eq: "before @ [s] = bs @ e # as" and e: "es_Stage e = ''evaluate''" "succeeded e" "\<forall>x \<in> set as. es_Stage x \<noteq> ''build''"
    using assms(1) by (auto simp: evaluated_def)
  show ?thesis
  proof (cases as rule: rev_cases)
    case Nil
    then have "before = bs" "s = e" using eq by simp_all
    then show ?thesis unfolding evaluated_def using e assms(2,3) by (intro exI [of _ bs] exI [of _ t] exI [of _ "[]"]) simp
  next
    case (snoc as' a)
    then have "before = bs @ e # as'" "s = a" using eq by (simp_all flip: append_assoc append_Cons)
    then show ?thesis unfolding evaluated_def using e assms(2) snoc by (intro exI [of _ bs] exI [of _ e] exI [of _ "as' @ [t]"]) auto
  qed
qed

lemma evaluated_snoc: "evaluated ss \<Longrightarrow> es_Stage s \<noteq> ''build'' \<Longrightarrow> evaluated (ss @ [s])"
  unfolding evaluated_def by (elim exE conjE) (rule_tac x = before in exI, rule_tac x = e in exI, rule_tac x = "after @ [s]" in exI, auto)

lemma evaluated_now: "es_Stage s = ''evaluate'' \<Longrightarrow> succeeded s \<Longrightarrow> evaluated (ss @ [s])"
  unfolding evaluated_def by (rule exI [of _ ss], rule exI [of _ s], rule exI [of _ "[]"]) simp

lemma passed_snoc: "passed (ss @ [s]) stage \<longleftrightarrow> passed ss stage \<or> es_Stage s = stage \<and> succeeded s"
  by (auto simp: passed_def)

text \<open>The open step is rewritten: a new lease, a fence or a bound context.\<close>

lemma exec_ok_rewrite_open:
  assumes ok: "exec_ok r (before @ [s]) es" and open_: "es_CompletedAt s = None" and same: "same_progress s t"
    and r': "er_Target r' = er_Target r" "er_Kind r' = er_Kind r" "er_Stage r' = er_Stage r" "er_StepNumber r' = er_StepNumber r"
    and status: "er_Status r' \<in> unfinished"
    and rest: "budget_ok r'" "log_ok r' es'"
  shows "exec_ok r' (before @ [t]) es'"
proof -
  have ev: "evaluated (before @ [t])" if "evaluated (before @ [s])"
    using evaluated_replace [OF that] same succeeded_same [OF same] by (simp add: same_progress_def)
  have pa: "passed (before @ [t]) p" if "passed (before @ [s]) p" for p
    using that same succeeded_same [OF same] by (auto simp: passed_snoc same_progress_def)
  have old: "pipeline_ok r (before @ [s])" "steps_ok r (before @ [s])" "actors_ok r" using ok by (simp_all add: exec_ok_def)
  have "steps_ok r' (before @ [t])"
    using old(2) r' same by (simp add: steps_ok_def same_progress_def)
  moreover have "actors_ok r'" using old(3) r' by (simp add: actors_ok_def)
  moreover have "pipeline_ok r' (before @ [t])"
    using old(1) status r' ev pa unfinished_not_completed [OF status] unfolding pipeline_ok_def by simp
  ultimately show ?thesis using rest by (simp add: exec_ok_def)
qed

lemma exec_ok_start:
  assumes ok: "exec_ok r ss es" and closed: "\<forall>s \<in> set ss. es_CompletedAt s \<noteq> None"
    and step: "es_Number step = er_StepNumber r + 1" "es_Stage step = er_Stage r" "es_Actor step = run_Actor r" "es_Fence step = 1"
      "es_CompletedAt step = None"
    and r': "er_Target r' = er_Target r" "er_Kind r' = er_Kind r" "er_Stage r' = er_Stage r" "er_StepNumber r' = er_StepNumber r + 1"
    and status: "er_Status r' \<in> unfinished" and rest: "budget_ok r'" "log_ok r' es'"
  shows "exec_ok r' (ss @ [step]) es'"
proof -
  have old: "pipeline_ok r ss" "steps_ok r ss" "actors_ok r" using ok by (simp_all add: exec_ok_def)
  have "steps_ok r' (ss @ [step])"
    using old(2) r' step closed by (simp add: steps_ok_def run_Actor_def)
  moreover have "actors_ok r'" using old(3) r' by (simp add: actors_ok_def)
  moreover have "pipeline_ok r' (ss @ [step])"
  proof -
    have "evaluated (ss @ [step])" if "er_Stage r \<in> {''deliver'', ''verify_delivery''}"
      using that old(1) step(2) by (intro evaluated_snoc) (auto simp: pipeline_ok_def)
    then show ?thesis
      using old(1) status r' unfinished_not_completed [OF status] unfolding pipeline_ok_def by (simp add: passed_snoc)
  qed
  ultimately show ?thesis using rest by (simp add: exec_ok_def)
qed

lemma valid_transition_cases:
  assumes "validExecutionTransition from outcome status to_stage"
  obtains (stay) "status = ''blocked''" "to_stage = from" | (rework) "from = ''evaluate''" "status = ''ready''" "to_stage = ''build''"
  | (finish) "outcome = ''succeeded''" "from \<in> {''verify_delivery'', ''verify_recovery''}" "status = ''completed''" "to_stage = from"
  | (advance) "outcome = ''succeeded''" "status = ''ready''" "from \<notin> {''verify_delivery'', ''verify_recovery''}" "to_stage = next_stage from"
  using assms unfolding validExecutionTransition_def by (auto split: if_split_asm)

lemma next_stage_kind:
  assumes "stage \<in> kind_stages kind" and "stage \<notin> {''verify_delivery'', ''verify_recovery''}"
  shows "next_stage stage \<in> kind_stages kind \<and> required_stage (next_stage stage) = Some stage
    \<and> (next_stage stage = ''deliver'' \<longrightarrow> stage = ''evaluate'') \<and> (next_stage stage = ''verify_delivery'' \<longrightarrow> stage = ''deliver'')"
proof (cases "kind = ''incident''")
  case True
  then have "stage \<in> {''diagnose'', ''remediate''}" using assms by (simp add: kind_stages_def)
  then show ?thesis using True by (elim insertE emptyE) (simp_all add: next_stage_def kind_stages_def required_stage_def)
next
  case False
  then have "stage \<in> {''build'', ''evaluate'', ''deliver''}" using assms by (simp add: kind_stages_def)
  then show ?thesis using False by (elim insertE emptyE) (simp_all add: next_stage_def kind_stages_def required_stage_def)
qed

lemma concluded_run_simps [simp]:
  "er_ID (concluded_run r res st sg) = er_ID r" "er_Version (concluded_run r res st sg) = er_Version r"
  "er_Target (concluded_run r res st sg) = er_Target r" "er_Kind (concluded_run r res st sg) = er_Kind r"
  "er_StepNumber (concluded_run r res st sg) = er_StepNumber r"
  "er_Status (concluded_run r res st sg) = (if er_Status r = ''reconciling'' then
     if rs_Outcome res = ''succeeded'' then ''cancelled'' else ''blocked'' else st)"
  "er_Stage (concluded_run r res st sg) = (if er_Status r = ''reconciling'' then er_Stage r else sg)"
  by (simp_all add: concluded_run_def Let_def)

lemma budget_ok_concluded: "budget_ok (concluded_run r res st sg) \<longleftrightarrow> budget_ok r"
  by (auto simp: budget_ok_def concluded_run_def Let_def split: option.split)

text \<open>A result closes the open step; the run stays at its stage, goes back to building, goes on or is completed.\<close>

lemma pipeline_ok_stay:
  assumes "pipeline_ok r (before @ [s])" and "es_CompletedAt s = None" and "es_Stage t = es_Stage s"
    and "er_Kind r' = er_Kind r" and "er_Stage r' = er_Stage r" and "er_Status r' \<in> unfinished"
  shows "pipeline_ok r' (before @ [t])"
proof -
  have no: "\<not> succeeded s" using assms(2) by (simp add: succeeded_def)
  have "passed (before @ [t]) p" if "passed (before @ [s]) p" for p using that no by (auto simp: passed_snoc)
  moreover have "evaluated (before @ [t])" if "evaluated (before @ [s])" using evaluated_replace [OF that assms(3)] no by blast
  ultimately show ?thesis
    using assms unfinished_not_completed [OF assms(6)] unfolding pipeline_ok_def by simp
qed

lemma pipeline_ok_result:
  assumes pipe: "pipeline_ok r (before @ [s])" and s: "es_CompletedAt s = None" "es_Stage s = er_Stage r"
    and t: "es_Stage t = es_Stage s" "rs_Outcome res = ''succeeded'' \<Longrightarrow> succeeded t"
    and valid: "validExecutionTransition (es_Stage s) (rs_Outcome res) st sg"
    and r': "er_Kind r' = er_Kind r" "er_Stage r' = sg" "er_Status r' = st"
  shows "pipeline_ok r' (before @ [t])"
  using valid
proof (cases rule: valid_transition_cases)
  case stay
  then show ?thesis using pipeline_ok_stay [OF pipe s(1) t(1), of r'] r' s by (simp add: unfinished_def)
next
  case rework
  then have "er_Kind r \<noteq> ''incident''" using pipe s by (auto simp: pipeline_ok_def kind_stages_def split: if_split_asm)
  then show ?thesis using rework r' by (simp add: pipeline_ok_def unfinished_def required_stage_def kind_stages_def)
next
  case finish
  have no: "\<not> succeeded s" using s(1) by (simp add: succeeded_def)
  have "passed (before @ [t]) p" if "passed (before @ [s]) p" for p using that no by (auto simp: passed_snoc)
  moreover have "evaluated (before @ [t])" if "evaluated (before @ [s])" using evaluated_replace [OF that t(1)] no by blast
  ultimately show ?thesis
    using finish r' s t pipe unfolding pipeline_ok_def by simp
next
  case advance
  have stage: "er_Stage r \<in> kind_stages (er_Kind r)" using pipe unfolding pipeline_ok_def by blast
  have n: "sg \<in> kind_stages (er_Kind r)" "required_stage sg = Some (es_Stage s)"
    "sg = ''deliver'' \<Longrightarrow> es_Stage s = ''evaluate''" "sg = ''verify_delivery'' \<Longrightarrow> es_Stage s = ''deliver''"
    using next_stage_kind [OF stage] advance(3,4) s(2) by auto
  have suc: "succeeded t" using t(2) advance(1) by simp
  have "evaluated (before @ [t])" if "sg \<in> {''deliver'', ''verify_delivery''}"
  proof (cases "sg = ''deliver''")
    case True
    then show ?thesis using suc t(1) n(3) by (simp add: evaluated_now)
  next
    case False
    then have "es_Stage s = ''deliver''" using n(4) that by blast
    then have "evaluated (before @ [s])" using pipe s(2) by (simp add: pipeline_ok_def)
    moreover have "\<not> succeeded s" using s(1) by (simp add: succeeded_def)
    ultimately show ?thesis using evaluated_replace [of before s t] t(1) by blast
  qed
  then show ?thesis
    using n(1,2) suc r' t(1) advance(2) unfolding pipeline_ok_def by (simp add: passed_snoc unfinished_def)
qed

lemma open_step_ok:
  assumes "exec_inv db" and "run \<in> set (x_runs db)" and "open_step db run = Some row"
  shows "exec_ok run (butlast (run_steps db (er_ID run)) @ [row_Step row]) (run_events db (er_ID run))"
  using subst [OF open_step_last(4) [OF assms], of "\<lambda>ss. exec_ok run ss (run_events db (er_ID run))"] assms(1,2)
  by (simp only: exec_inv_def)

section \<open>Every change keeps the invariant\<close>

lemma exec_inv_run: "exec_inv db \<Longrightarrow> r \<in> set (x_runs db) \<Longrightarrow> exec_ok r (run_steps db (er_ID r)) (run_events db (er_ID r))"
  by (simp add: exec_inv_def)

lemma exec_inv_create:
  assumes inv: "exec_inv db" and req: "fresh_request inp" and fresh: "find_row er_ID (er_ID inp) (x_runs db) = None"
    and new: "er_Status inp = ''ready''" "er_Version inp = 0" "er_StepNumber inp = 0" "er_Usage inp = zero_usage"
      "er_Kind inp \<in> {''feature'', ''incident''}" and ev: "event_for ev (saved_run env 0 inp)"
  shows "exec_inv (db\<lparr>x_runs := x_runs db @ [saved_run env 0 inp], x_events := x_events db @ [ev]\<rparr>)" (is "exec_inv ?db'")
proof -
  have keys: "keys_ok db" using inv by (simp add: exec_inv_def)
  have id: "er_ID inp \<notin> er_ID ` set (x_runs db)" using fresh by (simp add: find_row_None)
  have ss: "run_steps db (er_ID inp) = []" "run_events db (er_ID inp) = []"
  proof -
    have "es_RunID (row_Step x) \<noteq> er_ID inp" if "x \<in> set (x_steps db)" for x using keys id that by (metis keys_ok_def)
    moreover have "ee_RunID e \<noteq> er_ID inp" if "e \<in> set (x_events db)" for e using keys id that by (metis keys_ok_def)
    ultimately show "run_steps db (er_ID inp) = []" "run_events db (er_ID inp) = []"
      by (simp_all add: run_steps_def run_events_def)
  qed
  have evid: "ee_RunID ev = er_ID inp" using ev by (simp add: event_for_def)
  have steps: "run_steps ?db' rid = run_steps db rid" for rid by (simp add: run_steps_def)
  have events: "run_events ?db' rid = run_events db rid @ (if rid = er_ID inp then [ev] else [])" for rid
    using evid by (simp add: run_events_def)
  have "log_ok (saved_run env 0 inp) [ev]" using ev new(2) by (simp add: log_ok_def event_for_def)
  moreover have "budget_ok (saved_run env 0 inp)"
    using req new(4) by (auto simp: budget_ok_def fresh_request_def budget_Validate_def zero_usage_def)
  moreover have "pipeline_ok (saved_run env 0 inp) []"
    using req new(1,5) by (auto simp: pipeline_ok_def fresh_request_def kind_stages_def required_stage_def unfinished_def)
  moreover have "steps_ok (saved_run env 0 inp) []" "actors_ok (saved_run env 0 inp)"
    using req new(3) by (simp_all add: steps_ok_def actors_ok_def fresh_request_def)
  ultimately have ok: "exec_ok (saved_run env 0 inp) [] [ev]" by (simp add: exec_ok_def)
  have "exec_ok r (run_steps ?db' (er_ID r)) (run_events ?db' (er_ID r))" if r: "r \<in> set (x_runs ?db')" for r
  proof (cases "r \<in> set (x_runs db)")
    case True
    then have "er_ID r \<noteq> er_ID inp" using id by (metis imageI)
    then show ?thesis using exec_inv_run [OF inv True] steps events by simp
  next
    case False
    then have "r = saved_run env 0 inp" using r by simp
    then show ?thesis using ok ss steps events by simp
  qed
  moreover have "keys_ok ?db'" using keys id evid by (auto simp: keys_ok_def)
  moreover have "results_ok ?db'" using inv results_ok_cong [of ?db' db] by (simp add: exec_inv_def)
  ultimately show ?thesis by (simp add: exec_inv_def)
qed

lemma budget_ok_claimed:
  assumes "budget_ok r" and "\<not> model_budget_exhausted r pkg"
  shows "budget_ok (claimed_run r pkg)"
  using assms by (auto simp: budget_ok_def claimed_run_def charged_usage_def model_budget_exhausted_def Let_def)

lemma budget_ok_cong: "er_Usage r' = er_Usage r \<Longrightarrow> er_Target r' = er_Target r \<Longrightarrow> budget_ok r' \<longleftrightarrow> budget_ok r"
  by (simp add: budget_ok_def)

lemma claimed_run_simps [simp]:
  "er_ID (claimed_run r pkg) = er_ID r" "er_Version (claimed_run r pkg) = er_Version r" "er_Target (claimed_run r pkg) = er_Target r"
  "er_Kind (claimed_run r pkg) = er_Kind r" "er_Stage (claimed_run r pkg) = er_Stage r" "er_StepNumber (claimed_run r pkg) = er_StepNumber r"
  by (simp_all add: claimed_run_def)

lemma claimed_unfinished: "er_Status r \<in> unfinished \<Longrightarrow> er_Status (claimed_run r pkg) \<in> unfinished"
  by (simp add: claimed_run_def unfinished_def)

lemma leased_step_same: "same_progress s (leased_step s now token pkg run)"
  by (simp add: same_progress_def leased_step_def)

lemma exec_inv_start:
  assumes inv: "exec_inv db" and run: "run \<in> set (x_runs db)" and st: "er_Status run \<in> unfinished" and none: "open_step db run = None"
    and budget: "\<not> model_budget_exhausted run (run_Package run)"
    and step: "step = leased_step (fresh_step sid run (run_Actor run) (run_Package run) now) now token (run_Package run) run"
    and fresh: "find_row step_id sid (x_steps db) = None"
    and run': "run' = (claimed_run run (run_Package run))\<lparr>er_StepNumber := er_StepNumber run + 1\<rparr>"
    and ev: "event_for ev (saved_run env 1 run')" and row: "row_Step row = step"
  shows "exec_inv (save_into (db\<lparr>x_steps := x_steps db @ [row]\<rparr>) (saved_run env 1 run') ev)" (is "exec_inv ?db'")
proof (rule exec_inv_touch [OF inv run, where evs = "[ev]"])
  have keys: "keys_ok db" and ok: "exec_ok run (run_steps db (er_ID run)) (run_events db (er_ID run))"
    using inv run by (simp_all add: exec_inv_def)
  have sf: "es_ID step = sid" "es_RunID step = er_ID run" "es_Number step = er_StepNumber run + 1" "es_Stage step = er_Stage run"
    "es_Actor step = run_Actor run" "es_Fence step = 1" "es_CompletedAt step = None"
    by (simp_all add: step leased_step_def fresh_step_def)
  have rs: "run_steps ?db' rid = run_steps db rid @ (if rid = er_ID run then [step] else [])" for rid
    using row sf(2) by (simp add: run_steps_def)
  show "er_ID (saved_run env 1 run') = er_ID run" by (simp add: run')
  show "\<forall>e \<in> set [ev]. ee_RunID e = er_ID run" using ev by (simp add: event_for_def run')
  show "distinct (map step_id (x_steps ?db'))"
    using keys fresh row sf(1) by (simp add: keys_ok_def find_row_None step_id_def)
  show "\<forall>r \<in> set (x_steps ?db'). es_RunID (row_Step r) \<in> er_ID ` set (x_runs db)"
    using keys run row sf(2) by (simp add: keys_ok_def)
  show "run_steps ?db' rid = run_steps db rid" if "rid \<noteq> er_ID run" for rid using rs that by simp
  show "results_ok ?db'"
    using inv row sf(7) unfolding exec_inv_def results_ok_def by auto
  have "log_ok (saved_run env 1 run') (run_events db (er_ID run) @ [ev])"
    using ok ev by (intro log_ok_snoc [where r = run]) (simp_all add: exec_ok_def run')
  moreover have "budget_ok (saved_run env 1 run')"
    using ok budget budget_ok_claimed [of run] budget_ok_cong [of "saved_run env 1 run'" "claimed_run run (run_Package run)"]
    by (simp add: exec_ok_def run')
  ultimately show "exec_ok (saved_run env 1 run') (run_steps ?db' (er_ID run)) (run_events db (er_ID run) @ [ev])"
    using exec_ok_start [OF ok open_step_none [OF inv run none] sf(3-7), of "saved_run env 1 run'"] rs claimed_unfinished [OF st]
    by (simp add: run')
qed (simp_all add: save_into_def)

text \<open>A result completes the open step and is written once.\<close>

lemma save_result:
  assumes inv: "exec_inv db" and row: "row \<in> set (x_steps db)" "es_CompletedAt (row_Step row) = None"
    and step: "es_ID step = step_id row" "es_RunID step = es_RunID (row_Step row)" "es_CompletedAt step \<noteq> None"
      "es_Result step = Some (res_Result x)" "es_Actor step = res_Actor x" and x: "res_StepID x = step_id row"
    and fresh: "find_row res_StepID (step_id row) (x_results db) = None"
    and db': "x_steps db' = put_row step_id (saved_step row step) (x_steps db)" "x_results db' = x_results db @ [x]"
  shows "results_ok db'"
proof -
  have keys: "keys_ok db" and res: "results_ok db" using inv by (simp_all add: exec_inv_def)
  have sid: "step_id (saved_step row step) = step_id row" using step(1) by (simp add: step_id_def saved_step_def)
  have rows: "x_steps db' = map (\<lambda>x. if step_id x = step_id row then saved_step row step else x) (x_steps db)"
    by (simp add: db'(1) put_row_def sid)
  have new: "saved_step row step \<in> set (x_steps db')" using row(1) unfolding rows by (auto simp: image_iff)
  have other: "step_id r \<noteq> step_id row" if "r \<in> set (x_steps db)" "es_CompletedAt (row_Step r) \<noteq> None" for r
    using step_unique [OF keys that(1) row(1)] that row(2) by auto
  have a: "distinct (map res_StepID (x_results db'))"
    using res fresh x by (simp add: db'(2) results_ok_def find_row_None)
  have b: "\<exists>r \<in> set (x_steps db'). step_id r = res_StepID y \<and> es_CompletedAt (row_Step r) \<noteq> None
      \<and> es_Result (row_Step r) = Some (res_Result y) \<and> es_Actor (row_Step r) = res_Actor y" if y: "y \<in> set (x_results db')" for y
  proof (cases "y \<in> set (x_results db)")
    case True
    then obtain r where r: "r \<in> set (x_steps db)" "step_id r = res_StepID y" "es_CompletedAt (row_Step r) \<noteq> None"
      "es_Result (row_Step r) = Some (res_Result y)" "es_Actor (row_Step r) = res_Actor y"
      using results_okD [OF res] by blast
    have "r \<in> set (x_steps db')" using r(1) other [OF r(1,3)] unfolding rows by (auto simp: image_iff)
    then show ?thesis using r by blast
  next
    case False
    then have "y = x" using y by (simp add: db'(2))
    then show ?thesis using new step sid x by (intro bexI [OF _ new]) (simp add: saved_step_def step_id_def)
  qed
  have c: "\<exists>y \<in> set (x_results db'). res_StepID y = step_id r" if "r \<in> set (x_steps db')" "es_CompletedAt (row_Step r) \<noteq> None" for r
  proof (cases "r = saved_step row step")
    case True
    then show ?thesis using sid x by (simp add: db'(2))
  next
    case False
    then have "r \<in> set (x_steps db)" using that(1) unfolding rows by (auto split: if_split_asm)
    then have "\<exists>y \<in> set (x_results db). res_StepID y = step_id r" using res that(2) unfolding results_ok_def by blast
    then show ?thesis by (auto simp: db'(2))
  qed
  from a b c show ?thesis unfolding results_ok_def by blast
qed

lemma exec_inv_result:
  assumes inv: "exec_inv db" and run: "run \<in> set (x_runs db)" and st: "er_Status run \<in> {''running'', ''reconciling''}"
    and row: "open_step db run = Some row" and actor: "es_Actor (row_Step row) = run_Actor run"
    and valid: "validExecutionTransition (es_Stage (row_Step row)) (rs_Outcome res) status stage"
    and fresh: "find_row res_StepID (step_id row) (x_results db) = None"
    and ev: "event_for ev (saved_run env 3 (concluded_run run res status stage))"
    and db1: "x_runs db1 = x_runs db" "x_events db1 = x_events db"
      "x_steps db1 = put_row step_id (saved_step row (completed_step env (row_Step row) res evidence)) (x_steps db)"
      "x_results db1 = x_results db @ [\<lparr>res_StepID = step_id row, res_Actor = run_Actor run, res_SHA256 = sha, res_Result = res\<rparr>]"
  shows "exec_inv (save_into db1 (saved_run env 3 (concluded_run run res status stage)) ev)" (is "exec_inv ?db'")
proof -
  define t where "t = completed_step env (row_Step row) res evidence"
  define r' where "r' = saved_run env 3 (concluded_run run res status stage)"
  note o = open_step_last [OF inv run row]
  have keys: "keys_ok db" and ok: "exec_ok run (run_steps db (er_ID run)) (run_events db (er_ID run))"
    using inv run by (simp_all add: exec_inv_def)
  have tf: "es_ID t = step_id row" "es_RunID t = es_RunID (row_Step row)" "es_Stage t = es_Stage (row_Step row)"
    "es_Actor t = es_Actor (row_Step row)" "es_Number t = es_Number (row_Step row)" "es_Fence t = es_Fence (row_Step row)"
    "es_Result t = Some res" "es_CompletedAt t \<noteq> None"
    by (simp_all add: t_def completed_step_def step_id_def)
  have steps1: "run_steps db1 rid = run_steps (saveExecutionStep db row t) rid" for rid
    by (rule run_steps_cong) (simp add: db1(3) t_def)
  define before where "before = butlast (run_steps db (er_ID run))"
  have ss: "run_steps db (er_ID run) = before @ [row_Step row]" using o(4) by (simp add: before_def)
  have stage: "es_Stage (row_Step row) = er_Stage run" using ok o(3) ss by (simp add: exec_ok_def steps_ok_def)
  have pipe: "pipeline_ok run (before @ [row_Step row])" and stp: "steps_ok run (before @ [row_Step row])" using ok ss by (simp_all add: exec_ok_def)
  have suc: "succeeded t" if "rs_Outcome res = ''succeeded''" using that tf by (simp add: succeeded_def)
  have "pipeline_ok r' (before @ [t])"
  proof (cases "er_Status run = ''reconciling''")
    case True
    then show ?thesis by (intro pipeline_ok_stay [OF pipe o(3) tf(3)]) (auto simp: r'_def unfinished_def)
  next
    case False
    then show ?thesis using pipeline_ok_result [OF pipe o(3) stage tf(3) suc valid, of r'] by (simp add: r'_def)
  qed
  moreover have "steps_ok r' (before @ [t])"
    using stp tf by (auto simp: steps_ok_def r'_def)
  moreover have "actors_ok r'" "budget_ok r'"
    using ok budget_ok_concluded [of run] budget_ok_cong [of r' "concluded_run run res status stage"]
    by (simp_all add: exec_ok_def actors_ok_def r'_def)
  moreover have "log_ok r' (run_events db (er_ID run) @ [ev])"
    using ok ev by (intro log_ok_snoc [where r = run]) (simp_all add: exec_ok_def r'_def)
  ultimately have ok': "exec_ok r' (before @ [t]) (run_events db (er_ID run) @ [ev])" by (simp add: exec_ok_def)
  show ?thesis
  proof (rule exec_inv_touch [OF inv run, where evs = "[ev]"])
    show "er_ID (saved_run env 3 (concluded_run run res status stage)) = er_ID run" by simp
    show "\<forall>e \<in> set [ev]. ee_RunID e = er_ID run" using ev by (simp add: event_for_def)
    show "distinct (map step_id (x_steps ?db'))" using keys by (simp add: db1 keys_ok_def)
    show "\<forall>r \<in> set (x_steps ?db'). es_RunID (row_Step r) \<in> er_ID ` set (x_runs db)"
      using keys o(1) tf(2) by (auto simp: db1 keys_ok_def put_row_def saved_step_def t_def)
    show "run_steps ?db' rid = run_steps db rid" if "rid \<noteq> er_ID run" for rid
      using run_steps_save_other [OF keys o(1) tf(1,2)] that o(2) steps1 [of rid] run_steps_cong [of ?db' db1] by simp
    show "results_ok ?db'"
      by (rule save_result [OF inv o(1,3) tf(1,2,8), where x = "\<lparr>res_StepID = step_id row, res_Actor = run_Actor run, res_SHA256 = sha, res_Result = res\<rparr>"])
        (use tf actor fresh in \<open>simp_all add: db1 t_def\<close>)
    show "exec_ok (saved_run env 3 (concluded_run run res status stage)) (run_steps ?db' (er_ID run)) (run_events db (er_ID run) @ [ev])"
      using ok' run_steps_save_last [OF keys o(1) tf(1,2) ss] steps1 run_steps_cong [of ?db' db1] by (simp add: r'_def)
  qed (simp_all add: db1)
qed

lemma control_effect_cases:
  assumes "control_effect env db run action reason = Inr (run', db1)"
  obtains (reconcile) row where "action = ''reconcile''" "open_step db run = Some row" "er_Stage run \<in> {''deliver'', ''remediate''}"
      "es_ContextSHA (row_Step row) \<noteq> []"
      "run' = run\<lparr>er_OwnerCredential := caller_credential env, er_Deadline := env_clock env 0 + seconds 300,
                  er_Status := ''reconciling'', er_Blockers := [''operator_authorized_effect_read_back_only'']\<rparr>"
      "db1 = saveExecutionStep db row (fenced_step (row_Step row) (env_clock env 1))"
  | (read_back) row where "action \<in> {''pause'', ''cancel''}" "open_step db run = Some row" "er_Stage run \<in> {''deliver'', ''remediate''}"
      "run' = run\<lparr>er_Status := ''reconciling'', er_Blockers := [''cancellation_requires_effect_read_back'']\<rparr>" "db1 = db"
  | (fence) row where "action \<in> {''pause'', ''cancel''}" "open_step db run = Some row" "er_Stage run \<notin> {''deliver'', ''remediate''}"
      "run' = run\<lparr>er_Status := (if action = ''cancel'' then ''cancelled'' else ''paused''), er_Blockers := [reason]\<rparr>"
      "db1 = saveExecutionStep db row (fenced_step (row_Step row) (env_clock env 1))"
  | (idle) "action \<in> {''pause'', ''cancel''}" "open_step db run = None"
      "run' = run\<lparr>er_Status := (if action = ''cancel'' then ''cancelled'' else ''paused''), er_Blockers := [reason]\<rparr>" "db1 = db"
  | (resume) "action = ''resume''" "er_Status run \<in> {''paused'', ''blocked''}" "executionOwner env db run"
      "lockExecutionRequirements env db run = None" "env_clock env 0 < er_Deadline run"
      "run' = run\<lparr>er_Status := ''ready'', er_Blockers := []\<rparr>" "db1 = db"
proof -
  note eq = assms [unfolded control_effect_def]
  consider "action = ''reconcile''" | "action \<in> {''pause'', ''cancel''}" | "action = ''resume''"
    using eq by (auto split: if_split_asm)
  then show ?thesis
  proof cases
    case 1
    then obtain row where row: "open_step db run = Some row" using eq by (cases "open_step db run") auto
    then show ?thesis using eq 1 by (intro that(1) [OF 1 row]) (auto split: if_split_asm)
  next
    case 2
    show ?thesis
    proof (cases "open_step db run")
      case None
      with eq 2 show ?thesis by (intro that(4)) auto
    next
      case (Some row)
      show ?thesis
      proof (cases "er_Stage run \<in> {''deliver'', ''remediate''}")
        case True
        with eq 2 Some show ?thesis by (intro that(2) [OF 2 Some True]) auto
      next
        case False
        with eq 2 Some show ?thesis by (intro that(3) [OF 2 Some False]) auto
      qed
    qed
  next
    case 3
    with eq show ?thesis by (intro that(5)) (auto split: option.split_asm if_split_asm)
  qed
qed

lemma fenced_step_same: "same_progress s (fenced_step s now)"
  by (simp add: same_progress_def fenced_step_def)

lemma exec_inv_control:
  assumes inv: "exec_inv db" and run: "run \<in> set (x_runs db)"
    and eff: "control_effect env db run action reason = Inr (run', db1)" and ev: "event_for ev (saved_run env 2 run')"
  shows "exec_inv (save_into db1 (saved_run env 2 run') ev)"
proof -
  have ok: "exec_ok run (run_steps db (er_ID run)) (run_events db (er_ID run))" using inv run by (simp add: exec_inv_def)
  have same: "er_ID run' = er_ID run" "er_Version run' = er_Version run" "er_Target run' = er_Target run" "er_Kind run' = er_Kind run"
    "er_Stage run' = er_Stage run" "er_StepNumber run' = er_StepNumber run" "er_Usage run' = er_Usage run" "er_Status run' \<in> unfinished"
    using eff by (cases rule: control_effect_cases; simp add: unfinished_def)+
  have evid: "ee_RunID ev = er_ID run" using ev same by (simp add: event_for_def)
  have bud: "budget_ok (saved_run env 2 run')" using ok same budget_ok_cong [of "saved_run env 2 run'" run] by (simp add: exec_ok_def)
  have keep: "exec_ok (saved_run env 2 run') (run_steps db (er_ID run)) (run_events db (er_ID run) @ [ev])"
    by (rule exec_ok_same_steps [OF ok]) (use same ev bud in simp_all)
  have fence: "exec_inv (save_into (saveExecutionStep db row (fenced_step (row_Step row) now)) (saved_run env 2 run') ev)"
    if row: "open_step db run = Some row" for row now
  proof (rule exec_inv_open_step [OF inv run _ row _ _ _ evid])
    note o = open_step_last [OF inv run row]
    have "log_ok (saved_run env 2 run') (run_events db (er_ID run) @ [ev])" using keep by (simp add: exec_ok_def)
    then show "exec_ok (saved_run env 2 run') (butlast (run_steps db (er_ID run)) @ [fenced_step (row_Step row) now])
        (run_events db (er_ID run) @ [ev])"
      using exec_ok_rewrite_open [OF open_step_ok [OF inv run row] o(3) fenced_step_same, of "saved_run env 2 run'"] same bud by simp
  qed (use same open_step_last(3) [OF inv run row] in \<open>simp_all add: fenced_step_def step_id_def\<close>)
  have plain: "exec_inv (save_into db (saved_run env 2 run') ev)"
    using exec_inv_run_only [OF inv run, of "saved_run env 2 run'" db ev] keep evid same by simp
  from eff show ?thesis
    by (cases rule: control_effect_cases) (use fence plain in simp_all)
qed

theorem exec_change_inv:
  assumes "exec_change db db'" and inv: "exec_inv db"
  shows "exec_inv db'"
  using assms(1)
proof cases
  case (create inp ev env)
  then show ?thesis using exec_inv_create [OF inv] by blast
next
  case (block run ev env c reason)
  have ok: "exec_ok run (run_steps db (er_ID run)) (run_events db (er_ID run))" using inv block by (simp add: exec_inv_def)
  have bud: "budget_ok (saved_run env c (blocked_run run reason))"
    using ok budget_ok_cong [of "saved_run env c (blocked_run run reason)" run] by (simp add: exec_ok_def blocked_run_def)
  have "exec_ok (saved_run env c (blocked_run run reason)) (run_steps db (er_ID run)) (run_events db (er_ID run) @ [ev])"
    by (rule exec_ok_same_steps [OF ok]) (use block bud in \<open>simp_all add: blocked_run_def unfinished_def\<close>)
  then show ?thesis
    using exec_inv_run_only [OF inv block(2), of "saved_run env c (blocked_run run reason)" db ev] block
    by (simp add: event_for_def blocked_run_def)
next
  case (start run env step sid now token run' ev)
  have "er_Status run \<in> unfinished" using start by (auto simp: unfinished_def)
  then show ?thesis using exec_inv_start [OF inv start(2) _ start(4,5,7,8,10,11)] start(1) by simp
next
  case (reclaim run row now env ev token)
  have ok: "exec_ok run (run_steps db (er_ID run)) (run_events db (er_ID run))" using inv reclaim by (simp add: exec_inv_def)
  note o = open_step_last [OF inv reclaim(2,4)]
  have st: "er_Status run \<in> unfinished" using reclaim by (auto simp: unfinished_def)
  have bud: "budget_ok (saved_run env 1 (claimed_run run (run_Package run)))"
    using ok reclaim budget_ok_claimed [of run] budget_ok_cong [of "saved_run env 1 (claimed_run run (run_Package run))" "claimed_run run (run_Package run)"]
    by (simp add: exec_ok_def)
  have "log_ok (saved_run env 1 (claimed_run run (run_Package run))) (run_events db (er_ID run) @ [ev])"
    using ok reclaim by (intro log_ok_snoc [where r = run]) (simp_all add: exec_ok_def)
  then have "exec_ok (saved_run env 1 (claimed_run run (run_Package run)))
      (butlast (run_steps db (er_ID run)) @ [leased_step (row_Step row) now token (run_Package run) run]) (run_events db (er_ID run) @ [ev])"
    using exec_ok_rewrite_open [OF open_step_ok [OF inv reclaim(2,4)] o(3) leased_step_same, of "saved_run env 1 (claimed_run run (run_Package run))"]
      claimed_unfinished [OF st] bud by simp
  then show ?thesis
    using exec_inv_open_step [OF inv reclaim(2) _ reclaim(4), of "saved_run env 1 (claimed_run run (run_Package run))"] o reclaim
    by (simp add: leased_step_def step_id_def event_for_def)
next
  case (result run row res status stage ev env db1 evidence blobs arts)
  then show ?thesis using exec_inv_result [OF inv result(2,3,4,5,8,9,10), of db1] by simp
next
  case (control run env action reason run' db1 ev)
  then show ?thesis using exec_inv_control [OF inv] by blast
next
  case (reserve run row q ev env rs)
  have ok: "exec_ok run (run_steps db (er_ID run)) (run_events db (er_ID run))" using inv reserve by (simp add: exec_inv_def)
  have bud: "budget_ok (saved_run env 2 (reserved_run run q))"
    using ok reserve by (auto simp: exec_ok_def budget_ok_def reserved_run_def Let_def)
  have "exec_ok (saved_run env 2 (reserved_run run q)) (run_steps db (er_ID run)) (run_events db (er_ID run) @ [ev])"
    by (rule exec_ok_same_steps [OF ok]) (use reserve bud in \<open>auto simp: reserved_run_def unfinished_def\<close>)
  then show ?thesis
    using exec_inv_run_only [OF inv reserve(2), of "saved_run env 2 (reserved_run run q)" "db\<lparr>x_reservations := rs\<rparr>" ev] reserve
    by (simp add: event_for_def reserved_run_def)
next
  case (record_artifact run row blobs arts)
  then show ?thesis using inv by (simp add: exec_inv_def keys_ok_def results_ok_def run_steps_def run_events_def)
next
  case (bind_context run row sha blobs arts)
  have ok: "exec_ok run (run_steps db (er_ID run)) (run_events db (er_ID run))" using inv bind_context by (simp add: exec_inv_def)
  have st: "er_Status run \<in> unfinished" using bind_context by (auto simp: unfinished_def)
  note o = open_step_last [OF inv bind_context(2,4)]
  have "exec_ok run (butlast (run_steps db (er_ID run)) @ [(row_Step row)\<lparr>es_ContextSHA := sha\<rparr>]) (run_events db (er_ID run))"
    by (rule exec_ok_rewrite_open [OF open_step_ok [OF inv bind_context(2,4)] o(3)]) (use ok st in \<open>simp_all add: same_progress_def exec_ok_def\<close>)
  then show ?thesis using exec_inv_step_only [OF inv bind_context(2,4), of "(row_Step row)\<lparr>es_ContextSHA := sha\<rparr>" db'] o(3)
    unfolding bind_context(1) by (simp add: step_id_def)
qed

end
