(* ===== verification/ExecHistory.thy ===== *)
theory ExecHistory
  imports ExecInv
begin

text \<open>
  Correctness of the execution store along every sequence of operations: budgets, the event log, leases and
  fences, the order of the stages, independent evaluation and the finality of terminal runs.
\<close>

section \<open>The store as a transition system\<close>

definition same_exec :: "exec_db \<Rightarrow> exec_db \<Rightarrow> bool" where
  "same_exec db db' \<longleftrightarrow> x_runs db' = x_runs db \<and> x_steps db' = x_steps db \<and> x_events db' = x_events db \<and> x_results db' = x_results db"

text \<open>
  One step is one call of the repository with arbitrary arguments, caller and clock readings, or any change of the tables the
  store only reads (principals, credentials, roles, product records, code heads, package activations) or shares.
\<close>

inductive x_step :: "exec_db \<Rightarrow> exec_db \<Rightarrow> bool" where
  create: "fresh_request inp \<Longrightarrow> CreateExecution env db inp = (r, db') \<Longrightarrow> x_step db db'"
| claim: "ClaimExecution env db project rid actor token = (rc, db') \<Longrightarrow> x_step db db'"
| complete: "CompleteExecution env db l actor res evidence status stage = (r, db') \<Longrightarrow> x_step db db'"
| control: "ControlExecution env db project rid actor version action reason = (r, db') \<Longrightarrow> x_step db db'"
| reserve: "ReserveExecutionSource env db l actor q = (ru, db') \<Longrightarrow> x_step db db'"
| record_artifact: "RecordExecutionArtifact env db l actor a bindContext = (ru, db') \<Longrightarrow> x_step db db'"
| elsewhere: "same_exec db db' \<Longrightarrow> x_step db db'"

definition x_start :: "exec_db \<Rightarrow> bool" where
  "x_start db \<longleftrightarrow> x_runs db = [] \<and> x_steps db = [] \<and> x_events db = [] \<and> x_results db = []"

lemma x_step_change: "x_step db db' \<Longrightarrow> same_exec db db' \<or> exec_change db db'"
proof (induction rule: x_step.induct)
  case (create inp env db r db')
  then show ?case using CreateExecution_change same_exec_def by blast
next
  case (claim env db project rid actor token rc db')
  then show ?case using ClaimExecution_change same_exec_def by blast
next
  case (complete env db l actor res evidence status stage r db')
  then show ?case using CompleteExecution_change same_exec_def by blast
next
  case (control env db project rid actor version action reason r db')
  then show ?case using ControlExecution_change same_exec_def by blast
next
  case (reserve env db l actor q ru db')
  then show ?case using ReserveExecutionSource_change same_exec_def by blast
next
  case (record_artifact env db l actor a bindContext ru db')
  then show ?case using RecordExecutionArtifact_change same_exec_def by blast
qed simp

lemma exec_inv_same: "same_exec db db' \<Longrightarrow> exec_inv db \<Longrightarrow> exec_inv db'"
  by (simp add: same_exec_def exec_inv_def keys_ok_def results_ok_def run_steps_def run_events_def)

section \<open>What later states keep\<close>

text \<open>The contract of a run never changes, its version only grows, and a terminal run stays as it is.\<close>

definition contract :: "execution_run \<Rightarrow> execution_run \<Rightarrow> bool" where
  "contract r r' \<longleftrightarrow> er_ID r' = er_ID r \<and> er_ProjectID r' = er_ProjectID r \<and> er_ProductID r' = er_ProductID r \<and> er_Kind r' = er_Kind r
     \<and> er_RepositoryRevision r' = er_RepositoryRevision r \<and> er_Intent r' = er_Intent r \<and> er_Bindings r' = er_Bindings r
     \<and> er_Owner r' = er_Owner r \<and> er_Target r' = er_Target r \<and> er_Packages r' = er_Packages r
     \<and> er_IdempotencyKey r' = er_IdempotencyKey r \<and> er_RequestSHA256 r' = er_RequestSHA256 r \<and> er_CreatedAt r' = er_CreatedAt r"

definition terminal :: "execution_run \<Rightarrow> bool" where
  "terminal r \<longleftrightarrow> er_Status r \<in> {''completed'', ''cancelled''}"

definition exec_run_later :: "execution_run \<Rightarrow> execution_run \<Rightarrow> bool" where
  "exec_run_later r r' \<longleftrightarrow> contract r r' \<and> er_Version r \<le> er_Version r' \<and> (terminal r \<longrightarrow> r' = r)"

definition step_later :: "execution_step \<Rightarrow> execution_step \<Rightarrow> bool" where
  "step_later s t \<longleftrightarrow> es_RunID t = es_RunID s \<and> es_Number t = es_Number s \<and> es_Stage t = es_Stage s \<and> es_Actor t = es_Actor s
     \<and> es_PackageSHA t = es_PackageSHA s \<and> es_Fence s \<le> es_Fence t \<and> (es_CompletedAt s \<noteq> None \<longrightarrow> t = s)
     \<and> (es_ContextSHA s \<noteq> [] \<longrightarrow> es_ContextSHA t = es_ContextSHA s)"

definition exec_later :: "exec_db \<Rightarrow> exec_db \<Rightarrow> bool" where
  "exec_later d d' \<longleftrightarrow>
     (\<forall>rid r. find_row er_ID rid (x_runs d) = Some r \<longrightarrow> (\<exists>r'. find_row er_ID rid (x_runs d') = Some r' \<and> exec_run_later r r'))
     \<and> (\<forall>sid row. find_row step_id sid (x_steps d) = Some row
          \<longrightarrow> (\<exists>row'. find_row step_id sid (x_steps d') = Some row' \<and> step_later (row_Step row) (row_Step row')))
     \<and> prefix (x_events d) (x_events d') \<and> prefix (x_results d) (x_results d')"

lemma exec_run_later_refl [simp]: "exec_run_later r r"
  by (simp add: exec_run_later_def contract_def)

lemma exec_run_later_trans: "exec_run_later a b \<Longrightarrow> exec_run_later b c \<Longrightarrow> exec_run_later a c"
  by (auto simp: exec_run_later_def contract_def)

lemma step_later_refl [simp]: "step_later s s"
  by (simp add: step_later_def)

lemma step_later_trans: "step_later a b \<Longrightarrow> step_later b c \<Longrightarrow> step_later a c"
  unfolding step_later_def by auto

lemma exec_later_refl: "exec_later d d"
  by (auto simp: exec_later_def)

lemma exec_later_trans: "exec_later a b \<Longrightarrow> exec_later b c \<Longrightarrow> exec_later a c"
  unfolding exec_later_def by (meson prefix_order.trans exec_run_later_trans step_later_trans)

lemma exec_later_same: "same_exec db db' \<Longrightarrow> exec_later db db'"
  by (auto simp: same_exec_def exec_later_def)

text \<open>The run of a change is written over with a later one, its open step too or a step is added.\<close>

definition runs_touched :: "exec_db \<Rightarrow> exec_db \<Rightarrow> bool" where
  "runs_touched d d' \<longleftrightarrow> x_runs d' = x_runs d
     \<or> (\<exists>r r'. r \<in> set (x_runs d) \<and> \<not> terminal r \<and> contract r r' \<and> er_Version r \<le> er_Version r' \<and> x_runs d' = put_row er_ID r' (x_runs d))
     \<or> (\<exists>r. find_row er_ID (er_ID r) (x_runs d) = None \<and> x_runs d' = x_runs d @ [r])"

definition steps_touched :: "exec_db \<Rightarrow> exec_db \<Rightarrow> bool" where
  "steps_touched d d' \<longleftrightarrow> x_steps d' = x_steps d
     \<or> (\<exists>row row'. row \<in> set (x_steps d) \<and> step_id row' = step_id row \<and> step_later (row_Step row) (row_Step row')
          \<and> x_steps d' = put_row step_id row' (x_steps d))
     \<or> (\<exists>row. find_row step_id (step_id row) (x_steps d) = None \<and> x_steps d' = x_steps d @ [row])"

lemma exec_later_touched:
  assumes keys: "keys_ok d" and runs: "runs_touched d d'" and steps: "steps_touched d d'"
    and "prefix (x_events d) (x_events d')" "prefix (x_results d) (x_results d')"
  shows "exec_later d d'"
proof -
  have "\<exists>r'. find_row er_ID rid (x_runs d') = Some r' \<and> exec_run_later r r'" if r: "find_row er_ID rid (x_runs d) = Some r" for rid r
    using runs unfolding runs_touched_def
  proof (elim disjE exE conjE)
    fix q q' assume q: "q \<in> set (x_runs d)" "\<not> terminal q" "contract q q'" "er_Version q \<le> er_Version q'" "x_runs d' = put_row er_ID q' (x_runs d)"
    show ?thesis
    proof (cases "rid = er_ID q")
      case True
      then have "r = q" using r keys q(1) find_row_distinct [of er_ID "x_runs d" q] by (simp add: keys_ok_def)
      then show ?thesis using True q r by (auto simp: find_row_put contract_def exec_run_later_def)
    next
      case False
      then have "rid \<noteq> er_ID q'" using q(3) by (simp add: contract_def)
      then show ?thesis using r q(5) by (simp add: find_row_put)
    qed
  qed (use r in \<open>auto simp: find_row_append\<close>)
  moreover have "\<exists>row'. find_row step_id sid (x_steps d') = Some row' \<and> step_later (row_Step row) (row_Step row')"
    if row: "find_row step_id sid (x_steps d) = Some row" for sid row
    using steps unfolding steps_touched_def
  proof (elim disjE exE conjE)
    fix q q' assume q: "q \<in> set (x_steps d)" "step_id q' = step_id q" "step_later (row_Step q) (row_Step q')" "x_steps d' = put_row step_id q' (x_steps d)"
    show ?thesis
    proof (cases "sid = step_id q")
      case True
      then have "row = q" using row keys q(1) find_row_distinct [of step_id "x_steps d" q] by (simp add: keys_ok_def)
      then show ?thesis using True q row by (auto simp: find_row_put)
    next
      case False
      then show ?thesis using row q(2,4) by (simp add: find_row_put)
    qed
  qed (use row in \<open>auto simp: find_row_append\<close>)
  ultimately show ?thesis using assms(4,5) by (simp add: exec_later_def)
qed

lemma touched_run:
  assumes "run \<in> set (x_runs d)" and "er_Status run \<notin> {''completed'', ''cancelled''}" and "contract run r'" and "er_Version run \<le> er_Version r'"
    and "x_runs d1 = x_runs d"
  shows "runs_touched d (save_into d1 r' ev)"
  unfolding runs_touched_def using assms by (auto simp: terminal_def)

lemma touched_step:
  assumes "row \<in> set (x_steps d)" and "es_ID step = step_id row" and "step_later (row_Step row) step"
    and "x_steps d' = put_row step_id (saved_step row step) (x_steps d)"
  shows "steps_touched d d'"
  unfolding steps_touched_def
  by (rule disjI2, rule disjI1, rule exI [of _ row], rule exI [of _ "saved_step row step"])
    (use assms in \<open>simp add: step_id_def saved_step_def\<close>)

lemma contract_simps [simp]:
  "contract r (saved_run env c r') \<longleftrightarrow> contract r r'"
  "contract r (blocked_run r reason)" "contract r (claimed_run r pkg)" "contract r ((claimed_run r pkg)\<lparr>er_StepNumber := n\<rparr>)"
  "contract r (concluded_run r res st sg)" "contract r (reserved_run r q)"
  by (simp_all add: contract_def blocked_run_def claimed_run_def concluded_run_def reserved_run_def Let_def)

lemma version_simps [simp]:
  "er_Version (blocked_run r reason) = er_Version r" "er_Version (reserved_run r q) = er_Version r"
  by (simp_all add: blocked_run_def reserved_run_def)

lemma control_effect_run:
  assumes "control_effect env db run action reason = Inr (run', db1)"
  shows "contract run run' \<and> er_Version run' = er_Version run \<and> x_runs db1 = x_runs db \<and> x_events db1 = x_events db
    \<and> x_results db1 = x_results db
    \<and> (db1 = db \<or> (\<exists>row. open_step db run = Some row \<and> db1 = saveExecutionStep db row (fenced_step (row_Step row) (env_clock env 1))))"
  using assms by (cases rule: control_effect_cases) (simp_all add: contract_def)

lemma fenced_later: "es_CompletedAt s = None \<Longrightarrow> step_later s (fenced_step s now)"
  by (simp add: step_later_def fenced_step_def)

lemma exec_change_later:
  assumes "exec_change db db'" and inv: "exec_inv db"
  shows "exec_later db db'"
proof -
  have keys: "keys_ok db" using inv by (simp add: exec_inv_def)
  have open_row: "row \<in> set (x_steps db)" "es_CompletedAt (row_Step row) = None" if "open_step db run = Some row" for run row
    using that loadExecutionStep_Some by (auto simp: open_step_Some)
  have same: "steps_touched d d'" if "x_steps d' = x_steps d" for d d' using that by (simp add: steps_touched_def)
  show ?thesis
    using assms(1)
  proof cases
    case (create inp ev env)
    then have "runs_touched db db'" unfolding runs_touched_def by auto
    then show ?thesis using create same [of db' db] by (intro exec_later_touched [OF keys]) auto
  next
    case (block run ev env c reason)
    then show ?thesis
      by (intro exec_later_touched [OF keys]) (auto intro!: touched_run [of run] same)
  next
    case (start run env step sid now token run' ev)
    have "step_id \<lparr>row_Step = step, row_Resource = resource_key (run_Package run), row_Concurrency = ap_Concurrency (run_Package run),
        row_LeaseUntil = micros (es_LeaseUntil step)\<rparr> = sid"
      using start by (simp add: step_id_def leased_step_def fresh_step_def)
    then have "steps_touched db db'" unfolding steps_touched_def start(1) using start(8) by auto
    then show ?thesis using start
      by (intro exec_later_touched [OF keys]) (auto intro!: touched_run [of run])
  next
    case (reclaim run row now env ev token)
    have "steps_touched db db'"
      using open_row [OF reclaim(4)] unfolding reclaim(1)
      by (intro touched_step [of row _ "leased_step (row_Step row) now token (run_Package run) run"])
        (simp_all add: leased_step_def step_id_def step_later_def)
    then show ?thesis using reclaim
      by (intro exec_later_touched [OF keys]) (auto intro!: touched_run [of run])
  next
    case (result run row res status stage ev env db1 arts evidence blobs)
    have "steps_touched db db'"
      using open_row [OF result(4)] unfolding result(1,11)
      by (intro touched_step [of row _ "completed_step env (row_Step row) res evidence"])
        (simp_all add: completed_step_def step_id_def step_later_def)
    then show ?thesis using result
      by (intro exec_later_touched [OF keys]) (auto intro!: touched_run [of run])
  next
    case (control run env action reason run' db1 ev)
    note eff = control_effect_run [OF control(4)]
    have "steps_touched db db'"
    proof (cases "db1 = db")
      case True
      then show ?thesis using control(1) by (simp add: steps_touched_def)
    next
      case False
      then obtain row where row: "open_step db run = Some row" "db1 = saveExecutionStep db row (fenced_step (row_Step row) (env_clock env 1))"
        using eff by blast
      show ?thesis
        using open_row [OF row(1)] unfolding control(1)
        by (intro touched_step [of row _ "fenced_step (row_Step row) (env_clock env 1)"])
          (simp_all add: row(2) fenced_later, simp add: fenced_step_def step_id_def)
    qed
    moreover have "runs_touched db db'" unfolding control(1) using control eff by (intro touched_run [of run]) auto
    ultimately show ?thesis using control eff by (intro exec_later_touched [OF keys]) auto
  next
    case (reserve run row q ev env rs)
    then show ?thesis
      by (intro exec_later_touched [OF keys]) (auto intro!: touched_run [of run] same)
  next
    case (record_artifact run row blobs arts)
    then show ?thesis using exec_later_same [of db db'] by (simp add: same_exec_def)
  next
    case (bind_context run row sha blobs arts)
    have "steps_touched db db'"
      using open_row [OF bind_context(4)] bind_context(5) unfolding bind_context(1)
      by (intro touched_step [of row _ "(row_Step row)\<lparr>es_ContextSHA := sha\<rparr>"]) (auto simp: step_id_def step_later_def)
    then show ?thesis using bind_context by (intro exec_later_touched [OF keys]) (auto simp: runs_touched_def)
  qed
qed

interpretation ex: history_system x_start x_step exec_inv exec_later
proof
  fix db assume "x_start db"
  then show "exec_inv db" by (simp add: x_start_def exec_inv_def keys_ok_def results_ok_def)
next
  fix db db' assume inv: "exec_inv db" and "x_step db db'"
  then show "exec_inv db'" using x_step_change exec_inv_same exec_change_inv by blast
next
  fix db show "exec_later db db" by (rule exec_later_refl)
next
  fix a b c assume "exec_later a b" "exec_later b c"
  then show "exec_later a c" by (rule exec_later_trans)
next
  fix db db' assume inv: "exec_inv db" and "x_step db db'"
  then show "exec_later db db'" using x_step_change exec_later_same exec_change_later by blast
qed

end
