(* ===== verification/ExecMeter.thy ===== *)
theory ExecMeter
  imports ExecHistory
begin

text \<open>
  The metering of source rows. Every reachable store is paired with the list of the row limits granted so far, and what a run
  records as its queries and rows is compared with that list: the number of its grants, and their sum at 64 bits.
\<close>

section \<open>Stores with the limits they granted\<close>

text \<open>A reservation is granted when it succeeds and is not the repetition of an earlier one, which appends no event.\<close>

definition grants :: "exec_db \<Rightarrow> execution_lease \<Rightarrow> source_query \<Rightarrow> exec_db \<Rightarrow> bool" where
  "grants db l q db' \<longleftrightarrow> (\<exists>env actor. ReserveExecutionSource env db l actor q = (Inr (), db')) \<and> x_events db' \<noteq> x_events db"

inductive metered :: "exec_db \<Rightarrow> (string \<times> int) list \<Rightarrow> bool" where
  started: "x_start db \<Longrightarrow> metered db []"
| granted: "metered db gs \<Longrightarrow> grants db l q db' \<Longrightarrow> metered db' (gs @ [(el_RunID l, sq_Limit q)])"
| other: "metered db gs \<Longrightarrow> x_step db db' \<Longrightarrow> \<forall>l q. \<not> grants db l q db' \<Longrightarrow> metered db' gs"

definition granted_limits :: "string \<Rightarrow> (string \<times> int) list \<Rightarrow> int list" where
  "granted_limits rid gs = map snd (filter (\<lambda>g. fst g = rid) gs)"

lemma granted_limits_simps [simp]:
  "granted_limits rid [] = []"
  "granted_limits rid (gs @ [(r, n)]) = granted_limits rid gs @ (if r = rid then [n] else [])"
  by (simp_all add: granted_limits_def)

lemma grants_step: "grants db l q db' \<Longrightarrow> x_step db db'"
  unfolding grants_def by (blast intro: x_step.reserve)

lemma metered_reach: "metered db gs \<Longrightarrow> reach x_start x_step db"
  by (induction rule: metered.induct) (auto intro: reach_start reach_step grants_step)

lemma reach_metered: "reach x_start x_step db \<Longrightarrow> \<exists>gs. metered db gs"
proof (induction rule: reach.induct)
  case (reach_start db)
  then show ?case using metered.started by blast
next
  case (reach_step db db')
  then show ?case using metered.granted metered.other by (cases "\<exists>l q. grants db l q db'") blast+
qed

section \<open>Operations that grant nothing leave the meters alone\<close>

definition same_meter :: "execution_run \<Rightarrow> execution_run \<Rightarrow> bool" where
  "same_meter r r' \<longleftrightarrow> er_ID r' = er_ID r \<and> er_Target r' = er_Target r
     \<and> eu_SourceQueries (er_Usage r') = eu_SourceQueries (er_Usage r) \<and> eu_SourceRows (er_Usage r') = eu_SourceRows (er_Usage r)"

definition unmetered :: "exec_db \<Rightarrow> exec_db \<Rightarrow> bool" where
  "unmetered db db' \<longleftrightarrow> x_runs db' = x_runs db
     \<or> (\<exists>r r'. r \<in> set (x_runs db) \<and> same_meter r r' \<and> x_runs db' = put_row er_ID r' (x_runs db))
     \<or> (\<exists>r. find_row er_ID (er_ID r) (x_runs db) = None \<and> er_Usage r = zero_usage \<and> budget_Validate (et_Budget (er_Target r))
          \<and> x_runs db' = x_runs db @ [r])"

lemma same_meter_simps [simp]:
  "same_meter r (saved_run env c r') \<longleftrightarrow> same_meter r r'" "same_meter r (r'\<lparr>er_StepNumber := n\<rparr>) \<longleftrightarrow> same_meter r r'"
  "same_meter r (blocked_run r reason)" "same_meter r (claimed_run r pkg)" "same_meter r (concluded_run r res st sg)"
  by (simp_all add: same_meter_def blocked_run_def claimed_run_def charged_usage_def concluded_run_def Let_def split: option.split)

lemma unmetered_save:
  "run \<in> set (x_runs db) \<Longrightarrow> same_meter run run' \<Longrightarrow> x_runs db1 = x_runs db \<Longrightarrow> unmetered db (save_into db1 run' ev)"
  unfolding unmetered_def by (rule disjI2, rule disjI1) (auto simp: save_into_def)

lemma unmetered_refl [simp]: "unmetered db db"
  by (simp add: unmetered_def)

lemma CreateExecution_unmetered:
  assumes "CreateExecution env db inp = (r, db')" and "fresh_request inp"
  shows "unmetered db db'"
proof (cases "db' = db")
  case False
  note eq = assms(1) [unfolded CreateExecution_def]
  have new: "find_row er_ID (er_ID inp) (x_runs db) = None" "er_Usage inp = zero_usage"
    using eq False by (auto split: if_split_asm option.split_asm)
  then have "x_runs db' = x_runs db @ [saved_run env 0 inp]"
    using eq False put_row_append_fresh [OF new(1), of "saved_run env 0 inp"]
    by (auto simp: saveExecution_Ok save_into_def split: if_split_asm option.split_asm sum.split_asm)
  then show ?thesis using new assms(2) by (auto simp: unmetered_def fresh_request_def)
qed simp

lemma ClaimExecution_unmetered:
  assumes "ClaimExecution env db project rid actor token = (r, db')"
  shows "unmetered db db'"
proof (cases "db' = db")
  case False
  note eq = assms [unfolded ClaimExecution_def]
  obtain run where run: "lockExecution db project rid = Inr run"
    using eq False by (cases "lockExecution db project rid") auto
  note mem = lockExecution_Ok(1) [OF run]
  consider c reason e where "block_run env c db run actor reason e = (r, db')"
    | row where "reclaim_step env db run (run_Package run) actor token row = (r, db')"
    | "begin_step env db run (run_Package run) actor token = (r, db')"
    using eq run False by (auto split: if_split_asm option.split_asm)
  then show ?thesis
    by cases (auto simp: block_run_def reclaim_step_def begin_step_def Let_def saveExecution_Ok
        intro!: unmetered_save [OF mem] split: sum.split_asm if_split_asm)
qed simp

lemma CompleteExecution_unmetered:
  assumes "CompleteExecution env db l actor res evidence status stage = (r, db')"
  shows "unmetered db db'"
proof (cases "db' = db")
  case False
  obtain run row where chk: "checkExecutionLease env db l actor = Inr (run, row)"
    and com: "commit_result env db run row actor res evidence status stage = (r, db')"
    using CompleteExecution_cases [OF assms False] by blast
  show ?thesis
    using com checkExecutionLease_Ok(1) [OF chk]
    by (auto simp: commit_result_def Let_def saveExecution_Ok intro!: unmetered_save split: sum.split_asm if_split_asm)
qed simp

lemma ControlExecution_unmetered:
  assumes "ControlExecution env db project rid actor version action reason = (r, db')"
  shows "unmetered db db'"
proof (cases "db' = db")
  case False
  note eq = assms [unfolded ControlExecution_def]
  obtain run where run: "lockExecution db project rid = Inr run"
    using eq False by (cases "lockExecution db project rid") auto
  obtain run' db1 where eff: "control_effect env db run action reason = Inr (run', db1)"
    using eq run False by (auto split: if_split_asm sum.split_asm)
  have "same_meter run run'" using eff by (cases rule: control_effect_cases) (simp_all add: same_meter_def)
  then show ?thesis
    using eq run eff False control_effect_run [OF eff] lockExecution_Ok(1) [OF run]
    by (auto simp: saveExecution_Ok intro!: unmetered_save split: if_split_asm sum.split_asm)
qed simp

lemma RecordExecutionArtifact_unmetered: "RecordExecutionArtifact env db l actor a bindContext = (r, db') \<Longrightarrow> unmetered db db'"
  by (auto simp: RecordExecutionArtifact_def Let_def unmetered_def split: sum.split_asm if_split_asm)

lemma ReserveExecutionSource_cases:
  assumes "ReserveExecutionSource env db l actor q = (r, db')"
  shows "db' = db \<or> grants db l q db'"
proof (cases "db' = db")
  case False
  then have "r = Inr () \<and> x_events db' \<noteq> x_events db"
    using assms unfolding ReserveExecutionSource_def
    by (auto simp: saveExecution_Ok save_into_def split: if_split_asm option.split_asm sum.split_asm)
  then show ?thesis using assms unfolding grants_def by blast
qed simp

lemma x_step_unmetered:
  assumes "x_step db db'" and "\<forall>l q. \<not> grants db l q db'"
  shows "unmetered db db'"
  using assms
proof (induction rule: x_step.induct)
  case (create inp env db r db')
  then show ?case using CreateExecution_unmetered by blast
next
  case (claim env db project rid actor token rc db')
  then show ?case using ClaimExecution_unmetered by blast
next
  case (complete env db l actor res evidence status stage r db')
  then show ?case using CompleteExecution_unmetered by blast
next
  case (control env db project rid actor version action reason r db')
  then show ?case using ControlExecution_unmetered by blast
next
  case (reserve env db l actor q ru db')
  then show ?case using ReserveExecutionSource_cases unmetered_refl by blast
next
  case (record_artifact env db l actor a bindContext ru db')
  then show ?case using RecordExecutionArtifact_unmetered by blast
qed (simp add: unmetered_def same_exec_def)

section \<open>The meters show what was granted\<close>

text \<open>
  The rows of a run are the sum of its granted limits at 64 bits. As long as no single limit comes within a
  row budget of overflowing, that sum itself stays within the budget.
\<close>

definition run_metered :: "execution_run \<Rightarrow> int list \<Rightarrow> bool" where
  "run_metered r ns \<longleftrightarrow> (let max_rows = eb_MaxSourceRows (et_Budget (er_Target r)) in
     eu_SourceQueries (er_Usage r) = int (length ns) \<and> eu_SourceRows (er_Usage r) = wrap64 (sum_list ns)
     \<and> (\<forall>n \<in> set ns. 1 \<le> n) \<and> 0 \<le> max_rows \<and> max_rows \<le> 100000
     \<and> ((\<forall>n \<in> set ns. n < 2 ^ 63 - 100000) \<longrightarrow> sum_list ns \<le> max_rows))"

definition meter_ok :: "exec_db \<Rightarrow> (string \<times> int) list \<Rightarrow> bool" where
  "meter_ok db gs \<longleftrightarrow> (\<forall>r \<in> set (x_runs db). run_metered r (granted_limits (er_ID r) gs)) \<and> fst ` set gs \<subseteq> er_ID ` set (x_runs db)"

lemma run_metered_alike: "same_meter r r' \<Longrightarrow> run_metered r' ns \<longleftrightarrow> run_metered r ns"
  by (simp add: same_meter_def run_metered_def)

lemma sum_list_pos: "\<forall>n \<in> set ns. 1 \<le> n \<Longrightarrow> 0 \<le> sum_list (ns :: int list)"
  by (induction ns) auto

lemma run_metered_reserved:
  assumes "run_metered r ns" and "1 \<le> sq_Limit q"
    and "wrap64 (eu_SourceRows (er_Usage r) + sq_Limit q) \<le> eb_MaxSourceRows (et_Budget (er_Target r))"
  shows "run_metered (saved_run env c (reserved_run r q)) (ns @ [sq_Limit q])"
proof -
  have rows: "wrap64 (eu_SourceRows (er_Usage r) + sq_Limit q) = wrap64 (sum_list ns + sq_Limit q)"
    using assms(1) by (simp add: run_metered_def Let_def wrap64_add)
  have "sum_list ns + sq_Limit q \<le> eb_MaxSourceRows (et_Budget (er_Target r))"
    if small: "\<forall>n \<in> set ns. n < 2 ^ 63 - 100000" "sq_Limit q < 2 ^ 63 - 100000"
  proof -
    have "0 \<le> sum_list ns" using assms(1) by (intro sum_list_pos) (simp add: run_metered_def Let_def)
    moreover have "sum_list ns \<le> 100000" using assms(1) small(1) by (auto simp: run_metered_def Let_def)
    ultimately have "wrap64 (sum_list ns + sq_Limit q) = sum_list ns + sq_Limit q"
      using small(2) assms(2) by (intro wrap64_exact) simp_all
    then show ?thesis using assms(3) rows by simp
  qed
  then show ?thesis using assms rows by (simp add: run_metered_def reserved_run_def Let_def)
qed

lemma unmetered_ok:
  assumes "meter_ok db gs" and "unmetered db db'"
  shows "meter_ok db' gs"
proof -
  have runs: "run_metered r (granted_limits (er_ID r) gs)" if "r \<in> set (x_runs db)" for r
    using assms(1) that by (simp add: meter_ok_def)
  have ids: "fst ` set gs \<subseteq> er_ID ` set (x_runs db)" using assms(1) by (simp add: meter_ok_def)
  from assms(2) show ?thesis unfolding unmetered_def
  proof (elim disjE exE conjE)
    fix r r' assume r: "r \<in> set (x_runs db)" "same_meter r r'" "x_runs db' = put_row er_ID r' (x_runs db)"
    have "run_metered r' (granted_limits (er_ID r') gs)"
      using runs [OF r(1)] run_metered_alike [OF r(2)] r(2) by (simp add: same_meter_def)
    then have "\<forall>x \<in> set (x_runs db'). run_metered x (granted_limits (er_ID x) gs)" using runs r(3) by (auto simp: put_row_def)
    then show ?thesis using ids r(3) by (simp add: meter_ok_def)
  next
    fix r assume r: "find_row er_ID (er_ID r) (x_runs db) = None" "er_Usage r = zero_usage" "budget_Validate (et_Budget (er_Target r))"
      "x_runs db' = x_runs db @ [r]"
    then have "er_ID r \<notin> fst ` set gs" using ids by (auto simp: find_row_None)
    then have "granted_limits (er_ID r) gs = []" by (force simp: granted_limits_def filter_empty_conv)
    then have "run_metered r (granted_limits (er_ID r) gs)"
      using r(2,3) by (simp add: run_metered_def budget_Validate_def zero_usage_def wrap64_def)
    then show ?thesis using runs ids r(4) by (auto simp: meter_ok_def)
  qed (use assms(1) in \<open>simp add: meter_ok_def\<close>)
qed

lemma grants_ok:
  assumes "keys_ok db" and "meter_ok db gs" and "grants db l q db'"
  shows "meter_ok db' (gs @ [(el_RunID l, sq_Limit q)])"
proof -
  obtain env actor where res: "ReserveExecutionSource env db l actor q = (Inr (), db')" and new: "x_events db' \<noteq> x_events db"
    using assms(3) by (auto simp: grants_def)
  note eq = res [unfolded ReserveExecutionSource_def]
  obtain run row where chk: "checkExecutionLease env db l actor = Inr (run, row)" using eq by (auto split: sum.split_asm)
  note c = checkExecutionLease_Ok [OF chk]
  have within: "1 \<le> sq_Limit q" "wrap64 (eu_SourceRows (er_Usage run) + sq_Limit q) \<le> eb_MaxSourceRows (et_Budget (er_Target run))"
    and runs: "x_runs db' = put_row er_ID (saved_run env 2 (reserved_run run q)) (x_runs db)"
    using eq chk new by (auto simp: saveExecution_Ok save_into_def split: if_split_asm option.split_asm sum.split_asm)
  have id: "er_ID (saved_run env 2 (reserved_run run q)) = el_RunID l" using c(2) by (simp add: reserved_run_def)
  have old: "run_metered r (granted_limits (er_ID r) gs)" if "r \<in> set (x_runs db)" for r
    using assms(2) that by (simp add: meter_ok_def)
  have "run_metered r (granted_limits (er_ID r) (gs @ [(el_RunID l, sq_Limit q)]))" if r: "r \<in> set (x_runs db')" for r
  proof (cases "er_ID r = el_RunID l")
    case True
    then have "r = saved_run env 2 (reserved_run run q)" using r runs id by (auto simp: put_row_def split: if_split_asm)
    then show ?thesis using run_metered_reserved [OF old [OF c(1)] within] True c(2) by simp
  next
    case False
    then show ?thesis using r runs id old by (auto simp: put_row_def split: if_split_asm)
  qed
  moreover have "el_RunID l \<in> er_ID ` set (x_runs db')" using c(1,2) runs by force
  ultimately show ?thesis using assms(2) runs by (simp add: meter_ok_def)
qed

lemma metered_ok: "metered db gs \<Longrightarrow> meter_ok db gs"
proof (induction rule: metered.induct)
  case (started db)
  then show ?case by (simp add: meter_ok_def x_start_def)
next
  case (granted db gs l q db')
  have "keys_ok db" using ex.reach_inv [OF metered_reach [OF granted(1)]] by (simp add: exec_inv_def)
  then show ?case using grants_ok granted by blast
next
  case (other db gs db')
  then show ?case using unmetered_ok x_step_unmetered by blast
qed

end
