(* ===== verification/ExecProps.thy ===== *)
theory ExecProps
  imports ExecMeter
begin

text \<open>
  The properties of the execution store that hold after any sequence of operations: budgets, the event log, leases and
  fences, immutable results, the order of the stages, reconciliation and the condition under which a claim is granted.
\<close>

section \<open>What every reachable store satisfies\<close>

lemma reach_run: "reach x_start x_step db \<Longrightarrow> r \<in> set (x_runs db) \<Longrightarrow> exec_ok r (run_steps db (er_ID r)) (run_events db (er_ID r))"
  using ex.reach_inv exec_inv_run by blast

lemma reach_keys: "reach x_start x_step db \<Longrightarrow> keys_ok db"
  using ex.reach_inv by (auto simp: exec_inv_def)

lemma reach_later_inv: "reach x_start x_step db \<Longrightarrow> x_step\<^sup>*\<^sup>* db db' \<Longrightarrow> exec_inv db' \<and> exec_later db db'"
  using ex.reach_inv ex.steps_inv ex.reach_later by blast

lemma lockExecution_iff:
  assumes "keys_ok db"
  shows "lockExecution db project rid = Inr run \<longleftrightarrow> find_row er_ID rid (x_runs db) = Some run \<and> er_ProjectID run = project"
proof
  assume "lockExecution db project rid = Inr run"
  then show "find_row er_ID rid (x_runs db) = Some run \<and> er_ProjectID run = project"
    using lockExecution_Ok [of db project rid run] find_row_distinct [of er_ID "x_runs db" run] assms by (auto simp: keys_ok_def)
next
  assume r: "find_row er_ID rid (x_runs db) = Some run \<and> er_ProjectID run = project"
  then have run: "run \<in> set (x_runs db)" "er_ID run = rid" by (auto dest: find_row_SomeD)
  then obtain x where x: "find (\<lambda>r. er_ProjectID r = project \<and> er_ID r = rid) (x_runs db) = Some x"
    using r by (cases "find (\<lambda>r. er_ProjectID r = project \<and> er_ID r = rid) (x_runs db)") (auto simp: find_None_iff)
  then have "x \<in> set (x_runs db)" "er_ID x = rid" by (auto dest!: find_SomeD_mem)
  then have "x = run" using run assms by (auto simp: keys_ok_def distinct_map dest: inj_onD)
  then show "lockExecution db project rid = Inr run" using x by (simp add: lockExecution_def)
qed

lemma sort_key_sorted: "sorted (map f xs) \<Longrightarrow> sort_key f xs = xs"
  by (induction xs) (auto simp: insort_is_Cons)

text \<open>
  C8: whatever the sequence of operations, callers and clock readings, no run ever records more attempts, model calls,
  charged tokens, source queries or source rows than the budget of its target allows. Its source queries are the
  reservations granted to it, one for one. Its source rows are the sum of the granted limits at 64 bits: the sum itself is within the
  budget as long as no granted limit reaches 2^63 - 100000, where the addition would wrap around. Every reachable
  store has such a list of granted limits.
\<close>

theorem budgets_never_exceeded:
  assumes "reach x_start x_step db" and "lockExecution db project rid = Inr run"
  shows "eu_Attempts (er_Usage run) \<le> eb_MaxAttempts (et_Budget (er_Target run))
    \<and> eu_ModelCalls (er_Usage run) \<le> eb_MaxModelCalls (et_Budget (er_Target run))
    \<and> eu_TokensCharged (er_Usage run) \<le> eb_MaxTokens (et_Budget (er_Target run))
    \<and> eu_SourceQueries (er_Usage run) \<le> eb_MaxSourceQueries (et_Budget (er_Target run))
    \<and> eu_SourceRows (er_Usage run) \<le> eb_MaxSourceRows (et_Budget (er_Target run))
    \<and> (\<exists>granted. metered db granted)
    \<and> (\<forall>granted. metered db granted \<longrightarrow>
         eu_SourceQueries (er_Usage run) = int (length (granted_limits rid granted))
         \<and> eu_SourceRows (er_Usage run) = wrap64 (sum_list (granted_limits rid granted))
         \<and> ((\<forall>n \<in> set (granted_limits rid granted). n < 2 ^ 63 - 100000)
              \<longrightarrow> sum_list (granted_limits rid granted) \<le> eb_MaxSourceRows (et_Budget (er_Target run))))"
proof -
  note run = lockExecution_Ok [OF assms(2)]
  have "run_metered run (granted_limits rid granted)" if "metered db granted" for granted
    using metered_ok [OF that] run by (auto simp: meter_ok_def)
  then show ?thesis
    using reach_run [OF assms(1) run(1)] reach_metered [OF assms(1)] by (simp add: exec_ok_def budget_ok_def run_metered_def Let_def)
qed

text \<open>
  What \<open>GetExecution\<close> returns is a complete history. The events are numbered 1, 2, ... without gaps and the version
  of the run is the number of the last one; the steps are numbered 1, 2, ... up to the run's step number, all but
  the last are completed, and every one was claimed by the participant the target assigns to its stage.
\<close>

theorem view_is_complete_history:
  assumes "reach x_start x_step db" and "GetExecution db project rid = Inr view"
  shows "map ee_Version (view_Events view) = map int [1 ..< Suc (length (view_Events view))]
    \<and> er_Version (view_Run view) = int (length (view_Events view))
    \<and> map es_Number (view_Steps view) = map int [1 ..< Suc (length (view_Steps view))]
    \<and> er_StepNumber (view_Run view) = int (length (view_Steps view))
    \<and> (\<forall>s \<in> set (butlast (view_Steps view)). es_CompletedAt s \<noteq> None)
    \<and> (\<forall>s \<in> set (view_Steps view). es_Actor s = map_get [] (et_Participants (er_Target (view_Run view))) (ExecutionRole (es_Stage s)))"
proof -
  obtain run where run: "lockExecution db project rid = Inr run" and v: "view_Run view = run"
    "view_Steps view = sort_key es_Number (run_steps db (er_ID run))" "view_Events view = sort_key ee_Version (run_events db (er_ID run))"
    using assms(2) by (cases "lockExecution db project rid") (auto simp: GetExecution_def run_steps_def run_events_def)
  have ok: "exec_ok run (run_steps db (er_ID run)) (run_events db (er_ID run))"
    using reach_run [OF assms(1)] lockExecution_Ok [OF run] by blast
  have sorted: "sorted (map int [1 ..< n])" for n by (simp add: sorted_map)
  have "view_Steps view = run_steps db (er_ID run)" "view_Events view = run_events db (er_ID run)"
    using ok sorted v by (simp_all only: exec_ok_def log_ok_def steps_ok_def sort_key_sorted)
  then show ?thesis using ok v(1) by (simp only: exec_ok_def log_ok_def steps_ok_def) blast
qed

text \<open>
  C12: a completed or cancelled execution is final. No later operation of any caller changes its row.
\<close>

theorem terminal_executions_final:
  assumes "reach x_start x_step db" and "lockExecution db project rid = Inr run" and "er_Status run \<in> {''completed'', ''cancelled''}"
    and "x_step\<^sup>*\<^sup>* db db'"
  shows "lockExecution db' project rid = Inr run"
proof -
  note later = reach_later_inv [OF assms(1,4)]
  have keys: "keys_ok db'" using later by (simp add: exec_inv_def)
  obtain r' where "find_row er_ID rid (x_runs db') = Some r'" "exec_run_later run r'"
    using later assms(2) lockExecution_iff [OF reach_keys [OF assms(1)]] unfolding exec_later_def by blast
  moreover have "terminal run" using assms(3) by (simp add: terminal_def)
  ultimately have "find_row er_ID rid (x_runs db') = Some run" by (simp add: exec_run_later_def)
  then show ?thesis using assms(2) lockExecution_iff [OF keys] lockExecution_iff [OF reach_keys [OF assms(1)]] by blast
qed

section \<open>Leases\<close>

lemma block_run_Err: "block_run env c db run actor reason e \<noteq> (Inr claim, db')"
  by (auto simp: block_run_def split: sum.split)

lemma ClaimExecution_Ok:
  assumes "ClaimExecution env db project rid actor token = (Inr claim, db')"
  obtains run where "lockExecution db project rid = Inr run" "actor = run_Actor run"
    "er_Status run \<in> {''ready'', ''running'', ''reconciling''}" "lockExecutionRequirements env db run = None"
    "env_clock env 0 < er_Deadline run" "\<not> resource_busy env db (run_Package run)" "\<not> model_budget_exhausted run (run_Package run)"
    "open_step db run = None \<and> begin_step env db run (run_Package run) actor token = (Inr claim, db')
     \<or> (\<exists>row. open_step db run = Some row \<and> es_LeaseUntil (row_Step row) \<le> env_clock env 0
         \<and> reclaim_step env db run (run_Package run) actor token row = (Inr claim, db'))"
proof -
  obtain run where run: "lockExecution db project rid = Inr run"
    using assms by (cases "lockExecution db project rid") (auto simp: ClaimExecution_def)
  note eq = assms [unfolded ClaimExecution_def run sum.case]
  show ?thesis
    by (rule that [OF run]; use eq in \<open>auto simp: block_run_Err not_less not_le split: if_split_asm option.split_asm\<close>)
qed

lemma reclaim_step_Ok:
  assumes "reclaim_step env db run pkg actor token row = (Inr claim, db')"
  shows "cl_Step claim = leased_step (row_Step row) (env_clock env 0) token pkg run" "cl_Run claim = saved_run env 1 (claimed_run run pkg)"
    "x_steps db' = put_row step_id (saved_step row (cl_Step claim)) (x_steps db)"
  using assms by (auto simp: reclaim_step_def Let_def saveExecution_Ok split: sum.split_asm)

lemma begin_step_Ok:
  assumes "begin_step env db run pkg actor token = (Inr claim, db')"
  shows "cl_Step claim = leased_step (fresh_step (env_id env 0) run actor pkg (env_clock env 0)) (env_clock env 0) token pkg run"
    "find_row step_id (es_ID (cl_Step claim)) (x_steps db) = None"
    "x_steps db' = x_steps db @ [\<lparr>row_Step = cl_Step claim, row_Resource = resource_key pkg, row_Concurrency = ap_Concurrency pkg,
       row_LeaseUntil = micros (es_LeaseUntil (cl_Step claim))\<rparr>]"
  using assms by (auto simp: begin_step_def Let_def saveExecution_Ok split: sum.split_asm if_split_asm)

lemma claimed_step_saved:
  assumes "exec_inv db" and "ClaimExecution env db project rid actor token = (Inr claim, db')"
  shows "\<exists>row. find_row step_id (es_ID (cl_Step claim)) (x_steps db') = Some row \<and> row_Step row = cl_Step claim"
proof -
  obtain run where run: "lockExecution db project rid = Inr run" and how: "open_step db run = None \<and> begin_step env db run (run_Package run) actor token = (Inr claim, db')
     \<or> (\<exists>row. open_step db run = Some row \<and> es_LeaseUntil (row_Step row) \<le> env_clock env 0
         \<and> reclaim_step env db run (run_Package run) actor token row = (Inr claim, db'))"
    using ClaimExecution_Ok [OF assms(2)] by metis
  from how show ?thesis
  proof (elim disjE conjE exE)
    assume b: "begin_step env db run (run_Package run) actor token = (Inr claim, db')"
    show ?thesis using begin_step_Ok(2,3) [OF b] by (simp add: find_row_append step_id_def)
  next
    fix row assume o: "open_step db run = Some row" and r: "reclaim_step env db run (run_Package run) actor token row = (Inr claim, db')"
    have row: "row \<in> set (x_steps db)" using open_step_last(1) [OF assms(1) lockExecution_Ok(1) [OF run] o] .
    have id: "es_ID (cl_Step claim) = step_id row" using reclaim_step_Ok(1) [OF r] by (simp add: leased_step_def step_id_def)
    have "find_row step_id (step_id row) (x_steps db) = Some row"
      using row assms(1) by (simp add: exec_inv_def keys_ok_def find_row_distinct)
    moreover have "step_id (saved_step row (cl_Step claim)) = step_id row" using id by (simp add: step_id_def saved_step_def)
    ultimately show ?thesis using id unfolding reclaim_step_Ok(3) [OF r] find_row_put by (simp add: saved_step_def)
  qed
qed

lemma stale_lease_refused:
  assumes "find_row step_id (el_StepID l) (x_steps db) = Some row" and "keys_ok db" and "el_Fence l < es_Fence (row_Step row)"
  shows "\<exists>e. checkExecutionLease env db l actor = Inl e"
proof (cases "checkExecutionLease env db l actor")
  case (Inr p)
  then obtain run row' where chk: "checkExecutionLease env db l actor = Inr (run, row')" by (cases p) auto
  note c = checkExecutionLease_Ok [OF chk]
  have "row' \<in> set (x_steps db)" using c(5) loadExecutionStep_Some by (auto simp: open_step_Some)
  then have "row' = row" using assms(1) c(7) find_row_distinct [of step_id "x_steps db" row'] assms(2) by (simp add: keys_ok_def)
  then show ?thesis using c(9) assms(3) by simp
qed blast

text \<open>Without a valid lease a completion is refused, or acknowledges the result on record.\<close>

lemma unleased_completion:
  assumes "checkExecutionLease env db l who = Inl e"
  shows "(\<exists>e. CompleteExecution env db l who res evidence status stage = (Inl e, db))
    \<or> (\<exists>run prior. CompleteExecution env db l who res evidence status stage = (Inr run, db)
         \<and> lockExecution db (el_ProjectID l) (el_RunID l) = Inr run \<and> prior \<in> set (x_results db)
         \<and> res_StepID prior = el_StepID l \<and> res_Actor prior = who \<and> res_SHA256 prior = art_SHA256 evidence)"
proof (cases "lockExecution db (el_ProjectID l) (el_RunID l)")
  case (Inr run)
  show ?thesis
  proof (cases "prior_result db run (el_StepID l)")
    case (Some prior)
    then have "prior \<in> set (x_results db)" "res_StepID prior = el_StepID l" by (auto simp: prior_result_def dest!: find_SomeD_mem)
    then show ?thesis using Inr Some by (auto simp: CompleteExecution_def)
  qed (use Inr assms in \<open>simp add: CompleteExecution_def\<close>)
qed (simp add: CompleteExecution_def)

text \<open>
  C10: a worker that lost its lease can do nothing more. Once a step has been claimed again with a higher fence, a lease
  on it with a lower fence is refused in every later state, by every operation that takes a lease, whatever the
  clocks read, and the store is not changed. The one exception is the repetition of a completion that is already on
  record: when the result recorded for the step is the caller's own and has the digest of the evidence sent
  again, the completion may be acknowledged once more with the run as it stands, and the store is not changed either.
\<close>

theorem stale_lease_has_no_effect:
  assumes "reach x_start x_step db" and "ClaimExecution env db project rid actor token = (Inr claim, db1)"
    and "x_step\<^sup>*\<^sup>* db1 db2" and "el_StepID l = es_ID (cl_Step claim)" and "el_Fence l < es_Fence (cl_Step claim)"
  shows "(\<exists>e. CheckExecutionLease env2 db2 l who = Inl e)
    \<and> ((\<exists>e. CompleteExecution env2 db2 l who res evidence status stage = (Inl e, db2))
        \<or> (\<exists>run prior. CompleteExecution env2 db2 l who res evidence status stage = (Inr run, db2)
             \<and> lockExecution db2 (el_ProjectID l) (el_RunID l) = Inr run \<and> prior \<in> set (x_results db2)
             \<and> res_StepID prior = el_StepID l \<and> res_Actor prior = who \<and> res_SHA256 prior = art_SHA256 evidence))
    \<and> (\<exists>e. ReserveExecutionSource env2 db2 l who q = (Inl e, db2))
    \<and> (\<exists>e. RecordExecutionArtifact env2 db2 l who a bindContext = (Inl e, db2))"
proof -
  have inv: "exec_inv db" using assms(1) ex.reach_inv by blast
  have "x_step db db1" using assms(2) x_step.claim by blast
  then have inv1: "exec_inv db1" and later: "exec_later db1 db2" and keys: "keys_ok db2"
    using ex.inv_step [OF inv] ex.steps_later [OF assms(3)] ex.steps_inv [OF assms(3)] by (auto simp: exec_inv_def)
  obtain row where "find_row step_id (es_ID (cl_Step claim)) (x_steps db1) = Some row" "row_Step row = cl_Step claim"
    using claimed_step_saved [OF inv assms(2)] by blast
  then obtain row' where row': "find_row step_id (el_StepID l) (x_steps db2) = Some row'" "step_later (cl_Step claim) (row_Step row')"
    using later assms(4) unfolding exec_later_def by metis
  have fence: "el_Fence l < es_Fence (row_Step row')" using row'(2) assms(5) unfolding step_later_def by linarith
  obtain e where e: "checkExecutionLease env2 db2 l who = Inl e"
    using stale_lease_refused [OF row'(1) keys, of env2 who] fence by blast
  moreover have "\<exists>e. CheckExecutionLease env2 db2 l who = Inl e" "\<exists>e. ReserveExecutionSource env2 db2 l who q = (Inl e, db2)"
    "\<exists>e. RecordExecutionArtifact env2 db2 l who a bindContext = (Inl e, db2)"
    using e by (simp_all add: CheckExecutionLease_def ReserveExecutionSource_def RecordExecutionArtifact_def)
  ultimately show ?thesis using unleased_completion by blast
qed


lemma foldr_min_le: "foldr min ns m \<le> (m::int) \<and> (\<forall>n \<in> set ns. foldr min ns m \<le> n)"
  by (induction ns) (auto simp: min.coboundedI2)

lemma live_leases_put:
  assumes "distinct (map step_id (x_steps db))" and "x_steps db' = put_row step_id row (x_steps db)"
  shows "length (live_leases env db' res) \<le> Suc (length (live_leases env db res))"
proof -
  have "length (filter P (put_row step_id row rows)) \<le> Suc (length (filter P rows))" if "distinct (map step_id rows)"
    for rows and P :: "step_row \<Rightarrow> bool"
    using that
  proof (induction rows)
    case (Cons x rows)
    show ?case
    proof (cases "step_id x = step_id row")
      case True
      then have "put_row step_id row rows = rows" using Cons.prems by (auto simp: put_row_def intro!: map_idI) (metis imageI)
      then show ?thesis using True by (simp add: put_row_def)
    next
      case False
      then show ?thesis using Cons by (simp add: put_row_def)
    qed
  qed (simp add: put_row_def)
  then show ?thesis using assms by (simp add: live_leases_def)
qed

text \<open>
  A claim never oversubscribes its executor. After a claim is granted, the live leases on the sandbox image, model or
  executor of the package are at most the concurrency of that package, and of every package that already held one.
\<close>

theorem claims_respect_concurrency:
  assumes "reach x_start x_step db" and "ClaimExecution env db project rid actor token = (Inr claim, db')"
    and "lockExecution db project rid = Inr run"
  shows "int (length (live_leases env db' (resource_key (run_Package run)))) \<le> ap_Concurrency (run_Package run)
    \<and> (\<forall>row \<in> set (live_leases env db (resource_key (run_Package run))).
          int (length (live_leases env db' (resource_key (run_Package run)))) \<le> row_Concurrency row)"
proof -
  define rows where "rows = live_leases env db (resource_key (run_Package run))"
  have dist: "distinct (map step_id (x_steps db))" using reach_keys [OF assms(1)] by (simp add: keys_ok_def)
  have free: "\<not> resource_busy env db (run_Package run)"
    and how: "begin_step env db run (run_Package run) actor token = (Inr claim, db')
       \<or> (\<exists>row. reclaim_step env db run (run_Package run) actor token row = (Inr claim, db'))"
    using ClaimExecution_Ok [OF assms(2)] assms(3) by auto
  have more: "length (live_leases env db' (resource_key (run_Package run))) \<le> Suc (length rows)"
    using how
  proof (elim disjE exE)
    assume "begin_step env db run (run_Package run) actor token = (Inr claim, db')"
    from begin_step_Ok(3) [OF this] show ?thesis by (simp add: live_leases_def rows_def)
  next
    fix row assume "reclaim_step env db run (run_Package run) actor token row = (Inr claim, db')"
    from reclaim_step_Ok(3) [OF this] show ?thesis unfolding rows_def by (rule live_leases_put [OF dist])
  qed
  have "int (length rows) < foldr min (map row_Concurrency rows) (ap_Concurrency (run_Package run))"
    using free by (simp add: resource_busy_def Let_def rows_def)
  then show ?thesis
    using more foldr_min_le [of "map row_Concurrency rows" "ap_Concurrency (run_Package run)"]
    unfolding rows_def [symmetric] by fastforce
qed

section \<open>Results\<close>

lemma find_row_prefix: "find_row key k xs = Some x \<Longrightarrow> prefix xs ys \<Longrightarrow> find_row key k ys = Some x"
proof -
  assume x: "find_row key k xs = Some x" and "prefix xs ys"
  then obtain zs where "ys = xs @ zs" by (auto simp: prefix_def)
  with x show ?thesis by (induction xs arbitrary: ys) (auto simp: find_row_def split: if_split_asm)
qed

lemma prior_result_iff:
  assumes "results_ok db" and "keys_ok db" and "x \<in> set (x_results db)"
    and "row \<in> set (x_steps db)" and "step_id row = res_StepID x"
  shows "prior_result db run (res_StepID x) = (if es_RunID (row_Step row) = er_ID run then Some x else None)"
proof -
  have dist: "distinct (map res_StepID (x_results db))" using assms(1) by (simp only: results_ok_def)
  have uniq: "y = x" if "y \<in> set (x_results db)" "res_StepID y = res_StepID x" for y
    using that assms(3) dist by (metis distinct_map inj_onD)
  have row: "list_ex (\<lambda>r. step_id r = res_StepID x \<and> es_RunID (row_Step r) = er_ID run) (x_steps db) \<longleftrightarrow> es_RunID (row_Step row) = er_ID run"
    (is "?found \<longleftrightarrow> ?same")
  proof
    assume ?found
    then obtain r where "r \<in> set (x_steps db)" "step_id r = step_id row" "es_RunID (row_Step r) = er_ID run"
      using assms(5) by (auto simp: list_ex_iff)
    then show ?same using step_unique [OF assms(2) _ assms(4)] by blast
  next
    assume ?same
    with assms(4,5) show ?found unfolding list_ex_iff by blast
  qed
  show ?thesis
  proof (cases "prior_result db run (res_StepID x)")
    case None
    have "\<not> ?found"
    proof
      assume ?found
      with assms(3) have "\<exists>z \<in> set (x_results db). res_StepID z = res_StepID x
          \<and> list_ex (\<lambda>r. step_id r = res_StepID z \<and> es_RunID (row_Step r) = er_ID run) (x_steps db)"
        by (intro bexI [of _ x]) simp_all
      with None show False unfolding prior_result_def find_None_iff by blast
    qed
    then show ?thesis using row None by simp
  next
    case (Some y)
    then have y: "y \<in> set (x_results db)" "res_StepID y = res_StepID x"
      "list_ex (\<lambda>r. step_id r = res_StepID y \<and> es_RunID (row_Step r) = er_ID run) (x_steps db)"
      unfolding prior_result_def by (auto dest!: find_SomeD_mem)
    then show ?thesis using uniq [OF y(1,2)] row Some by simp
  qed
qed

text \<open>A completion that is acknowledged has its result on record, under its step, for the run of its lease.\<close>

definition on_record :: "exec_db \<Rightarrow> execution_lease \<Rightarrow> string \<Rightarrow> string \<Rightarrow> bool" where
  "on_record db l actor sha \<longleftrightarrow>
     (\<exists>x \<in> set (x_results db). res_StepID x = el_StepID l \<and> res_Actor x = actor \<and> res_SHA256 x = sha)
     \<and> (\<exists>row \<in> set (x_steps db). step_id row = el_StepID l \<and> es_RunID (row_Step row) = el_RunID l)"

lemma CompleteExecution_on_record:
  assumes inv: "exec_inv db" and com: "CompleteExecution env db l actor res evidence status stage = (Inr run', db')"
  shows "on_record db' l actor (art_SHA256 evidence)"
proof -
  obtain run0 where run0: "lockExecution db (el_ProjectID l) (el_RunID l) = Inr run0"
    using com by (cases "lockExecution db (el_ProjectID l) (el_RunID l)") (auto simp: CompleteExecution_def)
  note eq = com [unfolded CompleteExecution_def run0 sum.case]
  show ?thesis
  proof (cases "prior_result db run0 (el_StepID l)")
    case (Some prior)
    then have "prior \<in> set (x_results db)" "res_StepID prior = el_StepID l"
      and "list_ex (\<lambda>r. step_id r = res_StepID prior \<and> es_RunID (row_Step r) = er_ID run0) (x_steps db)"
      unfolding prior_result_def by (auto dest!: find_SomeD_mem)
    moreover have "db' = db" "res_Actor prior = actor" "res_SHA256 prior = art_SHA256 evidence"
      using eq Some by (auto split: if_split_asm)
    ultimately show ?thesis using lockExecution_Ok(3) [OF run0] unfolding on_record_def list_ex_iff by metis
  next
    case None
    then obtain run row where chk: "checkExecutionLease env db l actor = Inr (run, row)"
      and commit: "commit_result env db run row actor res evidence status stage = (Inr run', db')"
      using eq by (auto split: sum.split_asm if_split_asm)
    note c = checkExecutionLease_Ok [OF chk]
    note row = open_step_last [OF inv c(1,5)]
    define step where "step = completed_step env (row_Step row) res evidence"
    have id: "es_ID step = step_id row" "es_RunID step = es_RunID (row_Step row)" by (simp_all add: step_def completed_step_def step_id_def)
    have db': "x_results db' = x_results db @ [\<lparr>res_StepID = step_id row, res_Actor = actor, res_SHA256 = art_SHA256 evidence, res_Result = res\<rparr>]"
      "x_steps db' = put_row step_id (saved_step row step) (x_steps db)"
      using commit id(1) unfolding commit_result_def step_def [symmetric] Let_def
      by (auto simp: saveExecution_Ok split: sum.split_asm if_split_asm)
    have "saved_step row step \<in> set (x_steps db')"
      unfolding db' put_row_def using row(1) id(1) by (force simp: saved_step_def step_id_def)
    moreover have "step_id (saved_step row step) = el_StepID l" "es_RunID (row_Step (saved_step row step)) = el_RunID l"
      using id row(2) c(2,7) by (simp_all add: saved_step_def step_id_def)
    moreover have "\<lparr>res_StepID = step_id row, res_Actor = actor, res_SHA256 = art_SHA256 evidence, res_Result = res\<rparr> \<in> set (x_results db')"
      by (simp add: db'(1))
    ultimately show ?thesis unfolding on_record_def using c(7) by (metis result_row.select_convs(1-3))
  qed
qed

lemma on_record_later:
  assumes "on_record d l actor sha" and "exec_later d d'" and "keys_ok d"
  shows "on_record d' l actor sha"
proof -
  obtain x row where x: "x \<in> set (x_results d)" "res_StepID x = el_StepID l" "res_Actor x = actor" "res_SHA256 x = sha"
    and row: "row \<in> set (x_steps d)" "step_id row = el_StepID l" "es_RunID (row_Step row) = el_RunID l"
    using assms(1) unfolding on_record_def by blast
  have "x \<in> set (x_results d')" using x(1) assms(2) unfolding exec_later_def by (meson set_mono_prefix subsetD)
  moreover have "find_row step_id (el_StepID l) (x_steps d) = Some row"
    using row assms(3) find_row_distinct [of step_id "x_steps d" row] by (simp add: keys_ok_def)
  then obtain row' where "find_row step_id (el_StepID l) (x_steps d') = Some row'" "step_later (row_Step row) (row_Step row')"
    using assms(2) unfolding exec_later_def by blast
  then have "row' \<in> set (x_steps d') \<and> step_id row' = el_StepID l \<and> es_RunID (row_Step row') = el_RunID l"
    using row(3) find_row_SomeD [of step_id "el_StepID l" "x_steps d'" row'] by (simp add: step_later_def)
  ultimately show ?thesis unfolding on_record_def using x by blast
qed

lemma prior_result_on_record:
  assumes "on_record db l actor sha" and "exec_inv db" and "er_ID run = el_RunID l"
  shows "\<exists>x. prior_result db run (el_StepID l) = Some x \<and> res_Actor x = actor \<and> res_SHA256 x = sha"
proof -
  obtain x row where x: "x \<in> set (x_results db)" "res_StepID x = el_StepID l" "res_Actor x = actor" "res_SHA256 x = sha"
    and row: "row \<in> set (x_steps db)" "step_id row = el_StepID l" "es_RunID (row_Step row) = el_RunID l"
    using assms(1) unfolding on_record_def by blast
  have "step_id row = res_StepID x" using x(2) row(2) by simp
  from prior_result_iff [OF _ _ x(1) row(1) this, of run] assms(2,3) row(3) x
  show ?thesis by (simp add: exec_inv_def)
qed

text \<open>
  C11: a recorded result is final and its acknowledgement can be repeated. After a completion was acknowledged, another
  completion of that step, in any later state, changes nothing: with other evidence or by another worker it is a
  version conflict, and with the same evidence by the same live worker it returns the run as it stands.
\<close>

theorem completion_is_idempotent:
  assumes "reach x_start x_step db" and "CompleteExecution env db l actor res evidence status stage = (Inr run, db1)"
    and "x_step\<^sup>*\<^sup>* db1 db2" and "lockExecution db2 (el_ProjectID l) (el_RunID l) = Inr run2"
  shows "snd (CompleteExecution env2 db2 l who res2 evidence2 status2 stage2) = db2
    \<and> (who \<noteq> actor \<or> art_SHA256 evidence2 \<noteq> art_SHA256 evidence
        \<longrightarrow> fst (CompleteExecution env2 db2 l who res2 evidence2 status2 stage2) = Inl ErrVersionConflict)
    \<and> (who = actor \<and> art_SHA256 evidence2 = art_SHA256 evidence
        \<and> executionActor env2 db2 actor (el_ProjectID l) (ExecutionRole (rs_Stage res2)) False
        \<longrightarrow> fst (CompleteExecution env2 db2 l who res2 evidence2 status2 stage2) = Inr run2)"
proof -
  have inv: "exec_inv db" using assms(1) ex.reach_inv by blast
  have inv1: "exec_inv db1" using ex.inv_step [OF inv] x_step.complete [OF assms(2)] by blast
  have inv2: "exec_inv db2" and later: "exec_later db1 db2" using inv1 ex.steps_inv ex.steps_later assms(3) by blast+
  have "on_record db2 l actor (art_SHA256 evidence)"
    using CompleteExecution_on_record [OF inv assms(2)] on_record_later later inv1 by (auto simp: exec_inv_def)
  then obtain x where "prior_result db2 run2 (el_StepID l) = Some x" "res_Actor x = actor" "res_SHA256 x = art_SHA256 evidence"
    using prior_result_on_record inv2 lockExecution_Ok(3) [OF assms(4)] by blast
  then show ?thesis using assms(4) lockExecution_Ok(2) [OF assms(4)] by (simp add: CompleteExecution_def)
qed


text \<open>
  reserving a source query is idempotent. A repeated reservation under the same lease and key, whatever has become of the
  lease, is not charged to the budget again and changes nothing.
\<close>

theorem reservation_is_idempotent:
  assumes "ReserveExecutionSource env db l actor q = (Inr (), db1)"
  shows "snd (ReserveExecutionSource env2 db1 l who q) = db1"
proof -
  obtain run row where chk: "checkExecutionLease env db l actor = Inr (run, row)"
    using assms by (auto simp: ReserveExecutionSource_def split: sum.split_asm)
  note sid = checkExecutionLease_Ok(7) [OF chk]
  have "\<exists>v \<in> set (x_reservations db1). rv_StepID v = el_StepID l \<and> rv_Key v = sq_IdempotencyKey q"
    using assms chk sid
    by (auto simp: ReserveExecutionSource_def saveExecution_Ok save_into_def split: if_split_asm option.split_asm sum.split_asm dest!: find_SomeD_mem)
  then have found: "find (\<lambda>v. rv_StepID v = el_StepID l \<and> rv_Key v = sq_IdempotencyKey q) (x_reservations db1) \<noteq> None"
    unfolding find_None_iff by blast
  show ?thesis
  proof (cases "checkExecutionLease env2 db1 l who")
    case (Inr p)
    then obtain run2 row2 where chk2: "checkExecutionLease env2 db1 l who = Inr (run2, row2)" by (cases p) auto
    show ?thesis using chk2 checkExecutionLease_Ok(7) [OF chk2] found
      by (auto simp: ReserveExecutionSource_def split: option.split)
  qed (simp add: ReserveExecutionSource_def)
qed

text \<open>
  The row budget is not enforced against a limit near the largest integer. Once a run has been charged some rows, a reservation
  whose limit makes the sum overflow passes the check, and the rows recorded for the run become negative.
\<close>

lemma oversized_reservation_accepted:
  assumes "checkExecutionLease env db l actor = Inr (run, row)" and "er_Stage run \<in> {''diagnose'', ''verify_recovery''}"
    and "sq_ProjectID q = er_ProjectID run" and "sq_ProductID q = er_ProductID run" and "sq_SourceID q \<in> set (et_Sources (er_Target run))"
    and "sq_Purpose q \<in> set (et_Purposes (er_Target run))"
    and "\<forall>v \<in> set (x_reservations db). rv_StepID v = step_id row \<longrightarrow> rv_Key v \<noteq> sq_IdempotencyKey q"
    and "eu_SourceQueries (er_Usage run) < eb_MaxSourceQueries (et_Budget (er_Target run))" and "0 \<le> eb_MaxSourceRows (et_Budget (er_Target run))"
    and "find_row ee_ID (env_id env 0) (x_events db) = None"
    and limits: "1 \<le> sq_Limit q" "sq_Limit q < 2 ^ 63" "eu_SourceRows (er_Usage run) < 2 ^ 63" "2 ^ 63 \<le> eu_SourceRows (er_Usage run) + sq_Limit q"
  shows "\<exists>db'. ReserveExecutionSource env db l actor q = (Inr (), db') \<and> x_events db' \<noteq> x_events db
    \<and> (\<exists>run' \<in> set (x_runs db'). er_ID run' = er_ID run \<and> eu_SourceRows (er_Usage run') < 0)"
proof -
  have sum: "wrap64 (eu_SourceRows (er_Usage run) + sq_Limit q) = eu_SourceRows (er_Usage run) + sq_Limit q - 2 ^ 64"
    using limits by (intro wrap64_negative) simp_all
  then have neg: "wrap64 (eu_SourceRows (er_Usage run) + sq_Limit q) < 0" using limits by simp
  have none: "find (\<lambda>v. rv_StepID v = step_id row \<and> rv_Key v = sq_IdempotencyKey q) (x_reservations db) = None"
    using assms(7) by (auto simp: find_None_iff)
  have "saved_run env 2 (reserved_run run q) \<in> set (put_row er_ID (saved_run env 2 (reserved_run run q)) (x_runs db))"
    using checkExecutionLease_Ok(1) [OF assms(1)] by (force simp: put_row_def reserved_run_def)
  moreover have "er_ID (saved_run env 2 (reserved_run run q)) = er_ID run"
    "eu_SourceRows (er_Usage (saved_run env 2 (reserved_run run q))) < 0"
    using neg by (simp_all add: reserved_run_def)
  ultimately have "\<exists>run' \<in> set (put_row er_ID (saved_run env 2 (reserved_run run q)) (x_runs db)).
      er_ID run' = er_ID run \<and> eu_SourceRows (er_Usage run') < 0"
    by blast
  then show ?thesis
    using assms(1-6,8,9,10) limits(1) none neg by (auto simp: ReserveExecutionSource_def saveExecution_def)
qed

section \<open>The order of the stages\<close>

lemma role_evaluate: "ExecutionRole ''evaluate'' \<in> set sdlc_roles" "ExecutionRole ''build'' \<in> set sdlc_roles"
  "ExecutionRole ''deliver'' \<in> set sdlc_roles" "ExecutionRole ''evaluate'' \<noteq> ExecutionRole ''build''"
  "ExecutionRole ''evaluate'' \<noteq> ExecutionRole ''deliver''"
  by (simp_all add: ExecutionRole_def sdlc_roles_def)

lemma numbers_increase:
  assumes "map es_Number (before @ e # after) = map int [1 ..< Suc (length (before @ e # after))]" and "b \<in> set before"
  shows "es_Number b < es_Number e"
proof -
  obtain i where i: "i < length before" "before ! i = b" using assms(2) by (auto simp: in_set_conv_nth)
  have "map es_Number (before @ e # after) ! i = int (Suc i)" "map es_Number (before @ e # after) ! length before = int (Suc (length before))"
    using i(1) unfolding assms(1) by (simp_all del: upt_Suc)
  then show ?thesis using i by (simp add: nth_append)
qed

lemma pipeline_okD:
  assumes "pipeline_ok r ss"
  shows "required_stage (er_Stage r) = Some p \<Longrightarrow> passed ss p"
    and "er_Stage r \<in> {''deliver'', ''verify_delivery''} \<Longrightarrow> evaluated ss"
    and "er_Status r = ''completed'' \<Longrightarrow> ss \<noteq> [] \<and> es_Stage (last ss) \<in> {''verify_delivery'', ''verify_recovery''}
          \<and> es_Stage (last ss) = er_Stage r \<and> succeeded (last ss)"
  using assms unfolding pipeline_ok_def by blast+

lemma evaluated_independent:
  assumes ok: "exec_ok run ss es" and stage: "er_Stage run \<in> {''deliver'', ''verify_delivery''}"
  shows "\<exists>e \<in> set ss. es_Stage e = ''evaluate'' \<and> succeeded e
    \<and> es_Actor e \<noteq> map_get [] (et_Participants (er_Target run)) (ExecutionRole ''deliver'')
    \<and> (\<forall>b \<in> set ss. es_Stage b = ''build'' \<longrightarrow> es_Actor b \<noteq> es_Actor e \<and> es_Number b < es_Number e)"
proof -
  have "evaluated ss" using ok stage pipeline_okD(2) unfolding exec_ok_def by blast
  then obtain before e after where ss: "ss = before @ e # after" and e: "es_Stage e = ''evaluate''" "succeeded e"
    and after: "\<forall>s \<in> set after. es_Stage s \<noteq> ''build''"
    unfolding evaluated_def by blast
  have numbers: "map es_Number ss = map int [1 ..< Suc (length ss)]" using ok by (simp only: exec_ok_def steps_ok_def)
  have actor: "es_Actor s = map_get [] (et_Participants (er_Target run)) (ExecutionRole (es_Stage s))" if "s \<in> set ss" for s
    using that ok by (simp add: exec_ok_def steps_ok_def)
  have distinct: "map_get [] (et_Participants (er_Target run)) a \<noteq> map_get [] (et_Participants (er_Target run)) b"
    if "a \<in> set sdlc_roles" "b \<in> set sdlc_roles" "a \<noteq> b" for a b
    using that ok unfolding exec_ok_def actors_ok_def by blast
  have mem: "e \<in> set ss" by (simp add: ss)
  have eval: "es_Actor e = map_get [] (et_Participants (er_Target run)) (ExecutionRole ''evaluate'')" using actor [OF mem] e(1) by simp
  have "es_Actor b \<noteq> es_Actor e \<and> es_Number b < es_Number e" if b: "b \<in> set ss" "es_Stage b = ''build''" for b
  proof
    show "es_Actor b \<noteq> es_Actor e"
      using distinct [OF role_evaluate(1,2,4)] actor [OF b(1)] b(2) eval by simp
    have "b \<in> set before" using b after e(1) ss by auto
    then show "es_Number b < es_Number e" using numbers_increase numbers unfolding ss by blast
  qed
  moreover have "es_Actor e \<noteq> map_get [] (et_Participants (er_Target run)) (ExecutionRole ''deliver'')"
    using distinct [OF role_evaluate(1,3,5)] eval by simp
  ultimately show ?thesis using mem e by blast
qed

text \<open>
  C9: nothing is delivered that was not evaluated independently. When a delivery step is claimed, an earlier step of the run is a
  successful evaluation that came after every build step, and its evaluator is neither the worker that delivers
  nor the worker of any build step.
\<close>

theorem delivery_needs_independent_evaluation:
  assumes "reach x_start x_step db" and "ClaimExecution env db project rid actor token = (Inr claim, db')"
    and "lockExecution db project rid = Inr run" and "er_Stage run = ''deliver''"
  shows "\<exists>e \<in> set (run_steps db rid). es_Stage e = ''evaluate'' \<and> succeeded e \<and> es_Actor e \<noteq> actor
    \<and> (\<forall>b \<in> set (run_steps db rid). es_Stage b = ''build'' \<longrightarrow> es_Actor b \<noteq> es_Actor e \<and> es_Number b < es_Number e)"
proof -
  have "actor = run_Actor run" using ClaimExecution_Ok [OF assms(2)] assms(3) by auto
  moreover have "exec_ok run (run_steps db rid) (run_events db rid)"
    using reach_run [OF assms(1) lockExecution_Ok(1) [OF assms(3)]] lockExecution_Ok(3) [OF assms(3)] by simp
  from evaluated_independent [OF this] assms(4) have "\<exists>e \<in> set (run_steps db rid). es_Stage e = ''evaluate'' \<and> succeeded e
    \<and> es_Actor e \<noteq> map_get [] (et_Participants (er_Target run)) (ExecutionRole ''deliver'')
    \<and> (\<forall>b \<in> set (run_steps db rid). es_Stage b = ''build'' \<longrightarrow> es_Actor b \<noteq> es_Actor e \<and> es_Number b < es_Number e)" by simp
  ultimately show ?thesis using assms(4) by (simp add: run_Actor_def)
qed

text \<open>
  C13: a run is completed only by a successful verification. The last step of a completed run verified its delivery or its
  recovery and succeeded, and the delivery (after an evaluation) or the remediation it verified succeeded before.
\<close>

theorem completed_means_verified:
  assumes "reach x_start x_step db" and "lockExecution db project rid = Inr run" and "er_Status run = ''completed''"
  shows "\<exists>before s. run_steps db rid = before @ [s] \<and> succeeded s
    \<and> (es_Stage s = ''verify_delivery'' \<and> passed (run_steps db rid) ''deliver'' \<and> evaluated (run_steps db rid)
       \<or> es_Stage s = ''verify_recovery'' \<and> passed (run_steps db rid) ''remediate'')"
proof -
  define ss where "ss = run_steps db rid"
  have ok: "pipeline_ok run ss"
    using reach_run [OF assms(1) lockExecution_Ok(1) [OF assms(2)]] lockExecution_Ok(3) [OF assms(2)] by (simp add: exec_ok_def ss_def)
  note last = pipeline_okD(3) [OF ok assms(3)] and prev = pipeline_okD(1) [OF ok] and evl = pipeline_okD(2) [OF ok]
  have snoc: "ss = butlast ss @ [last ss]" using last by simp
  consider "er_Stage run = ''verify_delivery''" | "er_Stage run = ''verify_recovery''" using last by auto
  then have "es_Stage (last ss) = ''verify_delivery'' \<and> passed ss ''deliver'' \<and> evaluated ss
      \<or> es_Stage (last ss) = ''verify_recovery'' \<and> passed ss ''remediate''"
  proof cases
    case 1
    then show ?thesis using last prev [of "''deliver''"] evl by (simp add: required_stage_def)
  next
    case 2
    then show ?thesis using last prev [of "''remediate''"] by (simp add: required_stage_def)
  qed
  then show ?thesis using snoc last unfolding ss_def by blast
qed


section \<open>Reconciliation\<close>

definition reading_back :: "execution_run \<Rightarrow> execution_run \<Rightarrow> bool" where
  "reading_back r r' \<longleftrightarrow> er_Stage r' = er_Stage r \<and> er_Status r' \<in> {''reconciling'', ''blocked'', ''cancelled'', ''paused''}"

lemma written_run:
  assumes "keys_ok db" and "run \<in> set (x_runs db)" and "r \<in> set (x_runs db)" and "er_ID s = er_ID run"
    and "find_row er_ID (er_ID r) (put_row er_ID s (x_runs db)) = Some r'"
  shows "r' = r \<or> run = r \<and> r' = s"
proof (cases "er_ID r = er_ID run")
  case True
  then have "r = run" using assms(1-3) by (auto simp: keys_ok_def distinct_map dest: inj_onD)
  then show ?thesis using assms(4,5) by (auto simp: find_row_put split: if_split_asm)
next
  case False
  then show ?thesis
    using assms(1,3-5) find_row_distinct [of er_ID "x_runs db" r] by (simp add: find_row_put keys_ok_def)
qed

lemma exec_change_reconciling:
  assumes "exec_change db db'" and inv: "exec_inv db" and r: "r \<in> set (x_runs db)" and st: "er_Status r = ''reconciling''"
    and r': "find_row er_ID (er_ID r) (x_runs db') = Some r'"
  shows "reading_back r r'"
proof -
  have keys: "keys_ok db" using inv by (simp add: exec_inv_def)
  have same: "reading_back r r" using st by (simp add: reading_back_def)
  have old: "find_row er_ID (er_ID r) (x_runs db) = Some r" using keys r by (simp add: keys_ok_def find_row_distinct)
  have unchanged: "reading_back r r'" if "x_runs db' = x_runs db" using that r' old same by simp
  have written: "reading_back r r'" if "run \<in> set (x_runs db)" "er_ID s = er_ID run" "x_runs db' = put_row er_ID s (x_runs db)"
    "run = r \<Longrightarrow> reading_back r s" for run s
    using written_run [OF keys that(1) r that(2)] r' that(3,4) same by auto
  show ?thesis
    using assms(1)
  proof cases
    case (create inp ev env)
    then show ?thesis using r' old same by (simp add: find_row_append)
  next
    case (block run ev env c reason)
    then show ?thesis by (intro written [of run]) (auto simp: blocked_run_def reading_back_def)
  next
    case (start run env step sid now token run' ev)
    then show ?thesis using st by (intro written [of run]) (auto simp: claimed_run_def reading_back_def)
  next
    case (reclaim run row now env ev token)
    then show ?thesis using st by (intro written [of run]) (auto simp: claimed_run_def reading_back_def)
  next
    case (result run row res status stage ev env db1 arts evidence blobs)
    have "reading_back r (saved_run env 3 (concluded_run r res status stage))"
      using st by (simp add: concluded_run_def Let_def reading_back_def)
    then show ?thesis using result by (intro written [of run "saved_run env 3 (concluded_run run res status stage)"]) auto
  next
    case (control run env action reason run' db1 ev)
    have "er_ID run' = er_ID run" "x_runs db1 = x_runs db" using control_effect_run [OF control(4)] by (simp_all add: contract_def)
    moreover have "reading_back r (saved_run env 2 run')" if "run = r"
      using control(4) st unfolding that by (cases rule: control_effect_cases) (simp_all add: reading_back_def)
    ultimately show ?thesis using control(1,2) by (intro written [of run]) auto
  next
    case (reserve run row q ev env rs)
    then show ?thesis using st by (intro written [of run]) (auto simp: reserved_run_def reading_back_def)
  next
    case (record_artifact run row blobs arts)
    then show ?thesis using unchanged by simp
  next
    case (bind_context run row sha blobs arts)
    then show ?thesis using unchanged by simp
  qed
qed

text \<open>
  A run that is being reconciled only reads back. No operation takes it to another stage, and none makes it ready,
  running or completed: it stays in reconciliation, or ends blocked, cancelled or paused.
\<close>

theorem reconciling_only_reads_back:
  assumes "reach x_start x_step db" and "lockExecution db project rid = Inr run" and "er_Status run = ''reconciling''"
    and "x_step db db'"
  shows "\<exists>run'. lockExecution db' project rid = Inr run' \<and> er_Stage run' = er_Stage run
    \<and> er_Status run' \<in> {''reconciling'', ''blocked'', ''cancelled'', ''paused''}"
proof -
  have inv: "exec_inv db" using assms(1) ex.reach_inv by blast
  then have keys: "keys_ok db" by (simp add: exec_inv_def)
  have later: "exec_inv db'" "exec_later db db'" using inv assms(4) ex.inv_step ex.later_step by blast+
  then have keys': "keys_ok db'" by (simp add: exec_inv_def)
  have old: "find_row er_ID rid (x_runs db) = Some run" "er_ProjectID run = project" using assms(2) lockExecution_iff [OF keys] by blast+
  then obtain run' where new: "find_row er_ID rid (x_runs db') = Some run'" "exec_run_later run run'"
    using later(2) unfolding exec_later_def by blast
  then have lock: "lockExecution db' project rid = Inr run'"
    using old(2) unfolding lockExecution_iff [OF keys'] by (simp add: exec_run_later_def contract_def)
  have "reading_back run run'"
    using x_step_change [OF assms(4)]
  proof
    assume "same_exec db db'"
    then have "run' = run" using old new by (simp add: same_exec_def)
    then show ?thesis using assms(3) by (simp add: reading_back_def)
  next
    assume "exec_change db db'"
    from exec_change_reconciling [OF this inv lockExecution_Ok(1) [OF assms(2)] assms(3)] new(1) lockExecution_Ok(3) [OF assms(2)]
    show ?thesis by simp
  qed
  then show ?thesis using lock unfolding reading_back_def by blast
qed

section \<open>Progress\<close>

lemma next_step_free:
  assumes "steps_ok run (run_steps db (er_ID run))"
  shows "loadExecutionStep db (er_ID run) (er_StepNumber run + 1) = None"
proof (cases "loadExecutionStep db (er_ID run) (er_StepNumber run + 1)")
  case (Some row)
  note row = loadExecutionStep_Some [OF Some]
  then have "row_Step row \<in> set (run_steps db (er_ID run))" by (simp add: run_steps_def)
  then have "es_Number (row_Step row) \<in> set (map es_Number (run_steps db (er_ID run)))" by simp
  moreover have "map es_Number (run_steps db (er_ID run)) = map int [1 ..< Suc (length (run_steps db (er_ID run)))]"
    and "er_StepNumber run = int (length (run_steps db (er_ID run)))"
    using assms by (simp_all only: steps_ok_def)
  ultimately have "es_Number (row_Step row) \<le> er_StepNumber run" by (auto simp del: upt_Suc)
  with row(3) show ?thesis by simp
qed simp

lemma claim_granted:
  assumes "reach x_start x_step db" and "lockExecution db project rid = Inr run"
    and "find_row ee_ID (env_id env 0) (x_events db) = None" and "find_row ee_ID (env_id env 1) (x_events db) = None"
    and "find_row step_id (env_id env 0) (x_steps db) = None" and "1 \<le> ap_Concurrency (run_Package run)"
  shows "(\<exists>claim. fst (ClaimExecution env db project rid actor token) = Inr claim) \<longleftrightarrow>
     actor = run_Actor run \<and> executionActor env db actor project (ExecutionRole (er_Stage run)) False \<and> executionOwner env db run
     \<and> er_Status run \<in> {''ready'', ''running'', ''reconciling''} \<and> lockExecutionRequirements env db run = None
     \<and> env_clock env 0 < er_Deadline run
     \<and> (\<forall>row. open_step db run = Some row \<longrightarrow> es_LeaseUntil (row_Step row) \<le> env_clock env 0)
     \<and> \<not> resource_busy env db (run_Package run) \<and> \<not> model_budget_exhausted run (run_Package run)"
proof -
  have steps: "steps_ok run (run_steps db (er_ID run))"
    using reach_run [OF assms(1) lockExecution_Ok(1) [OF assms(2)]] by (simp add: exec_ok_def)
  then have "0 \<le> er_StepNumber run" by (simp add: steps_ok_def)
  moreover have "loadExecutionStep db (er_ID run) (er_StepNumber run + 1) = None"
    using steps by (rule next_step_free)
  ultimately have begun: "\<exists>claim. fst (begin_step env db run (run_Package run) actor token) = Inr claim"
    using assms(3-6) by (simp add: begin_step_def Let_def saveExecution_def leased_step_def fresh_step_def)
  have reclaim: "\<exists>claim. fst (reclaim_step env db run (run_Package run) actor token row) = Inr claim" for row
    using assms(3) by (simp add: reclaim_step_def Let_def saveExecution_def saveExecutionStep_def)
  have blocked: "fst (block_run env c db run actor reason e) \<noteq> Inr claim" for c reason e and claim :: execution_claim
    by (simp add: block_run_def split: sum.split)
  show ?thesis
    using assms(2) begun reclaim blocked by (auto simp: ClaimExecution_def split: option.split if_split)
qed

text \<open>
  Exactly when a claim is granted. On a reachable store whose generated identifiers are fresh, the assigned worker of a run
  gets its lease if and only if the worker and the owner are live, the run is open, its packages and bound records are
  still current, the deadline is ahead, no unexpired lease is in the way, the executor has a free slot and the model budget has room.
\<close>

theorem claim_granted_iff:
  assumes "reach x_start x_step db" and "lockExecution db project rid = Inr run"
    and "find_row ee_ID (env_id env 0) (x_events db) = None" and "find_row ee_ID (env_id env 1) (x_events db) = None"
    and "find_row step_id (env_id env 0) (x_steps db) = None" and "1 \<le> ap_Concurrency (run_Package run)"
  shows "(\<exists>claim. fst (ClaimExecution env db project rid actor token) = Inr claim) \<longleftrightarrow>
     actor = run_Actor run \<and> executionActor env db actor project (ExecutionRole (er_Stage run)) False \<and> executionOwner env db run
     \<and> er_Status run \<in> {''ready'', ''running'', ''reconciling''} \<and> lockExecutionRequirements env db run = None
     \<and> env_clock env 0 < er_Deadline run
     \<and> (\<forall>row. open_step db run = Some row \<longrightarrow> es_LeaseUntil (row_Step row) \<le> env_clock env 0)
     \<and> \<not> resource_busy env db (run_Package run) \<and> \<not> model_budget_exhausted run (run_Package run)"
  using assms by (rule claim_granted)

end
