(* ===== verification/ExecProgress.thy ===== *)
theory ExecProgress
  imports ExecProps
begin

text \<open>
  Progress of an execution: a granted lease is honoured, a step whose context is bound can be completed, and the run then
  moves to the stage of the result.
\<close>

section \<open>What the operations on runs leave alone\<close>

definition same_context :: "exec_db \<Rightarrow> exec_db \<Rightarrow> bool" where
  "same_context d d' \<longleftrightarrow> x_principals d' = x_principals d \<and> x_credentials d' = x_credentials d \<and> x_roles d' = x_roles d
     \<and> x_products d' = x_products d \<and> x_heads d' = x_heads d \<and> x_decisions d' = x_decisions d \<and> x_validations d' = x_validations d
     \<and> x_code_heads d' = x_code_heads d \<and> x_activations d' = x_activations d"

lemma same_context_refl [simp]: "same_context d d"
  by (simp add: same_context_def)

lemma same_context_trans: "same_context a b \<Longrightarrow> same_context b c \<Longrightarrow> same_context a c"
  by (simp add: same_context_def)

lemma context_live: "same_context d d' \<Longrightarrow> liveExecutionCredential env d' = liveExecutionCredential env d"
  by (intro ext) (simp add: same_context_def liveExecutionCredential_def)

lemma context_executionActor: "same_context d d' \<Longrightarrow> executionActor env d' = executionActor env d"
  by (intro ext) (simp add: executionActor_def context_live split: option.split)

lemma context_executionOwner: "same_context d d' \<Longrightarrow> executionOwner env d' = executionOwner env d"
  by (intro ext) (simp add: executionOwner_def context_live)

lemma context_check_activations: "same_context d d' \<Longrightarrow> check_activations d' run roles = check_activations d run roles"
  by (induction roles) (simp_all add: same_context_def split: option.split)

lemma context_check_bindings: "same_context d d' \<Longrightarrow> check_bindings env d' run bs = check_bindings env d run bs"
proof (induction bs)
  case (Cons b bs)
  have "bound_record env d' run b = bound_record env d run b"
    using Cons.prems by (simp add: same_context_def bound_record_def product_record_eligible_def decision_counts_def [abs_def])
  moreover have "check_code_binding d' run r = check_code_binding d run r" for r
    using Cons.prems by (simp add: same_context_def check_code_binding_def split: option.split)
  ultimately show ?case using Cons.IH [OF Cons.prems] by (simp split: option.split)
qed simp

lemma context_requirements: "same_context d d' \<Longrightarrow> lockExecutionRequirements env d' run = lockExecutionRequirements env d run"
  by (simp add: lockExecutionRequirements_def lockActivePackages_def context_check_activations context_check_bindings split: option.split)

lemmas context_simps = context_executionActor context_executionOwner context_requirements

lemma save_into_context [simp]: "same_context d (save_into d' r ev) \<longleftrightarrow> same_context d d'"
  by (simp add: same_context_def save_into_def)

lemma saveExecutionStep_context [simp]: "same_context d (saveExecutionStep d' row step) \<longleftrightarrow> same_context d d'"
  by (simp add: same_context_def saveExecutionStep_def)

section \<open>After a claim\<close>

definition lease_of :: "execution_claim \<Rightarrow> execution_lease" where
  "lease_of c = \<lparr>el_ProjectID = er_ProjectID (cl_Run c), el_RunID = er_ID (cl_Run c), el_StepID = es_ID (cl_Step c),
     el_Fence = es_Fence (cl_Step c), el_Token = cl_Token c\<rparr>"

lemma claim_run_saved:
  assumes inv: "exec_inv db" and claim: "ClaimExecution env db project rid actor token = (Inr claim, db')"
    and run: "lockExecution db project rid = Inr run"
  shows "lockExecution db' project rid = Inr (cl_Run claim)" "contract run (cl_Run claim)" "er_Stage (cl_Run claim) = er_Stage run"
    "er_Deadline (cl_Run claim) = er_Deadline run" "er_OwnerCredential (cl_Run claim) = er_OwnerCredential run"
    "er_Status (cl_Run claim) = (if er_Status run = ''reconciling'' then ''reconciling'' else ''running'')"
    "cl_Token claim = token" "same_context db db'"
proof -
  have how: "begin_step env db run (run_Package run) actor token = (Inr claim, db')
     \<or> (\<exists>row. reclaim_step env db run (run_Package run) actor token row = (Inr claim, db'))"
    using ClaimExecution_Ok [OF claim] run by auto
  then obtain run' db1 ev where c: "cl_Run claim = saved_run env 1 run'" "cl_Token claim = token" "db' = save_into db1 (saved_run env 1 run') ev"
    "run' = claimed_run run (run_Package run) \<or> run' = (claimed_run run (run_Package run))\<lparr>er_StepNumber := er_StepNumber run + 1\<rparr>"
    "x_runs db1 = x_runs db" "same_context db db1"
  proof (elim disjE exE)
    assume "begin_step env db run (run_Package run) actor token = (Inr claim, db')"
    then show ?thesis
      by (intro that [of "(claimed_run run (run_Package run))\<lparr>er_StepNumber := er_StepNumber run + 1\<rparr>"
            "db\<lparr>x_steps := x_steps db'\<rparr>" "last (x_events db')"])
        (auto simp: begin_step_def Let_def saveExecution_Ok save_into_def same_context_def split: sum.split_asm if_split_asm)
  next
    fix row assume "reclaim_step env db run (run_Package run) actor token row = (Inr claim, db')"
    then show ?thesis
      by (intro that [of "claimed_run run (run_Package run)" "db\<lparr>x_steps := x_steps db'\<rparr>" "last (x_events db')"])
        (auto simp: reclaim_step_def Let_def saveExecution_Ok save_into_def saveExecutionStep_def same_context_def split: sum.split_asm)
  qed
  have keys: "keys_ok db" using inv by (simp add: exec_inv_def)
  have inv': "exec_inv db'" using ex.inv_step [OF inv x_step.claim [OF claim]] .
  then have keys': "keys_ok db'" by (simp add: exec_inv_def)
  show con: "contract run (cl_Run claim)" using c(1,4) by auto
  show "er_Stage (cl_Run claim) = er_Stage run" "er_Deadline (cl_Run claim) = er_Deadline run"
    "er_OwnerCredential (cl_Run claim) = er_OwnerCredential run" "cl_Token claim = token"
    "er_Status (cl_Run claim) = (if er_Status run = ''reconciling'' then ''reconciling'' else ''running'')"
    using c(1,2,4) by (auto simp: claimed_run_def saved_run_def)
  show "same_context db db'" using c(3,6) by simp
  have old: "find_row er_ID rid (x_runs db) = Some run" "er_ProjectID run = project" using run lockExecution_iff [OF keys] by blast+
  have "er_ID (cl_Run claim) = rid" "er_ProjectID (cl_Run claim) = project"
    using con old lockExecution_Ok(3) [OF run] by (simp_all add: contract_def)
  then show "lockExecution db' project rid = Inr (cl_Run claim)"
    unfolding lockExecution_iff [OF keys'] using old c(1,3,5) by (simp add: find_row_put)
qed

text \<open>The step of the claim is the open step of the run, with the actor and the stage of the run.\<close>

lemma claim_step_open:
  assumes inv: "exec_inv db" and claim: "ClaimExecution env db project rid actor token = (Inr claim, db')"
  shows "\<exists>row. open_step db' (cl_Run claim) = Some row \<and> row_Step row = cl_Step claim" "es_LeaseSHA (cl_Step claim) = Digest token"
    "es_Actor (cl_Step claim) = actor" "es_Stage (cl_Step claim) = er_Stage (cl_Run claim)" "actor = run_Actor (cl_Run claim)"
proof -
  obtain run where run: "lockExecution db project rid = Inr run" and actor: "actor = run_Actor run"
    and how: "begin_step env db run (run_Package run) actor token = (Inr claim, db')
     \<or> (\<exists>row. open_step db run = Some row \<and> reclaim_step env db run (run_Package run) actor token row = (Inr claim, db'))"
    using ClaimExecution_Ok [OF claim] by metis
  note saved = claim_run_saved [OF inv claim run]
  have inv': "exec_inv db'" using ex.inv_step [OF inv x_step.claim [OF claim]] .
  have run': "cl_Run claim \<in> set (x_runs db')" using lockExecution_Ok(1) [OF saved(1)] .
  have ok: "steps_ok (cl_Run claim) (run_steps db' (er_ID (cl_Run claim)))"
    using exec_inv_run [OF inv' run'] by (simp add: exec_ok_def)
  obtain row where row: "find_row step_id (es_ID (cl_Step claim)) (x_steps db') = Some row" "row_Step row = cl_Step claim"
    using claimed_step_saved [OF inv claim] by blast
  have step: "es_CompletedAt (cl_Step claim) = None" "es_LeaseSHA (cl_Step claim) = Digest token" "es_RunID (cl_Step claim) = er_ID run"
    "es_Number (cl_Step claim) = er_StepNumber (cl_Run claim)"
  proof -
    have "es_CompletedAt (cl_Step claim) = None \<and> es_LeaseSHA (cl_Step claim) = Digest token \<and> es_RunID (cl_Step claim) = er_ID run
        \<and> es_Number (cl_Step claim) = er_StepNumber (cl_Run claim)"
      using how
    proof (elim disjE exE conjE)
      assume b: "begin_step env db run (run_Package run) actor token = (Inr claim, db')"
      then show ?thesis
        by (auto simp: begin_step_def Let_def leased_step_def fresh_step_def split: sum.split_asm if_split_asm)
    next
      fix r assume o: "open_step db run = Some r" and rc: "reclaim_step env db run (run_Package run) actor token r = (Inr claim, db')"
      have "es_Number (row_Step r) = er_StepNumber run" using o loadExecutionStep_Some by (auto simp: open_step_Some)
      then show ?thesis
        using open_step_last [OF inv lockExecution_Ok(1) [OF run] o] reclaim_step_Ok(1,2) [OF rc]
        by (simp add: leased_step_def claimed_run_def)
    qed
    then show "es_CompletedAt (cl_Step claim) = None" "es_LeaseSHA (cl_Step claim) = Digest token" "es_RunID (cl_Step claim) = er_ID run"
      "es_Number (cl_Step claim) = er_StepNumber (cl_Run claim)" by blast+
  qed
  then show "es_LeaseSHA (cl_Step claim) = Digest token" by blast
  have id: "es_RunID (cl_Step claim) = er_ID (cl_Run claim)" using step(3) saved(2) by (simp add: contract_def)
  have mem: "row \<in> set (x_steps db')" using row(1) by (blast dest: find_row_SomeD)
  then have in_run: "cl_Step claim \<in> set (run_steps db' (er_ID (cl_Run claim)))" using row(2) id
    by (auto simp: run_steps_def image_iff intro: bexI [of _ row])
  have last: "run_steps db' (er_ID (cl_Run claim)) \<noteq> [] \<and> cl_Step claim = last (run_steps db' (er_ID (cl_Run claim)))"
    using nth_number [OF ok in_run step(4)] .
  then have "open_step db' (cl_Run claim) \<noteq> None" using open_step_none [OF inv' run'] in_run step(1) by blast
  then obtain row' where row': "open_step db' (cl_Run claim) = Some row'" by blast
  have "row_Step row' = cl_Step claim"
    using open_step_last(4) [OF inv' run' row'] last by (metis last_snoc)
  then show "\<exists>row. open_step db' (cl_Run claim) = Some row \<and> row_Step row = cl_Step claim" using row' by blast
  show stage: "es_Stage (cl_Step claim) = er_Stage (cl_Run claim)" using ok last step(1) by (simp add: steps_ok_def)
  have "es_Actor (cl_Step claim) = map_get [] (et_Participants (er_Target (cl_Run claim))) (ExecutionRole (es_Stage (cl_Step claim)))"
    using ok in_run by (simp only: steps_ok_def)
  then have "es_Actor (cl_Step claim) = run_Actor (cl_Run claim)" using stage by (simp add: run_Actor_def)
  moreover show "actor = run_Actor (cl_Run claim)" using actor saved(2,3) by (simp add: run_Actor_def contract_def)
  ultimately show "es_Actor (cl_Step claim) = actor" by simp
qed

lemma lease_honoured:
  assumes "reach x_start x_step db" and "ClaimExecution env db project rid actor token = (Inr claim, db')"
    and "executionActor env2 db' actor project (ExecutionRole (er_Stage (cl_Run claim))) False" and "executionOwner env2 db' (cl_Run claim)"
    and "lockExecutionRequirements env2 db' (cl_Run claim) = None"
    and "env_clock env2 0 < es_LeaseUntil (cl_Step claim)" and "env_clock env2 1 < er_Deadline (cl_Run claim)"
  shows "\<exists>row. checkExecutionLease env2 db' (lease_of claim) actor = Inr (cl_Run claim, row) \<and> row_Step row = cl_Step claim"
    "lockExecution db' project rid = Inr (cl_Run claim)"
proof -
  have inv: "exec_inv db" using assms(1) ex.reach_inv by blast
  obtain run where run: "lockExecution db project rid = Inr run" using ClaimExecution_Ok [OF assms(2)] by metis
  note saved = claim_run_saved [OF inv assms(2) run] and step = claim_step_open [OF inv assms(2)]
  obtain row where row: "open_step db' (cl_Run claim) = Some row" "row_Step row = cl_Step claim" using step(1) by blast
  have load: "loadExecutionStep db' (er_ID (cl_Run claim)) (er_StepNumber (cl_Run claim)) = Some row" "es_CompletedAt (cl_Step claim) = None"
    using row open_step_Some by auto
  have ids: "er_ProjectID (cl_Run claim) = project" "er_ID (cl_Run claim) = rid" using lockExecution_Ok [OF saved(1)] by simp_all
  have "lease_valid env2 (cl_Run claim) (cl_Step claim) (lease_of claim) actor"
    using step(2,3) load(2) saved(6,7) assms(6) by (simp add: lease_valid_def lease_of_def)
  then have chk: "checkExecutionLease env2 db' (lease_of claim) actor = Inr (cl_Run claim, row)"
    using saved(1) ids step(5) assms(3-5,7) load(1) row(2) by (simp add: checkExecutionLease_def lease_of_def)
  then show "\<exists>row. checkExecutionLease env2 db' (lease_of claim) actor = Inr (cl_Run claim, row) \<and> row_Step row = cl_Step claim"
    using row(2) by blast
  show "lockExecution db' project rid = Inr (cl_Run claim)" by (fact saved)
qed

text \<open>
  a granted lease is honoured. Until the lease or the deadline runs out, and while the worker, the owner and the
  bound context stay valid, the lease returned by a claim passes the check every worker operation starts with, and the
  check shows the run as the claim returned it.
\<close>

theorem granted_lease_is_honoured:
  assumes "reach x_start x_step db" and "ClaimExecution env db project rid actor token = (Inr claim, db')"
    and "executionActor env2 db' actor project (ExecutionRole (er_Stage (cl_Run claim))) False" and "executionOwner env2 db' (cl_Run claim)"
    and "lockExecutionRequirements env2 db' (cl_Run claim) = None"
    and "env_clock env2 0 < es_LeaseUntil (cl_Step claim)" and "env_clock env2 1 < er_Deadline (cl_Run claim)"
  shows "\<exists>view. CheckExecutionLease env2 db' (lease_of claim) actor = Inr view \<and> view_Run view = cl_Run claim
    \<and> cl_Step claim \<in> set (view_Steps view)"
proof -
  obtain row where chk: "checkExecutionLease env2 db' (lease_of claim) actor = Inr (cl_Run claim, row)" "row_Step row = cl_Step claim"
    and run: "lockExecution db' project rid = Inr (cl_Run claim)"
    using lease_honoured [OF assms] by blast
  have "row \<in> set (x_steps db')" "es_RunID (row_Step row) = er_ID (cl_Run claim)"
    using checkExecutionLease_Ok(5) [OF chk(1)] loadExecutionStep_Some by (auto simp: open_step_Some)
  moreover have "el_ProjectID (lease_of claim) = project" "el_RunID (lease_of claim) = rid"
    using lockExecution_Ok [OF run] by (simp_all add: lease_of_def)
  ultimately show ?thesis
    using chk run by (simp add: CheckExecutionLease_def GetExecution_def image_iff) metis
qed

section \<open>Completing a step\<close>

lemma checkExecutionLease_intro:
  assumes "lockExecution db (el_ProjectID l) (el_RunID l) = Inr run" and "actor = run_Actor run"
    and "executionActor env db actor (er_ProjectID run) (ExecutionRole (er_Stage run)) False" and "executionOwner env db run"
    and "open_step db run = Some row" and "lease_valid env run (row_Step row) l actor"
    and "env_clock env 1 < er_Deadline run" and "lockExecutionRequirements env db run = None"
  shows "checkExecutionLease env db l actor = Inr (run, row)"
  using assms by (simp add: checkExecutionLease_def open_step_Some)

lemma open_step_save:
  assumes inv: "exec_inv db" and run: "run \<in> set (x_runs db)" and row: "open_step db run = Some row"
    and step: "es_ID step = step_id row" "es_RunID step = es_RunID (row_Step row)" "es_Number step = es_Number (row_Step row)"
    "es_CompletedAt step = None" and keys: "keys_ok db"
  shows "open_step (saveExecutionStep db row step) run = Some (saved_step row step)"
proof -
  have load: "loadExecutionStep db (er_ID run) (er_StepNumber run) = Some row" "es_CompletedAt (row_Step row) = None"
    using row open_step_Some by auto
  note mem = loadExecutionStep_Some [OF load(1)]
  have "find P (map (\<lambda>x. if step_id x = step_id row then saved_step row step else x) rows) = map_option (\<lambda>x. if step_id x = step_id row then saved_step row step else x) (find P rows)"
    if "set rows \<subseteq> set (x_steps db)" "P = (\<lambda>r. es_RunID (row_Step r) = er_ID run \<and> es_Number (row_Step r) = er_StepNumber run)" for rows P
    using that(1)
  proof (induction rows)
    case (Cons x rows)
    have "P (if step_id x = step_id row then saved_step row step else x) \<longleftrightarrow> P x"
      using step_unique [OF keys, of x row] Cons.prems mem(1) step(2,3) that(2) by (auto simp: saved_step_def)
    then show ?case using Cons by simp
  qed simp
  moreover have "step_id (saved_step row step) = step_id row" using step(1) by (simp add: step_id_def saved_step_def)
  ultimately have "loadExecutionStep (saveExecutionStep db row step) (er_ID run) (er_StepNumber run) = Some (saved_step row step)"
    using load(1) by (simp add: loadExecutionStep_def saveExecutionStep_def put_row_def)
  then show ?thesis using step(4) by (simp add: open_step_Some saved_step_def)
qed

lemma complete_bound_step:
  assumes "reach x_start x_step db" and "checkExecutionLease env db l actor = Inr (run, row)" and "es_ContextSHA (row_Step row) \<noteq> []"
    and "rs_Stage res = es_Stage (row_Step row)" and "validExecutionTransition (es_Stage (row_Step row)) (rs_Outcome res) status stage"
    and "find_row ee_ID (env_id env 0) (x_events db) = None"
  shows "\<exists>run' db'. CompleteExecution env db l actor res evidence status stage = (Inr run', db')
    \<and> lockExecution db' (el_ProjectID l) (el_RunID l) = Inr run' \<and> er_Version run' = er_Version run + 1
    \<and> (er_Status run \<noteq> ''reconciling'' \<longrightarrow> er_Status run' = status \<and> er_Stage run' = stage)
    \<and> open_step db' run' = None
    \<and> (\<exists>s \<in> set (run_steps db' (er_ID run)). es_ID s = step_id row \<and> es_Result s = Some res \<and> es_Evidence s = evidence)"
proof -
  have inv: "exec_inv db" using assms(1) ex.reach_inv by blast
  note c = checkExecutionLease_Ok [OF assms(2)] and rowo = open_step_last [OF inv checkExecutionLease_Ok(1,5) [OF assms(2)]]
  have keys: "keys_ok db" and res: "results_ok db" using inv by (simp_all add: exec_inv_def)
  define run' where "run' = saved_run env 3 (concluded_run run res status stage)"
  have lock: "lockExecution db (el_ProjectID l) (el_RunID l) = Inr run"
    using assms(2) by (auto simp: checkExecutionLease_def split: sum.split_asm if_split_asm option.split_asm)
  have unrecorded: "res_StepID x \<noteq> step_id row" if x: "x \<in> set (x_results db)" for x
  proof
    assume eq: "res_StepID x = step_id row"
    obtain r where "r \<in> set (x_steps db)" "step_id r = res_StepID x" "es_CompletedAt (row_Step r) \<noteq> None"
      using results_okD [OF res x] by blast
    then show False using step_unique [OF keys, of r row] rowo(1,3) eq by simp
  qed
  then have prior: "prior_result db run (el_StepID l) = None" "find_row res_StepID (step_id row) (x_results db) = None"
    using c(7) by (auto simp: prior_result_def find_row_def find_None_iff)
  define step where "step = completed_step env (row_Step row) res evidence"
  have stepid: "es_ID step = step_id row" "es_RunID step = es_RunID (row_Step row)" by (simp_all add: step_def completed_step_def step_id_def)
  define db' where "db' = snd (commit_result env db run row actor res evidence status stage)"
  have commit: "CompleteExecution env db l actor res evidence status stage = commit_result env db run row actor res evidence status stage"
    using lock prior(1) assms(2-5) by (simp add: CompleteExecution_def)
  have com: "CompleteExecution env db l actor res evidence status stage = (Inr run', db')"
    and runs: "x_runs db' = put_row er_ID run' (x_runs db)" and steps: "x_steps db' = x_steps (saveExecutionStep db row step)"
    unfolding commit db'_def using prior(2) assms(6) stepid(1)
    by (simp_all add: commit_result_def step_def [symmetric] Let_def saveExecution_def run'_def)
  have inv': "exec_inv db'" using ex.inv_step [OF inv x_step.complete [OF com]] .
  have con: "contract run run'" by (simp add: run'_def)
  have old: "find_row er_ID (el_RunID l) (x_runs db) = Some run" "er_ProjectID run = el_ProjectID l" using lock lockExecution_iff [OF keys] by blast+
  have lock': "lockExecution db' (el_ProjectID l) (el_RunID l) = Inr run'"
    using inv' old con c(2) by (subst lockExecution_iff) (simp_all add: exec_inv_def runs find_row_put contract_def)
  have ss: "run_steps db' (er_ID run) = butlast (run_steps db (er_ID run)) @ [step]"
    using run_steps_save_last [OF keys rowo(1) stepid rowo(4)] run_steps_cong [OF steps] by simp
  have closed: "open_step db' run' = None"
  proof (rule ccontr)
    assume "open_step db' run' \<noteq> None"
    then obtain r where r: "open_step db' run' = Some r" by blast
    have "row_Step r = step"
      using open_step_last(4) [OF inv' lockExecution_Ok(1) [OF lock'] r] ss con by (simp add: contract_def)
    then show False using open_step_last(3) [OF inv' lockExecution_Ok(1) [OF lock'] r] by (simp add: step_def completed_step_def)
  qed
  have "step \<in> set (run_steps db' (er_ID run))" "es_Result step = Some res" "es_Evidence step = evidence"
    by (simp_all add: ss step_def completed_step_def)
  moreover have "er_Version run' = er_Version run + 1" "er_Status run \<noteq> ''reconciling'' \<Longrightarrow> er_Status run' = status \<and> er_Stage run' = stage"
    by (simp_all add: run'_def concluded_run_def Let_def)
  ultimately show ?thesis using com lock' closed stepid(1) by blast
qed


end
