(* ===== verification/ExecExamples.thy ===== *)
theory ExecExamples
  imports ExecProgress
begin

text \<open>
  Concrete executions: one feature and one incident, created by their owner and driven by five workers through their
  stages. The states reached here are the instances at which the properties of the execution store are applied.
\<close>

section \<open>A project with one owner and five workers\<close>

definition ex_workers :: "(string \<times> string) list" where
  "ex_workers = [(''sdlc_builder'', ''b''), (''sdlc_evaluator'', ''e''), (''sdlc_delivery'', ''d''), (''sdlc_diagnosis'', ''g''),
     (''sdlc_remediation'', ''m'')]"

definition ex_package :: "string \<Rightarrow> agent_package" where
  "ex_package role = zero_package\<lparr>ap_ID := role, ap_Role := role, ap_Model := (if role = ''sdlc_builder'' then ''qwen'' else []),
     ap_TimeoutSeconds := 60, ap_Concurrency := 4\<rparr>"

definition ex_target :: execution_target where
  "ex_target = \<lparr>et_ID = ''t'', et_ProjectID = ''p'', et_ProductID = ''q'', et_Environment = ''disposable'', et_RepositoryID = ''repo'',
     et_Participants = ex_workers, et_Packages = map (\<lambda>(r, w). (r, r)) ex_workers, et_Sources = [''s''], et_Purposes = [''u''],
     et_Classifications = [''internal''],
     et_Budget = \<lparr>eb_MaxAttempts = 3, eb_MaxModelCalls = 3, eb_MaxTokens = 100000, eb_MaxSourceQueries = 5, eb_MaxSourceRows = 50,
       eb_MaxSeconds = 1000, eb_MaxConcurrentRuns = 1\<rparr>,
     et_ProtectedPaths = [''ci''], et_AllowedRemedies = [], et_DeliverySHA256 = [], et_RemediationSHA256 = [], et_ObservationSeconds = 0,
     et_Qualification = True\<rparr>"

definition ex_request :: "string \<Rightarrow> execution_run" where
  "ex_request kind = \<lparr>er_Schema = ''hybrid-ai/sdlc-execution/v1'', er_ID = ''r'', er_ProjectID = ''p'', er_ProductID = ''q'', er_Kind = kind,
     er_RepositoryRevision = ''abc'', er_Intent = \<lparr>bind_RecordID = ''i'', bind_SHA256 = ''h'', bind_Kind = ''observation''\<rparr>, er_Bindings = [],
     er_Owner = ''o'', er_OwnerCredential = ''co'', er_Target = ex_target, er_Packages = map (\<lambda>(r, w). (r, ex_package r)) ex_workers,
     er_Status = ''ready'', er_Stage = (if kind = ''incident'' then ''diagnose'' else ''build''), er_Version = 0, er_StepNumber = 0,
     er_Usage = zero_usage, er_Blockers = [], er_CreatedAt = 0, er_Deadline = seconds 1000, er_UpdatedAt = 0, er_IdempotencyKey = ''k'',
     er_RequestSHA256 = ''x''\<rparr>"

definition ex_record :: product_row where
  "ex_record = \<lparr>prod_ID = ''i'', prod_Project = ''p'', prod_Product = ''q'', prod_Key = ''y'', prod_Kind = ''observation'', prod_Version = 1,
     prod_Title = ''t'', prod_Content = [], prod_Classification = ''internal'', prod_Origin = ''source_adapter'', prod_Status = ''observed'',
     prod_Owner = ''o'', prod_Actor = ''o'',
     prod_Source = \<lparr>src_SourceID = ''s'', src_Revision = ''r'', src_SchemaVersion = ''v'', src_ReceiptID = ''e'', src_Start = None,
       src_End = None, src_Watermark = None, src_CollectedAt = None, src_Snapshot = [], src_Offsets = [], src_Complete = True,
       src_Purpose = ''u'', src_Fields = [], src_Filters = [], src_RowLimit = 1\<rparr>,
     prod_SHA256 = ''h'', prod_Evidence = zero_artifact, prod_CreatedAt = utc 0, prod_ExpiresAt = None, prod_Code = None\<rparr>"

definition ex_db0 :: exec_db where
  "ex_db0 = \<lparr>x_principals = \<lparr>pr_ID = ''o'', pr_Active = True, pr_Kind = ''human''\<rparr>
       # map (\<lambda>(r, w). \<lparr>pr_ID = w, pr_Active = True, pr_Kind = ''workload''\<rparr>) ex_workers,
     x_credentials = map (\<lambda>w. \<lparr>cred_ID = ''c'' @ w, cred_Principal = w, cred_RevokedAt = None, cred_ExpiresAt = None\<rparr>) (''o'' # map snd ex_workers),
     x_roles = map (\<lambda>(r, w). \<lparr>rb_Principal = w, rb_Project = ''p'', rb_Role = r, rb_ValidFrom = 0, rb_ValidUntil = None\<rparr>)
       ((''operations'', ''o'') # ex_workers),
     x_products = [ex_record],
     x_heads = [\<lparr>head_Project = ''p'', head_Product = ''q'', head_Key = ''y'', head_Record = ''i''\<rparr>],
     x_decisions = [], x_validations = [], x_relations = [], x_blobs = [], x_receipts = [], x_evaluations = [], x_runs = [], x_steps = [], x_events = [], x_results = [],
     x_artifacts = [], x_reservations = [], x_code_heads = [], x_activations = []\<rparr>"

definition ex_env :: "string \<Rightarrow> nat \<Rightarrow> call_env" where
  "ex_env who k = \<lparr>env_ctx = Some \<lparr>p_ID = who, p_DisplayName = who, p_Human = (who = ''o''), p_RoleBindings = [], p_CredentialID = ''c'' @ who,
     p_Delegation = None\<rparr>, env_clock = (\<lambda>_. 0), env_db_now = 0, env_id = (\<lambda>n. replicate (k + n) (CHR ''i''))\<rparr>"

lemma ex_env_simps [simp]: "env_clock (ex_env who k) n = 0" "env_db_now (ex_env who k) = 0" "length (env_id (ex_env who k) n) = k + n"
  by (simp_all add: ex_env_def)

lemmas ex_defs = ex_record_def ex_workers_def ex_package_def ex_target_def ex_db0_def ex_env_def

text \<open>A reachable store with the run at a stage and status, every step completed and all identifiers shorter than a bound.\<close>

definition ex_reached :: "exec_db \<Rightarrow> bool" where
  "ex_reached db \<longleftrightarrow> reach x_start (\<lambda>d d'. x_step d d' \<and> x_activations d' = x_activations d) db"

lemma ex_reached_reach: "ex_reached db \<Longrightarrow> reach x_start x_step db"
  unfolding ex_reached_def by (induction rule: reach.induct) (auto intro: reach.intros)

lemma ex_reached_step: "ex_reached db \<Longrightarrow> x_step db db' \<Longrightarrow> same_context ex_db0 db \<Longrightarrow> same_context ex_db0 db' \<Longrightarrow> ex_reached db'"
  unfolding ex_reached_def by (erule reach_step) (simp add: same_context_def)

definition ex_at :: "string \<Rightarrow> nat \<Rightarrow> string \<Rightarrow> string \<Rightarrow> exec_db \<Rightarrow> bool" where
  "ex_at kind k stage status db \<longleftrightarrow> ex_reached db \<and> same_context ex_db0 db
     \<and> (\<exists>run. lockExecution db ''p'' ''r'' = Inr run \<and> contract (ex_request kind) run \<and> er_Deadline run = seconds 1000
          \<and> er_OwnerCredential run = ''co'' \<and> er_Stage run = stage \<and> er_Status run = status \<and> (stage \<in> {''build'', ''diagnose''} \<longrightarrow> er_Usage run = zero_usage \<and> x_reservations db = [])
          \<and> open_step db run = None)
     \<and> (\<forall>row \<in> set (x_steps db). es_RunID (row_Step row) = ''r'' \<and> length (step_id row) < k)
     \<and> (\<forall>e \<in> set (x_events db). length (ee_ID e) < k)
     \<and> length (x_artifacts db) < k \<and> (\<forall>a \<in> set (x_blobs db). art_SizeBytes a = 0)"

lemma ex_reach: "ex_at kind k stage status db \<Longrightarrow> reach x_start x_step db"
  by (simp add: ex_at_def ex_reached_reach)

lemma ex_created: "kind \<in> {''feature'', ''incident''} \<Longrightarrow> \<exists>db. ex_at kind 1 (er_Stage (ex_request kind)) ''ready'' db"
proof -
  assume kind: "kind \<in> {''feature'', ''incident''}"
  have live: "executionActor (ex_env ''o'' 0) ex_db0 ''o'' ''p'' ''operations'' True"
    by (simp add: executionActor_def ex_defs PrincipalFromContext_def liveExecutionCredential_def credential_live_def role_live_def)
  have req: "lockExecutionRequirements (ex_env ''o'' 0) ex_db0 (ex_request kind) = None"
    by (simp add: lockExecutionRequirements_def lockActivePackages_def ex_request_def ex_defs bound_record_def product_record_eligible_def)
  have workers: "list_all (\<lambda>(role, actor). participant_allowed (ex_env ''o'' 0) ex_db0 ''p'' role actor) ex_workers"
    by (simp add: ex_defs participant_allowed_def credential_live_def role_live_def)
  have fresh: "fresh_request (ex_request kind)"
    by (simp add: fresh_request_def ex_request_def ex_defs budget_Validate_def sdlc_roles_def)
  obtain db where db: "CreateExecution (ex_env ''o'' 0) ex_db0 (ex_request kind)
      = (Inr (saved_run (ex_env ''o'' 0) 0 (ex_request kind)), db)" "same_context ex_db0 db" "x_steps db = []"
      "x_runs db = [saved_run (ex_env ''o'' 0) 0 (ex_request kind)]" "\<forall>e \<in> set (x_events db). ee_ID e = []" "x_artifacts db = []" "x_blobs db = []" "x_reservations db = []"
    using live req workers kind
    by (force simp: CreateExecution_def ex_request_def caller_credential_def PrincipalFromContext_def ex_defs active_runs_def saveExecution_def
        find_row_def put_row_def saved_run_def saved_event_def same_context_def)
  have "ex_reached ex_db0" unfolding ex_reached_def by (rule reach_start) (simp add: x_start_def ex_db0_def)
  from ex_reached_step [OF this x_step.create [OF fresh db(1)] _ db(2)] have "ex_reached db" by (simp add: same_context_def)
  then have "ex_at kind 1 (er_Stage (ex_request kind)) ''ready'' db"
    using db(2-) by (simp add: ex_at_def lockExecution_def ex_request_def contract_def saved_run_def open_step_def loadExecutionStep_def)
  then show ?thesis by blast
qed


section \<open>A step of the run\<close>

definition ex_stages :: "string list" where
  "ex_stages = [''build'', ''evaluate'', ''deliver'', ''verify_delivery'', ''diagnose'', ''remediate'', ''verify_recovery'']"

definition ex_worker :: "string \<Rightarrow> string" where
  "ex_worker stage = map_get [] ex_workers (ExecutionRole stage)"

lemma ex_live:
  assumes "stage \<in> set ex_stages"
  shows "executionActor (ex_env (ex_worker stage) k) ex_db0 (ex_worker stage) ''p'' (ExecutionRole stage) False"
  using assms unfolding ex_stages_def set_simps
  by (elim insertE emptyE; simp add: ex_worker_def ExecutionRole_def executionActor_def ex_defs PrincipalFromContext_def
      liveExecutionCredential_def credential_live_def role_live_def)

lemma ex_package_of:
  assumes "stage \<in> set ex_stages"
  shows "map_get zero_package (map (\<lambda>(r, w). (r, ex_package r)) ex_workers) (ExecutionRole stage) = ex_package (ExecutionRole stage)"
  using assms unfolding ex_stages_def set_simps by (elim insertE emptyE; simp add: ExecutionRole_def ex_workers_def)

definition ex_run :: "string \<Rightarrow> string \<Rightarrow> execution_run \<Rightarrow> bool" where
  "ex_run kind stage run \<longleftrightarrow> contract (ex_request kind) run \<and> er_Deadline run = seconds 1000 \<and> er_OwnerCredential run = ''co'' \<and> er_Stage run = stage"

lemma ex_run_simps:
  assumes "ex_run kind stage run"
  shows "run_Actor run = ex_worker stage" "er_ID run = ''r''" "er_ProjectID run = ''p''"
    and "stage \<in> set ex_stages \<Longrightarrow> run_Package run = ex_package (ExecutionRole stage)"
  using assms ex_package_of by (simp_all add: ex_run_def contract_def run_Actor_def run_Package_def ex_worker_def ex_request_def ex_target_def)

lemma ex_run_ready:
  assumes "ex_run kind stage run" and "same_context ex_db0 db" and "stage \<in> set ex_stages"
  shows "executionActor (ex_env (ex_worker stage) k) db (ex_worker stage) ''p'' (ExecutionRole stage) False"
    "executionOwner (ex_env who k) db run" "lockExecutionRequirements (ex_env who k) db run = None"
proof -
  show "executionActor (ex_env (ex_worker stage) k) db (ex_worker stage) ''p'' (ExecutionRole stage) False"
    using ex_live [OF assms(3)] context_executionActor [OF assms(2)] by simp
  have "er_Owner run = ''o''" "er_OwnerCredential run = ''co''" "er_ProjectID run = ''p''" "er_ProductID run = ''q''" "er_Bindings run = []"
    "er_Intent run = \<lparr>bind_RecordID = ''i'', bind_SHA256 = ''h'', bind_Kind = ''observation''\<rparr>" "er_Target run = ex_target"
    using assms(1) by (simp_all add: ex_run_def contract_def ex_request_def)
  then have "executionOwner (ex_env who k) ex_db0 run" "lockExecutionRequirements (ex_env who k) ex_db0 run = None"
    by (simp_all add: executionOwner_def liveExecutionCredential_def lockExecutionRequirements_def lockActivePackages_def bound_record_def
        product_record_eligible_def ex_defs credential_live_def role_live_def)
  then show "executionOwner (ex_env who k) db run" "lockExecutionRequirements (ex_env who k) db run = None"
    using context_executionOwner [OF assms(2)] context_requirements [OF assms(2)] by simp_all
qed

lemma ex_fresh: "\<forall>x \<in> set rows. length (key x) < k \<Longrightarrow> find_row key (env_id (ex_env who k) n) rows = None"
  by (auto simp: find_row_None ex_env_def) (metis length_replicate not_add_less1)

lemma ex_claim:
  assumes at: "ex_at kind k stage ''ready'' db" and stage: "stage \<in> set ex_stages"
  shows "\<exists>claim db'. ClaimExecution (ex_env (ex_worker stage) k) db ''p'' ''r'' (ex_worker stage) ''t'' = (Inr claim, db')
    \<and> reach x_start x_step db' \<and> same_context ex_db0 db' \<and> ex_run kind stage (cl_Run claim) \<and> er_Status (cl_Run claim) = ''running''
    \<and> lockExecution db' ''p'' ''r'' = Inr (cl_Run claim) \<and> es_Fence (cl_Step claim) = 1 \<and> es_ContextSHA (cl_Step claim) = []
    \<and> 0 < es_LeaseUntil (cl_Step claim)
    \<and> (\<exists>row. x_steps db' = x_steps db @ [row] \<and> row_Step row = cl_Step claim) \<and> length (es_ID (cl_Step claim)) = k
    \<and> (\<forall>e \<in> set (x_events db'). length (ee_ID e) < k + 2) \<and> x_blobs db' = x_blobs db \<and> x_artifacts db' = x_artifacts db
    \<and> (stage = ''diagnose'' \<longrightarrow> er_Usage (cl_Run claim) = zero_usage \<and> x_reservations db' = []) \<and> ex_reached db'
    \<and> es_PackageSHA (cl_Step claim) = package_Digest (ex_package (ExecutionRole stage))"
proof -
  let ?w = "ex_worker stage" let ?env = "ex_env ?w k"
  obtain run where run: "lockExecution db ''p'' ''r'' = Inr run" "ex_run kind stage run" "er_Status run = ''ready''"
    "stage \<in> {''build'', ''diagnose''} \<longrightarrow> er_Usage run = zero_usage \<and> x_reservations db = []" and none: "open_step db run = None"
    and reached: "ex_reached db" and ctx: "same_context ex_db0 db"
    and steps: "\<forall>row \<in> set (x_steps db). es_RunID (row_Step row) = ''r'' \<and> length (step_id row) < k"
    and events: "\<forall>e \<in> set (x_events db). length (ee_ID e) < k"
    using at unfolding ex_at_def ex_run_def by metis
  have reach: "reach x_start x_step db" using reached by (rule ex_reached_reach)
  then have inv: "exec_inv db" using ex.reach_inv by blast
  note r = ex_run_simps [OF run(2)] and ready = ex_run_ready [OF run(2) ctx stage]
  have pkg: "run_Package run = ex_package (ExecutionRole stage)" using r(4) stage by blast
  have free: "find_row ee_ID (env_id ?env n) (x_events db) = None" "find_row step_id (env_id ?env n) (x_steps db) = None" for n
    using events steps by (auto intro!: ex_fresh)
  have "es_CompletedAt (row_Step row) \<noteq> None" if "row \<in> set (x_steps db)" for row
    using open_step_none [OF inv lockExecution_Ok(1) [OF run(1)] none] steps that r(2) by (auto simp: run_steps_def)
  then have "live_leases ?env db key = []" for key by (auto simp: live_leases_def filter_empty_conv)
  then have idle: "\<not> resource_busy ?env db (run_Package run)" by (simp add: resource_busy_def pkg ex_package_def)
  have budget: "\<not> model_budget_exhausted run (run_Package run)"
  proof (cases "stage = ''build''")
    case True
    then have "er_Target run = ex_target" "er_Usage run = zero_usage" using run(2,4) by (auto simp: ex_run_def contract_def ex_request_def)
    then show ?thesis by (simp add: model_budget_exhausted_def pkg ex_package_def ex_target_def zero_usage_def MaxTokenCharge_def zero_package_def)
  next
    case False
    then show ?thesis using stage
      unfolding ex_stages_def set_simps pkg model_budget_exhausted_def ex_package_def
      by (elim insertE emptyE; simp add: ExecutionRole_def zero_package_def)
  qed
  have "\<exists>claim. fst (ClaimExecution ?env db ''p'' ''r'' ?w ''t'') = Inr claim"
    using claim_granted [OF reach run(1), of ?env ?w "''t''"] free r(1,3) ready run(2,3) none idle budget
    by (simp add: pkg ex_package_def ex_run_def seconds_def)
  then obtain claim db' where claim: "ClaimExecution ?env db ''p'' ''r'' ?w ''t'' = (Inr claim, db')" by (metis prod.collapse)
  have bgn: "begin_step ?env db run (run_Package run) ?w ''t'' = (Inr claim, db')"
    by (rule ClaimExecution_Ok [OF claim]) (use run(1) none in simp)
  note saved = claim_run_saved [OF inv claim run(1)]
  have "ex_run kind stage (cl_Run claim)"
    using run(2) saved(2-5) by (simp add: ex_run_def contract_def)
  moreover have "es_Fence (cl_Step claim) = 1" "es_ContextSHA (cl_Step claim) = []" "length (es_ID (cl_Step claim)) = k" "0 < es_LeaseUntil (cl_Step claim)"
    "es_PackageSHA (cl_Step claim) = package_Digest (ex_package (ExecutionRole stage))"
    using begin_step_Ok(1) [OF bgn] run(2) by (simp_all add: leased_step_def fresh_step_def ex_env_def minTime_def pkg ex_package_def seconds_def ex_run_def)
  moreover have "\<exists>row. x_steps db' = x_steps db @ [row] \<and> row_Step row = cl_Step claim" using begin_step_Ok(3) [OF bgn] by simp
  moreover have "reach x_start x_step db'" using reach_step [OF reach x_step.claim [OF claim]] .
  moreover have grown: "\<exists>ev. x_events db' = x_events db @ [ev] \<and> ee_ID ev = env_id ?env 1 \<and> x_blobs db' = x_blobs db \<and> x_artifacts db' = x_artifacts db"
    using bgn by (auto simp: begin_step_def Let_def saveExecution_Ok save_into_def split: sum.split_asm if_split_asm)
  have "\<forall>e \<in> set (x_events db'). length (ee_ID e) < k + 2" "x_blobs db' = x_blobs db" "x_artifacts db' = x_artifacts db"
    using grown events by (auto simp: less_Suc_eq)
  moreover have "er_Usage (cl_Run claim) = zero_usage" "x_reservations db' = []" if "stage = ''diagnose''"
    using bgn run(4) that
    by (auto simp: begin_step_def Let_def saveExecution_Ok save_into_def claimed_run_def charged_usage_def pkg ex_package_def ExecutionRole_def
        zero_package_def saved_run_def split: sum.split_asm if_split_asm)
  moreover have "ex_reached db'" using ex_reached_step [OF reached x_step.claim [OF claim] ctx same_context_trans [OF ctx saved(8)]] .
  ultimately show ?thesis using claim saved(1,6,8) run(3) same_context_trans [OF ctx saved(8)] by auto
qed


definition ex_artifact :: artifact where
  "ex_artifact = \<lparr>art_SHA256 = ''ctx'', art_URI = [], art_MediaType = [], art_SizeBytes = 0\<rparr>"

lemma run_blobs_bound:
  "length (run_blobs db rid) \<le> length (x_artifacts db)"
  "\<forall>a \<in> set (x_blobs db). art_SizeBytes a = 0 \<Longrightarrow> sum_list (map art_SizeBytes (run_blobs db rid)) = 0"
proof -
  have "length (concat (map (\<lambda>x. case find_row art_SHA256 (xa_SHA256 x) (x_blobs db) of None \<Rightarrow> [] | Some a \<Rightarrow> [a]) xs)) \<le> length xs" for xs
    by (induction xs) (auto split: option.split)
  from order_trans [OF this length_filter_le] show "length (run_blobs db rid) \<le> length (x_artifacts db)"
    unfolding run_blobs_def .
next
  assume "\<forall>a \<in> set (x_blobs db). art_SizeBytes a = 0"
  then have "\<forall>a \<in> set (run_blobs db rid). art_SizeBytes a = 0"
    by (auto simp: run_blobs_def split: option.split_asm dest!: find_row_SomeD [OF sym])
  then show "sum_list (map art_SizeBytes (run_blobs db rid)) = 0" by (simp cong: map_cong)
qed

text \<open>A claimed step binds its context, and its lease is still good.\<close>

lemma ex_bound:
  assumes at: "ex_at kind k stage ''ready'' db" and stage: "stage \<in> set ex_stages" and k: "k < 200"
  shows "\<exists>claim db1 db2 row. ClaimExecution (ex_env (ex_worker stage) k) db ''p'' ''r'' (ex_worker stage) ''t'' = (Inr claim, db1)
    \<and> RecordExecutionArtifact (ex_env (ex_worker stage) (k + 2)) db1 (lease_of claim) (ex_worker stage) ex_artifact True = (Inr (), db2)
    \<and> reach x_start x_step db1 \<and> reach x_start x_step db2 \<and> same_context ex_db0 db2 \<and> ex_run kind stage (cl_Run claim) \<and> er_Status (cl_Run claim) = ''running''
    \<and> lockExecution db2 ''p'' ''r'' = Inr (cl_Run claim)
    \<and> checkExecutionLease (ex_env (ex_worker stage) (k + 2)) db2 (lease_of claim) (ex_worker stage) = Inr (cl_Run claim, row)
    \<and> row_Step row = (cl_Step claim)\<lparr>es_ContextSHA := ''ctx''\<rparr>
    \<and> (\<forall>row \<in> set (x_steps db2). es_RunID (row_Step row) = ''r'' \<and> length (step_id row) < k + 2)
    \<and> (\<forall>e \<in> set (x_events db2). length (ee_ID e) < k + 2)
    \<and> length (x_artifacts db2) < k + 1 \<and> (\<forall>a \<in> set (x_blobs db2). art_SizeBytes a = 0)
    \<and> ex_reached db2 \<and> es_PackageSHA (cl_Step claim) = package_Digest (ex_package (ExecutionRole stage))"
proof -
  let ?w = "ex_worker stage" let ?env = "ex_env ?w k" let ?env2 = "ex_env ?w (k + 2)"
  obtain claim db1 row1 where claim: "ClaimExecution ?env db ''p'' ''r'' ?w ''t'' = (Inr claim, db1)"
    and c: "reach x_start x_step db1" "same_context ex_db0 db1" "ex_run kind stage (cl_Run claim)" "er_Status (cl_Run claim) = ''running''"
    "lockExecution db1 ''p'' ''r'' = Inr (cl_Run claim)" "es_ContextSHA (cl_Step claim) = []" "0 < es_LeaseUntil (cl_Step claim)"
    "x_steps db1 = x_steps db @ [row1]" "row_Step row1 = cl_Step claim" "length (es_ID (cl_Step claim)) = k"
    "\<forall>e \<in> set (x_events db1). length (ee_ID e) < k + 2" "x_blobs db1 = x_blobs db" "x_artifacts db1 = x_artifacts db"
    "ex_reached db1" "es_PackageSHA (cl_Step claim) = package_Digest (ex_package (ExecutionRole stage))"
    using ex_claim [OF at stage] by blast
  have reach: "reach x_start x_step db" using ex_reach [OF at] .
  have inv1: "exec_inv db1" using c(1) ex.reach_inv by blast
  then have keys1: "keys_ok db1" by (simp add: exec_inv_def)
  note r = ex_run_simps [OF c(3)] and ready = ex_run_ready [OF c(3) _ stage]
  have dl: "er_Deadline (cl_Run claim) = seconds 1000" "er_Stage (cl_Run claim) = stage" using c(3) by (simp_all add: ex_run_def)
  obtain row where chk: "checkExecutionLease ?env2 db1 (lease_of claim) ?w = Inr (cl_Run claim, row)" "row_Step row = cl_Step claim"
    using lease_honoured(1) [OF reach claim, of ?env2] ready [OF c(2)] c(7) dl by (auto simp: seconds_def)
  define step where "step = (cl_Step claim)\<lparr>es_ContextSHA := ''ctx''\<rparr>"
  define dbA where "dbA = db1\<lparr>x_blobs := saveProductArtifact ex_artifact (x_blobs db1),
     x_artifacts := insert_artifact_row \<lparr>xa_RunID = ''r'', xa_StepID = step_id row, xa_SHA256 = ''ctx'', xa_Actor = ?w\<rparr> (x_artifacts db1)\<rparr>"
  define db2 where "db2 = saveExecutionStep dbA row step"
  have blobs: "length (x_artifacts db1) < k" "\<forall>a \<in> set (x_blobs db1). art_SizeBytes a = 0" using at c(12,13) by (simp_all add: ex_at_def)
  have rec: "RecordExecutionArtifact ?env2 db1 (lease_of claim) ?w ex_artifact True = (Inr (), db2)"
    using chk c(6) r(2) blobs k run_blobs_bound [of db1 "''r''"]
    by (simp add: RecordExecutionArtifact_def ex_artifact_def db2_def dbA_def step_def Let_def)
  have reach2: "reach x_start x_step db2" using reach_step [OF c(1) x_step.record_artifact [OF rec]] .
  have ctx2: "same_context ex_db0 db2" using c(2) by (simp add: db2_def dbA_def) (simp add: same_context_def)
  note o = checkExecutionLease_Ok(5) [OF chk(1)]
  have lease: "lease_valid ?env2 (cl_Run claim) (cl_Step claim) (lease_of claim) ?w"
    using checkExecutionLease_Ok(8-11) [OF chk(1)] chk(2) c(4) checkExecutionLease_Ok(7) [OF chk(1)] o
    by (auto simp: lease_valid_def step_id_def open_step_Some)
  have "open_step (saveExecutionStep db1 row step) (cl_Run claim) = Some (saved_step row step)"
    using chk(2) o by (intro open_step_save [OF inv1 lockExecution_Ok(1) [OF c(5)] o]) (simp_all add: step_def step_id_def keys1 open_step_Some)
  then have o2: "open_step db2 (cl_Run claim) = Some (saved_step row step)"
    by (simp add: open_step_def loadExecutionStep_def db2_def dbA_def saveExecutionStep_def)
  have lock2: "lockExecution db2 ''p'' ''r'' = Inr (cl_Run claim)"
    using c(5) by (simp add: lockExecution_def db2_def dbA_def saveExecutionStep_def)
  have chk2: "checkExecutionLease ?env2 db2 (lease_of claim) ?w = Inr (cl_Run claim, saved_step row step)"
    using lease lock2 o2 r dl ready [OF ctx2]
    by (intro checkExecutionLease_intro) (simp_all add: lease_of_def lease_valid_def saved_step_def step_def seconds_def)
  have "\<forall>row \<in> set (x_steps db1). es_RunID (row_Step row) = ''r'' \<and> length (step_id row) < k + 2"
  proof -
    have "es_RunID (cl_Step claim) = ''r''" using open_step_last(2) [OF inv1 lockExecution_Ok(1) [OF c(5)] o] r(2) chk(2) by simp
    then show ?thesis using c(8-10) at by (auto simp: ex_at_def step_id_def)
  qed
  moreover have "set (x_steps db2) \<subseteq> insert (saved_step row step) (set (x_steps db1))"
    by (auto simp: db2_def dbA_def saveExecutionStep_def put_row_def)
  moreover have "row \<in> set (x_steps db1)" using o loadExecutionStep_Some by (auto simp: open_step_Some)
  moreover have "step_id (saved_step row step) = step_id row" "es_RunID (row_Step (saved_step row step)) = es_RunID (row_Step row)"
    using chk(2) by (simp_all add: saved_step_def step_def step_id_def)
  ultimately have "\<forall>row \<in> set (x_steps db2). es_RunID (row_Step row) = ''r'' \<and> length (step_id row) < k + 2" by (metis insertE subsetD)
  moreover have "\<forall>e \<in> set (x_events db2). length (ee_ID e) < k + 2" using c(11) by (simp add: db2_def dbA_def)
  moreover have "length (x_artifacts db2) < k + 1" "\<forall>a \<in> set (x_blobs db2). art_SizeBytes a = 0"
    using blobs by (auto simp: db2_def dbA_def saveExecutionStep_def insert_artifact_row_def saveProductArtifact_def ex_artifact_def)
  moreover have "row_Step (saved_step row step) = (cl_Step claim)\<lparr>es_ContextSHA := ''ctx''\<rparr>" by (simp add: saved_step_def step_def)
  moreover have "ex_reached db2" using ex_reached_step [OF c(14) x_step.record_artifact [OF rec] c(2) ctx2] .
  ultimately show ?thesis using claim rec c(1,3,4,15) reach2 ctx2 lock2 chk2 by blast
qed


definition ex_result :: "string \<Rightarrow> execution_result" where
  "ex_result stage = \<lparr>rs_Stage = stage, rs_Outcome = ''succeeded'', rs_Summary = [], rs_Criteria = [], rs_Plan = [], rs_Patch = zero_artifact,
     rs_BaseRevision = [], rs_PacketSHA256 = [], rs_CandidateSHA = [], rs_SandboxImage = [], rs_Checks = [], rs_Effects = [], rs_Hypotheses = [],
     rs_ObservationIDs = [], rs_EvaluationIDs = [], rs_Model = None, rs_Artifacts = []\<rparr>"

text \<open>What a completion leaves alone.\<close>

lemma complete_frame:
  assumes "CompleteExecution env db l actor res evidence status stage = (Inr run', db')" and "checkExecutionLease env db l actor = Inr (run, row)"
    and "db' \<noteq> db"
  shows "run' = saved_run env 3 (concluded_run run res status stage)" "same_context db db'"
    "x_steps db' = put_row step_id (saved_step row (completed_step env (row_Step row) res evidence)) (x_steps db)"
    "\<exists>ev. x_events db' = x_events db @ [ev] \<and> ee_ID ev = env_id env 0"
    "x_blobs db' = saveProductArtifact evidence (x_blobs db)" "length (x_artifacts db') \<le> Suc (length (x_artifacts db))"
proof -
  obtain r w where "checkExecutionLease env db l actor = Inr (r, w)" "commit_result env db r w actor res evidence status stage = (Inr run', db')"
    using CompleteExecution_cases [OF assms(1,3)] by metis
  then have com: "commit_result env db run row actor res evidence status stage = (Inr run', db')" using assms(2) by simp
  show "run' = saved_run env 3 (concluded_run run res status stage)" "same_context db db'"
    "x_steps db' = put_row step_id (saved_step row (completed_step env (row_Step row) res evidence)) (x_steps db)"
    "\<exists>ev. x_events db' = x_events db @ [ev] \<and> ee_ID ev = env_id env 0" "x_blobs db' = saveProductArtifact evidence (x_blobs db)"
    "length (x_artifacts db') \<le> Suc (length (x_artifacts db))"
    using com by (auto simp: commit_result_def Let_def saveExecution_Ok same_context_def save_into_def saveExecutionStep_def insert_artifact_row_def
        split: if_split_asm sum.split_asm)
qed

lemma ex_moves:
  assumes at: "ex_at kind k stage ''ready'' db" and stage: "stage \<in> set ex_stages" and k: "k < 200"
    and res: "rs_Stage res = stage" and tr: "validExecutionTransition stage (rs_Outcome res) status stage'" and build: "stage' \<notin> {''build'', ''diagnose''}"
  shows "\<exists>claim db1 db2 run db3. ClaimExecution (ex_env (ex_worker stage) k) db ''p'' ''r'' (ex_worker stage) ''t'' = (Inr claim, db1)
    \<and> RecordExecutionArtifact (ex_env (ex_worker stage) (k + 2)) db1 (lease_of claim) (ex_worker stage) ex_artifact True = (Inr (), db2)
    \<and> reach x_start x_step db2
    \<and> CompleteExecution (ex_env (ex_worker stage) (k + 2)) db2 (lease_of claim) (ex_worker stage) res ex_artifact status stage' = (Inr run, db3)
    \<and> ex_at kind (k + 3) stage' status db3 \<and> x_step\<^sup>*\<^sup>* db db3
    \<and> (\<exists>row \<in> set (x_steps db3). es_RunID (row_Step row) = ''r'' \<and> es_Stage (row_Step row) = stage \<and> es_Result (row_Step row) = Some res
         \<and> es_PackageSHA (row_Step row) = package_Digest (ex_package (ExecutionRole stage)))"
proof -
  let ?w = "ex_worker stage" let ?env2 = "ex_env ?w (k + 2)"
  obtain claim db1 db2 row where claim: "ClaimExecution (ex_env ?w k) db ''p'' ''r'' ?w ''t'' = (Inr claim, db1)"
    and rec: "RecordExecutionArtifact ?env2 db1 (lease_of claim) ?w ex_artifact True = (Inr (), db2)"
    and c: "reach x_start x_step db2" "same_context ex_db0 db2" "ex_run kind stage (cl_Run claim)" "er_Status (cl_Run claim) = ''running''"
    "checkExecutionLease ?env2 db2 (lease_of claim) ?w = Inr (cl_Run claim, row)" "row_Step row = (cl_Step claim)\<lparr>es_ContextSHA := ''ctx''\<rparr>"
    "\<forall>row \<in> set (x_steps db2). es_RunID (row_Step row) = ''r'' \<and> length (step_id row) < k + 2"
    "\<forall>e \<in> set (x_events db2). length (ee_ID e) < k + 2" "length (x_artifacts db2) < k + 1" "\<forall>a \<in> set (x_blobs db2). art_SizeBytes a = 0"
    "ex_reached db2" "es_PackageSHA (cl_Step claim) = package_Digest (ex_package (ExecutionRole stage))"
    using ex_bound [OF at stage k] by blast
  have inv: "exec_inv db" "exec_inv db2" using ex_reach [OF at] c(1) ex.reach_inv by blast+
  have st: "es_Stage (row_Step row) = stage" using claim_step_open(4) [OF inv(1) claim] c(3,6) by (simp add: ex_run_def)
  have lease: "el_ProjectID (lease_of claim) = ''p''" "el_RunID (lease_of claim) = ''r''" using ex_run_simps [OF c(3)] by (simp_all add: lease_of_def)
  obtain run db3 where com: "CompleteExecution ?env2 db2 (lease_of claim) ?w res ex_artifact status stage' = (Inr run, db3)"
    and d: "lockExecution db3 ''p'' ''r'' = Inr run" "er_Version run = er_Version (cl_Run claim) + 1" "er_Status run = status" "er_Stage run = stage'"
    "open_step db3 run = None"
    using complete_bound_step [OF c(1,5), of res status stage' ex_artifact] c(4,6) st tr res ex_fresh [OF c(8)] lease
    by auto
  have lock2: "lockExecution db2 ''p'' ''r'' = Inr (cl_Run claim)"
    using checkExecutionLease_Ok(1-3) [OF c(5)] lease find_row_distinct [of er_ID "x_runs db2" "cl_Run claim"] inv(2)
    by (subst lockExecution_iff) (auto simp: exec_inv_def keys_ok_def)
  have "db3 \<noteq> db2" using d(1,2) lock2 by auto
  note f = complete_frame [OF com c(5) this]
  define step where "step = completed_step ?env2 (row_Step row) res ex_artifact"
  have row: "row \<in> set (x_steps db2)" using checkExecutionLease_Ok(5) [OF c(5)] loadExecutionStep_Some by (auto simp: open_step_Some)
  have "step_id (saved_step row step) = step_id row" "es_RunID (row_Step (saved_step row step)) = es_RunID (row_Step row)"
    by (simp_all add: saved_step_def step_def completed_step_def step_id_def)
  moreover have "set (x_steps db3) \<subseteq> insert (saved_step row step) (set (x_steps db2))" unfolding f(3) step_def by (auto simp: put_row_def)
  ultimately have "\<forall>r \<in> set (x_steps db3). es_RunID (row_Step r) = ''r'' \<and> length (step_id r) < k + 2" using c(7) row by (metis insertE subsetD)
  then have steps: "\<forall>r \<in> set (x_steps db3). es_RunID (row_Step r) = ''r'' \<and> length (step_id r) < k + 3" by fastforce
  have "\<forall>e \<in> set (x_events db3). length (ee_ID e) < k + 3" using c(8) f(4) by fastforce
  moreover have "contract (ex_request kind) run" "er_Deadline run = seconds 1000" "er_OwnerCredential run = ''co''"
    using c(3) f(1) by (simp_all add: ex_run_def contract_def) (simp_all add: concluded_run_def saved_run_def Let_def)
  moreover have "length (x_artifacts db3) < k + 3" "\<forall>a \<in> set (x_blobs db3). art_SizeBytes a = 0"
    using f(5,6) c(9,10) by (auto simp: saveProductArtifact_def ex_artifact_def split: if_split_asm)
  moreover have "ex_reached db3"
    using ex_reached_step [OF c(11) x_step.complete [OF com] c(2) same_context_trans [OF c(2) f(2)]] .
  ultimately have "ex_at kind (k + 3) stage' status db3"
    using d build same_context_trans [OF c(2) f(2)] steps unfolding ex_at_def by blast
  moreover have "x_step\<^sup>*\<^sup>* db db3"
    using x_step.claim [OF claim] x_step.record_artifact [OF rec] x_step.complete [OF com] by (meson rtranclp.rtrancl_refl rtranclp.rtrancl_into_rtrancl)
  moreover have "saved_step row step \<in> set (x_steps db3)" unfolding f(3) step_def using row
    by (force simp: put_row_def saved_step_def completed_step_def step_id_def)
  then have "\<exists>row \<in> set (x_steps db3). es_RunID (row_Step row) = ''r'' \<and> es_Stage (row_Step row) = stage \<and> es_Result (row_Step row) = Some res
      \<and> es_PackageSHA (row_Step row) = package_Digest (ex_package (ExecutionRole stage))"
    by (rule bexI [rotated]) (use st c(6,12) c(7) [THEN bspec, OF row] in \<open>simp add: saved_step_def step_def completed_step_def\<close>)
  ultimately show ?thesis using claim rec com c(1) by blast
qed


section \<open>The two runs\<close>

lemma ex_feature: "\<exists>db. ex_at ''feature'' 1 ''build'' ''ready'' db"
  using ex_created [of "''feature''"] by (simp add: ex_request_def)

lemma ex_incident: "\<exists>db. ex_at ''incident'' 1 ''diagnose'' ''ready'' db"
  using ex_created [of "''incident''"] by (simp add: ex_request_def)

lemma ex_next:
  assumes "\<exists>db. ex_at kind k stage ''ready'' db" and "stage \<in> set ex_stages" and "k < 200"
    and "validExecutionTransition stage ''succeeded'' status stage'" and "stage' \<notin> {''build'', ''diagnose''}"
  shows "\<exists>db. ex_at kind (k + 3) stage' status db"
  using assms ex_moves [of kind k stage _ "ex_result stage" status stage'] by (auto simp: ex_result_def)

lemmas ex_path = ex_stages_def validExecutionTransition_def next_stage_def

lemma ex_evaluate: "\<exists>db. ex_at ''feature'' 4 ''evaluate'' ''ready'' db"
  using ex_next [OF ex_feature, of "''ready''" "''evaluate''"] by (simp add: ex_path)

lemma ex_deliver: "\<exists>db. ex_at ''feature'' 7 ''deliver'' ''ready'' db"
  using ex_next [OF ex_evaluate, of "''ready''" "''deliver''"] by (simp add: ex_path)

lemma ex_verify: "\<exists>db. ex_at ''feature'' 10 ''verify_delivery'' ''ready'' db"
  using ex_next [OF ex_deliver, of "''ready''" "''verify_delivery''"] by (simp add: ex_path)

lemma ex_completed: "\<exists>db. ex_at ''feature'' 13 ''verify_delivery'' ''completed'' db"
  using ex_next [OF ex_verify, of "''completed''" "''verify_delivery''"] by (simp add: ex_path)

lemma ex_lock: "ex_at kind k stage status db \<Longrightarrow> \<exists>run. lockExecution db ''p'' ''r'' = Inr run \<and> er_Status run = status \<and> er_Stage run = stage
    \<and> contract (ex_request kind) run"
  by (auto simp: ex_at_def)

section \<open>Instances of the properties\<close>

definition ex_query :: source_query where
  "ex_query = \<lparr>sq_ProjectID = ''p'', sq_ProductID = ''q'', sq_SourceID = ''s'', sq_Purpose = ''u'', sq_Start = utc 0, sq_End = utc 0, sq_Fields = [],
     sq_Filters = [], sq_Limit = 10, sq_IdempotencyKey = ''z''\<rparr>"

text \<open>The diagnosis worker reserves ten rows.\<close>

lemma ex_reserved:
  "\<exists>claim db1 db2 run. reach x_start x_step db1 \<and> el_RunID (lease_of claim) = ''r''
     \<and> lockExecution db1 ''p'' ''r'' = Inr run \<and> er_Usage run = zero_usage
     \<and> ReserveExecutionSource (ex_env ''g'' 3) db1 (lease_of claim) ''g'' ex_query = (Inr (), db2) \<and> x_events db2 \<noteq> x_events db1
     \<and> lockExecution db2 ''p'' ''r'' = Inr (saved_run (ex_env ''g'' 3) 2 (reserved_run run ex_query))
     \<and> er_Target run = ex_target"
proof -
  obtain db where at: "ex_at ''incident'' 1 ''diagnose'' ''ready'' db" using ex_incident by blast
  have w: "ex_worker ''diagnose'' = ''g''" "''diagnose'' \<in> set ex_stages" by (simp_all add: ex_worker_def ex_workers_def ExecutionRole_def ex_stages_def)
  obtain claim db1 where c: "ClaimExecution (ex_env ''g'' 1) db ''p'' ''r'' ''g'' ''t'' = (Inr claim, db1)" "same_context ex_db0 db1"
    "ex_run ''incident'' ''diagnose'' (cl_Run claim)" "0 < es_LeaseUntil (cl_Step claim)" "\<forall>e \<in> set (x_events db1). length (ee_ID e) < 3"
    "er_Usage (cl_Run claim) = zero_usage" "x_reservations db1 = []"
    using ex_claim [OF at w(2)] unfolding w(1) by (auto simp: numeral_3_eq_3)
  note ready = ex_run_ready [OF c(3,2) w(2), unfolded w(1)]
  obtain row where chk: "checkExecutionLease (ex_env ''g'' 3) db1 (lease_of claim) ''g'' = Inr (cl_Run claim, row)"
    using lease_honoured(1) [OF ex_reach [OF at] c(1), of "ex_env ''g'' 3"] ready c(3,4) by (auto simp: ex_run_def seconds_def)
  have run: "er_Target (cl_Run claim) = ex_target" "er_Stage (cl_Run claim) = ''diagnose''" "er_ProjectID (cl_Run claim) = ''p''"
    "er_ProductID (cl_Run claim) = ''q''" "er_ID (cl_Run claim) = ''r''"
    using c(3) by (simp_all add: ex_run_def contract_def ex_request_def)
  obtain db2 where res: "ReserveExecutionSource (ex_env ''g'' 3) db1 (lease_of claim) ''g'' ex_query = (Inr (), db2)" "x_events db2 \<noteq> x_events db1"
    and runs: "x_runs db2 = put_row er_ID (saved_run (ex_env ''g'' 3) 2 (reserved_run (cl_Run claim) ex_query)) (x_runs db1)"
    using chk run c(6,7) ex_fresh [OF c(5), of "''g''" 0]
    by (simp add: ReserveExecutionSource_def ex_query_def ex_target_def zero_usage_def saveExecution_def wrap64_def)
  have reach1: "reach x_start x_step db1" using reach_step [OF ex_reach [OF at] x_step.claim [OF c(1)]] .
  have reach2: "reach x_start x_step db2" using reach_step [OF reach1 x_step.reserve [OF res(1)]] .
  obtain run0 where "lockExecution db ''p'' ''r'' = Inr run0" using ex_lock [OF at] by blast
  then have lock1: "lockExecution db1 ''p'' ''r'' = Inr (cl_Run claim)" using claim_run_saved(1) [OF _ c(1)] ex_reach [OF at] ex.reach_inv by blast
  then have "lockExecution db2 ''p'' ''r'' = Inr (saved_run (ex_env ''g'' 3) 2 (reserved_run (cl_Run claim) ex_query))"
    using lockExecution_iff [OF reach_keys [OF reach1]] runs run
    unfolding lockExecution_iff [OF reach_keys [OF reach2]] by (simp add: find_row_put reserved_run_def)
  moreover have "el_RunID (lease_of claim) = ''r''" using run(5) by (simp add: lease_of_def)
  ultimately show ?thesis using reach1 lock1 c(6) res run(1) by blast
qed

theorem budgets_never_exceeded_witness:
  "\<exists>db run granted. metered db granted \<and> lockExecution db ''p'' ''r'' = Inr run \<and> granted_limits ''r'' granted = [10]
     \<and> eu_SourceQueries (er_Usage run) = 1 \<and> eu_SourceRows (er_Usage run) = 10 \<and> eb_MaxSourceRows (et_Budget (er_Target run)) = 50
     \<and> eu_ModelCalls (er_Usage run) \<le> 3"
proof -
  obtain claim db1 db2 run where r: "reach x_start x_step db1" "el_RunID (lease_of claim) = ''r''"
    "lockExecution db1 ''p'' ''r'' = Inr run" "er_Usage run = zero_usage"
    "ReserveExecutionSource (ex_env ''g'' 3) db1 (lease_of claim) ''g'' ex_query = (Inr (), db2)" "x_events db2 \<noteq> x_events db1"
    "lockExecution db2 ''p'' ''r'' = Inr (saved_run (ex_env ''g'' 3) 2 (reserved_run run ex_query))" "er_Target run = ex_target"
    using ex_reserved by blast
  obtain gs where gs: "metered db1 gs" using reach_metered [OF r(1)] by blast
  then have none: "granted_limits ''r'' gs = []" using budgets_never_exceeded [OF r(1,3)] r(4) by (simp add: zero_usage_def)
  have "grants db1 (lease_of claim) ex_query db2" using r(5,6) unfolding grants_def by blast
  from metered.granted [OF gs this] have g: "metered db2 (gs @ [(''r'', 10)])" using r(2) by (simp add: ex_query_def)
  have limits: "granted_limits ''r'' (gs @ [(''r'', 10)]) = [10]" using none by simp
  from budgets_never_exceeded [OF metered_reach [OF g] r(7)] g limits
  show ?thesis using r(7,8)
    by (intro exI [of _ db2] exI [of _ "saved_run (ex_env ''g'' 3) 2 (reserved_run run ex_query)"] exI [of _ "gs @ [(''r'', 10)]"])
      (auto simp: ex_target_def reserved_run_def wrap64_def)
qed

theorem view_is_complete_history_witness:
  "\<exists>db view. reach x_start x_step db \<and> GetExecution db ''p'' ''r'' = Inr view
     \<and> er_Version (view_Run view) = int (length (view_Events view))"
proof -
  obtain db where at: "ex_at ''feature'' 7 ''deliver'' ''ready'' db" using ex_deliver by blast
  then obtain view where "GetExecution db ''p'' ''r'' = Inr view" using ex_lock [OF at] by (auto simp: GetExecution_def)
  then show ?thesis using view_is_complete_history [OF ex_reach [OF at]] ex_reach [OF at] by blast
qed

theorem terminal_executions_final_witness:
  "\<exists>db run db'. reach x_start x_step db \<and> x_step\<^sup>*\<^sup>* db db' \<and> er_Status run = ''completed'' \<and> lockExecution db' ''p'' ''r'' = Inr run"
proof -
  obtain db where at: "ex_at ''feature'' 13 ''verify_delivery'' ''completed'' db" using ex_completed by blast
  obtain run where run: "lockExecution db ''p'' ''r'' = Inr run" "er_Status run = ''completed''" using ex_lock [OF at] by blast
  obtain r db' where "ControlExecution (ex_env ''o'' 20) db ''p'' ''r'' ''o'' 9 ''cancel'' [] = (r, db')" by fastforce
  then have "x_step\<^sup>*\<^sup>* db db'" using x_step.control by blast
  then show ?thesis using terminal_executions_final [OF ex_reach [OF at] run(1)] run(2) ex_reach [OF at] by blast
qed

theorem completed_means_verified_witness:
  "\<exists>db run. lockExecution db ''p'' ''r'' = Inr run \<and> er_Status run = ''completed''
     \<and> (\<exists>before s. run_steps db ''r'' = before @ [s] \<and> succeeded s)"
proof -
  obtain db where at: "ex_at ''feature'' 13 ''verify_delivery'' ''completed'' db" using ex_completed by blast
  obtain run where run: "lockExecution db ''p'' ''r'' = Inr run" "er_Status run = ''completed''" using ex_lock [OF at] by blast
  then show ?thesis using completed_means_verified [OF ex_reach [OF at] run] by blast
qed

theorem delivery_needs_independent_evaluation_witness:
  "\<exists>env db claim db'. ClaimExecution env db ''p'' ''r'' ''d'' ''t'' = (Inr claim, db')
     \<and> (\<exists>e \<in> set (run_steps db ''r''). es_Stage e = ''evaluate'' \<and> succeeded e \<and> es_Actor e \<noteq> ''d'')"
proof -
  obtain db where at: "ex_at ''feature'' 7 ''deliver'' ''ready'' db" using ex_deliver by blast
  obtain claim db' where claim: "ClaimExecution (ex_env (ex_worker ''deliver'') 7) db ''p'' ''r'' (ex_worker ''deliver'') ''t'' = (Inr claim, db')"
    using ex_claim [OF at] by (auto simp: ex_stages_def)
  have w: "ex_worker ''deliver'' = ''d''" by (simp add: ex_worker_def ex_workers_def ExecutionRole_def)
  obtain run where "lockExecution db ''p'' ''r'' = Inr run" "er_Stage run = ''deliver''" using ex_lock [OF at] by blast
  from delivery_needs_independent_evaluation [OF ex_reach [OF at] claim this] claim show ?thesis unfolding w by blast
qed

theorem stale_lease_has_no_effect_witness:
  "\<exists>db1 claim. es_Fence (cl_Step claim) = 1
     \<and> (\<exists>e. CheckExecutionLease (ex_env ''b'' 9) db1 ((lease_of claim)\<lparr>el_Fence := 0\<rparr>) ''b'' = Inl e)
     \<and> snd (CompleteExecution (ex_env ''b'' 9) db1 ((lease_of claim)\<lparr>el_Fence := 0\<rparr>) ''b'' (ex_result ''build'') ex_artifact ''ready'' ''evaluate'') = db1"
proof -
  obtain db where at: "ex_at ''feature'' 1 ''build'' ''ready'' db" using ex_feature by blast
  obtain claim db' where claim: "ClaimExecution (ex_env (ex_worker ''build'') 1) db ''p'' ''r'' (ex_worker ''build'') ''t'' = (Inr claim, db')"
    "es_Fence (cl_Step claim) = 1"
    using ex_claim [OF at] by (auto simp: ex_stages_def)
  have "(\<exists>e. CheckExecutionLease (ex_env ''b'' 9) db' ((lease_of claim)\<lparr>el_Fence := 0\<rparr>) ''b'' = Inl e)
      \<and> snd (CompleteExecution (ex_env ''b'' 9) db' ((lease_of claim)\<lparr>el_Fence := 0\<rparr>) ''b'' (ex_result ''build'') ex_artifact ''ready'' ''evaluate'') = db'"
    using stale_lease_has_no_effect [OF ex_reach [OF at] claim(1) rtranclp.rtrancl_refl, of "(lease_of claim)\<lparr>el_Fence := 0\<rparr>" "ex_env ''b'' 9" "''b''"
        "ex_result ''build''" ex_artifact "''ready''" "''evaluate''" ex_query ex_artifact False] claim(2)
    by (auto simp: lease_of_def)
  then show ?thesis using claim(2) by blast
qed

theorem claims_respect_concurrency_witness:
  "\<exists>env db db' claim. ClaimExecution env db ''p'' ''r'' ''b'' ''t'' = (Inr claim, db')
     \<and> int (length (live_leases env db' (resource_key (ex_package ''sdlc_builder'')))) \<le> 4"
proof -
  obtain db where at: "ex_at ''feature'' 1 ''build'' ''ready'' db" using ex_feature by blast
  have w: "ex_worker ''build'' = ''b''" by (simp add: ex_worker_def ex_workers_def ExecutionRole_def)
  obtain claim db' where claim: "ClaimExecution (ex_env ''b'' 1) db ''p'' ''r'' ''b'' ''t'' = (Inr claim, db')"
    using ex_claim [OF at] by (auto simp: ex_stages_def w)
  obtain run where run: "lockExecution db ''p'' ''r'' = Inr run" "er_Stage run = ''build''" "contract (ex_request ''feature'') run"
    using ex_lock [OF at] by blast
  then have "run_Package run = ex_package ''sdlc_builder''"
    by (simp add: run_Package_def contract_def ex_request_def ex_workers_def ExecutionRole_def)
  then show ?thesis
    using claims_respect_concurrency [OF ex_reach [OF at] claim run(1)] claim by (auto simp: ex_package_def)
qed

theorem claim_granted_iff_witness:
  "\<exists>env db claim. reach x_start x_step db \<and> fst (ClaimExecution env db ''p'' ''r'' ''b'' ''t'') = Inr claim \<and> executionOwner env db (ex_request ''feature'')"
proof -
  obtain db where at: "ex_at ''feature'' 1 ''build'' ''ready'' db" using ex_feature by blast
  have w: "ex_worker ''build'' = ''b''" by (simp add: ex_worker_def ex_workers_def ExecutionRole_def)
  obtain claim db' where claim: "ClaimExecution (ex_env ''b'' 1) db ''p'' ''r'' ''b'' ''t'' = (Inr claim, db')"
    using ex_claim [OF at] by (auto simp: ex_stages_def w)
  obtain run where run: "lockExecution db ''p'' ''r'' = Inr run" "er_Stage run = ''build''" "contract (ex_request ''feature'') run" "er_OwnerCredential run = ''co''"
    using at by (auto simp: ex_at_def)
  then have pkg: "1 \<le> ap_Concurrency (run_Package run)"
    by (simp add: run_Package_def contract_def ex_request_def ex_workers_def ExecutionRole_def ex_package_def)
  have fresh: "find_row ee_ID (env_id (ex_env ''b'' 1) n) (x_events db) = None" "find_row step_id (env_id (ex_env ''b'' 1) n) (x_steps db) = None" for n
    using at by (auto intro!: ex_fresh simp: ex_at_def)
  have "\<exists>claim. fst (ClaimExecution (ex_env ''b'' 1) db ''p'' ''r'' ''b'' ''t'') = Inr claim" using claim by simp
  then have "executionOwner (ex_env ''b'' 1) db run"
    using claim_granted_iff [OF ex_reach [OF at] run(1) fresh(1,1,2) pkg, of "''b''" "''t''"] by blast
  then have "executionOwner (ex_env ''b'' 1) db (ex_request ''feature'')"
    using run(3,4) by (simp add: executionOwner_def contract_def ex_request_def)
  then show ?thesis using claim ex_reach [OF at] by (metis fst_conv)
qed

theorem granted_lease_is_honoured_witness:
  "\<exists>db' claim view. CheckExecutionLease (ex_env ''e'' 9) db' (lease_of claim) ''e'' = Inr view \<and> view_Run view = cl_Run claim"
proof -
  obtain db where at: "ex_at ''feature'' 4 ''evaluate'' ''ready'' db" using ex_evaluate by blast
  have w: "ex_worker ''evaluate'' = ''e''" "''evaluate'' \<in> set ex_stages" by (simp_all add: ex_worker_def ex_workers_def ExecutionRole_def ex_stages_def)
  obtain claim db' where claim: "ClaimExecution (ex_env ''e'' 4) db ''p'' ''r'' ''e'' ''t'' = (Inr claim, db')" "same_context ex_db0 db'"
    "ex_run ''feature'' ''evaluate'' (cl_Run claim)" "0 < es_LeaseUntil (cl_Step claim)"
    using ex_claim [OF at w(2)] unfolding w(1) by blast
  note ready = ex_run_ready [OF claim(3,2) w(2)]
  show ?thesis
    using granted_lease_is_honoured [OF ex_reach [OF at] claim(1), of "ex_env ''e'' 9"] ready [unfolded w(1)] claim(3,4)
    by (auto simp: ex_run_def seconds_def)
qed


theorem completion_is_idempotent_witness:
  "\<exists>db l. fst (CompleteExecution (ex_env ''e'' 9) db l ''e'' (ex_result ''evaluate'') zero_artifact ''ready'' ''deliver'') = Inl ErrVersionConflict
     \<and> snd (CompleteExecution (ex_env ''e'' 9) db l ''e'' (ex_result ''evaluate'') zero_artifact ''ready'' ''deliver'') = db"
proof -
  obtain db where at: "ex_at ''feature'' 4 ''evaluate'' ''ready'' db" using ex_evaluate by blast
  have w: "ex_worker ''evaluate'' = ''e''" "''evaluate'' \<in> set ex_stages" by (simp_all add: ex_worker_def ex_workers_def ExecutionRole_def ex_stages_def)
  have tr: "validExecutionTransition ''evaluate'' ''succeeded'' ''ready'' ''deliver''" by (simp add: ex_path)
  obtain claim db1 db2 run db3 where m: "ClaimExecution (ex_env ''e'' 4) db ''p'' ''r'' ''e'' ''t'' = (Inr claim, db1)" "reach x_start x_step db2"
    "CompleteExecution (ex_env ''e'' 6) db2 (lease_of claim) ''e'' (ex_result ''evaluate'') ex_artifact ''ready'' ''deliver'' = (Inr run, db3)"
    "ex_at ''feature'' 7 ''deliver'' ''ready'' db3"
    using ex_moves [OF at w(2), of "ex_result ''evaluate''" "''ready''" "''deliver''"] tr unfolding w(1) by (auto simp: ex_result_def)
  obtain run3 where run3: "lockExecution db3 ''p'' ''r'' = Inr run3" using ex_lock [OF m(4)] by blast
  obtain run0 where "lockExecution db ''p'' ''r'' = Inr run0" using ex_lock [OF at] by blast
  then have "lockExecution db1 ''p'' ''r'' = Inr (cl_Run claim)" using claim_run_saved(1) [OF _ m(1)] ex_reach [OF at] ex.reach_inv by blast
  then have "lockExecution db3 (el_ProjectID (lease_of claim)) (el_RunID (lease_of claim)) = Inr run3"
    using run3 lockExecution_Ok(2,3) by (auto simp: lease_of_def)
  from completion_is_idempotent [OF m(2,3) rtranclp.rtrancl_refl this, of "ex_env ''e'' 9" "''e''" "ex_result ''evaluate''" zero_artifact "''ready''" "''deliver''"]
  show ?thesis by (auto simp: ex_artifact_def zero_artifact_def)
qed

theorem reservation_is_idempotent_witness:
  "\<exists>env db l db1. ReserveExecutionSource env db l ''g'' ex_query = (Inr (), db1) \<and> x_events db1 \<noteq> x_events db
     \<and> snd (ReserveExecutionSource env db1 l ''g'' ex_query) = db1"
proof -
  obtain claim db1 db2 where "ReserveExecutionSource (ex_env ''g'' 3) db1 (lease_of claim) ''g'' ex_query = (Inr (), db2)" "x_events db2 \<noteq> x_events db1"
    using ex_reserved by blast
  then show ?thesis using reservation_is_idempotent by blast
qed

theorem reconciling_only_reads_back_witness:
  "\<exists>db run db' run'. lockExecution db ''p'' ''r'' = Inr run \<and> er_Status run = ''reconciling''
     \<and> snd (ControlExecution (ex_env ''o'' 30) db ''p'' ''r'' ''o'' (er_Version run) ''resume'' []) = db'
     \<and> lockExecution db' ''p'' ''r'' = Inr run' \<and> er_Status run' \<noteq> ''ready''"
proof -
  obtain db where at: "ex_at ''feature'' 7 ''deliver'' ''ready'' db" using ex_deliver by blast
  have w: "ex_worker ''deliver'' = ''d''" "''deliver'' \<in> set ex_stages" by (simp_all add: ex_worker_def ex_workers_def ExecutionRole_def ex_stages_def)
  obtain claim db1 db2 row where b: "reach x_start x_step db2" "same_context ex_db0 db2" "ex_run ''feature'' ''deliver'' (cl_Run claim)"
    "lockExecution db2 ''p'' ''r'' = Inr (cl_Run claim)" "er_Status (cl_Run claim) = ''running''"
    "checkExecutionLease (ex_env ''d'' 9) db2 (lease_of claim) ''d'' = Inr (cl_Run claim, row)" "\<forall>e \<in> set (x_events db2). length (ee_ID e) < 9"
    using ex_bound [OF at w(2)] unfolding w(1) by auto
  have o: "open_step db2 (cl_Run claim) = Some row" using checkExecutionLease_Ok(5) [OF b(6)] .
  have live: "executionActor (ex_env ''o'' k) db2 ''o'' ''p'' ''operations'' True" for k
    unfolding context_executionActor [OF b(2)]
    by (simp add: executionActor_def ex_defs PrincipalFromContext_def liveExecutionCredential_def credential_live_def role_live_def)
  have r: "er_Owner (cl_Run claim) = ''o''" "er_Stage (cl_Run claim) = ''deliver''" using b(3) by (simp_all add: ex_run_def contract_def ex_request_def)
  obtain run3 db3 where pause: "ControlExecution (ex_env ''o'' 9) db2 ''p'' ''r'' ''o'' (er_Version (cl_Run claim)) ''pause'' [] = (Inr run3, db3)"
    "er_Status run3 = ''reconciling''" "x_runs db3 = put_row er_ID run3 (x_runs db2)" "er_ID run3 = er_ID (cl_Run claim)" "er_ProjectID run3 = er_ProjectID (cl_Run claim)"
    using b(4,5) r live o ex_fresh [OF b(7), of "''o''" 0]
    by (simp add: ControlExecution_def control_effect_def saveExecution_def saved_run_def)
  have inv2: "exec_inv db2" using b(1) ex.reach_inv by blast
  have reach3: "reach x_start x_step db3" using reach_step [OF b(1) x_step.control [OF pause(1)]] .
  have lock3: "lockExecution db3 ''p'' ''r'' = Inr run3"
    using b(4) pause(3-5) lockExecution_iff [of db2] inv2 lockExecution_Ok(3) [OF b(4)]
    unfolding lockExecution_iff [OF reach_keys [OF reach3]] by (auto simp: find_row_put exec_inv_def)
  obtain x db4 where ctl: "ControlExecution (ex_env ''o'' 30) db3 ''p'' ''r'' ''o'' (er_Version run3) ''resume'' [] = (x, db4)" by fastforce
  obtain run4 where "lockExecution db4 ''p'' ''r'' = Inr run4" "er_Status run4 \<in> {''reconciling'', ''blocked'', ''cancelled'', ''paused''}"
    using reconciling_only_reads_back [OF reach3 lock3 pause(2) x_step.control [OF ctl]] by blast
  then show ?thesis using lock3 pause(2) ctl by (intro exI [of _ db3] exI [of _ run3] exI [of _ db4] exI [of _ run4]) auto
qed

end
