(* ===== verification/FilePatch.thy ===== *)
theory FilePatch
  imports WorkPacket
begin

text \<open>
  The patch the trusted runtime builds from the complete file contents a model returns
  (\<open>src/internal/execution/file_patch.go\<close>), and a reader of that patch text against which it is proved correct: applying
  the patch to the base files gives exactly the replaced files. The two Go maps are association lists with
  distinct keys.
\<close>

section \<open>The generated patch\<close>

text \<open>\<open>utf8.ValidString\<close>: every sequence is a well-formed encoding.\<close>

function valid_utf8_bytes :: "nat list \<Rightarrow> bool" where
  "valid_utf8_bytes [] = True"
| "valid_utf8_bytes (b # bs) =
     (if b < 128 then valid_utf8_bytes bs
      else if snd (rune_at (b # bs)) = 1 then False
      else valid_utf8_bytes (drop (snd (rune_at (b # bs))) (b # bs)))"
  by pat_completeness auto
termination
proof (relation "measure length")
  fix b :: nat and bs
  show "(drop (snd (rune_at (b # bs))) (b # bs), b # bs) \<in> measure length"
    using rune_at_pos [of "b # bs"] by simp
qed simp_all

definition ValidString :: "string \<Rightarrow> bool" where
  "ValidString s = valid_utf8_bytes (map of_char s)"

definition safe_patch_name :: "string \<Rightarrow> bool" where
  "safe_patch_name name \<longleftrightarrow>
     \<not> (path_Clean name \<noteq> name \<or> prefix ''/'' name \<or> name = ''.'' \<or> name = ''..'' \<or> prefix ''../'' name
        \<or> list_ex (\<lambda>c. c \<in> {CHR 0x5C, CHR 0x00, CHR 0x0D, CHR 0x0A, CHR 0x09, CHR 0x20, CHR 0x22}) name)"

definition safe_patch_content :: "string \<Rightarrow> bool" where
  "safe_patch_content next \<longleftrightarrow> \<not> (\<not> ValidString next \<or> CHR 0x00 \<in> set next \<or> length next > 65536)"

definition file_lines :: "string \<Rightarrow> string list" where
  "file_lines content = (if content = [] then [] else split_on (CHR 0x0A) (trim_suffix [CHR 0x0A] content))"

definition diff_line :: "string \<Rightarrow> string" where
  "diff_line name = ''diff --git a/'' @ name @ '' b/'' @ name"

definition new_file_line :: string where
  "new_file_line = ''new file mode 100644''"

definition before_line :: "string \<Rightarrow> bool \<Rightarrow> string" where
  "before_line name exists = (if exists then ''--- a/'' @ name else ''--- /dev/null'')"

definition after_line :: "string \<Rightarrow> string" where
  "after_line name = ''+++ b/'' @ name"

definition no_newline_line :: string where
  "no_newline_line = CHR 0x5C # '' No newline at end of file''"

definition file_header :: "string \<Rightarrow> bool \<Rightarrow> string" where
  "file_header name exists =
     diff_line name @ [CHR 0x0A]
     @ (if exists then before_line name exists @ [CHR 0x0A]
        else new_file_line @ [CHR 0x0A] @ before_line name exists @ [CHR 0x0A])
     @ after_line name @ [CHR 0x0A]"

definition hunk_header :: "nat \<Rightarrow> nat \<Rightarrow> string" where
  "hunk_header a b =
     ''@@ -'' @ show_int (if a = 0 then 0 else 1) @ '','' @ show_nat a @ '' +'' @ show_int (if b = 0 then 0 else 1) @ '',''
     @ show_nat b @ '' @@''"

fun side_lines :: "string \<Rightarrow> bool \<Rightarrow> string list \<Rightarrow> string" where
  "side_lines mark ends [] = []"
| "side_lines mark ends (line # rest) =
     mark @ line @ [CHR 0x0A]
     @ (if rest = [] \<and> \<not> ends then no_newline_line @ [CHR 0x0A] else [])
     @ side_lines mark ends rest"

definition file_hunk :: "string \<Rightarrow> string \<Rightarrow> string" where
  "file_hunk old next =
     hunk_header (length (file_lines old)) (length (file_lines next)) @ [CHR 0x0A]
     @ side_lines ''-'' (suffix [CHR 0x0A] old) (file_lines old)
     @ side_lines ''+'' (suffix [CHR 0x0A] next) (file_lines next)"

fun patch_files ::
  "(string \<times> string) list \<Rightarrow> (string \<times> string) list \<Rightarrow> string \<Rightarrow> string list \<Rightarrow> string result" where
  "patch_files base replacements out [] = Ok out"
| "patch_files base replacements out (name # names) =
     (let old = map_of base name; next = map_get [] replacements name; prev = (case old of None \<Rightarrow> [] | Some c \<Rightarrow> c);
          out1 = out @ file_header name (old \<noteq> None)
      in if \<not> safe_patch_name name then Err ErrForbidden
         else if \<not> safe_patch_content next then Err ErrBudgetExhausted
         else if old = Some next then patch_files base replacements out names
         else if file_lines prev = [] \<and> file_lines next = [] then patch_files base replacements out1 names
         else if length (out1 @ file_hunk prev next) > 262144 then Err ErrBudgetExhausted
         else patch_files base replacements (out1 @ file_hunk prev next) names)"

definition FilePatch :: "(string \<times> string) list \<Rightarrow> (string \<times> string) list \<Rightarrow> string result" where
  "FilePatch base replacements =
     (if length replacements < 1 \<or> length replacements > 30 then Err ErrBudgetExhausted
      else case patch_files base replacements [] (sort (map fst replacements)) of
        Inl e \<Rightarrow> Err e
      | Inr out \<Rightarrow> if out = [] then Err ErrValidationRequired else Ok out)"

section \<open>Reading a patch\<close>

text \<open>
  The reference: a patch is read line by line. A section names its file three times, a hunk's counts are those of
  its lines, and a side without a final line feed says so.
\<close>

definition text_lines :: "string \<Rightarrow> string list" where
  "text_lines s = butlast (split_on (CHR 0x0A) s)"

definition read_side :: "char \<Rightarrow> string list \<Rightarrow> string \<times> nat \<times> string list" where
  "read_side mark ls =
     (let body = takeWhile (prefix [mark]) ls; rest = dropWhile (prefix [mark]) ls; text = join_with [CHR 0x0A] (map tl body)
      in if body = [] then ([], 0, rest)
         else if rest \<noteq> [] \<and> hd rest = no_newline_line then (text, length body, tl rest)
         else (text @ [CHR 0x0A], length body, rest))"

definition read_hunk :: "string list \<Rightarrow> (string \<times> string \<times> string list) option" where
  "read_hunk ls =
     (if ls = [] \<or> \<not> prefix ''@@ '' (hd ls) then Some ([], [], ls)
      else let (old, a, ls1) = read_side (CHR ''-'') (tl ls); (new, b, ls2) = read_side (CHR ''+'') ls1
           in if hd ls = hunk_header a b then Some (old, new, ls2) else None)"

definition read_named :: "bool \<Rightarrow> string list \<Rightarrow> ((string \<times> string option \<times> string) \<times> string list) option" where
  "read_named created ls = (case ls of
     d # m # p # rest \<Rightarrow>
       let name = drop 6 p in
       if p = after_line name \<and> d = diff_line name \<and> m = before_line name (\<not> created)
       then (case read_hunk rest of
               None \<Rightarrow> None
             | Some (old, new, rest') \<Rightarrow> Some ((name, if created then None else Some old, new), rest'))
       else None
   | _ \<Rightarrow> None)"

definition read_section :: "string list \<Rightarrow> ((string \<times> string option \<times> string) \<times> string list) option" where
  "read_section ls = (case ls of
     d # m # rest \<Rightarrow> if m = new_file_line then read_named True (d # rest) else read_named False ls
   | _ \<Rightarrow> None)"

lemma read_side_length: "length (snd (snd (read_side m ls))) \<le> length ls"
proof -
  have "length (dropWhile (prefix [m]) ls) \<le> length ls" by (rule length_dropWhile_le)
  then show ?thesis by (auto simp: read_side_def Let_def)
qed

lemma read_hunk_length: "read_hunk ls = Some (old, new, rest) \<Longrightarrow> length rest \<le> length ls"
  using read_side_length [of "CHR ''-''" "tl ls"] read_side_length [of "CHR ''+''" "snd (snd (read_side (CHR ''-'') (tl ls)))"]
  by (auto simp: read_hunk_def Let_def split: if_splits prod.splits)

lemma read_named_length: "read_named c ls = Some (s, rest) \<Longrightarrow> length rest + 2 < length ls"
  by (auto simp: read_named_def Let_def split: if_splits list.splits option.splits prod.splits dest!: read_hunk_length)

lemma read_section_length: "read_section ls = Some (s, rest) \<Longrightarrow> length rest < length ls"
  by (fastforce simp: read_section_def split: if_splits list.splits dest: read_named_length)

function read_patch :: "string list \<Rightarrow> (string \<times> string option \<times> string) list option" where
  "read_patch ls =
     (if ls = [] then Some []
      else case read_section ls of
        None \<Rightarrow> None
      | Some (s, rest) \<Rightarrow> (case read_patch rest of None \<Rightarrow> None | Some ss \<Rightarrow> Some (s # ss)))"
  by pat_completeness auto
termination
  by (relation "measure length") (auto dest: read_section_length)

declare read_patch.simps [simp del]

text \<open>Applying a section needs the file to be what the section says it was.\<close>

fun apply_sections ::
  "(string \<rightharpoonup> string) \<Rightarrow> (string \<times> string option \<times> string) list \<Rightarrow> (string \<rightharpoonup> string) option" where
  "apply_sections files [] = Some files"
| "apply_sections files ((name, old, new) # ss) =
     (if files name = old then apply_sections (files(name \<mapsto> new)) ss else None)"

definition apply_patch :: "(string \<rightharpoonup> string) \<Rightarrow> string \<Rightarrow> (string \<rightharpoonup> string) option" where
  "apply_patch files text =
     (case read_patch (text_lines text) of None \<Rightarrow> None | Some ss \<Rightarrow> apply_sections files ss)"

section \<open>The patch is read as what it changes\<close>

definition lines_text :: "string list \<Rightarrow> string" where
  "lines_text ls = concat (map (\<lambda>l. l @ [CHR 0x0A]) ls)"

lemma lines_text_simps [simp]:
  "lines_text [] = []" "lines_text (l # ls) = l @ CHR 0x0A # lines_text ls"
  "lines_text (ls @ ms) = lines_text ls @ lines_text ms"
  by (simp_all add: lines_text_def)

lemma text_lines_of_lines: "\<forall>l \<in> set ls. CHR 0x0A \<notin> set l \<Longrightarrow> text_lines (lines_text ls) = ls"
proof (induction ls)
  case (Cons l ls)
  then have "split_on (CHR 0x0A) (lines_text (l # ls)) = l # split_on (CHR 0x0A) (lines_text ls)"
    by (simp add: split_on_append)
  with Cons show ?case by (simp add: text_lines_def)
qed (simp add: text_lines_def)

definition side_rows :: "char \<Rightarrow> bool \<Rightarrow> string list \<Rightarrow> string list" where
  "side_rows mark ends ls = map (\<lambda>l. mark # l) ls @ (if ls = [] \<or> ends then [] else [no_newline_line])"

lemma side_lines_rows: "side_lines [m] ends ls = lines_text (side_rows m ends ls)"
  by (induction ls) (auto simp: side_rows_def)

text \<open>The lines of a section start with letters no side row starts with.\<close>

definition section_start :: "string list \<Rightarrow> bool" where
  "section_start ls \<longleftrightarrow> (ls = [] \<or> prefix ''d'' (hd ls))"

lemma read_side_rows:
  assumes "rest = [] \<or> \<not> prefix [m] (hd rest) \<and> hd rest \<noteq> no_newline_line" and "m \<noteq> CHR 0x5C"
  shows "read_side m (side_rows m ends ls @ rest)
     = (if ls = [] then [] else join_with [CHR 0x0A] ls @ (if ends then [CHR 0x0A] else []), length ls, rest)"
proof -
  have head: "\<not> prefix [m] no_newline_line" using assms(2) by (simp add: no_newline_line_def)
  have take: "takeWhile (prefix [m]) (map ((#) m) ls @ tail) = map ((#) m) ls @ takeWhile (prefix [m]) tail"
    and drop: "dropWhile (prefix [m]) (map ((#) m) ls @ tail) = dropWhile (prefix [m]) tail" for tail
    by (induction ls) auto
  have rest: "takeWhile (prefix [m]) rest = []" "dropWhile (prefix [m]) rest = rest"
    using assms(1) by (cases rest; simp)+
  have tls: "map tl (map ((#) m) ls) = ls" by (induction ls) auto
  show ?thesis
    using assms(1) head rest tls
    by (cases "ls = []"; cases ends) (auto simp: read_side_def side_rows_def Let_def take drop simp del: map_map)
qed

lemma file_content:
  "c = (if file_lines c = [] then [] else join_with [CHR 0x0A] (file_lines c) @ (if suffix [CHR 0x0A] c then [CHR 0x0A] else []))"
  by (auto simp: file_lines_def join_split_on trim_suffix_def suffix_def)

lemma file_lines_no_LF: "l \<in> set (file_lines c) \<Longrightarrow> CHR 0x0A \<notin> set l"
  by (auto simp: file_lines_def split: if_splits dest: split_on_no_sep)

text \<open>What a file's section says: the file was \<open>old\<close> and becomes \<open>next\<close>.\<close>

definition prev_content :: "string option \<Rightarrow> string" where
  "prev_content old = (case old of None \<Rightarrow> [] | Some c \<Rightarrow> c)"

definition section_rows :: "string \<times> string option \<times> string \<Rightarrow> string list" where
  "section_rows x = (case x of (name, old, next) \<Rightarrow>
     [diff_line name] @ (if old = None then [new_file_line] else []) @ [before_line name (old \<noteq> None), after_line name]
     @ (if file_lines (prev_content old) = [] \<and> file_lines next = [] then []
        else hunk_header (length (file_lines (prev_content old))) (length (file_lines next))
          # side_rows (CHR ''-'') (suffix [CHR 0x0A] (prev_content old)) (file_lines (prev_content old))
          @ side_rows (CHR ''+'') (suffix [CHR 0x0A] next) (file_lines next)))"

lemma read_hunk_rows:
  assumes "section_start rest" and "file_lines old \<noteq> [] \<or> file_lines next \<noteq> []"
  shows "read_hunk (hunk_header (length (file_lines old)) (length (file_lines next))
     # side_rows (CHR ''-'') (suffix [CHR 0x0A] old) (file_lines old)
     @ side_rows (CHR ''+'') (suffix [CHR 0x0A] next) (file_lines next) @ rest) = Some (old, next, rest)"
proof -
  let ?b = "side_rows (CHR ''+'') (suffix [CHR 0x0A] next) (file_lines next)"
  have start: "rest = [] \<or> \<not> prefix [m] (hd rest) \<and> hd rest \<noteq> no_newline_line" if "m \<noteq> CHR ''d''" for m
    using assms(1) that by (cases rest) (auto simp: section_start_def no_newline_line_def prefix_def)
  have mid: "?b @ rest = [] \<or> \<not> prefix ''-'' (hd (?b @ rest)) \<and> hd (?b @ rest) \<noteq> no_newline_line"
    using start [of "CHR ''-''"] by (cases "file_lines next") (auto simp: side_rows_def no_newline_line_def)
  have head: "prefix ''@@ '' (hunk_header a b)" for a b by (simp add: hunk_header_def)
  have old: "read_side (CHR ''-'') (side_rows (CHR ''-'') (suffix [CHR 0x0A] old) (file_lines old) @ ?b @ rest)
      = (old, length (file_lines old), ?b @ rest)"
    using read_side_rows [OF mid, of "suffix [CHR 0x0A] old" "file_lines old"] file_content [of old] by simp
  have new: "read_side (CHR ''+'') (?b @ rest) = (next, length (file_lines next), rest)"
    using read_side_rows [OF start [of "CHR ''+''"], of "suffix [CHR 0x0A] next" "file_lines next"] file_content [of "next"] by simp
  show ?thesis by (simp add: read_hunk_def head old new)
qed

lemma read_hunk_none: "section_start rest \<Longrightarrow> read_hunk rest = Some ([], [], rest)"
  by (cases rest) (auto simp: read_hunk_def section_start_def prefix_def)

lemma file_lines_Nil_iff: "file_lines c = [] \<longleftrightarrow> c = []"
  by (simp add: file_lines_def)

lemma read_section_rows:
  assumes "section_start rest" and "old \<noteq> Some next"
  shows "read_section (section_rows (name, old, next) @ rest) = Some ((name, old, next), rest)"
proof -
  have distinct: "before_line name True \<noteq> new_file_line" by (simp add: before_line_def new_file_line_def)
  have created: "read_hunk (hunk_header (length (file_lines [])) (length (file_lines next))
      # side_rows (CHR ''-'') False (file_lines []) @ side_rows (CHR ''+'') (suffix [CHR 0x0A] next) (file_lines next) @ rest)
      = Some ([], next, rest)" if "next \<noteq> []"
    using read_hunk_rows [OF assms(1), of "[]" "next"] that by (simp add: file_lines_Nil_iff)
  have "drop 6 (after_line name) = name" by (simp add: after_line_def)
  then show ?thesis
    using distinct assms created
    by (cases old)
      (auto simp: read_section_def section_rows_def prev_content_def read_named_def Let_def read_hunk_rows
        read_hunk_none file_lines_Nil_iff)
qed

lemma read_patch_rows:
  "\<forall>(name, old, next) \<in> set xs. old \<noteq> Some next \<Longrightarrow> read_patch (concat (map section_rows xs)) = Some xs"
proof (induction xs)
  case (Cons x xs)
  obtain name old "next" where x: "x = (name, old, next)" by (cases x)
  have start: "section_start (concat (map section_rows xs))"
    by (cases xs) (auto simp: section_start_def section_rows_def diff_line_def split: prod.splits)
  have "section_rows x \<noteq> []" by (simp add: section_rows_def x)
  with Cons x read_section_rows [OF start] show ?case
    by (subst read_patch.simps) auto
qed (simp add: read_patch.simps)

text \<open>What is emitted is the text of these rows, and none of them contains a line feed.\<close>

lemma section_text:
  assumes "old \<noteq> Some next"
  shows "lines_text (section_rows (name, old, next)) =
     file_header name (old \<noteq> None)
     @ (if file_lines (prev_content old) = [] \<and> file_lines next = [] then [] else file_hunk (prev_content old) next)"
  by (cases old) (auto simp: section_rows_def file_header_def file_hunk_def side_lines_rows)

lemma digit_not_LF: "n < 10 \<Longrightarrow> char_of (48 + n :: nat) \<noteq> CHR 0x0A"
proof
  assume "n < 10" and "char_of (48 + n :: nat) = CHR 0x0A"
  then have "of_char (char_of (48 + n :: nat)) = (10 :: nat)" by simp
  with \<open>n < 10\<close> show False by simp
qed

lemma show_nat_no_LF: "CHR 0x0A \<notin> set (show_nat n)"
proof (induction n rule: show_nat.induct)
  case (1 n)
  have "n < 10 \<Longrightarrow> char_of (48 + n) \<noteq> CHR 0x0A" "char_of (48 + n mod 10) \<noteq> CHR 0x0A"
    by (rule digit_not_LF; simp)+
  with 1 show ?case by (subst show_nat.simps) auto
qed

lemma section_rows_no_LF:
  assumes "CHR 0x0A \<notin> set name" and "l \<in> set (section_rows (name, old, next))"
  shows "CHR 0x0A \<notin> set l"
proof -
  have side: "CHR 0x0A \<notin> set r" if "r \<in> set (side_rows m e (file_lines c))" "m \<noteq> CHR 0x0A" for r m e c
    using that by (auto simp: side_rows_def no_newline_line_def dest: file_lines_no_LF split: if_splits)
  have header: "CHR 0x0A \<notin> set (hunk_header a b)" for a b
    by (simp add: hunk_header_def show_int_def show_nat_no_LF)
  have fixed: "CHR 0x0A \<notin> set (diff_line name)" "CHR 0x0A \<notin> set new_file_line" "CHR 0x0A \<notin> set (before_line name b)"
    "CHR 0x0A \<notin> set (after_line name)" for b
    using assms(1) by (simp_all add: diff_line_def new_file_line_def before_line_def after_line_def)
  show ?thesis
    using assms(2) fixed header side [of _ "CHR ''-''"] side [of _ "CHR ''+''"]
    unfolding section_rows_def by (auto split: if_splits)
qed

text \<open>The sections the loop emits: one for each replaced file whose content changes.\<close>

definition changes :: "(string \<times> string) list \<Rightarrow> (string \<times> string) list \<Rightarrow> string list \<Rightarrow> (string \<times> string option \<times> string) list" where
  "changes base replacements names =
     map (\<lambda>name. (name, map_of base name, map_get [] replacements name))
       (filter (\<lambda>name. map_of base name \<noteq> Some (map_get [] replacements name)) names)"

lemma patch_files_text:
  "patch_files base replacements out names = Inr text \<Longrightarrow>
     text = out @ lines_text (concat (map section_rows (changes base replacements names)))
     \<and> list_all safe_patch_name names \<and> list_all (\<lambda>name. safe_patch_content (map_get [] replacements name)) names"
proof (induction base replacements out names rule: patch_files.induct)
  case (2 base replacements out name names)
  note step = section_text [of "map_of base name" "map_get [] replacements name" name, unfolded prev_content_def]
  from "2.prems" have safe: "safe_patch_name name" "safe_patch_content (map_get [] replacements name)"
    by (auto simp: Let_def split: if_splits)
  show ?case
    using "2.prems" "2.IH" safe step
    by (auto simp: Let_def changes_def simp del: section_text split: if_splits)
qed (simp add: changes_def)

lemma apply_changes:
  assumes "distinct names" and "\<forall>name \<in> set names. files name = map_of base name"
  shows "apply_sections files (changes base replacements names)
     = Some (\<lambda>n. if n \<in> set names then Some (map_get [] replacements n) else files n)"
  using assms
proof (induction names arbitrary: files)
  case (Cons name names)
  show ?case
  proof (cases "map_of base name = Some (map_get [] replacements name)")
    case True
    then have "changes base replacements (name # names) = changes base replacements names" by (simp add: changes_def)
    with True Cons show ?thesis by (auto simp: fun_eq_iff)
  next
    case False
    then have "changes base replacements (name # names)
        = (name, map_of base name, map_get [] replacements name) # changes base replacements names"
      by (simp add: changes_def)
    moreover have "\<forall>n \<in> set names. (files(name \<mapsto> map_get [] replacements name)) n = map_of base n"
      using Cons.prems by auto
    ultimately show ?thesis using Cons by (auto simp: fun_eq_iff)
  qed
qed (simp add: changes_def)

lemma safe_name_no_LF: "safe_patch_name name \<Longrightarrow> CHR 0x0A \<notin> set name"
  by (auto simp: safe_patch_name_def list_ex_iff)

lemma FilePatch_Ok:
  assumes "FilePatch base replacements = Inr text"
  shows "text = lines_text (concat (map section_rows (changes base replacements (sort (map fst replacements)))))"
    and "\<forall>name \<in> fst ` set replacements. safe_patch_name name"
proof -
  from assms have ok: "patch_files base replacements [] (sort (map fst replacements)) = Inr text"
    by (auto simp: FilePatch_def split: if_splits sum.splits)
  from patch_files_text [OF ok]
  show "text = lines_text (concat (map section_rows (changes base replacements (sort (map fst replacements)))))"
    and "\<forall>name \<in> fst ` set replacements. safe_patch_name name"
    by (auto simp: list_all_iff)
qed

lemmas FilePatch_eval = FilePatch_def Let_def safe_patch_name_def path_Clean_def safe_patch_content_def ValidString_def
  file_lines_def trim_suffix_def file_header_def file_hunk_def hunk_header_def show_int_def show_nat.simps
  diff_line_def new_file_line_def before_line_def after_line_def no_newline_line_def suffix_def

text \<open>
  C39: The patch built from complete file contents changes exactly what the contents say: read back and applied to
  the base files it succeeds, every section finds its file as it expects it, and the result is the base with
  the replacements put over it.
\<close>

theorem file_patch_applies:
  assumes "FilePatch base replacements = Inr text" and "distinct (map fst replacements)"
  shows "apply_patch (map_of base) text = Some (map_of base ++ map_of replacements)"
proof -
  let ?names = "sort (map fst replacements)"
  let ?xs = "changes base replacements ?names"
  have "\<forall>l \<in> set (concat (map section_rows ?xs)). CHR 0x0A \<notin> set l"
    using FilePatch_Ok(2) [OF assms(1)] by (auto simp: changes_def dest!: safe_name_no_LF dest: section_rows_no_LF)
  then have lines: "text_lines text = concat (map section_rows ?xs)"
    using text_lines_of_lines FilePatch_Ok(1) [OF assms(1)] by simp
  have "read_patch (text_lines text) = Some ?xs"
    unfolding lines by (rule read_patch_rows) (auto simp: changes_def)
  then have applied: "apply_patch (map_of base) text
      = Some (\<lambda>n. if n \<in> set ?names then Some (map_get [] replacements n) else map_of base n)"
    using apply_changes [of ?names "map_of base" base replacements] assms(2) by (simp add: apply_patch_def)
  have mem: "n \<in> set ?names \<longleftrightarrow> map_of replacements n \<noteq> None" for n by (simp add: map_of_eq_None_iff)
  have "(\<lambda>n. if n \<in> set ?names then Some (map_get [] replacements n) else map_of base n) = map_of base ++ map_of replacements"
    unfolding mem by (auto simp: fun_eq_iff map_add_def map_get_def split: option.splits)
  with applied show ?thesis by simp
qed

theorem file_patch_applies_witness:
  "\<exists>text. FilePatch [(''a'', ''x''), (''b'', ''y'')] [(''a'', ''z''), (''c'', ''w'')] = Inr text
     \<and> apply_patch (map_of [(''a'', ''x''), (''b'', ''y'')]) text
       = Some (map_of [(''a'', ''x''), (''b'', ''y'')] ++ map_of [(''a'', ''z''), (''c'', ''w'')])"
proof -
  have "is_ok (FilePatch [(''a'', ''x''), (''b'', ''y'')] [(''a'', ''z''), (''c'', ''w'')])"
    by (simp add: FilePatch_eval)
  then obtain patch where ok: "FilePatch [(''a'', ''x''), (''b'', ''y'')] [(''a'', ''z''), (''c'', ''w'')] = Inr patch"
    by (auto simp: is_ok_iff)
  have "distinct (map fst [(''a'', ''z''), (''c'', ''w'')])" by simp
  from file_patch_applies [OF ok this] ok show ?thesis by blast
qed

section \<open>Paths\<close>

text \<open>A clean relative path keeps its parent references at the front.\<close>

fun dots_below :: "string list \<Rightarrow> bool" where
  "dots_below [] = True"
| "dots_below (x # out) = (dots_below out \<and> (x = ''..'' \<longrightarrow> (\<forall>y \<in> set out. y = ''..'')))"

lemma clean_elements_dots:
  "dots_below out \<Longrightarrow> \<exists>out'. clean_elements False out es = rev out' \<and> dots_below out'"
proof (induction es arbitrary: out)
  case (Cons e es)
  consider "e = [] \<or> e = ''.''" | "e = ''..''" "out = []" | ds where "e = ''..''" "out = ''..'' # ds"
    | d ds where "e = ''..''" "out = d # ds" "d \<noteq> ''..''" | "e \<noteq> []" "e \<noteq> ''.''" "e \<noteq> ''..''"
    by (cases out) blast+
  then show ?case
  proof cases
    case 1
    then show ?thesis using Cons by simp
  next
    case 2
    then show ?thesis using Cons.IH [of "[''..'']"] by simp
  next
    case 3
    then show ?thesis using Cons.IH [of "''..'' # out"] Cons.prems by simp
  next
    case (4 d ds)
    then show ?thesis using Cons.IH [of ds] Cons.prems by simp
  next
    case 5
    then show ?thesis using Cons.IH [of "e # out"] Cons.prems by simp
  qed
qed auto

lemma clean_elements_kept:
  "list_all P out \<Longrightarrow> list_all P es \<Longrightarrow> P ''..'' \<Longrightarrow> list_all P (clean_elements rooted out es)"
proof (induction rooted out es rule: clean_elements.induct)
  case (2 rooted out e es)
  then show ?case by (cases out) (simp_all split: if_splits)
qed (simp add: list_all_iff)

lemma dots_below_last: "dots_below out \<Longrightarrow> ''..'' \<in> set out \<Longrightarrow> last out = ''..''"
proof (induction out)
  case (Cons x out)
  show ?case
  proof (cases "out = []")
    case False
    then have last: "last out \<in> set out" "last (x # out) = last out" by simp_all
    have "dots_below out" "x = ''..'' \<Longrightarrow> last out = ''..''"
      using Cons.prems(1) last(1) unfolding dots_below.simps by blast+
    with Cons.IH Cons.prems(2) last(2) show ?thesis by (metis set_ConsD)
  qed (use Cons in simp)
qed simp

lemma split_join:
  "xs \<noteq> [] \<Longrightarrow> \<forall>x \<in> set xs. c \<notin> set x \<Longrightarrow> split_on c (join_with [c] xs) = xs"
  by (induction "[c]" xs rule: join_with.induct) (auto simp: split_on_append split_on_single)

text \<open>
  Every file a generated patch names stays inside the repository: the path is relative, and none of its
  elements refers to a parent directory.
\<close>

theorem patch_paths_stay_inside:
  assumes "FilePatch base replacements = Inr text" and "name \<in> fst ` set replacements"
  shows "\<not> prefix ''/'' name \<and> ''..'' \<notin> set (split_on (CHR ''/'') name)"
proof -
  from FilePatch_Ok(2) [OF assms(1)] assms(2) have safe: "safe_patch_name name" by blast
  let ?els = "clean_elements False [] (split_on (CHR ''/'') name)"
  have rel: "\<not> prefix ''/'' name" and up: "name \<noteq> ''..''" "\<not> prefix ''../'' name" and dot: "name \<noteq> ''.''"
    and clean: "path_Clean name = name"
    using safe by (auto simp: safe_patch_name_def)
  have join: "name = join_with ''/'' ?els" and els: "?els \<noteq> []"
    using clean rel dot by (auto simp: path_Clean_def Let_def split: if_splits)
  have sep: "\<forall>x \<in> set ?els. CHR ''/'' \<notin> set x"
    using clean_elements_kept [of "\<lambda>x. CHR ''/'' \<notin> set x" "[]" "split_on (CHR ''/'') name" False]
    by (simp add: list_all_iff split_on_no_sep)
  have split: "split_on (CHR ''/'') name = ?els"
    using split_join [OF els sep] join by simp
  obtain out where out: "?els = rev out" "dots_below out" using clean_elements_dots [of "[]"] by auto
  show ?thesis
  proof (intro conjI notI)
    assume "''..'' \<in> set (split_on (CHR ''/'') name)"
    with split out have "''..'' \<in> set out" by simp
    with out(2) have "last out = ''..''" by (rule dots_below_last)
    with out(1) els have "hd ?els = ''..''" by (simp add: hd_rev)
    with els obtain rest where "?els = ''..'' # rest" by (cases ?els) simp_all
    with join have "name = ''..'' \<or> prefix ''../'' name" by (cases rest) simp_all
    with up show False by blast
  qed (use rel in blast)
qed

theorem patch_paths_stay_inside_witness:
  "\<exists>text. FilePatch [] [(''d/f'', ''w'')] = Inr text \<and> \<not> prefix ''/'' ''d/f''
     \<and> ''..'' \<notin> set (split_on (CHR ''/'') ''d/f'')"
proof -
  have "is_ok (FilePatch [] [(''d/f'', ''w'')])"
    by (simp add: FilePatch_eval)
  then obtain patch where ok: "FilePatch [] [(''d/f'', ''w'')] = Inr patch"
    by (auto simp: is_ok_iff)
  from patch_paths_stay_inside [OF ok, of "''d/f''"] ok show ?thesis by simp
qed

end
