(* ===== verification/ProductProps.thy ===== *)
theory ProductProps
  imports ProductStore
begin

text \<open>
  Invariants and history of the product records: the versions of a key are numbered without gaps, what a head
  points to is the newest accepted version of its key, and nothing recorded is ever changed or withdrawn. The
  transition system is that of the calls of the store, interleaved with any change of the principals and roles.
\<close>

section \<open>The calls\<close>

inductive p_step :: "('a product_db_scheme) \<Rightarrow> ('a product_db_scheme) \<Rightarrow> bool" where
  put: "repo_PutProductRecord decode env db r expected = (res, db') \<Longrightarrow> p_step db db'"
| validate: "repo_ValidateProductRecord env db v = (resu, db') \<Longrightarrow> p_step db db'"
| decide: "repo_DecideProductRecord env db d = (res, db') \<Longrightarrow> p_step db db'"
| observe: "insert_observation db r = Inr db' \<Longrightarrow> p_step db db'"
| relate: "repo_PutProductRelation env db rel = (resr, db') \<Longrightarrow> p_step db db'"
| elsewhere: "x_products db' = x_products db \<Longrightarrow> x_heads db' = x_heads db \<Longrightarrow> x_decisions db' = x_decisions db
     \<Longrightarrow> x_validations db' = x_validations db \<Longrightarrow> p_step db db'"

definition p_start :: "('a product_db_scheme) \<Rightarrow> bool" where
  "p_start db \<longleftrightarrow> x_products db = [] \<and> x_heads db = [] \<and> x_decisions db = [] \<and> x_validations db = []"

text \<open>What a call changes: nothing, a record, a validation, a decision with the head it moves, or an observation with its head.\<close>

definition record_key :: "('a product_record_scheme) \<Rightarrow> string \<times> string \<times> string" where
  "record_key r = (prod_Project r, prod_Product r, prod_Key r)"

definition version_key :: "('a product_record_scheme) \<Rightarrow> (string \<times> string \<times> string) \<times> int" where
  "version_key r = (record_key r, prod_Version r)"

definition head_for :: "('a product_record_scheme) \<Rightarrow> head_row" where
  "head_for r = \<lparr>head_Project = prod_Project r, head_Product = prod_Product r, head_Key = prod_Key r, head_Record = prod_ID r\<rparr>"

definition upsert_head :: "head_row \<Rightarrow> head_row list \<Rightarrow> head_row list" where
  "upsert_head h hs = (if find_row head_key (head_key h) hs = None then hs @ [h] else put_row head_key h hs)"

lemma same_key_iff: "same_key a b \<longleftrightarrow> record_key a = record_key b"
  by (auto simp: same_key_def record_key_def)

lemma head_key_for [simp]: "head_key (head_for r) = record_key r"
  by (simp add: head_key_def head_for_def record_key_def)

lemma head_Record_for [simp]: "head_Record (head_for r) = prod_ID r"
  by (simp add: head_for_def)

lemma advance_heads: "x_heads (advanceProductHead db r) = upsert_head (head_for r) (x_heads db)"
  by (simp add: advanceProductHead_def upsert_head_def head_for_def Let_def)

lemma advance_others [simp]:
  "x_products (advanceProductHead db r) = x_products db" "x_decisions (advanceProductHead db r) = x_decisions db"
  "x_validations (advanceProductHead db r) = x_validations db"
  by (simp_all add: advanceProductHead_def Let_def)

definition inserted_row :: "product_code option \<Rightarrow> product_record \<Rightarrow> product_row" where
  "inserted_row c r = product_record.extend r \<lparr>prod_Code = c\<rparr>"

lemma inserted_row_simps [simp]:
  "prod_ID (inserted_row c r) = prod_ID r" "prod_Project (inserted_row c r) = prod_Project r"
  "prod_Product (inserted_row c r) = prod_Product r" "prod_Key (inserted_row c r) = prod_Key r"
  "prod_Version (inserted_row c r) = prod_Version r" "prod_Origin (inserted_row c r) = prod_Origin r"
  "prod_Kind (inserted_row c r) = prod_Kind r" "prod_SHA256 (inserted_row c r) = prod_SHA256 r"
  "record_key (inserted_row c r) = record_key r" "version_key (inserted_row c r) = version_key r"
  "product_Digest (inserted_row c r) = product_Digest r" "head_for (inserted_row c r) = head_for r"
  by (cases r; simp add: inserted_row_def product_record.defs record_key_def version_key_def product_Digest_def
      product_marshals_def head_for_def)+

inductive p_change :: "('a product_db_scheme) \<Rightarrow> ('a product_db_scheme) \<Rightarrow> bool" for db where
  unchanged: "x_products db' = x_products db \<Longrightarrow> x_heads db' = x_heads db \<Longrightarrow> x_decisions db' = x_decisions db
     \<Longrightarrow> x_validations db' = x_validations db \<Longrightarrow> p_change db db'"
| proposed: "x_products db' = x_products db @ [row] \<Longrightarrow> x_heads db' = x_heads db \<Longrightarrow> x_decisions db' = x_decisions db
     \<Longrightarrow> x_validations db' = x_validations db
     \<Longrightarrow> prod_ID row \<notin> prod_ID ` set (x_products db) \<Longrightarrow> prod_Origin row = ''proposal'' \<Longrightarrow> prod_SHA256 row = product_Digest row
     \<Longrightarrow> prod_Version row = latest_version db row + 1 \<Longrightarrow> p_change db db'"
| validated: "x_products db' = x_products db \<Longrightarrow> x_heads db' = x_heads db \<Longrightarrow> x_decisions db' = x_decisions db
     \<Longrightarrow> x_validations db' = x_validations db @ [v] \<Longrightarrow> val_ID v \<notin> val_ID ` set (x_validations db) \<Longrightarrow> val_ID v \<noteq> []
     \<Longrightarrow> val_Method v = ''human_attestation''
     \<Longrightarrow> r \<in> set (x_products db) \<Longrightarrow> val_Record v = prod_ID r \<Longrightarrow> val_SHA256 v = prod_SHA256 r \<Longrightarrow> p_change db db'"
| decided: "x_products db' = x_products db \<Longrightarrow> x_decisions db' = x_decisions db @ [d]
     \<Longrightarrow> x_validations db' = x_validations db \<Longrightarrow> r \<in> set (x_products db) \<Longrightarrow> prod_Origin r \<noteq> ''source_adapter''
     \<Longrightarrow> dcs_Record d = prod_ID r \<Longrightarrow> prod_ID r \<notin> dcs_Record ` set (x_decisions db)
     \<Longrightarrow> dcs_Decision d = ''accept'' \<and> decision_counts db r d \<and> head_version db r < prod_Version r
           \<and> x_heads db' = upsert_head (head_for r) (x_heads db)
         \<or> dcs_Decision d \<noteq> ''accept'' \<and> x_heads db' = x_heads db
     \<Longrightarrow> p_change db db'"
| observed: "x_products db' = x_products db @ [row] \<Longrightarrow> x_decisions db' = x_decisions db \<Longrightarrow> x_validations db' = x_validations db
     \<Longrightarrow> prod_ID row \<notin> prod_ID ` set (x_products db) \<Longrightarrow> version_key row \<notin> version_key ` set (x_products db)
     \<Longrightarrow> prod_Origin row = ''source_adapter'' \<Longrightarrow> prod_Kind row = ''observation''
     \<Longrightarrow> prod_SHA256 row = product_Digest row \<Longrightarrow> prod_Version row = 1
     \<Longrightarrow> x_heads db' = upsert_head (head_for row) (x_heads db) \<Longrightarrow> p_change db db'"

lemma product_insert_Ok:
  assumes "product_insert decode db r = Inr db'"
  shows "x_products db' = x_products db @ [inserted_row (decode (prod_Content r)) r]" "x_heads db' = x_heads db"
    "x_decisions db' = x_decisions db" "x_validations db' = x_validations db" "prod_ID r \<notin> prod_ID ` set (x_products db)"
    "version_key r \<notin> version_key ` set (x_products db)"
  using assms
  by (auto simp: product_insert_def inserted_row_def list_ex_iff version_key_def same_key_iff split: if_splits)

lemma repo_PutProductRecord_change:
  assumes "repo_PutProductRecord decode env db r expected = (res, db')"
  shows "p_change db db'"
proof (cases "db' = db")
  case False
  with assms have ok: "product_insert decode db r = Inr db'"
    and r: "prod_Origin r = ''proposal''" "prod_SHA256 r = product_Digest r" "latest_version db r = expected"
      "prod_Version r = expected + 1"
    by (auto simp: repo_PutProductRecord_def split: if_splits sum.splits)
  note ins = product_insert_Ok [OF ok]
  have "latest_version db (inserted_row (decode (prod_Content r)) r) = latest_version db r"
    by (simp add: latest_version_def same_key_iff [abs_def])
  then show ?thesis
    using ins r by (intro p_change.proposed [of db' db "inserted_row (decode (prod_Content r)) r"]) simp_all
qed (simp add: p_change.unchanged)

lemma record_row_Some:
  "record_row db project rid = Some r \<Longrightarrow> r \<in> set (x_products db) \<and> prod_Project r = project \<and> prod_ID r = rid"
  by (auto simp: record_row_def dest!: find_SomeD_mem)

lemma repo_ValidateProductRecord_change:
  assumes "repo_ValidateProductRecord env db v = (res, db')"
  shows "p_change db db'"
proof (cases "db' = db")
  case False
  let ?row = "\<lparr>val_ID = pv_ID v, val_Project = pv_ProjectID v, val_Record = pv_RecordID v, val_SHA256 = pv_SHA256 v,
     val_Actor = pv_Actor v, val_Method = pv_Method v, val_Evidence = art_SHA256 (pv_Evidence v),
     val_ValidUntil = micros (pv_ValidUntil v)\<rparr>"
  from False assms obtain r where r: "record_row db (pv_ProjectID v) (pv_RecordID v) = Some r" and sha: "prod_SHA256 r = pv_SHA256 v"
    and fresh: "find_row val_ID (pv_ID v) (x_validations db) = None" "pv_ID v \<noteq> []" "pv_Method v = ''human_attestation''"
    and db': "x_products db' = x_products db" "x_heads db' = x_heads db" "x_decisions db' = x_decisions db"
      "x_validations db' = x_validations db @ [?row]"
    by (auto simp: repo_ValidateProductRecord_def split: if_splits option.splits)
  show ?thesis
    using record_row_Some [OF r] sha fresh db' by (intro p_change.validated [of db' db ?row r]) (simp_all add: find_row_None)
qed (simp add: p_change.unchanged)

lemma insert_observation_change:
  assumes "insert_observation db r = Inr db'"
  shows "p_change db db'"
proof -
  from assms obtain db1 where ok: "product_insert (\<lambda>_. None) db r = Inr db1" and db': "db' = advanceProductHead db1 r"
    and r: "prod_Origin r = ''source_adapter''" "prod_Kind r = ''observation''" "prod_SHA256 r = product_Digest r" "prod_Version r = 1"
    by (auto simp: insert_observation_def split: if_splits sum.splits)
  show ?thesis
    using product_insert_Ok [OF ok] db' r
    by (intro p_change.observed [of db' db "inserted_row None r"]) (simp_all add: advance_heads)
qed

lemma pending_undecided:
  assumes "product_status db r = ''pending''"
  shows "prod_Origin r \<noteq> ''source_adapter''"
  using assms by (auto simp: product_status_def)

definition validations_ok :: "('a product_db_scheme) \<Rightarrow> bool" where
  "validations_ok db \<longleftrightarrow> distinct (map val_ID (x_validations db)) \<and> (\<forall>v \<in> set (x_validations db). val_ID v \<noteq> [] \<and> val_Method v = ''human_attestation'')"

lemma validated_counts:
  assumes "validated_for env db d r" and "pd_Decision d = ''accept''" and "validations_ok db"
  shows "decision_counts db r (decided_row env d r)"
proof -
  from assms(1) obtain v where v: "v \<in> set (x_validations db)" "val_ID v = pd_ValidationID d" "val_Record v = prod_ID r"
      "val_SHA256 v = prod_SHA256 r" "env_db_now env < val_ValidUntil v"
    by (auto simp: validated_for_def list_ex_iff)
  with assms(3) have "dcs_Validation (decided_row env d r) = Some (val_ID v)"
    by (auto simp: validations_ok_def decided_row_def)
  with v assms(2) show ?thesis
    unfolding decision_counts_def list_ex_iff by (intro conjI bexI [of _ v]) (simp_all add: decided_row_def)
qed

lemma repo_DecideProductRecord_cases:
  assumes "repo_DecideProductRecord env db d = (res, db')" and "db' \<noteq> db"
  obtains r where "r \<in> set (x_products db)" "prod_ID r = pd_RecordID d" "product_status db r = ''pending''"
    "find_row dcs_Record (prod_ID r) (x_decisions db) = None"
    "pd_Decision d = ''accept'' \<and> validated_for env db d r \<and> head_version db r < prod_Version r
       \<and> db' = advanceProductHead (db\<lparr>x_decisions := x_decisions db @ [decided_row env d r]\<rparr>) r
     \<or> pd_Decision d \<noteq> ''accept'' \<and> db' = db\<lparr>x_decisions := x_decisions db @ [decided_row env d r]\<rparr>"
    "requireDatabaseHumanRole env db (pd_Actor d) (pd_ProjectID d) ''product_owner''" "prod_SHA256 r = pd_ExpectedSHA256 d"
    "res = Inr (scanProduct (db\<lparr>x_decisions := x_decisions db @ [decided_row env d r]\<rparr>) r)"
  using assms record_row_Some [of db "pd_ProjectID d" "pd_RecordID d"]
  by (auto simp: repo_DecideProductRecord_def Let_def split: if_splits option.splits)

lemma repo_DecideProductRecord_change:
  assumes step: "repo_DecideProductRecord env db d = (res, db')" and ok: "validations_ok db"
  shows "p_change db db'"
proof (cases "db' = db")
  case False
  from step False obtain r where r: "r \<in> set (x_products db)" "product_status db r = ''pending''"
      "find_row dcs_Record (prod_ID r) (x_decisions db) = None"
    and effect: "pd_Decision d = ''accept'' \<and> validated_for env db d r \<and> head_version db r < prod_Version r
       \<and> db' = advanceProductHead (db\<lparr>x_decisions := x_decisions db @ [decided_row env d r]\<rparr>) r
     \<or> pd_Decision d \<noteq> ''accept'' \<and> db' = db\<lparr>x_decisions := x_decisions db @ [decided_row env d r]\<rparr>"
    by (elim repo_DecideProductRecord_cases)
  have row: "dcs_Record (decided_row env d r) = prod_ID r" "dcs_Decision (decided_row env d r) = pd_Decision d"
    by (simp_all add: decided_row_def)
  from effect have heads: "pd_Decision d = ''accept'' \<and> decision_counts db r (decided_row env d r) \<and> head_version db r < prod_Version r
        \<and> x_heads db' = upsert_head (head_for r) (x_heads db)
      \<or> pd_Decision d \<noteq> ''accept'' \<and> x_heads db' = x_heads db"
    using validated_counts ok by (auto simp: advance_heads)
  show ?thesis
  proof (rule p_change.decided [of db' db "decided_row env d r" r])
    show "x_products db' = x_products db" "x_validations db' = x_validations db"
      "x_decisions db' = x_decisions db @ [decided_row env d r]" using effect by auto
  qed (use r row heads pending_undecided in \<open>simp_all add: find_row_None\<close>)
qed (simp add: p_change.unchanged)

lemma p_step_change: "p_step db db' \<Longrightarrow> validations_ok db \<Longrightarrow> p_change db db'"
proof (induction rule: p_step.induct)
  case (relate env db rel resr db')
  then show ?case
    by (intro p_change.unchanged) (auto simp: repo_PutProductRelation_def split: if_splits)
qed (auto intro: repo_PutProductRecord_change repo_ValidateProductRecord_change repo_DecideProductRecord_change
    insert_observation_change p_change.unchanged)

section \<open>The invariant\<close>

definition rows_ok :: "('a product_db_scheme) \<Rightarrow> bool" where
  "rows_ok db \<longleftrightarrow> distinct (map prod_ID (x_products db)) \<and> distinct (map version_key (x_products db))
     \<and> (\<forall>r \<in> set (x_products db). 1 \<le> prod_Version r \<and> prod_SHA256 r = product_Digest r
          \<and> (prod_Origin r = ''source_adapter'' \<longrightarrow> prod_Kind r = ''observation''))
     \<and> (\<forall>r \<in> set (x_products db). \<forall>v. 1 \<le> v \<and> v \<le> prod_Version r \<longrightarrow>
          (\<exists>x \<in> set (x_products db). record_key x = record_key r \<and> prod_Version x = v))"

definition decisions_ok :: "('a product_db_scheme) \<Rightarrow> bool" where
  "decisions_ok db \<longleftrightarrow> distinct (map dcs_Record (x_decisions db))
     \<and> (\<forall>d \<in> set (x_decisions db). \<exists>r \<in> set (x_products db). prod_ID r = dcs_Record d \<and> prod_Origin r \<noteq> ''source_adapter''
          \<and> (dcs_Decision d = ''accept'' \<longrightarrow> decision_counts db r d))"

text \<open>A record is published by its validated acceptance, or because it is an observation.\<close>

definition published :: "('a product_db_scheme) \<Rightarrow> product_row \<Rightarrow> bool" where
  "published db r \<longleftrightarrow> prod_Origin r = ''source_adapter'' \<or> (\<exists>d \<in> set (x_decisions db). decision_counts db r d)"

definition points_to :: "('a product_db_scheme) \<Rightarrow> head_row \<Rightarrow> product_row \<Rightarrow> bool" where
  "points_to db h r \<longleftrightarrow> h \<in> set (x_heads db) \<and> r \<in> set (x_products db) \<and> prod_ID r = head_Record h \<and> record_key r = head_key h"

definition heads_ok :: "('a product_db_scheme) \<Rightarrow> bool" where
  "heads_ok db \<longleftrightarrow> distinct (map head_key (x_heads db))
     \<and> (\<forall>h \<in> set (x_heads db). \<exists>r. points_to db h r \<and> published db r)
     \<and> (\<forall>r \<in> set (x_products db). published db r \<longrightarrow>
          (\<exists>h x. points_to db h x \<and> record_key x = record_key r \<and> prod_Version r \<le> prod_Version x))"

definition p_inv :: "('a product_db_scheme) \<Rightarrow> bool" where
  "p_inv db \<longleftrightarrow> validations_ok db \<and> rows_ok db \<and> decisions_ok db \<and> heads_ok db"

lemma max_version_ge: "x \<in> set rows \<Longrightarrow> prod_Version x \<le> max_version rows"
  by (induction rows) (auto simp: max_version_def)

lemma max_version_nonneg: "0 \<le> max_version rows"
  by (induction rows) (auto simp: max_version_def)

lemma max_version_attained: "max_version rows = 0 \<or> (\<exists>x \<in> set rows. prod_Version x = max_version rows)"
  by (induction rows) (auto simp: max_version_def max_def)

lemma decision_counts_mono:
  "decision_counts db r d \<Longrightarrow> set (x_validations db) \<subseteq> set (x_validations db') \<Longrightarrow> decision_counts db' r d"
  by (auto simp: decision_counts_def list_ex_iff)

lemma published_mono:
  "published db r \<Longrightarrow> set (x_validations db) \<subseteq> set (x_validations db') \<Longrightarrow> set (x_decisions db) \<subseteq> set (x_decisions db')
     \<Longrightarrow> published db' r"
  by (auto simp: published_def intro: decision_counts_mono)

lemma upsert_head_set:
  "h' \<in> set (upsert_head h hs) \<longleftrightarrow> h' = h \<or> h' \<in> set hs \<and> head_key h' \<noteq> head_key h"
proof (cases "find_row head_key (head_key h) hs")
  case None
  then have "head_key x \<noteq> head_key h" if "x \<in> set hs" for x using that by (metis find_row_None image_eqI)
  with None show ?thesis by (auto simp: upsert_head_def)
next
  case (Some x)
  then have "x \<in> set hs" "head_key x = head_key h" by (auto dest: find_row_SomeD)
  with Some show ?thesis by (auto simp: upsert_head_def put_row_def image_iff)
qed

lemma upsert_head_distinct: "distinct (map head_key hs) \<Longrightarrow> distinct (map head_key (upsert_head h hs))"
  by (auto simp: upsert_head_def find_row_None simp del: set_map) (auto simp: find_row_None)

text \<open>The rows of a key, when one is added.\<close>

lemma rows_ok_version_one:
  assumes "rows_ok db" and "r \<in> set (x_products db)"
  shows "\<exists>x \<in> set (x_products db). record_key x = record_key r \<and> prod_Version x = 1"
  using assms unfolding rows_ok_def by auto

lemma rows_ok_up_to_latest:
  assumes "rows_ok db" and "1 \<le> v" and "v \<le> latest_version db row"
  shows "\<exists>x \<in> set (x_products db). record_key x = record_key row \<and> prod_Version x = v"
proof -
  from assms(2,3) max_version_attained [of "filter (same_key row) (x_products db)"]
  obtain y where y: "y \<in> set (x_products db)" "record_key y = record_key row" "prod_Version y = latest_version db row"
    by (auto simp: latest_version_def same_key_iff)
  with assms show ?thesis unfolding rows_ok_def by metis
qed

lemma rows_ok_append:
  assumes ok: "rows_ok db" and products: "x_products db' = x_products db @ [row]"
    and row: "prod_ID row \<notin> prod_ID ` set (x_products db)" "version_key row \<notin> version_key ` set (x_products db)"
      "1 \<le> prod_Version row" "prod_SHA256 row = product_Digest row"
      "prod_Origin row = ''source_adapter'' \<Longrightarrow> prod_Kind row = ''observation''"
    and below: "\<And>v. 1 \<le> v \<Longrightarrow> v < prod_Version row \<Longrightarrow> \<exists>x \<in> set (x_products db). record_key x = record_key row \<and> prod_Version x = v"
  shows "rows_ok db'"
proof -
  have "\<exists>x \<in> set (x_products db'). record_key x = record_key r \<and> prod_Version x = v"
    if r: "r \<in> set (x_products db')" "1 \<le> v" "v \<le> prod_Version r" for r v
  proof (cases "r = row")
    case True
    then show ?thesis using below [of v] that products by (cases "v = prod_Version row") auto
  next
    case False
    then have "r \<in> set (x_products db)" using r(1) products by simp
    with ok that show ?thesis unfolding rows_ok_def products by (metis Un_iff set_append)
  qed
  moreover have "distinct (map prod_ID (x_products db'))" "distinct (map version_key (x_products db'))"
    using ok row(1,2) by (simp_all add: rows_ok_def products)
  ultimately show ?thesis using ok row(3-5) unfolding rows_ok_def products by auto
qed

lemma p_change_rows: "p_change db db' \<Longrightarrow> rows_ok db \<Longrightarrow> rows_ok db'"
proof (induction rule: p_change.cases)
  case (proposed db' row)
  have later: "prod_Version x \<noteq> prod_Version row" if "x \<in> set (x_products db)" "record_key x = record_key row" for x
    using max_version_ge [of x "filter (same_key row) (x_products db)"] that proposed(9)
    by (auto simp: latest_version_def same_key_iff)
  have "rows_ok db'"
  proof (rule rows_ok_append [OF \<open>rows_ok db\<close> proposed(2,6)])
    show "version_key row \<notin> version_key ` set (x_products db)"
      using later by (metis imageE prod.inject version_key_def)
    show "1 \<le> prod_Version row" using proposed(9) max_version_nonneg by (simp add: latest_version_def)
    show "\<exists>x \<in> set (x_products db). record_key x = record_key row \<and> prod_Version x = v" if "1 \<le> v" "v < prod_Version row" for v
      using rows_ok_up_to_latest [OF \<open>rows_ok db\<close> that(1), of row] that(2) proposed(9) by simp
  qed (use proposed in simp_all)
  then show ?case using proposed(1) by simp
next
  case (observed db' row)
  have "rows_ok db'"
    by (rule rows_ok_append [OF \<open>rows_ok db\<close> observed(2,5)]) (use observed in simp_all)
  then show ?case using observed(1) by simp
qed (simp_all add: rows_ok_def)

lemma p_change_validations: "p_change db db' \<Longrightarrow> validations_ok db \<Longrightarrow> validations_ok db'"
  by (induction rule: p_change.cases) (auto simp: validations_ok_def)

lemma p_change_grows:
  "p_change db db' \<Longrightarrow> prefix (x_products db) (x_products db') \<and> prefix (x_decisions db) (x_decisions db')
     \<and> prefix (x_validations db) (x_validations db')"
  by (induction rule: p_change.cases) auto

lemma decisions_ok_mono:
  assumes "decisions_ok db" and "x_decisions db' = x_decisions db" and "set (x_products db) \<subseteq> set (x_products db')"
    and "set (x_validations db) \<subseteq> set (x_validations db')"
  shows "decisions_ok db'"
proof -
  have "\<exists>r \<in> set (x_products db'). prod_ID r = dcs_Record d \<and> prod_Origin r \<noteq> ''source_adapter''
      \<and> (dcs_Decision d = ''accept'' \<longrightarrow> decision_counts db' r d)" if "d \<in> set (x_decisions db)" for d
  proof -
    from assms(1) that obtain r where "r \<in> set (x_products db)" "prod_ID r = dcs_Record d" "prod_Origin r \<noteq> ''source_adapter''"
        "dcs_Decision d = ''accept'' \<longrightarrow> decision_counts db r d"
      unfolding decisions_ok_def by blast
    with assms(3) decision_counts_mono [OF _ assms(4)] show ?thesis by blast
  qed
  with assms(1,2) show ?thesis by (simp add: decisions_ok_def)
qed

lemma p_change_decisions: "p_change db db' \<Longrightarrow> decisions_ok db \<Longrightarrow> decisions_ok db'"
proof (induction rule: p_change.cases)
  case (decided db' d r)
  have counts: "decision_counts db' x e \<longleftrightarrow> decision_counts db x e" for x e
    using decided(4) by (simp add: decision_counts_def)
  show ?case
    using decided by (auto simp: decisions_ok_def counts)
qed (auto intro: decisions_ok_mono)

text \<open>Heads: a key without rows has no head, and what is published lies at or below its head.\<close>

lemma points_to_kept:
  "points_to db h r \<Longrightarrow> h \<in> set (x_heads db') \<Longrightarrow> set (x_products db) \<subseteq> set (x_products db') \<Longrightarrow> points_to db' h r"
  by (auto simp: points_to_def)

lemma points_to_below_head: "points_to db h x \<Longrightarrow> record_key x = record_key r \<Longrightarrow> prod_Version x \<le> head_version db r"
  unfolding head_version_def
  by (rule max_version_ge) (auto simp: points_to_def list_ex_iff record_key_def)

lemma heads_ok_publish:
  assumes ok: "heads_ok db" and products: "set (x_products db') = insert row (set (x_products db))"
    and grow: "set (x_validations db) \<subseteq> set (x_validations db')" "set (x_decisions db) \<subseteq> set (x_decisions db')"
    and heads: "x_heads db' = upsert_head (head_for row) (x_heads db)"
    and row: "published db' row"
    and only: "\<And>x. x \<in> set (x_products db') \<Longrightarrow> published db' x \<Longrightarrow> x = row \<or> x \<in> set (x_products db) \<and> published db x"
    and above: "\<And>h x. points_to db h x \<Longrightarrow> record_key x = record_key row \<Longrightarrow> prod_Version x \<le> prod_Version row"
  shows "heads_ok db'"
proof -
  have new: "points_to db' (head_for row) row"
    by (simp add: points_to_def heads products upsert_head_set)
  have kept: "points_to db' h x" if "points_to db h x" "head_key h \<noteq> record_key row" for h x
    using that products by (auto simp: points_to_def heads upsert_head_set)
  have "\<exists>r. points_to db' h r \<and> published db' r" if "h \<in> set (x_heads db')" for h
  proof (cases "h = head_for row")
    case False
    then have h: "h \<in> set (x_heads db)" "head_key h \<noteq> record_key row" using that by (auto simp: heads upsert_head_set)
    with ok obtain x where "points_to db h x" "published db x" unfolding heads_ok_def by blast
    with kept h published_mono [OF _ grow] show ?thesis by blast
  qed (use new row in blast)
  moreover have "\<exists>h x. points_to db' h x \<and> record_key x = record_key r \<and> prod_Version r \<le> prod_Version x"
    if r: "r \<in> set (x_products db')" "published db' r" for r
  proof (cases "r = row")
    case False
    with only [OF r] ok obtain h x where x: "points_to db h x" "record_key x = record_key r" "prod_Version r \<le> prod_Version x"
      unfolding heads_ok_def by blast
    show ?thesis
    proof (cases "record_key r = record_key row")
      case True
      with x above [OF x(1)] new show ?thesis by fastforce
    next
      case other: False
      then have "head_key h \<noteq> record_key row" using x(1,2) by (simp add: points_to_def)
      with kept x show ?thesis by blast
    qed
  qed (use new in blast)
  moreover have "distinct (map head_key (x_heads db'))"
    using ok upsert_head_distinct by (simp add: heads heads_ok_def)
  ultimately show ?thesis unfolding heads_ok_def by blast
qed

lemma heads_ok_mono:
  assumes ok: "heads_ok db" and heads: "x_heads db' = x_heads db" and products: "set (x_products db) \<subseteq> set (x_products db')"
    and grow: "set (x_validations db) \<subseteq> set (x_validations db')" "set (x_decisions db) \<subseteq> set (x_decisions db')"
    and only: "\<And>x. x \<in> set (x_products db') \<Longrightarrow> published db' x \<Longrightarrow> x \<in> set (x_products db) \<and> published db x"
  shows "heads_ok db'"
proof -
  have kept: "points_to db' h x" if "points_to db h x" for h x
    using that points_to_kept [OF that _ products] by (simp add: heads points_to_def)
  show ?thesis
    using ok kept published_mono [OF _ grow] only unfolding heads_ok_def heads by blast
qed

lemma row_unique:
  "rows_ok db \<Longrightarrow> x \<in> set (x_products db) \<Longrightarrow> y \<in> set (x_products db) \<Longrightarrow> prod_ID x = prod_ID y \<Longrightarrow> x = y"
  unfolding rows_ok_def by (metis inj_on_contraD distinct_map)

text \<open>A decision in force is one of a stored record, and it counted when it was taken.\<close>

lemma published_before:
  assumes inv: "p_inv db" and x: "x \<in> set (x_products db')" "published db' x"
    and origin: "x \<notin> set (x_products db) \<Longrightarrow> prod_Origin x \<noteq> ''source_adapter''"
    and fresh: "x \<notin> set (x_products db) \<Longrightarrow> prod_ID x \<notin> prod_ID ` set (x_products db)"
    and decisions: "x_decisions db' = x_decisions db"
  shows "x \<in> set (x_products db) \<and> published db x"
proof (cases "prod_Origin x = ''source_adapter''")
  case True
  then show ?thesis using origin by (auto simp: published_def)
next
  case False
  with x(2) decisions obtain d where d: "d \<in> set (x_decisions db)" "decision_counts db' x d" by (auto simp: published_def)
  then have "dcs_Record d = prod_ID x" "dcs_Decision d = ''accept''" by (simp_all add: decision_counts_def)
  with inv d(1) obtain r where r: "r \<in> set (x_products db)" "prod_ID r = prod_ID x" "decision_counts db r d"
    unfolding p_inv_def decisions_ok_def by metis
  then have mem: "x \<in> set (x_products db)" using fresh by (metis image_eqI)
  with r row_unique inv have "x = r" unfolding p_inv_def by blast
  with mem r(3) d(1) show ?thesis by (auto simp: published_def)
qed

lemma p_change_heads:
  assumes "p_change db db'" and inv: "p_inv db"
  shows "heads_ok db'"
  using assms(1)
proof cases
  case unchanged
  have counts: "decision_counts db' x e \<longleftrightarrow> decision_counts db x e" for x e
    using unchanged(4) by (simp add: decision_counts_def)
  have same: "published db' x \<longleftrightarrow> published db x" for x
    unfolding published_def counts unchanged(3) ..
  show ?thesis by (rule heads_ok_mono [of db]) (use unchanged inv same in \<open>simp_all add: p_inv_def\<close>)
next
  case (proposed row)
  have only: "x \<in> set (x_products db) \<and> published db x" if "x \<in> set (x_products db')" "published db' x" for x
    by (rule published_before [OF inv that]) (use that proposed in \<open>simp_all\<close>)
  show ?thesis by (rule heads_ok_mono [of db]) (use inv proposed only in \<open>auto simp: p_inv_def\<close>)
next
  case (validated v r)
  have only: "x \<in> set (x_products db) \<and> published db x" if "x \<in> set (x_products db')" "published db' x" for x
    by (rule published_before [OF inv that]) (use that validated in \<open>simp_all\<close>)
  show ?thesis by (rule heads_ok_mono [of db]) (use inv validated only in \<open>auto simp: p_inv_def\<close>)
next
  case (decided d r)
  have counts: "decision_counts db' x e \<longleftrightarrow> decision_counts db x e" for x e
    using decided by (simp add: decision_counts_def)
  have rows: "rows_ok db" using inv by (simp add: p_inv_def)
  have only: "x = r \<and> dcs_Decision d = ''accept'' \<or> published db x" if x: "x \<in> set (x_products db)" "published db' x" for x
  proof (cases "published db x")
    case False
    with x(2) decided(2) have "decision_counts db x d" unfolding published_def counts by auto
    then have "prod_ID x = prod_ID r" "dcs_Decision d = ''accept''" using decided(6) by (simp_all add: decision_counts_def)
    with row_unique [OF rows x(1) decided(4)] show ?thesis by blast
  qed simp
  from decided(8) show ?thesis
  proof
    assume acc: "dcs_Decision d = ''accept'' \<and> decision_counts db r d \<and> head_version db r < prod_Version r
      \<and> x_heads db' = upsert_head (head_for r) (x_heads db)"
    show ?thesis
    proof (rule heads_ok_publish [of db db' r])
      show "prod_Version x \<le> prod_Version r" if "points_to db h x" "record_key x = record_key r" for h x
        using points_to_below_head [OF that] acc by simp
      show "published db' r" using acc decided by (auto simp: published_def counts)
    qed (use inv decided acc only in \<open>auto simp: p_inv_def\<close>)
  next
    assume "dcs_Decision d \<noteq> ''accept'' \<and> x_heads db' = x_heads db"
    then show ?thesis
      by - (rule heads_ok_mono [of db], use decided only inv in \<open>auto simp: p_inv_def\<close>)
  qed
next
  case (observed row)
  have none: "record_key x \<noteq> record_key row" if "x \<in> set (x_products db)" for x
  proof
    assume same: "record_key x = record_key row"
    from rows_ok_version_one [of db x] that inv obtain y where y: "y \<in> set (x_products db)" "record_key y = record_key x" "prod_Version y = 1"
      by (auto simp: p_inv_def)
    with same observed(9) have "version_key y = version_key row" by (simp add: version_key_def)
    with y(1) observed(5) show False by (metis image_eqI)
  qed
  show ?thesis
  proof (rule heads_ok_publish [of db db' row])
    show "published db' row" using observed by (simp add: published_def)
    show "prod_Version x \<le> prod_Version row" if "points_to db h x" "record_key x = record_key row" for h x
      using that none by (auto simp: points_to_def)
    show "x = row \<or> x \<in> set (x_products db) \<and> published db x" if "x \<in> set (x_products db')" "published db' x" for x
    proof (cases "x = row")
      case False
      then have "x \<in> set (x_products db)" using that(1) observed(1) by simp
      with published_before [OF inv that] observed show ?thesis by auto
    qed simp
  qed (use inv observed in \<open>auto simp: p_inv_def\<close>)
qed

lemma p_change_inv: "p_change db db' \<Longrightarrow> p_inv db \<Longrightarrow> p_inv db'"
  using p_change_rows p_change_validations p_change_decisions p_change_heads unfolding p_inv_def by blast

text \<open>Later states: nothing recorded is lost, and the head of a key only moves to newer versions.\<close>

definition p_later :: "('a product_db_scheme) \<Rightarrow> ('a product_db_scheme) \<Rightarrow> bool" where
  "p_later db db' \<longleftrightarrow> prefix (x_products db) (x_products db') \<and> prefix (x_decisions db) (x_decisions db')
     \<and> prefix (x_validations db) (x_validations db')
     \<and> (\<forall>h r. points_to db h r \<longrightarrow>
          (\<exists>h' r'. points_to db' h' r' \<and> record_key r' = record_key r \<and> prod_Version r \<le> prod_Version r'))"

lemma p_later_trans: "p_later a b \<Longrightarrow> p_later b c \<Longrightarrow> p_later a c"
  unfolding p_later_def by (metis order_trans prefix_order.trans)

lemma p_change_later:
  assumes ch: "p_change db db'" and inv: "p_inv db"
  shows "p_later db db'"
proof -
  have "\<exists>h' r'. points_to db' h' r' \<and> record_key r' = record_key r \<and> prod_Version r \<le> prod_Version r'"
    if pt: "points_to db h r" for h r
  proof -
    have r: "r \<in> set (x_products db)" and h: "h \<in> set (x_heads db)" using pt by (simp_all add: points_to_def)
    then obtain x where x: "points_to db h x" "published db x" using inv unfolding p_inv_def heads_ok_def by blast
    have "x = r"
      using pt x(1) row_unique [of db x r] inv unfolding p_inv_def points_to_def by metis
    with x(2) have "published db r" by simp
    then have "published db' r" using p_change_grows [OF ch] published_mono by (metis set_mono_prefix)
    moreover have "r \<in> set (x_products db')" using p_change_grows [OF ch] r by (metis set_mono_prefix subsetD)
    moreover have "heads_ok db'" using p_change_heads [OF ch inv] .
    ultimately show ?thesis unfolding heads_ok_def by blast
  qed
  with p_change_grows [OF ch] show ?thesis unfolding p_later_def by blast
qed

interpretation ps: history_system "p_start :: 'a product_db_scheme \<Rightarrow> bool" p_step p_inv p_later
proof
  fix s :: "'a product_db_scheme"
  assume "p_start s"
  then show "p_inv s"
    by (simp add: p_start_def p_inv_def validations_ok_def rows_ok_def decisions_ok_def heads_ok_def)
next
  fix s t :: "'a product_db_scheme"
  assume inv: "p_inv s" and "p_step s t"
  then have ch: "p_change s t" using p_step_change unfolding p_inv_def by blast
  show "p_inv t" using p_change_inv [OF ch inv] .
  show "p_later s t" using p_change_later [OF ch inv] .
next
  fix s :: "'a product_db_scheme"
  show "p_later s s" unfolding p_later_def by blast
next
  fix s t u :: "'a product_db_scheme"
  assume "p_later s t" "p_later t u"
  then show "p_later s u" by (rule p_later_trans)
qed

section \<open>Properties\<close>

lemma reach_p_inv: "reach p_start p_step db \<Longrightarrow> p_inv db"
  by (rule ps.reach_inv)

text \<open>
  C30: In every reachable state the head of a key points to the newest published version of that key, whose digest is that of its
  content. A published proposal was accepted by a decision that rests on a human validation of exactly that digest, still valid when
  the decision was taken.
\<close>

theorem head_is_newest_published:
  assumes "reach p_start p_step db" and "h \<in> set (x_heads db)"
  shows "\<exists>r \<in> set (x_products db). prod_ID r = head_Record h \<and> record_key r = head_key h \<and> prod_SHA256 r = product_Digest r
     \<and> (\<forall>x \<in> set (x_products db). record_key x = record_key r \<and> published db x \<longrightarrow> prod_Version x \<le> prod_Version r)
     \<and> (prod_Origin r = ''source_adapter'' \<and> prod_Kind r = ''observation''
        \<or> (\<exists>d \<in> set (x_decisions db). \<exists>v \<in> set (x_validations db). dcs_Record d = prod_ID r \<and> dcs_Decision d = ''accept''
             \<and> dcs_Validation d = Some (val_ID v) \<and> val_Record v = prod_ID r \<and> val_SHA256 v = product_Digest r
             \<and> val_Method v = ''human_attestation'' \<and> dcs_DecidedAt d < val_ValidUntil v))"
proof -
  have inv: "p_inv db" using assms(1) by (rule reach_p_inv)
  then obtain r where r: "points_to db h r" "published db r" using assms(2) unfolding p_inv_def heads_ok_def by blast
  then have mem: "r \<in> set (x_products db)" "prod_ID r = head_Record h" "record_key r = head_key h" by (simp_all add: points_to_def)
  have row: "prod_SHA256 r = product_Digest r" "prod_Origin r = ''source_adapter'' \<Longrightarrow> prod_Kind r = ''observation''"
    using inv mem(1) by (auto simp: p_inv_def rows_ok_def)
  have newest: "prod_Version x \<le> prod_Version r" if x: "x \<in> set (x_products db)" "record_key x = record_key r" "published db x" for x
  proof -
    obtain h' y where y: "points_to db h' y" "record_key y = record_key x" "prod_Version x \<le> prod_Version y"
      using inv x(1,3) unfolding p_inv_def heads_ok_def by blast
    have "head_key h' = head_key h" using y(1,2) x(2) mem(3) by (simp add: points_to_def)
    then have "h' = h" using inv y(1) assms(2) unfolding p_inv_def heads_ok_def points_to_def by (metis distinct_map inj_onD)
    then have "y = r" using row_unique [of db y r] inv y(1) mem unfolding p_inv_def points_to_def by metis
    with y(3) show ?thesis by simp
  qed
  have "prod_Origin r = ''source_adapter'' \<and> prod_Kind r = ''observation''
      \<or> (\<exists>d \<in> set (x_decisions db). \<exists>v \<in> set (x_validations db). dcs_Record d = prod_ID r \<and> dcs_Decision d = ''accept''
           \<and> dcs_Validation d = Some (val_ID v) \<and> val_Record v = prod_ID r \<and> val_SHA256 v = product_Digest r
           \<and> val_Method v = ''human_attestation'' \<and> dcs_DecidedAt d < val_ValidUntil v)"
  proof (cases "prod_Origin r = ''source_adapter''")
    case False
    with r(2) obtain d where d: "d \<in> set (x_decisions db)" "decision_counts db r d" by (auto simp: published_def)
    from d(2) obtain v where v: "v \<in> set (x_validations db)" "dcs_Validation d = Some (val_ID v)" "val_Record v = prod_ID r"
        "val_SHA256 v = prod_SHA256 r" "dcs_DecidedAt d < val_ValidUntil v"
      unfolding decision_counts_def list_ex_iff by blast
    have "val_Method v = ''human_attestation''" using inv v(1) by (simp add: p_inv_def validations_ok_def)
    moreover have "dcs_Record d = prod_ID r" "dcs_Decision d = ''accept''" using d(2) by (simp_all add: decision_counts_def)
    moreover have "val_SHA256 v = product_Digest r" using v(4) row(1) by simp
    ultimately show ?thesis using d(1) v by blast
  qed (use row(2) in blast)
  then show ?thesis using newest mem row(1) by blast
qed

text \<open>
  C31: Product knowledge is append-only: along any run of calls no record, validation or decision is changed or
  withdrawn, and the head of a key never moves to an older version.
\<close>

theorem product_history_append_only:
  assumes "reach p_start p_step db" and "p_step\<^sup>*\<^sup>* db db'"
  shows "prefix (x_products db) (x_products db') \<and> prefix (x_validations db) (x_validations db')
     \<and> prefix (x_decisions db) (x_decisions db')
     \<and> (\<forall>h r. points_to db h r \<longrightarrow>
          (\<exists>h' r'. points_to db' h' r' \<and> head_key h' = head_key h \<and> prod_Version r \<le> prod_Version r'))"
proof -
  have later: "p_later db db'" using assms by (rule ps.reach_later)
  have "\<exists>h' r'. points_to db' h' r' \<and> head_key h' = head_key h \<and> prod_Version r \<le> prod_Version r'" if "points_to db h r" for h r
  proof -
    from later that obtain h' r' where "points_to db' h' r'" "record_key r' = record_key r" "prod_Version r \<le> prod_Version r'"
      unfolding p_later_def by blast
    with that show ?thesis unfolding points_to_def by metis
  qed
  with later show ?thesis unfolding p_later_def by blast
qed

text \<open>
  The versions of a key are numbered one after the other: exactly one record carries each number from 1 to the latest.
\<close>

theorem versions_are_contiguous:
  assumes "reach p_start p_step db" and "r \<in> set (x_products db)" and "1 \<le> v" and "v \<le> latest_version db r"
  shows "\<exists>!x. x \<in> set (x_products db) \<and> record_key x = record_key r \<and> prod_Version x = v"
proof -
  have rows: "rows_ok db" using reach_p_inv [OF assms(1)] by (simp add: p_inv_def)
  obtain x where x: "x \<in> set (x_products db)" "record_key x = record_key r" "prod_Version x = v"
    using rows_ok_up_to_latest [OF rows assms(3,4)] by blast
  have inj: "inj_on version_key (set (x_products db))" using rows by (simp add: rows_ok_def distinct_map)
  show ?thesis
  proof (intro ex1I conjI)
    fix y assume y: "y \<in> set (x_products db) \<and> record_key y = record_key r \<and> prod_Version y = v"
    with x have "version_key y = version_key x" by (simp add: version_key_def)
    with inj x y show "y = x" by (simp add: inj_on_def)
  qed (use x in simp_all)
qed

section \<open>Decisions are final\<close>

lemma find_prefix: "find P xs = Some x \<Longrightarrow> prefix xs ys \<Longrightarrow> find P ys = Some x"
  by (induction xs arbitrary: ys) (auto simp: prefix_def split: if_splits)

lemma scanProduct_later:
  assumes "find_row dcs_Record (prod_ID r) (x_decisions db) = Some d" and "prefix (x_decisions db) (x_decisions db')"
  shows "scanProduct db' r = scanProduct db r" "find_row dcs_Record (prod_ID r) (x_decisions db') = Some d"
  using assms(1) find_prefix [OF assms(1) [unfolded find_row_def] assms(2)]
  by (simp_all add: scanProduct_def product_status_def find_row_def)

lemma record_row_later: "record_row db project rid = Some r \<Longrightarrow> prefix (x_products db) (x_products db') \<Longrightarrow> record_row db' project rid = Some r"
  unfolding record_row_def by (rule find_prefix)

text \<open>A successful decision leaves a record with a decision, and answers with the record as it is read from then on.\<close>

lemma decided_record:
  assumes "repo_DecideProductRecord env db d = (Inr out, db')"
  obtains r x where "record_row db' (pd_ProjectID d) (pd_RecordID d) = Some r"
    "find_row dcs_Record (prod_ID r) (x_decisions db') = Some x" "out = scanProduct db' r"
proof -
  from assms obtain r where r: "record_row db (pd_ProjectID d) (pd_RecordID d) = Some r"
    by (auto simp: repo_DecideProductRecord_def split: if_splits option.splits)
  show ?thesis
  proof (cases "find_row dcs_Record (prod_ID r) (x_decisions db)")
    case (Some old)
    with assms r have "db' = db" "out = scanProduct db r"
      by (auto simp: repo_DecideProductRecord_def split: if_splits option.splits)
    with r Some that show ?thesis by blast
  next
    case None
    let ?db = "db\<lparr>x_decisions := x_decisions db @ [decided_row env d r]\<rparr>"
    from assms r None have db': "db' = advanceProductHead ?db r \<or> db' = ?db" and out: "out = scanProduct ?db r"
      by (auto simp: repo_DecideProductRecord_def Let_def split: if_splits option.splits)
    have "x_decisions db' = x_decisions ?db" "x_products db' = x_products db" using db' by auto
    then have same: "scanProduct db' r = scanProduct ?db r" "record_row db' (pd_ProjectID d) (pd_RecordID d) = Some r"
      "find_row dcs_Record (prod_ID r) (x_decisions db') = Some (decided_row env d r)"
      using r None by (simp_all add: scanProduct_def product_status_def record_row_def find_row_append decided_row_def)
    with out that show ?thesis by simp
  qed
qed

text \<open>
  A decision is taken once: after a record is decided no further call on it, by whoever and with whatever arguments, changes
  the database, and every such call that succeeds answers with the record as first decided.
\<close>

theorem decision_is_final:
  assumes "reach p_start p_step db" and "repo_DecideProductRecord env db d = (Inr out, db1)" and "p_step\<^sup>*\<^sup>* db1 db2"
    and "pd_ProjectID d' = pd_ProjectID d" and "pd_RecordID d' = pd_RecordID d"
    and "repo_DecideProductRecord env' db2 d' = (res, db3)"
  shows "db3 = db2 \<and> (\<forall>out'. res = Inr out' \<longrightarrow> out' = out)"
proof -
  from decided_record [OF assms(2)] obtain r x where r: "record_row db1 (pd_ProjectID d) (pd_RecordID d) = Some r"
      "find_row dcs_Record (prod_ID r) (x_decisions db1) = Some x" "out = scanProduct db1 r"
    by blast
  have "reach p_start p_step db1"
    using assms(1) p_step.decide [OF assms(2)] by (rule reach_step)
  then have later: "p_later db1 db2" using assms(3) by (rule ps.reach_later)
  then have row: "record_row db2 (pd_ProjectID d') (pd_RecordID d') = Some r"
    using record_row_later [OF r(1), of db2] assms(4,5) by (simp add: p_later_def)
  have dec: "scanProduct db2 r = out" "find_row dcs_Record (prod_ID r) (x_decisions db2) = Some x"
    using scanProduct_later [OF r(2), of db2] later r(3) by (simp_all add: p_later_def)
  show ?thesis
    using assms(6) row dec by (auto simp: repo_DecideProductRecord_def split: if_splits option.splits)
qed

end
