(* ===== verification/ProductExamples.thy ===== *)
theory ProductExamples
  imports ProductProps
begin

text \<open>A record that is proposed, validated and accepted; the properties of the product records applied to it.\<close>

definition pe_env :: call_env where
  "pe_env = \<lparr>env_ctx = Some \<lparr>p_ID = ''o'', p_DisplayName = ''o'', p_Human = True, p_RoleBindings = [], p_CredentialID = ''c'',
     p_Delegation = None\<rparr>, env_clock = \<lambda>_. 0, env_db_now = 0, env_id = \<lambda>_. []\<rparr>"

definition pe_db0 :: product_db where
  "pe_db0 = \<lparr>x_principals = [\<lparr>pr_ID = ''o'', pr_Active = True, pr_Kind = ''human''\<rparr>], x_credentials = [],
     x_roles = map (\<lambda>role. \<lparr>rb_Principal = ''o'', rb_Project = ''p'', rb_Role = role, rb_ValidFrom = 0, rb_ValidUntil = None\<rparr>)
       [''qa'', ''product_owner''],
     x_products = [], x_heads = [], x_decisions = [], x_validations = [], x_relations = [], x_blobs = [], x_receipts = [], x_evaluations = []\<rparr>"

definition pe_draft :: product_record where
  "pe_draft = \<lparr>prod_ID = ''i'', prod_Project = ''p'', prod_Product = ''q'', prod_Key = ''k'', prod_Kind = ''brs'', prod_Version = 1,
     prod_Title = ''t'', prod_Content = ''c'', prod_Classification = ''internal'', prod_Origin = ''proposal'', prod_Status = ''pending'',
     prod_Owner = ''o'', prod_Actor = ''o'',
     prod_Source = \<lparr>src_SourceID = ''s'', src_Revision = ''r'', src_SchemaVersion = ''v'', src_ReceiptID = [], src_Start = None,
       src_End = None, src_Watermark = None, src_CollectedAt = None, src_Snapshot = [], src_Offsets = [], src_Complete = False,
       src_Purpose = [], src_Fields = [], src_Filters = [], src_RowLimit = 0\<rparr>,
     prod_SHA256 = [], prod_Evidence = \<lparr>art_SHA256 = ''e'', art_URI = [], art_MediaType = [], art_SizeBytes = 1\<rparr>,
     prod_CreatedAt = utc 0, prod_ExpiresAt = None\<rparr>"

definition pe_record :: product_record where
  "pe_record = pe_draft\<lparr>prod_SHA256 := product_Digest pe_draft\<rparr>"

definition pe_validation :: product_validation where
  "pe_validation = \<lparr>pv_ID = ''v'', pv_ProjectID = ''p'', pv_RecordID = ''i'', pv_SHA256 = product_Digest pe_draft, pv_Actor = ''o'',
     pv_Method = ''human_attestation'', pv_Evidence = zero_artifact, pv_ValidUntil = 1000000\<rparr>"

definition pe_decision :: product_decision where
  "pe_decision = \<lparr>pd_ProjectID = ''p'', pd_RecordID = ''i'', pd_ExpectedSHA256 = product_Digest pe_draft, pd_Decision = ''accept'',
     pd_Reason = ''r'', pd_ValidationID = ''v'', pd_IdempotencyKey = ''d'', pd_Actor = ''o''\<rparr>"

definition pe_db1 :: product_db where
  "pe_db1 = snd (repo_PutProductRecord (\<lambda>_. None) pe_env pe_db0 pe_record 0)"

definition pe_db2 :: product_db where
  "pe_db2 = snd (repo_ValidateProductRecord pe_env pe_db1 pe_validation)"

definition pe_db3 :: product_db where
  "pe_db3 = snd (repo_DecideProductRecord pe_env pe_db2 pe_decision)"

lemma pe_marshals: "time_marshals (utc 0)" "product_marshals pe_record"
proof -
  show "time_marshals (utc 0)" by code_simp
  show "product_marshals pe_record" by (simp add: product_marshals_def opt_marshals_def pe_record_def pe_draft_def)
qed

lemma pe_digest: "product_Digest pe_record = product_Digest pe_draft"
  by (simp add: product_Digest_def pe_record_def product_marshals_def)

lemma pe_step1: "repo_PutProductRecord (\<lambda>_. None) pe_env pe_db0 pe_record 0 = (Inr pe_record, pe_db1)"
  and pe_db1: "x_products pe_db1 = [inserted_row None pe_record]" "x_principals pe_db1 = x_principals pe_db0"
    "x_roles pe_db1 = x_roles pe_db0" "x_decisions pe_db1 = []" "x_validations pe_db1 = []" "x_heads pe_db1 = []"
proof -
  have actor: "requireProductActor pe_env pe_db0 (prod_Actor pe_record) (prod_Project pe_record) proposer_roles"
    by (simp add: requireProductActor_def pe_env_def pe_db0_def pe_record_def pe_draft_def PrincipalFromContext_def
        proposer_roles_def role_live_def)
  have sha: "prod_SHA256 pe_record = product_Digest pe_record" "digestPattern (prod_SHA256 pe_record)"
    using pe_digest by (simp_all add: pe_record_def product_Digest_def digestPattern_Digest)
  have fields: "prod_Version pe_record = 1" "art_SHA256 (prod_Evidence pe_record) \<noteq> []" "prod_Origin pe_record = ''proposal''"
    "prod_Status pe_record = ''pending''" "prod_CreatedAt pe_record = utc 0" "prod_Kind pe_record \<in> set product_kinds"
    by (simp_all add: pe_record_def pe_draft_def product_kinds_def)
  have empty: "x_products pe_db0 = []" "latest_version pe_db0 pe_record = 0"
    by (simp_all add: pe_db0_def latest_version_def max_version_def)
  let ?db = "pe_db0\<lparr>x_blobs := saveProductArtifact (prod_Evidence pe_record) (x_blobs pe_db0), x_products := [inserted_row None pe_record]\<rparr>"
  have put: "repo_PutProductRecord (\<lambda>_. None) pe_env pe_db0 pe_record 0 = (Inr pe_record, ?db)"
    using actor sha fields empty pe_marshals by (simp add: repo_PutProductRecord_def product_insert_def inserted_row_def)
  then show "repo_PutProductRecord (\<lambda>_. None) pe_env pe_db0 pe_record 0 = (Inr pe_record, pe_db1)" by (simp add: pe_db1_def)
  show "x_products pe_db1 = [inserted_row None pe_record]" "x_principals pe_db1 = x_principals pe_db0"
    "x_roles pe_db1 = x_roles pe_db0" "x_decisions pe_db1 = []" "x_validations pe_db1 = []" "x_heads pe_db1 = []"
    using put by (simp_all add: pe_db1_def pe_db0_def)
qed

lemma pe_row: "record_row db ''p'' ''i'' = Some (inserted_row None pe_record)" if "x_products db = [inserted_row None pe_record]"
  for db :: product_db
  using that by (simp add: record_row_def pe_record_def pe_draft_def)

lemma pe_pending: "product_status db (inserted_row None pe_record) = ''pending''" if "x_decisions db = []" for db :: product_db
  using that by (simp add: product_status_def pe_record_def pe_draft_def)

lemma pe_human: "requireDatabaseHumanRole pe_env db ''o'' ''p'' role"
  if "x_principals db = x_principals pe_db0" "x_roles db = x_roles pe_db0" "role \<in> {''qa'', ''product_owner''}" for db :: product_db
  using that by (auto simp: requireDatabaseHumanRole_def pe_db0_def pe_env_def role_live_def)

lemma pe_caller: "PrincipalFromContext (env_ctx pe_env) = Some (the (env_ctx pe_env))" "p_ID (the (env_ctx pe_env)) = ''o''"
  by (simp_all add: PrincipalFromContext_def pe_env_def)

lemma pe_step2: "repo_ValidateProductRecord pe_env pe_db1 pe_validation = (Inr (), pe_db2)"
  and pe_db2: "x_products pe_db2 = [inserted_row None pe_record]" "x_principals pe_db2 = x_principals pe_db0"
    "x_roles pe_db2 = x_roles pe_db0" "x_decisions pe_db2 = []" "x_heads pe_db2 = []"
    "x_validations pe_db2 = [\<lparr>val_ID = ''v'', val_Project = ''p'', val_Record = ''i'', val_SHA256 = product_Digest pe_draft, val_Actor = ''o'',
       val_Method = ''human_attestation'', val_Evidence = [], val_ValidUntil = 1000000\<rparr>]"
proof -
  have sha: "prod_SHA256 (inserted_row None pe_record) = product_Digest pe_draft" by (simp add: pe_record_def)
  have human: "requireDatabaseHumanRole pe_env pe_db1 ''o'' ''p'' ''qa''" using pe_human pe_db1 by simp
  have "repo_ValidateProductRecord pe_env pe_db1 pe_validation
    = (Inr (), pe_db1\<lparr>x_blobs := saveProductArtifact zero_artifact (x_blobs pe_db1),
        x_validations := [\<lparr>val_ID = ''v'', val_Project = ''p'', val_Record = ''i'', val_SHA256 = product_Digest pe_draft, val_Actor = ''o'',
           val_Method = ''human_attestation'', val_Evidence = [], val_ValidUntil = 1000000\<rparr>]\<rparr>)"
    using human pe_caller pe_row [OF pe_db1(1)] pe_pending [OF pe_db1(4)] sha pe_db1(5)
    by (simp add: repo_ValidateProductRecord_def pe_validation_def find_row_def pe_env_def seconds_def micros_def zero_artifact_def)
  then show "repo_ValidateProductRecord pe_env pe_db1 pe_validation = (Inr (), pe_db2)"
    "x_products pe_db2 = [inserted_row None pe_record]" "x_principals pe_db2 = x_principals pe_db0"
    "x_roles pe_db2 = x_roles pe_db0" "x_decisions pe_db2 = []" "x_heads pe_db2 = []"
    "x_validations pe_db2 = [\<lparr>val_ID = ''v'', val_Project = ''p'', val_Record = ''i'', val_SHA256 = product_Digest pe_draft, val_Actor = ''o'',
       val_Method = ''human_attestation'', val_Evidence = [], val_ValidUntil = 1000000\<rparr>]"
    using pe_db1 by (simp_all add: pe_db2_def)
qed

lemma pe_step3: "\<exists>out. repo_DecideProductRecord pe_env pe_db2 pe_decision = (Inr out, pe_db3)"
  and pe_db3: "x_products pe_db3 = [inserted_row None pe_record]"
    "x_heads pe_db3 = [\<lparr>head_Project = ''p'', head_Product = ''q'', head_Key = ''k'', head_Record = ''i''\<rparr>]"
proof -
  let ?r = "inserted_row None pe_record"
  let ?db = "pe_db2\<lparr>x_decisions := [decided_row pe_env pe_decision ?r]\<rparr>"
  have r: "prod_ID ?r = ''i''" "prod_Project ?r = ''p''" "prod_Product ?r = ''q''" "prod_Key ?r = ''k''" "prod_Version ?r = 1"
      "prod_SHA256 ?r = product_Digest pe_draft"
    by (simp_all add: pe_record_def pe_draft_def)
  have human: "requireDatabaseHumanRole pe_env pe_db2 ''o'' ''p'' ''product_owner''" using pe_human pe_db2 by simp
  have valid: "validated_for pe_env pe_db2 pe_decision ?r"
    using pe_db2(6) r by (simp add: validated_for_def pe_decision_def pe_env_def)
  have head: "head_version pe_db2 ?r = 0" using pe_db2 by (simp add: head_version_def max_version_def)
  have "repo_DecideProductRecord pe_env pe_db2 pe_decision = (Inr (scanProduct ?db ?r), advanceProductHead ?db ?r)"
    using human pe_caller pe_row [OF pe_db2(1)] pe_pending [OF pe_db2(4)] valid head r pe_db2(4,6)
    by (simp add: repo_DecideProductRecord_def pe_decision_def find_row_def Let_def)
  then show "\<exists>out. repo_DecideProductRecord pe_env pe_db2 pe_decision = (Inr out, pe_db3)"
    "x_products pe_db3 = [?r]"
    "x_heads pe_db3 = [\<lparr>head_Project = ''p'', head_Product = ''q'', head_Key = ''k'', head_Record = ''i''\<rparr>]"
    using pe_db2 r by (simp_all add: pe_db3_def advance_heads upsert_head_def find_row_def head_for_def)
qed

lemma pe_reach0: "reach p_start p_step pe_db0"
  by (rule reach_start) (simp add: p_start_def pe_db0_def)

lemma pe_reach2: "reach p_start p_step pe_db2"
  using reach_step [OF reach_step [OF pe_reach0 p_step.put [OF pe_step1]] p_step.validate [OF pe_step2]] .

lemma pe_reach3: "reach p_start p_step pe_db3"
  using pe_step3 reach_step [OF pe_reach2 p_step.decide] by blast

theorem head_is_newest_published_witness:
  "reach p_start p_step pe_db3 \<and> \<lparr>head_Project = ''p'', head_Product = ''q'', head_Key = ''k'', head_Record = ''i''\<rparr> \<in> set (x_heads pe_db3)
   \<and> (\<exists>r \<in> set (x_products pe_db3). prod_ID r = ''i'' \<and> prod_SHA256 r = product_Digest r)"
proof -
  have head: "\<lparr>head_Project = ''p'', head_Product = ''q'', head_Key = ''k'', head_Record = ''i''\<rparr> \<in> set (x_heads pe_db3)"
    using pe_db3(2) by simp
  from head_is_newest_published [OF pe_reach3 head] show ?thesis using pe_reach3 head by auto
qed

theorem product_history_append_only_witness:
  "reach p_start p_step pe_db0 \<and> p_step\<^sup>*\<^sup>* pe_db0 pe_db1 \<and> prefix (x_products pe_db0) (x_products pe_db1) \<and> x_products pe_db0 \<noteq> x_products pe_db1"
proof -
  have run: "p_step\<^sup>*\<^sup>* pe_db0 pe_db1" using p_step.put [OF pe_step1] by blast
  have "x_products pe_db0 \<noteq> x_products pe_db1" using pe_db1(1) by (simp add: pe_db0_def)
  with product_history_append_only [OF pe_reach0 run] run pe_reach0 show ?thesis by blast
qed

theorem versions_are_contiguous_witness:
  "reach p_start p_step pe_db3 \<and> (\<exists>!x. x \<in> set (x_products pe_db3) \<and> record_key x = record_key (inserted_row None pe_record) \<and> prod_Version x = 1)"
proof -
  have mem: "inserted_row None pe_record \<in> set (x_products pe_db3)" using pe_db3(1) by simp
  have "(1 :: int) \<le> latest_version pe_db3 (inserted_row None pe_record)"
    using pe_db3(1) by (simp add: latest_version_def max_version_def same_key_def pe_record_def pe_draft_def)
  from versions_are_contiguous [OF pe_reach3 mem _ this] pe_reach3 show ?thesis by simp
qed

theorem decision_is_final_witness:
  "\<exists>out res. repo_DecideProductRecord pe_env pe_db2 pe_decision = (Inr out, pe_db3)
     \<and> repo_DecideProductRecord pe_env pe_db3 pe_decision = (res, pe_db3) \<and> ((\<exists>e. res = Inl e) \<or> res = Inr out)"
proof -
  from pe_step3 obtain out where out: "repo_DecideProductRecord pe_env pe_db2 pe_decision = (Inr out, pe_db3)" by blast
  obtain res db' where again: "repo_DecideProductRecord pe_env pe_db3 pe_decision = (res, db')" by fastforce
  have "db' = pe_db3 \<and> ((\<exists>e. res = Inl e) \<or> res = Inr out)"
    using decision_is_final [OF pe_reach2 out rtranclp.rtrancl_refl refl refl again] by (cases res) auto
  with out again show ?thesis by blast
qed

end
