(* ===== verification/Intent.thy ===== *)
theory Intent
  imports ExecDomain ProductStore Observations
begin

text \<open>
  The accepted intent an execution serves (\<open>src/internal/domain/intent.go\<close>) and the validation of proposed product
  records (\<open>ValidateProductInput\<close> of \<open>src/internal/domain/product.go\<close>). Decoding one strict JSON document is a parameter.
\<close>

record intent_assumption =
  ia_Statement :: string
  ia_Confirmed :: bool

record intent_criterion =
  ic_ID :: string
  ic_Statement :: string
  ic_Oracle :: string
  ic_WorkPacketSHA256 :: string
  ic_Reconciliation :: "reconciliation_oracle option"

record intent_specification =
  is_Schema :: string
  is_Goal :: string
  is_Stage :: string
  is_Bindings :: "product_binding list"
  is_Criteria :: "intent_criterion list"
  is_Assumptions :: "intent_assumption list"
  is_Clarifications :: "string list"

definition sdlc_stages :: "string list" where
  "sdlc_stages = [''discover'', ''define'', ''plan'', ''design'', ''implement'', ''review'', ''test'', ''secure'', ''release'', ''deploy'',
     ''operate'', ''diagnose'', ''recover'', ''improve'', ''retire'']"

fun validate_bindings :: "string list \<Rightarrow> product_binding list \<Rightarrow> go_error option" where
  "validate_bindings seen [] = None"
| "validate_bindings seen (b # bs) =
     (if \<not> ValidProductKey (bind_RecordID b) \<or> \<not> digestPattern (bind_SHA256 b) \<or> bind_RecordID b \<in> set seen
        then Some (ErrMessage ''intent bindings require unique exact records and digests'')
      else if bind_Kind b \<notin> set [''brs'', ''feature'', ''code'', ''test'', ''release'', ''incident'', ''procedure'']
        then Some (ErrMessage ''unsupported intent binding kind'')
      else validate_bindings (bind_RecordID b # seen) bs)"

definition oracle_bounds :: "reconciliation_oracle \<Rightarrow> bool" where
  "oracle_bounds r \<longleftrightarrow>
     \<not> (\<not> ValidProductKey (ro_LeftSourceID r) \<or> \<not> ValidProductKey (ro_RightSourceID r) \<or> ro_LeftSourceID r = ro_RightSourceID r
        \<or> \<not> boundedText (ro_LeftSchemaVersion r) 128 \<or> \<not> boundedText (ro_RightSchemaVersion r) 128
        \<or> \<not> ValidProductKey (ro_JoinField r) \<or> \<not> ValidProductKey (ro_ValueField r) \<or> \<not> boundedText (ro_ExpectedRightValue r) 512
        \<or> ro_MaxWindowSeconds r < 1 \<or> ro_MaxWindowSeconds r > 31 * 24 * 3600)"

definition validate_oracle :: "intent_criterion \<Rightarrow> go_error option" where
  "validate_oracle c =
     (if ic_Oracle c = ''work_packet'' then
        (if \<not> digestPattern (ic_WorkPacketSHA256 c) \<or> ic_Reconciliation c \<noteq> None
         then Some (ErrMessage ''work-packet criteria require the exact protected packet digest'') else None)
      else if ic_Oracle c = ''observation_reconciliation'' then
        (if ic_WorkPacketSHA256 c \<noteq> [] \<or> (case ic_Reconciliation c of None \<Rightarrow> True | Some r \<Rightarrow> \<not> oracle_bounds r)
         then Some (ErrMessage ''reconciliation requires two versioned sources, join, expected value and bounded window'') else None)
      else Some (ErrMessage ''criterion oracle is not supported''))"

fun validate_criteria :: "string list \<Rightarrow> intent_criterion list \<Rightarrow> go_error option" where
  "validate_criteria seen [] = None"
| "validate_criteria seen (c # cs) =
     (if \<not> ValidProductKey (ic_ID c) \<or> \<not> boundedText (ic_Statement c) 2048 \<or> ic_ID c \<in> set seen
        then Some (ErrMessage ''criteria require unique IDs and explicit statements'')
      else case validate_oracle c of
        Some e \<Rightarrow> Some e
      | None \<Rightarrow> validate_criteria (ic_ID c # seen) cs)"

definition intent_Validate :: "intent_specification \<Rightarrow> go_error option" where
  "intent_Validate s =
     (if is_Schema s \<noteq> ''hybrid-ai/sdlc-intent/v1'' \<or> \<not> boundedText (is_Goal s) 4096 \<or> length (is_Bindings s) < 1
         \<or> length (is_Bindings s) > 12 \<or> length (is_Criteria s) < 1 \<or> length (is_Criteria s) > 20
         \<or> length (is_Assumptions s) > 20 \<or> length (is_Clarifications s) > 20
        then Some (ErrMessage ''intent schema, goal, bindings and bounded criteria are required'')
      else if is_Stage s \<notin> set sdlc_stages then Some (ErrMessage ''unknown SDLC stage'')
      else case validate_bindings [] (is_Bindings s) of
        Some e \<Rightarrow> Some e
      | None \<Rightarrow>
          if \<not> list_ex (\<lambda>b. bind_Kind b = ''brs'') (is_Bindings s)
            then Some (ErrMessage ''an intent must bind accepted business requirements'')
          else (case validate_criteria [] (is_Criteria s) of
              Some e \<Rightarrow> Some e
            | None \<Rightarrow>
                if \<not> list_all (\<lambda>a. boundedText (ia_Statement a) 2048) (is_Assumptions s) then Some (ErrMessage ''invalid assumption'')
                else if \<not> list_all (\<lambda>c. boundedText c 2048) (is_Clarifications s) then Some (ErrMessage ''invalid clarification'')
                else None))"

definition ParseIntent :: "(string \<Rightarrow> intent_specification result) \<Rightarrow> string \<Rightarrow> intent_specification result" where
  "ParseIntent decode content =
     (case decode content of
        Inl e \<Rightarrow> Err e
      | Inr spec \<Rightarrow> (case intent_Validate spec of Some e \<Rightarrow> Err e | None \<Rightarrow> Ok spec))"

record intent_context =
  ctx_Intent :: product_binding
  ctx_Specification :: intent_specification
  ctx_Records :: "product_record list"
  ctx_Ready :: bool
  ctx_Blockers :: "string list"

section \<open>Proposals\<close>

record product_record_input =
  pi_ProjectID :: string
  pi_ProductID :: string
  pi_Key :: string
  pi_Kind :: string
  pi_ExpectedVersion :: int
  pi_Title :: string
  pi_Content :: string
  pi_Classification :: string
  pi_SourceID :: string
  pi_SourceRevision :: string
  pi_ExpiresAt :: "go_time option"

definition ValidateProductInput ::
  "(string \<Rightarrow> intent_specification result) \<Rightarrow> int \<Rightarrow> product_record_input \<Rightarrow> go_error option" where
  "ValidateProductInput decode now i =
     (if \<not> ValidProductKey (pi_ProjectID i) \<or> \<not> ValidProductKey (pi_ProductID i) \<or> \<not> ValidProductKey (pi_Key i)
         \<or> pi_ExpectedVersion i < 0 \<or> trim_space (pi_Title i) = [] \<or> length (pi_Title i) > 240
         \<or> trim_space (pi_Content i) = [] \<or> length (pi_Content i) > 128 * 1024
         \<or> trim_space (pi_SourceID i) = [] \<or> length (pi_SourceID i) > 256
         \<or> trim_space (pi_SourceRevision i) = [] \<or> length (pi_SourceRevision i) > 256
        then Some (ErrMessage ''invalid product identity, source, version or content bounds'')
      else if pi_Kind i \<notin> set [''product'', ''brs'', ''feature'', ''code'', ''test'', ''release'', ''incident'', ''hypothesis'', ''procedure'', ''intent'']
        then Some (ErrMessage ''unsupported product record kind'')
      else if pi_Classification i \<notin> set [''public'', ''internal'', ''confidential'', ''restricted'']
        then Some (ErrMessage ''classification is required'')
      else if (case pi_ExpiresAt i of None \<Rightarrow> False | Some t \<Rightarrow> \<not> now < gt_Nanos t) then Some (ErrMessage ''record is already expired'')
      else if pi_Kind i = ''intent'' then
        (case ParseIntent decode (pi_Content i) of Inl e \<Rightarrow> Some e | Inr _ \<Rightarrow> None)
      else None)"

section \<open>What a valid intent is\<close>

lemma validate_bindings_None:
  "validate_bindings seen bs = None \<Longrightarrow> distinct (map bind_RecordID bs) \<and> (\<forall>b \<in> set bs. bind_RecordID b \<notin> set seen)"
proof (induction bs arbitrary: seen)
  case (Cons b bs)
  from Cons.prems have "validate_bindings (bind_RecordID b # seen) bs = None" "bind_RecordID b \<notin> set seen"
    by (simp_all split: if_splits)
  with Cons.IH [of "bind_RecordID b # seen"] show ?case by auto
qed simp

lemma validate_criteria_None:
  "validate_criteria seen cs = None \<Longrightarrow>
     distinct (map ic_ID cs) \<and> (\<forall>c \<in> set cs. ic_ID c \<notin> set seen) \<and> (\<forall>c \<in> set cs. ValidProductKey (ic_ID c) \<and> validate_oracle c = None)"
proof (induction cs arbitrary: seen)
  case (Cons c cs)
  from Cons.prems have "validate_criteria (ic_ID c # seen) cs = None" "ic_ID c \<notin> set seen" "ValidProductKey (ic_ID c)" "validate_oracle c = None"
    by (simp_all split: if_splits option.splits)
  with Cons.IH [of "ic_ID c # seen"] show ?case by auto
qed simp

lemma ParseIntent_Ok:
  assumes "ParseIntent decode content = Inr spec"
  shows "distinct (map bind_RecordID (is_Bindings spec))" "distinct (map ic_ID (is_Criteria spec))" "is_Criteria spec \<noteq> []"
    "\<forall>c \<in> set (is_Criteria spec). ValidProductKey (ic_ID c) \<and> validate_oracle c = None"
    "\<exists>b \<in> set (is_Bindings spec). bind_Kind b = ''brs''" "length (is_Bindings spec) \<le> 12" "length (is_Criteria spec) \<le> 20"
proof -
  from assms have "validate_bindings [] (is_Bindings spec) = None" "validate_criteria [] (is_Criteria spec) = None"
    "list_ex (\<lambda>b. bind_Kind b = ''brs'') (is_Bindings spec)" "\<not> length (is_Criteria spec) < 1"
    "\<not> length (is_Bindings spec) > 12" "\<not> length (is_Criteria spec) > 20"
    by (simp_all add: ParseIntent_def intent_Validate_def split: sum.splits option.splits if_splits)
  then show "distinct (map bind_RecordID (is_Bindings spec))" "distinct (map ic_ID (is_Criteria spec))" "is_Criteria spec \<noteq> []"
    "\<forall>c \<in> set (is_Criteria spec). ValidProductKey (ic_ID c) \<and> validate_oracle c = None"
    "\<exists>b \<in> set (is_Bindings spec). bind_Kind b = ''brs''" "length (is_Bindings spec) \<le> 12" "length (is_Criteria spec) \<le> 20"
    using validate_bindings_None validate_criteria_None by (auto simp: list_ex_iff)
qed

end
