(* ===== verification/ProductService.thy ===== *)
theory ProductService
  imports Intent
begin

text \<open>
  The service in front of the product records (\<open>src/internal/service/product.go\<close>, \<open>authorizeRetainedObservation\<close> of
  \<open>src/internal/service/source.go\<close>, \<open>src/internal/service/execution_source.go\<close>) and the context of an intent
  (\<open>src/internal/service/intent.go\<close>). An execution's grant is the run its request context carries once the lease was checked.
  The reads of one call are of one database state; what a call writes goes through the store's transaction.
\<close>

record product_service =
  svc_Authorizer :: authorizer
  svc_Sources :: "source_registry option"
  svc_DecodeIntent :: "string \<Rightarrow> intent_specification result"
  svc_DecodeEnvelope :: "string \<Rightarrow> source_envelope option"
  svc_DecodePacket :: "string \<Rightarrow> packet option"
  svc_DecodeCode :: "string \<Rightarrow> product_code option"

type_synonym grant = "execution_run option"

section \<open>Access\<close>

definition productAccess ::
  "('s product_service_scheme) \<Rightarrow> call_env \<Rightarrow> grant \<Rightarrow> string \<Rightarrow> string \<Rightarrow> string \<Rightarrow> string \<Rightarrow> principal result" where
  "productAccess svc env g project rid action classification =
     (case g of
        Some run \<Rightarrow>
          (case RequirePrincipal (env_ctx env) of
             Inl e \<Rightarrow> Err ErrForbidden
           | Inr p \<Rightarrow> if project \<noteq> er_ProjectID run \<or> action \<noteq> ''read'' \<or> p_ID p \<noteq> run_Actor run
                        \<or> classification \<notin> set (et_Classifications (er_Target run)) then Err ErrForbidden else Ok p)
      | None \<Rightarrow>
          (case AuthorizeProjectAction (svc_Authorizer svc) (env_ctx env) project ''product_knowledge'' rid action
                  [(''classification'', AttrText classification)] of
             Inl e \<Rightarrow> Err e
           | Inr p \<Rightarrow>
               let roles = (if action = ''decide'' then [''product_owner''] else if action = ''validate'' then [''qa'']
                     else [''development'', ''qa'', ''product_owner'', ''operations'', ''incident_diagnosis'', ''maintenance_executor'',
                           ''validation_executor''])
               in if selectRole p project roles = None then Err ErrForbidden else Ok p))"

definition authorizeExecutionSource ::
  "('s product_service_scheme) \<Rightarrow> call_env \<Rightarrow> grant \<Rightarrow> source_descriptor \<Rightarrow> string \<Rightarrow> string \<Rightarrow> principal result" where
  "authorizeExecutionSource svc env g d action purpose =
     (let base = [(''classification'', AttrText (sd_Classification d)), (''purpose'', AttrText purpose)];
          ask = (\<lambda>attrs. AuthorizeProjectAction (svc_Authorizer svc) (env_ctx env) (sd_ProjectID d) ''product_source'' (sd_ID d) action attrs)
      in case g of
           None \<Rightarrow> ask (base @ [(''execution_authorized'', AttrBool False)])
         | Some run \<Rightarrow>
             if er_ProjectID run \<noteq> sd_ProjectID d \<or> er_ProductID run \<noteq> sd_ProductID d \<or> sd_ID d \<notin> set (et_Sources (er_Target run))
                \<or> purpose \<notin> set (et_Purposes (er_Target run)) \<or> sd_Classification d \<notin> set (et_Classifications (er_Target run))
                \<or> er_Stage run \<notin> set [''diagnose'', ''verify_recovery'']
             then Err ErrForbidden
             else ask (base @ [(''execution_authorized'', AttrBool True), (''environment'', AttrText (et_Environment (er_Target run)))]))"

definition allowedField :: "source_descriptor \<Rightarrow> string \<Rightarrow> string \<Rightarrow> bool" where
  "allowedField d role field \<longleftrightarrow> map_of (sd_Fields d) field \<noteq> None
     \<and> (sd_FieldsByRole d = [] \<or> field \<in> set (map_get [] (sd_FieldsByRole d) role))"

definition authorizeRetainedObservation ::
  "('s product_service_scheme) \<Rightarrow> call_env \<Rightarrow> grant \<Rightarrow> product_record \<Rightarrow> go_error option" where
  "authorizeRetainedObservation svc env g r =
     (case svc_Sources svc of
        None \<Rightarrow> Some ErrForbidden
      | Some reg \<Rightarrow>
          (case Get reg (prod_Project r) (src_SourceID (prod_Source r)) of
             None \<Rightarrow> Some ErrForbidden
           | Some d \<Rightarrow>
               if sd_ProductID d \<noteq> prod_Product r then Some ErrForbidden
               else if src_SchemaVersion (prod_Source r) \<noteq> sd_SchemaVersion d then Some ErrQualityBlocked
               else (case authorizeExecutionSource svc env g d ''read_observation'' (src_Purpose (prod_Source r)) of
                   Inl e \<Rightarrow> Some e
                 | Inr p \<Rightarrow>
                     (case selectRole p (prod_Project r) (sd_Roles d) of
                        None \<Rightarrow> Some ErrForbidden
                      | Some role \<Rightarrow>
                          (case svc_DecodeEnvelope svc (prod_Content r) of
                             None \<Rightarrow> Some ErrQualityBlocked
                           | Some e \<Rightarrow>
                               if sd_AdapterSHA256 d \<noteq> [] \<and> se_AdapterSHA256 e \<noteq> sd_AdapterSHA256 d then Some ErrQualityBlocked
                               else if list_all (allowedField d role)
                                  (src_Fields (prod_Source r) @ map fst (src_Filters (prod_Source r)) @ concat (map (map fst) (se_Rows e)))
                                 then None else Some ErrForbidden)))))"

definition GetProductRecord ::
  "('s product_service_scheme) \<Rightarrow> call_env \<Rightarrow> grant \<Rightarrow> ('a product_db_scheme) \<Rightarrow> string \<Rightarrow> string \<Rightarrow> bool \<Rightarrow> product_record result" where
  "GetProductRecord svc env g db project rid current =
     (case productAccess svc env g project rid ''read'' ''internal'' of
        Inl e \<Rightarrow> Err e
      | Inr _ \<Rightarrow>
          (case repo_GetProductRecord env db project rid current of
             Inl e \<Rightarrow> Err e
           | Inr r \<Rightarrow>
               if (case g of None \<Rightarrow> False | Some run \<Rightarrow> prod_Product r \<noteq> er_ProductID run) then Err ErrForbidden
               else (case productAccess svc env g project rid ''read'' (prod_Classification r) of
                   Inl e \<Rightarrow> Err e
                 | Inr _ \<Rightarrow>
                     if prod_Origin r = ''source_adapter'' then
                       (case authorizeRetainedObservation svc env g r of Some e \<Rightarrow> Err e | None \<Rightarrow> Ok r)
                     else Ok r)))"

section \<open>Proposing, validating and deciding\<close>

definition drafted_record :: "call_env \<Rightarrow> principal \<Rightarrow> product_record_input \<Rightarrow> product_record" where
  "drafted_record env p i =
     \<lparr>prod_ID = env_id env 0, prod_Project = pi_ProjectID i, prod_Product = pi_ProductID i, prod_Key = pi_Key i, prod_Kind = pi_Kind i,
      prod_Version = pi_ExpectedVersion i + 1, prod_Title = pi_Title i, prod_Content = pi_Content i,
      prod_Classification = pi_Classification i, prod_Origin = ''proposal'', prod_Status = ''pending'',
      prod_Owner = (case p_Delegation p of None \<Rightarrow> p_ID p | Some d \<Rightarrow> del_DelegatedBy d), prod_Actor = p_ID p,
      prod_Source = \<lparr>src_SourceID = pi_SourceID i, src_Revision = pi_SourceRevision i, src_SchemaVersion = ''hybrid-ai/product-record/v1'',
        src_ReceiptID = [], src_Start = None, src_End = None, src_Watermark = None, src_CollectedAt = None, src_Snapshot = [],
        src_Offsets = [], src_Complete = False, src_Purpose = [], src_Fields = [], src_Filters = [], src_RowLimit = 0\<rparr>,
      prod_SHA256 = [], prod_Evidence = zero_artifact, prod_CreatedAt = utc (env_clock env 1), prod_ExpiresAt = pi_ExpiresAt i\<rparr>"

definition PutProductRecord ::
  "('s product_service_scheme) \<Rightarrow> call_env \<Rightarrow> grant \<Rightarrow> local_store \<Rightarrow> ('a product_db_scheme) \<Rightarrow> product_record_input
     \<Rightarrow> product_record result \<times> local_store \<times> 'a product_db_scheme" where
  "PutProductRecord svc env g st db i =
     (case productAccess svc env g (pi_ProjectID i) ''new'' ''propose'' (pi_Classification i) of
        Inl e \<Rightarrow> (Err e, st, db)
      | Inr p \<Rightarrow>
          if \<not> p_Human p \<and> p_Delegation p = None then (Err ErrForbidden, st, db)
          else if ValidateProductInput (svc_DecodeIntent svc) (env_clock env 0) i \<noteq> None then (Err ErrInvalidInput, st, db)
          else
            let draft = drafted_record env p i; r = draft\<lparr>prod_SHA256 := product_Digest draft\<rparr> in
            if \<not> product_marshals r \<or> \<not> time_marshals (prod_CreatedAt r)
              then (Err (ErrMessage ''json: error calling MarshalJSON for type time.Time''), st, db)
            else (case Put st (print_json (json_product r)) ''application/json'' of
                (Inl e, st') \<Rightarrow> (Err e, st', db)
              | (Inr a, st') \<Rightarrow>
                  (case repo_PutProductRecord (svc_DecodeCode svc) env db (r\<lparr>prod_Evidence := a\<rparr>) (pi_ExpectedVersion i) of
                     (res, db') \<Rightarrow> (res, st', db'))))"

record validate_product_input =
  vi_ProjectID :: string
  vi_RecordID :: string
  vi_ExpectedSHA256 :: string
  vi_Evidence :: "string list"

definition json_validation :: "product_validation \<Rightarrow> json" where
  "json_validation v = JObject [(''id'', JString (pv_ID v)), (''project_id'', JString (pv_ProjectID v)), (''record_id'', JString (pv_RecordID v)),
     (''sha256'', JString (pv_SHA256 v)), (''actor'', JString (pv_Actor v)), (''method'', JString (pv_Method v)),
     (''evidence'', json_artifact (pv_Evidence v)), (''valid_until'', json_time (utc (pv_ValidUntil v)))]"

definition ValidateProductRecord ::
  "('s product_service_scheme) \<Rightarrow> call_env \<Rightarrow> grant \<Rightarrow> local_store \<Rightarrow> ('a product_db_scheme) \<Rightarrow> ('a product_db_scheme) \<Rightarrow> validate_product_input
     \<Rightarrow> product_validation result \<times> local_store \<times> 'a product_db_scheme" where
  "ValidateProductRecord svc env g st seen db i =
     (case productAccess svc env g (vi_ProjectID i) (vi_RecordID i) ''validate'' ''internal'' of
        Inl e \<Rightarrow> (Err e, st, db)
      | Inr p \<Rightarrow>
          if \<not> p_Human p \<or> \<not> HasRole p (vi_ProjectID i) ''qa'' then (Err ErrForbidden, st, db)
          else (case GetProductRecord svc env g seen (vi_ProjectID i) (vi_RecordID i) False of
              Inl e \<Rightarrow> (Err e, st, db)
            | Inr r \<Rightarrow>
                if prod_Status r \<noteq> ''pending'' \<or> prod_SHA256 r \<noteq> vi_ExpectedSHA256 i \<or> length (vi_Evidence i) < 1 \<or> length (vi_Evidence i) > 20
                  then (Err ErrValidationRequired, st, db)
                else if \<not> list_all (\<lambda>v. trim_space v \<noteq> [] \<and> length v \<le> 4096) (vi_Evidence i) then (Err ErrInvalidInput, st, db)
                else
                  let v = \<lparr>pv_ID = env_id env 0, pv_ProjectID = vi_ProjectID i, pv_RecordID = prod_ID r, pv_SHA256 = prod_SHA256 r,
                           pv_Actor = p_ID p, pv_Method = ''human_attestation'', pv_Evidence = zero_artifact,
                           pv_ValidUntil = env_clock env 0 + seconds (24 * 3600)\<rparr>
                  in (case Put st (print_json (JObject [(''report'', json_validation v), (''evidence'', json_strings (vi_Evidence i))]))
                             ''application/json'' of
                        (Inl e, st') \<Rightarrow> (Err e, st', db)
                      | (Inr a, st') \<Rightarrow>
                          (case repo_ValidateProductRecord (env\<lparr>env_clock := \<lambda>n. env_clock env (n + 1)\<rparr>) db (v\<lparr>pv_Evidence := a\<rparr>) of
                             (Inl e, db') \<Rightarrow> (Err e, st', db') | (Inr _, db') \<Rightarrow> (Ok (v\<lparr>pv_Evidence := a\<rparr>), st', db')))))"

definition DecideProductRecord ::
  "('s product_service_scheme) \<Rightarrow> call_env \<Rightarrow> grant \<Rightarrow> ('a product_db_scheme) \<Rightarrow> product_decision
     \<Rightarrow> product_record result \<times> 'a product_db_scheme" where
  "DecideProductRecord svc env g db d =
     (case productAccess svc env g (pd_ProjectID d) (pd_RecordID d) ''decide'' ''internal'' of
        Inl e \<Rightarrow> (Err e, db)
      | Inr p \<Rightarrow>
          if \<not> p_Human p \<or> \<not> HasRole p (pd_ProjectID d) ''product_owner'' then (Err ErrForbidden, db)
          else if length (pd_Reason d) > 4096 \<or> length (pd_IdempotencyKey d) > 128 then (Err ErrInvalidInput, db)
          else repo_DecideProductRecord env db (d\<lparr>pd_Actor := p_ID p\<rparr>))"

section \<open>The context of an intent\<close>

record intent_context_input =
  ici_ProjectID :: string
  ici_IntentID :: string
  ici_ExpectedSHA256 :: string

text \<open>The bound records that are as accepted, with the blockers for those that are not; a record too many bytes ends the call.\<close>

fun bound_records ::
  "('s product_service_scheme) \<Rightarrow> call_env \<Rightarrow> grant \<Rightarrow> ('a product_db_scheme) \<Rightarrow> string \<Rightarrow> product_record \<Rightarrow> nat \<Rightarrow> product_binding list
     \<Rightarrow> (product_record list \<times> string list) result" where
  "bound_records svc env g db project intent used [] = Ok ([], [])"
| "bound_records svc env g db project intent used (b # bs) =
     (let blocked = (\<lambda>text. case bound_records svc env g db project intent used bs of
            Inl e \<Rightarrow> Err e | Inr (rs, blockers) \<Rightarrow> Ok (rs, (text @ bind_RecordID b) # blockers))
      in case GetProductRecord svc env g db project (bind_RecordID b) True of
           Inl e \<Rightarrow> if e = ErrQualityBlocked \<or> e = ErrForbidden then blocked ''Required context is unavailable or unauthorized: '' else Err e
         | Inr r \<Rightarrow>
             if prod_Product r \<noteq> prod_Product intent \<or> prod_SHA256 r \<noteq> bind_SHA256 b \<or> prod_Kind r \<noteq> bind_Kind b
               then blocked ''Required context no longer matches the accepted binding: ''
             else if used + length (print_json (json_product r)) > 128 * 1024 then Err ErrQualityBlocked
             else (case bound_records svc env g db project intent (used + length (print_json (json_product r))) bs of
                 Inl e \<Rightarrow> Err e | Inr (rs, blockers) \<Rightarrow> Ok (r # rs, blockers)))"

definition packet_admitted :: "('s product_service_scheme) \<Rightarrow> intent_criterion \<Rightarrow> product_record \<Rightarrow> bool" where
  "packet_admitted svc c r \<longleftrightarrow> prod_Kind r = ''test'' \<and> Digest (prod_Content r) = ic_WorkPacketSHA256 c
     \<and> (case svc_DecodePacket svc (prod_Content r) of None \<Rightarrow> False
        | Some p \<Rightarrow> pkt_LocalOnly p \<and> \<not> pkt_CloudReview p \<and> pkt_Mode p = ''patch'' \<and> pkt_Checks p \<noteq> [] \<and> ev_Allowed (Evaluate p))"

definition packet_blockers :: "('s product_service_scheme) \<Rightarrow> product_record list \<Rightarrow> intent_criterion list \<Rightarrow> string list" where
  "packet_blockers svc records cs =
     map (\<lambda>c. ''Exact locally executable work packet is not bound as accepted test context: '' @ ic_ID c)
       (filter (\<lambda>c. ic_Oracle c = ''work_packet'' \<and> \<not> list_ex (packet_admitted svc c) records) cs)"

definition IntentContext ::
  "('s product_service_scheme) \<Rightarrow> call_env \<Rightarrow> grant \<Rightarrow> ('a product_db_scheme) \<Rightarrow> intent_context_input \<Rightarrow> intent_context result" where
  "IntentContext svc env g db i =
     (case GetProductRecord svc env g db (ici_ProjectID i) (ici_IntentID i) True of
        Inl e \<Rightarrow> Err e
      | Inr intent \<Rightarrow>
          if prod_Kind intent \<noteq> ''intent'' \<or> prod_SHA256 intent \<noteq> ici_ExpectedSHA256 i then Err ErrVersionConflict
          else (case ParseIntent (svc_DecodeIntent svc) (prod_Content intent) of
              Inl e \<Rightarrow> Err ErrQualityBlocked
            | Inr spec \<Rightarrow>
                (case bound_records svc env g db (ici_ProjectID i) intent (length (prod_Content intent)) (is_Bindings spec) of
                   Inl e \<Rightarrow> Err e
                 | Inr (records, blocked) \<Rightarrow>
                     let blockers = map (\<lambda>q. ''Clarification required: '' @ q) (is_Clarifications spec)
                           @ map (\<lambda>a. ''Unconfirmed assumption: '' @ ia_Statement a) (filter (\<lambda>a. \<not> ia_Confirmed a) (is_Assumptions spec))
                           @ blocked @ packet_blockers svc records (is_Criteria spec)
                     in Ok \<lparr>ctx_Intent = \<lparr>bind_RecordID = prod_ID intent, bind_SHA256 = prod_SHA256 intent, bind_Kind = prod_Kind intent\<rparr>,
                            ctx_Specification = spec, ctx_Records = records, ctx_Ready = (blockers = []), ctx_Blockers = blockers\<rparr>)))"

end
