(* ===== verification/IntentProps.thy ===== *)
theory IntentProps
  imports ProductService
begin

text \<open>What a ready intent guarantees, and what an execution's grant can read.\<close>

section \<open>Reading records\<close>

lemma scanProduct_simps [simp]:
  "prod_ID (scanProduct db r) = prod_ID r" "prod_Project (scanProduct db r) = prod_Project r"
  "prod_Product (scanProduct db r) = prod_Product r" "prod_Kind (scanProduct db r) = prod_Kind r"
  "prod_SHA256 (scanProduct db r) = prod_SHA256 r" "prod_Content (scanProduct db r) = prod_Content r"
  "prod_Classification (scanProduct db r) = prod_Classification r" "prod_Origin (scanProduct db r) = prod_Origin r"
  "prod_Source (scanProduct db r) = prod_Source r"
  by (cases r; simp add: scanProduct_def product_record.defs)+

lemma repo_GetProductRecord_Ok:
  assumes "repo_GetProductRecord env db project rid current = Inr r"
  obtains row where "row \<in> set (x_products db)" "prod_Project row = project" "prod_ID row = rid" "r = scanProduct db row"
    "current \<Longrightarrow> product_record_eligible (env_db_now env) db row"
  using assms by (auto simp: repo_GetProductRecord_def record_row_def split: option.splits if_splits dest!: find_SomeD_mem)

lemma GetProductRecord_Ok:
  assumes "GetProductRecord svc env g db project rid current = Inr r"
  shows "repo_GetProductRecord env db project rid current = Inr r"
    "\<exists>p. productAccess svc env g project rid ''read'' (prod_Classification r) = Inr p"
    "prod_Origin r = ''source_adapter'' \<Longrightarrow> authorizeRetainedObservation svc env g r = None"
    "g = Some run \<Longrightarrow> prod_Product r = er_ProductID run"
  using assms by (auto simp: GetProductRecord_def split: sum.splits option.splits if_splits)

section \<open>A ready intent\<close>

definition binding_of :: "product_record \<Rightarrow> product_binding" where
  "binding_of r = \<lparr>bind_RecordID = prod_ID r, bind_SHA256 = prod_SHA256 r, bind_Kind = prod_Kind r\<rparr>"

definition current_record :: "call_env \<Rightarrow> ('a product_db_scheme) \<Rightarrow> string \<Rightarrow> product_record \<Rightarrow> bool" where
  "current_record env db project r \<longleftrightarrow>
     (\<exists>row \<in> set (x_products db). r = scanProduct db row \<and> prod_Project row = project
        \<and> product_record_eligible (env_db_now env) db row)"

lemma GetProductRecord_current:
  "GetProductRecord svc env g db project rid True = Inr r \<Longrightarrow> current_record env db project r \<and> prod_ID r = rid"
  unfolding current_record_def by (drule GetProductRecord_Ok(1), elim repo_GetProductRecord_Ok) auto

lemma bound_records_exact:
  assumes "bound_records svc env g db project intent used bs = Inr (rs, [])"
  shows "map binding_of rs = bs \<and> (\<forall>r \<in> set rs. current_record env db project r \<and> prod_Product r = prod_Product intent)
     \<and> (rs \<noteq> [] \<longrightarrow> used + sum_list (map (\<lambda>r. length (print_json (json_product r))) rs) \<le> 128 * 1024)"
  using assms
proof (induction bs arbitrary: used rs)
  case (Cons b bs)
  from Cons.prems obtain r rs' where r: "GetProductRecord svc env g db project (bind_RecordID b) True = Inr r"
      "prod_Product r = prod_Product intent" "prod_SHA256 r = bind_SHA256 b" "prod_Kind r = bind_Kind b"
      "used + length (print_json (json_product r)) \<le> 128 * 1024"
    and rest: "bound_records svc env g db project intent (used + length (print_json (json_product r))) bs = Inr (rs', [])"
    and rs: "rs = r # rs'"
    by (auto simp: Let_def split: sum.splits if_splits prod.splits)
  have "binding_of r = b" using r GetProductRecord_current [OF r(1)] by (simp add: binding_of_def)
  with Cons.IH [OF rest] GetProductRecord_current [OF r(1)] r(2,5) rs show ?case by (cases "rs' = []") auto
qed simp

text \<open>
  C32: A context that is reported ready is complete and exact: there is no open question or unconfirmed assumption, the records are, in order,
  exactly the bound versions of the intent's product and all of them are currently in force, every work-packet criterion has its
  packet bound by digest, admitted by the packet policy and executable locally, and the records fit in 128 KiB.
\<close>

theorem ready_intent_is_exact:
  assumes "IntentContext svc env g db i = Inr c" and "ctx_Ready c"
  shows "map binding_of (ctx_Records c) = is_Bindings (ctx_Specification c)
     \<and> (\<forall>r \<in> set (ctx_Records c). current_record env db (ici_ProjectID i) r)
     \<and> bind_RecordID (ctx_Intent c) = ici_IntentID i \<and> bind_SHA256 (ctx_Intent c) = ici_ExpectedSHA256 i
     \<and> is_Clarifications (ctx_Specification c) = [] \<and> list_all ia_Confirmed (is_Assumptions (ctx_Specification c))
     \<and> (\<forall>k \<in> set (is_Criteria (ctx_Specification c)). ic_Oracle k = ''work_packet'' \<longrightarrow>
          (\<exists>r \<in> set (ctx_Records c). \<exists>p. svc_DecodePacket svc (prod_Content r) = Some p \<and> prod_Kind r = ''test''
             \<and> Digest (prod_Content r) = ic_WorkPacketSHA256 k \<and> pkt_LocalOnly p \<and> ev_Allowed (Evaluate p)))
     \<and> sum_list (map (\<lambda>r. length (print_json (json_product r))) (ctx_Records c)) \<le> 128 * 1024"
proof -
  from assms(1) obtain intent spec records blocked where
    intent: "GetProductRecord svc env g db (ici_ProjectID i) (ici_IntentID i) True = Inr intent" "prod_SHA256 intent = ici_ExpectedSHA256 i"
    and bound: "bound_records svc env g db (ici_ProjectID i) intent (length (prod_Content intent)) (is_Bindings spec) = Inr (records, blocked)"
    and c: "ctx_Records c = records" "ctx_Specification c = spec" "ctx_Ready c = (ctx_Blockers c = [])"
      "bind_RecordID (ctx_Intent c) = prod_ID intent" "bind_SHA256 (ctx_Intent c) = prod_SHA256 intent"
      "ctx_Blockers c = map (\<lambda>q. ''Clarification required: '' @ q) (is_Clarifications spec)
         @ map (\<lambda>a. ''Unconfirmed assumption: '' @ ia_Statement a) (filter (\<lambda>a. \<not> ia_Confirmed a) (is_Assumptions spec))
         @ blocked @ packet_blockers svc records (is_Criteria spec)"
    by (auto simp: IntentContext_def Let_def split: sum.splits if_splits prod.splits)
  from assms(2) c have none: "is_Clarifications spec = []" "filter (\<lambda>a. \<not> ia_Confirmed a) (is_Assumptions spec) = []" "blocked = []"
      "packet_blockers svc records (is_Criteria spec) = []"
    by simp_all
  note exact = bound_records_exact [OF bound [unfolded none(3)]]
  have packets: "\<exists>r \<in> set records. \<exists>p. svc_DecodePacket svc (prod_Content r) = Some p \<and> prod_Kind r = ''test''
      \<and> Digest (prod_Content r) = ic_WorkPacketSHA256 k \<and> pkt_LocalOnly p \<and> ev_Allowed (Evaluate p)"
    if "k \<in> set (is_Criteria spec)" "ic_Oracle k = ''work_packet''" for k
  proof -
    from none(4) that have "list_ex (packet_admitted svc k) records" by (auto simp: packet_blockers_def filter_empty_conv)
    then obtain r where "r \<in> set records" "packet_admitted svc k r" by (auto simp: list_ex_iff)
    then show ?thesis by (auto simp: packet_admitted_def split: option.splits)
  qed
  have "sum_list (map (\<lambda>r. length (print_json (json_product r))) records) \<le> 128 * 1024"
    using exact by (cases "records = []") auto
  with exact packets none(1,2) c intent GetProductRecord_current [OF intent(1)] show ?thesis
    by (simp add: filter_empty_conv list_all_iff)
qed

section \<open>What a grant discloses\<close>

text \<open>
  C33: Under an execution's grant a record is disclosed only to the run's current actor, from the run's own project and product, and with a classification
  its target allows. A retained observation is disclosed only while its source is one the target names, for a purpose the target
  names, in a stage that queries sources, and only if every field of it is open to the reader's role.
\<close>

theorem granted_reads_are_scoped:
  assumes "GetProductRecord svc env (Some run) db project rid current = Inr r"
  shows "\<exists>p. env_ctx env = Some p \<and> p_ID p = run_Actor run \<and> project = er_ProjectID run \<and> prod_Product r = er_ProductID run
     \<and> prod_Classification r \<in> set (et_Classifications (er_Target run))
     \<and> (prod_Origin r = ''source_adapter'' \<longrightarrow>
          (\<exists>reg d e role. svc_Sources svc = Some reg \<and> Get reg (prod_Project r) (src_SourceID (prod_Source r)) = Some d
             \<and> sd_ID d \<in> set (et_Sources (er_Target run)) \<and> src_Purpose (prod_Source r) \<in> set (et_Purposes (er_Target run))
             \<and> er_Stage run \<in> {''diagnose'', ''verify_recovery''} \<and> HasRole p (prod_Project r) role \<and> role \<in> set (sd_Roles d)
             \<and> svc_DecodeEnvelope svc (prod_Content r) = Some e
             \<and> (\<forall>row \<in> set (se_Rows e). \<forall>field \<in> fst ` set row. allowedField d role field)))"
proof -
  from GetProductRecord_Ok(2) [OF assms] obtain p where p: "productAccess svc env (Some run) project rid ''read'' (prod_Classification r) = Inr p"
    by blast
  then have access: "env_ctx env = Some p" "project = er_ProjectID run" "p_ID p = run_Actor run"
      "prod_Classification r \<in> set (et_Classifications (er_Target run))"
    by (auto simp: productAccess_def RequirePrincipal_Ok split: sum.splits if_splits)
  have product: "prod_Product r = er_ProductID run" using GetProductRecord_Ok(4) [OF assms] by blast
  have observed: "\<exists>reg d e role. svc_Sources svc = Some reg \<and> Get reg (prod_Project r) (src_SourceID (prod_Source r)) = Some d
      \<and> sd_ID d \<in> set (et_Sources (er_Target run)) \<and> src_Purpose (prod_Source r) \<in> set (et_Purposes (er_Target run))
      \<and> er_Stage run \<in> {''diagnose'', ''verify_recovery''} \<and> HasRole p (prod_Project r) role \<and> role \<in> set (sd_Roles d)
      \<and> svc_DecodeEnvelope svc (prod_Content r) = Some e
      \<and> (\<forall>row \<in> set (se_Rows e). \<forall>field \<in> fst ` set row. allowedField d role field)" if "prod_Origin r = ''source_adapter''"
  proof -
    from GetProductRecord_Ok(3) [OF assms that] obtain reg d q role e where
      src: "svc_Sources svc = Some reg" "Get reg (prod_Project r) (src_SourceID (prod_Source r)) = Some d"
        "authorizeExecutionSource svc env (Some run) d ''read_observation'' (src_Purpose (prod_Source r)) = Inr q"
        "selectRole q (prod_Project r) (sd_Roles d) = Some role" "svc_DecodeEnvelope svc (prod_Content r) = Some e"
      and fields: "list_all (allowedField d role)
         (src_Fields (prod_Source r) @ map fst (src_Filters (prod_Source r)) @ concat (map (map fst) (se_Rows e)))"
      by (auto simp: authorizeRetainedObservation_def split: option.splits sum.splits if_splits)
    from src(3) have scope: "sd_ID d \<in> set (et_Sources (er_Target run))" "src_Purpose (prod_Source r) \<in> set (et_Purposes (er_Target run))"
        "er_Stage run \<in> {''diagnose'', ''verify_recovery''}" and "q = p"
      using access(1) by (auto simp: authorizeExecutionSource_def Let_def split: if_splits dest: AuthorizeProjectAction_Ok(1))
    moreover have "\<forall>row \<in> set (se_Rows e). \<forall>field \<in> fst ` set row. allowedField d role field"
      using fields by (auto simp: list_all_iff)
    ultimately show ?thesis using src selectRole_Some [OF src(4)] by blast
  qed
  from access product observed show ?thesis by blast
qed

section \<open>A concrete intent\<close>

definition ip_sha :: string where
  "ip_sha = replicate 64 (CHR ''a'')"

definition ip_row :: "string \<Rightarrow> string \<Rightarrow> product_row" where
  "ip_row rid kind = \<lparr>prod_ID = rid, prod_Project = ''p'', prod_Product = ''q'', prod_Key = rid, prod_Kind = kind, prod_Version = 1,
     prod_Title = ''t'', prod_Content = ''c'', prod_Classification = ''internal'', prod_Origin = ''proposal'', prod_Status = ''pending'',
     prod_Owner = ''o'', prod_Actor = ''o'',
     prod_Source = \<lparr>src_SourceID = ''s'', src_Revision = ''r'', src_SchemaVersion = ''v'', src_ReceiptID = [], src_Start = None,
       src_End = None, src_Watermark = None, src_CollectedAt = None, src_Snapshot = [], src_Offsets = [], src_Complete = False,
       src_Purpose = [], src_Fields = [], src_Filters = [], src_RowLimit = 0\<rparr>,
     prod_SHA256 = ip_sha, prod_Evidence = zero_artifact, prod_CreatedAt = utc 0, prod_ExpiresAt = None, prod_Code = None\<rparr>"

definition ip_db :: product_db where
  "ip_db = \<lparr>x_principals = [], x_credentials = [], x_roles = [], x_products = [ip_row ''i'' ''intent'', ip_row ''b'' ''brs''],
     x_heads = map (\<lambda>k. \<lparr>head_Project = ''p'', head_Product = ''q'', head_Key = k, head_Record = k\<rparr>) [''i'', ''b''],
     x_decisions = map (\<lambda>k. \<lparr>dcs_Record = k, dcs_Decision = ''accept'', dcs_Actor = ''o'', dcs_Validation = Some k, dcs_Reason = ''r'',
       dcs_Key = ''k'', dcs_SHA256 = [], dcs_DecidedAt = 0\<rparr>) [''i'', ''b''],
     x_validations = map (\<lambda>k. \<lparr>val_ID = k, val_Project = ''p'', val_Record = k, val_SHA256 = ip_sha, val_Actor = ''o'',
       val_Method = ''human_attestation'', val_Evidence = [], val_ValidUntil = 1\<rparr>) [''i'', ''b''],
     x_relations = [], x_blobs = [], x_receipts = [], x_evaluations = []\<rparr>"

definition ip_oracle :: reconciliation_oracle where
  "ip_oracle = \<lparr>ro_LeftSourceID = ''s'', ro_RightSourceID = ''t'', ro_LeftSchemaVersion = ''v'', ro_RightSchemaVersion = ''v'',
     ro_JoinField = ''event_id'', ro_ValueField = ''x'', ro_ExpectedRightValue = ''u'', ro_MaxWindowSeconds = 60\<rparr>"

definition ip_spec :: intent_specification where
  "ip_spec = \<lparr>is_Schema = ''hybrid-ai/sdlc-intent/v1'', is_Goal = ''g'', is_Stage = ''diagnose'',
     is_Bindings = [\<lparr>bind_RecordID = ''b'', bind_SHA256 = ip_sha, bind_Kind = ''brs''\<rparr>],
     is_Criteria = [\<lparr>ic_ID = ''c'', ic_Statement = ''s'', ic_Oracle = ''observation_reconciliation'', ic_WorkPacketSHA256 = [],
       ic_Reconciliation = Some ip_oracle\<rparr>],
     is_Assumptions = [], is_Clarifications = []\<rparr>"

definition ip_service :: product_service where
  "ip_service = \<lparr>svc_Authorizer = Some (\<lambda>_. Inr \<lparr>dec_Allowed = True, dec_CallID = [], dec_PolicyVersion = []\<rparr>), svc_Sources = None,
     svc_DecodeIntent = \<lambda>_. Inr ip_spec, svc_DecodeEnvelope = \<lambda>_. None, svc_DecodePacket = \<lambda>_. None, svc_DecodeCode = \<lambda>_. None\<rparr>"

definition ip_principal :: principal where
  "ip_principal = \<lparr>p_ID = ''o'', p_DisplayName = ''o'', p_Human = True, p_RoleBindings = [(''p'', [''operations''])], p_CredentialID = ''c'',
     p_Delegation = None\<rparr>"

definition ip_env :: call_env where
  "ip_env = \<lparr>env_ctx = Some ip_principal, env_clock = \<lambda>_. 0, env_db_now = 0, env_id = \<lambda>_. []\<rparr>"

lemma ip_access: "rid \<in> {''i'', ''b''} \<Longrightarrow> productAccess ip_service ip_env None ''p'' rid ''read'' ''internal'' = Inr ip_principal"
  by (auto simp: productAccess_def AuthorizeProjectAction_def authorizeUntraced_def RequirePrincipal_def PrincipalFromContext_def
      ip_service_def ip_env_def ip_principal_def plain_char_def HasRole_iff Let_def)

lemma ip_eligible:
  "product_record_eligible 0 ip_db (ip_row ''i'' ''intent'')" "product_record_eligible 0 ip_db (ip_row ''b'' ''brs'')"
  by (simp_all add: product_record_eligible_def decision_counts_def ip_db_def ip_row_def)

lemma ip_scan: "prod_Classification (ip_row rid kind) = ''internal''" "prod_Origin (ip_row rid kind) \<noteq> ''source_adapter''"
  "prod_Content (ip_row rid kind) = ''c''" "prod_Kind (ip_row rid kind) = kind" "prod_SHA256 (ip_row rid kind) = ip_sha"
  "prod_Product (ip_row rid kind) = ''q''" "prod_ID (ip_row rid kind) = rid"
  by (simp_all add: ip_row_def)

lemma ip_get:
  "GetProductRecord ip_service ip_env None ip_db ''p'' ''i'' True = Inr (scanProduct ip_db (ip_row ''i'' ''intent''))"
  "GetProductRecord ip_service ip_env None ip_db ''p'' ''b'' True = Inr (scanProduct ip_db (ip_row ''b'' ''brs''))"
proof -
  have rows: "record_row ip_db ''p'' ''i'' = Some (ip_row ''i'' ''intent'')" "record_row ip_db ''p'' ''b'' = Some (ip_row ''b'' ''brs'')"
    by (simp_all add: record_row_def ip_db_def ip_row_def)
  have now: "env_db_now ip_env = 0" by (simp add: ip_env_def)
  show "GetProductRecord ip_service ip_env None ip_db ''p'' ''i'' True = Inr (scanProduct ip_db (ip_row ''i'' ''intent''))"
    "GetProductRecord ip_service ip_env None ip_db ''p'' ''b'' True = Inr (scanProduct ip_db (ip_row ''b'' ''brs''))"
    using rows now ip_eligible ip_access by (simp_all add: GetProductRecord_def repo_GetProductRecord_def ip_scan)
qed

lemma ip_small: "length (print_json (json_product (scanProduct ip_db (ip_row ''b'' ''brs'')))) < 2000"
  by code_simp

lemma ip_parse: "ParseIntent (svc_DecodeIntent ip_service) ''c'' = Inr ip_spec"
  by (simp add: ParseIntent_def ip_service_def intent_Validate_def ip_spec_def boundedText_def plain_char_def sdlc_stages_def
      pattern_simps ip_sha_def validate_oracle_def ip_oracle_def oracle_bounds_def list_all_iff)

definition ip_input :: intent_context_input where
  "ip_input = \<lparr>ici_ProjectID = ''p'', ici_IntentID = ''i'', ici_ExpectedSHA256 = ip_sha\<rparr>"

definition ip_context :: intent_context where
  "ip_context = \<lparr>ctx_Intent = \<lparr>bind_RecordID = ''i'', bind_SHA256 = ip_sha, bind_Kind = ''intent''\<rparr>, ctx_Specification = ip_spec,
     ctx_Records = [scanProduct ip_db (ip_row ''b'' ''brs'')], ctx_Ready = True, ctx_Blockers = []\<rparr>"

lemma ip_ready: "IntentContext ip_service ip_env None ip_db ip_input = Inr ip_context"
proof -
  have bound: "bound_records ip_service ip_env None ip_db ''p'' (scanProduct ip_db (ip_row ''i'' ''intent'')) (length ''c'') (is_Bindings ip_spec)
      = Inr ([scanProduct ip_db (ip_row ''b'' ''brs'')], [])"
    using ip_get(2) ip_small by (simp add: ip_spec_def ip_scan Let_def)
  have open_items: "is_Clarifications ip_spec = []" "is_Assumptions ip_spec = []"
      "packet_blockers ip_service [scanProduct ip_db (ip_row ''b'' ''brs'')] (is_Criteria ip_spec) = []"
    by (simp_all add: ip_spec_def packet_blockers_def)
  show ?thesis
    using ip_get(1) ip_parse bound open_items by (simp add: IntentContext_def ip_input_def ip_scan ip_context_def Let_def)
qed

theorem ready_intent_is_exact_witness:
  "IntentContext ip_service ip_env None ip_db ip_input = Inr ip_context \<and> ctx_Ready ip_context
   \<and> map binding_of (ctx_Records ip_context) = is_Bindings ip_spec"
proof -
  have ready: "ctx_Ready ip_context" and spec: "ctx_Specification ip_context = ip_spec" by (simp_all add: ip_context_def)
  from ready_intent_is_exact [OF ip_ready ready] ip_ready ready spec show ?thesis by simp
qed

text \<open>A run whose actor reads a record of its product.\<close>

definition ip_run :: execution_run where
  "ip_run = \<lparr>er_Schema = [], er_ID = ''r'', er_ProjectID = ''p'', er_ProductID = ''q'', er_Kind = ''incident'', er_RepositoryRevision = [],
     er_Intent = \<lparr>bind_RecordID = ''i'', bind_SHA256 = ip_sha, bind_Kind = ''intent''\<rparr>, er_Bindings = [], er_Owner = ''o'', er_OwnerCredential = ''c'',
     er_Target = \<lparr>et_ID = ''t'', et_ProjectID = ''p'', et_ProductID = ''q'', et_Environment = ''disposable'', et_RepositoryID = ''g'',
       et_Participants = [(''sdlc_diagnosis'', ''o'')], et_Packages = [], et_Sources = [], et_Purposes = [], et_Classifications = [''internal''],
       et_Budget = \<lparr>eb_MaxAttempts = 1, eb_MaxModelCalls = 1, eb_MaxTokens = 128, eb_MaxSourceQueries = 0, eb_MaxSourceRows = 0,
         eb_MaxSeconds = 30, eb_MaxConcurrentRuns = 1\<rparr>,
       et_ProtectedPaths = [], et_AllowedRemedies = [], et_DeliverySHA256 = [], et_RemediationSHA256 = [], et_ObservationSeconds = 0,
       et_Qualification = True\<rparr>,
     er_Packages = [], er_Status = ''running'', er_Stage = ''diagnose'', er_Version = 1, er_StepNumber = 1, er_Usage = zero_usage,
     er_Blockers = [], er_CreatedAt = 0, er_Deadline = 1, er_UpdatedAt = 0, er_IdempotencyKey = ''k'', er_RequestSHA256 = []\<rparr>"

theorem granted_reads_are_scoped_witness:
  "\<exists>r. GetProductRecord ip_service ip_env (Some ip_run) ip_db ''p'' ''b'' True = Inr r
     \<and> prod_Product r = ''q'' \<and> prod_Classification r \<in> set (et_Classifications (er_Target ip_run))"
proof -
  have access: "productAccess ip_service ip_env (Some ip_run) ''p'' ''b'' ''read'' ''internal'' = Inr ip_principal"
    by (simp add: productAccess_def RequirePrincipal_def PrincipalFromContext_def ip_env_def ip_principal_def ip_run_def run_Actor_def
        ExecutionRole_def)
  have row: "record_row ip_db ''p'' ''b'' = Some (ip_row ''b'' ''brs'')" by (simp add: record_row_def ip_db_def ip_row_def)
  have run: "er_ProductID ip_run = ''q''" "env_db_now ip_env = 0" by (simp_all add: ip_run_def ip_env_def)
  have get: "GetProductRecord ip_service ip_env (Some ip_run) ip_db ''p'' ''b'' True = Inr (scanProduct ip_db (ip_row ''b'' ''brs''))"
    using access row ip_eligible run by (simp add: GetProductRecord_def repo_GetProductRecord_def ip_scan)
  from granted_reads_are_scoped [OF get] get run(1) show ?thesis by auto
qed

end
