(* ===== verification/Evidence.thy ===== *)
theory Evidence
  imports ProductService ExecStore
begin

text \<open>
  The evidence an execution collects: source receipts with their observations (\<open>src/internal/postgres/source.go\<close>,
  \<open>QueryProductSource\<close> of \<open>src/internal/service/source.go\<close>) and stored evaluations of them
  (\<open>src/internal/postgres/product_evaluation.go\<close>, \<open>src/internal/service/product_evaluation.go\<close>). Both are written under the
  lease the request context carries when the caller works for an execution
  (\<open>src/internal/postgres/execution_source.go\<close>). The reads of a service call are of one database state, \<open>seen\<close>, and its
  transaction finds the state \<open>db\<close>.
\<close>

section \<open>The store\<close>

definition requireExecutionSourceActor ::
  "call_env \<Rightarrow> execution_lease option \<Rightarrow> exec_db \<Rightarrow> string \<Rightarrow> string \<Rightarrow> string \<Rightarrow> string \<Rightarrow> go_error option" where
  "requireExecutionSourceActor env lease db actor project product querySHA =
     (case lease of
        None \<Rightarrow> if requireProductActor env db actor project [''operations'', ''incident_diagnosis''] then None else Some ErrForbidden
      | Some l \<Rightarrow>
          (case checkExecutionLease env db l actor of
             Inl e \<Rightarrow> Some e
           | Inr (run, row) \<Rightarrow>
               if er_ProjectID run \<noteq> project \<or> er_ProductID run \<noteq> product \<or> er_Stage run \<notin> set [''diagnose'', ''verify_recovery'']
                 then Some ErrForbidden
               else if querySHA \<noteq> [] \<and> \<not> list_ex (\<lambda>v. rv_StepID v = step_id row \<and> rv_SHA256 v = querySHA) (x_reservations db)
                 then Some ErrBudgetExhausted
               else None))"

definition repo_GetSourceReceipt :: "('a product_db_scheme) \<Rightarrow> string \<Rightarrow> string \<Rightarrow> string \<Rightarrow> string \<Rightarrow> source_receipt option" where
  "repo_GetSourceReceipt db project source actor key =
     find (\<lambda>r. rc_ProjectID r = project \<and> rc_SourceID r = source \<and> rc_Actor r = actor \<and> rc_IdempotencyKey r = key) (x_receipts db)"

definition receipt_marshals :: "source_receipt \<Rightarrow> bool" where
  "receipt_marshals r \<longleftrightarrow> time_marshals (utc (rc_CollectedAt r))
     \<and> list_all opt_marshals [src_Start (rc_Source r), src_End (rc_Source r), src_Watermark (rc_Source r), src_CollectedAt (rc_Source r)]"

definition insert_receipt :: "exec_db \<Rightarrow> source_receipt \<Rightarrow> exec_db result" where
  "insert_receipt db r =
     (if \<not> receipt_marshals r then Err (ErrMessage ''json: error calling MarshalJSON for type time.Time'')
      else if find_row rc_ID (rc_ID r) (x_receipts db) \<noteq> None
         \<or> repo_GetSourceReceipt db (rc_ProjectID r) (rc_SourceID r) (rc_Actor r) (rc_IdempotencyKey r) \<noteq> None
        then Err ErrDatabase
      else Ok (db\<lparr>x_receipts := x_receipts db @ [r]\<rparr>))"

definition observation_of :: "source_receipt \<Rightarrow> product_record \<Rightarrow> bool" where
  "observation_of receipt r \<longleftrightarrow> prod_ID r = rc_RecordID receipt \<and> prod_Project r = rc_ProjectID receipt \<and> prod_Product r = rc_ProductID receipt
     \<and> prod_Actor r = rc_Actor receipt \<and> src_ReceiptID (prod_Source r) = rc_ID receipt \<and> prod_Evidence r = rc_Evidence receipt"

definition RecordSourceObservation ::
  "call_env \<Rightarrow> execution_lease option \<Rightarrow> exec_db \<Rightarrow> source_receipt \<Rightarrow> product_record option \<Rightarrow> unit result \<times> exec_db" where
  "RecordSourceObservation env lease db receipt record =
     (case requireExecutionSourceActor env lease db (rc_Actor receipt) (rc_ProjectID receipt) (rc_ProductID receipt) (rc_QuerySHA256 receipt) of
        Some e \<Rightarrow> (Err e, db)
      | None \<Rightarrow>
          if \<not> requireDatabaseHumanRole env db (rc_Owner receipt) (rc_ProjectID receipt) ''operations''
            then (Err (ErrMessage ''forbidden: active human role required''), db)
          else if rc_ID receipt = [] \<or> rc_QuerySHA256 receipt = [] \<or> rc_DescriptorSHA256 receipt = [] \<or> rc_IdempotencyKey receipt = []
            then (Err ErrValidationRequired, db)
          else if (rc_Status receipt = ''complete'' \<or> rc_Status receipt = ''partial'') \<noteq> (record \<noteq> None)
            then (Err ErrValidationRequired, db)
          else (case (case record of
                        None \<Rightarrow> Ok db
                      | Some r \<Rightarrow> if observation_of receipt r then insert_observation db r else Err ErrValidationRequired) of
              Inl e \<Rightarrow> (Err e, db)
            | Inr db1 \<Rightarrow> (case insert_receipt db1 receipt of Inl e \<Rightarrow> (Err e, db) | Inr db2 \<Rightarrow> (Ok (), db2))))"

definition repo_GetProductEvaluation :: "('a product_db_scheme) \<Rightarrow> string \<Rightarrow> string \<Rightarrow> observation_evaluation result" where
  "repo_GetProductEvaluation db project eid =
     (case find (\<lambda>e. oe_ProjectID e = project \<and> oe_ID e = eid) (x_evaluations db) of None \<Rightarrow> Err ErrQualityBlocked | Some e \<Rightarrow> Ok e)"

definition evaluation_bound :: "call_env \<Rightarrow> exec_db \<Rightarrow> observation_evaluation \<Rightarrow> product_binding \<Rightarrow> bool" where
  "evaluation_bound env db ev b =
     list_ex (\<lambda>r. prod_ID r = bind_RecordID b \<and> prod_Project r = oe_ProjectID ev \<and> prod_Product r = oe_ProductID ev
        \<and> prod_SHA256 r = bind_SHA256 b \<and> prod_Kind r = bind_Kind b \<and> product_record_eligible (env_db_now env) db r) (x_products db)"

definition same_request :: "observation_evaluation \<Rightarrow> observation_evaluation \<Rightarrow> bool" where
  "same_request a b \<longleftrightarrow> oe_ProjectID a = oe_ProjectID b \<and> oe_Actor a = oe_Actor b \<and> oe_RequestSHA256 a = oe_RequestSHA256 b"

definition RecordProductEvaluation ::
  "call_env \<Rightarrow> execution_lease option \<Rightarrow> exec_db \<Rightarrow> observation_evaluation \<Rightarrow> observation_evaluation result \<times> exec_db" where
  "RecordProductEvaluation env lease db ev =
     (case requireExecutionSourceActor env lease db (oe_Actor ev) (oe_ProjectID ev) (oe_ProductID ev) [] of
        Some e \<Rightarrow> (Err e, db)
      | None \<Rightarrow>
          if oc_Method ev \<noteq> ''hybrid-ai/observation-reconciliation/v1'' \<or> oc_Outcome ev \<notin> set [''satisfied'', ''violated'', ''inconclusive'']
            then (Err ErrValidationRequired, db)
          else if \<not> list_all (evaluation_bound env db ev) [oe_Intent ev, oe_Left ev, oe_Right ev] then (Err ErrQualityBlocked, db)
          else if \<not> time_marshals (utc (oe_CreatedAt ev))
            then (Err (ErrMessage ''json: error calling MarshalJSON for type time.Time''), db)
          else
            let db1 = db\<lparr>x_blobs := saveProductArtifact (oe_Evidence ev) (x_blobs db)\<rparr>
            in (case find (same_request ev) (x_evaluations db) of
                  Some old \<Rightarrow> (Ok old, db1)
                | None \<Rightarrow>
                    if find_row oe_ID (oe_ID ev) (x_evaluations db) \<noteq> None then (Err ErrDatabase, db)
                    else (Ok ev, db1\<lparr>x_evaluations := x_evaluations db @ [ev]\<rparr>)))"

section \<open>The service\<close>

text \<open>
  The service knows the host the sources are reached through and how an accepted envelope, whose row values are raw texts,
  is written back.
\<close>

record evidence_service = product_service +
  svc_Host :: source_host
  svc_EncodeEnvelope :: "source_envelope \<Rightarrow> string option"

definition ProductSources ::
  "('s product_service_scheme) \<Rightarrow> call_env \<Rightarrow> grant \<Rightarrow> string \<Rightarrow> source_descriptor list result" where
  "ProductSources svc env g project =
     (case productAccess svc env g project ''sources'' ''read'' ''internal'' of
        Inl e \<Rightarrow> Err e
      | Inr p \<Rightarrow>
          (case svc_Sources svc of
             None \<Rightarrow> Ok []
           | Some reg \<Rightarrow> Ok (filter (\<lambda>d. list_ex (HasRole p project) (sd_Roles d)) (List reg project))))"

definition json_descriptor :: "source_descriptor \<Rightarrow> json" where
  "json_descriptor d = JObject (
     [(''id'', JString (sd_ID d)), (''project_id'', JString (sd_ProjectID d)), (''product_id'', JString (sd_ProductID d)),
      (''kind'', JString (sd_Kind d)), (''endpoint'', JString (sd_Endpoint d))] @ omit_empty ''token_file'' (sd_TokenFile d)
     @ [(''schema_version'', JString (sd_SchemaVersion d))] @ omit_empty ''adapter_sha256'' (sd_AdapterSHA256 d)
     @ [(''classification'', JString (sd_Classification d)), (''owner'', JString (sd_Owner d)), (''roles'', json_strings (sd_Roles d)),
        (''purposes'', json_strings (sd_Purposes d)), (''fields'', json_map (map (\<lambda>(k, v). (k, JString v)) (sd_Fields d)))]
     @ (if sd_FieldsByRole d = [] then [] else [(''fields_by_role'', json_map (map (\<lambda>(k, v). (k, json_strings v)) (sd_FieldsByRole d)))])
     @ [(''filters'', json_strings (sd_Filters d)), (''max_rows'', JInt (sd_MaxRows d)), (''max_bytes'', JInt (sd_MaxBytes d)),
        (''timeout_seconds'', JInt (sd_TimeoutSeconds d)), (''max_window_seconds'', JInt (sd_MaxWindowSeconds d)),
        (''retention_seconds'', JInt (sd_RetentionSeconds d))]
     @ (if sd_AllowLoopbackHTTP d then [(''allow_loopback_http'', JBool True)] else []))"

definition descriptor_Digest :: "source_descriptor \<Rightarrow> string" where
  "descriptor_Digest d = Digest (print_json (json_descriptor d))"

definition fields_permitted :: "source_descriptor \<Rightarrow> string \<Rightarrow> source_query \<Rightarrow> bool" where
  "fields_permitted d role q \<longleftrightarrow> sd_FieldsByRole d = []
     \<or> (case map_of (sd_FieldsByRole d) role of
          None \<Rightarrow> False
        | Some allowed \<Rightarrow> list_all (\<lambda>f. f \<in> set allowed) (sq_Fields q) \<and> list_all (\<lambda>(f, _). f \<in> set allowed) (sq_Filters q))"

definition no_source :: product_source_ref where
  "no_source = \<lparr>src_SourceID = [], src_Revision = [], src_SchemaVersion = [], src_ReceiptID = [], src_Start = None, src_End = None,
     src_Watermark = None, src_CollectedAt = None, src_Snapshot = [], src_Offsets = [], src_Complete = False, src_Purpose = [],
     src_Fields = [], src_Filters = [], src_RowLimit = 0\<rparr>"

text \<open>The receipt before the source was asked, of a failed query, and of an answer.\<close>

definition open_receipt :: "call_env \<Rightarrow> principal \<Rightarrow> string \<Rightarrow> source_descriptor \<Rightarrow> source_query \<Rightarrow> source_receipt" where
  "open_receipt env p role d q =
     \<lparr>rc_ID = env_id env 0, rc_ProjectID = sq_ProjectID q, rc_ProductID = sq_ProductID q, rc_SourceID = sd_ID d, rc_Actor = p_ID p,
      rc_Role = role, rc_Owner = sd_Owner d, rc_Purpose = sq_Purpose q, rc_QuerySHA256 = query_Digest q,
      rc_DescriptorSHA256 = descriptor_Digest d, rc_IdempotencyKey = sq_IdempotencyKey q, rc_Status = [], rc_Reason = [],
      rc_CollectedAt = env_clock env 3, rc_Source = no_source, rc_Evidence = zero_artifact, rc_RecordID = []\<rparr>"

definition failed_receipt :: "source_receipt \<Rightarrow> source_receipt" where
  "failed_receipt r = r\<lparr>rc_Status := ''failed'',
     rc_Reason := ''source request or schema/coverage validation failed; no observation retained''\<rparr>"

definition answered_receipt :: "source_receipt \<Rightarrow> source_descriptor \<Rightarrow> source_query \<Rightarrow> source_envelope \<Rightarrow> source_receipt" where
  "answered_receipt r d q e =
     r\<lparr>rc_Status := (if se_Complete e then ''complete'' else ''partial''),
       rc_Reason := (if se_Complete e then []
         else ''coverage is incomplete; missing events or metrics cannot be treated as zero or absent''),
       rc_Source := \<lparr>src_SourceID = sd_ID d, src_Revision = se_Revision e, src_SchemaVersion = se_SchemaVersion e, src_ReceiptID = rc_ID r,
         src_Start = Some (se_Start e), src_End = Some (se_End e), src_Watermark = Some (se_Watermark e),
         src_CollectedAt = Some (utc (rc_CollectedAt r)), src_Snapshot = se_Snapshot e, src_Offsets = se_Offsets e,
         src_Complete = se_Complete e, src_Purpose = sq_Purpose q, src_Fields = sq_Fields q, src_Filters = sq_Filters q,
         src_RowLimit = sq_Limit q\<rparr>\<rparr>"

definition observed_record :: "source_receipt \<Rightarrow> source_descriptor \<Rightarrow> string \<Rightarrow> product_record" where
  "observed_record r d content =
     (let draft = \<lparr>prod_ID = rc_RecordID r, prod_Project = rc_ProjectID r, prod_Product = rc_ProductID r,
            prod_Key = ''observation:'' @ rc_ID r, prod_Kind = ''observation'', prod_Version = 1,
            prod_Title = sd_Kind d @ '' observation from '' @ sd_ID d, prod_Content = content, prod_Classification = sd_Classification d,
            prod_Origin = ''source_adapter'', prod_Status = ''observed'', prod_Owner = sd_Owner d, prod_Actor = rc_Actor r,
            prod_Source = rc_Source r, prod_SHA256 = [], prod_Evidence = rc_Evidence r, prod_CreatedAt = utc (rc_CollectedAt r),
            prod_ExpiresAt = Some (utc (rc_CollectedAt r + seconds (sd_RetentionSeconds d)))\<rparr>
      in draft\<lparr>prod_SHA256 := product_Digest draft\<rparr>)"

text \<open>
  The query itself, once the caller may make it and no receipt of it exists: the source is asked, and what it
  answers is stored with its receipt; a failure leaves a receipt without an observation.
\<close>

definition collect_source ::
  "('s evidence_service_scheme) \<Rightarrow> call_env \<Rightarrow> execution_lease option \<Rightarrow> local_store \<Rightarrow> exec_db \<Rightarrow> source_descriptor \<Rightarrow> source_query
     \<Rightarrow> source_receipt \<Rightarrow> source_receipt result \<times> local_store \<times> exec_db" where
  "collect_source svc env lease st db d q out =
     (case Query (svc_Host svc) (env\<lparr>env_clock := \<lambda>n. env_clock env (n + 1)\<rparr>) d q of
        Inl _ \<Rightarrow>
          (case RecordSourceObservation (sub_env 1 env) lease db (failed_receipt out) None of
             (Inl e, db') \<Rightarrow> (Err e, st, db')
           | (Inr _, db') \<Rightarrow> (Err (ErrMessage (''source collection failed; receipt '' @ rc_ID out)), st, db'))
      | Inr e \<Rightarrow>
          (case svc_EncodeEnvelope svc e of
             None \<Rightarrow> (Err (ErrMessage ''json: error calling MarshalJSON for type time.Time''), st, db)
           | Some raw \<Rightarrow>
               (case Put st raw ''application/json'' of
                  (Inl x, st') \<Rightarrow> (Err x, st', db)
                | (Inr a, st') \<Rightarrow>
                    let receipt = (answered_receipt out d q e)\<lparr>rc_Evidence := a, rc_RecordID := env_id env 1\<rparr>
                    in (case RecordSourceObservation (sub_env 1 env) lease db receipt (Some (observed_record receipt d raw)) of
                          (Inl x, db') \<Rightarrow> (Err x, st', db') | (Inr _, db') \<Rightarrow> (Ok receipt, st', db')))))"

definition QueryProductSource ::
  "('s evidence_service_scheme) \<Rightarrow> call_env \<Rightarrow> grant \<Rightarrow> execution_lease option \<Rightarrow> local_store \<Rightarrow> exec_db \<Rightarrow> exec_db \<Rightarrow> source_query
     \<Rightarrow> source_receipt result \<times> local_store \<times> exec_db" where
  "QueryProductSource svc env g lease st seen db q =
     (case RequirePrincipal (env_ctx env) of
        Inl e \<Rightarrow> (Err e, st, db)
      | Inr p \<Rightarrow>
          (case svc_Sources svc of
             None \<Rightarrow> (Err ErrEvidenceUnavailable, st, db)
           | Some reg \<Rightarrow>
               (case Get reg (sq_ProjectID q) (sq_SourceID q) of
                  None \<Rightarrow> (Err ErrForbidden, st, db)
                | Some d \<Rightarrow>
                    (case authorizeExecutionSource svc env g d ''query'' (sq_Purpose q) of
                       Inl e \<Rightarrow> (Err e, st, db)
                     | Inr _ \<Rightarrow>
                         (case selectRole p (sq_ProjectID q) (sd_Roles d) of
                            None \<Rightarrow> (Err ErrForbidden, st, db)
                          | Some role \<Rightarrow>
                              (case ValidateQuery (env_clock env 0) d q of
                                 Some e \<Rightarrow> (Err e, st, db)
                               | None \<Rightarrow>
                                   if \<not> fields_permitted d role q
                                      \<or> role \<notin> set [''operations'', ''incident_diagnosis'', ''sdlc_diagnosis'', ''sdlc_evaluator'']
                                     then (Err ErrForbidden, st, db)
                                   else (case repo_GetSourceReceipt seen (sq_ProjectID q) (sq_SourceID q) (p_ID p) (sq_IdempotencyKey q) of
                                       None \<Rightarrow> collect_source svc env lease st db d q (open_receipt env p role d q)
                                     | Some prior \<Rightarrow>
                                         if rc_QuerySHA256 prior \<noteq> query_Digest q \<or> rc_DescriptorSHA256 prior \<noteq> descriptor_Digest d
                                           then (Err ErrVersionConflict, st, db)
                                         else if rc_RecordID prior = [] then (Ok prior, st, db)
                                         else (case GetProductRecord svc env g seen (sq_ProjectID q) (rc_RecordID prior) True of
                                             Inl e \<Rightarrow> (Err e, st, db) | Inr _ \<Rightarrow> (Ok prior, st, db)))))))))"

section \<open>Evaluations\<close>

definition json_evaluation :: "observation_evaluation \<Rightarrow> json" where
  "json_evaluation e = JObject
     [(''id'', JString (oe_ID e)), (''project_id'', JString (oe_ProjectID e)), (''product_id'', JString (oe_ProductID e)),
      (''actor'', JString (oe_Actor e)), (''owner'', JString (oe_Owner e)), (''intent'', json_binding (oe_Intent e)),
      (''criterion_id'', JString (oe_CriterionID e)), (''left'', json_binding (oe_Left e)), (''right'', json_binding (oe_Right e)),
      (''request_sha256'', JString (oe_RequestSHA256 e)), (''method'', JString (oc_Method e)), (''outcome'', JString (oc_Outcome e)),
      (''matched'', JInt (oc_Matched e)), (''missing'', JInt (oc_Missing e)), (''mismatched'', JInt (oc_Mismatched e)),
      (''reasons'', json_strings (oc_Reasons e)), (''created_at'', json_time (utc (oe_CreatedAt e))),
      (''evidence'', json_artifact (oe_Evidence e))]"

record compare_input =
  cmp_ProjectID :: string
  cmp_IntentID :: string
  cmp_ExpectedSHA256 :: string
  cmp_CriterionID :: string
  cmp_LeftRecordID :: string
  cmp_RightRecordID :: string

definition binding :: "product_record \<Rightarrow> product_binding" where
  "binding r = \<lparr>bind_RecordID = prod_ID r, bind_SHA256 = prod_SHA256 r, bind_Kind = prod_Kind r\<rparr>"

text \<open>The rule of the criterion: the loop keeps the last match.\<close>

definition reconciliation_rule :: "intent_specification \<Rightarrow> string \<Rightarrow> reconciliation_oracle option" where
  "reconciliation_rule spec cid =
     (case rev (filter (\<lambda>c. ic_ID c = cid \<and> ic_Oracle c = ''observation_reconciliation'') (is_Criteria spec)) of
        [] \<Rightarrow> None | c # _ \<Rightarrow> ic_Reconciliation c)"

definition evaluation_of ::
  "call_env \<Rightarrow> principal \<Rightarrow> compare_input \<Rightarrow> product_binding \<Rightarrow> product_record \<Rightarrow> product_record \<Rightarrow> product_record
     \<Rightarrow> observation_comparison \<Rightarrow> observation_evaluation" where
  "evaluation_of env p i intentBinding intent left right c =
     observation_comparison.extend c
       \<lparr>oe_ID = env_id env 0, oe_ProjectID = cmp_ProjectID i, oe_ProductID = prod_Product intent, oe_Actor = p_ID p, oe_Owner = prod_Owner intent,
        oe_Intent = intentBinding, oe_CriterionID = cmp_CriterionID i, oe_Left = binding left, oe_Right = binding right,
        oe_RequestSHA256 = Digest (print_json (JArray [json_binding intentBinding, JString (cmp_CriterionID i), json_binding (binding left),
          json_binding (binding right), JString (oc_Method c)])),
        oe_CreatedAt = env_clock env 0, oe_Evidence = zero_artifact\<rparr>"

definition CompareProductObservations ::
  "('s product_service_scheme) \<Rightarrow> call_env \<Rightarrow> grant \<Rightarrow> execution_lease option \<Rightarrow> local_store \<Rightarrow> exec_db \<Rightarrow> exec_db \<Rightarrow> compare_input
     \<Rightarrow> observation_evaluation result \<times> local_store \<times> exec_db" where
  "CompareProductObservations svc env g lease st seen db i =
     (case productAccess svc env g (cmp_ProjectID i) (cmp_IntentID i) ''read'' ''internal'' of
        Inl e \<Rightarrow> (Err e, st, db)
      | Inr p \<Rightarrow>
          (case IntentContext svc env g seen \<lparr>ici_ProjectID = cmp_ProjectID i, ici_IntentID = cmp_IntentID i, ici_ExpectedSHA256 = cmp_ExpectedSHA256 i\<rparr> of
             Inl e \<Rightarrow> (Err e, st, db)
           | Inr prepared \<Rightarrow>
               if \<not> ctx_Ready prepared then (Err ErrQualityBlocked, st, db)
               else (case reconciliation_rule (ctx_Specification prepared) (cmp_CriterionID i) of
                   None \<Rightarrow> (Err ErrInvalidInput, st, db)
                 | Some rule \<Rightarrow>
                     let fetch = (\<lambda>rid. GetProductRecord svc env g seen (cmp_ProjectID i) rid True) in
                     (case fetch (cmp_LeftRecordID i) of
                        Inl e \<Rightarrow> (Err e, st, db)
                      | Inr left \<Rightarrow> (case fetch (cmp_RightRecordID i) of
                          Inl e \<Rightarrow> (Err e, st, db)
                        | Inr right \<Rightarrow> (case fetch (cmp_IntentID i) of
                            Inl e \<Rightarrow> (Err e, st, db)
                          | Inr intent \<Rightarrow>
                              if prod_Origin left \<noteq> ''source_adapter'' \<or> prod_Origin right \<noteq> ''source_adapter''
                                 \<or> prod_Product left \<noteq> prod_Product intent \<or> prod_Product right \<noteq> prod_Product intent
                                 \<or> src_SourceID (prod_Source left) \<noteq> ro_LeftSourceID rule \<or> src_SourceID (prod_Source right) \<noteq> ro_RightSourceID rule
                                then (Err ErrForbidden, st, db)
                              else if src_Filters (prod_Source left) \<noteq> [] \<or> src_Filters (prod_Source right) \<noteq> []
                                 \<or> src_Purpose (prod_Source left) \<noteq> src_Purpose (prod_Source right)
                                then (Err ErrQualityBlocked, st, db)
                              else (case (svc_DecodeEnvelope svc (prod_Content left), svc_DecodeEnvelope svc (prod_Content right)) of
                                  (Some a, Some b) \<Rightarrow>
                                    if selectRole p (cmp_ProjectID i) [''operations'', ''incident_diagnosis'', ''sdlc_diagnosis'', ''sdlc_evaluator''] = None
                                      then (Err ErrForbidden, st, db)
                                    else
                                      let out = evaluation_of env p i (ctx_Intent prepared) intent left right (CompareObservations rule a b);
                                          raw = (if time_marshals (utc (oe_CreatedAt out)) then print_json (json_evaluation out) else [])
                                      in (case Put st raw ''application/json'' of
                                            (Inl e, st') \<Rightarrow> (Err e, st', db)
                                          | (Inr art, st') \<Rightarrow>
                                              (case RecordProductEvaluation (sub_env 1 env) lease db (out\<lparr>oe_Evidence := art\<rparr>) of
                                                 (res, db') \<Rightarrow> (res, st', db')))
                                | _ \<Rightarrow> (Err ErrQualityBlocked, st, db))))))))"

definition GetProductEvaluation ::
  "('s product_service_scheme) \<Rightarrow> call_env \<Rightarrow> grant \<Rightarrow> ('a product_db_scheme) \<Rightarrow> string \<Rightarrow> string \<Rightarrow> observation_evaluation result" where
  "GetProductEvaluation svc env g db project eid =
     (case productAccess svc env g project eid ''read'' ''internal'' of
        Inl e \<Rightarrow> Err e
      | Inr _ \<Rightarrow>
          (case repo_GetProductEvaluation db project eid of
             Inl e \<Rightarrow> Err e
           | Inr out \<Rightarrow>
               if \<not> list_all (\<lambda>b. case GetProductRecord svc env g db project (bind_RecordID b) True of
                       Inl _ \<Rightarrow> False | Inr r \<Rightarrow> prod_SHA256 r = bind_SHA256 b) [oe_Intent out, oe_Left out, oe_Right out]
                 then Err ErrQualityBlocked
               else (case IntentContext svc env g db \<lparr>ici_ProjectID = project, ici_IntentID = bind_RecordID (oe_Intent out),
                         ici_ExpectedSHA256 = bind_SHA256 (oe_Intent out)\<rparr> of
                   Inl _ \<Rightarrow> Err ErrQualityBlocked
                 | Inr c \<Rightarrow> if ctx_Ready c then Ok out else Err ErrQualityBlocked)))"

end
