(* ===== verification/PathMatch.thy ===== *)
theory PathMatch
  imports Runes
begin

text \<open>
  \<open>path.Match\<close> of the Go library, which \<open>executionCode\<close> of \<open>src/internal/service/execution_code.go\<close> holds protected
  paths against. A pattern is cut into chunks at its stars; a chunk matches a prefix of the name, and a star
  skips bytes other than the separator until its chunk matches. The caller ignores the error of a malformed pattern, with
  which the answer is false.
\<close>

section \<open>Chunks\<close>

fun chunk_length :: "bool \<Rightarrow> string \<Rightarrow> nat" where
  "chunk_length inrange [] = 0"
| "chunk_length inrange (c # cs) =
     (if c = CHR 0x5C then (case cs of [] \<Rightarrow> 1 | d # ds \<Rightarrow> 2 + chunk_length inrange ds)
      else if c = CHR ''['' then 1 + chunk_length True cs
      else if c = CHR '']'' then 1 + chunk_length False cs
      else if c = CHR ''*'' \<and> \<not> inrange then 0
      else 1 + chunk_length inrange cs)"

definition scanChunk :: "string \<Rightarrow> bool \<times> string \<times> string" where
  "scanChunk pattern =
     (let p = dropWhile (\<lambda>c. c = CHR ''*'') pattern; n = chunk_length False p
      in (p \<noteq> pattern, take n p, drop n p))"

definition getEsc :: "string \<Rightarrow> (nat \<times> string) option" where
  "getEsc chunk =
     (if chunk = [] \<or> hd chunk = CHR ''-'' \<or> hd chunk = CHR '']'' then None
      else let c = (if hd chunk = CHR 0x5C then tl chunk else chunk) in
        if c = [] then None
        else let (r, n) = rune_at (map of_char c) in
          if r = rune_error \<and> n = 1 \<or> drop n c = [] then None else Some (r, drop n c))"

lemma getEsc_shorter: "getEsc chunk = Some (r, rest) \<Longrightarrow> length rest < length chunk"
  using rune_at_pos [of "map of_char chunk"] rune_at_pos [of "map of_char (tl chunk)"]
  by (cases chunk) (auto simp: getEsc_def Let_def split: if_splits prod.splits)

text \<open>The ranges of a character class up to its closing bracket: whether the rune is in one of them, and what follows.\<close>

function class_ranges :: "nat \<Rightarrow> bool \<Rightarrow> bool \<Rightarrow> string \<Rightarrow> (bool \<times> string) option" where
  "class_ranges r matched more chunk =
     (if chunk \<noteq> [] \<and> hd chunk = CHR '']'' \<and> more then Some (matched, tl chunk)
      else case getEsc chunk of
        None \<Rightarrow> None
      | Some (lo, rest) \<Rightarrow>
          (case (if hd rest = CHR ''-'' then getEsc (tl rest) else Some (lo, rest)) of
             None \<Rightarrow> None
           | Some (hi, rest') \<Rightarrow> class_ranges r (matched \<or> lo \<le> r \<and> r \<le> hi) True rest'))"
  by pat_completeness auto
termination
  by (relation "measure (\<lambda>(_, _, _, chunk). length chunk)")
    (auto dest!: getEsc_shorter split: if_splits)

declare class_ranges.simps [simp del]

lemma class_ranges_shorter: "class_ranges r m more chunk = Some (b, rest) \<Longrightarrow> length rest < length chunk"
proof (induction r m more chunk rule: class_ranges.induct)
  case (1 r m more chunk)
  show ?case
  proof (cases "chunk \<noteq> [] \<and> hd chunk = CHR '']'' \<and> more")
    case True
    have "rest = tl chunk" using "1.prems" True unfolding class_ranges.simps [of r m more chunk] by simp
    with True show ?thesis by (cases chunk) simp_all
  next
    case False
    with "1.prems" obtain lo after hi rest' where esc: "getEsc chunk = Some (lo, after)"
      "(if hd after = CHR ''-'' then getEsc (tl after) else Some (lo, after)) = Some (hi, rest')"
      "class_ranges r (m \<or> lo \<le> r \<and> r \<le> hi) True rest' = Some (b, rest)"
      by (auto simp: class_ranges.simps [of r m more chunk] split: option.splits)
    have "length rest < length rest'" by (rule "1.IH" [OF False esc(1) refl esc(2) refl esc(3)])
    moreover have "length rest' \<le> length after"
      using esc(2) getEsc_shorter [of "tl after" hi rest'] by (auto split: if_splits)
    ultimately show ?thesis using getEsc_shorter [OF esc(1)] by linarith
  qed
qed

text \<open>
  A chunk against the start of a name. Once the match has failed the rest of the chunk is only read for errors; the
  outer option is the error, the inner one the mismatch.
\<close>

function matchChunk :: "bool \<Rightarrow> string \<Rightarrow> string \<Rightarrow> string option option" where
  "matchChunk failed [] s = Some (if failed then None else Some s)"
| "matchChunk failed (c # cs) s =
     (let failed' = (failed \<or> s = []); n = snd (rune_at (map of_char s)) in
      if c = CHR ''['' then
        let negated = (cs \<noteq> [] \<and> hd cs = CHR ''^'') in
        (case class_ranges (if failed' then 0 else fst (rune_at (map of_char s))) False False (if negated then tl cs else cs) of
           None \<Rightarrow> None
         | Some (matched, rest) \<Rightarrow> matchChunk (failed' \<or> matched = negated) rest (if failed' then s else drop n s))
      else if c = CHR ''?'' then
        if failed' then matchChunk True cs s else matchChunk (hd s = CHR ''/'') cs (drop n s)
      else if c = CHR 0x5C then
        (case cs of [] \<Rightarrow> None | d # ds \<Rightarrow> if failed' then matchChunk True ds s else matchChunk (d \<noteq> hd s) ds (tl s))
      else if failed' then matchChunk True cs s
      else matchChunk (c \<noteq> hd s) cs (tl s))"
  by pat_completeness auto
termination
  by (relation "measure (\<lambda>(_, chunk, _). length chunk)") (auto dest!: class_ranges_shorter split: if_splits)

section \<open>Matching\<close>

text \<open>A chunk after a star: the first place it matches at, no separator before it, and at the end of the name if it is the last.\<close>

fun star_match :: "bool \<Rightarrow> string \<Rightarrow> string \<Rightarrow> string option option" where
  "star_match final chunk [] = Some None"
| "star_match final chunk (c # cs) =
     (if c = CHR ''/'' then Some None
      else case matchChunk False chunk cs of
        None \<Rightarrow> None
      | Some None \<Rightarrow> star_match final chunk cs
      | Some (Some t) \<Rightarrow> if final \<and> t \<noteq> [] then star_match final chunk cs else Some (Some t))"

lemma chunk_length_pos: "cs \<noteq> [] \<Longrightarrow> hd cs \<noteq> CHR ''*'' \<Longrightarrow> 0 < chunk_length inrange cs"
  by (cases cs) (auto split: list.splits)

lemma scanChunk_shorter:
  assumes "pattern \<noteq> []" and "scanChunk pattern = (star, chunk, rest)"
  shows "length rest < length pattern"
proof -
  let ?p = "dropWhile (\<lambda>c. c = CHR ''*'') pattern"
  have rest: "rest = drop (chunk_length False ?p) ?p" using assms(2) by (simp add: scanChunk_def Let_def)
  have le: "length ?p \<le> length pattern" by (rule length_dropWhile_le)
  show ?thesis
  proof (cases "?p = []")
    case False
    then have "0 < chunk_length False ?p" using chunk_length_pos hd_dropWhile by blast
    moreover have "0 < length ?p" using False by blast
    ultimately have "length ?p - chunk_length False ?p < length ?p" by linarith
    with rest le show ?thesis by simp
  next
    case True
    have "rest = []" unfolding rest True by simp
    with assms(1) show ?thesis by simp
  qed
qed

function path_Match :: "string \<Rightarrow> string \<Rightarrow> bool" where
  "path_Match pattern name =
     (if pattern = [] then name = []
      else case scanChunk pattern of (star, chunk, rest) \<Rightarrow>
        if star \<and> chunk = [] then CHR ''/'' \<notin> set name
        else case matchChunk False chunk name of
          None \<Rightarrow> False
        | Some here \<Rightarrow>
            if here \<noteq> None \<and> (the here = [] \<or> rest \<noteq> []) then path_Match rest (the here)
            else if star then
              (case star_match (rest = []) chunk name of Some (Some t) \<Rightarrow> path_Match rest t | _ \<Rightarrow> False)
            else False)"
  by pat_completeness auto
termination
  by (relation "measure (length \<circ> fst)") (auto dest: scanChunk_shorter [OF _ sym])

declare path_Match.simps [simp del]

text \<open>A pattern without special characters matches exactly itself, and a pattern that ends in a star what continues it.\<close>

definition literal :: "string \<Rightarrow> bool" where
  "literal s \<longleftrightarrow> list_all (\<lambda>c. c \<notin> set [CHR ''*'', CHR ''?'', CHR ''['', CHR 0x5C]) s"

lemma chunk_length_literal: "literal s \<Longrightarrow> chunk_length False s = length s"
  by (induction s) (auto simp: literal_def)

lemma literal_no_star: "literal s \<Longrightarrow> dropWhile (\<lambda>c. c = CHR ''*'') s = s"
  by (cases s) (auto simp: literal_def)

lemma matchChunk_failed: "literal chunk \<Longrightarrow> matchChunk True chunk s = Some None"
  by (induction chunk) (auto simp: literal_def Let_def)

lemma matchChunk_literal: "literal chunk \<Longrightarrow> matchChunk False chunk s = Some (if prefix chunk s then Some (drop (length chunk) s) else None)"
proof (induction chunk arbitrary: s)
  case (Cons c cs)
  then have cs: "literal cs" "c \<noteq> CHR ''*''" "c \<noteq> CHR ''?''" "c \<noteq> CHR ''[''" "c \<noteq> CHR 0x5C" by (auto simp: literal_def)
  show ?case
    using cs Cons.IH [OF cs(1)] matchChunk_failed [OF cs(1)] by (cases s; cases "c = hd s") (auto simp: Let_def)
qed simp

lemma path_Match_literal: "literal pattern \<Longrightarrow> path_Match pattern name \<longleftrightarrow> name = pattern"
proof (cases "pattern = []")
  case False
  assume lit: "literal pattern"
  have scan: "scanChunk pattern = (False, pattern, [])"
    by (simp add: scanChunk_def literal_no_star [OF lit] chunk_length_literal [OF lit])
  show ?thesis
    using False by (auto simp: path_Match.simps [of pattern] path_Match.simps [of "[]"] scan matchChunk_literal [OF lit] prefix_def)
qed (simp add: path_Match.simps)

end
