(* ===== verification/ExecCode.thy ===== *)
theory ExecCode
  imports Evidence PathMatch
begin

text \<open>
  The bridge from the accepted code bindings of a run to the code graph: \<open>executionCode\<close> of
  \<open>src/internal/service/execution_code.go\<close> with the graph types of \<open>src/internal/domain/models.go\<close>. The query of the graph tables
  is a parameter. Floating-point members are kept as the text they are written as.
\<close>

section \<open>Code graphs\<close>

record software_repository =
  sr_ID :: string
  sr_ProjectID :: string
  sr_Name :: string
  sr_CanonicalURL :: string
  sr_DefaultBranch :: string
  sr_Revision :: string
  sr_CreatedAt :: go_time
  sr_UpdatedAt :: go_time

record code_analysis =
  ca_ID :: string
  ca_ProjectID :: string
  ca_Repository :: software_repository
  ca_Branch :: string
  ca_Revision :: string
  ca_Analyzer :: string
  ca_AnalyzerVersion :: string
  ca_RequestedBy :: string
  ca_EntityCount :: int
  ca_RelationCount :: int
  ca_StartedAt :: go_time
  ca_CompletedAt :: go_time

record code_location =
  loc_FilePath :: string
  loc_StartLine :: int
  loc_StartColumn :: int
  loc_EndLine :: int
  loc_EndColumn :: int

record code_entity =
  ce_ID :: string
  ce_ProjectID :: string
  ce_RepositoryID :: string
  ce_RepositoryName :: string
  ce_AnalysisRunID :: string
  ce_Branch :: string
  ce_Revision :: string
  ce_StableKey :: string
  ce_Language :: string
  ce_Kind :: string
  ce_Name :: string
  ce_QualifiedName :: string
  ce_Signature :: string
  ce_ContentHash :: string
  ce_Location :: code_location
  ce_Metadata :: "(string \<times> string) list"
  ce_Score :: "string option"

record code_relation =
  cl_ID :: string
  cl_AnalysisRunID :: string
  cl_SourceID :: string
  cl_TargetID :: string
  cl_RelationType :: string
  cl_Evidence :: string
  cl_Confidence :: string
  cl_Location :: code_location
  cl_Metadata :: "(string \<times> string) list"

record code_graph =
  cg_Analysis :: code_analysis
  cg_Entities :: "code_entity list"
  cg_Relations :: "code_relation list"

definition omit_zero :: "string \<Rightarrow> int \<Rightarrow> (string \<times> json) list" where
  "omit_zero k v = (if v = 0 then [] else [(k, JInt v)])"

definition omit_map :: "string \<Rightarrow> (string \<times> string) list \<Rightarrow> (string \<times> json) list" where
  "omit_map k m = (if m = [] then [] else [(k, json_map (map (\<lambda>(x, v). (x, JString v)) m))])"

definition json_location :: "code_location \<Rightarrow> json" where
  "json_location l = JObject (omit_empty ''file_path'' (loc_FilePath l) @ omit_zero ''start_line'' (loc_StartLine l)
     @ omit_zero ''start_column'' (loc_StartColumn l) @ omit_zero ''end_line'' (loc_EndLine l) @ omit_zero ''end_column'' (loc_EndColumn l))"

definition json_repository :: "software_repository \<Rightarrow> json" where
  "json_repository r = JObject (
     [(''id'', JString (sr_ID r)), (''project_id'', JString (sr_ProjectID r)), (''name'', JString (sr_Name r)),
      (''canonical_url'', JString (sr_CanonicalURL r))]
     @ omit_empty ''default_branch'' (sr_DefaultBranch r) @ omit_empty ''revision'' (sr_Revision r)
     @ [(''created_at'', json_time (sr_CreatedAt r)), (''updated_at'', json_time (sr_UpdatedAt r))])"

definition json_analysis :: "code_analysis \<Rightarrow> json" where
  "json_analysis a = JObject
     [(''id'', JString (ca_ID a)), (''project_id'', JString (ca_ProjectID a)), (''repository'', json_repository (ca_Repository a)),
      (''branch'', JString (ca_Branch a)), (''revision'', JString (ca_Revision a)), (''analyzer'', JString (ca_Analyzer a)),
      (''analyzer_version'', JString (ca_AnalyzerVersion a)), (''requested_by'', JString (ca_RequestedBy a)),
      (''entity_count'', JInt (ca_EntityCount a)), (''relation_count'', JInt (ca_RelationCount a)),
      (''started_at'', json_time (ca_StartedAt a)), (''completed_at'', json_time (ca_CompletedAt a))]"

definition json_entity :: "code_entity \<Rightarrow> json" where
  "json_entity e = JObject (
     [(''id'', JString (ce_ID e)), (''project_id'', JString (ce_ProjectID e)), (''repository_id'', JString (ce_RepositoryID e)),
      (''repository_name'', JString (ce_RepositoryName e)), (''analysis_run_id'', JString (ce_AnalysisRunID e)),
      (''branch'', JString (ce_Branch e)), (''revision'', JString (ce_Revision e)), (''stable_key'', JString (ce_StableKey e)),
      (''language'', JString (ce_Language e)), (''kind'', JString (ce_Kind e)), (''name'', JString (ce_Name e)),
      (''qualified_name'', JString (ce_QualifiedName e))]
     @ omit_empty ''signature'' (ce_Signature e) @ omit_empty ''content_hash'' (ce_ContentHash e)
     @ [(''location'', json_location (ce_Location e))] @ omit_map ''metadata'' (ce_Metadata e)
     @ (case ce_Score e of None \<Rightarrow> [] | Some t \<Rightarrow> [(''score'', JNumber t)]))"

definition json_relation :: "code_relation \<Rightarrow> json" where
  "json_relation r = JObject (
     [(''id'', JString (cl_ID r)), (''analysis_run_id'', JString (cl_AnalysisRunID r)), (''source_id'', JString (cl_SourceID r)),
      (''target_id'', JString (cl_TargetID r)), (''relation_type'', JString (cl_RelationType r))]
     @ omit_empty ''evidence'' (cl_Evidence r)
     @ [(''confidence'', JNumber (cl_Confidence r)), (''location'', json_location (cl_Location r))] @ omit_map ''metadata'' (cl_Metadata r))"

text \<open>The bytes of a graph; a time that does not marshal leaves none.\<close>

definition graph_bytes :: "code_graph \<Rightarrow> string" where
  "graph_bytes g =
     (if list_all time_marshals [sr_CreatedAt (ca_Repository (cg_Analysis g)), sr_UpdatedAt (ca_Repository (cg_Analysis g)),
          ca_StartedAt (cg_Analysis g), ca_CompletedAt (cg_Analysis g)]
      then print_json (JObject [(''analysis'', json_analysis (cg_Analysis g)), (''entities'', JArray (map json_entity (cg_Entities g))),
             (''relations'', JArray (map json_relation (cg_Relations g)))])
      else [])"

section \<open>Code bindings of a run\<close>

record code_service = evidence_service +
  svc_StrictCode :: "string \<Rightarrow> product_code option"
  svc_GetCodeGraph :: "exec_db \<Rightarrow> string \<Rightarrow> string \<Rightarrow> string \<Rightarrow> int \<Rightarrow> code_graph option"

record execution_code_bridge =
  br_Record :: product_binding
  br_Binding :: product_code
  br_Graph :: code_graph

definition code_binding_ok :: "execution_run \<Rightarrow> product_code \<Rightarrow> bool" where
  "code_binding_ok run b \<longleftrightarrow>
     \<not> (code_Schema b \<noteq> ''hybrid-ai/product-code/v1'' \<or> code_RepositoryID b \<noteq> et_RepositoryID (er_Target run) \<or> length (code_Revision b) \<noteq> 40
        \<or> code_File b = [] \<or> prefix ''/'' (code_File b) \<or> path_Clean (code_File b) \<noteq> code_File b \<or> prefix ''../'' (code_File b)
        \<or> length (code_Symbols b) < 1 \<or> length (code_Symbols b) > 5)"

definition protects :: "string \<Rightarrow> string \<Rightarrow> bool" where
  "protects file pattern \<longleftrightarrow> path_Match pattern file \<or> file = pattern \<or> prefix (trim_suffix ''/'' pattern @ ''/'') file"

definition names_symbol :: "string \<Rightarrow> code_entity \<Rightarrow> bool" where
  "names_symbol symbol e \<longleftrightarrow> ce_Name e = symbol \<or> ce_QualifiedName e = symbol \<or> ce_StableKey e = symbol \<or> ce_ID e = symbol"

text \<open>The graph around one symbol, cut down to the bound file.\<close>

definition symbol_graph ::
  "('s code_service_scheme) \<Rightarrow> exec_db \<Rightarrow> execution_run \<Rightarrow> product_code \<Rightarrow> string \<Rightarrow> code_graph result" where
  "symbol_graph svc db run b symbol =
     (if length symbol < 1 \<or> length symbol > 512 then Err ErrInvalidInput
      else case svc_GetCodeGraph svc db (er_ProjectID run) (code_RepositoryID b) symbol 1 of
        None \<Rightarrow> Err ErrEvidenceUnavailable
      | Some graph \<Rightarrow>
          if ca_Revision (cg_Analysis graph) \<noteq> code_Revision b \<or> length (cg_Entities graph) > 20 \<or> length (cg_Relations graph) > 50
            then Err ErrVersionConflict
          else if list_ex (\<lambda>e. ce_ProjectID e \<noteq> er_ProjectID run \<or> ce_Revision e \<noteq> code_Revision b
               \<or> ce_RepositoryID e \<noteq> sr_ID (ca_Repository (cg_Analysis graph))) (cg_Entities graph)
            then Err ErrVersionConflict
          else
            let entities = filter (\<lambda>e. loc_FilePath (ce_Location e) = code_File b) (cg_Entities graph);
                allowed = (\<lambda>x. list_ex (\<lambda>e. ce_ID e = x) entities);
                cut = graph\<lparr>cg_Entities := entities,
                  cg_Relations := filter (\<lambda>r. allowed (cl_SourceID r) \<and> allowed (cl_TargetID r)) (cg_Relations graph)\<rparr>
            in if \<not> list_ex (names_symbol symbol) entities then Err ErrEvidenceUnavailable
               else if length (graph_bytes cut) > 16384 then Err ErrBudgetExhausted
               else Ok cut)"

fun symbol_graphs ::
  "('s code_service_scheme) \<Rightarrow> exec_db \<Rightarrow> execution_run \<Rightarrow> product_binding \<Rightarrow> product_code \<Rightarrow> string list \<Rightarrow> execution_code_bridge list result" where
  "symbol_graphs svc db run bound b [] = Ok []"
| "symbol_graphs svc db run bound b (symbol # symbols) =
     (case symbol_graph svc db run b symbol of
        Inl e \<Rightarrow> Err e
      | Inr graph \<Rightarrow>
          (case symbol_graphs svc db run bound b symbols of
             Inl e \<Rightarrow> Err e | Inr rest \<Rightarrow> Ok (\<lparr>br_Record = bound, br_Binding = b, br_Graph = graph\<rparr> # rest)))"

definition bound_code ::
  "('s code_service_scheme) \<Rightarrow> call_env \<Rightarrow> grant \<Rightarrow> exec_db \<Rightarrow> execution_run \<Rightarrow> product_binding \<Rightarrow> product_code result" where
  "bound_code svc env g db run bound =
     (case GetProductRecord svc env g db (er_ProjectID run) (bind_RecordID bound) True of
        Inl e \<Rightarrow> Err e
      | Inr record \<Rightarrow>
          if prod_SHA256 record \<noteq> bind_SHA256 bound then Err ErrVersionConflict
          else (case svc_StrictCode svc (prod_Content record) of
              None \<Rightarrow> Err ErrValidationRequired
            | Some b \<Rightarrow>
                if \<not> code_binding_ok run b then Err ErrValidationRequired
                else if er_Kind run = ''feature'' \<and> code_Revision b \<noteq> er_RepositoryRevision run then Err ErrVersionConflict
                else if list_ex (protects (code_File b)) (et_ProtectedPaths (er_Target run)) then Err ErrForbidden
                else Ok b))"

fun code_bridges ::
  "('s code_service_scheme) \<Rightarrow> call_env \<Rightarrow> grant \<Rightarrow> exec_db \<Rightarrow> execution_run \<Rightarrow> product_binding list \<Rightarrow> execution_code_bridge list result" where
  "code_bridges svc env g db run [] = Ok []"
| "code_bridges svc env g db run (bound # bs) =
     (if bind_Kind bound \<noteq> ''code'' then code_bridges svc env g db run bs
      else case bound_code svc env g db run bound of
        Inl e \<Rightarrow> Err e
      | Inr b \<Rightarrow>
          (case symbol_graphs svc db run bound b (code_Symbols b) of
             Inl e \<Rightarrow> Err e
           | Inr here \<Rightarrow> (case code_bridges svc env g db run bs of Inl e \<Rightarrow> Err e | Inr rest \<Rightarrow> Ok (here @ rest))))"

definition executionCode ::
  "('s code_service_scheme) \<Rightarrow> call_env \<Rightarrow> grant \<Rightarrow> exec_db \<Rightarrow> execution_run \<Rightarrow> execution_code_bridge list result" where
  "executionCode svc env g db run = code_bridges svc env g db run (er_Bindings run)"

end
