(* ===== verification/ExecService.thy ===== *)
theory ExecService
  imports ExecCode FilePatch PatchVerifier
begin

text \<open>
  The execution service (\<open>src/internal/service/execution.go\<close>, \<open>src/internal/service/execution_evidence.go\<close>): the operations in front of the
  execution store, and the validators that derive the next state of a run from the typed evidence of a step. Strict
  and lenient JSON decoders of worker documents (\<open>src/internal/execution/model.go\<close>, \<open>src/internal/execution/effects.go\<close>) are parameters. The reads
  of a call are of one database state, \<open>seen\<close>, and its transaction finds the state \<open>db\<close>.
\<close>

section \<open>Worker documents\<close>

record model_options =
  mo_NumPredict :: int
  mo_Temperature :: string
  mo_Seed :: int

record model_request =
  mq_Model :: string
  mq_System :: string
  mq_Prompt :: string
  mq_Format :: string
  mq_Stream :: bool
  mq_Think :: bool
  mq_Options :: model_options
  mq_KeepAlive :: string

record model_response =
  mp_Model :: string
  mp_Response :: string
  mp_Done :: bool
  mp_DoneReason :: string
  mp_PromptEvalCount :: int
  mp_EvalCount :: int

record builder_proposal =
  bp_Schema :: string
  bp_Plan :: "execution_plan_step list"
  bp_Criteria :: "string list"
  bp_BaseRevision :: string
  bp_Patch :: string
  bp_Files :: "(string \<times> string) list"

record diagnosis_proposal =
  dp_Schema :: string
  dp_Criteria :: "string list"
  dp_Summary :: string
  dp_Hypotheses :: "execution_hypothesis list"

record disclosure_manifest =
  dm_Schema :: string
  dm_RunID :: string
  dm_StepID :: string
  dm_ContextSHA256 :: string
  dm_PackageSHA256 :: string
  dm_RepositoryID :: string
  dm_RepositoryRevision :: string
  dm_Files :: "(string \<times> string) list"
  dm_Observations :: "product_binding list"
  dm_Provider :: string
  dm_Model :: string
  dm_ModelSHA256 :: string

record effect_receipt =
  fr_Schema :: string
  fr_RunID :: string
  fr_StepID :: string
  fr_Kind :: string
  fr_ContractSHA256 :: string
  fr_ExternalID :: string
  fr_BeforeSHA256 :: string
  fr_AfterSHA256 :: string
  fr_ObservedSHA256 :: string
  fr_CandidateSHA256 :: string
  fr_BaseRevision :: string
  fr_Commit :: string
  fr_Raw :: string

text \<open>The prompt of a model request; its context is the raw text of that member.\<close>

record model_prompt =
  pm_Context :: string
  pm_Files :: "(string \<times> string) list"
  pm_Observations :: "product_record list"
  pm_Evaluations :: "observation_evaluation list"

record exec_service = code_service +
  svc_Registry :: registry
  svc_DecodeRequest :: "string \<Rightarrow> model_request option"
  svc_DecodeResponse :: "string \<Rightarrow> model_response option"
  svc_DecodeManifest :: "string \<Rightarrow> disclosure_manifest option"
  svc_DecodePrompt :: "string \<Rightarrow> model_prompt option"
  svc_DecodeBuilder :: "string \<Rightarrow> builder_proposal option"
  svc_DecodeDiagnosis :: "string \<Rightarrow> diagnosis_proposal option"
  svc_DecodeEffect :: "string \<Rightarrow> effect_receipt option"
  svc_DecodeVerification :: "string \<Rightarrow> verification_result option"
  svc_Remarshal :: "string \<Rightarrow> string option"

definition ProposalFormat :: "string \<Rightarrow> string" where
  "ProposalFormat role =
     (if role = ''sdlc_builder'' then
        ''{\"type\":\"object\",\"additionalProperties\":false,\"required\":[\"schema\",\"plan\",\"criteria\",\"base_revision\",\"files\"],''
        @ ''\"properties\":{\"schema\":{\"const\":\"hybrid-ai/builder-proposal/v1\"},''
        @ ''\"plan\":{\"type\":\"array\",\"minItems\":1,\"maxItems\":20,\"items\":{\"type\":\"object\",\"additionalProperties\":false,''
        @ ''\"required\":[\"description\",\"criteria\"],\"properties\":{\"description\":{\"type\":\"string\"},''
        @ ''\"criteria\":{\"type\":\"array\",\"items\":{\"type\":\"string\"}}}}},''
        @ ''\"criteria\":{\"type\":\"array\",\"minItems\":1,\"items\":{\"type\":\"string\"}},\"base_revision\":{\"type\":\"string\"},''
        @ ''\"files\":{\"type\":\"object\",\"minProperties\":1,\"maxProperties\":30,\"additionalProperties\":{\"type\":\"string\"}}}}''
      else ''\"json\"'')"

text \<open>Two texts are the same format if they decode and are written back the same.\<close>

definition ValidProposalFormat :: "('s exec_service_scheme) \<Rightarrow> string \<Rightarrow> string \<Rightarrow> bool" where
  "ValidProposalFormat svc role raw =
     (case (svc_Remarshal svc raw, svc_Remarshal svc (ProposalFormat role)) of (Some x, Some y) \<Rightarrow> x = y | _ \<Rightarrow> False)"

section \<open>JSON of results\<close>

definition json_plan :: "execution_plan_step list \<Rightarrow> json" where
  "json_plan ps = JArray (map (\<lambda>p. JObject [(''description'', JString (plan_Description p)), (''criteria'', json_strings (plan_Criteria p))]) ps)"

definition json_check :: "execution_check \<Rightarrow> json" where
  "json_check c = JObject [(''name'', JString (xc_Name c)), (''argv_sha256'', JString (xc_ArgvSHA256 c)), (''exit_code'', JInt (xc_ExitCode c)),
     (''timed_out'', JBool (xc_TimedOut c)), (''output'', json_artifact (xc_Output c))]"

definition json_effect :: "execution_effect \<Rightarrow> json" where
  "json_effect e = JObject [(''kind'', JString (ef_Kind e)), (''key'', JString (ef_Key e)), (''external_id'', JString (ef_ExternalID e)),
     (''url'', JString (ef_URL e)), (''before_sha256'', JString (ef_BeforeSHA256 e)), (''after_sha256'', JString (ef_AfterSHA256 e)),
     (''observed_sha256'', JString (ef_ObservedSHA256 e)), (''status'', JString (ef_Status e)), (''evidence'', json_artifact (ef_Evidence e))]"

definition json_hypotheses :: "execution_hypothesis list \<Rightarrow> json" where
  "json_hypotheses hs = JArray (map (\<lambda>h. JObject (
     [(''id'', JString (hy_ID h)), (''explanation'', JString (hy_Explanation h)), (''supports'', json_strings (hy_Supports h)),
      (''contradicts'', json_strings (hy_Contradicts h)), (''status'', JString (hy_Status h))]
     @ omit_empty ''proposed_remedy'' (hy_ProposedRemedy h))) hs)"

definition json_model :: "model_evidence \<Rightarrow> json" where
  "json_model m = JObject [(''provider'', JString (me_Provider m)), (''model'', JString (me_Model m)),
     (''model_sha256'', JString (me_ModelSHA256 m)), (''prompt'', json_artifact (me_Prompt m)), (''response'', json_artifact (me_Response m)),
     (''manifest'', json_artifact (me_Manifest m)), (''input_tokens'', JInt (me_InputTokens m)), (''output_tokens'', JInt (me_OutputTokens m)),
     (''duration_millis'', JInt (me_DurationMillis m)), (''trial_kind'', JString (me_TrialKind m))]"

definition omit_nil :: "string \<Rightarrow> 'a list \<Rightarrow> json \<Rightarrow> (string \<times> json) list" where
  "omit_nil k xs j = (if xs = [] then [] else [(k, j)])"

definition json_result :: "execution_result \<Rightarrow> json" where
  "json_result r = JObject (
     [(''stage'', JString (rs_Stage r)), (''outcome'', JString (rs_Outcome r)), (''summary'', JString (rs_Summary r)),
      (''criteria'', json_strings (rs_Criteria r))]
     @ omit_nil ''plan'' (rs_Plan r) (json_plan (rs_Plan r)) @ [(''patch'', json_artifact (rs_Patch r))]
     @ omit_empty ''base_revision'' (rs_BaseRevision r) @ omit_empty ''packet_sha256'' (rs_PacketSHA256 r)
     @ omit_empty ''candidate_sha256'' (rs_CandidateSHA r) @ omit_empty ''sandbox_image'' (rs_SandboxImage r)
     @ omit_nil ''checks'' (rs_Checks r) (JArray (map json_check (rs_Checks r)))
     @ omit_nil ''effects'' (rs_Effects r) (JArray (map json_effect (rs_Effects r)))
     @ omit_nil ''hypotheses'' (rs_Hypotheses r) (json_hypotheses (rs_Hypotheses r))
     @ omit_nil ''observation_ids'' (rs_ObservationIDs r) (json_strings (rs_ObservationIDs r))
     @ omit_nil ''evaluation_ids'' (rs_EvaluationIDs r) (json_strings (rs_EvaluationIDs r))
     @ (case rs_Model r of None \<Rightarrow> [] | Some m \<Rightarrow> [(''model'', json_model m)])
     @ omit_nil ''artifacts'' (rs_Artifacts r) (JArray (map json_artifact (rs_Artifacts r))))"

definition product_bytes :: "product_record \<Rightarrow> string" where
  "product_bytes r = (if product_marshals r \<and> time_marshals (prod_CreatedAt r) then print_json (json_product r) else [])"

definition evaluation_bytes :: "observation_evaluation \<Rightarrow> string" where
  "evaluation_bytes e = (if time_marshals (utc (oe_CreatedAt e)) then print_json (json_evaluation e) else [])"

definition argv_bytes :: "string list \<Rightarrow> string" where
  "argv_bytes argv = print_json (json_strings argv)"

section \<open>Views and scopes\<close>

abbreviation sdlc_action ::
  "('s exec_service_scheme) \<Rightarrow> call_env \<Rightarrow> string \<Rightarrow> string \<Rightarrow> string \<Rightarrow> (string \<times> attribute) list \<Rightarrow> principal result" where
  "sdlc_action svc env project rid action attrs \<equiv>
     AuthorizeProjectAction (svc_Authorizer svc) (env_ctx env) project ''sdlc_execution'' rid action attrs"

definition service_GetExecution ::
  "('s exec_service_scheme) \<Rightarrow> call_env \<Rightarrow> exec_db \<Rightarrow> string \<Rightarrow> string \<Rightarrow> execution_view result" where
  "service_GetExecution svc env db project rid =
     (case sdlc_action svc env project rid ''read'' [] of
        Inl e \<Rightarrow> Err e
      | Inr p \<Rightarrow>
          (case GetExecution db project rid of
             Inl e \<Rightarrow> Err e
           | Inr out \<Rightarrow>
               let run = view_Run out in
               if p_ID p = er_Owner run \<and> p_Human p \<and> HasRole p project ''operations'' then Ok out
               else if p_Human p then Err ErrForbidden
               else if list_ex (\<lambda>(role, who). p_ID p = who \<and> HasRole p project role) (et_Participants (er_Target run))
                  \<and> CheckExecutionReader env db run (p_ID p) then Ok out
               else Err ErrForbidden))"

definition service_ListExecutions ::
  "('s exec_service_scheme) \<Rightarrow> call_env \<Rightarrow> exec_db \<Rightarrow> string \<Rightarrow> int \<Rightarrow> execution_run list result" where
  "service_ListExecutions svc env db project limit =
     (case sdlc_action svc env project ''list'' ''read'' [] of
        Inl e \<Rightarrow> Err e
      | Inr p \<Rightarrow>
          let runs = repo_ListExecutions db project (p_ID p) limit
          in Ok (if p_Human p then runs else filter (\<lambda>run. CheckExecutionReader env db run (p_ID p)) runs))"

definition execute_attributes :: "execution_run \<Rightarrow> (string \<times> attribute) list" where
  "execute_attributes run = [(''assigned_actor'', AttrText (run_Actor run)), (''environment'', AttrText (et_Environment (er_Target run)))]"

text \<open>
  \<open>executionScope\<close>: the view of a run whose lease, assignment, configuration and code bindings hold now. The returned run
  is the grant the rest of the call reads under.
\<close>

definition executionScope ::
  "('s exec_service_scheme) \<Rightarrow> call_env \<Rightarrow> exec_db \<Rightarrow> execution_lease \<Rightarrow> string \<Rightarrow> (principal \<times> execution_view) result" where
  "executionScope svc env db l tool =
     (case service_GetExecution svc (sub_env 1 env) db (el_ProjectID l) (el_RunID l) of
        Inl e \<Rightarrow> Err e
      | Inr view \<Rightarrow>
          (case sdlc_action svc env (el_ProjectID l) (el_RunID l) ''execute'' (execute_attributes (view_Run view)) of
             Inl e \<Rightarrow> Err e
           | Inr p \<Rightarrow>
               (case registry_Current (svc_Registry svc) (view_Run view) of
                  Some e \<Rightarrow> Err e
                | None \<Rightarrow>
                    if tool \<noteq> [] \<and> \<not> HasTool (view_Run view) tool then Err ErrForbidden
                    else (case CheckExecutionLease (sub_env 2 env) db l (p_ID p) of
                        Inl e \<Rightarrow> Err e
                      | Inr view' \<Rightarrow>
                          (case executionCode svc (sub_env 3 env) (Some (view_Run view')) db (view_Run view') of
                             Inl e \<Rightarrow> Err e | Inr _ \<Rightarrow> Ok (p, view'))))))"

definition readExecutionArtifact :: "exec_db \<Rightarrow> local_store \<Rightarrow> execution_run \<Rightarrow> string \<Rightarrow> string result" where
  "readExecutionArtifact db st run sha =
     (case repo_ExecutionArtifact db (er_ProjectID run) (er_ID run) sha of
        Inl e \<Rightarrow> Err e
      | Inr a \<Rightarrow>
          (case Read st (art_SHA256 a) of
             Inl e \<Rightarrow> Err e
           | Inr raw \<Rightarrow> if Digest raw \<noteq> art_SHA256 a \<or> int (length raw) \<noteq> art_SizeBytes a then Err ErrEvidenceUnavailable else Ok raw))"

section \<open>Validation of evidence\<close>

text \<open>
  What the validators of a step read: the service, the readings of the call, the database state, the artifact store and the
  view of the run, whose grant they read product records under.
\<close>

record 's evidence_context =
  ec_Service :: "'s exec_service_scheme"
  ec_Env :: call_env
  ec_DB :: exec_db
  ec_Store :: local_store
  ec_View :: execution_view

abbreviation ec_Run :: "'s evidence_context \<Rightarrow> execution_run" where
  "ec_Run c \<equiv> view_Run (ec_View c)"

abbreviation ec_read :: "'s evidence_context \<Rightarrow> string \<Rightarrow> string result" where
  "ec_read c sha \<equiv> readExecutionArtifact (ec_DB c) (ec_Store c) (ec_Run c) sha"

abbreviation ec_record :: "'s evidence_context \<Rightarrow> string \<Rightarrow> product_record result" where
  "ec_record c rid \<equiv> GetProductRecord (ec_Service c) (ec_Env c) (Some (ec_Run c)) (ec_DB c) (er_ProjectID (ec_Run c)) rid True"

abbreviation ec_evaluation :: "'s evidence_context \<Rightarrow> string \<Rightarrow> observation_evaluation result" where
  "ec_evaluation c eid \<equiv> GetProductEvaluation (ec_Service c) (ec_Env c) (Some (ec_Run c)) (ec_DB c) (er_ProjectID (ec_Run c)) eid"

definition run_intent :: "execution_run \<Rightarrow> intent_context_input" where
  "run_intent run = \<lparr>ici_ProjectID = er_ProjectID run, ici_IntentID = bind_RecordID (er_Intent run), ici_ExpectedSHA256 = bind_SHA256 (er_Intent run)\<rparr>"

fun packet_digest :: "string \<Rightarrow> intent_criterion list \<Rightarrow> string result" where
  "packet_digest sha [] = Ok sha"
| "packet_digest sha (c # cs) =
     (if ic_Oracle c \<noteq> ''work_packet'' \<or> sha \<noteq> [] \<and> sha \<noteq> ic_WorkPacketSHA256 c then Err ErrInvalidInput
      else packet_digest (ic_WorkPacketSHA256 c) cs)"

definition executionPacket :: "('s product_service_scheme) \<Rightarrow> intent_context \<Rightarrow> (packet \<times> string) result" where
  "executionPacket svc prepared =
     (case packet_digest [] (is_Criteria (ctx_Specification prepared)) of
        Inl e \<Rightarrow> Err e
      | Inr sha \<Rightarrow>
          (case find (\<lambda>r. prod_Kind r = ''test'' \<and> Digest (prod_Content r) = sha) (ctx_Records prepared) of
             None \<Rightarrow> Err ErrQualityBlocked
           | Some r \<Rightarrow> (case svc_DecodePacket svc (prod_Content r) of None \<Rightarrow> Err (ErrMessage ''json: invalid packet'') | Some p \<Rightarrow> Ok (p, sha))))"

definition sameStrings :: "string list \<Rightarrow> string list \<Rightarrow> bool" where
  "sameStrings a b \<longleftrightarrow> sort a = sort b"

definition latestExecutionResult :: "execution_view \<Rightarrow> string \<Rightarrow> execution_result option" where
  "latestExecutionResult view stage =
     (case find (\<lambda>s. es_Stage s = stage \<and> es_Result s \<noteq> None) (rev (view_Steps view)) of None \<Rightarrow> None | Some s \<Rightarrow> es_Result s)"

text \<open>The step the run is at: the loop over the steps keeps the last with the run's number.\<close>

definition current_step :: "execution_view \<Rightarrow> execution_step option" where
  "current_step view = find (\<lambda>s. es_Number s = er_StepNumber (view_Run view)) (rev (view_Steps view))"

definition current_step_id :: "execution_view \<Rightarrow> string" where
  "current_step_id view = (case current_step view of None \<Rightarrow> [] | Some s \<Rightarrow> es_ID s)"

definition current_context :: "execution_view \<Rightarrow> string" where
  "current_context view = (case current_step view of None \<Rightarrow> [] | Some s \<Rightarrow> es_ContextSHA s)"

subsection \<open>Model submissions\<close>

definition model_exchange_ok :: "('s exec_service_scheme) \<Rightarrow> agent_package \<Rightarrow> model_evidence \<Rightarrow> model_request \<Rightarrow> model_response \<Rightarrow> bool" where
  "model_exchange_ok svc pkg m request response \<longleftrightarrow>
     \<not> (mq_Model request \<noteq> ap_Model pkg \<or> mq_System request \<noteq> ap_Instructions pkg \<or> \<not> ValidProposalFormat svc (ap_Role pkg) (mq_Format request)
        \<or> mq_Stream request \<or> mq_Think request \<or> mo_NumPredict (mq_Options request) \<noteq> ap_MaxOutputTokens pkg
        \<or> mo_Temperature (mq_Options request) \<notin> set [''0'', ''-0''] \<or> int (length (mq_Prompt request)) > ap_MaxInputBytes pkg
        \<or> \<not> mp_Done response \<or> mp_DoneReason response = ''length'' \<or> mp_Model response \<noteq> me_Model m
        \<or> mp_PromptEvalCount response \<noteq> me_InputTokens m \<or> mp_EvalCount response \<noteq> me_OutputTokens m)"

definition manifest_ok :: "execution_view \<Rightarrow> disclosure_manifest \<Rightarrow> bool" where
  "manifest_ok view manifest \<longleftrightarrow>
     (let run = view_Run view; pkg = run_Package run in
      \<not> (dm_Schema manifest \<noteq> ''hybrid-ai/disclosed-context/v1'' \<or> dm_RunID manifest \<noteq> er_ID run \<or> dm_StepID manifest \<noteq> current_step_id view
         \<or> dm_ContextSHA256 manifest \<noteq> current_context view \<or> dm_PackageSHA256 manifest \<noteq> package_Digest pkg \<or> dm_Provider manifest \<noteq> ''ollama''
         \<or> dm_Model manifest \<noteq> ap_Model pkg \<or> dm_ModelSHA256 manifest \<noteq> ap_ModelSHA256 pkg \<or> dm_RepositoryID manifest \<noteq> et_RepositoryID (er_Target run)))"

definition disclosed_files_ok :: "model_prompt \<Rightarrow> disclosure_manifest \<Rightarrow> bool" where
  "disclosed_files_ok prompt manifest \<longleftrightarrow> length (pm_Files prompt) = length (dm_Files manifest)
     \<and> list_all (\<lambda>(name, content). Digest content = map_get [] (dm_Files manifest) name) (pm_Files prompt)"

definition validate_builder ::
  "('s exec_service_scheme) \<Rightarrow> model_prompt \<Rightarrow> disclosure_manifest \<Rightarrow> model_response \<Rightarrow> execution_result \<Rightarrow> go_error option" where
  "validate_builder svc prompt manifest response result =
     (case svc_DecodeBuilder svc (mp_Response response) of
        None \<Rightarrow> Some ErrValidationRequired
      | Some proposal \<Rightarrow>
          (case (if bp_Files proposal \<noteq> []
                 then if bp_Patch proposal \<noteq> [] then Err ErrValidationRequired else FilePatch (pm_Files prompt) (bp_Files proposal)
                 else Ok (bp_Patch proposal)) of
             Inl e \<Rightarrow> Some e
           | Inr patch \<Rightarrow>
               if bp_Schema proposal \<noteq> ''hybrid-ai/builder-proposal/v1'' \<or> Digest patch \<noteq> art_SHA256 (rs_Patch result)
                  \<or> bp_BaseRevision proposal \<noteq> rs_BaseRevision result \<or> dm_RepositoryRevision manifest \<noteq> rs_BaseRevision result
                  \<or> \<not> sameStrings (bp_Criteria proposal) (rs_Criteria result)
                 then Some ErrValidationRequired
               else if print_json (json_plan (bp_Plan proposal)) \<noteq> print_json (json_plan (rs_Plan result)) then Some ErrValidationRequired
               else None))"

fun validate_observed :: "'s evidence_context \<Rightarrow> (product_record \<times> string \<times> product_binding) list \<Rightarrow> go_error option" where
  "validate_observed c [] = None"
| "validate_observed c ((observed, oid, bound) # rest) =
     (case ec_record c (prod_ID observed) of
        Inl e \<Rightarrow> Some e
      | Inr record \<Rightarrow>
          if product_bytes observed \<noteq> product_bytes record \<or> prod_ID observed \<noteq> oid \<or> bound \<noteq> binding observed
            then Some ErrValidationRequired
          else validate_observed c rest)"

fun validate_evaluated :: "'s evidence_context \<Rightarrow> (observation_evaluation \<times> string) list \<Rightarrow> go_error option" where
  "validate_evaluated c [] = None"
| "validate_evaluated c ((submitted, eid) # rest) =
     (case ec_evaluation c (oe_ID submitted) of
        Inl e \<Rightarrow> Some e
      | Inr evaluation \<Rightarrow>
          if evaluation_bytes submitted \<noteq> evaluation_bytes evaluation \<or> oe_ID submitted \<noteq> eid then Some ErrValidationRequired
          else validate_evaluated c rest)"

definition validate_diagnosis_submission ::
  "'s evidence_context \<Rightarrow> model_prompt \<Rightarrow> disclosure_manifest \<Rightarrow> model_response \<Rightarrow> execution_result \<Rightarrow> go_error option" where
  "validate_diagnosis_submission c prompt manifest response result =
     (if length (pm_Observations prompt) \<noteq> length (dm_Observations manifest) \<or> length (pm_Observations prompt) \<noteq> length (rs_ObservationIDs result)
         \<or> length (pm_Evaluations prompt) \<noteq> length (rs_EvaluationIDs result)
      then Some ErrValidationRequired
      else case validate_observed c (zip (pm_Observations prompt) (zip (rs_ObservationIDs result) (dm_Observations manifest))) of
        Some e \<Rightarrow> Some e
      | None \<Rightarrow>
          (case validate_evaluated c (zip (pm_Evaluations prompt) (rs_EvaluationIDs result)) of
             Some e \<Rightarrow> Some e
           | None \<Rightarrow>
               (case svc_DecodeDiagnosis (ec_Service c) (mp_Response response) of
                  None \<Rightarrow> Some ErrValidationRequired
                | Some proposal \<Rightarrow>
                    if dp_Schema proposal \<noteq> ''hybrid-ai/diagnosis-proposal/v1'' \<or> \<not> sameStrings (dp_Criteria proposal) (rs_Criteria result)
                       \<or> print_json (json_hypotheses (dp_Hypotheses proposal)) \<noteq> print_json (json_hypotheses (rs_Hypotheses result))
                      then Some ErrValidationRequired
                    else None)))"

definition validateModelSubmission :: "'s evidence_context \<Rightarrow> model_evidence \<Rightarrow> execution_result \<Rightarrow> go_error option" where
  "validateModelSubmission c m result =
     (case (ec_read c (art_SHA256 (me_Prompt m)), ec_read c (art_SHA256 (me_Response m)), ec_read c (art_SHA256 (me_Manifest m))) of
        (Inl e, _, _) \<Rightarrow> Some e
      | (_, Inl e, _) \<Rightarrow> Some e
      | (_, _, Inl e) \<Rightarrow> Some e
      | (Inr requestRaw, Inr responseRaw, Inr manifestRaw) \<Rightarrow>
          let svc = ec_Service c in
          (case (svc_DecodeRequest svc requestRaw, svc_DecodeResponse svc responseRaw, svc_DecodeManifest svc manifestRaw) of
             (Some request, Some response, Some manifest) \<Rightarrow>
               if \<not> model_exchange_ok svc (run_Package (ec_Run c)) m request response then Some ErrValidationRequired
               else if \<not> manifest_ok (ec_View c) manifest then Some ErrValidationRequired
               else (case svc_DecodePrompt svc (mq_Prompt request) of
                   None \<Rightarrow> Some ErrValidationRequired
                 | Some prompt \<Rightarrow>
                     if Digest (pm_Context prompt) \<noteq> current_context (ec_View c) \<or> \<not> disclosed_files_ok prompt manifest then Some ErrValidationRequired
                     else if rs_Stage result = ''build'' then validate_builder svc prompt manifest response result
                     else validate_diagnosis_submission c prompt manifest response result)
           | _ \<Rightarrow> Some ErrValidationRequired))"

subsection \<open>Verifier receipts and effects\<close>

definition receipt_check_ok :: "check_result \<times> check \<times> execution_check \<Rightarrow> bool" where
  "receipt_check_ok = (\<lambda>(got, want, reported).
     let output = (if cr_Output got = [] then ''No output was produced.'' else cr_Output got) in
     cr_Name got = check_Name want \<and> argv_bytes (cr_Argv got) = argv_bytes (check_Argv want)
     \<and> cr_Passed got \<and> cr_ExitCode got = 0 \<and> cr_Name got = xc_Name reported \<and> Digest (argv_bytes (cr_Argv got)) = xc_ArgvSHA256 reported
     \<and> Digest output = art_SHA256 (xc_Output reported))"

definition receipt_ok :: "packet \<Rightarrow> execution_result \<Rightarrow> verification_result \<Rightarrow> bool" where
  "receipt_ok packet result receipt \<longleftrightarrow>
     \<not> (\<not> vr_Accepted receipt \<or> \<not> ev_Allowed (vr_Evaluation receipt) \<or> vr_BaseRevision receipt \<noteq> pkt_BaseRevision packet
        \<or> length (vr_Checks receipt) \<noteq> length (rs_Checks result) \<or> length (vr_Checks receipt) \<noteq> length (pkt_Checks packet)
        \<or> length (vr_Errors receipt) > 0 \<or> length (vr_ChangedFiles receipt) = 0
        \<or> int (length (vr_ChangedFiles receipt)) > lim_MaxChangedFiles (pkt_Limits packet)
        \<or> vr_TotalDiffLines receipt > lim_MaxDiffLines (pkt_Limits packet))
     \<and> list_all receipt_check_ok (zip (vr_Checks receipt) (zip (pkt_Checks packet) (rs_Checks result)))"

fun validate_receipts :: "'s evidence_context \<Rightarrow> packet \<Rightarrow> execution_result \<Rightarrow> artifact list \<Rightarrow> go_error option" where
  "validate_receipts c packet result [] = Some ErrEvidenceUnavailable"
| "validate_receipts c packet result (a # rest) =
     (case ec_read c (art_SHA256 a) of
        Inl e \<Rightarrow> Some e
      | Inr raw \<Rightarrow>
          (case svc_DecodeVerification (ec_Service c) raw of
             None \<Rightarrow> validate_receipts c packet result rest
           | Some receipt \<Rightarrow> if receipt_ok packet result receipt then None else Some ErrValidationRequired))"

definition validateVerifierReceipt :: "'s evidence_context \<Rightarrow> packet \<Rightarrow> execution_result \<Rightarrow> go_error option" where
  "validateVerifierReceipt c packet result = validate_receipts c packet result (rs_Artifacts result)"

definition effect_receipt_ok :: "execution_view \<Rightarrow> execution_result \<Rightarrow> string list \<Rightarrow> execution_effect \<Rightarrow> effect_receipt \<Rightarrow> bool" where
  "effect_receipt_ok view result seen effect receipt \<longleftrightarrow>
     (let run = view_Run view in
      \<not> (fr_Schema receipt \<noteq> ''hybrid-ai/effect-receipt/v1'' \<or> fr_RunID receipt \<noteq> er_ID run \<or> fr_Kind receipt \<noteq> ef_Kind effect
         \<or> fr_ExternalID receipt \<noteq> ef_ExternalID effect \<or> fr_AfterSHA256 receipt \<noteq> ef_AfterSHA256 effect
         \<or> fr_ObservedSHA256 receipt \<noteq> ef_ObservedSHA256 effect \<or> fr_BeforeSHA256 receipt \<noteq> ef_BeforeSHA256 effect
         \<or> Digest (fr_Raw receipt) \<noteq> fr_ObservedSHA256 receipt \<or> ef_Key effect \<noteq> fr_StepID receipt @ '':'' @ ef_Kind effect
         \<or> ef_Kind effect \<in> set seen)
      \<and> fr_StepID receipt = current_step_id view
      \<and> (er_Kind run = ''feature'' \<longrightarrow>
           (case latestExecutionResult view ''build'' of
              None \<Rightarrow> False
            | Some candidate \<Rightarrow>
                \<not> (fr_CandidateSHA256 receipt \<noteq> art_SHA256 (rs_Patch candidate) \<or> fr_BaseRevision receipt \<noteq> rs_BaseRevision candidate
                   \<or> length (fr_Commit receipt) \<noteq> 40 \<or> fr_ContractSHA256 receipt = []
                   \<or> fr_ContractSHA256 receipt \<noteq> et_DeliverySHA256 (er_Target run))))
      \<and> (er_Kind run = ''incident'' \<longrightarrow>
           \<not> (ef_Kind effect \<noteq> (if rs_Stage result = ''verify_recovery'' then ''technical_probe'' else ''remedy'')
              \<or> fr_ContractSHA256 receipt = [] \<or> fr_ContractSHA256 receipt \<noteq> et_RemediationSHA256 (er_Target run))))"

fun validate_effects :: "'s evidence_context \<Rightarrow> execution_result \<Rightarrow> string list \<Rightarrow> execution_effect list \<Rightarrow> string list result" where
  "validate_effects c result seen [] = Ok seen"
| "validate_effects c result seen (effect # rest) =
     (if \<not> ValidProductKey (ef_Key effect) \<or> ef_ExternalID effect = [] \<or> ef_AfterSHA256 effect = []
         \<or> ef_ObservedSHA256 effect \<noteq> ef_AfterSHA256 effect \<or> ef_Status effect \<noteq> ''verified''
      then Err ErrValidationRequired
      else case ec_read c (art_SHA256 (ef_Evidence effect)) of
        Inl e \<Rightarrow> Err e
      | Inr raw \<Rightarrow>
          (case svc_DecodeEffect (ec_Service c) raw of
             None \<Rightarrow> Err ErrValidationRequired
           | Some receipt \<Rightarrow>
               if \<not> effect_receipt_ok (ec_View c) result seen effect receipt then Err ErrValidationRequired
               else validate_effects c result (ef_Kind effect # seen) rest))"

definition required_effects :: "execution_result \<Rightarrow> string list" where
  "required_effects result = [''forge_commit'', ''forge_pr'', ''artifact'', ''staging'']
     @ (if rs_Stage result = ''verify_delivery'' then [''ci'', ''behavior_probe''] else [])"

definition validateExecutionEffects :: "'s evidence_context \<Rightarrow> execution_result \<Rightarrow> go_error option" where
  "validateExecutionEffects c result =
     (let run = ec_Run c; svc = ec_Service c in
      if length (rs_Effects result) < 1 \<or> length (rs_Effects result) > 10 then Some ErrValidationRequired
      else case validate_effects c result [] (rs_Effects result) of
        Inl e \<Rightarrow> Some e
      | Inr seen \<Rightarrow>
          if er_Kind run \<noteq> ''feature'' then None
          else if length seen \<noteq> length (required_effects result) \<or> \<not> list_all (\<lambda>k. k \<in> set seen) (required_effects result)
            then Some ErrValidationRequired
          else if rs_Stage result \<noteq> ''verify_delivery'' then None
          else (case IntentContext svc (ec_Env c) (Some run) (ec_DB c) (run_intent run) of
              Inl e \<Rightarrow> Some e
            | Inr prepared \<Rightarrow>
                (case executionPacket svc prepared of
                   Inl e \<Rightarrow> Some e
                 | Inr (packet, sha) \<Rightarrow>
                     (case latestExecutionResult (ec_View c) ''build'' of
                        None \<Rightarrow> Some ErrValidationRequired
                      | Some candidate \<Rightarrow>
                          if rs_CandidateSHA result \<noteq> art_SHA256 (rs_Patch candidate) \<or> rs_PacketSHA256 result \<noteq> sha
                             \<or> rs_SandboxImage result \<noteq> ap_EvaluatorImage (run_Package run)
                            then Some ErrValidationRequired
                          else validateVerifierReceipt c packet result))))"

subsection \<open>Diagnosis and recovery\<close>

text \<open>A status and a stage; a diagnosis that is not conclusive blocks the run at its stage.\<close>

abbreviation blocked_at :: "execution_run \<Rightarrow> (string \<times> string) result" where
  "blocked_at run \<equiv> Ok (''blocked'', er_Stage run)"

text \<open>The kinds of the sources observed, or \<open>None\<close> where an observation is missing or incomplete.\<close>

fun observed_kinds :: "'s evidence_context \<Rightarrow> string list \<Rightarrow> string list option result" where
  "observed_kinds c [] = Ok (Some [])"
| "observed_kinds c (oid # rest) =
     (case ec_record c oid of
        Inl e \<Rightarrow> Err e
      | Inr record \<Rightarrow>
          if prod_Kind record \<noteq> ''observation'' \<or> \<not> src_Complete (prod_Source record) then Ok None
          else (case svc_Sources (ec_Service c) of
              None \<Rightarrow> Err (ErrMessage ''runtime error: invalid memory address or nil pointer dereference'')
            | Some reg \<Rightarrow>
                (case Get reg (prod_Project record) (src_SourceID (prod_Source record)) of
                   None \<Rightarrow> Err ErrForbidden
                 | Some d \<Rightarrow>
                     (case observed_kinds c rest of
                        Inl e \<Rightarrow> Err e | Inr None \<Rightarrow> Ok None | Inr (Some kinds) \<Rightarrow> Ok (Some (sd_Kind d # kinds))))))"

fun violated_criteria :: "'s evidence_context \<Rightarrow> product_binding \<Rightarrow> string list \<Rightarrow> string list result" where
  "violated_criteria c intent [] = Ok []"
| "violated_criteria c intent (eid # rest) =
     (case ec_evaluation c eid of
        Inl e \<Rightarrow> Err e
      | Inr evaluation \<Rightarrow>
          if oe_Intent evaluation \<noteq> intent then Err ErrValidationRequired
          else (case violated_criteria c intent rest of
              Inl e \<Rightarrow> Err e
            | Inr found \<Rightarrow> Ok (if oc_Outcome evaluation = ''violated'' then oe_CriterionID evaluation # found else found)))"

text \<open>The number of supported hypotheses, or \<open>None\<close> where one is neither supported nor contradicted.\<close>

fun supported_hypotheses :: "execution_run \<Rightarrow> string list \<Rightarrow> string list \<Rightarrow> execution_hypothesis list \<Rightarrow> nat option result" where
  "supported_hypotheses run evidence ids [] = Ok (Some 0)"
| "supported_hypotheses run evidence ids (h # rest) =
     (if \<not> ValidProductKey (hy_ID h) \<or> hy_ID h \<in> set ids \<or> trim_space (hy_Explanation h) = [] \<or> length (hy_Explanation h) > 4096
        then Err ErrInvalidInput
      else if \<not> list_all (\<lambda>x. x \<in> set evidence) (hy_Supports h @ hy_Contradicts h) then Err ErrValidationRequired
      else if hy_Status h = ''supported'' then
        if length (hy_Supports h) < 2 \<or> length (hy_Contradicts h) > 0 \<or> hy_ProposedRemedy h \<notin> set (et_AllowedRemedies (er_Target run))
          then Err ErrValidationRequired
        else (case supported_hypotheses run evidence (hy_ID h # ids) rest of
            Inl e \<Rightarrow> Err e | Inr None \<Rightarrow> Ok None | Inr (Some n) \<Rightarrow> Ok (Some (Suc n)))
      else if hy_Status h = ''contradicted'' then
        if length (hy_Contradicts h) < 1 then Err ErrValidationRequired else supported_hypotheses run evidence (hy_ID h # ids) rest
      else Ok None)"

definition validateDiagnosis :: "'s evidence_context \<Rightarrow> intent_context \<Rightarrow> execution_result \<Rightarrow> (string \<times> string) result" where
  "validateDiagnosis c intent result =
     (let run = ec_Run c in
      if rs_Outcome result \<noteq> ''succeeded'' then blocked_at run
      else if length (rs_Hypotheses result) < 2 \<or> length (rs_Hypotheses result) > 8 \<or> length (rs_ObservationIDs result) < 5
         \<or> length (rs_ObservationIDs result) > 20 then Err ErrValidationRequired
      else case observed_kinds c (rs_ObservationIDs result) of
        Inl e \<Rightarrow> Err e
      | Inr None \<Rightarrow> blocked_at run
      | Inr (Some kinds) \<Rightarrow>
          if length (remdups kinds) < 5 then Err ErrValidationRequired
          else (case violated_criteria c (ctx_Intent intent) (rs_EvaluationIDs result) of
              Inl e \<Rightarrow> Err e
            | Inr violations \<Rightarrow>
                if violations = [] then blocked_at run
                else (case supported_hypotheses run (rs_ObservationIDs result @ rs_EvaluationIDs result @ map bind_RecordID (er_Bindings run)) []
                          (rs_Hypotheses result) of
                    Inl e \<Rightarrow> Err e
                  | Inr None \<Rightarrow> blocked_at run
                  | Inr (Some selected) \<Rightarrow> if selected \<noteq> 1 then blocked_at run else Ok (''ready'', ''remediate''))))"

text \<open>The end of the last remediation.\<close>

definition remediated_at :: "execution_view \<Rightarrow> int" where
  "remediated_at view =
     (case find (\<lambda>s. es_Stage s = ''remediate'' \<and> es_CompletedAt s \<noteq> None) (rev (view_Steps view)) of
        None \<Rightarrow> zero_time | Some s \<Rightarrow> the (es_CompletedAt s))"

fun observed_after :: "'s evidence_context \<Rightarrow> int \<Rightarrow> product_binding list \<Rightarrow> go_error option" where
  "observed_after c after [] = None"
| "observed_after c after (b # rest) =
     (case ec_record c (bind_RecordID b) of
        Inl e \<Rightarrow> Some e
      | Inr record \<Rightarrow>
          (case src_Start (prod_Source record) of
             None \<Rightarrow> Some ErrValidationRequired
           | Some start \<Rightarrow> if gt_Nanos start < after then Some ErrValidationRequired else observed_after c after rest))"

fun satisfied_criteria :: "'s evidence_context \<Rightarrow> product_binding \<Rightarrow> int \<Rightarrow> string list \<Rightarrow> string list option result" where
  "satisfied_criteria c intent after [] = Ok (Some [])"
| "satisfied_criteria c intent after (eid # rest) =
     (case ec_evaluation c eid of
        Inl e \<Rightarrow> Err e
      | Inr evaluation \<Rightarrow>
          if oe_Intent evaluation \<noteq> intent \<or> oc_Outcome evaluation \<noteq> ''satisfied'' then Ok None
          else (case observed_after c after [oe_Left evaluation, oe_Right evaluation] of
              Some e \<Rightarrow> Err e
            | None \<Rightarrow>
                (case satisfied_criteria c intent after rest of
                   Inl e \<Rightarrow> Err e | Inr None \<Rightarrow> Ok None | Inr (Some found) \<Rightarrow> Ok (Some (oe_CriterionID evaluation # found)))))"

definition validateRecovery :: "'s evidence_context \<Rightarrow> intent_context \<Rightarrow> execution_result \<Rightarrow> (string \<times> string) result" where
  "validateRecovery c intent result =
     (let run = ec_Run c in
      if rs_Outcome result \<noteq> ''succeeded'' then blocked_at run
      else case validateExecutionEffects c result of
        Some e \<Rightarrow> Err e
      | None \<Rightarrow>
          if latestExecutionResult (ec_View c) ''remediate'' = None then Err ErrValidationRequired
          else (case satisfied_criteria c (ctx_Intent intent) (remediated_at (ec_View c)) (rs_EvaluationIDs result) of
              Inl e \<Rightarrow> Err e
            | Inr None \<Rightarrow> blocked_at run
            | Inr (Some satisfied) \<Rightarrow>
                if length (remdups satisfied) \<noteq> length (is_Criteria (ctx_Specification intent)) then blocked_at run
                else Ok (''completed'', er_Stage run)))"

subsection \<open>Results\<close>

text \<open>A result of a stage decides the status and the stage the run goes on with.\<close>

fun read_all :: "'s evidence_context \<Rightarrow> artifact list \<Rightarrow> go_error option" where
  "read_all c [] = None"
| "read_all c (a # rest) = (case ec_read c (art_SHA256 a) of Inl e \<Rightarrow> Some e | Inr _ \<Rightarrow> read_all c rest)"

definition model_evidence_ok :: "agent_package \<Rightarrow> model_evidence \<Rightarrow> bool" where
  "model_evidence_ok p m \<longleftrightarrow>
     \<not> (me_Provider m \<noteq> ''ollama'' \<or> me_Model m \<noteq> ap_Model p \<or> me_ModelSHA256 m \<noteq> ap_ModelSHA256 p \<or> me_InputTokens m < 0
        \<or> me_OutputTokens m < 1 \<or> me_OutputTokens m > ap_MaxOutputTokens p \<or> me_InputTokens m > ap_MaxInputBytes p
        \<or> me_DurationMillis m < 0 \<or> me_DurationMillis m > (ap_TimeoutSeconds p + 5) * 1000
        \<or> (me_TrialKind m \<noteq> ''fixture'' \<and> me_TrialKind m \<noteq> ''local_model''))"

definition validate_model :: "'s evidence_context \<Rightarrow> execution_result \<Rightarrow> go_error option" where
  "validate_model c result =
     (case rs_Model result of
        None \<Rightarrow> Some ErrValidationRequired
      | Some m \<Rightarrow>
          if \<not> model_evidence_ok (run_Package (ec_Run c)) m then Some ErrValidationRequired
          else (case read_all c [me_Prompt m, me_Response m, me_Manifest m] of
              Some e \<Rightarrow> Some e | None \<Rightarrow> validateModelSubmission c m result))"

fun plan_coverage :: "string list \<Rightarrow> execution_plan_step list \<Rightarrow> string list option" where
  "plan_coverage criteria [] = Some []"
| "plan_coverage criteria (step # rest) =
     (if trim_space (plan_Description step) = [] \<or> length (plan_Description step) > 2048 \<or> plan_Criteria step = []
         \<or> \<not> list_all (\<lambda>x. x \<in> set criteria) (plan_Criteria step) then None
      else case plan_coverage criteria rest of None \<Rightarrow> None | Some found \<Rightarrow> Some (plan_Criteria step @ found))"

definition validate_build :: "'s evidence_context \<Rightarrow> intent_context \<Rightarrow> execution_result \<Rightarrow> (string \<times> string) result" where
  "validate_build c intent result =
     (case executionPacket (ec_Service c) intent of
        Inl e \<Rightarrow> Err e
      | Inr (packet, _) \<Rightarrow>
          if rs_Outcome result \<noteq> ''succeeded'' then blocked_at (ec_Run c)
          else (case ec_read c (art_SHA256 (rs_Patch result)) of
              Inl e \<Rightarrow> Err e
            | Inr patch \<Rightarrow>
                if length patch = 0 \<or> int (length patch) > lim_MaxPatchBytes (pkt_Limits packet) \<or> rs_BaseRevision result \<noteq> pkt_BaseRevision packet
                   \<or> length (rs_Plan result) < 1 \<or> length (rs_Plan result) > 20 then Err ErrValidationRequired
                else (case plan_coverage (rs_Criteria result) (rs_Plan result) of
                    None \<Rightarrow> Err ErrInvalidInput
                  | Some found \<Rightarrow>
                      if length (remdups found) \<noteq> length (rs_Criteria result) then Err ErrValidationRequired
                      else Ok (''ready'', ''evaluate''))))"

fun validate_checks :: "'s evidence_context \<Rightarrow> execution_result \<Rightarrow> (execution_check \<times> check) list \<Rightarrow> go_error option" where
  "validate_checks c result [] = None"
| "validate_checks c result ((got, want) # rest) =
     (if xc_Name got \<noteq> check_Name want \<or> xc_ArgvSHA256 got \<noteq> Digest (argv_bytes (check_Argv want)) then Some ErrValidationRequired
      else case ec_read c (art_SHA256 (xc_Output got)) of
        Inl e \<Rightarrow> Some e
      | Inr _ \<Rightarrow>
          if rs_Outcome result = ''succeeded'' \<and> (xc_ExitCode got \<noteq> 0 \<or> xc_TimedOut got) then Some ErrValidationRequired
          else validate_checks c result rest)"

definition validate_evaluate :: "'s evidence_context \<Rightarrow> intent_context \<Rightarrow> execution_result \<Rightarrow> (string \<times> string) result" where
  "validate_evaluate c intent result =
     (case executionPacket (ec_Service c) intent of
        Inl e \<Rightarrow> Err e
      | Inr (packet, sha) \<Rightarrow>
          (case latestExecutionResult (ec_View c) ''build'' of
             None \<Rightarrow> Err ErrValidationRequired
           | Some candidate \<Rightarrow>
               if rs_CandidateSHA result \<noteq> art_SHA256 (rs_Patch candidate) \<or> rs_PacketSHA256 result \<noteq> sha
                  \<or> rs_BaseRevision result \<noteq> pkt_BaseRevision packet \<or> rs_SandboxImage result \<noteq> ap_EvaluatorImage (run_Package (ec_Run c))
                 then Err ErrValidationRequired
               else if length (rs_Checks result) > length (pkt_Checks packet) then Err ErrValidationRequired
               else (case validate_checks c result (zip (rs_Checks result) (pkt_Checks packet)) of
                   Some e \<Rightarrow> Err e
                 | None \<Rightarrow>
                     if rs_Outcome result = ''failed'' then Ok (''ready'', ''build'')
                     else if length (rs_Checks result) \<noteq> length (pkt_Checks packet) then Err ErrValidationRequired
                     else (case validateVerifierReceipt c packet result of Some e \<Rightarrow> Err e | None \<Rightarrow> Ok (''ready'', ''deliver'')))))"

definition validate_effect_stage :: "'s evidence_context \<Rightarrow> execution_result \<Rightarrow> (string \<times> string) result" where
  "validate_effect_stage c result =
     (if rs_Outcome result = ''failed'' then blocked_at (ec_Run c)
      else case validateExecutionEffects c result of
        Some e \<Rightarrow> Err e
      | None \<Rightarrow>
          if er_Stage (ec_Run c) = ''deliver'' then Ok (''ready'', ''verify_delivery'')
          else if er_Stage (ec_Run c) = ''remediate'' then Ok (''ready'', ''verify_recovery'')
          else if er_Stage (ec_Run c) = ''verify_delivery'' then Ok (''completed'', er_Stage (ec_Run c))
          else Err ErrValidationRequired)"

definition validateExecutionResult :: "'s evidence_context \<Rightarrow> intent_context \<Rightarrow> execution_result \<Rightarrow> (string \<times> string) result" where
  "validateExecutionResult c intent result =
     (let run = ec_Run c in
      if rs_Stage result \<noteq> er_Stage run \<or> trim_space (rs_Summary result) = [] \<or> length (rs_Summary result) > 4096
         \<or> length (rs_Artifacts result) > 30 then Err ErrInvalidInput
      else case read_all c (rs_Artifacts result) of
        Some e \<Rightarrow> Err e
      | None \<Rightarrow>
          if rs_Outcome result = ''blocked'' \<or> rs_Outcome result = ''unavailable'' \<or> rs_Outcome result = ''inconclusive'' then blocked_at run
          else if rs_Outcome result \<noteq> ''succeeded'' \<and> rs_Outcome result \<noteq> ''failed'' then Err ErrInvalidInput
          else if rs_Outcome result = ''succeeded'' \<and> \<not> sameStrings (map ic_ID (is_Criteria (ctx_Specification intent))) (rs_Criteria result)
            then Err ErrValidationRequired
          else (case (if er_Stage run = ''build'' \<or> er_Stage run = ''diagnose'' then validate_model c result else None) of
              Some e \<Rightarrow> Err e
            | None \<Rightarrow>
                if er_Stage run = ''build'' then validate_build c intent result
                else if er_Stage run = ''evaluate'' then validate_evaluate c intent result
                else if er_Stage run = ''diagnose'' then validateDiagnosis c intent result
                else if er_Stage run = ''verify_recovery'' then validateRecovery c intent result
                else validate_effect_stage c result))"

section \<open>Operations\<close>

record execution_create_input =
  xci_ProjectID :: string
  xci_TargetID :: string
  xci_Kind :: string
  xci_IntentID :: string
  xci_ExpectedSHA256 :: string
  xci_IdempotencyKey :: string

definition json_create_input :: "execution_create_input \<Rightarrow> json" where
  "json_create_input i = JObject [(''project_id'', JString (xci_ProjectID i)), (''target_id'', JString (xci_TargetID i)),
     (''kind'', JString (xci_Kind i)), (''intent_id'', JString (xci_IntentID i)), (''expected_sha256'', JString (xci_ExpectedSHA256 i)),
     (''idempotency_key'', JString (xci_IdempotencyKey i))]"

definition created_run ::
  "call_env \<Rightarrow> principal \<Rightarrow> execution_create_input \<Rightarrow> execution_target \<Rightarrow> (string \<times> agent_package) list \<Rightarrow> intent_context \<Rightarrow> string
     \<Rightarrow> execution_run" where
  "created_run env p i target packages prepared revision =
     \<lparr>er_Schema = ''hybrid-ai/sdlc-execution/v1'', er_ID = env_id env 0, er_ProjectID = xci_ProjectID i, er_ProductID = et_ProductID target,
      er_Kind = xci_Kind i, er_RepositoryRevision = revision, er_Intent = ctx_Intent prepared,
      er_Bindings = is_Bindings (ctx_Specification prepared), er_Owner = p_ID p, er_OwnerCredential = p_CredentialID p, er_Target = target,
      er_Packages = packages, er_Status = ''ready'', er_Stage = (if xci_Kind i = ''incident'' then ''diagnose'' else ''build''),
      er_Version = 0, er_StepNumber = 0, er_Usage = zero_usage, er_Blockers = [], er_CreatedAt = env_clock env 0,
      er_Deadline = env_clock env 0 + seconds (eb_MaxSeconds (et_Budget target)), er_UpdatedAt = env_clock env 0,
      er_IdempotencyKey = xci_IdempotencyKey i, er_RequestSHA256 = Digest (print_json (json_create_input i))\<rparr>"

text \<open>The revision a feature builds on: that of its one protected packet, which protects the target's test paths.\<close>

definition feature_revision :: "('s product_service_scheme) \<Rightarrow> execution_target \<Rightarrow> intent_context \<Rightarrow> string result" where
  "feature_revision svc target prepared =
     (case executionPacket svc prepared of
        Inl e \<Rightarrow> Err e
      | Inr (packet, _) \<Rightarrow>
          if length (pkt_BaseRevision packet) \<noteq> 40 \<or> pkt_Destructive packet \<or> pkt_CloudReview packet \<or> \<not> pkt_LocalOnly packet
            then Err ErrQualityBlocked
          else if \<not> list_all (\<lambda>x. x \<in> set (pkt_ForbiddenFiles packet)) (et_ProtectedPaths target) then Err ErrQualityBlocked
          else Ok (pkt_BaseRevision packet))"

definition criterion_oracle :: "string \<Rightarrow> string" where
  "criterion_oracle kind = (if kind = ''feature'' then ''work_packet'' else ''observation_reconciliation'')"

definition service_CreateExecution ::
  "('s exec_service_scheme) \<Rightarrow> call_env \<Rightarrow> exec_db \<Rightarrow> exec_db \<Rightarrow> execution_create_input \<Rightarrow> execution_run result \<times> exec_db" where
  "service_CreateExecution svc env seen db i =
     (case sdlc_action svc env (xci_ProjectID i) ''new'' ''create'' [] of
        Inl e \<Rightarrow> (Err e, db)
      | Inr p \<Rightarrow>
          if \<not> p_Human p \<or> p_CredentialID p = [] \<or> \<not> HasRole p (xci_ProjectID i) ''operations'' \<or> p_Delegation p \<noteq> None
             \<or> \<not> ValidProductKey (xci_IdempotencyKey i) \<or> (xci_Kind i \<noteq> ''feature'' \<and> xci_Kind i \<noteq> ''incident'')
            then (Err ErrForbidden, db)
          else (case registry_Target (svc_Registry svc) (xci_ProjectID i) (xci_TargetID i) of
              Inl e \<Rightarrow> (Err e, db)
            | Inr (target, packages) \<Rightarrow>
                (case IntentContext svc env None seen \<lparr>ici_ProjectID = xci_ProjectID i, ici_IntentID = xci_IntentID i,
                        ici_ExpectedSHA256 = xci_ExpectedSHA256 i\<rparr> of
                   Inl e \<Rightarrow> (Err e, db)
                 | Inr prepared \<Rightarrow>
                     if \<not> ctx_Ready prepared then (Err ErrExecutionBlocked, db)
                     else (case GetProductRecord svc env None seen (xci_ProjectID i) (xci_IntentID i) True of
                         Inl e \<Rightarrow> (Err e, db)
                       | Inr intent \<Rightarrow>
                           if prod_Product intent \<noteq> et_ProductID target then (Err ErrForbidden, db)
                           else if \<not> list_all (\<lambda>r. prod_Classification r \<in> set (et_Classifications target)) (ctx_Records prepared @ [intent])
                             then (Err ErrForbidden, db)
                           else if \<not> list_all (\<lambda>c. ic_Oracle c = criterion_oracle (xci_Kind i)) (is_Criteria (ctx_Specification prepared))
                             then (Err ErrInvalidInput, db)
                           else (case (if xci_Kind i = ''feature'' then feature_revision svc target prepared else Ok []) of
                               Inl e \<Rightarrow> (Err e, db)
                             | Inr revision \<Rightarrow> CreateExecution (sub_env 1 env) db (created_run env p i target packages prepared revision))))))"

definition service_ClaimExecution ::
  "('s exec_service_scheme) \<Rightarrow> call_env \<Rightarrow> exec_db \<Rightarrow> exec_db \<Rightarrow> string \<Rightarrow> string \<Rightarrow> string \<Rightarrow> execution_claim result \<times> exec_db" where
  "service_ClaimExecution svc env seen db project rid token =
     (case service_GetExecution svc (sub_env 1 env) seen project rid of
        Inl e \<Rightarrow> (Err e, db)
      | Inr view \<Rightarrow>
          (case sdlc_action svc env project rid ''execute'' (execute_attributes (view_Run view)) of
             Inl e \<Rightarrow> (Err e, db)
           | Inr p \<Rightarrow>
               (case registry_Current (svc_Registry svc) (view_Run view) of
                  Some e \<Rightarrow> (Err e, db) | None \<Rightarrow> ClaimExecution (sub_env 2 env) db project rid (p_ID p) token)))"

definition PutExecutionArtifact ::
  "('s exec_service_scheme) \<Rightarrow> call_env \<Rightarrow> local_store \<Rightarrow> exec_db \<Rightarrow> exec_db \<Rightarrow> execution_lease \<Rightarrow> string \<Rightarrow> string
     \<Rightarrow> artifact result \<times> local_store \<times> exec_db" where
  "PutExecutionArtifact svc env st seen db l content mediaType =
     (case executionScope svc env seen l [] of
        Inl e \<Rightarrow> (Err e, st, db)
      | Inr (p, view) \<Rightarrow>
          if length content = 0 \<or> length content > 2 * 1024 * 1024 \<or> mediaType \<notin> set [''text/plain'', ''application/json'', ''text/x-diff'']
            then (Err ErrInvalidInput, st, db)
          else (case Put st content mediaType of
              (Inl e, st') \<Rightarrow> (Err e, st', db)
            | (Inr a, st') \<Rightarrow>
                (case RecordExecutionArtifact (sub_env 4 env) db l (p_ID p) a False of
                   (Inl e, db') \<Rightarrow> (Err e, st', db') | (Inr _, db') \<Rightarrow> (Ok a, st', db'))))"

fun reauthorize :: "('s exec_service_scheme) \<Rightarrow> call_env \<Rightarrow> exec_db \<Rightarrow> string \<Rightarrow> string list \<Rightarrow> go_error option" where
  "reauthorize svc env db project [] = None"
| "reauthorize svc env db project (oid # rest) =
     (case GetProductRecord svc env None db project oid True of Inl e \<Rightarrow> Some e | Inr _ \<Rightarrow> reauthorize svc env db project rest)"

definition GetExecutionArtifact ::
  "('s exec_service_scheme) \<Rightarrow> call_env \<Rightarrow> local_store \<Rightarrow> exec_db \<Rightarrow> string \<Rightarrow> string \<Rightarrow> string \<Rightarrow> string result" where
  "GetExecutionArtifact svc env st db project rid sha =
     (case service_GetExecution svc (sub_env 1 env) db project rid of
        Inl e \<Rightarrow> Err e
      | Inr view \<Rightarrow>
          (case (if er_Kind (view_Run view) \<noteq> ''incident'' then None
                 else if \<not> (case PrincipalFromContext (env_ctx env) of None \<Rightarrow> False | Some p \<Rightarrow> p_Human p) then Some ErrForbidden
                 else reauthorize svc env db project
                   (concat (map (\<lambda>s. case es_Result s of None \<Rightarrow> [] | Some r \<Rightarrow> rs_ObservationIDs r) (view_Steps view)))) of
             Some e \<Rightarrow> Err e | None \<Rightarrow> readExecutionArtifact db st (view_Run view) sha))"

definition GetExecutionRecord ::
  "('s exec_service_scheme) \<Rightarrow> call_env \<Rightarrow> exec_db \<Rightarrow> execution_lease \<Rightarrow> string \<Rightarrow> product_record result" where
  "GetExecutionRecord svc env db l rid =
     (case executionScope svc env db l ''context'' of
        Inl e \<Rightarrow> Err e
      | Inr (_, view) \<Rightarrow> GetProductRecord svc (sub_env 4 env) (Some (view_Run view)) db (el_ProjectID l) rid True)"

definition service_CompleteExecution ::
  "('s exec_service_scheme) \<Rightarrow> call_env \<Rightarrow> local_store \<Rightarrow> exec_db \<Rightarrow> exec_db \<Rightarrow> execution_lease \<Rightarrow> execution_result
     \<Rightarrow> execution_run result \<times> local_store \<times> exec_db" where
  "service_CompleteExecution svc env st seen db l result =
     (case service_GetExecution svc (sub_env 4 env) seen (el_ProjectID l) (el_RunID l) of
        Inl e \<Rightarrow> (Err e, st, db)
      | Inr view0 \<Rightarrow>
          let raw = print_json (json_result result);
              actor = (case PrincipalFromContext (env_ctx env) of None \<Rightarrow> [] | Some p \<Rightarrow> p_ID p)
          in if length raw > 256 * 1024 then (Err ErrInvalidInput, st, db)
             else (case find (\<lambda>s. es_ID s = el_StepID l \<and> es_CompletedAt s \<noteq> None) (view_Steps view0) of
                 Some step \<Rightarrow>
                   if es_Actor step \<noteq> actor \<or> Digest raw \<noteq> art_SHA256 (es_Evidence step) then (Err ErrVersionConflict, st, db)
                   else (case CompleteExecution (sub_env 5 env) db l actor result (es_Evidence step) [] [] of (r, db') \<Rightarrow> (r, st, db'))
               | None \<Rightarrow>
                   (case executionScope svc env seen l [] of
                      Inl e \<Rightarrow> (Err e, st, db)
                    | Inr (_, view) \<Rightarrow>
                        (case IntentContext svc (sub_env 6 env) (Some (view_Run view)) seen (run_intent (view_Run view)) of
                           Inl e \<Rightarrow> (Err e, st, db)
                         | Inr prepared \<Rightarrow>
                             if \<not> ctx_Ready prepared then (Err ErrQualityBlocked, st, db)
                             else (case validateExecutionResult \<lparr>ec_Service = svc, ec_Env = sub_env 6 env, ec_DB = seen, ec_Store = st, ec_View = view\<rparr>
                                        prepared result of
                                 Inl e \<Rightarrow> (Err e, st, db)
                               | Inr (status, stage) \<Rightarrow>
                                   (case Put st raw ''application/json'' of
                                      (Inl e, st') \<Rightarrow> (Err e, st', db)
                                    | (Inr a, st') \<Rightarrow>
                                        (case CompleteExecution (sub_env 5 env) db l actor result a status stage of (r, db') \<Rightarrow> (r, st', db'))))))))"

definition service_ControlExecution ::
  "('s exec_service_scheme) \<Rightarrow> call_env \<Rightarrow> exec_db \<Rightarrow> exec_db \<Rightarrow> string \<Rightarrow> string \<Rightarrow> int \<Rightarrow> string \<Rightarrow> string \<Rightarrow> execution_run result \<times> exec_db" where
  "service_ControlExecution svc env seen db project rid version action reason =
     (case service_GetExecution svc (sub_env 1 env) seen project rid of
        Inl e \<Rightarrow> (Err e, db)
      | Inr view \<Rightarrow>
          (case sdlc_action svc env project rid ''control'' [(''owner'', AttrText (er_Owner (view_Run view)))] of
             Inl e \<Rightarrow> (Err e, db)
           | Inr p \<Rightarrow>
               if trim_space reason = [] \<or> length reason > 2048 then (Err ErrInvalidInput, db)
               else (case (if action = ''resume'' \<or> action = ''reconcile'' then registry_Current (svc_Registry svc) (view_Run view) else None) of
                   Some e \<Rightarrow> (Err e, db)
                 | None \<Rightarrow> ControlExecution (sub_env 2 env) db project rid (p_ID p) version action reason)))"

text \<open>
  A source query reserves its budget in one transaction and is dispatched after it; \<open>between\<close> is what other calls have
  made of the database meanwhile.
\<close>

definition QueryExecutionSource ::
  "('s exec_service_scheme) \<Rightarrow> call_env \<Rightarrow> local_store \<Rightarrow> exec_db \<Rightarrow> exec_db \<Rightarrow> (exec_db \<Rightarrow> exec_db) \<Rightarrow> execution_lease \<Rightarrow> source_query
     \<Rightarrow> source_receipt result \<times> local_store \<times> exec_db" where
  "QueryExecutionSource svc env st seen db between l q =
     (case executionScope svc env seen l ''source_query'' of
        Inl e \<Rightarrow> (Err e, st, db)
      | Inr (p, view) \<Rightarrow>
          if sq_ProductID q \<noteq> er_ProductID (view_Run view) \<or> sq_ProjectID q \<noteq> er_ProjectID (view_Run view) then (Err ErrForbidden, st, db)
          else if \<not> ValidProductKey (sq_IdempotencyKey q) \<or> length (sq_IdempotencyKey q) > 80 then (Err ErrInvalidInput, st, db)
          else
            let q' = q\<lparr>sq_IdempotencyKey := el_StepID l @ '':'' @ sq_IdempotencyKey q\<rparr> in
            (case ReserveExecutionSource (sub_env 4 env) db l (p_ID p) q' of
               (Inl e, db') \<Rightarrow> (Err e, st, db')
             | (Inr _, db') \<Rightarrow> QueryProductSource svc (sub_env 5 env) (Some (view_Run view)) (Some l) st (between db') (between db') q'))"

definition CompareExecutionObservations ::
  "('s exec_service_scheme) \<Rightarrow> call_env \<Rightarrow> local_store \<Rightarrow> exec_db \<Rightarrow> exec_db \<Rightarrow> execution_lease \<Rightarrow> compare_input
     \<Rightarrow> observation_evaluation result \<times> local_store \<times> exec_db" where
  "CompareExecutionObservations svc env st seen db l i =
     (case executionScope svc env seen l ''compare_observations'' of
        Inl e \<Rightarrow> (Err e, st, db)
      | Inr (p, view) \<Rightarrow>
          if cmp_ProjectID i \<noteq> er_ProjectID (view_Run view) \<or> cmp_IntentID i \<noteq> bind_RecordID (er_Intent (view_Run view))
             \<or> cmp_ExpectedSHA256 i \<noteq> bind_SHA256 (er_Intent (view_Run view)) then (Err ErrForbidden, st, db)
          else CompareProductObservations svc (sub_env 4 env) (Some (view_Run view)) (Some l) st seen db i)"

end
