(* ===== verification/ServiceMachine.thy ===== *)
theory ServiceMachine
  imports ExecService ExecHistory ProductProps
begin

text \<open>
  The services as one state machine over the artifact store and the database, and the proof that it refines the machines of
  the execution store and of the product store: whatever is shown of every state the repositories can reach holds of every state
  the services can reach. The service supplies what the stores assume of their callers; the registry of operator
  configuration it runs with is one the registry validation accepts.
\<close>

section \<open>Frames\<close>

text \<open>The execution store leaves the tables of the product records alone, and the product store those of the executions.\<close>

definition product_tables :: "('a product_db_scheme) \<Rightarrow> product_row list \<times> head_row list \<times> decision_row list \<times> validation_row list" where
  "product_tables db = (x_products db, x_heads db, x_decisions db, x_validations db)"

named_theorems frame

lemma saveExecution_frame [frame]:
  "saveExecution env clock idx db run kind actor step reason evidence = Inr db' \<Longrightarrow> product_tables db' = product_tables db"
  by (auto simp: saveExecution_def product_tables_def split: if_splits)

lemma saveExecutionStep_frame [simp]: "product_tables (saveExecutionStep db r step) = product_tables db"
  by (simp add: saveExecutionStep_def product_tables_def)

lemma block_run_frame [frame]: "block_run env clock db run actor reason e = (r, db') \<Longrightarrow> product_tables db' = product_tables db"
  by (auto simp: block_run_def split: sum.splits dest: frame)

lemma CreateExecution_frame [frame]: "CreateExecution env db inp = (r, db') \<Longrightarrow> product_tables db' = product_tables db"
  by (auto simp: CreateExecution_def split: if_splits option.splits sum.splits dest!: saveExecution_frame) (simp_all add: product_tables_def)

lemma reclaim_step_frame [frame]: "reclaim_step env db run pkg actor token row = (r, db') \<Longrightarrow> product_tables db' = product_tables db"
  by (auto simp: reclaim_step_def Let_def split: sum.splits dest!: saveExecution_frame)

lemma begin_step_frame [frame]: "begin_step env db run pkg actor token = (r, db') \<Longrightarrow> product_tables db' = product_tables db"
  by (auto simp: begin_step_def Let_def split: sum.splits if_splits dest!: saveExecution_frame) (simp_all add: product_tables_def)

lemma ClaimExecution_frame [frame]: "ClaimExecution env db project rid actor token = (r, db') \<Longrightarrow> product_tables db' = product_tables db"
  unfolding ClaimExecution_def
  by (auto split: if_splits option.splits sum.splits dest: block_run_frame reclaim_step_frame begin_step_frame)

lemma commit_result_frame [frame]:
  "commit_result env db run row actor result evidence status stage = (r, db') \<Longrightarrow> product_tables db' = product_tables db"
  by (auto simp: commit_result_def Let_def split: sum.splits if_splits dest!: saveExecution_frame)
    (simp_all add: product_tables_def saveExecutionStep_def)

lemma CompleteExecution_frame [frame]:
  "CompleteExecution env db l actor result evidence status stage = (r, db') \<Longrightarrow> product_tables db' = product_tables db"
  unfolding CompleteExecution_def by (auto split: if_splits option.splits sum.splits dest: commit_result_frame)

lemma control_effect_frame: "control_effect env db run action reason = Inr (run', db') \<Longrightarrow> product_tables db' = product_tables db"
  unfolding control_effect_def by (auto split: if_splits option.splits)

lemma ControlExecution_frame [frame]:
  "ControlExecution env db project rid actor version action reason = (r, db') \<Longrightarrow> product_tables db' = product_tables db"
  unfolding ControlExecution_def
  by (auto split: if_splits option.splits sum.splits dest!: saveExecution_frame control_effect_frame)

lemma ReserveExecutionSource_frame [frame]:
  "ReserveExecutionSource env db l actor q = (r, db') \<Longrightarrow> product_tables db' = product_tables db"
  unfolding ReserveExecutionSource_def
  by (auto split: if_splits option.splits sum.splits prod.splits dest!: saveExecution_frame) (simp_all add: product_tables_def)

lemma RecordExecutionArtifact_frame [frame]:
  "RecordExecutionArtifact env db l actor a bindContext = (r, db') \<Longrightarrow> product_tables db' = product_tables db"
  unfolding RecordExecutionArtifact_def
  by (auto simp: Let_def product_tables_def saveExecutionStep_def split: if_splits option.splits sum.splits prod.splits)

lemma same_exec_refl [simp]: "same_exec db db"
  by (simp add: same_exec_def)

lemma same_exec_trans: "same_exec a b \<Longrightarrow> same_exec b c \<Longrightarrow> same_exec a c"
  by (simp add: same_exec_def)

named_theorems exec_frame

lemma product_insert_exec: "product_insert decode db r = Inr db' \<Longrightarrow> same_exec db db'"
  by (auto simp: product_insert_def same_exec_def split: if_splits)

lemma advanceProductHead_exec [simp]: "same_exec db (advanceProductHead db' r) \<longleftrightarrow> same_exec db db'"
  by (simp add: advanceProductHead_def Let_def same_exec_def)

lemma repo_PutProductRecord_exec [exec_frame]: "repo_PutProductRecord decode env db r n = (res, db') \<Longrightarrow> same_exec db db'"
  by (auto simp: repo_PutProductRecord_def split: if_splits sum.splits dest: product_insert_exec)

lemma repo_ValidateProductRecord_exec [exec_frame]: "repo_ValidateProductRecord env db v = (res, db') \<Longrightarrow> same_exec db db'"
  by (auto simp: repo_ValidateProductRecord_def same_exec_def Let_def split: if_splits option.splits)

lemma repo_DecideProductRecord_exec [exec_frame]: "repo_DecideProductRecord env db d = (res, db') \<Longrightarrow> same_exec db db'"
  by (auto simp: repo_DecideProductRecord_def Let_def split: if_splits option.splits) (simp_all add: same_exec_def)

lemma repo_PutProductRelation_exec [exec_frame]: "repo_PutProductRelation env db rel = (res, db') \<Longrightarrow> same_exec db db'"
  by (auto simp: repo_PutProductRelation_def same_exec_def Let_def split: if_splits option.splits)

lemma insert_observation_exec: "insert_observation db r = Inr db' \<Longrightarrow> same_exec db db'"
  by (auto simp: insert_observation_def split: if_splits sum.splits dest: product_insert_exec)

lemma insert_receipt_frames: "insert_receipt db r = Inr db' \<Longrightarrow> same_exec db db' \<and> product_tables db' = product_tables db"
  by (auto simp: insert_receipt_def same_exec_def product_tables_def split: if_splits)

lemma p_step_same: "product_tables db' = product_tables db \<Longrightarrow> p_step db db'"
  by (rule p_step.elsewhere) (simp_all add: product_tables_def)

text \<open>An observation with its receipt: a step of the product store, and none of the execution store.\<close>

lemma RecordSourceObservation_db:
  assumes "RecordSourceObservation env lease db receipt rec = (r, db')"
  shows "db' = db \<or> (\<exists>db1. (db1 = db \<or> (\<exists>x. insert_observation db x = Inr db1)) \<and> insert_receipt db1 receipt = Inr db')"
  using assms unfolding RecordSourceObservation_def by (auto split: option.splits if_splits sum.splits)

lemma RecordSourceObservation_exec [exec_frame]: "RecordSourceObservation env lease db receipt rec = (r, db') \<Longrightarrow> same_exec db db'"
  by (drule RecordSourceObservation_db) (auto dest!: insert_observation_exec insert_receipt_frames elim: same_exec_trans)

lemma RecordSourceObservation_product: "RecordSourceObservation env lease db receipt rec = (r, db') \<Longrightarrow> p_step\<^sup>*\<^sup>* db db'"
proof (drule RecordSourceObservation_db, elim disjE exE conjE)
  fix db1 x assume "insert_observation db x = Inr db1" "insert_receipt db1 receipt = Inr db'"
  then have "p_step db db1" "p_step db1 db'" using p_step.observe insert_receipt_frames p_step_same by metis+
  then show ?thesis by simp
qed (use insert_receipt_frames p_step_same in \<open>blast+\<close>)

lemma RecordProductEvaluation_frames:
  "RecordProductEvaluation env lease db ev = (r, db') \<Longrightarrow> same_exec db db' \<and> product_tables db' = product_tables db"
  unfolding RecordProductEvaluation_def
  by (auto simp: same_exec_def product_tables_def Let_def split: option.splits if_splits)

section \<open>What the service supplies\<close>

lemma validate_roles_distinct:
  "validate_roles r t actors roles = None \<Longrightarrow>
     distinct (map (map_get [] (et_Participants t)) roles) \<and> (\<forall>role \<in> set roles. map_get [] (et_Participants t) role \<notin> set actors)"
proof (induction roles arbitrary: actors)
  case (Cons a roles)
  let ?f = "map_get [] (et_Participants t)"
  have rest: "validate_roles r t (?f a # actors) roles = None" and "?f a \<notin> set actors"
    using Cons.prems by (auto simp: Let_def split: option.splits if_splits)
  with Cons.IH [OF rest] show ?case by (auto simp: image_iff)
qed simp

lemma validate_target_fresh:
  assumes "validate_target r seen t = None"
  shows "budget_Validate (et_Budget t)" and "distinct (map (map_get [] (et_Participants t)) sdlc_roles)"
  using assms validate_roles_distinct [of r t "[]" sdlc_roles] by (auto simp: validate_target_def split: if_splits option.splits)

lemma validate_targets_each: "validate_targets r seen ts = None \<Longrightarrow> t \<in> set ts \<Longrightarrow> \<exists>s. validate_target r s t = None"
  by (induction r seen ts rule: validate_targets.induct) (auto split: option.splits)

lemma registry_Target_valid:
  assumes "registry_Validate reg = None" and "registry_Target reg project tid = Inr (t, packages)"
  shows "budget_Validate (et_Budget t)" and "distinct (map (map_get [] (et_Participants t)) sdlc_roles)"
proof -
  have "t \<in> set (reg_Targets reg)"
    using assms(2) by (auto simp: registry_Target_def find_Some_iff split: option.splits if_splits)
  moreover have "validate_targets reg [] (reg_Targets reg) = None"
    using assms(1) by (auto simp: registry_Validate_def split: if_splits option.splits)
  ultimately obtain s where "validate_target reg s t = None" using validate_targets_each by blast
  then show "budget_Validate (et_Budget t)" "distinct (map (map_get [] (et_Participants t)) sdlc_roles)"
    by (rule validate_target_fresh)+
qed

lemma created_run_fresh:
  assumes "registry_Validate reg = None" and "registry_Target reg project tid = Inr (t, packages)"
  shows "fresh_request (created_run env p i t packages prepared revision)"
proof -
  have "inj_on (map_get [] (et_Participants t)) (set sdlc_roles)"
    using registry_Target_valid(2) [OF assms] by (simp add: distinct_map)
  then show ?thesis
    using registry_Target_valid(1) [OF assms] by (auto simp: fresh_request_def created_run_def inj_on_def)
qed

lemma service_CreateExecution_run:
  assumes "service_CreateExecution svc env seen db i = (r, db')" and "registry_Validate (svc_Registry svc) = None"
  shows "db' = db \<or> (\<exists>inp. fresh_request inp \<and> CreateExecution (sub_env 1 env) db inp = (r, db'))"
  using assms(1) created_run_fresh [OF assms(2)] unfolding service_CreateExecution_def
  by (auto split: sum.splits if_splits prod.splits)

section \<open>The machine\<close>

text \<open>
  One step is one call of a service with arbitrary arguments, caller, readings and earlier state seen, or any other change of
  the database outside the tables the two stores own, or of the artifact store. Binding a context to a step is
  the transaction of the context call, whose retrieval of context is not part of the model.
\<close>

type_synonym platform = "local_store \<times> exec_db"

inductive v_step :: "platform \<Rightarrow> platform \<Rightarrow> bool" where
  create: "registry_Validate (svc_Registry svc) = None \<Longrightarrow> service_CreateExecution (svc :: exec_service) env seen db i = (r, db')
     \<Longrightarrow> v_step (st, db) (st, db')"
| claim: "service_ClaimExecution (svc :: exec_service) env seen db project rid token = (rc, db') \<Longrightarrow> v_step (st, db) (st, db')"
| artifact: "PutExecutionArtifact (svc :: exec_service) env st seen db l content mediaType = (ra, st', db') \<Longrightarrow> v_step (st, db) (st', db')"
| bind_context: "RecordExecutionArtifact env db l actor a True = (ru, db') \<Longrightarrow> v_step (st, db) (st, db')"
| complete: "service_CompleteExecution (svc :: exec_service) env st seen db l result = (r, st', db') \<Longrightarrow> v_step (st, db) (st', db')"
| control: "service_ControlExecution (svc :: exec_service) env seen db project rid version action reason = (r, db') \<Longrightarrow> v_step (st, db) (st, db')"
| query: "(\<forall>d. x_step\<^sup>*\<^sup>* d (between d) \<and> p_step\<^sup>*\<^sup>* d (between d))
     \<Longrightarrow> QueryExecutionSource (svc :: exec_service) env st seen db between l q = (rq, st', db') \<Longrightarrow> v_step (st, db) (st', db')"
| compare: "CompareExecutionObservations (svc :: exec_service) env st seen db l ci = (re, st', db') \<Longrightarrow> v_step (st, db) (st', db')"
| propose: "PutProductRecord (psvc :: product_service) env None st db pin = (rp, st', db') \<Longrightarrow> v_step (st, db) (st', db')"
| validate: "ValidateProductRecord (psvc :: product_service) env None st seen db vin = (rv, st', db') \<Longrightarrow> v_step (st, db) (st', db')"
| decide: "DecideProductRecord (psvc :: product_service) env None db d = (rp, db') \<Longrightarrow> v_step (st, db) (st, db')"
| query_source: "QueryProductSource (esvc :: evidence_service) env None None st seen db q = (rq, st', db') \<Longrightarrow> v_step (st, db) (st', db')"
| evaluate: "CompareProductObservations (psvc :: product_service) env None None st seen db ci = (re, st', db') \<Longrightarrow> v_step (st, db) (st', db')"
| elsewhere: "same_exec db db' \<Longrightarrow> product_tables db' = product_tables db \<Longrightarrow> v_step (st, db) (st', db')"

definition v_start :: "platform \<Rightarrow> bool" where
  "v_start s \<longleftrightarrow> x_start (snd s) \<and> p_start (snd s)"

text \<open>The database of a step, seen as what the two stores did.\<close>

definition store_steps :: "exec_db \<Rightarrow> exec_db \<Rightarrow> bool" where
  "store_steps db db' \<longleftrightarrow> x_step\<^sup>*\<^sup>* db db' \<and> p_step\<^sup>*\<^sup>* db db'"

lemma store_steps_refl [simp]: "store_steps db db"
  by (simp add: store_steps_def)

lemma store_steps_trans: "store_steps a b \<Longrightarrow> store_steps b c \<Longrightarrow> store_steps a c"
  unfolding store_steps_def by (blast intro: rtranclp_trans)

lemma exec_store_steps: "x_step db db' \<Longrightarrow> product_tables db' = product_tables db \<Longrightarrow> store_steps db db'"
  by (auto simp: store_steps_def intro: p_step_same)

lemma product_store_steps: "same_exec db db' \<Longrightarrow> p_step\<^sup>*\<^sup>* db db' \<Longrightarrow> store_steps db db'"
  by (auto simp: store_steps_def intro: x_step.elsewhere)

named_theorems store_step

lemma claim_step [store_step]: "ClaimExecution env db project rid actor token = (rc, db') \<Longrightarrow> store_steps db db'"
  by (rule exec_store_steps [OF x_step.claim]) (auto dest: frame)

lemma complete_step [store_step]: "CompleteExecution env db l actor res evidence status stage = (r, db') \<Longrightarrow> store_steps db db'"
  by (rule exec_store_steps [OF x_step.complete]) (auto dest: frame)

lemma control_step [store_step]: "ControlExecution env db project rid actor version action reason = (r, db') \<Longrightarrow> store_steps db db'"
  by (rule exec_store_steps [OF x_step.control]) (auto dest: frame)

lemma reserve_step [store_step]: "ReserveExecutionSource env db l actor q = (ru, db') \<Longrightarrow> store_steps db db'"
  by (rule exec_store_steps [OF x_step.reserve]) (auto dest: frame)

lemma artifact_step [store_step]: "RecordExecutionArtifact env db l actor a b = (ru, db') \<Longrightarrow> store_steps db db'"
  by (rule exec_store_steps [OF x_step.record_artifact]) (auto dest: frame)

lemma observation_step [store_step]: "RecordSourceObservation env lease db receipt rec = (r, db') \<Longrightarrow> store_steps db db'"
  by (auto intro: product_store_steps exec_frame RecordSourceObservation_product)

lemma evaluation_step [store_step]: "RecordProductEvaluation env lease db ev = (r, db') \<Longrightarrow> store_steps db db'"
  by (auto intro!: product_store_steps p_step_same dest: RecordProductEvaluation_frames)

lemma put_step [store_step]: "repo_PutProductRecord decode env db r n = (res, db') \<Longrightarrow> store_steps db db'"
  by (auto intro: product_store_steps exec_frame p_step.put)

lemma validate_step [store_step]: "repo_ValidateProductRecord env db v = (res, db') \<Longrightarrow> store_steps db db'"
  by (auto intro: product_store_steps exec_frame p_step.validate)

lemma decide_step [store_step]: "repo_DecideProductRecord env db d = (res, db') \<Longrightarrow> store_steps db db'"
  by (auto intro: product_store_steps exec_frame p_step.decide)

section \<open>The machine refines both stores\<close>

named_theorems service_step

lemma service_CreateExecution_steps [service_step]:
  "registry_Validate (svc_Registry svc) = None \<Longrightarrow> service_CreateExecution svc env seen db i = (r, db') \<Longrightarrow> store_steps db db'"
  by (drule service_CreateExecution_run, assumption) (auto intro: exec_store_steps x_step.create frame)

lemma service_ClaimExecution_steps [service_step]:
  "service_ClaimExecution svc env seen db project rid token = (r, db') \<Longrightarrow> store_steps db db'"
  unfolding service_ClaimExecution_def by (auto split: sum.splits option.splits intro: store_step)

lemma PutExecutionArtifact_steps [service_step]:
  "PutExecutionArtifact svc env st seen db l content mediaType = (r, st', db') \<Longrightarrow> store_steps db db'"
  unfolding PutExecutionArtifact_def by (auto split: sum.splits prod.splits if_splits intro: store_step)

lemma service_CompleteExecution_steps [service_step]:
  "service_CompleteExecution svc env st seen db l result = (r, st', db') \<Longrightarrow> store_steps db db'"
  unfolding service_CompleteExecution_def Let_def by (auto split: sum.splits prod.splits if_splits option.splits intro: store_step)

lemma service_ControlExecution_steps [service_step]:
  "service_ControlExecution svc env seen db project rid version action reason = (r, db') \<Longrightarrow> store_steps db db'"
  unfolding service_ControlExecution_def by (auto split: sum.splits option.splits if_splits intro: store_step)

lemma collect_source_steps: "collect_source svc env lease st db d q out = (r, st', db') \<Longrightarrow> store_steps db db'"
  unfolding collect_source_def Let_def by (auto split: sum.splits prod.splits option.splits intro: store_step)

lemma QueryProductSource_steps [service_step]:
  "QueryProductSource svc env g lease st seen db q = (r, st', db') \<Longrightarrow> store_steps db db'"
  unfolding QueryProductSource_def by (auto split: sum.splits option.splits if_splits intro: collect_source_steps)

lemma CompareProductObservations_steps [service_step]:
  "CompareProductObservations svc env g lease st seen db i = (r, st', db') \<Longrightarrow> store_steps db db'"
  unfolding CompareProductObservations_def Let_def
  by (auto split: sum.splits prod.splits option.splits if_splits intro: store_step)

lemma QueryExecutionSource_steps [service_step]:
  assumes "\<forall>d. x_step\<^sup>*\<^sup>* d (between d) \<and> p_step\<^sup>*\<^sup>* d (between d)"
    and "QueryExecutionSource svc env st seen db between l q = (r, st', db')"
  shows "store_steps db db'"
proof -
  have between: "store_steps d (between d)" for d using assms(1) by (simp add: store_steps_def)
  have dispatched: "store_steps d d'" if "QueryProductSource svc e g lease st (between d) (between d) q' = (r, st', d')" for e g lease q' d d'
    using between QueryProductSource_steps [OF that] by (rule store_steps_trans)
  show ?thesis
    using assms(2) unfolding QueryExecutionSource_def Let_def
    by (auto split: sum.splits prod.splits if_splits dest!: reserve_step dispatched intro: store_steps_trans)
qed

lemma CompareExecutionObservations_steps [service_step]:
  "CompareExecutionObservations svc env st seen db l i = (r, st', db') \<Longrightarrow> store_steps db db'"
  unfolding CompareExecutionObservations_def by (auto split: sum.splits prod.splits if_splits intro: service_step)

lemma PutProductRecord_steps [service_step]: "PutProductRecord svc env g st db i = (r, st', db') \<Longrightarrow> store_steps db db'"
  unfolding PutProductRecord_def Let_def by (auto split: sum.splits prod.splits if_splits intro: store_step)

lemma ValidateProductRecord_steps [service_step]: "ValidateProductRecord svc env g st seen db i = (r, st', db') \<Longrightarrow> store_steps db db'"
  unfolding ValidateProductRecord_def Let_def by (auto split: sum.splits prod.splits if_splits intro: store_step)

lemma DecideProductRecord_steps [service_step]: "DecideProductRecord svc env g db d = (r, db') \<Longrightarrow> store_steps db db'"
  unfolding DecideProductRecord_def by (auto split: sum.splits if_splits intro: store_step)

lemma v_step_stores: "v_step s t \<Longrightarrow> store_steps (snd s) (snd t)"
  by (induction rule: v_step.induct)
    (auto intro: service_step store_step product_store_steps p_step_same)

interpretation vx: refinement v_start v_step x_start x_step snd
  by unfold_locales (auto simp: v_start_def store_steps_def dest: v_step_stores)

interpretation vp: refinement v_start v_step p_start p_step snd
  by unfold_locales (auto simp: v_start_def store_steps_def dest: v_step_stores)

end
