(* ===== verification/ServiceProps.thy ===== *)
theory ServiceProps
  imports ServiceMachine IntentProps
begin

text \<open>
  What the execution service guarantees: its calls are sequences of repository calls, the next state of a run is
  derived from evidence that was read back under its digest, and what it discloses stays within what was accepted.
\<close>

section \<open>Refinement\<close>

text \<open>
  C7: Every state the services reach, by whatever calls and interleavings, is a state the repositories reach on their own when called as
  they expect: the properties of the execution store and of the product store hold of the whole platform.
\<close>

theorem service_refines_stores:
  assumes "reach v_start v_step s"
  shows "reach x_start x_step (snd s) \<and> reach p_start p_step (snd s)"
  using assms vx.reach_abs vp.reach_abs by blast

section \<open>Evidence that was read\<close>

text \<open>A chain of guards succeeds if none of them stops it.\<close>

lemma guard_Ok:
  "(if b then Inl e else y) = Inr x \<longleftrightarrow> \<not> b \<and> y = Inr x"
  "(case q of None \<Rightarrow> y | Some e \<Rightarrow> Inl e) = Inr x \<longleftrightarrow> q = None \<and> y = Inr x"
  "(case r of Inl e \<Rightarrow> Inl e | Inr a \<Rightarrow> f a) = Inr x \<longleftrightarrow> (\<exists>a. r = Inr a \<and> f a = Inr x)"
  "(case v of None \<Rightarrow> Inl e | Some b \<Rightarrow> g b) = Inr x \<longleftrightarrow> (\<exists>b. v = Some b \<and> g b = Inr x)"
  by (auto split: option.split sum.split)

lemma readExecutionArtifact_Ok:
  assumes "readExecutionArtifact db st run sha = Inr raw"
  shows "Digest raw = sha"
  using assms
  by (auto simp: readExecutionArtifact_def repo_ExecutionArtifact_def find_row_def split: sum.splits option.splits if_splits
      dest!: find_SomeD_mem)

lemma validate_receipts_None:
  "validate_receipts c packet result arts = None \<Longrightarrow>
     \<exists>a \<in> set arts. \<exists>raw receipt. ec_read c (art_SHA256 a) = Inr raw \<and> svc_DecodeVerification (ec_Service c) raw = Some receipt
       \<and> receipt_ok packet result receipt"
  by (induction arts) (auto split: sum.splits option.splits if_splits)

lemma receipt_ok_checks:
  assumes "receipt_ok packet result receipt"
  shows "list_all2 (\<lambda>got want. cr_Name got = check_Name want \<and> cr_Passed got \<and> cr_ExitCode got = 0) (vr_Checks receipt) (pkt_Checks packet)"
proof -
  have len: "length (vr_Checks receipt) = length (pkt_Checks packet)" "length (vr_Checks receipt) = length (rs_Checks result)"
    using assms by (simp_all add: receipt_ok_def)
  have "receipt_check_ok (vr_Checks receipt ! i, pkt_Checks packet ! i, rs_Checks result ! i)" if "i < length (vr_Checks receipt)" for i
    using assms that len by (auto simp: receipt_ok_def list_all_length)
  then show ?thesis using len by (auto simp: list_all2_conv_all_nth receipt_check_ok_def Let_def)
qed

text \<open>How a result that moves a run on was validated.\<close>

lemma validateExecutionResult_Ok:
  assumes "validateExecutionResult c intent result = Inr x"
  shows "read_all c (rs_Artifacts result) = None" "rs_Stage result = er_Stage (ec_Run c)"
    "rs_Outcome result \<noteq> ''succeeded'' \<or> sameStrings (map ic_ID (is_Criteria (ctx_Specification intent))) (rs_Criteria result)"
  using assms by (auto simp: validateExecutionResult_def Let_def split: if_split_asm option.split_asm)

lemma validateExecutionResult_cases:
  assumes "validateExecutionResult c intent result = Inr x"
  obtains (blocked) "rs_Outcome result = ''blocked'' \<or> rs_Outcome result = ''unavailable'' \<or> rs_Outcome result = ''inconclusive''"
      "x = (''blocked'', er_Stage (ec_Run c))"
  | (build) "er_Stage (ec_Run c) = ''build''" "validate_model c result = None" "validate_build c intent result = Inr x"
      "rs_Outcome result = ''succeeded'' \<or> rs_Outcome result = ''failed''"
  | (evaluate) "er_Stage (ec_Run c) = ''evaluate''" "validate_evaluate c intent result = Inr x"
      "rs_Outcome result = ''succeeded'' \<or> rs_Outcome result = ''failed''"
  | (diagnose) "er_Stage (ec_Run c) = ''diagnose''" "validate_model c result = None" "validateDiagnosis c intent result = Inr x"
      "rs_Outcome result = ''succeeded'' \<or> rs_Outcome result = ''failed''"
  | (recovery) "er_Stage (ec_Run c) = ''verify_recovery''" "validateRecovery c intent result = Inr x"
      "rs_Outcome result = ''succeeded'' \<or> rs_Outcome result = ''failed''"
  | (effect) "validate_effect_stage c result = Inr x" "rs_Outcome result = ''succeeded'' \<or> rs_Outcome result = ''failed''"
proof (cases "rs_Outcome result = ''blocked'' \<or> rs_Outcome result = ''unavailable'' \<or> rs_Outcome result = ''inconclusive''")
  case True
  moreover from this have "x = (''blocked'', er_Stage (ec_Run c))"
    using assms by (auto simp: validateExecutionResult_def Let_def split: if_split_asm option.split_asm)
  ultimately show ?thesis by (rule blocked)
next
  case False
  have outcome: "rs_Outcome result = ''succeeded'' \<or> rs_Outcome result = ''failed''"
    using assms False unfolding validateExecutionResult_def Let_def
    by (simp only: guard_Ok if_False) blast
  have stage: "(if er_Stage (ec_Run c) = ''build'' \<or> er_Stage (ec_Run c) = ''diagnose'' then validate_model c result else None) = None
      \<and> (if er_Stage (ec_Run c) = ''build'' then validate_build c intent result
         else if er_Stage (ec_Run c) = ''evaluate'' then validate_evaluate c intent result
         else if er_Stage (ec_Run c) = ''diagnose'' then validateDiagnosis c intent result
         else if er_Stage (ec_Run c) = ''verify_recovery'' then validateRecovery c intent result
         else validate_effect_stage c result) = Inr x"
    using assms False unfolding validateExecutionResult_def Let_def
    by (simp only: guard_Ok if_False)
  show ?thesis
  proof (cases "er_Stage (ec_Run c) = ''build'' \<or> er_Stage (ec_Run c) = ''diagnose''")
    case True
    then show ?thesis using stage outcome build diagnose by (auto split: if_split_asm)
  next
    case other: False
    then show ?thesis using stage outcome evaluate recovery effect by (auto split: if_split_asm)
  qed
qed

lemma validate_build_Ok:
  assumes "validate_build c intent result = Inr x"
  shows "x = (''ready'', ''evaluate'') \<and> rs_Outcome result = ''succeeded'' \<or> x = (''blocked'', er_Stage (ec_Run c)) \<and> rs_Outcome result \<noteq> ''succeeded''"
  using assms by (auto simp: validate_build_def split: sum.splits prod.splits if_splits option.splits)

lemma validate_evaluate_Ok:
  assumes "validate_evaluate c intent result = Inr x" "rs_Outcome result = ''succeeded'' \<or> rs_Outcome result = ''failed''"
  shows "x = (''ready'', ''deliver'') \<and> rs_Outcome result = ''succeeded'' \<or> x = (''ready'', ''build'') \<and> rs_Outcome result = ''failed''"
  using assms by (auto simp: validate_evaluate_def guard_Ok split: prod.splits if_splits)

lemma validateDiagnosis_Ok:
  assumes "validateDiagnosis c intent result = Inr x"
  shows "x = (''ready'', ''remediate'') \<and> rs_Outcome result = ''succeeded'' \<or> x = (''blocked'', er_Stage (ec_Run c))"
  using assms by (auto simp: validateDiagnosis_def Let_def guard_Ok split: option.splits if_splits)

lemma validateRecovery_Ok:
  assumes "validateRecovery c intent result = Inr x"
  shows "x = (''completed'', er_Stage (ec_Run c)) \<and> rs_Outcome result = ''succeeded'' \<or> x = (''blocked'', er_Stage (ec_Run c))"
  using assms by (auto simp: validateRecovery_def Let_def guard_Ok split: option.splits if_splits)

lemma validate_effect_stage_Ok:
  assumes "validate_effect_stage c result = Inr x"
  shows "x = (''blocked'', er_Stage (ec_Run c)) \<and> rs_Outcome result = ''failed''
    \<or> rs_Outcome result \<noteq> ''failed'' \<and> validateExecutionEffects c result = None
      \<and> (x = (''ready'', ''verify_delivery'') \<and> er_Stage (ec_Run c) = ''deliver'' \<or> x = (''ready'', ''verify_recovery'') \<and> er_Stage (ec_Run c) = ''remediate''
         \<or> x = (''completed'', ''verify_delivery'') \<and> er_Stage (ec_Run c) = ''verify_delivery'')"
  using assms by (auto simp: validate_effect_stage_def guard_Ok split: if_split_asm)

section \<open>Transitions\<close>

text \<open>
  C27: The service derives only transitions the store accepts: for every validated result, the derived status and stage are a valid
  transition of the stage for the reported outcome, with one exception, a succeeded result that the service decides to block.
\<close>

theorem validated_transition_accepted:
  assumes "validateExecutionResult c intent result = Inr (status, stage)"
  shows "validExecutionTransition (er_Stage (ec_Run c)) (rs_Outcome result) status stage
           \<longleftrightarrow> \<not> (status = ''blocked'' \<and> rs_Outcome result = ''succeeded'')"
  using assms
proof (cases rule: validateExecutionResult_cases)
  case blocked
  then show ?thesis by (elim disjE conjE) (simp_all add: validExecutionTransition_def)
next
  case build
  then show ?thesis using validate_build_Ok [OF build(3)] by (elim disjE conjE) (simp_all add: validExecutionTransition_def next_stage_def)
next
  case evaluate
  then show ?thesis using validate_evaluate_Ok [OF evaluate(2,3)] by (elim disjE conjE) (simp_all add: validExecutionTransition_def next_stage_def)
next
  case diagnose
  then show ?thesis using validateDiagnosis_Ok [OF diagnose(3)] by (elim disjE conjE) (simp_all add: validExecutionTransition_def next_stage_def)
next
  case recovery
  then show ?thesis using validateRecovery_Ok [OF recovery(2)] by (elim disjE conjE) (simp_all add: validExecutionTransition_def next_stage_def)
next
  case effect
  then show ?thesis using validate_effect_stage_Ok [OF effect(1)] by (elim disjE conjE) (simp_all add: validExecutionTransition_def next_stage_def)
qed

section \<open>Evidence behind a transition\<close>

text \<open>
  C5: A run goes on to delivery only on verified work: the stage was an evaluation that succeeded, of the candidate of the latest build
  and of the one protected packet of the intent, and an artifact of the run, read back under its digest, is the receipt of a
  verification that was accepted, stayed inside the limits of the packet and passed every check of the packet in order.
\<close>

theorem verified_before_delivery:
  assumes "validateExecutionResult c intent result = Inr (''ready'', ''deliver'')"
  shows "er_Stage (ec_Run c) = ''evaluate'' \<and> rs_Outcome result = ''succeeded''
    \<and> (\<exists>packet sha candidate raw receipt.
         executionPacket (ec_Service c) intent = Inr (packet, sha) \<and> rs_PacketSHA256 result = sha
       \<and> latestExecutionResult (ec_View c) ''build'' = Some candidate \<and> rs_CandidateSHA result = art_SHA256 (rs_Patch candidate)
       \<and> Digest raw \<in> art_SHA256 ` set (rs_Artifacts result) \<and> ec_read c (Digest raw) = Inr raw
       \<and> svc_DecodeVerification (ec_Service c) raw = Some receipt
       \<and> vr_Accepted receipt \<and> ev_Allowed (vr_Evaluation receipt) \<and> vr_BaseRevision receipt = pkt_BaseRevision packet
       \<and> int (length (vr_ChangedFiles receipt)) \<le> lim_MaxChangedFiles (pkt_Limits packet)
       \<and> vr_TotalDiffLines receipt \<le> lim_MaxDiffLines (pkt_Limits packet)
       \<and> list_all2 (\<lambda>got want. cr_Name got = check_Name want \<and> cr_Passed got \<and> cr_ExitCode got = 0) (vr_Checks receipt) (pkt_Checks packet))"
  using assms
proof (cases rule: validateExecutionResult_cases)
  case build
  then show ?thesis using validate_build_Ok [OF build(3)] by simp
next
  case evaluate
  then have ok: "rs_Outcome result = ''succeeded''" using validate_evaluate_Ok [OF evaluate(2,3)] by simp
  from evaluate(2) obtain packet sha candidate where p: "executionPacket (ec_Service c) intent = Inr (packet, sha)" "rs_PacketSHA256 result = sha"
    "latestExecutionResult (ec_View c) ''build'' = Some candidate" "rs_CandidateSHA result = art_SHA256 (rs_Patch candidate)"
    "validateVerifierReceipt c packet result = None"
    using ok by (auto simp: validate_evaluate_def guard_Ok split: prod.splits if_splits)
  from validate_receipts_None [OF p(5) [unfolded validateVerifierReceipt_def]]
  obtain a raw receipt where r: "a \<in> set (rs_Artifacts result)" "ec_read c (art_SHA256 a) = Inr raw"
    "svc_DecodeVerification (ec_Service c) raw = Some receipt" "receipt_ok packet result receipt" by blast
  have "Digest raw = art_SHA256 a" using readExecutionArtifact_Ok [OF r(2)] .
  then have "Digest raw \<in> art_SHA256 ` set (rs_Artifacts result)" "ec_read c (Digest raw) = Inr raw" using r(1,2) by auto
  moreover have "vr_Accepted receipt \<and> ev_Allowed (vr_Evaluation receipt) \<and> vr_BaseRevision receipt = pkt_BaseRevision packet
      \<and> int (length (vr_ChangedFiles receipt)) \<le> lim_MaxChangedFiles (pkt_Limits packet)
      \<and> vr_TotalDiffLines receipt \<le> lim_MaxDiffLines (pkt_Limits packet)"
    using r(4) by (simp add: receipt_ok_def)
  ultimately show ?thesis using evaluate(1) ok p r(3) receipt_ok_checks [OF r(4)] by blast
next
  case diagnose
  then show ?thesis using validateDiagnosis_Ok [OF diagnose(3)] by simp
next
  case recovery
  then show ?thesis using validateRecovery_Ok [OF recovery(2)] by simp
next
  case effect
  then show ?thesis using validate_effect_stage_Ok [OF effect(1)] by simp
qed (use assms in simp)

lemma validate_model_read:
  assumes "validate_model c result = None"
  obtains m request response manifest prompt requestRaw responseRaw manifestRaw where
    "rs_Model result = Some m" "model_evidence_ok (run_Package (ec_Run c)) m"
    "ec_read c (art_SHA256 (me_Prompt m)) = Inr requestRaw" "svc_DecodeRequest (ec_Service c) requestRaw = Some request"
    "ec_read c (art_SHA256 (me_Response m)) = Inr responseRaw" "svc_DecodeResponse (ec_Service c) responseRaw = Some response"
    "ec_read c (art_SHA256 (me_Manifest m)) = Inr manifestRaw" "svc_DecodeManifest (ec_Service c) manifestRaw = Some manifest"
    "model_exchange_ok (ec_Service c) (run_Package (ec_Run c)) m request response" "manifest_ok (ec_View c) manifest"
    "svc_DecodePrompt (ec_Service c) (mq_Prompt request) = Some prompt" "Digest (pm_Context prompt) = current_context (ec_View c)"
    "disclosed_files_ok prompt manifest"
    "rs_Stage result = ''build'' \<Longrightarrow> validate_builder (ec_Service c) prompt manifest response result = None"
    "rs_Stage result \<noteq> ''build'' \<Longrightarrow> validate_diagnosis_submission c prompt manifest response result = None"
proof -
  obtain m where m: "rs_Model result = Some m" "model_evidence_ok (run_Package (ec_Run c)) m" "validateModelSubmission c m result = None"
    using assms by (auto simp: validate_model_def split: option.splits if_splits)
  then show ?thesis
    using that unfolding validateModelSubmission_def Let_def
    by (fastforce split: sum.splits option.splits if_splits)
qed

lemma validate_builder_None:
  assumes "validate_builder svc prompt manifest response result = None"
  obtains proposal patch where "svc_DecodeBuilder svc (mp_Response response) = Some proposal"
    "if bp_Files proposal = [] then patch = bp_Patch proposal else FilePatch (pm_Files prompt) (bp_Files proposal) = Inr patch"
    "Digest patch = art_SHA256 (rs_Patch result)" "bp_BaseRevision proposal = rs_BaseRevision result"
    "dm_RepositoryRevision manifest = rs_BaseRevision result" "sameStrings (bp_Criteria proposal) (rs_Criteria result)"
proof -
  obtain proposal where d: "svc_DecodeBuilder svc (mp_Response response) = Some proposal"
    using assms by (auto simp: validate_builder_def split: option.splits)
  show ?thesis
  proof (cases "bp_Files proposal = []")
    case True
    then show ?thesis using assms d that [of proposal "bp_Patch proposal"] by (auto simp: validate_builder_def split: if_split_asm)
  next
    case False
    then obtain patch where "FilePatch (pm_Files prompt) (bp_Files proposal) = Inr patch" "bp_Patch proposal = []"
      using assms d by (auto simp: validate_builder_def split: if_split_asm sum.splits)
    then show ?thesis using assms d False that [of proposal patch] by (auto simp: validate_builder_def split: if_split_asm)
  qed
qed

text \<open>
  C6: A patch goes on to evaluation only if it is what the pinned model proposed: the recorded exchange was read back under its
  digests, asked the model and the instructions of the package of the stage, and disclosed exactly the context of the step and
  files whose digests are in the manifest; the patch of the result has the digest of the patch that the proposal in that response
  makes of those files, against the revision of the protected packet.
\<close>

theorem accepted_patch_is_the_models:
  assumes "validateExecutionResult c intent result = Inr (''ready'', ''evaluate'')"
  shows "er_Stage (ec_Run c) = ''build'' \<and> rs_Outcome result = ''succeeded''
    \<and> (\<exists>m request response manifest prompt proposal patch requestRaw responseRaw manifestRaw packet sha.
         rs_Model result = Some m
       \<and> ec_read c (art_SHA256 (me_Prompt m)) = Inr requestRaw \<and> Digest requestRaw = art_SHA256 (me_Prompt m)
       \<and> ec_read c (art_SHA256 (me_Response m)) = Inr responseRaw \<and> Digest responseRaw = art_SHA256 (me_Response m)
       \<and> ec_read c (art_SHA256 (me_Manifest m)) = Inr manifestRaw \<and> Digest manifestRaw = art_SHA256 (me_Manifest m)
       \<and> svc_DecodeRequest (ec_Service c) requestRaw = Some request \<and> svc_DecodeResponse (ec_Service c) responseRaw = Some response
       \<and> svc_DecodeManifest (ec_Service c) manifestRaw = Some manifest \<and> svc_DecodePrompt (ec_Service c) (mq_Prompt request) = Some prompt
       \<and> mq_Model request = ap_Model (run_Package (ec_Run c)) \<and> mq_System request = ap_Instructions (run_Package (ec_Run c))
       \<and> dm_RunID manifest = er_ID (ec_Run c) \<and> dm_StepID manifest = current_step_id (ec_View c)
       \<and> Digest (pm_Context prompt) = current_context (ec_View c)
       \<and> list_all (\<lambda>(name, content). Digest content = map_get [] (dm_Files manifest) name) (pm_Files prompt)
       \<and> svc_DecodeBuilder (ec_Service c) (mp_Response response) = Some proposal
       \<and> (if bp_Files proposal = [] then patch = bp_Patch proposal else FilePatch (pm_Files prompt) (bp_Files proposal) = Inr patch)
       \<and> Digest patch = art_SHA256 (rs_Patch result)
       \<and> executionPacket (ec_Service c) intent = Inr (packet, sha) \<and> dm_RepositoryRevision manifest = pkt_BaseRevision packet)"
  using assms
proof (cases rule: validateExecutionResult_cases)
  case build
  have stage: "rs_Stage result = ''build''" using validateExecutionResult_Ok(2) [OF assms] build(1) by simp
  from build(2) obtain m request response manifest prompt requestRaw responseRaw manifestRaw where v:
    "rs_Model result = Some m"
    "ec_read c (art_SHA256 (me_Prompt m)) = Inr requestRaw" "svc_DecodeRequest (ec_Service c) requestRaw = Some request"
    "ec_read c (art_SHA256 (me_Response m)) = Inr responseRaw" "svc_DecodeResponse (ec_Service c) responseRaw = Some response"
    "ec_read c (art_SHA256 (me_Manifest m)) = Inr manifestRaw" "svc_DecodeManifest (ec_Service c) manifestRaw = Some manifest"
    "model_exchange_ok (ec_Service c) (run_Package (ec_Run c)) m request response" "manifest_ok (ec_View c) manifest"
    "svc_DecodePrompt (ec_Service c) (mq_Prompt request) = Some prompt" "Digest (pm_Context prompt) = current_context (ec_View c)"
    "disclosed_files_ok prompt manifest" "validate_builder (ec_Service c) prompt manifest response result = None"
    using stage by (elim validate_model_read) blast
  from v(13) obtain proposal patch where b: "svc_DecodeBuilder (ec_Service c) (mp_Response response) = Some proposal"
    "if bp_Files proposal = [] then patch = bp_Patch proposal else FilePatch (pm_Files prompt) (bp_Files proposal) = Inr patch"
    "Digest patch = art_SHA256 (rs_Patch result)" "dm_RepositoryRevision manifest = rs_BaseRevision result"
    by (elim validate_builder_None) blast
  have ok: "rs_Outcome result = ''succeeded''" using validate_build_Ok [OF build(3)] by simp
  then obtain packet sha where p: "executionPacket (ec_Service c) intent = Inr (packet, sha)" "rs_BaseRevision result = pkt_BaseRevision packet"
    using build(3) by (auto simp: validate_build_def guard_Ok split: prod.splits if_splits)
  have asked: "mq_Model request = ap_Model (run_Package (ec_Run c))" "mq_System request = ap_Instructions (run_Package (ec_Run c))"
    using v(8) by (simp_all add: model_exchange_ok_def)
  have named: "dm_RunID manifest = er_ID (ec_Run c)" "dm_StepID manifest = current_step_id (ec_View c)"
    using v(9) by (simp_all add: manifest_ok_def Let_def)
  have files: "list_all (\<lambda>(name, content). Digest content = map_get [] (dm_Files manifest) name) (pm_Files prompt)"
    using v(12) by (simp add: disclosed_files_ok_def)
  show ?thesis
    using build(1) ok v(1-7,10,11) readExecutionArtifact_Ok [OF v(2)] readExecutionArtifact_Ok [OF v(4)] readExecutionArtifact_Ok [OF v(6)]
      asked named files b p by (intro conjI exI) (assumption | simp)+
next
  case evaluate
  then show ?thesis using validate_evaluate_Ok [OF evaluate(2,3)] by simp
next
  case diagnose
  then show ?thesis using validateDiagnosis_Ok [OF diagnose(3)] by simp
next
  case recovery
  then show ?thesis using validateRecovery_Ok [OF recovery(2)] by simp
next
  case effect
  then show ?thesis using validate_effect_stage_Ok [OF effect(1)] by simp
qed (use assms in simp)

text \<open>
  C28: A diagnosis that reports success and that the service decides to block is never recorded: the store has no such transition, so
  the completion leaves the database as it is, and answers an error unless the step was completed before.
\<close>

theorem succeeded_diagnosis_cannot_block:
  assumes "validateDiagnosis c intent result = Inr (''blocked'', stage)" "rs_Outcome result = ''succeeded''"
    and "lockExecution db (el_ProjectID l) (el_RunID l) = Inr run" "prior_result db run (el_StepID l) = None"
  shows "\<exists>e. CompleteExecution env db l actor result evidence ''blocked'' stage = (Inl e, db)"
proof (cases "checkExecutionLease env db l actor")
  case (Inl e)
  then show ?thesis using assms(3,4) by (simp add: CompleteExecution_def)
next
  case (Inr held)
  obtain run' row where "held = (run', row)" by (cases held)
  moreover have "\<not> validExecutionTransition from ''succeeded'' ''blocked'' stage" for "from"
    by (simp add: validExecutionTransition_def)
  ultimately show ?thesis using Inr assms(2-4) by (simp add: CompleteExecution_def)
qed

section \<open>Disclosed code\<close>

lemma symbol_graph_Ok:
  assumes "symbol_graph svc db run b symbol = Inr graph"
  shows "list_all (\<lambda>e. ce_ProjectID e = er_ProjectID run \<and> ce_Revision e = code_Revision b \<and> loc_FilePath (ce_Location e) = code_File b) (cg_Entities graph)"
    "length (cg_Entities graph) \<le> 20" "length (cg_Relations graph) \<le> 50" "length (graph_bytes graph) \<le> 16384"
    "list_ex (names_symbol symbol) (cg_Entities graph)"
    "list_all (\<lambda>r. {cl_SourceID r, cl_TargetID r} \<subseteq> ce_ID ` set (cg_Entities graph)) (cg_Relations graph)"
proof -
  obtain g where "svc_GetCodeGraph svc db (er_ProjectID run) (code_RepositoryID b) symbol 1 = Some g"
    using assms by (auto simp: symbol_graph_def guard_Ok)
  then have g: "length (cg_Entities g) \<le> 20" "length (cg_Relations g) \<le> 50"
    "\<not> list_ex (\<lambda>e. ce_ProjectID e \<noteq> er_ProjectID run \<or> ce_Revision e \<noteq> code_Revision b
               \<or> ce_RepositoryID e \<noteq> sr_ID (ca_Repository (cg_Analysis g))) (cg_Entities g)"
    and cut: "cg_Entities graph = filter (\<lambda>e. loc_FilePath (ce_Location e) = code_File b) (cg_Entities g)"
    "cg_Relations graph = filter (\<lambda>r. list_ex (\<lambda>e. ce_ID e = cl_SourceID r) (cg_Entities graph)
       \<and> list_ex (\<lambda>e. ce_ID e = cl_TargetID r) (cg_Entities graph)) (cg_Relations g)"
    and out: "list_ex (names_symbol symbol) (cg_Entities graph)" "length (graph_bytes graph) \<le> 16384"
    using assms by (auto simp: symbol_graph_def Let_def guard_Ok not_less)
  show "list_all (\<lambda>e. ce_ProjectID e = er_ProjectID run \<and> ce_Revision e = code_Revision b \<and> loc_FilePath (ce_Location e) = code_File b) (cg_Entities graph)"
    using g(3) cut(1) by (auto simp: list_all_iff list_ex_iff)
  show "length (cg_Entities graph) \<le> 20" unfolding cut(1) by (rule le_trans [OF length_filter_le g(1)])
  show "length (cg_Relations graph) \<le> 50" unfolding cut(2) by (rule le_trans [OF length_filter_le g(2)])
  show "length (graph_bytes graph) \<le> 16384" "list_ex (names_symbol symbol) (cg_Entities graph)" by (fact out)+
  show "list_all (\<lambda>r. {cl_SourceID r, cl_TargetID r} \<subseteq> ce_ID ` set (cg_Entities graph)) (cg_Relations graph)"
    unfolding cut(2) by (auto simp: list_all_iff list_ex_iff) (metis image_eqI)+
qed

lemma symbol_graphs_Ok:
  "symbol_graphs svc db run bound b symbols = Inr bridges \<Longrightarrow> x \<in> set bridges \<Longrightarrow>
     br_Record x = bound \<and> br_Binding x = b \<and> (\<exists>symbol \<in> set symbols. symbol_graph svc db run b symbol = Inr (br_Graph x))"
  by (induction symbols arbitrary: bridges) (auto simp: guard_Ok)

lemma code_bridges_Ok:
  "code_bridges svc env g db run bs = Inr bridges \<Longrightarrow> x \<in> set bridges \<Longrightarrow>
     br_Record x \<in> set bs \<and> bind_Kind (br_Record x) = ''code'' \<and> bound_code svc env g db run (br_Record x) = Inr (br_Binding x)
     \<and> (\<exists>symbol \<in> set (code_Symbols (br_Binding x)). symbol_graph svc db run (br_Binding x) symbol = Inr (br_Graph x))"
proof (induction bs arbitrary: bridges)
  case (Cons bound bs)
  then show ?case by (auto simp: guard_Ok split: if_split_asm dest: symbol_graphs_Ok)
qed simp

text \<open>
  C29: All code disclosed to a worker is code the intent accepted: it comes from a bound code record that is in force under the digest of the
  binding, of the repository of the target and, for a feature, of the revision of the run, from a file no protected path of
  the target covers; every disclosed entity is of that project, revision and file, every relation is between disclosed
  entities, and a graph has at most 20 entities, 50 relations and 16 KiB.
\<close>

theorem disclosed_code_is_bound:
  assumes "executionCode svc env g db run = Inr bridges" "x \<in> set bridges"
  shows "br_Record x \<in> set (er_Bindings run) \<and> bind_Kind (br_Record x) = ''code''
    \<and> (\<exists>r. GetProductRecord svc env g db (er_ProjectID run) (bind_RecordID (br_Record x)) True = Inr r
          \<and> prod_SHA256 r = bind_SHA256 (br_Record x) \<and> svc_StrictCode svc (prod_Content r) = Some (br_Binding x))
    \<and> code_RepositoryID (br_Binding x) = et_RepositoryID (er_Target run)
    \<and> (er_Kind run \<noteq> ''feature'' \<or> code_Revision (br_Binding x) = er_RepositoryRevision run)
    \<and> \<not> list_ex (protects (code_File (br_Binding x))) (et_ProtectedPaths (er_Target run))
    \<and> list_all (\<lambda>e. ce_ProjectID e = er_ProjectID run \<and> ce_Revision e = code_Revision (br_Binding x)
          \<and> loc_FilePath (ce_Location e) = code_File (br_Binding x)) (cg_Entities (br_Graph x))
    \<and> list_all (\<lambda>r. {cl_SourceID r, cl_TargetID r} \<subseteq> ce_ID ` set (cg_Entities (br_Graph x))) (cg_Relations (br_Graph x))
    \<and> length (cg_Entities (br_Graph x)) \<le> 20 \<and> length (cg_Relations (br_Graph x)) \<le> 50 \<and> length (graph_bytes (br_Graph x)) \<le> 16384"
proof -
  from code_bridges_Ok [OF assms(1) [unfolded executionCode_def] assms(2)]
  obtain symbol where x: "br_Record x \<in> set (er_Bindings run)" "bind_Kind (br_Record x) = ''code''"
    "bound_code svc env g db run (br_Record x) = Inr (br_Binding x)" "symbol_graph svc db run (br_Binding x) symbol = Inr (br_Graph x)" by blast
  from x(3) obtain r where r: "GetProductRecord svc env g db (er_ProjectID run) (bind_RecordID (br_Record x)) True = Inr r"
    "prod_SHA256 r = bind_SHA256 (br_Record x)" "svc_StrictCode svc (prod_Content r) = Some (br_Binding x)"
    "code_binding_ok run (br_Binding x)" "er_Kind run \<noteq> ''feature'' \<or> code_Revision (br_Binding x) = er_RepositoryRevision run"
    "\<not> list_ex (protects (code_File (br_Binding x))) (et_ProtectedPaths (er_Target run))"
    unfolding bound_code_def by (auto simp: guard_Ok)
  have "code_RepositoryID (br_Binding x) = et_RepositoryID (er_Target run)" using r(4) by (simp add: code_binding_ok_def)
  with x(1,2) r(1-3,5,6) symbol_graph_Ok [OF x(4)] show ?thesis by blast
qed

section \<open>Source queries\<close>

lemma find_append: "find P (xs @ ys) = (case find P xs of None \<Rightarrow> find P ys | Some x \<Rightarrow> Some x)"
  by (induction xs) auto

lemma repo_GetSourceReceipt_prefix:
  assumes "repo_GetSourceReceipt db project source actor key = Some r" "prefix (x_receipts db) (x_receipts db')"
  shows "repo_GetSourceReceipt db' project source actor key = Some r"
  using find_prefix [OF assms [unfolded repo_GetSourceReceipt_def]] by (simp add: repo_GetSourceReceipt_def)

lemma RecordSourceObservation_receipt:
  assumes "RecordSourceObservation env lease db receipt record = (Inr u, db')"
  shows "repo_GetSourceReceipt db' (rc_ProjectID receipt) (rc_SourceID receipt) (rc_Actor receipt) (rc_IdempotencyKey receipt) = Some receipt"
proof -
  obtain db1 where "insert_receipt db1 receipt = Inr db'"
    using assms by (auto simp: RecordSourceObservation_def split: option.splits if_splits sum.splits)
  then show ?thesis
    by (auto simp: insert_receipt_def repo_GetSourceReceipt_def find_append split: if_splits)
qed

lemma collect_source_Ok:
  assumes "collect_source svc env lease st db d q out = (Inr r, st', db')"
  shows "repo_GetSourceReceipt db' (rc_ProjectID out) (rc_SourceID out) (rc_Actor out) (rc_IdempotencyKey out) = Some r"
proof -
  obtain a i e rec where "r = (answered_receipt out d q e)\<lparr>rc_Evidence := a, rc_RecordID := i\<rparr>"
    "RecordSourceObservation (sub_env 1 env) lease db r rec = (Inr (), db')"
    using assms by (auto simp: collect_source_def Let_def split: sum.splits option.splits prod.splits)
  then show ?thesis using RecordSourceObservation_receipt by (fastforce simp: answered_receipt_def)
qed

text \<open>The cases of a query that its caller may make.\<close>

lemma QueryProductSource_cases:
  assumes "QueryProductSource svc env g lease st seen db q = (res, st', db')"
  obtains (refused) e where "res = Inl e" "st' = st" "db' = db"
  | (prior) p prior where "RequirePrincipal (env_ctx env) = Inr p"
      "repo_GetSourceReceipt seen (sq_ProjectID q) (sq_SourceID q) (p_ID p) (sq_IdempotencyKey q) = Some prior"
      "res = Inr prior" "st' = st" "db' = db"
  | (collect) p reg d role where "RequirePrincipal (env_ctx env) = Inr p" "svc_Sources svc = Some reg" "Get reg (sq_ProjectID q) (sq_SourceID q) = Some d"
      "ValidateQuery (env_clock env 0) d q = None"
      "repo_GetSourceReceipt seen (sq_ProjectID q) (sq_SourceID q) (p_ID p) (sq_IdempotencyKey q) = None"
      "collect_source svc env lease st db d q (open_receipt env p role d q) = (res, st', db')"
  using assms unfolding QueryProductSource_def
  by (auto split: sum.splits option.splits if_splits)

text \<open>
  A source query is made once: after a call that answered a receipt, and after any other calls that only add receipts, the same caller asking the
  same query again changes neither the database nor the artifact store, and gets the same receipt if it gets one.
\<close>

theorem repeated_query_answers_receipt:
  assumes "QueryProductSource svc env g lease st seen db q = (Inr r, st', db')" "prefix (x_receipts seen) (x_receipts db)"
    and "env_ctx env2 = env_ctx env" "prefix (x_receipts db') (x_receipts seen2)"
  shows "snd (QueryProductSource svc env2 g2 lease2 st2 seen2 db2 q) = (st2, db2)
    \<and> fst (QueryProductSource svc env2 g2 lease2 st2 seen2 db2 q) \<in> {Inr r} \<union> range Inl"
proof -
  have found: "repo_GetSourceReceipt db' (sq_ProjectID q) (sq_SourceID q) (p_ID p) (sq_IdempotencyKey q) = Some r"
    if "RequirePrincipal (env_ctx env) = Inr p" for p
    using assms(1)
  proof (cases rule: QueryProductSource_cases)
    case (prior p' r')
    then show ?thesis using that repo_GetSourceReceipt_prefix [OF prior(2) assms(2)] by simp
  next
    case (collect p' reg d role)
    from collect(4) have "sd_ID d = sq_SourceID q" by (auto simp: ValidateQuery_def split: if_splits)
    then show ?thesis using collect_source_Ok [OF collect(6)] that collect(1) by (simp add: open_receipt_def)
  qed simp
  obtain res st3 db3 where second: "QueryProductSource svc env2 g2 lease2 st2 seen2 db2 q = (res, st3, db3)" by (metis prod_cases3)
  then show ?thesis
  proof (cases rule: QueryProductSource_cases)
    case (prior p r2)
    then show ?thesis using second found [of p] assms(3) repo_GetSourceReceipt_prefix [OF _ assms(4)] by auto
  next
    case (collect p reg d role)
    then show ?thesis using found [of p] assms(3) repo_GetSourceReceipt_prefix [OF _ assms(4)] by auto
  qed (use second in auto)
qed

end
