(* ===== verification/ServiceExamples.thy ===== *)
theory ServiceExamples
  imports ServiceProps ExecExamples
begin

text \<open>
  A concrete service whose worker documents all decode to fixed values and whose artifacts all have the same content, and the
  instances of the properties of the execution service at it.
\<close>

section \<open>A service, a store and a run\<close>

definition sx_artifact :: artifact where
  "sx_artifact = \<lparr>art_SHA256 = Digest ''x'', art_URI = [], art_MediaType = [], art_SizeBytes = 1\<rparr>"

definition sx_store :: local_store where
  "sx_store = \<lparr>store_root = [], store_files = \<lambda>_. Some ''x''\<rparr>"

definition sx_package :: agent_package where
  "sx_package = zero_package\<lparr>ap_Role := ''sdlc_builder'', ap_Model := ''qwen'', ap_Instructions := ''build'', ap_MaxInputBytes := 10,
     ap_MaxOutputTokens := 10, ap_TimeoutSeconds := 60\<rparr>"

definition sx_check :: check where
  "sx_check = \<lparr>check_Name = ''unit'', check_Argv = [''true''], check_TimeoutSeconds = 1\<rparr>"

definition sx_packet :: packet where
  "sx_packet = \<lparr>pkt_SchemaVersion = SchemaVersion, pkt_ID = ''k'', pkt_Goal = ''g'', pkt_Workspace = ''w'', pkt_BaseRevision = ''abc'',
     pkt_Mode = ''patch'', pkt_TaskClass = ''feature'', pkt_DataClassification = ''internal'', pkt_Categories = [], pkt_LocalOnly = True,
     pkt_CloudReview = False, pkt_CloudProvider = [], pkt_CloudApprovedBy = [], pkt_Destructive = False, pkt_ApprovedBy = [],
     pkt_AllowedFiles = [''a''], pkt_ForbiddenFiles = [], pkt_Rollback = [''r''], pkt_Checks = [sx_check],
     pkt_Limits = \<lparr>lim_MaxChangedFiles = 1, lim_MaxDiffLines = 10, lim_MaxPatchBytes = 10\<rparr>\<rparr>"

definition sx_receipt :: verification_result where
  "sx_receipt = \<lparr>vr_Accepted = True,
     vr_Evaluation = \<lparr>ev_Allowed = True, ev_Risk = ''low'', ev_Route = ''local'', ev_RequiresApproval = False, ev_EffectiveForbiddenFiles = [],
       ev_Errors = [], ev_Warnings = []\<rparr>,
     vr_BaseRevision = ''abc'', vr_ChangedFiles = [\<lparr>fc_Path = ''a'', fc_Additions = 1, fc_Deletions = 0\<rparr>], vr_TotalDiffLines = 1,
     vr_Checks = [\<lparr>cr_Name = ''unit'', cr_Argv = [''true''], cr_ExitCode = 0, cr_Passed = True, cr_Output = ''x''\<rparr>], vr_Errors = []\<rparr>"

definition sx_plan :: "execution_plan_step list" where
  "sx_plan = [\<lparr>plan_Description = ''d'', plan_Criteria = [''c'']\<rparr>]"

definition sx_code :: product_code where
  "sx_code = \<lparr>code_Schema = ''hybrid-ai/product-code/v1'', code_RepositoryID = ''g'', code_Revision = replicate 40 (CHR ''a''), code_File = ''a'',
     code_Symbols = [''f'']\<rparr>"

definition sx_graph :: code_graph where
  "sx_graph = \<lparr>cg_Analysis = \<lparr>ca_ID = ''n'', ca_ProjectID = ''p'',
       ca_Repository = \<lparr>sr_ID = ''g'', sr_ProjectID = ''p'', sr_Name = ''g'', sr_CanonicalURL = ''u'', sr_DefaultBranch = [], sr_Revision = [],
         sr_CreatedAt = utc 0, sr_UpdatedAt = utc 0\<rparr>,
       ca_Branch = ''m'', ca_Revision = replicate 40 (CHR ''a''), ca_Analyzer = ''go'', ca_AnalyzerVersion = ''1'', ca_RequestedBy = ''o'',
       ca_EntityCount = 1, ca_RelationCount = 0, ca_StartedAt = utc 0, ca_CompletedAt = utc 0\<rparr>,
     cg_Entities = [\<lparr>ce_ID = ''e'', ce_ProjectID = ''p'', ce_RepositoryID = ''g'', ce_RepositoryName = ''g'', ce_AnalysisRunID = ''n'',
       ce_Branch = ''m'', ce_Revision = replicate 40 (CHR ''a''), ce_StableKey = ''s'', ce_Language = ''go'', ce_Kind = ''function'', ce_Name = ''f'',
       ce_QualifiedName = ''f'', ce_Signature = [], ce_ContentHash = [],
       ce_Location = \<lparr>loc_FilePath = ''a'', loc_StartLine = 1, loc_StartColumn = 1, loc_EndLine = 2, loc_EndColumn = 1\<rparr>, ce_Metadata = [],
       ce_Score = None\<rparr>],
     cg_Relations = []\<rparr>"

definition sx_service :: exec_service where
  "sx_service = \<lparr>svc_Authorizer = Some (\<lambda>_. Inr \<lparr>dec_Allowed = True, dec_CallID = [], dec_PolicyVersion = []\<rparr>), svc_Sources = None,
     svc_DecodeIntent = \<lambda>_. Inr ip_spec, svc_DecodeEnvelope = \<lambda>_. None, svc_DecodePacket = \<lambda>_. Some sx_packet, svc_DecodeCode = \<lambda>_. None,
     svc_Host = \<lparr>host_Stat = \<lambda>_. None, host_ReadFile = \<lambda>_. None, host_Do = \<lambda>_ _ _. None, host_ParseTime = \<lambda>_. None, host_Decode = \<lambda>_. None\<rparr>,
     svc_EncodeEnvelope = \<lambda>_. None, svc_StrictCode = \<lambda>_. Some sx_code, svc_GetCodeGraph = \<lambda>_ _ _ _ _. Some sx_graph,
     svc_Registry = \<lparr>reg_Schema = [], reg_Packages = [], reg_Targets = []\<rparr>,
     svc_DecodeRequest = \<lambda>_. Some \<lparr>mq_Model = ''qwen'', mq_System = ''build'', mq_Prompt = ''x'', mq_Format = [], mq_Stream = False, mq_Think = False,
       mq_Options = \<lparr>mo_NumPredict = 10, mo_Temperature = ''0'', mo_Seed = 0\<rparr>, mq_KeepAlive = []\<rparr>,
     svc_DecodeResponse = \<lambda>_. Some \<lparr>mp_Model = ''qwen'', mp_Response = ''y'', mp_Done = True, mp_DoneReason = ''stop'', mp_PromptEvalCount = 1,
       mp_EvalCount = 1\<rparr>,
     svc_DecodeManifest = \<lambda>_. Some \<lparr>dm_Schema = ''hybrid-ai/disclosed-context/v1'', dm_RunID = ''r'', dm_StepID = ''s'', dm_ContextSHA256 = Digest ''x'',
       dm_PackageSHA256 = package_Digest sx_package, dm_RepositoryID = ''repo'', dm_RepositoryRevision = ''abc'', dm_Files = [(''a'', Digest ''x'')],
       dm_Observations = [], dm_Provider = ''ollama'', dm_Model = ''qwen'', dm_ModelSHA256 = []\<rparr>,
     svc_DecodePrompt = \<lambda>_. Some \<lparr>pm_Context = ''x'', pm_Files = [(''a'', ''x'')], pm_Observations = [], pm_Evaluations = []\<rparr>,
     svc_DecodeBuilder = \<lambda>_. Some \<lparr>bp_Schema = ''hybrid-ai/builder-proposal/v1'', bp_Plan = sx_plan, bp_Criteria = [''c''], bp_BaseRevision = ''abc'',
       bp_Patch = ''x'', bp_Files = []\<rparr>,
     svc_DecodeDiagnosis = \<lambda>_. None, svc_DecodeEffect = \<lambda>_. None, svc_DecodeVerification = \<lambda>_. Some sx_receipt,
     svc_Remarshal = \<lambda>_. Some []\<rparr>"

definition sx_run :: "string \<Rightarrow> execution_run" where
  "sx_run stage = (ex_request ''feature'')\<lparr>er_Stage := stage, er_Packages := [(''sdlc_builder'', sx_package)]\<rparr>"

definition sx_step :: "string \<Rightarrow> execution_step" where
  "sx_step stage = \<lparr>es_ID = ''s'', es_RunID = ''r'', es_Number = 0, es_Stage = stage, es_Actor = ''b'', es_Role = ''sdlc_builder'',
     es_PackageSHA = [], es_Fence = 1, es_LeaseSHA = [], es_LeaseUntil = 1, es_StartedAt = 0, es_CompletedAt = None,
     es_ContextSHA = Digest ''x'', es_Result = Some ((ex_result stage)\<lparr>rs_Patch := sx_artifact\<rparr>), es_Evidence = sx_artifact\<rparr>"

definition sx_db :: exec_db where
  "sx_db = ex_db0\<lparr>x_blobs := [sx_artifact], x_runs := [sx_run ''build''],
     x_artifacts := [\<lparr>xa_RunID = ''r'', xa_StepID = ''s'', xa_SHA256 = Digest ''x'', xa_Actor = ''b''\<rparr>]\<rparr>"

definition sx_context :: "string \<Rightarrow> unit evidence_context" where
  "sx_context stage = \<lparr>ec_Service = sx_service, ec_Env = ip_env, ec_DB = sx_db, ec_Store = sx_store,
     ec_View = \<lparr>view_Run = sx_run stage, view_Steps = [sx_step ''build''], view_Events = []\<rparr>\<rparr>"

definition sx_intent :: intent_context where
  "sx_intent = \<lparr>ctx_Intent = \<lparr>bind_RecordID = ''i'', bind_SHA256 = ''h'', bind_Kind = ''intent''\<rparr>,
     ctx_Specification = ip_spec\<lparr>is_Criteria := [\<lparr>ic_ID = ''c'', ic_Statement = ''s'', ic_Oracle = ''work_packet'',
       ic_WorkPacketSHA256 = Digest ''x'', ic_Reconciliation = None\<rparr>]\<rparr>,
     ctx_Records = [(scanProduct ip_db (ip_row ''w'' ''test''))\<lparr>prod_Content := ''x''\<rparr>], ctx_Ready = True, ctx_Blockers = []\<rparr>"

lemma sx_read: "ec_read (sx_context stage) (Digest ''x'') = Inr ''x''"
  by (simp add: sx_context_def readExecutionArtifact_def repo_ExecutionArtifact_def find_row_def sx_db_def sx_artifact_def sx_run_def ex_request_def
      Read_def sx_store_def digestPattern_Digest max_artifact_bytes_def)

lemma sx_packet_of: "executionPacket sx_service sx_intent = Inr (sx_packet, Digest ''x'')"
  by (simp add: executionPacket_def sx_intent_def sx_service_def ip_scan)

section \<open>A build\<close>

definition sx_model :: model_evidence where
  "sx_model = \<lparr>me_Provider = ''ollama'', me_Model = ''qwen'', me_ModelSHA256 = [], me_Prompt = sx_artifact, me_Response = sx_artifact,
     me_Manifest = sx_artifact, me_InputTokens = 1, me_OutputTokens = 1, me_DurationMillis = 1, me_TrialKind = ''fixture''\<rparr>"

definition sx_built :: execution_result where
  "sx_built = (ex_result ''build'')\<lparr>rs_Summary := ''built'', rs_Criteria := [''c''], rs_Plan := sx_plan, rs_Patch := sx_artifact,
     rs_BaseRevision := ''abc'', rs_Model := Some sx_model\<rparr>"

lemma sx_sha: "art_SHA256 sx_artifact = Digest ''x''"
  by (simp add: sx_artifact_def)

lemma sx_package_of: "run_Package (sx_run ''build'') = sx_package"
  by (simp add: run_Package_def sx_run_def ExecutionRole_def)

lemma sx_view: "ec_Run (sx_context stage) = sx_run stage" "ec_Service (sx_context stage) = sx_service"
  "current_step_id (ec_View (sx_context ''build'')) = ''s''" "current_context (ec_View (sx_context ''build'')) = Digest ''x''"
  "er_Stage (sx_run stage) = stage"
  by (simp_all add: sx_context_def current_step_id_def current_context_def current_step_def sx_step_def sx_run_def ex_request_def)

lemma sx_trim: "trim_space ''built'' = ''built''" "trim_space ''d'' = ''d''"
  by (simp_all add: plain_char_def)

lemma sx_submission: "validateModelSubmission (sx_context ''build'') sx_model sx_built = None"
proof -
  have run: "er_ID (sx_run ''build'') = ''r''" "et_RepositoryID (er_Target (sx_run ''build'')) = ''repo''"
    by (simp_all add: sx_run_def ex_request_def ex_target_def)
  have package: "ap_Model sx_package = ''qwen''" "ap_Instructions sx_package = ''build''" "ap_MaxOutputTokens sx_package = 10"
    "ap_MaxInputBytes sx_package = 10" "ap_ModelSHA256 sx_package = []"
    by (simp_all add: sx_package_def zero_package_def)
  have view: "view_Run (ec_View (sx_context ''build'')) = sx_run ''build''" by (rule sx_view)
  show ?thesis
    unfolding validateModelSubmission_def
    using sx_read [of "''build''"] run package
    by (simp add: sx_model_def sx_sha sx_view view sx_package_of sx_service_def model_exchange_ok_def ValidProposalFormat_def manifest_ok_def
        disclosed_files_ok_def map_get_def validate_builder_def sx_built_def ex_result_def sameStrings_def)
qed

lemma sx_build: "validateExecutionResult (sx_context ''build'') sx_intent sx_built = Inr (''ready'', ''evaluate'')"
proof -
  have fields: "rs_Stage sx_built = ''build''" "rs_Outcome sx_built = ''succeeded''" "rs_Summary sx_built = ''built''" "rs_Artifacts sx_built = []"
    "rs_Criteria sx_built = [''c'']" "rs_Model sx_built = Some sx_model" "rs_Plan sx_built = sx_plan" "rs_Patch sx_built = sx_artifact"
    "rs_BaseRevision sx_built = ''abc''"
    by (simp_all add: sx_built_def ex_result_def)
  have criteria: "map ic_ID (is_Criteria (ctx_Specification sx_intent)) = [''c'']" by (simp add: sx_intent_def)
  have model: "validate_model (sx_context ''build'') sx_built = None"
    using sx_submission sx_read [of "''build''"]
    by (simp add: validate_model_def fields model_evidence_ok_def sx_view sx_package_of sx_model_def sx_package_def zero_package_def sx_sha)
  have build: "validate_build (sx_context ''build'') sx_intent sx_built = Inr (''ready'', ''evaluate'')"
    using sx_packet_of sx_read [of "''build''"]
    by (simp add: validate_build_def fields sx_view sx_sha sx_plan_def sx_trim) (simp add: sx_packet_def)
  show ?thesis using model build by (simp add: validateExecutionResult_def Let_def fields sx_view sx_trim criteria sameStrings_def)
qed

theorem accepted_patch_is_the_models_witness:
  "validateExecutionResult (sx_context ''build'') sx_intent sx_built = Inr (''ready'', ''evaluate'')
   \<and> (\<exists>m response proposal responseRaw. rs_Model sx_built = Some m \<and> Digest responseRaw = art_SHA256 (me_Response m)
        \<and> svc_DecodeResponse sx_service responseRaw = Some response
        \<and> svc_DecodeBuilder sx_service (mp_Response response) = Some proposal \<and> Digest (bp_Patch proposal) = art_SHA256 (rs_Patch sx_built))"
proof -
  have "bp_Files proposal = []" if "svc_DecodeBuilder sx_service y = Some proposal" for y proposal
    using that by (auto simp: sx_service_def)
  with accepted_patch_is_the_models [OF sx_build] sx_build sx_view(2) show ?thesis by (auto split: if_split_asm)
qed

section \<open>An evaluation\<close>

definition sx_evaluated :: execution_result where
  "sx_evaluated = (ex_result ''evaluate'')\<lparr>rs_Summary := ''built'', rs_Criteria := [''c''], rs_CandidateSHA := Digest ''x'',
     rs_PacketSHA256 := Digest ''x'', rs_BaseRevision := ''abc'', rs_Artifacts := [sx_artifact],
     rs_Checks := [\<lparr>xc_Name = ''unit'', xc_ArgvSHA256 = Digest (argv_bytes [''true'']), xc_ExitCode = 0, xc_TimedOut = False,
       xc_Output = sx_artifact\<rparr>]\<rparr>"

lemma sx_evaluate: "validateExecutionResult (sx_context ''evaluate'') sx_intent sx_evaluated = Inr (''ready'', ''deliver'')"
proof -
  have fields: "rs_Stage sx_evaluated = ''evaluate''" "rs_Outcome sx_evaluated = ''succeeded''" "rs_Summary sx_evaluated = ''built''"
    "rs_Artifacts sx_evaluated = [sx_artifact]" "rs_Criteria sx_evaluated = [''c'']" "rs_CandidateSHA sx_evaluated = Digest ''x''"
    "rs_PacketSHA256 sx_evaluated = Digest ''x''" "rs_BaseRevision sx_evaluated = ''abc''" "rs_SandboxImage sx_evaluated = []"
    "rs_Checks sx_evaluated = [\<lparr>xc_Name = ''unit'', xc_ArgvSHA256 = Digest (argv_bytes [''true'']), xc_ExitCode = 0, xc_TimedOut = False,
       xc_Output = sx_artifact\<rparr>]"
    by (simp_all add: sx_evaluated_def ex_result_def)
  have criteria: "map ic_ID (is_Criteria (ctx_Specification sx_intent)) = [''c'']" by (simp add: sx_intent_def)
  have candidate: "latestExecutionResult (ec_View (sx_context ''evaluate'')) ''build'' = Some ((ex_result ''build'')\<lparr>rs_Patch := sx_artifact\<rparr>)"
    by (simp add: latestExecutionResult_def sx_context_def sx_step_def)
  have image: "ap_EvaluatorImage (run_Package (sx_run ''evaluate'')) = []"
    by (simp add: run_Package_def sx_run_def ExecutionRole_def map_get_def zero_package_def)
  have "receipt_ok sx_packet sx_evaluated sx_receipt"
    by (simp add: receipt_ok_def fields sx_receipt_def sx_packet_def sx_check_def receipt_check_ok_def sx_sha)
  then have receipt: "validateVerifierReceipt (sx_context ''evaluate'') sx_packet sx_evaluated = None"
    using sx_read [of "''evaluate''"] by (simp add: validateVerifierReceipt_def fields sx_sha sx_view) (simp add: sx_service_def)
  have packet: "pkt_BaseRevision sx_packet = ''abc''" "pkt_Checks sx_packet = [sx_check]" by (simp_all add: sx_packet_def)
  have "validate_evaluate (sx_context ''evaluate'') sx_intent sx_evaluated = Inr (''ready'', ''deliver'')"
    using sx_packet_of sx_read [of "''evaluate''"] receipt candidate image
    by (simp add: validate_evaluate_def fields sx_view sx_sha packet sx_check_def)
  then show ?thesis using sx_read [of "''evaluate''"]
    by (simp add: validateExecutionResult_def Let_def fields sx_view sx_trim criteria sameStrings_def sx_sha)
qed

theorem verified_before_delivery_witness:
  "validateExecutionResult (sx_context ''evaluate'') sx_intent sx_evaluated = Inr (''ready'', ''deliver'')
   \<and> er_Stage (ec_Run (sx_context ''evaluate'')) = ''evaluate'' \<and> Digest ''x'' \<in> art_SHA256 ` set (rs_Artifacts sx_evaluated)"
  using verified_before_delivery [OF sx_evaluate] sx_evaluate by (simp add: sx_evaluated_def ex_result_def sx_sha)

theorem validated_transition_accepted_witness:
  "validateExecutionResult (sx_context ''evaluate'') sx_intent sx_evaluated = Inr (''ready'', ''deliver'')
   \<and> validExecutionTransition (er_Stage (ec_Run (sx_context ''evaluate''))) (rs_Outcome sx_evaluated) ''ready'' ''deliver''"
  using validated_transition_accepted [OF sx_evaluate] sx_evaluate by simp

section \<open>A diagnosis\<close>

definition sx_incident_db :: exec_db where
  "sx_incident_db = ex_db0\<lparr>x_products := x_products ip_db, x_heads := x_heads ip_db, x_decisions := x_decisions ip_db,
     x_validations := x_validations ip_db, x_runs := [ip_run]\<rparr>"

definition sx_incident :: "unit evidence_context" where
  "sx_incident = \<lparr>ec_Service = sx_service, ec_Env = ip_env, ec_DB = sx_incident_db, ec_Store = sx_store,
     ec_View = \<lparr>view_Run = ip_run, view_Steps = [], view_Events = []\<rparr>\<rparr>"

definition sx_diagnosis :: execution_result where
  "sx_diagnosis = (ex_result ''diagnose'')\<lparr>rs_ObservationIDs := replicate 5 ''b'',
     rs_Hypotheses := replicate 2 \<lparr>hy_ID = ''h'', hy_Explanation = ''e'', hy_Supports = [], hy_Contradicts = [], hy_Status = [], hy_ProposedRemedy = []\<rparr>\<rparr>"

definition sx_lease :: execution_lease where
  "sx_lease = \<lparr>el_ProjectID = ''p'', el_RunID = ''r'', el_StepID = ''s'', el_Fence = 1, el_Token = ''t''\<rparr>"

lemma sx_get:
  assumes "er_ProductID run = ''q''" "er_ProjectID run = ''p''" "run_Actor run = ''o''" "et_Classifications (er_Target run) = [''internal'']"
  shows "GetProductRecord sx_service ip_env (Some run) sx_incident_db ''p'' ''b'' True = Inr (scanProduct sx_incident_db (ip_row ''b'' ''brs''))"
proof -
  have access: "productAccess sx_service ip_env (Some run) ''p'' ''b'' ''read'' ''internal'' = Inr ip_principal"
    using assms by (simp add: productAccess_def RequirePrincipal_def PrincipalFromContext_def ip_env_def ip_principal_def)
  have row: "record_row sx_incident_db ''p'' ''b'' = Some (ip_row ''b'' ''brs'')"
    by (simp add: record_row_def sx_incident_db_def ip_db_def ip_row_def)
  have "product_record_eligible 0 sx_incident_db (ip_row ''b'' ''brs'')" "env_db_now ip_env = 0"
    by (simp_all add: product_record_eligible_def decision_counts_def sx_incident_db_def ip_db_def ip_row_def ip_env_def)
  with access row assms show ?thesis by (simp add: GetProductRecord_def repo_GetProductRecord_def ip_scan)
qed

lemma ip_run_scope: "er_ProductID ip_run = ''q''" "er_ProjectID ip_run = ''p''" "run_Actor ip_run = ''o''"
  "et_Classifications (er_Target ip_run) = [''internal'']"
  by (simp_all add: ip_run_def run_Actor_def ExecutionRole_def)

lemma sx_diagnosed: "validateDiagnosis sx_incident sx_intent sx_diagnosis = Inr (''blocked'', ''diagnose'')"
proof -
  have ctx: "ec_Service sx_incident = sx_service" "ec_Env sx_incident = ip_env" "ec_DB sx_incident = sx_incident_db" "ec_Run sx_incident = ip_run"
    "er_Stage ip_run = ''diagnose''"
    by (simp_all add: sx_incident_def ip_run_def)
  have "rs_ObservationIDs sx_diagnosis = [''b'', ''b'', ''b'', ''b'', ''b'']" by (simp add: sx_diagnosis_def numeral_eq_Suc)
  then have "observed_kinds sx_incident (rs_ObservationIDs sx_diagnosis) = Inr None"
    using sx_get [OF ip_run_scope] ctx ip_run_scope by (simp add: ip_scan)
  then show ?thesis
    using ctx by (simp add: validateDiagnosis_def Let_def) (simp add: sx_diagnosis_def ex_result_def)
qed

theorem succeeded_diagnosis_cannot_block_witness:
  "validateDiagnosis sx_incident sx_intent sx_diagnosis = Inr (''blocked'', ''diagnose'') \<and> rs_Outcome sx_diagnosis = ''succeeded''
   \<and> (\<exists>e. CompleteExecution ip_env sx_incident_db sx_lease ''o'' sx_diagnosis sx_artifact ''blocked'' ''diagnose'' = (Inl e, sx_incident_db))"
proof -
  have ok: "rs_Outcome sx_diagnosis = ''succeeded''" by (simp add: sx_diagnosis_def ex_result_def)
  have lock: "lockExecution sx_incident_db (el_ProjectID sx_lease) (el_RunID sx_lease) = Inr ip_run"
    by (simp add: lockExecution_def sx_incident_db_def sx_lease_def ip_run_def)
  have prior: "prior_result sx_incident_db ip_run (el_StepID sx_lease) = None"
    by (simp add: prior_result_def sx_incident_db_def ex_db0_def)
  from succeeded_diagnosis_cannot_block [OF sx_diagnosed ok lock prior] sx_diagnosed ok show ?thesis by blast
qed

section \<open>Bound code\<close>

definition sx_code_run :: execution_run where
  "sx_code_run = ip_run\<lparr>er_Bindings := [\<lparr>bind_RecordID = ''b'', bind_SHA256 = ip_sha, bind_Kind = ''code''\<rparr>]\<rparr>"

lemma sx_code_run_scope: "er_ProductID sx_code_run = ''q''" "er_ProjectID sx_code_run = ''p''" "run_Actor sx_code_run = ''o''"
  "et_Classifications (er_Target sx_code_run) = [''internal'']"
  using ip_run_scope by (simp_all add: sx_code_run_def run_Actor_def)

lemma sx_graph_small: "length (graph_bytes sx_graph) \<le> 16384"
  by code_simp

lemma sx_symbol: "symbol_graph sx_service sx_incident_db sx_code_run sx_code ''f'' = Inr sx_graph"
proof -
  have same: "sx_graph\<lparr>cg_Relations := []\<rparr> = sx_graph" by (simp add: sx_graph_def)
  have "filter (\<lambda>e. loc_FilePath (ce_Location e) = code_File sx_code) (cg_Entities sx_graph) = cg_Entities sx_graph"
    "cg_Relations sx_graph = []" by (simp_all add: sx_graph_def sx_code_def)
  moreover have "svc_GetCodeGraph sx_service db project repo symbol depth = Some sx_graph" for db project repo symbol depth
    by (simp add: sx_service_def)
  moreover have "list_ex (names_symbol ''f'') (cg_Entities sx_graph)" "ca_Revision (cg_Analysis sx_graph) = code_Revision sx_code"
    "length (cg_Entities sx_graph) = 1"
    "\<not> list_ex (\<lambda>e. ce_ProjectID e \<noteq> er_ProjectID sx_code_run \<or> ce_Revision e \<noteq> code_Revision sx_code
               \<or> ce_RepositoryID e \<noteq> sr_ID (ca_Repository (cg_Analysis sx_graph))) (cg_Entities sx_graph)"
    using sx_code_run_scope(2) by (simp_all add: sx_graph_def sx_code_def names_symbol_def)
  ultimately show ?thesis using sx_graph_small by (simp add: symbol_graph_def Let_def same)
qed

theorem disclosed_code_is_bound_witness:
  "\<exists>x. executionCode sx_service ip_env (Some sx_code_run) sx_incident_db sx_code_run = Inr [x]
     \<and> br_Record x = \<lparr>bind_RecordID = ''b'', bind_SHA256 = ip_sha, bind_Kind = ''code''\<rparr>
     \<and> \<not> list_ex (protects (code_File (br_Binding x))) (et_ProtectedPaths (er_Target sx_code_run)) \<and> length (cg_Entities (br_Graph x)) \<le> 20"
proof -
  let ?b = "\<lparr>bind_RecordID = ''b'', bind_SHA256 = ip_sha, bind_Kind = ''code''\<rparr>"
  let ?x = "\<lparr>br_Record = ?b, br_Binding = sx_code, br_Graph = sx_graph\<rparr>"
  have run: "er_Bindings sx_code_run = [?b]" "er_Kind sx_code_run = ''incident''" "et_RepositoryID (er_Target sx_code_run) = ''g''"
    "et_ProtectedPaths (er_Target sx_code_run) = []"
    by (simp_all add: sx_code_run_def ip_run_def)
  have "path_Clean ''a'' = ''a''" by code_simp
  then have "code_binding_ok sx_code_run sx_code" using run(3) by (simp add: code_binding_ok_def sx_code_def)
  then have "bound_code sx_service ip_env (Some sx_code_run) sx_incident_db sx_code_run ?b = Inr sx_code"
    using sx_get [OF sx_code_run_scope] sx_code_run_scope(2) run by (simp add: bound_code_def ip_scan) (simp add: sx_service_def)
  moreover have "code_Symbols sx_code = [''f'']" by (simp add: sx_code_def)
  ultimately have code: "executionCode sx_service ip_env (Some sx_code_run) sx_incident_db sx_code_run = Inr [?x]"
    using sx_symbol by (simp add: executionCode_def run)
  from disclosed_code_is_bound [OF code, of ?x] code show ?thesis by auto
qed

section \<open>A source query\<close>

definition sq_service :: evidence_service where
  "sq_service = product_service.extend (ip_service\<lparr>svc_Sources := Some [(''p:s'', demo_source)]\<rparr>)
     (evidence_service.fields demo_source_host (\<lambda>_. None))"

definition sq_env :: call_env where
  "sq_env = ip_env\<lparr>env_clock := \<lambda>_. seconds 20\<rparr>"

definition sq_receipt :: source_receipt where
  "sq_receipt = failed_receipt (open_receipt sq_env ip_principal ''operations'' demo_source demo_query)"

definition sq_db :: exec_db where
  "sq_db = ex_db0\<lparr>x_receipts := [sq_receipt]\<rparr>"

lemma sq_answer: "QueryProductSource sq_service sq_env None None sx_store sq_db sq_db demo_query = (Inr sq_receipt, sx_store, sq_db)"
proof -
  have who: "RequirePrincipal (env_ctx sq_env) = Inr ip_principal"
    by (simp add: RequirePrincipal_def PrincipalFromContext_def sq_env_def ip_env_def ip_principal_def)
  have svc: "svc_Sources sq_service = Some [(''p:s'', demo_source)]" "svc_Authorizer sq_service = svc_Authorizer ip_service"
    by (simp_all add: sq_service_def product_service.defs evidence_service.defs ip_service_def)
  have "Get [(''p:s'', demo_source)] (sq_ProjectID demo_query) (sq_SourceID demo_query) = Some demo_source"
    by (simp add: Get_def demo_query_def)
  moreover have "authorizeExecutionSource sq_service sq_env None demo_source ''query'' (sq_Purpose demo_query) = Inr ip_principal"
    by (simp add: authorizeExecutionSource_def svc AuthorizeProjectAction_def authorizeUntraced_def RequirePrincipal_def PrincipalFromContext_def
        ip_service_def sq_env_def ip_env_def ip_principal_def plain_char_def HasRole_iff Let_def demo_source_def)
  moreover have "selectRole ip_principal (sq_ProjectID demo_query) (sd_Roles demo_source) = Some ''operations''"
    by (simp add: demo_source_def demo_query_def ip_principal_def HasRole_iff)
  moreover have "ValidateQuery (env_clock sq_env 0) demo_source demo_query = None"
    by (simp add: ValidateQuery_def demo_source_defs sq_env_def pattern_simps IsZero_def utc_def seconds_def zero_time_def)
  moreover have "fields_permitted demo_source ''operations'' demo_query" by (simp add: fields_permitted_def demo_source_def)
  moreover have "repo_GetSourceReceipt sq_db (sq_ProjectID demo_query) (sq_SourceID demo_query) (p_ID ip_principal) (sq_IdempotencyKey demo_query)
      = Some sq_receipt"
    by (simp add: repo_GetSourceReceipt_def sq_db_def sq_receipt_def failed_receipt_def open_receipt_def demo_query_def demo_source_def)
  moreover have "rc_QuerySHA256 sq_receipt = query_Digest demo_query" "rc_DescriptorSHA256 sq_receipt = descriptor_Digest demo_source"
    "rc_RecordID sq_receipt = []"
    by (simp_all add: sq_receipt_def failed_receipt_def open_receipt_def)
  ultimately show ?thesis using who svc(1) by (simp add: QueryProductSource_def)
qed

theorem repeated_query_answers_receipt_witness:
  "QueryProductSource sq_service sq_env None None sx_store sq_db sq_db demo_query = (Inr sq_receipt, sx_store, sq_db)
   \<and> snd (QueryProductSource sq_service (sq_env\<lparr>env_db_now := 5\<rparr>) None None sx_store sq_db sq_db demo_query) = (sx_store, sq_db)"
proof -
  have ctx: "env_ctx (sq_env\<lparr>env_db_now := 5\<rparr>) = env_ctx sq_env" by simp
  from repeated_query_answers_receipt [OF sq_answer prefix_order.refl ctx prefix_order.refl] sq_answer show ?thesis by blast
qed

section \<open>A call of the platform\<close>

theorem service_refines_stores_witness:
  "\<exists>s. v_step (sx_store, ex_db0\<lparr>x_products := [], x_heads := []\<rparr>) s \<and> reach x_start x_step (snd s) \<and> reach p_start p_step (snd s)"
proof -
  let ?db = "ex_db0\<lparr>x_products := [], x_heads := []\<rparr>"
  obtain r db' where claim: "service_ClaimExecution sx_service ip_env ?db ?db ''p'' ''r'' ''t'' = (r, db')" by (metis surj_pair)
  have step: "v_step (sx_store, ?db) (sx_store, db')" by (rule v_step.claim [OF claim])
  have start: "v_start (sx_store, ?db)" by (simp add: v_start_def x_start_def p_start_def ex_db0_def)
  have "reach v_start v_step (sx_store, ?db)" using start by (rule reach_start)
  then have "reach v_start v_step (sx_store, db')" using step by (rule reach_step)
  from service_refines_stores [OF this] step show ?thesis by blast
qed

end
