(* ===== verification/Knowledge.thy ===== *)
theory Knowledge
  imports ProductStore Complex_Main
begin

text \<open>
  The knowledge items tasks reuse and produce: the rows of \<open>knowledge_items\<close> and of their validations, sources and quality
  policies, the eligibility of an item for a purpose (\<open>knowledge_quality_policy\<close>, \<open>knowledge_quality_reason\<close> and
  \<open>knowledge_eligible\<close> of \<open>src/migrations/000012_scoped_quality.sql\<close>), and the queries of
  \<open>src/internal/postgres/repository.go\<close> that the task checkpoints need.
\<close>

section \<open>Items\<close>

text \<open>A finite \<open>float32\<close>: the rational it stands for and the decimal text it is written as.\<close>

record float32 =
  f_Value :: rat
  f_Text :: string

definition float_zero :: float32 where
  "float_zero = \<lparr>f_Value = 0, f_Text = ''0''\<rparr>"

record knowledge_item =
  ki_ID :: string
  ki_ProjectID :: string
  ki_WorkflowID :: string
  ki_WorkflowStepID :: string
  ki_Title :: string
  ki_Problem :: string
  ki_Summary :: string
  ki_Content :: string
  ki_Procedure :: "string list"
  ki_ValidationEvidence :: "string list"
  ki_TaskType :: string
  ki_Language :: string
  ki_Tags :: "string list"
  ki_Status :: string
  ki_SourceGenerationID :: string
  ki_Version :: int
  ki_CreatedAt :: go_time
  ki_ApprovedAt :: go_time

record search_hit = knowledge_item +
  sh_Score :: float32

definition json_list :: "string \<Rightarrow> string list \<Rightarrow> (string \<times> json) list" where
  "json_list k xs = (if xs = [] then [] else [(k, json_strings xs)])"

definition json_hit :: "search_hit \<Rightarrow> json" where
  "json_hit h = JObject (
     [(''id'', JString (ki_ID h)), (''project_id'', JString (ki_ProjectID h))]
     @ omit_empty ''workflow_id'' (ki_WorkflowID h) @ omit_empty ''workflow_step_id'' (ki_WorkflowStepID h)
     @ [(''title'', JString (ki_Title h)), (''problem'', JString (ki_Problem h)), (''summary'', JString (ki_Summary h)),
        (''content'', JString (ki_Content h))]
     @ json_list ''procedure'' (ki_Procedure h) @ json_list ''validation_evidence'' (ki_ValidationEvidence h)
     @ [(''task_type'', JString (ki_TaskType h))] @ omit_empty ''language'' (ki_Language h) @ json_list ''tags'' (ki_Tags h)
     @ [(''status'', JString (ki_Status h))] @ omit_empty ''source_generation_id'' (ki_SourceGenerationID h)
     @ [(''version'', JInt (ki_Version h)), (''created_at'', json_time (ki_CreatedAt h)), (''approved_at'', json_time (ki_ApprovedAt h)),
        (''score'', JNumber (f_Text (sh_Score h)))])"

section \<open>Tables\<close>

record knowledge_row = knowledge_item +
  kr_Approval :: "string option"

record knowledge_validation_row =
  kv_ID :: string
  kv_KnowledgeID :: string
  kv_ProjectID :: string
  kv_CandidateVersion :: int
  kv_ContentSHA256 :: string
  kv_Method :: string
  kv_Verdict :: string
  kv_SourceManifestSHA256 :: string
  kv_CompletedAt :: int
  kv_ValidUntil :: int

record knowledge_source_row =
  ks_ValidationID :: string
  ks_ManifestSHA256 :: string
  ks_VerifiedAt :: int
  ks_Valid :: bool
  ks_Reason :: string

record quality_policy_row =
  qp_ProjectID :: string
  qp_DataProduct :: string
  qp_Purpose :: string
  qp_Version :: int
  qp_EffectiveAt :: int
  qp_SourceMaxAge :: int
  qp_ContentMaxAge :: int
  qp_PatchMaxAge :: int
  qp_RequiredMethod :: string
  qp_MaxContentBytes :: int

record review_row =
  rw_KnowledgeID :: string
  rw_WorkflowID :: string
  rw_Provider :: string
  rw_Model :: string
  rw_ReviewSHA256 :: string
  rw_ContextSHA256 :: string

record knowledge_db =
  k_items :: "knowledge_row list"
  k_validations :: "knowledge_validation_row list"
  k_sources :: "knowledge_source_row list"
  k_policies :: "quality_policy_row list"
  k_reviews :: "review_row list"

section \<open>Eligibility\<close>

text \<open>The policy in force: the most specific one, and of those the newest.\<close>

definition policy_rank :: "string \<Rightarrow> string \<Rightarrow> string \<Rightarrow> quality_policy_row \<Rightarrow> nat" where
  "policy_rank project product consumer p =
     4 * of_bool (qp_ProjectID p = project) + 2 * of_bool (qp_DataProduct p = product) + of_bool (qp_Purpose p = consumer)"

definition policy_before :: "string \<Rightarrow> string \<Rightarrow> string \<Rightarrow> quality_policy_row \<Rightarrow> quality_policy_row \<Rightarrow> bool" where
  "policy_before project product consumer p q \<longleftrightarrow>
     (let a = policy_rank project product consumer p; b = policy_rank project product consumer q
      in b < a \<or> a = b \<and> qp_Version q < qp_Version p)"

definition knowledge_quality_policy :: "int \<Rightarrow> knowledge_db \<Rightarrow> string \<Rightarrow> string \<Rightarrow> string \<Rightarrow> quality_policy_row option" where
  "knowledge_quality_policy now db project product consumer =
     fold (\<lambda>p best. case best of None \<Rightarrow> Some p | Some q \<Rightarrow> if policy_before project product consumer p q then Some p else Some q)
       (filter (\<lambda>p. qp_ProjectID p \<in> set [''*'', project] \<and> qp_DataProduct p \<in> set [''*'', product] \<and> qp_Purpose p \<in> set [''*'', consumer]
          \<and> qp_EffectiveAt p \<le> now) (k_policies db)) None"

definition DataProductKnowledge :: string where
  "DataProductKnowledge = ''software_knowledge''"

text \<open>The standard query's \<open>trim\<close> removes blanks only.\<close>

definition sql_blank :: "string \<Rightarrow> bool" where
  "sql_blank s \<longleftrightarrow> list_all (\<lambda>c. c = CHR '' '') s"

definition approval_validation :: "knowledge_db \<Rightarrow> knowledge_row \<Rightarrow> knowledge_validation_row option" where
  "approval_validation db k = (case kr_Approval k of None \<Rightarrow> None | Some v \<Rightarrow> find_row kv_ID v (k_validations db))"

definition duplicate_content :: "knowledge_db \<Rightarrow> knowledge_row \<Rightarrow> bool" where
  "duplicate_content db k \<longleftrightarrow>
     list_ex (\<lambda>other. ki_ProjectID other = ki_ProjectID k \<and> ki_Status other = ''approved'' \<and> kr_Approval other \<noteq> None \<and> ki_Content other = ki_Content k
       \<and> (gt_Nanos (ki_CreatedAt other) < gt_Nanos (ki_CreatedAt k)
          \<or> gt_Nanos (ki_CreatedAt other) = gt_Nanos (ki_CreatedAt k) \<and> ki_ID other < ki_ID k)) (k_items db)"

definition knowledge_quality_reason :: "int \<Rightarrow> knowledge_db \<Rightarrow> knowledge_row \<Rightarrow> string \<Rightarrow> string" where
  "knowledge_quality_reason now db k consumer =
     (if ki_Status k \<noteq> ''approved'' then ''not_approved''
      else if consumer \<notin> set [''development_guidance'', ''code_change'', ''review''] then ''policy_unavailable''
      else case knowledge_quality_policy now db (ki_ProjectID k) DataProductKnowledge consumer of
        None \<Rightarrow> ''policy_unavailable''
      | Some p \<Rightarrow>
          (case approval_validation db k of
             None \<Rightarrow> ''validation_required''
           | Some v \<Rightarrow>
               if kv_CandidateVersion v \<noteq> ki_Version k \<or> kv_ProjectID v \<noteq> ki_ProjectID k \<or> kv_ContentSHA256 v \<noteq> Digest (ki_Content k)
                 then ''version_conflict''
               else if kv_Verdict v \<noteq> ''pass'' \<or> kv_CompletedAt v > now \<or> qp_RequiredMethod p = ''workpacket'' \<and> kv_Method v \<noteq> ''workpacket''
                 then ''validation_required''
               else if kv_ValidUntil v \<le> now
                  \<or> kv_CompletedAt v + (if kv_Method v = ''workpacket'' \<or> consumer = ''code_change'' then qp_PatchMaxAge p else qp_ContentMaxAge p) \<le> now
                 then ''validation_expired''
               else (case find_row ks_ValidationID (kv_ID v) (k_sources db) of
                   None \<Rightarrow> ''source_unverified''
                 | Some s \<Rightarrow>
                     if ks_ManifestSHA256 s \<noteq> kv_SourceManifestSHA256 v then ''source_unverified''
                     else if \<not> ks_Valid s then ks_Reason s
                     else if ks_VerifiedAt s > now \<or> ks_VerifiedAt s + qp_SourceMaxAge p \<le> now then ''source_expired''
                     else if int (length (ki_Content k)) > qp_MaxContentBytes p then ''content_too_large''
                     else if sql_blank (ki_Content k) \<or> sql_blank (ki_Summary k) \<or> ki_Procedure k = [] then ''content_incomplete''
                     else if duplicate_content db k then ''duplicate_content''
                     else ''eligible'')))"

definition knowledge_eligible :: "int \<Rightarrow> knowledge_db \<Rightarrow> knowledge_row \<Rightarrow> string \<Rightarrow> bool" where
  "knowledge_eligible now db k consumer \<longleftrightarrow> knowledge_quality_reason now db k consumer = ''eligible''"

section \<open>Queries\<close>

text \<open>\<open>GetKnowledge\<close> with pending items included is a plain read by identifier.\<close>

definition GetKnowledge :: "knowledge_db \<Rightarrow> string \<Rightarrow> knowledge_row result" where
  "GetKnowledge db kid =
     (case find_row ki_ID kid (k_items db) of None \<Rightarrow> Err (ErrMessage ''knowledge item not found'') | Some k \<Rightarrow> Ok k)"

definition ReviewEvidenceExists :: "knowledge_db \<Rightarrow> string \<Rightarrow> string \<Rightarrow> string \<Rightarrow> string \<Rightarrow> string \<Rightarrow> string \<Rightarrow> bool" where
  "ReviewEvidenceExists db kid wid provider model review manifest =
     list_ex (\<lambda>r. rw_KnowledgeID r = kid \<and> rw_WorkflowID r = wid \<and> rw_Provider r = provider \<and> rw_Model r = model
       \<and> rw_ReviewSHA256 r = review \<and> rw_ContextSHA256 r = manifest) (k_reviews db)"

definition TaskPurpose :: "string \<Rightarrow> string" where
  "TaskPurpose taskType =
     (if taskType \<in> set [''implementation'', ''testing'', ''bugfix'', ''refactoring'', ''code-change''] then ''code_change''
      else if taskType = ''review'' then ''review'' else ''development_guidance'')"

end
