(* ===== verification/TaskStore.thy ===== *)
theory TaskStore
  imports Workflow Knowledge
begin

text \<open>
  The store of checkpointed tasks of a workflow: tasks with their log of events (\<open>src/internal/domain/taskcheckpoint.go\<close>), the FIFO queue and
  the optimistic updates of the repository (\<open>src/internal/postgres/taskcheckpoints.go\<close>), and the knowledge a task used or was validated
  with (\<open>src/internal/postgres/context_use.go\<close>).
\<close>

section \<open>Tasks and events\<close>

record workflow_task =
  tk_ID :: string
  tk_WorkflowID :: string
  tk_ProjectID :: string
  tk_Ordinal :: int
  tk_TaskKey :: string
  tk_Title :: string
  tk_TaskType :: string
  tk_State :: string
  tk_Route :: string
  tk_ExecutionMode :: string
  tk_Version :: int
  tk_RAGQuery :: string
  tk_RAGBackend :: string
  tk_RAGHitIDs :: "string list"
  tk_RAGMaxScore :: float32
  tk_MatchThreshold :: float32
  tk_ReviewInfluenceWeight :: float32
  tk_CandidateID :: string
  tk_LocalProvider :: string
  tk_LocalModel :: string
  tk_CloudProvider :: string
  tk_CloudModel :: string
  tk_RequestArtifact :: artifact
  tk_LookupArtifact :: "artifact option"
  tk_CreatedBy :: string
  tk_CreatedAt :: int
  tk_UpdatedAt :: int
  tk_CompletedAt :: "int option"

record task_event =
  te_ID :: string
  te_TaskID :: string
  te_Sequence :: int
  te_EventType :: string
  te_FromState :: string
  te_ToState :: string
  te_ActorPrincipalID :: string
  te_ActorRole :: string
  te_Provider :: string
  te_Model :: string
  te_IdempotencyKey :: string
  te_Payload :: "(string \<times> json) list"
  te_EvidenceArtifact :: "artifact option"
  te_AuthorizationDecision :: string
  te_CerbosCallID :: string
  te_PolicyVersion :: string
  te_CreatedAt :: int

record task_transition =
  tt_TaskID :: string
  tt_ExpectedVersion :: int
  tt_ExpectedState :: string
  tt_ResultingState :: string
  tt_CandidateID :: string
  tt_LocalProvider :: string
  tt_LocalModel :: string
  tt_CloudProvider :: string
  tt_CloudModel :: string
  tt_InfluenceWeight :: float32
  tt_RAGRoute :: string
  tt_RAGBackend :: string
  tt_RAGHitIDs :: "string list"
  tt_RAGMaxScore :: float32
  tt_LookupArtifact :: "artifact option"
  tt_Completed :: bool
  tt_Event :: task_event

record used_context =
  uc_KnowledgeID :: string
  uc_Version :: int
  uc_TargetRepository :: string
  uc_TargetBranch :: string
  uc_TargetRevision :: string

record used_context_row = used_context +
  ur_TaskID :: string
  ur_ValidationID :: string
  ur_SourceManifestSHA256 :: string
  ur_Actor :: string
  ur_IdempotencyKey :: string

record task_validation_row =
  tv_TaskID :: string
  tv_ValidationID :: string
  tv_CandidateVersion :: int

text \<open>
  The tables: the workflow tables, the knowledge tables, principals with their roles, and the tables of the tasks. A task row holds its
  artifacts by digest and the project of its run; both are joined when it is read.
\<close>

record task_db =
  td_wf :: wf_db
  td_k :: knowledge_db
  td_principals :: "principal_row list"
  td_roles :: "role_row list"
  td_tasks :: "workflow_task list"
  td_events :: "task_event list"
  td_used :: "used_context_row list"
  td_validated :: "task_validation_row list"

section \<open>Repository\<close>

definition joined_artifact :: "task_db \<Rightarrow> artifact \<Rightarrow> artifact option" where
  "joined_artifact db a = find_row art_SHA256 (art_SHA256 a) (wf_artifacts (td_wf db))"

definition scanWorkflowTask :: "task_db \<Rightarrow> workflow_task option \<Rightarrow> workflow_task result" where
  "scanWorkflowTask db row =
     (case row of
        None \<Rightarrow> Err ErrNoRows
      | Some t \<Rightarrow>
          (case (find_row wf_ID (tk_WorkflowID t) (wf_runs (td_wf db)), joined_artifact db (tk_RequestArtifact t)) of
             (Some run, Some a) \<Rightarrow>
               Ok (t\<lparr>tk_ProjectID := wf_ProjectID run, tk_RequestArtifact := a,
                     tk_LookupArtifact := (case tk_LookupArtifact t of None \<Rightarrow> None | Some l \<Rightarrow> joined_artifact db l)\<rparr>)
           | _ \<Rightarrow> Err ErrNoRows))"

definition getWorkflowTask :: "task_db \<Rightarrow> string \<Rightarrow> workflow_task result" where
  "getWorkflowTask db tid =
     (case scanWorkflowTask db (find_row tk_ID tid (td_tasks db)) of
        Inl _ \<Rightarrow> Err (ErrMessage ''workflow task not found'') | Inr t \<Rightarrow> Ok t)"

definition repo_GetWorkflowTaskByCandidate :: "task_db \<Rightarrow> string \<Rightarrow> workflow_task result" where
  "repo_GetWorkflowTaskByCandidate db cid =
     (case scanWorkflowTask db (find (\<lambda>t. tk_CandidateID t \<noteq> [] \<and> tk_CandidateID t = cid) (td_tasks db)) of
        Inl _ \<Rightarrow> Err (ErrMessage ''workflow task for candidate not found'') | Inr t \<Rightarrow> Ok t)"

definition scanWorkflowTaskEvent :: "task_db \<Rightarrow> task_event \<Rightarrow> task_event" where
  "scanWorkflowTaskEvent db e =
     e\<lparr>te_EvidenceArtifact := (case te_EvidenceArtifact e of None \<Rightarrow> None | Some a \<Rightarrow> joined_artifact db a)\<rparr>"

text \<open>A task that holds the queue of its workflow: it left the queue and is not done.\<close>

definition task_active :: "workflow_task \<Rightarrow> bool" where
  "task_active t \<longleftrightarrow> tk_State t \<notin> set [''queued'', ''completed'', ''rejected'']"

definition queue_head :: "workflow_task list \<Rightarrow> string \<Rightarrow> workflow_task option" where
  "queue_head tasks wid =
     (case sort_key tk_Ordinal (filter (\<lambda>t. tk_WorkflowID t = wid \<and> tk_State t = ''queued'') tasks) of
        [] \<Rightarrow> None
      | t # _ \<Rightarrow> if list_ex (\<lambda>a. tk_WorkflowID a = wid \<and> task_active a) tasks then None else Some t)"

definition GetActivatableWorkflowTask :: "task_db \<Rightarrow> string \<Rightarrow> workflow_task option" where
  "GetActivatableWorkflowTask db wid =
     (case scanWorkflowTask db (queue_head (td_tasks db) wid) of Inl _ \<Rightarrow> None | Inr t \<Rightarrow> Some t)"

definition add_artifact :: "artifact option \<Rightarrow> task_db \<Rightarrow> task_db" where
  "add_artifact a db =
     (case a of None \<Rightarrow> db | Some x \<Rightarrow> db\<lparr>td_wf := (td_wf db)\<lparr>wf_artifacts := insert_artifact x (wf_artifacts (td_wf db))\<rparr>\<rparr>)"

definition next_ordinal :: "workflow_task list \<Rightarrow> string \<Rightarrow> int" where
  "next_ordinal tasks wid = foldr (\<lambda>t n. max (tk_Ordinal t) n) (filter (\<lambda>t. tk_WorkflowID t = wid) tasks) 0 + 1"

definition inserted_task :: "call_env \<Rightarrow> workflow_task \<Rightarrow> int \<Rightarrow> workflow_task" where
  "inserted_task env t n =
     t\<lparr>tk_Ordinal := n, tk_Version := 1, tk_ReviewInfluenceWeight := float_zero, tk_CandidateID := [], tk_LocalProvider := [], tk_LocalModel := [],
       tk_CloudProvider := [], tk_CloudModel := [], tk_LookupArtifact := None, tk_CreatedAt := env_db_now env, tk_UpdatedAt := env_db_now env,
       tk_CompletedAt := None\<rparr>"

definition inserted_task_event :: "call_env \<Rightarrow> workflow_task \<Rightarrow> task_event \<Rightarrow> task_event" where
  "inserted_task_event env t event =
     event\<lparr>te_TaskID := tk_ID t, te_Sequence := 1, te_EvidenceArtifact := Some (tk_RequestArtifact t), te_CreatedAt := env_db_now env\<rparr>"

definition same_task_request :: "workflow_task \<Rightarrow> workflow_task \<Rightarrow> bool" where
  "same_task_request a b \<longleftrightarrow> tk_Title a = tk_Title b \<and> tk_TaskType a = tk_TaskType b \<and> tk_RAGQuery a = tk_RAGQuery b
     \<and> tk_ExecutionMode a = tk_ExecutionMode b \<and> f_Value (tk_MatchThreshold a) = f_Value (tk_MatchThreshold b)"

definition CreateWorkflowTask ::
  "call_env \<Rightarrow> task_db \<Rightarrow> workflow_task \<Rightarrow> task_event \<Rightarrow> (workflow_task \<times> task_event) result \<times> task_db" where
  "CreateWorkflowTask env db task event =
     (if find_row wf_ID (tk_WorkflowID task) (wf_runs (td_wf db)) = None then (Err (ErrMessage ''workflow not found''), db)
      else case scanWorkflowTask db (find (\<lambda>t. tk_WorkflowID t = tk_WorkflowID task \<and> tk_TaskKey t = tk_TaskKey task) (td_tasks db)) of
        Inr old \<Rightarrow>
          if \<not> same_task_request old task then (Err (ErrMessage ''workflow task key was reused with a different payload''), db)
          else (case find (\<lambda>e. te_TaskID e = tk_ID old \<and> te_Sequence e = 1) (td_events db) of
              None \<Rightarrow> (Err ErrNoRows, db) | Some e \<Rightarrow> (Ok (old, scanWorkflowTaskEvent db e), db))
      | Inl _ \<Rightarrow>
          if find_row tk_ID (tk_ID task) (td_tasks db) \<noteq> None \<or> find_row te_ID (te_ID event) (td_events db) \<noteq> None
             \<or> list_ex (\<lambda>t. tk_WorkflowID t = tk_WorkflowID task \<and> tk_TaskKey t = tk_TaskKey task) (td_tasks db)
            then (Err ErrDatabase, db)
          else
            let db1 = add_artifact (Some (tk_RequestArtifact task)) db;
                db' = db1\<lparr>td_tasks := td_tasks db @ [inserted_task env task (next_ordinal (td_tasks db) (tk_WorkflowID task))],
                          td_events := td_events db @ [inserted_task_event env task event]\<rparr>
            in (case getWorkflowTask db' (tk_ID task) of
                  Inl e \<Rightarrow> (Err e, db)
                | Inr created \<Rightarrow> (Ok (created, event\<lparr>te_Sequence := 1, te_EvidenceArtifact := Some (tk_RequestArtifact created)\<rparr>), db')))"

subsection \<open>Validated and used knowledge\<close>

text \<open>The validation an executed report stands for, still in force for the candidate's current version.\<close>

definition source_current :: "int \<Rightarrow> knowledge_db \<Rightarrow> quality_policy_row \<Rightarrow> knowledge_validation_row \<Rightarrow> knowledge_source_row option" where
  "source_current now db p v =
     (case find_row ks_ValidationID (kv_ID v) (k_sources db) of
        None \<Rightarrow> None
      | Some s \<Rightarrow> if ks_Valid s \<and> ks_ManifestSHA256 s = kv_SourceManifestSHA256 v \<and> now < ks_VerifiedAt s + qp_SourceMaxAge p then Some s else None)"

definition payload_text :: "(string \<times> json) list \<Rightarrow> string \<Rightarrow> string" where
  "payload_text payload key = (case map_of payload key of Some (JString s) \<Rightarrow> s | _ \<Rightarrow> [])"

definition recordTaskLocalValidation :: "call_env \<Rightarrow> task_db \<Rightarrow> workflow_task \<Rightarrow> task_event \<Rightarrow> task_db result" where
  "recordTaskLocalValidation env db task event =
     (let validation = payload_text (te_Payload event) ''validation_id''; now = env_db_now env; kdb = td_k db in
      if validation = [] then Err ErrValidationRequired
      else case find_row kv_ID validation (k_validations kdb) of
        None \<Rightarrow> Err ErrValidationRequired
      | Some v \<Rightarrow>
          (case find_row ki_ID (kv_KnowledgeID v) (k_items kdb) of
             None \<Rightarrow> Err ErrValidationRequired
           | Some k \<Rightarrow>
               (case knowledge_quality_policy now kdb (ki_ProjectID k) DataProductKnowledge (TaskPurpose (tk_TaskType task)) of
                  None \<Rightarrow> Err ErrValidationRequired
                | Some p \<Rightarrow>
                    if kv_KnowledgeID v = tk_CandidateID task \<and> kv_ProjectID v = tk_ProjectID task \<and> kv_Method v = ''workpacket'' \<and> kv_Verdict v = ''pass''
                       \<and> kv_CandidateVersion v = ki_Version k \<and> kv_ContentSHA256 v = Digest (ki_Content k) \<and> now < kv_ValidUntil v
                       \<and> kv_CompletedAt v \<le> now \<and> now < kv_CompletedAt v + qp_PatchMaxAge p \<and> source_current now kdb p v \<noteq> None
                    then Ok (if list_ex (\<lambda>r. tv_TaskID r = tk_ID task \<and> tv_ValidationID r = validation) (td_validated db) then db
                         else db\<lparr>td_validated := td_validated db
                           @ [\<lparr>tv_TaskID = tk_ID task, tv_ValidationID = validation, tv_CandidateVersion = kv_CandidateVersion v\<rparr>]\<rparr>)
                    else Err ErrValidationRequired)))"

definition used_invalid :: "int \<Rightarrow> task_db \<Rightarrow> workflow_task \<Rightarrow> used_context_row \<Rightarrow> bool" where
  "used_invalid now db task u \<longleftrightarrow>
     (case find_row ki_ID (uc_KnowledgeID u) (k_items (td_k db)) of
        None \<Rightarrow> False
      | Some k \<Rightarrow>
          ki_ProjectID k \<noteq> tk_ProjectID task \<or> ki_Version k \<noteq> uc_Version u \<or> kr_Approval k \<noteq> Some (ur_ValidationID u)
          \<or> (case approval_validation (td_k db) k of None \<Rightarrow> True | Some v \<Rightarrow> kv_SourceManifestSHA256 v \<noteq> ur_SourceManifestSHA256 u)
          \<or> uc_TargetRepository u = [] \<or> \<not> knowledge_eligible now (td_k db) k ''code_change'')"

definition used_rows :: "task_db \<Rightarrow> workflow_task \<Rightarrow> used_context_row list" where
  "used_rows db task =
     filter (\<lambda>u. ur_TaskID u = tk_ID task \<and> find_row ki_ID (uc_KnowledgeID u) (k_items (td_k db)) \<noteq> None) (td_used db)"

definition task_validated :: "int \<Rightarrow> task_db \<Rightarrow> workflow_task \<Rightarrow> bool" where
  "task_validated now db task \<longleftrightarrow>
     list_ex (\<lambda>l. tv_TaskID l = tk_ID task \<and>
       (case find_row kv_ID (tv_ValidationID l) (k_validations (td_k db)) of
          None \<Rightarrow> False
        | Some v \<Rightarrow>
            (case find_row ki_ID (kv_KnowledgeID v) (k_items (td_k db)) of
               None \<Rightarrow> False
             | Some k \<Rightarrow>
                 (case knowledge_quality_policy now (td_k db) (ki_ProjectID k) DataProductKnowledge (TaskPurpose (tk_TaskType task)) of
                    None \<Rightarrow> False
                  | Some p \<Rightarrow>
                      kv_KnowledgeID v = tk_CandidateID task \<and> kv_Method v = ''workpacket'' \<and> kv_Verdict v = ''pass''
                      \<and> kv_CandidateVersion v = ki_Version k \<and> now < kv_ValidUntil v \<and> now < kv_CompletedAt v + qp_PatchMaxAge p
                      \<and> (case source_current now (td_k db) p v of None \<Rightarrow> False | Some s \<Rightarrow> ks_VerifiedAt s \<le> now))))) (td_validated db)"

definition verifyTaskContextCompletion :: "call_env \<Rightarrow> task_db \<Rightarrow> workflow_task \<Rightarrow> bool \<Rightarrow> go_error option" where
  "verifyTaskContextCompletion env db task requireUse =
     (if list_ex (used_invalid (env_db_now env) db task) (used_rows db task) \<or> requireUse \<and> used_rows db task = [] then Some ErrQualityBlocked
      else if \<not> task_validated (env_db_now env) db task then Some ErrValidationRequired
      else None)"

definition task_actor :: "call_env \<Rightarrow> task_db \<Rightarrow> string \<Rightarrow> string \<Rightarrow> bool" where
  "task_actor env db actor project \<longleftrightarrow>
     list_ex (\<lambda>p. pr_ID p = actor \<and> pr_Active p) (td_principals db)
     \<and> list_ex (\<lambda>b. rb_Principal b = actor \<and> rb_Project b \<in> set [''*'', project] \<and> rb_Role b \<in> set [''controller'', ''development'']
          \<and> role_live (env_db_now env) b) (td_roles db)"

definition used_row :: "workflow_task \<Rightarrow> used_context \<Rightarrow> knowledge_validation_row \<Rightarrow> string \<Rightarrow> string \<Rightarrow> used_context_row" where
  "used_row task u v actor key =
     used_context.extend u \<lparr>ur_TaskID = tk_ID task, ur_ValidationID = kv_ID v, ur_SourceManifestSHA256 = kv_SourceManifestSHA256 v, ur_Actor = actor,
       ur_IdempotencyKey = key\<rparr>"

fun record_uses :: "call_env \<Rightarrow> workflow_task \<Rightarrow> string \<Rightarrow> string \<Rightarrow> task_db \<Rightarrow> string list \<Rightarrow> used_context list \<Rightarrow> task_db result" where
  "record_uses env task actor key db seen [] = Ok db"
| "record_uses env task actor key db seen (u # us) =
     (if uc_KnowledgeID u \<in> set seen then Err ErrVersionConflict
      else
        let purpose = (if uc_TargetRepository u \<noteq> [] then ''code_change'' else TaskPurpose (tk_TaskType task)) in
        (case find (\<lambda>k. ki_ID k = uc_KnowledgeID u \<and> ki_ProjectID k = tk_ProjectID task \<and> ki_Version k = uc_Version u
                    \<and> knowledge_eligible (env_db_now env) (td_k db) k purpose) (k_items (td_k db)) of
           None \<Rightarrow> Err ErrQualityBlocked
         | Some k \<Rightarrow>
             (case approval_validation (td_k db) k of
                None \<Rightarrow> Err ErrQualityBlocked
              | Some v \<Rightarrow>
                  let row = used_row task u v actor key in
                  (case find (\<lambda>r. ur_TaskID r = tk_ID task \<and> uc_KnowledgeID r = uc_KnowledgeID u) (td_used db) of
                     None \<Rightarrow> record_uses env task actor key (db\<lparr>td_used := td_used db @ [row]\<rparr>) (uc_KnowledgeID u # seen) us
                   | Some old \<Rightarrow>
                       if old \<noteq> row then Err ErrVersionConflict else record_uses env task actor key db (uc_KnowledgeID u # seen) us))))"

definition repo_RecordTaskContext ::
  "call_env \<Rightarrow> task_db \<Rightarrow> string \<Rightarrow> int \<Rightarrow> used_context list \<Rightarrow> string \<Rightarrow> string \<Rightarrow> unit result \<times> task_db" where
  "repo_RecordTaskContext env db tid version uses actor key =
     (if uses = [] \<or> length uses > 50 \<or> key = [] then (Err ErrValidationRequired, db)
      else case getWorkflowTask db tid of
        Inl e \<Rightarrow> (Err e, db)
      | Inr task \<Rightarrow>
          if tk_Version task \<noteq> version \<or> tk_State task \<noteq> ''local_execution'' then (Err ErrVersionConflict, db)
          else if \<not> task_actor env db actor (tk_ProjectID task) then (Err ErrValidationRequired, db)
          else (case record_uses env task actor key db [] uses of Inl e \<Rightarrow> (Err e, db) | Inr db' \<Rightarrow> (Ok (), db')))"

definition TaskUsedContexts :: "task_db \<Rightarrow> string \<Rightarrow> used_context list" where
  "TaskUsedContexts db tid =
     map (\<lambda>r. used_context.truncate r) (sort_key uc_KnowledgeID (filter (\<lambda>r. ur_TaskID r = tid) (td_used db)))"

subsection \<open>Transitions\<close>

definition overwrite :: "string \<Rightarrow> string \<Rightarrow> string" where
  "overwrite new old = (if new \<noteq> [] then new else old)"

definition moved_task :: "call_env \<Rightarrow> task_transition \<Rightarrow> workflow_task \<Rightarrow> workflow_task" where
  "moved_task env t task =
     task\<lparr>tk_State := tt_ResultingState t, tk_Version := tk_Version task + 1, tk_UpdatedAt := env_db_now env,
       tk_CandidateID := overwrite (tt_CandidateID t) (tk_CandidateID task),
       tk_LocalProvider := overwrite (tt_LocalProvider t) (tk_LocalProvider task), tk_LocalModel := overwrite (tt_LocalModel t) (tk_LocalModel task),
       tk_CloudProvider := overwrite (tt_CloudProvider t) (tk_CloudProvider task), tk_CloudModel := overwrite (tt_CloudModel t) (tk_CloudModel task),
       tk_ReviewInfluenceWeight := (if f_Value (tk_ReviewInfluenceWeight task) < f_Value (tt_InfluenceWeight t) then tt_InfluenceWeight t
                                    else tk_ReviewInfluenceWeight task),
       tk_Route := overwrite (tt_RAGRoute t) (tk_Route task), tk_RAGBackend := overwrite (tt_RAGBackend t) (tk_RAGBackend task),
       tk_RAGHitIDs := (if tt_RAGBackend t \<noteq> [] then tt_RAGHitIDs t else tk_RAGHitIDs task),
       tk_RAGMaxScore := (if tt_RAGBackend t \<noteq> [] then tt_RAGMaxScore t else tk_RAGMaxScore task),
       tk_LookupArtifact := (case tt_LookupArtifact t of None \<Rightarrow> tk_LookupArtifact task | Some a \<Rightarrow> Some a),
       tk_CompletedAt := (if tt_Completed t then Some (env_clock env 0) else tk_CompletedAt task)\<rparr>"

definition logged_task_event :: "call_env \<Rightarrow> task_transition \<Rightarrow> workflow_task \<Rightarrow> task_event" where
  "logged_task_event env t task =
     (tt_Event t)\<lparr>te_TaskID := tt_TaskID t, te_Sequence := tk_Version task + 1, te_FromState := tt_ExpectedState t,
       te_ToState := tt_ResultingState t, te_CreatedAt := env_db_now env\<rparr>"

text \<open>The evidence a transition has to bring before the row is updated.\<close>

definition completion_evidence :: "call_env \<Rightarrow> task_db \<Rightarrow> workflow_task \<Rightarrow> task_transition \<Rightarrow> task_db result" where
  "completion_evidence env db task t =
     (case (if te_EventType (tt_Event t) \<in> set [''VALIDATION_PASSED'', ''VALIDATED_REUSE_COMPLETED'']
            then recordTaskLocalValidation env db task (tt_Event t) else Ok db) of
        Inl e \<Rightarrow> Err e
      | Inr db1 \<Rightarrow>
          (case (if tt_ResultingState t = ''completed''
                 then verifyTaskContextCompletion env db1 task (te_EventType (tt_Event t) = ''VALIDATED_REUSE_COMPLETED'') else None) of
             Some e \<Rightarrow> Err e | None \<Rightarrow> Ok db1))"

definition repo_TransitionWorkflowTask ::
  "call_env \<Rightarrow> task_db \<Rightarrow> task_transition \<Rightarrow> (workflow_task \<times> task_event) result \<times> task_db" where
  "repo_TransitionWorkflowTask env db t =
     (case find (\<lambda>e. te_TaskID e = tt_TaskID t \<and> te_IdempotencyKey e = te_IdempotencyKey (tt_Event t)) (td_events db) of
        Some old \<Rightarrow>
          if te_EventType old \<noteq> te_EventType (tt_Event t) \<or> te_ToState old \<noteq> tt_ResultingState t
            then (Err (ErrMessage ''workflow task idempotency key was reused with a different transition''), db)
          else (case getWorkflowTask db (tt_TaskID t) of Inl e \<Rightarrow> (Err e, db) | Inr task \<Rightarrow> (Ok (task, scanWorkflowTaskEvent db old), db))
      | None \<Rightarrow>
          (case getWorkflowTask db (tt_TaskID t) of
             Inl e \<Rightarrow> (Err e, db)
           | Inr task \<Rightarrow>
               if tk_Version task \<noteq> tt_ExpectedVersion t \<or> tk_State task \<noteq> tt_ExpectedState t
                 then (Err (ErrMessage ''workflow task conflict''), db)
               else
                 let db1 = add_artifact (tt_LookupArtifact t) (add_artifact (te_EvidenceArtifact (tt_Event t)) db) in
                 (case completion_evidence env db1 task t of
                    Inl e \<Rightarrow> (Err e, db)
                  | Inr db2 \<Rightarrow>
                      (case find_row tk_ID (tt_TaskID t) (td_tasks db) of
                         None \<Rightarrow> (Err ErrNoRows, db)
                       | Some row \<Rightarrow>
                           let row' = moved_task env t row; ev = logged_task_event env t task in
                           if tk_CandidateID row' \<noteq> []
                              \<and> list_ex (\<lambda>x. tk_ID x \<noteq> tk_ID row \<and> tk_CandidateID x = tk_CandidateID row') (td_tasks db)
                             then (Err ErrDatabase, db)
                           else if find_row te_ID (te_ID ev) (td_events db) \<noteq> None
                              \<or> list_ex (\<lambda>e. te_TaskID e = tt_TaskID t \<and> te_Sequence e = te_Sequence ev) (td_events db)
                             then (Err ErrDatabase, db)
                           else
                             let db' = db2\<lparr>td_tasks := put_row tk_ID row' (td_tasks db), td_events := td_events db @ [ev]\<rparr>
                             in (case getWorkflowTask db' (tt_TaskID t) of
                                   Inl e \<Rightarrow> (Err e, db) | Inr updated \<Rightarrow> (Ok (updated, ev), db'))))))"

end
