(* ===== verification/TaskService.thy ===== *)
theory TaskService
  imports TaskStore
begin

text \<open>
  The service in front of the task store (\<open>src/internal/service/taskcheckpoint.go\<close>): the transition table of a task, the route a task takes
  after retrieval, submission to the queue, transitions with their evidence, and the activation of the queue head. The retrieval of
  knowledge is a parameter. A service call reads earlier database states than the one it commits in; what Go returns beside an
  error is not modelled.
\<close>

section \<open>The transition table\<close>

record task_spec =
  ts_to :: string
  ts_roles :: "string list"
  ts_provider :: string
  ts_evidenceRequired :: bool
  ts_completed :: bool

definition tspec :: "string \<Rightarrow> string list \<Rightarrow> task_spec" where
  "tspec to_state roles = \<lparr>ts_to = to_state, ts_roles = roles, ts_provider = [], ts_evidenceRequired = False, ts_completed = False\<rparr>"

text \<open>Most transitions are made with evidence, by a local model where the provider is named.\<close>

definition evidenced :: "string \<Rightarrow> string list \<Rightarrow> string \<Rightarrow> task_spec" where
  "evidenced to_state roles provider = (tspec to_state roles)\<lparr>ts_provider := provider, ts_evidenceRequired := True\<rparr>"

definition workflowTaskTransition :: "workflow_task \<Rightarrow> string \<Rightarrow> task_spec option" where
  "workflowTaskTransition task event =
     (let state = tk_State task; developers = [''development'', ''controller'']; testers = [''development'', ''qa'', ''controller''] in
      if state = ''queued'' then
        if event = ''TASK_ACTIVATED'' then Some (tspec ''local_execution'' developers)
        else if event = ''TASK_REJECTED'' then Some ((evidenced ''rejected'' [''product_owner'', ''operations''] [])\<lparr>ts_completed := True\<rparr>)
        else None
      else if state = ''local_execution'' then
        if event = ''LOCAL_RESULT_RECORDED'' then
          Some (evidenced (if tk_Route task = ''rag_miss_cloud_review''
                           then if tk_ExecutionMode task = ''manual'' then ''review_approval_required'' else ''cloud_review_required''
                           else ''validation_required'') developers ''ollama'')
        else None
      else if state = ''review_approval_required'' then
        if event = ''CLOUD_REVIEW_APPROVED'' then Some (evidenced ''cloud_review_required'' [''product_owner''] [])
        else if event = ''CLOUD_REVIEW_REJECTED'' then Some (evidenced ''blocked'' [''product_owner''] [])
        else None
      else if state = ''cloud_review_required'' then
        if event = ''CLOUD_REVIEW_RECORDED'' then Some (evidenced ''local_revision_required'' [''cloud_reviewer'', ''development'', ''controller''] ''openai'')
        else None
      else if state = ''local_revision_required'' then
        if event = ''LOCAL_REVISION_RECORDED'' then Some (evidenced ''validation_required'' developers ''ollama'') else None
      else if state = ''validation_required'' then
        if event = ''VALIDATED_REUSE_COMPLETED'' then Some ((evidenced ''completed'' testers ''ollama'')\<lparr>ts_completed := True\<rparr>)
        else if event = ''VALIDATION_PASSED'' then Some (evidenced ''promotion_required'' testers ''ollama'')
        else if event = ''VALIDATION_FAILED'' then Some (evidenced ''local_revision_required'' testers ''ollama'')
        else None
      else if state = ''promotion_required'' then
        if event = ''LEARNING_PROMOTED'' then Some (evidenced ''rag_readback_required'' [''product_owner''] []) else None
      else if state = ''rag_readback_required'' then
        if event = ''RAG_READBACK_VERIFIED'' then Some ((tspec ''completed'' developers)\<lparr>ts_completed := True\<rparr>) else None
      else None)"

definition taskRoute :: "workflow_run \<Rightarrow> string \<Rightarrow> bool \<Rightarrow> string \<Rightarrow> string" where
  "taskRoute run backend strongHit taskType =
     (if backend = ''milvus'' \<and> strongHit then ''rag_hit''
      else if wf_Kind run = ''software-development'' \<and> taskType \<noteq> ''maintenance''
         \<and> (wf_DataClassification run = ''public'' \<or> wf_DataClassification run = ''internal'') then ''rag_miss_cloud_review''
      else ''rag_miss_local_only'')"

text \<open>The service knows the policy decision point and the retrieval of knowledge for a purpose, a project, a query and a limit.\<close>

record task_service =
  tsv_Authorizer :: authorizer
  tsv_Search :: "task_db \<Rightarrow> string \<Rightarrow> string \<Rightarrow> string \<Rightarrow> int \<Rightarrow> (search_hit list \<times> string) result"

record task_transition_input =
  tx_TaskID :: string
  tx_ExpectedVersion :: int
  tx_EventType :: string
  tx_IdempotencyKey :: string
  tx_Provider :: string
  tx_Model :: string
  tx_CandidateID :: string
  tx_Evidence :: string
  tx_ReviewInfluenceWeight :: float32
  tx_Payload :: "(string \<times> json) list"

definition normalized_transition :: "task_transition_input \<Rightarrow> task_transition_input" where
  "normalized_transition i =
     i\<lparr>tx_TaskID := trim_space (tx_TaskID i), tx_EventType := to_upper (trim_space (tx_EventType i)),
       tx_IdempotencyKey := trim_space (tx_IdempotencyKey i), tx_Provider := to_lower (trim_space (tx_Provider i)), tx_Model := trim_space (tx_Model i),
       tx_CandidateID := trim_space (tx_CandidateID i), tx_Evidence := trim_space (tx_Evidence i)\<rparr>"

subsection \<open>Activation\<close>

record task_lookup =
  lk_Route :: string
  lk_Backend :: string
  lk_HitIDs :: "string list"
  lk_MaxScore :: float32
  lk_Artifact :: "artifact option"

definition no_lookup :: task_lookup where
  "no_lookup = \<lparr>lk_Route = [], lk_Backend = [], lk_HitIDs = [], lk_MaxScore = float_zero, lk_Artifact = None\<rparr>"

definition max_score :: "search_hit list \<Rightarrow> float32" where
  "max_score hits = fold (\<lambda>h best. if f_Value best < f_Value (sh_Score h) then sh_Score h else best) hits float_zero"

definition hits_marshal :: "search_hit list \<Rightarrow> bool" where
  "hits_marshal hits \<longleftrightarrow> list_all (\<lambda>h. time_marshals (ki_CreatedAt h) \<and> time_marshals (ki_ApprovedAt h)) hits"

definition lookup_text :: "workflow_run \<Rightarrow> workflow_task \<Rightarrow> search_hit list \<Rightarrow> string \<Rightarrow> string \<Rightarrow> string" where
  "lookup_text run task hits backend route = print_json (json_map
     [(''workflow_id'', JString (wf_ID run)), (''project_id'', JString (wf_ProjectID run)), (''task_id'', JString (tk_ID task)),
      (''query'', JString (tk_RAGQuery task)), (''backend'', JString backend), (''match_threshold'', JNumber (f_Text (tk_MatchThreshold task))),
      (''route'', JString route), (''results'', JArray (map json_hit hits))])"

text \<open>The route of the queue head from what retrieval finds for it, with the evidence of the lookup.\<close>

definition lookup_route ::
  "task_service \<Rightarrow> local_store \<Rightarrow> task_db \<Rightarrow> workflow_run \<Rightarrow> workflow_task \<Rightarrow> (task_lookup \<times> string \<times> (string \<times> json) list) result \<times> local_store" where
  "lookup_route svc st looked run task =
     (if (case GetActivatableWorkflowTask looked (tk_WorkflowID task) of None \<Rightarrow> True | Some head \<Rightarrow> tk_ID head \<noteq> tk_ID task) then (Err ErrInvalidInput, st)
      else case tsv_Search svc looked (TaskPurpose (tk_TaskType task)) (wf_ProjectID run) (tk_RAGQuery task) 10 of
        Inl e \<Rightarrow> (Err e, st)
      | Inr (hits, backend) \<Rightarrow>
          let best = max_score hits;
              route = taskRoute run backend (hits \<noteq> [] \<and> f_Value (tk_MatchThreshold task) \<le> f_Value best) (tk_TaskType task);
              text = lookup_text run task hits backend route
          in if \<not> hits_marshal hits then (Err (ErrMessage ''json: error calling MarshalJSON for type time.Time''), st)
             else (case Put st text ''application/json'' of
                 (Inl e, st') \<Rightarrow> (Err e, st')
               | (Inr a, st') \<Rightarrow>
                   (Ok (\<lparr>lk_Route = route, lk_Backend = backend, lk_HitIDs = map ki_ID hits, lk_MaxScore = best, lk_Artifact = Some a\<rparr>, text,
                        [(''route'', JString route), (''rag_backend'', JString backend), (''rag_hit_ids'', json_strings (map ki_ID hits)),
                         (''rag_max_score'', JNumber (f_Text best))]), st')))"

subsection \<open>Transitions\<close>

definition payloadString :: "(string \<times> json) list \<Rightarrow> string \<Rightarrow> string" where
  "payloadString payload key = trim_space (payload_text payload key)"

text \<open>\<open>float32(0.8)\<close>.\<close>

definition default_influence :: float32 where
  "default_influence = \<lparr>f_Value = 13421773 / 16777216, f_Text = ''0.8''\<rparr>"

definition candidate_of :: "task_db \<Rightarrow> workflow_task \<Rightarrow> task_transition_input \<Rightarrow> (string \<times> knowledge_row option) result" where
  "candidate_of seen task i =
     (let cid = (if tx_EventType i = ''LOCAL_RESULT_RECORDED'' then tx_CandidateID i else tk_CandidateID task) in
      if tx_EventType i = ''LOCAL_RESULT_RECORDED'' \<and> cid = [] then Err ErrInvalidInput
      else if cid = [] then Ok ([], None)
      else case GetKnowledge (td_k seen) cid of
        Inl e \<Rightarrow> Err e
      | Inr k \<Rightarrow> if ki_WorkflowID k \<noteq> tk_WorkflowID task \<or> ki_ProjectID k \<noteq> tk_ProjectID task then Err ErrInvalidInput else Ok (cid, Some k))"

text \<open>The conditions an event puts on the candidate; a task without one is held against the zero item.\<close>

definition candidate_status :: "knowledge_row option \<Rightarrow> string" where
  "candidate_status k = (case k of None \<Rightarrow> [] | Some x \<Rightarrow> ki_Status x)"

definition candidate_version :: "knowledge_row option \<Rightarrow> int" where
  "candidate_version k = (case k of None \<Rightarrow> 0 | Some x \<Rightarrow> ki_Version x)"

definition check_candidate ::
  "task_db \<Rightarrow> workflow_task \<Rightarrow> task_transition_input \<Rightarrow> string \<Rightarrow> knowledge_row option \<Rightarrow> go_error option" where
  "check_candidate seen task i cid k =
     (let event = tx_EventType i; review = payloadString (tx_Payload i) ''review_artifact_sha256'';
          manifest = payloadString (tx_Payload i) ''context_manifest_artifact_sha256'' in
      if event = ''LOCAL_REVISION_RECORDED'' \<and> (candidate_status k \<noteq> ''pending'' \<or> candidate_version k < 2) then Some ErrInvalidInput
      else if event = ''CLOUD_REVIEW_RECORDED'' \<and> (cid = [] \<or> review = [] \<or> manifest = []) then Some ErrInvalidInput
      else if event = ''CLOUD_REVIEW_RECORDED''
         \<and> \<not> ReviewEvidenceExists (td_k seen) cid (tk_WorkflowID task) (tx_Provider i) (tx_Model i) review manifest then Some ErrInvalidInput
      else if event = ''VALIDATION_PASSED'' \<and> candidate_status k \<noteq> ''pending'' then Some ErrInvalidInput
      else if event = ''LEARNING_PROMOTED'' \<and> candidate_status k \<noteq> ''approved'' then Some ErrInvalidInput
      else None)"

text \<open>The read-back of a promoted candidate is its own evidence.\<close>

definition readback_evidence :: "task_service \<Rightarrow> task_db \<Rightarrow> workflow_task \<Rightarrow> string \<Rightarrow> string result" where
  "readback_evidence svc seen task evidence =
     (case tsv_Search svc seen (TaskPurpose (tk_TaskType task)) (tk_ProjectID task) (tk_RAGQuery task) 25 of
        Inl e \<Rightarrow> Err e
      | Inr (hits, backend) \<Rightarrow>
          if backend \<noteq> ''milvus'' \<or> \<not> list_ex (\<lambda>h. ki_ID h = tk_CandidateID task) hits
            then Err (ErrMessage ''RAG read-back failed closed: promoted candidate is not retrievable from Milvus'')
          else if \<not> hits_marshal hits then Err (ErrMessage ''json: error calling MarshalJSON for type time.Time'')
          else Ok (print_json (json_map [(''backend'', JString backend), (''candidate_id'', JString (tk_CandidateID task)),
                  (''results'', JArray (map json_hit hits))])))"

definition checked_task_spec :: "principal \<Rightarrow> workflow_run \<Rightarrow> workflow_task \<Rightarrow> task_transition_input \<Rightarrow> (task_spec \<times> string) result" where
  "checked_task_spec p run task i =
     (case workflowTaskTransition task (tx_EventType i) of
        None \<Rightarrow> Err ErrInvalidInput
      | Some sp \<Rightarrow>
          (case selectRole p (wf_ProjectID run) (ts_roles sp) of
             None \<Rightarrow> Err ErrForbidden
           | Some role \<Rightarrow>
               if ts_provider sp \<noteq> [] \<and> (tx_Provider i \<noteq> ts_provider sp \<or> tx_Model i = []) then Err ErrInvalidInput
               else if ts_evidenceRequired sp \<and> tx_Evidence i = [] then Err ErrInvalidInput
               else if f_Value (tx_ReviewInfluenceWeight i) < 0 \<or> 1 < f_Value (tx_ReviewInfluenceWeight i) then Err ErrInvalidInput
               else Ok (sp, role)))"

definition proposed_task_event ::
  "call_env \<Rightarrow> principal \<Rightarrow> workflow_task \<Rightarrow> task_transition_input \<Rightarrow> task_spec \<Rightarrow> string \<Rightarrow> artifact option \<Rightarrow> authorization_decision \<Rightarrow> task_event" where
  "proposed_task_event env p task i sp role a decision =
     \<lparr>te_ID = env_id env 0, te_TaskID = tk_ID task, te_Sequence = 0, te_EventType = tx_EventType i, te_FromState = tk_State task,
      te_ToState = ts_to sp, te_ActorPrincipalID = p_ID p, te_ActorRole = role, te_Provider = tx_Provider i, te_Model = tx_Model i,
      te_IdempotencyKey = tx_IdempotencyKey i, te_Payload = tx_Payload i, te_EvidenceArtifact = a, te_AuthorizationDecision = ''allow'',
      te_CerbosCallID = dec_CallID decision, te_PolicyVersion = dec_PolicyVersion decision, te_CreatedAt = 0\<rparr>"

definition proposed_task_transition ::
  "call_env \<Rightarrow> principal \<Rightarrow> workflow_task \<Rightarrow> task_transition_input \<Rightarrow> task_spec \<Rightarrow> string \<Rightarrow> artifact option \<Rightarrow> authorization_decision
     \<Rightarrow> string \<Rightarrow> task_lookup \<Rightarrow> task_transition" where
  "proposed_task_transition env p task i sp role a decision cid lookup =
     \<lparr>tt_TaskID = tk_ID task, tt_ExpectedVersion = tx_ExpectedVersion i, tt_ExpectedState = tk_State task, tt_ResultingState = ts_to sp,
      tt_CandidateID = cid,
      tt_LocalProvider = (if tx_Provider i = ''ollama'' then tx_Provider i else []), tt_LocalModel = (if tx_Provider i = ''ollama'' then tx_Model i else []),
      tt_CloudProvider = (if tx_Provider i = ''openai'' then tx_Provider i else []), tt_CloudModel = (if tx_Provider i = ''openai'' then tx_Model i else []),
      tt_InfluenceWeight = tx_ReviewInfluenceWeight i, tt_RAGRoute = lk_Route lookup, tt_RAGBackend = lk_Backend lookup,
      tt_RAGHitIDs = lk_HitIDs lookup, tt_RAGMaxScore = lk_MaxScore lookup, tt_LookupArtifact = lk_Artifact lookup, tt_Completed = ts_completed sp,
      tt_Event = proposed_task_event env p task i sp role a decision\<rparr>"

text \<open>
  \<open>TransitionWorkflowTask\<close> up to its commit in \<open>db\<close>: the task and its run are read in the state \<open>seen\<close>, the queue head and retrieval are
  looked up in the state \<open>looked\<close>. The answer says whether the task is done.
\<close>

definition transition_task ::
  "task_service \<Rightarrow> call_env \<Rightarrow> local_store \<Rightarrow> task_db \<Rightarrow> task_db \<Rightarrow> task_db \<Rightarrow> task_transition_input
     \<Rightarrow> ((workflow_task \<times> task_event) \<times> bool) result \<times> local_store \<times> task_db" where
  "transition_task svc env st seen looked db i0 =
     (case RequirePrincipal (env_ctx env) of
        Inl e \<Rightarrow> (Err e, st, db)
      | Inr p \<Rightarrow>
          let i1 = normalized_transition i0 in
          if tx_TaskID i1 = [] \<or> tx_ExpectedVersion i1 < 1 \<or> tx_EventType i1 = [] \<or> tx_IdempotencyKey i1 = [] then (Err ErrInvalidInput, st, db)
          else (case getWorkflowTask seen (tx_TaskID i1) of
              Inl e \<Rightarrow> (Err e, st, db)
            | Inr task \<Rightarrow> (case getWorkflowByID (td_wf seen) (tk_WorkflowID task) of
                Inl e \<Rightarrow> (Err e, st, db)
              | Inr run \<Rightarrow> (case checked_task_spec p run task i1 of
                  Inl e \<Rightarrow> (Err e, st, db)
                | Inr (sp, role) \<Rightarrow>
                    (case (if tx_EventType i1 = ''TASK_ACTIVATED'' then lookup_route svc st looked run task
                           else (Ok (no_lookup, tx_Evidence i1, tx_Payload i1), st)) of
                       (Inl e, st1) \<Rightarrow> (Err e, st1, db)
                     | (Inr (lookup, evidence0, payload), st1) \<Rightarrow>
                         let i2 = i1\<lparr>tx_Evidence := evidence0, tx_Payload := payload\<rparr> in
                         (case candidate_of seen task i2 of
                            Inl e \<Rightarrow> (Err e, st1, db)
                          | Inr (cid, k) \<Rightarrow> (case check_candidate seen task i2 cid k of
                              Some e \<Rightarrow> (Err e, st1, db)
                            | None \<Rightarrow>
                                let i3 = (if tx_EventType i2 = ''CLOUD_REVIEW_RECORDED'' \<and> f_Value (tx_ReviewInfluenceWeight i2) = 0
                                          then i2\<lparr>tx_ReviewInfluenceWeight := default_influence\<rparr> else i2) in
                                (case (if tx_EventType i3 = ''RAG_READBACK_VERIFIED'' then readback_evidence svc looked task (tx_Evidence i3)
                                       else Ok (tx_Evidence i3)) of
                                   Inl e \<Rightarrow> (Err e, st1, db)
                                 | Inr evidence \<Rightarrow>
                                     (case authorizeUntraced (tsv_Authorizer svc)
                                             \<lparr>auth_Principal = p, auth_ResourceKind = ''workflow_run'', auth_ResourceID = wf_ID run, auth_Action = ''transition'',
                                              auth_Attributes = workflowAttributes run (tx_EventType i3)\<rparr> of
                                        Inl e \<Rightarrow> (Err e, st1, db)
                                      | Inr decision \<Rightarrow> (case put_evidence st1 evidence of
                                          (Inl e, st2) \<Rightarrow> (Err e, st2, db)
                                        | (Inr a, st2) \<Rightarrow>
                                            (case repo_TransitionWorkflowTask env db
                                                    (proposed_task_transition env p task i3 sp role a decision cid lookup) of
                                               (Inl e, db') \<Rightarrow> (Err e, st2, db')
                                             | (Inr out, db') \<Rightarrow> (Ok (out, ts_completed sp), st2, db'))))))))))))"

text \<open>
  \<open>activateWorkflowQueueHead\<close>, where \<open>between\<close> is what other calls make of the database between the reads of this one. The answer
  is the activated task, or none if there is nothing to activate or another call did it.
\<close>

definition activation_input :: "workflow_task \<Rightarrow> task_transition_input" where
  "activation_input head =
     \<lparr>tx_TaskID = tk_ID head, tx_ExpectedVersion = tk_Version head, tx_EventType = ''TASK_ACTIVATED'',
      tx_IdempotencyKey = tk_ID head @ '':activate:'' @ show_int (tk_Version head), tx_Provider = [], tx_Model = [], tx_CandidateID = [],
      tx_Evidence = [], tx_ReviewInfluenceWeight = float_zero, tx_Payload = []\<rparr>"

definition activateWorkflowQueueHead ::
  "task_service \<Rightarrow> call_env \<Rightarrow> local_store \<Rightarrow> (nat \<Rightarrow> task_db \<Rightarrow> task_db) \<Rightarrow> task_db \<Rightarrow> string
     \<Rightarrow> (workflow_task \<times> task_event) option result \<times> local_store \<times> task_db" where
  "activateWorkflowQueueHead svc env st between db wid =
     (let d0 = between 0 db in
      case GetActivatableWorkflowTask d0 wid of
        None \<Rightarrow> (Ok None, st, d0)
      | Some head \<Rightarrow>
          let d1 = between 1 d0; d2 = between 2 d1; d3 = between 3 d2 in
          (case transition_task svc env st d1 d2 d3 (activation_input head) of
             (Inr (out, _), st', db') \<Rightarrow> (Ok (Some out), st', db')
           | (Inl e, st', db') \<Rightarrow>
               let d4 = between 4 db' in
               (case getWorkflowTask d4 (tk_ID head) of
                  Inr current \<Rightarrow> if tk_State current \<noteq> ''queued'' then (Ok None, st', d4) else (Err e, st', d4)
                | Inl _ \<Rightarrow> (Err e, st', d4))))"

definition TransitionWorkflowTask ::
  "task_service \<Rightarrow> call_env \<Rightarrow> local_store \<Rightarrow> task_db \<Rightarrow> task_db \<Rightarrow> task_db \<Rightarrow> (nat \<Rightarrow> task_db \<Rightarrow> task_db) \<Rightarrow> task_transition_input
     \<Rightarrow> (workflow_task \<times> task_event) result \<times> local_store \<times> task_db" where
  "TransitionWorkflowTask svc env st seen looked db between i =
     (case transition_task svc env st seen looked db i of
        (Inl e, st', db') \<Rightarrow> (Err e, st', db')
      | (Inr (out, completed), st', db') \<Rightarrow>
          if \<not> completed then (Ok out, st', db')
          else (case activateWorkflowQueueHead svc (sub_env 1 env) st' between db' (tk_WorkflowID (fst out)) of
              (Inl e, st'', db'') \<Rightarrow> (Err e, st'', db'') | (Inr _, st'', db'') \<Rightarrow> (Ok out, st'', db'')))"

subsection \<open>Reads and submission\<close>

definition GetWorkflowTask :: "task_service \<Rightarrow> call_env \<Rightarrow> task_db \<Rightarrow> string \<Rightarrow> workflow_task result" where
  "GetWorkflowTask svc env db tid =
     (case RequirePrincipal (env_ctx env) of
        Inl e \<Rightarrow> Err e
      | Inr p \<Rightarrow> (case getWorkflowTask db (trim_space tid) of
          Inl e \<Rightarrow> Err e
        | Inr task \<Rightarrow> (case getWorkflowByID (td_wf db) (tk_WorkflowID task) of
            Inl e \<Rightarrow> Err e
          | Inr run \<Rightarrow>
              (case authorizeUntraced (tsv_Authorizer svc)
                      \<lparr>auth_Principal = p, auth_ResourceKind = ''workflow_run'', auth_ResourceID = wf_ID run, auth_Action = ''read'',
                       auth_Attributes = workflowAttributes run ''TASK_READ''\<rparr> of
                 Inl e \<Rightarrow> Err e | Inr _ \<Rightarrow> Ok task))))"

definition GetWorkflowTaskByCandidate :: "task_db \<Rightarrow> string \<Rightarrow> workflow_task result" where
  "GetWorkflowTaskByCandidate db cid = repo_GetWorkflowTaskByCandidate db (trim_space cid)"

record begin_task_input =
  bt_WorkflowID :: string
  bt_TaskKey :: string
  bt_Title :: string
  bt_TaskType :: string
  bt_ExecutionMode :: string
  bt_RAGQuery :: string
  bt_MatchThreshold :: float32
  bt_IdempotencyKey :: string

definition defaultTaskMatchThreshold :: float32 where
  "defaultTaskMatchThreshold = \<lparr>f_Value = 3 / 4, f_Text = ''0.75''\<rparr>"

definition normalized_begin :: "begin_task_input \<Rightarrow> begin_task_input" where
  "normalized_begin i =
     i\<lparr>bt_WorkflowID := trim_space (bt_WorkflowID i), bt_TaskKey := trim_space (bt_TaskKey i), bt_Title := trim_space (bt_Title i),
       bt_TaskType := defaultString (to_lower (trim_space (bt_TaskType i))) ''implementation'',
       bt_ExecutionMode := defaultString (to_lower (trim_space (bt_ExecutionMode i))) ''auto'', bt_RAGQuery := trim_space (bt_RAGQuery i),
       bt_MatchThreshold := (if f_Value (bt_MatchThreshold i) = 0 then defaultTaskMatchThreshold else bt_MatchThreshold i),
       bt_IdempotencyKey := trim_space (bt_IdempotencyKey i)\<rparr>"

definition request_text :: "workflow_run \<Rightarrow> begin_task_input \<Rightarrow> string" where
  "request_text run i = print_json (json_map
     [(''workflow_id'', JString (wf_ID run)), (''project_id'', JString (wf_ProjectID run)), (''task_key'', JString (bt_TaskKey i)),
      (''title'', JString (bt_Title i)), (''task_type'', JString (bt_TaskType i)), (''execution_mode'', JString (bt_ExecutionMode i)),
      (''query'', JString (bt_RAGQuery i)), (''match_threshold'', JNumber (f_Text (bt_MatchThreshold i)))])"

definition queued_task :: "call_env \<Rightarrow> principal \<Rightarrow> workflow_run \<Rightarrow> begin_task_input \<Rightarrow> artifact \<Rightarrow> workflow_task" where
  "queued_task env p run i a =
     \<lparr>tk_ID = env_id env 0, tk_WorkflowID = wf_ID run, tk_ProjectID = wf_ProjectID run, tk_Ordinal = 0, tk_TaskKey = bt_TaskKey i, tk_Title = bt_Title i,
      tk_TaskType = bt_TaskType i, tk_State = ''queued'', tk_Route = ''pending'', tk_ExecutionMode = bt_ExecutionMode i, tk_Version = 1,
      tk_RAGQuery = bt_RAGQuery i, tk_RAGBackend = ''pending'', tk_RAGHitIDs = [], tk_RAGMaxScore = float_zero,
      tk_MatchThreshold = bt_MatchThreshold i, tk_ReviewInfluenceWeight = float_zero, tk_CandidateID = [], tk_LocalProvider = [], tk_LocalModel = [],
      tk_CloudProvider = [], tk_CloudModel = [], tk_RequestArtifact = a, tk_LookupArtifact = None, tk_CreatedBy = p_ID p, tk_CreatedAt = 0,
      tk_UpdatedAt = 0, tk_CompletedAt = None\<rparr>"

definition queued_event :: "call_env \<Rightarrow> principal \<Rightarrow> begin_task_input \<Rightarrow> string \<Rightarrow> artifact \<Rightarrow> authorization_decision \<Rightarrow> task_event" where
  "queued_event env p i role a decision =
     \<lparr>te_ID = env_id env 1, te_TaskID = env_id env 0, te_Sequence = 0, te_EventType = ''TASK_QUEUED'', te_FromState = [], te_ToState = ''queued'',
      te_ActorPrincipalID = p_ID p, te_ActorRole = role, te_Provider = [], te_Model = [], te_IdempotencyKey = bt_IdempotencyKey i,
      te_Payload = [(''route'', JString ''pending'')], te_EvidenceArtifact = Some a, te_AuthorizationDecision = ''allow'',
      te_CerbosCallID = dec_CallID decision, te_PolicyVersion = dec_PolicyVersion decision, te_CreatedAt = 0\<rparr>"

text \<open>\<open>BeginWorkflowTask\<close> up to the commit of the queued task.\<close>

definition submit_task ::
  "task_service \<Rightarrow> call_env \<Rightarrow> local_store \<Rightarrow> task_db \<Rightarrow> task_db \<Rightarrow> begin_task_input \<Rightarrow> (workflow_task \<times> task_event) result \<times> local_store \<times> task_db" where
  "submit_task svc env st seen db i0 =
     (case RequirePrincipal (env_ctx env) of
        Inl e \<Rightarrow> (Err e, st, db)
      | Inr p \<Rightarrow>
          let i = normalized_begin i0 in
          if bt_WorkflowID i = [] \<or> bt_TaskKey i = [] \<or> bt_Title i = [] \<or> bt_RAGQuery i = [] \<or> bt_IdempotencyKey i = [] then (Err ErrInvalidInput, st, db)
          else if f_Value (bt_MatchThreshold i) < 0 \<or> 1 < f_Value (bt_MatchThreshold i) then (Err ErrInvalidInput, st, db)
          else if bt_ExecutionMode i \<notin> set [''auto'', ''manual''] then (Err ErrInvalidInput, st, db)
          else (case getWorkflowByID (td_wf seen) (bt_WorkflowID i) of
              Inl e \<Rightarrow> (Err e, st, db)
            | Inr run \<Rightarrow>
                if terminalState (wf_State run) then (Err ErrInvalidInput, st, db)
                else (case selectRole p (wf_ProjectID run) [''controller'', ''development''] of
                    None \<Rightarrow> (Err ErrForbidden, st, db)
                  | Some role \<Rightarrow>
                      (case authorizeUntraced (tsv_Authorizer svc)
                              \<lparr>auth_Principal = p, auth_ResourceKind = ''workflow_run'', auth_ResourceID = wf_ID run, auth_Action = ''transition'',
                               auth_Attributes = workflowAttributes run ''TASK_QUEUED''\<rparr> of
                         Inl e \<Rightarrow> (Err e, st, db)
                       | Inr decision \<Rightarrow>
                           (case Put st (request_text run i) ''application/json'' of
                              (Inl e, st') \<Rightarrow> (Err e, st', db)
                            | (Inr a, st') \<Rightarrow>
                                (case CreateWorkflowTask env db (queued_task env p run i a) (queued_event env p i role a decision) of
                                   (r, db') \<Rightarrow> (r, st', db')))))))"

definition BeginWorkflowTask ::
  "task_service \<Rightarrow> call_env \<Rightarrow> local_store \<Rightarrow> task_db \<Rightarrow> task_db \<Rightarrow> (nat \<Rightarrow> task_db \<Rightarrow> task_db) \<Rightarrow> begin_task_input
     \<Rightarrow> (workflow_task \<times> task_event) result \<times> local_store \<times> task_db" where
  "BeginWorkflowTask svc env st seen db between i =
     (case submit_task svc env st seen db i of
        (Inl e, st', db') \<Rightarrow> (Err e, st', db')
      | (Inr (created, queued), st', db') \<Rightarrow>
          (case activateWorkflowQueueHead svc (sub_env 1 env) st' between db' (tk_WorkflowID created) of
             (Inl e, st'', db'') \<Rightarrow> (Err e, st'', db'')
           | (Inr None, st'', db'') \<Rightarrow> (Ok (created, queued), st'', db'')
           | (Inr (Some (activated, event)), st'', db'') \<Rightarrow>
               (Ok (if tk_ID activated = tk_ID created then (activated, event) else (created, queued)), st'', db'')))"

end
