(* ===== verification/TaskProps.thy ===== *)
theory TaskProps
  imports TaskService
begin

text \<open>
  The queue of a workflow under concurrent calls: whatever earlier states a call has read, at most one task of a workflow holds the
  queue, tasks leave it in order, and a task is reviewed and completed only with the evidence its route asks for.
\<close>

section \<open>The queue head\<close>

definition is_head :: "workflow_task list \<Rightarrow> workflow_task \<Rightarrow> bool" where
  "is_head tasks t \<longleftrightarrow> t \<in> set tasks \<and> tk_State t = ''queued''
     \<and> (\<forall>u \<in> set tasks. tk_WorkflowID u = tk_WorkflowID t \<longrightarrow> \<not> task_active u \<and> (tk_State u = ''queued'' \<longrightarrow> tk_Ordinal t \<le> tk_Ordinal u))"

lemma queue_head_is_head: "queue_head tasks wid = Some t \<Longrightarrow> is_head tasks t \<and> tk_WorkflowID t = wid"
proof -
  assume head: "queue_head tasks wid = Some t"
  let ?q = "filter (\<lambda>t. tk_WorkflowID t = wid \<and> tk_State t = ''queued'') tasks"
  obtain x rest where cons: "sort_key tk_Ordinal ?q = x # rest"
    using head unfolding queue_head_def by (cases "sort_key tk_Ordinal ?q") simp_all
  have "queue_head tasks wid = (if list_ex (\<lambda>a. tk_WorkflowID a = wid \<and> task_active a) tasks then None else Some x)"
    unfolding queue_head_def cons by (simp only: list.case)
  with head have free: "\<not> list_ex (\<lambda>a. tk_WorkflowID a = wid \<and> task_active a) tasks" and "x = t"
    by (simp_all split: if_split_asm)
  with cons have rest: "sort_key tk_Ordinal ?q = t # rest" by (simp only:)
  have set: "set (t # rest) = set ?q" unfolding rest [symmetric] by (simp only: set_sort)
  have "sorted (map tk_Ordinal (t # rest))" unfolding rest [symmetric] by (rule sorted_sort_key)
  then have "\<forall>u \<in> set ?q. tk_Ordinal t \<le> tk_Ordinal u" unfolding set [symmetric] by auto
  moreover have "t \<in> set ?q" unfolding set [symmetric] by simp
  ultimately show ?thesis using free by (auto simp: is_head_def list_ex_iff)
qed

lemma GetActivatable_head:
  assumes "GetActivatableWorkflowTask db wid = Some t"
  obtains row where "is_head (td_tasks db) row" "tk_WorkflowID row = wid" "tk_ID row = tk_ID t"
  using assms queue_head_is_head
  by (fastforce simp: GetActivatableWorkflowTask_def scanWorkflowTask_def split: option.splits sum.splits)

section \<open>What a commit changes\<close>

text \<open>What stays of a task: its identity, its place in the queue, its mode, and its route once it was activated.\<close>

definition task_later :: "workflow_task \<Rightarrow> workflow_task \<Rightarrow> bool" where
  "task_later t t' \<longleftrightarrow> tk_ID t' = tk_ID t \<and> tk_WorkflowID t' = tk_WorkflowID t \<and> tk_Ordinal t' = tk_Ordinal t \<and> tk_ExecutionMode t' = tk_ExecutionMode t
     \<and> tk_Version t \<le> tk_Version t' \<and> (tk_State t \<noteq> ''queued'' \<longrightarrow> tk_Route t' = tk_Route t \<and> tk_State t' \<noteq> ''queued'')"

lemma task_later_refl: "task_later t t"
  by (simp add: task_later_def)

lemma task_later_trans: "task_later a b \<Longrightarrow> task_later b c \<Longrightarrow> task_later a c"
  by (auto simp: task_later_def)

text \<open>The states of the table: a task never returns to the queue, and a finished task stays as it is.\<close>

lemma workflowTaskTransition_states:
  assumes "workflowTaskTransition t event = Some sp"
  shows "ts_to sp \<noteq> ''queued''"
    "task_active t \<or> tk_State t = ''queued'' \<and> (event = ''TASK_ACTIVATED'' \<or> event = ''TASK_REJECTED'' \<and> ts_to sp = ''rejected'')"
    "event = ''TASK_ACTIVATED'' \<longrightarrow> tk_State t = ''queued''"
  using assms unfolding workflowTaskTransition_def Let_def
  by (auto simp: tspec_def evidenced_def task_active_def split: if_splits)

lemma workflowTaskTransition_cong:
  assumes "tk_State a = tk_State b" "tk_ExecutionMode a = tk_ExecutionMode b" "tk_State a \<noteq> ''queued'' \<Longrightarrow> tk_Route a = tk_Route b"
  shows "workflowTaskTransition a event = workflowTaskTransition b event"
  using assms by (cases "tk_State a = ''queued''") (simp_all add: workflowTaskTransition_def Let_def)

section \<open>The invariant of the queue\<close>

definition one_active :: "workflow_task list \<Rightarrow> bool" where
  "one_active ts \<longleftrightarrow> (\<forall>a \<in> set ts. \<forall>b \<in> set ts. tk_WorkflowID a = tk_WorkflowID b \<and> task_active a \<and> task_active b \<longrightarrow> a = b)"

definition fifo :: "workflow_task list \<Rightarrow> bool" where
  "fifo ts \<longleftrightarrow> (\<forall>a \<in> set ts. \<forall>b \<in> set ts. tk_WorkflowID a = tk_WorkflowID b \<and> tk_Ordinal a < tk_Ordinal b
     \<and> tk_State b \<noteq> ''queued'' \<and> tk_State b \<noteq> ''rejected'' \<longrightarrow> tk_State a \<noteq> ''queued'')"

definition queue_ok :: "workflow_task list \<Rightarrow> bool" where
  "queue_ok ts \<longleftrightarrow> distinct (map tk_ID ts) \<and> distinct (map (\<lambda>t. (tk_WorkflowID t, tk_Ordinal t)) ts) \<and> one_active ts \<and> fifo ts"

definition kept :: "workflow_task list \<Rightarrow> workflow_task list \<Rightarrow> bool" where
  "kept ts ts' \<longleftrightarrow> (\<forall>t \<in> set ts. \<exists>t' \<in> set ts'. task_later t t' \<and> (is_head ts t \<and> tk_State t' = ''queued'' \<longrightarrow> is_head ts' t'))"

lemma kept_refl: "kept ts ts"
  by (auto simp: kept_def intro: task_later_refl)

lemma kept_trans:
  assumes "kept a b" "kept b c"
  shows "kept a c"
  unfolding kept_def
proof
  fix t
  assume "t \<in> set a"
  then obtain u where u: "u \<in> set b" "task_later t u" "is_head a t \<and> tk_State u = ''queued'' \<longrightarrow> is_head b u"
    using assms(1) by (auto simp: kept_def)
  then obtain v where v: "v \<in> set c" "task_later u v" "is_head b u \<and> tk_State v = ''queued'' \<longrightarrow> is_head c v"
    using assms(2) by (auto simp: kept_def)
  have "tk_State v = ''queued'' \<longrightarrow> tk_State u = ''queued''" using v(2) by (auto simp: task_later_def)
  with u v show "\<exists>t' \<in> set c. task_later t t' \<and> (is_head a t \<and> tk_State t' = ''queued'' \<longrightarrow> is_head c t')"
    by (blast intro: task_later_trans)
qed

lemma same_task: "distinct (map tk_ID ts) \<Longrightarrow> a \<in> set ts \<Longrightarrow> b \<in> set ts \<Longrightarrow> tk_ID a = tk_ID b \<Longrightarrow> a = b"
  by (metis distinct_map inj_onD)

lemma same_place:
  "distinct (map (\<lambda>t. (tk_WorkflowID t, tk_Ordinal t)) ts) \<Longrightarrow> a \<in> set ts \<Longrightarrow> b \<in> set ts \<Longrightarrow> tk_WorkflowID a = tk_WorkflowID b \<Longrightarrow>
     tk_Ordinal a = tk_Ordinal b \<Longrightarrow> a = b"
  using inj_onD [of "\<lambda>t. (tk_WorkflowID t, tk_Ordinal t)" "set ts"] by (simp add: distinct_map)

text \<open>One task of the queue moves along the table; only the head is activated.\<close>

lemma set_put_row:
  assumes "distinct (map tk_ID ts)" "row \<in> set ts" "tk_ID row' = tk_ID row"
  shows "set (put_row tk_ID row' ts) = insert row' (set ts - {row})"
proof -
  have "(\<lambda>x. if tk_ID x = tk_ID row' then row' else x) ` set ts = insert row' (set ts - {row})"
    using assms same_task [OF assms(1)] by (auto simp: image_iff)
  then show ?thesis by (simp add: put_row_def)
qed

lemma map_put_row:
  assumes "distinct (map tk_ID ts)" "row \<in> set ts" "tk_ID row' = tk_ID row" "f row' = f row"
  shows "map f (put_row tk_ID row' ts) = map f ts"
  using assms same_task [OF assms(1)] by (auto simp: put_row_def)

definition queue_move :: "workflow_task list \<Rightarrow> string \<Rightarrow> workflow_task \<Rightarrow> workflow_task \<Rightarrow> bool" where
  "queue_move ts event row row' \<longleftrightarrow> row \<in> set ts \<and> task_later row row'
     \<and> (\<exists>sp. workflowTaskTransition row event = Some sp \<and> tk_State row' = ts_to sp) \<and> (event = ''TASK_ACTIVATED'' \<longrightarrow> is_head ts row)"

lemma queue_move_cases:
  assumes "queue_move ts event row row'"
  shows "tk_State row' \<noteq> ''queued''"
    and "task_active row \<or> is_head ts row \<or> tk_State row = ''queued'' \<and> tk_State row' = ''rejected''"
  using assms workflowTaskTransition_states unfolding queue_move_def by (metis, metis)

lemma queue_move_set:
  assumes "queue_ok ts" "queue_move ts event row row'"
  shows "set (put_row tk_ID row' ts) = insert row' (set ts - {row})"
  using assms by (intro set_put_row) (auto simp: queue_ok_def queue_move_def task_later_def)

lemma rejected_inactive: "tk_State t = ''rejected'' \<Longrightarrow> \<not> task_active t"
  by (simp add: task_active_def)

lemma active_state: "task_active t \<Longrightarrow> tk_State t \<noteq> ''queued'' \<and> tk_State t \<noteq> ''rejected''"
  by (simp add: task_active_def)

lemma queue_move_one_active:
  assumes ok: "queue_ok ts" and move: "queue_move ts event row row'"
  shows "one_active (put_row tk_ID row' ts)"
proof -
  have row: "row \<in> set ts" "tk_WorkflowID row' = tk_WorkflowID row" using move by (auto simp: queue_move_def task_later_def)
  have alone: False if "b \<in> set ts - {row}" "tk_WorkflowID b = tk_WorkflowID row" "task_active row'" "task_active b" for b
    using queue_move_cases(2) [OF move]
  proof (elim disjE conjE)
    assume "task_active row"
    with ok row that show False by (auto simp: queue_ok_def one_active_def)
  next
    assume "is_head ts row"
    with that show False by (auto simp: is_head_def)
  next
    assume "tk_State row' = ''rejected''"
    with that rejected_inactive show False by blast
  qed
  have "\<forall>a \<in> set ts. \<forall>b \<in> set ts. tk_WorkflowID a = tk_WorkflowID b \<and> task_active a \<and> task_active b \<longrightarrow> a = b"
    using ok by (simp add: queue_ok_def one_active_def)
  with alone row(2) show ?thesis unfolding one_active_def queue_move_set [OF ok move] by (metis Diff_iff insert_iff)
qed

lemma queue_move_fifo:
  assumes ok: "queue_ok ts" and move: "queue_move ts event row row'"
  shows "fifo (put_row tk_ID row' ts)"
proof -
  have row: "row \<in> set ts" "tk_WorkflowID row' = tk_WorkflowID row" "tk_Ordinal row' = tk_Ordinal row"
    using move by (auto simp: queue_move_def task_later_def)
  have old: "\<forall>a \<in> set ts. \<forall>b \<in> set ts. tk_WorkflowID a = tk_WorkflowID b \<and> tk_Ordinal a < tk_Ordinal b
     \<and> tk_State b \<noteq> ''queued'' \<and> tk_State b \<noteq> ''rejected'' \<longrightarrow> tk_State a \<noteq> ''queued''"
    using ok by (simp add: queue_ok_def fifo_def)
  have new: "tk_State a \<noteq> ''queued''"
    if "a \<in> set ts" "tk_WorkflowID a = tk_WorkflowID row" "tk_Ordinal a < tk_Ordinal row" "tk_State row' \<noteq> ''rejected''" for a
    using queue_move_cases(2) [OF move]
  proof (elim disjE conjE)
    assume "task_active row"
    with old row(1) that active_state show ?thesis by blast
  next
    assume "is_head ts row"
    with that show ?thesis by (auto simp: is_head_def)
  qed (use that in simp)
  show ?thesis
    unfolding fifo_def queue_move_set [OF ok move] using old new row queue_move_cases(1) [OF move] by (metis Diff_iff insert_iff)
qed

lemma queue_move_kept:
  assumes ok: "queue_ok ts" and move: "queue_move ts event row row'"
  shows "kept ts (put_row tk_ID row' ts)"
  unfolding kept_def queue_move_set [OF ok move]
proof
  fix t
  assume t: "t \<in> set ts"
  have row: "row \<in> set ts" "tk_WorkflowID row' = tk_WorkflowID row" "task_later row row'"
    using move by (auto simp: queue_move_def task_later_def)
  show "\<exists>t' \<in> insert row' (set ts - {row}). task_later t t' \<and> (is_head ts t \<and> tk_State t' = ''queued'' \<longrightarrow> is_head (put_row tk_ID row' ts) t')"
  proof (cases "t = row")
    case True
    then show ?thesis using row(3) queue_move_cases(1) [OF move] by blast
  next
    case other: False
    have "is_head (put_row tk_ID row' ts) t" if head: "is_head ts t"
    proof -
      have "\<not> task_active row'" if wf: "tk_WorkflowID row = tk_WorkflowID t"
        using queue_move_cases(2) [OF move]
      proof (elim disjE conjE)
        assume "task_active row"
        with head wf row(1) show ?thesis by (auto simp: is_head_def)
      next
        assume "is_head ts row"
        then have "tk_Ordinal row = tk_Ordinal t" using head wf t row(1) by (auto simp: is_head_def intro: antisym)
        then show ?thesis using same_place [OF _ row(1) t wf] ok other by (simp add: queue_ok_def)
      qed (use rejected_inactive in blast)
      then show ?thesis
        using head other row(2) queue_move_cases(1) [OF move] unfolding is_head_def queue_move_set [OF ok move] by auto
    qed
    then show ?thesis using t other task_later_refl by blast
  qed
qed

lemma queue_move_ok:
  assumes ok: "queue_ok ts" and move: "queue_move ts event row row'"
  shows "queue_ok (put_row tk_ID row' ts)"
proof -
  have "row \<in> set ts" "tk_ID row' = tk_ID row" "(tk_WorkflowID row', tk_Ordinal row') = (tk_WorkflowID row, tk_Ordinal row)"
    using move by (auto simp: queue_move_def task_later_def)
  then have "map tk_ID (put_row tk_ID row' ts) = map tk_ID ts"
    "map (\<lambda>t. (tk_WorkflowID t, tk_Ordinal t)) (put_row tk_ID row' ts) = map (\<lambda>t. (tk_WorkflowID t, tk_Ordinal t)) ts"
    using ok map_put_row [of ts row row' tk_ID] map_put_row [of ts row row' "\<lambda>t. (tk_WorkflowID t, tk_Ordinal t)"] by (simp_all add: queue_ok_def)
  with ok queue_move_one_active [OF ok move] queue_move_fifo [OF ok move] show ?thesis by (simp add: queue_ok_def)
qed

text \<open>A new task goes to the end of the queue.\<close>

lemma next_ordinal_greater: "t \<in> set ts \<Longrightarrow> tk_WorkflowID t = wid \<Longrightarrow> tk_Ordinal t < next_ordinal ts wid"
  unfolding next_ordinal_def by (induction ts) auto

lemma queue_insert_ok:
  assumes ok: "queue_ok ts" and new: "tk_State n = ''queued''" "tk_ID n \<notin> tk_ID ` set ts" "tk_Ordinal n = next_ordinal ts (tk_WorkflowID n)"
  shows "queue_ok (ts @ [n])" "kept ts (ts @ [n])"
proof -
  have last: "tk_Ordinal t < tk_Ordinal n" if "t \<in> set ts" "tk_WorkflowID t = tk_WorkflowID n" for t
    using next_ordinal_greater [OF that] new(3) by simp
  have idle: "\<not> task_active n" using new(1) by (simp add: task_active_def)
  have "(tk_WorkflowID n, tk_Ordinal n) \<notin> (\<lambda>t. (tk_WorkflowID t, tk_Ordinal t)) ` set ts" using last by fastforce
  moreover have "one_active (ts @ [n])" using ok idle by (auto simp: queue_ok_def one_active_def)
  moreover have "fifo (ts @ [n])"
    unfolding fifo_def
  proof (intro ballI impI)
    fix a b
    assume ab: "a \<in> set (ts @ [n])" "b \<in> set (ts @ [n])" "tk_WorkflowID a = tk_WorkflowID b \<and> tk_Ordinal a < tk_Ordinal b
      \<and> tk_State b \<noteq> ''queued'' \<and> tk_State b \<noteq> ''rejected''"
    then have b: "b \<in> set ts" using new(1) by auto
    then have "a \<in> set ts" using ab last [of b] by auto
    with ok b ab(3) show "tk_State a \<noteq> ''queued''" by (auto simp: queue_ok_def fifo_def)
  qed
  ultimately show "queue_ok (ts @ [n])" using ok new(2) by (simp add: queue_ok_def)
  have "is_head (ts @ [n]) t" if "is_head ts t" for t
    using that idle last unfolding is_head_def by (auto intro: less_imp_le)
  then show "kept ts (ts @ [n])" by (auto simp: kept_def intro: task_later_refl)
qed

section \<open>Calls\<close>

lemma getWorkflowTask_Ok:
  assumes "getWorkflowTask db tid = Inr task"
  obtains row where "find_row tk_ID tid (td_tasks db) = Some row" "row \<in> set (td_tasks db)" "tk_ID row = tid" "tk_ID task = tid"
    "tk_WorkflowID task = tk_WorkflowID row" "tk_State task = tk_State row" "tk_Version task = tk_Version row" "tk_Route task = tk_Route row"
    "tk_ExecutionMode task = tk_ExecutionMode row" "tk_CandidateID task = tk_CandidateID row" "tk_TaskType task = tk_TaskType row"
proof -
  obtain row where row: "find_row tk_ID tid (td_tasks db) = Some row"
    using assms by (auto simp: getWorkflowTask_def scanWorkflowTask_def split: option.splits)
  with assms obtain run a l where "task = row\<lparr>tk_ProjectID := run, tk_RequestArtifact := a, tk_LookupArtifact := l\<rparr>"
    by (auto simp: getWorkflowTask_def scanWorkflowTask_def split: option.splits)
  with row find_row_SomeD [OF row] that show ?thesis by simp
qed

lemma add_artifact_frame [simp]:
  "td_tasks (add_artifact a db) = td_tasks db" "td_events (add_artifact a db) = td_events db" "td_used (add_artifact a db) = td_used db"
  "td_validated (add_artifact a db) = td_validated db" "td_k (add_artifact a db) = td_k db"
  by (simp_all add: add_artifact_def split: option.split)

lemma guard_result:
  "(if b then y else Inl e) = Inr x \<longleftrightarrow> b \<and> y = Inr x"
  "(if b then Inl e else y) = Inr x \<longleftrightarrow> \<not> b \<and> y = Inr x"
  "(case v of None \<Rightarrow> Inl e | Some a \<Rightarrow> f a) = Inr x \<longleftrightarrow> (\<exists>a. v = Some a \<and> f a = Inr x)"
  by (auto split: option.split)

lemma recordTaskLocalValidation_frame:
  assumes "recordTaskLocalValidation env db task event = Inr db'"
  shows "td_tasks db' = td_tasks db \<and> td_events db' = td_events db \<and> td_used db' = td_used db \<and> td_k db' = td_k db
    \<and> prefix (td_validated db) (td_validated db')"
proof -
  have "db' = db \<or> (\<exists>row. db' = db\<lparr>td_validated := td_validated db @ [row]\<rparr>)"
    using assms unfolding recordTaskLocalValidation_def Let_def by (simp only: guard_result) (auto split: if_split_asm)
  then show ?thesis by auto
qed

lemma completion_evidence_frame:
  assumes "completion_evidence env db task t = Inr db'"
  shows "td_tasks db' = td_tasks db \<and> td_events db' = td_events db \<and> td_used db' = td_used db \<and> td_k db' = td_k db
    \<and> prefix (td_validated db) (td_validated db')"
proof -
  have "db' = db \<or> recordTaskLocalValidation env db task (tt_Event t) = Inr db'"
    using assms unfolding completion_evidence_def by (cases "te_EventType (tt_Event t) \<in> set [''VALIDATION_PASSED'', ''VALIDATED_REUSE_COMPLETED'']")
      (simp_all only: if_True if_False sum.case, auto split: sum.splits option.splits)
  then show ?thesis using recordTaskLocalValidation_frame by blast
qed

text \<open>A transition of the repository either leaves tasks and log alone or moves one task.\<close>

lemma repo_TransitionWorkflowTask_cases:
  assumes "repo_TransitionWorkflowTask env db t = (r, db')"
  obtains (refused) e where "r = Inl e" "db' = db"
  | (repeated) old task where "old \<in> set (td_events db)" "te_TaskID old = tt_TaskID t" "te_IdempotencyKey old = te_IdempotencyKey (tt_Event t)"
      "r = Inr (task, scanWorkflowTaskEvent db old)" "db' = db"
  | (moved) row task db1 db2 updated where
      "find_row tk_ID (tt_TaskID t) (td_tasks db) = Some row" "getWorkflowTask db (tt_TaskID t) = Inr task"
      "tk_Version task = tt_ExpectedVersion t" "tk_State task = tt_ExpectedState t"
      "td_tasks db1 = td_tasks db" "td_k db1 = td_k db" "td_used db1 = td_used db" "td_validated db1 = td_validated db"
      "completion_evidence env db1 task t = Inr db2" "td_used db' = td_used db2" "td_validated db' = td_validated db2" "td_k db' = td_k db2"
      "td_tasks db' = put_row tk_ID (moved_task env t row) (td_tasks db)"
      "td_events db' = td_events db @ [logged_task_event env t task]" "r = Inr (updated, logged_task_event env t task)"
      "\<not> list_ex (\<lambda>e. te_TaskID e = tt_TaskID t \<and> te_Sequence e = tk_Version task + 1) (td_events db)"
proof -
  let ?prior = "find (\<lambda>e. te_TaskID e = tt_TaskID t \<and> te_IdempotencyKey e = te_IdempotencyKey (tt_Event t)) (td_events db)"
  let ?db1 = "add_artifact (tt_LookupArtifact t) (add_artifact (te_EvidenceArtifact (tt_Event t)) db)"
  consider (old) old task where "?prior = Some old" "getWorkflowTask db (tt_TaskID t) = Inr task"
    | (new) task db2 where "?prior = None" "getWorkflowTask db (tt_TaskID t) = Inr task" "completion_evidence env ?db1 task t = Inr db2"
    | (failed) "\<exists>e. getWorkflowTask db (tt_TaskID t) = Inl e
        \<or> ?prior = None \<and> (\<exists>task. getWorkflowTask db (tt_TaskID t) = Inr task \<and> completion_evidence env ?db1 task t = Inl e)"
    by (cases ?prior; cases "getWorkflowTask db (tt_TaskID t)") (auto, metis sum.exhaust)
  then show ?thesis
  proof cases
    case old
    then have "(\<exists>e. r = Inl e) \<and> db' = db \<or> r = Inr (task, scanWorkflowTaskEvent db old) \<and> db' = db"
      using assms by (auto simp: repo_TransitionWorkflowTask_def split: if_split_asm)
    then show ?thesis using find_SomeD_mem [OF old(1)] refused repeated by (elim disjE conjE exE) simp_all
  next
    case failed
    then have "(\<exists>e. r = Inl e) \<and> db' = db"
      using assms by (auto simp: repo_TransitionWorkflowTask_def Let_def split: if_split_asm option.splits)
    then show ?thesis using refused by blast
  next
    case new
    obtain row where row: "find_row tk_ID (tt_TaskID t) (td_tasks db) = Some row" using new(2) by (rule getWorkflowTask_Ok)
    let ?ev = "logged_task_event env t task"
    let ?db = "db2\<lparr>td_tasks := put_row tk_ID (moved_task env t row) (td_tasks db), td_events := td_events db @ [?ev]\<rparr>"
    have "(\<exists>e. r = Inl e) \<and> db' = db \<or> (\<exists>updated. r = Inr (updated, ?ev)) \<and> db' = ?db
        \<and> tk_Version task = tt_ExpectedVersion t \<and> tk_State task = tt_ExpectedState t
        \<and> \<not> list_ex (\<lambda>e. te_TaskID e = tt_TaskID t \<and> te_Sequence e = te_Sequence ?ev) (td_events db)"
      using assms new row unfolding repo_TransitionWorkflowTask_def Let_def
      by (auto split: if_split_asm sum.splits)
    then show ?thesis
    proof (elim disjE conjE exE)
      fix e
      assume "r = Inl e" "db' = db"
      then show ?thesis by (rule refused)
    next
      fix updated
      assume out: "r = Inr (updated, ?ev)" "db' = ?db" "tk_Version task = tt_ExpectedVersion t" "tk_State task = tt_ExpectedState t"
        "\<not> list_ex (\<lambda>e. te_TaskID e = tt_TaskID t \<and> te_Sequence e = te_Sequence ?ev) (td_events db)"
      have "te_Sequence ?ev = tk_Version task + 1" by (simp add: logged_task_event_def)
      with out show ?thesis by (intro moved [OF row new(2) out(3,4) _ _ _ _ new(3)]) simp_all
    qed
  qed
qed

text \<open>
  A call is a chain of reads and checks, each of which may stop it without having touched the database. The rules take such a chain
  apart.
\<close>

named_theorems stops

lemma stop_sum [stops]:
  "(case x of Inl e \<Rightarrow> (Inl e, s, db) | Inr a \<Rightarrow> f a) = (r, s', db') \<Longrightarrow> (\<And>e. x = Inl e \<Longrightarrow> r = Inl e \<Longrightarrow> db' = db \<Longrightarrow> P) \<Longrightarrow>
     (\<And>a. x = Inr a \<Longrightarrow> f a = (r, s', db') \<Longrightarrow> P) \<Longrightarrow> P"
  by (cases x) auto

lemma stop_if [stops]:
  "(if b then (Inl e, s, db) else y) = (r, s', db') \<Longrightarrow> (\<And>e. r = Inl e \<Longrightarrow> db' = db \<Longrightarrow> P) \<Longrightarrow> (\<not> b \<Longrightarrow> y = (r, s', db') \<Longrightarrow> P) \<Longrightarrow> P"
  by (cases b) auto

lemma stop_some [stops]:
  "(case x of None \<Rightarrow> y | Some e \<Rightarrow> (Inl e, s, db)) = (r, s', db') \<Longrightarrow> (\<And>e. r = Inl e \<Longrightarrow> db' = db \<Longrightarrow> P) \<Longrightarrow>
     (x = None \<Longrightarrow> y = (r, s', db') \<Longrightarrow> P) \<Longrightarrow> P"
  by (cases x) auto

lemma stop_none [stops]:
  "(case x of None \<Rightarrow> (Inl e, s, db) | Some a \<Rightarrow> f a) = (r, s', db') \<Longrightarrow> (\<And>e. r = Inl e \<Longrightarrow> db' = db \<Longrightarrow> P) \<Longrightarrow>
     (\<And>a. x = Some a \<Longrightarrow> f a = (r, s', db') \<Longrightarrow> P) \<Longrightarrow> P"
  by (cases x) auto

lemma stop_put [stops]:
  "(case x of (y, s1) \<Rightarrow> (case y of Inl e \<Rightarrow> (Inl e, s1, db) | Inr a \<Rightarrow> f a s1)) = (r, s', db') \<Longrightarrow> (\<And>e. r = Inl e \<Longrightarrow> db' = db \<Longrightarrow> P) \<Longrightarrow>
     (\<And>a s1. x = (Inr a, s1) \<Longrightarrow> f a s1 = (r, s', db') \<Longrightarrow> P) \<Longrightarrow> P"
  by (cases x; cases "fst x") auto

lemma stop_pair: "(case x of (a, b) \<Rightarrow> f a b) = z \<Longrightarrow> (\<And>a b. x = (a, b) \<Longrightarrow> f a b = z \<Longrightarrow> P) \<Longrightarrow> P"
  by (cases x) auto

lemma lookup_route_head:
  assumes "lookup_route svc st looked run task = (Inr x, st')"
  obtains row where "is_head (td_tasks looked) row" "tk_ID row = tk_ID task" "tk_WorkflowID row = tk_WorkflowID task"
proof -
  obtain head where "GetActivatableWorkflowTask looked (tk_WorkflowID task) = Some head" "tk_ID head = tk_ID task"
    using assms by (auto simp: lookup_route_def split: if_split_asm option.splits)
  then show ?thesis using that by (metis GetActivatable_head)
qed

lemma checked_task_spec_Ok:
  assumes "checked_task_spec p run task i = Inr (sp, role)"
  shows "workflowTaskTransition task (tx_EventType i) = Some sp" "role \<in> set (ts_roles sp)" "HasRole p (wf_ProjectID run) role"
    "ts_provider sp = [] \<or> tx_Provider i = ts_provider sp \<and> tx_Model i \<noteq> []" "ts_evidenceRequired sp \<longrightarrow> tx_Evidence i \<noteq> []"
  using assms unfolding checked_task_spec_def by (auto split: option.splits if_split_asm dest: selectRole_Some)

lemma lookup_head:
  assumes "(if event = ''TASK_ACTIVATED'' then lookup_route svc st looked run task else (Inr (no_lookup, evidence, payload), st)) = (Inr (lookup, x), st')"
  shows "event = ''TASK_ACTIVATED'' \<longrightarrow> (\<exists>row. is_head (td_tasks looked) row \<and> tk_ID row = tk_ID task \<and> tk_WorkflowID row = tk_WorkflowID task)"
    and "event \<noteq> ''TASK_ACTIVATED'' \<longrightarrow> lookup = no_lookup"
  using assms lookup_route_head [of svc st looked run task "(lookup, x)" st'] by (metis, simp split: if_split_asm)

lemma transition_task_cases:
  assumes "transition_task svc env st seen looked db i0 = (res, st', db')"
  obtains (refused) e where "res = Inl e" "db' = db"
  | (asked) p run task i1 i sp role a decision cid lookup r where "RequirePrincipal (env_ctx env) = Inr p"
      "getWorkflowTask seen (tx_TaskID i1) = Inr task" "getWorkflowByID (td_wf seen) (tk_WorkflowID task) = Inr run"
      "checked_task_spec p run task i1 = Inr (sp, role)"
      "repo_TransitionWorkflowTask env db (proposed_task_transition env p task i sp role a decision cid lookup) = (r, db')"
      "res = (case r of Inl e \<Rightarrow> Inl e | Inr out \<Rightarrow> Inr (out, ts_completed sp))"
      "tx_EventType i = tx_EventType i1 \<and> tx_Provider i = tx_Provider i1 \<and> tx_Model i = tx_Model i1"
      "tx_EventType i1 = ''TASK_ACTIVATED'' \<longrightarrow> (\<exists>row. is_head (td_tasks looked) row \<and> tk_ID row = tk_ID task \<and> tk_WorkflowID row = tk_WorkflowID task)"
      "tx_EventType i1 \<noteq> ''TASK_ACTIVATED'' \<longrightarrow> lookup = no_lookup"
  using assms unfolding transition_task_def Let_def
  apply (elim stops stop_pair)
  apply (rule refused, assumption, assumption)+
  apply (simp_all only: prod.inject)
  apply (rule asked, assumption, assumption, assumption, simp only:, simp only:, simp, simp, rule lookup_head(1), simp only:, rule lookup_head(2), simp only:)+
  done

section \<open>The machine\<close>

text \<open>
  A history lists the database states there have been, the newest first. A call may have read any of them before it commits in the
  newest: a task is submitted, one is moved, the context of one is recorded, or something else happens that leaves the tasks and their
  log alone.
\<close>

inductive tk_step :: "task_db list \<Rightarrow> task_db list \<Rightarrow> bool" where
  tk_submit: "seen \<in> set h \<Longrightarrow> submit_task svc env st seen (hd h) b = (res, st', db') \<Longrightarrow> tk_step h (db' # h)"
| tk_transition: "seen \<in> set h \<Longrightarrow> looked \<in> set h \<Longrightarrow> transition_task svc env st seen looked (hd h) i = (moved, st', db') \<Longrightarrow> tk_step h (db' # h)"
| tk_context: "repo_RecordTaskContext env (hd h) tid version uses actor key = (recorded, db') \<Longrightarrow> tk_step h (db' # h)"
| tk_elsewhere: "td_tasks db' = td_tasks (hd h) \<Longrightarrow> td_events db' = td_events (hd h) \<Longrightarrow> tk_step h (db' # h)"

definition tk_start :: "task_db list \<Rightarrow> bool" where
  "tk_start h \<longleftrightarrow> (\<exists>db. h = [db] \<and> td_tasks db = [] \<and> td_events db = [])"

text \<open>The log of a task is a path of the transition table from the queue to the state of the row.\<close>

definition task_log :: "task_event list \<Rightarrow> string \<Rightarrow> task_event list" where
  "task_log es tid = filter (\<lambda>e. te_TaskID e = tid) es"

definition by_table :: "workflow_task \<Rightarrow> task_event \<Rightarrow> bool" where
  "by_table row e \<longleftrightarrow> (\<exists>sp. workflowTaskTransition (row\<lparr>tk_State := te_FromState e\<rparr>) (te_EventType e) = Some sp \<and> te_ToState e = ts_to sp
     \<and> te_ActorRole e \<in> set (ts_roles sp) \<and> (ts_provider sp = [] \<or> te_Provider e = ts_provider sp \<and> te_Model e \<noteq> []))"

definition log_step :: "workflow_task \<Rightarrow> task_event \<Rightarrow> task_event \<Rightarrow> bool" where
  "log_step row e e' \<longleftrightarrow> te_FromState e' = te_ToState e \<and> te_Sequence e' = te_Sequence e + 1 \<and> by_table row e'"

definition log_ok :: "workflow_task \<Rightarrow> task_event list \<Rightarrow> bool" where
  "log_ok row es \<longleftrightarrow> es \<noteq> [] \<and> te_EventType (hd es) = ''TASK_QUEUED'' \<and> te_ToState (hd es) = ''queued'' \<and> te_Sequence (hd es) = 1
     \<and> successively (log_step row) es \<and> te_ToState (last es) = tk_State row \<and> te_Sequence (last es) = tk_Version row"

definition logs_ok :: "workflow_task list \<Rightarrow> task_event list \<Rightarrow> bool" where
  "logs_ok ts es \<longleftrightarrow> (\<forall>e \<in> set es. te_TaskID e \<in> tk_ID ` set ts) \<and> (\<forall>t \<in> set ts. log_ok t (task_log es (tk_ID t)))"

definition tk_inv :: "task_db list \<Rightarrow> bool" where
  "tk_inv h \<longleftrightarrow> h \<noteq> [] \<and> queue_ok (td_tasks (hd h)) \<and> logs_ok (td_tasks (hd h)) (td_events (hd h))
     \<and> (\<forall>d \<in> set h. kept (td_tasks d) (td_tasks (hd h)))"

definition tk_later :: "task_db list \<Rightarrow> task_db list \<Rightarrow> bool" where
  "tk_later h h' \<longleftrightarrow> kept (td_tasks (hd h)) (td_tasks (hd h')) \<and> prefix (td_events (hd h)) (td_events (hd h'))"

text \<open>What one call makes of tasks and log.\<close>

definition tk_change :: "task_db \<Rightarrow> task_db \<Rightarrow> bool" where
  "tk_change db db' \<longleftrightarrow> td_tasks db' = td_tasks db \<and> td_events db' = td_events db
     \<or> (\<exists>n e. td_tasks db' = td_tasks db @ [n] \<and> td_events db' = td_events db @ [e] \<and> tk_State n = ''queued'' \<and> tk_ID n \<notin> tk_ID ` set (td_tasks db)
          \<and> tk_Ordinal n = next_ordinal (td_tasks db) (tk_WorkflowID n) \<and> te_TaskID e = tk_ID n \<and> log_ok n [e])
     \<or> (\<exists>row row' e. queue_move (td_tasks db) (te_EventType e) row row' \<and> td_tasks db' = put_row tk_ID row' (td_tasks db)
          \<and> td_events db' = td_events db @ [e] \<and> te_TaskID e = tk_ID row \<and> te_FromState e = tk_State row \<and> te_ToState e = tk_State row'
          \<and> te_Sequence e = tk_Version row + 1 \<and> tk_Version row' = tk_Version row + 1 \<and> by_table row e)"

lemma by_table_later:
  assumes "task_later row row'" "tk_State row \<noteq> ''queued'' \<or> te_FromState e = ''queued''" "by_table row e"
  shows "by_table row' e"
proof -
  have "workflowTaskTransition (row\<lparr>tk_State := te_FromState e\<rparr>) (te_EventType e) = workflowTaskTransition (row'\<lparr>tk_State := te_FromState e\<rparr>) (te_EventType e)"
    by (rule workflowTaskTransition_cong) (use assms(1,2) in \<open>auto simp: task_later_def\<close>)
  with assms(3) show ?thesis by (simp add: by_table_def)
qed

text \<open>Only the first event of a log leads to the queue.\<close>

lemma log_to_queue:
  assumes "successively (log_step row) es" "es \<noteq> []" "te_ToState (last es) = ''queued''"
  shows "tl es = []"
proof (cases es rule: rev_cases)
  case (snoc xs e)
  have "xs = []"
  proof (rule ccontr)
    assume "xs \<noteq> []"
    with assms(1) snoc have "by_table row e" by (auto simp: successively_append_iff log_step_def)
    with assms(3) snoc show False using workflowTaskTransition_states(1) by (fastforce simp: by_table_def)
  qed
  with snoc show ?thesis by simp
qed (use assms in simp)

lemma log_ok_move:
  assumes log: "log_ok row es" and later: "task_later row row'" and e: "te_FromState e = tk_State row" "te_ToState e = tk_State row'"
    "te_Sequence e = tk_Version row + 1" "tk_Version row' = tk_Version row + 1" "by_table row e"
  shows "log_ok row' (es @ [e])"
proof -
  have new: "by_table row' e" by (rule by_table_later [OF later _ e(5)]) (simp add: e(1))
  have "successively (log_step row') es"
  proof (cases "tk_State row = ''queued''")
    case True
    then have "tl es = []" using log log_to_queue unfolding log_ok_def by metis
    then show ?thesis using log by (cases es) (simp_all add: log_ok_def)
  next
    case False
    have "successively (log_step row) es" using log by (simp add: log_ok_def)
    then show ?thesis by (rule successively_mono) (use by_table_later [OF later disjI1 [OF False]] in \<open>simp add: log_step_def\<close>)
  qed
  then show ?thesis using log e new by (auto simp: log_ok_def successively_append_iff log_step_def)
qed

lemma tk_change_ok:
  assumes "tk_change db db'" "queue_ok (td_tasks db)" "logs_ok (td_tasks db) (td_events db)"
  shows "queue_ok (td_tasks db') \<and> logs_ok (td_tasks db') (td_events db') \<and> kept (td_tasks db) (td_tasks db') \<and> prefix (td_events db) (td_events db')"
  using assms(1) unfolding tk_change_def
proof (elim disjE exE conjE)
  assume "td_tasks db' = td_tasks db" "td_events db' = td_events db"
  with assms kept_refl show ?thesis by simp
next
  fix n e
  assume n: "td_tasks db' = td_tasks db @ [n]" "td_events db' = td_events db @ [e]" "tk_State n = ''queued''" "tk_ID n \<notin> tk_ID ` set (td_tasks db)"
    "tk_Ordinal n = next_ordinal (td_tasks db) (tk_WorkflowID n)" "te_TaskID e = tk_ID n" "log_ok n [e]"
  have "task_log (td_events db) (tk_ID n) = []"
    using assms(3) n(4) unfolding task_log_def logs_ok_def filter_empty_conv by metis
  then have "logs_ok (td_tasks db') (td_events db')"
    using assms(3) n by (auto simp: logs_ok_def task_log_def)
  with queue_insert_ok [OF assms(2) n(3-5)] n show ?thesis by simp
next
  fix row row' e
  assume move: "queue_move (td_tasks db) (te_EventType e) row row'" and m: "td_tasks db' = put_row tk_ID row' (td_tasks db)"
    "td_events db' = td_events db @ [e]" "te_TaskID e = tk_ID row" and ev: "te_FromState e = tk_State row" "te_ToState e = tk_State row'"
    "te_Sequence e = tk_Version row + 1" "tk_Version row' = tk_Version row + 1" "by_table row e"
  have row: "row \<in> set (td_tasks db)" "task_later row row'" "tk_ID row' = tk_ID row" using move by (auto simp: queue_move_def task_later_def)
  have old: "log_ok row (task_log (td_events db) (tk_ID row))" using assms(3) row(1) by (simp add: logs_ok_def)
  have "log_ok row' (task_log (td_events db') (tk_ID row))"
    using log_ok_move [OF old row(2) ev] m by (simp add: task_log_def)
  moreover have "log_ok t (task_log (td_events db') (tk_ID t))" if "t \<in> set (td_tasks db) - {row}" for t
  proof -
    have "tk_ID t \<noteq> tk_ID row" using that same_task [of "td_tasks db" t row] assms(2) row(1) by (auto simp: queue_ok_def)
    then show ?thesis using that assms(3) m by (auto simp: logs_ok_def task_log_def)
  qed
  moreover have "te_TaskID x \<in> tk_ID ` insert row' (set (td_tasks db) - {row})" if "x \<in> set (td_events db')" for x
    using that assms(3) m row unfolding logs_ok_def by (auto simp: image_iff)
  ultimately have "logs_ok (td_tasks db') (td_events db')"
    unfolding logs_ok_def m(1) queue_move_set [OF assms(2) move] using row(3) by (metis insert_iff)
  with queue_move_ok [OF assms(2) move] queue_move_kept [OF assms(2) move] m show ?thesis by simp
qed

section \<open>Every call follows the table\<close>

lemma no_row: "find_row key k rows = None \<Longrightarrow> k \<notin> key ` set rows"
  by (auto simp: find_row_def find_None_iff)

lemma tk_change_refl: "tk_change db db"
  by (simp add: tk_change_def)

lemma CreateWorkflowTask_change:
  assumes "CreateWorkflowTask env db task event = (r, db')" "tk_State task = ''queued''" "te_EventType event = ''TASK_QUEUED''" "te_ToState event = ''queued''"
  shows "tk_change db db'"
proof -
  let ?n = "inserted_task env task (next_ordinal (td_tasks db) (tk_WorkflowID task))" and ?e = "inserted_task_event env task event"
  have "db' = db \<or> find_row tk_ID (tk_ID task) (td_tasks db) = None \<and> td_tasks db' = td_tasks db @ [?n] \<and> td_events db' = td_events db @ [?e]"
    using assms(1) unfolding CreateWorkflowTask_def Let_def by (auto split: if_split_asm sum.splits option.splits)
  then show ?thesis
  proof (elim disjE conjE)
    assume new: "find_row tk_ID (tk_ID task) (td_tasks db) = None" "td_tasks db' = td_tasks db @ [?n]" "td_events db' = td_events db @ [?e]"
    have "log_ok ?n [?e]" using assms(2-) by (simp add: log_ok_def inserted_task_def inserted_task_event_def)
    moreover have "te_TaskID ?e = tk_ID ?n" "tk_State ?n = ''queued''" "tk_Ordinal ?n = next_ordinal (td_tasks db) (tk_WorkflowID ?n)"
      "tk_ID ?n \<notin> tk_ID ` set (td_tasks db)"
      using assms(2) no_row [OF new(1)] by (simp_all add: inserted_task_def inserted_task_event_def)
    ultimately show ?thesis unfolding tk_change_def using new(2,3) by blast
  qed (simp add: tk_change_def)
qed

lemma submit_task_change:
  assumes "submit_task svc env st seen db i = (r, st', db')"
  shows "tk_change db db'"
  using assms unfolding submit_task_def Let_def
  apply (elim stops stop_pair)
  apply (simp_all only: prod.inject tk_change_refl)
  apply (elim conjE, hypsubst, rule CreateWorkflowTask_change, assumption)
  apply (simp_all add: queued_task_def queued_event_def)
  done

lemma record_uses_frame:
  "record_uses env task actor key db seen uses = Inr db' \<Longrightarrow> td_tasks db' = td_tasks db \<and> td_events db' = td_events db"
  by (induction env task actor key db seen uses rule: record_uses.induct) (auto simp: Let_def split: if_split_asm option.splits)

lemma repo_RecordTaskContext_change: "repo_RecordTaskContext env db tid version uses actor key = (r, db') \<Longrightarrow> tk_change db db'"
  by (auto simp: repo_RecordTaskContext_def tk_change_def split: if_split_asm sum.splits dest: record_uses_frame)

text \<open>The table read for the task that was seen is the one of the row found at commit, if the state is still the same.\<close>

lemma kept_task:
  assumes "kept (td_tasks seen) ts" "queue_ok ts" "getWorkflowTask seen tid = Inr task" "find_row tk_ID tid ts = Some row" "tk_State row = tk_State task"
  shows "tk_WorkflowID row = tk_WorkflowID task" "workflowTaskTransition row event = workflowTaskTransition task event"
proof -
  obtain old where old: "old \<in> set (td_tasks seen)" "tk_ID old = tid" "tk_WorkflowID task = tk_WorkflowID old" "tk_State task = tk_State old"
    "tk_Route task = tk_Route old" "tk_ExecutionMode task = tk_ExecutionMode old" "tk_ID task = tid"
    using assms(3) by (rule getWorkflowTask_Ok)
  then obtain new where new: "new \<in> set ts" "task_later old new" using assms(1) unfolding kept_def by blast
  have "new = row"
    using same_task [OF _ new(1)] find_row_SomeD [OF assms(4)] assms(2) old(2) new(2) by (auto simp: queue_ok_def task_later_def)
  with new(2) old assms(5) show "tk_WorkflowID row = tk_WorkflowID task" "workflowTaskTransition row event = workflowTaskTransition task event"
    by (auto simp: task_later_def intro: workflowTaskTransition_cong)
qed

lemma kept_head:
  assumes "kept (td_tasks looked) ts" "queue_ok ts" "is_head (td_tasks looked) head" "tk_ID head = tk_ID row" "row \<in> set ts" "tk_State row = ''queued''"
  shows "is_head ts row"
proof -
  have "head \<in> set (td_tasks looked)" using assms(3) by (simp add: is_head_def)
  then obtain new where new: "new \<in> set ts" "task_later head new" "tk_State new = ''queued'' \<longrightarrow> is_head ts new"
    using assms(1,3) unfolding kept_def by blast
  moreover have "new = row" using same_task [OF _ new(1) assms(5)] assms(2,4) new(2) by (auto simp: queue_ok_def task_later_def)
  ultimately show ?thesis using assms(6) by simp
qed

lemma moved_task_later:
  assumes "tt_RAGRoute t = [] \<or> tk_State row = ''queued''" "tt_ResultingState t \<noteq> ''queued''"
  shows "task_later row (moved_task env t row)"
  using assms by (auto simp: task_later_def moved_task_def overwrite_def)

lemma transition_task_change:
  assumes "transition_task svc env st seen looked db i0 = (res, st', db')"
    and ok: "queue_ok (td_tasks db)" and seen: "kept (td_tasks seen) (td_tasks db)" and looked: "kept (td_tasks looked) (td_tasks db)"
  shows "tk_change db db'"
  using assms(1)
proof (cases rule: transition_task_cases)
  case (asked p run task i1 i sp role a decision cid lookup r)
  let ?t = "proposed_task_transition env p task i sp role a decision cid lookup"
  note sp = checked_task_spec_Ok [OF asked(4)]
  from asked(5) show ?thesis
  proof (cases rule: repo_TransitionWorkflowTask_cases)
    case (moved row current db1 db2 updated)
    have id: "tt_TaskID ?t = tx_TaskID i1"
      using asked(2) by (auto simp: proposed_task_transition_def elim: getWorkflowTask_Ok)
    have row: "row \<in> set (td_tasks db)" "tk_ID row = tx_TaskID i1" "tk_State row = tk_State task" "tk_Version row = tk_Version current"
      using moved(2) moved(1,4) find_row_SomeD [OF moved(1)] id by (auto simp: proposed_task_transition_def elim: getWorkflowTask_Ok)
    have same: "tk_WorkflowID row = tk_WorkflowID task" "workflowTaskTransition row (tx_EventType i1) = Some sp"
      using kept_task [OF seen ok asked(2) moved(1) [unfolded id] row(3)] sp(1) by simp_all
    let ?row' = "moved_task env ?t row" and ?e = "logged_task_event env ?t current"
    have e: "te_EventType ?e = tx_EventType i1" "te_TaskID ?e = tk_ID row" "te_FromState ?e = tk_State row" "te_ToState ?e = ts_to sp"
      "te_Sequence ?e = tk_Version row + 1" "te_ActorRole ?e = role" "te_Provider ?e = tx_Provider i1" "te_Model ?e = tx_Model i1"
      using asked(7) id row by (simp_all add: logged_task_event_def proposed_task_transition_def proposed_task_event_def)
    have r: "tk_State ?row' = ts_to sp" "tk_Version ?row' = tk_Version row + 1" by (simp_all add: moved_task_def proposed_task_transition_def)
    have later: "task_later row ?row'"
      using workflowTaskTransition_states(1,3) [OF same(2)] asked(9)
      by (intro moved_task_later) (auto simp: proposed_task_transition_def no_lookup_def)
    have head: "is_head (td_tasks db) row" if "tx_EventType i1 = ''TASK_ACTIVATED''"
      using asked(8) that workflowTaskTransition_states(3) [OF same(2)] kept_head [OF looked ok _ _ row(1)] id row(2)
      by (auto simp: proposed_task_transition_def)
    have move: "queue_move (td_tasks db) (te_EventType ?e) row ?row'"
      using row(1) later same(2) r(1) head e(1) by (simp add: queue_move_def)
    have "row\<lparr>tk_State := te_FromState ?e\<rparr> = row" using e(3) by simp
    then have "by_table row ?e" using same(2) e sp(2,4) by (auto simp: by_table_def)
    with move moved(13,14) e r show ?thesis unfolding tk_change_def by metis
  qed (simp_all add: tk_change_def)
qed (simp add: tk_change_def)

lemma tk_step_change:
  assumes "tk_inv h" "tk_step h h'"
  obtains db' where "h' = db' # h" "tk_change (hd h) db'"
  using assms(2,1)
proof (cases rule: tk_step.cases)
  case (tk_transition seen looked svc env st i moved st' db')
  then show ?thesis using that assms(1) transition_task_change unfolding tk_inv_def by blast
qed (use that submit_task_change repo_RecordTaskContext_change in \<open>auto simp: tk_change_def\<close>)

interpretation tk: history_system tk_start tk_step tk_inv tk_later
proof
  fix h
  assume "tk_start h"
  then show "tk_inv h"
    by (auto simp: tk_start_def tk_inv_def queue_ok_def logs_ok_def one_active_def fifo_def kept_def)
next
  fix h h'
  assume inv: "tk_inv h" and "tk_step h h'"
  then obtain db' where db': "h' = db' # h" "tk_change (hd h) db'" by (rule tk_step_change)
  note ok = tk_change_ok [OF db'(2)]
  show "tk_inv h'" using ok inv kept_refl kept_trans unfolding tk_inv_def db'(1) by (metis list.sel(1) list.discI set_ConsD)
  show "tk_later h h'" using ok inv unfolding tk_inv_def tk_later_def db'(1) by simp
next
  fix h
  show "tk_later h h" by (simp add: tk_later_def kept_refl)
next
  fix a b c
  assume "tk_later a b" "tk_later b c"
  then show "tk_later a c" unfolding tk_later_def by (blast intro: kept_trans prefix_order.trans)
qed

section \<open>Service calls as sequences of steps\<close>

text \<open>What other calls make of the database between two reads of a call is itself a sequence of steps.\<close>

definition other_calls :: "(nat \<Rightarrow> task_db \<Rightarrow> task_db) \<Rightarrow> bool" where
  "other_calls between \<longleftrightarrow> (\<forall>k h. \<exists>h'. tk_step\<^sup>*\<^sup>* h h' \<and> hd h' = between k (hd h))"

lemma tk_step_shape: "tk_step h h' \<Longrightarrow> \<exists>db. h' = db # h"
  by (auto elim: tk_step.cases)

lemma tk_steps_old: "tk_step\<^sup>*\<^sup>* h h' \<Longrightarrow> set h \<subseteq> set h'"
  by (induction rule: rtranclp_induct) (use tk_step_shape in fastforce)+

lemma tk_steps_hd: "tk_step\<^sup>*\<^sup>* h h' \<Longrightarrow> h \<noteq> [] \<Longrightarrow> hd h' \<in> set h'"
  by (induction rule: rtranclp_induct) (auto dest: tk_step_shape)

lemma other_call:
  assumes "other_calls between" "h \<noteq> []"
  obtains h' where "tk_step\<^sup>*\<^sup>* h h'" "hd h' = between k (hd h)" "h' \<noteq> []" "set h \<subseteq> set h'" "hd h' \<in> set h'"
proof -
  obtain h' where h': "tk_step\<^sup>*\<^sup>* h h'" "hd h' = between k (hd h)" using assms(1) unfolding other_calls_def by blast
  then show ?thesis using that tk_steps_old tk_steps_hd assms(2) by fastforce
qed

lemma transition_task_step:
  "transition_task svc env st seen looked (hd h) i = (r, st', db') \<Longrightarrow> seen \<in> set h \<Longrightarrow> looked \<in> set h \<Longrightarrow> tk_step\<^sup>*\<^sup>* h (db' # h)"
  by (blast intro: tk_transition)

lemma activate_steps:
  assumes between: "other_calls between" and h: "h \<noteq> []" and call: "activateWorkflowQueueHead svc env st between (hd h) wid = (r, st', db')"
  obtains h' where "tk_step\<^sup>*\<^sup>* h h'" "hd h' = db'" "h' \<noteq> []"
proof -
  obtain h0 where h0: "tk_step\<^sup>*\<^sup>* h h0" "hd h0 = between 0 (hd h)" "h0 \<noteq> []" using between h by (rule other_call)
  obtain h1 where h1: "tk_step\<^sup>*\<^sup>* h0 h1" "hd h1 = between 1 (hd h0)" "h1 \<noteq> []" "hd h1 \<in> set h1" using between h0(3) by (rule other_call)
  obtain h2 where h2: "tk_step\<^sup>*\<^sup>* h1 h2" "hd h2 = between 2 (hd h1)" "h2 \<noteq> []" "set h1 \<subseteq> set h2" "hd h2 \<in> set h2" using between h1(3) by (rule other_call)
  obtain h3 where h3: "tk_step\<^sup>*\<^sup>* h2 h3" "hd h3 = between 3 (hd h2)" "h3 \<noteq> []" "set h2 \<subseteq> set h3" using between h2(3) by (rule other_call)
  have to3: "tk_step\<^sup>*\<^sup>* h h3" using h0(1) h1(1) h2(1) h3(1) by (meson rtranclp_trans)
  show ?thesis
  proof (cases "GetActivatableWorkflowTask (hd h0) wid")
    case None
    then have "db' = hd h0" using call h0(2) by (simp add: activateWorkflowQueueHead_def Let_def)
    then show ?thesis using that h0 by blast
  next
    case (Some head)
    obtain out s1 d where out: "transition_task svc env st (hd h1) (hd h2) (hd h3) (activation_input head) = (out, s1, d)" by (metis prod_cases3)
    then have commit: "tk_step\<^sup>*\<^sup>* h (d # h3)"
      using transition_task_step to3 h1(4) h2(4,5) h3(4) by (meson rtranclp_trans subsetD)
    obtain h4 where h4: "tk_step\<^sup>*\<^sup>* (d # h3) h4" "hd h4 = between 4 (hd (d # h3))" "h4 \<noteq> []"
      by (rule other_call [OF between, of "d # h3" 4]) simp_all
    have "db' = d \<or> db' = hd h4"
      using call Some out h0(2) h1(2) h2(2) h3(2) h4(2)
      by (auto simp: activateWorkflowQueueHead_def Let_def split: sum.splits if_split_asm)
    then show ?thesis using that commit h4 by (metis rtranclp_trans list.sel(1) list.discI)
  qed
qed

lemma TransitionWorkflowTask_steps:
  assumes "other_calls between" "seen \<in> set h" "looked \<in> set h" "TransitionWorkflowTask svc env st seen looked (hd h) between i = (r, st', db')"
  obtains h' where "tk_step\<^sup>*\<^sup>* h h'" "hd h' = db'"
proof -
  obtain out s1 d where out: "transition_task svc env st seen looked (hd h) i = (out, s1, d)" by (metis prod_cases3)
  note commit = transition_task_step [OF out assms(2,3)]
  obtain r1 s2 d1 where act: "activateWorkflowQueueHead svc (sub_env 1 env) s1 between (hd (d # h)) (tk_WorkflowID (fst (fst (projr out)))) = (r1, s2, d1)"
    by (metis prod_cases3)
  obtain h' where h': "tk_step\<^sup>*\<^sup>* (d # h) h'" "hd h' = d1" by (rule activate_steps [OF assms(1) _ act]) simp_all
  have "db' = d \<or> db' = d1"
    using assms(4) out act by (auto simp: TransitionWorkflowTask_def split: sum.splits if_split_asm)
  then show ?thesis using that commit h' by (metis rtranclp_trans list.sel(1))
qed

section \<open>Properties\<close>

lemma reach_tk_inv: "reach tk_start tk_step h \<Longrightarrow> tk_inv h"
  by (rule tk.reach_inv)

text \<open>
  A call that begins a task, with whatever other calls do while it runs, is a sequence of steps of the task machine, so that what holds of the
  reachable histories holds under every interleaving of whole service calls.
\<close>

theorem begin_task_refines:
  assumes "reach tk_start tk_step h" "other_calls between" "seen \<in> set h" "BeginWorkflowTask svc env st seen (hd h) between i = (r, st', db')"
  shows "\<exists>h'. reach tk_start tk_step h' \<and> tk_step\<^sup>*\<^sup>* h h' \<and> hd h' = db'"
proof -
  obtain out s1 d where out: "submit_task svc env st seen (hd h) i = (out, s1, d)" by (metis prod_cases3)
  have commit: "tk_step\<^sup>*\<^sup>* h (d # h)" using tk_submit [OF assms(3) out] by blast
  obtain r1 s2 d1 where act: "activateWorkflowQueueHead svc (sub_env 1 env) s1 between (hd (d # h)) (tk_WorkflowID (fst (projr out))) = (r1, s2, d1)"
    by (metis prod_cases3)
  obtain h' where h': "tk_step\<^sup>*\<^sup>* (d # h) h'" "hd h' = d1" by (rule activate_steps [OF assms(2) _ act]) simp_all
  have "db' = d \<or> db' = d1"
    using assms(4) out act by (auto simp: BeginWorkflowTask_def split: sum.splits option.splits)
  then obtain h'' where "tk_step\<^sup>*\<^sup>* h h''" "hd h'' = db'" using commit h' by (metis rtranclp_trans list.sel(1))
  then show ?thesis using reach_steps [OF _ assms(1)] by blast
qed

text \<open>
  C19: In every reachable history, whatever stale states the calls have read, at most one task of a workflow holds the queue, and a task left
  the queue only after every task submitted before it, unless it was rejected.
\<close>

theorem queue_discipline:
  assumes "reach tk_start tk_step h" "a \<in> set (td_tasks (hd h))" "b \<in> set (td_tasks (hd h))" "tk_WorkflowID a = tk_WorkflowID b"
  shows "(task_active a \<and> task_active b \<longrightarrow> a = b)
    \<and> (tk_Ordinal a < tk_Ordinal b \<and> tk_State b \<noteq> ''queued'' \<and> tk_State b \<noteq> ''rejected'' \<longrightarrow> tk_State a \<noteq> ''queued'')"
  using reach_tk_inv [OF assms(1)] assms(2-) unfolding tk_inv_def queue_ok_def one_active_def fifo_def by blast

text \<open>
  C25: The log of a task is a path of the transition table from the queue to the state of its row, numbered without gaps up to the version
  of the row. Every event was made by a role the table allows, with the provider it asks for.
\<close>

theorem task_log_follows_table:
  assumes "reach tk_start tk_step h" "t \<in> set (td_tasks (hd h))"
  shows "log_ok t (task_log (td_events (hd h)) (tk_ID t))"
  using reach_tk_inv [OF assms(1)] assms(2) by (simp add: tk_inv_def logs_ok_def)

lemma table_to_review:
  assumes "by_table row e" "te_ToState e = ''cloud_review_required''" "tk_ExecutionMode row = ''manual''"
  shows "te_EventType e = ''CLOUD_REVIEW_APPROVED'' \<and> te_ActorRole e = ''product_owner'' \<and> te_FromState e = ''review_approval_required''"
  using assms by (auto simp: by_table_def workflowTaskTransition_def Let_def evidenced_def tspec_def split: if_split_asm)

lemma table_to_approval:
  assumes "by_table row e" "te_ToState e = ''review_approval_required''"
  shows "te_EventType e = ''LOCAL_RESULT_RECORDED'' \<and> te_Provider e = ''ollama'' \<and> tk_Route row = ''rag_miss_cloud_review''"
  using assms by (auto simp: by_table_def workflowTaskTransition_def Let_def evidenced_def tspec_def split: if_split_asm)

lemma table_review:
  assumes "by_table row e" "te_EventType e = ''CLOUD_REVIEW_RECORDED''"
  shows "te_FromState e = ''cloud_review_required''"
  using assms by (auto simp: by_table_def workflowTaskTransition_def Let_def split: if_split_asm)

lemma log_before:
  assumes "log_ok t (xs @ e # ys)" "te_EventType e \<noteq> ''TASK_QUEUED'' \<or> te_ToState e \<noteq> ''queued''"
  obtains ws p where "xs = ws @ [p]" "te_ToState p = te_FromState e" "by_table t e"
proof (cases xs rule: rev_cases)
  case (snoc ws p)
  then have "log_step t p e" using assms(1) by (simp add: log_ok_def successively_append_iff)
  then show ?thesis using that snoc by (simp add: log_step_def)
qed (use assms in \<open>simp add: log_ok_def\<close>)

text \<open>
  A task in manual mode is sent to the cloud only after a product owner approved it: the event before its recorded cloud review is that
  approval, and the one before that is the result of the local model on a route that knows no reusable knowledge.
\<close>

theorem manual_review_is_approved:
  assumes "reach tk_start tk_step h" "t \<in> set (td_tasks (hd h))" "tk_ExecutionMode t = ''manual''"
    and "task_log (td_events (hd h)) (tk_ID t) = xs @ e # ys" "te_EventType e = ''CLOUD_REVIEW_RECORDED''"
  shows "\<exists>ws l p. xs = ws @ [l, p] \<and> te_EventType p = ''CLOUD_REVIEW_APPROVED'' \<and> te_ActorRole p = ''product_owner''
    \<and> te_EventType l = ''LOCAL_RESULT_RECORDED'' \<and> te_Provider l = ''ollama'' \<and> tk_Route t = ''rag_miss_cloud_review''"
proof -
  have log: "log_ok t (xs @ e # ys)" using reach_tk_inv [OF assms(1)] assms(2,4) by (metis tk_inv_def logs_ok_def)
  obtain us p where p: "xs = us @ [p]" "te_ToState p = te_FromState e" "by_table t e" by (rule log_before [OF log]) (simp_all add: assms(5))
  have review: "te_ToState p = ''cloud_review_required''" using p table_review assms(5) by metis
  have log': "log_ok t (us @ p # e # ys)" using log p(1) by simp
  obtain ws l where l: "us = ws @ [l]" "te_ToState l = te_FromState p" "by_table t p" by (rule log_before [OF log']) (simp_all add: review)
  note p_approves = table_to_review [OF l(3) review assms(3)]
  have log'': "log_ok t (ws @ l # p # e # ys)" using log' l(1) by simp
  obtain vs k where "by_table t l" by (rule log_before [OF log'']) (simp_all add: l(2) p_approves)
  then show ?thesis using table_to_approval [of t l] p_approves p(1) l(1,2) by simp
qed

text \<open>The table has no way out of a blocked task, which still holds the queue.\<close>

lemma blocked_stays:
  assumes "tk_change db db'" "queue_ok (td_tasks db)" "a \<in> set (td_tasks db)" "tk_State a = ''blocked''"
  shows "a \<in> set (td_tasks db')"
  using assms(1) unfolding tk_change_def
proof (elim disjE exE conjE)
  fix row row' e
  assume move: "queue_move (td_tasks db) (te_EventType e) row row'" and tasks: "td_tasks db' = put_row tk_ID row' (td_tasks db)"
  have "row \<noteq> a" using move assms(4) by (auto simp: queue_move_def workflowTaskTransition_def)
  then show ?thesis using assms(3) unfolding tasks queue_move_set [OF assms(2) move] by simp
qed (use assms(3) in simp_all)

lemma blocked_forever:
  assumes "tk_step\<^sup>*\<^sup>* h h'" "tk_inv h" "a \<in> set (td_tasks (hd h))" "tk_State a = ''blocked''"
  shows "a \<in> set (td_tasks (hd h'))"
  using assms(1)
proof (induction rule: rtranclp_induct)
  case (step x y)
  have inv: "tk_inv x" using step.hyps(1) assms(2) by (rule tk.steps_inv)
  obtain db' where "y = db' # x" "tk_change (hd x) db'" using inv step.hyps(2) by (rule tk_step_change)
  then show ?case using blocked_stays [OF _ _ step.IH assms(4)] inv by (simp add: tk_inv_def)
qed (use assms(3) in simp)

text \<open>
  C26: A task whose cloud review was rejected is blocked for good, and while it is there no other task of its workflow is ever active: the
  queue stands still in every later state.
\<close>

theorem blocked_task_stalls_queue:
  assumes "reach tk_start tk_step h" "tk_step\<^sup>*\<^sup>* h h'" "a \<in> set (td_tasks (hd h))" "tk_State a = ''blocked''"
    and "b \<in> set (td_tasks (hd h'))" "tk_WorkflowID b = tk_WorkflowID a" "b \<noteq> a"
  shows "a \<in> set (td_tasks (hd h')) \<and> tk_State b \<in> {''queued'', ''completed'', ''rejected''} \<and> GetActivatableWorkflowTask (hd h') (tk_WorkflowID a) = None"
proof -
  have inv: "tk_inv h" using assms(1) by (rule reach_tk_inv)
  have a: "a \<in> set (td_tasks (hd h'))" using assms(2) inv assms(3,4) by (rule blocked_forever)
  have "tk_inv h'" using assms(2) inv by (rule tk.steps_inv)
  then have "one_active (td_tasks (hd h'))" by (simp add: tk_inv_def queue_ok_def)
  moreover have active: "task_active a" using assms(4) by (simp add: task_active_def)
  ultimately have "\<not> task_active b" using a assms(5-) unfolding one_active_def by metis
  moreover have "GetActivatableWorkflowTask (hd h') (tk_WorkflowID a) = None"
  proof (rule ccontr)
    assume "GetActivatableWorkflowTask (hd h') (tk_WorkflowID a) \<noteq> None"
    then obtain t where "GetActivatableWorkflowTask (hd h') (tk_WorkflowID a) = Some t" by blast
    then obtain row where "is_head (td_tasks (hd h')) row" "tk_WorkflowID row = tk_WorkflowID a" by (rule GetActivatable_head)
    with a active show False by (auto simp: is_head_def)
  qed
  ultimately show ?thesis using a by (simp add: task_active_def)
qed

text \<open>The evidence of a completion, as the transaction that commits it leaves it behind.\<close>

lemma completion_evidence_Ok:
  assumes "completion_evidence env db task t = Inr db'" "tt_ResultingState t = ''completed''"
  shows "task_validated (env_db_now env) db' task" "\<forall>u \<in> set (used_rows db' task). \<not> used_invalid (env_db_now env) db' task u"
proof -
  have "verifyTaskContextCompletion env db' task (te_EventType (tt_Event t) = ''VALIDATED_REUSE_COMPLETED'') = None"
    using assms unfolding completion_evidence_def by (simp split: sum.splits option.splits)
  then show "task_validated (env_db_now env) db' task" "\<forall>u \<in> set (used_rows db' task). \<not> used_invalid (env_db_now env) db' task u"
    unfolding verifyTaskContextCompletion_def by (simp_all add: list_ex_iff split: if_split_asm)
qed

lemma task_validated_row:
  assumes "task_validated now db task"
  obtains l v k where "l \<in> set (td_validated db)" "tv_TaskID l = tk_ID task" "find_row kv_ID (tv_ValidationID l) (k_validations (td_k db)) = Some v"
    "find_row ki_ID (kv_KnowledgeID v) (k_items (td_k db)) = Some k" "ki_ID k = tk_CandidateID task" "kv_Method v = ''workpacket''" "kv_Verdict v = ''pass''"
    "kv_CandidateVersion v = ki_Version k" "now < kv_ValidUntil v"
proof -
  obtain l where l: "l \<in> set (td_validated db)" "tv_TaskID l = tk_ID task"
    and "\<exists>v k. find_row kv_ID (tv_ValidationID l) (k_validations (td_k db)) = Some v \<and> find_row ki_ID (kv_KnowledgeID v) (k_items (td_k db)) = Some k
      \<and> kv_KnowledgeID v = tk_CandidateID task \<and> kv_Method v = ''workpacket'' \<and> kv_Verdict v = ''pass'' \<and> kv_CandidateVersion v = ki_Version k
      \<and> now < kv_ValidUntil v"
    using assms unfolding task_validated_def list_ex_iff by (elim bexE conjE) (simp split: option.split_asm)
  then obtain v k where vk: "find_row kv_ID (tv_ValidationID l) (k_validations (td_k db)) = Some v" "find_row ki_ID (kv_KnowledgeID v) (k_items (td_k db)) = Some k"
    "kv_KnowledgeID v = tk_CandidateID task" "kv_Method v = ''workpacket''" "kv_Verdict v = ''pass''" "kv_CandidateVersion v = ki_Version k" "now < kv_ValidUntil v"
    by blast
  then show ?thesis using that [OF l vk(1,2)] find_row_SomeD [OF vk(2)] by simp
qed

lemma used_current:
  assumes "\<forall>u \<in> set (used_rows db task). \<not> used_invalid now db task u" "u \<in> set (td_used db)" "ur_TaskID u = tk_ID task"
    "find_row ki_ID (uc_KnowledgeID u) (k_items (td_k db)) = Some k"
  shows "ki_Version k = uc_Version u \<and> kr_Approval k = Some (ur_ValidationID u) \<and> knowledge_eligible now (td_k db) k ''code_change''"
proof -
  have "u \<in> set (used_rows db task)" using assms(2-) by (simp add: used_rows_def)
  with assms(1) have "\<not> used_invalid now db task u" by blast
  then show ?thesis using assms(4) unfolding used_invalid_def by simp
qed

text \<open>
  C20: A call that completes a task leaves behind a validation recorded for that task: an executed work packet that passed for the current version
  of the task's candidate and is still in force. Every knowledge item the task used is still the version it used, under the approval it
  was used with, and still eligible for changing code.
\<close>

theorem completed_task_is_validated:
  assumes "transition_task svc env st seen looked db i = (Inr ((task, ev), finished), st', db')" "te_ToState ev = ''completed''" "db' \<noteq> db"
    and "getWorkflowTask db (te_TaskID ev) = Inr current"
  shows "(\<exists>l \<in> set (td_validated db'). \<exists>v k. tv_TaskID l = te_TaskID ev \<and> find_row kv_ID (tv_ValidationID l) (k_validations (td_k db')) = Some v
       \<and> find_row ki_ID (tk_CandidateID current) (k_items (td_k db')) = Some k \<and> kv_KnowledgeID v = ki_ID k \<and> kv_CandidateVersion v = ki_Version k
       \<and> kv_Method v = ''workpacket'' \<and> kv_Verdict v = ''pass'' \<and> env_db_now env < kv_ValidUntil v)
    \<and> (\<forall>u \<in> set (td_used db'). \<forall>k. ur_TaskID u = te_TaskID ev \<and> find_row ki_ID (uc_KnowledgeID u) (k_items (td_k db')) = Some k
       \<longrightarrow> ki_Version k = uc_Version u \<and> kr_Approval k = Some (ur_ValidationID u) \<and> knowledge_eligible (env_db_now env) (td_k db') k ''code_change'')"
  using assms(1)
proof (cases rule: transition_task_cases)
  case (asked p run seen_task i1 i2 sp role a decision cid lookup r)
  let ?t = "proposed_task_transition env p seen_task i2 sp role a decision cid lookup"
  have r: "r = Inr (task, ev)" using asked(6) by (auto split: sum.splits)
  from asked(5) show ?thesis
  proof (cases rule: repo_TransitionWorkflowTask_cases)
    case (repeated old task)
    then show ?thesis using assms(3) by simp
  next
    case (moved row task' db1 db2 updated)
    then have ev: "ev = logged_task_event env ?t task'" using r by simp
    have "tt_ResultingState ?t = ''completed''" "task' = current"
      using assms(2,4) moved(2) by (auto simp: ev logged_task_event_def)
    note evidence = completion_evidence_Ok [OF moved(9) this(1), unfolded this(2)]
    have id: "tk_ID current = te_TaskID ev" using assms(4) by (auto elim: getWorkflowTask_Ok)
    have same: "used_rows db2 current = used_rows db' current" "\<And>u. used_invalid now db2 current u = used_invalid now db' current u" for now
      unfolding used_rows_def used_invalid_def moved(10) moved(12) by simp_all
    have "\<exists>l \<in> set (td_validated db'). \<exists>v k. tv_TaskID l = te_TaskID ev \<and> find_row kv_ID (tv_ValidationID l) (k_validations (td_k db')) = Some v
       \<and> find_row ki_ID (tk_CandidateID current) (k_items (td_k db')) = Some k \<and> kv_KnowledgeID v = ki_ID k \<and> kv_CandidateVersion v = ki_Version k
       \<and> kv_Method v = ''workpacket'' \<and> kv_Verdict v = ''pass'' \<and> env_db_now env < kv_ValidUntil v"
    proof -
      obtain l v k where l: "l \<in> set (td_validated db2)" "tv_TaskID l = tk_ID current" and v: "find_row kv_ID (tv_ValidationID l) (k_validations (td_k db2)) = Some v"
        and k: "find_row ki_ID (kv_KnowledgeID v) (k_items (td_k db2)) = Some k" "ki_ID k = tk_CandidateID current"
        and ok: "kv_Method v = ''workpacket''" "kv_Verdict v = ''pass''" "kv_CandidateVersion v = ki_Version k" "env_db_now env < kv_ValidUntil v"
        using evidence(1) by (rule task_validated_row)
      have "kv_KnowledgeID v = ki_ID k" using find_row_SomeD [OF k(1)] by simp
      with l v k ok id moved(11,12) show ?thesis by (intro bexI [of _ l] exI [of _ v] exI [of _ k]) simp_all
    qed
    with used_current [OF evidence(2) [unfolded same]] id show ?thesis by simp
  qed (use r in simp)
qed simp

end
