(* ===== verification/TaskExamples.thy ===== *)
theory TaskExamples
  imports TaskProps WorkflowExamples
begin

text \<open>
  Concrete task queues: two tasks of one workflow, the first driven to its cloud review and one completed with reused knowledge. They
  are the instances at which the properties of \<open>TaskProps\<close> are applied.
\<close>

section \<open>Permitted calls commit\<close>

definition task_joins :: "task_db \<Rightarrow> workflow_task \<Rightarrow> bool" where
  "task_joins db t \<longleftrightarrow> find_row wf_ID (tk_WorkflowID t) (wf_runs (td_wf db)) \<noteq> None \<and> joined_artifact db (tk_RequestArtifact t) \<noteq> None"

lemma getWorkflowTask_row:
  assumes "find_row tk_ID tid (td_tasks db) = Some row" "task_joins db row" "find_row wf_ID (tk_WorkflowID row) (wf_runs (td_wf db)) = Some run"
  shows "\<exists>a l. getWorkflowTask db tid = Inr (row\<lparr>tk_ProjectID := wf_ProjectID run, tk_RequestArtifact := a, tk_LookupArtifact := l\<rparr>)"
proof -
  obtain a where "joined_artifact db (tk_RequestArtifact row) = Some a" using assms(2) by (auto simp: task_joins_def)
  with assms show ?thesis unfolding getWorkflowTask_def scanWorkflowTask_def by (simp only: option.case prod.case sum.case) blast
qed

lemma insert_artifact_found:
  "find_row art_SHA256 d rows \<noteq> None \<Longrightarrow> find_row art_SHA256 d (insert_artifact a rows) \<noteq> None"
  "find_row art_SHA256 (art_SHA256 a) (insert_artifact a rows) \<noteq> None"
  by (auto simp: insert_artifact_def find_row_append split: option.split)

lemma add_artifact_wf [simp]:
  "wf_runs (td_wf (add_artifact a db)) = wf_runs (td_wf db)" "wf_policies (td_wf (add_artifact a db)) = wf_policies (td_wf db)"
  by (simp_all add: add_artifact_def split: option.split)

lemma add_artifact_joins: "task_joins db t \<Longrightarrow> task_joins (add_artifact a db) t"
  using insert_artifact_found(1) by (auto simp: task_joins_def joined_artifact_def add_artifact_def split: option.split)

definition same_surroundings :: "task_db \<Rightarrow> task_db \<Rightarrow> bool" where
  "same_surroundings db db' \<longleftrightarrow> wf_runs (td_wf db') = wf_runs (td_wf db) \<and> wf_policies (td_wf db') = wf_policies (td_wf db) \<and> td_k db' = td_k db
     \<and> (\<forall>t. task_joins db t \<longrightarrow> task_joins db' t)"

lemma CreateWorkflowTask_commits:
  assumes "find_row wf_ID (tk_WorkflowID task) (wf_runs (td_wf db)) = Some run"
    and fresh: "\<forall>t \<in> set (td_tasks db). tk_ID t \<noteq> tk_ID task \<and> tk_TaskKey t \<noteq> tk_TaskKey task" "\<forall>e \<in> set (td_events db). te_ID e \<noteq> te_ID event"
  shows "\<exists>out db'. CreateWorkflowTask env db task event = (Inr out, db') \<and> same_surroundings db db'
    \<and> tk_WorkflowID (fst out) = tk_WorkflowID task
    \<and> td_tasks db' = td_tasks db @ [inserted_task env task (next_ordinal (td_tasks db) (tk_WorkflowID task))]
    \<and> td_events db' = td_events db @ [inserted_task_event env task event]
    \<and> task_joins db' (inserted_task env task (next_ordinal (td_tasks db) (tk_WorkflowID task)))"
proof -
  let ?n = "inserted_task env task (next_ordinal (td_tasks db) (tk_WorkflowID task))" and ?e = "inserted_task_event env task event"
  let ?db = "(add_artifact (Some (tk_RequestArtifact task)) db)\<lparr>td_tasks := td_tasks db @ [?n], td_events := td_events db @ [?e]\<rparr>"
  have n: "tk_ID ?n = tk_ID task" "tk_WorkflowID ?n = tk_WorkflowID task" "tk_RequestArtifact ?n = tk_RequestArtifact task"
    by (simp_all add: inserted_task_def)
  have none: "find_row tk_ID (tk_ID task) (td_tasks db) = None" "find_row te_ID (te_ID event) (td_events db) = None"
    "find (\<lambda>t. tk_WorkflowID t = tk_WorkflowID task \<and> tk_TaskKey t = tk_TaskKey task) (td_tasks db) = None"
    "\<not> list_ex (\<lambda>t. tk_WorkflowID t = tk_WorkflowID task \<and> tk_TaskKey t = tk_TaskKey task) (td_tasks db)"
    using fresh by (auto simp: find_row_def find_None_iff list_ex_iff)
  have joins: "task_joins ?db ?n"
    using assms(1) insert_artifact_found(2) by (auto simp: task_joins_def n joined_artifact_def add_artifact_def)
  have "find_row tk_ID (tk_ID task) (td_tasks ?db) = Some ?n" using none(1) n(1) by (simp add: find_row_append)
  then obtain a l where got: "getWorkflowTask ?db (tk_ID task) = Inr (?n\<lparr>tk_ProjectID := wf_ProjectID run, tk_RequestArtifact := a, tk_LookupArtifact := l\<rparr>)"
    using getWorkflowTask_row [of "tk_ID task" ?db ?n run] joins assms(1) n(2) by auto
  have "same_surroundings db ?db"
    using add_artifact_joins by (auto simp: same_surroundings_def task_joins_def joined_artifact_def)
  then show ?thesis using assms(1) none got joins n
    by (simp add: CreateWorkflowTask_def scanWorkflowTask_def)
qed

lemma repo_TransitionWorkflowTask_commits:
  assumes row: "find_row tk_ID (tt_TaskID t) (td_tasks db) = Some row" and joins: "task_joins db row"
    and expected: "tk_Version row = tt_ExpectedVersion t" "tk_State row = tt_ExpectedState t"
    and event: "te_EventType (tt_Event t) \<noteq> ''VALIDATION_PASSED''" "te_EventType (tt_Event t) \<noteq> ''VALIDATED_REUSE_COMPLETED''"
      "tt_ResultingState t \<noteq> ''completed''"
    and fresh: "\<forall>e \<in> set (td_events db). te_IdempotencyKey e \<noteq> te_IdempotencyKey (tt_Event t) \<and> te_ID e \<noteq> te_ID (tt_Event t)
      \<and> te_Sequence e \<noteq> tk_Version row + 1"
    and alone: "\<forall>x \<in> set (td_tasks db). tk_ID x \<noteq> tk_ID row \<longrightarrow> tk_CandidateID x \<noteq> overwrite (tt_CandidateID t) (tk_CandidateID row)"
  shows "\<exists>updated ev db'. repo_TransitionWorkflowTask env db t = (Inr (updated, ev), db') \<and> same_surroundings db db'
    \<and> td_tasks db' = put_row tk_ID (moved_task env t row) (td_tasks db) \<and> td_events db' = td_events db @ [ev]
    \<and> ev = (tt_Event t)\<lparr>te_TaskID := tt_TaskID t, te_Sequence := tk_Version row + 1, te_FromState := tt_ExpectedState t,
       te_ToState := tt_ResultingState t, te_CreatedAt := env_db_now env\<rparr> \<and> task_joins db' (moved_task env t row)"
proof -
  obtain run where run: "find_row wf_ID (tk_WorkflowID row) (wf_runs (td_wf db)) = Some run" using joins by (auto simp: task_joins_def)
  obtain a l where task: "getWorkflowTask db (tt_TaskID t) = Inr (row\<lparr>tk_ProjectID := wf_ProjectID run, tk_RequestArtifact := a, tk_LookupArtifact := l\<rparr>)"
    using getWorkflowTask_row [OF row joins run] by blast
  let ?task = "row\<lparr>tk_ProjectID := wf_ProjectID run, tk_RequestArtifact := a, tk_LookupArtifact := l\<rparr>"
  let ?db1 = "add_artifact (tt_LookupArtifact t) (add_artifact (te_EvidenceArtifact (tt_Event t)) db)"
  let ?row = "moved_task env t row" and ?ev = "logged_task_event env t ?task"
  let ?db = "?db1\<lparr>td_tasks := put_row tk_ID ?row (td_tasks db), td_events := td_events db @ [?ev]\<rparr>"
  have id: "tk_ID ?row = tk_ID row" "tk_ID row = tt_TaskID t" using find_row_SomeD [OF row] by (simp_all add: moved_task_def)
  have evidence: "completion_evidence env ?db1 ?task t = Inr ?db1" using event by (simp add: completion_evidence_def)
  have none: "find (\<lambda>e. te_TaskID e = tt_TaskID t \<and> te_IdempotencyKey e = te_IdempotencyKey (tt_Event t)) (td_events db) = None"
    "find_row te_ID (te_ID ?ev) (td_events db) = None"
    "\<not> list_ex (\<lambda>e. te_TaskID e = tt_TaskID t \<and> te_Sequence e = te_Sequence ?ev) (td_events db)"
    using fresh by (auto simp: find_row_def find_None_iff list_ex_iff logged_task_event_def)
  have unique: "\<not> list_ex (\<lambda>x. tk_ID x \<noteq> tk_ID row \<and> tk_CandidateID x = tk_CandidateID ?row) (td_tasks db)"
    using alone by (auto simp: list_ex_iff moved_task_def)
  have joins': "task_joins ?db ?row"
    using add_artifact_joins [OF add_artifact_joins [OF joins]] by (simp add: task_joins_def joined_artifact_def moved_task_def)
  have found: "find_row tk_ID (tt_TaskID t) (td_tasks ?db) = Some ?row"
    using row id by (simp add: find_row_put)
  have "\<exists>u. getWorkflowTask ?db (tt_TaskID t) = Inr u"
    using getWorkflowTask_row [OF found joins', of run] run by (auto simp: moved_task_def)
  then obtain u where u: "getWorkflowTask ?db (tt_TaskID t) = Inr u" by blast
  have same: "same_surroundings db ?db"
    using add_artifact_joins by (auto simp: same_surroundings_def task_joins_def joined_artifact_def)
  have repo: "repo_TransitionWorkflowTask env db t = (Inr (u, ?ev), ?db)"
    using none task expected evidence row unique u by (simp add: repo_TransitionWorkflowTask_def Let_def)
  then show ?thesis using same joins' by (auto simp: logged_task_event_def)
qed

section \<open>A queue\<close>

definition tx_run :: workflow_run where
  "tx_run = \<lparr>wf_ID = ''w'', wf_ProjectID = ''p'', wf_Kind = ''software-development'', wf_State = ''intake'', wf_Version = 1, wf_Risk = ''low'',
     wf_DataClassification = ''internal'', wf_RequestArtifact = zero_artifact, wf_WorkPacketArtifact = None, wf_OpenClawFlowID = [],
     wf_IdempotencyKey = ''k'', wf_CreatedBy = ''o'', wf_ImplementedBy = [], wf_QAValidatedBy = [], wf_Metadata = ''{}'',
     wf_Governance = default_policy ''p'', wf_CreatedAt = 0, wf_UpdatedAt = 0, wf_TerminalAt = None\<rparr>"

definition tx_item :: knowledge_row where
  "tx_item = \<lparr>ki_ID = ''c'', ki_ProjectID = ''p'', ki_WorkflowID = ''w'', ki_WorkflowStepID = [], ki_Title = ''t'', ki_Problem = ''x'', ki_Summary = ''s'',
     ki_Content = ''x'', ki_Procedure = [''do''], ki_ValidationEvidence = [], ki_TaskType = [], ki_Language = [], ki_Tags = [], ki_Status = ''approved'',
     ki_SourceGenerationID = [], ki_Version = 1, ki_CreatedAt = utc 0, ki_ApprovedAt = utc 0, kr_Approval = Some ''v''\<rparr>"

definition tx_knowledge :: knowledge_db where
  "tx_knowledge =
     \<lparr>k_items = [tx_item],
      k_validations = [\<lparr>kv_ID = ''v'', kv_KnowledgeID = ''c'', kv_ProjectID = ''p'', kv_CandidateVersion = 1, kv_ContentSHA256 = Digest ''x'',
        kv_Method = ''workpacket'', kv_Verdict = ''pass'', kv_SourceManifestSHA256 = ''m'', kv_CompletedAt = 1, kv_ValidUntil = 100\<rparr>],
      k_sources = [\<lparr>ks_ValidationID = ''v'', ks_ManifestSHA256 = ''m'', ks_VerifiedAt = 1, ks_Valid = True, ks_Reason = []\<rparr>],
      k_policies = [\<lparr>qp_ProjectID = ''*'', qp_DataProduct = ''*'', qp_Purpose = ''*'', qp_Version = 1, qp_EffectiveAt = 0, qp_SourceMaxAge = 50,
        qp_ContentMaxAge = 50, qp_PatchMaxAge = 50, qp_RequiredMethod = ''workpacket'', qp_MaxContentBytes = 100\<rparr>],
      k_reviews = [\<lparr>rw_KnowledgeID = ''c'', rw_WorkflowID = ''w'', rw_Provider = ''openai'', rw_Model = ''m'', rw_ReviewSHA256 = ''r'', rw_ContextSHA256 = ''n''\<rparr>]\<rparr>"

definition tx_start :: task_db where
  "tx_start = \<lparr>td_wf = \<lparr>wf_runs = [tx_run], wf_events = [], wf_policies = [(''p'', default_policy ''p'')], wf_artifacts = []\<rparr>, td_k = tx_knowledge,
     td_principals = [], td_roles = [], td_tasks = [], td_events = [], td_used = [], td_validated = []\<rparr>"

definition tx_service :: task_service where
  "tx_service = \<lparr>tsv_Authorizer = demo_allow, tsv_Search = \<lambda>_ _ _ _ _. Inr ([], ''milvus'')\<rparr>"

definition tx_env :: "(nat \<Rightarrow> string) \<Rightarrow> call_env" where
  "tx_env ids = \<lparr>env_ctx = Some (demo_person ''o''), env_clock = (\<lambda>_. 7), env_db_now = 7, env_id = ids\<rparr>"

definition tx_begin :: "string \<Rightarrow> begin_task_input" where
  "tx_begin key = \<lparr>bt_WorkflowID = ''w'', bt_TaskKey = key, bt_Title = ''t'', bt_TaskType = [], bt_ExecutionMode = ''manual'', bt_RAGQuery = ''q'',
     bt_MatchThreshold = defaultTaskMatchThreshold, bt_IdempotencyKey = ''k''\<rparr>"

lemmas tx_world = tx_run_def tx_service_def tx_env_def tx_begin_def demo_person_def demo_allow_def demo_store_def

lemma tx_begin_fields [simp]:
  "bt_WorkflowID (tx_begin key) = ''w''" "bt_TaskKey (tx_begin key) = key" "bt_Title (tx_begin key) = ''t''" "bt_ExecutionMode (tx_begin key) = ''manual''"
  "bt_RAGQuery (tx_begin key) = ''q''" "bt_IdempotencyKey (tx_begin key) = ''k''" "bt_MatchThreshold (tx_begin key) = defaultTaskMatchThreshold"
  "f_Value defaultTaskMatchThreshold = 3 / 4"
  by (simp_all add: tx_begin_def defaultTaskMatchThreshold_def)

lemma tx_run_fields [simp]: "wf_ID tx_run = ''w''" "wf_ProjectID tx_run = ''p''" "\<not> terminalState (wf_State tx_run)"
  "wf_Kind tx_run = ''software-development''" "wf_DataClassification tx_run = ''internal''"
  by (simp_all add: tx_run_def terminalState_def)

lemma tx_begin_normal:
  assumes "trim_space key = key"
  shows "normalized_begin (tx_begin key) = (tx_begin key)\<lparr>bt_TaskType := ''implementation''\<rparr>"
  using assms by (simp add: normalized_begin_def tx_begin_def plain_char_def lower_byte_def defaultString_def defaultTaskMatchThreshold_def)

text \<open>A database whose surroundings are those of the start.\<close>

definition tx_base :: "task_db \<Rightarrow> bool" where
  "tx_base db \<longleftrightarrow> wf_runs (td_wf db) = [tx_run] \<and> wf_policies (td_wf db) = [(''p'', default_policy ''p'')] \<and> td_k db = tx_knowledge"

lemma tx_base_run: "tx_base db \<Longrightarrow> find_row wf_ID ''w'' (wf_runs (td_wf db)) = Some tx_run \<and> getWorkflowByID (td_wf db) ''w'' = Inr tx_run"
  by (simp add: tx_base_def getWorkflowByID_def scanWorkflow_def find_row_def tx_run_def)

lemma tx_base_same: "tx_base db \<Longrightarrow> same_surroundings db db' \<Longrightarrow> tx_base db'"
  by (simp add: tx_base_def same_surroundings_def)

lemma tx_roles: "selectRole (demo_person ''o'') ''p'' (r # rs) = (if r \<in> set [''controller'', ''development'', ''qa'', ''product_owner'', ''operations''] then Some r
    else selectRole (demo_person ''o'') ''p'' rs)"
  by (simp add: HasRole_iff demo_person_def)

lemma tx_allowed: "authorizeUntraced demo_allow rq = Inr \<lparr>dec_Allowed = True, dec_CallID = ''c'', dec_PolicyVersion = ''1''\<rparr>"
  by (simp add: demo_allow_def authorizeUntraced_def)

lemma tx_put: "\<exists>a st'. Put demo_store text m = (Inr a, st')"
  by (simp add: demo_store_def Put_def Let_def)

lemma tx_authorizer: "tsv_Authorizer tx_service = demo_allow"
  by (simp add: tx_service_def)

lemma tx_principal: "RequirePrincipal (env_ctx (tx_env ids)) = Inr (demo_person ''o'')"
  by (simp add: tx_env_def RequirePrincipal_def PrincipalFromContext_def demo_person_def)

lemma tx_submits:
  assumes "tx_base db" "trim_space key = key" "key \<noteq> []"
    and fresh: "\<forall>t \<in> set (td_tasks db). tk_ID t \<noteq> ids 0 \<and> tk_TaskKey t \<noteq> key" "\<forall>e \<in> set (td_events db). te_ID e \<noteq> ids 1"
  shows "\<exists>out st' db' t e. submit_task tx_service (tx_env ids) demo_store db db (tx_begin key) = (Inr out, st', db') \<and> tx_base db'
    \<and> (\<forall>x. task_joins db x \<longrightarrow> task_joins db' x) \<and> td_tasks db' = td_tasks db @ [t] \<and> td_events db' = td_events db @ [e] \<and> task_joins db' t
    \<and> tk_ID t = ids 0 \<and> tk_WorkflowID t = ''w'' \<and> tk_State t = ''queued'' \<and> tk_Route t = ''pending'' \<and> tk_ExecutionMode t = ''manual'' \<and> tk_Version t = 1
    \<and> tk_CandidateID t = [] \<and> tk_RAGQuery t = ''q'' \<and> tk_MatchThreshold t = defaultTaskMatchThreshold \<and> tk_TaskType t = ''implementation''
    \<and> tk_TaskKey t = key \<and> te_ID e = ids 1 \<and> te_TaskID e = ids 0 \<and> te_EventType e = ''TASK_QUEUED'' \<and> te_Sequence e = 1 \<and> te_IdempotencyKey e = ''k''"
proof -
  let ?i = "(tx_begin key)\<lparr>bt_TaskType := ''implementation''\<rparr>" and ?p = "demo_person ''o''" and ?env = "tx_env ids"
  obtain a st' where put: "Put demo_store (request_text tx_run ?i) ''application/json'' = (Inr a, st')" using tx_put by blast
  let ?task = "queued_task ?env ?p tx_run ?i a"
  let ?event = "queued_event ?env ?p ?i ''controller'' a \<lparr>dec_Allowed = True, dec_CallID = ''c'', dec_PolicyVersion = ''1''\<rparr>"
  have wid: "tk_WorkflowID ?task = ''w''" "tk_ID ?task = ids 0" "tk_TaskKey ?task = key" "te_ID ?event = ids 1"
    by (simp_all add: queued_task_def queued_event_def tx_world)
  obtain out db' where commit: "CreateWorkflowTask ?env db ?task ?event = (Inr out, db')" "same_surroundings db db'"
    "td_tasks db' = td_tasks db @ [inserted_task ?env ?task (next_ordinal (td_tasks db) (tk_WorkflowID ?task))]"
    "td_events db' = td_events db @ [inserted_task_event ?env ?task ?event]"
    "task_joins db' (inserted_task ?env ?task (next_ordinal (td_tasks db) (tk_WorkflowID ?task)))"
    using CreateWorkflowTask_commits [of ?task db tx_run ?event ?env] tx_base_run [OF assms(1)] fresh wid by auto
  have "submit_task tx_service ?env demo_store db db (tx_begin key) = (Inr out, st', db')"
    using assms(3) put commit(1) tx_base_run [OF assms(1)] tx_principal [of ids]
    by (simp add: submit_task_def Let_def tx_begin_normal [OF assms(2)] tx_roles tx_allowed tx_service_def del: selectRole.simps)
  moreover have "\<forall>x. task_joins db x \<longrightarrow> task_joins db' x" using commit(2) by (simp add: same_surroundings_def)
  ultimately show ?thesis using commit(3-5) tx_base_same [OF assms(1) commit(2)]
    by (auto simp: inserted_task_def inserted_task_event_def queued_task_def queued_event_def tx_env_def)
qed

text \<open>A reachable history in which the one task is at a state and version, with the names of the events so far.\<close>

definition tx_row :: "string \<Rightarrow> string \<Rightarrow> string \<Rightarrow> nat \<Rightarrow> workflow_task \<Rightarrow> bool" where
  "tx_row s route cid v t \<longleftrightarrow> tk_ID t = ''t'' \<and> tk_WorkflowID t = ''w'' \<and> tk_State t = s \<and> tk_Route t = route \<and> tk_ExecutionMode t = ''manual''
     \<and> tk_Version t = int v \<and> tk_CandidateID t = cid \<and> tk_RAGQuery t = ''q'' \<and> tk_MatchThreshold t = defaultTaskMatchThreshold
     \<and> tk_TaskType t = ''implementation'' \<and> tk_TaskKey t = ''a''"

definition tx_at :: "string \<Rightarrow> string \<Rightarrow> string \<Rightarrow> nat \<Rightarrow> string list \<Rightarrow> task_db list \<Rightarrow> bool" where
  "tx_at s route cid v es h \<longleftrightarrow> reach tk_start tk_step h \<and> h \<noteq> [] \<and> tx_base (hd h)
     \<and> (\<exists>t. td_tasks (hd h) = [t] \<and> task_joins (hd h) t \<and> tx_row s route cid v t) \<and> map te_EventType (td_events (hd h)) = es
     \<and> (\<forall>e \<in> set (td_events (hd h)). te_TaskID e = ''t'' \<and> length (te_ID e) \<le> v \<and> length (te_IdempotencyKey e) \<le> v \<and> te_Sequence e \<le> int v)"

definition tx_ids :: "nat \<Rightarrow> nat \<Rightarrow> string" where
  "tx_ids v n = replicate (v + 1) (CHR ''i'')"

definition tx_move :: "nat \<Rightarrow> string \<Rightarrow> string \<Rightarrow> string \<Rightarrow> (string \<times> json) list \<Rightarrow> task_transition_input" where
  "tx_move v event provider cid payload = \<lparr>tx_TaskID = ''t'', tx_ExpectedVersion = int v, tx_EventType = event,
     tx_IdempotencyKey = replicate (v + 1) (CHR ''k''), tx_Provider = provider, tx_Model = ''m'', tx_CandidateID = cid, tx_Evidence = ''x'',
     tx_ReviewInfluenceWeight = float_zero, tx_Payload = payload\<rparr>"

lemma tx_move_fields [simp]:
  "tx_TaskID (tx_move v ev p c pl) = ''t''" "tx_ExpectedVersion (tx_move v ev p c pl) = int v" "tx_EventType (tx_move v ev p c pl) = ev"
  "tx_IdempotencyKey (tx_move v ev p c pl) = replicate (v + 1) (CHR ''k'')" "tx_Provider (tx_move v ev p c pl) = p" "tx_Model (tx_move v ev p c pl) = ''m''"
  "tx_CandidateID (tx_move v ev p c pl) = c" "tx_Evidence (tx_move v ev p c pl) = ''x''" "tx_ReviewInfluenceWeight (tx_move v ev p c pl) = float_zero"
  "tx_Payload (tx_move v ev p c pl) = pl" "f_Value float_zero = 0"
  by (simp_all add: tx_move_def float_zero_def)

lemma tx_at_queued: "\<exists>h. tx_at ''queued'' ''pending'' [] 1 [''TASK_QUEUED''] h"
proof -
  let ?ids = "\<lambda>n :: nat. if n = 0 then ''t'' else ''e''"
  have base: "tx_base tx_start" by (simp add: tx_base_def tx_start_def)
  obtain out st' db' t e where sub: "submit_task tx_service (tx_env ?ids) demo_store tx_start tx_start (tx_begin ''a'') = (Inr out, st', db')"
    and db': "tx_base db'" "td_tasks db' = td_tasks tx_start @ [t]" "td_events db' = td_events tx_start @ [e]" "task_joins db' t"
    and t: "tk_ID t = ?ids 0" "tk_WorkflowID t = ''w''" "tk_State t = ''queued''" "tk_Route t = ''pending''" "tk_ExecutionMode t = ''manual''" "tk_Version t = 1"
      "tk_CandidateID t = []" "tk_RAGQuery t = ''q''" "tk_MatchThreshold t = defaultTaskMatchThreshold" "tk_TaskType t = ''implementation''" "tk_TaskKey t = ''a''"
    and e: "te_ID e = ?ids 1" "te_TaskID e = ?ids 0" "te_EventType e = ''TASK_QUEUED''" "te_Sequence e = 1" "te_IdempotencyKey e = ''k''"
    using tx_submits [OF base, of "''a''" ?ids] by (auto simp: tx_start_def plain_char_def)
  have "reach tk_start tk_step [tx_start]" by (rule reach_start) (simp add: tk_start_def tx_start_def)
  then have "reach tk_start tk_step [db', tx_start]" by (rule reach_step) (rule tk_submit [of tx_start "[tx_start]", unfolded list.sel, OF _ sub], simp)
  with db' t e have "tx_at ''queued'' ''pending'' [] 1 [''TASK_QUEUED''] [db', tx_start]"
    by (simp add: tx_at_def tx_row_def tx_start_def)
  then show ?thesis ..
qed

text \<open>A move of the task commits when the table, the candidate and the evidence allow it.\<close>

lemma tx_commits:
  assumes at: "tx_at s route cid v es h" and call: "transition_task tx_service (tx_env (tx_ids v)) st (hd h) (hd h) (hd h) i = (r, st', db')"
    and repo: "repo_TransitionWorkflowTask (tx_env (tx_ids v)) (hd h) t = (out, db')"
    and t: "tt_TaskID t = ''t''" "tt_ExpectedVersion t = int v" "tt_ExpectedState t = s" "tt_ResultingState t \<noteq> ''completed''"
      "te_EventType (tt_Event t) \<noteq> ''VALIDATION_PASSED''" "te_EventType (tt_Event t) \<noteq> ''VALIDATED_REUSE_COMPLETED''"
      "te_ID (tt_Event t) = tx_ids v 0" "te_IdempotencyKey (tt_Event t) = replicate (v + 1) (CHR ''k'')"
  shows "tx_at (tt_ResultingState t) (overwrite (tt_RAGRoute t) route) (overwrite (tt_CandidateID t) cid) (v + 1) (es @ [te_EventType (tt_Event t)]) (db' # h)"
proof -
  obtain row where row: "td_tasks (hd h) = [row]" "task_joins (hd h) row" "tx_row s route cid v row"
    and h: "reach tk_start tk_step h" "h \<noteq> []" "tx_base (hd h)" "map te_EventType (td_events (hd h)) = es"
    and evs: "\<forall>e \<in> set (td_events (hd h)). te_TaskID e = ''t'' \<and> length (te_ID e) \<le> v \<and> length (te_IdempotencyKey e) \<le> v \<and> te_Sequence e \<le> int v"
    using at by (auto simp: tx_at_def)
  have "find_row tk_ID (tt_TaskID t) (td_tasks (hd h)) = Some row" using row(1,3) t(1) by (simp add: find_row_def tx_row_def)
  moreover have "\<forall>e \<in> set (td_events (hd h)). te_IdempotencyKey e \<noteq> te_IdempotencyKey (tt_Event t) \<and> te_ID e \<noteq> te_ID (tt_Event t)
      \<and> te_Sequence e \<noteq> tk_Version row + 1"
    using evs row(3) t(7,8) by (fastforce simp: tx_ids_def tx_row_def)
  ultimately have "\<exists>updated ev db''. repo_TransitionWorkflowTask (tx_env (tx_ids v)) (hd h) t = (Inr (updated, ev), db'') \<and> same_surroundings (hd h) db''
    \<and> td_tasks db'' = put_row tk_ID (moved_task (tx_env (tx_ids v)) t row) (td_tasks (hd h)) \<and> td_events db'' = td_events (hd h) @ [ev]
    \<and> ev = (tt_Event t)\<lparr>te_TaskID := tt_TaskID t, te_Sequence := tk_Version row + 1, te_FromState := tt_ExpectedState t,
       te_ToState := tt_ResultingState t, te_CreatedAt := env_db_now (tx_env (tx_ids v))\<rparr> \<and> task_joins db'' (moved_task (tx_env (tx_ids v)) t row)"
    using row t by (intro repo_TransitionWorkflowTask_commits) (simp_all add: tx_row_def)
  then obtain ev where db': "same_surroundings (hd h) db'" "td_tasks db' = put_row tk_ID (moved_task (tx_env (tx_ids v)) t row) (td_tasks (hd h))"
    "td_events db' = td_events (hd h) @ [ev]" "task_joins db' (moved_task (tx_env (tx_ids v)) t row)"
    and ev: "te_EventType ev = te_EventType (tt_Event t)" "te_TaskID ev = ''t''" "te_ID ev = tx_ids v 0" "te_IdempotencyKey ev = replicate (v + 1) (CHR ''k'')"
      "te_Sequence ev = tk_Version row + 1"
    using repo t by auto
  have reach': "reach tk_start tk_step (db' # h)" by (rule reach_step [OF h(1) tk_transition [OF _ _ call]]) (simp_all add: h(2))
  have "tx_row (tt_ResultingState t) (overwrite (tt_RAGRoute t) route) (overwrite (tt_CandidateID t) cid) (v + 1) (moved_task (tx_env (tx_ids v)) t row)"
    using row(3) by (simp add: tx_row_def moved_task_def)
  moreover have "put_row tk_ID (moved_task (tx_env (tx_ids v)) t row) [row] = [moved_task (tx_env (tx_ids v)) t row]"
    by (simp add: put_row_def moved_task_def)
  moreover have "length (te_ID ev) \<le> v + 1" "te_Sequence ev = int v + 1" using ev row(3) by (simp_all add: tx_ids_def tx_row_def)
  ultimately show ?thesis using reach' db' ev row(1) h(4) evs tx_base_same [OF h(3) db'(1)]
    by (auto simp: tx_at_def intro: le_SucI)
qed

lemma tx_move_normal:
  assumes "to_upper (trim_space ev) = ev" "to_lower (trim_space provider) = provider" "trim_space c = c"
  shows "normalized_transition (tx_move v ev provider c pl) = tx_move v ev provider c pl"
  using assms by (simp add: normalized_transition_def tx_move_def plain_char_def)

lemma tx_move_same:
  "(tx_move v ev p c pl)\<lparr>tx_Evidence := ''x'', tx_Payload := pl\<rparr> = tx_move v ev p c pl"
  "(tx_move v ev p c pl)\<lparr>tx_Evidence := ''x'', tx_Payload := pl, tx_ReviewInfluenceWeight := w\<rparr> = (tx_move v ev p c pl)\<lparr>tx_ReviewInfluenceWeight := w\<rparr>"
  by (simp_all add: tx_move_def)

lemma tx_put_evidence: "\<exists>a st'. put_evidence demo_store ''x'' = (Inr a, st')"
  using tx_put [of "''x''" "''application/json''"] by (auto simp: put_evidence_def)

lemma tx_moves:
  assumes at: "tx_at s route cid v es h" and v: "1 \<le> v"
    and ev: "to_upper (trim_space ev) = ev" "ev \<notin> set [[], ''TASK_ACTIVATED'', ''RAG_READBACK_VERIFIED'', ''VALIDATION_PASSED'', ''VALIDATED_REUSE_COMPLETED'']"
      "to_lower (trim_space provider) = provider" "trim_space c = c"
    and sp: "\<And>t. tk_State t = s \<Longrightarrow> tk_Route t = route \<Longrightarrow> tk_ExecutionMode t = ''manual'' \<Longrightarrow>
      checked_task_spec (demo_person ''o'') tx_run t (tx_move v ev provider c pl) = Inr (sp, role)" and to: "ts_to sp \<noteq> ''completed''"
    and cand: "\<And>t db. td_k db = tx_knowledge \<Longrightarrow> tk_CandidateID t = cid \<Longrightarrow> tk_WorkflowID t = ''w'' \<Longrightarrow> tk_ProjectID t = ''p'' \<Longrightarrow>
      candidate_of db t (tx_move v ev provider c pl) = Inr (cid', k) \<and> check_candidate db t (tx_move v ev provider c pl) cid' k = None"
  shows "\<exists>h'. tx_at (ts_to sp) route (overwrite cid' cid) (v + 1) (es @ [ev]) h'"
proof -
  let ?i = "tx_move v ev provider c pl" and ?env = "tx_env (tx_ids v)" and ?p = "demo_person ''o''"
  let ?i3 = "if ev = ''CLOUD_REVIEW_RECORDED'' then ?i\<lparr>tx_ReviewInfluenceWeight := default_influence\<rparr> else ?i"
  let ?d = "\<lparr>dec_Allowed = True, dec_CallID = ''c'', dec_PolicyVersion = ''1''\<rparr>"
  obtain row where row: "td_tasks (hd h) = [row]" "task_joins (hd h) row" "tx_row s route cid v row" and base: "tx_base (hd h)" using at by (auto simp: tx_at_def)
  have run: "find_row wf_ID ''w'' (wf_runs (td_wf (hd h))) = Some tx_run" "getWorkflowByID (td_wf (hd h)) ''w'' = Inr tx_run"
    using tx_base_run [OF base] by simp_all
  have found: "find_row tk_ID ''t'' (td_tasks (hd h)) = Some row" using row(1,3) by (simp add: find_row_def tx_row_def)
  obtain a l where got: "getWorkflowTask (hd h) ''t'' = Inr (row\<lparr>tk_ProjectID := wf_ProjectID tx_run, tk_RequestArtifact := a, tk_LookupArtifact := l\<rparr>)"
    using getWorkflowTask_row [OF found row(2)] run(1) row(3) by (auto simp: tx_row_def)
  define task where "task = row\<lparr>tk_ProjectID := wf_ProjectID tx_run, tk_RequestArtifact := a, tk_LookupArtifact := l\<rparr>"
  have task: "getWorkflowTask (hd h) ''t'' = Inr task" "tk_ID task = ''t''" "tk_WorkflowID task = ''w''" "tk_ProjectID task = ''p''" "tk_State task = s"
    "checked_task_spec ?p tx_run task ?i = Inr (sp, role)"
    using got row(3) sp [of task] by (simp_all add: task_def tx_row_def)
  have k: "candidate_of (hd h) task ?i = Inr (cid', k)" "check_candidate (hd h) task ?i cid' k = None"
    using cand [of "hd h" task] base row(3) task by (simp_all add: tx_base_def tx_row_def task_def)
  obtain ev_art st' where put: "put_evidence demo_store ''x'' = (Inr ev_art, st')" using tx_put_evidence by blast
  let ?t = "proposed_task_transition ?env ?p task ?i3 sp role ev_art ?d cid' no_lookup"
  obtain out db' where repo: "repo_TransitionWorkflowTask ?env (hd h) ?t = (out, db')" by (cases "repo_TransitionWorkflowTask ?env (hd h) ?t")
  have "\<exists>r. transition_task tx_service ?env demo_store (hd h) (hd h) (hd h) ?i = (r, st', db')"
    using v ev put repo task k run tx_principal [of "tx_ids v"] tx_move_normal [OF ev(1,3,4), of v pl]
    by (cases out; cases "ev = ''CLOUD_REVIEW_RECORDED''")
      (simp_all add: transition_task_def Let_def tx_move_same tx_allowed tx_service_def)
  then obtain r where call: "transition_task tx_service ?env demo_store (hd h) (hd h) (hd h) ?i = (r, st', db')" ..
  have "tx_at (tt_ResultingState ?t) (overwrite (tt_RAGRoute ?t) route) (overwrite (tt_CandidateID ?t) cid) (v + 1) (es @ [te_EventType (tt_Event ?t)]) (db' # h)"
    by (rule tx_commits [OF at call repo]) (use ev to task in \<open>simp_all add: proposed_task_transition_def proposed_task_event_def tx_env_def\<close>)
  then show ?thesis by (auto simp: proposed_task_transition_def proposed_task_event_def no_lookup_def overwrite_def split: if_split_asm)
qed

text \<open>The activation stores its lookup twice, as lookup and as evidence.\<close>

lemma Put_twice:
  assumes "Put st text m = (Inr a, st')" "length text \<le> max_artifact_bytes"
  shows "\<exists>b. Put st' text m = (Inr b, st')"
proof -
  obtain y where y: "Read st' (Digest text) = Inr y" using store.put_readable [OF assms] store.put_ref [OF assms(1)] by auto
  then have "store_files st' (artifact_path (store_root st') (Digest text)) = Some y" by (simp add: Read_Ok)
  with y show ?thesis by (simp add: Put_def Let_def)
qed

definition tx_lookup :: string where
  "tx_lookup = print_json (json_map
     [(''workflow_id'', JString ''w''), (''project_id'', JString ''p''), (''task_id'', JString ''t''),
      (''query'', JString ''q''), (''backend'', JString ''milvus''), (''match_threshold'', JNumber ''0.75''),
      (''route'', JString ''rag_miss_cloud_review''), (''results'', JArray [])])"

lemma tx_lookup_length: "length tx_lookup \<le> max_artifact_bytes" "tx_lookup \<noteq> []"
proof -
  have "length tx_lookup \<le> 300" by code_simp
  then show "length tx_lookup \<le> max_artifact_bytes" by (simp add: max_artifact_bytes_def)
  show "tx_lookup \<noteq> []" by code_simp
qed

lemma tx_lookup_route:
  assumes "GetActivatableWorkflowTask db ''w'' = Some head" "tk_ID head = ''t''" "tk_ID task = ''t''" "tk_WorkflowID task = ''w''" "tk_RAGQuery task = ''q''"
    "tk_MatchThreshold task = defaultTaskMatchThreshold" "tk_TaskType task = ''implementation''"
  shows "\<exists>lk pl st' a. lookup_route tx_service demo_store db tx_run task = (Inr (lk, tx_lookup, pl), st') \<and> lk_Route lk = ''rag_miss_cloud_review''
    \<and> put_evidence st' tx_lookup = (Inr (Some a), st')"
proof -
  obtain a st' where put: "Put demo_store tx_lookup ''application/json'' = (Inr a, st')" using tx_put by blast
  obtain b where again: "Put st' tx_lookup ''application/json'' = (Inr b, st')" using Put_twice [OF put tx_lookup_length(1)] by blast
  have route: "taskRoute tx_run ''milvus'' False ''implementation'' = ''rag_miss_cloud_review''" by (simp add: taskRoute_def)
  have written: "lookup_text tx_run task [] ''milvus'' ''rag_miss_cloud_review'' = tx_lookup"
    using assms(3-6) by (simp add: lookup_text_def tx_lookup_def defaultTaskMatchThreshold_def)
  show ?thesis
    using assms put again route written tx_lookup_length(2)
    by (simp add: lookup_route_def Let_def tx_service_def hits_marshal_def put_evidence_def)
qed

lemma tx_activates:
  assumes at: "tx_at ''queued'' ''pending'' [] 1 es h"
  shows "\<exists>h'. tx_at ''local_execution'' ''rag_miss_cloud_review'' [] 2 (es @ [''TASK_ACTIVATED'']) h'"
proof -
  let ?i = "tx_move 1 ''TASK_ACTIVATED'' [] [] []" and ?env = "tx_env (tx_ids 1)" and ?p = "demo_person ''o''" and ?sp = "tspec ''local_execution'' [''development'', ''controller'']"
  let ?d = "\<lparr>dec_Allowed = True, dec_CallID = ''c'', dec_PolicyVersion = ''1''\<rparr>"
  obtain row where row: "td_tasks (hd h) = [row]" "task_joins (hd h) row" "tx_row ''queued'' ''pending'' [] 1 row" and base: "tx_base (hd h)"
    using at by (auto simp: tx_at_def)
  have run: "find_row wf_ID ''w'' (wf_runs (td_wf (hd h))) = Some tx_run" "getWorkflowByID (td_wf (hd h)) ''w'' = Inr tx_run"
    using tx_base_run [OF base] by simp_all
  have found: "find_row tk_ID ''t'' (td_tasks (hd h)) = Some row" using row(1,3) by (simp add: find_row_def tx_row_def)
  obtain a l where got: "getWorkflowTask (hd h) ''t'' = Inr (row\<lparr>tk_ProjectID := wf_ProjectID tx_run, tk_RequestArtifact := a, tk_LookupArtifact := l\<rparr>)"
    using getWorkflowTask_row [OF found row(2)] run(1) row(3) by (auto simp: tx_row_def)
  define task where "task = row\<lparr>tk_ProjectID := wf_ProjectID tx_run, tk_RequestArtifact := a, tk_LookupArtifact := l\<rparr>"
  have task: "getWorkflowTask (hd h) ''t'' = Inr task" "tk_ID task = ''t''" "tk_WorkflowID task = ''w''" "tk_ProjectID task = ''p''" "tk_State task = ''queued''"
    "tk_RAGQuery task = ''q''" "tk_MatchThreshold task = defaultTaskMatchThreshold" "tk_TaskType task = ''implementation''" "tk_CandidateID task = []"
    using got row(3) by (simp_all add: task_def tx_row_def)
  have sp: "checked_task_spec ?p tx_run task ?i = Inr (?sp, ''development'')"
    using task(5) by (simp add: checked_task_spec_def workflowTaskTransition_def tx_roles tspec_def del: selectRole.simps)
  have "queue_head [row] ''w'' = Some row" using row(3) by (simp add: queue_head_def tx_row_def task_active_def)
  then have head: "GetActivatableWorkflowTask (hd h) ''w'' = Some task"
    using got row(1) found by (simp add: GetActivatableWorkflowTask_def getWorkflowTask_def task_def split: sum.splits)
  obtain lk pl st1 ev_art where lk: "lookup_route tx_service demo_store (hd h) tx_run task = (Inr (lk, tx_lookup, pl), st1)" "lk_Route lk = ''rag_miss_cloud_review''"
    "put_evidence st1 tx_lookup = (Inr (Some ev_art), st1)"
    using tx_lookup_route [OF head task(2,2,3,6,7,8)] by blast
  let ?i2 = "?i\<lparr>tx_Evidence := tx_lookup, tx_Payload := pl\<rparr>"
  let ?t = "proposed_task_transition ?env ?p task ?i2 ?sp ''development'' (Some ev_art) ?d [] lk"
  have cand: "candidate_of (hd h) task ?i2 = Inr ([], None)" "check_candidate (hd h) task ?i2 [] None = None"
    using task(9) by (simp_all add: candidate_of_def check_candidate_def)
  obtain out db' where repo: "repo_TransitionWorkflowTask ?env (hd h) ?t = (out, db')" by (cases "repo_TransitionWorkflowTask ?env (hd h) ?t")
  have norm: "normalized_transition ?i = ?i" by (rule tx_move_normal) (simp_all add: plain_char_def upper_byte_def)
  have "\<exists>r. transition_task tx_service ?env demo_store (hd h) (hd h) (hd h) ?i = (r, st1, db')"
    using repo task(1,3) sp lk cand run tx_principal [of "tx_ids 1"] norm
    by (cases out) (simp_all add: transition_task_def Let_def tx_allowed tx_authorizer)
  then obtain r where call: "transition_task tx_service ?env demo_store (hd h) (hd h) (hd h) ?i = (r, st1, db')" ..
  have "tx_at (tt_ResultingState ?t) (overwrite (tt_RAGRoute ?t) ''pending'') (overwrite (tt_CandidateID ?t) []) (1 + 1) (es @ [te_EventType (tt_Event ?t)]) (db' # h)"
    by (rule tx_commits [OF at call repo]) (use task in \<open>simp_all add: proposed_task_transition_def proposed_task_event_def tx_env_def tspec_def\<close>)
  then show ?thesis using lk(2) by (auto simp: proposed_task_transition_def proposed_task_event_def overwrite_def tspec_def numeral_2_eq_2)
qed

lemmas tx_table = checked_task_spec_def workflowTaskTransition_def evidenced_def tspec_def tx_roles

lemmas tx_candidate = candidate_of_def check_candidate_def GetKnowledge_def ReviewEvidenceExists_def payloadString_def payload_text_def candidate_status_def
  candidate_version_def tx_knowledge_def tx_item_def find_row_def Let_def

lemma tx_active: "\<exists>h. tx_at ''local_execution'' ''rag_miss_cloud_review'' [] 2 [''TASK_QUEUED'', ''TASK_ACTIVATED''] h"
  using tx_at_queued tx_activates by fastforce

lemma tx_answered:
  "\<exists>h. tx_at ''review_approval_required'' ''rag_miss_cloud_review'' ''c'' 3 [''TASK_QUEUED'', ''TASK_ACTIVATED'', ''LOCAL_RESULT_RECORDED''] h"
proof -
  obtain h where "tx_at ''local_execution'' ''rag_miss_cloud_review'' [] 2 [''TASK_QUEUED'', ''TASK_ACTIVATED''] h" using tx_active ..
  then have "\<exists>h'. tx_at (ts_to (evidenced ''review_approval_required'' [''development'', ''controller''] ''ollama'')) ''rag_miss_cloud_review''
      (overwrite ''c'' []) (2 + 1) ([''TASK_QUEUED'', ''TASK_ACTIVATED''] @ [''LOCAL_RESULT_RECORDED'']) h'"
    by (rule tx_moves [where provider = "''ollama''" and c = "''c''" and pl = "[]" and role = "''development''" and k = "Some tx_item"])
      (simp_all add: tx_table tx_candidate plain_char_def upper_byte_def lower_byte_def del: selectRole.simps)
  then show ?thesis by (simp add: evidenced_def tspec_def overwrite_def)
qed

lemma tx_approved:
  "\<exists>h. tx_at ''cloud_review_required'' ''rag_miss_cloud_review'' ''c'' 4
     [''TASK_QUEUED'', ''TASK_ACTIVATED'', ''LOCAL_RESULT_RECORDED'', ''CLOUD_REVIEW_APPROVED''] h"
proof -
  obtain h where "tx_at ''review_approval_required'' ''rag_miss_cloud_review'' ''c'' 3 [''TASK_QUEUED'', ''TASK_ACTIVATED'', ''LOCAL_RESULT_RECORDED''] h"
    using tx_answered ..
  then have "\<exists>h'. tx_at (ts_to (evidenced ''cloud_review_required'' [''product_owner''] [])) ''rag_miss_cloud_review''
      (overwrite ''c'' ''c'') (3 + 1) ([''TASK_QUEUED'', ''TASK_ACTIVATED'', ''LOCAL_RESULT_RECORDED''] @ [''CLOUD_REVIEW_APPROVED'']) h'"
    by (rule tx_moves [where provider = "[]" and c = "[]" and pl = "[]" and role = "''product_owner''" and k = "Some tx_item"])
      (simp_all add: tx_table tx_candidate plain_char_def upper_byte_def lower_byte_def del: selectRole.simps)
  then show ?thesis by (simp add: evidenced_def tspec_def overwrite_def)
qed

lemma tx_reviewed:
  "\<exists>h. tx_at ''local_revision_required'' ''rag_miss_cloud_review'' ''c'' 5
     [''TASK_QUEUED'', ''TASK_ACTIVATED'', ''LOCAL_RESULT_RECORDED'', ''CLOUD_REVIEW_APPROVED'', ''CLOUD_REVIEW_RECORDED''] h"
proof -
  obtain h where "tx_at ''cloud_review_required'' ''rag_miss_cloud_review'' ''c'' 4
     [''TASK_QUEUED'', ''TASK_ACTIVATED'', ''LOCAL_RESULT_RECORDED'', ''CLOUD_REVIEW_APPROVED''] h"
    using tx_approved ..
  then have "\<exists>h'. tx_at (ts_to (evidenced ''local_revision_required'' [''cloud_reviewer'', ''development'', ''controller''] ''openai'')) ''rag_miss_cloud_review''
      (overwrite ''c'' ''c'') (4 + 1) ([''TASK_QUEUED'', ''TASK_ACTIVATED'', ''LOCAL_RESULT_RECORDED'', ''CLOUD_REVIEW_APPROVED''] @ [''CLOUD_REVIEW_RECORDED'']) h'"
    by (rule tx_moves [where provider = "''openai''" and c = "[]" and role = "''development''" and k = "Some tx_item"
          and pl = "[(''review_artifact_sha256'', JString ''r''), (''context_manifest_artifact_sha256'', JString ''n'')]"])
      (simp_all add: tx_table tx_candidate plain_char_def upper_byte_def lower_byte_def del: selectRole.simps)
  then show ?thesis by (simp add: evidenced_def tspec_def overwrite_def)
qed

section \<open>Instances\<close>

theorem manual_review_is_approved_witness:
  "\<exists>h t xs e ys ws l p. reach tk_start tk_step h \<and> td_tasks (hd h) = [t] \<and> task_log (td_events (hd h)) (tk_ID t) = xs @ e # ys
     \<and> te_EventType e = ''CLOUD_REVIEW_RECORDED'' \<and> xs = ws @ [l, p] \<and> te_EventType p = ''CLOUD_REVIEW_APPROVED'' \<and> te_ActorRole p = ''product_owner''"
proof -
  obtain h where at: "tx_at ''local_revision_required'' ''rag_miss_cloud_review'' ''c'' 5
     [''TASK_QUEUED'', ''TASK_ACTIVATED'', ''LOCAL_RESULT_RECORDED'', ''CLOUD_REVIEW_APPROVED'', ''CLOUD_REVIEW_RECORDED''] h"
    using tx_reviewed ..
  then obtain t where t: "td_tasks (hd h) = [t]" "tk_ID t = ''t''" "tk_ExecutionMode t = ''manual''" and h: "reach tk_start tk_step h"
    and evs: "\<forall>e \<in> set (td_events (hd h)). te_TaskID e = ''t''"
      "map te_EventType (td_events (hd h)) = [''TASK_QUEUED'', ''TASK_ACTIVATED'', ''LOCAL_RESULT_RECORDED'', ''CLOUD_REVIEW_APPROVED''] @ [''CLOUD_REVIEW_RECORDED'']"
    by (auto simp: tx_at_def tx_row_def)
  obtain xs e where e: "td_events (hd h) = xs @ [e]" "te_EventType e = ''CLOUD_REVIEW_RECORDED''" 
    using evs(2) by (cases "td_events (hd h)" rule: rev_cases) simp_all
  have log: "task_log (td_events (hd h)) (tk_ID t) = xs @ e # []" using evs(1) e(1) t(2) by (auto simp: task_log_def)
  have "t \<in> set (td_tasks (hd h))" using t(1) by simp
  then obtain ws l p where "xs = ws @ [l, p]" "te_EventType p = ''CLOUD_REVIEW_APPROVED''" "te_ActorRole p = ''product_owner''"
    using manual_review_is_approved [OF h _ t(3) log e(2)] by blast
  then show ?thesis using h t(1) log e(2) by blast
qed

theorem task_log_follows_table_witness:
  "\<exists>h t. reach tk_start tk_step h \<and> t \<in> set (td_tasks (hd h)) \<and> tk_Version t = 5 \<and> log_ok t (task_log (td_events (hd h)) (tk_ID t))"
proof -
  obtain h where at: "tx_at ''local_revision_required'' ''rag_miss_cloud_review'' ''c'' 5
     [''TASK_QUEUED'', ''TASK_ACTIVATED'', ''LOCAL_RESULT_RECORDED'', ''CLOUD_REVIEW_APPROVED'', ''CLOUD_REVIEW_RECORDED''] h"
    using tx_reviewed ..
  then obtain t where t: "td_tasks (hd h) = [t]" "tk_Version t = 5" and h: "reach tk_start tk_step h" by (auto simp: tx_at_def tx_row_def)
  show ?thesis using task_log_follows_table [OF h, of t] h t by auto
qed

text \<open>A second task waits while the first holds the queue.\<close>

theorem queue_discipline_witness:
  "\<exists>h a b. reach tk_start tk_step h \<and> set (td_tasks (hd h)) = {a, b} \<and> tk_WorkflowID a = tk_WorkflowID b \<and> task_active a \<and> a \<noteq> b \<and> \<not> task_active b"
proof -
  obtain h where at: "tx_at ''local_execution'' ''rag_miss_cloud_review'' [] 2 [''TASK_QUEUED'', ''TASK_ACTIVATED''] h" using tx_active ..
  then obtain a where a: "td_tasks (hd h) = [a]" "tx_row ''local_execution'' ''rag_miss_cloud_review'' [] 2 a" and h: "reach tk_start tk_step h" "h \<noteq> []" "tx_base (hd h)"
    and evs: "\<forall>e \<in> set (td_events (hd h)). length (te_ID e) \<le> 2"
    by (auto simp: tx_at_def)
  let ?ids = "\<lambda>n :: nat. ''uuu''"
  obtain out st' db' b where sub: "submit_task tx_service (tx_env ?ids) demo_store (hd h) (hd h) (tx_begin ''b'') = (Inr out, st', db')"
    and b: "td_tasks db' = [a, b]" "tk_ID b = ''uuu''" "tk_WorkflowID b = ''w''"
    using tx_submits [OF h(3), of "''b''" ?ids] a evs by (fastforce simp: plain_char_def tx_row_def)
  have reach': "reach tk_start tk_step (db' # h)" by (rule reach_step [OF h(1) tk_submit [OF _ sub]]) (simp add: h(2))
  have "task_active a" "a \<noteq> b" "tk_WorkflowID a = tk_WorkflowID b" using a(2) b by (auto simp: tx_row_def task_active_def)
  then show ?thesis using queue_discipline [OF reach', of a b] reach' b(1) by (intro exI [of _ "db' # h"] exI [of _ a] exI [of _ b]) simp
qed

lemma tx_blocked:
  "\<exists>h. tx_at ''blocked'' ''rag_miss_cloud_review'' ''c'' 4
     [''TASK_QUEUED'', ''TASK_ACTIVATED'', ''LOCAL_RESULT_RECORDED'', ''CLOUD_REVIEW_REJECTED''] h"
proof -
  obtain h where "tx_at ''review_approval_required'' ''rag_miss_cloud_review'' ''c'' 3 [''TASK_QUEUED'', ''TASK_ACTIVATED'', ''LOCAL_RESULT_RECORDED''] h"
    using tx_answered ..
  then have "\<exists>h'. tx_at (ts_to (evidenced ''blocked'' [''product_owner''] [])) ''rag_miss_cloud_review''
      (overwrite ''c'' ''c'') (3 + 1) ([''TASK_QUEUED'', ''TASK_ACTIVATED'', ''LOCAL_RESULT_RECORDED''] @ [''CLOUD_REVIEW_REJECTED'']) h'"
    by (rule tx_moves [where provider = "[]" and c = "[]" and pl = "[]" and role = "''product_owner''" and k = "Some tx_item"])
      (simp_all add: tx_table tx_candidate plain_char_def upper_byte_def lower_byte_def del: selectRole.simps)
  then show ?thesis by (simp add: evidenced_def tspec_def overwrite_def)
qed

theorem blocked_task_stalls_queue_witness:
  "\<exists>h h' a b. reach tk_start tk_step h \<and> tk_step\<^sup>*\<^sup>* h h' \<and> a \<in> set (td_tasks (hd h)) \<and> tk_State a = ''blocked'' \<and> b \<in> set (td_tasks (hd h')) \<and> b \<noteq> a
     \<and> tk_WorkflowID b = tk_WorkflowID a \<and> GetActivatableWorkflowTask (hd h') (tk_WorkflowID a) = None"
proof -
  obtain h where at: "tx_at ''blocked'' ''rag_miss_cloud_review'' ''c'' 4 [''TASK_QUEUED'', ''TASK_ACTIVATED'', ''LOCAL_RESULT_RECORDED'', ''CLOUD_REVIEW_REJECTED''] h"
    using tx_blocked ..
  then obtain a where a: "td_tasks (hd h) = [a]" "tx_row ''blocked'' ''rag_miss_cloud_review'' ''c'' 4 a" and h: "reach tk_start tk_step h" "h \<noteq> []" "tx_base (hd h)"
    and evs: "\<forall>e \<in> set (td_events (hd h)). length (te_ID e) \<le> 4"
    by (auto simp: tx_at_def)
  let ?ids = "\<lambda>n :: nat. ''uuuuu''"
  obtain out st' db' b where sub: "submit_task tx_service (tx_env ?ids) demo_store (hd h) (hd h) (tx_begin ''b'') = (Inr out, st', db')"
    and b: "td_tasks db' = [a, b]" "tk_ID b = ''uuuuu''" "tk_WorkflowID b = ''w''"
    using tx_submits [OF h(3), of "''b''" ?ids] a evs by (fastforce simp: plain_char_def tx_row_def)
  have step: "tk_step\<^sup>*\<^sup>* h (db' # h)" by (rule r_into_rtranclp, rule tk_submit [OF _ sub]) (simp add: h(2))
  have "a \<in> set (td_tasks (hd h))" "b \<in> set (td_tasks (hd (db' # h)))" "tk_State a = ''blocked''" "b \<noteq> a" "tk_WorkflowID b = tk_WorkflowID a"
    using a b by (auto simp: tx_row_def)
  then show ?thesis using blocked_task_stalls_queue [OF h(1) step] h(1) step by blast
qed

theorem begin_task_refines_witness:
  "\<exists>r st' db' h'. BeginWorkflowTask tx_service (tx_env (tx_ids 0)) demo_store tx_start tx_start (\<lambda>_ d. d) (tx_begin ''a'') = (r, st', db')
     \<and> reach tk_start tk_step h' \<and> hd h' = db'"
proof -
  obtain r st' db' where call: "BeginWorkflowTask tx_service (tx_env (tx_ids 0)) demo_store tx_start (hd [tx_start]) (\<lambda>_ d. d) (tx_begin ''a'') = (r, st', db')"
    by (metis prod_cases3)
  have "reach tk_start tk_step [tx_start]" by (rule reach_start) (simp add: tk_start_def tx_start_def)
  moreover have "other_calls (\<lambda>_ d. d)" by (auto simp: other_calls_def)
  ultimately have "\<exists>h'. reach tk_start tk_step h' \<and> tk_step\<^sup>*\<^sup>* [tx_start] h' \<and> hd h' = db'"
    using begin_task_refines [of "[tx_start]" "\<lambda>_ d. d" tx_start] call by (metis list.set_intros(1))
  with call show ?thesis by auto
qed

text \<open>A task that reused an item and was validated with it is completed.\<close>

definition tx_used :: used_context_row where
  "tx_used = \<lparr>uc_KnowledgeID = ''c'', uc_Version = 1, uc_TargetRepository = ''repo'', uc_TargetBranch = ''b'', uc_TargetRevision = ''r'', ur_TaskID = ''t'',
     ur_ValidationID = ''v'', ur_SourceManifestSHA256 = ''m'', ur_Actor = ''o'', ur_IdempotencyKey = ''u''\<rparr>"

definition tx_done_row :: workflow_task where
  "tx_done_row = \<lparr>tk_ID = ''t'', tk_WorkflowID = ''w'', tk_ProjectID = ''p'', tk_Ordinal = 1, tk_TaskKey = ''a'', tk_Title = ''t'', tk_TaskType = ''implementation'',
     tk_State = ''validation_required'', tk_Route = ''rag_hit'', tk_ExecutionMode = ''auto'', tk_Version = 3, tk_RAGQuery = ''q'', tk_RAGBackend = ''milvus'',
     tk_RAGHitIDs = [''c''], tk_RAGMaxScore = float_zero, tk_MatchThreshold = float_zero, tk_ReviewInfluenceWeight = float_zero, tk_CandidateID = ''c'',
     tk_LocalProvider = ''ollama'', tk_LocalModel = ''m'', tk_CloudProvider = [], tk_CloudModel = [], tk_RequestArtifact = zero_artifact,
     tk_LookupArtifact = None, tk_CreatedBy = ''o'', tk_CreatedAt = 0, tk_UpdatedAt = 0, tk_CompletedAt = None\<rparr>"

definition tx_done :: task_db where
  "tx_done = tx_start\<lparr>td_wf := (td_wf tx_start)\<lparr>wf_artifacts := [zero_artifact]\<rparr>, td_tasks := [tx_done_row], td_used := [tx_used]\<rparr>"

definition tx_finish :: task_transition_input where
  "tx_finish = tx_move 3 ''VALIDATED_REUSE_COMPLETED'' ''ollama'' [] [(''validation_id'', JString ''v'')]"

lemma tx_done_fields [simp]: "td_k tx_done = tx_knowledge" "td_tasks tx_done = [tx_done_row]" "td_used tx_done = [tx_used]" "td_validated tx_done = []" "td_events tx_done = []"
  by (simp_all add: tx_done_def tx_start_def)

lemma tx_done_task: "getWorkflowTask tx_done ''t'' = Inr tx_done_row"
  by (simp add: getWorkflowTask_def scanWorkflowTask_def find_row_def joined_artifact_def)
    (simp add: tx_done_def tx_start_def tx_done_row_def tx_run_def zero_artifact_def)

lemma tx_eligible: "knowledge_eligible 7 tx_knowledge tx_item ''code_change''"
  by (simp add: knowledge_eligible_def knowledge_quality_reason_def knowledge_quality_policy_def approval_validation_def duplicate_content_def sql_blank_def find_row_def
      tx_knowledge_def tx_item_def DataProductKnowledge_def)

definition tx_validated :: task_validation_row where
  "tx_validated = \<lparr>tv_TaskID = ''t'', tv_ValidationID = ''v'', tv_CandidateVersion = 1\<rparr>"

lemma tx_recorded:
  assumes "td_k db = tx_knowledge" "td_validated db = []" "te_Payload e = [(''validation_id'', JString ''v'')]" "env_db_now env = 7"
  shows "recordTaskLocalValidation env db tx_done_row e = Inr (db\<lparr>td_validated := [tx_validated]\<rparr>)"
  using assms by (simp add: recordTaskLocalValidation_def payload_text_def tx_knowledge_def tx_item_def tx_done_row_def find_row_def knowledge_quality_policy_def
      source_current_def TaskPurpose_def DataProductKnowledge_def tx_validated_def)

lemma tx_used_current:
  assumes "td_k db = tx_knowledge" "td_used db = [tx_used]"
  shows "used_rows db tx_done_row = [tx_used]" "\<not> used_invalid 7 db tx_done_row tx_used"
proof -
  have item: "find_row ki_ID ''c'' (k_items tx_knowledge) = Some tx_item" by (simp add: tx_knowledge_def tx_item_def find_row_def)
  have "approval_validation tx_knowledge tx_item = Some (hd (k_validations tx_knowledge))"
    by (simp add: approval_validation_def tx_knowledge_def tx_item_def find_row_def)
  then have "\<exists>v. approval_validation tx_knowledge tx_item = Some v \<and> kv_SourceManifestSHA256 v = ''m''" by (simp add: tx_knowledge_def)
  then show "\<not> used_invalid 7 db tx_done_row tx_used"
    using assms item tx_eligible by (auto simp: used_invalid_def tx_used_def tx_done_row_def) (simp_all add: tx_item_def)
  show "used_rows db tx_done_row = [tx_used]" using assms item by (simp add: used_rows_def tx_used_def tx_done_row_def)
qed

lemma tx_task_validated:
  assumes "td_k db = tx_knowledge" "td_validated db = [tx_validated]"
  shows "task_validated 7 db tx_done_row"
  using assms by (simp add: task_validated_def tx_validated_def tx_knowledge_def tx_item_def tx_done_row_def find_row_def knowledge_quality_policy_def
      source_current_def TaskPurpose_def DataProductKnowledge_def)

lemma tx_evidence:
  assumes "td_k db = tx_knowledge" "td_used db = [tx_used]" "td_validated db = []" "te_EventType (tt_Event t) = ''VALIDATED_REUSE_COMPLETED''"
    "te_Payload (tt_Event t) = [(''validation_id'', JString ''v'')]" "env_db_now env = 7"
  shows "completion_evidence env db tx_done_row t = Inr (db\<lparr>td_validated := [tx_validated]\<rparr>)"
proof -
  let ?db = "db\<lparr>td_validated := [tx_validated]\<rparr>"
  have "verifyTaskContextCompletion env ?db tx_done_row True = None"
    using tx_used_current [of ?db] tx_task_validated [of ?db] assms(1,2,6) by (simp add: verifyTaskContextCompletion_def)
  then show ?thesis using tx_recorded [OF assms(1,3,5,6)] assms(4) by (simp add: completion_evidence_def)
qed

lemma tx_finished: "\<exists>task ev st' db'. transition_task tx_service (tx_env (tx_ids 3)) demo_store tx_done tx_done tx_done tx_finish = (Inr ((task, ev), True), st', db')
  \<and> te_ToState ev = ''completed'' \<and> te_TaskID ev = ''t'' \<and> td_events db' = [ev]"
proof -
  let ?env = "tx_env (tx_ids 3)" and ?p = "demo_person ''o''" and ?d = "\<lparr>dec_Allowed = True, dec_CallID = ''c'', dec_PolicyVersion = ''1''\<rparr>"
  let ?sp = "(evidenced ''completed'' [''development'', ''qa'', ''controller''] ''ollama'')\<lparr>ts_completed := True\<rparr>"
  have norm: "normalized_transition tx_finish = tx_finish" unfolding tx_finish_def
    by (rule tx_move_normal) (simp_all add: plain_char_def upper_byte_def lower_byte_def)
  have i: "tx_TaskID tx_finish = ''t''" "tx_ExpectedVersion tx_finish = 3" "tx_EventType tx_finish = ''VALIDATED_REUSE_COMPLETED''" "tx_IdempotencyKey tx_finish = ''kkkk''"
    "tx_Evidence tx_finish = ''x''" "tx_Payload tx_finish = [(''validation_id'', JString ''v'')]" "tx_finish\<lparr>tx_Evidence := ''x'', tx_Payload := [(''validation_id'', JString ''v'')]\<rparr> = tx_finish"
    by (simp_all add: tx_finish_def tx_move_same) (simp_all add: numeral_eq_Suc)
  have task: "tk_WorkflowID tx_done_row = ''w''" "tk_ID tx_done_row = ''t''" "tk_State tx_done_row = ''validation_required''" "tk_Version tx_done_row = 3" by (simp_all add: tx_done_row_def)
  have run: "getWorkflowByID (td_wf tx_done) ''w'' = Inr tx_run"
    by (rule tx_base_run [THEN conjunct2]) (simp add: tx_base_def tx_done_def tx_start_def)
  have sp: "checked_task_spec ?p tx_run tx_done_row tx_finish = Inr (?sp, ''development'')"
    using task(3) by (simp add: tx_table tx_finish_def del: selectRole.simps)
  have cand: "candidate_of tx_done tx_done_row tx_finish = Inr (''c'', Some tx_item)" "check_candidate tx_done tx_done_row tx_finish ''c'' (Some tx_item) = None"
    by (simp_all add: tx_finish_def tx_done_row_def tx_candidate)
  obtain a st' where put: "put_evidence demo_store ''x'' = (Inr a, st')" using tx_put_evidence by blast
  let ?t = "proposed_task_transition ?env ?p tx_done_row tx_finish ?sp ''development'' a ?d ''c'' no_lookup"
  have t: "tt_TaskID ?t = ''t''" "tt_ExpectedVersion ?t = 3" "tt_ExpectedState ?t = ''validation_required''" "tt_ResultingState ?t = ''completed''"
    "te_EventType (tt_Event ?t) = ''VALIDATED_REUSE_COMPLETED''" "te_Payload (tt_Event ?t) = [(''validation_id'', JString ''v'')]"
    using i task by (simp_all add: proposed_task_transition_def proposed_task_event_def evidenced_def tspec_def)
  let ?db1 = "add_artifact (tt_LookupArtifact ?t) (add_artifact (te_EvidenceArtifact (tt_Event ?t)) tx_done)"
  let ?row = "moved_task ?env ?t tx_done_row" and ?ev = "logged_task_event ?env ?t tx_done_row"
  let ?db = "(?db1\<lparr>td_validated := [tx_validated]\<rparr>)\<lparr>td_tasks := [?row], td_events := [?ev]\<rparr>"
  have evidence: "completion_evidence ?env ?db1 tx_done_row ?t = Inr (?db1\<lparr>td_validated := [tx_validated]\<rparr>)"
    by (rule tx_evidence) (simp_all add: t, simp add: tx_env_def)
  have row: "put_row tk_ID ?row [tx_done_row] = [?row]" "find_row tk_ID ''t'' [tx_done_row] = Some tx_done_row" "tk_ID ?row = ''t''" "tk_WorkflowID ?row = ''w''"
    by (simp_all add: put_row_def find_row_def moved_task_def tx_done_row_def)
  have "task_joins tx_done tx_done_row" by (simp add: task_joins_def joined_artifact_def find_row_def tx_done_def tx_start_def tx_done_row_def tx_run_def)
  then have joins: "task_joins ?db ?row"
    using add_artifact_joins [OF add_artifact_joins] by (fastforce simp: task_joins_def joined_artifact_def moved_task_def)
  have "\<exists>u. getWorkflowTask ?db ''t'' = Inr u"
    using getWorkflowTask_row [of "''t''" ?db ?row] joins row(3) by (auto simp: task_joins_def find_row_def)
  then obtain u where u: "getWorkflowTask ?db ''t'' = Inr u" by blast
  have repo: "repo_TransitionWorkflowTask ?env tx_done ?t = (Inr (u, ?ev), ?db)"
    using t tx_done_task task evidence row u by (simp add: repo_TransitionWorkflowTask_def Let_def find_row_def)
  have "transition_task tx_service ?env demo_store tx_done tx_done tx_done tx_finish = (Inr ((u, ?ev), True), st', ?db)"
    using norm i(1-6) tx_done_task task run sp cand put repo tx_principal [of "tx_ids 3"]
    by (simp add: transition_task_def Let_def i(7) tx_allowed tx_authorizer evidenced_def tspec_def)
  then show ?thesis using t by (auto simp: logged_task_event_def)
qed

theorem completed_task_is_validated_witness:
  "\<exists>task ev st' db' l v k. transition_task tx_service (tx_env (tx_ids 3)) demo_store tx_done tx_done tx_done tx_finish = (Inr ((task, ev), True), st', db')
     \<and> te_ToState ev = ''completed'' \<and> l \<in> set (td_validated db') \<and> find_row kv_ID (tv_ValidationID l) (k_validations (td_k db')) = Some v
     \<and> find_row ki_ID ''c'' (k_items (td_k db')) = Some k \<and> kv_CandidateVersion v = ki_Version k \<and> kv_Verdict v = ''pass''"
proof -
  obtain task ev st' db' where fin: "transition_task tx_service (tx_env (tx_ids 3)) demo_store tx_done tx_done tx_done tx_finish = (Inr ((task, ev), True), st', db')"
    "te_ToState ev = ''completed''" "te_TaskID ev = ''t''" "td_events db' = [ev]" using tx_finished by blast
  have new: "db' \<noteq> tx_done" using fin(4) by auto
  have current: "getWorkflowTask tx_done (te_TaskID ev) = Inr tx_done_row" using tx_done_task fin(3) by simp
  have cid: "tk_CandidateID tx_done_row = ''c''" by (simp add: tx_done_row_def)
  show ?thesis using completed_task_is_validated [OF fin(1,2) new current] fin(1,2) unfolding cid by blast
qed

end
