(* ===== verification/Packages.thy ===== *)
theory Packages
  imports ExecService ExecHistory
begin

text \<open>
  Qualification and activation of agent packages (\<open>src/internal/service/execution_package.go\<close>, \<open>src/internal/postgres/execution_package.go\<close>,
  \<open>src/internal/domain/package.go\<close>): a campaign of runs on a qualification target is evaluated, and an activation or a rollback of a
  package for one role of a target rests on such an evaluation. The activation table has two parts here: the columns the execution
  store reads are \<open>x_activations\<close> and its \<open>record\<close> column is \<open>pk_records\<close>, with the same key.
\<close>

section \<open>Records and tables\<close>

record package_evaluation =
  pe_ID :: string
  pe_ProjectID :: string
  pe_PackageID :: string
  pe_PackageSHA256 :: string
  pe_Role :: string
  pe_RegressionID :: string
  pe_RunIDs :: "string list"
  pe_Outcome :: string
  pe_TrialKind :: string
  pe_Positive :: int
  pe_Negative :: int
  pe_Actor :: string
  pe_Evidence :: artifact
  pe_CreatedAt :: int

record package_activation =
  pa_ProjectID :: string
  pa_TargetID :: string
  pa_Role :: string
  pa_PackageID :: string
  pa_PackageSHA256 :: string
  pa_EvaluationID :: string
  pa_Version :: int
  pa_Actor :: string
  pa_Action :: string
  pa_Reason :: string
  pa_PreviousSHA256 :: string

definition zero_activation :: package_activation where
  "zero_activation = \<lparr>pa_ProjectID = [], pa_TargetID = [], pa_Role = [], pa_PackageID = [], pa_PackageSHA256 = [], pa_EvaluationID = [],
     pa_Version = 0, pa_Actor = [], pa_Action = [], pa_Reason = [], pa_PreviousSHA256 = []\<rparr>"

record package_decision =
  kd_ID :: string
  kd_Project :: string
  kd_Target :: string
  kd_Role :: string
  kd_PackageSHA256 :: string
  kd_Actor :: string
  kd_Record :: package_activation

record package_db =
  pk_exec :: exec_db
  pk_evaluations :: "package_evaluation list"
  pk_records :: "package_activation list"
  pk_decisions :: "package_decision list"

definition activation_key :: "activation_row \<Rightarrow> string \<times> string \<times> string" where
  "activation_key a = (act_Project a, act_Target a, act_Role a)"

definition record_key :: "package_activation \<Rightarrow> string \<times> string \<times> string" where
  "record_key a = (pa_ProjectID a, pa_TargetID a, pa_Role a)"

text \<open>\<open>INSERT ... ON CONFLICT DO UPDATE\<close> on a table with a primary key.\<close>

definition upsert_row :: "('r \<Rightarrow> 'k) \<Rightarrow> 'r \<Rightarrow> 'r list \<Rightarrow> 'r list" where
  "upsert_row key r rows = (if find_row key (key r) rows = None then rows @ [r] else put_row key r rows)"

section \<open>The repository\<close>

definition RecordPackageEvaluation :: "call_env \<Rightarrow> package_db \<Rightarrow> package_evaluation \<Rightarrow> package_evaluation result \<times> package_db" where
  "RecordPackageEvaluation env db e =
     (if \<not> executionActor env (pk_exec db) (pe_Actor e) (pe_ProjectID e) ''qa'' True then (Err ErrForbidden, db)
      else if \<not> executionActor env (pk_exec db) (pe_Actor e) (pe_ProjectID e) ''operations'' True then (Err ErrForbidden, db)
      else if find_row pe_ID (pe_ID e) (pk_evaluations db) \<noteq> None \<or> \<not> time_marshals (utc (pe_CreatedAt e)) then (Err ErrDatabase, db)
      else (Ok e, db\<lparr>pk_exec := (pk_exec db)\<lparr>x_blobs := saveProductArtifact (pe_Evidence e) (x_blobs (pk_exec db))\<rparr>,
                     pk_evaluations := pk_evaluations db @ [e]\<rparr>))"

definition GetPackageEvaluation :: "package_db \<Rightarrow> string \<Rightarrow> string \<Rightarrow> package_evaluation result" where
  "GetPackageEvaluation db project eid =
     (case find (\<lambda>e. pe_ProjectID e = project \<and> pe_ID e = eid) (pk_evaluations db) of None \<Rightarrow> Err ErrNoRows | Some e \<Rightarrow> Ok e)"

definition GetPackageActivation :: "package_db \<Rightarrow> string \<Rightarrow> string \<Rightarrow> string \<Rightarrow> package_activation" where
  "GetPackageActivation db project target role =
     (case find_row record_key (project, target, role) (pk_records db) of None \<Rightarrow> zero_activation | Some a \<Rightarrow> a)"

definition activation_columns :: "package_activation \<Rightarrow> activation_row" where
  "activation_columns a =
     \<lparr>act_Project = pa_ProjectID a, act_Target = pa_TargetID a, act_Role = pa_Role a, act_PackageSHA256 = pa_PackageSHA256 a\<rparr>"

definition decided_before :: "package_db \<Rightarrow> package_activation \<Rightarrow> bool" where
  "decided_before db a = list_ex (\<lambda>d. kd_Project d = pa_ProjectID a \<and> kd_Target d = pa_TargetID a \<and> kd_Role d = pa_Role a
      \<and> kd_PackageSHA256 d = pa_PackageSHA256 a) (pk_decisions db)"

definition activated :: "call_env \<Rightarrow> package_db \<Rightarrow> package_activation \<Rightarrow> package_db" where
  "activated env db a =
     db\<lparr>pk_exec := (pk_exec db)\<lparr>x_activations := upsert_row activation_key (activation_columns a) (x_activations (pk_exec db))\<rparr>,
        pk_records := upsert_row record_key a (pk_records db),
        pk_decisions := pk_decisions db @ [\<lparr>kd_ID = env_id env 0, kd_Project = pa_ProjectID a, kd_Target = pa_TargetID a, kd_Role = pa_Role a,
          kd_PackageSHA256 = pa_PackageSHA256 a, kd_Actor = pa_Actor a, kd_Record = a\<rparr>]\<rparr>"

definition repo_ActivatePackage :: "call_env \<Rightarrow> package_db \<Rightarrow> package_activation \<Rightarrow> package_activation result \<times> package_db" where
  "repo_ActivatePackage env db a =
     (if \<not> executionActor env (pk_exec db) (pa_Actor a) (pa_ProjectID a) ''qa'' True then (Err ErrForbidden, db)
      else if \<not> executionActor env (pk_exec db) (pa_Actor a) (pa_ProjectID a) ''operations'' True then (Err ErrForbidden, db)
      else let current = GetPackageActivation db (pa_ProjectID a) (pa_TargetID a) (pa_Role a) in
        if pa_PackageSHA256 current \<noteq> pa_PreviousSHA256 a then (Err ErrVersionConflict, db)
        else case GetPackageEvaluation db (pa_ProjectID a) (pa_EvaluationID a) of
          Inl e \<Rightarrow> (Err e, db)
        | Inr evaluation \<Rightarrow>
            if pe_Outcome evaluation \<noteq> ''passed'' \<or> pe_PackageSHA256 evaluation \<noteq> pa_PackageSHA256 a \<or> pe_Role evaluation \<noteq> pa_Role a
              then (Err ErrValidationRequired, db)
            else if pa_Action a = ''rollback'' \<and> (\<not> decided_before db a \<or> pa_PackageSHA256 current = pa_PackageSHA256 a)
              then (Err ErrValidationRequired, db)
            else if find_row kd_ID (env_id env 0) (pk_decisions db) \<noteq> None then (Err ErrDatabase, db)
            else let a' = a\<lparr>pa_Version := pa_Version current + 1\<rparr> in (Ok a', activated env db a'))"

section \<open>JSON of a campaign\<close>

definition json_usage :: "execution_usage \<Rightarrow> json" where
  "json_usage u = JObject [(''attempts'', JInt (eu_Attempts u)), (''model_calls'', JInt (eu_ModelCalls u)),
     (''tokens_charged'', JInt (eu_TokensCharged u)), (''tokens_actual'', JInt (eu_TokensActual u)),
     (''source_queries'', JInt (eu_SourceQueries u)), (''source_rows'', JInt (eu_SourceRows u))]"

definition json_run :: "execution_run \<Rightarrow> json" where
  "json_run r = JObject [(''schema'', JString (er_Schema r)), (''id'', JString (er_ID r)), (''project_id'', JString (er_ProjectID r)),
     (''product_id'', JString (er_ProductID r)), (''kind'', JString (er_Kind r)), (''repository_revision'', JString (er_RepositoryRevision r)),
     (''intent'', json_binding (er_Intent r)), (''bindings'', JArray (map json_binding (er_Bindings r))), (''owner'', JString (er_Owner r)),
     (''target'', json_target (er_Target r)), (''packages'', json_map (map (\<lambda>(k, p). (k, json_package p)) (er_Packages r))),
     (''status'', JString (er_Status r)), (''stage'', JString (er_Stage r)), (''version'', JInt (er_Version r)),
     (''step_number'', JInt (er_StepNumber r)), (''usage'', json_usage (er_Usage r)), (''blockers'', json_strings (er_Blockers r)),
     (''created_at'', json_time (utc (er_CreatedAt r))), (''deadline'', json_time (utc (er_Deadline r))),
     (''updated_at'', json_time (utc (er_UpdatedAt r))), (''idempotency_key'', JString (er_IdempotencyKey r)),
     (''request_sha256'', JString (er_RequestSHA256 r))]"

definition json_step :: "execution_step \<Rightarrow> json" where
  "json_step s = JObject (
     [(''id'', JString (es_ID s)), (''run_id'', JString (es_RunID s)), (''number'', JInt (es_Number s)), (''stage'', JString (es_Stage s)),
      (''actor'', JString (es_Actor s)), (''role'', JString (es_Role s)), (''package_sha256'', JString (es_PackageSHA s)),
      (''fence'', JInt (es_Fence s)), (''lease_until'', json_time (utc (es_LeaseUntil s))), (''started_at'', json_time (utc (es_StartedAt s)))]
     @ (case es_CompletedAt s of None \<Rightarrow> [] | Some t \<Rightarrow> [(''completed_at'', json_time (utc t))])
     @ [(''context_sha256'', JString (es_ContextSHA s))]
     @ (case es_Result s of None \<Rightarrow> [] | Some r \<Rightarrow> [(''result'', json_result r)])
     @ [(''evidence'', json_artifact (es_Evidence s))])"

definition json_event :: "execution_event \<Rightarrow> json" where
  "json_event e = JObject (
     [(''id'', JString (ee_ID e)), (''run_id'', JString (ee_RunID e))] @ omit_empty ''step_id'' (ee_StepID e)
     @ [(''kind'', JString (ee_Kind e)), (''actor'', JString (ee_Actor e)), (''version'', JInt (ee_Version e)),
        (''reason'', JString (ee_Reason e)), (''evidence'', json_artifact (ee_Evidence e)), (''created_at'', json_time (utc (ee_CreatedAt e)))])"

definition json_view :: "execution_view \<Rightarrow> json" where
  "json_view v = JObject [(''run'', json_run (view_Run v)), (''steps'', JArray (map json_step (view_Steps v))),
     (''events'', JArray (map json_event (view_Events v)))]"

definition view_marshals :: "execution_view \<Rightarrow> bool" where
  "view_marshals v \<longleftrightarrow>
     list_all (\<lambda>t. time_marshals (utc t)) [er_CreatedAt (view_Run v), er_Deadline (view_Run v), er_UpdatedAt (view_Run v)]
     \<and> list_all (\<lambda>s. time_marshals (utc (es_LeaseUntil s)) \<and> time_marshals (utc (es_StartedAt s))
          \<and> (case es_CompletedAt s of None \<Rightarrow> True | Some t \<Rightarrow> time_marshals (utc t))) (view_Steps v)
     \<and> list_all (\<lambda>e. time_marshals (utc (ee_CreatedAt e))) (view_Events v)"

definition json_package_evaluation :: "package_evaluation \<Rightarrow> json" where
  "json_package_evaluation e = JObject
     [(''id'', JString (pe_ID e)), (''project_id'', JString (pe_ProjectID e)), (''package_id'', JString (pe_PackageID e)),
      (''package_sha256'', JString (pe_PackageSHA256 e)), (''role'', JString (pe_Role e)), (''regression_id'', JString (pe_RegressionID e)),
      (''run_ids'', json_strings (pe_RunIDs e)), (''outcome'', JString (pe_Outcome e)), (''trial_kind'', JString (pe_TrialKind e)),
      (''positive'', JInt (pe_Positive e)), (''negative'', JInt (pe_Negative e)), (''actor'', JString (pe_Actor e)),
      (''evidence'', json_artifact (pe_Evidence e)), (''created_at'', json_time (utc (pe_CreatedAt e)))]"

text \<open>The evidence of an evaluation: a value that does not marshal leaves no bytes.\<close>

definition campaign_bytes :: "package_evaluation \<Rightarrow> execution_view list \<Rightarrow> string" where
  "campaign_bytes e proofs =
     (if time_marshals (utc (pe_CreatedAt e)) \<and> list_all view_marshals proofs
      then print_json (JObject [(''evaluation'', json_package_evaluation e), (''runs'', JArray (map json_view proofs))]) else [])"

section \<open>The service\<close>

record package_evaluate_input =
  pei_ProjectID :: string
  pei_PackageID :: string
  pei_ExpectedSHA256 :: string
  pei_RunIDs :: "string list"

record package_activate_input =
  pai_ProjectID :: string
  pai_TargetID :: string
  pai_PackageID :: string
  pai_EvaluationID :: string
  pai_ExpectedActiveSHA256 :: string
  pai_Action :: string
  pai_Reason :: string

record package_status =
  ps_Configured :: agent_package
  ps_Qualification :: bool
  ps_Active :: package_activation

definition packageAuthority :: "('s exec_service_scheme) \<Rightarrow> call_env \<Rightarrow> string \<Rightarrow> principal result" where
  "packageAuthority svc env project =
     (case sdlc_action svc env project ''packages'' ''create'' [] of
        Inl e \<Rightarrow> Err e
      | Inr p \<Rightarrow> if \<not> p_Human p \<or> \<not> HasRole p project ''qa'' \<or> \<not> HasRole p project ''operations'' then Err ErrForbidden else Ok p)"

definition GetPackageStatus ::
  "('s exec_service_scheme) \<Rightarrow> call_env \<Rightarrow> package_db \<Rightarrow> string \<Rightarrow> string \<Rightarrow> string \<Rightarrow> package_status result" where
  "GetPackageStatus svc env db project target role =
     (case packageAuthority svc env project of
        Inl e \<Rightarrow> Err e
      | Inr _ \<Rightarrow>
          (case registry_Target (svc_Registry svc) project target of
             Inl e \<Rightarrow> Err e
           | Inr (t, packages) \<Rightarrow>
               (case map_of packages role of
                  None \<Rightarrow> Err ErrInvalidInput
                | Some pkg \<Rightarrow> Ok \<lparr>ps_Configured = pkg, ps_Qualification = et_Qualification t,
                    ps_Active = GetPackageActivation db project target role\<rparr>)))"

text \<open>What one step of a run contributes to the campaign of a package.\<close>

definition trial_kind :: "string \<Rightarrow> execution_result \<Rightarrow> string" where
  "trial_kind sofar result =
     (case rs_Model result of
        None \<Rightarrow> sofar
      | Some m \<Rightarrow> if me_TrialKind m = ''fixture'' then ''fixture'' else if sofar \<noteq> ''fixture'' then ''local_model'' else sofar)"

definition own_step :: "agent_package \<Rightarrow> execution_step \<Rightarrow> bool" where
  "own_step pkg step \<longleftrightarrow> ExecutionRole (es_Stage step) = ap_Role pkg \<and> es_PackageSHA step = package_Digest pkg"

definition refused_candidate :: "agent_package \<Rightarrow> execution_result \<Rightarrow> bool" where
  "refused_candidate pkg result \<longleftrightarrow> rs_Stage result = ''evaluate'' \<and> rs_Outcome result = ''failed''
     \<and> (ap_Role pkg = ''sdlc_builder'' \<or> ap_Role pkg = ''sdlc_delivery'')"

definition positive_trial :: "agent_package \<Rightarrow> execution_run \<Rightarrow> execution_step \<Rightarrow> execution_result \<Rightarrow> bool" where
  "positive_trial pkg run step result \<longleftrightarrow> own_step pkg step \<and> rs_Outcome result = ''succeeded'' \<and> er_Status run = ''completed''"

definition negative_trial :: "agent_package \<Rightarrow> execution_step \<Rightarrow> execution_result \<Rightarrow> bool" where
  "negative_trial pkg step result \<longleftrightarrow> own_step pkg step \<and> (rs_Outcome result = ''failed'' \<or> rs_Outcome result = ''blocked'')"

definition tally_step :: "agent_package \<Rightarrow> execution_run \<Rightarrow> execution_step \<Rightarrow> package_evaluation \<Rightarrow> package_evaluation" where
  "tally_step pkg run step out =
     (case es_Result step of
        None \<Rightarrow> out
      | Some result \<Rightarrow>
          out\<lparr>pe_TrialKind := (if own_step pkg step then trial_kind (pe_TrialKind out) result else pe_TrialKind out),
              pe_Positive := pe_Positive out + (if positive_trial pkg run step result then 1 else 0),
              pe_Negative := pe_Negative out + (if negative_trial pkg step result then 1 else 0)
                               + (if refused_candidate pkg result then 1 else 0)\<rparr>)"

definition tally_run :: "agent_package \<Rightarrow> execution_view \<Rightarrow> package_evaluation \<Rightarrow> package_evaluation" where
  "tally_run pkg view out = fold (tally_step pkg (view_Run view)) (view_Steps view) out"

text \<open>The loop over the runs of a campaign; \<open>proofs\<close> are the views collected so far.\<close>

fun tally_runs ::
  "('s exec_service_scheme) \<Rightarrow> call_env \<Rightarrow> exec_db \<Rightarrow> string \<Rightarrow> agent_package \<Rightarrow> string list \<Rightarrow> execution_view list \<Rightarrow> package_evaluation
     \<Rightarrow> string list \<Rightarrow> (package_evaluation \<times> execution_view list) result" where
  "tally_runs svc env seen project pkg ids proofs out [] = Ok (out, proofs)"
| "tally_runs svc env seen project pkg ids proofs out (rid # rids) =
     (if rid \<in> set ids then Err ErrInvalidInput
      else case service_GetExecution svc (sub_env (Suc (length proofs)) env) seen project rid of
        Inl e \<Rightarrow> Err e
      | Inr view \<Rightarrow>
          if package_Digest (map_get zero_package (er_Packages (view_Run view)) (ap_Role pkg)) \<noteq> package_Digest pkg
             \<or> \<not> et_Qualification (er_Target (view_Run view))
            then Err ErrVersionConflict
          else tally_runs svc env seen project pkg (rid # ids) (proofs @ [view]) (tally_run pkg view out) rids)"

definition begun_evaluation :: "call_env \<Rightarrow> principal \<Rightarrow> agent_package \<Rightarrow> package_evaluate_input \<Rightarrow> package_evaluation" where
  "begun_evaluation env p pkg i =
     \<lparr>pe_ID = env_id env 0, pe_ProjectID = pei_ProjectID i, pe_PackageID = ap_ID pkg, pe_PackageSHA256 = package_Digest pkg,
      pe_Role = ap_Role pkg, pe_RegressionID = ap_RegressionID pkg, pe_RunIDs = pei_RunIDs i, pe_Outcome = ''failed'',
      pe_TrialKind = ''deterministic'', pe_Positive = 0, pe_Negative = 0, pe_Actor = p_ID p, pe_Evidence = zero_artifact,
      pe_CreatedAt = env_clock env 0\<rparr>"

definition judged :: "package_evaluation \<Rightarrow> package_evaluation" where
  "judged out = (if pe_Positive out > 0 \<and> pe_Negative out > 0 then out\<lparr>pe_Outcome := ''passed''\<rparr> else out)"

definition EvaluatePackage ::
  "('s exec_service_scheme) \<Rightarrow> call_env \<Rightarrow> local_store \<Rightarrow> package_db \<Rightarrow> package_db \<Rightarrow> package_evaluate_input
     \<Rightarrow> package_evaluation result \<times> local_store \<times> package_db" where
  "EvaluatePackage svc env st seen db i =
     (case packageAuthority svc env (pei_ProjectID i) of
        Inl e \<Rightarrow> (Err e, st, db)
      | Inr p \<Rightarrow>
          (case registry_Package (svc_Registry svc) (pei_PackageID i) of
             None \<Rightarrow> (Err ErrVersionConflict, st, db)
           | Some pkg \<Rightarrow>
               if package_Digest pkg \<noteq> pei_ExpectedSHA256 i \<or> length (pei_RunIDs i) < 1 \<or> length (pei_RunIDs i) > 20
                 then (Err ErrVersionConflict, st, db)
               else (case tally_runs svc env (pk_exec seen) (pei_ProjectID i) pkg [] [] (begun_evaluation env p pkg i) (pei_RunIDs i) of
                   Inl e \<Rightarrow> (Err e, st, db)
                 | Inr (out, proofs) \<Rightarrow>
                     (case Put st (campaign_bytes (judged out) proofs) ''application/json'' of
                        (Inl e, st') \<Rightarrow> (Err e, st', db)
                      | (Inr a, st') \<Rightarrow>
                          (case RecordPackageEvaluation (sub_env 31 env) db ((judged out)\<lparr>pe_Evidence := a\<rparr>) of (r, db') \<Rightarrow> (r, st', db'))))))"

definition evaluation_fits :: "execution_target \<Rightarrow> agent_package \<Rightarrow> package_evaluation \<Rightarrow> bool" where
  "evaluation_fits t pkg e \<longleftrightarrow>
     \<not> (pe_PackageSHA256 e \<noteq> package_Digest pkg \<or> pe_RegressionID e \<noteq> ap_RegressionID pkg \<or> pe_Outcome e \<noteq> ''passed''
        \<or> et_Environment t \<noteq> ''disposable'' \<and> ap_Model pkg \<noteq> [] \<and> pe_TrialKind e \<noteq> ''local_model'')"

definition ActivatePackage ::
  "('s exec_service_scheme) \<Rightarrow> call_env \<Rightarrow> package_db \<Rightarrow> package_db \<Rightarrow> package_activate_input \<Rightarrow> package_activation result \<times> package_db" where
  "ActivatePackage svc env seen db i =
     (case packageAuthority svc env (pai_ProjectID i) of
        Inl e \<Rightarrow> (Err e, db)
      | Inr p \<Rightarrow>
          if length (pai_Reason i) < 1 \<or> length (pai_Reason i) > 2048 \<or> (pai_Action i \<noteq> ''activate'' \<and> pai_Action i \<noteq> ''rollback'')
            then (Err ErrInvalidInput, db)
          else case registry_Package (svc_Registry svc) (pai_PackageID i) of
            None \<Rightarrow> (Err ErrForbidden, db)
          | Some pkg \<Rightarrow>
              (case registry_Target (svc_Registry svc) (pai_ProjectID i) (pai_TargetID i) of
                 Inl e \<Rightarrow> (Err e, db)
               | Inr (t, _) \<Rightarrow>
                   if map_get [] (et_Packages t) (ap_Role pkg) \<noteq> ap_ID pkg then (Err ErrVersionConflict, db)
                   else (case GetPackageEvaluation seen (pai_ProjectID i) (pai_EvaluationID i) of
                       Inl e \<Rightarrow> (Err e, db)
                     | Inr e \<Rightarrow>
                         if \<not> evaluation_fits t pkg e then (Err ErrValidationRequired, db)
                         else repo_ActivatePackage (sub_env 1 env) db
                           \<lparr>pa_ProjectID = pai_ProjectID i, pa_TargetID = et_ID t, pa_Role = ap_Role pkg, pa_PackageID = ap_ID pkg,
                            pa_PackageSHA256 = package_Digest pkg, pa_EvaluationID = pe_ID e, pa_Version = 0, pa_Actor = p_ID p,
                            pa_Action = pai_Action i, pa_Reason = pai_Reason i, pa_PreviousSHA256 = pai_ExpectedActiveSHA256 i\<rparr>)))"

end
