(* ===== verification/PackageProps.thy ===== *)
theory PackageProps
  imports Packages ExecProps
begin

text \<open>
  Correctness of package qualification: the store, its packages and the executions as one transition system. Every active package
  rests on a passed campaign whose trials are still on record in the execution store, a claim outside qualification uses active
  packages only, and the decisions of a role form one chain of versions.
\<close>

section \<open>Results are recorded with the completion\<close>

definition results_closed :: "exec_db \<Rightarrow> bool" where
  "results_closed db \<longleftrightarrow> (\<forall>row \<in> set (x_steps db). es_Result (row_Step row) \<noteq> None \<longrightarrow> es_CompletedAt (row_Step row) \<noteq> None)"

lemma results_closed_put:
  assumes "results_closed db" and "set (x_steps db') \<subseteq> insert row (set (x_steps db))"
    and "es_Result (row_Step row) \<noteq> None \<longrightarrow> es_CompletedAt (row_Step row) \<noteq> None"
  shows "results_closed db'"
  using assms unfolding results_closed_def by blast

lemma put_row_subset: "set (put_row key r rows) \<subseteq> insert r (set rows)"
  by (auto simp: put_row_def)

lemma results_closed_save:
  assumes "results_closed db" and "x_steps db' = put_row step_id (saved_step row step) (x_steps db)"
    and "es_Result step \<noteq> None \<longrightarrow> es_CompletedAt step \<noteq> None"
  shows "results_closed db'"
  by (rule results_closed_put [OF assms(1), of db' "saved_step row step"]) (use assms(3) in \<open>simp_all add: assms(2) put_row_subset saved_step_def\<close>)

lemma open_step_closed:
  assumes "results_closed db" and "open_step db run = Some row"
  shows "es_Result (row_Step row) = None"
proof -
  have "row \<in> set (x_steps db)" "es_CompletedAt (row_Step row) = None"
    using assms(2) loadExecutionStep_Some by (auto simp: open_step_Some)
  then show ?thesis using assms(1) unfolding results_closed_def by blast
qed

lemma exec_change_closed:
  assumes "exec_change db db'" and closed: "results_closed db"
  shows "results_closed db'"
proof -
  have same: "results_closed d" if "x_steps d = x_steps db" for d using closed that by (simp add: results_closed_def)
  show ?thesis
    using assms(1)
  proof cases
    case (start run env step sid now token run' ev)
    have "es_Result step = None" using start by (simp add: leased_step_def fresh_step_def)
    then show ?thesis using closed unfolding start(1) results_closed_def by simp
  next
    case (reclaim run row now env ev token)
    then show ?thesis using open_step_closed [OF closed reclaim(4)]
      by (intro results_closed_save [OF closed, of _ row "leased_step (row_Step row) now token (run_Package run) run"]) (simp_all add: leased_step_def)
  next
    case (result run row res status stage ev env db1 arts evidence blobs)
    then show ?thesis
      by (intro results_closed_save [OF closed, of _ row "completed_step env (row_Step row) res evidence"]) (simp_all add: completed_step_def)
  next
    case (control run env action reason run' db1 ev)
    then consider "db1 = db" | row where "open_step db run = Some row" "db1 = saveExecutionStep db row (fenced_step (row_Step row) (env_clock env 1))"
      using control_effect_run [OF control(4)] by blast
    then show ?thesis
    proof cases
      case 1
      then show ?thesis using control(1) same by simp
    next
      case (2 row)
      then show ?thesis using control(1) open_step_closed [OF closed 2(1)]
        by (intro results_closed_save [OF closed, of _ row "fenced_step (row_Step row) (env_clock env 1)"]) (simp_all add: fenced_step_def)
    qed
  next
    case (bind_context run row sha blobs arts)
    then show ?thesis using open_step_closed [OF closed bind_context(4)]
      by (intro results_closed_save [OF closed, of _ row "(row_Step row)\<lparr>es_ContextSHA := sha\<rparr>"]) simp_all
  qed (simp_all add: same)
qed

lemma x_step_closed:
  assumes "x_step db db'" and "results_closed db"
  shows "results_closed db'"
  using x_step_change [OF assms(1)]
proof
  assume "same_exec db db'"
  then show ?thesis using assms(2) by (simp add: same_exec_def results_closed_def)
qed (rule exec_change_closed [OF _ assms(2)])

section \<open>Trials\<close>

definition recorded :: "(execution_result \<Rightarrow> bool) \<Rightarrow> execution_step \<Rightarrow> bool" where
  "recorded P s \<longleftrightarrow> (\<exists>result. es_Result s = Some result \<and> P result)"

text \<open>Some recorded result of a step of a qualification run among \<open>rids\<close> has a property.\<close>

definition campaign_step ::
  "exec_db \<Rightarrow> string \<Rightarrow> string list \<Rightarrow> (execution_run \<Rightarrow> execution_step \<Rightarrow> execution_result \<Rightarrow> bool) \<Rightarrow> bool" where
  "campaign_step db project rids P \<longleftrightarrow> (\<exists>run \<in> set (x_runs db). er_ProjectID run = project \<and> er_ID run \<in> set rids \<and> et_Qualification (er_Target run)
     \<and> (\<exists>s \<in> row_Step ` set (x_steps db). es_RunID s = er_ID run \<and> recorded (P run s) s))"

definition ran_package :: "package_evaluation \<Rightarrow> execution_step \<Rightarrow> bool" where
  "ran_package e step \<longleftrightarrow> ExecutionRole (es_Stage step) = pe_Role e \<and> es_PackageSHA step = pe_PackageSHA256 e"

text \<open>
  The campaign an evaluation reports, read off the execution store: the package of that digest succeeded in its role in a run that
  completed, and failed, was blocked or had its candidate refused by an independent evaluation.
\<close>

definition qualified_by :: "exec_db \<Rightarrow> package_evaluation \<Rightarrow> bool" where
  "qualified_by db e \<longleftrightarrow>
     campaign_step db (pe_ProjectID e) (pe_RunIDs e) (\<lambda>run s r. ran_package e s \<and> rs_Outcome r = ''succeeded'' \<and> er_Status run = ''completed'')
     \<and> campaign_step db (pe_ProjectID e) (pe_RunIDs e) (\<lambda>run s r. ran_package e s \<and> rs_Outcome r \<in> {''failed'', ''blocked''}
          \<or> rs_Stage r = ''evaluate'' \<and> rs_Outcome r = ''failed'' \<and> pe_Role e \<in> {''sdlc_builder'', ''sdlc_delivery''})"

lemma campaign_step_mono:
  "campaign_step db project rids P \<Longrightarrow> (\<And>run s r. P run s r \<Longrightarrow> Q run s r) \<Longrightarrow> campaign_step db project rids Q"
  unfolding campaign_step_def recorded_def by blast

lemma campaign_step_later:
  assumes inv: "exec_inv db" and closed: "results_closed db" and grown: "exec_later db db'" and c: "campaign_step db project rids P"
    and P: "\<And>run run' s r. P run s r \<Longrightarrow> exec_run_later run run' \<Longrightarrow> P run' s r"
  shows "campaign_step db' project rids P"
proof -
  have keys: "keys_ok db" using inv by (simp add: exec_inv_def)
  obtain run row where run: "run \<in> set (x_runs db)" "er_ProjectID run = project" "er_ID run \<in> set rids" "et_Qualification (er_Target run)"
    and row: "row \<in> set (x_steps db)" "es_RunID (row_Step row) = er_ID run" "recorded (P run (row_Step row)) (row_Step row)"
    using c unfolding campaign_step_def by blast
  have "find_row er_ID (er_ID run) (x_runs db) = Some run" using run keys by (intro find_row_distinct) (simp_all add: keys_ok_def)
  then obtain run' where run': "find_row er_ID (er_ID run) (x_runs db') = Some run'" "exec_run_later run run'"
    using grown unfolding exec_later_def by meson
  have "find_row step_id (step_id row) (x_steps db) = Some row" using row keys by (intro find_row_distinct) (simp_all add: keys_ok_def)
  then obtain row' where row': "find_row step_id (step_id row) (x_steps db') = Some row'" "step_later (row_Step row) (row_Step row')"
    using grown unfolding exec_later_def by meson
  have "es_CompletedAt (row_Step row) \<noteq> None" using closed row unfolding results_closed_def recorded_def by auto
  then have eq: "row_Step row' = row_Step row" using row'(2) by (simp add: step_later_def)
  have "recorded (P run' (row_Step row)) (row_Step row)" using row(3) P run'(2) unfolding recorded_def by blast
  moreover have mem: "row' \<in> set (x_steps db')" "run' \<in> set (x_runs db')" using find_row_SomeD [OF row'(1)] find_row_SomeD [OF run'(1)] by simp_all
  ultimately have "\<exists>s \<in> row_Step ` set (x_steps db'). es_RunID s = er_ID run' \<and> recorded (P run' s) s"
    using eq row(2) run'(2) by (intro bexI [OF _ imageI [OF mem(1)]]) (simp_all add: exec_run_later_def contract_def)
  then show ?thesis
    unfolding campaign_step_def using mem(2) run(2-4) run'(2) by (intro bexI [of _ run']) (simp_all add: exec_run_later_def contract_def)
qed

lemma qualified_later:
  assumes "exec_inv db" "results_closed db" "exec_later db db'" "qualified_by db e"
  shows "qualified_by db' e"
  unfolding qualified_by_def
proof
  show "campaign_step db' (pe_ProjectID e) (pe_RunIDs e) (\<lambda>run s r. ran_package e s \<and> rs_Outcome r = ''succeeded'' \<and> er_Status run = ''completed'')"
    by (rule campaign_step_later [OF assms(1-3) assms(4) [unfolded qualified_by_def, THEN conjunct1]]) (auto simp: exec_run_later_def terminal_def)
qed (rule campaign_step_later [OF assms(1-3) assms(4) [unfolded qualified_by_def, THEN conjunct2]])

section \<open>The tally\<close>

lemma tally_step_fields [simp]:
  "pe_ID (tally_step pkg run s out) = pe_ID out" "pe_ProjectID (tally_step pkg run s out) = pe_ProjectID out"
  "pe_PackageSHA256 (tally_step pkg run s out) = pe_PackageSHA256 out" "pe_Role (tally_step pkg run s out) = pe_Role out"
  "pe_RunIDs (tally_step pkg run s out) = pe_RunIDs out" "pe_Outcome (tally_step pkg run s out) = pe_Outcome out"
  "pe_RegressionID (tally_step pkg run s out) = pe_RegressionID out" "pe_Actor (tally_step pkg run s out) = pe_Actor out"
  "pe_CreatedAt (tally_step pkg run s out) = pe_CreatedAt out"
  by (simp_all add: tally_step_def split: option.split)

text \<open>What the tally keeps of an evaluation.\<close>

definition same_package :: "package_evaluation \<Rightarrow> package_evaluation \<Rightarrow> bool" where
  "same_package out out' \<longleftrightarrow> pe_ID out' = pe_ID out \<and> pe_ProjectID out' = pe_ProjectID out \<and> pe_PackageSHA256 out' = pe_PackageSHA256 out
     \<and> pe_Role out' = pe_Role out \<and> pe_RunIDs out' = pe_RunIDs out \<and> pe_Outcome out' = pe_Outcome out
     \<and> pe_RegressionID out' = pe_RegressionID out \<and> pe_Actor out' = pe_Actor out \<and> pe_CreatedAt out' = pe_CreatedAt out"

lemma same_package_refl [simp]: "same_package out out"
  by (simp add: same_package_def)

lemma same_package_trans: "same_package a b \<Longrightarrow> same_package b c \<Longrightarrow> same_package a c"
  by (simp add: same_package_def)

lemma fold_increase:
  fixes c :: "'b \<Rightarrow> int"
  assumes "\<And>s out. c out < c (g s out) \<Longrightarrow> P s" and "c out < c (fold g ss out)"
  shows "\<exists>s \<in> set ss. P s"
  using assms(2)
proof (induction ss arbitrary: out)
  case (Cons s ss)
  show ?case
  proof (cases "c out < c (g s out)")
    case True
    then show ?thesis using assms(1) by auto
  next
    case False
    then have "c (g s out) < c (fold g ss (g s out))" using Cons.prems by simp
    then show ?thesis using Cons.IH by auto
  qed
qed simp

lemma fold_increases:
  fixes c :: "'b \<Rightarrow> int"
  assumes mono: "\<And>s out. c out \<le> c (g s out)" and s: "s \<in> set ss" "\<And>out. c out < c (g s out)"
  shows "c out < c (fold g ss out)"
proof -
  have le: "c out \<le> c (fold g xs out)" for xs out
    by (induction xs arbitrary: out) (auto intro: order_trans mono)
  obtain before after where "ss = before @ s # after" using s(1) split_list by metis
  then have eq: "fold g ss out = fold g after (g s (fold g before out))" by simp
  have "c out \<le> c (fold g before out)" by (rule le)
  moreover have "c (fold g before out) < c (g s (fold g before out))" by (rule s(2))
  moreover have "c (g s (fold g before out)) \<le> c (fold g after (g s (fold g before out)))" by (rule le)
  ultimately show ?thesis unfolding eq by linarith
qed

lemma tally_run_package: "same_package out (tally_run pkg view out)"
proof -
  have "same_package out (fold (tally_step pkg run) ss out)" for run ss
    by (induction ss arbitrary: out) (auto simp: same_package_def)
  then show ?thesis by (simp add: tally_run_def)
qed

lemma tally_run_positive:
  "pe_Positive out < pe_Positive (tally_run pkg view out) \<Longrightarrow> \<exists>s \<in> set (view_Steps view). recorded (positive_trial pkg (view_Run view) s) s"
  unfolding tally_run_def
  by (erule fold_increase [rotated]) (auto simp: tally_step_def recorded_def split: option.split_asm if_split_asm)

lemma tally_run_negative:
  "pe_Negative out < pe_Negative (tally_run pkg view out)
     \<Longrightarrow> \<exists>s \<in> set (view_Steps view). recorded (\<lambda>r. negative_trial pkg s r \<or> refused_candidate pkg r) s"
  unfolding tally_run_def
  by (erule fold_increase [rotated]) (auto simp: tally_step_def recorded_def split: option.split_asm if_split_asm)

lemma tally_run_counts:
  assumes "s \<in> set (view_Steps view)" and "es_Result s = Some r"
  shows "positive_trial pkg (view_Run view) s r \<Longrightarrow> pe_Positive out < pe_Positive (tally_run pkg view out)"
    "negative_trial pkg s r \<or> refused_candidate pkg r \<Longrightarrow> pe_Negative out < pe_Negative (tally_run pkg view out)"
proof -
  assume "positive_trial pkg (view_Run view) s r"
  then show "pe_Positive out < pe_Positive (tally_run pkg view out)"
    unfolding tally_run_def by (intro fold_increases [OF _ assms(1)]) (auto simp: tally_step_def assms(2) split: option.split)
next
  assume "negative_trial pkg s r \<or> refused_candidate pkg r"
  then show "pe_Negative out < pe_Negative (tally_run pkg view out)"
    unfolding tally_run_def by (intro fold_increases [OF _ assms(1)]) (auto simp: tally_step_def assms(2) split: option.split)
qed

lemma GetExecution_view:
  assumes "GetExecution db project rid = Inr view"
  shows "view_Run view \<in> set (x_runs db)" "er_ProjectID (view_Run view) = project" "er_ID (view_Run view) = rid"
    "s \<in> set (view_Steps view) \<Longrightarrow> s \<in> row_Step ` set (x_steps db) \<and> es_RunID s = rid"
  using assms lockExecution_Ok [of db project rid] by (auto simp: GetExecution_def split: sum.split_asm)

lemma service_GetExecution_view: "service_GetExecution svc env db project rid = Inr view \<Longrightarrow> GetExecution db project rid = Inr view"
  by (auto simp: service_GetExecution_def Let_def split: sum.split_asm if_split_asm)

lemma campaign_step_more: "campaign_step db project rids P \<Longrightarrow> campaign_step db project (rid # rids) P"
  unfolding campaign_step_def by auto

lemma campaign_step_here:
  assumes "service_GetExecution svc env seen project rid = Inr view" and "et_Qualification (er_Target (view_Run view))"
    and "\<exists>s \<in> set (view_Steps view). recorded (P (view_Run view) s) s"
  shows "campaign_step seen project (rid # rids) P"
proof -
  note get = GetExecution_view [OF service_GetExecution_view [OF assms(1)]]
  obtain s where s: "s \<in> set (view_Steps view)" "recorded (P (view_Run view) s) s" using assms(3) by blast
  show ?thesis unfolding campaign_step_def
    by (rule bexI [OF _ get(1)]) (use get(2,3) get(4) [OF s(1)] s(2) assms(2) in auto)
qed

lemma tally_runs_trials:
  assumes "tally_runs svc env seen project pkg ids proofs out rids = Inr (out', proofs')"
  shows "same_package out out'"
    and "pe_Positive out < pe_Positive out' \<Longrightarrow> campaign_step seen project rids (positive_trial pkg)"
    and "pe_Negative out < pe_Negative out' \<Longrightarrow> campaign_step seen project rids (\<lambda>_ s r. negative_trial pkg s r \<or> refused_candidate pkg r)"
  using assms
proof (induction rids arbitrary: ids proofs out)
  case (Cons rid rids)
  { case 1
    then show ?case using Cons.IH(1) tally_run_package same_package_trans by (fastforce split: if_split_asm sum.split_asm)
  next
    case 2
    then obtain view where view: "service_GetExecution svc (sub_env (Suc (length proofs)) env) seen project rid = Inr view" "et_Qualification (er_Target (view_Run view))"
      and rest: "tally_runs svc env seen project pkg (rid # ids) (proofs @ [view]) (tally_run pkg view out) rids = Inr (out', proofs')"
      by (auto split: if_split_asm sum.split_asm)
    show ?case
    proof (cases "pe_Positive out < pe_Positive (tally_run pkg view out)")
      case True
      from tally_run_positive [OF this] show ?thesis by (rule campaign_step_here [OF view])
    next
      case False
      then have "pe_Positive (tally_run pkg view out) < pe_Positive out'" using 2(1) by simp
      from Cons.IH(2) [OF this rest] show ?thesis by (rule campaign_step_more)
    qed
  next
    case 3
    then obtain view where view: "service_GetExecution svc (sub_env (Suc (length proofs)) env) seen project rid = Inr view" "et_Qualification (er_Target (view_Run view))"
      and rest: "tally_runs svc env seen project pkg (rid # ids) (proofs @ [view]) (tally_run pkg view out) rids = Inr (out', proofs')"
      by (auto split: if_split_asm sum.split_asm)
    show ?case
    proof (cases "pe_Negative out < pe_Negative (tally_run pkg view out)")
      case True
      from tally_run_negative [OF this] show ?thesis by (rule campaign_step_here [OF view])
    next
      case False
      then have "pe_Negative (tally_run pkg view out) < pe_Negative out'" using 3(1) by simp
      from Cons.IH(3) [OF this rest] show ?thesis by (rule campaign_step_more)
    qed
  }
qed simp_all

section \<open>The package store as a transition system\<close>

text \<open>
  A state is the database with the earlier ones, any of which a call may have read before its transaction. One step is
  a call that evaluates or activates a package, or a step of the execution store, which does not write the activation table.
\<close>

type_synonym package_world = "package_db \<times> package_db list"

inductive pk_step :: "package_world \<Rightarrow> package_world \<Rightarrow> bool" where
  evaluate: "seen \<in> set (db # past) \<Longrightarrow> EvaluatePackage (svc :: exec_service) env st seen db i = (r, st', db') \<Longrightarrow> pk_step (db, past) (db', db # past)"
| activate: "seen \<in> set (db # past) \<Longrightarrow> ActivatePackage (svc :: exec_service) env seen db ai = (ra, db') \<Longrightarrow> pk_step (db, past) (db', db # past)"
| execute: "x_step (pk_exec db) x \<Longrightarrow> x_activations x = x_activations (pk_exec db) \<Longrightarrow> pk_step (db, past) (db\<lparr>pk_exec := x\<rparr>, db # past)"

definition pk_start :: "package_world \<Rightarrow> bool" where
  "pk_start w \<longleftrightarrow> x_start (pk_exec (fst w)) \<and> x_activations (pk_exec (fst w)) = [] \<and> pk_evaluations (fst w) = [] \<and> pk_records (fst w) = []
     \<and> pk_decisions (fst w) = [] \<and> snd w = []"

text \<open>The decisions on one role of a target, in order: consecutive versions, each replacing the package before it.\<close>

definition role_log :: "package_db \<Rightarrow> string \<times> string \<times> string \<Rightarrow> package_activation list" where
  "role_log db k = filter (\<lambda>a. record_key a = k) (map kd_Record (pk_decisions db))"

definition previous_sha :: "package_activation list \<Rightarrow> nat \<Rightarrow> string" where
  "previous_sha as n = (if n = 0 then [] else pa_PackageSHA256 (as ! (n - 1)))"

definition chained :: "package_activation list \<Rightarrow> bool" where
  "chained as \<longleftrightarrow> (\<forall>n < length as. pa_Version (as ! n) = int n + 1 \<and> pa_PreviousSHA256 (as ! n) = previous_sha as n
     \<and> (pa_Action (as ! n) = ''rollback'' \<longrightarrow> pa_PackageSHA256 (as ! n) \<noteq> previous_sha as n
          \<and> (\<exists>m < n. pa_PackageSHA256 (as ! m) = pa_PackageSHA256 (as ! n))))"

definition supported :: "package_db \<Rightarrow> package_activation \<Rightarrow> bool" where
  "supported db a \<longleftrightarrow> (\<exists>e \<in> set (pk_evaluations db). pe_ID e = pa_EvaluationID a \<and> pe_ProjectID e = pa_ProjectID a
     \<and> pe_PackageSHA256 e = pa_PackageSHA256 a \<and> pe_Role e = pa_Role a \<and> pe_Outcome e = ''passed'' \<and> qualified_by (pk_exec db) e)"

definition decision_ok :: "package_decision \<Rightarrow> bool" where
  "decision_ok d \<longleftrightarrow> (kd_Project d, kd_Target d, kd_Role d) = record_key (kd_Record d) \<and> kd_PackageSHA256 d = pa_PackageSHA256 (kd_Record d)
     \<and> kd_Actor d = pa_Actor (kd_Record d)"

definition history_ok :: "package_world \<Rightarrow> bool" where
  "history_ok w \<longleftrightarrow> (\<forall>d \<in> set (fst w # snd w). exec_inv (pk_exec d) \<and> results_closed (pk_exec d) \<and> exec_later (pk_exec d) (pk_exec (fst w)))"

definition log_matches :: "package_db \<Rightarrow> bool" where
  "log_matches db \<longleftrightarrow> distinct (map record_key (pk_records db)) \<and> (\<forall>d \<in> set (pk_decisions db). decision_ok d)
     \<and> (\<forall>k. chained (role_log db k) \<and> find_row record_key k (pk_records db) = (if role_log db k = [] then None else Some (last (role_log db k))))"

definition package_inv :: "package_world \<Rightarrow> bool" where
  "package_inv w \<longleftrightarrow> history_ok w
     \<and> (\<forall>e \<in> set (pk_evaluations (fst w)). pe_Outcome e = ''passed'' \<longrightarrow> qualified_by (pk_exec (fst w)) e)
     \<and> x_activations (pk_exec (fst w)) = map activation_columns (pk_records (fst w))
     \<and> (\<forall>d \<in> set (pk_decisions (fst w)). supported (fst w) (kd_Record d))
     \<and> log_matches (fst w)"

section \<open>What the operations do\<close>

lemma qualified_cong: "x_runs d = x_runs db \<Longrightarrow> x_steps d = x_steps db \<Longrightarrow> qualified_by d e = qualified_by db e"
  by (simp add: qualified_by_def campaign_step_def)

lemma judged_fields [simp]:
  "pe_ID (judged e) = pe_ID e" "pe_ProjectID (judged e) = pe_ProjectID e" "pe_PackageSHA256 (judged e) = pe_PackageSHA256 e"
  "pe_Role (judged e) = pe_Role e" "pe_RunIDs (judged e) = pe_RunIDs e" "pe_RegressionID (judged e) = pe_RegressionID e"
  "pe_Actor (judged e) = pe_Actor e" "pe_CreatedAt (judged e) = pe_CreatedAt e"
  by (simp_all add: judged_def)

lemma judged_qualified:
  assumes "tally_runs svc env seen (pei_ProjectID i) pkg [] [] (begun_evaluation env p pkg i) (pei_RunIDs i) = Inr (out, proofs)"
    and "pe_Outcome (judged out) = ''passed''"
  shows "qualified_by seen ((judged out)\<lparr>pe_Evidence := a\<rparr>)"
proof -
  note t = tally_runs_trials [OF assms(1)]
  have f: "pe_ProjectID out = pei_ProjectID i" "pe_RunIDs out = pei_RunIDs i" "pe_PackageSHA256 out = package_Digest pkg" "pe_Role out = ap_Role pkg"
    "pe_Outcome out = ''failed''"
    using t(1) by (simp_all add: same_package_def begun_evaluation_def)
  then have counts: "0 < pe_Positive out" "0 < pe_Negative out" using assms(2) by (auto simp: judged_def split: if_split_asm)
  show ?thesis
    unfolding qualified_by_def
  proof
    show "campaign_step seen (pe_ProjectID ((judged out)\<lparr>pe_Evidence := a\<rparr>)) (pe_RunIDs ((judged out)\<lparr>pe_Evidence := a\<rparr>))
      (\<lambda>run s r. ran_package ((judged out)\<lparr>pe_Evidence := a\<rparr>) s \<and> rs_Outcome r = ''succeeded'' \<and> er_Status run = ''completed'')"
      using campaign_step_mono [OF t(2)] counts(1) f by (simp add: begun_evaluation_def positive_trial_def own_step_def ran_package_def)
  qed (use campaign_step_mono [OF t(3)] counts(2) f in
      \<open>auto simp: begun_evaluation_def negative_trial_def refused_candidate_def own_step_def ran_package_def\<close>)
qed

lemma EvaluatePackage_effect:
  assumes "EvaluatePackage svc env st seen db i = (r, st', db')"
  shows "db' = db \<or> (\<exists>e blobs. db' = db\<lparr>pk_exec := (pk_exec db)\<lparr>x_blobs := blobs\<rparr>, pk_evaluations := pk_evaluations db @ [e]\<rparr>
     \<and> (pe_Outcome e = ''passed'' \<longrightarrow> qualified_by (pk_exec seen) e))"
proof (cases "db' = db")
  case False
  then obtain out proofs a p pkg where
    t: "tally_runs svc env (pk_exec seen) (pei_ProjectID i) pkg [] [] (begun_evaluation env p pkg i) (pei_RunIDs i) = Inr (out, proofs)"
    and rec: "RecordPackageEvaluation (sub_env 31 env) db ((judged out)\<lparr>pe_Evidence := a\<rparr>) = (r, db')"
    using assms unfolding EvaluatePackage_def by (auto split: sum.split_asm option.split_asm if_split_asm prod.split_asm)
  let ?e = "(judged out)\<lparr>pe_Evidence := a\<rparr>"
  have "db' = db\<lparr>pk_exec := (pk_exec db)\<lparr>x_blobs := saveProductArtifact a (x_blobs (pk_exec db))\<rparr>, pk_evaluations := pk_evaluations db @ [?e]\<rparr>"
    using rec False by (auto simp: RecordPackageEvaluation_def split: if_split_asm)
  moreover have "pe_Outcome ?e = ''passed'' \<longrightarrow> qualified_by (pk_exec seen) ?e" using judged_qualified [OF t] by simp
  ultimately show ?thesis by blast
qed simp

text \<open>The decision an activation records is justified.\<close>

definition justified :: "package_db \<Rightarrow> package_activation \<Rightarrow> bool" where
  "justified db a \<longleftrightarrow>
     (let current = GetPackageActivation db (pa_ProjectID a) (pa_TargetID a) (pa_Role a) in
      pa_PreviousSHA256 a = pa_PackageSHA256 current \<and> pa_Version a = pa_Version current + 1
      \<and> (pa_Action a = ''rollback'' \<longrightarrow> decided_before db a \<and> pa_PackageSHA256 current \<noteq> pa_PackageSHA256 a))
     \<and> (\<exists>e \<in> set (pk_evaluations db). pe_ID e = pa_EvaluationID a \<and> pe_ProjectID e = pa_ProjectID a \<and> pe_PackageSHA256 e = pa_PackageSHA256 a
          \<and> pe_Role e = pa_Role a \<and> pe_Outcome e = ''passed'')"

lemma repo_ActivatePackage_effect:
  assumes "repo_ActivatePackage env db a = (r, db')"
  shows "db' = db \<or> (\<exists>a'. r = Inr a' \<and> db' = activated env db a' \<and> justified db a')"
proof (cases "db' = db")
  case False
  obtain e where e: "GetPackageEvaluation db (pa_ProjectID a) (pa_EvaluationID a) = Inr e"
    using assms False by (cases "GetPackageEvaluation db (pa_ProjectID a) (pa_EvaluationID a)") (auto simp: repo_ActivatePackage_def Let_def split: if_split_asm)
  then have mem: "e \<in> set (pk_evaluations db)" "pe_ProjectID e = pa_ProjectID a" "pe_ID e = pa_EvaluationID a"
    by (auto simp: GetPackageEvaluation_def find_Some_iff split: option.split_asm)
  define a' where "a' = a\<lparr>pa_Version := pa_Version (GetPackageActivation db (pa_ProjectID a) (pa_TargetID a) (pa_Role a)) + 1\<rparr>"
  have "r = Inr a'" "db' = activated env db a'" and chk: "pe_Outcome e = ''passed''" "pe_PackageSHA256 e = pa_PackageSHA256 a" "pe_Role e = pa_Role a"
    "pa_PackageSHA256 (GetPackageActivation db (pa_ProjectID a) (pa_TargetID a) (pa_Role a)) = pa_PreviousSHA256 a"
    "pa_Action a = ''rollback'' \<longrightarrow> decided_before db a \<and> pa_PackageSHA256 (GetPackageActivation db (pa_ProjectID a) (pa_TargetID a) (pa_Role a)) \<noteq> pa_PackageSHA256 a"
    using assms False e by (simp_all add: repo_ActivatePackage_def Let_def a'_def split: if_split_asm)
  moreover have "justified db a'"
    using chk mem by (auto simp: justified_def a'_def Let_def decided_before_def)
  ultimately show ?thesis by blast
qed simp

lemma ActivatePackage_effect:
  assumes "ActivatePackage svc env seen db i = (r, db')"
  shows "db' = db \<or> (\<exists>env' a. db' = activated env' db a \<and> justified db a)"
  using assms unfolding ActivatePackage_def
  by (auto split: sum.split_asm option.split_asm if_split_asm dest!: repo_ActivatePackage_effect)

section \<open>The invariant\<close>

lemma history_step:
  assumes "history_ok (db, past)" and "exec_inv (pk_exec db')" and "results_closed (pk_exec db')" and "exec_later (pk_exec db) (pk_exec db')"
  shows "history_ok (db', db # past)"
  using assms exec_later_trans exec_later_refl by (auto simp: history_ok_def)

lemma history_same:
  assumes "history_ok (db, past)" and "same_exec (pk_exec db) (pk_exec db')"
  shows "history_ok (db', db # past)"
proof (rule history_step [OF assms(1)])
  show "exec_inv (pk_exec db')" using assms exec_inv_same by (simp add: history_ok_def)
  show "results_closed (pk_exec db')" using assms by (simp add: history_ok_def results_closed_def same_exec_def)
qed (rule exec_later_same [OF assms(2)])

lemma qualified_history: "history_ok (db, past) \<Longrightarrow> seen \<in> set (db # past) \<Longrightarrow> qualified_by (pk_exec seen) e \<Longrightarrow> qualified_by (pk_exec db) e"
  unfolding history_ok_def by (rule qualified_later [of "pk_exec seen"]) auto

lemma find_row_upsert: "find_row key k (upsert_row key r rows) = (if k = key r then Some r else find_row key k rows)"
  by (auto simp: upsert_row_def find_row_append find_row_put split: option.split)

lemma distinct_upsert: "distinct (map key rows) \<Longrightarrow> distinct (map key (upsert_row key r rows))"
  by (auto simp: upsert_row_def find_row_None)

lemma activation_key_columns [simp]: "activation_key (activation_columns a) = record_key a"
  by (simp add: activation_key_def activation_columns_def record_key_def)

lemma upsert_columns:
  "map activation_columns (upsert_row record_key a rows) = upsert_row activation_key (activation_columns a) (map activation_columns rows)"
proof -
  have "find_row activation_key k (map activation_columns rows) = None \<longleftrightarrow> find_row record_key k rows = None" for k
    by (auto simp: find_row_None image_iff)
  then show ?thesis by (simp add: upsert_row_def put_row_def)
qed

lemma role_log_activated: "role_log (activated env db a) k = role_log db k @ (if record_key a = k then [a] else [])"
  by (simp add: role_log_def activated_def)

lemma chained_Nil [simp]: "chained []"
  by (simp add: chained_def)

lemma chained_append:
  assumes "chained as" and "pa_Version a = int (length as) + 1" and "pa_PreviousSHA256 a = previous_sha as (length as)"
    and "pa_Action a = ''rollback'' \<longrightarrow> pa_PackageSHA256 a \<noteq> previous_sha as (length as) \<and> (\<exists>m < length as. pa_PackageSHA256 (as ! m) = pa_PackageSHA256 a)"
  shows "chained (as @ [a])"
proof -
  have prev: "previous_sha (as @ [a]) n = previous_sha as n" if "n \<le> length as" for n
    using that by (auto simp: previous_sha_def nth_append)
  show ?thesis
    unfolding chained_def
  proof (intro allI impI)
    fix n assume n: "n < length (as @ [a])"
    show "pa_Version ((as @ [a]) ! n) = int n + 1 \<and> pa_PreviousSHA256 ((as @ [a]) ! n) = previous_sha (as @ [a]) n
      \<and> (pa_Action ((as @ [a]) ! n) = ''rollback'' \<longrightarrow> pa_PackageSHA256 ((as @ [a]) ! n) \<noteq> previous_sha (as @ [a]) n
        \<and> (\<exists>m < n. pa_PackageSHA256 ((as @ [a]) ! m) = pa_PackageSHA256 ((as @ [a]) ! n)))"
    proof (cases "n < length as")
      case True
      then have eq: "(as @ [a]) ! m = as ! m" if "m \<le> n" for m using that by (simp add: nth_append)
      show ?thesis using assms(1) [unfolded chained_def, rule_format, OF True] prev [of n] eq [of n] eq [OF less_imp_le] True by auto
    next
      case False
      then have "n = length as" using n by simp
      then show ?thesis using assms(2-4) prev [of n] by (auto simp: nth_append)
    qed
  qed
qed

lemma current_of_log:
  assumes "log_matches db"
  shows "pa_Version (GetPackageActivation db project target role) = int (length (role_log db (project, target, role)))"
    "pa_PackageSHA256 (GetPackageActivation db project target role)
       = previous_sha (role_log db (project, target, role)) (length (role_log db (project, target, role)))"
proof -
  let ?log = "role_log db (project, target, role)"
  have log: "chained ?log" "GetPackageActivation db project target role = (if ?log = [] then zero_activation else last ?log)"
    using assms unfolding log_matches_def GetPackageActivation_def by auto
  show "pa_Version (GetPackageActivation db project target role) = int (length ?log)"
  proof (cases "?log = []")
    case False
    then have "pa_Version (?log ! (length ?log - 1)) = int (length ?log - 1) + 1" using log(1) unfolding chained_def by simp
    moreover have "int (length ?log - 1) + 1 = int (length ?log)" using False by (cases ?log) simp_all
    ultimately show ?thesis using False log(2) by (simp add: last_conv_nth)
  qed (simp add: log(2) zero_activation_def)
  show "pa_PackageSHA256 (GetPackageActivation db project target role) = previous_sha ?log (length ?log)"
    by (simp add: log(2) previous_sha_def last_conv_nth zero_activation_def)
qed

lemma decided_in_log:
  assumes "log_matches db" and "decided_before db a"
  shows "\<exists>m < length (role_log db (record_key a)). pa_PackageSHA256 (role_log db (record_key a) ! m) = pa_PackageSHA256 a"
proof -
  obtain d where d: "d \<in> set (pk_decisions db)" "(kd_Project d, kd_Target d, kd_Role d) = record_key a" "kd_PackageSHA256 d = pa_PackageSHA256 a"
    using assms(2) by (auto simp: decided_before_def list_ex_iff record_key_def)
  moreover have "decision_ok d" using assms(1) d(1) by (simp add: log_matches_def)
  ultimately have "kd_Record d \<in> set (role_log db (record_key a))" "pa_PackageSHA256 (kd_Record d) = pa_PackageSHA256 a"
    by (auto simp: decision_ok_def role_log_def)
  then show ?thesis by (metis in_set_conv_nth)
qed

lemma log_matches_activated:
  assumes "log_matches db" and "justified db a"
  shows "log_matches (activated env db a)"
proof -
  let ?log = "role_log db (record_key a)"
  have k: "record_key a = (pa_ProjectID a, pa_TargetID a, pa_Role a)" by (simp add: record_key_def)
  have j: "pa_Version a = int (length ?log) + 1" "pa_PreviousSHA256 a = previous_sha ?log (length ?log)"
    "pa_Action a = ''rollback'' \<longrightarrow> pa_PackageSHA256 a \<noteq> previous_sha ?log (length ?log) \<and> decided_before db a"
    using assms(2) current_of_log [OF assms(1)] by (auto simp: justified_def Let_def k)
  have "chained ?log" using assms(1) unfolding log_matches_def by blast
  then have "chained (?log @ [a])" using j decided_in_log [OF assms(1)] by (intro chained_append) blast+
  moreover have "\<forall>d \<in> set (pk_decisions (activated env db a)). decision_ok d"
    using assms(1) by (auto simp: log_matches_def activated_def decision_ok_def record_key_def)
  moreover have "distinct (map record_key (pk_records (activated env db a)))"
    using assms(1) by (simp add: log_matches_def activated_def distinct_upsert)
  moreover have "find_row record_key k (pk_records (activated env db a)) = (if k = record_key a then Some a else find_row record_key k (pk_records db))" for k
    by (simp add: activated_def find_row_upsert)
  ultimately show ?thesis using assms(1) unfolding log_matches_def role_log_activated by simp
qed

lemma supported_mono:
  assumes "supported db a" and "set (pk_evaluations db) \<subseteq> set (pk_evaluations db')"
    and "\<And>e. qualified_by (pk_exec db) e \<Longrightarrow> qualified_by (pk_exec db') e"
  shows "supported db' a"
  using assms unfolding supported_def by blast

lemma package_inv_step:
  assumes "package_inv w" and "pk_step w w'"
  shows "package_inv w'"
  using assms(2,1)
proof (induction rule: pk_step.induct)
  case (evaluate seen db past svc env st i r st' db')
  note inv = evaluate.prems [unfolded package_inv_def, simplified]
  from EvaluatePackage_effect [OF evaluate.hyps(2)] show ?case
  proof (elim disjE exE conjE)
    assume "db' = db"
    then show ?thesis using inv history_same [of db past db] by (simp add: package_inv_def same_exec_def)
  next
    fix e blobs assume db': "db' = db\<lparr>pk_exec := (pk_exec db)\<lparr>x_blobs := blobs\<rparr>, pk_evaluations := pk_evaluations db @ [e]\<rparr>"
      and e: "pe_Outcome e = ''passed'' \<longrightarrow> qualified_by (pk_exec seen) e"
    have q: "qualified_by (pk_exec db') = qualified_by (pk_exec db)" by (intro ext qualified_cong) (simp_all add: db')
    have "history_ok (db', db # past)" using inv by (intro history_same) (simp_all add: db' same_exec_def)
    moreover have "pe_Outcome e = ''passed'' \<longrightarrow> qualified_by (pk_exec db) e"
      using e qualified_history [OF inv [THEN conjunct1] evaluate.hyps(1)] by blast
    moreover have "supported db' a" if "supported db a" for a by (rule supported_mono [OF that]) (simp_all add: q, auto simp: db')
    moreover have "log_matches db'" using inv by (simp add: log_matches_def role_log_def db')
    moreover have "pk_evaluations db' = pk_evaluations db @ [e]" "pk_decisions db' = pk_decisions db"
      "x_activations (pk_exec db') = map activation_columns (pk_records db')" using inv by (simp_all add: db')
    ultimately show ?thesis using inv q by (auto simp: package_inv_def)
  qed
next
  case (activate seen db past svc env ai ra db')
  note inv = activate.prems [unfolded package_inv_def, simplified]
  from ActivatePackage_effect [OF activate.hyps(2)] show ?case
  proof (elim disjE exE conjE)
    assume "db' = db"
    then show ?thesis using inv history_same [of db past db] by (simp add: package_inv_def same_exec_def)
  next
    fix env' a assume db': "db' = activated env' db a" and j: "justified db a"
    have q: "qualified_by (pk_exec db') = qualified_by (pk_exec db)" by (intro ext qualified_cong) (simp_all add: db' activated_def)
    have "history_ok (db', db # past)" using inv by (intro history_same) (simp_all add: db' activated_def same_exec_def)
    moreover have keep: "supported db' x" if "supported db x" for x
      by (rule supported_mono [OF that]) (simp_all add: q, simp add: db' activated_def)
    moreover have "supported db a" using j inv by (auto simp: justified_def supported_def)
    moreover have "log_matches db'" unfolding db' using inv j by (intro log_matches_activated) simp_all
    moreover have "x_activations (pk_exec db') = map activation_columns (pk_records db')" using inv by (simp add: db' activated_def upsert_columns)
    moreover have "pk_evaluations db' = pk_evaluations db" by (simp add: db' activated_def)
    moreover have "supported db' (kd_Record d)" if "d \<in> set (pk_decisions db')" for d
      using that inv keep \<open>supported db a\<close> by (auto simp: db' activated_def)
    ultimately show ?thesis using inv q by (simp add: package_inv_def)
  qed
next
  case (execute db x past)
  note inv = execute.prems [unfolded package_inv_def, simplified]
  have h: "exec_inv (pk_exec db)" "results_closed (pk_exec db)" using inv by (simp_all add: history_ok_def)
  have x: "exec_inv x" "results_closed x" "exec_later (pk_exec db) x"
    using ex.inv_step [OF h(1) execute.hyps(1)] x_step_closed [OF execute.hyps(1) h(2)] ex.later_step [OF h(1) execute.hyps(1)] .
  let ?db = "db\<lparr>pk_exec := x\<rparr>"
  have q: "qualified_by x e" if "qualified_by (pk_exec db) e" for e by (rule qualified_later [OF h x(3) that])
  have "history_ok (?db, db # past)" using inv x by (intro history_step) simp_all
  moreover have "supported ?db a" if "supported db a" for a by (rule supported_mono [OF that]) (simp_all add: q)
  moreover have "log_matches ?db" using inv by (simp add: log_matches_def role_log_def)
  ultimately show ?case using inv q execute.hyps(2) by (simp add: package_inv_def)
qed

interpretation pk: invariant_system pk_start pk_step package_inv
proof
  fix w assume "pk_start w"
  then show "package_inv w"
    using ex.inv_start [of "pk_exec (fst w)"] exec_later_refl
    by (auto simp: pk_start_def package_inv_def history_ok_def log_matches_def role_log_def chained_def find_row_def results_closed_def x_start_def)
qed (rule package_inv_step)

section \<open>Active packages\<close>

lemma active_supported:
  assumes "reach pk_start pk_step (db, past)" and "a \<in> set (x_activations (pk_exec db))"
  shows "\<exists>r e. r \<in> set (pk_records db) \<and> activation_columns r = a \<and> e \<in> set (pk_evaluations db) \<and> pe_ID e = pa_EvaluationID r
     \<and> pe_ProjectID e = act_Project a \<and> pe_PackageSHA256 e = act_PackageSHA256 a \<and> pe_Role e = act_Role a \<and> pe_Outcome e = ''passed''
     \<and> qualified_by (pk_exec db) e \<and> (\<exists>d \<in> set (pk_decisions db). kd_Record d = r)"
proof -
  have inv: "package_inv (db, past)" by (rule pk.reach_inv [OF assms(1)])
  obtain r where r: "r \<in> set (pk_records db)" "activation_columns r = a" using inv assms(2) by (auto simp: package_inv_def)
  have "find_row record_key (record_key r) (pk_records db) = Some r"
    using inv r(1) by (intro find_row_distinct) (simp_all add: package_inv_def log_matches_def)
  moreover have "find_row record_key k (pk_records db) = (if role_log db k = [] then None else Some (last (role_log db k)))" for k
    using inv unfolding package_inv_def log_matches_def fst_conv by blast
  ultimately have "role_log db (record_key r) \<noteq> []" "last (role_log db (record_key r)) = r" by (metis option.distinct(1) option.sel)+
  then have "r \<in> set (role_log db (record_key r))" by (metis last_in_set)
  then obtain d where d: "d \<in> set (pk_decisions db)" "kd_Record d = r" by (auto simp: role_log_def)
  then have "supported db r" using inv by (auto simp: package_inv_def)
  then obtain e where "e \<in> set (pk_evaluations db)" "pe_ID e = pa_EvaluationID r" "pe_ProjectID e = pa_ProjectID r"
    "pe_PackageSHA256 e = pa_PackageSHA256 r" "pe_Role e = pa_Role r" "pe_Outcome e = ''passed''" "qualified_by (pk_exec db) e"
    unfolding supported_def by blast
  moreover have "act_Project a = pa_ProjectID r" "act_PackageSHA256 a = pa_PackageSHA256 r" "act_Role a = pa_Role r"
    using r(2) by (auto simp: activation_columns_def)
  ultimately show ?thesis using r d by (intro exI [of _ r] exI [of _ e]) auto
qed

text \<open>
  C14: Every active package is qualified. In every reachable state, a row of the activation table was decided by an activation
  that names a passed evaluation of exactly that digest and role, and the campaign of the evaluation is still on record: a completed
  qualification run in which that package succeeded in its role, and a recorded failure, blocking or refused candidate.
\<close>

theorem active_packages_are_qualified:
  assumes "reach pk_start pk_step (db, past)" and "a \<in> set (x_activations (pk_exec db))"
  shows "\<exists>e d. e \<in> set (pk_evaluations db) \<and> d \<in> set (pk_decisions db) \<and> activation_columns (kd_Record d) = a \<and> pa_EvaluationID (kd_Record d) = pe_ID e
     \<and> pe_ProjectID e = act_Project a \<and> pe_PackageSHA256 e = act_PackageSHA256 a \<and> pe_Role e = act_Role a \<and> pe_Outcome e = ''passed''
     \<and> qualified_by (pk_exec db) e"
  using active_supported [OF assms] by metis

lemma begin_step_contract: "begin_step env db run pkg actor token = (Inr claim, db') \<Longrightarrow> contract run (cl_Run claim)"
  by (auto simp: begin_step_def Let_def split: if_split_asm sum.split_asm)

lemma check_activations_None:
  "check_activations db run roles = None \<Longrightarrow> role \<in> set roles \<Longrightarrow>
     \<exists>a \<in> set (x_activations db). act_Project a = er_ProjectID run \<and> act_Target a = et_ID (er_Target run) \<and> act_Role a = role
       \<and> act_PackageSHA256 a = package_Digest (map_get zero_package (er_Packages run) role)"
proof (induction roles)
  case (Cons r roles)
  then show ?case by (auto split: option.split_asm if_split_asm dest!: find_SomeD_mem)
qed simp

text \<open>
  A claim outside qualification runs on qualified packages only: for each of the three roles of the run, the digest of its
  package is active for the target and has a passed evaluation with its campaign on record.
\<close>

theorem claims_use_qualified_packages:
  assumes "reach pk_start pk_step (db, past)" and "ClaimExecution env (pk_exec db) project rid actor token = (Inr claim, x)"
    and "\<not> et_Qualification (er_Target (cl_Run claim))" and "role \<in> set (run_roles (cl_Run claim))"
  shows "\<exists>e \<in> set (pk_evaluations db). pe_ProjectID e = er_ProjectID (cl_Run claim) \<and> pe_Role e = role \<and> pe_Outcome e = ''passed''
     \<and> pe_PackageSHA256 e = package_Digest (map_get zero_package (er_Packages (cl_Run claim)) role) \<and> qualified_by (pk_exec db) e"
proof -
  obtain run where run: "lockExecutionRequirements env (pk_exec db) run = None"
    and how: "open_step (pk_exec db) run = None \<and> begin_step env (pk_exec db) run (run_Package run) actor token = (Inr claim, x)
     \<or> (\<exists>row. open_step (pk_exec db) run = Some row \<and> es_LeaseUntil (row_Step row) \<le> env_clock env 0
         \<and> reclaim_step env (pk_exec db) run (run_Package run) actor token row = (Inr claim, x))"
    using ClaimExecution_Ok [OF assms(2)] by metis
  have con: "contract run (cl_Run claim)" using how begin_step_contract reclaim_step_Ok(2) by fastforce
  then have same: "er_Target (cl_Run claim) = er_Target run" "er_Packages (cl_Run claim) = er_Packages run" "er_ProjectID (cl_Run claim) = er_ProjectID run"
    "run_roles (cl_Run claim) = run_roles run"
    by (simp_all add: contract_def run_roles_def)
  have "check_activations (pk_exec db) run (run_roles run) = None"
    using run assms(3) same by (auto simp: lockExecutionRequirements_def lockActivePackages_def split: option.split_asm)
  then obtain a where a: "a \<in> set (x_activations (pk_exec db))" "act_Project a = er_ProjectID run" "act_Role a = role"
    "act_PackageSHA256 a = package_Digest (map_get zero_package (er_Packages run) role)"
    using check_activations_None assms(4) same(4) by metis
  from active_supported [OF assms(1) a(1)] show ?thesis using a(2-4) same by auto
qed

text \<open>
  C15: The decisions on a role of a target form one chain. In every reachable state they carry the versions 1, 2, 3, ... in the order they were
  made, each names the digest it replaced, a rollback returns to a digest decided earlier and differs from the one before it, and
  the active package is the last of them.
\<close>

theorem package_decisions_are_chained:
  assumes "reach pk_start pk_step (db, past)"
  shows "chained (role_log db (project, target, role))
    \<and> GetPackageActivation db project target role
        = (if role_log db (project, target, role) = [] then zero_activation else last (role_log db (project, target, role)))"
  using pk.reach_inv [OF assms] unfolding package_inv_def log_matches_def GetPackageActivation_def by auto

end
