(* ===== verification/PackageExamples.thy ===== *)
theory PackageExamples
  imports PackageProps ExecExamples
begin

text \<open>
  A concrete campaign: the delivery of a qualification run is refused by its verification, the owner resumes the run, the
  verification then succeeds, and the package of the evaluator is evaluated on that run and activated for a staging target.
\<close>

section \<open>The campaign\<close>

lemma ex_resumed:
  assumes at: "ex_at kind k stage ''blocked'' db" and stage: "stage \<in> set ex_stages" "stage \<notin> {''build'', ''diagnose''}"
  shows "\<exists>db'. ex_at kind (k + 1) stage ''ready'' db' \<and> x_step\<^sup>*\<^sup>* db db'"
proof -
  let ?env = "ex_env ''o'' k"
  obtain run where run: "lockExecution db ''p'' ''r'' = Inr run" "ex_run kind stage run" "er_Status run = ''blocked''"
    and none: "open_step db run = None" and ctx: "same_context ex_db0 db" and reached: "ex_reached db"
    and steps: "\<forall>row \<in> set (x_steps db). es_RunID (row_Step row) = ''r'' \<and> length (step_id row) < k"
    and events: "\<forall>e \<in> set (x_events db). length (ee_ID e) < k"
    and rest: "length (x_artifacts db) < k" "\<forall>a \<in> set (x_blobs db). art_SizeBytes a = 0"
    using at unfolding ex_at_def ex_run_def by metis
  note r = ex_run_simps [OF run(2)] and ready = ex_run_ready [OF run(2) ctx stage(1)]
  have dl: "er_Deadline run = seconds 1000" "er_Owner run = ''o''" using run(2) by (simp_all add: ex_run_def contract_def ex_request_def)
  have live: "executionActor ?env db ''o'' ''p'' ''operations'' True"
    unfolding context_executionActor [OF ctx]
    by (simp add: executionActor_def ex_defs PrincipalFromContext_def liveExecutionCredential_def credential_live_def role_live_def)
  define run' where "run' = saved_run ?env 2 (run\<lparr>er_Status := ''ready'', er_Blockers := []\<rparr>)"
  obtain db' where ctl: "ControlExecution ?env db ''p'' ''r'' ''o'' (er_Version run) ''resume'' [] = (Inr run', db')"
    and db': "x_runs db' = put_row er_ID run' (x_runs db)" "x_steps db' = x_steps db" "x_artifacts db' = x_artifacts db" "x_blobs db' = x_blobs db"
      "\<exists>ev. x_events db' = x_events db @ [ev] \<and> ee_ID ev = env_id ?env 0" "same_context db db'"
    using run(1,3) dl live ready(2,3) ex_fresh [OF events, of "''o''" 0]
    by (simp add: ControlExecution_def control_effect_def saveExecution_def run'_def seconds_def saved_event_def same_context_def)
  have ctx': "same_context ex_db0 db'" using ctx db'(6) by (rule same_context_trans)
  note reached' = ex_reached_step [OF reached x_step.control [OF ctl] ctx ctx']
  have keys: "keys_ok db" "keys_ok db'" using reach_keys ex_reached_reach reached reached' by blast+
  have same: "er_ID run' = ''r''" "er_ProjectID run' = ''p''" "er_StepNumber run' = er_StepNumber run" "ex_run kind stage run'" "er_Status run' = ''ready''"
    using r run(2) by (simp_all add: run'_def saved_run_def ex_run_def contract_def)
  have "lockExecution db' ''p'' ''r'' = Inr run'"
    using run(1) same(1,2) unfolding lockExecution_iff [OF keys(1)] lockExecution_iff [OF keys(2)] by (auto simp: db'(1) find_row_put)
  moreover have "open_step db' run' = None" using none same(1,3) r(2) by (simp add: open_step_def loadExecutionStep_def db'(2))
  moreover have "\<forall>e \<in> set (x_events db'). length (ee_ID e) < k + 1" using events db'(5) by fastforce
  moreover have "\<forall>row \<in> set (x_steps db'). es_RunID (row_Step row) = ''r'' \<and> length (step_id row) < k + 1" using steps db'(2) by fastforce
  ultimately have "ex_at kind (k + 1) stage ''ready'' db'"
    using reached' ctx' same(4,5) stage(2) rest db'(3,4) unfolding ex_at_def ex_run_def by auto
  then show ?thesis using x_step.control [OF ctl] by blast
qed

definition ex_refusal :: execution_result where
  "ex_refusal = (ex_result ''verify_delivery'')\<lparr>rs_Outcome := ''failed''\<rparr>"

text \<open>A recorded result of the evaluator in the run.\<close>

definition ex_shown :: "exec_db \<Rightarrow> execution_result \<Rightarrow> bool" where
  "ex_shown db res \<longleftrightarrow> (\<exists>row \<in> set (x_steps db). es_RunID (row_Step row) = ''r'' \<and> es_Stage (row_Step row) = ''verify_delivery''
     \<and> es_Result (row_Step row) = Some res \<and> es_PackageSHA (row_Step row) = package_Digest (ex_package ''sdlc_evaluator''))"

lemma ex_shown_later:
  assumes "ex_shown db res" and "reach x_start x_step db" and "results_closed db" and "x_step\<^sup>*\<^sup>* db db'"
  shows "ex_shown db' res"
proof -
  obtain row where row: "row \<in> set (x_steps db)" "es_RunID (row_Step row) = ''r''" "es_Stage (row_Step row) = ''verify_delivery''"
    "es_Result (row_Step row) = Some res" "es_PackageSHA (row_Step row) = package_Digest (ex_package ''sdlc_evaluator'')"
    using assms(1) unfolding ex_shown_def by blast
  have "find_row step_id (step_id row) (x_steps db) = Some row"
    using row(1) reach_keys [OF assms(2)] by (intro find_row_distinct) (simp_all add: keys_ok_def)
  then obtain row' where "find_row step_id (step_id row) (x_steps db') = Some row'" "step_later (row_Step row) (row_Step row')"
    using ex.reach_later [OF assms(2,4)] unfolding exec_later_def by meson
  moreover have "es_CompletedAt (row_Step row) \<noteq> None" using assms(3) row(1,4) by (auto simp: results_closed_def)
  ultimately have "row' \<in> set (x_steps db')" "row_Step row' = row_Step row" using find_row_SomeD by (fastforce simp: step_later_def)+
  then show ?thesis using row(2-5) unfolding ex_shown_def by metis
qed

lemma results_closed_reach: "reach x_start x_step db \<Longrightarrow> results_closed db"
proof (induction rule: reach.induct)
  case (reach_start s)
  then show ?case by (simp add: x_start_def results_closed_def)
qed (rule x_step_closed)

lemma ex_campaign:
  "\<exists>db. ex_at ''feature'' 17 ''verify_delivery'' ''completed'' db \<and> ex_shown db ex_refusal \<and> ex_shown db (ex_result ''verify_delivery'')"
proof -
  have v: "''verify_delivery'' \<in> set ex_stages" "ExecutionRole ''verify_delivery'' = ''sdlc_evaluator''" by (simp_all add: ex_stages_def ExecutionRole_def)
  obtain db where at: "ex_at ''feature'' 10 ''verify_delivery'' ''ready'' db" using ex_verify by blast
  obtain db1 where at1: "ex_at ''feature'' 13 ''verify_delivery'' ''blocked'' db1" and s1: "ex_shown db1 ex_refusal"
    using ex_moves [OF at v(1), of ex_refusal "''blocked''" "''verify_delivery''"] v(2)
    by (auto simp: ex_refusal_def ex_result_def validExecutionTransition_def ex_shown_def)
  obtain db2 where at2: "ex_at ''feature'' 14 ''verify_delivery'' ''ready'' db2" and p2: "x_step\<^sup>*\<^sup>* db1 db2"
    using ex_resumed [OF at1 v(1)] by auto
  obtain db3 where at3: "ex_at ''feature'' 17 ''verify_delivery'' ''completed'' db3" and p3: "x_step\<^sup>*\<^sup>* db2 db3" and s3: "ex_shown db3 (ex_result ''verify_delivery'')"
    using ex_moves [OF at2 v(1), of "ex_result ''verify_delivery''" "''completed''" "''verify_delivery''"] v(2)
    by (auto simp: ex_result_def validExecutionTransition_def ex_shown_def)
  note r1 = ex_reach [OF at1]
  have "ex_shown db3 ex_refusal" using ex_shown_later [OF s1 r1 results_closed_reach [OF r1]] p2 p3 by (blast intro: rtranclp_trans)
  then show ?thesis using at3 s3 by blast
qed

section \<open>The evaluation and the activation\<close>

definition kx_principal :: principal where
  "kx_principal = \<lparr>p_ID = ''o'', p_DisplayName = ''o'', p_Human = True, p_RoleBindings = [(''p'', [''qa'', ''operations''])], p_CredentialID = ''co'',
     p_Delegation = None\<rparr>"

definition kx_env :: call_env where
  "kx_env = (ex_env ''o'' 0)\<lparr>env_ctx := Some kx_principal\<rparr>"

definition kx_target :: execution_target where
  "kx_target = ex_target\<lparr>et_ID := ''live'', et_Environment := ''staging'', et_Qualification := False\<rparr>"

definition kx_service :: exec_service where
  "kx_service = \<lparr>svc_Authorizer = Some (\<lambda>_. Inr \<lparr>dec_Allowed = True, dec_CallID = [], dec_PolicyVersion = []\<rparr>), svc_Sources = None,
     svc_DecodeIntent = \<lambda>_. Inl ErrInvalidInput, svc_DecodeEnvelope = \<lambda>_. None, svc_DecodePacket = \<lambda>_. None, svc_DecodeCode = \<lambda>_. None,
     svc_Host = \<lparr>host_Stat = \<lambda>_. None, host_ReadFile = \<lambda>_. None, host_Do = \<lambda>_ _ _. None, host_ParseTime = \<lambda>_. None, host_Decode = \<lambda>_. None\<rparr>,
     svc_EncodeEnvelope = \<lambda>_. None, svc_StrictCode = \<lambda>_. None, svc_GetCodeGraph = \<lambda>_ _ _ _ _. None,
     svc_Registry = \<lparr>reg_Schema = ''hybrid-ai/sdlc-registry/v1'', reg_Packages = map (\<lambda>(r, w). ex_package r) ex_workers, reg_Targets = [ex_target, kx_target]\<rparr>,
     svc_DecodeRequest = \<lambda>_. None, svc_DecodeResponse = \<lambda>_. None, svc_DecodeManifest = \<lambda>_. None, svc_DecodePrompt = \<lambda>_. None,
     svc_DecodeBuilder = \<lambda>_. None, svc_DecodeDiagnosis = \<lambda>_. None, svc_DecodeEffect = \<lambda>_. None, svc_DecodeVerification = \<lambda>_. None,
     svc_Remarshal = \<lambda>_. None\<rparr>"

definition kx_store :: local_store where
  "kx_store = \<lparr>store_root = ''a'', store_files = Map.empty\<rparr>"

definition kx_evaluate :: package_evaluate_input where
  "kx_evaluate = \<lparr>pei_ProjectID = ''p'', pei_PackageID = ''sdlc_evaluator'', pei_ExpectedSHA256 = package_Digest (ex_package ''sdlc_evaluator''),
     pei_RunIDs = [''r'']\<rparr>"

definition kx_activate :: package_activate_input where
  "kx_activate = \<lparr>pai_ProjectID = ''p'', pai_TargetID = ''live'', pai_PackageID = ''sdlc_evaluator'', pai_EvaluationID = [], pai_ExpectedActiveSHA256 = [],
     pai_Action = ''activate'', pai_Reason = ''ok''\<rparr>"

text \<open>The campaign's store, in which the owner has been given the second role the decision needs.\<close>

definition kx_granted :: "exec_db \<Rightarrow> package_db" where
  "kx_granted db = \<lparr>pk_exec = db\<lparr>x_roles := x_roles db @ [\<lparr>rb_Principal = ''o'', rb_Project = ''p'', rb_Role = ''qa'', rb_ValidFrom = 0, rb_ValidUntil = None\<rparr>]\<rparr>,
     pk_evaluations = [], pk_records = [], pk_decisions = []\<rparr>"

lemma kx_trim:
  "trim_space ''p'' = ''p''" "trim_space ''r'' = ''r''" "trim_space ''read'' = ''read''" "trim_space ''create'' = ''create''"
  "trim_space ''packages'' = ''packages''" "trim_space ''sdlc_execution'' = ''sdlc_execution''"
  by (rule trim_space_plain, simp add: plain_char_def)+

lemma kx_authority: "packageAuthority kx_service kx_env ''p'' = Inr kx_principal"
  by (simp add: packageAuthority_def kx_service_def kx_env_def AuthorizeProjectAction_def RequirePrincipal_def PrincipalFromContext_def
      kx_principal_def kx_trim authorizeUntraced_def HasRole_iff)

lemma kx_read: "sdlc_action kx_service (sub_env k kx_env) ''p'' ''r'' ''read'' [] = Inr kx_principal"
  by (simp add: kx_service_def kx_env_def AuthorizeProjectAction_def RequirePrincipal_def PrincipalFromContext_def kx_principal_def kx_trim
      authorizeUntraced_def)

lemma kx_world: "ex_reached db \<Longrightarrow> x_activations db = [] \<Longrightarrow>
   \<exists>past. reach pk_start pk_step (\<lparr>pk_exec = db, pk_evaluations = [], pk_records = [], pk_decisions = []\<rparr>, past)"
  unfolding ex_reached_def
proof (induction rule: reach.induct)
  case (reach_start s)
  then show ?case by (intro exI [of _ "[]"] reach.reach_start) (simp add: pk_start_def)
next
  case (reach_step s t)
  let ?d = "\<lparr>pk_exec = s, pk_evaluations = [], pk_records = [], pk_decisions = []\<rparr>"
  obtain past where past: "reach pk_start pk_step (?d, past)" using reach_step by auto
  have "pk_step (?d, past) (?d\<lparr>pk_exec := t\<rparr>, ?d # past)" using reach_step.hyps by (intro pk_step.execute) simp_all
  from reach.reach_step [OF past this] show ?case by auto
qed

lemma kx_granted_reach:
  assumes "ex_at kind k stage status db"
  shows "\<exists>past. reach pk_start pk_step (kx_granted db, past)"
proof -
  let ?d = "\<lparr>pk_exec = db, pk_evaluations = [], pk_records = [], pk_decisions = []\<rparr>"
  have "ex_reached db" "x_activations db = []" using assms by (simp_all add: ex_at_def same_context_def ex_db0_def)
  then obtain past where past: "reach pk_start pk_step (?d, past)" using kx_world by blast
  have "pk_step (?d, past) (?d\<lparr>pk_exec := pk_exec (kx_granted db)\<rparr>, ?d # past)"
    by (intro pk_step.execute x_step.elsewhere) (simp_all add: kx_granted_def same_exec_def)
  from reach_step [OF past this] show ?thesis by (auto simp: kx_granted_def)
qed

lemma kx_live:
  assumes "same_context ex_db0 db" and "role \<in> {''qa'', ''operations''}" and "env_ctx env = Some kx_principal" and "env_db_now env = 0"
  shows "executionActor env (pk_exec (kx_granted db)) ''o'' ''p'' role True"
  using assms
  by (auto simp: executionActor_def kx_granted_def same_context_def ex_db0_def ex_workers_def kx_principal_def PrincipalFromContext_def
      liveExecutionCredential_def credential_live_def role_live_def)

text \<open>The evaluator's package passes on the campaign.\<close>

lemma kx_package: "registry_Package (svc_Registry kx_service) ''sdlc_evaluator'' = Some (ex_package ''sdlc_evaluator'')"
  by (simp add: registry_Package_def kx_service_def ex_workers_def ex_package_def zero_package_def)

lemma kx_tally:
  assumes at: "ex_at ''feature'' k ''verify_delivery'' ''completed'' db" and "ex_shown db ex_refusal" and "ex_shown db (ex_result ''verify_delivery'')"
  shows "\<exists>out proofs. tally_runs kx_service kx_env (pk_exec (kx_granted db)) ''p'' (ex_package ''sdlc_evaluator'') [] [] out0 [''r''] = Inr (out, proofs)
     \<and> same_package out0 out \<and> pe_Positive out0 < pe_Positive out \<and> pe_Negative out0 < pe_Negative out"
proof -
  let ?db = "pk_exec (kx_granted db)" let ?pkg = "ex_package ''sdlc_evaluator''"
  obtain run where run: "lockExecution db ''p'' ''r'' = Inr run" "er_Status run = ''completed''" "contract (ex_request ''feature'') run"
    using ex_lock [OF at] by blast
  have r: "er_ID run = ''r''" "er_Owner run = ''o''" "er_Target run = ex_target" "er_Packages run = map (\<lambda>(r, w). (r, ex_package r)) ex_workers"
    using run(3) by (simp_all add: contract_def ex_request_def)
  obtain view where view: "GetExecution ?db ''p'' ''r'' = Inr view" "view_Run view = run"
    "set (view_Steps view) = row_Step ` {row \<in> set (x_steps db). es_RunID (row_Step row) = ''r''}"
    using run(1) r(1) by (auto simp: GetExecution_def kx_granted_def lockExecution_def)
  have get: "service_GetExecution kx_service (sub_env (Suc 0) kx_env) ?db ''p'' ''r'' = Inr view"
    using kx_read [of "Suc 0"] by (simp add: service_GetExecution_def view r(2)) (simp add: kx_principal_def HasRole_iff)
  have role: "ap_Role ?pkg = ''sdlc_evaluator''" "ExecutionRole ''verify_delivery'' = ''sdlc_evaluator''"
    by (simp_all add: ex_package_def ExecutionRole_def)
  have out: "tally_runs kx_service kx_env ?db ''p'' ?pkg [] [] out0 [''r''] = Inr (tally_run ?pkg view out0, [view])"
    by (simp add: get view(2) r role(1)) (simp add: ex_workers_def ex_target_def)
  have shown: "\<exists>s \<in> set (view_Steps view). es_Result s = Some res \<and> own_step ?pkg s" if "ex_shown db res" for res
    using that role unfolding ex_shown_def view(3) own_step_def by auto
  obtain s t where s: "s \<in> set (view_Steps view)" "es_Result s = Some (ex_result ''verify_delivery'')" "own_step ?pkg s"
    and t: "t \<in> set (view_Steps view)" "es_Result t = Some ex_refusal" "own_step ?pkg t"
    using shown assms(2,3) by meson
  have "pe_Positive out0 < pe_Positive (tally_run ?pkg view out0)"
    by (rule tally_run_counts(1) [OF s(1,2)]) (use s(3) run(2) view(2) in \<open>simp add: positive_trial_def ex_result_def\<close>)
  moreover have "pe_Negative out0 < pe_Negative (tally_run ?pkg view out0)"
    by (rule tally_run_counts(2) [OF t(1,2)]) (use t(3) in \<open>simp add: negative_trial_def ex_refusal_def\<close>)
  ultimately show ?thesis using out tally_run_package by blast
qed

lemma kx_evaluated:
  assumes at: "ex_at ''feature'' k ''verify_delivery'' ''completed'' db" and "ex_shown db ex_refusal" and "ex_shown db (ex_result ''verify_delivery'')"
  shows "\<exists>e st' blobs. EvaluatePackage kx_service kx_env kx_store (kx_granted db) (kx_granted db) kx_evaluate
      = (Inr e, st', (kx_granted db)\<lparr>pk_exec := (pk_exec (kx_granted db))\<lparr>x_blobs := blobs\<rparr>, pk_evaluations := [e]\<rparr>)
    \<and> pe_ID e = [] \<and> pe_ProjectID e = ''p'' \<and> pe_PackageSHA256 e = package_Digest (ex_package ''sdlc_evaluator'') \<and> pe_Role e = ''sdlc_evaluator''
    \<and> pe_Outcome e = ''passed'' \<and> pe_RegressionID e = []"
proof -
  let ?pkg = "ex_package ''sdlc_evaluator''" let ?db = "kx_granted db"
  define out0 where "out0 = begun_evaluation kx_env kx_principal ?pkg kx_evaluate"
  obtain out proofs where t: "tally_runs kx_service kx_env (pk_exec ?db) ''p'' ?pkg [] [] out0 [''r''] = Inr (out, proofs)"
    and out: "same_package out0 out" "pe_Positive out0 < pe_Positive out" "pe_Negative out0 < pe_Negative out"
    using kx_tally [OF assms] by blast
  have f: "pe_ID out = []" "pe_ProjectID out = ''p''" "pe_PackageSHA256 out = package_Digest ?pkg" "pe_Role out = ''sdlc_evaluator''" "pe_RegressionID out = []"
    "pe_Actor out = ''o''" "pe_CreatedAt out = 0" "0 < pe_Positive out" "0 < pe_Negative out"
    using out by (simp_all add: same_package_def out0_def begun_evaluation_def kx_env_def ex_env_def kx_evaluate_def kx_principal_def ex_package_def zero_package_def)
  have ctx: "same_context ex_db0 db" using at by (simp add: ex_at_def)
  obtain a st' where put: "Put kx_store (campaign_bytes (judged out) proofs) ''application/json'' = (Inr a, st')"
    by (simp add: Put_def kx_store_def Let_def)
  define e where "e = (judged out)\<lparr>pe_Evidence := a\<rparr>"
  have now: "time_marshals (utc 0)" by code_simp
  have "RecordPackageEvaluation (sub_env 31 kx_env) ?db e = (Inr e, ?db\<lparr>pk_exec := (pk_exec ?db)\<lparr>x_blobs := saveProductArtifact a (x_blobs (pk_exec ?db))\<rparr>, pk_evaluations := [e]\<rparr>)"
    using kx_live [OF ctx, of _ "sub_env 31 kx_env"] f(2,6,7) now
    by (simp add: RecordPackageEvaluation_def e_def) (simp add: kx_env_def sub_env_def kx_granted_def find_row_def)
  then have "EvaluatePackage kx_service kx_env kx_store ?db ?db kx_evaluate
      = (Inr e, st', ?db\<lparr>pk_exec := (pk_exec ?db)\<lparr>x_blobs := saveProductArtifact a (x_blobs (pk_exec ?db))\<rparr>, pk_evaluations := [e]\<rparr>)"
    using t put kx_authority kx_package by (simp add: EvaluatePackage_def kx_evaluate_def out0_def e_def)
  then show ?thesis using f by (intro exI conjI) (assumption, simp_all add: e_def, simp add: judged_def)
qed

lemma executionActor_blobs [simp]: "executionActor env (d\<lparr>x_blobs := blobs\<rparr>) = executionActor env d"
  by (rule context_executionActor) (simp add: same_context_def)

lemma kx_activated:
  assumes "same_context ex_db0 x" and "db = (kx_granted x)\<lparr>pk_exec := (pk_exec (kx_granted x))\<lparr>x_blobs := blobs\<rparr>, pk_evaluations := [e]\<rparr>"
    and e: "pe_ID e = []" "pe_ProjectID e = ''p''" "pe_PackageSHA256 e = package_Digest (ex_package ''sdlc_evaluator'')" "pe_Role e = ''sdlc_evaluator''"
      "pe_Outcome e = ''passed''" "pe_RegressionID e = []"
  shows "\<exists>a env. ActivatePackage kx_service kx_env db db kx_activate = (Inr a, activated env db a)
     \<and> record_key a = (''p'', ''live'', ''sdlc_evaluator'') \<and> pa_PackageSHA256 a = package_Digest (ex_package ''sdlc_evaluator'')"
proof -
  let ?pkg = "ex_package ''sdlc_evaluator''" let ?env = "sub_env 1 kx_env"
  have db: "pk_evaluations db = [e]" "pk_records db = []" "pk_decisions db = []" by (simp_all add: assms(2) kx_granted_def)
  have live: "executionActor ?env (pk_exec db) ''o'' ''p'' role True" if "role \<in> {''qa'', ''operations''}" for role
    using kx_live [OF assms(1) that, of ?env] by (simp add: assms(2)) (simp add: kx_env_def sub_env_def)
  have target: "registry_Target (svc_Registry kx_service) ''p'' ''live'' = Inr (kx_target, map (\<lambda>(r, w). (r, ex_package r)) ex_workers)"
    by (simp add: registry_Target_def registry_Package_def kx_service_def kx_target_def ex_target_def ex_workers_def ex_package_def zero_package_def)
  have fits: "evaluation_fits kx_target ?pkg e" using e by (simp add: evaluation_fits_def ex_package_def zero_package_def)
  have pkg: "ap_Role ?pkg = ''sdlc_evaluator''" "ap_ID ?pkg = ''sdlc_evaluator''" by (simp_all add: ex_package_def)
  have t: "map_get [] (et_Packages kx_target) ''sdlc_evaluator'' = ''sdlc_evaluator''" "et_ID kx_target = ''live''"
    by (simp_all add: kx_target_def ex_target_def ex_workers_def)
  define a where "a = \<lparr>pa_ProjectID = ''p'', pa_TargetID = ''live'', pa_Role = ''sdlc_evaluator'', pa_PackageID = ''sdlc_evaluator'', pa_PackageSHA256 = package_Digest ?pkg,
     pa_EvaluationID = [], pa_Version = 0, pa_Actor = ''o'', pa_Action = ''activate'', pa_Reason = ''ok'', pa_PreviousSHA256 = []\<rparr>"
  have "repo_ActivatePackage ?env db a = (Inr (a\<lparr>pa_Version := 1\<rparr>), activated ?env db (a\<lparr>pa_Version := 1\<rparr>))"
    using live e by (simp add: repo_ActivatePackage_def a_def Let_def GetPackageActivation_def GetPackageEvaluation_def db find_row_def zero_activation_def)
  moreover have "ActivatePackage kx_service kx_env db db kx_activate = repo_ActivatePackage ?env db a"
    using kx_authority kx_package target fits pkg t e
    by (simp add: ActivatePackage_def kx_activate_def GetPackageEvaluation_def db a_def) (simp add: kx_principal_def)
  ultimately show ?thesis by (intro exI [of _ "a\<lparr>pa_Version := 1\<rparr>"] exI [of _ ?env]) (simp add: a_def record_key_def)
qed

text \<open>A reachable store with the evaluator's package active on the staging target.\<close>

lemma kx_active:
  "\<exists>db past a. reach pk_start pk_step (db, past) \<and> x_activations (pk_exec db) = [activation_columns a] \<and> role_log db (''p'', ''live'', ''sdlc_evaluator'') = [a]
     \<and> pa_PackageSHA256 a = package_Digest (ex_package ''sdlc_evaluator'')"
proof -
  obtain x where at: "ex_at ''feature'' 17 ''verify_delivery'' ''completed'' x" and shown: "ex_shown x ex_refusal" "ex_shown x (ex_result ''verify_delivery'')"
    using ex_campaign by blast
  have ctx: "same_context ex_db0 x" using at by (simp add: ex_at_def)
  let ?d0 = "kx_granted x"
  obtain past where past: "reach pk_start pk_step (?d0, past)" using kx_granted_reach [OF at] by blast
  obtain e st' blobs where ev: "EvaluatePackage kx_service kx_env kx_store ?d0 ?d0 kx_evaluate
      = (Inr e, st', ?d0\<lparr>pk_exec := (pk_exec ?d0)\<lparr>x_blobs := blobs\<rparr>, pk_evaluations := [e]\<rparr>)"
    and e: "pe_ID e = []" "pe_ProjectID e = ''p''" "pe_PackageSHA256 e = package_Digest (ex_package ''sdlc_evaluator'')" "pe_Role e = ''sdlc_evaluator''"
      "pe_Outcome e = ''passed''" "pe_RegressionID e = []"
    using kx_evaluated [OF at shown] by blast
  define d1 where "d1 = ?d0\<lparr>pk_exec := (pk_exec ?d0)\<lparr>x_blobs := blobs\<rparr>, pk_evaluations := [e]\<rparr>"
  have r1: "reach pk_start pk_step (d1, ?d0 # past)"
    using reach_step [OF past pk_step.evaluate [OF _ ev, of past]] by (simp add: d1_def)
  obtain a env where act: "ActivatePackage kx_service kx_env d1 d1 kx_activate = (Inr a, activated env d1 a)"
    and a: "record_key a = (''p'', ''live'', ''sdlc_evaluator'')" "pa_PackageSHA256 a = package_Digest (ex_package ''sdlc_evaluator'')"
    using kx_activated [OF ctx d1_def e] by blast
  have r2: "reach pk_start pk_step (activated env d1 a, d1 # ?d0 # past)"
    using reach_step [OF r1 pk_step.activate [OF _ act, of "?d0 # past"]] by simp
  have "x_activations (pk_exec d1) = []" "pk_decisions d1 = []" using ctx by (simp_all add: d1_def kx_granted_def same_context_def ex_db0_def)
  then have "x_activations (pk_exec (activated env d1 a)) = [activation_columns a]" "role_log (activated env d1 a) (''p'', ''live'', ''sdlc_evaluator'') = [a]"
    using a(1) by (simp_all add: activated_def upsert_row_def find_row_def role_log_def)
  then show ?thesis using r2 a(2) by blast
qed

section \<open>Instances of the properties\<close>

theorem active_packages_are_qualified_witness:
  "\<exists>db past e. reach pk_start pk_step (db, past) \<and> e \<in> set (pk_evaluations db) \<and> pe_Role e = ''sdlc_evaluator'' \<and> pe_Outcome e = ''passed''
     \<and> pe_PackageSHA256 e = package_Digest (ex_package ''sdlc_evaluator'') \<and> qualified_by (pk_exec db) e"
proof -
  obtain db past a where w: "reach pk_start pk_step (db, past)" "x_activations (pk_exec db) = [activation_columns a]"
    "role_log db (''p'', ''live'', ''sdlc_evaluator'') = [a]" "pa_PackageSHA256 a = package_Digest (ex_package ''sdlc_evaluator'')"
    using kx_active by blast
  have "record_key a = (''p'', ''live'', ''sdlc_evaluator'')" using w(3) by (auto simp: role_log_def filter_eq_Cons_iff)
  then have a: "act_Role (activation_columns a) = ''sdlc_evaluator''" "act_PackageSHA256 (activation_columns a) = package_Digest (ex_package ''sdlc_evaluator'')"
    using w(4) by (simp_all add: activation_columns_def record_key_def)
  have "activation_columns a \<in> set (x_activations (pk_exec db))" using w(2) by simp
  from active_packages_are_qualified [OF w(1) this] show ?thesis using w(1) a by auto
qed

theorem package_decisions_are_chained_witness:
  "\<exists>db past a. reach pk_start pk_step (db, past) \<and> GetPackageActivation db ''p'' ''live'' ''sdlc_evaluator'' = a \<and> pa_Version a = 1 \<and> pa_PreviousSHA256 a = []"
proof -
  obtain db past a where w: "reach pk_start pk_step (db, past)" "role_log db (''p'', ''live'', ''sdlc_evaluator'') = [a]" using kx_active by blast
  from package_decisions_are_chained [OF w(1), of "''p''" "''live''" "''sdlc_evaluator''"] w
  show ?thesis by (auto simp: chained_def previous_sha_def)
qed

end
