(* ===== verification/Delegation.thy ===== *)
theory Delegation
  imports TaskService "HOL-Library.Product_Lexorder"
begin

text \<open>
  Bearer credentials and sessions delegated for one task: bootstrap and authentication of principals (\<open>src/internal/postgres/workflows.go\<close>),
  the issue, use and revocation of delegations (\<open>src/internal/postgres/delegation.go\<close>, \<open>src/internal/service/delegation.go\<close>,
  \<open>src/internal/domain/delegation.go\<close>) and the boundary every tool call passes (\<open>src/internal/service/trace.go\<close>). A token is known to the store by
  its SHA-256 sum. The rows of principals and roles are those of the task database; the display names are a column
  beside them. The queries of one call see one state. The operation records that tracing writes are only read here.
\<close>

section \<open>Tokens\<close>

definition Sum256 :: "string \<Rightarrow> string" where
  "Sum256 s = concat (map (\<lambda>w. be_bytes 4 (unat w)) (sha256 s))"

definition base64url :: "nat \<Rightarrow> char" where
  "base64url n = ''ABCDEFGHIJKLMNOPQRSTUVWXYZabcdefghijklmnopqrstuvwxyz0123456789-_'' ! (n mod 64)"

text \<open>\<open>base64.RawURLEncoding.EncodeToString\<close>.\<close>

fun RawURLEncoding :: "string \<Rightarrow> string" where
  "RawURLEncoding [] = []"
| "RawURLEncoding [a] = map base64url [of_char a div 4, of_char a * 16]"
| "RawURLEncoding [a, b] = (let n = of_char a * 256 + of_char b in map base64url [n div 1024, n div 16, n * 4])"
| "RawURLEncoding (a # b # c # s) =
     (let n = (of_char a * 256 + of_char b) * 256 + of_char c
      in map base64url [n div 262144, n div 4096, n div 64, n] @ RawURLEncoding s)"

section \<open>Tables\<close>

record token_row = credential_row +
  cred_Token :: string
  cred_Label :: string

text \<open>A row of the operation trace: what \<open>OwnsDelegatedCandidate\<close> reads of it.\<close>

record operation_row =
  op_TaskID :: string
  op_Phase :: string
  op_Outcome :: string
  op_Name :: string
  op_Actor :: string
  op_References :: "(string \<times> string) list"

record identity_db =
  id_task :: task_db
  id_names :: "(string \<times> string) list"
  id_credentials :: "token_row list"
  id_delegations :: "task_delegation list"
  id_operations :: "operation_row list"

abbreviation id_principals :: "identity_db \<Rightarrow> principal_row list" where
  "id_principals db \<equiv> td_principals (id_task db)"

abbreviation id_roles :: "identity_db \<Rightarrow> role_row list" where
  "id_roles db \<equiv> td_roles (id_task db)"

abbreviation set_principals :: "principal_row list \<Rightarrow> identity_db \<Rightarrow> identity_db" where
  "set_principals ps db \<equiv> db\<lparr>id_task := (id_task db)\<lparr>td_principals := ps\<rparr>\<rparr>"

abbreviation set_roles :: "role_row list \<Rightarrow> identity_db \<Rightarrow> identity_db" where
  "set_roles rs db \<equiv> db\<lparr>id_task := (id_task db)\<lparr>td_roles := rs\<rparr>\<rparr>"

definition token_live :: "int \<Rightarrow> token_row \<Rightarrow> bool" where
  "token_live now c \<longleftrightarrow> credential_live now (credential_row.truncate c)"

definition role_key :: "role_row \<Rightarrow> string \<times> string \<times> string" where
  "role_key b = (rb_Principal b, rb_Project b, rb_Role b)"

section \<open>Bootstrap\<close>

text \<open>The roles the table admits.\<close>

definition stored_roles :: "string list" where
  "stored_roles = [''controller'', ''development'', ''qa'', ''product_owner'', ''operations'', ''cloud_reviewer'', ''maintenance_executor'',
     ''repository_analyzer'', ''validation_executor'', ''incident_diagnosis'', ''sdlc_builder'', ''sdlc_evaluator'', ''sdlc_delivery'',
     ''sdlc_diagnosis'', ''sdlc_remediation'']"

definition bootstrap_kind :: "principal_bootstrap \<Rightarrow> string" where
  "bootstrap_kind b = (if pb_Human b then ''human'' else ''workload'')"

definition upsert_principal :: "identity_db \<Rightarrow> principal_bootstrap \<Rightarrow> identity_db" where
  "upsert_principal db b =
     (case find_row pr_ID (pb_ID b) (id_principals db) of
        None \<Rightarrow> (set_principals (id_principals db @ [\<lparr>pr_ID = pb_ID b, pr_Active = True, pr_Kind = bootstrap_kind b\<rparr>]) db)
                  \<lparr>id_names := (pb_ID b, pb_DisplayName b) # id_names db\<rparr>
      | Some p \<Rightarrow> if pr_Kind p = bootstrap_kind b then db\<lparr>id_names := (pb_ID b, pb_DisplayName b) # id_names db\<rparr> else db)"

definition rotated :: "call_env \<Rightarrow> principal_bootstrap \<Rightarrow> token_row \<Rightarrow> token_row" where
  "rotated env b c =
     (if cred_Principal c = pb_ID b \<and> cred_Label c = ''environment-bootstrap'' \<and> (pb_Token b = [] \<or> cred_Token c \<noteq> Sum256 (pb_Token b))
      then c\<lparr>cred_RevokedAt := (case cred_RevokedAt c of None \<Rightarrow> Some (env_db_now env) | Some t \<Rightarrow> Some t)\<rparr> else c)"

text \<open>The credential of a token, unless the token is stored already; \<open>k\<close> is the place of the generated identifier.\<close>

definition bootstrap_credential :: "call_env \<Rightarrow> nat \<Rightarrow> identity_db \<Rightarrow> principal_bootstrap \<Rightarrow> identity_db result" where
  "bootstrap_credential env k db b =
     (if pb_Token b = [] then Ok db
      else case find_row cred_Token (Sum256 (pb_Token b)) (id_credentials db) of
        Some c \<Rightarrow> if cred_Principal c \<noteq> pb_ID b
                  then Err (ErrMessage ''bootstrap credential is already assigned to a different principal'') else Ok db
      | None \<Rightarrow>
          if find_row cred_ID (env_id env k) (id_credentials db) \<noteq> None then Err ErrDatabase
          else Ok (db\<lparr>id_credentials := id_credentials db @
            [\<lparr>cred_ID = env_id env k, cred_Principal = pb_ID b, cred_RevokedAt = None, cred_ExpiresAt = None, cred_Token = Sum256 (pb_Token b),
              cred_Label = ''environment-bootstrap''\<rparr>]\<rparr>))"

definition dropped_roles :: "principal_bootstrap \<Rightarrow> role_row list \<Rightarrow> role_row list" where
  "dropped_roles b rows =
     filter (\<lambda>r. \<not> (rb_Principal r = pb_ID b \<and> (rb_Project r \<notin> set (pb_ProjectIDs b) \<or> rb_Role r \<notin> set (pb_Roles b)))) rows"

definition insert_role :: "role_row \<Rightarrow> role_row list \<Rightarrow> role_row list" where
  "insert_role r rows = (if find_row role_key (role_key r) rows = None then rows @ [r] else rows)"

definition bootstrap_roles :: "call_env \<Rightarrow> principal_bootstrap \<Rightarrow> role_row list" where
  "bootstrap_roles env b =
     concat (map (\<lambda>project. map (\<lambda>role. \<lparr>rb_Principal = pb_ID b, rb_Project = project, rb_Role = role, rb_ValidFrom = env_db_now env,
       rb_ValidUntil = None\<rparr>) (pb_Roles b)) (pb_ProjectIDs b))"

definition bootstrap_one :: "call_env \<Rightarrow> nat \<Rightarrow> identity_db \<Rightarrow> principal_bootstrap \<Rightarrow> identity_db result" where
  "bootstrap_one env k db b =
     (let db1 = upsert_principal db b in
      if map_option pr_Kind (find_row pr_ID (pb_ID b) (id_principals db1)) \<noteq> Some (bootstrap_kind b)
        then Err (ErrMessage ''bootstrap cannot change principal kind'')
      else case bootstrap_credential env k (db1\<lparr>id_credentials := map (rotated env b) (id_credentials db1)\<rparr>) b of
        Inl e \<Rightarrow> Err e
      | Inr db2 \<Rightarrow>
          if \<not> list_all (\<lambda>r. rb_Role r \<in> set stored_roles) (bootstrap_roles env b) then Err ErrDatabase
          else Ok (set_roles (fold insert_role (bootstrap_roles env b) (dropped_roles b (id_roles db2))) db2))"

fun bootstrap_all :: "call_env \<Rightarrow> nat \<Rightarrow> identity_db \<Rightarrow> principal_bootstrap list \<Rightarrow> identity_db result" where
  "bootstrap_all env k db [] = Ok db"
| "bootstrap_all env k db (b # bs) = (case bootstrap_one env k db b of Inl e \<Rightarrow> Err e | Inr db' \<Rightarrow> bootstrap_all env (Suc k) db' bs)"

definition BootstrapPrincipals :: "call_env \<Rightarrow> identity_db \<Rightarrow> principal_bootstrap list \<Rightarrow> unit result \<times> identity_db" where
  "BootstrapPrincipals env db bs = (case bootstrap_all env 0 db bs of Inl e \<Rightarrow> (Err e, db) | Inr db' \<Rightarrow> (Ok (), db'))"

section \<open>Authentication\<close>

definition auth_rows :: "call_env \<Rightarrow> identity_db \<Rightarrow> string \<Rightarrow> (principal_row \<times> role_row \<times> token_row) list" where
  "auth_rows env db hash =
     sort_key (\<lambda>(p, b, c). (rb_Project b, rb_Role b))
       [(p, b, c). c \<leftarrow> id_credentials db, cred_Token c = hash \<and> token_live (env_db_now env) c,
          p \<leftarrow> id_principals db, pr_ID p = cred_Principal c \<and> pr_Active p,
          b \<leftarrow> id_roles db, rb_Principal b = pr_ID p \<and> role_live (env_db_now env) b]"

fun add_binding :: "string \<Rightarrow> string \<Rightarrow> (string \<times> string list) list \<Rightarrow> (string \<times> string list) list" where
  "add_binding project role [] = [(project, [role])]"
| "add_binding project role ((k, roles) # m) = (if k = project then (k, roles @ [role]) # m else (k, roles) # add_binding project role m)"

definition scan_row :: "identity_db \<Rightarrow> principal_row \<times> role_row \<times> token_row \<Rightarrow> principal \<Rightarrow> principal" where
  "scan_row db row q =
     (case row of (p, b, c) \<Rightarrow>
        (if p_ID q = [] then q\<lparr>p_ID := pr_ID p, p_DisplayName := map_get [] (id_names db) (pr_ID p), p_Human := pr_Kind p = ''human''\<rparr> else q)
          \<lparr>p_CredentialID := cred_ID c, p_RoleBindings := add_binding (rb_Project b) (rb_Role b) (p_RoleBindings q)\<rparr>)"

definition zero_principal :: principal where
  "zero_principal = \<lparr>p_ID = [], p_DisplayName = [], p_Human = False, p_RoleBindings = [], p_CredentialID = [], p_Delegation = None\<rparr>"

text \<open>A task that is under way in a workflow that has not ended.\<close>

definition task_open :: "identity_db \<Rightarrow> string \<Rightarrow> string \<Rightarrow> string \<Rightarrow> bool" where
  "task_open db tid wid project \<longleftrightarrow>
     list_ex (\<lambda>t. tk_ID t = tid \<and> tk_WorkflowID t = wid \<and> tk_CompletedAt t = None \<and> tk_State t \<notin> set [''queued'', ''blocked'', ''rejected'']
       \<and> list_ex (\<lambda>w. wf_ID w = tk_WorkflowID t \<and> wf_ProjectID w = project \<and> wf_TerminalAt w = None) (wf_runs (td_wf (id_task db))))
       (td_tasks (id_task db))"

text \<open>The person behind a delegation: an active human, not a delegate, with a live development role and this live credential.\<close>

definition delegator_of :: "call_env \<Rightarrow> identity_db \<Rightarrow> string \<Rightarrow> string \<Rightarrow> token_row \<Rightarrow> bool" where
  "delegator_of env db actor project c \<longleftrightarrow> token_live (env_db_now env) c
     \<and> list_ex (\<lambda>p. pr_ID p = cred_Principal c \<and> pr_ID p = actor \<and> pr_Active p \<and> pr_Kind p = ''human''
          \<and> list_ex (\<lambda>b. rb_Principal b = pr_ID p \<and> rb_Role b = ''development'' \<and> rb_Project b \<in> {''*'', project}
               \<and> role_live (env_db_now env) b) (id_roles db)
          \<and> \<not> list_ex (\<lambda>x. del_PrincipalID x = pr_ID p) (id_delegations db)) (id_principals db)"

definition delegation_active :: "call_env \<Rightarrow> identity_db \<Rightarrow> task_delegation \<Rightarrow> bool" where
  "delegation_active env db d \<longleftrightarrow>
     list_ex (\<lambda>c. cred_ID c = del_ParentCredentialID d \<and> delegator_of env db (del_DelegatedBy d) (del_ProjectID d) c) (id_credentials db)
     \<and> task_open db (del_TaskID d) (del_WorkflowID d) (del_ProjectID d)"

definition constrainDelegatedPrincipal :: "call_env \<Rightarrow> identity_db \<Rightarrow> principal \<Rightarrow> principal result" where
  "constrainDelegatedPrincipal env db p =
     (case find_row del_PrincipalID (p_ID p) (id_delegations db) of
        None \<Rightarrow> Ok p
      | Some d \<Rightarrow>
          if \<not> delegation_active env db d \<or> p_Human p \<or> del_RevokedAt d \<noteq> None \<or> \<not> env_clock env 0 < del_ExpiresAt d
             \<or> \<not> HasRole p (del_ProjectID d) ''development''
            then Err (ErrMessage ''invalid or expired task delegation'')
          else Ok (p\<lparr>p_RoleBindings := [(del_ProjectID d, [''development''])], p_Delegation := Some d\<rparr>))"

definition AuthenticatePrincipal :: "call_env \<Rightarrow> identity_db \<Rightarrow> string \<Rightarrow> principal result" where
  "AuthenticatePrincipal env db hash =
     (let p = fold (scan_row db) (auth_rows env db hash) zero_principal in
      if p_ID p = [] then Err (ErrMessage ''invalid or expired bearer token'')
      else constrainDelegatedPrincipal (sub_env 1 env) db p)"

definition RecheckTaskDelegation :: "call_env \<Rightarrow> identity_db \<Rightarrow> principal \<Rightarrow> principal result" where
  "RecheckTaskDelegation env db p =
     (if p_Delegation p = None \<or> p_CredentialID p = [] then Err (ErrMessage ''task credential required'')
      else case find (\<lambda>c. cred_ID c = p_CredentialID p \<and> cred_Principal c = p_ID p) (id_credentials db) of
        None \<Rightarrow> Err ErrNoRows
      | Some c \<Rightarrow> AuthenticatePrincipal env db (cred_Token c))"

section \<open>Delegations\<close>

definition OwnsDelegatedCandidate :: "identity_db \<Rightarrow> string \<Rightarrow> string \<Rightarrow> string \<Rightarrow> bool" where
  "OwnsDelegatedCandidate db actor task candidate =
     list_ex (\<lambda>o'. op_TaskID o' = task \<and> op_Phase o' = ''commit'' \<and> op_Outcome o' = ''success'' \<and> op_Name o' = ''knowledge.capture''
        \<and> op_Actor o' = actor \<and> (''knowledge'', candidate) \<in> set (op_References o')) (id_operations db)"

definition stored_delegation :: "task_delegation \<Rightarrow> task_delegation" where
  "stored_delegation d = d\<lparr>del_CreatedAt := micros (del_CreatedAt d), del_ExpiresAt := micros (del_ExpiresAt d), del_RevokedAt := None\<rparr>"

text \<open>The principal, credential, role and delegation rows of a delegate. The credential's identifier is generated by the database.\<close>

definition delegated :: "call_env \<Rightarrow> identity_db \<Rightarrow> task_delegation \<Rightarrow> string \<Rightarrow> identity_db" where
  "delegated env db d hash =
     db\<lparr>id_task := (id_task db)\<lparr>
          td_principals := id_principals db @ [\<lparr>pr_ID = del_PrincipalID d, pr_Active = True, pr_Kind = ''workload''\<rparr>],
          td_roles := id_roles db @ [\<lparr>rb_Principal = del_PrincipalID d, rb_Project = del_ProjectID d, rb_Role = ''development'',
            rb_ValidFrom = env_db_now env, rb_ValidUntil = Some (micros (del_ExpiresAt d))\<rparr>]\<rparr>,
        id_names := (del_PrincipalID d, ''Scoped task delegate'') # id_names db,
        id_credentials := id_credentials db @ [\<lparr>cred_ID = env_id env 0, cred_Principal = del_PrincipalID d, cred_RevokedAt = None,
          cred_ExpiresAt = Some (micros (del_ExpiresAt d)), cred_Token = hash, cred_Label = ''task-delegation''\<rparr>],
        id_delegations := id_delegations db @ [stored_delegation d]\<rparr>"

text \<open>The table constraints on these rows.\<close>

definition delegation_fits :: "call_env \<Rightarrow> identity_db \<Rightarrow> task_delegation \<Rightarrow> string \<Rightarrow> bool" where
  "delegation_fits env db d hash \<longleftrightarrow>
     find_row pr_ID (del_PrincipalID d) (id_principals db) = None
     \<and> find_row cred_ID (env_id env 0) (id_credentials db) = None \<and> find_row cred_Token hash (id_credentials db) = None
     \<and> find_row role_key (del_PrincipalID d, del_ProjectID d, ''development'') (id_roles db) = None
     \<and> find_row del_ID (del_ID d) (id_delegations db) = None \<and> find_row del_PrincipalID (del_PrincipalID d) (id_delegations db) = None
     \<and> micros (del_CreatedAt d) < micros (del_ExpiresAt d) \<and> micros (del_ExpiresAt d) \<le> micros (del_CreatedAt d) + seconds 3600"

definition clamped :: "int option \<Rightarrow> task_delegation \<Rightarrow> task_delegation" where
  "clamped expiry d = (case expiry of None \<Rightarrow> d | Some u \<Rightarrow> if u < del_ExpiresAt d then d\<lparr>del_ExpiresAt := u\<rparr> else d)"

definition IssueTaskDelegation ::
  "call_env \<Rightarrow> identity_db \<Rightarrow> task_delegation \<Rightarrow> string \<Rightarrow> task_delegation result \<times> identity_db" where
  "IssueTaskDelegation env db d hash =
     (if length hash \<noteq> 32 \<or> del_ExpiresAt d - del_CreatedAt d \<le> 0 \<or> del_ExpiresAt d - del_CreatedAt d > seconds 3600 then (Err ErrQualityBlocked, db)
      else case find (\<lambda>c. cred_ID c = del_ParentCredentialID d \<and> delegator_of env db (del_DelegatedBy d) (del_ProjectID d) c) (id_credentials db) of
        None \<Rightarrow> (Err ErrNoRows, db)
      | Some c \<Rightarrow>
          let d' = clamped (cred_ExpiresAt c) d in
          if \<not> task_open db (del_TaskID d) (del_WorkflowID d) (del_ProjectID d) then (Err ErrVersionConflict, db)
          else if \<not> delegation_fits env db d' hash then (Err ErrDatabase, db)
          else (Ok d', delegated env db d' hash))"

definition RevokeTaskDelegation :: "call_env \<Rightarrow> identity_db \<Rightarrow> string \<Rightarrow> string \<Rightarrow> task_delegation result \<times> identity_db" where
  "RevokeTaskDelegation env db did actor =
     (case find (\<lambda>d. del_ID d = did \<and> del_DelegatedBy d = actor
         \<and> list_ex (\<lambda>p. pr_ID p = del_DelegatedBy d \<and> pr_Active p \<and> pr_Kind p = ''human'') (id_principals db)) (id_delegations db) of
        None \<Rightarrow> (Err ErrNoRows, db)
      | Some d \<Rightarrow>
          if del_RevokedAt d \<noteq> None then (Ok d, db)
          else let d' = d\<lparr>del_RevokedAt := Some (env_db_now env)\<rparr> in (Ok d', db\<lparr>id_delegations := put_row del_ID d' (id_delegations db)\<rparr>))"

section \<open>The service\<close>

record tool_fields =
  tf_ProjectID :: string
  tf_WorkflowID :: string
  tf_TaskID :: string
  tf_RunID :: string
  tf_StepID :: string
  tf_KnowledgeID :: string
  tf_ID :: string

record delegated_fields =
  df_ID :: string
  df_ProjectID :: string
  df_WorkflowID :: string
  df_TaskID :: string
  df_KnowledgeID :: string
  df_CandidateID :: string
  df_WorkflowStepID :: string
  df_Provider :: string
  df_Event :: string

record operation_scope =
  os_ProjectID :: string
  os_WorkflowID :: string
  os_TaskID :: string
  os_ExecutionID :: string
  os_ExecutionStepID :: string

text \<open>
  The service: its task operations, whether the authorizer is a configured dependency, and the two lenient JSON decoders
  of a tool's input, which are parameters.
\<close>

record identity_service =
  isv_Task :: task_service
  isv_Dependency :: bool
  isv_DecodeTool :: "string \<Rightarrow> tool_fields option"
  isv_DecodeDelegated :: "string \<Rightarrow> delegated_fields option"

definition requested_delegation :: "call_env \<Rightarrow> principal \<Rightarrow> workflow_task \<Rightarrow> int \<Rightarrow> task_delegation" where
  "requested_delegation env p task ttl =
     \<lparr>del_ID = env_id env 0, del_PrincipalID = ''delegate:'' @ env_id env 0, del_DelegatedBy = p_ID p, del_ParentCredentialID = p_CredentialID p,
      del_ProjectID = tk_ProjectID task, del_WorkflowID = tk_WorkflowID task, del_TaskID = tk_ID task, del_CreatedAt = env_clock env 0,
      del_ExpiresAt = env_clock env 0 + ttl, del_RevokedAt = None\<rparr>"

text \<open>The bearer secret is drawn from the system's random source: \<open>secret\<close>.\<close>

definition IssueTaskCredential ::
  "identity_service \<Rightarrow> call_env \<Rightarrow> string \<Rightarrow> identity_db \<Rightarrow> identity_db \<Rightarrow> string \<Rightarrow> int \<Rightarrow> (task_delegation \<times> string) result \<times> identity_db" where
  "IssueTaskCredential svc env secret seen db tid ttl =
     (case RequirePrincipal (env_ctx env) of
        Inl e \<Rightarrow> (Err e, db)
      | Inr p \<Rightarrow>
          if \<not> p_Human p \<or> p_Delegation p \<noteq> None \<or> p_CredentialID p = [] \<or> \<not> isv_Dependency svc \<or> ttl < seconds 60 \<or> ttl > seconds 3600
            then (Err ErrForbidden, db)
          else case GetWorkflowTask (isv_Task svc) env (id_task seen) tid of
            Inl e \<Rightarrow> (Err e, db)
          | Inr task \<Rightarrow>
              if \<not> HasRole p (tk_ProjectID task) ''development'' then (Err ErrForbidden, db)
              else let token = RawURLEncoding secret in
                case IssueTaskDelegation (sub_env 1 env) db (requested_delegation env p task ttl) (Sum256 token) of
                  (Inl e, db') \<Rightarrow> (Err e, db') | (Inr d, db') \<Rightarrow> (Ok (d, token), db'))"

definition RevokeTaskCredential :: "call_env \<Rightarrow> identity_db \<Rightarrow> string \<Rightarrow> task_delegation result \<times> identity_db" where
  "RevokeTaskCredential env db did =
     (case RequirePrincipal (env_ctx env) of
        Inl e \<Rightarrow> (Err e, db)
      | Inr p \<Rightarrow> if \<not> p_Human p \<or> p_Delegation p \<noteq> None then (Err ErrForbidden, db) else RevokeTaskDelegation (sub_env 1 env) db did (p_ID p))"

text \<open>The tools a delegate may call, and on what.\<close>

definition project_tools :: "string list" where
  "project_tools = [''knowledge_search'', ''repository_graph_get'', ''repository_relation_search'', ''code_symbol_search'', ''code_graph_get'',
     ''graph_context_search'', ''context_definition_search'', ''platform_metric_query'', ''product_context_search'', ''product_record_get'',
     ''product_source_list'', ''product_record_put'', ''product_intent_context'']"

definition delegated_events :: "string list" where
  "delegated_events = [''LOCAL_REVISION_RECORDED'', ''VALIDATION_PASSED'', ''VALIDATION_FAILED'', ''VALIDATED_REUSE_COMPLETED'', ''RAG_READBACK_VERIFIED'']"

definition delegated_tool_ok :: "identity_db \<Rightarrow> principal \<Rightarrow> task_delegation \<Rightarrow> string \<Rightarrow> delegated_fields \<Rightarrow> bool" where
  "delegated_tool_ok db p d name i =
     (if name \<in> set project_tools then df_ProjectID i = del_ProjectID d
      else if name = ''knowledge_get'' then df_ID i \<noteq> []
      else if name = ''workflow_run_get'' \<or> name = ''workflow_trace_get'' then df_WorkflowID i = del_WorkflowID d
      else if name = ''workflow_task_get'' \<or> name = ''workflow_task_context_record'' then df_TaskID i = del_TaskID d
      else if name = ''generation_capture'' then df_ProjectID i = del_ProjectID d \<and> df_WorkflowID i = del_WorkflowID d \<and> df_Provider i = ''ollama''
      else if name = ''review_record'' then
        df_Provider i = ''ollama'' \<and> df_WorkflowID i = del_WorkflowID d
        \<and> (case getWorkflowTask (id_task db) (del_TaskID d) of Inl _ \<Rightarrow> False | Inr task \<Rightarrow> tk_CandidateID task \<noteq> [] \<and> df_KnowledgeID i = tk_CandidateID task)
      else if name = ''workflow_task_transition'' then
        df_TaskID i = del_TaskID d \<and> df_Provider i = ''ollama''
        \<and> (df_Event i = ''LOCAL_RESULT_RECORDED'' \<and> OwnsDelegatedCandidate db (p_ID p) (del_TaskID d) (df_CandidateID i)
           \<or> df_Event i \<in> set delegated_events)
      else False)"

definition checkDelegatedTool ::
  "identity_service \<Rightarrow> call_env \<Rightarrow> identity_db \<Rightarrow> principal option \<Rightarrow> string \<Rightarrow> string \<Rightarrow> operation_scope \<Rightarrow> go_error option" where
  "checkDelegatedTool svc env db ctx name inp scope =
     (case PrincipalFromContext ctx of
        None \<Rightarrow> None
      | Some p \<Rightarrow>
          (case p_Delegation p of
             None \<Rightarrow> None
           | Some d \<Rightarrow>
               if p_Human p \<or> del_RevokedAt d \<noteq> None \<or> \<not> env_clock env 0 < del_ExpiresAt d \<or> os_ProjectID scope \<noteq> del_ProjectID d then Some ErrForbidden
               else (case isv_DecodeDelegated svc inp of
                   None \<Rightarrow> Some ErrForbidden
                 | Some i \<Rightarrow>
                     if df_ProjectID i \<noteq> [] \<and> df_ProjectID i \<noteq> del_ProjectID d \<or> df_TaskID i \<noteq> [] \<and> df_TaskID i \<noteq> del_TaskID d
                        \<or> df_WorkflowID i \<noteq> [] \<and> df_WorkflowID i \<noteq> del_WorkflowID d \<or> df_WorkflowStepID i \<noteq> []
                       then Some ErrForbidden
                     else if delegated_tool_ok db p d name i then None else Some ErrForbidden)))"

text \<open>The scope of a tool call: what the named knowledge, task and workflow belong to.\<close>

definition knowledge_scope :: "identity_db \<Rightarrow> string \<Rightarrow> operation_scope \<Rightarrow> operation_scope result" where
  "knowledge_scope db kid s =
     (if kid = [] then Ok s
      else case GetKnowledge (td_k (id_task db)) kid of
        Inl e \<Rightarrow> Err e | Inr item \<Rightarrow> Ok (s\<lparr>os_ProjectID := ki_ProjectID item, os_WorkflowID := ki_WorkflowID item\<rparr>))"

definition task_scope :: "identity_db \<Rightarrow> operation_scope \<Rightarrow> operation_scope result" where
  "task_scope db s =
     (if os_TaskID s = [] then Ok s
      else case getWorkflowTask (id_task db) (os_TaskID s) of
        Inl e \<Rightarrow> Err e | Inr task \<Rightarrow> Ok (s\<lparr>os_ProjectID := tk_ProjectID task, os_WorkflowID := tk_WorkflowID task\<rparr>))"

definition workflow_scope :: "identity_db \<Rightarrow> operation_scope \<Rightarrow> operation_scope result" where
  "workflow_scope db s =
     (if os_WorkflowID s = [] then Ok s
      else case getWorkflowByID (td_wf (id_task db)) (os_WorkflowID s) of
        Inl e \<Rightarrow> Err e | Inr run \<Rightarrow> Ok (s\<lparr>os_ProjectID := wf_ProjectID run\<rparr>))"

definition resolve_scope :: "identity_db \<Rightarrow> string \<Rightarrow> tool_fields \<Rightarrow> operation_scope result" where
  "resolve_scope db name f =
     (case knowledge_scope db (if tf_ID f \<noteq> [] \<and> name = ''knowledge_get'' then tf_ID f else tf_KnowledgeID f)
         \<lparr>os_ProjectID = tf_ProjectID f, os_WorkflowID = tf_WorkflowID f, os_TaskID = tf_TaskID f, os_ExecutionID = tf_RunID f,
          os_ExecutionStepID = tf_StepID f\<rparr> of
        Inl e \<Rightarrow> Err e
      | Inr s1 \<Rightarrow> (case task_scope db s1 of
          Inl e \<Rightarrow> Err e
        | Inr s2 \<Rightarrow> (case workflow_scope db s2 of
            Inl e \<Rightarrow> Err e
          | Inr s3 \<Rightarrow> Ok (s3\<lparr>os_ProjectID := defaultString (os_ProjectID s3) ''system''\<rparr>))))"

text \<open>A delegated caller is authenticated again before anything else; a refusal is answered with \<open>ErrForbidden\<close>.\<close>

definition current_caller :: "call_env \<Rightarrow> identity_db \<Rightarrow> principal option result" where
  "current_caller env db =
     (case PrincipalFromContext (env_ctx env) of
        None \<Rightarrow> Ok (env_ctx env)
      | Some p \<Rightarrow>
          if p_Delegation p = None then Ok (env_ctx env)
          else (case RecheckTaskDelegation (sub_env 1 env) db p of Inl _ \<Rightarrow> Err ErrForbidden | Inr current \<Rightarrow> Ok (Some current)))"

definition attributed :: "principal option \<Rightarrow> operation_scope \<Rightarrow> operation_scope" where
  "attributed ctx s =
     (case PrincipalFromContext ctx of
        None \<Rightarrow> s
      | Some p \<Rightarrow> (case p_Delegation p of None \<Rightarrow> s | Some d \<Rightarrow> s\<lparr>os_TaskID := del_TaskID d, os_WorkflowID := del_WorkflowID d\<rparr>))"

text \<open>What \<open>BeginToolOperation\<close> hands on: the caller the handler runs as and the scope the operation is recorded under.\<close>

definition BeginToolOperation ::
  "identity_service \<Rightarrow> call_env \<Rightarrow> identity_db \<Rightarrow> string \<Rightarrow> string \<Rightarrow> (principal option \<times> operation_scope) result" where
  "BeginToolOperation svc env db name inp =
     (case current_caller env db of
        Inl e \<Rightarrow> Err e
      | Inr ctx \<Rightarrow>
          (case isv_DecodeTool svc inp of
             None \<Rightarrow> Err (ErrMessage ''json: invalid tool input'')
           | Some f \<Rightarrow>
               (case resolve_scope db name f of
                  Inl e \<Rightarrow> Err e
                | Inr scope \<Rightarrow>
                    (case checkDelegatedTool svc env db ctx name inp scope of
                       Some _ \<Rightarrow> Err ErrForbidden
                     | None \<Rightarrow> Ok (ctx, attributed ctx scope)))))"

end
