(* ===== verification/DelegationProps.thy ===== *)
theory DelegationProps
  imports Delegation
begin

text \<open>
  What a delegated session can do, along every sequence of calls: it is a workload confined to the development role on one project and one open
  task, it lives no longer than its delegator's authority, a revocation is final, and a credential that was issued works.
\<close>

section \<open>Authentication\<close>

lemma auth_rows_iff:
  "(p, b, c) \<in> set (auth_rows env db hash) \<longleftrightarrow>
     c \<in> set (id_credentials db) \<and> cred_Token c = hash \<and> token_live (env_db_now env) c \<and> p \<in> set (id_principals db) \<and> pr_ID p = cred_Principal c
     \<and> pr_Active p \<and> b \<in> set (id_roles db) \<and> rb_Principal b = pr_ID p \<and> role_live (env_db_now env) b"
  by (auto simp: auth_rows_def)

lemma scan_rows:
  "p_Delegation (fold (scan_row db) rows q) = p_Delegation q
   \<and> (p_ID q \<noteq> [] \<longrightarrow> p_ID (fold (scan_row db) rows q) = p_ID q \<and> p_Human (fold (scan_row db) rows q) = p_Human q)
   \<and> (p_ID (fold (scan_row db) rows q) \<noteq> p_ID q
        \<longrightarrow> (\<exists>p b c. (p, b, c) \<in> set rows \<and> p_ID (fold (scan_row db) rows q) = pr_ID p \<and> p_Human (fold (scan_row db) rows q) = (pr_Kind p = ''human'')))"
proof (induction rows arbitrary: q)
  case (Cons row rows)
  obtain p b c where row: "row = (p, b, c)" using prod_cases3 by blast
  let ?q = "scan_row db row q"
  have q: "p_Delegation ?q = p_Delegation q" "p_ID ?q = (if p_ID q = [] then pr_ID p else p_ID q)"
    "p_Human ?q = (if p_ID q = [] then pr_Kind p = ''human'' else p_Human q)"
    by (simp_all add: scan_row_def row)
  show ?case
  proof (cases "p_ID q = [] \<and> pr_ID p \<noteq> []")
    case True
    then have "p_ID (fold (scan_row db) rows ?q) = pr_ID p" "p_Human (fold (scan_row db) rows ?q) = (pr_Kind p = ''human'')"
      using Cons.IH [of ?q] q(2,3) by simp_all
    then show ?thesis using Cons.IH [of ?q] q(1) True row by auto
  next
    case False
    then have "p_ID ?q = p_ID q" using q(2) by auto
    then show ?thesis using Cons.IH [of ?q] q by auto
  qed
qed simp

text \<open>An authenticated principal holds a live credential with the presented token, and a delegate is constrained.\<close>

lemma AuthenticatePrincipal_Ok:
  assumes "AuthenticatePrincipal env db hash = Inr q"
  obtains c p where "c \<in> set (id_credentials db)" "cred_Token c = hash" "token_live (env_db_now env) c" "p \<in> set (id_principals db)"
    "pr_ID p = cred_Principal c" "pr_Active p" "p_ID q = pr_ID p" "p_ID q \<noteq> []"
    "find_row del_PrincipalID (p_ID q) (id_delegations db) = p_Delegation q"
    "\<And>d. p_Delegation q = Some d \<Longrightarrow> delegation_active (sub_env 1 env) db d \<and> \<not> p_Human q \<and> del_RevokedAt d = None
       \<and> env_clock env 16 < del_ExpiresAt d \<and> p_RoleBindings q = [(del_ProjectID d, [''development''])]"
proof -
  define z where "z = fold (scan_row db) (auth_rows env db hash) zero_principal"
  have z: "p_ID z \<noteq> []" and con: "constrainDelegatedPrincipal (sub_env 1 env) db z = Inr q"
    using assms by (auto simp: AuthenticatePrincipal_def Let_def z_def split: if_split_asm)
  have none: "p_Delegation z = None" using scan_rows [of db "auth_rows env db hash" zero_principal] by (simp add: z_def zero_principal_def)
  have "p_ID z \<noteq> p_ID zero_principal" using z by (simp add: zero_principal_def)
  then obtain p b c where row: "(p, b, c) \<in> set (auth_rows env db hash)" "p_ID z = pr_ID p"
    using scan_rows [of db "auth_rows env db hash" zero_principal] unfolding z_def by blast
  note r = row(1) [unfolded auth_rows_iff]
  have id: "p_ID q = p_ID z" and find: "find_row del_PrincipalID (p_ID z) (id_delegations db) = p_Delegation q"
    using con none by (auto simp: constrainDelegatedPrincipal_def split: option.split_asm if_split_asm)
  have clock: "env_clock (sub_env (Suc 0) env) 0 = env_clock env 16" by (simp add: sub_env_def)
  show ?thesis
    by (rule that [of c p]) (use r row(2) z id find con none in
      \<open>auto simp: constrainDelegatedPrincipal_def clock split: option.split_asm if_split_asm\<close>)
qed

section \<open>The identity store as a transition system\<close>

text \<open>What operators may do beside the calls: deactivate principals, revoke or shorten credentials, change roles, and anything to tasks.\<close>

definition token_later :: "token_row \<Rightarrow> token_row \<Rightarrow> bool" where
  "token_later c c' \<longleftrightarrow> cred_ID c' = cred_ID c \<and> cred_Principal c' = cred_Principal c \<and> cred_Token c' = cred_Token c
     \<and> (cred_RevokedAt c \<noteq> None \<longrightarrow> cred_RevokedAt c' = cred_RevokedAt c)"

definition admin_change :: "identity_db \<Rightarrow> identity_db \<Rightarrow> bool" where
  "admin_change db db' \<longleftrightarrow> list_all2 (\<lambda>p p'. pr_ID p' = pr_ID p \<and> pr_Kind p' = pr_Kind p) (id_principals db) (id_principals db')
     \<and> list_all2 token_later (id_credentials db) (id_credentials db') \<and> id_delegations db' = id_delegations db"

inductive id_step :: "identity_db \<Rightarrow> identity_db \<Rightarrow> bool" where
  bootstrap: "BootstrapPrincipals env db bs = (ru, db') \<Longrightarrow> id_step db db'"
| issue: "IssueTaskCredential svc env secret seen db tid ttl = (ri, db') \<Longrightarrow> id_step db db'"
| revoke: "RevokeTaskCredential env db did = (rd, db') \<Longrightarrow> id_step db db'"
| elsewhere: "admin_change db db' \<Longrightarrow> id_step db db'"

text \<open>The keys of the tables, and what later states keep.\<close>

definition id_keys :: "identity_db \<Rightarrow> bool" where
  "id_keys db \<longleftrightarrow> distinct (map pr_ID (id_principals db)) \<and> distinct (map cred_ID (id_credentials db)) \<and> distinct (map cred_Token (id_credentials db))
     \<and> distinct (map del_ID (id_delegations db)) \<and> distinct (map del_PrincipalID (id_delegations db))"

text \<open>Any population of principals and credentials before the first delegation.\<close>

definition id_start :: "identity_db \<Rightarrow> bool" where
  "id_start db \<longleftrightarrow> id_keys db \<and> id_delegations db = []"

definition delegation_later :: "task_delegation \<Rightarrow> task_delegation \<Rightarrow> bool" where
  "delegation_later d d' \<longleftrightarrow> (\<exists>r. d' = d\<lparr>del_RevokedAt := r\<rparr>) \<and> (del_RevokedAt d \<noteq> None \<longrightarrow> d' = d)"

definition id_later :: "identity_db \<Rightarrow> identity_db \<Rightarrow> bool" where
  "id_later db db' \<longleftrightarrow>
     (\<forall>p \<in> set (id_principals db). \<exists>p' \<in> set (id_principals db'). pr_ID p' = pr_ID p \<and> pr_Kind p' = pr_Kind p)
     \<and> (\<forall>c \<in> set (id_credentials db). \<exists>c' \<in> set (id_credentials db'). token_later c c')
     \<and> (\<forall>d \<in> set (id_delegations db). \<exists>d' \<in> set (id_delegations db'). delegation_later d d')"

lemma token_later_refl [simp]: "token_later c c"
  by (simp add: token_later_def)

lemma token_later_trans: "token_later a b \<Longrightarrow> token_later b c \<Longrightarrow> token_later a c"
  by (auto simp: token_later_def)

lemma delegation_later_refl [simp]: "delegation_later d d"
  unfolding delegation_later_def by (metis task_delegation.surjective task_delegation.update_convs(10))

lemma delegation_later_trans: "delegation_later a b \<Longrightarrow> delegation_later b c \<Longrightarrow> delegation_later a c"
  unfolding delegation_later_def by auto

lemma id_later_refl: "id_later db db"
  unfolding id_later_def using token_later_refl delegation_later_refl by blast

lemma id_later_trans:
  assumes "id_later a b" and "id_later b c"
  shows "id_later a c"
proof -
  have chain: "\<forall>x \<in> A. \<exists>z \<in> C. R x z" if "\<forall>x \<in> A. \<exists>y \<in> B. R x y" "\<forall>y \<in> B. \<exists>z \<in> C. R y z" "\<And>x y z. R x y \<Longrightarrow> R y z \<Longrightarrow> R x z"
    for A :: "'x set" and B C and R :: "'x \<Rightarrow> 'x \<Rightarrow> bool"
    using that by blast
  show ?thesis
    using assms unfolding id_later_def
    by (elim conjE, intro conjI) (erule (1) chain, simp, erule (1) chain, erule (1) token_later_trans, erule (1) chain, erule (1) delegation_later_trans)
qed

section \<open>What the calls do to the tables\<close>

lemma same_delegations: "d \<in> set ds \<Longrightarrow> \<exists>d' \<in> set ds. delegation_later d d'"
  by (rule bexI [of _ d]) simp_all

lemma list_all2_map_eq: "list_all2 R xs ys \<Longrightarrow> (\<And>x y. R x y \<Longrightarrow> f y = f x) \<Longrightarrow> map f ys = map f xs"
  by (induction rule: list_all2_induct) auto

lemma list_all2_ex: "list_all2 R xs ys \<Longrightarrow> \<forall>x \<in> set xs. \<exists>y \<in> set ys. R x y"
  by (induction rule: list_all2_induct) auto

lemma admin_change_ok: "admin_change db db' \<Longrightarrow> id_later db db' \<and> (id_keys db \<longrightarrow> id_keys db') \<and> id_delegations db' = id_delegations db"
proof -
  assume a: "admin_change db db'"
  have "map pr_ID (id_principals db') = map pr_ID (id_principals db)" "map cred_ID (id_credentials db') = map cred_ID (id_credentials db)"
    "map cred_Token (id_credentials db') = map cred_Token (id_credentials db)"
    using a unfolding admin_change_def by (auto intro!: list_all2_map_eq simp: token_later_def elim: list_all2_mono)
  then have "id_keys db \<longrightarrow> id_keys db'" using a unfolding id_keys_def admin_change_def by simp
  moreover have "id_later db db'"
    unfolding id_later_def
  proof (intro conjI)
    show "\<forall>d \<in> set (id_delegations db). \<exists>d' \<in> set (id_delegations db'). delegation_later d d'"
      using a unfolding admin_change_def by (auto intro: same_delegations)
  qed (rule list_all2_ex, use a in \<open>simp add: admin_change_def\<close>)+
  ultimately show ?thesis using a by (simp add: admin_change_def)
qed

text \<open>A bootstrap adds fresh principals and credentials and revokes; an issue adds one delegate; a revocation writes over one row.\<close>

definition grown :: "identity_db \<Rightarrow> identity_db \<Rightarrow> bool" where
  "grown db db' \<longleftrightarrow> id_later db db' \<and> (id_keys db \<longrightarrow> id_keys db') \<and> id_delegations db' = id_delegations db"

lemma grown_refl: "grown db db"
  by (simp add: grown_def id_later_refl)

lemma grown_trans: "grown a b \<Longrightarrow> grown b c \<Longrightarrow> grown a c"
  unfolding grown_def using id_later_trans by auto

lemma grownI:
  assumes "set (id_principals db) \<subseteq> set (id_principals db')" and "\<And>c. c \<in> set (id_credentials db) \<Longrightarrow> \<exists>c' \<in> set (id_credentials db'). token_later c c'"
    and "id_delegations db' = id_delegations db" and "id_keys db \<Longrightarrow> id_keys db'"
  shows "grown db db'"
proof -
  have "\<forall>p \<in> set (id_principals db). \<exists>p' \<in> set (id_principals db'). pr_ID p' = pr_ID p \<and> pr_Kind p' = pr_Kind p" using assms(1) by blast
  moreover have "\<forall>d \<in> set (id_delegations db). \<exists>d' \<in> set (id_delegations db'). delegation_later d d'"
    unfolding assms(3) by (intro ballI same_delegations)
  ultimately show ?thesis unfolding grown_def id_later_def using assms(2-4) by simp
qed

lemma same_tokens: "c \<in> set cs \<Longrightarrow> \<exists>c' \<in> set cs. token_later c c'"
  using token_later_refl by blast

lemma upsert_principal_grown: "grown db (upsert_principal db b)"
proof (cases "find_row pr_ID (pb_ID b) (id_principals db)")
  case None
  then have "pb_ID b \<notin> pr_ID ` set (id_principals db)" by (simp add: find_row_None)
  then show ?thesis by (intro grownI) (auto simp: upsert_principal_def None id_keys_def intro: same_tokens)
next
  case (Some p)
  then show ?thesis by (intro grownI) (auto simp: upsert_principal_def id_keys_def intro: same_tokens)
qed

lemma rotated_later: "token_later c (rotated env b c)"
  by (simp add: rotated_def token_later_def split: option.split)

lemma rotated_grown: "grown db (db\<lparr>id_credentials := map (rotated env b) (id_credentials db)\<rparr>)"
proof (rule grownI)
  have "map cred_ID (map (rotated env b) cs) = map cred_ID cs" "map cred_Token (map (rotated env b) cs) = map cred_Token cs" for cs
    using rotated_later [of _ env b] by (simp_all add: token_later_def)
  then show "id_keys db \<Longrightarrow> id_keys (db\<lparr>id_credentials := map (rotated env b) (id_credentials db)\<rparr>)"
    unfolding id_keys_def by (simp del: map_map)
  show "c \<in> set (id_credentials db) \<Longrightarrow> \<exists>c' \<in> set (id_credentials (db\<lparr>id_credentials := map (rotated env b) (id_credentials db)\<rparr>)). token_later c c'" for c
    using rotated_later [of c env b] by auto
qed simp_all

lemma bootstrap_credential_grown: "bootstrap_credential env k db b = Inr db' \<Longrightarrow> grown db db'"
  by (rule grownI) (auto simp: bootstrap_credential_def id_keys_def split: if_split_asm option.split_asm intro: same_tokens dest: find_row_None [THEN iffD1])

lemma set_roles_grown: "grown db (set_roles rs db)"
  by (rule grownI) (auto simp: id_keys_def intro: same_tokens)

lemma bootstrap_one_grown:
  assumes "bootstrap_one env k db b = Inr db'"
  shows "grown db db'"
proof -
  let ?db1 = "upsert_principal db b"
  obtain db2 rs where "bootstrap_credential env k (?db1\<lparr>id_credentials := map (rotated env b) (id_credentials ?db1)\<rparr>) b = Inr db2" "db' = set_roles rs db2"
    using assms by (auto simp: bootstrap_one_def Let_def split: if_split_asm sum.split_asm)
  then show ?thesis
    by (auto intro: grown_trans [OF grown_trans [OF grown_trans [OF upsert_principal_grown rotated_grown] bootstrap_credential_grown] set_roles_grown])
qed

lemma bootstrap_all_grown: "bootstrap_all env k db bs = Inr db' \<Longrightarrow> grown db db'"
proof (induction bs arbitrary: k db)
  case (Cons b bs)
  then show ?case by (auto split: sum.split_asm intro: grown_trans bootstrap_one_grown)
qed (simp add: grown_refl)

lemma BootstrapPrincipals_grown: "BootstrapPrincipals env db bs = (r, db') \<Longrightarrow> grown db db'"
  by (auto simp: BootstrapPrincipals_def grown_refl split: sum.split_asm dest: bootstrap_all_grown)

text \<open>What the table promises of a delegation: a workload acts for a human, for at most an hour.\<close>

definition delegation_ok :: "identity_db \<Rightarrow> task_delegation \<Rightarrow> bool" where
  "delegation_ok db d \<longleftrightarrow> (\<exists>p \<in> set (id_principals db). pr_ID p = del_PrincipalID d \<and> pr_Kind p = ''workload'')
     \<and> (\<exists>p \<in> set (id_principals db). pr_ID p = del_DelegatedBy d \<and> pr_Kind p = ''human'')
     \<and> del_CreatedAt d < del_ExpiresAt d \<and> del_ExpiresAt d \<le> del_CreatedAt d + seconds 3600"

lemma delegation_ok_later: "delegation_ok db d \<Longrightarrow> id_later db db' \<Longrightarrow> delegation_later d d' \<Longrightarrow> delegation_ok db' d'"
proof -
  assume ok: "delegation_ok db d" and l: "id_later db db'" and d: "delegation_later d d'"
  have keep: "\<exists>p' \<in> set (id_principals db'). pr_ID p' = i \<and> pr_Kind p' = k" if "\<exists>p \<in> set (id_principals db). pr_ID p = i \<and> pr_Kind p = k" for i k
    using l that unfolding id_later_def by metis
  have "del_PrincipalID d' = del_PrincipalID d" "del_DelegatedBy d' = del_DelegatedBy d" "del_CreatedAt d' = del_CreatedAt d" "del_ExpiresAt d' = del_ExpiresAt d"
    using d by (auto simp: delegation_later_def)
  then show ?thesis using ok keep unfolding delegation_ok_def by simp
qed

lemma delegator_human:
  assumes "delegator_of env db actor project c"
  shows "\<exists>p \<in> set (id_principals db). pr_ID p = actor \<and> pr_Kind p = ''human''" "cred_Principal c = actor" "token_live (env_db_now env) c"
  using assms unfolding delegator_of_def list_ex_iff by auto

lemma clamped_simps [simp]:
  "del_PrincipalID (clamped u d) = del_PrincipalID d" "del_DelegatedBy (clamped u d) = del_DelegatedBy d" "del_CreatedAt (clamped u d) = del_CreatedAt d"
  "del_ProjectID (clamped u d) = del_ProjectID d" "del_TaskID (clamped u d) = del_TaskID d" "del_WorkflowID (clamped u d) = del_WorkflowID d"
  "del_ParentCredentialID (clamped u d) = del_ParentCredentialID d" "del_ID (clamped u d) = del_ID d" "del_RevokedAt (clamped u d) = del_RevokedAt d"
  "del_ExpiresAt (clamped u d) \<le> del_ExpiresAt d"
  by (simp_all add: clamped_def split: option.split)

lemma IssueTaskDelegation_effect:
  assumes "IssueTaskDelegation env db d hash = (r, db')"
  shows "(\<exists>e. r = Inl e) \<and> db' = db
    \<or> (\<exists>c d'. r = Inr d' \<and> c \<in> set (id_credentials db) \<and> cred_ID c = del_ParentCredentialID d \<and> d' = clamped (cred_ExpiresAt c) d
         \<and> delegator_of env db (del_DelegatedBy d) (del_ProjectID d) c \<and> task_open db (del_TaskID d) (del_WorkflowID d) (del_ProjectID d)
         \<and> length hash = 32 \<and> delegation_fits env db d' hash \<and> db' = delegated env db d' hash)"
  using assms unfolding IssueTaskDelegation_def Let_def
  by (auto split: if_split_asm option.split_asm dest!: find_SomeD_mem)

lemma delegated_grows:
  assumes "delegation_fits env db d hash"
  shows "id_later db (delegated env db d hash)" "id_keys db \<Longrightarrow> id_keys (delegated env db d hash)"
    "set (id_delegations (delegated env db d hash)) = insert (stored_delegation d) (set (id_delegations db))"
proof -
  show "id_later db (delegated env db d hash)"
    unfolding id_later_def using same_tokens same_delegations by (auto simp: delegated_def)
  show "id_keys db \<Longrightarrow> id_keys (delegated env db d hash)"
    using assms unfolding id_keys_def delegation_fits_def find_row_None by (simp add: delegated_def stored_delegation_def image_iff)
qed (simp add: delegated_def)

lemma IssueTaskCredential_effect:
  assumes "IssueTaskCredential svc env secret seen db tid ttl = (r, db')"
  shows "(\<exists>e. r = Inl e) \<and> db' = db
    \<or> (\<exists>p task d. r = Inr (d, RawURLEncoding secret) \<and> RequirePrincipal (env_ctx env) = Inr p \<and> p_Human p \<and> p_Delegation p = None
         \<and> IssueTaskDelegation (sub_env 1 env) db (requested_delegation env p task ttl) (Sum256 (RawURLEncoding secret)) = (Inr d, db'))"
  using assms unfolding IssueTaskCredential_def Let_def
  by (auto split: sum.split_asm if_split_asm prod.split_asm dest: IssueTaskDelegation_effect)

lemma RevokeTaskDelegation_effect:
  assumes "RevokeTaskDelegation env db did actor = (r, db')"
  shows "db' = db \<or> (\<exists>d \<in> set (id_delegations db). del_ID d = did \<and> del_DelegatedBy d = actor \<and> del_RevokedAt d = None
     \<and> db' = db\<lparr>id_delegations := put_row del_ID (d\<lparr>del_RevokedAt := Some (env_db_now env)\<rparr>) (id_delegations db)\<rparr>)"
  using assms unfolding RevokeTaskDelegation_def Let_def
  by (auto split: if_split_asm option.split_asm dest!: find_SomeD_mem)

lemma put_row_unique:
  assumes "distinct (map key rows)" and "r \<in> set rows" and "key r' = key r" and "x \<in> set rows"
  shows "(if x = r then r' else x) \<in> set (put_row key r' rows)"
  using assms by (auto simp: put_row_def image_iff distinct_map inj_on_def)

lemma id_step_grows:
  assumes "id_step db db'" and keys: "id_keys db"
  shows "id_later db db' \<and> id_keys db'
    \<and> (\<forall>d' \<in> set (id_delegations db'). (\<exists>d \<in> set (id_delegations db). delegation_later d d') \<or> delegation_ok db' d')"
  using assms(1)
proof cases
  case (bootstrap env bs ru)
  then have "grown db db'" by (rule BootstrapPrincipals_grown)
  then show ?thesis using keys unfolding grown_def by (metis delegation_later_refl)
next
  case (elsewhere)
  then show ?thesis using admin_change_ok keys by (metis delegation_later_refl)
next
  case (revoke env did rd)
  then obtain env' actor r where "db' = db \<or> RevokeTaskDelegation env' db did actor = (r, db')"
    unfolding RevokeTaskCredential_def by (auto split: sum.split_asm if_split_asm)
  then consider "db' = db" | d now where "d \<in> set (id_delegations db)" "del_RevokedAt d = None"
      "db' = db\<lparr>id_delegations := put_row del_ID (d\<lparr>del_RevokedAt := Some now\<rparr>) (id_delegations db)\<rparr>"
    using RevokeTaskDelegation_effect by blast
  then show ?thesis
  proof cases
    case 1
    then show ?thesis using keys id_later_refl by (metis delegation_later_refl)
  next
    case (2 d now)
    let ?d = "d\<lparr>del_RevokedAt := Some now\<rparr>"
    have ids: "distinct (map del_ID (id_delegations db))" using keys by (simp add: id_keys_def)
    have new: "delegation_later d ?d" using 2(2) unfolding delegation_later_def by auto
    have "\<exists>x' \<in> set (id_delegations db'). delegation_later x x'" if "x \<in> set (id_delegations db)" for x
      using put_row_unique [OF ids 2(1), of ?d x] that new 2(3) by (cases "x = d") (auto intro: bexI [of _ x])
    moreover have "\<exists>x \<in> set (id_delegations db). delegation_later x x'" if "x' \<in> set (id_delegations db')" for x'
      using that 2(1) new unfolding 2(3) by (auto simp: put_row_def split: if_split_asm intro: bexI [of _ x'])
    moreover have "map del_PrincipalID (put_row del_ID ?d (id_delegations db)) = map del_PrincipalID (id_delegations db)"
      using ids 2(1) by (auto simp: put_row_def distinct_map inj_on_def)
    ultimately show ?thesis using keys same_tokens unfolding 2(3) id_later_def id_keys_def by auto
  qed
next
  case (issue svc env secret seen tid ttl ri)
  from IssueTaskCredential_effect [OF issue] show ?thesis
  proof (elim disjE exE conjE)
    assume "db' = db"
    then show ?thesis using keys id_later_refl by (metis delegation_later_refl)
  next
    fix p task d' assume iss: "IssueTaskDelegation (sub_env 1 env) db (requested_delegation env p task ttl) (Sum256 (RawURLEncoding secret)) = (Inr d', db')"
    let ?d = "requested_delegation env p task ttl"
    from IssueTaskDelegation_effect [OF iss] obtain c where c: "delegator_of (sub_env 1 env) db (del_DelegatedBy ?d) (del_ProjectID ?d) c"
      "delegation_fits (sub_env 1 env) db d' (Sum256 (RawURLEncoding secret))" "db' = delegated (sub_env 1 env) db d' (Sum256 (RawURLEncoding secret))"
      "del_DelegatedBy d' = del_DelegatedBy ?d"
      by auto
    note g = delegated_grows [OF c(2), folded c(3)]
    have "\<exists>p \<in> set (id_principals db'). pr_ID p = del_DelegatedBy ?d \<and> pr_Kind p = ''human''"
      using delegator_human(1) [OF c(1)] unfolding c(3) delegated_def by auto
    then have "delegation_ok db' (stored_delegation d')"
      using c(2,4) unfolding delegation_ok_def delegation_fits_def c(3) by (simp add: delegated_def stored_delegation_def)
    moreover have "x = stored_delegation d' \<or> (\<exists>y \<in> set (id_delegations db). delegation_later y x)" if "x \<in> set (id_delegations db')" for x
      using g(3) that by (auto intro: bexI [of _ x])
    ultimately show ?thesis using g(1) g(2) [OF keys] by blast
  qed
qed

definition id_inv :: "identity_db \<Rightarrow> bool" where
  "id_inv db \<longleftrightarrow> id_keys db \<and> (\<forall>d \<in> set (id_delegations db). delegation_ok db d)"

interpretation id: history_system id_start id_step id_inv id_later
proof
  fix db assume "id_start db"
  then show "id_inv db" by (simp add: id_start_def id_inv_def)
next
  fix db db' assume inv: "id_inv db" and step: "id_step db db'"
  have "id_keys db" using inv by (simp add: id_inv_def)
  note g = id_step_grows [OF step this]
  have "delegation_ok db' d'" if "d' \<in> set (id_delegations db')" for d'
    using g that inv delegation_ok_later unfolding id_inv_def by metis
  then show "id_inv db'" using g by (simp add: id_inv_def)
  show "id_later db db'" using g by blast
next
  fix db show "id_later db db" by (rule id_later_refl)
next
  fix a b c assume "id_later a b" "id_later b c"
  then show "id_later a c" by (rule id_later_trans)
qed

lemma reach_id_inv: "reach id_start id_step db \<Longrightarrow> id_keys db \<and> (\<forall>d \<in> set (id_delegations db). delegation_ok db d)"
  using id.reach_inv by (simp add: id_inv_def)

section \<open>Delegated sessions\<close>

lemma token_unique:
  assumes "id_keys db" and "c \<in> set (id_credentials db)" and "c' \<in> set (id_credentials db)" and "cred_Token c' = cred_Token c"
  shows "c' = c"
  using assms by (auto simp: id_keys_def distinct_map dest: inj_onD)

lemma credential_unique:
  assumes "id_keys db" and "c \<in> set (id_credentials db)" and "c' \<in> set (id_credentials db)" and "cred_ID c' = cred_ID c"
  shows "c' = c"
  using assms by (auto simp: id_keys_def distinct_map dest: inj_onD)

text \<open>A delegation is on record for the principal that authenticated under it, then and later.\<close>

lemma delegate_recorded:
  assumes "AuthenticatePrincipal env db hash = Inr p" and "p_Delegation p = Some d" and "id_later db db'" and "id_keys db'"
  shows "\<exists>d' \<in> set (id_delegations db'). delegation_later d d' \<and> del_PrincipalID d' = p_ID p \<and> find_row del_PrincipalID (p_ID p) (id_delegations db') = Some d'"
proof -
  have "find_row del_PrincipalID (p_ID p) (id_delegations db) = Some d" using AuthenticatePrincipal_Ok [OF assms(1)] assms(2) by metis
  then have d: "d \<in> set (id_delegations db)" "del_PrincipalID d = p_ID p" using find_row_SomeD by fast+
  then obtain d' where d': "d' \<in> set (id_delegations db')" "delegation_later d d'" using assms(3) unfolding id_later_def by blast
  then have "del_PrincipalID d' = p_ID p" using d(2) by (auto simp: delegation_later_def)
  moreover have "find_row del_PrincipalID (del_PrincipalID d') (id_delegations db') = Some d'"
    using assms(4) d'(1) by (intro find_row_distinct) (simp_all add: id_keys_def)
  ultimately show ?thesis using d' by auto
qed

lemma RecheckTaskDelegation_Ok:
  assumes "RecheckTaskDelegation env db p = Inr q" and "id_keys db"
  shows "p_ID q = p_ID p \<and> (\<exists>hash. AuthenticatePrincipal env db hash = Inr q)"
proof -
  obtain c where c: "c \<in> set (id_credentials db)" "cred_Principal c = p_ID p" "AuthenticatePrincipal env db (cred_Token c) = Inr q"
    using assms(1) by (auto simp: RecheckTaskDelegation_def split: if_split_asm option.split_asm dest!: find_SomeD_mem)
  obtain c' where "c' \<in> set (id_credentials db)" "cred_Token c' = cred_Token c" "p_ID q = cred_Principal c'"
    using AuthenticatePrincipal_Ok [OF c(3)] by metis
  then show ?thesis using token_unique [OF assms(2) c(1)] c(2,3) by auto
qed

definition delegated_tools :: "string list" where
  "delegated_tools = project_tools @ [''knowledge_get'', ''workflow_run_get'', ''workflow_trace_get'', ''workflow_task_get'',
     ''workflow_task_context_record'', ''generation_capture'', ''review_record'', ''workflow_task_transition'']"

lemma delegated_tool_ok_name: "delegated_tool_ok db p d name i \<Longrightarrow> name \<in> set delegated_tools"
  by (auto simp: delegated_tool_ok_def delegated_tools_def split: if_split_asm)

lemma checkDelegatedTool_None:
  assumes "checkDelegatedTool svc env db (Some p) name inp scope = None" and "p_Delegation p = Some d" and "p_ID p \<noteq> []"
  shows "env_clock env 0 < del_ExpiresAt d" "os_ProjectID scope = del_ProjectID d" "name \<in> set delegated_tools"
  using assms delegated_tool_ok_name
  by (auto simp: checkDelegatedTool_def PrincipalFromContext_def split: if_split_asm option.split_asm)

section \<open>A credential that was issued works\<close>

lemma add_binding_get:
  "set (map_get [] (add_binding project role m) k) = set (map_get [] m k) \<union> (if k = project then {role} else {})"
  by (induction m) (auto split: if_splits)

lemma scan_rows_roles:
  "set (map_get [] (p_RoleBindings (fold (scan_row db) rows q)) k)
     = set (map_get [] (p_RoleBindings q) k) \<union> {rb_Role b | p b c. (p, b, c) \<in> set rows \<and> rb_Project b = k}"
proof (induction rows arbitrary: q)
  case (Cons row rows)
  obtain p b c where row: "row = (p, b, c)" using prod_cases3 by blast
  have "p_RoleBindings (scan_row db row q) = add_binding (rb_Project b) (rb_Role b) (p_RoleBindings q)" by (simp add: scan_row_def row)
  then show ?case by (auto simp: Cons.IH add_binding_get row split: if_splits)
qed simp

lemma scan_rows_credential:
  "p_CredentialID (fold (scan_row db) rows q) = (if rows = [] then p_CredentialID q else cred_ID (snd (snd (last rows))))"
  by (induction rows arbitrary: q) (auto simp: scan_row_def split: prod.splits)

lemma scan_rows_id:
  assumes "\<forall>(p, b, c) \<in> set rows. pr_ID p = i \<and> pr_Kind p = k" and "rows \<noteq> []" and "i \<noteq> []" and "p_ID q = []"
  shows "p_ID (fold (scan_row db) rows q) = i \<and> p_Human (fold (scan_row db) rows q) = (k = ''human'')"
proof -
  obtain p b c rest where rows: "rows = (p, b, c) # rest" using assms(2) by (cases rows) auto
  then have "pr_ID p = i" "pr_Kind p = k" using assms(1) by auto
  then have "p_ID (scan_row db (p, b, c) q) = i" "p_Human (scan_row db (p, b, c) q) = (k = ''human'')" using assms(4) by (simp_all add: scan_row_def)
  then show ?thesis using scan_rows [of db rest "scan_row db (p, b, c) q"] assms(3) by (simp add: rows)
qed

lemma find_row_and: "find_row key k rows = Some r \<Longrightarrow> Q r \<Longrightarrow> find (\<lambda>x. key x = k \<and> Q x) rows = Some r"
  by (induction rows) (auto simp: find_row_def split: if_split_asm)

text \<open>
  When a delegation is in force for a token: it is on record and not revoked, the human behind it is still authorized and the task
  still under way, the delegation has not expired, the token's credential is live, and the delegate is active with a live
  development role for the project.
\<close>

definition in_force :: "call_env \<Rightarrow> identity_db \<Rightarrow> task_delegation \<Rightarrow> string \<Rightarrow> bool" where
  "in_force env db d hash \<longleftrightarrow> stored_delegation d \<in> set (id_delegations db) \<and> delegation_active (sub_env 1 env) db d
     \<and> env_clock env 16 < micros (del_ExpiresAt d)
     \<and> (\<exists>c \<in> set (id_credentials db). cred_Token c = hash \<and> token_live (env_db_now env) c)
     \<and> (\<exists>p \<in> set (id_principals db). pr_ID p = del_PrincipalID d \<and> pr_Active p)
     \<and> (\<exists>b \<in> set (id_roles db). rb_Principal b = del_PrincipalID d \<and> rb_Role b = ''development''
          \<and> rb_Project b \<in> {''*'', del_ProjectID d} \<and> role_live (env_db_now env) b)"

lemma stored_delegation_sel [simp]:
  "del_PrincipalID (stored_delegation d) = del_PrincipalID d" "del_ProjectID (stored_delegation d) = del_ProjectID d"
  "del_RevokedAt (stored_delegation d) = None" "del_ExpiresAt (stored_delegation d) = micros (del_ExpiresAt d)"
  "delegation_active env db (stored_delegation d) = delegation_active env db d"
  by (simp_all add: stored_delegation_def delegation_active_def)

lemma in_force_authenticates:
  assumes keys: "id_keys db" and pid: "del_PrincipalID d \<noteq> []"
    and cred: "c \<in> set (id_credentials db)" "cred_Token c = hash" "cred_Principal c = del_PrincipalID d" "cred_ID c \<noteq> []"
    and kind: "\<forall>p \<in> set (id_principals db). pr_ID p = del_PrincipalID d \<longrightarrow> pr_Kind p = ''workload''"
    and force: "in_force env db d hash"
  shows "\<exists>q. AuthenticatePrincipal env db hash = Inr q \<and> p_ID q = del_PrincipalID d \<and> \<not> p_Human q
    \<and> p_RoleBindings q = [(del_ProjectID d, [''development''])] \<and> p_Delegation q = Some (stored_delegation d)
    \<and> RecheckTaskDelegation env db q = Inr q"
proof -
  let ?rows = "auth_rows env db hash"
  obtain c0 p b where c0: "c0 \<in> set (id_credentials db)" "cred_Token c0 = hash" "token_live (env_db_now env) c0"
    and p: "p \<in> set (id_principals db)" "pr_ID p = del_PrincipalID d" "pr_Active p"
    and b: "b \<in> set (id_roles db)" "rb_Principal b = del_PrincipalID d" "rb_Role b = ''development''"
      "rb_Project b \<in> {''*'', del_ProjectID d}" "role_live (env_db_now env) b"
    using force unfolding in_force_def by blast
  have "c0 = c" using token_unique [OF keys cred(1) c0(1)] c0(2) cred(2) by simp
  then have row: "(p, b, c) \<in> set ?rows" unfolding auth_rows_iff using c0 p b cred by simp
  have each: "c' = c \<and> pr_ID p' = del_PrincipalID d \<and> pr_Kind p' = ''workload''" if "(p', b', c') \<in> set ?rows" for p' b' c'
  proof -
    have r: "c' \<in> set (id_credentials db)" "cred_Token c' = hash" "p' \<in> set (id_principals db)" "pr_ID p' = cred_Principal c'"
      using that unfolding auth_rows_iff by auto
    have "c' = c" using token_unique [OF keys cred(1) r(1)] r(2) cred(2) by simp
    then show ?thesis using r(3,4) cred(3) kind by simp
  qed
  then have all: "\<forall>(p, b, c) \<in> set ?rows. pr_ID p = del_PrincipalID d \<and> pr_Kind p = ''workload''" by blast
  have some: "?rows \<noteq> []" using row by (metis empty_iff empty_set)
  define z where "z = fold (scan_row db) ?rows zero_principal"
  have z: "p_ID z = del_PrincipalID d" "\<not> p_Human z"
    using scan_rows_id [OF all _ pid, of zero_principal db] some unfolding z_def by (simp_all add: zero_principal_def)
  obtain p' b' c' where last: "last ?rows = (p', b', c')" using prod_cases3 by blast
  then have cid: "p_CredentialID z = cred_ID c" using each [of p' b' c'] last_in_set [OF some] some unfolding z_def scan_rows_credential by simp
  have "''development'' \<in> set (map_get [] (p_RoleBindings z) (rb_Project b))"
    unfolding z_def scan_rows_roles using row b(3) by force
  then have role: "HasRole z (del_ProjectID d) ''development''" using b(4) by (auto simp: HasRole_iff)
  have "stored_delegation d \<in> set (id_delegations db)" using force by (simp add: in_force_def)
  then have found: "find_row del_PrincipalID (p_ID z) (id_delegations db) = Some (stored_delegation d)"
    using find_row_distinct [of del_PrincipalID "id_delegations db" "stored_delegation d"] keys z(1) by (simp add: id_keys_def)
  have clock: "env_clock (sub_env (Suc 0) env) 0 = env_clock env 16" by (simp add: sub_env_def)
  have "constrainDelegatedPrincipal (sub_env 1 env) db z
    = Inr (z\<lparr>p_RoleBindings := [(del_ProjectID d, [''development''])], p_Delegation := Some (stored_delegation d)\<rparr>)"
    using found z(2) role force by (simp add: constrainDelegatedPrincipal_def in_force_def clock)
  then have auth: "AuthenticatePrincipal env db hash
    = Inr (z\<lparr>p_RoleBindings := [(del_ProjectID d, [''development''])], p_Delegation := Some (stored_delegation d)\<rparr>)"
    using z pid by (simp add: AuthenticatePrincipal_def Let_def flip: z_def)
  have "find_row cred_ID (cred_ID c) (id_credentials db) = Some c" using keys cred(1) by (intro find_row_distinct) (simp_all add: id_keys_def)
  then have "find (\<lambda>x. cred_ID x = cred_ID c \<and> cred_Principal x = del_PrincipalID d) (id_credentials db) = Some c"
    using find_row_and [of cred_ID "cred_ID c" "id_credentials db" c "\<lambda>c. cred_Principal c = del_PrincipalID d"] cred(3) by simp
  then show ?thesis using auth z cid cred(2,4) by (simp add: RecheckTaskDelegation_def)
qed

lemma authenticated_in_force:
  assumes "id_keys db" and "AuthenticatePrincipal env db hash = Inr q" and "p_Delegation q = Some (stored_delegation d)"
  shows "in_force env db d hash"
proof -
  define z where "z = fold (scan_row db) (auth_rows env db hash) zero_principal"
  have con: "constrainDelegatedPrincipal (sub_env 1 env) db z = Inr q"
    using assms(2) by (auto simp: AuthenticatePrincipal_def Let_def z_def split: if_split_asm)
  obtain c p where c: "c \<in> set (id_credentials db)" "cred_Token c = hash" "token_live (env_db_now env) c"
    and p: "p \<in> set (id_principals db)" "pr_ID p = cred_Principal c" "pr_Active p" "p_ID q = pr_ID p"
    and d: "find_row del_PrincipalID (p_ID q) (id_delegations db) = Some (stored_delegation d)"
    and live: "delegation_active (sub_env 1 env) db (stored_delegation d)" "env_clock env 16 < del_ExpiresAt (stored_delegation d)"
    using AuthenticatePrincipal_Ok [OF assms(2)] assms(3) by metis
  have on_record: "stored_delegation d \<in> set (id_delegations db)" "p_ID q = del_PrincipalID d" using find_row_SomeD [OF d] by auto
  have none: "p_Delegation z = None" using scan_rows [of db "auth_rows env db hash" zero_principal] by (simp add: z_def zero_principal_def)
  have "find_row del_PrincipalID (p_ID z) (id_delegations db) = Some (stored_delegation d)"
    using con none assms(3) by (auto simp: constrainDelegatedPrincipal_def split: option.split_asm if_split_asm)
  then have "HasRole z (del_ProjectID d) ''development''"
    using con by (auto simp: constrainDelegatedPrincipal_def split: if_split_asm)
  then obtain p' b c' where row: "(p', b, c') \<in> set (auth_rows env db hash)" "rb_Role b = ''development''" "rb_Project b \<in> {''*'', del_ProjectID d}"
    unfolding HasRole_iff z_def scan_rows_roles by (auto simp: zero_principal_def)
  have r: "c' \<in> set (id_credentials db)" "cred_Token c' = hash" "pr_ID p' = cred_Principal c'" "b \<in> set (id_roles db)" "rb_Principal b = pr_ID p'"
    "role_live (env_db_now env) b"
    using row(1) unfolding auth_rows_iff by auto
  have "c' = c" using token_unique [OF assms(1) c(1) r(1)] r(2) c(2) by simp
  then have "rb_Principal b = del_PrincipalID d" using r(3,5) p(2,4) on_record(2) by simp
  then show ?thesis using c p on_record live row(2,3) r(4,6) unfolding in_force_def by auto
qed

text \<open>The rows of an issued delegation, right after the issue and in every later state.\<close>

lemma delegated_in_force:
  assumes "env_db_now ienv \<le> env_db_now env" and "env_db_now env < micros (del_ExpiresAt d)" and "env_clock env 16 < micros (del_ExpiresAt d)"
    and "delegation_active (sub_env 1 env) (delegated ienv db d hash) d"
  shows "in_force env (delegated ienv db d hash) d hash"
  using assms by (simp add: in_force_def delegated_def token_live_def credential_live_def credential_row.defs role_live_def)

lemma delegated_rows_later:
  assumes "id_later (delegated ienv db d hash) db'" and "id_keys db'"
  shows "\<exists>c \<in> set (id_credentials db'). cred_Token c = hash \<and> cred_Principal c = del_PrincipalID d \<and> cred_ID c = env_id ienv 0"
    and "\<forall>p \<in> set (id_principals db'). pr_ID p = del_PrincipalID d \<longrightarrow> pr_Kind p = ''workload''"
proof -
  let ?p = "\<lparr>pr_ID = del_PrincipalID d, pr_Active = True, pr_Kind = ''workload''\<rparr>"
  let ?c = "\<lparr>cred_ID = env_id ienv 0, cred_Principal = del_PrincipalID d, cred_RevokedAt = None, cred_ExpiresAt = Some (micros (del_ExpiresAt d)),
    cred_Token = hash, cred_Label = ''task-delegation''\<rparr>"
  have in1: "?c \<in> set (id_credentials (delegated ienv db d hash))" "?p \<in> set (id_principals (delegated ienv db d hash))" by (simp_all add: delegated_def)
  obtain c where c: "c \<in> set (id_credentials db')" "token_later ?c c" using assms(1) in1(1) unfolding id_later_def by blast
  show "\<exists>c \<in> set (id_credentials db'). cred_Token c = hash \<and> cred_Principal c = del_PrincipalID d \<and> cred_ID c = env_id ienv 0"
    by (rule bexI [OF _ c(1)]) (use c(2) in \<open>simp add: token_later_def\<close>)
  obtain p where p: "p \<in> set (id_principals db')" "pr_ID p = pr_ID ?p" "pr_Kind p = pr_Kind ?p" using assms(1) in1(2) unfolding id_later_def by blast
  have "p' = p" if "p' \<in> set (id_principals db')" "pr_ID p' = del_PrincipalID d" for p'
    using assms(2) p(1,2) that unfolding id_keys_def distinct_map by (auto dest: inj_onD [of pr_ID "set (id_principals db')" p' p])
  then show "\<forall>p \<in> set (id_principals db'). pr_ID p = del_PrincipalID d \<longrightarrow> pr_Kind p = ''workload''" using p(3) by auto
qed

lemma delegated_authenticates:
  assumes "id_keys (delegated ienv db d hash)" and "del_PrincipalID d \<noteq> []" and "env_id ienv 0 \<noteq> []" and "env_db_now ienv \<le> env_db_now env"
    and "env_db_now env < micros (del_ExpiresAt d)" "env_clock env 16 < micros (del_ExpiresAt d)"
    and "delegation_active (sub_env 1 env) (delegated ienv db d hash) d"
  shows "\<exists>q. AuthenticatePrincipal env (delegated ienv db d hash) hash = Inr q \<and> p_ID q = del_PrincipalID d \<and> \<not> p_Human q
    \<and> p_RoleBindings q = [(del_ProjectID d, [''development''])] \<and> p_Delegation q = Some (stored_delegation d)
    \<and> RecheckTaskDelegation env (delegated ienv db d hash) q = Inr q"
  using delegated_rows_later [OF id_later_refl assms(1)] in_force_authenticates [OF assms(1,2)] delegated_in_force [OF assms(4-7)] assms(3) by metis

text \<open>
  C18: An issued credential works exactly as long as its delegation is in force. In every state reached after a human obtained a
  credential for a task, its token authenticates as the delegate, a workload with the development role on the task's project, and
  the check before each of its tool calls lets it continue, if and only if the delegation is on record unrevoked and not expired, the
  human who gave it is still authorized and the task still under way, and the credential, the principal and the role of the
  delegate are live. Right after the issue, until it expires, this only depends on the human's own credential and role. The
  credential lasts no longer than was asked for, an hour at most.
\<close>

theorem issued_credential_authenticates:
  assumes "reach id_start id_step db" and "IssueTaskCredential svc ienv secret seen db tid ttl = (Inr (d, token), db1)"
    and "env_id (sub_env 1 ienv) 0 \<noteq> []" and "id_step\<^sup>*\<^sup>* db1 db2"
  shows "((\<exists>q. AuthenticatePrincipal env db2 (Sum256 token) = Inr q \<and> p_ID q = ''delegate:'' @ del_ID d \<and> \<not> p_Human q
        \<and> p_RoleBindings q = [(del_ProjectID d, [''development''])] \<and> p_Delegation q = Some (stored_delegation d)
        \<and> RecheckTaskDelegation env db2 q = Inr q) \<longleftrightarrow> in_force env db2 d (Sum256 token))
    \<and> (\<forall>env1 c. c \<in> set (id_credentials db1) \<and> cred_ID c = del_ParentCredentialID d
        \<and> delegator_of (sub_env 1 env1) db1 (del_DelegatedBy d) (del_ProjectID d) c \<and> env_db_now (sub_env 1 ienv) \<le> env_db_now env1
        \<and> env_db_now env1 < micros (del_ExpiresAt d) \<and> env_clock env1 16 < micros (del_ExpiresAt d)
        \<longrightarrow> in_force env1 db1 d (Sum256 token))
    \<and> del_ExpiresAt d \<le> del_CreatedAt d + ttl \<and> ttl \<le> seconds 3600"
proof -
  have reach1: "reach id_start id_step db1" using reach_step [OF assms(1) id_step.issue [OF assms(2)]] .
  have keys: "id_keys db2" and later: "id_later db1 db2"
    using reach_id_inv [OF reach_steps [OF assms(4) reach1]] id.reach_later [OF reach1 assms(4)] by auto
  obtain p task where iss: "IssueTaskDelegation (sub_env 1 ienv) db (requested_delegation ienv p task ttl) (Sum256 token) = (Inr d, db1)"
    "ttl \<le> seconds 3600"
    using assms(2) by (auto simp: IssueTaskCredential_def Let_def split: sum.split_asm if_split_asm prod.split_asm)
  let ?r = "requested_delegation ienv p task ttl"
  obtain u where d: "d = clamped u ?r" "db1 = delegated (sub_env 1 ienv) db d (Sum256 token)"
    and opened: "task_open db (del_TaskID ?r) (del_WorkflowID ?r) (del_ProjectID ?r)"
    using IssueTaskDelegation_effect [OF iss(1)] by auto
  have id: "del_PrincipalID d = ''delegate:'' @ del_ID d" "del_ExpiresAt d \<le> del_CreatedAt d + ttl"
    using clamped_simps(10) [of u ?r] unfolding d(1) by (simp_all add: requested_delegation_def)
  have open1: "task_open db1 (del_TaskID d) (del_WorkflowID d) (del_ProjectID d)"
    using opened unfolding d(2) by (simp add: d(1) task_open_def delegated_def)
  have fresh: "in_force env1 db1 d (Sum256 token)"
    if "c \<in> set (id_credentials db1)" "cred_ID c = del_ParentCredentialID d" "delegator_of (sub_env 1 env1) db1 (del_DelegatedBy d) (del_ProjectID d) c"
      "env_db_now (sub_env 1 ienv) \<le> env_db_now env1" "env_db_now env1 < micros (del_ExpiresAt d)" "env_clock env1 16 < micros (del_ExpiresAt d)" for env1 c
  proof -
    have "delegation_active (sub_env 1 env1) db1 d" using that(1-3) open1 unfolding delegation_active_def list_ex_iff by blast
    then show ?thesis using delegated_in_force [of "sub_env 1 ienv" env1 d db "Sum256 token", folded d(2)] that(4-6) by blast
  qed
  note rows = delegated_rows_later [OF later [unfolded d(2)] keys]
  obtain c where c: "c \<in> set (id_credentials db2)" "cred_Token c = Sum256 token" "cred_Principal c = del_PrincipalID d" "cred_ID c = env_id (sub_env 1 ienv) 0"
    using rows(1) by blast
  have pid: "del_PrincipalID d \<noteq> []" using id(1) by simp
  have works: "\<exists>q. AuthenticatePrincipal env db2 (Sum256 token) = Inr q \<and> p_ID q = del_PrincipalID d \<and> \<not> p_Human q
      \<and> p_RoleBindings q = [(del_ProjectID d, [''development''])] \<and> p_Delegation q = Some (stored_delegation d)
      \<and> RecheckTaskDelegation env db2 q = Inr q" if "in_force env db2 d (Sum256 token)"
    by (rule in_force_authenticates [OF keys pid c(1-3) _ rows(2) that]) (metis c(4) assms(3))
  show ?thesis using works authenticated_in_force [OF keys, of env "Sum256 token" _ d] fresh iss(2) id by metis
qed

section \<open>What a session may do\<close>

text \<open>
  C16: A delegated session stays confined, however long ago it authenticated. A tool call it may begin runs as the same principal with the development role on one project
  only; the delegation is in force at that moment: not revoked, not expired, given by an active human with a live credential and development role who is no
  delegate, for a task that is under way; the tool is one of the delegable ones, and the call is scoped to the project, workflow and task of the delegation.
\<close>

theorem delegated_call_is_confined:
  assumes "reach id_start id_step db0" and "AuthenticatePrincipal env0 db0 hash = Inr p" and "p_Delegation p = Some d0"
    and "id_step\<^sup>*\<^sup>* db0 db" and "env_ctx env = Some p" and "BeginToolOperation svc env db name inp = Inr (ctx, scope)"
  shows "\<exists>q d c. ctx = Some q \<and> p_ID q = p_ID p \<and> \<not> p_Human q \<and> p_RoleBindings q = [(del_ProjectID d, [''development''])] \<and> p_Delegation q = Some d
    \<and> d \<in> set (id_delegations db) \<and> d = d0\<lparr>del_RevokedAt := None\<rparr> \<and> env_clock env 0 < del_ExpiresAt d \<and> del_ExpiresAt d \<le> del_CreatedAt d + seconds 3600
    \<and> c \<in> set (id_credentials db) \<and> cred_ID c = del_ParentCredentialID d
    \<and> delegator_of (sub_env 1 (sub_env 1 env)) db (del_DelegatedBy d) (del_ProjectID d) c
    \<and> task_open db (del_TaskID d) (del_WorkflowID d) (del_ProjectID d)
    \<and> name \<in> set delegated_tools
    \<and> os_ProjectID scope = del_ProjectID d \<and> os_WorkflowID scope = del_WorkflowID d \<and> os_TaskID scope = del_TaskID d"
proof -
  have reach: "reach id_start id_step db" using reach_steps [OF assms(4,1)] .
  have keys: "id_keys db" and l: "id_later db0 db" using reach_id_inv [OF reach] id.reach_later [OF assms(1,4)] by auto
  have pid: "p_ID p \<noteq> []" using AuthenticatePrincipal_Ok [OF assms(2)] by metis
  obtain q scope0 where q: "RecheckTaskDelegation (sub_env 1 env) db p = Inr q" "ctx = Some q" and s: "scope = attributed (Some q) scope0"
    and chk: "checkDelegatedTool svc env db (Some q) name inp scope0 = None"
    using assms(3,5,6) pid
    by (auto simp: BeginToolOperation_def current_caller_def PrincipalFromContext_def split: sum.split_asm option.split_asm)
  obtain h where auth: "AuthenticatePrincipal (sub_env 1 env) db h = Inr q" and qid: "p_ID q = p_ID p" using RecheckTaskDelegation_Ok [OF q(1) keys] by blast
  obtain d where d: "d \<in> set (id_delegations db)" "delegation_later d0 d" "find_row del_PrincipalID (p_ID p) (id_delegations db) = Some d"
    using delegate_recorded [OF assms(2,3) l keys] by blast
  have qd: "p_Delegation q = Some d" using AuthenticatePrincipal_Ok [OF auth] d(3) qid by metis
  then have live: "delegation_active (sub_env 1 (sub_env 1 env)) db d" "\<not> p_Human q" "del_RevokedAt d = None"
    "p_RoleBindings q = [(del_ProjectID d, [''development''])]"
    using AuthenticatePrincipal_Ok [OF auth] by metis+
  have ok: "delegation_ok db d" using reach_id_inv [OF reach] d(1) by blast
  have "d = d0\<lparr>del_RevokedAt := None\<rparr>" using d(2) live(3) by (auto simp: delegation_later_def)
  moreover obtain c where "c \<in> set (id_credentials db)" "cred_ID c = del_ParentCredentialID d"
    "delegator_of (sub_env 1 (sub_env 1 env)) db (del_DelegatedBy d) (del_ProjectID d) c"
    using live(1) unfolding delegation_active_def list_ex_iff by blast
  moreover have "os_ProjectID scope = os_ProjectID scope0" "os_WorkflowID scope = del_WorkflowID d" "os_TaskID scope = del_TaskID d"
    using s qd qid pid by (simp_all add: attributed_def PrincipalFromContext_def)
  ultimately show ?thesis
    using checkDelegatedTool_None [OF chk qd] pid qid q(2) qd d(1) live ok by (auto simp: delegation_active_def delegation_ok_def)
qed

text \<open>
  C17: A dead delegation stays dead. Once a delegation, or the credential of the human who gave it, is revoked, its principal can never
  authenticate again, with any token, at any time and after any sequence of calls and operator changes.
\<close>

theorem revoked_delegation_stays_dead:
  assumes "reach id_start id_step db" and "d \<in> set (id_delegations db)"
    and "del_RevokedAt d \<noteq> None \<or> (\<exists>c \<in> set (id_credentials db). cred_ID c = del_ParentCredentialID d \<and> cred_RevokedAt c \<noteq> None)"
    and "id_step\<^sup>*\<^sup>* db db'" and "AuthenticatePrincipal env db' hash = Inr p"
  shows "p_ID p \<noteq> del_PrincipalID d"
proof
  assume id: "p_ID p = del_PrincipalID d"
  have keys: "id_keys db'" and l: "id_later db db'"
    using reach_id_inv [OF reach_steps [OF assms(4,1)]] id.reach_later [OF assms(1,4)] by auto
  obtain d' where d': "d' \<in> set (id_delegations db')" "delegation_later d d'" using l assms(2) unfolding id_later_def by blast
  have "find_row del_PrincipalID (p_ID p) (id_delegations db') = Some d'"
    using find_row_distinct [of del_PrincipalID "id_delegations db'" d'] keys d' id by (auto simp: id_keys_def delegation_later_def)
  then have "p_Delegation p = Some d'" using AuthenticatePrincipal_Ok [OF assms(5)] by metis
  then have live: "delegation_active (sub_env 1 env) db' d'" "del_RevokedAt d' = None" using AuthenticatePrincipal_Ok [OF assms(5)] by metis+
  from assms(3) show False
  proof
    assume "del_RevokedAt d \<noteq> None"
    then show False using d'(2) live(2) by (auto simp: delegation_later_def)
  next
    assume "\<exists>c \<in> set (id_credentials db). cred_ID c = del_ParentCredentialID d \<and> cred_RevokedAt c \<noteq> None"
    then obtain c where c: "c \<in> set (id_credentials db)" "cred_ID c = del_ParentCredentialID d" "cred_RevokedAt c \<noteq> None" by blast
    obtain c' where c': "c' \<in> set (id_credentials db')" "token_later c c'" using l c(1) unfolding id_later_def by blast
    obtain x where x: "x \<in> set (id_credentials db')" "cred_ID x = del_ParentCredentialID d'" "delegator_of (sub_env 1 env) db' (del_DelegatedBy d') (del_ProjectID d') x"
      using live(1) unfolding delegation_active_def list_ex_iff by blast
    have "x = c'" by (rule credential_unique [OF keys c'(1) x(1)]) (use c(2) c'(2) d'(2) x(2) in \<open>auto simp: token_later_def delegation_later_def\<close>)
    then show False
      using delegator_human(3) [OF x(3)] c(3) c'(2) by (auto simp: token_live_def credential_live_def token_later_def credential_row.defs)
  qed
qed

end
