(* ===== verification/DelegationExamples.thy ===== *)
theory DelegationExamples
  imports DelegationProps TaskExamples
begin

text \<open>
  A concrete delegation: a person with the development role obtains a credential for an open task, the delegate reads the task with it, and
  the person revokes it. They are the instances at which the properties of \<open>DelegationProps\<close> are applied.
\<close>

lemma length_Sum256 [simp]: "length (Sum256 s) = 32"
proof -
  have bytes: "length (be_bytes w n) = w" for w n by (induction w arbitrary: n) simp_all
  show ?thesis by (simp add: Sum256_def length_concat comp_def sum_list_triv length_sha256 bytes)
qed

lemma Sum256_nonempty [simp]: "Sum256 s \<noteq> []" "[] \<noteq> Sum256 s"
  using length_Sum256 [of s] by (metis list.size(3) zero_neq_numeral)+

definition dx_task :: workflow_task where
  "dx_task = \<lparr>tk_ID = ''t'', tk_WorkflowID = ''w'', tk_ProjectID = ''p'', tk_Ordinal = 1, tk_TaskKey = ''k'', tk_Title = ''x'', tk_TaskType = ''code'',
     tk_State = ''local_execution'', tk_Route = ''rag_reuse'', tk_ExecutionMode = ''auto'', tk_Version = 2, tk_RAGQuery = [], tk_RAGBackend = [],
     tk_RAGHitIDs = [], tk_RAGMaxScore = float_zero, tk_MatchThreshold = float_zero, tk_ReviewInfluenceWeight = float_zero, tk_CandidateID = [],
     tk_LocalProvider = [], tk_LocalModel = [], tk_CloudProvider = [], tk_CloudModel = [], tk_RequestArtifact = zero_artifact, tk_LookupArtifact = None,
     tk_CreatedBy = ''h'', tk_CreatedAt = 0, tk_UpdatedAt = 0, tk_CompletedAt = None\<rparr>"

definition dx_credential :: token_row where
  "dx_credential = \<lparr>cred_ID = ''c'', cred_Principal = ''h'', cred_RevokedAt = None, cred_ExpiresAt = None, cred_Token = [], cred_Label = []\<rparr>"

definition dx_db :: identity_db where
  "dx_db = \<lparr>id_task = tx_start\<lparr>td_wf := (td_wf tx_start)\<lparr>wf_artifacts := [zero_artifact]\<rparr>, td_tasks := [dx_task],
       td_principals := [\<lparr>pr_ID = ''h'', pr_Active = True, pr_Kind = ''human''\<rparr>],
       td_roles := [\<lparr>rb_Principal = ''h'', rb_Project = ''p'', rb_Role = ''development'', rb_ValidFrom = 0, rb_ValidUntil = None\<rparr>]\<rparr>,
     id_names = [], id_credentials = [dx_credential],
     id_delegations = [], id_operations = []\<rparr>"

definition dx_person :: principal where
  "dx_person = \<lparr>p_ID = ''h'', p_DisplayName = [], p_Human = True, p_RoleBindings = [(''p'', [''development''])], p_CredentialID = ''c'', p_Delegation = None\<rparr>"

definition dx_env :: "principal \<Rightarrow> call_env" where
  "dx_env p = \<lparr>env_ctx = Some p, env_clock = (\<lambda>_. 7), env_db_now = 7, env_id = (\<lambda>_. ''d'')\<rparr>"

definition dx_tool :: tool_fields where
  "dx_tool = \<lparr>tf_ProjectID = [], tf_WorkflowID = [], tf_TaskID = ''t'', tf_RunID = [], tf_StepID = [], tf_KnowledgeID = [], tf_ID = []\<rparr>"

definition dx_fields :: delegated_fields where
  "dx_fields = \<lparr>df_ID = [], df_ProjectID = [], df_WorkflowID = [], df_TaskID = ''t'', df_KnowledgeID = [], df_CandidateID = [], df_WorkflowStepID = [],
     df_Provider = [], df_Event = []\<rparr>"

definition dx_service :: identity_service where
  "dx_service = \<lparr>isv_Task = tx_service, isv_Dependency = True, isv_DecodeTool = \<lambda>_. Some dx_tool, isv_DecodeDelegated = \<lambda>_. Some dx_fields\<rparr>"

definition dx_delegation :: task_delegation where
  "dx_delegation = \<lparr>del_ID = ''d'', del_PrincipalID = ''delegate:d'', del_DelegatedBy = ''h'', del_ParentCredentialID = ''c'', del_ProjectID = ''p'',
     del_WorkflowID = ''w'', del_TaskID = ''t'', del_CreatedAt = 7, del_ExpiresAt = 7 + seconds 60, del_RevokedAt = None\<rparr>"

definition dx_hash :: string where
  "dx_hash = Sum256 (RawURLEncoding [])"

definition dx_issued :: identity_db where
  "dx_issued = delegated (dx_env dx_person) dx_db dx_delegation dx_hash"

lemma dx_delegation_sel [simp]:
  "del_ID dx_delegation = ''d''" "del_PrincipalID dx_delegation = ''delegate:d''" "del_DelegatedBy dx_delegation = ''h''"
  "del_ParentCredentialID dx_delegation = ''c''" "del_ProjectID dx_delegation = ''p''" "del_WorkflowID dx_delegation = ''w''"
  "del_TaskID dx_delegation = ''t''" "del_RevokedAt dx_delegation = None" "del_CreatedAt dx_delegation = 7" "del_ExpiresAt dx_delegation = 60000000007"
  by (simp_all add: dx_delegation_def seconds_def)

lemma dx_hash_length [simp]: "length dx_hash = 32" "dx_hash \<noteq> []" "[] \<noteq> dx_hash"
  by (simp_all add: dx_hash_def del: RawURLEncoding.simps)

lemma dx_tables [simp]:
  "id_credentials dx_db = [dx_credential]" "id_delegations dx_db = []" "id_principals dx_db = [\<lparr>pr_ID = ''h'', pr_Active = True, pr_Kind = ''human''\<rparr>]"
  "id_roles dx_db = [\<lparr>rb_Principal = ''h'', rb_Project = ''p'', rb_Role = ''development'', rb_ValidFrom = 0, rb_ValidUntil = None\<rparr>]"
  by (simp_all add: dx_db_def)

lemma dx_credential_sel [simp]:
  "cred_ID dx_credential = ''c''" "cred_Principal dx_credential = ''h''" "cred_ExpiresAt dx_credential = None" "cred_Token dx_credential = []"
  "token_live now dx_credential"
  by (simp_all add: dx_credential_def token_live_def credential_live_def credential_row.defs)

lemma dx_env_sel [simp]:
  "env_ctx (dx_env p) = Some p" "env_clock (dx_env p) n = 7" "env_db_now (dx_env p) = 7" "env_id (dx_env p) n = ''d''"
  by (simp_all add: dx_env_def)

lemma sub_dx_env [simp]: "sub_env k (dx_env p) = dx_env p"
  by (simp add: sub_env_def dx_env_def)

lemma dx_reach: "reach id_start id_step dx_db"
  by (rule reach_start) (simp add: id_start_def id_keys_def dx_db_def)

lemma dx_joined: "getWorkflowTask (id_task dx_db) ''t'' = Inr dx_task"
  by (simp add: getWorkflowTask_def scanWorkflowTask_def joined_artifact_def dx_db_def tx_start_def tx_run_def dx_task_def find_row_def zero_artifact_def)

lemma dx_run: "getWorkflowByID (td_wf (id_task dx_db)) ''w'' = Inr tx_run"
  by (simp add: getWorkflowByID_def scanWorkflow_def dx_db_def tx_start_def tx_run_def find_row_def zero_artifact_def)

lemma dx_delegator: "delegator_of (dx_env p) dx_db ''h'' ''p'' dx_credential"
  by (simp add: delegator_of_def role_live_def)

lemma dx_open: "task_open dx_db ''t'' ''w'' ''p''"
  by (simp add: task_open_def dx_db_def dx_task_def tx_start_def tx_run_def)

lemma dx_trim: "trim_space ''t'' = ''t''"
  by (rule trim_space_plain, simp add: plain_char_def)+

lemma dx_issue:
  "IssueTaskCredential dx_service (dx_env dx_person) [] dx_db dx_db ''t'' (seconds 60) = (Inr (dx_delegation, RawURLEncoding []), dx_issued)"
proof -
  have "requested_delegation (dx_env dx_person) dx_person dx_task (seconds 60) = dx_delegation"
    by (simp add: requested_delegation_def dx_delegation_def dx_person_def dx_task_def)
  moreover have "GetWorkflowTask tx_service (dx_env dx_person) (id_task dx_db) ''t'' = Inr dx_task"
    using dx_joined dx_run
    by (simp add: GetWorkflowTask_def dx_trim RequirePrincipal_def PrincipalFromContext_def dx_person_def tx_service_def demo_allow_def
        authorizeUntraced_def dx_task_def)
  moreover have "delegation_fits (dx_env dx_person) dx_db dx_delegation dx_hash"
    by (simp add: delegation_fits_def find_row_def micros_def seconds_def role_key_def)
  then have "IssueTaskDelegation (dx_env dx_person) dx_db dx_delegation dx_hash = (Inr dx_delegation, dx_issued)"
    using dx_open dx_delegator [of dx_person] by (simp add: IssueTaskDelegation_def clamped_def seconds_def dx_issued_def)
  ultimately show ?thesis
    by (simp add: IssueTaskCredential_def RequirePrincipal_def PrincipalFromContext_def dx_service_def dx_hash_def)
       (simp add: dx_person_def HasRole_def set_RolesFor dx_task_def seconds_def)
qed

lemma dx_issued_reach: "reach id_start id_step dx_issued"
  using reach_step [OF dx_reach id_step.issue [OF dx_issue]] .

lemma dx_issued_tables:
  "id_delegations dx_issued = [stored_delegation dx_delegation]" "dx_credential \<in> set (id_credentials dx_issued)"
  by (simp_all add: dx_issued_def delegated_def)

lemma dx_still: "delegator_of (dx_env p) dx_issued ''h'' ''p'' dx_credential"
  using dx_delegator [of p] unfolding delegator_of_def dx_issued_def by (simp add: delegated_def stored_delegation_def)

lemma dx_recheck: "RecheckTaskDelegation (dx_env p) = RecheckTaskDelegation (dx_env dx_person)"
  by (simp add: fun_eq_iff RecheckTaskDelegation_def AuthenticatePrincipal_def auth_rows_def constrainDelegatedPrincipal_def delegation_active_def
      delegator_of_def cong del: if_weak_cong option.case_cong_weak)

lemma dx_keys: "id_keys dx_issued"
  using reach_id_inv [OF dx_issued_reach] by blast

text \<open>The delegate's token authenticates, for any caller, and the delegate may read its task.\<close>

lemma dx_session:
  obtains q where "AuthenticatePrincipal (dx_env p) dx_issued dx_hash = Inr q" "p_ID q = ''delegate:d''" "\<not> p_Human q"
    "p_Delegation q = Some (stored_delegation dx_delegation)" "RecheckTaskDelegation (dx_env p) dx_issued q = Inr q"
proof -
  have "task_open dx_issued ''t'' ''w'' ''p''" using dx_open by (simp add: task_open_def dx_issued_def delegated_def)
  then have "delegation_active (dx_env p) dx_issued dx_delegation"
    using dx_still [of p] dx_issued_tables(2) unfolding delegation_active_def list_ex_iff by (auto intro: bexI [of _ dx_credential])
  then have "\<exists>q. AuthenticatePrincipal (dx_env p) dx_issued dx_hash = Inr q \<and> p_ID q = ''delegate:d'' \<and> \<not> p_Human q
      \<and> p_RoleBindings q = [(''p'', [''development''])] \<and> p_Delegation q = Some (stored_delegation dx_delegation)
      \<and> RecheckTaskDelegation (dx_env p) dx_issued q = Inr q"
    using delegated_authenticates [of "dx_env dx_person" dx_db dx_delegation dx_hash "dx_env p", folded dx_issued_def] dx_keys by (simp add: micros_def)
  then show ?thesis using that by blast
qed

lemma dx_call:
  assumes "p_ID q = ''delegate:d''" "\<not> p_Human q" "p_Delegation q = Some (stored_delegation dx_delegation)"
    "RecheckTaskDelegation (dx_env q) dx_issued q = Inr q"
  shows "\<exists>scope. BeginToolOperation dx_service (dx_env q) dx_issued ''workflow_task_get'' [] = Inr (Some q, scope)"
proof -
  have ctx: "PrincipalFromContext (Some q) = Some q" using assms(1) by (simp add: PrincipalFromContext_def)
  have "current_caller (dx_env q) dx_issued = Inr (Some q)"
    using assms ctx unfolding current_caller_def by simp
  moreover have "getWorkflowTask (id_task dx_issued) ''t'' = Inr dx_task"
    using dx_joined
    by (simp add: getWorkflowTask_def scanWorkflowTask_def joined_artifact_def dx_issued_def delegated_def cong del: option.case_cong_weak prod.case_cong_weak)
  then have "\<exists>scope. resolve_scope dx_issued ''workflow_task_get'' dx_tool = Inr scope \<and> os_ProjectID scope = ''p''"
    using dx_run by (simp add: resolve_scope_def knowledge_scope_def task_scope_def workflow_scope_def dx_tool_def dx_issued_def delegated_def)
       (simp add: dx_task_def tx_run_def defaultString_def)
  moreover have "checkDelegatedTool dx_service (dx_env q) dx_issued (Some q) ''workflow_task_get'' [] scope = None" if "os_ProjectID scope = ''p''" for scope
    using that assms ctx
    by (simp add: checkDelegatedTool_def delegated_tool_ok_def project_tools_def dx_fields_def dx_service_def stored_delegation_def micros_def)
  ultimately show ?thesis by (auto simp: BeginToolOperation_def dx_service_def)
qed

section \<open>Instances of the properties\<close>

theorem issued_credential_authenticates_witness:
  "\<exists>q. in_force (dx_env dx_person) dx_issued dx_delegation (Sum256 (RawURLEncoding []))
     \<and> AuthenticatePrincipal (dx_env dx_person) dx_issued (Sum256 (RawURLEncoding [])) = Inr q \<and> p_ID q = ''delegate:d''"
proof -
  have human: "delegator_of (sub_env 1 (dx_env dx_person)) dx_issued (del_DelegatedBy dx_delegation) (del_ProjectID dx_delegation) dx_credential"
    using dx_still by simp
  have cid: "env_id (sub_env 1 (dx_env dx_person)) 0 \<noteq> []" by simp
  note issued = issued_credential_authenticates [OF dx_reach dx_issue cid rtranclp.rtrancl_refl, of "dx_env dx_person"]
  have "in_force (dx_env dx_person) dx_issued dx_delegation (Sum256 (RawURLEncoding []))"
    using spec [OF spec [OF issued [THEN conjunct2, THEN conjunct1], of "dx_env dx_person"], of dx_credential] human dx_issued_tables(2)
    by (simp add: micros_def)
  then show ?thesis using issued by auto
qed

theorem delegated_call_is_confined_witness:
  "\<exists>q scope. BeginToolOperation dx_service (dx_env q) dx_issued ''workflow_task_get'' [] = Inr (Some q, scope) \<and> p_ID q = ''delegate:d''
     \<and> os_ProjectID scope = ''p'' \<and> os_WorkflowID scope = ''w'' \<and> os_TaskID scope = ''t''"
proof -
  obtain q where q: "AuthenticatePrincipal (dx_env dx_person) dx_issued (dx_hash) = Inr q" "p_ID q = ''delegate:d''" "\<not> p_Human q"
    "p_Delegation q = Some (stored_delegation dx_delegation)" "RecheckTaskDelegation (dx_env dx_person) dx_issued q = Inr q"
    using dx_session by blast
  have "RecheckTaskDelegation (dx_env q) dx_issued q = Inr q" using q(5) dx_recheck [of q] by simp
  then obtain scope where call: "BeginToolOperation dx_service (dx_env q) dx_issued ''workflow_task_get'' [] = Inr (Some q, scope)"
    using dx_call q by blast
  have "env_ctx (dx_env q) = Some q" by simp
  from delegated_call_is_confined [OF dx_issued_reach q(1,4) rtranclp.rtrancl_refl this call]
  show ?thesis using call q(2) by (auto simp: stored_delegation_def)
qed

theorem revoked_delegation_stays_dead_witness:
  "\<exists>db d p. RevokeTaskCredential (dx_env dx_person) dx_issued ''d'' = (Inr d, db) \<and> AuthenticatePrincipal (dx_env dx_person) db [] = Inr p
     \<and> del_PrincipalID d = ''delegate:d'' \<and> p_ID p \<noteq> ''delegate:d''"
proof -
  let ?d = "(stored_delegation dx_delegation)\<lparr>del_RevokedAt := Some 7\<rparr>"
  let ?db = "dx_issued\<lparr>id_delegations := [?d]\<rparr>"
  have revoke: "RevokeTaskCredential (dx_env dx_person) dx_issued ''d'' = (Inr ?d, ?db)"
    by (simp add: RevokeTaskCredential_def RequirePrincipal_def PrincipalFromContext_def)
      (simp add: dx_person_def RevokeTaskDelegation_def Let_def dx_issued_def delegated_def stored_delegation_def put_row_def)
  have kept: "del_PrincipalID ((stored_delegation d)\<lparr>del_RevokedAt := r\<rparr>) = del_PrincipalID d" for d r
    by (simp add: stored_delegation_def)
  have "auth_rows (dx_env dx_person) ?db [] = [(hd (id_principals dx_db), hd (id_roles dx_db), dx_credential)]"
    by (simp add: auth_rows_def dx_issued_def delegated_def role_live_def)
  then have "\<exists>p. AuthenticatePrincipal (dx_env dx_person) ?db [] = Inr p"
    by (simp add: AuthenticatePrincipal_def Let_def scan_row_def zero_principal_def constrainDelegatedPrincipal_def find_row_def stored_delegation_def)
  then obtain p where p: "AuthenticatePrincipal (dx_env dx_person) ?db [] = Inr p" by blast
  have "?d \<in> set (id_delegations ?db)" "del_RevokedAt ?d \<noteq> None" by simp_all
  then have "p_ID p \<noteq> del_PrincipalID ?d"
    using revoked_delegation_stays_dead [OF reach_step [OF dx_issued_reach id_step.revoke [OF revoke]] _ _ rtranclp.rtrancl_refl p, of ?d] by blast
  moreover have pid: "del_PrincipalID ?d = ''delegate:d''"
    using kept [of "Some 7" dx_delegation] by (simp only: dx_delegation_sel)
  ultimately have "p_ID p \<noteq> ''delegate:d''" by (simp only: not_False_eq_True)
  with revoke p pid show ?thesis by blast
qed

end
