(* ===== verification/KnowledgeStore.thy ===== *)
theory KnowledgeStore
  imports TaskStore
begin

text \<open>
  The store of governed knowledge: candidates captured from generations, their reviews and revisions, validation reports and human
  decisions (\<open>src/internal/domain/validation.go\<close>, \<open>src/internal/postgres/validation.go\<close>, \<open>src/internal/postgres/repository.go\<close>,
  \<open>src/internal/postgres/quality.go\<close>), with the triggers of the knowledge tables
  (\<open>src/migrations/000008_knowledge_validation.sql\<close>, \<open>000009_knowledge_quality.sql\<close>, \<open>000012_scoped_quality.sql\<close>). The items, their
  eligibility and the columns of validations and sources are those of \<open>Knowledge\<close>. Identifiers are compared as text, and a report is read back as it was
  written.
\<close>

section \<open>Reports\<close>

record knowledge_source =
  kns_Kind :: string
  kns_Reference :: string
  kns_Revision :: string
  kns_Branch :: string
  kns_ApplicableThrough :: string
  kns_ArtifactSHA256 :: string

record source_manifest =
  sm_SchemaVersion :: string
  sm_Sources :: "knowledge_source list"

text \<open>A full commit digest: \<open>^[a-f0-9]{40}([a-f0-9]{24})?$\<close>.\<close>

definition revisionPattern :: "string \<Rightarrow> bool" where
  "revisionPattern s \<longleftrightarrow> (length s = 40 \<or> length s = 64) \<and> list_all lower_hex s"

definition source_ok :: "knowledge_source \<Rightarrow> bool" where
  "source_ok s \<longleftrightarrow> trim_space (kns_Reference s) \<noteq> []
     \<and> (if kns_Kind s = ''repository''
        then (kns_ApplicableThrough s = [] \<or> revisionPattern (kns_ApplicableThrough s)) \<and> revisionPattern (kns_Revision s) \<and> trim_space (kns_Branch s) \<noteq> []
        else kns_Kind s \<in> set [''document'', ''procedure'', ''patch'', ''work_packet''] \<and> digestPattern (kns_ArtifactSHA256 s))"

definition manifest_Validate :: "source_manifest \<Rightarrow> go_error option" where
  "manifest_Validate m =
     (if sm_SchemaVersion m \<noteq> ''hybrid-ai/knowledge-source/v1'' \<or> sm_Sources m = [] \<or> length (sm_Sources m) > 100 then Some ErrValidationRequired
      else if list_all source_ok (sm_Sources m) then None else Some ErrValidationRequired)"

record validation_criterion =
  vc_Name :: string
  vc_Passed :: bool
  vc_Observation :: string

record validation_command =
  vm_Argv :: "string list"
  vm_ExitCode :: int
  vm_OutputSHA256 :: string

text \<open>The times of a report are in UTC.\<close>

record knowledge_validation =
  rep_ID :: string
  rep_SchemaVersion :: string
  rep_KnowledgeID :: string
  rep_ProjectID :: string
  rep_CandidateVersion :: int
  rep_ContentSHA256 :: string
  rep_SourceManifest :: source_manifest
  rep_SourceManifestSHA256 :: string
  rep_Method :: string
  rep_Criteria :: "validation_criterion list"
  rep_Commands :: "validation_command list"
  rep_Verdict :: string
  rep_ValidatedBy :: string
  rep_StartedAt :: int
  rep_CompletedAt :: int
  rep_ValidUntil :: int
  rep_ReportArtifact :: artifact
  rep_SourceArtifact :: artifact

definition ValidationSchema :: string where
  "ValidationSchema = ''hybrid-ai/knowledge-validation/v1''"

definition json_source :: "knowledge_source \<Rightarrow> json" where
  "json_source s = JObject (
     [(''kind'', JString (kns_Kind s)), (''reference'', JString (kns_Reference s))] @ omit_empty ''revision'' (kns_Revision s)
     @ omit_empty ''branch'' (kns_Branch s) @ omit_empty ''applicable_through_revision'' (kns_ApplicableThrough s)
     @ omit_empty ''artifact_sha256'' (kns_ArtifactSHA256 s))"

definition json_manifest :: "source_manifest \<Rightarrow> json" where
  "json_manifest m = JObject [(''schema_version'', JString (sm_SchemaVersion m)), (''sources'', JArray (map json_source (sm_Sources m)))]"

definition manifest_bytes :: "source_manifest \<Rightarrow> string" where
  "manifest_bytes m = print_json (json_manifest m)"

definition json_criterion :: "validation_criterion \<Rightarrow> json" where
  "json_criterion c = JObject [(''name'', JString (vc_Name c)), (''passed'', JBool (vc_Passed c)), (''observation'', JString (vc_Observation c))]"

definition json_command :: "validation_command \<Rightarrow> json" where
  "json_command c = JObject [(''argv'', json_strings (vm_Argv c)), (''exit_code'', JInt (vm_ExitCode c)), (''output_sha256'', JString (vm_OutputSHA256 c))]"

text \<open>A list of commands is written as \<open>null\<close> when it was never set: reports without commands have none.\<close>

definition json_report :: "knowledge_validation \<Rightarrow> json" where
  "json_report v = JObject
     [(''id'', JString (rep_ID v)), (''schema_version'', JString (rep_SchemaVersion v)), (''knowledge_id'', JString (rep_KnowledgeID v)),
      (''project_id'', JString (rep_ProjectID v)), (''candidate_version'', JInt (rep_CandidateVersion v)),
      (''content_sha256'', JString (rep_ContentSHA256 v)), (''source_manifest'', json_manifest (rep_SourceManifest v)),
      (''source_manifest_sha256'', JString (rep_SourceManifestSHA256 v)), (''method'', JString (rep_Method v)),
      (''criteria'', JArray (map json_criterion (rep_Criteria v))),
      (''commands'', if rep_Commands v = [] then JNull else JArray (map json_command (rep_Commands v))),
      (''verdict'', JString (rep_Verdict v)), (''validated_by'', JString (rep_ValidatedBy v)), (''started_at'', json_time (utc (rep_StartedAt v))),
      (''completed_at'', json_time (utc (rep_CompletedAt v))), (''valid_until'', json_time (utc (rep_ValidUntil v))),
      (''report_artifact'', json_artifact (rep_ReportArtifact v)), (''source_artifact'', json_artifact (rep_SourceArtifact v))]"

definition report_bytes :: "knowledge_validation \<Rightarrow> string result" where
  "report_bytes v =
     (if time_marshals (utc (rep_StartedAt v)) \<and> time_marshals (utc (rep_CompletedAt v)) \<and> time_marshals (utc (rep_ValidUntil v))
      then Ok (print_json (json_report v)) else Err (ErrMessage ''json: error calling MarshalJSON for type time.Time''))"

text \<open>The verdict the evidence of a report amounts to.\<close>

definition evidence_passed :: "knowledge_validation \<Rightarrow> bool" where
  "evidence_passed v \<longleftrightarrow> list_all vc_Passed (rep_Criteria v) \<and> list_all (\<lambda>c. vm_ExitCode c = 0) (rep_Commands v)"

definition report_Check :: "knowledge_validation \<Rightarrow> go_error option" where
  "report_Check v =
     (if rep_SchemaVersion v \<noteq> ValidationSchema \<or> rep_KnowledgeID v = [] \<or> rep_ProjectID v = [] \<or> rep_CandidateVersion v < 1
         \<or> \<not> digestPattern (rep_ContentSHA256 v) \<or> rep_ValidatedBy v = [] \<or> rep_Criteria v = [] \<or> length (rep_Criteria v) > 100
        then Some ErrValidationRequired
      else if manifest_Validate (rep_SourceManifest v) \<noteq> None then manifest_Validate (rep_SourceManifest v)
      else if Digest (manifest_bytes (rep_SourceManifest v)) \<noteq> rep_SourceManifestSHA256 v then Some ErrValidationRequired
      else if rep_Method v \<noteq> ''manual'' \<and> rep_Method v \<noteq> ''workpacket'' then Some ErrValidationRequired
      else if rep_StartedAt v = zero_time \<or> rep_CompletedAt v < rep_StartedAt v \<or> rep_ValidUntil v \<le> rep_CompletedAt v
         \<or> rep_ValidUntil v - rep_CompletedAt v > seconds (30 * 24 * 3600)
        then Some ErrValidationRequired
      else if list_ex (\<lambda>c. trim_space (vc_Name c) = [] \<or> trim_space (vc_Observation c) = []) (rep_Criteria v) then Some ErrValidationRequired
      else if rep_Method v = ''manual'' \<and> rep_Commands v \<noteq> [] then Some ErrValidationRequired
      else if rep_Method v = ''workpacket'' \<and> rep_Commands v = [] then Some ErrValidationRequired
      else if list_ex (\<lambda>c. vm_Argv c = [] \<or> \<not> digestPattern (vm_OutputSHA256 c)) (rep_Commands v) then Some ErrValidationRequired
      else if rep_Verdict v \<noteq> (if evidence_passed v then ''pass'' else ''fail'') then Some ErrValidationRequired
      else None)"

section \<open>Tables\<close>

record knowledge_decision =
  kd_ID :: string
  kd_KnowledgeID :: string
  kd_ExpectedVersion :: int
  kd_ValidationID :: string
  kd_Decision :: string
  kd_Reason :: string
  kd_IdempotencyKey :: string
  kd_Actor :: string
  kd_RequestSHA256 :: string
  kd_Authorization :: authorization_decision
  kd_CreatedAt :: int

record generation_capture =
  gc_ID :: string
  gc_ProjectID :: string
  gc_WorkflowID :: string
  gc_WorkflowStepID :: string
  gc_SessionID :: string
  gc_TaskType :: string
  gc_Prompt :: string
  gc_Response :: string
  gc_Summary :: string
  gc_Language :: string
  gc_Tags :: "string list"
  gc_Provider :: string
  gc_Model :: string
  gc_RepositoryRevision :: string
  gc_Outcome :: string
  gc_Procedure :: "string list"
  gc_ValidationEvidence :: "string list"
  gc_PromptArtifact :: artifact
  gc_OutputArtifact :: artifact
  gc_AutoApprove :: bool

record knowledge_review =
  rv_ID :: string
  rv_KnowledgeID :: string
  rv_WorkflowID :: string
  rv_WorkflowStepID :: string
  rv_Reviewer :: string
  rv_Provider :: string
  rv_Model :: string
  rv_Verdict :: string
  rv_Comments :: string
  rv_ImprovedContent :: string
  rv_ImprovedSummary :: string
  rv_ExpectedVersion :: int
  rv_ValidationEvidence :: "string list"
  rv_RawOutput :: string
  rv_ContextManifest :: string
  rv_ReviewArtifact :: artifact
  rv_ContextManifestArtifact :: artifact

text \<open>
  The tables beside those of the tasks: generations as they were captured, reports and decisions, the identifiers of review rows
  (\<open>k_reviews\<close> has the columns that are read), and the receipts of source checks.
\<close>

record governance_db =
  g_task :: task_db
  g_generations :: "generation_capture list"
  g_reports :: "knowledge_validation list"
  g_decisions :: "knowledge_decision list"
  g_review_ids :: "string list"
  g_receipts :: "(string \<times> bool \<times> string) list"

abbreviation g_knowledge :: "governance_db \<Rightarrow> knowledge_db" where
  "g_knowledge db \<equiv> td_k (g_task db)"

abbreviation g_items :: "governance_db \<Rightarrow> knowledge_row list" where
  "g_items db \<equiv> k_items (g_knowledge db)"

definition set_knowledge :: "knowledge_db \<Rightarrow> governance_db \<Rightarrow> governance_db" where
  "set_knowledge k db = db\<lparr>g_task := (g_task db)\<lparr>td_k := k\<rparr>\<rparr>"

definition set_items :: "knowledge_row list \<Rightarrow> governance_db \<Rightarrow> governance_db" where
  "set_items rows db = set_knowledge ((g_knowledge db)\<lparr>k_items := rows\<rparr>) db"

definition add_artifacts :: "artifact list \<Rightarrow> governance_db \<Rightarrow> governance_db" where
  "add_artifacts as db = db\<lparr>g_task := fold (\<lambda>a t. add_artifact (Some a) t) as (g_task db)\<rparr>"

section \<open>Captured candidates\<close>

definition valueOr :: "string \<Rightarrow> string \<Rightarrow> string" where
  "valueOr value fallback = (if value = [] then fallback else value)"

text \<open>The first runes of a text; an invalid byte is written as the replacement rune.\<close>

fun take_runes :: "nat \<Rightarrow> string \<Rightarrow> string" where
  "take_runes 0 s = []"
| "take_runes (Suc n) [] = []"
| "take_runes (Suc n) (c # s) =
     (case rune_at (map of_char (c # s)) of (r, w) \<Rightarrow>
        (if r = rune_error then [CHR 0xEF, CHR 0xBF, CHR 0xBD] else take w (c # s)) @ take_runes n (drop w (c # s)))"

definition truncate_text :: "string \<Rightarrow> nat \<Rightarrow> string" where
  "truncate_text value limit = (if length (decode_runes value) \<le> limit then value else take_runes limit value)"

definition captured_item :: "call_env \<Rightarrow> generation_capture \<Rightarrow> knowledge_row" where
  "captured_item env c =
     \<lparr>ki_ID = env_id env 0, ki_ProjectID = gc_ProjectID c, ki_WorkflowID = gc_WorkflowID c, ki_WorkflowStepID = gc_WorkflowStepID c,
      ki_Title = valueOr (gc_Summary c) (truncate_text (gc_Prompt c) 160), ki_Problem = gc_Prompt c, ki_Summary = gc_Summary c, ki_Content = gc_Response c,
      ki_Procedure = gc_Procedure c, ki_ValidationEvidence = gc_ValidationEvidence c, ki_TaskType = valueOr (gc_TaskType c) ''software-development'',
      ki_Language = gc_Language c, ki_Tags = gc_Tags c, ki_Status = ''pending'', ki_SourceGenerationID = gc_ID c, ki_Version = 1,
      ki_CreatedAt = utc (env_db_now env), ki_ApprovedAt = utc zero_time, kr_Approval = None\<rparr>"

definition generation_row :: "generation_capture \<Rightarrow> generation_capture" where
  "generation_row c = c\<lparr>gc_TaskType := valueOr (gc_TaskType c) ''software-development'', gc_Outcome := valueOr (gc_Outcome c) ''unknown''\<rparr>"

text \<open>A run a row refers to must exist; no code writes the table of workflow steps.\<close>

definition references_ok :: "governance_db \<Rightarrow> string \<Rightarrow> string \<Rightarrow> bool" where
  "references_ok db workflow step \<longleftrightarrow> (workflow = [] \<or> find_row wf_ID workflow (wf_runs (td_wf (g_task db))) \<noteq> None) \<and> step = []"

definition RecordGeneration :: "call_env \<Rightarrow> governance_db \<Rightarrow> generation_capture \<Rightarrow> knowledge_row result \<times> governance_db" where
  "RecordGeneration env db c =
     (if gc_AutoApprove c then (Err ErrValidationRequired, db)
      else case (find_row gc_ID (gc_ID c) (g_generations db), find_row ki_SourceGenerationID (gc_ID c) (g_items db)) of
        (Some g, Some k) \<Rightarrow>
          if art_SHA256 (gc_PromptArtifact g) \<noteq> art_SHA256 (gc_PromptArtifact c) \<or> art_SHA256 (gc_OutputArtifact g) \<noteq> art_SHA256 (gc_OutputArtifact c)
             \<or> gc_ProjectID g \<noteq> gc_ProjectID c
            then (Err ErrVersionConflict, db) else (Ok k, db)
      | (g, _) \<Rightarrow>
          if g \<noteq> None \<or> find_row ki_ID (env_id env 0) (g_items db) \<noteq> None \<or> \<not> references_ok db (gc_WorkflowID c) (gc_WorkflowStepID c)
            then (Err ErrDatabase, db)
          else (Ok (captured_item env c),
                (set_items (g_items db @ [captured_item env c]) (add_artifacts [gc_PromptArtifact c, gc_OutputArtifact c] db))
                  \<lparr>g_generations := g_generations db @ [generation_row c]\<rparr>))"

definition ListCandidates :: "governance_db \<Rightarrow> string \<Rightarrow> int \<Rightarrow> knowledge_row list" where
  "ListCandidates db project limit =
     take (nat limit) (sort_key (\<lambda>k. gt_Nanos (ki_CreatedAt k))
       (filter (\<lambda>k. ki_Status k = ''pending'' \<and> (project = [] \<or> ki_ProjectID k = project)) (g_items db)))"

definition repo_ApproveCandidate :: "string \<Rightarrow> string \<Rightarrow> knowledge_row result" where
  "repo_ApproveCandidate kid actor = Err ErrValidationRequired"

definition repo_RejectCandidate :: "string \<Rightarrow> string \<Rightarrow> knowledge_row result" where
  "repo_RejectCandidate kid actor = Err ErrValidationRequired"

section \<open>Reviews and revisions\<close>

definition review_columns :: "knowledge_review \<Rightarrow> review_row" where
  "review_columns r =
     \<lparr>rw_KnowledgeID = rv_KnowledgeID r, rw_WorkflowID = rv_WorkflowID r, rw_Provider = rv_Provider r, rw_Model = rv_Model r,
      rw_ReviewSHA256 = art_SHA256 (rv_ReviewArtifact r), rw_ContextSHA256 = art_SHA256 (rv_ContextManifestArtifact r)\<rparr>"

definition insert_review :: "string \<Rightarrow> review_row \<Rightarrow> governance_db \<Rightarrow> governance_db" where
  "insert_review rid row db =
     (set_knowledge ((g_knowledge db)\<lparr>k_reviews := k_reviews (g_knowledge db) @ [row]\<rparr>) db)\<lparr>g_review_ids := g_review_ids db @ [rid]\<rparr>"

text \<open>A changed candidate is a new pending version; the triggers clear its approval.\<close>

definition revised_item :: "knowledge_review \<Rightarrow> knowledge_row \<Rightarrow> knowledge_row" where
  "revised_item r k =
     k\<lparr>ki_Content := rv_ImprovedContent r, ki_ValidationEvidence := rv_ValidationEvidence r, ki_Version := ki_Version k + 1,
       ki_Summary := valueOr (rv_ImprovedSummary r) (ki_Summary k), ki_Title := valueOr (rv_ImprovedSummary r) (ki_Title k), kr_Approval := None\<rparr>"

definition repo_RecordReview :: "call_env \<Rightarrow> governance_db \<Rightarrow> knowledge_review \<Rightarrow> unit result \<times> governance_db" where
  "repo_RecordReview env db r =
     (let db1 = insert_review (rv_ID r) (review_columns r)
            (add_artifacts (filter (\<lambda>a. art_SHA256 a \<noteq> []) [rv_ReviewArtifact r, rv_ContextManifestArtifact r]) db)
      in if rv_ID r \<in> set (g_review_ids db) \<or> find_row ki_ID (rv_KnowledgeID r) (g_items db) = None
           \<or> rv_Verdict r \<notin> set [''approve'', ''reject'', ''revise'', ''comment''] \<or> \<not> references_ok db (rv_WorkflowID r) (rv_WorkflowStepID r)
         then (Err ErrDatabase, db)
         else if rv_Verdict r = ''revise'' \<and> rv_ImprovedContent r \<noteq> [] then
           (case find_row ki_ID (rv_KnowledgeID r) (g_items db) of
              None \<Rightarrow> (Err ErrVersionConflict, db)
            | Some k \<Rightarrow>
                if ki_Status k \<noteq> ''pending'' \<or> rv_ExpectedVersion r \<noteq> 0 \<and> ki_Version k \<noteq> rv_ExpectedVersion r then (Err ErrVersionConflict, db)
                else (Ok (), set_items (put_row ki_ID (revised_item r k) (g_items db)) db1))
         else (Ok (), db1))"

section \<open>Validation\<close>

definition database_role :: "call_env \<Rightarrow> governance_db \<Rightarrow> string \<Rightarrow> string \<Rightarrow> string \<Rightarrow> string \<Rightarrow> bool" where
  "database_role env db kind actor project role =
     list_ex (\<lambda>q. pr_ID q = actor \<and> pr_Active q \<and> pr_Kind q = kind
        \<and> list_ex (\<lambda>b. rb_Principal b = pr_ID q \<and> rb_Project b \<in> {''*'', project} \<and> rb_Role b = role
             \<and> role_live (env_db_now env) b) (td_roles (g_task db))) (td_principals (g_task db))"

definition project_policy :: "governance_db \<Rightarrow> string \<Rightarrow> governance_policy" where
  "project_policy db project =
     (case map_of (wf_policies (td_wf (g_task db))) project of Some g \<Rightarrow> g | None \<Rightarrow> default_policy project)"

definition requireKnowledgeRoleSeparation ::
  "governance_db \<Rightarrow> knowledge_row \<Rightarrow> string \<Rightarrow> string \<Rightarrow> string \<Rightarrow> go_error option" where
  "requireKnowledgeRoleSeparation db item actor validator gate =
     (let policy = project_policy db (ki_ProjectID item) in
      if RequiresDistinctPrincipal policy gate \<or> \<not> gov_AllowRoleOverlap policy then
        if validator \<noteq> [] \<and> validator = actor then Some (ErrMessage ''forbidden: governance requires a distinct product approver'')
        else if ki_WorkflowID item = [] then None
        else (case getWorkflowByID (td_wf (g_task db)) (ki_WorkflowID item) of
            Inl e \<Rightarrow> Some e
          | Inr run \<Rightarrow>
              if wf_ImplementedBy run = actor \<or> gate = ''product_approval'' \<and> wf_QAValidatedBy run = actor
              then Some (ErrMessage ''forbidden: governance requires distinct workflow actors'') else None)
      else None)"

definition validation_columns :: "knowledge_validation \<Rightarrow> knowledge_validation_row" where
  "validation_columns v =
     \<lparr>kv_ID = rep_ID v, kv_KnowledgeID = rep_KnowledgeID v, kv_ProjectID = rep_ProjectID v, kv_CandidateVersion = rep_CandidateVersion v,
      kv_ContentSHA256 = rep_ContentSHA256 v, kv_Method = rep_Method v, kv_Verdict = rep_Verdict v, kv_SourceManifestSHA256 = rep_SourceManifestSHA256 v,
      kv_CompletedAt = micros (rep_CompletedAt v), kv_ValidUntil = micros (rep_ValidUntil v)\<rparr>"

definition verified_source :: "knowledge_validation \<Rightarrow> knowledge_source_row" where
  "verified_source v =
     \<lparr>ks_ValidationID = rep_ID v, ks_ManifestSHA256 = rep_SourceManifestSHA256 v, ks_VerifiedAt = micros (rep_CompletedAt v), ks_Valid = True,
      ks_Reason = ''verified''\<rparr>"

text \<open>The constraints of the tables on the rows of a report.\<close>

definition report_fits :: "governance_db \<Rightarrow> knowledge_validation \<Rightarrow> bool" where
  "report_fits db v \<longleftrightarrow>
     find_row kv_ID (rep_ID v) (k_validations (g_knowledge db)) = None \<and> find_row rep_ID (rep_ID v) (g_reports db) = None
     \<and> find_row ks_ValidationID (rep_ID v) (k_sources (g_knowledge db)) = None
     \<and> find_row art_SHA256 (rep_SourceManifestSHA256 v) (wf_artifacts (td_wf (g_task db))) \<noteq> None
     \<and> micros (rep_StartedAt v) \<le> micros (rep_CompletedAt v) \<and> micros (rep_CompletedAt v) < micros (rep_ValidUntil v)
     \<and> micros (rep_ValidUntil v) \<le> micros (rep_CompletedAt v) + seconds (30 * 24 * 3600)"

definition insert_report :: "knowledge_validation \<Rightarrow> governance_db \<Rightarrow> governance_db" where
  "insert_report v db =
     (set_knowledge ((g_knowledge db)\<lparr>k_validations := k_validations (g_knowledge db) @ [validation_columns v],
        k_sources := k_sources (g_knowledge db) @ [verified_source v]\<rparr>) db)\<lparr>g_reports := g_reports db @ [v]\<rparr>"

text \<open>The JSON schemas of the contracts are a parameter: the schema's name and a text to whether it is accepted.\<close>

type_synonym contracts = "string \<Rightarrow> string \<Rightarrow> bool"

definition validator_allowed :: "call_env \<Rightarrow> governance_db \<Rightarrow> knowledge_validation \<Rightarrow> bool" where
  "validator_allowed env db v \<longleftrightarrow> database_role env db ''human'' (rep_ValidatedBy v) (rep_ProjectID v) ''qa''
     \<or> rep_Method v = ''workpacket'' \<and> database_role env db ''workload'' (rep_ValidatedBy v) (rep_ProjectID v) ''validation_executor''"

definition RecordKnowledgeValidation ::
  "contracts \<Rightarrow> call_env \<Rightarrow> governance_db \<Rightarrow> knowledge_validation \<Rightarrow> knowledge_validation result \<times> governance_db" where
  "RecordKnowledgeValidation contract env db v =
     (case report_Check v of
        Some e \<Rightarrow> (Err e, db)
      | None \<Rightarrow>
          (case find_row ki_ID (rep_KnowledgeID v) (g_items db) of
             None \<Rightarrow> (Err ErrNoRows, db)
           | Some item \<Rightarrow>
               if ki_ProjectID item \<noteq> rep_ProjectID v \<or> ki_Version item \<noteq> rep_CandidateVersion v \<or> Digest (ki_Content item) \<noteq> rep_ContentSHA256 v
                  \<or> ki_Status item \<noteq> ''pending'' \<and> ki_Status item \<noteq> ''approved''
                 then (Err ErrVersionConflict, db)
               else if \<not> validator_allowed env db v then (Err (ErrMessage ''forbidden: active human role required''), db)
               else (case requireKnowledgeRoleSeparation db item (rep_ValidatedBy v) [] ''qa'' of
                   Some e \<Rightarrow> (Err e, db)
                 | None \<Rightarrow>
                     if rep_CompletedAt v > env_clock env 0 + seconds 1 then (Err ErrValidationRequired, db)
                     else (case report_bytes v of
                         Inl e \<Rightarrow> (Err e, db)
                       | Inr payload \<Rightarrow>
                           if \<not> contract ''knowledge/v1/validation-report.schema.json'' payload then (Err ErrValidationRequired, db)
                           else if \<not> report_fits (add_artifacts [rep_SourceArtifact v, rep_ReportArtifact v] db) v then (Err ErrDatabase, db)
                           else (Ok v, insert_report v (add_artifacts [rep_SourceArtifact v, rep_ReportArtifact v] db))))))"

definition GetKnowledgeValidation :: "governance_db \<Rightarrow> string \<Rightarrow> knowledge_validation result" where
  "GetKnowledgeValidation db vid = (case find_row rep_ID vid (g_reports db) of None \<Rightarrow> Err ErrNoRows | Some v \<Rightarrow> Ok v)"

end
