(* ===== verification/KnowledgeDecisions.thy ===== *)
theory KnowledgeDecisions
  imports KnowledgeStore
begin

text \<open>
  Decisions on candidates and the checks of their sources: \<open>DecideKnowledge\<close> of \<open>src/internal/postgres/validation.go\<close> with the guards
  the knowledge table runs on a status change, and \<open>RecordSourceCheck\<close> of \<open>src/internal/postgres/quality.go\<close>.
\<close>

section \<open>The guards of the table\<close>

text \<open>\<open>knowledge_duplicate_guard\<close>: an item becomes approved only if no other approved item of the project has its content.\<close>

definition duplicate_guard :: "governance_db \<Rightarrow> knowledge_row \<Rightarrow> knowledge_row \<Rightarrow> bool" where
  "duplicate_guard db old new \<longleftrightarrow> ki_Status new = ''approved'' \<and> ki_Status old \<noteq> ''approved'' \<longrightarrow>
     \<not> list_ex (\<lambda>k. ki_ProjectID k = ki_ProjectID new \<and> ki_ID k \<noteq> ki_ID new \<and> ki_Status k = ''approved'' \<and> kr_Approval k \<noteq> None
         \<and> ki_Content k = ki_Content new) (g_items db)"

text \<open>\<open>knowledge_promotion_guard\<close>: a new approval rests on a passed validation of this very version and on a human decision for it.\<close>

definition decision_supports :: "knowledge_row \<Rightarrow> string \<Rightarrow> knowledge_validation_row \<Rightarrow> knowledge_decision \<Rightarrow> bool" where
  "decision_supports k actor v d \<longleftrightarrow> kd_KnowledgeID d = ki_ID k \<and> kd_ValidationID d = kv_ID v \<and> kd_ExpectedVersion d = ki_Version k
     \<and> kd_Decision d = ''approve'' \<and> kd_Actor d = actor"

definition validation_supports :: "int \<Rightarrow> knowledge_row \<Rightarrow> knowledge_validation_row \<Rightarrow> bool" where
  "validation_supports now k v \<longleftrightarrow> kr_Approval k = Some (kv_ID v) \<and> kv_KnowledgeID v = ki_ID k \<and> kv_ProjectID v = ki_ProjectID k
     \<and> kv_CandidateVersion v = ki_Version k \<and> kv_ContentSHA256 v = Digest (ki_Content k) \<and> kv_Verdict v = ''pass''
     \<and> now < kv_ValidUntil v \<and> kv_CompletedAt v \<le> now"

definition promotion_guard :: "int \<Rightarrow> governance_db \<Rightarrow> string \<Rightarrow> knowledge_row \<Rightarrow> knowledge_row \<Rightarrow> bool" where
  "promotion_guard now db actor old new \<longleftrightarrow>
     ki_Status new = ''approved'' \<and> (ki_Status old \<noteq> ''approved'' \<or> kr_Approval new \<noteq> kr_Approval old) \<longrightarrow>
       list_ex (\<lambda>p. pr_ID p = actor \<and> pr_Kind p = ''human'' \<and> pr_Active p) (td_principals (g_task db))
       \<and> list_ex (\<lambda>v. validation_supports now new v \<and> list_ex (decision_supports new actor v) (g_decisions db)) (k_validations (g_knowledge db))"

text \<open>\<open>knowledge_publication_quality_guard\<close>: an approved item is eligible, for guidance, in the state after the change.\<close>

definition publication_guard :: "int \<Rightarrow> governance_db \<Rightarrow> knowledge_row \<Rightarrow> bool" where
  "publication_guard now db new \<longleftrightarrow> ki_Status new = ''approved'' \<longrightarrow> knowledge_eligible now (g_knowledge db) new ''development_guidance''"

section \<open>Decisions\<close>

definition decision_blank :: "knowledge_decision \<Rightarrow> bool" where
  "decision_blank d \<longleftrightarrow> kd_ExpectedVersion d < 1 \<or> kd_Actor d = [] \<or> kd_Reason d = [] \<or> kd_IdempotencyKey d = [] \<or> kd_RequestSHA256 d = []
     \<or> kd_Decision d \<noteq> ''approve'' \<and> kd_Decision d \<noteq> ''reject'' \<or> \<not> dec_Allowed (kd_Authorization d)"

text \<open>The purpose of a candidate: that of the task it belongs to, if there is one.\<close>

definition decision_purpose :: "governance_db \<Rightarrow> knowledge_row \<Rightarrow> string" where
  "decision_purpose db item =
     TaskPurpose (case find_row tk_CandidateID (ki_ID item) (td_tasks (g_task db)) of Some t \<Rightarrow> tk_TaskType t | None \<Rightarrow> ki_TaskType item)"

definition approvable :: "call_env \<Rightarrow> governance_db \<Rightarrow> knowledge_row \<Rightarrow> string \<Rightarrow> bool" where
  "approvable env db item vid \<longleftrightarrow>
     (let now = env_db_now env; k = g_knowledge db in
      case knowledge_quality_policy now k (ki_ProjectID item) DataProductKnowledge (decision_purpose db item) of
        None \<Rightarrow> False
      | Some p \<Rightarrow>
          list_ex (\<lambda>v. kv_ID v = vid \<and> kv_KnowledgeID v = ki_ID item \<and> kv_ProjectID v = ki_ProjectID item \<and> kv_CandidateVersion v = ki_Version item
            \<and> kv_ContentSHA256 v = Digest (ki_Content item) \<and> kv_Verdict v = ''pass'' \<and> kv_CompletedAt v \<le> now \<and> now < kv_ValidUntil v
            \<and> (qp_RequiredMethod p = ''any'' \<or> qp_RequiredMethod p = kv_Method v)
            \<and> now < kv_CompletedAt v + (if kv_Method v = ''workpacket'' then qp_PatchMaxAge p else qp_ContentMaxAge p)
            \<and> list_ex (\<lambda>s. ks_ValidationID s = kv_ID v \<and> ks_Valid s \<and> ks_ManifestSHA256 s = kv_SourceManifestSHA256 v \<and> ks_VerifiedAt s \<le> now
                 \<and> now < ks_VerifiedAt s + qp_SourceMaxAge p) (k_sources k)) (k_validations k))"

text \<open>A candidate of a workflow waits for the task it belongs to or for the QA gate of its run.\<close>

definition workflow_gate :: "governance_db \<Rightarrow> knowledge_row \<Rightarrow> go_error option" where
  "workflow_gate db item =
     (if ki_WorkflowID item = [] then None
      else case getWorkflowByID (td_wf (g_task db)) (ki_WorkflowID item) of
        Inl e \<Rightarrow> Some e
      | Inr run \<Rightarrow>
          if (case find (\<lambda>t. tk_CandidateID t = ki_ID item \<and> tk_WorkflowID t = ki_WorkflowID item) (td_tasks (g_task db)) of
                Some t \<Rightarrow> tk_State t = ''promotion_required'' | None \<Rightarrow> False)
             \<or> wf_State run = ''promotion_pending'' \<and> wf_QAValidatedBy run \<noteq> []
          then None else Some ErrValidationRequired)"

definition check_approval :: "call_env \<Rightarrow> governance_db \<Rightarrow> knowledge_row \<Rightarrow> knowledge_decision \<Rightarrow> go_error option" where
  "check_approval env db item d =
     (if kd_Decision d \<noteq> ''approve'' then None
      else case find_row rep_ID (kd_ValidationID d) (g_reports db) of
        None \<Rightarrow> Some ErrValidationRequired
      | Some report \<Rightarrow>
          (case requireKnowledgeRoleSeparation db item (kd_Actor d) (rep_ValidatedBy report) ''product_approval'' of
             Some e \<Rightarrow> Some e
           | None \<Rightarrow> if \<not> approvable env db item (kd_ValidationID d) then Some ErrValidationRequired else workflow_gate db item))"

definition decided_item :: "call_env \<Rightarrow> knowledge_decision \<Rightarrow> knowledge_row \<Rightarrow> knowledge_row" where
  "decided_item env d k =
     (if kd_Decision d = ''approve''
      then k\<lparr>ki_Status := ''approved'', ki_ApprovedAt := utc (env_db_now env), kr_Approval := Some (kd_ValidationID d)\<rparr>
      else k\<lparr>ki_Status := ''rejected'', ki_ApprovedAt := utc zero_time, kr_Approval := None\<rparr>)"

definition decision_entry :: "call_env \<Rightarrow> knowledge_decision \<Rightarrow> knowledge_row \<Rightarrow> knowledge_decision" where
  "decision_entry env d item = d\<lparr>kd_KnowledgeID := ki_ID item, kd_ExpectedVersion := ki_Version item, kd_CreatedAt := env_db_now env\<rparr>"

definition decision_fits :: "governance_db \<Rightarrow> knowledge_decision \<Rightarrow> bool" where
  "decision_fits db d \<longleftrightarrow> find_row kd_ID (kd_ID d) (g_decisions db) = None \<and> kd_ID d \<notin> set (g_review_ids db) \<and> \<not> sql_blank (kd_Reason d)
     \<and> (kd_ValidationID d = [] \<or> find_row kv_ID (kd_ValidationID d) (k_validations (g_knowledge db)) \<noteq> None)"

definition decision_review :: "knowledge_decision \<Rightarrow> knowledge_row \<Rightarrow> review_row" where
  "decision_review d item = \<lparr>rw_KnowledgeID = ki_ID item, rw_WorkflowID = [], rw_Provider = [], rw_Model = [], rw_ReviewSHA256 = [], rw_ContextSHA256 = []\<rparr>"

text \<open>The rows a decision writes, with the guards of the knowledge table.\<close>

definition commit_decision :: "call_env \<Rightarrow> governance_db \<Rightarrow> knowledge_decision \<Rightarrow> knowledge_row \<Rightarrow> knowledge_row result \<times> governance_db" where
  "commit_decision env db d item =
     (let now = env_db_now env; new = decided_item env d item;
          db1 = db\<lparr>g_decisions := g_decisions db @ [decision_entry env d item]\<rparr>;
          db2 = set_items (put_row ki_ID new (g_items db)) db1
      in if \<not> decision_fits db d \<or> \<not> duplicate_guard db1 item new \<or> \<not> promotion_guard now db1 (kd_Actor d) item new \<or> \<not> publication_guard now db2 new
         then (Err ErrDatabase, db)
         else (Ok new, insert_review (kd_ID d) (decision_review d item) db2))"

definition repo_DecideKnowledge :: "call_env \<Rightarrow> governance_db \<Rightarrow> knowledge_decision \<Rightarrow> knowledge_row result \<times> governance_db" where
  "repo_DecideKnowledge env db d =
     (if decision_blank d then (Err ErrValidationRequired, db)
      else case find_row ki_ID (kd_KnowledgeID d) (g_items db) of
        None \<Rightarrow> (Err ErrNoRows, db)
      | Some item \<Rightarrow>
          if \<not> database_role env db ''human'' (kd_Actor d) (ki_ProjectID item) ''product_owner''
            then (Err (ErrMessage ''forbidden: active human role required''), db)
          else (case find (\<lambda>x. kd_KnowledgeID x = ki_ID item \<and> kd_IdempotencyKey x = kd_IdempotencyKey d) (g_decisions db) of
              Some prior \<Rightarrow> if kd_RequestSHA256 prior \<noteq> kd_RequestSHA256 d then (Err ErrVersionConflict, db) else (Ok item, db)
            | None \<Rightarrow>
                if ki_Status item \<noteq> ''pending'' \<and> \<not> (ki_Status item = ''approved'' \<and> kd_Decision d = ''approve'')
                   \<or> ki_Version item \<noteq> kd_ExpectedVersion d
                  then (Err ErrVersionConflict, db)
                else (case check_approval env db item d of Some e \<Rightarrow> (Err e, db) | None \<Rightarrow> commit_decision env db d item)))"

section \<open>Checks of the sources\<close>

definition checked_source :: "call_env \<Rightarrow> knowledge_validation_row \<Rightarrow> bool \<Rightarrow> string \<Rightarrow> knowledge_source_row list \<Rightarrow> knowledge_source_row list" where
  "checked_source env v valid reason rows =
     (case find_row ks_ValidationID (kv_ID v) rows of
        None \<Rightarrow> rows @ [\<lparr>ks_ValidationID = kv_ID v, ks_ManifestSHA256 = kv_SourceManifestSHA256 v,
                   ks_VerifiedAt = (if valid then env_db_now env else kv_CompletedAt v), ks_Valid = valid, ks_Reason = reason\<rparr>]
      | Some s \<Rightarrow> put_row ks_ValidationID (s\<lparr>ks_VerifiedAt := (if valid then env_db_now env else ks_VerifiedAt s), ks_Valid := valid, ks_Reason := reason\<rparr>) rows)"

definition RecordSourceCheck :: "call_env \<Rightarrow> governance_db \<Rightarrow> string \<Rightarrow> int \<Rightarrow> string \<Rightarrow> bool \<Rightarrow> string \<Rightarrow> unit result \<times> governance_db" where
  "RecordSourceCheck env db kid version vid valid reason =
     (let why = (if valid then ''verified'' else reason) in
      if \<not> valid \<and> reason \<notin> set [''source_changed'', ''source_unavailable'', ''evidence_unavailable'']
        then (Err (ErrMessage ''invalid source failure reason''), db)
      else case find_row ki_ID kid (g_items db) of
        None \<Rightarrow> (Err ErrNoRows, db)
      | Some item \<Rightarrow>
          if version \<noteq> ki_Version item \<or> vid \<noteq> (case kr_Approval item of None \<Rightarrow> [] | Some v \<Rightarrow> v) then (Err ErrVersionConflict, db)
          else (case find_row kv_ID vid (k_validations (g_knowledge db)) of
              None \<Rightarrow> (Err ErrDatabase, db)
            | Some v \<Rightarrow>
                (Ok (), (set_knowledge ((g_knowledge db)\<lparr>k_sources := checked_source env v valid why (k_sources (g_knowledge db))\<rparr>) db)
                   \<lparr>g_receipts := g_receipts db @ [(vid, valid, why)]\<rparr>)))"

end
