(* ===== verification/KnowledgeService.thy ===== *)
theory KnowledgeService
  imports KnowledgeDecisions PatchVerifier
begin

text \<open>
  The service in front of the governed knowledge (\<open>src/internal/service/service.go\<close>, \<open>src/internal/service/validation.go\<close>,
  \<open>src/internal/service/quality.go\<close>): capture and review of candidates, manual and executed validation, decisions, and the refresh of
  sources. The reads of a call see the state \<open>seen\<close> and its transaction finds \<open>db\<close>.
\<close>

section \<open>Inputs\<close>

record validation_input =
  vi_KnowledgeID :: string
  vi_ExpectedVersion :: int
  vi_SourceManifest :: source_manifest
  vi_Criteria :: "validation_criterion list"

record decision_input =
  di_KnowledgeID :: string
  di_ExpectedVersion :: int
  di_ValidationID :: string
  di_Decision :: string
  di_Reason :: string
  di_IdempotencyKey :: string

record capture_input =
  ci_ProjectID :: string
  ci_WorkflowID :: string
  ci_WorkflowStepID :: string
  ci_SessionID :: string
  ci_TaskType :: string
  ci_Prompt :: string
  ci_Response :: string
  ci_Summary :: string
  ci_Language :: string
  ci_Tags :: "string list"
  ci_Provider :: string
  ci_Model :: string
  ci_RepositoryRevision :: string
  ci_Outcome :: string
  ci_Procedure :: "string list"
  ci_ValidationEvidence :: "string list"

definition json_validation_input :: "validation_input \<Rightarrow> json" where
  "json_validation_input i = JObject
     [(''knowledge_id'', JString (vi_KnowledgeID i)), (''expected_version'', JInt (vi_ExpectedVersion i)),
      (''source_manifest'', json_manifest (vi_SourceManifest i)), (''criteria'', JArray (map json_criterion (vi_Criteria i)))]"

definition json_decision_input :: "decision_input \<Rightarrow> json" where
  "json_decision_input i = JObject (
     [(''knowledge_id'', JString (di_KnowledgeID i)), (''expected_version'', JInt (di_ExpectedVersion i))] @ omit_empty ''validation_id'' (di_ValidationID i)
     @ [(''decision'', JString (di_Decision i)), (''reason'', JString (di_Reason i)), (''idempotency_key'', JString (di_IdempotencyKey i))])"

definition omit_strings :: "string \<Rightarrow> string list \<Rightarrow> (string \<times> json) list" where
  "omit_strings k xs = (if xs = [] then [] else [(k, json_strings xs)])"

definition omit_int :: "string \<Rightarrow> int \<Rightarrow> (string \<times> json) list" where
  "omit_int k n = (if n = 0 then [] else [(k, JInt n)])"

definition json_packet_check :: "check \<Rightarrow> json" where
  "json_packet_check c = JObject ([(''name'', JString (check_Name c)), (''argv'', json_strings (check_Argv c))]
     @ omit_int ''timeout_seconds'' (check_TimeoutSeconds c))"

definition json_packet :: "packet \<Rightarrow> json" where
  "json_packet p = JObject (
     [(''schema_version'', JString (pkt_SchemaVersion p)), (''id'', JString (pkt_ID p)), (''goal'', JString (pkt_Goal p)),
      (''workspace'', JString (pkt_Workspace p))] @ omit_empty ''base_revision'' (pkt_BaseRevision p)
     @ [(''mode'', JString (pkt_Mode p)), (''task_class'', JString (pkt_TaskClass p)), (''data_classification'', JString (pkt_DataClassification p))]
     @ omit_strings ''categories'' (pkt_Categories p) @ [(''local_only'', JBool (pkt_LocalOnly p)), (''cloud_review'', JBool (pkt_CloudReview p))]
     @ omit_empty ''cloud_provider'' (pkt_CloudProvider p) @ omit_empty ''cloud_approved_by'' (pkt_CloudApprovedBy p)
     @ [(''destructive'', JBool (pkt_Destructive p))] @ omit_empty ''approved_by'' (pkt_ApprovedBy p)
     @ omit_strings ''allowed_files'' (pkt_AllowedFiles p) @ omit_strings ''forbidden_files'' (pkt_ForbiddenFiles p)
     @ omit_strings ''rollback'' (pkt_Rollback p)
     @ (if pkt_Checks p = [] then [] else [(''checks'', JArray (map json_packet_check (pkt_Checks p)))])
     @ [(''limits'', JObject ([(''max_changed_files'', JInt (lim_MaxChangedFiles (pkt_Limits p))), (''max_diff_lines'', JInt (lim_MaxDiffLines (pkt_Limits p)))]
          @ omit_int ''max_patch_bytes'' (lim_MaxPatchBytes (pkt_Limits p))))])"

section \<open>The service\<close>

text \<open>
  The files and git repositories of the machine are a parameter: \<open>filepath.Abs\<close>, \<open>filepath.EvalSymlinks\<close>, and the standard output of a
  git command that succeeds within its time limit.
\<close>

record source_tree =
  kh_Abs :: "string \<Rightarrow> string option"
  kh_EvalSymlinks :: "string \<Rightarrow> string option"
  kh_Git :: "string list \<Rightarrow> string option"

text \<open>Parameters beside them: the JSON schemas, \<open>json.Valid\<close>, the case folding of arbitrary text, the host of the patch verifier and the text of its result.\<close>

record 'w knowledge_service =
  gsv_Authorizer :: authorizer
  gsv_AutoApprove :: bool
  gsv_SourceRoots :: "string list"
  gsv_Tree :: source_tree
  gsv_Contract :: contracts
  gsv_JSONValid :: "string \<Rightarrow> bool"
  gsv_ToLower :: "string \<Rightarrow> string"
  gsv_Host :: "'w host"
  gsv_EncodeResult :: "verification_result \<Rightarrow> string"

subsection \<open>Candidates\<close>

definition cleanList :: "string list \<Rightarrow> string list" where
  "cleanList values = filter (\<lambda>v. v \<noteq> []) (map trim_space values)"

definition cleanTags :: "(string \<Rightarrow> string) \<Rightarrow> string list \<Rightarrow> string list" where
  "cleanTags lower tags = dedup [] (filter (\<lambda>v. v \<noteq> []) (map (\<lambda>tag. lower (trim_space tag)) tags))"

definition capture_of :: "'w knowledge_service \<Rightarrow> call_env \<Rightarrow> capture_input \<Rightarrow> artifact \<Rightarrow> artifact \<Rightarrow> generation_capture" where
  "capture_of svc env i prompt output =
     \<lparr>gc_ID = env_id env 0, gc_ProjectID = trim_space (ci_ProjectID i), gc_WorkflowID = trim_space (ci_WorkflowID i),
      gc_WorkflowStepID = trim_space (ci_WorkflowStepID i), gc_SessionID = trim_space (ci_SessionID i), gc_TaskType = trim_space (ci_TaskType i),
      gc_Prompt = ci_Prompt i, gc_Response = ci_Response i, gc_Summary = trim_space (ci_Summary i), gc_Language = trim_space (ci_Language i),
      gc_Tags = cleanTags (gsv_ToLower svc) (ci_Tags i), gc_Provider = trim_space (ci_Provider i), gc_Model = trim_space (ci_Model i),
      gc_RepositoryRevision = trim_space (ci_RepositoryRevision i), gc_Outcome = trim_space (ci_Outcome i), gc_Procedure = cleanList (ci_Procedure i),
      gc_ValidationEvidence = cleanList (ci_ValidationEvidence i), gc_PromptArtifact = prompt, gc_OutputArtifact = output,
      gc_AutoApprove = gsv_AutoApprove svc\<rparr>"

definition Capture ::
  "'w knowledge_service \<Rightarrow> call_env \<Rightarrow> local_store \<Rightarrow> governance_db \<Rightarrow> capture_input \<Rightarrow> knowledge_row result \<times> local_store \<times> governance_db" where
  "Capture svc env st db i =
     (if trim_space (ci_ProjectID i) = [] \<or> trim_space (ci_Prompt i) = [] \<or> trim_space (ci_Response i) = [] then (Err ErrInvalidInput, st, db)
      else case Put st (ci_Prompt i) ''text/plain; charset=utf-8'' of
        (Inl e, st1) \<Rightarrow> (Err e, st1, db)
      | (Inr prompt, st1) \<Rightarrow> (case Put st1 (ci_Response i) ''text/plain; charset=utf-8'' of
          (Inl e, st2) \<Rightarrow> (Err e, st2, db)
        | (Inr output, st2) \<Rightarrow> (case RecordGeneration (sub_env 1 env) db (capture_of svc env i prompt output) of (r, db') \<Rightarrow> (r, st2, db'))))"

definition service_ListCandidates :: "governance_db \<Rightarrow> string \<Rightarrow> int \<Rightarrow> knowledge_row list" where
  "service_ListCandidates db project limit = ListCandidates db (trim_space project) (if limit < 1 \<or> limit > 100 then 25 else limit)"

definition Approve :: "string \<Rightarrow> string \<Rightarrow> knowledge_row result" where
  "Approve kid actor = (if trim_space actor = [] then Err ErrInvalidInput else repo_ApproveCandidate (trim_space kid) (trim_space actor))"

definition Reject :: "string \<Rightarrow> string \<Rightarrow> knowledge_row result" where
  "Reject kid actor = (if trim_space actor = [] then Err ErrInvalidInput else repo_RejectCandidate (trim_space kid) (trim_space actor))"

definition normalized_review :: "knowledge_review \<Rightarrow> knowledge_review" where
  "normalized_review r =
     r\<lparr>rv_KnowledgeID := trim_space (rv_KnowledgeID r), rv_WorkflowID := trim_space (rv_WorkflowID r), rv_WorkflowStepID := trim_space (rv_WorkflowStepID r),
       rv_Reviewer := trim_space (rv_Reviewer r), rv_Provider := trim_space (rv_Provider r), rv_Model := trim_space (rv_Model r),
       rv_Verdict := to_lower (trim_space (rv_Verdict r)), rv_ValidationEvidence := cleanList (rv_ValidationEvidence r),
       rv_ImprovedSummary := trim_space (rv_ImprovedSummary r),
       rv_ImprovedContent := (if to_lower (trim_space (rv_Verdict r)) = ''revise'' then trim_space (rv_ImprovedContent r) else rv_ImprovedContent r)\<rparr>"

text \<open>Only the local model may revise a candidate, with fresh evidence.\<close>

definition review_invalid :: "'w knowledge_service \<Rightarrow> knowledge_review \<Rightarrow> bool" where
  "review_invalid svc r \<longleftrightarrow>
     rv_ExpectedVersion r < 0 \<or> rv_ImprovedSummary r \<noteq> [] \<and> (rv_Verdict r \<noteq> ''revise'' \<or> rv_ExpectedVersion r < 1)
     \<or> rv_KnowledgeID r = [] \<or> rv_Reviewer r = [] \<or> rv_Verdict r = []
     \<or> (if rv_Verdict r \<in> set [''approve'', ''reject'', ''comment''] then trim_space (rv_ImprovedContent r) \<noteq> []
        else if rv_Verdict r = ''revise'' then to_lower (rv_Provider r) \<noteq> ''ollama'' \<or> rv_ImprovedContent r = [] \<or> rv_ValidationEvidence r = []
        else True)
     \<or> rv_ContextManifest r \<noteq> [] \<and> \<not> gsv_JSONValid svc (rv_ContextManifest r)"

definition put_optional :: "local_store \<Rightarrow> string \<Rightarrow> string \<Rightarrow> artifact \<Rightarrow> artifact result \<times> local_store" where
  "put_optional st data media unset = (if data = [] then (Ok unset, st) else Put st data media)"

definition RecordReview ::
  "'w knowledge_service \<Rightarrow> call_env \<Rightarrow> local_store \<Rightarrow> governance_db \<Rightarrow> knowledge_review \<Rightarrow> knowledge_review result \<times> local_store \<times> governance_db" where
  "RecordReview svc env st db input =
     (let r = normalized_review input in
      if review_invalid svc r then (Err ErrInvalidInput, st, db)
      else case put_optional st (if rv_RawOutput r = [] then rv_Comments r else rv_RawOutput r) ''text/markdown; charset=utf-8'' (rv_ReviewArtifact r) of
        (Inl e, st1) \<Rightarrow> (Err e, st1, db)
      | (Inr review, st1) \<Rightarrow> (case put_optional st1 (rv_ContextManifest r) ''application/json'' (rv_ContextManifestArtifact r) of
          (Inl e, st2) \<Rightarrow> (Err e, st2, db)
        | (Inr manifest, st2) \<Rightarrow>
            let r' = r\<lparr>rv_ID := env_id env 0, rv_ReviewArtifact := review, rv_ContextManifestArtifact := manifest\<rparr>
            in (case repo_RecordReview (sub_env 1 env) db r' of (Inl e, db') \<Rightarrow> (Err e, st2, db') | (Inr _, db') \<Rightarrow> (Ok r', st2, db'))))"

subsection \<open>Sources\<close>

text \<open>\<open>filepath.Rel\<close> on absolute paths, as their elements.\<close>

definition path_elements :: "string \<Rightarrow> string list" where
  "path_elements p = filter (\<lambda>w. w \<noteq> []) (split_on (CHR ''/'') p)"

fun rel_elements :: "string list \<Rightarrow> string list \<Rightarrow> string list" where
  "rel_elements (b # bs) (t # ts) = (if b = t then rel_elements bs ts else replicate (Suc (length bs)) ''..'' @ t # ts)"
| "rel_elements bs ts = replicate (length bs) ''..'' @ ts"

definition below_root :: "string \<Rightarrow> string \<Rightarrow> bool" where
  "below_root base path \<longleftrightarrow> (case rel_elements (path_elements base) (path_elements path) of w # _ \<Rightarrow> w \<noteq> ''..'' | [] \<Rightarrow> True)"

definition resolve_path :: "source_tree \<Rightarrow> string \<Rightarrow> string option" where
  "resolve_path h p = (case kh_Abs h p of None \<Rightarrow> None | Some a \<Rightarrow> kh_EvalSymlinks h a)"

definition source_allowed :: "'w knowledge_service \<Rightarrow> string \<Rightarrow> bool" where
  "source_allowed svc path \<longleftrightarrow>
     list_ex (\<lambda>dir. case resolve_path (gsv_Tree svc) dir of None \<Rightarrow> False | Some r \<Rightarrow> below_root r path) (gsv_SourceRoots svc)"

definition git_at :: "string \<Rightarrow> string list \<Rightarrow> string list" where
  "git_at path args = [''--no-optional-locks'', ''-c'', ''safe.directory='' @ path, ''-C'', path] @ args"

definition branch_head :: "source_tree \<Rightarrow> string \<Rightarrow> string \<Rightarrow> string option" where
  "branch_head h path branch = map_option trim_space (kh_Git h (git_at path [''rev-parse'', ''--verify'', ''refs/heads/'' @ branch @ ''^{commit}'']))"

definition is_ancestor :: "source_tree \<Rightarrow> string \<Rightarrow> string \<Rightarrow> string \<Rightarrow> bool" where
  "is_ancestor h path a b \<longleftrightarrow> kh_Git h (git_at path [''merge-base'', ''--is-ancestor'', a, b]) \<noteq> None"

text \<open>A failure with the reason its message names.\<close>

type_synonym source_failure = "go_error \<times> string"

definition verify_repository :: "'w knowledge_service \<Rightarrow> knowledge_source \<Rightarrow> source_failure option" where
  "verify_repository svc s =
     (let h = gsv_Tree svc in
      case resolve_path h (kns_Reference s) of
        None \<Rightarrow> Some (ErrQualityBlocked, ''source_unavailable'')
      | Some path \<Rightarrow>
          if \<not> source_allowed svc path then Some (ErrQualityBlocked, ''source_unavailable'')
          else (case branch_head h path (kns_Branch s) of
              None \<Rightarrow> Some (ErrQualityBlocked, ''source_unavailable'')
            | Some current \<Rightarrow>
                if kns_ApplicableThrough s \<noteq> [] then
                  if is_ancestor h path (kns_Revision s) current \<and> is_ancestor h path current (kns_ApplicableThrough s) then None
                  else Some (ErrQualityBlocked, ''source_changed'')
                else if current \<noteq> kns_Revision s then Some (ErrQualityBlocked, ''source_changed'') else None))"

fun verify_each :: "'w knowledge_service \<Rightarrow> local_store \<Rightarrow> knowledge_source list \<Rightarrow> source_failure option" where
  "verify_each svc st [] = None"
| "verify_each svc st (s # ss) =
     (if kns_ArtifactSHA256 s \<noteq> [] \<and> \<not> is_ok (Read st (kns_ArtifactSHA256 s)) then Some (ErrEvidenceUnavailable, [])
      else if kns_Kind s \<noteq> ''repository'' then verify_each svc st ss
      else case verify_repository svc s of Some f \<Rightarrow> Some f | None \<Rightarrow> verify_each svc st ss)"

definition verifySources :: "'w knowledge_service \<Rightarrow> local_store \<Rightarrow> source_manifest \<Rightarrow> source_failure option" where
  "verifySources svc st m = (case manifest_Validate m of Some e \<Rightarrow> Some (e, []) | None \<Rightarrow> verify_each svc st (sm_Sources m))"

definition all_readable :: "local_store \<Rightarrow> string list \<Rightarrow> bool" where
  "all_readable st digests \<longleftrightarrow> list_all (\<lambda>d. is_ok (Read st d)) digests"

subsection \<open>Validation\<close>

definition validationCandidateFor ::
  "'w knowledge_service \<Rightarrow> call_env \<Rightarrow> governance_db \<Rightarrow> validation_input \<Rightarrow> bool \<Rightarrow> (knowledge_row \<times> principal) result" where
  "validationCandidateFor svc env seen i executed =
     (case RequirePrincipal (env_ctx env) of
        Inl e \<Rightarrow> Err e
      | Inr p \<Rightarrow>
          if \<not> gsv_Contract svc ''knowledge/v1/validation-input.schema.json'' (print_json (json_validation_input i)) then Err ErrValidationRequired
          else (case GetKnowledge (g_knowledge seen) (vi_KnowledgeID i) of
              Inl e \<Rightarrow> Err e
            | Inr item \<Rightarrow>
                let localExecutor = executed \<and> \<not> p_Human p \<and> HasRole p (ki_ProjectID item) ''validation_executor'' in
                if (\<not> p_Human p \<or> \<not> HasRole p (ki_ProjectID item) ''qa'') \<and> \<not> localExecutor then Err ErrForbidden
                else (case AuthorizeProjectAction (gsv_Authorizer svc) (env_ctx env) (ki_ProjectID item) ''knowledge_candidate'' (ki_ID item)
                        (if localExecutor then ''validate_local'' else ''validate'') [(''status'', AttrText (ki_Status item))] of
                    Inl e \<Rightarrow> Err e
                  | Inr _ \<Rightarrow>
                      if vi_ExpectedVersion i < 1 \<or> ki_Version item \<noteq> vi_ExpectedVersion i \<or> ki_Status item \<noteq> ''pending'' \<and> ki_Status item \<noteq> ''approved''
                        then Err ErrVersionConflict
                      else (case manifest_Validate (vi_SourceManifest i) of Some e \<Rightarrow> Err e | None \<Rightarrow> Ok (item, p)))))"

text \<open>The report: its verdict comes from the evidence, never from the caller.\<close>

definition drafted_report ::
  "call_env \<Rightarrow> knowledge_row \<Rightarrow> principal \<Rightarrow> validation_input \<Rightarrow> string \<Rightarrow> validation_command list \<Rightarrow> int \<Rightarrow> artifact \<Rightarrow> knowledge_validation" where
  "drafted_report env item p i method commands started source =
     \<lparr>rep_ID = env_id env 0, rep_SchemaVersion = ValidationSchema, rep_KnowledgeID = ki_ID item, rep_ProjectID = ki_ProjectID item,
      rep_CandidateVersion = ki_Version item, rep_ContentSHA256 = Digest (ki_Content item), rep_SourceManifest = vi_SourceManifest i,
      rep_SourceManifestSHA256 = art_SHA256 source, rep_Method = method, rep_Criteria = vi_Criteria i, rep_Commands = commands,
      rep_Verdict = (if list_all (\<lambda>c. vm_ExitCode c = 0) commands \<and> list_all vc_Passed (vi_Criteria i) then ''pass'' else ''fail''),
      rep_ValidatedBy = p_ID p, rep_StartedAt = started, rep_CompletedAt = env_clock env 1,
      rep_ValidUntil = env_clock env 1 + seconds (if method = ''workpacket'' then 24 * 3600 else 30 * 24 * 3600),
      rep_ReportArtifact = zero_artifact, rep_SourceArtifact = source\<rparr>"

definition recordValidation ::
  "'w knowledge_service \<Rightarrow> call_env \<Rightarrow> local_store \<Rightarrow> governance_db \<Rightarrow> knowledge_row \<Rightarrow> principal \<Rightarrow> validation_input \<Rightarrow> string
     \<Rightarrow> validation_command list \<Rightarrow> int \<Rightarrow> knowledge_validation result \<times> local_store \<times> governance_db" where
  "recordValidation svc env st db item p i method commands started =
     (case verifySources svc st (vi_SourceManifest i) of
        Some (e, _) \<Rightarrow> (Err e, st, db)
      | None \<Rightarrow>
          if \<not> all_readable st (filter (\<lambda>d. d \<noteq> []) (map kns_ArtifactSHA256 (sm_Sources (vi_SourceManifest i))) @ map vm_OutputSHA256 commands)
            then (Err ErrEvidenceUnavailable, st, db)
          else (case Put st (manifest_bytes (vi_SourceManifest i)) ''application/json'' of
              (Inl e, st1) \<Rightarrow> (Err e, st1, db)
            | (Inr source, st1) \<Rightarrow>
                let report = drafted_report env item p i method commands started source
                in (case report_Check report of
                      Some e \<Rightarrow> (Err e, st1, db)
                    | None \<Rightarrow>
                        (case report_bytes report of
                           Inl e \<Rightarrow> (Err e, st1, db)
                         | Inr payload \<Rightarrow> (case Put st1 payload ''application/json'' of
                             (Inl e, st2) \<Rightarrow> (Err e, st2, db)
                           | (Inr a, st2) \<Rightarrow>
                               (case RecordKnowledgeValidation (gsv_Contract svc) (sub_env 1 env) db (report\<lparr>rep_ReportArtifact := a\<rparr>) of
                                  (r, db') \<Rightarrow> (r, st2, db')))))))"

definition RecordManualValidation ::
  "'w knowledge_service \<Rightarrow> call_env \<Rightarrow> local_store \<Rightarrow> governance_db \<Rightarrow> governance_db \<Rightarrow> validation_input
     \<Rightarrow> knowledge_validation result \<times> local_store \<times> governance_db" where
  "RecordManualValidation svc env st seen db i =
     (case validationCandidateFor svc env seen i False of
        Inl e \<Rightarrow> (Err e, st, db)
      | Inr (item, p) \<Rightarrow> recordValidation svc env st db item p i ''manual'' [] (env_clock env 0))"

text \<open>The sources a packet is bound to: an allowlisted repository at exactly its base revision, and that of every context the task used.\<close>

definition bound_to_packet :: "source_manifest \<Rightarrow> string \<Rightarrow> string \<Rightarrow> bool" where
  "bound_to_packet m workspace revision \<longleftrightarrow>
     list_ex (\<lambda>s. kns_Kind s = ''repository'' \<and> kns_Reference s = workspace \<and> kns_Revision s = revision) (sm_Sources m)"

definition uses_bound :: "source_manifest \<Rightarrow> packet \<Rightarrow> used_context list \<Rightarrow> bool" where
  "uses_bound m packet uses \<longleftrightarrow>
     list_all (\<lambda>u. uc_TargetRepository u = pkt_Workspace packet \<and> uc_TargetRevision u = pkt_BaseRevision packet
       \<and> list_ex (\<lambda>s. kns_Kind s = ''repository'' \<and> kns_Reference s = uc_TargetRepository u \<and> kns_Revision s = uc_TargetRevision u
            \<and> kns_Branch s = uc_TargetBranch u) (sm_Sources m)) uses"

fun put_outputs :: "local_store \<Rightarrow> check_result list \<Rightarrow> validation_command list result \<times> local_store" where
  "put_outputs st [] = (Ok [], st)"
| "put_outputs st (c # cs) =
     (case Put st (cr_Output c) ''text/plain'' of
        (Inl e, st1) \<Rightarrow> (Err e, st1)
      | (Inr a, st1) \<Rightarrow>
          (case put_outputs st1 cs of
             (Inl e, st2) \<Rightarrow> (Err e, st2)
           | (Inr rest, st2) \<Rightarrow> (Ok (\<lparr>vm_Argv = cr_Argv c, vm_ExitCode = cr_ExitCode c, vm_OutputSHA256 = art_SHA256 a\<rparr> # rest), st2)))"

text \<open>What is recorded of an accepted patch: the packet and the patch become sources of the report, the outputs of its checks its commands.\<close>

definition executed_sources :: "source_manifest \<Rightarrow> packet \<Rightarrow> artifact \<Rightarrow> artifact \<Rightarrow> source_manifest" where
  "executed_sources m packet packetArtifact patchArtifact =
     m\<lparr>sm_Sources := sm_Sources m @
        [\<lparr>kns_Kind = ''work_packet'', kns_Reference = pkt_ID packet, kns_Revision = [], kns_Branch = [], kns_ApplicableThrough = [],
           kns_ArtifactSHA256 = art_SHA256 packetArtifact\<rparr>,
         \<lparr>kns_Kind = ''patch'', kns_Reference = pkt_ID packet, kns_Revision = [], kns_Branch = [], kns_ApplicableThrough = [],
           kns_ArtifactSHA256 = art_SHA256 patchArtifact\<rparr>]\<rparr>"

definition record_executed ::
  "'w knowledge_service \<Rightarrow> call_env \<Rightarrow> local_store \<Rightarrow> governance_db \<Rightarrow> knowledge_row \<Rightarrow> principal \<Rightarrow> validation_input \<Rightarrow> packet \<Rightarrow> string
     \<Rightarrow> verification_result \<Rightarrow> knowledge_validation result \<times> local_store \<times> governance_db" where
  "record_executed svc env st db item p i packet patch result =
     (case Put st (print_json (json_packet packet)) ''application/json'' of
        (Inl e, st1) \<Rightarrow> (Err e, st1, db)
      | (Inr packetArtifact, st1) \<Rightarrow> (case Put st1 patch ''text/x-diff'' of
          (Inl e, st2) \<Rightarrow> (Err e, st2, db)
        | (Inr patchArtifact, st2) \<Rightarrow>
            if \<not> bound_to_packet (vi_SourceManifest i) (pkt_Workspace packet) (vr_BaseRevision result) then (Err ErrValidationRequired, st2, db)
            else (case put_outputs st2 (vr_Checks result) of
                (Inl e, st3) \<Rightarrow> (Err e, st3, db)
              | (Inr commands, st3) \<Rightarrow>
                  recordValidation svc env st3 db item p
                    (i\<lparr>vi_SourceManifest := executed_sources (vi_SourceManifest i) packet packetArtifact patchArtifact\<rparr>) ''workpacket'' commands
                    (env_clock env 0))))"

definition verifyKnowledgePatch ::
  "'w knowledge_service \<Rightarrow> call_env \<Rightarrow> local_store \<Rightarrow> governance_db \<Rightarrow> governance_db \<Rightarrow> string \<Rightarrow> validation_input \<Rightarrow> packet \<Rightarrow> string \<Rightarrow> 'w
     \<Rightarrow> knowledge_validation result \<times> local_store \<times> governance_db" where
  "verifyKnowledgePatch svc env st seen db tid i packet patch w =
     (case validationCandidateFor svc env seen i True of
        Inl e \<Rightarrow> (Err e, st, db)
      | Inr (item, p) \<Rightarrow>
          if \<not> pkt_LocalOnly packet \<or> pkt_CloudReview packet then (Err ErrForbidden, st, db)
          else if pkt_Checks packet = [] then (Err ErrValidationRequired, st, db)
          else (case verifySources svc st (vi_SourceManifest i) of
              Some (e, _) \<Rightarrow> (Err e, st, db)
            | None \<Rightarrow>
                if \<not> bound_to_packet (vi_SourceManifest i) (pkt_Workspace packet) (pkt_BaseRevision packet) then (Err ErrValidationRequired, st, db)
                else if tid \<noteq> [] \<and> \<not> uses_bound (vi_SourceManifest i) packet (TaskUsedContexts (g_task seen) tid) then (Err ErrQualityBlocked, st, db)
                else (case VerifyPatch (gsv_Host svc) packet patch w of
                    (result, w') \<Rightarrow>
                      (case Put st (gsv_EncodeResult svc result) ''application/json'' of
                         (Inl e, st1) \<Rightarrow> (Err e, st1, db)
                       | (Inr _, st1) \<Rightarrow>
                           if \<not> vr_Accepted result then (Err ErrValidationRequired, st1, db)
                           else record_executed svc env st1 db item p i packet patch result))))"

text \<open>The operation runs in the scope of the task the candidate belongs to, if there is one.\<close>

definition VerifyKnowledgePatch ::
  "'w knowledge_service \<Rightarrow> call_env \<Rightarrow> local_store \<Rightarrow> governance_db \<Rightarrow> governance_db \<Rightarrow> validation_input \<Rightarrow> packet \<Rightarrow> string \<Rightarrow> 'w
     \<Rightarrow> knowledge_validation result \<times> local_store \<times> governance_db" where
  "VerifyKnowledgePatch svc env st seen db i packet patch w =
     (case validationCandidateFor svc env seen i True of
        Inl e \<Rightarrow> (Err e, st, db)
      | Inr (item, _) \<Rightarrow>
          let tid = (if ki_WorkflowID item = [] then []
                     else case repo_GetWorkflowTaskByCandidate (g_task seen) (ki_ID item) of Inl _ \<Rightarrow> [] | Inr t \<Rightarrow> tk_ID t)
          in verifyKnowledgePatch svc env st seen db tid i packet patch w)"

subsection \<open>Decisions\<close>

definition decision_invalid :: "decision_input \<Rightarrow> bool" where
  "decision_invalid i \<longleftrightarrow> di_ExpectedVersion i < 1 \<or> di_IdempotencyKey i = [] \<or> di_Reason i = []
     \<or> di_Decision i \<noteq> ''approve'' \<and> di_Decision i \<noteq> ''reject'' \<or> di_Decision i = ''approve'' \<and> di_ValidationID i = []"

text \<open>The evidence an approval rests on is read again.\<close>

definition approval_evidence :: "'w knowledge_service \<Rightarrow> local_store \<Rightarrow> governance_db \<Rightarrow> knowledge_row \<Rightarrow> decision_input \<Rightarrow> go_error option" where
  "approval_evidence svc st seen item i =
     (if di_Decision i \<noteq> ''approve'' then None
      else case GetKnowledgeValidation seen (di_ValidationID i) of
        Inl _ \<Rightarrow> Some ErrValidationRequired
      | Inr v \<Rightarrow>
          if rep_ProjectID v \<noteq> ki_ProjectID item \<or> rep_KnowledgeID v \<noteq> ki_ID item \<or> rep_CandidateVersion v \<noteq> di_ExpectedVersion i
            then Some ErrValidationRequired
          else (case verifySources svc st (rep_SourceManifest v) of
              Some (e, _) \<Rightarrow> Some e
            | None \<Rightarrow>
                if all_readable st ([art_SHA256 (rep_ReportArtifact v), rep_SourceManifestSHA256 v]
                     @ filter (\<lambda>d. d \<noteq> []) (map kns_ArtifactSHA256 (sm_Sources (rep_SourceManifest v))) @ map vm_OutputSHA256 (rep_Commands v))
                then None else Some ErrEvidenceUnavailable))"

definition decision_payload :: "decision_input \<Rightarrow> string \<Rightarrow> string" where
  "decision_payload i actor = print_json (JObject [(''Input'', json_decision_input i), (''Actor'', JString actor)])"

definition decision_of :: "call_env \<Rightarrow> principal \<Rightarrow> knowledge_row \<Rightarrow> decision_input \<Rightarrow> authorization_decision \<Rightarrow> knowledge_decision" where
  "decision_of env p item i az =
     \<lparr>kd_ID = env_id env 0, kd_KnowledgeID = ki_ID item, kd_ExpectedVersion = di_ExpectedVersion i, kd_ValidationID = di_ValidationID i,
      kd_Decision = di_Decision i, kd_Reason = di_Reason i, kd_IdempotencyKey = di_IdempotencyKey i, kd_Actor = p_ID p,
      kd_RequestSHA256 = Digest (decision_payload i (p_ID p)), kd_Authorization = az, kd_CreatedAt = zero_time\<rparr>"

definition DecideKnowledge ::
  "'w knowledge_service \<Rightarrow> call_env \<Rightarrow> local_store \<Rightarrow> governance_db \<Rightarrow> governance_db \<Rightarrow> decision_input \<Rightarrow> knowledge_row result \<times> governance_db" where
  "DecideKnowledge svc env st seen db input =
     (case RequirePrincipal (env_ctx env) of
        Inl e \<Rightarrow> (Err e, db)
      | Inr p \<Rightarrow>
          let i = input\<lparr>di_Decision := to_lower (trim_space (di_Decision input)), di_Reason := trim_space (di_Reason input)\<rparr> in
          if \<not> gsv_Contract svc ''knowledge/v1/decision.schema.json'' (print_json (json_decision_input i)) then (Err ErrValidationRequired, db)
          else if decision_invalid i then (Err ErrValidationRequired, db)
          else (case GetKnowledge (g_knowledge seen) (di_KnowledgeID i) of
              Inl e \<Rightarrow> (Err e, db)
            | Inr item \<Rightarrow>
                if \<not> p_Human p \<or> \<not> HasRole p (ki_ProjectID item) ''product_owner'' then (Err ErrForbidden, db)
                else (case authorizeUntraced (gsv_Authorizer svc)
                        \<lparr>auth_Principal = p, auth_ResourceKind = ''knowledge_candidate'', auth_ResourceID = ki_ID item, auth_Action = ''decide_validated'',
                         auth_Attributes = [(''project_id'', AttrText (ki_ProjectID item))]\<rparr> of
                    Inl e \<Rightarrow> (Err e, db)
                  | Inr az \<Rightarrow>
                      (case approval_evidence svc st seen item i of
                         Some e \<Rightarrow> (Err e, db)
                       | None \<Rightarrow> repo_DecideKnowledge (sub_env 1 env) db (decision_of env p item i az)))))"

subsection \<open>Refresh of sources\<close>

definition verifyValidationEvidence :: "'w knowledge_service \<Rightarrow> local_store \<Rightarrow> knowledge_validation \<Rightarrow> source_failure option" where
  "verifyValidationEvidence svc st v =
     (if report_Check v \<noteq> None then Some (ErrEvidenceUnavailable, [])
      else case verifySources svc st (rep_SourceManifest v) of
        Some f \<Rightarrow> Some f
      | None \<Rightarrow>
          if all_readable st ([art_SHA256 (rep_ReportArtifact v), rep_SourceManifestSHA256 v] @ map vm_OutputSHA256 (rep_Commands v))
          then None else Some (ErrEvidenceUnavailable, []))"

definition failure_reason :: "source_failure option \<Rightarrow> string" where
  "failure_reason f =
     (case f of
        None \<Rightarrow> ''source_unavailable''
      | Some (e, why) \<Rightarrow>
          if why = ''source_changed'' then ''source_changed'' else if e = ErrEvidenceUnavailable then ''evidence_unavailable'' else ''source_unavailable'')"

text \<open>The version and the validation of an item are those of \<open>KnowledgeQuality\<close>.\<close>

definition RefreshKnowledgeSources ::
  "'w knowledge_service \<Rightarrow> call_env \<Rightarrow> local_store \<Rightarrow> governance_db \<Rightarrow> governance_db \<Rightarrow> string \<Rightarrow> unit result \<times> governance_db" where
  "RefreshKnowledgeSources svc env st seen db kid =
     (case find_row ki_ID kid (g_items seen) of
        None \<Rightarrow> (Err ErrNoRows, db)
      | Some item \<Rightarrow>
          let vid = (case kr_Approval item of None \<Rightarrow> [] | Some v \<Rightarrow> v) in
          (case GetKnowledgeValidation seen vid of
             Inl e \<Rightarrow> (Err e, db)
           | Inr report \<Rightarrow>
               let failure = verifyValidationEvidence svc st report in
               (case RecordSourceCheck (sub_env 1 env) db kid (ki_Version item) vid (failure = None) (failure_reason failure) of
                  (Inl e, db') \<Rightarrow> (Err e, db')
                | (Inr _, db') \<Rightarrow> (case failure of Some (e, _) \<Rightarrow> (Err e, db') | None \<Rightarrow> (Ok (), db')))))"

end
