(* ===== verification/KnowledgeProps.thy ===== *)
theory KnowledgeProps
  imports KnowledgeService
begin

text \<open>
  What governed knowledge guarantees along every sequence of calls: approved knowledge rests on a passed validation of exactly its content and on a
  human decision, decided knowledge never changes, a decision is taken once, and a report of executed checks is what the verifier ran.
\<close>

section \<open>The tables after a write\<close>

lemma add_artifacts_keep [simp]:
  "td_k (g_task (add_artifacts as db)) = td_k (g_task db)" "td_principals (g_task (add_artifacts as db)) = td_principals (g_task db)"
  "td_roles (g_task (add_artifacts as db)) = td_roles (g_task db)" "td_tasks (g_task (add_artifacts as db)) = td_tasks (g_task db)"
  "wf_runs (td_wf (g_task (add_artifacts as db))) = wf_runs (td_wf (g_task db))"
  "g_reports (add_artifacts as db) = g_reports db" "g_decisions (add_artifacts as db) = g_decisions db"
  "g_review_ids (add_artifacts as db) = g_review_ids db" "g_generations (add_artifacts as db) = g_generations db"
proof -
  have "td_k (fold (\<lambda>a t. add_artifact (Some a) t) as t) = td_k t \<and> td_principals (fold (\<lambda>a t. add_artifact (Some a) t) as t) = td_principals t
    \<and> td_roles (fold (\<lambda>a t. add_artifact (Some a) t) as t) = td_roles t \<and> td_tasks (fold (\<lambda>a t. add_artifact (Some a) t) as t) = td_tasks t
    \<and> wf_runs (td_wf (fold (\<lambda>a t. add_artifact (Some a) t) as t)) = wf_runs (td_wf t)" for t
    by (induction as arbitrary: t) (simp_all add: add_artifact_def)
  then show "td_k (g_task (add_artifacts as db)) = td_k (g_task db)" "td_principals (g_task (add_artifacts as db)) = td_principals (g_task db)"
    "td_roles (g_task (add_artifacts as db)) = td_roles (g_task db)" "td_tasks (g_task (add_artifacts as db)) = td_tasks (g_task db)"
    "wf_runs (td_wf (g_task (add_artifacts as db))) = wf_runs (td_wf (g_task db))"
    by (simp_all add: add_artifacts_def)
qed (simp_all add: add_artifacts_def)

lemma set_keep [simp]:
  "g_knowledge (set_knowledge k db) = k" "td_principals (g_task (set_knowledge k db)) = td_principals (g_task db)"
  "g_reports (set_knowledge k db) = g_reports db" "g_decisions (set_knowledge k db) = g_decisions db"
  "g_review_ids (set_knowledge k db) = g_review_ids db" "g_generations (set_knowledge k db) = g_generations db"
  "g_items (set_items rows db) = rows" "k_validations (g_knowledge (set_items rows db)) = k_validations (g_knowledge db)"
  "k_sources (g_knowledge (set_items rows db)) = k_sources (g_knowledge db)" "td_principals (g_task (set_items rows db)) = td_principals (g_task db)"
  "g_reports (set_items rows db) = g_reports db" "g_decisions (set_items rows db) = g_decisions db"
  "g_review_ids (set_items rows db) = g_review_ids db" "g_generations (set_items rows db) = g_generations db"
  by (simp_all add: set_knowledge_def set_items_def)

lemma insert_review_keep [simp]:
  "g_items (insert_review i row db) = g_items db" "k_validations (g_knowledge (insert_review i row db)) = k_validations (g_knowledge db)"
  "k_sources (g_knowledge (insert_review i row db)) = k_sources (g_knowledge db)"
  "td_principals (g_task (insert_review i row db)) = td_principals (g_task db)" "g_reports (insert_review i row db) = g_reports db"
  "g_decisions (insert_review i row db) = g_decisions db"
  by (simp_all add: insert_review_def)

lemma insert_report_keep [simp]:
  "g_items (insert_report v db) = g_items db" "k_validations (g_knowledge (insert_report v db)) = k_validations (g_knowledge db) @ [validation_columns v]"
  "td_principals (g_task (insert_report v db)) = td_principals (g_task db)" "g_reports (insert_report v db) = g_reports db @ [v]"
  "g_decisions (insert_report v db) = g_decisions db"
  by (simp_all add: insert_report_def)

text \<open>What a call may change: at most one item is added or written over, one report or one decision is added.\<close>

definition reasons_ok :: "governance_db \<Rightarrow> bool" where
  "reasons_ok db \<longleftrightarrow> list_all (\<lambda>s. ks_Reason s \<noteq> ''eligible'') (k_sources (g_knowledge db))"

definition same_governance :: "governance_db \<Rightarrow> governance_db \<Rightarrow> bool" where
  "same_governance db db' \<longleftrightarrow> g_items db' = g_items db \<and> k_validations (g_knowledge db') = k_validations (g_knowledge db)
     \<and> g_reports db' = g_reports db \<and> g_decisions db' = g_decisions db \<and> (reasons_ok db \<longrightarrow> reasons_ok db')
     \<and> (\<forall>p \<in> set (td_principals (g_task db)). \<exists>p' \<in> set (td_principals (g_task db')). pr_ID p' = pr_ID p \<and> pr_Kind p' = pr_Kind p)"

definition is_kind :: "governance_db \<Rightarrow> string \<Rightarrow> string \<Rightarrow> bool" where
  "is_kind db kind actor \<longleftrightarrow> (\<exists>p \<in> set (td_principals (g_task db)). pr_ID p = actor \<and> pr_Kind p = kind)"

inductive kg_change :: "governance_db \<Rightarrow> governance_db \<Rightarrow> bool" where
  same: "same_governance db db' \<Longrightarrow> kg_change db db'"
| captured: "find_row ki_ID (ki_ID k) (g_items db) = None \<Longrightarrow> ki_Status k = ''pending''
    \<Longrightarrow> same_governance (set_items (g_items db @ [k]) db) db' \<Longrightarrow> kg_change db db'"
| revised: "k \<in> set (g_items db) \<Longrightarrow> ki_Status k = ''pending'' \<Longrightarrow> same_governance (set_items (put_row ki_ID (revised_item r k) (g_items db)) db) db'
    \<Longrightarrow> kg_change db db'"
| validated: "report_Check v = None \<Longrightarrow> find_row rep_ID (rep_ID v) (g_reports db) = None
    \<Longrightarrow> is_kind db ''human'' (rep_ValidatedBy v) \<or> rep_Method v = ''workpacket'' \<and> is_kind db ''workload'' (rep_ValidatedBy v)
    \<Longrightarrow> same_governance (insert_report v db) db' \<Longrightarrow> kg_change db db'"
| decided: "k \<in> set (g_items db) \<Longrightarrow> ki_Status k = ''pending'' \<or> ki_Status k = ''approved'' \<and> kd_Decision d = ''approve''
    \<Longrightarrow> \<not> list_ex (\<lambda>x. kd_KnowledgeID x = ki_ID k \<and> kd_IdempotencyKey x = kd_IdempotencyKey d) (g_decisions db)
    \<Longrightarrow> is_kind db ''human'' (kd_Actor d)
    \<Longrightarrow> (kd_Decision d = ''approve'' \<Longrightarrow> list_ex (validation_supports (env_db_now env) (decided_item env d k)) (k_validations (g_knowledge db)))
    \<Longrightarrow> (kd_Decision d = ''approve'' \<Longrightarrow> reasons_ok db \<Longrightarrow> ki_Procedure k \<noteq> [] \<and> \<not> sql_blank (ki_Summary k))
    \<Longrightarrow> kd_Decision d = ''approve'' \<or> kd_Decision d = ''reject'' \<Longrightarrow> duplicate_guard db k (decided_item env d k)
    \<Longrightarrow> same_governance ((set_items (put_row ki_ID (decided_item env d k) (g_items db)) db)\<lparr>g_decisions := g_decisions db @ [decision_entry env d k]\<rparr>) db'
    \<Longrightarrow> kg_change db db'"

lemma reasons_keep [simp]:
  "reasons_ok (add_artifacts as db) = reasons_ok db" "reasons_ok (set_items rows db) = reasons_ok db"
  "reasons_ok (insert_review i row db) = reasons_ok db" "reasons_ok (insert_report v db) = reasons_ok db"
  "reasons_ok (db\<lparr>g_decisions := ds\<rparr>) = reasons_ok db" "reasons_ok (db\<lparr>g_generations := gs\<rparr>) = reasons_ok db"
  by (simp_all add: reasons_ok_def insert_report_def verified_source_def set_knowledge_def)

lemma same_governance_refl [simp]: "same_governance db db"
  by (auto simp: same_governance_def)

lemma captured_item_status [simp]: "ki_Status (captured_item env c) = ''pending''" "ki_ID (captured_item env c) = env_id env 0"
  by (simp_all add: captured_item_def)

lemma RecordGeneration_new:
  assumes "RecordGeneration env db c = (r, db')" "db' \<noteq> db"
  shows "find_row ki_ID (env_id env 0) (g_items db) = None \<and> r = Ok (captured_item env c)
    \<and> db' = (set_items (g_items db @ [captured_item env c]) (add_artifacts [gc_PromptArtifact c, gc_OutputArtifact c] db))
       \<lparr>g_generations := g_generations db @ [generation_row c]\<rparr>"
  using assms by (cases "find_row gc_ID (gc_ID c) (g_generations db)"; cases "find_row ki_SourceGenerationID (gc_ID c) (g_items db)")
    (simp_all add: RecordGeneration_def split: if_split_asm)

lemma RecordGeneration_change:
  assumes "RecordGeneration env db c = (r, db')"
  shows "kg_change db db'"
proof (cases "db' = db")
  case False
  note new = RecordGeneration_new [OF assms False]
  then have "same_governance (set_items (g_items db @ [captured_item env c]) db) db'" by (auto simp: same_governance_def)
  with new show ?thesis by (intro kg_change.captured [of "captured_item env c"]) simp_all
qed (simp add: kg_change.same)

lemma repo_RecordReview_new:
  assumes "repo_RecordReview env db r = (u, db')" "db' \<noteq> db"
    and "db1 = insert_review (rv_ID r) (review_columns r)
      (add_artifacts (filter (\<lambda>a. art_SHA256 a \<noteq> []) [rv_ReviewArtifact r, rv_ContextManifestArtifact r]) db)"
  shows "db' = db1 \<or> (\<exists>k. find_row ki_ID (rv_KnowledgeID r) (g_items db) = Some k \<and> ki_Status k = ''pending''
    \<and> db' = set_items (put_row ki_ID (revised_item r k) (g_items db)) db1)"
  using assms(1,2) unfolding repo_RecordReview_def Let_def assms(3) [symmetric]
  by (cases "find_row ki_ID (rv_KnowledgeID r) (g_items db)") (simp_all split: if_split_asm)

lemma repo_RecordReview_change:
  assumes "repo_RecordReview env db r = (u, db')"
  shows "kg_change db db'"
proof (cases "db' = db")
  case False
  define db1 where "db1 = insert_review (rv_ID r) (review_columns r)
    (add_artifacts (filter (\<lambda>a. art_SHA256 a \<noteq> []) [rv_ReviewArtifact r, rv_ContextManifestArtifact r]) db)"
  then have eq: "g_items db1 = g_items db" "same_governance db db1" by (simp, simp add: same_governance_def, blast)
  from repo_RecordReview_new [OF assms False db1_def] show ?thesis
  proof
    assume "db' = db1"
    then show ?thesis using eq by (simp add: kg_change.same)
  next
    assume "\<exists>k. find_row ki_ID (rv_KnowledgeID r) (g_items db) = Some k \<and> ki_Status k = ''pending''
      \<and> db' = set_items (put_row ki_ID (revised_item r k) (g_items db)) db1"
    then obtain k where k: "find_row ki_ID (rv_KnowledgeID r) (g_items db) = Some k" "ki_Status k = ''pending''"
      "db' = set_items (put_row ki_ID (revised_item r k) (g_items db)) db1" by blast
    have "k \<in> set (g_items db)" using find_row_SomeD [OF k(1)] by simp
    moreover have "same_governance (set_items (put_row ki_ID (revised_item r k) (g_items db)) db) db'"
      using eq(2) by (simp add: k(3) same_governance_def)
    ultimately show ?thesis using k(2) by (metis kg_change.revised)
  qed
qed (simp add: kg_change.same)

lemma database_role_kind: "database_role env db kind actor project role \<Longrightarrow> is_kind db kind actor"
  by (auto simp: database_role_def is_kind_def list_ex_iff)

lemma RecordKnowledgeValidation_change:
  assumes "RecordKnowledgeValidation contract env db v = (r, db')"
  shows "kg_change db db'"
proof (cases "db' = db")
  case False
  then have v: "report_Check v = None" "validator_allowed env db v" "find_row rep_ID (rep_ID v) (g_reports db) = None"
    "db' = insert_report v (add_artifacts [rep_SourceArtifact v, rep_ReportArtifact v] db)"
    using assms by (auto simp: RecordKnowledgeValidation_def report_fits_def split: option.split_asm if_split_asm sum.split_asm)
  have "same_governance (insert_report v db) db'" by (auto simp: v(4) same_governance_def)
  then show ?thesis using v(1-3) database_role_kind unfolding validator_allowed_def by (blast intro: kg_change.validated)
qed (simp add: kg_change.same)

lemma checked_source_reasons:
  assumes "list_all (\<lambda>s. ks_Reason s \<noteq> ''eligible'') rows" "why \<noteq> ''eligible''"
  shows "list_all (\<lambda>s. ks_Reason s \<noteq> ''eligible'') (checked_source env v valid why rows)"
  using assms by (auto simp: checked_source_def put_row_def list_all_iff split: option.split)

lemma RecordSourceCheck_change:
  assumes "RecordSourceCheck env db kid version vid valid reason = (r, db')"
  shows "kg_change db db'"
proof (cases "db' = db")
  case False
  then obtain v where why: "valid \<or> reason \<in> set [''source_changed'', ''source_unavailable'', ''evidence_unavailable'']"
    and db': "db' = (set_knowledge ((g_knowledge db)\<lparr>k_sources := checked_source env v valid (if valid then ''verified'' else reason)
        (k_sources (g_knowledge db))\<rparr>) db)\<lparr>g_receipts := g_receipts db @ [(vid, valid, if valid then ''verified'' else reason)]\<rparr>"
    using assms unfolding RecordSourceCheck_def Let_def by (simp split: if_split_asm option.split_asm) blast+
  have "reasons_ok db \<longrightarrow> reasons_ok db'"
    using why by (auto simp: db' reasons_ok_def set_knowledge_def intro!: checked_source_reasons)
  then have "same_governance db db'" by (auto simp: same_governance_def db')
  then show ?thesis by (rule kg_change.same)
qed (simp add: kg_change.same)

lemma approvable_supports:
  assumes "approvable env db k (kd_ValidationID d)" "kd_Decision d = ''approve''"
  shows "list_ex (validation_supports (env_db_now env) (decided_item env d k)) (k_validations (g_knowledge db))"
proof -
  obtain v where "v \<in> set (k_validations (g_knowledge db))" "kv_ID v = kd_ValidationID d" "kv_KnowledgeID v = ki_ID k" "kv_ProjectID v = ki_ProjectID k"
    "kv_CandidateVersion v = ki_Version k" "kv_ContentSHA256 v = Digest (ki_Content k)" "kv_Verdict v = ''pass''"
    "kv_CompletedAt v \<le> env_db_now env" "env_db_now env < kv_ValidUntil v"
    using assms(1) by (auto simp: approvable_def list_ex_iff Let_def split: option.split_asm)
  then show ?thesis using assms(2) unfolding list_ex_iff validation_supports_def decided_item_def
    by (intro bexI [of _ v]) simp_all
qed

lemma eligible_complete:
  assumes "knowledge_eligible now db k consumer" "list_all (\<lambda>s. ks_Reason s \<noteq> ''eligible'') (k_sources db)"
  shows "ki_Procedure k \<noteq> [] \<and> \<not> sql_blank (ki_Summary k) \<and> \<not> sql_blank (ki_Content k)"
proof -
  have "ks_Reason s \<noteq> ''eligible''" if "find_row ks_ValidationID i (k_sources db) = Some s" for i s
    using assms(2) find_row_SomeD [OF that] by (simp add: list_all_iff)
  then show ?thesis using assms(1) unfolding knowledge_eligible_def knowledge_quality_reason_def
    by (simp split: if_split_asm option.split_asm)
qed

lemma decided_item_keeps [simp]:
  "ki_ID (decided_item env d k) = ki_ID k" "ki_ProjectID (decided_item env d k) = ki_ProjectID k" "ki_Version (decided_item env d k) = ki_Version k"
  "ki_Content (decided_item env d k) = ki_Content k" "ki_Summary (decided_item env d k) = ki_Summary k"
  "ki_Procedure (decided_item env d k) = ki_Procedure k" "ki_Title (decided_item env d k) = ki_Title k"
  "kd_Decision d = ''approve'' \<Longrightarrow> kr_Approval (decided_item env d k) = Some (kd_ValidationID d)"
  "kd_Decision d = ''approve'' \<Longrightarrow> ki_Status (decided_item env d k) = ''approved''"
  "kd_Decision d = ''reject'' \<Longrightarrow> ki_Status (decided_item env d k) = ''rejected''"
  "kd_Decision d = ''reject'' \<Longrightarrow> kr_Approval (decided_item env d k) = None"
  by (simp_all add: decided_item_def)

lemma decision_entry_keeps [simp]:
  "kd_KnowledgeID (decision_entry env d k) = ki_ID k" "kd_ExpectedVersion (decision_entry env d k) = ki_Version k"
  "kd_Decision (decision_entry env d k) = kd_Decision d" "kd_Actor (decision_entry env d k) = kd_Actor d"
  "kd_ValidationID (decision_entry env d k) = kd_ValidationID d" "kd_IdempotencyKey (decision_entry env d k) = kd_IdempotencyKey d"
  "kd_RequestSHA256 (decision_entry env d k) = kd_RequestSHA256 d"
  by (simp_all add: decision_entry_def)

lemma commit_decision_new:
  assumes "commit_decision env db d k = (r, db')" "db' \<noteq> db"
    and "db2 = set_items (put_row ki_ID (decided_item env d k) (g_items db)) (db\<lparr>g_decisions := g_decisions db @ [decision_entry env d k]\<rparr>)"
  shows "r = Ok (decided_item env d k) \<and> db' = insert_review (kd_ID d) (decision_review d k) db2
    \<and> duplicate_guard (db\<lparr>g_decisions := g_decisions db @ [decision_entry env d k]\<rparr>) k (decided_item env d k)
    \<and> publication_guard (env_db_now env) db2 (decided_item env d k)"
  using assms(1,2) unfolding commit_decision_def Let_def assms(3) [symmetric] by (simp split: if_split_asm)

lemma repo_DecideKnowledge_new:
  assumes "repo_DecideKnowledge env db d = (r, db')" "db' \<noteq> db"
  shows "\<exists>k. find_row ki_ID (kd_KnowledgeID d) (g_items db) = Some k
    \<and> \<not> list_ex (\<lambda>x. kd_KnowledgeID x = ki_ID k \<and> kd_IdempotencyKey x = kd_IdempotencyKey d) (g_decisions db)
    \<and> database_role env db ''human'' (kd_Actor d) (ki_ProjectID k) ''product_owner''
    \<and> (kd_Decision d = ''approve'' \<or> kd_Decision d = ''reject'')
    \<and> (ki_Status k = ''pending'' \<or> ki_Status k = ''approved'' \<and> kd_Decision d = ''approve'') \<and> ki_Version k = kd_ExpectedVersion d
    \<and> check_approval env db k d = None \<and> commit_decision env db d k = (r, db')"
  using assms unfolding repo_DecideKnowledge_def
  by (auto simp: decision_blank_def list_ex_iff dest: find_None_iff [THEN iffD1] split: if_split_asm option.split_asm)

lemma check_approval_None:
  "check_approval env db k d = None \<Longrightarrow> kd_Decision d = ''approve'' \<Longrightarrow> approvable env db k (kd_ValidationID d)"
  by (simp add: check_approval_def split: option.split_asm if_split_asm)

lemma repo_DecideKnowledge_change:
  assumes "repo_DecideKnowledge env db d = (r, db')"
  shows "kg_change db db'"
proof (cases "db' = db")
  case False
  obtain k where k: "find_row ki_ID (kd_KnowledgeID d) (g_items db) = Some k"
      "\<not> list_ex (\<lambda>x. kd_KnowledgeID x = ki_ID k \<and> kd_IdempotencyKey x = kd_IdempotencyKey d) (g_decisions db)"
    and role: "database_role env db ''human'' (kd_Actor d) (ki_ProjectID k) ''product_owner''"
    and dec: "kd_Decision d = ''approve'' \<or> kd_Decision d = ''reject''"
    and status: "ki_Status k = ''pending'' \<or> ki_Status k = ''approved'' \<and> kd_Decision d = ''approve''"
    and check: "check_approval env db k d = None" and commit: "commit_decision env db d k = (r, db')"
    using repo_DecideKnowledge_new [OF assms False] by blast
  define db2 where "db2 = set_items (put_row ki_ID (decided_item env d k) (g_items db)) (db\<lparr>g_decisions := g_decisions db @ [decision_entry env d k]\<rparr>)"
  note new = commit_decision_new [OF commit False db2_def]
  have mem: "k \<in> set (g_items db)" using find_row_SomeD [OF k(1)] by simp
  have support: "kd_Decision d = ''approve'' \<Longrightarrow> list_ex (validation_supports (env_db_now env) (decided_item env d k)) (k_validations (g_knowledge db))"
    using approvable_supports check_approval_None [OF check] by blast
  have complete: "ki_Procedure k \<noteq> [] \<and> \<not> sql_blank (ki_Summary k)" if d: "kd_Decision d = ''approve''" and ok: "reasons_ok db"
  proof -
    have "knowledge_eligible (env_db_now env) (g_knowledge db2) (decided_item env d k) ''development_guidance''"
      using new d by (simp add: publication_guard_def)
    moreover have "list_all (\<lambda>s. ks_Reason s \<noteq> ''eligible'') (k_sources (g_knowledge db2))"
      using ok by (simp add: db2_def reasons_ok_def)
    ultimately show ?thesis using eligible_complete by fastforce
  qed
  have same: "same_governance ((set_items (put_row ki_ID (decided_item env d k) (g_items db)) db)
      \<lparr>g_decisions := g_decisions db @ [decision_entry env d k]\<rparr>) db'"
    using new by (auto simp: db2_def same_governance_def set_items_def set_knowledge_def reasons_ok_def insert_review_def)
  have dup: "duplicate_guard db k (decided_item env d k)" using new by (simp add: duplicate_guard_def)
  show ?thesis
    by (rule kg_change.decided [OF mem status k(2) database_role_kind [OF role] support complete dec dup same])
qed (simp add: kg_change.same)

section \<open>Every sequence of calls\<close>

text \<open>
  The calls of the repository in any order and with any arguments: the service's operations are such calls. Other parts of the program
  write other tables; \<open>elsewhere\<close> stands for them, for new principals and for reads.
\<close>

inductive kg_step :: "governance_db \<Rightarrow> governance_db \<Rightarrow> bool" where
  record_generation: "RecordGeneration env db c = (r, db') \<Longrightarrow> kg_step db db'"
| record_review: "repo_RecordReview env db rv = (u, db') \<Longrightarrow> kg_step db db'"
| record_validation: "RecordKnowledgeValidation contract env db v = (r, db') \<Longrightarrow> kg_step db db'"
| decide: "repo_DecideKnowledge env db d = (r, db') \<Longrightarrow> kg_step db db'"
| source_check: "RecordSourceCheck env db kid version vid valid reason = (u, db') \<Longrightarrow> kg_step db db'"
| elsewhere: "same_governance db db' \<Longrightarrow> kg_step db db'"

lemma kg_step_change: "kg_step db db' \<Longrightarrow> kg_change db db'"
  by (induction rule: kg_step.induct)
    (rule RecordGeneration_change repo_RecordReview_change RecordKnowledgeValidation_change repo_DecideKnowledge_change RecordSourceCheck_change
      kg_change.same, assumption)+

lemma service_steps:
  "Capture svc env st db i = (r, st', db') \<Longrightarrow> kg_step db db'"
  "RecordReview svc env st db rv = (r', st', db') \<Longrightarrow> kg_step db db'"
  by (auto simp: Capture_def RecordReview_def Let_def split: if_split_asm prod.split_asm sum.split_asm
      intro: kg_step.record_generation kg_step.record_review kg_step.elsewhere)

lemma recordValidation_step: "recordValidation svc env st db item p i method commands started = (r, st', db') \<Longrightarrow> kg_step db db'"
  by (auto simp: recordValidation_def Let_def split: if_split_asm prod.split_asm sum.split_asm option.split_asm
      intro: kg_step.record_validation kg_step.elsewhere)

lemma RecordManualValidation_step: "RecordManualValidation svc env st seen db i = (r, st', db') \<Longrightarrow> kg_step db db'"
  by (auto simp: RecordManualValidation_def split: sum.split_asm intro: recordValidation_step kg_step.elsewhere)

lemma record_executed_step: "record_executed svc env st db item p i packet patch result = (r, st', db') \<Longrightarrow> kg_step db db'"
  by (auto simp: record_executed_def split: if_split_asm prod.split_asm sum.split_asm intro: recordValidation_step kg_step.elsewhere)

lemma verifyKnowledgePatch_step: "verifyKnowledgePatch svc env st seen db tid i packet patch w = (r, st', db') \<Longrightarrow> kg_step db db'"
  by (auto simp: verifyKnowledgePatch_def split: if_split_asm prod.split_asm sum.split_asm option.split_asm
      intro: record_executed_step kg_step.elsewhere)

lemma VerifyKnowledgePatch_step: "VerifyKnowledgePatch svc env st seen db i packet patch w = (r, st', db') \<Longrightarrow> kg_step db db'"
  by (auto simp: VerifyKnowledgePatch_def Let_def split: prod.split_asm sum.split_asm intro: verifyKnowledgePatch_step kg_step.elsewhere)

lemma DecideKnowledge_step: "DecideKnowledge svc env st seen db i = (r, db') \<Longrightarrow> kg_step db db'"
  by (auto simp: DecideKnowledge_def Let_def split: if_split_asm prod.split_asm sum.split_asm option.split_asm
      intro: kg_step.decide kg_step.elsewhere)

lemma RefreshKnowledgeSources_step: "RefreshKnowledgeSources svc env st seen db kid = (r, db') \<Longrightarrow> kg_step db db'"
  by (auto simp: RefreshKnowledgeSources_def Let_def split: if_split_asm prod.split_asm sum.split_asm option.split_asm
      intro: kg_step.source_check kg_step.elsewhere)

section \<open>The invariant\<close>

definition report_by :: "governance_db \<Rightarrow> knowledge_validation \<Rightarrow> bool" where
  "report_by db v \<longleftrightarrow> report_Check v = None
     \<and> (is_kind db ''human'' (rep_ValidatedBy v) \<or> rep_Method v = ''workpacket'' \<and> is_kind db ''workload'' (rep_ValidatedBy v))"

definition decision_key :: "knowledge_decision \<Rightarrow> string \<times> string" where
  "decision_key d = (kd_KnowledgeID d, kd_IdempotencyKey d)"

text \<open>An approval rests on a report of exactly the item's version and content, and on a decision for that version.\<close>

definition rests_on :: "knowledge_row \<Rightarrow> knowledge_validation \<Rightarrow> knowledge_decision \<Rightarrow> bool" where
  "rests_on k v d \<longleftrightarrow> kr_Approval k = Some (rep_ID v) \<and> rep_KnowledgeID v = ki_ID k \<and> rep_ProjectID v = ki_ProjectID k
     \<and> rep_CandidateVersion v = ki_Version k \<and> rep_ContentSHA256 v = Digest (ki_Content k) \<and> rep_Verdict v = ''pass''
     \<and> kd_KnowledgeID d = ki_ID k \<and> kd_ValidationID d = rep_ID v \<and> kd_ExpectedVersion d = ki_Version k \<and> kd_Decision d = ''approve''"

definition approval_ok :: "knowledge_validation list \<Rightarrow> knowledge_decision list \<Rightarrow> knowledge_row \<Rightarrow> bool" where
  "approval_ok reports decisions k \<longleftrightarrow> ki_Status k = ''approved'' \<longrightarrow>
     ki_Procedure k \<noteq> [] \<and> \<not> sql_blank (ki_Summary k) \<and> (\<exists>v \<in> set reports. \<exists>d \<in> set decisions. rests_on k v d)"

definition approvals_ok :: "governance_db \<Rightarrow> bool" where
  "approvals_ok db \<longleftrightarrow> list_all (approval_ok (g_reports db) (g_decisions db)) (g_items db)"

definition content_unique :: "governance_db \<Rightarrow> bool" where
  "content_unique db \<longleftrightarrow> (\<forall>k \<in> set (g_items db). \<forall>k2 \<in> set (g_items db).
     ki_Status k = ''approved'' \<and> ki_Status k2 = ''approved'' \<and> ki_ProjectID k2 = ki_ProjectID k \<and> ki_Content k2 = ki_Content k \<longrightarrow> ki_ID k2 = ki_ID k)"

definition governed :: "governance_db \<Rightarrow> bool" where
  "governed db \<longleftrightarrow> distinct (map ki_ID (g_items db)) \<and> k_validations (g_knowledge db) = map validation_columns (g_reports db)
     \<and> list_all (report_by db) (g_reports db) \<and> list_all (\<lambda>d. is_kind db ''human'' (kd_Actor d)) (g_decisions db)
     \<and> distinct (map decision_key (g_decisions db)) \<and> reasons_ok db \<and> approvals_ok db \<and> content_unique db"

lemma same_is_kind: "same_governance db db' \<Longrightarrow> is_kind db kind a \<Longrightarrow> is_kind db' kind a"
  unfolding same_governance_def is_kind_def by metis

lemma content_unique_same: "g_items db' = g_items db \<Longrightarrow> content_unique db' = content_unique db"
  by (simp only: content_unique_def)

lemma same_governed:
  assumes "same_governance db db'" "governed db"
  shows "governed db'"
proof -
  note kinds = same_is_kind [OF assms(1)]
  have "list_all (report_by db') (g_reports db)" "list_all (\<lambda>d. is_kind db' ''human'' (kd_Actor d)) (g_decisions db)"
    using assms(2) kinds by (auto simp: governed_def report_by_def list_all_iff)
  moreover have "content_unique db' = content_unique db" by (rule content_unique_same) (use assms(1) in \<open>simp add: same_governance_def\<close>)
  ultimately show ?thesis using assms by (simp add: governed_def same_governance_def approvals_ok_def)
qed

lemma is_kind_set_items [simp]:
  "is_kind (set_items rows db) = is_kind db" "is_kind (insert_report v db) = is_kind db" "is_kind (db\<lparr>g_decisions := ds\<rparr>) = is_kind db"
  by (simp_all add: is_kind_def fun_eq_iff)

lemma report_by_keep [simp]:
  "report_by (set_items rows db) = report_by db" "report_by (insert_report v db) = report_by db" "report_by (db\<lparr>g_decisions := ds\<rparr>) = report_by db"
  by (simp_all add: report_by_def fun_eq_iff)

lemma put_row_mem: "x \<in> set (put_row key r rows) \<Longrightarrow> x = r \<or> x \<in> set rows \<and> key x \<noteq> key r"
  by (auto simp: put_row_def)

text \<open>Only items that become approved can break the two facts on approved items.\<close>

lemma governed_items:
  assumes "governed db" "distinct (map ki_ID rows)"
    and "\<And>k. k \<in> set rows \<Longrightarrow> ki_Status k = ''approved'' \<Longrightarrow> k \<in> set (g_items db)"
  shows "governed (set_items rows db)"
proof -
  have "approvals_ok (set_items rows db)" using assms(1,3) unfolding governed_def approvals_ok_def
    by (simp add: list_all_iff approval_ok_def)
  moreover have "content_unique (set_items rows db)" using assms(1,3) unfolding governed_def content_unique_def by simp
  ultimately show ?thesis using assms(1,2) by (simp add: governed_def)
qed

lemma governed_approval: "governed db \<Longrightarrow> k \<in> set (g_items db) \<Longrightarrow> approval_ok (g_reports db) (g_decisions db) k"
  unfolding governed_def approvals_ok_def list_all_iff by blast

lemma approval_ok_mono:
  assumes "approval_ok reports decisions k" "set reports \<subseteq> set reports'" "set decisions \<subseteq> set decisions'"
  shows "approval_ok reports' decisions' k"
  using assms unfolding approval_ok_def by blast

lemma governed_report:
  assumes "governed db" "report_by db v"
  shows "governed (insert_report v db)"
proof -
  have "approval_ok (g_reports db @ [v]) (g_decisions db) k" if "k \<in> set (g_items db)" for k
    by (rule approval_ok_mono [OF governed_approval [OF assms(1) that]]) auto
  then have "approvals_ok (insert_report v db)" by (simp add: approvals_ok_def list_all_iff)
  moreover have "content_unique (insert_report v db) = content_unique db" by (rule content_unique_same) simp
  ultimately show ?thesis using assms by (simp add: governed_def)
qed

lemma revised_item_keeps [simp]: "ki_ID (revised_item r k) = ki_ID k" "ki_Status (revised_item r k) = ki_Status k"
  by (simp_all add: revised_item_def)

lemma captured_governed:
  assumes "governed db" "find_row ki_ID (ki_ID k) (g_items db) = None" "ki_Status k = ''pending''"
  shows "governed (set_items (g_items db @ [k]) db)"
  using assms by (intro governed_items) (auto simp: governed_def find_row_None)

lemma revised_governed:
  assumes "governed db" "ki_Status k = ''pending''"
  shows "governed (set_items (put_row ki_ID (revised_item r k) (g_items db)) db)"
proof (rule governed_items [OF assms(1)])
  show "distinct (map ki_ID (put_row ki_ID (revised_item r k) (g_items db)))" using assms(1) by (simp add: governed_def)
  show "x \<in> set (g_items db)" if "x \<in> set (put_row ki_ID (revised_item r k) (g_items db))" "ki_Status x = ''approved''" for x
    using put_row_mem [OF that(1)] that(2) assms(2) by auto
qed

lemma supported_report:
  assumes "governed db" "list_ex (validation_supports now k) (k_validations (g_knowledge db))"
  obtains v where "v \<in> set (g_reports db)" "kr_Approval k = Some (rep_ID v)" "rep_KnowledgeID v = ki_ID k" "rep_ProjectID v = ki_ProjectID k"
    "rep_CandidateVersion v = ki_Version k" "rep_ContentSHA256 v = Digest (ki_Content k)" "rep_Verdict v = ''pass''"
proof -
  have "k_validations (g_knowledge db) = map validation_columns (g_reports db)" using assms(1) unfolding governed_def by blast
  with assms(2) obtain v where "v \<in> set (g_reports db)" "validation_supports now k (validation_columns v)"
    unfolding list_ex_iff by auto
  with that show thesis by (simp add: validation_supports_def validation_columns_def)
qed

lemma decided_approval:
  assumes "governed db" "k \<in> set (g_items db)"
    and "kd_Decision d = ''approve'' \<Longrightarrow> list_ex (validation_supports (env_db_now env) (decided_item env d k)) (k_validations (g_knowledge db))"
    and "kd_Decision d = ''approve'' \<Longrightarrow> reasons_ok db \<Longrightarrow> ki_Procedure k \<noteq> [] \<and> \<not> sql_blank (ki_Summary k)"
    and dec: "kd_Decision d = ''approve'' \<or> kd_Decision d = ''reject''"
  shows "approval_ok (g_reports db) (g_decisions db @ [decision_entry env d k]) (decided_item env d k)"
proof (cases "kd_Decision d = ''approve''")
  case True
  have "reasons_ok db" using assms(1) unfolding governed_def by blast
  with assms(4) True have complete: "ki_Procedure k \<noteq> [] \<and> \<not> sql_blank (ki_Summary k)" by blast
  obtain v where v: "v \<in> set (g_reports db)" "kr_Approval (decided_item env d k) = Some (rep_ID v)" "rep_KnowledgeID v = ki_ID k"
    "rep_ProjectID v = ki_ProjectID k" "rep_CandidateVersion v = ki_Version k" "rep_ContentSHA256 v = Digest (ki_Content k)" "rep_Verdict v = ''pass''"
    using supported_report [OF assms(1) assms(3) [OF True]] by (metis decided_item_keeps(1-4))
  then have "rests_on (decided_item env d k) v (decision_entry env d k)" using True by (simp add: rests_on_def)
  then show ?thesis using v(1) complete unfolding approval_ok_def by auto
next
  case False
  with dec show ?thesis by (simp add: approval_ok_def)
qed

lemma approved_rests:
  assumes "governed db" "k \<in> set (g_items db)" "ki_Status k = ''approved''"
  shows "\<exists>v \<in> set (g_reports db). \<exists>d \<in> set (g_decisions db). rests_on k v d"
  using governed_approval [OF assms(1,2)] assms(3) by (simp add: approval_ok_def)

lemma no_other_content:
  assumes "governed db" "k \<in> set (g_items db)" "duplicate_guard db k (decided_item env d k)" "ki_Status (decided_item env d k) = ''approved''"
    and x: "x \<in> set (g_items db)" "ki_Status x = ''approved''" "ki_ProjectID x = ki_ProjectID k" "ki_Content x = ki_Content k"
  shows "ki_ID x = ki_ID k"
proof (cases "ki_Status k = ''approved''")
  case True
  with assms(1,2) x show ?thesis unfolding governed_def content_unique_def by blast
next
  case False
  have "kr_Approval x \<noteq> None" using approved_rests [OF assms(1) x(1,2)] by (auto simp: rests_on_def)
  then show ?thesis using assms(3,4) False x by (auto simp: duplicate_guard_def list_ex_iff)
qed

lemma decided_unique:
  assumes "governed db" "k \<in> set (g_items db)" "duplicate_guard db k (decided_item env d k)"
  shows "content_unique (set_items (put_row ki_ID (decided_item env d k) (g_items db)) db)"
proof -
  have old: "ki_ID y = ki_ID x" if "x \<in> set (g_items db)" "y \<in> set (g_items db)" "ki_Status x = ''approved''" "ki_Status y = ''approved''"
      "ki_ProjectID y = ki_ProjectID x" "ki_Content y = ki_Content x" for x y
    using assms(1) that unfolding governed_def content_unique_def by blast
  note other = no_other_content [OF assms]
  show ?thesis unfolding content_unique_def set_keep
  proof (intro ballI impI)
    fix x y assume x: "x \<in> set (put_row ki_ID (decided_item env d k) (g_items db))" and y: "y \<in> set (put_row ki_ID (decided_item env d k) (g_items db))"
      and *: "ki_Status x = ''approved'' \<and> ki_Status y = ''approved'' \<and> ki_ProjectID y = ki_ProjectID x \<and> ki_Content y = ki_Content x"
    show "ki_ID y = ki_ID x"
    proof (cases "x = decided_item env d k"; cases "y = decided_item env d k")
      assume "x = decided_item env d k" "y \<noteq> decided_item env d k"
      then show ?thesis using other [of y] put_row_mem [OF y] * by simp
    next
      assume "x \<noteq> decided_item env d k" "y = decided_item env d k"
      then show ?thesis using other [of x] put_row_mem [OF x] * by simp
    next
      assume "x \<noteq> decided_item env d k" "y \<noteq> decided_item env d k"
      then show ?thesis using old [of x y] put_row_mem [OF x] put_row_mem [OF y] * by simp
    qed simp
  qed
qed

lemma decided_governed:
  assumes gov: "governed db" and k: "k \<in> set (g_items db)"
    and key: "\<not> list_ex (\<lambda>x. kd_KnowledgeID x = ki_ID k \<and> kd_IdempotencyKey x = kd_IdempotencyKey d) (g_decisions db)"
    and human: "is_kind db ''human'' (kd_Actor d)"
    and support: "kd_Decision d = ''approve'' \<Longrightarrow> list_ex (validation_supports (env_db_now env) (decided_item env d k)) (k_validations (g_knowledge db))"
    and complete: "kd_Decision d = ''approve'' \<Longrightarrow> reasons_ok db \<Longrightarrow> ki_Procedure k \<noteq> [] \<and> \<not> sql_blank (ki_Summary k)"
    and dec: "kd_Decision d = ''approve'' \<or> kd_Decision d = ''reject''" and dup: "duplicate_guard db k (decided_item env d k)"
  shows "governed ((set_items (put_row ki_ID (decided_item env d k) (g_items db)) db)\<lparr>g_decisions := g_decisions db @ [decision_entry env d k]\<rparr>)"
    (is "governed ?db")
proof -
  have "approval_ok (g_reports db) (g_decisions db @ [decision_entry env d k]) x"
    if x: "x \<in> set (put_row ki_ID (decided_item env d k) (g_items db))" for x
  proof (cases "x = decided_item env d k")
    case True
    then show ?thesis using decided_approval [OF gov k support complete dec] by simp
  next
    case False
    then have "x \<in> set (g_items db)" using put_row_mem [OF x] by simp
    show ?thesis by (rule approval_ok_mono [OF governed_approval [OF gov \<open>x \<in> set (g_items db)\<close>]]) auto
  qed
  then have "approvals_ok ?db" by (simp add: approvals_ok_def list_all_iff)
  moreover have "content_unique ?db"
    using decided_unique [OF gov k dup] content_unique_same [of ?db "set_items (put_row ki_ID (decided_item env d k) (g_items db)) db"] by simp
  moreover have "distinct (map decision_key (g_decisions db @ [decision_entry env d k]))"
    using gov key by (auto simp: governed_def decision_key_def list_ex_iff)
  ultimately show ?thesis using gov human by (simp add: governed_def)
qed

lemma kg_change_governed: "kg_change db db' \<Longrightarrow> governed db \<Longrightarrow> governed db'"
proof (induction rule: kg_change.induct)
  case (same db db')
  then show ?case by (blast intro: same_governed)
next
  case (captured k db db')
  then show ?case by (blast intro: same_governed captured_governed)
next
  case (revised k db r db')
  then show ?case by (blast intro: same_governed revised_governed)
next
  case (validated v db db')
  then have "report_by db v" by (simp add: report_by_def)
  with validated show ?case by (blast intro: same_governed governed_report)
next
  case (decided k db d env db')
  show ?case by (rule same_governed [OF decided(9) decided_governed [OF decided(10,1,3,4,5,6,7,8)]])
qed

section \<open>What stays\<close>

definition still_decided :: "knowledge_row \<Rightarrow> knowledge_row \<Rightarrow> bool" where
  "still_decided k k' \<longleftrightarrow> k' = k\<lparr>ki_ApprovedAt := ki_ApprovedAt k', kr_Approval := kr_Approval k'\<rparr> \<and> (ki_Status k \<noteq> ''approved'' \<longrightarrow> k' = k)"

lemma still_decided_refl [simp]: "still_decided k k"
  by (simp add: still_decided_def)

lemma still_decided_trans: "still_decided k k1 \<Longrightarrow> still_decided k1 k2 \<Longrightarrow> still_decided k k2"
  by (cases k, cases k1, cases k2) (auto simp: still_decided_def)

lemma decided_item_still: "ki_Status k = ''approved'' \<Longrightarrow> kd_Decision d = ''approve'' \<Longrightarrow> still_decided k (decided_item env d k)"
  by (cases k) (simp add: still_decided_def decided_item_def)

lemma still_status: "still_decided k k' \<Longrightarrow> ki_Status k' = ki_Status k"
  by (cases k, cases k') (auto simp: still_decided_def)

lemma put_row_keeps: "x \<in> set rows \<Longrightarrow> key x \<noteq> key r \<Longrightarrow> x \<in> set (put_row key r rows)"
  by (auto simp: put_row_def)

lemma put_row_has: "k \<in> set rows \<Longrightarrow> key r = key k \<Longrightarrow> r \<in> set (put_row key r rows)"
  by (force simp: put_row_def)

lemma distinct_key: "distinct (map key rows) \<Longrightarrow> x \<in> set rows \<Longrightarrow> y \<in> set rows \<Longrightarrow> key x = key y \<Longrightarrow> x = y"
  by (metis distinct_map inj_on_def)

lemma kg_change_still:
  assumes "kg_change db db'" "distinct (map ki_ID (g_items db))" "k \<in> set (g_items db)" "ki_Status k \<noteq> ''pending''"
  shows "\<exists>k' \<in> set (g_items db'). still_decided k k'"
  using assms
proof (induction rule: kg_change.induct)
  case (same db db')
  then show ?case unfolding same_governance_def by (metis still_decided_refl)
next
  case (captured x db db')
  then have "g_items db' = g_items db @ [x]" by (simp add: same_governance_def)
  then show ?case using captured(5) by (intro bexI [of _ k]) simp_all
next
  case (revised x db r db')
  then have "g_items db' = put_row ki_ID (revised_item r x) (g_items db)" by (simp add: same_governance_def)
  moreover have "ki_ID k \<noteq> ki_ID (revised_item r x)" using distinct_key [OF revised(4,5,1)] revised(2,6) by auto
  ultimately show ?case using put_row_keeps [OF revised(5), of ki_ID "revised_item r x"] by (intro bexI [of _ k]) simp_all
next
  case (validated v db db')
  then show ?case unfolding same_governance_def by (metis insert_report_keep(1) still_decided_refl)
next
  case (decided x db d env db')
  have items: "g_items db' = put_row ki_ID (decided_item env d x) (g_items db)" using decided(9) by (simp add: same_governance_def)
  show ?case
  proof (cases "ki_ID k = ki_ID x")
    case True
    then have "k = x" using distinct_key [OF decided(10,11,1)] by simp
    then show ?thesis using decided(2,11,12) decided_item_still items put_row_has [OF decided(1), of ki_ID "decided_item env d x"]
      by (metis decided_item_keeps(1))
  next
    case False
    then show ?thesis using put_row_keeps [OF decided(11), of ki_ID "decided_item env d x"] items by (intro bexI [of _ k]) simp_all
  qed
qed

lemma kg_change_appends:
  assumes "kg_change db db'"
  shows "(\<exists>vs. g_reports db' = g_reports db @ vs) \<and> (\<exists>ds. g_decisions db' = g_decisions db @ ds)"
  using assms by (induction rule: kg_change.induct) (simp_all add: same_governance_def)

text \<open>A store before any knowledge was captured: principals, roles and policies may be there.\<close>

definition kg_initial :: "governance_db \<Rightarrow> bool" where
  "kg_initial db \<longleftrightarrow> g_items db = [] \<and> k_validations (g_knowledge db) = [] \<and> k_sources (g_knowledge db) = [] \<and> g_reports db = [] \<and> g_decisions db = []"

text \<open>What a later state keeps of an earlier one.\<close>

definition kg_later :: "governance_db \<Rightarrow> governance_db \<Rightarrow> bool" where
  "kg_later db db' \<longleftrightarrow> (\<forall>k \<in> set (g_items db). ki_Status k \<noteq> ''pending'' \<longrightarrow> (\<exists>k' \<in> set (g_items db'). still_decided k k'))
     \<and> (\<exists>vs. g_reports db' = g_reports db @ vs) \<and> (\<exists>ds. g_decisions db' = g_decisions db @ ds)"

lemma kg_later_trans:
  assumes "kg_later db db1" "kg_later db1 db2"
  shows "kg_later db db2"
proof -
  have "\<exists>k2 \<in> set (g_items db2). still_decided k k2" if "k \<in> set (g_items db)" "ki_Status k \<noteq> ''pending''" for k
  proof -
    obtain k1 where k1: "k1 \<in> set (g_items db1)" "still_decided k k1" using assms(1) \<open>k \<in> set (g_items db)\<close> \<open>ki_Status k \<noteq> ''pending''\<close>
      unfolding kg_later_def by blast
    moreover have "ki_Status k1 \<noteq> ''pending''" using that(2) still_status [OF k1(2)] by simp
    ultimately obtain k2 where "k2 \<in> set (g_items db2)" "still_decided k1 k2" using assms(2) unfolding kg_later_def by blast
    with still_decided_trans [OF k1(2)] show ?thesis by blast
  qed
  moreover obtain vs vs' ds ds' where "g_reports db1 = g_reports db @ vs" "g_reports db2 = g_reports db1 @ vs'"
      "g_decisions db1 = g_decisions db @ ds" "g_decisions db2 = g_decisions db1 @ ds'"
    using assms unfolding kg_later_def by blast
  ultimately show ?thesis unfolding kg_later_def by simp
qed

lemma kg_change_later:
  assumes "governed db" "kg_change db db'"
  shows "kg_later db db'"
proof -
  have "distinct (map ki_ID (g_items db))" using assms(1) by (simp add: governed_def)
  then show ?thesis using kg_change_still [OF assms(2)] kg_change_appends [OF assms(2)] unfolding kg_later_def by blast
qed

interpretation kg: history_system kg_initial kg_step governed kg_later
proof unfold_locales
  show "governed db" if "kg_initial db" for db
    using that by (simp add: kg_initial_def governed_def reasons_ok_def approvals_ok_def content_unique_def)
  show "governed t" if "governed s" "kg_step s t" for s t using that by (blast intro: kg_change_governed kg_step_change)
  show "kg_later s s" for s unfolding kg_later_def using still_decided_refl by (intro conjI ballI impI) (blast, simp_all)
  show "kg_later s u" if "kg_later s t" "kg_later t u" for s t u using that by (rule kg_later_trans)
  show "kg_later s t" if "governed s" "kg_step s t" for s t using that by (blast intro: kg_change_later kg_step_change)
qed

section \<open>Decisions are taken once\<close>

lemma find_decision:
  assumes "distinct (map decision_key ds)" "x \<in> set ds" "kd_KnowledgeID x = i" "kd_IdempotencyKey x = key"
  shows "find (\<lambda>y. kd_KnowledgeID y = i \<and> kd_IdempotencyKey y = key) ds = Some x"
  using assms by (induction ds) (auto simp: decision_key_def image_iff)

lemma decided_has_row:
  assumes "repo_DecideKnowledge env db d = (Inr k, db')"
  shows "find_row ki_ID (kd_KnowledgeID d) (g_items db) \<noteq> None \<and> ki_ID k = kd_KnowledgeID d
    \<and> (\<exists>x \<in> set (g_decisions db'). kd_KnowledgeID x = kd_KnowledgeID d \<and> kd_IdempotencyKey x = kd_IdempotencyKey d
      \<and> kd_RequestSHA256 x = kd_RequestSHA256 d)"
proof (cases "db' = db")
  case False
  obtain k0 where k0: "find_row ki_ID (kd_KnowledgeID d) (g_items db) = Some k0" and commit: "commit_decision env db d k0 = (Inr k, db')"
    using repo_DecideKnowledge_new [OF assms False] by blast
  note new = commit_decision_new [OF commit False refl]
  have "ki_ID k0 = kd_KnowledgeID d" using find_row_SomeD [OF k0] by simp
  moreover have "decision_entry env d k0 \<in> set (g_decisions db')" using new by simp
  ultimately show ?thesis using new k0 by (metis Inr_inject decided_item_keeps(1) decision_entry_keeps(1,6,7) option.distinct(1))
next
  case True
  obtain k0 where k0: "find_row ki_ID (kd_KnowledgeID d) (g_items db) = Some k0"
    using assms by (auto simp: repo_DecideKnowledge_def split: if_split_asm option.split_asm)
  have id: "ki_ID k0 = kd_KnowledgeID d" using find_row_SomeD [OF k0] by simp
  have no_commit: "commit_decision env db d k0 \<noteq> (Inr k, db)"
  proof
    assume c: "commit_decision env db d k0 = (Inr k, db)"
    then have "g_decisions db = g_decisions db @ [decision_entry env d k0]"
      by (auto simp: commit_decision_def Let_def split: if_split_asm dest: arg_cong [where f = g_decisions])
    then show False by simp
  qed
  obtain x where "find (\<lambda>x. kd_KnowledgeID x = ki_ID k0 \<and> kd_IdempotencyKey x = kd_IdempotencyKey d) (g_decisions db) = Some x"
      "kd_RequestSHA256 x = kd_RequestSHA256 d" "k = k0"
    using assms k0 True no_commit by (auto simp: repo_DecideKnowledge_def split: if_split_asm option.split_asm)
  then show ?thesis using True k0 id find_SomeD_mem by fastforce
qed

lemma repeated_decision:
  assumes "x \<in> set (g_decisions db)" "kd_KnowledgeID x = kd_KnowledgeID d" "kd_IdempotencyKey x = kd_IdempotencyKey d"
    and "distinct (map decision_key (g_decisions db))"
  shows "snd (repo_DecideKnowledge env db d) = db
    \<and> (\<forall>k. fst (repo_DecideKnowledge env db d) = Inr k \<longrightarrow> kd_RequestSHA256 d = kd_RequestSHA256 x \<and> k \<in> set (g_items db) \<and> ki_ID k = kd_KnowledgeID d)"
proof (cases "find_row ki_ID (kd_KnowledgeID d) (g_items db)")
  case (Some k)
  have k: "ki_ID k = kd_KnowledgeID d" "k \<in> set (g_items db)" using find_row_SomeD [OF Some] by simp_all
  have "find (\<lambda>y. kd_KnowledgeID y = ki_ID k \<and> kd_IdempotencyKey y = kd_IdempotencyKey d) (g_decisions db) = Some x"
    by (rule find_decision [OF assms(4,1)]) (simp_all add: assms(2,3) k)
  then show ?thesis using Some k by (simp add: repo_DecideKnowledge_def)
qed (simp add: repo_DecideKnowledge_def)

section \<open>Checks that fail\<close>

lemma find_checked_source:
  assumes "find_row ks_ValidationID (kv_ID v) (checked_source env v valid why rows) = Some s"
  shows "ks_Valid s = valid \<and> ks_Reason s = why"
proof (cases "find_row ks_ValidationID (kv_ID v) rows")
  case None
  then show ?thesis using assms by (auto simp: checked_source_def find_row_append)
next
  case (Some r)
  then have "ks_ValidationID r = kv_ID v" using find_row_SomeD by metis
  then show ?thesis using assms Some by (auto simp: checked_source_def find_row_put)
qed

lemma invalid_source_blocks:
  assumes "approval_validation db k = Some v"
    and s: "\<And>s. find_row ks_ValidationID (kv_ID v) (k_sources db) = Some s \<Longrightarrow> \<not> ks_Valid s \<and> ks_Reason s \<noteq> ''eligible''"
  shows "\<not> knowledge_eligible now db k consumer"
proof
  assume "knowledge_eligible now db k consumer"
  then obtain r where "find_row ks_ValidationID (kv_ID v) (k_sources db) = Some r" "ks_Valid r \<or> ks_Reason r = ''eligible''"
    using assms(1) unfolding knowledge_eligible_def knowledge_quality_reason_def by (simp split: if_split_asm option.split_asm)
  with s show False by blast
qed

lemma failed_check_not_eligible:
  assumes "RecordSourceCheck env db kid version vid False reason = (Inr u, db')" "find_row ki_ID kid (g_items db') = Some k"
  shows "\<not> knowledge_eligible now (g_knowledge db') k consumer"
proof -
  obtain v where reason: "reason \<in> set [''source_changed'', ''source_unavailable'', ''evidence_unavailable'']"
    and vid: "vid = (case kr_Approval k of None \<Rightarrow> [] | Some v \<Rightarrow> v)" and v: "find_row kv_ID vid (k_validations (g_knowledge db)) = Some v"
    and db': "db' = (set_knowledge ((g_knowledge db)\<lparr>k_sources := checked_source env v False reason (k_sources (g_knowledge db))\<rparr>) db)
      \<lparr>g_receipts := g_receipts db @ [(vid, False, reason)]\<rparr>"
    using assms by (auto simp: RecordSourceCheck_def set_knowledge_def split: if_split_asm option.split_asm)
  have "kv_ID v = vid" using find_row_SomeD [OF v] by simp
  show ?thesis
  proof (cases "kr_Approval k")
    case None
    then show ?thesis by (simp add: knowledge_eligible_def knowledge_quality_reason_def approval_validation_def split: option.split)
  next
    case (Some a)
    have av: "approval_validation (g_knowledge db') k = Some v" using Some v vid by (simp add: approval_validation_def db' set_knowledge_def)
    have src: "find_row ks_ValidationID (kv_ID v) (k_sources (g_knowledge db')) = Some s \<Longrightarrow> \<not> ks_Valid s \<and> ks_Reason s \<noteq> ''eligible''" for s
      using find_checked_source [of v env False reason "k_sources (g_knowledge db)" s] reason by (auto simp: db' set_knowledge_def)
    show ?thesis by (rule invalid_source_blocks [OF av src])
  qed
qed

end
