(* ===== verification/KnowledgeClaims.thy ===== *)
theory KnowledgeClaims
  imports KnowledgeProps
begin

text \<open>
  The guarantees of governed knowledge, on the facts of \<open>KnowledgeProps\<close>: what an approval rests on, what decided knowledge keeps, how often a
  decision counts, what an executed report says, and what a failed check of the sources does.
\<close>

section \<open>Reports of executed checks\<close>

lemma put_outputs_Ok:
  assumes "put_outputs st cs = (Inr ms, st')"
  shows "map vm_Argv ms = map cr_Argv cs \<and> map vm_ExitCode ms = map cr_ExitCode cs \<and> map vm_OutputSHA256 ms = map (\<lambda>c. Digest (cr_Output c)) cs"
  using assms
proof (induction cs arbitrary: st ms)
  case (Cons c cs)
  then obtain a st1 rest where put: "Put st (cr_Output c) ''text/plain'' = (Inr a, st1)" "put_outputs st1 cs = (Inr rest, st')"
    "ms = \<lparr>vm_Argv = cr_Argv c, vm_ExitCode = cr_ExitCode c, vm_OutputSHA256 = art_SHA256 a\<rparr> # rest"
    by (auto split: prod.split_asm sum.split_asm)
  then show ?case using Cons.IH [OF put(2)] store.put_ref [OF put(1)] by simp
qed simp

lemma RecordKnowledgeValidation_Ok:
  "RecordKnowledgeValidation contract env db v = (Inr r, db') \<Longrightarrow> r = v \<and> g_reports db' = g_reports db @ [v]"
  by (auto simp: RecordKnowledgeValidation_def split: option.split_asm if_split_asm sum.split_asm)

lemma readable_later:
  assumes "Read st d = Inr y" "Put st x m = (r, st')"
  shows "Read st' d = Inr y"
  using Put_stable [OF assms(1), of x m] assms(2) by simp

lemma recordValidation_Ok:
  assumes "recordValidation svc env st db item p i method commands started = (Inr v, st', db')"
  shows "rep_Commands v = commands \<and> rep_Method v = method \<and> rep_SourceManifest v = vi_SourceManifest i \<and> rep_ValidatedBy v = p_ID p
    \<and> rep_KnowledgeID v = ki_ID item \<and> rep_CandidateVersion v = ki_Version item \<and> rep_ContentSHA256 v = Digest (ki_Content item)
    \<and> rep_Verdict v = (if list_all (\<lambda>c. vm_ExitCode c = 0) commands \<and> list_all vc_Passed (vi_Criteria i) then ''pass'' else ''fail'')
    \<and> g_reports db' = g_reports db @ [v]
    \<and> (\<forall>d \<in> set (filter (\<lambda>d. d \<noteq> []) (map kns_ArtifactSHA256 (sm_Sources (vi_SourceManifest i))) @ map vm_OutputSHA256 commands). is_ok (Read st' d))"
proof -
  have readable: "all_readable st (filter (\<lambda>d. d \<noteq> []) (map kns_ArtifactSHA256 (sm_Sources (vi_SourceManifest i))) @ map vm_OutputSHA256 commands)"
    using assms by (auto simp: recordValidation_def split: option.split_asm if_split_asm)
  obtain source st1 payload a where put1: "Put st (manifest_bytes (vi_SourceManifest i)) ''application/json'' = (Inr source, st1)"
    and put2: "Put st1 payload ''application/json'' = (Inr a, st')"
    and rec: "RecordKnowledgeValidation (gsv_Contract svc) (sub_env 1 env) db
      ((drafted_report env item p i method commands started source)\<lparr>rep_ReportArtifact := a\<rparr>) = (Inr v, db')"
    using assms by (auto simp: recordValidation_def Let_def split: option.split_asm if_split_asm prod.split_asm sum.split_asm)
  have "is_ok (Read st' d)" if "is_ok (Read st d)" for d
    using that readable_later [OF _ put1] readable_later [OF _ put2] by (auto simp: is_ok_iff)
  with readable RecordKnowledgeValidation_Ok [OF rec] show ?thesis
    by (auto simp: all_readable_def list_all_iff drafted_report_def)
qed

lemma record_executed_Ok:
  assumes "record_executed svc env st db item p i packet patch result = (Inr v, st', db')"
  obtains st3 commands packetArtifact patchArtifact where
    "bound_to_packet (vi_SourceManifest i) (pkt_Workspace packet) (vr_BaseRevision result)"
    "art_SHA256 patchArtifact = Digest patch" "art_SHA256 packetArtifact = Digest (print_json (json_packet packet))"
    "map vm_Argv commands = map cr_Argv (vr_Checks result)" "map vm_ExitCode commands = map cr_ExitCode (vr_Checks result)"
    "map vm_OutputSHA256 commands = map (\<lambda>c. Digest (cr_Output c)) (vr_Checks result)"
    "recordValidation svc env st3 db item p (i\<lparr>vi_SourceManifest := executed_sources (vi_SourceManifest i) packet packetArtifact patchArtifact\<rparr>)
       ''workpacket'' commands (env_clock env 0) = (Inr v, st', db')"
proof -
  obtain packetArtifact st1 patchArtifact st2 commands st3 where
    put1: "Put st (print_json (json_packet packet)) ''application/json'' = (Inr packetArtifact, st1)"
    and put2: "Put st1 patch ''text/x-diff'' = (Inr patchArtifact, st2)"
    and bound: "bound_to_packet (vi_SourceManifest i) (pkt_Workspace packet) (vr_BaseRevision result)"
    and outs: "put_outputs st2 (vr_Checks result) = (Inr commands, st3)"
    and rec: "recordValidation svc env st3 db item p (i\<lparr>vi_SourceManifest := executed_sources (vi_SourceManifest i) packet packetArtifact patchArtifact\<rparr>)
       ''workpacket'' commands (env_clock env 0) = (Inr v, st', db')"
    using assms by (auto simp: record_executed_def split: if_split_asm prod.split_asm sum.split_asm)
  show ?thesis using that [OF bound _ _ _ _ _ rec] put_outputs_Ok [OF outs] store.put_ref [OF put1] store.put_ref [OF put2] by simp
qed

lemma verifyKnowledgePatch_Ok:
  assumes "verifyKnowledgePatch svc env st seen db tid i packet patch w = (Inr v, st', db')" "VerifyPatch (gsv_Host svc) packet patch w = (result, w')"
  shows "\<exists>item p st1. vr_Accepted result \<and> pkt_LocalOnly packet \<and> \<not> pkt_CloudReview packet
    \<and> record_executed svc env st1 db item p i packet patch result = (Inr v, st', db')"
  using assms by (auto simp: verifyKnowledgePatch_def split: if_split_asm prod.split_asm sum.split_asm option.split_asm)

lemma VerifyKnowledgePatch_Ok:
  "VerifyKnowledgePatch svc env st seen db i packet patch w = (Inr v, st', db')
     \<Longrightarrow> \<exists>tid. verifyKnowledgePatch svc env st seen db tid i packet patch w = (Inr v, st', db')"
  by (auto simp: VerifyKnowledgePatch_def Let_def split: prod.split_asm sum.split_asm)

lemma VerifyPatch_accepted_checks:
  assumes "VerifyPatch h packet patch w = (result, w')" "vr_Accepted result"
  shows "map cr_Argv (vr_Checks result) = map check_Argv (pkt_Checks packet)" "\<forall>c \<in> set (vr_Checks result). cr_ExitCode c = 0"
proof -
  have "map cr_Argv (vr_Checks result) = map check_Argv (pkt_Checks packet) \<and> (\<forall>c \<in> set (vr_Checks result). cr_Passed c \<and> cr_ExitCode c = 0)"
  proof (rule VerifyPatch_accepted [OF assms])
    fix base clone changes n w1
    assume chk: "checked_result h packet clone ((fresh_result (Evaluate packet))\<lparr>vr_BaseRevision := base, vr_ChangedFiles := changes,
        vr_TotalDiffLines := n, vr_Errors := []\<rparr>) w1 = (result, w')"
    show ?thesis using checked_result_accepted [OF chk assms(2)] by (simp add: fresh_result_def)
  qed
  then show "map cr_Argv (vr_Checks result) = map check_Argv (pkt_Checks packet)" "\<forall>c \<in> set (vr_Checks result). cr_ExitCode c = 0" by auto
qed

text \<open>What the property below says of a report, for its parts.\<close>

definition executed_matches ::
  "local_store \<Rightarrow> validation_input \<Rightarrow> packet \<Rightarrow> string \<Rightarrow> verification_result \<Rightarrow> knowledge_validation \<Rightarrow> bool" where
  "executed_matches st i packet patch result v \<longleftrightarrow>
     rep_Method v = ''workpacket'' \<and> map vm_Argv (rep_Commands v) = map check_Argv (pkt_Checks packet)
     \<and> list_all (\<lambda>c. vm_ExitCode c = 0) (rep_Commands v)
     \<and> map vm_OutputSHA256 (rep_Commands v) = map (\<lambda>c. Digest (cr_Output c)) (vr_Checks result)
     \<and> list_all (\<lambda>c. is_ok (Read st (vm_OutputSHA256 c))) (rep_Commands v)
     \<and> bound_to_packet (rep_SourceManifest v) (pkt_Workspace packet) (vr_BaseRevision result)
     \<and> list_ex (\<lambda>s. kns_Kind s = ''patch'' \<and> kns_ArtifactSHA256 s = Digest patch) (sm_Sources (rep_SourceManifest v)) \<and> is_ok (Read st (Digest patch))
     \<and> (rep_Verdict v = ''pass'' \<longleftrightarrow> list_all vc_Passed (vi_Criteria i))"

lemma executed_report:
  assumes "record_executed svc env st1 db item p i packet patch result = (Inr v, st', db')"
    and run: "map cr_Argv (vr_Checks result) = map check_Argv (pkt_Checks packet)" "\<forall>c \<in> set (vr_Checks result). cr_ExitCode c = 0"
  shows "executed_matches st' i packet patch result v \<and> g_reports db' = g_reports db @ [v]"
proof -
  obtain st3 commands packetArtifact patchArtifact where
    bound: "bound_to_packet (vi_SourceManifest i) (pkt_Workspace packet) (vr_BaseRevision result)"
    and art: "art_SHA256 patchArtifact = Digest patch"
    and cmds: "map vm_Argv commands = map cr_Argv (vr_Checks result)" "map vm_ExitCode commands = map cr_ExitCode (vr_Checks result)"
      "map vm_OutputSHA256 commands = map (\<lambda>c. Digest (cr_Output c)) (vr_Checks result)"
    and rec: "recordValidation svc env st3 db item p (i\<lparr>vi_SourceManifest := executed_sources (vi_SourceManifest i) packet packetArtifact patchArtifact\<rparr>)
       ''workpacket'' commands (env_clock env 0) = (Inr v, st', db')"
    by (rule record_executed_Ok [OF assms(1)])
  have zero: "list_all (\<lambda>c. vm_ExitCode c = 0) commands"
  proof -
    have "list_all (\<lambda>n. n = 0) (map vm_ExitCode commands)" unfolding cmds(2) using run(2) by (simp add: list_all_iff)
    then show ?thesis by (simp add: list_all_iff)
  qed
  have "Digest patch \<noteq> []" using digestPattern_Digest [of patch] by (auto simp: digestPattern_def)
  then have "Digest patch \<in> set (filter (\<lambda>d. d \<noteq> []) (map kns_ArtifactSHA256 (sm_Sources (executed_sources (vi_SourceManifest i) packet packetArtifact patchArtifact))))"
    by (simp add: executed_sources_def art)
  moreover note rep = recordValidation_Ok [OF rec]
  ultimately have "is_ok (Read st' (Digest patch))" "list_all (\<lambda>c. is_ok (Read st' (vm_OutputSHA256 c))) commands" by (auto simp: list_all_iff)
  moreover have "bound_to_packet (executed_sources (vi_SourceManifest i) packet packetArtifact patchArtifact) (pkt_Workspace packet) (vr_BaseRevision result)"
    using bound by (simp add: bound_to_packet_def executed_sources_def)
  moreover have "list_ex (\<lambda>s. kns_Kind s = ''patch'' \<and> kns_ArtifactSHA256 s = Digest patch)
      (sm_Sources (executed_sources (vi_SourceManifest i) packet packetArtifact patchArtifact))"
    by (simp add: executed_sources_def art)
  ultimately show ?thesis using rep cmds run(1) zero by (simp add: executed_matches_def)
qed

text \<open>
  C3: A report of executed checks is what the verifier ran. When \<open>VerifyKnowledgePatch\<close> returns a report, the verifier accepted the patch in a
  local packet without cloud review; the report's commands are the checks of the packet in their order, each exited with 0, and each is
  tied to the digest of its output, whose bytes can be read from the store; the report names the repository at the revision the verifier used and the
  patch, which can be read back; the verdict is a pass exactly when the criteria passed; and the report is stored.
\<close>

theorem executed_report_matches_run:
  assumes "VerifyKnowledgePatch svc env st seen db i packet patch w = (Inr v, st', db')"
    and "VerifyPatch (gsv_Host svc) packet patch w = (result, w')"
  shows "vr_Accepted result \<and> pkt_LocalOnly packet \<and> \<not> pkt_CloudReview packet \<and> rep_Method v = ''workpacket''
    \<and> map vm_Argv (rep_Commands v) = map check_Argv (pkt_Checks packet) \<and> list_all (\<lambda>c. vm_ExitCode c = 0) (rep_Commands v)
    \<and> map vm_OutputSHA256 (rep_Commands v) = map (\<lambda>c. Digest (cr_Output c)) (vr_Checks result)
    \<and> list_all (\<lambda>c. is_ok (Read st' (vm_OutputSHA256 c))) (rep_Commands v)
    \<and> bound_to_packet (rep_SourceManifest v) (pkt_Workspace packet) (vr_BaseRevision result)
    \<and> list_ex (\<lambda>s. kns_Kind s = ''patch'' \<and> kns_ArtifactSHA256 s = Digest patch) (sm_Sources (rep_SourceManifest v)) \<and> is_ok (Read st' (Digest patch))
    \<and> (rep_Verdict v = ''pass'' \<longleftrightarrow> list_all vc_Passed (vi_Criteria i)) \<and> g_reports db' = g_reports db @ [v]"
proof -
  obtain tid item p st1 where acc: "vr_Accepted result" and loc: "pkt_LocalOnly packet" "\<not> pkt_CloudReview packet"
    and rec: "record_executed svc env st1 db item p i packet patch result = (Inr v, st', db')"
    using VerifyKnowledgePatch_Ok [OF assms(1)] verifyKnowledgePatch_Ok [OF _ assms(2)] by blast
  note run = VerifyPatch_accepted_checks [OF assms(2) acc]
  show ?thesis using executed_report [OF rec run] acc loc unfolding executed_matches_def by blast
qed

section \<open>Approved and decided knowledge\<close>

lemma passed_evidence:
  assumes "report_Check v = None" "rep_Verdict v = ''pass''"
  shows "list_all vc_Passed (rep_Criteria v) \<and> list_all (\<lambda>c. vm_ExitCode c = 0) (rep_Commands v) \<and> (rep_Method v = ''workpacket'' \<longrightarrow> rep_Commands v \<noteq> [])"
  using assms by (auto simp: report_Check_def evidence_passed_def split: if_split_asm)

lemma RecordSourceCheck_error: "RecordSourceCheck env db kid version vid valid reason = (Inl e, db') \<Longrightarrow> db' = db"
  by (auto simp: RecordSourceCheck_def Let_def split: if_split_asm option.split_asm)

text \<open>
  C1: Approved knowledge is validated. After any sequence of calls that starts before the first capture, an approved item has a procedure and a
  summary, and there is a stored report of exactly its project, version and content digest, well formed by \<open>Check\<close>, with the verdict pass:
  every criterion passed and every command exited with 0; its validator is a human, or a workload whose report is one of executed checks; and a human
  decided to approve this version on this report.
\<close>

theorem approved_knowledge_is_validated:
  assumes "reach kg_initial kg_step db" and "k \<in> set (g_items db)" and "ki_Status k = ''approved''"
  shows "ki_Procedure k \<noteq> [] \<and> \<not> sql_blank (ki_Summary k)
    \<and> (\<exists>v \<in> set (g_reports db). \<exists>d \<in> set (g_decisions db).
         kr_Approval k = Some (rep_ID v) \<and> rep_KnowledgeID v = ki_ID k \<and> rep_ProjectID v = ki_ProjectID k \<and> rep_CandidateVersion v = ki_Version k
         \<and> rep_ContentSHA256 v = Digest (ki_Content k) \<and> report_Check v = None \<and> list_all vc_Passed (rep_Criteria v)
         \<and> list_all (\<lambda>c. vm_ExitCode c = 0) (rep_Commands v)
         \<and> (is_kind db ''human'' (rep_ValidatedBy v) \<or> rep_Method v = ''workpacket'' \<and> rep_Commands v \<noteq> [] \<and> is_kind db ''workload'' (rep_ValidatedBy v))
         \<and> kd_KnowledgeID d = ki_ID k \<and> kd_ValidationID d = rep_ID v \<and> kd_ExpectedVersion d = ki_Version k \<and> kd_Decision d = ''approve''
         \<and> is_kind db ''human'' (kd_Actor d))"
proof -
  have gov: "governed db" by (rule kg.reach_inv [OF assms(1)])
  obtain v d where v: "v \<in> set (g_reports db)" "rests_on k v d" and d: "d \<in> set (g_decisions db)"
    using approved_rests [OF gov assms(2,3)] by blast
  have "report_by db v" "is_kind db ''human'' (kd_Actor d)" using gov v(1) d unfolding governed_def list_all_iff by blast+
  moreover have "list_all vc_Passed (rep_Criteria v) \<and> list_all (\<lambda>c. vm_ExitCode c = 0) (rep_Commands v) \<and> (rep_Method v = ''workpacket'' \<longrightarrow> rep_Commands v \<noteq> [])"
    using passed_evidence [of v] \<open>report_by db v\<close> v(2) by (simp add: report_by_def rests_on_def)
  moreover have "ki_Procedure k \<noteq> [] \<and> \<not> sql_blank (ki_Summary k)"
    using governed_approval [OF gov assms(2)] assms(3) by (simp add: approval_ok_def)
  ultimately show ?thesis using v d unfolding report_by_def rests_on_def by blast
qed

text \<open>Approved content is unique: two approved items of a project with the same content are the same item, after any sequence of calls.\<close>

theorem approved_content_is_unique:
  assumes "reach kg_initial kg_step db" and "k \<in> set (g_items db)" and "k2 \<in> set (g_items db)"
    and "ki_Status k = ''approved''" and "ki_Status k2 = ''approved''" and "ki_ProjectID k2 = ki_ProjectID k" and "ki_Content k2 = ki_Content k"
  shows "k2 = k"
proof -
  have gov: "governed db" by (rule kg.reach_inv [OF assms(1)])
  then have "ki_ID k2 = ki_ID k" using assms(2-7) unfolding governed_def content_unique_def by blast
  moreover have "distinct (map ki_ID (g_items db))" using gov by (simp add: governed_def)
  ultimately show ?thesis using distinct_key [OF _ assms(3,2)] by blast
qed

text \<open>
  C2: Decided knowledge is final. Whatever calls follow, a rejected item stays as it is, and an approved item keeps its content, version, procedure,
  evidence and status: only the time and the report of its approval can be renewed. Reports and decisions are never removed or changed.
\<close>

theorem decided_knowledge_is_final:
  assumes "reach kg_initial kg_step db" and "kg_step\<^sup>*\<^sup>* db db'" and "k \<in> set (g_items db)" and "ki_Status k \<noteq> ''pending''"
  shows "(\<exists>k' \<in> set (g_items db'). k' = k\<lparr>ki_ApprovedAt := ki_ApprovedAt k', kr_Approval := kr_Approval k'\<rparr> \<and> (ki_Status k \<noteq> ''approved'' \<longrightarrow> k' = k))
    \<and> (\<exists>vs. g_reports db' = g_reports db @ vs) \<and> (\<exists>ds. g_decisions db' = g_decisions db @ ds)"
  using kg.reach_later [OF assms(1,2)] assms(3,4) unfolding kg_later_def still_decided_def by blast

text \<open>
  C4: A decision is taken once. After a decision has succeeded, and after any later calls, a call with the same knowledge and idempotency key
  changes nothing; it succeeds only if its request has the digest of the first, and then answers with the item as it is now.
\<close>

theorem decision_taken_once:
  assumes "reach kg_initial kg_step db" and "repo_DecideKnowledge env db d = (Inr k, db1)" and "kg_step\<^sup>*\<^sup>* db1 db2"
    and "kd_KnowledgeID d' = kd_KnowledgeID d" and "kd_IdempotencyKey d' = kd_IdempotencyKey d"
  shows "snd (repo_DecideKnowledge env' db2 d') = db2
    \<and> (\<forall>k'. fst (repo_DecideKnowledge env' db2 d') = Inr k' \<longrightarrow>
         kd_RequestSHA256 d' = kd_RequestSHA256 d \<and> k' \<in> set (g_items db2) \<and> ki_ID k' = ki_ID k)"
proof -
  have row: "ki_ID k = kd_KnowledgeID d" using decided_has_row [OF assms(2)] by simp
  obtain x where x: "x \<in> set (g_decisions db1)" "kd_KnowledgeID x = kd_KnowledgeID d'" "kd_IdempotencyKey x = kd_IdempotencyKey d'"
      "kd_RequestSHA256 x = kd_RequestSHA256 d"
    using decided_has_row [OF assms(2)] assms(4,5) by auto
  have gov: "governed db1" by (rule kg.inv_step [OF kg.reach_inv [OF assms(1)] kg_step.decide [OF assms(2)]])
  then have "distinct (map decision_key (g_decisions db2))" using kg.steps_inv [OF assms(3)] by (simp add: governed_def)
  moreover have "x \<in> set (g_decisions db2)" using kg.steps_later [OF assms(3) gov] x(1) by (auto simp: kg_later_def)
  ultimately show ?thesis using repeated_decision [OF _ x(2,3)] x(4) row assms(4) by fastforce
qed

text \<open>
  A failed refresh blocks reuse. When the evidence or a source of an item's approval no longer verifies and the refresh is recorded, the call
  returns that failure and the item is not eligible for any purpose at any time in the state it leaves.
\<close>

theorem failed_refresh_blocks_reuse:
  assumes "find_row ki_ID kid (g_items seen) = Some item" and "GetKnowledgeValidation seen (case kr_Approval item of None \<Rightarrow> [] | Some v \<Rightarrow> v) = Inr report"
    and "verifyValidationEvidence svc st report = Some (e, why)" and "RefreshKnowledgeSources svc env st seen db kid = (r, db')" and "db' \<noteq> db"
    and "find_row ki_ID kid (g_items db') = Some k"
  shows "r = Inl e \<and> \<not> knowledge_eligible now (g_knowledge db') k consumer"
proof -
  obtain u db1 where check: "RecordSourceCheck (sub_env 1 env) db kid (ki_Version item) (case kr_Approval item of None \<Rightarrow> [] | Some v \<Rightarrow> v) False
      (failure_reason (Some (e, why))) = (u, db1)" by fastforce
  have "db' = db1" using assms(1-4) check by (simp add: RefreshKnowledgeSources_def split: sum.split_asm)
  moreover obtain x where "u = Inr x" using RecordSourceCheck_error check \<open>db' = db1\<close> assms(5) by (cases u) blast+
  moreover from this have "r = Inl e" using assms(1-4) check by (simp add: RefreshKnowledgeSources_def)
  ultimately show ?thesis using failed_check_not_eligible check assms(6) by blast
qed

end
