(* ===== verification/KnowledgeExamples.thy ===== *)
theory KnowledgeExamples
  imports KnowledgeClaims WorkflowExamples
begin

text \<open>
  A candidate that is captured, validated by a person with the QA role, approved by a product owner, and whose source is then lost; and a candidate
  whose patch the verifier accepts. They are the instances at which the properties of \<open>KnowledgeClaims\<close> are applied.
\<close>

section \<open>The store\<close>

definition gx_policy :: quality_policy_row where
  "gx_policy = \<lparr>qp_ProjectID = ''*'', qp_DataProduct = ''*'', qp_Purpose = ''*'', qp_Version = 1, qp_EffectiveAt = 0, qp_SourceMaxAge = 1000000,
     qp_ContentMaxAge = 1000000, qp_PatchMaxAge = 1000000, qp_RequiredMethod = ''any'', qp_MaxContentBytes = 100\<rparr>"

definition gx_role :: "string \<Rightarrow> string \<Rightarrow> role_row" where
  "gx_role actor role = \<lparr>rb_Principal = actor, rb_Project = ''p'', rb_Role = role, rb_ValidFrom = 0, rb_ValidUntil = None\<rparr>"

definition gx_task :: task_db where
  "gx_task = \<lparr>td_wf = \<lparr>wf_runs = [], wf_events = [], wf_policies = [], wf_artifacts = []\<rparr>,
     td_k = \<lparr>k_items = [], k_validations = [], k_sources = [], k_policies = [gx_policy], k_reviews = []\<rparr>,
     td_principals = [\<lparr>pr_ID = ''q'', pr_Active = True, pr_Kind = ''human''\<rparr>, \<lparr>pr_ID = ''o'', pr_Active = True, pr_Kind = ''human''\<rparr>],
     td_roles = [gx_role ''q'' ''qa'', gx_role ''o'' ''product_owner''], td_tasks = [], td_events = [], td_used = [], td_validated = []\<rparr>"

definition gx_db0 :: governance_db where
  "gx_db0 = \<lparr>g_task = gx_task, g_generations = [], g_reports = [], g_decisions = [], g_review_ids = [], g_receipts = []\<rparr>"

definition gx_env :: "principal option \<Rightarrow> call_env" where
  "gx_env p = \<lparr>env_ctx = p, env_clock = (\<lambda>_. 3000), env_db_now = 3000, env_id = (\<lambda>_. ''i'')\<rparr>"

abbreviation gx_repo_env :: call_env where
  "gx_repo_env \<equiv> gx_env None"

definition gx_capture :: generation_capture where
  "gx_capture = \<lparr>gc_ID = ''g'', gc_ProjectID = ''p'', gc_WorkflowID = [], gc_WorkflowStepID = [], gc_SessionID = [], gc_TaskType = [], gc_Prompt = ''x'',
     gc_Response = ''y'', gc_Summary = ''s'', gc_Language = [], gc_Tags = [], gc_Provider = [], gc_Model = [], gc_RepositoryRevision = [],
     gc_Outcome = [], gc_Procedure = [''a''], gc_ValidationEvidence = [], gc_PromptArtifact = zero_artifact, gc_OutputArtifact = zero_artifact,
     gc_AutoApprove = False\<rparr>"

definition gx_item :: knowledge_row where
  "gx_item = captured_item gx_repo_env gx_capture"

lemma gx_capture_sel [simp]:
  "gc_AutoApprove gx_capture = False" "gc_ID gx_capture = ''g''" "gc_WorkflowID gx_capture = []" "gc_WorkflowStepID gx_capture = []"
  by (simp_all add: gx_capture_def)

lemma gx_item_sel [simp]:
  "ki_ID gx_item = ''i''" "ki_ProjectID gx_item = ''p''" "ki_WorkflowID gx_item = []" "ki_Content gx_item = ''y''" "ki_Summary gx_item = ''s''"
  "ki_Procedure gx_item = [''a'']" "ki_TaskType gx_item = ''software-development''" "ki_Status gx_item = ''pending''" "ki_Version gx_item = 1"
  "kr_Approval gx_item = None" "ki_CreatedAt gx_item = utc 3000"
  by (simp_all add: gx_item_def captured_item_def gx_capture_def valueOr_def gx_env_def)

definition gx_db1 :: governance_db where
  "gx_db1 = snd (RecordGeneration gx_repo_env gx_db0 gx_capture)"

lemma gx_captured:
  "RecordGeneration gx_repo_env gx_db0 gx_capture = (Inr gx_item, gx_db1)"
  "g_items gx_db1 = [gx_item]" "k_validations (g_knowledge gx_db1) = []" "k_sources (g_knowledge gx_db1) = []" "g_reports gx_db1 = []"
  "g_decisions gx_db1 = []" "g_review_ids gx_db1 = []" "k_policies (g_knowledge gx_db1) = [gx_policy]"
  "td_principals (g_task gx_db1) = td_principals gx_task" "td_roles (g_task gx_db1) = td_roles gx_task" "td_tasks (g_task gx_db1) = []"
  "wf_policies (td_wf (g_task gx_db1)) = []"
  by (simp_all add: gx_db1_def RecordGeneration_def gx_db0_def gx_task_def gx_item_def [symmetric] references_ok_def find_row_def
      set_items_def set_knowledge_def add_artifacts_def add_artifact_def)

section \<open>Validation\<close>

definition gx_manifest :: source_manifest where
  "gx_manifest = \<lparr>sm_SchemaVersion = ''hybrid-ai/knowledge-source/v1'', sm_Sources =
     [\<lparr>kns_Kind = ''document'', kns_Reference = ''d'', kns_Revision = [], kns_Branch = [], kns_ApplicableThrough = [], kns_ArtifactSHA256 = Digest ''d''\<rparr>]\<rparr>"

definition gx_report :: knowledge_validation where
  "gx_report = \<lparr>rep_ID = ''v'', rep_SchemaVersion = ValidationSchema, rep_KnowledgeID = ''i'', rep_ProjectID = ''p'', rep_CandidateVersion = 1,
     rep_ContentSHA256 = Digest ''y'', rep_SourceManifest = gx_manifest, rep_SourceManifestSHA256 = Digest (manifest_bytes gx_manifest),
     rep_Method = ''manual'', rep_Criteria = [\<lparr>vc_Name = ''c'', vc_Passed = True, vc_Observation = ''o''\<rparr>], rep_Commands = [],
     rep_Verdict = ''pass'', rep_ValidatedBy = ''q'', rep_StartedAt = 1000, rep_CompletedAt = 2000, rep_ValidUntil = 1000000,
     rep_ReportArtifact = zero_artifact, rep_SourceArtifact = zero_artifact\<lparr>art_SHA256 := Digest (manifest_bytes gx_manifest)\<rparr>\<rparr>"

lemma gx_report_sel [simp]:
  "rep_ID gx_report = ''v''" "rep_KnowledgeID gx_report = ''i''" "rep_ProjectID gx_report = ''p''" "rep_CandidateVersion gx_report = 1"
  "rep_ContentSHA256 gx_report = Digest ''y''" "rep_SourceManifest gx_report = gx_manifest" "rep_Method gx_report = ''manual''"
  "rep_SourceManifestSHA256 gx_report = Digest (manifest_bytes gx_manifest)" "rep_Verdict gx_report = ''pass''" "rep_ValidatedBy gx_report = ''q''"
  "rep_StartedAt gx_report = 1000" "rep_CompletedAt gx_report = 2000" "rep_ValidUntil gx_report = 1000000" "rep_Commands gx_report = []"
  "art_SHA256 (rep_SourceArtifact gx_report) = Digest (manifest_bytes gx_manifest)"
  by (simp_all add: gx_report_def)

lemma gx_trim [simp]: "trim_space ''d'' = ''d''" "trim_space ''c'' = ''c''" "trim_space ''o'' = ''o''" "trim_space ''/repo'' = ''/repo''" "trim_space ''w'' = ''w''"
    "trim_space ''master'' = ''master''"
  by (rule trim_space_plain, simp add: plain_char_def)+

lemma gx_manifest_ok: "manifest_Validate gx_manifest = None"
  by (simp add: manifest_Validate_def gx_manifest_def source_ok_def digestPattern_Digest)

lemma gx_report_ok: "report_Check gx_report = None"
  by (simp add: report_Check_def gx_manifest_ok digestPattern_Digest)
    (simp add: gx_report_def evidence_passed_def zero_time_def seconds_def)

lemma gx_report_bytes: "\<exists>bytes. report_bytes gx_report = Inr bytes"
proof -
  have "time_marshals (utc 1000)" "time_marshals (utc 2000)" "time_marshals (utc 1000000)" by code_simp+
  then show ?thesis by (simp add: report_bytes_def)
qed

definition gx_db2 :: governance_db where
  "gx_db2 = snd (RecordKnowledgeValidation (\<lambda>_ _. True) gx_repo_env gx_db1 gx_report)"

lemma gx_human:
  assumes "td_principals (g_task db) = td_principals gx_task" "td_roles (g_task db) = td_roles gx_task"
  shows "database_role gx_repo_env db ''human'' ''q'' ''p'' ''qa''" "database_role gx_repo_env db ''human'' ''o'' ''p'' ''product_owner''"
  by (simp_all add: database_role_def assms) (simp_all add: gx_task_def gx_role_def role_live_def gx_env_def)

lemma insert_artifact_keys: "art_SHA256 ` set (insert_artifact a rows) = insert (art_SHA256 a) (art_SHA256 ` set rows)"
proof (cases "find_row art_SHA256 (art_SHA256 a) rows")
  case (Some x)
  have "x \<in> set rows \<and> art_SHA256 x = art_SHA256 a" by (rule find_row_SomeD [OF Some])
  then have "art_SHA256 a \<in> art_SHA256 ` set rows" by (metis imageI)
  then show ?thesis using Some by (simp add: insert_artifact_def insert_absorb)
qed (simp add: insert_artifact_def)

lemma gx_validated:
  "RecordKnowledgeValidation (\<lambda>_ _. True) gx_repo_env gx_db1 gx_report = (Inr gx_report, gx_db2)"
  "gx_db2 = insert_report gx_report (add_artifacts [rep_SourceArtifact gx_report, rep_ReportArtifact gx_report] gx_db1)"
proof -
  obtain bytes where bytes: "report_bytes gx_report = Inr bytes" using gx_report_bytes by blast
  have role: "validator_allowed gx_repo_env gx_db1 gx_report" using gx_human [OF gx_captured(9,10)] by (simp add: validator_allowed_def)
  have sep: "requireKnowledgeRoleSeparation gx_db1 gx_item ''q'' [] ''qa'' = None" by (simp add: requireKnowledgeRoleSeparation_def)
  have arts: "find_row art_SHA256 (Digest (manifest_bytes gx_manifest))
      (wf_artifacts (td_wf (g_task (add_artifacts [rep_SourceArtifact gx_report, rep_ReportArtifact gx_report] gx_db1)))) \<noteq> None"
    using insert_artifact_keys [of "rep_SourceArtifact gx_report"] by (simp add: add_artifacts_def add_artifact_def find_row_None insert_artifact_keys)
  have fits: "report_fits (add_artifacts [rep_SourceArtifact gx_report, rep_ReportArtifact gx_report] gx_db1) gx_report"
    using arts by (simp add: report_fits_def gx_captured find_row_def micros_def seconds_def)
  have item: "find_row ki_ID ''i'' (g_items gx_db1) = Some gx_item" by (simp add: gx_captured find_row_def)
  have "RecordKnowledgeValidation (\<lambda>_ _. True) gx_repo_env gx_db1 gx_report
    = (Inr gx_report, insert_report gx_report (add_artifacts [rep_SourceArtifact gx_report, rep_ReportArtifact gx_report] gx_db1))"
    using bytes role sep fits item by (simp add: RecordKnowledgeValidation_def gx_report_ok) (simp add: gx_env_def seconds_def)
  then show "RecordKnowledgeValidation (\<lambda>_ _. True) gx_repo_env gx_db1 gx_report = (Inr gx_report, gx_db2)"
    "gx_db2 = insert_report gx_report (add_artifacts [rep_SourceArtifact gx_report, rep_ReportArtifact gx_report] gx_db1)"
    by (simp_all add: gx_db2_def)
qed

lemma insert_report_rest [simp]:
  "td_roles (g_task (insert_report v db)) = td_roles (g_task db)" "td_tasks (g_task (insert_report v db)) = td_tasks (g_task db)"
  "g_review_ids (insert_report v db) = g_review_ids db" "k_policies (g_knowledge (insert_report v db)) = k_policies (g_knowledge db)"
  "k_sources (g_knowledge (insert_report v db)) = k_sources (g_knowledge db) @ [verified_source v]"
  by (simp_all add: insert_report_def set_knowledge_def)

lemma gx_db2:
  "g_items gx_db2 = [gx_item]" "k_validations (g_knowledge gx_db2) = [validation_columns gx_report]"
  "k_sources (g_knowledge gx_db2) = [verified_source gx_report]" "g_reports gx_db2 = [gx_report]"
  "g_decisions gx_db2 = []" "g_review_ids gx_db2 = []" "k_policies (g_knowledge gx_db2) = [gx_policy]"
  "td_principals (g_task gx_db2) = td_principals gx_task" "td_roles (g_task gx_db2) = td_roles gx_task" "td_tasks (g_task gx_db2) = []"
  by (simp_all add: gx_validated(2) gx_captured)

section \<open>Approval\<close>

definition gx_decision :: knowledge_decision where
  "gx_decision = \<lparr>kd_ID = ''d'', kd_KnowledgeID = ''i'', kd_ExpectedVersion = 1, kd_ValidationID = ''v'', kd_Decision = ''approve'', kd_Reason = ''r'',
     kd_IdempotencyKey = ''k'', kd_Actor = ''o'', kd_RequestSHA256 = ''h'', kd_Authorization = \<lparr>dec_Allowed = True, dec_CallID = [], dec_PolicyVersion = []\<rparr>,
     kd_CreatedAt = 0\<rparr>"

lemma gx_decision_sel [simp]:
  "kd_ID gx_decision = ''d''" "kd_KnowledgeID gx_decision = ''i''" "kd_ExpectedVersion gx_decision = 1" "kd_ValidationID gx_decision = ''v''"
  "kd_Decision gx_decision = ''approve''" "kd_Reason gx_decision = ''r''" "kd_IdempotencyKey gx_decision = ''k''" "kd_Actor gx_decision = ''o''"
  "\<not> decision_blank gx_decision"
  by (simp_all add: gx_decision_def decision_blank_def)

definition gx_approved :: knowledge_row where
  "gx_approved = decided_item gx_repo_env gx_decision gx_item"

definition gx_db3 :: governance_db where
  "gx_db3 = snd (repo_DecideKnowledge gx_repo_env gx_db2 gx_decision)"

lemma gx_columns [simp]:
  "kv_ID (validation_columns gx_report) = ''v''" "kv_KnowledgeID (validation_columns gx_report) = ''i''"
  "kv_ProjectID (validation_columns gx_report) = ''p''" "kv_CandidateVersion (validation_columns gx_report) = 1"
  "kv_ContentSHA256 (validation_columns gx_report) = Digest ''y''" "kv_Verdict (validation_columns gx_report) = ''pass''"
  "kv_Method (validation_columns gx_report) = ''manual''" "kv_CompletedAt (validation_columns gx_report) = 2000"
  "kv_ValidUntil (validation_columns gx_report) = 1000000"
  "kv_SourceManifestSHA256 (validation_columns gx_report) = Digest (manifest_bytes gx_manifest)"
  "ks_ValidationID (verified_source gx_report) = ''v''" "ks_ManifestSHA256 (verified_source gx_report) = Digest (manifest_bytes gx_manifest)"
  "ks_VerifiedAt (verified_source gx_report) = 2000" "ks_Valid (verified_source gx_report)" "ks_Reason (verified_source gx_report) = ''verified''"
  by (simp_all add: validation_columns_def verified_source_def micros_def)

lemma gx_policy_in_force:
  assumes "k_policies db = [gx_policy]"
  shows "knowledge_quality_policy 3000 db project product consumer = Some gx_policy"
  by (simp add: knowledge_quality_policy_def assms) (simp add: gx_policy_def)

lemma gx_env_now [simp]: "env_db_now (gx_env p) = 3000"
  by (simp add: gx_env_def)

lemma gx_approvable: "approvable gx_repo_env gx_db2 gx_item ''v''"
  by (simp add: approvable_def gx_db2 gx_policy_in_force) (simp add: gx_policy_def)

lemma gx_approved_sel [simp]:
  "ki_ID gx_approved = ''i''" "ki_ProjectID gx_approved = ''p''" "ki_Content gx_approved = ''y''" "ki_Summary gx_approved = ''s''"
  "ki_Procedure gx_approved = [''a'']" "ki_Status gx_approved = ''approved''" "ki_Version gx_approved = 1" "kr_Approval gx_approved = Some ''v''"
  by (simp_all add: gx_approved_def)

lemma gx_eligible:
  assumes "k_policies db = [gx_policy]" "k_validations db = [validation_columns gx_report]" "k_sources db = [verified_source gx_report]"
    "k_items db = [gx_approved]"
  shows "knowledge_eligible 3000 db gx_approved ''development_guidance''"
  by (simp add: knowledge_eligible_def knowledge_quality_reason_def gx_policy_in_force assms approval_validation_def find_row_def sql_blank_def
      duplicate_content_def) (simp add: gx_policy_def)

lemma gx_decided:
  "repo_DecideKnowledge gx_repo_env gx_db2 gx_decision = (Inr gx_approved, gx_db3)"
  "g_items gx_db3 = [gx_approved]" "g_reports gx_db3 = [gx_report]" "k_sources (g_knowledge gx_db3) = [verified_source gx_report]"
  "k_validations (g_knowledge gx_db3) = [validation_columns gx_report]" "g_decisions gx_db3 = [decision_entry gx_repo_env gx_decision gx_item]"
proof -
  let ?new = "decided_item gx_repo_env gx_decision gx_item"
  let ?db1 = "gx_db2\<lparr>g_decisions := [decision_entry gx_repo_env gx_decision gx_item]\<rparr>"
  let ?db2 = "set_items [gx_approved] ?db1"
  have item: "find_row ki_ID ''i'' (g_items gx_db2) = Some gx_item" "find_row rep_ID ''v'' (g_reports gx_db2) = Some gx_report"
    by (simp_all add: gx_db2 find_row_def)
  have role: "database_role gx_repo_env gx_db2 ''human'' ''o'' ''p'' ''product_owner''" by (rule gx_human [OF gx_db2(8,9)])
  have check: "check_approval gx_repo_env gx_db2 gx_item gx_decision = None"
    by (simp add: check_approval_def item gx_approvable requireKnowledgeRoleSeparation_def workflow_gate_def)
  have put: "put_row ki_ID gx_approved [gx_item] = [gx_approved]" by (simp add: put_row_def)
  have fits: "decision_fits gx_db2 gx_decision" by (simp add: decision_fits_def gx_db2 find_row_def sql_blank_def)
  have dup: "duplicate_guard ?db1 gx_item gx_approved" by (simp add: duplicate_guard_def gx_db2)
  have prom: "promotion_guard 3000 ?db1 ''o'' gx_item gx_approved"
    by (simp add: promotion_guard_def gx_db2 validation_supports_def decision_supports_def) (simp add: gx_task_def)
  have elig: "knowledge_eligible 3000 (g_knowledge ?db2) gx_approved ''development_guidance''"
    by (rule gx_eligible) (simp_all add: gx_db2 set_items_def set_knowledge_def)
  then have pub: "publication_guard 3000 ?db2 gx_approved" by (simp add: publication_guard_def)
  have commit: "commit_decision gx_repo_env gx_db2 gx_decision gx_item = (Inr gx_approved, insert_review ''d'' (decision_review gx_decision gx_item) ?db2)"
    using fits dup prom pub by (simp add: commit_decision_def Let_def gx_approved_def [symmetric] gx_db2 put)
  have "repo_DecideKnowledge gx_repo_env gx_db2 gx_decision = (Inr gx_approved, insert_review ''d'' (decision_review gx_decision gx_item) ?db2)"
    by (simp add: repo_DecideKnowledge_def item role) (simp add: gx_db2 check commit)
  then show "repo_DecideKnowledge gx_repo_env gx_db2 gx_decision = (Inr gx_approved, gx_db3)"
    "g_items gx_db3 = [gx_approved]" "g_reports gx_db3 = [gx_report]" "k_sources (g_knowledge gx_db3) = [verified_source gx_report]"
    "k_validations (g_knowledge gx_db3) = [validation_columns gx_report]" "g_decisions gx_db3 = [decision_entry gx_repo_env gx_decision gx_item]"
    by (simp_all add: gx_db3_def gx_db2)
qed

section \<open>The run\<close>

lemma gx_initial: "kg_initial gx_db0"
  by (simp add: kg_initial_def gx_db0_def gx_task_def)

lemma gx_run2: "reach kg_initial kg_step gx_db2"
proof -
  have "reach kg_initial kg_step gx_db0" by (rule reach.reach_start) (rule gx_initial)
  then have "reach kg_initial kg_step gx_db1" by (rule reach.reach_step) (rule kg_step.record_generation [OF gx_captured(1)])
  then show ?thesis by (rule reach.reach_step) (rule kg_step.record_validation [OF gx_validated(1)])
qed

lemma gx_run: "reach kg_initial kg_step gx_db3"
  by (rule reach.reach_step [OF gx_run2]) (rule kg_step.decide [OF gx_decided(1)])

theorem approved_knowledge_is_validated_witness:
  "\<exists>v d. v \<in> set (g_reports gx_db3) \<and> d \<in> set (g_decisions gx_db3) \<and> kr_Approval gx_approved = Some (rep_ID v)
     \<and> rep_ContentSHA256 v = Digest ''y'' \<and> report_Check v = None \<and> kd_Decision d = ''approve'' \<and> is_kind gx_db3 ''human'' (kd_Actor d)"
proof -
  have "gx_approved \<in> set (g_items gx_db3)" by (simp add: gx_decided(2))
  from approved_knowledge_is_validated [OF gx_run this] show ?thesis by (simp only: gx_approved_sel) blast
qed

theorem approved_content_is_unique_witness:
  "reach kg_initial kg_step gx_db3 \<and> ki_Status (hd (g_items gx_db3)) = ''approved'' \<and> hd (g_items gx_db3) = last (g_items gx_db3)"
proof -
  have last: "last (g_items gx_db3) \<in> set (g_items gx_db3)" "hd (g_items gx_db3) \<in> set (g_items gx_db3)" by (simp_all add: gx_decided(2))
  have "hd (g_items gx_db3) = last (g_items gx_db3)"
    by (rule approved_content_is_unique [OF gx_run last]) (simp_all add: gx_decided(2))
  then show ?thesis using gx_run by (simp add: gx_decided(2))
qed

text \<open>A later rejection under a new key is refused: the item stays approved.\<close>

definition gx_rejection :: knowledge_decision where
  "gx_rejection = gx_decision\<lparr>kd_Decision := ''reject'', kd_IdempotencyKey := ''k2'', kd_ID := ''d2''\<rparr>"

definition gx_db4 :: governance_db where
  "gx_db4 = snd (repo_DecideKnowledge gx_repo_env gx_db3 gx_rejection)"

theorem decided_knowledge_is_final_witness:
  "kg_step\<^sup>*\<^sup>* gx_db3 gx_db4 \<and> (\<exists>k'. k' \<in> set (g_items gx_db4) \<and> ki_Content k' = ''y'' \<and> ki_Status k' = ''approved'')"
proof -
  have run: "kg_step\<^sup>*\<^sup>* gx_db3 gx_db4"
    unfolding gx_db4_def by (rule r_into_rtranclp) (rule kg_step.decide [OF surjective_pairing])
  have k: "gx_approved \<in> set (g_items gx_db3)" "ki_Status gx_approved \<noteq> ''pending''" by (simp_all add: gx_decided(2))
  from decided_knowledge_is_final [OF gx_run run k]
  obtain k' where k': "k' \<in> set (g_items gx_db4)" "k' = gx_approved\<lparr>ki_ApprovedAt := ki_ApprovedAt k', kr_Approval := kr_Approval k'\<rparr>" by blast
  have "ki_Content k' = ''y''" "ki_Status k' = ''approved''" by (subst k'(2), simp)+
  with k'(1) run show ?thesis by blast
qed

theorem decision_taken_once_witness:
  "repo_DecideKnowledge gx_repo_env gx_db2 gx_decision = (Inr gx_approved, gx_db3)
     \<and> snd (repo_DecideKnowledge gx_repo_env gx_db3 (gx_decision\<lparr>kd_Decision := ''reject''\<rparr>)) = gx_db3"
  using decision_taken_once [OF gx_run2 gx_decided(1) rtranclp.rtrancl_refl, of "gx_decision\<lparr>kd_Decision := ''reject''\<rparr>" gx_repo_env] gx_decided(1)
  by simp

section \<open>A lost source\<close>

definition gx_rev :: string where
  "gx_rev = replicate 40 (CHR ''a'')"

definition gx_host :: "unit host" where
  "gx_host = demo_host\<lparr>host_run := \<lambda>w _ _ argv _. (if ''--verify'' \<in> set argv then demo_process\<lparr>proc_writes := [gx_rev]\<rparr> else demo_process, w)\<rparr>"

definition gx_service :: "unit knowledge_service" where
  "gx_service = \<lparr>gsv_Authorizer = demo_allow, gsv_AutoApprove = False, gsv_SourceRoots = [''/repo''],
     gsv_Tree = \<lparr>kh_Abs = Some, kh_EvalSymlinks = Some, kh_Git = \<lambda>_. Some gx_rev\<rparr>, gsv_Contract = \<lambda>_ _. True, gsv_JSONValid = \<lambda>_. True,
     gsv_ToLower = id, gsv_Host = gx_host, gsv_EncodeResult = \<lambda>_. ''r''\<rparr>"

lemma gx_service_sel [simp]:
  "gsv_Authorizer gx_service = demo_allow" "gsv_Contract gx_service name doc" "gsv_Host gx_service = gx_host" "gsv_EncodeResult gx_service r = ''r''"
  "gsv_SourceRoots gx_service = [''/repo'']"
  "kh_Abs (gsv_Tree gx_service) = Some" "kh_EvalSymlinks (gsv_Tree gx_service) = Some" "kh_Git (gsv_Tree gx_service) args = Some gx_rev"
  by (simp_all add: gx_service_def)

lemma demo_store_empty [simp]: "store_files demo_store = Map.empty" "Read demo_store d = Inl ErrEvidenceUnavailable"
  by (simp_all add: demo_store_def Read_def)

lemma gx_lost: "verifyValidationEvidence gx_service demo_store gx_report = Some (ErrEvidenceUnavailable, [])"
  by (simp add: verifyValidationEvidence_def gx_report_ok verifySources_def gx_manifest_ok) (simp add: gx_manifest_def is_ok_def)

definition gx_db5 :: governance_db where
  "gx_db5 = snd (RefreshKnowledgeSources gx_service (gx_env None) demo_store gx_db3 gx_db3 ''i'')"

lemma gx_refreshed:
  "\<exists>r. RefreshKnowledgeSources gx_service (gx_env None) demo_store gx_db3 gx_db3 ''i'' = (r, gx_db5)"
  "gx_db5 \<noteq> gx_db3" "find_row ki_ID ''i'' (g_items gx_db5) = Some gx_approved"
proof -
  have item: "find_row ki_ID ''i'' (g_items gx_db3) = Some gx_approved" "find_row rep_ID ''v'' (g_reports gx_db3) = Some gx_report"
    "find_row kv_ID ''v'' (k_validations (g_knowledge gx_db3)) = Some (validation_columns gx_report)"
    by (simp_all add: gx_decided find_row_def)
  have reason: "failure_reason (Some (ErrEvidenceUnavailable, [])) = ''evidence_unavailable''" by (simp add: failure_reason_def)
  have "snd (RecordSourceCheck (sub_env 1 (gx_env None)) gx_db3 ''i'' 1 ''v'' False ''evidence_unavailable'') = gx_db5"
    by (simp add: gx_db5_def RefreshKnowledgeSources_def item GetKnowledgeValidation_def gx_lost reason split: prod.split sum.split)
  then have db5: "gx_db5 = (set_knowledge ((g_knowledge gx_db3)\<lparr>k_sources := checked_source (sub_env 1 (gx_env None)) (validation_columns gx_report) False
      ''evidence_unavailable'' (k_sources (g_knowledge gx_db3))\<rparr>) gx_db3)\<lparr>g_receipts := g_receipts gx_db3 @ [(''v'', False, ''evidence_unavailable'')]\<rparr>"
    by (simp add: RecordSourceCheck_def item Let_def)
  show "\<exists>r. RefreshKnowledgeSources gx_service (gx_env None) demo_store gx_db3 gx_db3 ''i'' = (r, gx_db5)"
    by (metis gx_db5_def prod.collapse)
  have "g_receipts gx_db5 \<noteq> g_receipts gx_db3" by (simp add: db5)
  then show "gx_db5 \<noteq> gx_db3" by metis
  show "find_row ki_ID ''i'' (g_items gx_db5) = Some gx_approved" by (simp add: db5 set_knowledge_def item)
qed

theorem failed_refresh_blocks_reuse_witness:
  "fst (RefreshKnowledgeSources gx_service (gx_env None) demo_store gx_db3 gx_db3 ''i'') = Inl ErrEvidenceUnavailable
     \<and> \<not> knowledge_eligible 3000 (g_knowledge gx_db5) gx_approved ''code_change''"
proof -
  obtain r where r: "RefreshKnowledgeSources gx_service (gx_env None) demo_store gx_db3 gx_db3 ''i'' = (r, gx_db5)" using gx_refreshed(1) by blast
  have item: "find_row ki_ID ''i'' (g_items gx_db3) = Some gx_approved" by (simp add: gx_decided find_row_def)
  have report: "GetKnowledgeValidation gx_db3 (case kr_Approval gx_approved of None \<Rightarrow> [] | Some v \<Rightarrow> v) = Inr gx_report"
    by (simp add: GetKnowledgeValidation_def gx_decided find_row_def)
  from failed_refresh_blocks_reuse [OF item report gx_lost r gx_refreshed(2,3)] r show ?thesis by simp
qed

end
