(* ===== verification/KnowledgePatchExample.thy ===== *)
theory KnowledgePatchExample
  imports KnowledgeExamples
begin

text \<open>
  A candidate whose patch the verifier accepts on a concrete host: the instance at which \<open>executed_report_matches_run\<close> is applied.
\<close>

section \<open>A store of small texts\<close>

definition small_store :: "local_store \<Rightarrow> bool" where
  "small_store st \<longleftrightarrow> (\<forall>d x. digestPattern d \<and> store_files st (artifact_path (store_root st) d) = Some x
     \<longrightarrow> Digest x = d \<and> length x \<le> max_artifact_bytes)"

lemma small_demo: "small_store demo_store"
  by (simp add: small_store_def)

lemma small_put_ok:
  assumes "small_store st"
  obtains a st' where "Put st x m = (Inr a, st')" "art_SHA256 a = Digest x" "st' = (if store_files st (artifact_path (store_root st) (Digest x)) = None
    then st\<lparr>store_files := (store_files st)(artifact_path (store_root st) (Digest x) \<mapsto> x)\<rparr> else st)"
proof (cases "store_files st (artifact_path (store_root st) (Digest x))")
  case None
  then show ?thesis by (intro that [of "artifact_ref (Digest x) (artifact_path (store_root st) (Digest x)) m (length x)"]) (simp_all add: Put_def Let_def artifact_ref_def)
next
  case (Some y)
  then have "Read st (Digest x) = Inr y" using assms digestPattern_Digest unfolding small_store_def Read_Ok by blast
  with Some show ?thesis by (intro that [of "artifact_ref (Digest x) (artifact_path (store_root st) (Digest x)) m (length x)"]) (simp_all add: Put_def Let_def artifact_ref_def)
qed

lemma small_put:
  assumes "small_store st" "length x \<le> max_artifact_bytes"
  obtains a st' where "Put st x m = (Inr a, st')" "art_SHA256 a = Digest x" "small_store st'" "is_ok (Read st' (Digest x))"
    "\<And>d. is_ok (Read st d) \<Longrightarrow> is_ok (Read st' d)"
proof -
  obtain a st' where put: "Put st x m = (Inr a, st')" "art_SHA256 a = Digest x"
    and st': "st' = (if store_files st (artifact_path (store_root st) (Digest x)) = None
      then st\<lparr>store_files := (store_files st)(artifact_path (store_root st) (Digest x) \<mapsto> x)\<rparr> else st)"
    by (rule small_put_ok [OF assms(1)])
  have "small_store st'"
  proof (cases "store_files st (artifact_path (store_root st) (Digest x))")
    case None
    have "Digest y = d \<and> length y \<le> max_artifact_bytes"
      if d: "digestPattern d" and y: "store_files st' (artifact_path (store_root st') d) = Some y" for d y
    proof (cases "artifact_path (store_root st) d = artifact_path (store_root st) (Digest x)")
      case True
      then have "d = Digest x" using d digestPattern_Digest artifact_path_inj by blast
      moreover have "y = x" using True None y st' by simp
      ultimately show ?thesis using assms(2) by simp
    next
      case False
      then have "store_files st (artifact_path (store_root st) d) = Some y" using None y st' by simp
      then show ?thesis using assms(1) d unfolding small_store_def by blast
    qed
    then show ?thesis unfolding small_store_def by blast
  next
    case (Some y)
    then show ?thesis using assms(1) st' by simp
  qed
  moreover have "is_ok (Read st' (Digest x))" using store.put_readable [OF put(1) assms(2)] put(2) by (auto simp: is_ok_iff)
  moreover have "is_ok (Read st' d)" if "is_ok (Read st d)" for d
    using that readable_later [OF _ put(1)] by (auto simp: is_ok_iff)
  ultimately show ?thesis using that put by blast
qed

section \<open>The length of JSON texts\<close>

lemma length_json_ascii: "length (json_ascii c) \<le> 6"
  by (simp add: json_ascii_def)

lemma length_json_escape: "length (json_escape s) \<le> 6 * length s"
proof (induction s rule: json_escape.induct)
  case (2 c s)
  have pos: "1 \<le> snd (rune_at (map of_char (c # s)))" by (rule rune_at_pos)
  show ?case
  proof (cases "c < CHR 0x80")
    case True
    then show ?thesis using 2(1) length_json_ascii [of c] by simp
  next
    case False
    obtain r n where rn: "rune_at (map of_char (c # s)) = (r, n)" by fastforce
    then have n: "1 \<le> n" using pos by simp
    have rest: "length (json_escape (drop n (c # s))) \<le> 6 * (Suc (length s) - n)" if "n \<noteq> 1"
      using 2(3,4) [OF False rn [symmetric] refl that] by (cases "r = 8232 \<or> r = 8233") simp_all
    have one: "length (json_escape s) \<le> 6 * length s" if "n = 1" using 2(2) [OF False rn [symmetric] refl that] by simp
    show ?thesis using False n rest one by (auto simp: rn [simplified] Let_def)
  qed
qed simp

lemma length_json_string: "length (json_string s) \<le> 6 * length s + 2"
  using length_json_escape [of s] by (simp add: json_string_def)

section \<open>The verification\<close>

definition gx_packet :: packet where
  "gx_packet = demo_packet\<lparr>pkt_LocalOnly := True, pkt_CloudReview := False, pkt_CloudProvider := [], pkt_CloudApprovedBy := [], pkt_BaseRevision := gx_rev\<rparr>"

lemma gx_packet_sel [simp]:
  "pkt_ID gx_packet = ''w''" "pkt_Workspace gx_packet = ''/repo''" "pkt_BaseRevision gx_packet = gx_rev" "pkt_LocalOnly gx_packet" "\<not> pkt_CloudReview gx_packet"
  "pkt_ForbiddenFiles gx_packet = []" "pkt_AllowedFiles gx_packet = [''src/**'']" "pkt_Limits gx_packet = pkt_Limits demo_packet"
  "pkt_Checks gx_packet = [\<lparr>check_Name = ''test'', check_Argv = [''go'', ''test''], check_TimeoutSeconds = 0\<rparr>]"
  by (simp_all add: gx_packet_def demo_packet_def)

lemma trim_gx_rev [simp]: "trim_space gx_rev = gx_rev"
  by (rule trim_space_plain) (simp add: gx_rev_def plain_char_def)

lemma gx_rev_facts [simp]: "length gx_rev = 40" "revisionPattern gx_rev" "gx_rev \<noteq> []"
  by (simp_all add: gx_rev_def revisionPattern_def lower_hex_def list_all_iff)

lemma gx_packet_allowed: "ev_Allowed (Evaluate gx_packet)"
  unfolding Evaluate_allowed Let_def by (simp add: gx_packet_def demo_packet_def packet_eval)

lemma gx_fields:
  "host_abs gx_host = Inr" "host_symlinks gx_host w = Inr" "host_isdir gx_host w d"
  "host_mkdir_temp gx_host w = (Inr ''/tmp/x'', w)" "host_write_file gx_host w path bytes = (None, w)"
  by (simp_all add: gx_host_def demo_host_def)

lemma gx_run_plain:
  assumes "''--verify'' \<notin> set argv"
  shows "commandOutput gx_host w dir argv t = (([], demo_process), w)" "commandBytes gx_host w dir argv = (Inr (proc_stdout demo_process), w)"
  using assms by (simp_all add: commandOutput_def commandBytes_def gx_host_def demo_process_def limitedBuffer_String_def maxCheckOutputBytes_def)

lemma gx_git_plain:
  assumes "''--verify'' \<notin> set args"
  shows "git_step gx_host label dir args w = (Inr [], w)" "gitOutput gx_host w dir args = (Inr [], w)"
  using assms by (simp_all add: git_step_def gitOutput_def gx_run_plain) (simp_all add: demo_process_def)

lemma gx_rev_parse: "gitOutput gx_host w dir [''rev-parse'', ''--verify'', x] = (Inr gx_rev, w)"
proof -
  have buffer: "limitedBuffer_String maxCheckOutputBytes (limitedBuffer_Write maxCheckOutputBytes [] gx_rev) = gx_rev"
    by (simp add: limitedBuffer_Write_def limitedBuffer_String_def maxCheckOutputBytes_def)
  have "commandOutput gx_host w dir [''git'', ''rev-parse'', ''--verify'', x] None = ((gx_rev, demo_process\<lparr>proc_writes := [gx_rev]\<rparr>), w)"
    by (simp add: commandOutput_def buffer) (simp add: gx_host_def buffer)
  then show ?thesis by (simp add: gitOutput_def) (simp add: demo_process_def)
qed

lemma gx_staged:
  "stagedChanges gx_host clone w = (Inr ([\<lparr>fc_Path = ''src/a.go'', fc_Additions = 1, fc_Deletions = 0\<rparr>], 1), w)"
  using demo_staged [of clone] by (simp add: stagedChanges_def demo_commands gx_run_plain)

definition gx_check :: check_result where
  "gx_check = \<lparr>cr_Name = ''test'', cr_Argv = [''go'', ''test''], cr_ExitCode = 0, cr_Passed = True, cr_Output = []\<rparr>"

lemma gx_checked:
  "checked_result gx_host gx_packet clone r w = (r\<lparr>vr_Checks := [gx_check], vr_Accepted := True\<rparr>, w)"
  by (simp add: checked_result_def stagedPatchHash_def gx_run_plain runCheck_def unchanged_after_checks_def and_then_def gx_git_plain)
    (simp add: demo_process_def gx_check_def)

lemma gx_verified:
  "\<exists>result. VerifyPatch gx_host gx_packet ''x'' () = (result, ()) \<and> vr_Accepted result \<and> vr_Checks result = [gx_check] \<and> vr_BaseRevision result = gx_rev"
proof -
  have adm: "admission_error gx_packet ''x'' = None"
    using gx_packet_allowed by (simp add: admission_error_def Let_def) (simp add: gx_packet_def demo_packet_def packet_eval defaultMaxPatchBytes_def)
  have base: "resolve_base gx_host gx_packet () = (Inr (''/repo'', gx_rev), ())"
    by (simp add: resolve_base_def resolveWorkspace_def and_then_def gx_git_plain gx_fields gx_rev_parse)
  have "length ''--verify'' \<noteq> length gx_rev" by simp
  then have rev: "''--verify'' \<noteq> gx_rev" by metis
  have stage: "stage_patch gx_host ws gx_rev ''x'' () = (Inr ''/tmp/x/repository'', ())" if "''--verify'' \<noteq> ws" for ws
    using that rev by (simp add: stage_patch_def and_then_def gx_git_plain Let_def gx_fields)
  have forb: "ev_EffectiveForbiddenFiles (Evaluate gx_packet) = mergeForbidden []" by (simp add: Evaluate_forbidden)
  have ext: "extent_errors gx_packet (mergeForbidden []) [\<lparr>fc_Path = ''src/a.go'', fc_Additions = 1, fc_Deletions = 0\<rparr>] 1 = []"
  proof -
    have "pkt_AllowedFiles demo_packet = [''src/**'']" by (simp add: demo_packet_def)
    then show ?thesis using demo_extent by (simp add: extent_errors_Nil)
  qed
  show ?thesis
    using ext by (simp add: VerifyPatch_def Let_def adm base stage and_then_def gx_staged forb diff_check_errors_def gx_git_plain gx_checked)
qed

section \<open>The report\<close>

definition gx_input :: validation_input where
  "gx_input = \<lparr>vi_KnowledgeID = ''i'', vi_ExpectedVersion = 1, vi_SourceManifest = \<lparr>sm_SchemaVersion = ''hybrid-ai/knowledge-source/v1'', sm_Sources =
       [\<lparr>kns_Kind = ''repository'', kns_Reference = ''/repo'', kns_Revision = gx_rev, kns_Branch = ''master'', kns_ApplicableThrough = [], kns_ArtifactSHA256 = []\<rparr>]\<rparr>,
     vi_Criteria = [\<lparr>vc_Name = ''c'', vc_Passed = True, vc_Observation = ''o''\<rparr>]\<rparr>"

lemma gx_input_sel [simp]:
  "vi_KnowledgeID gx_input = ''i''" "vi_ExpectedVersion gx_input = 1" "vi_Criteria gx_input = [\<lparr>vc_Name = ''c'', vc_Passed = True, vc_Observation = ''o''\<rparr>]"
  "sm_SchemaVersion (vi_SourceManifest gx_input) = ''hybrid-ai/knowledge-source/v1''"
  "sm_Sources (vi_SourceManifest gx_input) =
    [\<lparr>kns_Kind = ''repository'', kns_Reference = ''/repo'', kns_Revision = gx_rev, kns_Branch = ''master'', kns_ApplicableThrough = [], kns_ArtifactSHA256 = []\<rparr>]"
  by (simp_all add: gx_input_def)

lemma gx_input_manifest: "manifest_Validate (vi_SourceManifest gx_input) = None"
  by (simp add: manifest_Validate_def source_ok_def)

lemma gx_repository: "verify_repository gx_service s = None"
  if "kns_Reference s = ''/repo''" "kns_Revision s = gx_rev" "kns_ApplicableThrough s = []"
  using that by (simp add: verify_repository_def resolve_path_def source_allowed_def branch_head_def below_root_def path_elements_def)

lemma gx_sources: "verifySources gx_service st (vi_SourceManifest gx_input) = None"
  by (simp add: verifySources_def gx_input_manifest gx_repository)

lemma gx_bound: "bound_to_packet (vi_SourceManifest gx_input) ''/repo'' gx_rev"
  by (simp add: bound_to_packet_def)

definition gx_executed :: "artifact \<Rightarrow> artifact \<Rightarrow> validation_input" where
  "gx_executed packetArtifact patchArtifact =
     gx_input\<lparr>vi_SourceManifest := executed_sources (vi_SourceManifest gx_input) gx_packet packetArtifact patchArtifact\<rparr>"

lemma gx_executed_sources:
  assumes "is_ok (Read st (art_SHA256 a))" "is_ok (Read st (art_SHA256 b))"
  shows "manifest_Validate (vi_SourceManifest (gx_executed a b)) = None \<and> verifySources gx_service st (vi_SourceManifest (gx_executed a b)) = None"
proof -
  have d: "digestPattern (art_SHA256 a)" "digestPattern (art_SHA256 b)" using assms by (auto simp: is_ok_iff Read_Ok)
  then have "manifest_Validate (vi_SourceManifest (gx_executed a b)) = None"
    by (simp add: manifest_Validate_def gx_executed_def executed_sources_def source_ok_def)
  then show ?thesis using assms d by (simp add: verifySources_def) (simp add: gx_executed_def executed_sources_def gx_repository)
qed

lemma gx_executed_sel [simp]: "vi_Criteria (gx_executed a b) = [\<lparr>vc_Name = ''c'', vc_Passed = True, vc_Observation = ''o''\<rparr>]"
  by (simp add: gx_executed_def)

definition gx_command :: validation_command where
  "gx_command = \<lparr>vm_Argv = [''go'', ''test''], vm_ExitCode = 0, vm_OutputSHA256 = Digest []\<rparr>"

lemma gx_command_sel [simp]: "vm_Argv gx_command = [''go'', ''test'']" "vm_ExitCode gx_command = 0" "vm_OutputSHA256 gx_command = Digest []"
  by (simp_all add: gx_command_def)

abbreviation gx_call :: call_env where
  "gx_call \<equiv> gx_env (Some (demo_person ''q''))"

abbreviation gx_draft :: "artifact \<Rightarrow> artifact \<Rightarrow> artifact \<Rightarrow> knowledge_validation" where
  "gx_draft a b source \<equiv> drafted_report gx_call gx_item (demo_person ''q'') (gx_executed a b) ''workpacket'' [gx_command] 3000 source"

lemma gx_draft_ok:
  assumes "manifest_Validate (vi_SourceManifest (gx_executed a b)) = None"
    and "art_SHA256 source = Digest (manifest_bytes (vi_SourceManifest (gx_executed a b)))"
  shows "report_Check (gx_draft a b source) = None" "report_Check ((gx_draft a b source)\<lparr>rep_ReportArtifact := r\<rparr>) = None"
  by (simp_all add: report_Check_def drafted_report_def assms digestPattern_Digest evidence_passed_def gx_env_def demo_person_def zero_time_def seconds_def)

lemma gx_draft_bytes: "\<exists>bytes. report_bytes (gx_draft a b source) = Inr bytes" "\<exists>bytes. report_bytes ((gx_draft a b source)\<lparr>rep_ReportArtifact := r\<rparr>) = Inr bytes"
proof -
  have "time_marshals (utc 3000)" "time_marshals (utc 86400000003000)" by code_simp+
  then show "\<exists>bytes. report_bytes (gx_draft a b source) = Inr bytes" "\<exists>bytes. report_bytes ((gx_draft a b source)\<lparr>rep_ReportArtifact := r\<rparr>) = Inr bytes"
    by (simp_all add: report_bytes_def drafted_report_def gx_env_def seconds_def)
qed

lemma gx_recorded:
  assumes "manifest_Validate (vi_SourceManifest (gx_executed a b)) = None"
    and "art_SHA256 source = Digest (manifest_bytes (vi_SourceManifest (gx_executed a b)))"
  shows "\<exists>db'. RecordKnowledgeValidation (gsv_Contract gx_service) (sub_env 1 gx_call) gx_db1 ((gx_draft a b source)\<lparr>rep_ReportArtifact := r\<rparr>)
    = (Inr ((gx_draft a b source)\<lparr>rep_ReportArtifact := r\<rparr>), db')"
proof -
  let ?v = "(gx_draft a b source)\<lparr>rep_ReportArtifact := r\<rparr>"
  have sel: "rep_KnowledgeID ?v = ''i''" "rep_ProjectID ?v = ''p''" "rep_CandidateVersion ?v = 1" "rep_ContentSHA256 ?v = Digest ''y''"
    "rep_ValidatedBy ?v = ''q''" "rep_CompletedAt ?v = 3000" "rep_StartedAt ?v = 3000" "rep_ValidUntil ?v = 86400000003000" "rep_SourceArtifact ?v = source"
    "rep_SourceManifestSHA256 ?v = art_SHA256 source"
    by (simp_all add: drafted_report_def gx_env_def demo_person_def seconds_def)
  have now: "env_db_now (sub_env 1 gx_call) = 3000" "env_clock (sub_env 1 gx_call) 0 = 3000" by (simp_all add: sub_env_def gx_env_def)
  have role: "database_role (sub_env 1 gx_call) gx_db1 ''human'' ''q'' ''p'' ''qa''"
    using gx_human(1) [OF gx_captured(9,10)] by (simp add: database_role_def now del: One_nat_def)
  then have allowed: "validator_allowed (sub_env 1 gx_call) gx_db1 ?v" by (simp only: validator_allowed_def sel) blast
  have sep: "requireKnowledgeRoleSeparation gx_db1 gx_item ''q'' [] ''qa'' = None" by (simp add: requireKnowledgeRoleSeparation_def)
  have item: "find_row ki_ID ''i'' (g_items gx_db1) = Some gx_item" by (simp add: gx_captured find_row_def)
  have arts: "find_row art_SHA256 (art_SHA256 source) (wf_artifacts (td_wf (g_task (add_artifacts [source, rep_ReportArtifact ?v] gx_db1)))) \<noteq> None"
    by (simp add: add_artifacts_def add_artifact_def find_row_None insert_artifact_keys)
  have fits: "report_fits (add_artifacts [source, rep_ReportArtifact ?v] gx_db1) ?v"
    using arts unfolding report_fits_def sel by (simp add: gx_captured find_row_def micros_def seconds_def)
  obtain bytes where bytes: "report_bytes ?v = Inr bytes" using gx_draft_bytes(2) by blast
  note check = gx_draft_ok(2) [OF assms, of r]
  show ?thesis unfolding RecordKnowledgeValidation_def check sel item bytes now using allowed fits sep by (simp add: seconds_def)
qed

lemma gx_manifest_small:
  assumes "art_SHA256 a = Digest x" "art_SHA256 b = Digest y"
  shows "length (manifest_bytes (vi_SourceManifest (gx_executed a b))) \<le> max_artifact_bytes"
proof -
  have s: "length (json_string t) \<le> 6 * n + 2" if "length t \<le> n" for t n using length_json_string [of t] that by linarith
  have short: "length (json_string t) \<le> 300" if "length t \<le> 49" for t using s [OF that] by simp
  have "length (json_string (Digest x)) \<le> 386" "length (json_string (Digest y)) \<le> 386" "length (json_string gx_rev) \<le> 242"
    using s [of "Digest x" 64] s [of "Digest y" 64] s [of gx_rev 40] by simp_all
  moreover have "length (json_string ''kind'') \<le> 300" "length (json_string ''reference'') \<le> 300" "length (json_string ''revision'') \<le> 300"
    "length (json_string ''branch'') \<le> 300" "length (json_string ''artifact_sha256'') \<le> 300" "length (json_string ''schema_version'') \<le> 300"
    "length (json_string ''sources'') \<le> 300" "length (json_string ''hybrid-ai/knowledge-source/v1'') \<le> 300" "length (json_string ''repository'') \<le> 300"
    "length (json_string ''/repo'') \<le> 300" "length (json_string ''master'') \<le> 300" "length (json_string ''work_packet'') \<le> 300"
    "length (json_string ''w'') \<le> 300" "length (json_string ''patch'') \<le> 300"
    by (rule short, simp)+
  ultimately show ?thesis
    by (simp add: manifest_bytes_def json_manifest_def json_source_def omit_empty_def gx_executed_def executed_sources_def assms max_artifact_bytes_def)
qed

lemma gx_recorded_validation:
  assumes small: "small_store st" and ok: "is_ok (Read st (Digest x))" "is_ok (Read st (Digest y))" "is_ok (Read st (Digest []))"
    and sha: "art_SHA256 a = Digest x" "art_SHA256 b = Digest y"
  shows "\<exists>v st' db'. recordValidation gx_service gx_call st gx_db1 gx_item (demo_person ''q'') (gx_executed a b) ''workpacket'' [gx_command] 3000
    = (Inr v, st', db')"
proof -
  note sources = gx_executed_sources [of st a b, unfolded sha, OF ok(1,2)]
  have readable: "all_readable st (filter (\<lambda>d. d \<noteq> []) (map kns_ArtifactSHA256 (sm_Sources (vi_SourceManifest (gx_executed a b)))) @ map vm_OutputSHA256 [gx_command])"
    using ok by (simp add: all_readable_def gx_executed_def executed_sources_def sha)
  obtain source st1 where put1: "Put st (manifest_bytes (vi_SourceManifest (gx_executed a b))) ''application/json'' = (Inr source, st1)"
      and source: "art_SHA256 source = Digest (manifest_bytes (vi_SourceManifest (gx_executed a b)))" and small1: "small_store st1"
    using small_put [OF small gx_manifest_small [OF sha]] by blast
  have draft: "report_Check (gx_draft a b source) = None" by (rule gx_draft_ok(1) [OF conjunct1 [OF sources] source])
  obtain bytes where bytes: "report_bytes (gx_draft a b source) = Inr bytes" using gx_draft_bytes(1) by blast
  obtain r st2 where put2: "Put st1 bytes ''application/json'' = (Inr r, st2)" using small_put_ok [OF small1] by blast
  obtain db' where rec: "RecordKnowledgeValidation (gsv_Contract gx_service) (sub_env 1 gx_call) gx_db1 ((gx_draft a b source)\<lparr>rep_ReportArtifact := r\<rparr>)
    = (Inr ((gx_draft a b source)\<lparr>rep_ReportArtifact := r\<rparr>), db')"
    using gx_recorded [OF conjunct1 [OF sources] source] by blast
  show ?thesis unfolding recordValidation_def conjunct2 [OF sources] option.case if_not_P [OF iffD2 [OF not_not readable]] put1 prod.case sum.case Let_def draft bytes put2 rec
    by simp
qed

lemma gx_packet_small: "length (print_json (json_packet gx_packet)) \<le> max_artifact_bytes"
proof -
  have "length (print_json (json_packet gx_packet)) \<le> 1500" by code_simp
  then show ?thesis by (simp add: max_artifact_bytes_def)
qed

theorem executed_report_matches_run_witness:
  "\<exists>v st' db'. VerifyKnowledgePatch gx_service gx_call demo_store gx_db1 gx_db1 gx_input gx_packet ''x'' () = (Inr v, st', db')
     \<and> map vm_Argv (rep_Commands v) = [[''go'', ''test'']] \<and> rep_Verdict v = ''pass'' \<and> is_ok (Read st' (Digest ''x''))"
proof -
  obtain result where run: "VerifyPatch gx_host gx_packet ''x'' () = (result, ())" and acc: "vr_Accepted result"
    and checks: "vr_Checks result = [gx_check]" and rev: "vr_BaseRevision result = gx_rev" using gx_verified by blast
  have item: "GetKnowledge (g_knowledge gx_db1) ''i'' = Inr gx_item" by (simp add: GetKnowledge_def gx_captured find_row_def)
  have who: "RequirePrincipal (env_ctx gx_call) = Inr (demo_person ''q'')"
    by (simp add: gx_env_def RequirePrincipal_def PrincipalFromContext_def demo_person_def)
  have auth: "AuthorizeProjectAction demo_allow (env_ctx gx_call) ''p'' ''knowledge_candidate'' ''i'' ''validate'' attrs = Inr (demo_person ''q'')" for attrs
    by (simp add: AuthorizeProjectAction_def who) (simp add: demo_allow_def authorizeUntraced_def plain_char_def)
  have candidate: "validationCandidateFor gx_service gx_call gx_db1 gx_input True = Inr (gx_item, demo_person ''q'')"
    using auth by (simp add: validationCandidateFor_def who item gx_input_manifest Let_def HasRole_iff) (simp add: demo_person_def)
  obtain a0 st0 where put0: "Put demo_store ''r'' ''application/json'' = (Inr a0, st0)" and small0: "small_store st0"
    by (rule small_put [OF small_demo, of "''r''" "''application/json''"]) (auto simp: max_artifact_bytes_def)
  obtain a st1 where put1: "Put st0 (print_json (json_packet gx_packet)) ''application/json'' = (Inr a, st1)"
    and a: "art_SHA256 a = Digest (print_json (json_packet gx_packet))" "is_ok (Read st1 (Digest (print_json (json_packet gx_packet))))" and small1: "small_store st1"
    using small_put [OF small0 gx_packet_small] by blast
  obtain b st2 where put2: "Put st1 ''x'' ''text/x-diff'' = (Inr b, st2)" and b: "art_SHA256 b = Digest ''x''" "is_ok (Read st2 (Digest ''x''))"
    and small2: "small_store st2" and keep2: "\<And>d. is_ok (Read st1 d) \<Longrightarrow> is_ok (Read st2 d)"
    by (rule small_put [OF small1, of "''x''" "''text/x-diff''"]) (auto simp: max_artifact_bytes_def)
  obtain c st3 where put3: "Put st2 [] ''text/plain'' = (Inr c, st3)" and c: "art_SHA256 c = Digest []" "is_ok (Read st3 (Digest []))"
    and small3: "small_store st3" and keep3: "\<And>d. is_ok (Read st2 d) \<Longrightarrow> is_ok (Read st3 d)"
    by (rule small_put [OF small2, of "[]" "''text/plain''"]) (auto simp: max_artifact_bytes_def)
  have outs: "put_outputs st2 [gx_check] = (Inr [gx_command], st3)" by (simp add: gx_check_def put3 c gx_command_def)
  obtain v st' db' where rec: "recordValidation gx_service gx_call st3 gx_db1 gx_item (demo_person ''q'') (gx_executed a b) ''workpacket'' [gx_command] 3000
    = (Inr v, st', db')"
    using gx_recorded_validation [OF small3 keep3 [OF keep2 [OF a(2)]] keep3 [OF b(2)] c(2) a(1) b(1)] by blast
  have clock: "env_clock gx_call 0 = 3000" by (simp add: gx_env_def)
  have "record_executed gx_service gx_call st0 gx_db1 gx_item (demo_person ''q'') gx_input gx_packet ''x'' result = (Inr v, st', db')"
    using rec by (simp add: record_executed_def put1 put2 checks outs rev gx_bound clock gx_executed_def del: put_outputs.simps)
  then have call: "VerifyKnowledgePatch gx_service gx_call demo_store gx_db1 gx_db1 gx_input gx_packet ''x'' () = (Inr v, st', db')"
    by (simp add: VerifyKnowledgePatch_def candidate verifyKnowledgePatch_def gx_sources gx_bound run put0 acc)
  have run': "VerifyPatch (gsv_Host gx_service) gx_packet ''x'' () = (result, ())" using run by simp
  from executed_report_matches_run [OF call run'] call show ?thesis by simp
qed

end
