(* ===== verification/Spec2Isabelle.thy ===== *)
theory Spec2Isabelle
  imports WorkflowExamples WorkPacketProps PatchVerifier ExecExamples FilePatch ProductExamples IntentProps ServiceExamples
    TaskExamples PackageExamples DelegationExamples KnowledgeExamples KnowledgePatchExample
begin

text \<open>
  A verification library for the core of the hybrid AI development platform (the Go sources under \<open>src/internal\<close> and
  \<open>src/components\<close>): a service that lets AI workers change software only under leases, budgets, evidence and human
  decisions. This theory only collects the library; the properties stand in the theories named below, each right after
  its statement in words.

  \<^bold>\<open>The program and its model.\<close> Requests enter through services, which authorize the caller, read the database and the
  artifact store, and commit in one transaction of a repository.

  \<^item> \<^emph>\<open>Identity and authorization\<close> (\<open>Authority\<close>: \<open>domain/workflow.go\<close>, \<open>identity/context.go\<close>, \<open>service/access.go\<close>):
    principals with roles per project, delegated principals, governance profiles, and the fail-closed call of the policy
    decision point.
  \<^item> \<^emph>\<open>Artifact store\<close> (\<open>Sha256\<close>, \<open>Artifacts\<close>: \<open>artifacts/local.go\<close>): bytes under their SHA-256 digest. SHA-256 is written
    out on 32-bit words, so that digests compute.
  \<^item> \<^emph>\<open>Workflows\<close> (\<open>Workflow\<close>, \<open>WorkflowProps\<close>, \<open>WorkflowExamples\<close>: \<open>service/workflow.go\<close>, \<open>postgres/workflows.go\<close>): a versioned state
    machine with human gates. A call reads one snapshot and commits in a later one; a reachable history is a list of database states,
    newest first, and every call may have read any of them.
  \<^item> \<^emph>\<open>Work packets\<close> (\<open>Runes\<close>, \<open>WorkPacket\<close>, \<open>WorkPacketProps\<close>: \<open>components/workpacket/policy.go\<close>) and the \<^emph>\<open>patch verifier\<close>
    (\<open>PatchVerifier\<close>: \<open>verify.go\<close>): admission of bounded tasks, path rules decided on UTF-8 runes, and the staged, checked application
    of a patch.
  \<^item> \<^emph>\<open>Execution domain and registry\<close> (\<open>Json\<close>, \<open>Times\<close>, \<open>ExecDomain\<close>: \<open>domain/execution.go\<close>, \<open>execution/registry.go\<close>): packages, targets,
    budgets, runs, steps, results and the validation of operator configuration; the JSON texts the program digests.
  \<^item> \<^emph>\<open>Execution store\<close> (\<open>ExecStore\<close>: \<open>postgres/execution.go\<close>, with \<open>lockActivePackages\<close> of \<open>postgres/execution_package.go\<close>):
    creation, claims under leases with fences, completion, control, source reservations, artifacts. \<open>ExecChange\<close> gives one normal form of
    what a call changes, \<open>ExecInv\<close> the invariant, \<open>ExecHistory\<close> the step relation \<open>x_step\<close> and what later states keep,
    \<open>ExecMeter\<close> the metering of source rows against the limits that were granted, \<open>ExecProps\<close> and \<open>ExecProgress\<close> the properties, \<open>ExecExamples\<close> concrete executions.
  \<^item> \<^emph>\<open>Patch builder\<close> (\<open>FilePatch\<close>: \<open>execution/file_patch.go\<close>), with a reader of patches as the reference of the round trip.
  \<^item> \<^emph>\<open>Sources and observations\<close> (\<open>Sources\<close>, \<open>Observations\<close>: \<open>sources/registry.go\<close>, \<open>domain/source.go\<close>, \<open>domain/product_evaluation.go\<close>):
    bounded queries of external systems and the reconciliation of two observed windows.
  \<^item> \<^emph>\<open>Product knowledge\<close> (\<open>ProductStore\<close>, \<open>ProductProps\<close>, \<open>ProductExamples\<close>: \<open>postgres/product.go\<close>; \<open>Intent\<close>, \<open>ProductService\<close>, \<open>IntentProps\<close>:
    \<open>service/product.go\<close>, \<open>service/intent.go\<close>, \<open>domain/intent.go\<close>): immutable versions, human validations and decisions, heads, and the
    context of an intent.
  \<^item> \<^emph>\<open>Evidence\<close> (\<open>Evidence\<close>: \<open>postgres/source.go\<close>, \<open>postgres/product_evaluation.go\<close>, \<open>service/source.go\<close>, \<open>service/product_evaluation.go\<close>):
    receipts with observations and stored evaluations.
  \<^item> \<^emph>\<open>Execution service\<close> (\<open>PathMatch\<close>, \<open>ExecCode\<close>, \<open>ExecService\<close>: \<open>service/execution.go\<close>, \<open>service/execution_code.go\<close>,
    \<open>service/execution_evidence.go\<close>): the operations in front of the execution store and the validators that derive the next
    state of a run from the evidence of a step. \<open>ServiceMachine\<close> composes all services into one machine \<open>v_step\<close>;
    \<open>ServiceProps\<close> and \<open>ServiceExamples\<close> hold its properties and their instances.
  \<^item> \<^emph>\<open>Packages\<close> (\<open>Packages\<close>: \<open>service/execution_package.go\<close>, \<open>postgres/execution_package.go\<close>): the evaluation of a package on a campaign of qualification
    runs, its activation for a role of a target and the rollback to an earlier one. \<open>PackageProps\<close> composes these calls with the execution store into a
    machine \<open>pk_step\<close> on histories, and \<open>PackageExamples\<close> drives a campaign to an activation.
  \<^item> \<^emph>\<open>Delegated sessions\<close> (\<open>Delegation\<close>: \<open>postgres/workflows.go\<close>, \<open>postgres/delegation.go\<close>, \<open>service/delegation.go\<close>, \<open>service/trace.go\<close>): bootstrap and
    authentication of principals by bearer tokens, credentials delegated for one task, and the boundary every tool call passes. \<open>DelegationProps\<close> is the machine
    \<open>id_step\<close> of these calls and of the changes operators make beside them (\<open>admin_change\<close>), and \<open>DelegationExamples\<close> issues, uses and revokes a credential.
  \<^item> \<^emph>\<open>Knowledge governance\<close> (\<open>KnowledgeStore\<close>, \<open>KnowledgeDecisions\<close>: \<open>postgres/repository.go\<close>, \<open>postgres/validation.go\<close>, \<open>postgres/quality.go\<close>,
    \<open>domain/validation.go\<close>, with the triggers of the knowledge tables; \<open>KnowledgeService\<close>: \<open>service/service.go\<close>, \<open>service/validation.go\<close>, \<open>service/quality.go\<close>):
    candidates captured from generations, reviewed and revised, validated by hand or by executed checks, decided by a human, and blocked again when a source or the evidence is lost.
    \<open>KnowledgeProps\<close> runs the calls as a machine \<open>kg_step\<close> and shows that the service only makes such steps, \<open>KnowledgeClaims\<close> holds the guarantees,
    \<open>KnowledgeExamples\<close> and \<open>KnowledgePatchExample\<close> the instances.
  \<^item> \<^emph>\<open>Task checkpoints\<close> (\<open>Knowledge\<close>: the eligibility functions of \<open>migrations/000012_scoped_quality.sql\<close> and reads of \<open>postgres/repository.go\<close>;
    \<open>TaskStore\<close>: \<open>postgres/taskcheckpoints.go\<close>, \<open>postgres/context_use.go\<close>; \<open>TaskService\<close>: \<open>service/taskcheckpoint.go\<close>): the FIFO queue of the tasks of a
    workflow, each activated with a lookup of reusable knowledge, moved along a table with evidence, reviewed in the cloud where nothing was found, and completed with a validation.
    \<open>TaskProps\<close> runs the calls as a machine \<open>tk_step\<close> on histories, \<open>TaskExamples\<close> holds the instances.

  \<^bold>\<open>Structure.\<close> \<open>Prelude\<close> holds errors, byte strings with the Go string functions, keyed tables and transition systems, and the
  locales the components are stated against: \<open>keyed_table\<close> (rows under a key), \<open>invariant_system\<close>, \<open>history_system\<close> (an invariant and
  a preorder every step follows) and \<open>refinement\<close> (an abstraction that maps steps to sequences of steps). They are interpreted on the
  tables and machines of the workflow, the execution store, the product store and the services; \<open>evidence_store\<close> of
  \<open>Artifacts\<close> is the contract of the artifact store.

  \<^bold>\<open>What is shown.\<close> For the execution store: recorded usage never exceeds the budget, and the rows granted stay within it unless a limit makes the 64-bit sum wrap, a delivery follows an independent successful evaluation,
  stale leases have no effect (an acknowledged completion may be acknowledged again), completion is idempotent, terminal runs are final, a completed run was verified, the event log is complete, claims are granted
  exactly when the code's conditions hold, and a step with a valid lease completes. For workflows: the row is what its log replays
  to, the QA and product gates are decided by distinct humans where governance asks for it and the run was read at the version the call names, no update is lost, and permitted transitions commit. For product knowledge: the head is the newest
  published version, history is append-only, decisions are final, a ready intent is exact, and a grant discloses only what the run may see. For
  packets and patches: the path matcher decides what a pattern says, secrets are never allowed except below a path with a line feed, where the default rules are shown to fail, an accepted patch respects its packet, and generated patches apply.
  For sources: answers stay within the contract and reconciliation is exact. For the execution service: its calls are sequences of store
  calls, so that all of the above holds of the whole platform; derived transitions are those the store accepts, with one exception that is itself proved; a run goes on to
  delivery only on a verification receipt read back under its digest; an accepted patch is the one the recorded model response proposes; disclosed code is bound,
  unprotected and small; and a source query is made once. For tasks: one task of a workflow is active at a time and tasks start in order under every interleaving of calls;
  the log of a task is a path of its table; a manual task is reviewed in the cloud only with approval; a completed task is validated with current knowledge; and a task
  whose review was rejected stops its queue for good. For packages: every active package was decided on a passed campaign that is still on record, so that claims outside
  qualification run on qualified packages only, and the decisions on a role form one chain of versions. For delegated sessions: a call that passes the boundary runs as a workload with the
  development role on one project, for an open task and under a delegation in force; a revocation is final; and an issued credential authenticates exactly as long as its delegation is in force.
  For knowledge: what is approved rests on a stored report of exactly its version and content and on a human decision, decided knowledge is final, its content is unique in its project,
  a decision is taken once, a report of executed checks is what the verifier ran, and knowledge whose evidence was lost is not reused.

  \<^bold>\<open>Conventions.\<close> Strings are byte lists. Go's \<open>int\<close> is \<open>int\<close>: the fields it counts are bounded by validation far below 64 bits or grow by one per call. Two sums are not bounded that way and keep
  the 64-bit wrap-around (\<open>wrap64\<close>): the rows a run reserves, where the limit of a query is only checked to be positive, and the lines the patch verifier
  adds up from foreign numbers (\<open>Atoi\<close>). Times are nanoseconds since the zero time.
  Errors are values of \<open>go_error\<close> in a sum. The readings a call takes of the clock, of the identifier generator and of the database's clock are fields of \<open>call_env\<close>,
  indexed by their place in the operation; a transaction inside a service call takes its own range of them (\<open>sub_env\<close>).
  A service call reads a database state \<open>seen\<close> and commits against a state \<open>db\<close>, and \<open>between\<close> is what other calls made of the
  database while a source was asked. Tables are lists of rows; a unique constraint is a branch that answers \<open>ErrDatabase\<close>. A nil slice and an empty one
  are the same value (a bootstrap with no project or role list at all, which the configuration refuses, is the one call where SQL would tell them apart). Text is ordered by its bytes. All recursion is structural or comes with the measure of its termination proof; there is no fuel.

  \<^bold>\<open>Parameters.\<close> Code that is not part of the repository is an argument: the policy decision point, git and the check commands
  of the verifier (a host over an abstract world), the HTTP exchange, URL parsing and token file of sources, strict and lenient JSON decoders,
  the table query \<open>GetCodeGraph\<close>, the JSON schemas of the contracts, \<open>json.Valid\<close> and the case folding of tags, the files and git repositories knowledge sources name, and the retrieval of knowledge for a task (\<open>tsv_Search\<close>). No property assumes anything of them beyond what its statement says.

  \<^bold>\<open>Not modelled.\<close> Transport (MCP and HTTP servers, command line programs), workers and adapters that only drive networks and containers, wrappers
  of external services, tracing, audit and outbox rows that no core operation reads, infrastructure failures of the database and
  file system (a transaction is atomic), the search and ranking of knowledge, the projection checks and review cases of its quality worker, code graph analyzers built on the Go
  type checker, and the proposals drafted from completed runs. The source checks the service makes before it records the context a task used need git
  and file access; the repository operation that records it is modelled. \<open>ExecutionContext\<close> and product context retrieval are not modelled because they rank
  by an external index.
\<close>

end
